(* ===== verification/Onebox_Prelude.thy ===== *)
theory Onebox_Prelude
  imports Main "HOL-Library.Word" "HOL-Library.Monad_Syntax"
begin

text \<open>
  Shared vocabulary of the development: the fixed-width integers of
  \<^verbatim>\<open>common_hal/include/common/onebox_datatypes.h\<close>, byte buffers with
  explicitly failing reads, the driver's lock and event trace, and the generic
  lemmas on words, lists and traces that the components use.
\<close>

unbundle bit_operations_syntax

section \<open>Machine integers and status codes\<close>

type_synonym u8 = "8 word"
type_synonym u16 = "16 word"
type_synonym u32 = "32 word"
type_synonym bytes = "u8 list"

text \<open>
  \<^verbatim>\<open>typedef int ONEBOX_STATUS\<close> with the two values of
  \<^verbatim>\<open>onebox_zone.h\<close>; any other value comes from the bus driver.
\<close>

type_synonym status = int

abbreviation (input) ONEBOX_STATUS_SUCCESS :: status where "ONEBOX_STATUS_SUCCESS \<equiv> 0"
abbreviation (input) ONEBOX_STATUS_FAILURE :: status where "ONEBOX_STATUS_FAILURE \<equiv> -1"
abbreviation (input) FRAME_DESC_SZ :: nat where "FRAME_DESC_SZ \<equiv> 16"

text \<open>A status returned through a \<^verbatim>\<open>uint8\<close> function keeps its low eight bits.\<close>

definition status_u8 :: "status \<Rightarrow> u8" where
  "status_u8 s = word_of_int s"

lemma status_u8_values [simp]: "status_u8 0 = 0" "status_u8 (-1) = 255"
  by (simp_all add: status_u8_def)

section \<open>Collections of rewrite rules\<close>

text \<open>
  \<open>trace_simps\<close> evaluates what a handler appended to the trace;
  \<open>handler_defs\<close> collects the small state updates that handlers are built of.
\<close>

named_theorems trace_simps
named_theorems handler_defs

section \<open>Byte buffers\<close>

text \<open>
  C reads a buffer without a bounds check, so an access outside it is not a value
  but a fault. Every read of a received frame goes through these functions, and
  \<open>None\<close> is the fault. Words are little endian, as on the hosts the driver is
  built for: the source reads them by casting the byte pointer.
\<close>

definition rd8 :: "bytes \<Rightarrow> nat \<Rightarrow> u8 option" where
  "rd8 b i = (if i < length b then Some (b ! i) else None)"

definition rd16 :: "bytes \<Rightarrow> nat \<Rightarrow> u16 option" where
  "rd16 b i = do { lo \<leftarrow> rd8 b i; hi \<leftarrow> rd8 b (Suc i);
                   Some (ucast lo OR push_bit 8 (ucast hi)) }"

definition rd32 :: "bytes \<Rightarrow> nat \<Rightarrow> u32 option" where
  "rd32 b i = do { lo \<leftarrow> rd16 b i; hi \<leftarrow> rd16 b (i + 2);
                   Some (ucast lo OR push_bit 16 (ucast hi)) }"

text \<open>\<^verbatim>\<open>desc_word[k] = v\<close> on a descriptor that is seen as bytes.\<close>

definition set_word :: "nat \<Rightarrow> u16 \<Rightarrow> bytes \<Rightarrow> bytes" where
  "set_word k v b = b[2 * k := ucast v, 2 * k + 1 := ucast (drop_bit 8 v)]"

text \<open>\<^verbatim>\<open>memcpy(dst, src + off, n)\<close>: a fault when the source is too short.\<close>

definition mem_slice :: "bytes \<Rightarrow> nat \<Rightarrow> nat \<Rightarrow> bytes option" where
  "mem_slice b off n = (if off + n \<le> length b then Some (take n (drop off b)) else None)"

text \<open>
  \<^verbatim>\<open>memcpy(dst, src, n)\<close> into a buffer of fixed size, and the content of a
  buffer after a transfer of exactly \<open>n\<close> bytes.
\<close>

definition mem_write :: "bytes \<Rightarrow> bytes \<Rightarrow> bytes option" where
  "mem_write dst src = (if length src \<le> length dst then Some (src @ drop (length src) dst) else None)"

definition fill :: "nat \<Rightarrow> bytes \<Rightarrow> bytes" where
  "fill n b = take n (b @ replicate n 0)"

lemma length_fill [simp]: "length (fill n b) = n"
  by (simp add: fill_def)

lemma mem_write_length: "mem_write dst src = Some d \<Longrightarrow> length d = length dst"
  by (auto simp: mem_write_def split: if_splits)

lemma rd8_Some_iff: "rd8 b i = Some x \<longleftrightarrow> i < length b \<and> x = b ! i"
  by (auto simp: rd8_def)

lemma rd8_in [simp]: "i < length b \<Longrightarrow> rd8 b i = Some (b ! i)"
  by (simp add: rd8_def)

lemma rd8_out [simp]: "length b \<le> i \<Longrightarrow> rd8 b i = None"
  by (simp add: rd8_def)

lemma rd16_defined_iff: "(\<exists>v. rd16 b i = Some v) \<longleftrightarrow> Suc i < length b"
  by (auto simp: rd16_def rd8_def split: bind_splits)

lemma rd16_Some_bound: "rd16 b i = Some v \<Longrightarrow> Suc i < length b"
  using rd16_defined_iff by blast

lemma rd16_out [simp]: "length b \<le> Suc i \<Longrightarrow> rd16 b i = None"
  using rd16_defined_iff [of b i] by (cases "rd16 b i") auto

lemma length_set_word [simp]: "length (set_word k v b) = length b"
  by (simp add: set_word_def)

lemma set_word_nth:
  "2 * k + 1 < length b \<Longrightarrow>
   set_word k v b ! i = (if i = 2 * k then ucast v else if i = 2 * k + 1 then ucast (drop_bit 8 v) else b ! i)"
  by (auto simp: set_word_def nth_list_update)

lemma rejoin_u16: "(ucast (ucast v :: u8) :: u16) OR push_bit 8 (ucast (ucast (drop_bit 8 v) :: u8)) = (v :: u16)"
  by (rule bit_word_eqI) (auto simp: bit_simps)

lemma rejoin_u32:
  "ucast (ucast (ucast s :: u8) OR push_bit 8 (ucast (ucast (drop_bit 8 s) :: u8)) :: u16) OR
   push_bit 16 (ucast (ucast (ucast (drop_bit 16 s) :: u8) OR push_bit 8 (ucast (ucast (drop_bit 24 s) :: u8)) :: u16))
   = (s :: u32)"
proof (rule bit_word_eqI)
  fix n assume "n < LENGTH(32)"
  then consider "n < 8" | "8 \<le> n" "n < 16" | "16 \<le> n" "n < 24" | "24 \<le> n" "n < 32"
    by (simp, linarith)
  then show "bit (ucast (ucast (ucast s :: u8) OR push_bit 8 (ucast (ucast (drop_bit 8 s) :: u8)) :: u16) OR
      push_bit 16 (ucast (ucast (ucast (drop_bit 16 s) :: u8) OR push_bit 8 (ucast (ucast (drop_bit 24 s) :: u8)) :: u16))
      :: u32) n = bit s n"
    by cases (auto simp: bit_simps dest: bit_imp_le_length)
qed

text \<open>A sixteen-bit word from its low and its high byte.\<close>

definition two_bytes :: "u8 \<Rightarrow> u8 \<Rightarrow> u16" where
  "two_bytes lo hi = ucast lo OR push_bit 8 (ucast hi)"

lemma two_bytes_split [simp]:
  "ucast (two_bytes lo hi) = lo" "ucast (drop_bit 8 (two_bytes lo hi)) = hi"
  by (rule bit_word_eqI, auto simp: two_bytes_def bit_simps dest: bit_imp_le_length)+

lemma two_bytes_join [simp]: "two_bytes (ucast v) (ucast (drop_bit 8 v)) = v"
  by (simp add: two_bytes_def rejoin_u16)

lemma rd16_set_word: "2 * k + 1 < length b \<Longrightarrow> rd16 (set_word k v b) (2 * k) = Some v"
  by (simp add: rd16_def set_word_nth rejoin_u16)

lemma mem_slice_length: "mem_slice b off n = Some c \<Longrightarrow> length c = n"
  by (auto simp: mem_slice_def split: if_splits)

lemma unat_ucast_widen:
  "unat (ucast (x :: u8) :: u16) = unat x" "unat (ucast (x :: u8) :: u32) = unat x"
  "unat (ucast (y :: u16) :: u32) = unat y"
  using unsigned_less [of x, where ?'a = nat] unsigned_less [of y, where ?'a = nat]
  by (auto simp: unsigned_ucast_eq intro!: take_bit_nat_eq_self)

lemma ucast_le_iff: "(ucast (x :: u16) :: u32) \<le> ucast y \<longleftrightarrow> x \<le> y" for y :: u16
  by (simp add: word_le_nat_alt unat_ucast_widen)

section \<open>Reading concatenated and shifted buffers\<close>

lemma rd8_append: "i < length b \<Longrightarrow> rd8 (b @ c) i = rd8 b i"
  by (simp add: rd8_def nth_append)

lemma rd16_append: "Suc i < length b \<Longrightarrow> rd16 (b @ c) i = rd16 b i"
  by (simp add: rd16_def rd8_append nth_append)

lemma rd8_drop: "n \<le> length b \<Longrightarrow> rd8 (drop n b) i = rd8 b (n + i)"
  by (auto simp: rd8_def)

lemma rd16_drop: "n \<le> length b \<Longrightarrow> rd16 (drop n b) i = rd16 b (n + i)"
  by (simp add: rd16_def rd8_drop)

lemma rd8_set_word_above: "2 * k + 2 \<le> i \<Longrightarrow> rd8 (set_word k v b) i = rd8 b i"
  by (auto simp: rd8_def set_word_def nth_list_update)

lemma rd8_set_word_below: "i < 2 * k \<Longrightarrow> rd8 (set_word k v b) i = rd8 b i"
  by (auto simp: rd8_def set_word_def nth_list_update)

lemma rd16_set_word_above: "2 * k + 2 \<le> i \<Longrightarrow> rd16 (set_word k v b) i = rd16 b i"
  by (simp add: rd16_def rd8_set_word_above)

lemma rd16_set_word_below: "i + 2 \<le> 2 * k \<Longrightarrow> rd16 (set_word k v b) i = rd16 b i"
  by (simp add: rd16_def rd8_set_word_below)

lemma drop_set_word: "2 * k + 2 \<le> n \<Longrightarrow> drop n (set_word k v b) = drop n b"
  by (simp add: set_word_def)

lemma mem_slice_in: "off + n \<le> length b \<Longrightarrow> mem_slice b off n = Some (take n (drop off b))"
  by (simp add: mem_slice_def)

end
