(* ===== verification/Coex_State.thy ===== *)
theory Coex_State
  imports Onebox_Prelude
begin

text \<open>
  The data of the common HAL: packets (\<^verbatim>\<open>onebox_netbuf.h\<close>), the state
  shared by the protocols (\<^verbatim>\<open>struct driver_assets\<close> of
  \<^verbatim>\<open>onebox_coex.h\<close>), the adapter (\<^verbatim>\<open>struct onebox_priv\<close> of
  \<^verbatim>\<open>onebox_common.h\<close>), the trace of what the driver does to the kernel and to
  the bus, and the host (kernel, bus, firmware) as a record of answers that may
  depend on the whole history.
\<close>

section \<open>Constants of onebox\_coex.h, onebox\_common.h, onebox\_mgmt.h\<close>

datatype card_state = GS_CARD_DETACH | GS_CARD_ABOARD
datatype host_intf = HOST_INTF_SDIO | HOST_INTF_USB
datatype drv_state = MODULE_REMOVED | MODULE_INSERTED | MODULE_ACTIVE
datatype fw_state = FW_INACTIVE | FW_ACTIVE
datatype common_hal_fsm =
    COMMAN_HAL_WAIT_FOR_CARD_READY
  | COMMON_HAL_SEND_CONFIG_PARAMS
  | COMMON_HAL_TX_ACCESS
  | COMMON_HAL_WAIT_FOR_PROTO_CARD_READY

datatype fsm_state =
    FSM_CARD_NOT_READY | FSM_FW_LOADED | FSM_LOAD_BOOTUP_PARAMS | FSM_EEPROM_CHECK
  | FSM_EEPROM_READ_RF_TYPE | FSM_EEPROM_READ_MAC_ADDR | FSM_EEPROM_READ_2P4_PWR_VALS
  | FSM_EEPROM_READ_5P1_PWR_VALS | FSM_RESET_MAC_CFM | FSM_BB_RF_START
  | FSM_WAKEUP_SLEEP_VALS | FSM_OPEN | FSM_DEEP_SLEEP_ENABLE | FSM_MAC_INIT_DONE
  | FSM_AMPDU_IND_SENT | FSM_SCAN_CFM | FSM_DEVICE_READY | FSM_FLASH_BURN

abbreviation (input) COEX_Q :: u8 where "COEX_Q \<equiv> 0"
abbreviation (input) BT_Q :: u8 where "BT_Q \<equiv> 1"
abbreviation (input) WLAN_Q :: u8 where "WLAN_Q \<equiv> 2"
abbreviation (input) VIP_Q :: u8 where "VIP_Q \<equiv> 3"
abbreviation (input) ZIGB_Q :: u8 where "ZIGB_Q \<equiv> 4"
abbreviation (input) INVALID_QUEUE :: u8 where "INVALID_QUEUE \<equiv> 0xff"
abbreviation (input) COEX_SOFT_QUEUES :: u8 where "COEX_SOFT_QUEUES \<equiv> 5"

abbreviation (input) COEX_TX_Q :: u8 where "COEX_TX_Q \<equiv> 0"
abbreviation (input) ZIGB_TX_Q :: u8 where "ZIGB_TX_Q \<equiv> 1"
abbreviation (input) BT_TX_Q :: u8 where "BT_TX_Q \<equiv> 2"
abbreviation (input) WLAN_TX_M_Q :: u8 where "WLAN_TX_M_Q \<equiv> 4"
abbreviation (input) WLAN_TX_D_Q :: u8 where "WLAN_TX_D_Q \<equiv> 5"

abbreviation (input) COEX_PKT :: u8 where "COEX_PKT \<equiv> 0"
abbreviation (input) ZIGB_PKT :: u8 where "ZIGB_PKT \<equiv> 1"
abbreviation (input) BT_PKT :: u8 where "BT_PKT \<equiv> 2"
abbreviation (input) WLAN_PKT :: u8 where "WLAN_PKT \<equiv> 3"

abbreviation (input) MAX_IDS :: nat where "MAX_IDS \<equiv> 3"
abbreviation (input) WLAN_ID :: nat where "WLAN_ID \<equiv> 0"
abbreviation (input) BT_ID :: nat where "BT_ID \<equiv> 1"
abbreviation (input) ZB_ID :: nat where "ZB_ID \<equiv> 2"

abbreviation (input) BT_CARD_READY_IND :: u8 where "BT_CARD_READY_IND \<equiv> 0x89"
abbreviation (input) WLAN_CARD_READY_IND :: u8 where "WLAN_CARD_READY_IND \<equiv> 0"
abbreviation (input) COMMON_HAL_CARD_READY_IND :: u8 where "COMMON_HAL_CARD_READY_IND \<equiv> 0"
abbreviation (input) ZIGB_CARD_READY_IND :: u8 where "ZIGB_CARD_READY_IND \<equiv> 0xff"

abbreviation (input) WIFI_MODE_ON :: u8 where "WIFI_MODE_ON \<equiv> 1"
abbreviation (input) QSPI_FLASHING :: u8 where "QSPI_FLASHING \<equiv> 5"
abbreviation (input) QSPI_UPDATE :: u8 where "QSPI_UPDATE \<equiv> 6"
abbreviation (input) SWBL_FLASHING_NOSBL :: u8 where "SWBL_FLASHING_NOSBL \<equiv> 8"
abbreviation (input) SWBL_FLASHING_NOSBL_FILE :: u8 where "SWBL_FLASHING_NOSBL_FILE \<equiv> 10"
abbreviation (input) MAGIC_WORD :: u8 where "MAGIC_WORD \<equiv> 0x5A"
abbreviation (input) COMMON_PKT_LENGTH :: u32 where "COMMON_PKT_LENGTH \<equiv> 2304"
abbreviation (input) MAX_SNIFFER_MODE_PKT_LEN :: u32 where "MAX_SNIFFER_MODE_PKT_LEN \<equiv> 4096"

abbreviation (input) BOOTUP_PARAMS_REQUEST :: u8 where "BOOTUP_PARAMS_REQUEST \<equiv> 12"
abbreviation (input) EEPROM_READ_TYPE :: u8 where "EEPROM_READ_TYPE \<equiv> 14"
abbreviation (input) EEPROM_WRITE :: u8 where "EEPROM_WRITE \<equiv> 15"
abbreviation (input) CONFIRM :: u8 where "CONFIRM \<equiv> 33"
abbreviation (input) COMMON_DEV_CONFIG :: u8 where "COMMON_DEV_CONFIG \<equiv> 40"
abbreviation (input) IAP_CONFIG :: u8 where "IAP_CONFIG \<equiv> 44"
abbreviation (input) CARD_READY_IND :: u8 where "CARD_READY_IND \<equiv> 0"
abbreviation (input) TA_CONFIRM_TYPE :: u8 where "TA_CONFIRM_TYPE \<equiv> 1"
abbreviation (input) ULP_SLEEP_NOTIFY :: u8 where "ULP_SLEEP_NOTIFY \<equiv> 6"
abbreviation (input) RX_MISC_IND :: u8 where "RX_MISC_IND \<equiv> 0xa"
abbreviation (input) FW_UPGRADE_REQ :: u8 where "FW_UPGRADE_REQ \<equiv> 0"
abbreviation (input) ULP_SLEEP_ENTRY :: u8 where "ULP_SLEEP_ENTRY \<equiv> 1"

abbreviation (input) GPIO_HAND_SHAKE :: u8 where "GPIO_HAND_SHAKE \<equiv> 1"
abbreviation (input) PACKET_HAND_SHAKE :: u8 where "PACKET_HAND_SHAKE \<equiv> 2"
abbreviation (input) RF_POWER_3_3 :: u8 where "RF_POWER_3_3 \<equiv> 1"
abbreviation (input) TA_GPIO :: u8 where "TA_GPIO \<equiv> 0"

abbreviation (input) SD_BUFF_STATUS_UPDATE :: nat where "SD_BUFF_STATUS_UPDATE \<equiv> 1"
abbreviation (input) SD_FW_ASSERT_IND :: nat where "SD_FW_ASSERT_IND \<equiv> 2"
abbreviation (input) SD_MSDU_PACKET_PENDING :: nat where "SD_MSDU_PACKET_PENDING \<equiv> 3"

section \<open>Packets\<close>

text \<open>
  \<^verbatim>\<open>netbuf_ctrl_block_t\<close>: the data the control block points to, whose
  length is \<^verbatim>\<open>len\<close>, the packet types and flags, and the node reference
  (\<open>None\<close> for NULL; a number names the node).
\<close>

record netbuf =
  nb_data :: bytes
  tx_pkt_type :: u8
  rx_pkt_type :: u8
  nb_flags :: u16
  nb_ni :: "nat option"
  nb_tid :: u8
  nb_priority :: u8
  nb_sta_id :: u8

definition fresh_netbuf :: "bytes \<Rightarrow> netbuf" where
  "fresh_netbuf d = \<lparr>nb_data = d, tx_pkt_type = 0, rx_pkt_type = 0, nb_flags = 0, nb_ni = None,
     nb_tid = 0, nb_priority = 0, nb_sta_id = 0\<rparr>"

text \<open>
  A frame of \<open>n\<close> bytes in a buffer that was extended by \<open>extnd_size\<close> bytes: the
  driver clears the descriptor and the extension and copies the frame to the start, so of the
  bytes behind the frame those beyond the cleared area hold what was in memory before.
\<close>

definition frame_padding :: "nat \<Rightarrow> u8 \<Rightarrow> (nat \<Rightarrow> u8) \<Rightarrow> bytes" where
  "frame_padding n extnd_size garbage =
     map (\<lambda>i. if n + i < FRAME_DESC_SZ + unat extnd_size then 0 else garbage i) [0..<unat extnd_size]"

lemma length_frame_padding [simp]: "length (frame_padding n e g) = unat e"
  by (simp add: frame_padding_def)

section \<open>What the driver does to its surroundings\<close>

datatype lock = Tx_access_lock | Transmit_lock | Ic_lock_vap

datatype thread_event = Scheduler_event | Flash_event | Iap_event | Wlan_scheduler_event

datatype event =
    Acquire lock
  | Release lock
  | Wake_up nat                         \<comment> \<open>\<^verbatim>\<open>wake_up(&techs[i].deregister_event)\<close>\<close>
  | Wait_event nat                      \<comment> \<open>\<^verbatim>\<open>wait_event_timeout\<close> on that event\<close>
  | Set_event thread_event
  | Reg_read u32
  | Reg_write u8 u32 u8                 \<comment> \<open>register domain, address, byte\<close>
  | Multi_write u32 bytes u32           \<comment> \<open>address, buffer, byte count\<close>
  | Multi_read u32 u32
  | Ta_write u32 bytes u32
  | Usb_write_pkt bytes u8
  | Free_pkt bytes
  | Deliver nat netbuf                  \<comment> \<open>handed to a protocol's receive callback\<close>
  | Queue_work
  | Deregister_irq
  | Host_gpio bool
  | Msleep nat
  | Read_gpio
  | Set_ios
  | Usb_resume_timer nat
  | Module_init nat
  | Load_bootup_params
  | Buf_status_callback u8
  | Dump_mgmt_pending
  | Timer_start nat | Timer_stop | Timer_check   \<comment> \<open>the timer of the boot loader commands\<close>
  | Get_firmware string | Vmem_free              \<comment> \<open>a firmware file read into memory, and freed\<close>
  | Usb_reg_read u32 nat | Usb_reg_write u32 u32 nat | Ta_read u32 u32

type_synonym history = "event list"     \<comment> \<open>newest first\<close>

text \<open>
  The answers of the surroundings. Each may depend on the call and on everything
  that happened before it.
\<close>

record host =
  h_alloc_skb :: "history \<Rightarrow> bool"
  h_kmalloc :: "history \<Rightarrow> bool"
  h_read_register :: "history \<Rightarrow> status \<times> u8"
  h_write_register :: "history \<Rightarrow> status"
  h_write_multiple :: "history \<Rightarrow> status"
  h_read_multiple :: "history \<Rightarrow> status \<times> bytes"
  h_ta_write_multiple :: "history \<Rightarrow> status"
  h_usb_write_pkt :: "history \<Rightarrow> status"
  h_device_gpio :: "history \<Rightarrow> bool"
  h_skb_misalign :: "history \<Rightarrow> u8"      \<comment> \<open>low bits of the address of a fresh buffer\<close>
  h_skb_garbage :: "history \<Rightarrow> nat \<Rightarrow> u8"  \<comment> \<open>what a fresh buffer holds\<close>
  h_deregister_irq :: "history \<Rightarrow> status"

text \<open>The preprocessor symbols of the build that the modelled code tests.\<close>

record build =
  USE_SDIO_INTF :: bool
  USE_USB_INTF :: bool
  WLAN_ENABLE :: bool
  BT_ENABLE :: bool
  ZIGB_ENABLE :: bool

text \<open>The shipped \<^verbatim>\<open>.config\<close>: SDIO and WLAN only.\<close>

definition shipped_build :: build where
  "shipped_build = \<lparr>USE_SDIO_INTF = True, USE_USB_INTF = False, WLAN_ENABLE = True,
                    BT_ENABLE = False, ZIGB_ENABLE = False\<rparr>"

section \<open>The shared state\<close>

record wireless_tech =
  drv_state :: drv_state
  fw_state :: fw_state
  buffer_status_reg_addr :: u32
  has_pkt_callback :: bool              \<comment> \<open>\<^verbatim>\<open>onebox_get_pkt_from_coex\<close> is not NULL\<close>
  has_buf_status_callback :: bool       \<comment> \<open>\<^verbatim>\<open>onebox_get_buf_status\<close> is not NULL\<close>
  tx_intention :: bool
  tx_access :: bool
  deregister_flags :: bool
  default_ps_en :: bool
  pkt_write_pending :: bool

record driver_assets =
  card_state :: card_state
  ta_aggr :: u16
  techs :: "nat \<Rightarrow> wireless_tech"
  global_priv :: bool                   \<comment> \<open>is not NULL\<close>
  common_hal_tx_access :: bool
  sleep_entry_recvd :: bool
  ulp_sleep_ack_sent :: bool
  common_hal_fsm :: common_hal_fsm
  lp_ps_handshake_mode :: u8
  ulp_ps_handshake_mode :: u8
  rf_power_val :: u8
  device_gpio_type :: u8
  common_hal_fw_state :: fw_state
  oper_mode :: u8
  wlan_rf_power_mode :: u8
  bt_rf_power_mode :: u8
  zigb_rf_power_mode :: u8
  region_code :: u8
  obm_ant_sel_val :: u8
  user_onboard_ant_val :: u8
  mfi_signature :: "bytes option"
  mfi_certificate :: "bytes option"
  wlan_mac_address :: bytes
  band_version :: u8
  onboard_antenna :: u8
  mfg_major_verion :: u8
  mfg_minor_verion :: u8
  module_type :: u8
  bt_deregister_sent :: bool

text \<open>
  The global \<^verbatim>\<open>dev_config_vals[0]\<close> and the two global GPIO bit maps of
  \<^verbatim>\<open>onebox_common_dev_config_params.c\<close>, which survive between calls.
\<close>

record dev_config =
  host_wakeup_intr_enable :: u8
  host_wakeup_intr_active_high :: u8
  ext_pa_or_bt_coex_en :: u8
  dev_opermode :: u8
  unused_soc_gpio_bitmap :: u32
  unused_ulp_gpio_bitmap :: u8

record adapter =
  d_assets :: driver_assets
  host_intf_type :: host_intf
  coex_queues :: "nat \<Rightarrow> netbuf list"
  tot_pkts_qed :: "nat \<Rightarrow> u32"
  tot_pkts_sentout :: "nat \<Rightarrow> u32"
  tot_pkts_dropped :: "nat \<Rightarrow> u32"
  TransmitBlockSize :: u32
  next_read_delay :: u32
  sdio_high_speed_enable :: u32
  DataRcvPacket :: bytes
  interrupt_status :: u32
  Driver_Mode :: u8
  fsm_state :: fsm_state
  flashing_mode_on :: bool
  flashing_started :: bool
  eeprom_cfm_count :: u8
  eeprom_length :: u32
  stop_card_write :: u8
  ulp_sleep_token :: u16
  usb_intf_suspend :: bool
  deferred_rx_queue :: "netbuf list"
  dev_config_vals :: dev_config
  rx_packtes_dropped :: u32
  sdio_int_counter :: u32
  sdio_intr_status_zero :: u32
  buf_status_interrupts :: u32
  total_sdio_msdu_pending_intr :: u32
  total_sdio_unknown_intr :: u32
  trace :: history

text \<open>
  The functions of the protocol modules the common HAL calls: the module
  initialisation, the receive callback, the buffer status callback, the dump of the
  pending management frames, and the flashing module's boot-up parameters. They are
  parameters of the model; the theorems say what they need of them.
\<close>

record protocols =
  p_module_init :: "nat \<Rightarrow> adapter \<Rightarrow> status \<times> adapter"
  p_get_pkt :: "nat \<Rightarrow> netbuf \<Rightarrow> adapter \<Rightarrow> adapter"
  p_get_buf_status :: "u8 \<Rightarrow> adapter \<Rightarrow> adapter"
  p_dump_mgmt_pending :: "adapter \<Rightarrow> adapter"
  p_qspi_bootup_params :: "adapter \<Rightarrow> status \<times> adapter"

section \<open>State updates shared by the handlers\<close>

definition log :: "event \<Rightarrow> adapter \<Rightarrow> adapter" where
  [handler_defs]: "log e a = a\<lparr>trace := e # trace a\<rparr>"

abbreviation upd_assets :: "(driver_assets \<Rightarrow> driver_assets) \<Rightarrow> adapter \<Rightarrow> adapter" where
  "upd_assets \<equiv> d_assets_update"

definition upd_tech :: "nat \<Rightarrow> (wireless_tech \<Rightarrow> wireless_tech) \<Rightarrow> adapter \<Rightarrow> adapter" where
  [handler_defs]: "upd_tech i f = upd_assets (\<lambda>d. d\<lparr>techs := (techs d)(i := f (techs d i))\<rparr>)"

abbreviation tech :: "adapter \<Rightarrow> nat \<Rightarrow> wireless_tech" where
  "tech a i \<equiv> techs (d_assets a) i"

definition bump :: "nat \<Rightarrow> (nat \<Rightarrow> u32) \<Rightarrow> (nat \<Rightarrow> u32)" where
  "bump q c = c(q := c q + 1)"

section \<open>The lock discipline as a property of the trace\<close>

text \<open>
  The semaphores of the driver are initialised to one, so taking one that is already
  held blocks the thread for ever. \<open>locks_held\<close> replays a trace: \<open>None\<close> when a held
  lock was taken or a free one released, otherwise the locks now held.
\<close>

fun locks_held :: "history \<Rightarrow> lock list option" where
  "locks_held [] = Some []"
| "locks_held (e # t) =
     (case locks_held t of None \<Rightarrow> None
      | Some ls \<Rightarrow>
         (case e of
            Acquire l \<Rightarrow> if l \<in> set ls then None else Some (l # ls)
          | Release l \<Rightarrow> if l \<in> set ls then Some (remove1 l ls) else None
          | _ \<Rightarrow> Some ls))"

lemma locks_held_neutral [simp]:
  "locks_held (Set_event x # t) = locks_held t" "locks_held (Wake_up i # t) = locks_held t"
  "locks_held (Usb_resume_timer n # t) = locks_held t" "locks_held (Free_pkt p # t) = locks_held t"
  "locks_held (Wait_event i # t) = locks_held t" "locks_held (Multi_write v d w # t) = locks_held t"
  "locks_held (Usb_write_pkt d y # t) = locks_held t" "locks_held (Set_ios # t) = locks_held t"
  "locks_held (Read_gpio # t) = locks_held t" "locks_held (Msleep n # t) = locks_held t"
  "locks_held (Host_gpio g # t) = locks_held t" "locks_held (Queue_work # t) = locks_held t"
  "locks_held (Reg_write u v y # t) = locks_held t" "locks_held (Reg_read v # t) = locks_held t"
  "locks_held (Multi_read v w # t) = locks_held t" "locks_held (Deregister_irq # t) = locks_held t"
  "locks_held (Module_init i # t) = locks_held t" "locks_held (Load_bootup_params # t) = locks_held t"
  "locks_held (Deliver i nb # t) = locks_held t" "locks_held (Buf_status_callback y # t) = locks_held t"
  "locks_held (Dump_mgmt_pending # t) = locks_held t" "locks_held (Timer_start n # t) = locks_held t"
  "locks_held (Timer_stop # t) = locks_held t" "locks_held (Timer_check # t) = locks_held t"
  "locks_held (Get_firmware f # t) = locks_held t" "locks_held (Vmem_free # t) = locks_held t"
  by (simp_all split: option.split)

text \<open>Whether a trace extends another one; every handler only appends.\<close>

definition extends :: "history \<Rightarrow> history \<Rightarrow> bool" where
  "extends t t' \<longleftrightarrow> (\<exists>es. t' = es @ t)"

lemma extends_refl [simp, intro]: "extends t t"
  by (simp add: extends_def)

lemma extends_trans: "extends t t' \<Longrightarrow> extends t' t'' \<Longrightarrow> extends t t''"
  by (auto simp: extends_def)

lemma extends_Cons [intro]: "extends t t' \<Longrightarrow> extends t (e # t')"
  by (auto simp: extends_def)

lemma trace_log [simp]: "trace (log e a) = e # trace a"
  by (simp add: log_def)

lemma log_fields [simp]:
  "d_assets (log e a) = d_assets a" "host_intf_type (log e a) = host_intf_type a"
  "coex_queues (log e a) = coex_queues a" "deferred_rx_queue (log e a) = deferred_rx_queue a"
  "fsm_state (log e a) = fsm_state a" "stop_card_write (log e a) = stop_card_write a"
  "tot_pkts_qed (log e a) = tot_pkts_qed a" "tot_pkts_sentout (log e a) = tot_pkts_sentout a"
  "tot_pkts_dropped (log e a) = tot_pkts_dropped a" "Driver_Mode (log e a) = Driver_Mode a"
  "flashing_mode_on (log e a) = flashing_mode_on a" "ulp_sleep_token (log e a) = ulp_sleep_token a"
  "TransmitBlockSize (log e a) = TransmitBlockSize a"
  "usb_intf_suspend (log e a) = usb_intf_suspend a" "DataRcvPacket (log e a) = DataRcvPacket a"
  "interrupt_status (log e a) = interrupt_status a" "next_read_delay (log e a) = next_read_delay a"
  "sdio_high_speed_enable (log e a) = sdio_high_speed_enable a"
  "rx_packtes_dropped (log e a) = rx_packtes_dropped a"
  "dev_config_vals (log e a) = dev_config_vals a"
  "eeprom_length (log e a) = eeprom_length a"
  by (simp_all add: log_def)

lemma upd_tech_fields [simp]:
  "trace (upd_tech i f a) = trace a" "coex_queues (upd_tech i f a) = coex_queues a"
  "host_intf_type (upd_tech i f a) = host_intf_type a"
  "deferred_rx_queue (upd_tech i f a) = deferred_rx_queue a"
  "common_hal_tx_access (d_assets (upd_tech i f a)) = common_hal_tx_access (d_assets a)"
  "sleep_entry_recvd (d_assets (upd_tech i f a)) = sleep_entry_recvd (d_assets a)"
  "ulp_sleep_ack_sent (d_assets (upd_tech i f a)) = ulp_sleep_ack_sent (d_assets a)"
  "tech (upd_tech i f a) j = (if j = i then f (tech a i) else tech a j)"
  by (simp_all add: upd_tech_def)

section \<open>A concrete state and a concrete host\<close>

text \<open>
  Used where a theorem is applied at an input: a card that is present, no protocol
  active, empty queues; a host that answers every request with success.
\<close>

definition idle_tech :: wireless_tech where
  "idle_tech = \<lparr>drv_state = MODULE_INSERTED, fw_state = FW_INACTIVE, buffer_status_reg_addr = 0,
     has_pkt_callback = True, has_buf_status_callback = True, tx_intention = False, tx_access = False,
     deregister_flags = False, default_ps_en = False, pkt_write_pending = False\<rparr>"

definition active_tech :: wireless_tech where
  "active_tech = idle_tech\<lparr>drv_state := MODULE_ACTIVE, fw_state := FW_ACTIVE\<rparr>"

definition idle_assets :: driver_assets where
  "idle_assets = \<lparr>card_state = GS_CARD_ABOARD, ta_aggr = 0, techs = (\<lambda>_. idle_tech), global_priv = True,
     common_hal_tx_access = False, sleep_entry_recvd = False, ulp_sleep_ack_sent = False,
     common_hal_fsm = COMMAN_HAL_WAIT_FOR_CARD_READY, lp_ps_handshake_mode = 0, ulp_ps_handshake_mode = 0,
     rf_power_val = 0, device_gpio_type = 0, common_hal_fw_state = FW_INACTIVE, oper_mode = 1,
     wlan_rf_power_mode = 0, bt_rf_power_mode = 0, zigb_rf_power_mode = 0, region_code = 0,
     obm_ant_sel_val = 0, user_onboard_ant_val = 0, mfi_signature = None, mfi_certificate = None,
     wlan_mac_address = replicate 6 0, band_version = 0, onboard_antenna = 0, mfg_major_verion = 0,
     mfg_minor_verion = 0, module_type = 0, bt_deregister_sent = False\<rparr>"

text \<open>
  The initial values of \<^verbatim>\<open>onebox_common_dev_config_params.c\<close>: a bit is set for
  every GPIO the schematic leaves unused.
\<close>

definition initial_dev_config :: dev_config where
  "initial_dev_config = \<lparr>host_wakeup_intr_enable = 0, host_wakeup_intr_active_high = 0,
     ext_pa_or_bt_coex_en = 0, dev_opermode = 0,
     unused_soc_gpio_bitmap = foldr Bit_Operations.set_bit [2, 9, 10, 11, 12, 13, 14, 15, 17, 18, 19, 21] 0,
     unused_ulp_gpio_bitmap = foldr Bit_Operations.set_bit [0, 1, 2, 3] 0\<rparr>"

definition idle_adapter :: adapter where
  "idle_adapter = \<lparr>d_assets = idle_assets, host_intf_type = HOST_INTF_SDIO, coex_queues = (\<lambda>_. []),
     tot_pkts_qed = (\<lambda>_. 0), tot_pkts_sentout = (\<lambda>_. 0), tot_pkts_dropped = (\<lambda>_. 0),
     TransmitBlockSize = 256, next_read_delay = 0, sdio_high_speed_enable = 0, DataRcvPacket = [],
     interrupt_status = 0, Driver_Mode = WIFI_MODE_ON, fsm_state = FSM_DEVICE_READY,
     flashing_mode_on = False, flashing_started = False, eeprom_cfm_count = 0, eeprom_length = 0,
     stop_card_write = 0, ulp_sleep_token = 0, usb_intf_suspend = False, deferred_rx_queue = [],
     dev_config_vals = initial_dev_config,
     rx_packtes_dropped = 0, sdio_int_counter = 0, sdio_intr_status_zero = 0, buf_status_interrupts = 0,
     total_sdio_msdu_pending_intr = 0, total_sdio_unknown_intr = 0, trace = []\<rparr>"

definition calm_host :: host where
  "calm_host = \<lparr>h_alloc_skb = (\<lambda>_. True), h_kmalloc = (\<lambda>_. True), h_read_register = (\<lambda>_. (0, 0)), h_write_register = (\<lambda>_. 0),
     h_write_multiple = (\<lambda>_. 0), h_read_multiple = (\<lambda>_. (0, [])), h_ta_write_multiple = (\<lambda>_. 0),
     h_usb_write_pkt = (\<lambda>_. 0), h_device_gpio = (\<lambda>_. False),
     h_skb_misalign = (\<lambda>_. 0), h_skb_garbage = (\<lambda>_ _. 0), h_deregister_irq = (\<lambda>_. 0)\<rparr>"

definition quiet_protocols :: protocols where
  "quiet_protocols = \<lparr>p_module_init = (\<lambda>i a. (0, a)), p_get_pkt = (\<lambda>i nb a. a), p_get_buf_status = (\<lambda>s a. a),
     p_dump_mgmt_pending = (\<lambda>a. a), p_qspi_bootup_params = (\<lambda>a. (0, a))\<rparr>"

lemmas example_defs = idle_tech_def active_tech_def idle_assets_def idle_adapter_def calm_host_def quiet_protocols_def
  initial_dev_config_def

end
