(* ===== verification/Sdio_Bus.thy ===== *)
theory Sdio_Bus
  imports Coex_State
begin

text \<open>
  The host interface over SDIO (\<^verbatim>\<open>onebox_sdio_main_osi.c\<close>,
  \<^verbatim>\<open>onebox_sdio_devops.c\<close>) and the USB download loop of
  \<^verbatim>\<open>onebox_usb_devops.c\<close>: packet writes as whole blocks, register
  sequences that stop at the first failure, and the download of a firmware image
  through a 64 KiB window. A bus access is an event of the trace and an answer of
  the host. \<^verbatim>\<open>onebox_sdio_abort_handler\<close> returns at once in the source and has no
  effect here.
\<close>

section \<open>Single bus accesses\<close>

definition write_multiple :: "host \<Rightarrow> u32 \<Rightarrow> bytes \<Rightarrow> u32 \<Rightarrow> adapter \<Rightarrow> status \<times> adapter" where
  "write_multiple h addr buf cnt a =
     (let a' = log (Multi_write addr buf cnt) a in (h_write_multiple h (trace a'), a'))"

definition write_register :: "host \<Rightarrow> u8 \<Rightarrow> u32 \<Rightarrow> u8 \<Rightarrow> adapter \<Rightarrow> status \<times> adapter" where
  "write_register h reg_dmn addr byte a =
     (let a' = log (Reg_write reg_dmn addr byte) a in (h_write_register h (trace a'), a'))"

definition read_register :: "host \<Rightarrow> u32 \<Rightarrow> adapter \<Rightarrow> (status \<times> u8) \<times> adapter" where
  "read_register h addr a =
     (let a' = log (Reg_read addr) a in (h_read_register h (trace a'), a'))"

definition ta_write_multiple :: "host \<Rightarrow> u32 \<Rightarrow> bytes \<Rightarrow> u32 \<Rightarrow> adapter \<Rightarrow> status \<times> adapter" where
  "ta_write_multiple h addr buf cnt a =
     (let a' = log (Ta_write addr buf cnt) a in (h_ta_write_multiple h (trace a'), a'))"

text \<open>
  The pattern \<^verbatim>\<open>if (op != ONEBOX_STATUS_SUCCESS) return ONEBOX_STATUS_FAILURE;\<close>
  followed by the rest of the function.
\<close>

definition or_fail :: "(adapter \<Rightarrow> status \<times> adapter) \<Rightarrow> (adapter \<Rightarrow> status \<times> adapter) \<Rightarrow> adapter \<Rightarrow> status \<times> adapter" where
  "or_fail op rest a =
     (case op a of (s, a') \<Rightarrow> if s \<noteq> ONEBOX_STATUS_SUCCESS then (ONEBOX_STATUS_FAILURE, a') else rest a')"

abbreviation return_success :: "adapter \<Rightarrow> status \<times> adapter" where
  "return_success a \<equiv> (ONEBOX_STATUS_SUCCESS, a)"

section \<open>Writing and reading a packet\<close>

text \<open>
  \<^verbatim>\<open>num_blocks\<close>: the length in blocks, rounded up (the configuration without
  \<^verbatim>\<open>ENABLE_SDIO_CHANGE\<close>). \<^verbatim>\<open>TransmitBlockSize\<close> is set at probe
  time and never zero; the theorems about transfers say so.
\<close>

definition num_blocks :: "u32 \<Rightarrow> u32 \<Rightarrow> u32" where
  "num_blocks Len block_size =
     (let n = Len div block_size in if Len mod block_size \<noteq> 0 then n + 1 else n)"

definition sdio_pkt_address :: "u32 \<Rightarrow> u32 \<Rightarrow> u8 \<Rightarrow> u32" where
  "sdio_pkt_address Len block_size q_no =
     (num_blocks Len block_size * block_size) OR push_bit 12 (ucast q_no)"

definition sdio_host_intf_write_pkt :: "host \<Rightarrow> bytes \<Rightarrow> u32 \<Rightarrow> u8 \<Rightarrow> adapter \<Rightarrow> status \<times> adapter" where
  "sdio_host_intf_write_pkt h pkt Len q_no a =
     (if Len = 0 \<and> q_no = WLAN_TX_D_Q then (ONEBOX_STATUS_FAILURE, a)
      else write_multiple h (sdio_pkt_address Len (TransmitBlockSize a) q_no) pkt
             (num_blocks Len (TransmitBlockSize a) * TransmitBlockSize a) a)"

definition host_intf_write_pkt :: "host \<Rightarrow> netbuf \<Rightarrow> adapter \<Rightarrow> status \<times> adapter" where
  \<comment> \<open>\<^verbatim>\<open>osi_host_intf_ops->onebox_host_intf_write_pkt\<close>, bound to the SDIO or the USB
     implementation; the latter is code of the OS layer and answers for itself\<close>
  "host_intf_write_pkt h nb a =
     (case host_intf_type a of
        HOST_INTF_SDIO \<Rightarrow>
          sdio_host_intf_write_pkt h (nb_data nb) (word_of_nat (length (nb_data nb))) (tx_pkt_type nb) a
      | HOST_INTF_USB \<Rightarrow>
          (let a' = log (Usb_write_pkt (nb_data nb) (tx_pkt_type nb)) a
           in (h_usb_write_pkt h (trace a'), a')))"

definition sdio_host_intf_read_pkt :: "host \<Rightarrow> u32 \<Rightarrow> adapter \<Rightarrow> (status \<times> bytes) \<times> adapter" where
  "sdio_host_intf_read_pkt h len a =
     (if len = 0 then ((ONEBOX_STATUS_SUCCESS, []), a)
      else let a' = log (Multi_read len len) a in (h_read_multiple h (trace a'), a'))"

definition sdio_ack_interrupt :: "host \<Rightarrow> u8 \<Rightarrow> adapter \<Rightarrow> status \<times> adapter" where
  "sdio_ack_interrupt h int_bit a = write_register h 1 (0x0008 OR 0x10000) int_bit a"

section \<open>Slave register initialisation\<close>

text \<open>
  Registers \<^verbatim>\<open>SDIO_NXT_RD_DELAY2\<close>, \<^verbatim>\<open>SDIO_REG_HIGH_SPEED\<close>,
  \<^verbatim>\<open>SDIO_READ_START_LVL\<close>, \<^verbatim>\<open>SDIO_READ_FIFO_CTL\<close>,
  \<^verbatim>\<open>SDIO_WRITE_FIFO_CTL\<close>, each write guarded by a return on failure.
\<close>

definition onebox_init_sdio_slave_regs :: "host \<Rightarrow> adapter \<Rightarrow> status \<times> adapter" where
  "onebox_init_sdio_slave_regs h a =
     or_fail (\<lambda>a. if next_read_delay a \<noteq> 0
                  then write_register h 0 0xF5 (ucast (next_read_delay a)) a else return_success a)
     (or_fail (\<lambda>a. if sdio_high_speed_enable a \<noteq> 0
                   then write_register h 0 0x13 0x3 a else return_success a)
     (or_fail (write_register h 0 0xFC 0x24)
     (or_fail (write_register h 0 0xFD (128 - 32))
     (or_fail (write_register h 0 0xFE 32)
      return_success)))) a"

section \<open>The 64 KiB window and the firmware download\<close>

definition onebox_sdio_master_access_msword :: "host \<Rightarrow> u16 \<Rightarrow> adapter \<Rightarrow> status \<times> adapter" where
  "onebox_sdio_master_access_msword h ms_word =
     or_fail (write_register h 0 0xFA (ucast (ms_word AND 0x00FF)))
     (or_fail (write_register h 0 0xFB (ucast (drop_bit 8 ms_word)))
      return_success)"

text \<open>
  A block goes through \<^verbatim>\<open>temp_buf\<close>, 256 bytes on the stack: \<open>block_size\<close> bytes of it are
  cleared and \<open>n\<close> bytes of the image are copied. A block size above 256 overruns the buffer and a copy past
  the end of the image reads behind it: faults, as is a block size of 0, by which the size is divided.
\<close>

definition temp_copy :: "bytes \<Rightarrow> u32 \<Rightarrow> nat \<Rightarrow> u32 \<Rightarrow> bytes option" where
  "temp_copy fw block_size cur n = (if 256 < block_size then None else mem_slice fw cur (unat n))"

text \<open>
  The loop over the whole blocks: \<open>n\<close> blocks are left, \<open>cur\<close> is
  \<^verbatim>\<open>cur_indx\<close>. Each block goes to the low half of the address inside the window;
  when the address leaves the window the window is moved by one.
\<close>

fun load_blocks :: "host \<Rightarrow> bytes \<Rightarrow> u32 \<Rightarrow> nat \<Rightarrow> nat \<Rightarrow> u32 \<Rightarrow> u16 \<Rightarrow> adapter \<Rightarrow> (status \<times> nat \<times> u32 \<times> adapter) option" where
  "load_blocks h fw block_size 0 cur base msb a = Some (ONEBOX_STATUS_SUCCESS, cur, base, a)"
| "load_blocks h fw block_size (Suc n) cur base msb a =
     do { temp_buf \<leftarrow> temp_copy fw block_size cur block_size;
          let lsb_address = (ucast base :: u16);
          let (s, a1) = write_multiple h (ucast lsb_address OR 0x10000) temp_buf block_size a;
          if s \<noteq> ONEBOX_STATUS_SUCCESS then Some (ONEBOX_STATUS_FAILURE, cur, base, a1)
          else let base' = base + block_size in
            if drop_bit 16 base' \<noteq> ucast msb
            then let (s', a2) = onebox_sdio_master_access_msword h (msb + 1) a1
                 in if s' \<noteq> ONEBOX_STATUS_SUCCESS then Some (ONEBOX_STATUS_FAILURE, cur, base', a2)
                    else load_blocks h fw block_size n (cur + unat block_size) base' (msb + 1) a2
            else load_blocks h fw block_size n (cur + unat block_size) base' msb a1 }"

definition sdio_load_data_master_write :: "host \<Rightarrow> u32 \<Rightarrow> u32 \<Rightarrow> u32 \<Rightarrow> bytes \<Rightarrow> adapter \<Rightarrow> (status \<times> adapter) option" where
  "sdio_load_data_master_write h base_address instructions_sz block_size ta_firmware a =
     (if block_size = 0 then None
      else let nb = unat (instructions_sz div block_size);
               msb_address = (ucast (drop_bit 16 base_address) :: u16);
               (s0, a1) = onebox_sdio_master_access_msword h msb_address a in
        if s0 \<noteq> ONEBOX_STATUS_SUCCESS then Some (ONEBOX_STATUS_FAILURE, a1)
        else do { (s, cur, base, a2) \<leftarrow> load_blocks h ta_firmware block_size nb 0 base_address msb_address a1;
                  if s \<noteq> ONEBOX_STATUS_SUCCESS then Some (ONEBOX_STATUS_FAILURE, a2)
                  else if instructions_sz mod block_size \<noteq> 0 then
                    do { temp_buf \<leftarrow> temp_copy ta_firmware block_size cur (instructions_sz mod block_size);
                         Some (or_fail (write_multiple h (ucast (ucast base :: u16) OR 0x10000) temp_buf
                                          (instructions_sz mod block_size)) return_success a2) }
                  else Some (return_success a2) })"

fun usb_load_blocks :: "host \<Rightarrow> bytes \<Rightarrow> u32 \<Rightarrow> nat \<Rightarrow> nat \<Rightarrow> u32 \<Rightarrow> adapter \<Rightarrow> (status \<times> nat \<times> u32 \<times> adapter) option" where
  "usb_load_blocks h fw block_size 0 cur base a = Some (ONEBOX_STATUS_SUCCESS, cur, base, a)"
| "usb_load_blocks h fw block_size (Suc n) cur base a =
     do { temp_buf \<leftarrow> temp_copy fw block_size cur block_size;
          let (s, a1) = ta_write_multiple h base temp_buf block_size a;
          if s \<noteq> ONEBOX_STATUS_SUCCESS then Some (ONEBOX_STATUS_FAILURE, cur, base, a1)
          else usb_load_blocks h fw block_size n (cur + unat block_size) (base + block_size) a1 }"

definition usb_load_data_master_write :: "host \<Rightarrow> u32 \<Rightarrow> u32 \<Rightarrow> u32 \<Rightarrow> bytes \<Rightarrow> adapter \<Rightarrow> (status \<times> adapter) option" where
  "usb_load_data_master_write h base_address instructions_sz block_size ta_firmware a =
     (if block_size = 0 then None
      else do { (s, cur, base, a2) \<leftarrow> usb_load_blocks h ta_firmware block_size (unat (instructions_sz div block_size)) 0 base_address a;
                if s \<noteq> ONEBOX_STATUS_SUCCESS then Some (ONEBOX_STATUS_FAILURE, a2)
                else if instructions_sz mod block_size \<noteq> 0 then
                  do { temp_buf \<leftarrow> temp_copy ta_firmware block_size cur (instructions_sz mod block_size);
                       Some (or_fail (ta_write_multiple h base temp_buf (instructions_sz mod block_size)) return_success a2) }
                else Some (return_success a2) })"

text \<open>With a block size of 1 to 256, a download whose size is within the image does not fault.\<close>

lemma temp_copy_in: "block_size \<le> 256 \<Longrightarrow> cur + unat n \<le> length fw \<Longrightarrow> temp_copy fw block_size cur n = Some (take (unat n) (drop cur fw))"
  by (simp add: temp_copy_def mem_slice_in)

lemma temp_copy_Some: "temp_copy fw block_size cur n = Some t \<Longrightarrow> t = take (unat n) (drop cur fw) \<and> cur + unat n \<le> length fw"
  by (auto simp: temp_copy_def mem_slice_def split: if_split_asm)

lemma load_blocks_returns:
  assumes "bs \<le> 256" "cur + n * unat bs \<le> length fw"
  shows "\<exists>s c b a'. load_blocks h fw bs n cur base msb a = Some (s, c, b, a') \<and> (s = ONEBOX_STATUS_SUCCESS \<longrightarrow> c = cur + n * unat bs)"
  using assms(2)
proof (induction n arbitrary: cur base msb a)
  case (Suc n)
  have fit: "cur + unat bs \<le> length fw" "cur + unat bs + n * unat bs \<le> length fw" using Suc.prems by simp_all
  obtain s1 a1 where w: "write_multiple h (ucast (ucast base :: u16) OR 0x10000) (take (unat bs) (drop cur fw)) bs a = (s1, a1)" by fastforce
  obtain s2 a2 where m: "onebox_sdio_master_access_msword h (msb + 1) a1 = (s2, a2)" by fastforce
  obtain s c b a' where r1: "load_blocks h fw bs n (cur + unat bs) (base + bs) msb a1 = Some (s, c, b, a')"
    "s = ONEBOX_STATUS_SUCCESS \<longrightarrow> c = cur + unat bs + n * unat bs" using Suc.IH [OF fit(2)] by blast
  obtain s' c' b' a'' where r2: "load_blocks h fw bs n (cur + unat bs) (base + bs) (msb + 1) a2 = Some (s', c', b', a'')"
    "s' = ONEBOX_STATUS_SUCCESS \<longrightarrow> c' = cur + unat bs + n * unat bs" using Suc.IH [OF fit(2)] by blast
  show ?case using temp_copy_in [OF assms(1) fit(1)] w m r1 r2 by (simp add: Let_def)
qed simp

lemma usb_load_blocks_returns:
  assumes "bs \<le> 256" "cur + n * unat bs \<le> length fw"
  shows "\<exists>s c b a'. usb_load_blocks h fw bs n cur base a = Some (s, c, b, a') \<and> (s = ONEBOX_STATUS_SUCCESS \<longrightarrow> c = cur + n * unat bs)"
  using assms(2)
proof (induction n arbitrary: cur base a)
  case (Suc n)
  have fit: "cur + unat bs \<le> length fw" "cur + unat bs + n * unat bs \<le> length fw" using Suc.prems by simp_all
  obtain s1 a1 where w: "ta_write_multiple h base (take (unat bs) (drop cur fw)) bs a = (s1, a1)" by fastforce
  obtain s c b a' where r: "usb_load_blocks h fw bs n (cur + unat bs) (base + bs) a1 = Some (s, c, b, a')"
    "s = ONEBOX_STATUS_SUCCESS \<longrightarrow> c = cur + unat bs + n * unat bs" using Suc.IH [OF fit(2)] by blast
  show ?case using temp_copy_in [OF assms(1) fit(1)] w r by simp
qed simp

lemma blocks_and_rest: "unat sz = unat (sz div bs) * unat bs + unat (sz mod bs :: u32)"
  by (simp add: unat_div unat_mod)

lemma sdio_load_returns:
  assumes "bs \<noteq> 0" "bs \<le> 256" "unat sz \<le> length fw"
  shows "\<exists>s a'. sdio_load_data_master_write h base sz bs fw a = Some (s, a')"
proof -
  let ?msb = "ucast (drop_bit 16 base) :: u16"
  obtain s0 a1 where m: "onebox_sdio_master_access_msword h ?msb a = (s0, a1)" by fastforce
  have fit: "0 + unat (sz div bs) * unat bs \<le> length fw" "0 + unat (sz div bs) * unat bs + unat (sz mod bs) \<le> length fw"
    using blocks_and_rest [of sz bs] assms(3) by linarith+
  obtain s c b a2 where l: "load_blocks h fw bs (unat (sz div bs)) 0 base ?msb a1 = Some (s, c, b, a2)"
    "s = ONEBOX_STATUS_SUCCESS \<longrightarrow> c = 0 + unat (sz div bs) * unat bs" using load_blocks_returns [OF assms(2) fit(1)] by blast
  show ?thesis using m l temp_copy_in [OF assms(2) fit(2)] assms(1)
    by (auto simp: sdio_load_data_master_write_def or_fail_def split: prod.splits)
qed

lemma usb_load_returns:
  assumes "bs \<noteq> 0" "bs \<le> 256" "unat sz \<le> length fw"
  shows "\<exists>s a'. usb_load_data_master_write h base sz bs fw a = Some (s, a')"
proof -
  have fit: "0 + unat (sz div bs) * unat bs \<le> length fw" "0 + unat (sz div bs) * unat bs + unat (sz mod bs) \<le> length fw"
    using blocks_and_rest [of sz bs] assms(3) by linarith+
  obtain s c b a2 where l: "usb_load_blocks h fw bs (unat (sz div bs)) 0 base a = Some (s, c, b, a2)"
    "s = ONEBOX_STATUS_SUCCESS \<longrightarrow> c = 0 + unat (sz div bs) * unat bs" using usb_load_blocks_returns [OF assms(2) fit(1)] by blast
  show ?thesis using l temp_copy_in [OF assms(2) fit(2)] assms(1)
    by (auto simp: usb_load_data_master_write_def or_fail_def split: prod.splits)
qed

text \<open>A download that reports success has read its size from the image and no more.\<close>

lemma load_blocks_within:
  "load_blocks h fw bs n cur base msb a = Some (ONEBOX_STATUS_SUCCESS, c, b, a') \<Longrightarrow> cur \<le> length fw \<Longrightarrow>
   c = cur + n * unat bs \<and> c \<le> length fw"
proof (induction n arbitrary: cur base msb a)
  case (Suc n)
  obtain t where t: "temp_copy fw bs cur bs = Some t" using Suc.prems(1) by (auto split: bind_splits)
  obtain s1 a1 where w: "write_multiple h (ucast (ucast base :: u16) OR 0x10000) t bs a = (s1, a1)" by fastforce
  obtain s2 a2 where m: "onebox_sdio_master_access_msword h (msb + 1) a1 = (s2, a2)" by fastforce
  have fit: "cur + unat bs \<le> length fw" using temp_copy_Some [OF t] by simp
  obtain base' msb' a3 where "load_blocks h fw bs n (cur + unat bs) base' msb' a3 = Some (ONEBOX_STATUS_SUCCESS, c, b, a')"
    using Suc.prems(1) unfolding load_blocks.simps t bind.simps Let_def w m prod.case
    by (cases "s1 = 0"; cases "s2 = 0"; cases "drop_bit 16 (base + bs) = ucast msb") auto
  from Suc.IH [OF this fit] show ?case by simp
qed simp

lemma usb_load_blocks_within:
  "usb_load_blocks h fw bs n cur base a = Some (ONEBOX_STATUS_SUCCESS, c, b, a') \<Longrightarrow> cur \<le> length fw \<Longrightarrow>
   c = cur + n * unat bs \<and> c \<le> length fw"
proof (induction n arbitrary: cur base a)
  case (Suc n)
  obtain t where t: "temp_copy fw bs cur bs = Some t" using Suc.prems(1) by (auto split: bind_splits)
  obtain s1 a1 where w: "ta_write_multiple h base t bs a = (s1, a1)" by fastforce
  have fit: "cur + unat bs \<le> length fw" using temp_copy_Some [OF t] by simp
  have "usb_load_blocks h fw bs n (cur + unat bs) (base + bs) a1 = Some (ONEBOX_STATUS_SUCCESS, c, b, a')"
    using Suc.prems(1) t w by (auto split: if_splits)
  from Suc.IH [OF this fit] show ?case by simp
qed simp

lemma sdio_load_within:
  assumes "sdio_load_data_master_write h base sz bs fw a = Some (ONEBOX_STATUS_SUCCESS, a')"
  shows "unat sz \<le> length fw"
proof -
  let ?msb = "ucast (drop_bit 16 base) :: u16"
  obtain s0 a1 where m: "onebox_sdio_master_access_msword h ?msb a = (s0, a1)" by fastforce
  obtain c b a2 where l: "load_blocks h fw bs (unat (sz div bs)) 0 base ?msb a1 = Some (ONEBOX_STATUS_SUCCESS, c, b, a2)"
    and r: "sz mod bs = 0 \<or> (\<exists>t. temp_copy fw bs c (sz mod bs) = Some t)"
    using assms m by (auto simp: sdio_load_data_master_write_def Let_def split: if_splits bind_splits)
  then show ?thesis using load_blocks_within [OF l] temp_copy_Some [of fw bs c "sz mod bs"] blocks_and_rest [of sz bs] by (cases "sz mod bs = 0") auto
qed

lemma usb_load_within:
  assumes "usb_load_data_master_write h base sz bs fw a = Some (ONEBOX_STATUS_SUCCESS, a')"
  shows "unat sz \<le> length fw"
proof -
  obtain c b a2 where l: "usb_load_blocks h fw bs (unat (sz div bs)) 0 base a = Some (ONEBOX_STATUS_SUCCESS, c, b, a2)"
    and r: "sz mod bs = 0 \<or> (\<exists>t. temp_copy fw bs c (sz mod bs) = Some t)"
    using assms by (auto simp: usb_load_data_master_write_def split: if_splits bind_splits)
  then show ?thesis using usb_load_blocks_within [OF l] temp_copy_Some [of fw bs c "sz mod bs"] blocks_and_rest [of sz bs] by (cases "sz mod bs = 0") auto
qed

section \<open>Resetting the TA processor\<close>

text \<open>A 32-bit register written through \<^verbatim>\<open>(uint8 *)&data, 4\<close>.\<close>

definition le32 :: "u32 \<Rightarrow> bytes" where
  "le32 v = [ucast v, ucast (drop_bit 8 v), ucast (drop_bit 16 v), ucast (drop_bit 24 v)]"

definition sdio_ta_reset_ops :: "host \<Rightarrow> adapter \<Rightarrow> status \<times> adapter" where
  "sdio_ta_reset_ops h =
     or_fail (onebox_sdio_master_access_msword h 0x2200)
     (or_fail (write_multiple h (0x0844 OR 0x10000) (le32 0xF) 4)
     (or_fail (write_multiple h (0x0004 OR 0x10000) (le32 0) 4)
     (or_fail (write_multiple h (0x0400 OR 0x10000) (le32 0) 4)
     (or_fail (write_multiple h (0x0848 OR 0x10000) (le32 0xF) 4)
     (or_fail (onebox_sdio_master_access_msword h 0x4105)
      return_success)))))"

end
