(* ===== verification/Netbuf_Queue.thy ===== *)
theory Netbuf_Queue
  imports Coex_State
begin

text \<open>
  The socket buffer queues of the OS layer (\<^verbatim>\<open>onebox_osd_ops.c\<close>): the
  wrappers \<^verbatim>\<open>get_skb_queue_tail\<close>, \<^verbatim>\<open>skb_queue_head_add\<close>,
  \<^verbatim>\<open>dequeue_pkt\<close> and \<^verbatim>\<open>get_skb_queue_len\<close> over a kernel list,
  which is a list here, and the trimming of a buffer at either end. The locale states
  what the transmit and receive paths rely on and derives the first-in first-out order
  once; it is interpreted on the operations of the model.
\<close>

section \<open>The operations\<close>

definition netbuf_queue_tail :: "'a list \<Rightarrow> 'a \<Rightarrow> 'a list" where
  "netbuf_queue_tail q x = q @ [x]"

definition netbuf_queue_head :: "'a list \<Rightarrow> 'a \<Rightarrow> 'a list" where
  "netbuf_queue_head q x = x # q"

definition dequeue_pkt :: "'a list \<Rightarrow> 'a option \<times> 'a list" where
  "dequeue_pkt q = (case q of [] \<Rightarrow> (None, []) | x # q' \<Rightarrow> (Some x, q'))"

definition netbuf_queue_len :: "'a list \<Rightarrow> nat" where
  "netbuf_queue_len q = length q"

text \<open>
  \<^verbatim>\<open>netbuf_ctrl_block_t_adj\<close> pulls the data pointer; pulling more than the
  buffer holds leaves a NULL pointer behind, here \<open>None\<close>.
  \<^verbatim>\<open>netbuf_ctrl_block_t_trim\<close> cuts the end off and leaves a shorter buffer alone.
\<close>

definition netbuf_adj :: "bytes \<Rightarrow> nat \<Rightarrow> bytes option" where
  "netbuf_adj d n = (if n \<le> length d then Some (drop n d) else None)"

definition netbuf_trim :: "bytes \<Rightarrow> nat \<Rightarrow> bytes" where
  "netbuf_trim d n = (if 0 < n then take n d else d)"

section \<open>The queue interface\<close>

locale netbuf_queue =
  fixes empty :: 'q
    and tail :: "'q \<Rightarrow> 'a \<Rightarrow> 'q"
    and head :: "'q \<Rightarrow> 'a \<Rightarrow> 'q"
    and deq :: "'q \<Rightarrow> 'a option \<times> 'q"
    and len :: "'q \<Rightarrow> nat"
  assumes len_empty: "len empty = 0"
    and len_tail: "len (tail q x) = Suc (len q)"
    and len_head: "len (head q x) = Suc (len q)"
    and deq_none_iff: "fst (deq q) = None \<longleftrightarrow> len q = 0"
    and len_deq: "len (snd (deq q)) = len q - 1"
    and deq_head: "deq (head q x) = (Some x, q)"
    and deq_tail_empty: "len q = 0 \<Longrightarrow> deq (tail q x) = (Some x, q)"
    and deq_tail: "len q \<noteq> 0 \<Longrightarrow> deq (tail q x) = (fst (deq q), tail (snd (deq q)) x)"
begin

text \<open>Queueing a batch of packets one after the other.\<close>

lemma len_batch: "len (foldl tail q xs) = len q + length xs"
  by (induction xs arbitrary: q) (simp_all add: len_tail)

lemma deq_batch: "len q \<noteq> 0 \<Longrightarrow> deq (foldl tail q xs) = (fst (deq q), foldl tail (snd (deq q)) xs)"
proof (induction xs arbitrary: q)
  case Nil
  show ?case by simp
next
  case (Cons x xs)
  then show ?case by (simp add: len_tail deq_tail)
qed

lemma deq_batch_empty: "len q = 0 \<Longrightarrow> deq (foldl tail q (x # xs)) = (Some x, foldl tail q xs)"
  using deq_batch [of "tail q x" xs] by (simp add: len_tail deq_tail_empty)

text \<open>First in, first out: after \<open>n\<close> packets are taken the next one is the \<open>n\<close>-th queued.\<close>

lemma fifo_order:
  assumes "len q = 0" "n < length xs"
  shows "fst (deq (((\<lambda>q. snd (deq q)) ^^ n) (foldl tail q xs))) = Some (xs ! n)"
  using assms
proof (induction n arbitrary: xs)
  case 0
  then show ?case by (cases xs) (simp_all add: deq_batch_empty del: foldl.simps)
next
  case (Suc n)
  then obtain x ys where xs: "xs = x # ys" by (cases xs) auto
  have "((\<lambda>q. snd (deq q)) ^^ Suc n) (foldl tail q xs) = ((\<lambda>q. snd (deq q)) ^^ n) (foldl tail q ys)"
    using Suc.prems by (simp add: funpow_Suc_right xs deq_batch_empty del: funpow.simps foldl.simps)
  with Suc.IH [of ys] Suc.prems xs show ?case
    by (simp del: funpow.simps foldl.simps)
qed

lemma batch_drains: "len q = 0 \<Longrightarrow> len (((\<lambda>q. snd (deq q)) ^^ n) (foldl tail q xs)) = length xs - n"
  by (induction n) (simp_all add: len_batch len_deq)

end

interpretation skb: netbuf_queue "[]" netbuf_queue_tail netbuf_queue_head dequeue_pkt netbuf_queue_len
  by unfold_locales
     (auto simp: netbuf_queue_tail_def netbuf_queue_head_def dequeue_pkt_def netbuf_queue_len_def
           split: list.splits)

lemmas netbuf_queue_defs =
  netbuf_queue_tail_def netbuf_queue_head_def dequeue_pkt_def netbuf_queue_len_def

end
