(* ===== verification/Coex_Queues.thy ===== *)
theory Coex_Queues
  imports Sdio_Bus Netbuf_Queue
begin

text \<open>
  The transmit entry of the common HAL and its soft queues (\<^verbatim>\<open>onebox_common_tx.c\<close>):
  \<^verbatim>\<open>send_pkt_to_coex\<close>, queueing and dequeueing, the fixed priority between the
  queues. The array \<^verbatim>\<open>coex_queues\<close> has five elements; an access outside it is a
  fault, \<open>None\<close>, like every access outside a buffer.
\<close>

definition proto_id_to_pkttype :: "u8 \<Rightarrow> u8" where
  "proto_id_to_pkttype pkt_type =
     (if pkt_type = ZIGB_TX_Q then 2
      else if pkt_type = BT_TX_Q then 1
      else if pkt_type = WLAN_TX_M_Q \<or> pkt_type = WLAN_TX_D_Q \<or> pkt_type = COEX_Q then 0
      else 0xff)"

definition coex_sched_pkt_xmit :: "adapter \<Rightarrow> adapter" where
  [handler_defs]: "coex_sched_pkt_xmit = log (Set_event Scheduler_event)"

text \<open>\<^verbatim>\<open>&adapter->coex_queues[q]\<close>: five queues.\<close>

definition coex_queue_at :: "adapter \<Rightarrow> u8 \<Rightarrow> netbuf list option" where
  "coex_queue_at a q = (if q < COEX_SOFT_QUEUES then Some (coex_queues a (unat q)) else None)"

definition set_coex_queue :: "u8 \<Rightarrow> netbuf list \<Rightarrow> adapter \<Rightarrow> adapter" where
  [handler_defs]: "set_coex_queue q ps a = a\<lparr>coex_queues := (coex_queues a)(unat q := ps)\<rparr>"

section \<open>send\_pkt\_to\_coex\<close>

text \<open>
  The checks made in normal WLAN operation before a packet is written directly
  (\<open>None\<close> when it may be written; otherwise the status that is returned and whether
  the packet is freed).
\<close>

definition tx_refused :: "adapter \<Rightarrow> netbuf \<Rightarrow> (status \<times> bool) option" where
  "tx_refused a nb =
     (if Driver_Mode a = WIFI_MODE_ON \<and> \<not> flashing_mode_on a then
        (let pkt_type = proto_id_to_pkttype (tx_pkt_type nb); t = tech a (unat pkt_type) in
           if pkt_type = 0xff then Some (ONEBOX_STATUS_FAILURE, False)
           else if fw_state t \<noteq> FW_ACTIVE then Some (ONEBOX_STATUS_FAILURE, False)
           else if \<not> tx_access t \<or> \<not> common_hal_tx_access (d_assets a)
             then Some (ONEBOX_STATUS_SUCCESS, host_intf_type a = HOST_INTF_USB)
           else None)
      else None)"

definition send_pkt_to_coex :: "host \<Rightarrow> netbuf \<Rightarrow> u8 \<Rightarrow> adapter \<Rightarrow> (status \<times> adapter) option" where
  "send_pkt_to_coex h nb hal_queue a =
     (if \<not> global_priv (d_assets a) then Some (ONEBOX_STATUS_FAILURE, a)
      else if hal_queue \<noteq> WLAN_Q \<and> hal_queue \<noteq> VIP_Q then
        do { q \<leftarrow> coex_queue_at a hal_queue;
             let a1 = set_coex_queue hal_queue (netbuf_queue_tail q nb) a;
             let a2 = a1\<lparr>tot_pkts_qed := bump (unat hal_queue) (tot_pkts_qed a1)\<rparr>;
             Some (ONEBOX_STATUS_SUCCESS, coex_sched_pkt_xmit a2) }
      else
        (let a0 = log (Acquire Transmit_lock) a in
         case tx_refused a0 nb of
           Some (s, free) \<Rightarrow>
             Some (s, log (Release Transmit_lock) (if free then log (Free_pkt (nb_data nb)) a0 else a0))
         | None \<Rightarrow>
             do { nb' \<leftarrow> (if hal_queue = WLAN_Q
                          then do { type \<leftarrow> rd16 (nb_data nb) 0;
                                    Some (nb\<lparr>tx_pkt_type := ucast (drop_bit 12 type)\<rparr>) }
                          else Some nb);
                  let (s, a1) = host_intf_write_pkt h nb' a0;
                  let a2 = (if s \<noteq> ONEBOX_STATUS_SUCCESS
                            then a1\<lparr>tot_pkts_dropped := bump (unat hal_queue) (tot_pkts_dropped a1)\<rparr>
                            else a1);
                  let a3 = a2\<lparr>tot_pkts_sentout := bump (unat hal_queue) (tot_pkts_sentout a2)\<rparr>;
                  Some (s, log (Release Transmit_lock) a3) }))"

section \<open>The soft queues\<close>

definition coex_queue_pkt :: "netbuf \<Rightarrow> u8 \<Rightarrow> adapter \<Rightarrow> adapter option" where
  "coex_queue_pkt nb q_num a =
     (if COEX_SOFT_QUEUES < q_num then Some a
      else do { q \<leftarrow> coex_queue_at a q_num;
                Some (set_coex_queue q_num (netbuf_queue_tail q nb) a) })"

definition coex_dequeue_pkt :: "u8 \<Rightarrow> adapter \<Rightarrow> (netbuf option \<times> adapter) option" where
  "coex_dequeue_pkt q_num a =
     (if COEX_SOFT_QUEUES < q_num then Some (None, a)
      else do { q \<leftarrow> coex_queue_at a q_num;
                let (nb, q') = dequeue_pkt q;
                Some (nb, set_coex_queue q_num q' a) })"

definition coex_get_queue_num :: "adapter \<Rightarrow> u8" where
  "coex_get_queue_num a =
     (if netbuf_queue_len (coex_queues a (unat VIP_Q)) \<noteq> 0 then VIP_Q
      else if netbuf_queue_len (coex_queues a (unat COEX_Q)) \<noteq> 0 then COEX_Q
      else if netbuf_queue_len (coex_queues a (unat BT_Q)) \<noteq> 0 then BT_Q
      else if netbuf_queue_len (coex_queues a (unat ZIGB_Q)) \<noteq> 0 then ZIGB_Q
      else if netbuf_queue_len (coex_queues a (unat WLAN_Q)) \<noteq> 0 then WLAN_Q
      else INVALID_QUEUE)"

definition onebox_coex_mgmt_frame :: "host \<Rightarrow> bytes \<Rightarrow> nat \<Rightarrow> adapter \<Rightarrow> (status \<times> adapter) option" where
  "onebox_coex_mgmt_frame h addr len a =
     (if \<not> h_alloc_skb h (trace a) then Some (ONEBOX_STATUS_FAILURE, a)
      else do { d \<leftarrow> mem_slice addr 0 len;
                let nb = (fresh_netbuf d)\<lparr>nb_flags := 0x80\<rparr>;
                q \<leftarrow> coex_queue_at a COEX_Q;
                Some (ONEBOX_STATUS_SUCCESS,
                      coex_sched_pkt_xmit (set_coex_queue COEX_Q (netbuf_queue_tail q nb) a)) })"

section \<open>Facts about the queues and the entry\<close>

text \<open>Packets waiting in the five queues.\<close>

definition coex_pending :: "adapter \<Rightarrow> nat" where
  "coex_pending a = (\<Sum>q<5. length (coex_queues a q))"

lemma set_coex_queue_fields [simp]:
  "d_assets (set_coex_queue q ps a) = d_assets a" "trace (set_coex_queue q ps a) = trace a"
  "host_intf_type (set_coex_queue q ps a) = host_intf_type a"
  "coex_queues (set_coex_queue q ps a) = (coex_queues a)(unat q := ps)"
  by (simp_all add: set_coex_queue_def)

lemma coex_get_queue_num_invalid_iff:
  "coex_get_queue_num a = INVALID_QUEUE \<longleftrightarrow> (\<forall>q<5. coex_queues a q = [])"
proof -
  have "(\<forall>q<5. coex_queues a q = []) \<longleftrightarrow>
        coex_queues a 0 = [] \<and> coex_queues a 1 = [] \<and> coex_queues a 2 = [] \<and> coex_queues a 3 = [] \<and> coex_queues a 4 = []"
    by (auto simp: numeral_eq_Suc less_Suc_eq)
  then show ?thesis by (auto simp: coex_get_queue_num_def netbuf_queue_len_def)
qed

lemma coex_get_queue_num_nonempty:
  "coex_get_queue_num a = q \<Longrightarrow> q \<noteq> INVALID_QUEUE \<Longrightarrow> q < COEX_SOFT_QUEUES \<and> coex_queues a (unat q) \<noteq> []"
  by (auto simp: coex_get_queue_num_def netbuf_queue_len_def split: if_splits)

lemma send_pkt_to_coex_queued:
  assumes "global_priv (d_assets a)" "hal_queue = COEX_Q \<or> hal_queue = BT_Q \<or> hal_queue = ZIGB_Q"
  shows "send_pkt_to_coex h nb hal_queue a =
    Some (0, coex_sched_pkt_xmit
       ((set_coex_queue hal_queue (coex_queues a (unat hal_queue) @ [nb]) a)
          \<lparr>tot_pkts_qed := bump (unat hal_queue) (tot_pkts_qed a)\<rparr>))"
  using assms
  by (auto simp: send_pkt_to_coex_def coex_queue_at_def netbuf_queue_tail_def Let_def set_coex_queue_def)

end
