(* ===== verification/Power_Manager.thy ===== *)
theory Power_Manager
  imports Coex_Queues
begin

text \<open>
  The common power manager (\<^verbatim>\<open>onebox_common_pwr_mngr.c\<close>): it grants the
  protocols access to the bus, answers the firmware's sleep request with an
  acknowledgement once no active protocol wants to send, and wakes the waiting
  protocols when the device wakes up. The second half states what the protocols may
  rely on as a step relation with its reachable states.
\<close>

section \<open>The handlers\<close>

definition protocol_tx_access :: "driver_assets \<Rightarrow> bool" where
  "protocol_tx_access d =
     list_ex (\<lambda>ii. drv_state (techs d ii) = MODULE_ACTIVE \<and> tx_intention (techs d ii)) [0..<MAX_IDS]"

definition ulp_sleep_ack_frame :: "u16 \<Rightarrow> bytes" where
  "ulp_sleep_ack_frame token =
     set_word 7 (push_bit 8 (ucast ULP_SLEEP_NOTIFY))
       (set_word 6 token
         (set_word 1 (ucast CONFIRM) (set_word 0 0 (replicate FRAME_DESC_SZ 0))))"

definition send_ulp_sleep_ack :: "host \<Rightarrow> adapter \<Rightarrow> adapter option" where
  "send_ulp_sleep_ack h a =
     (if \<not> h_alloc_skb h (trace a) then Some a
      else do { let nb = (fresh_netbuf (ulp_sleep_ack_frame (ulp_sleep_token a)))\<lparr>tx_pkt_type := COEX_Q\<rparr>;
                let a1 = upd_assets (\<lambda>d. d\<lparr>ulp_sleep_ack_sent := True\<rparr>) a;
                (_, a2) \<leftarrow> send_pkt_to_coex h nb COEX_Q a1;
                Some a2 })"

text \<open>One round of the loop that wakes the protocols waiting for the bus.\<close>

definition wake_protocol :: "adapter \<Rightarrow> nat \<Rightarrow> adapter" where
  "wake_protocol a proto_id =
     (if deregister_flags (tech a proto_id) \<and> drv_state (tech a proto_id) = MODULE_ACTIVE
      then log (Wake_up proto_id)
             (upd_tech proto_id (\<lambda>t. t\<lparr>deregister_flags := False, tx_access := True\<rparr>) a)
      else a)"

definition wake_protocols :: "adapter \<Rightarrow> adapter" where
  "wake_protocols a = foldl wake_protocol a [0..<MAX_IDS]"

definition sleep_entry_recvd_handler :: "host \<Rightarrow> adapter \<Rightarrow> adapter option" where
  "sleep_entry_recvd_handler h a =
     do { let a1 = upd_assets (\<lambda>d. d\<lparr>sleep_entry_recvd := True\<rparr>) (log (Acquire Tx_access_lock) a);
          a2 \<leftarrow> (if \<not> protocol_tx_access (d_assets a1) then send_ulp_sleep_ack h a1
                 else Some (wake_protocols
                   (upd_assets (\<lambda>d. d\<lparr>common_hal_tx_access := True, ulp_sleep_ack_sent := False\<rparr>) a1)));
          Some (log (Release Tx_access_lock) a2) }"

definition sleep_exit_recvd :: "adapter \<Rightarrow> adapter" where
  "sleep_exit_recvd a =
     (let a1 = log (Acquire Tx_access_lock) a;
          a2 = upd_assets (\<lambda>d. d\<lparr>sleep_entry_recvd := False, common_hal_tx_access := True,
                                  ulp_sleep_ack_sent := False\<rparr>) a1
      in wake_protocols (log (Release Tx_access_lock) a2))"

text \<open>
  \<^verbatim>\<open>update_tx_status\<close> of the shipped configuration, without
  \<^verbatim>\<open>GPIO_HANDSHAKE\<close>. The adapter is the one \<^verbatim>\<open>global_priv\<close> points to: the
  function does not test the pointer, which is set before any protocol can call it.
\<close>

definition update_tx_status :: "host \<Rightarrow> nat \<Rightarrow> adapter \<Rightarrow> adapter option" where
  "update_tx_status h proto_id a =
     (if 2 < proto_id then Some a
      else if drv_state (tech a proto_id) = MODULE_REMOVED then Some a
      else
        (let a1 = log (Acquire Tx_access_lock) a in
         if tx_intention (tech a proto_id) then
           if common_hal_tx_access (d_assets a1) then
             if ulp_sleep_ack_sent (d_assets a1) then Some (log (Release Tx_access_lock) a1)
             else Some (log (Release Tx_access_lock) (upd_tech proto_id (\<lambda>t. t\<lparr>tx_access := True\<rparr>) a1))
           else
             (let a2 = (if host_intf_type a1 = HOST_INTF_USB \<and> usb_intf_suspend a1
                        then log (Usb_resume_timer 1) a1 else a1)
              in Some (log (Release Tx_access_lock) a2))
         else
           do { a2 \<leftarrow> (if sleep_entry_recvd (d_assets a1) \<and> \<not> ulp_sleep_ack_sent (d_assets a1)
                           \<and> \<not> protocol_tx_access (d_assets a1)
                       then send_ulp_sleep_ack h a1 else Some a1);
                Some (log (Release Tx_access_lock) a2) }))"

section \<open>The configuration with a GPIO handshake\<close>

text \<open>
  With \<^verbatim>\<open>GPIO_HANDSHAKE\<close> the host raises a line and polls one of the device. The
  two loops need not end: the poll counter only advances while the device line reads low,
  and the outer check restarts as long as the line drops within two milliseconds.
  \<open>None\<close> is "does not return".
\<close>

definition read_device_gpio :: "host \<Rightarrow> adapter \<Rightarrow> bool \<times> adapter" where
  "read_device_gpio h a = (let a' = log Read_gpio a in (h_device_gpio h (trace a'), a'))"

definition gpio_grant :: "build \<Rightarrow> bool \<Rightarrow> adapter \<Rightarrow> adapter" where
  "gpio_grant b ios a =
     upd_assets (\<lambda>d. d\<lparr>common_hal_tx_access := True\<rparr>)
       (if ios \<and> USE_SDIO_INTF b \<and> host_intf_type a = HOST_INTF_SDIO then log Set_ios a else a)"

partial_function (option) gpio_poll :: "build \<Rightarrow> host \<Rightarrow> nat \<Rightarrow> adapter \<Rightarrow> adapter option" where
  "gpio_poll b h counter a =
     (case read_device_gpio h (log (Msleep 1) a) of (high, a1) \<Rightarrow>
        if high then
          (case read_device_gpio h (log (Msleep 2) a1) of (still_high, a2) \<Rightarrow>
             if still_high then Some (gpio_grant b True a2) else gpio_poll b h counter a2)
        else if 30 < counter then Some a1
        else gpio_poll b h (Suc counter) a1)"

partial_function (option) gpio_repeat_check :: "build \<Rightarrow> host \<Rightarrow> adapter \<Rightarrow> adapter option" where
  "gpio_repeat_check b h a =
     (case read_device_gpio h a of (high, a1) \<Rightarrow>
        if \<not> high then gpio_poll b h 0 a1
        else (case read_device_gpio h (log (Msleep 2) a1) of (still_high, a2) \<Rightarrow>
                if still_high then Some (gpio_grant b False a2) else gpio_repeat_check b h a2))"

definition gpio_host_tx_intention :: "build \<Rightarrow> host \<Rightarrow> bool \<Rightarrow> adapter \<Rightarrow> adapter option" where
  "gpio_host_tx_intention b h gpio_value a =
     (if gpio_value then gpio_repeat_check b h (log (Host_gpio gpio_value) a)
      else Some (log (Host_gpio gpio_value) a))"

definition gpio_handshake_selected :: "driver_assets \<Rightarrow> bool" where
  "gpio_handshake_selected d \<longleftrightarrow>
     lp_ps_handshake_mode d = GPIO_HAND_SHAKE \<or> ulp_ps_handshake_mode d = GPIO_HAND_SHAKE"

definition update_tx_status_gpio :: "build \<Rightarrow> host \<Rightarrow> nat \<Rightarrow> adapter \<Rightarrow> adapter option" where
  "update_tx_status_gpio b h proto_id a =
     (if 2 < proto_id then Some a
      else if drv_state (tech a proto_id) = MODULE_REMOVED then Some a
      else if tx_intention (tech a proto_id) then
        (let a1 = log (Acquire Tx_access_lock) a in
         if common_hal_tx_access (d_assets a1) then
           if ulp_sleep_ack_sent (d_assets a1) then Some (log (Release Tx_access_lock) a1)
           else Some (log (Release Tx_access_lock) (upd_tech proto_id (\<lambda>t. t\<lparr>tx_access := True\<rparr>) a1))
         else if gpio_handshake_selected (d_assets a1) then
           do { a2 \<leftarrow> gpio_host_tx_intention b h True a1;
                let a3 = (if common_hal_tx_access (d_assets a2)
                          then upd_tech proto_id (\<lambda>t. t\<lparr>tx_access := True\<rparr>) a2 else a2);
                Some (log (Release Tx_access_lock) a3) }
         else Some (log (Release Tx_access_lock) a1))
      else if gpio_handshake_selected (d_assets a) then
        (let a1 = log (Acquire Tx_access_lock) a in
         do { a2 \<leftarrow> (if \<not> protocol_tx_access (d_assets a1)
                     then gpio_host_tx_intention b h False
                            (upd_assets (\<lambda>d. d\<lparr>common_hal_tx_access := False\<rparr>) a1)
                     else Some a1);
              Some (log (Release Tx_access_lock) a2) })
      else Some a)"

section \<open>What the handlers do\<close>

lemma protocol_tx_access_iff:
  "protocol_tx_access d \<longleftrightarrow> (\<exists>i<MAX_IDS. drv_state (techs d i) = MODULE_ACTIVE \<and> tx_intention (techs d i))"
  by (auto simp: protocol_tx_access_def list_ex_iff)

lemma send_ulp_sleep_ack_some: "\<exists>a'. send_ulp_sleep_ack h a = Some a'"
  by (simp add: send_ulp_sleep_ack_def send_pkt_to_coex_def coex_queue_at_def Let_def)

lemma send_ulp_sleep_ack_assets:
  "send_ulp_sleep_ack h a = Some a' \<Longrightarrow>
   d_assets a' = (if h_alloc_skb h (trace a) then (d_assets a)\<lparr>ulp_sleep_ack_sent := True\<rparr> else d_assets a)"
  by (auto simp: send_ulp_sleep_ack_def send_pkt_to_coex_def coex_queue_at_def Let_def
      coex_sched_pkt_xmit_def set_coex_queue_def split: if_splits)

lemma send_ulp_sleep_ack_locks:
  "send_ulp_sleep_ack h a = Some a' \<Longrightarrow> locks_held (trace a') = locks_held (trace a)"
  by (auto simp: send_ulp_sleep_ack_def send_pkt_to_coex_def coex_queue_at_def Let_def
      coex_sched_pkt_xmit_def set_coex_queue_def simp del: locks_held.simps split: if_splits)

lemma wake_fold_tech:
  "distinct xs \<Longrightarrow> tech (foldl wake_protocol a xs) i =
     (if i \<in> set xs \<and> deregister_flags (tech a i) \<and> drv_state (tech a i) = MODULE_ACTIVE
      then (tech a i)\<lparr>deregister_flags := False, tx_access := True\<rparr> else tech a i)"
  by (induction xs arbitrary: a) (auto simp: wake_protocol_def)

lemma wake_fold_rest:
  "d_assets (foldl wake_protocol a xs) = (d_assets a)\<lparr>techs := techs (d_assets (foldl wake_protocol a xs))\<rparr>
   \<and> locks_held (trace (foldl wake_protocol a xs)) = locks_held (trace a)
   \<and> coex_queues (foldl wake_protocol a xs) = coex_queues a"
proof (induction xs arbitrary: a)
  case Nil
  show ?case by simp
next
  case (Cons x xs)
  have "d_assets (wake_protocol a x) = (d_assets a)\<lparr>techs := techs (d_assets (wake_protocol a x))\<rparr>"
    and "locks_held (trace (wake_protocol a x)) = locks_held (trace a)"
    and "coex_queues (wake_protocol a x) = coex_queues a"
    by (simp_all add: wake_protocol_def upd_tech_def del: locks_held.simps)
  with Cons.IH [of "wake_protocol a x"] show ?case
    by (simp del: locks_held.simps) (metis driver_assets.update_convs(3) driver_assets.surjective)
qed

lemma wake_protocols_tech:
  "tech (wake_protocols a) i =
     (if i < MAX_IDS \<and> deregister_flags (tech a i) \<and> drv_state (tech a i) = MODULE_ACTIVE
      then (tech a i)\<lparr>deregister_flags := False, tx_access := True\<rparr> else tech a i)"
  unfolding wake_protocols_def by (subst wake_fold_tech) auto

lemma wake_protocols_assets:
  "d_assets (wake_protocols a) = (d_assets a)\<lparr>techs := techs (d_assets (wake_protocols a))\<rparr>"
  using wake_fold_rest unfolding wake_protocols_def by blast

lemma wake_protocols_locks [simp]: "locks_held (trace (wake_protocols a)) = locks_held (trace a)"
  using wake_fold_rest unfolding wake_protocols_def by blast

lemma wake_protocols_queues [simp]: "coex_queues (wake_protocols a) = coex_queues a"
  using wake_fold_rest unfolding wake_protocols_def by blast

lemma wake_protocols_flags [simp]:
  "sleep_entry_recvd (d_assets (wake_protocols a)) = sleep_entry_recvd (d_assets a)"
  "ulp_sleep_ack_sent (d_assets (wake_protocols a)) = ulp_sleep_ack_sent (d_assets a)"
  "common_hal_tx_access (d_assets (wake_protocols a)) = common_hal_tx_access (d_assets a)"
  by (subst wake_protocols_assets, simp)+

section \<open>Lock balance and totality\<close>

lemma update_tx_status_some: "\<exists>a'. update_tx_status h i a = Some a'"
  using send_ulp_sleep_ack_some [of h "log (Acquire Tx_access_lock) a"]
  by (auto simp: update_tx_status_def Let_def)

lemma sleep_entry_recvd_some: "\<exists>a'. sleep_entry_recvd_handler h a = Some a'"
  using send_ulp_sleep_ack_some
    [of h "upd_assets (\<lambda>d. d\<lparr>sleep_entry_recvd := True\<rparr>) (log (Acquire Tx_access_lock) a)"]
  by (auto simp: sleep_entry_recvd_handler_def Let_def)

lemma update_tx_status_locks_lemma:
  assumes "locks_held (trace a) = Some ls" "Tx_access_lock \<notin> set ls" "update_tx_status h i a = Some a'"
  shows "locks_held (trace a') = Some ls"
  using assms
  by (auto simp: update_tx_status_def Let_def split: if_splits bind_splits
      dest!: send_ulp_sleep_ack_locks)

lemma sleep_entry_locks_lemma:
  assumes "locks_held (trace a) = Some ls" "Tx_access_lock \<notin> set ls" "sleep_entry_recvd_handler h a = Some a'"
  shows "locks_held (trace a') = Some ls"
  using assms
  by (auto simp: sleep_entry_recvd_handler_def Let_def split: if_splits bind_splits
      dest!: send_ulp_sleep_ack_locks)

text \<open>
  C1. The handlers of the power manager never fault and leave the semaphores as they
  found them on every path, the early returns included.
\<close>

theorem power_manager_lock_balance:
  assumes "locks_held (trace a) = Some ls" and "Tx_access_lock \<notin> set ls"
  shows "(\<exists>a'. update_tx_status h i a = Some a' \<and> locks_held (trace a') = Some ls) \<and>
         (\<exists>a'. sleep_entry_recvd_handler h a = Some a' \<and> locks_held (trace a') = Some ls) \<and>
         locks_held (trace (sleep_exit_recvd a)) = Some ls"
  using update_tx_status_some [of h i a] sleep_entry_recvd_some [of h a]
    update_tx_status_locks_lemma [OF assms] sleep_entry_locks_lemma [OF assms] assms
  by (auto simp: sleep_exit_recvd_def Let_def)

theorem power_manager_lock_balance_witness:
  "\<exists>a'. update_tx_status calm_host ZB_ID idle_adapter = Some a' \<and> locks_held (trace a') = Some []"
  using power_manager_lock_balance [of idle_adapter "[]" calm_host ZB_ID] by (simp add: idle_adapter_def)

section \<open>The handlers on the shared flags\<close>

lemma update_tx_status_assets:
  assumes "update_tx_status h i a = Some a'"
  shows "d_assets a' = d_assets a \<or>
     (i < MAX_IDS \<and> tx_intention (tech a i) \<and> common_hal_tx_access (d_assets a) \<and> \<not> ulp_sleep_ack_sent (d_assets a) \<and>
      d_assets a' = (d_assets a)\<lparr>techs := (techs (d_assets a))(i := (tech a i)\<lparr>tx_access := True\<rparr>)\<rparr>) \<or>
     (sleep_entry_recvd (d_assets a) \<and> \<not> protocol_tx_access (d_assets a) \<and>
      d_assets a' = (d_assets a)\<lparr>ulp_sleep_ack_sent := True\<rparr>)"
  using assms
  by (auto simp: update_tx_status_def Let_def upd_tech_def split: if_splits bind_splits
      dest!: send_ulp_sleep_ack_assets)

lemma sleep_entry_assets:
  assumes "sleep_entry_recvd_handler h a = Some a'"
  shows "if protocol_tx_access (d_assets a)
    then d_assets a' = (d_assets a)\<lparr>sleep_entry_recvd := True, common_hal_tx_access := True,
                          ulp_sleep_ack_sent := False, techs := techs (d_assets (wake_protocols a))\<rparr>
    else d_assets a' = (d_assets a)\<lparr>sleep_entry_recvd := True\<rparr> \<or>
         d_assets a' = (d_assets a)\<lparr>sleep_entry_recvd := True, ulp_sleep_ack_sent := True\<rparr>"
proof -
  let ?a1 = "upd_assets (\<lambda>d. d\<lparr>sleep_entry_recvd := True\<rparr>) (log (Acquire Tx_access_lock) a)"
  let ?a2 = "upd_assets (\<lambda>d. d\<lparr>common_hal_tx_access := True, ulp_sleep_ack_sent := False\<rparr>) ?a1"
  have acc: "protocol_tx_access (d_assets ?a1) = protocol_tx_access (d_assets a)"
    by (simp add: protocol_tx_access_def)
  have w: "techs (d_assets (wake_protocols ?a2)) = techs (d_assets (wake_protocols a))"
    by (rule ext) (simp add: wake_protocols_tech)
  have "d_assets (wake_protocols ?a2) = (d_assets ?a2)\<lparr>techs := techs (d_assets (wake_protocols a))\<rparr>"
    using wake_protocols_assets [of ?a2] w by simp
  with acc assms show ?thesis
    by (auto simp: sleep_entry_recvd_handler_def Let_def split: if_splits bind_splits
        dest!: send_ulp_sleep_ack_assets)
qed

lemma sleep_exit_assets:
  "d_assets (sleep_exit_recvd a) = (d_assets a)\<lparr>sleep_entry_recvd := False, common_hal_tx_access := True,
     ulp_sleep_ack_sent := False, techs := techs (d_assets (wake_protocols a))\<rparr>"
proof -
  let ?a = "log (Release Tx_access_lock) (upd_assets (\<lambda>d. d\<lparr>sleep_entry_recvd := False,
      common_hal_tx_access := True, ulp_sleep_ack_sent := False\<rparr>) (log (Acquire Tx_access_lock) a))"
  have "techs (d_assets (wake_protocols ?a)) = techs (d_assets (wake_protocols a))"
    by (rule ext) (simp add: wake_protocols_tech)
  then show ?thesis
    using wake_protocols_assets [of ?a] by (simp add: sleep_exit_recvd_def Let_def)
qed

section \<open>The protocol between the protocols and the power manager\<close>

text \<open>
  Every step the three protocols, the firmware and the transmit thread can make on the
  shared flags, as the code makes it. A protocol sets its intention and asks
  (\<open>Asks\<close>), waits for the event when it was refused (\<open>Waits\<close>), gives the bus
  back (\<open>Hands_back\<close>), or is registered and deregistered (\<open>Changes_state\<close>);
  \<open>Ack_written\<close> is the end of \<^verbatim>\<open>coex_pkt_xmit\<close> after it has written
  an acknowledgement.
\<close>

datatype arb_event =
    Sleep_request_read | Sleep_exit_read | Asks nat | Waits nat | Hands_back nat
  | Changes_state nat drv_state | Ack_written

inductive arb_step :: "host \<Rightarrow> arb_event \<Rightarrow> adapter \<Rightarrow> adapter \<Rightarrow> bool" for h :: host where
  sleep_entry: "sleep_entry_recvd_handler h a = Some a' \<Longrightarrow> arb_step h Sleep_request_read a a'"
| sleep_exit: "arb_step h Sleep_exit_read a (sleep_exit_recvd a)"
| request: "i < MAX_IDS \<Longrightarrow> update_tx_status h i (upd_tech i (\<lambda>t. t\<lparr>tx_intention := True\<rparr>) a) = Some a' \<Longrightarrow>
     arb_step h (Asks i) a a'"
| wait: "i < MAX_IDS \<Longrightarrow> tx_intention (tech a i) \<Longrightarrow> \<not> tx_access (tech a i) \<Longrightarrow>
     arb_step h (Waits i) a (upd_tech i (\<lambda>t. t\<lparr>deregister_flags := True\<rparr>) a)"
| release: "i < MAX_IDS \<Longrightarrow>
     update_tx_status h i (upd_tech i (\<lambda>t. t\<lparr>tx_intention := False, tx_access := False\<rparr>) a) = Some a' \<Longrightarrow>
     arb_step h (Hands_back i) a a'"
| new_state: "i < MAX_IDS \<Longrightarrow>
     arb_step h (Changes_state i s) a (upd_tech i (\<lambda>t. t\<lparr>drv_state := s\<rparr>) a)"
| ack_written:
     "arb_step h Ack_written a
        (if sleep_entry_recvd (d_assets a)
         then upd_assets (\<lambda>d. d\<lparr>ulp_sleep_ack_sent := True, common_hal_tx_access := False\<rparr>) a else a)"

text \<open>
  The order of events the handshake relies on and the code does not test: a protocol gives
  the bus back with its wait flag clear (its wait has not timed out), becomes active
  before it asks, and an acknowledgement is written while it is still due. The first and
  the third can be broken: \<open>stale_wait_flag_breaks_handshake\<close> below and
  \<open>Tx_Scheduling.stale_ack_flag_revokes_access\<close>.
\<close>

fun orderly :: "arb_event \<Rightarrow> adapter \<Rightarrow> bool" where
  "orderly (Hands_back i) a \<longleftrightarrow> \<not> deregister_flags (tech a i)"
| "orderly (Changes_state i s) a \<longleftrightarrow> s \<noteq> MODULE_ACTIVE \<or> \<not> tx_intention (tech a i)"
| "orderly Ack_written a \<longleftrightarrow> \<not> sleep_entry_recvd (d_assets a) \<or> ulp_sleep_ack_sent (d_assets a)"
| "orderly _ a \<longleftrightarrow> True"

inductive arb_reachable :: "host \<Rightarrow> adapter \<Rightarrow> adapter \<Rightarrow> bool" for h :: host and a0 :: adapter where
  start: "arb_reachable h a0 a0"
| step: "arb_reachable h a0 a \<Longrightarrow> arb_step h e a a' \<Longrightarrow> orderly e a \<Longrightarrow> arb_reachable h a0 a'"

definition arb_inv :: "driver_assets \<Rightarrow> bool" where
  "arb_inv d \<longleftrightarrow>
     (\<forall>i<MAX_IDS. (tx_access (techs d i) \<longrightarrow> tx_intention (techs d i)) \<and>
                  (deregister_flags (techs d i) \<longrightarrow> tx_intention (techs d i)) \<and>
                  (drv_state (techs d i) = MODULE_ACTIVE \<and> tx_access (techs d i) \<longrightarrow>
                     common_hal_tx_access d \<and> \<not> ulp_sleep_ack_sent d)) \<and>
     (ulp_sleep_ack_sent d \<longrightarrow> sleep_entry_recvd d)"

lemma arb_inv_ack:
  "arb_inv d \<Longrightarrow> sleep_entry_recvd d \<Longrightarrow> \<not> protocol_tx_access d \<Longrightarrow> arb_inv (d\<lparr>ulp_sleep_ack_sent := True\<rparr>)"
  by (auto simp: arb_inv_def protocol_tx_access_iff)

lemma arb_inv_entry: "arb_inv d \<Longrightarrow> arb_inv (d\<lparr>sleep_entry_recvd := True\<rparr>)"
  by (simp add: arb_inv_def)

lemma arb_inv_wake:
  "arb_inv (d_assets a) \<Longrightarrow>
   arb_inv ((d_assets a)\<lparr>sleep_entry_recvd := b, common_hal_tx_access := True, ulp_sleep_ack_sent := False,
              techs := techs (d_assets (wake_protocols a))\<rparr>)"
  by (auto simp: arb_inv_def wake_protocols_tech)

lemma arb_inv_update:
  assumes "arb_inv (d_assets a)" "update_tx_status h i a = Some a'"
  shows "arb_inv (d_assets a')"
  using update_tx_status_assets [OF assms(2)] assms(1) arb_inv_ack [OF assms(1)]
  by (elim disjE conjE) (simp_all add: arb_inv_def)

lemma arb_inv_sleep_entry:
  assumes "arb_inv (d_assets a)" "sleep_entry_recvd_handler h a = Some a'"
  shows "arb_inv (d_assets a')"
proof (cases "protocol_tx_access (d_assets a)")
  case True
  with sleep_entry_assets [OF assms(2)] arb_inv_wake [OF assms(1), of True]
  show ?thesis by simp
next
  case False
  then have "\<not> protocol_tx_access ((d_assets a)\<lparr>sleep_entry_recvd := True\<rparr>)"
    by (simp add: protocol_tx_access_def)
  with arb_inv_ack [OF arb_inv_entry [OF assms(1)]] arb_inv_entry [OF assms(1)] False
    sleep_entry_assets [OF assms(2)]
  show ?thesis by auto
qed

lemma arb_step_inv: "arb_step h e a a' \<Longrightarrow> orderly e a \<Longrightarrow> arb_inv (d_assets a) \<Longrightarrow> arb_inv (d_assets a')"
proof (induction rule: arb_step.induct)
  case (sleep_entry a a')
  then show ?case by (blast intro: arb_inv_sleep_entry)
next
  case (sleep_exit a)
  then show ?case using arb_inv_wake [of a False] by (simp add: sleep_exit_assets)
next
  case (request i a a')
  from request.prems have "arb_inv (d_assets (upd_tech i (\<lambda>t. t\<lparr>tx_intention := True\<rparr>) a))"
    by (simp add: arb_inv_def)
  with request.hyps show ?case by (blast intro: arb_inv_update)
next
  case (wait i a)
  then show ?case by (simp add: arb_inv_def)
next
  case (release i a a')
  from release.prems release.hyps
  have "arb_inv (d_assets (upd_tech i (\<lambda>t. t\<lparr>tx_intention := False, tx_access := False\<rparr>) a))"
    by (simp add: arb_inv_def)
  with release.hyps show ?case by (blast intro: arb_inv_update)
next
  case (new_state i s a)
  then show ?case by (auto simp: arb_inv_def)
next
  case (ack_written a)
  then show ?case by (auto simp: arb_inv_def)
qed

lemma arb_reachable_inv:
  "arb_reachable h a0 a \<Longrightarrow> arb_inv (d_assets a0) \<Longrightarrow> arb_inv (d_assets a)"
  by (induction rule: arb_reachable.induct) (auto intro: arb_step_inv)


definition arb_example :: adapter where
  \<comment> \<open>a device that has said it is awake, and an active WLAN module asking for the bus\<close>
  "arb_example = sleep_exit_recvd (upd_tech WLAN_ID (\<lambda>_. active_tech) idle_adapter)"


section \<open>The sleep handshake on every branch\<close>

lemma send_ulp_sleep_ack_effect:
  assumes "global_priv (d_assets a)" "h_alloc_skb h (trace a)" "send_ulp_sleep_ack h a = Some a'"
  shows "coex_queues a' = (coex_queues a)(0 := coex_queues a 0 @
           [(fresh_netbuf (ulp_sleep_ack_frame (ulp_sleep_token a)))\<lparr>tx_pkt_type := COEX_Q\<rparr>]) \<and>
         d_assets a' = (d_assets a)\<lparr>ulp_sleep_ack_sent := True\<rparr> \<and>
         trace a' = Set_event Scheduler_event # trace a"
  using assms
  by (auto simp: send_ulp_sleep_ack_def send_pkt_to_coex_queued coex_sched_pkt_xmit_def set_coex_queue_def)

lemma sleep_request_cases:
  assumes "global_priv (d_assets a)" and "h_alloc_skb h (Acquire Tx_access_lock # trace a)"
    and "sleep_entry_recvd_handler h a = Some a'"
  shows "if protocol_tx_access (d_assets a)
    then coex_queues a' = coex_queues a \<and> common_hal_tx_access (d_assets a') \<and> \<not> ulp_sleep_ack_sent (d_assets a') \<and>
         (\<forall>i<MAX_IDS. deregister_flags (tech a i) \<and> drv_state (tech a i) = MODULE_ACTIVE \<longrightarrow>
            tx_access (tech a' i) \<and> \<not> deregister_flags (tech a' i))
    else coex_queues a' = (coex_queues a)(0 := coex_queues a 0 @
           [(fresh_netbuf (ulp_sleep_ack_frame (ulp_sleep_token a)))\<lparr>tx_pkt_type := COEX_Q\<rparr>]) \<and>
         ulp_sleep_ack_sent (d_assets a') \<and> techs (d_assets a') = techs (d_assets a)"
proof -
  let ?a1 = "upd_assets (\<lambda>d. d\<lparr>sleep_entry_recvd := True\<rparr>) (log (Acquire Tx_access_lock) a)"
  have acc: "protocol_tx_access (d_assets ?a1) = protocol_tx_access (d_assets a)"
    by (simp add: protocol_tx_access_def)
  show ?thesis
  proof (cases "protocol_tx_access (d_assets a)")
    case True
    with assms(3) acc show ?thesis
      by (simp add: sleep_entry_recvd_handler_def Let_def wake_protocols_tech)
        (auto simp: wake_protocols_tech)
  next
    case False
    with assms(3) acc obtain a2 where "send_ulp_sleep_ack h ?a1 = Some a2" "a' = log (Release Tx_access_lock) a2"
      by (auto simp: sleep_entry_recvd_handler_def Let_def split: bind_splits)
    with send_ulp_sleep_ack_effect [of ?a1 h a2] assms(1,2) False show ?thesis by simp
  qed
qed

text \<open>
  The firmware's sleep request is answered on both branches: when an active protocol
  wants to send, the request is refused, the queues are untouched and every waiting
  active protocol is woken with access; otherwise exactly one acknowledgement with the
  request's token is queued for the device and no protocol is given access.
\<close>

theorem sleep_request_answered:
  assumes "global_priv (d_assets a)" and "h_alloc_skb h (Acquire Tx_access_lock # trace a)"
    and "sleep_entry_recvd_handler h a = Some a'"
  shows "if protocol_tx_access (d_assets a)
    then coex_queues a' = coex_queues a \<and> common_hal_tx_access (d_assets a') \<and> \<not> ulp_sleep_ack_sent (d_assets a') \<and>
         (\<forall>i<MAX_IDS. deregister_flags (tech a i) \<and> drv_state (tech a i) = MODULE_ACTIVE \<longrightarrow>
            tx_access (tech a' i) \<and> \<not> deregister_flags (tech a' i))
    else coex_queues a' = (coex_queues a)(0 := coex_queues a 0 @
           [(fresh_netbuf (ulp_sleep_ack_frame (ulp_sleep_token a)))\<lparr>tx_pkt_type := COEX_Q\<rparr>]) \<and>
         ulp_sleep_ack_sent (d_assets a') \<and> techs (d_assets a') = techs (d_assets a)"
  using sleep_request_cases [OF assms] .

theorem sleep_request_answered_witness:
  "\<exists>a'. sleep_entry_recvd_handler calm_host idle_adapter = Some a' \<and>
        length (coex_queues a' 0) = 1 \<and> ulp_sleep_ack_sent (d_assets a')"
proof -
  obtain a' where a: "sleep_entry_recvd_handler calm_host idle_adapter = Some a'"
    using sleep_entry_recvd_some by blast
  have "\<not> protocol_tx_access (d_assets idle_adapter)"
    by (simp add: protocol_tx_access_iff example_defs)
  with sleep_request_answered [OF _ _ a] a show ?thesis
    by (simp add: example_defs)
qed

lemma wake_fold_signals:
  "distinct xs \<Longrightarrow> i \<in> set xs \<Longrightarrow> deregister_flags (tech a i) \<Longrightarrow> drv_state (tech a i) = MODULE_ACTIVE \<Longrightarrow>
   Wake_up i \<in> set (trace (foldl wake_protocol a xs))"
proof (induction xs arbitrary: a)
  case Nil
  then show ?case by simp
next
  case (Cons x xs)
  have mono: "set (trace a) \<subseteq> set (trace (foldl wake_protocol a xs))" for a
    by (induction xs arbitrary: a) (force simp: wake_protocol_def)+
  show ?case
  proof (cases "x = i")
    case True
    with Cons.prems have "Wake_up i \<in> set (trace (wake_protocol a x))"
      by (simp add: wake_protocol_def)
    with mono show ?thesis by auto
  next
    case False
    with Cons.prems have "tech (wake_protocol a x) i = tech a i"
      by (simp add: wake_protocol_def)
    with False Cons show ?thesis by simp
  qed
qed

text \<open>
  When the device wakes up, every active protocol that waits is given the bus, its
  wait flag is cleared and its event is signalled; the other protocols keep their state.
\<close>

theorem sleep_exit_wakes_waiting:
  "(\<forall>i<MAX_IDS. if deregister_flags (tech a i) \<and> drv_state (tech a i) = MODULE_ACTIVE
     then tx_access (tech (sleep_exit_recvd a) i) \<and> \<not> deregister_flags (tech (sleep_exit_recvd a) i) \<and>
          Wake_up i \<in> set (trace (sleep_exit_recvd a))
     else tech (sleep_exit_recvd a) i = tech a i) \<and>
   common_hal_tx_access (d_assets (sleep_exit_recvd a)) \<and> \<not> sleep_entry_recvd (d_assets (sleep_exit_recvd a))"
proof -
  let ?a = "log (Release Tx_access_lock) (upd_assets (\<lambda>d. d\<lparr>sleep_entry_recvd := False,
      common_hal_tx_access := True, ulp_sleep_ack_sent := False\<rparr>) (log (Acquire Tx_access_lock) a))"
  have "Wake_up i \<in> set (trace (sleep_exit_recvd a))"
    if "i < MAX_IDS" "deregister_flags (tech a i)" "drv_state (tech a i) = MODULE_ACTIVE" for i
    using wake_fold_signals [of "[0..<MAX_IDS]" i ?a] that
    by (simp add: sleep_exit_recvd_def wake_protocols_def Let_def)
  then show ?thesis by (simp add: sleep_exit_assets wake_protocols_tech)
qed

theorem sleep_exit_wakes_waiting_witness:
  "tx_access (tech (sleep_exit_recvd (upd_tech BT_ID (\<lambda>_. active_tech\<lparr>deregister_flags := True\<rparr>) idle_adapter)) BT_ID)"
  using sleep_exit_wakes_waiting [of "upd_tech BT_ID (\<lambda>_. active_tech\<lparr>deregister_flags := True\<rparr>) idle_adapter",
      THEN conjunct1, THEN spec, of BT_ID]
  by (simp add: active_tech_def)

text \<open>
  The release of a protocol whose wait has timed out leaves \<^verbatim>\<open>deregister_flags\<close>
  set: the next wake-up gives it the bus although it no longer wants to send, and the next
  sleep request is acknowledged while it holds the bus. This is why \<open>orderly\<close> above
  asks for the flag to be clear.
\<close>

lemma stale_wait_flag_breaks_handshake:
  "\<exists>a. sleep_entry_recvd_handler calm_host
          (sleep_exit_recvd (upd_tech BT_ID (\<lambda>_. active_tech\<lparr>deregister_flags := True, tx_intention := False\<rparr>) idle_adapter))
        = Some a \<and> tx_access (tech a BT_ID) \<and> \<not> tx_intention (tech a BT_ID) \<and> ulp_sleep_ack_sent (d_assets a)"
proof -
  let ?a0 = "upd_tech BT_ID (\<lambda>_. active_tech\<lparr>deregister_flags := True, tx_intention := False\<rparr>) idle_adapter"
  obtain a where a: "sleep_entry_recvd_handler calm_host (sleep_exit_recvd ?a0) = Some a"
    using sleep_entry_recvd_some by blast
  have n: "\<not> protocol_tx_access (d_assets (sleep_exit_recvd ?a0))"
    by (auto simp: protocol_tx_access_iff sleep_exit_assets wake_protocols_tech example_defs)
  from sleep_request_cases [OF _ _ a] n a show ?thesis
    by (auto simp: sleep_exit_assets wake_protocols_tech example_defs upd_tech_def)
qed

section \<open>The GPIO handshake: when it ends and when it does not\<close>

abbreviation gpio_reads :: "adapter \<Rightarrow> nat" where
  "gpio_reads a \<equiv> length (filter (\<lambda>e. e = Read_gpio) (trace a))"

lemma gpio_poll_low:
  assumes "\<And>t. \<not> h_device_gpio h t"
  shows "counter \<le> 31 \<Longrightarrow> \<exists>a'. gpio_poll b h counter a = Some a' \<and> d_assets a' = d_assets a \<and>
           gpio_reads a' = gpio_reads a + (32 - counter)"
proof (induction "31 - counter" arbitrary: counter a)
  case 0
  then show ?case by (subst gpio_poll.simps) (simp add: read_device_gpio_def assms)
next
  case (Suc n)
  then have "counter \<le> 30" "n = 31 - Suc counter" by auto
  with Suc.hyps(1) [of "Suc counter" "log Read_gpio (log (Msleep 1) a)"] show ?case
    by (subst gpio_poll.simps) (auto simp: read_device_gpio_def assms Suc_diff_le)
qed

text \<open>
  With a device line that stays low the handshake gives up after thirty-three reads
  and grants nothing; with a line that reads high twice it grants the access. It always
  returns in these two cases.
\<close>

theorem gpio_handshake_terminates:
  "((\<forall>t. \<not> h_device_gpio h t) \<longrightarrow>
      (\<exists>a'. gpio_host_tx_intention b h True a = Some a' \<and> d_assets a' = d_assets a \<and>
            gpio_reads a' = gpio_reads a + 33)) \<and>
   ((\<forall>t. h_device_gpio h t) \<longrightarrow>
      (\<exists>a'. gpio_host_tx_intention b h True a = Some a' \<and> common_hal_tx_access (d_assets a') \<and>
            gpio_reads a' = gpio_reads a + 2))"
proof (intro conjI impI)
  assume low: "\<forall>t. \<not> h_device_gpio h t"
  then show "\<exists>a'. gpio_host_tx_intention b h True a = Some a' \<and> d_assets a' = d_assets a \<and>
      gpio_reads a' = gpio_reads a + 33"
    using gpio_poll_low [of h 0 b "log Read_gpio (log (Host_gpio True) a)"]
    by (auto simp: gpio_host_tx_intention_def gpio_repeat_check.simps [of b h "log (Host_gpio True) a"]
        read_device_gpio_def)
next
  assume "\<forall>t. h_device_gpio h t"
  then show "\<exists>a'. gpio_host_tx_intention b h True a = Some a' \<and> common_hal_tx_access (d_assets a') \<and>
      gpio_reads a' = gpio_reads a + 2"
    by (simp add: gpio_host_tx_intention_def gpio_repeat_check.simps [of b h "log (Host_gpio True) a"]
        read_device_gpio_def gpio_grant_def)
qed

theorem gpio_handshake_terminates_witness:
  "\<exists>a'. gpio_host_tx_intention shipped_build calm_host True idle_adapter = Some a' \<and> gpio_reads a' = 33"
  using gpio_handshake_terminates [of calm_host shipped_build idle_adapter] by (auto simp: example_defs)

text \<open>
  The retry after a line that was high for less than two milliseconds does not advance the
  counter: with a line that is high at each first read and low at each second one the poll
  never ends, and the caller holds the access semaphore meanwhile.
\<close>

definition bouncing_gpio :: host where
  "bouncing_gpio = calm_host\<lparr>h_device_gpio :=
     (\<lambda>t. case t of _ # Msleep n # _ \<Rightarrow> n = 1 | _ \<Rightarrow> False)\<rparr>"

lemma bouncing_gpio_read: "h_device_gpio bouncing_gpio (e # Msleep n # t) \<longleftrightarrow> n = 1"
  by (simp add: bouncing_gpio_def)

lemma gpio_poll_bouncing_diverges:
  assumes ret: "gpio_poll b h counter a = Some r" and h: "h = bouncing_gpio"
  shows False
proof -
  have "\<forall>h'. h' = h \<longrightarrow> h' = bouncing_gpio \<longrightarrow> False"
  proof (rule gpio_poll.raw_induct [where P = "\<lambda>b h c a r. \<forall>h'. h' = h \<longrightarrow> h' = bouncing_gpio \<longrightarrow> False", OF _ ret])
    fix f b h c a r
    assume IH: "\<And>b h c a r. f b h c a = Some r \<Longrightarrow> \<forall>h'. h' = h \<longrightarrow> h' = bouncing_gpio \<longrightarrow> False"
      and eq: "(case read_device_gpio h (log (Msleep 1) a) of (high, a1) \<Rightarrow>
        if high then
          (case read_device_gpio h (log (Msleep 2) a1) of (still_high, a2) \<Rightarrow>
             if still_high then Some (gpio_grant b True a2) else f b h c a2)
        else if 30 < c then Some a1 else f b h (Suc c) a1) = Some r"
    show "\<forall>h'. h' = h \<longrightarrow> h' = bouncing_gpio \<longrightarrow> False"
    proof (intro allI impI)
      fix h' assume "h' = h" "h' = bouncing_gpio"
      then have h: "h = bouncing_gpio" by simp
      from eq have "f b h c (log Read_gpio (log (Msleep 2) (log Read_gpio (log (Msleep 1) a)))) = Some r"
        unfolding h by (simp add: read_device_gpio_def bouncing_gpio_read)
      from IH [OF this] \<open>h' = h\<close> \<open>h' = bouncing_gpio\<close> show False by blast
    qed
  qed
  with h show False by blast
qed

lemma gpio_handshake_may_not_return: "gpio_host_tx_intention b bouncing_gpio True a = None"
proof (cases "gpio_host_tx_intention b bouncing_gpio True a")
  case (Some r)
  then have "gpio_poll b bouncing_gpio 0 (log Read_gpio (log (Host_gpio True) a)) = Some r"
    by (simp add: gpio_host_tx_intention_def gpio_repeat_check.simps read_device_gpio_def bouncing_gpio_def)
  then show ?thesis using gpio_poll_bouncing_diverges by blast
qed simp

end
