(* ===== verification/Dev_Config.thy ===== *)
theory Dev_Config
  imports Coex_Queues
begin

text \<open>
  The common device configuration frame
  (\<^verbatim>\<open>onebox_common_dev_config_params.c\<close>): sixteen bytes of descriptor,
  thirty-two of parameters, padded in front so that the buffer is 64-byte aligned. The
  GPIO bit maps are globals of the source, so they are state here.
\<close>

text \<open>A GPIO is used when its bit is clear; bit fields are allocated from bit 0 up.\<close>

abbreviation use_gpio :: "nat \<Rightarrow> 'a::len word \<Rightarrow> 'a word" where
  "use_gpio n w \<equiv> unset_bit n w"

text \<open>
  Lines 128 to 137: the word \<^verbatim>\<open>frame_body[1]\<close> before the GPIO map and the SoC map
  after the host wake-up interrupt was taken into account.
\<close>

definition wakeup_word :: "u8 \<Rightarrow> dev_config \<Rightarrow> u16" where
  "wakeup_word rf_power c =
     (if rf_power = RF_POWER_3_3 then 2 else 0)
     OR (if host_wakeup_intr_enable c \<noteq> 0 then 4 OR (if host_wakeup_intr_active_high c \<noteq> 0 then 8 else 0) else 0)"

text \<open>Lines 128 to 175: the global bit maps after the call.\<close>

definition configured_gpios :: "driver_assets \<Rightarrow> dev_config \<Rightarrow> dev_config" where
  "configured_gpios d c =
     (let lp = (lp_ps_handshake_mode d = GPIO_HAND_SHAKE);
          ulp = (ulp_ps_handshake_mode d = GPIO_HAND_SHAKE);
          soc0 = (if host_wakeup_intr_enable c \<noteq> 0 then use_gpio 2 (unused_soc_gpio_bitmap c)
                  else unused_soc_gpio_bitmap c);
          soc1 = (if lp then use_gpio 15 soc0 else soc0);
          ulp1 = (if ulp then use_gpio 0 (unused_ulp_gpio_bitmap c) else unused_ulp_gpio_bitmap c);
          soc2 = (if (lp \<or> ulp) \<and> device_gpio_type d = TA_GPIO then use_gpio 21 soc1 else soc1);
          ulp2 = (if (lp \<or> ulp) \<and> device_gpio_type d \<noteq> TA_GPIO then use_gpio 1 ulp1 else ulp1);
          soc3 = (if ext_pa_or_bt_coex_en c \<noteq> 0 then use_gpio 19 (use_gpio 18 (use_gpio 17 soc2)) else soc2)
      in c\<lparr>unused_soc_gpio_bitmap := soc3, unused_ulp_gpio_bitmap := ulp2, dev_opermode := oper_mode d\<rparr>)"

text \<open>
  \<^verbatim>\<open>frame_body[1]\<close>: the ULP map goes in as it was before the call (line 141), the
  SoC map below as it is after it (line 185).
\<close>

definition frame_body_1 :: "driver_assets \<Rightarrow> dev_config \<Rightarrow> u16" where
  "frame_body_1 d c =
     (wakeup_word (rf_power_val d) c OR push_bit 8 (ucast (unused_ulp_gpio_bitmap c)))
     OR (if (lp_ps_handshake_mode d = GPIO_HAND_SHAKE \<or> ulp_ps_handshake_mode d = GPIO_HAND_SHAKE)
            \<and> device_gpio_type d \<noteq> TA_GPIO then 1 else 0)"

definition common_dev_config_frame :: "driver_assets \<Rightarrow> dev_config \<Rightarrow> u8 \<Rightarrow> u8 \<Rightarrow> bytes \<Rightarrow> bytes" where
  "common_dev_config_frame d c driver_mode extnd_size garbage =
     (let c' = configured_gpios d c; soc = unused_soc_gpio_bitmap c'
      in set_word 15 (two_bytes (region_code d) (obm_ant_sel_val d))
        (set_word 14 (two_bytes (zigb_rf_power_mode d) driver_mode)
        (set_word 13 (two_bytes (wlan_rf_power_mode d) (bt_rf_power_mode d))
        (set_word 12 (two_bytes (ext_pa_or_bt_coex_en c) (dev_opermode c'))
        (set_word 11 (ucast (drop_bit 16 soc))
        (set_word 10 (ucast soc)
        (set_word 9 (frame_body_1 d c)
        (set_word 8 (two_bytes (lp_ps_handshake_mode d) (ulp_ps_handshake_mode d))
        (set_word 1 (ucast COMMON_DEV_CONFIG)
        (set_word 0 ((32 + ucast extnd_size) OR push_bit 12 (ucast COEX_TX_Q))
           (replicate 48 0 @ garbage)))))))))))"

definition onebox_configure_common_dev_params :: "host \<Rightarrow> adapter \<Rightarrow> (status \<times> adapter) option" where
  "onebox_configure_common_dev_params h a =
     (if \<not> h_alloc_skb h (trace a) then Some (ONEBOX_STATUS_FAILURE, a)
      else if lp_ps_handshake_mode (d_assets a) = PACKET_HAND_SHAKE then Some (ONEBOX_STATUS_FAILURE, a)
      else do { let extnd_size = h_skb_misalign h (trace a) AND 0x3f;
                let d = common_dev_config_frame (d_assets a) (dev_config_vals a) (Driver_Mode a) extnd_size
                          (frame_padding 48 extnd_size (h_skb_garbage h (trace a)));
                let nb = (fresh_netbuf d)\<lparr>tx_pkt_type := COEX_Q\<rparr>;
                (_, a1) \<leftarrow> send_pkt_to_coex h nb COEX_Q
                             (a\<lparr>dev_config_vals := configured_gpios (d_assets a) (dev_config_vals a)\<rparr>);
                Some (ONEBOX_STATUS_SUCCESS, a1) })"

section \<open>Facts\<close>

lemma onebox_configure_some: "\<exists>r. onebox_configure_common_dev_params h a = Some r"
  by (simp add: onebox_configure_common_dev_params_def send_pkt_to_coex_def coex_queue_at_def Let_def)

lemma onebox_configure_effect:
  assumes "onebox_configure_common_dev_params h a = Some (s, a')"
  shows "d_assets a' = d_assets a \<and> locks_held (trace a') = locks_held (trace a) \<and>
         deferred_rx_queue a' = deferred_rx_queue a \<and> fsm_state a' = fsm_state a \<and>
         host_intf_type a' = host_intf_type a \<and> extends (trace a) (trace a')"
  using assms
  by (auto simp: onebox_configure_common_dev_params_def send_pkt_to_coex_def coex_queue_at_def Let_def
      coex_sched_pkt_xmit_def set_coex_queue_def extends_def simp del: locks_held.simps split: if_splits)

section \<open>What the device reads from the frame\<close>

lemma length_common_dev_config_frame [simp]:
  "length (common_dev_config_frame d c m e g) = 48 + length g"
  by (simp add: common_dev_config_frame_def Let_def)

lemma common_dev_config_frame_bytes:
  assumes "i < 48"
  shows "common_dev_config_frame d c m e g ! i =
    (let c' = configured_gpios d c; soc = unused_soc_gpio_bitmap c'; w = frame_body_1 d c in
     if i = 0 then ucast (32 + ucast e :: u16) else if i = 1 then ucast (drop_bit 8 (32 + ucast e :: u16))
     else if i = 2 then COMMON_DEV_CONFIG
     else if i = 16 then lp_ps_handshake_mode d else if i = 17 then ulp_ps_handshake_mode d
     else if i = 18 then ucast w else if i = 19 then ucast (drop_bit 8 w)
     else if i = 20 then ucast soc else if i = 21 then ucast (drop_bit 8 soc)
     else if i = 22 then ucast (drop_bit 16 soc) else if i = 23 then ucast (drop_bit 24 soc)
     else if i = 24 then ext_pa_or_bt_coex_en c else if i = 25 then oper_mode d
     else if i = 26 then wlan_rf_power_mode d else if i = 27 then bt_rf_power_mode d
     else if i = 28 then zigb_rf_power_mode d else if i = 29 then m
     else if i = 30 then region_code d else if i = 31 then obm_ant_sel_val d else 0)"
proof -
  have soc: "ucast (ucast s :: u16) = (ucast s :: u8)"
    "ucast (drop_bit 8 (ucast s :: u16)) = (ucast (drop_bit 8 s) :: u8)"
    "ucast (ucast (drop_bit 16 s) :: u16) = (ucast (drop_bit 16 s) :: u8)"
    "ucast (drop_bit 8 (ucast (drop_bit 16 s) :: u16)) = (ucast (drop_bit 24 s) :: u8)" for s :: u32
    by (rule bit_word_eqI, auto simp: bit_simps ac_simps)+
  show ?thesis
    using assms
    by (auto simp: common_dev_config_frame_def Let_def set_word_nth nth_append soc configured_gpios_def)
qed

text \<open>
  The configuration frame is one packet of the COEX queue: its type byte says
  COMMON\_DEV\_CONFIG, its length field covers the parameters and the padding, and at their
  offsets the device reads back the two handshake modes, the SoC GPIO map the driver now
  holds, the operating mode, the RF power modes, the region and the antenna.
\<close>

theorem dev_config_frame_queued:
  assumes "global_priv (d_assets a)" and "h_alloc_skb h (trace a)"
    and "lp_ps_handshake_mode (d_assets a) \<noteq> PACKET_HAND_SHAKE"
  shows "\<exists>a' nb. onebox_configure_common_dev_params h a = Some (ONEBOX_STATUS_SUCCESS, a') \<and>
     coex_queues a' = (coex_queues a)(0 := coex_queues a 0 @ [nb]) \<and> tx_pkt_type nb = COEX_Q \<and>
     rd16 (nb_data nb) 0 = Some (32 + ucast (h_skb_misalign h (trace a) AND 0x3f)) \<and>
     length (nb_data nb) = 48 + unat (h_skb_misalign h (trace a) AND 0x3f) \<and>
     rd8 (nb_data nb) 2 = Some COMMON_DEV_CONFIG \<and>
     rd8 (nb_data nb) 16 = Some (lp_ps_handshake_mode (d_assets a)) \<and>
     rd8 (nb_data nb) 17 = Some (ulp_ps_handshake_mode (d_assets a)) \<and>
     rd32 (nb_data nb) 20 = Some (unused_soc_gpio_bitmap (dev_config_vals a')) \<and>
     rd8 (nb_data nb) 25 = Some (oper_mode (d_assets a)) \<and>
     rd8 (nb_data nb) 26 = Some (wlan_rf_power_mode (d_assets a)) \<and>
     rd8 (nb_data nb) 30 = Some (region_code (d_assets a)) \<and>
     rd8 (nb_data nb) 31 = Some (obm_ant_sel_val (d_assets a))"
proof -
  let ?e = "h_skb_misalign h (trace a) AND 0x3f"
  let ?d = "common_dev_config_frame (d_assets a) (dev_config_vals a) (Driver_Mode a) ?e
              (frame_padding 48 ?e (h_skb_garbage h (trace a)))"
  let ?nb = "(fresh_netbuf ?d)\<lparr>tx_pkt_type := COEX_Q\<rparr>"
  obtain a' where a': "onebox_configure_common_dev_params h a = Some (0, a')"
    "coex_queues a' = (coex_queues a)(0 := coex_queues a 0 @ [?nb])"
    "dev_config_vals a' = configured_gpios (d_assets a) (dev_config_vals a)"
    using assms by (simp add: onebox_configure_common_dev_params_def Let_def send_pkt_to_coex_queued
        set_coex_queue_def coex_sched_pkt_xmit_def)
  have "rd16 ?d 0 = Some (32 + ucast ?e)"
    using rejoin_u16 [of "32 + ucast ?e"]
    by (simp add: rd16_def rd8_in common_dev_config_frame_bytes Let_def)
  moreover have "rd32 ?d 20 = Some (unused_soc_gpio_bitmap (dev_config_vals a'))"
    using rejoin_u32 [of "unused_soc_gpio_bitmap (dev_config_vals a')"] a'(3)
    by (simp add: rd32_def rd16_def rd8_in common_dev_config_frame_bytes Let_def)
  ultimately show ?thesis
    using a' by (intro exI [of _ a'] exI [of _ ?nb])
      (simp add: fresh_netbuf_def rd8_in common_dev_config_frame_bytes Let_def)
qed

theorem dev_config_frame_queued_witness:
  "\<exists>a' nb. onebox_configure_common_dev_params calm_host idle_adapter = Some (ONEBOX_STATUS_SUCCESS, a') \<and>
     coex_queues a' 0 = [nb] \<and> rd8 (nb_data nb) 2 = Some COMMON_DEV_CONFIG"
proof -
  have "global_priv (d_assets idle_adapter)" "h_alloc_skb calm_host (trace idle_adapter)"
    "lp_ps_handshake_mode (d_assets idle_adapter) \<noteq> PACKET_HAND_SHAKE" "coex_queues idle_adapter 0 = []"
    by (simp_all add: example_defs)
  with dev_config_frame_queued [OF this(1-3)] show ?thesis by auto
qed

text \<open>
  The ULP map of the frame is the one from before the call, so the first frame that
  selects the handshake on a ULP line tells the device that its handshake lines are unused
  although the driver has just marked them used.
\<close>

lemma initial_maps:
  "unused_ulp_gpio_bitmap initial_dev_config = 0xF" "host_wakeup_intr_enable initial_dev_config = 0"
  by (simp_all add: initial_dev_config_def set_bit_eq_or)

lemma frame_carries_stale_ulp_map:
  assumes "ulp_ps_handshake_mode d = GPIO_HAND_SHAKE" "device_gpio_type d \<noteq> TA_GPIO"
  shows "common_dev_config_frame d initial_dev_config m e g ! 19 = 0xF"
    and "unused_ulp_gpio_bitmap (configured_gpios d initial_dev_config) = 0xC"
proof -
  show "common_dev_config_frame d initial_dev_config m e g ! 19 = 0xF"
    using assms
    by (simp add: common_dev_config_frame_bytes Let_def frame_body_1_def wakeup_word_def initial_maps)
  have "use_gpio 1 (use_gpio 0 (0xF :: u8)) = 0xC"
    by (simp add: unset_bit_eq_and_not)
  with assms show "unused_ulp_gpio_bitmap (configured_gpios d initial_dev_config) = 0xC"
    by (simp add: configured_gpios_def initial_maps Let_def)
qed

end
