(* ===== verification/Coex_Rx.thy ===== *)
theory Coex_Rx
  imports Power_Manager Dev_Config
begin

text \<open>
  The receive path of the common HAL (\<^verbatim>\<open>onebox_common_rx.c\<close>): a transfer read
  from the card is one packet or an aggregate of packets; the header checks decide, every
  accepted packet is cut out of the transfer and queued, and the bottom half hands it to
  the COEX state machine or to its protocol. A read outside a buffer is a fault,
  \<open>None\<close>. The build has \<^verbatim>\<open>USE_WORKQUEUES\<close> and neither
  \<^verbatim>\<open>USE_INTCONTEXT\<close> nor \<^verbatim>\<open>GPIO_HANDSHAKE\<close>.
\<close>

section \<open>Module start and the common HAL's own state machine\<close>

definition inaugurate_assets :: "build \<Rightarrow> protocols \<Rightarrow> nat \<Rightarrow> adapter \<Rightarrow> status \<times> adapter" where
  "inaugurate_assets b P asset_id a =
     (if (asset_id = WLAN_ID \<and> WLAN_ENABLE b) \<or> (asset_id = BT_ID \<and> BT_ENABLE b) \<or> (asset_id = ZB_ID \<and> ZIGB_ENABLE b)
      then p_module_init P asset_id (log (Module_init asset_id) a)
      else (ONEBOX_STATUS_FAILURE, a))"

definition process_ulp_sleep_notify :: "build \<Rightarrow> host \<Rightarrow> bytes \<Rightarrow> adapter \<Rightarrow> (status \<times> adapter) option" where
  "process_ulp_sleep_notify b h msg a =
     do { sleep_status \<leftarrow> rd8 msg 12;
          if sleep_status AND 1 = ULP_SLEEP_ENTRY then
            do { w \<leftarrow> rd16 msg 12;
                 a1 \<leftarrow> sleep_entry_recvd_handler h (a\<lparr>ulp_sleep_token := drop_bit 4 w\<rparr>);
                 Some (ONEBOX_STATUS_SUCCESS, a1) }
          else
            (let a1 = a\<lparr>ulp_sleep_token := 0xABCD\<rparr>;
                 a2 = (if USE_SDIO_INTF b \<and> host_intf_type a1 = HOST_INTF_SDIO then log Set_ios a1 else a1)
             in Some (ONEBOX_STATUS_SUCCESS, sleep_exit_recvd a2)) }"

definition set_common_hal_fsm :: "common_hal_fsm \<Rightarrow> adapter \<Rightarrow> adapter" where
  "set_common_hal_fsm f = upd_assets (\<lambda>d. d\<lparr>common_hal_fsm := f\<rparr>)"

definition send_config_params :: "host \<Rightarrow> adapter \<Rightarrow> adapter option" where
  "send_config_params h a =
     do { (_, a1) \<leftarrow> onebox_configure_common_dev_params h (set_common_hal_fsm COMMON_HAL_SEND_CONFIG_PARAMS a);
          Some (set_common_hal_fsm COMMON_HAL_TX_ACCESS a1) }"

definition onebox_update_common_hal_tx_access :: "host \<Rightarrow> nat \<Rightarrow> adapter \<Rightarrow> adapter option" where
  "onebox_update_common_hal_tx_access h proto_id a =
     (case common_hal_fsm (d_assets a) of
        COMMAN_HAL_WAIT_FOR_CARD_READY \<Rightarrow>
          if common_hal_fw_state (d_assets a) = FW_ACTIVE then send_config_params h a else Some a
      | COMMON_HAL_SEND_CONFIG_PARAMS \<Rightarrow> send_config_params h a
      | COMMON_HAL_TX_ACCESS \<Rightarrow>
          (let a1 = upd_assets (\<lambda>d. d\<lparr>common_hal_tx_access := True\<rparr>) a in
           Some (if fw_state (tech a1 proto_id) = FW_ACTIVE then wake_protocol a1 proto_id else a1))
      | COMMON_HAL_WAIT_FOR_PROTO_CARD_READY \<Rightarrow> Some a)"

section \<open>Packets for the common HAL\<close>

text \<open>The confirmation of a flash access, in state \<^verbatim>\<open>FSM_FLASH_BURN\<close>.\<close>

definition flash_burn_rx :: "bytes \<Rightarrow> u32 \<Rightarrow> u8 \<Rightarrow> adapter \<Rightarrow> (status \<times> adapter) option" where
  "flash_burn_rx msg msg_len sub_type a =
     (if sub_type = EEPROM_WRITE then
        Some (ONEBOX_STATUS_SUCCESS, log (Set_event Flash_event) (a\<lparr>eeprom_cfm_count := eeprom_cfm_count a + 1\<rparr>))
      else if sub_type = EEPROM_READ_TYPE \<and> 0 < msg_len then
        if eeprom_length a \<noteq> msg_len then Some (ONEBOX_STATUS_FAILURE, a)
        else do { d \<leftarrow> mem_slice msg 16 (unat msg_len);
                  buf \<leftarrow> mem_write (DataRcvPacket a) d;
                  Some (ONEBOX_STATUS_SUCCESS, log (Set_event Flash_event) (a\<lparr>DataRcvPacket := buf\<rparr>)) }
      else Some (ONEBOX_STATUS_SUCCESS, a))"

text \<open>
  The MFI answers: the buffer gets \<^verbatim>\<open>msg_len\<close> bytes, of which
  \<^verbatim>\<open>msg_len - 2\<close>, an unsigned difference, are copied. The copy into a failed
  allocation is a fault.
\<close>

definition mfi_copy :: "host \<Rightarrow> bytes \<Rightarrow> u32 \<Rightarrow> adapter \<Rightarrow> bytes option" where
  "mfi_copy h msg msg_len a =
     (if h_kmalloc h (trace a) then mem_slice msg (FRAME_DESC_SZ + 2) (unat (msg_len - 2)) else None)"

definition iap_rx :: "host \<Rightarrow> bytes \<Rightarrow> u32 \<Rightarrow> adapter \<Rightarrow> (status \<times> adapter) option" where
  "iap_rx h msg msg_len a =
     do { sub \<leftarrow> rd8 msg 15;
          if sub = 1 then
            if msg_len = 0 then
              Some (ONEBOX_STATUS_FAILURE,
                    log (Set_event Iap_event) (upd_assets (\<lambda>d. d\<lparr>mfi_signature := Some []\<rparr>) a))
            else do { c \<leftarrow> mfi_copy h msg msg_len a;
                      Some (ONEBOX_STATUS_SUCCESS,
                            log (Set_event Iap_event) (upd_assets (\<lambda>d. d\<lparr>mfi_signature := Some c\<rparr>) a)) }
          else if sub = 2 then
            if msg_len = 0 then
              Some (ONEBOX_STATUS_FAILURE,
                    log (Set_event Iap_event) (upd_assets (\<lambda>d. d\<lparr>mfi_certificate := Some []\<rparr>) a))
            else do { c \<leftarrow> mfi_copy h msg msg_len a;
                      Some (ONEBOX_STATUS_SUCCESS,
                            log (Set_event Iap_event) (upd_assets (\<lambda>d. d\<lparr>mfi_certificate := Some c\<rparr>) a)) }
          else Some (ONEBOX_STATUS_SUCCESS, a) }"

definition device_ready_rx :: "build \<Rightarrow> host \<Rightarrow> bytes \<Rightarrow> u32 \<Rightarrow> adapter \<Rightarrow> (status \<times> adapter) option" where
  "device_ready_rx b h msg msg_len a =
     do { msg_type \<leftarrow> rd8 msg 2;
          if msg_type = COMMON_HAL_CARD_READY_IND then
            do { a1 \<leftarrow> onebox_update_common_hal_tx_access h WLAN_ID
                         (upd_assets (\<lambda>d. d\<lparr>common_hal_fw_state := FW_ACTIVE\<rparr>) a);
                 Some (ONEBOX_STATUS_SUCCESS, a1) }
          else if msg_type = ULP_SLEEP_NOTIFY then process_ulp_sleep_notify b h msg a
          else if msg_type = IAP_CONFIG then iap_rx h msg msg_len a
          else Some (ONEBOX_STATUS_FAILURE, a) }"

definition onebox_process_coex_rx_pkt ::
  "build \<Rightarrow> protocols \<Rightarrow> host \<Rightarrow> bytes \<Rightarrow> adapter \<Rightarrow> (status \<times> adapter) option" where
  "onebox_process_coex_rx_pkt b P h msg a =
     do { w0 \<leftarrow> rd16 msg 0; msg_type \<leftarrow> rd8 msg 2; sub_type \<leftarrow> rd8 msg 15;
          let msg_len = (ucast (w0 AND 0x0fff) :: u32);
          case fsm_state a of
            FSM_CARD_NOT_READY \<Rightarrow>
              if (msg_type = CARD_READY_IND \<and> Driver_Mode a = QSPI_FLASHING)
                 \<or> (msg_type = RX_MISC_IND \<and> sub_type = FW_UPGRADE_REQ) then
                (let (s, a1) = p_qspi_bootup_params P (log Load_bootup_params (a\<lparr>flashing_mode_on := True\<rparr>))
                 in Some (ONEBOX_STATUS_SUCCESS,
                          if s = ONEBOX_STATUS_SUCCESS then a1\<lparr>fsm_state := FSM_LOAD_BOOTUP_PARAMS\<rparr> else a1))
              else Some (ONEBOX_STATUS_SUCCESS, a)
          | FSM_FLASH_BURN \<Rightarrow> flash_burn_rx msg msg_len sub_type a
          | FSM_LOAD_BOOTUP_PARAMS \<Rightarrow>
              if msg_type = TA_CONFIRM_TYPE \<and> sub_type = BOOTUP_PARAMS_REQUEST then
                Some (ONEBOX_STATUS_SUCCESS, log (Set_event Scheduler_event) (a\<lparr>flashing_started := True\<rparr>))
              else Some (ONEBOX_STATUS_FAILURE, a)
          | FSM_DEVICE_READY \<Rightarrow> device_ready_rx b h msg msg_len a
          | _ \<Rightarrow> Some (ONEBOX_STATUS_FAILURE, a) }"

section \<open>Corruption\<close>

definition panic_stop_all_activites :: "host \<Rightarrow> nat \<Rightarrow> adapter \<Rightarrow> status \<times> adapter" where
  "panic_stop_all_activites h reg_to_ack a =
     (let a1 = (if host_intf_type a = HOST_INTF_SDIO
                then snd (sdio_ack_interrupt h (push_bit reg_to_ack 1) a) else a);
          a2 = a1\<lparr>fsm_state := FSM_CARD_NOT_READY, stop_card_write := 2\<rparr>;
          a3 = upd_assets (\<lambda>d. d\<lparr>card_state := GS_CARD_DETACH\<rparr>) a2;
          off = (\<lambda>t. t\<lparr>fw_state := FW_INACTIVE\<rparr>)
      in (ONEBOX_STATUS_FAILURE, upd_tech ZB_ID off (upd_tech BT_ID off (upd_tech WLAN_ID off a3))))"

section \<open>The header checks\<close>

text \<open>
  Words 0 and 1 of a transfer are its length and the offset of the frame descriptor; the
  low twelve bits of the descriptor's first word are the length of what follows it. A
  transfer is padded to 256 bytes on SDIO and to 4 on USB.
\<close>

definition united_length :: "host_intf \<Rightarrow> u16 \<Rightarrow> u32 \<Rightarrow> u32" where
  "united_length intf offset len =
     (if intf \<noteq> HOST_INTF_SDIO then (ucast offset + len + 16 + 3) AND NOT 3
      else (ucast offset + len + 16 + 255) AND NOT 255)"

definition too_big :: "adapter \<Rightarrow> u32 \<Rightarrow> bool" where
  "too_big a len \<longleftrightarrow>
     (if Driver_Mode a = WIFI_MODE_ON \<and> \<not> flashing_mode_on a then COMMON_PKT_LENGTH < len
      else MAX_SNIFFER_MODE_PKT_LEN < len)"

lemma too_big_deferred [simp]: "too_big (a\<lparr>deferred_rx_queue := q\<rparr>) = too_big a"
  by (rule ext) (simp add: too_big_def)

text \<open>The first two checks, on the transfer's own length and offset.\<close>

definition bad_header :: "u16 \<Rightarrow> u16 \<Rightarrow> u32 \<Rightarrow> bool" where
  "bad_header actual_length offset total_len \<longleftrightarrow>
     actual_length < 20 \<or> offset < 4 \<or>
     \<not> (ucast actual_length = total_len \<or> ucast actual_length + 20 \<le> total_len)"

text \<open>
  The checks of \<^verbatim>\<open>process_unaggregated_pkt\<close>. The outer \<open>None\<close> is a read
  outside the packet, the inner one the label \<^verbatim>\<open>pkt_corrupted\<close>; otherwise the
  offset and the length of the frame.
\<close>

definition unaggregated_frame :: "adapter \<Rightarrow> netbuf \<Rightarrow> u32 \<Rightarrow> (nat \<times> nat) option option" where
  "unaggregated_frame a nb total_len =
     do { actual_length \<leftarrow> rd16 (nb_data nb) 0; offset \<leftarrow> rd16 (nb_data nb) 2;
          if bad_header actual_length offset total_len then Some None
          else do { w \<leftarrow> rd16 (nb_data nb) (unat offset);
                    extended_desc \<leftarrow> (if rx_pkt_type nb = WLAN_PKT then rd8 (nb_data nb) (unat offset + 4) else Some 0);
                    let len = (ucast (w AND 0x0fff) :: u32);
                    if host_intf_type a \<noteq> HOST_INTF_USB \<and>
                       ucast actual_length \<noteq> united_length (host_intf_type a) offset len then Some None
                    else if Driver_Mode a \<noteq> QSPI_FLASHING \<and> (len < ucast extended_desc \<or> too_big a len) then Some None
                    else Some (Some (unat offset, unat len + 16)) } }"

definition process_unaggregated_pkt :: "host \<Rightarrow> netbuf \<Rightarrow> u32 \<Rightarrow> adapter \<Rightarrow> (u8 \<times> adapter) option" where
  "process_unaggregated_pkt h nb total_len a =
     do { c \<leftarrow> unaggregated_frame a nb total_len;
          case c of
            None \<Rightarrow> (case panic_stop_all_activites h SD_MSDU_PACKET_PENDING (log (Free_pkt (nb_data nb)) a) of
                       (s, a') \<Rightarrow> Some (status_u8 s, a'))
          | Some (offset, payload_len) \<Rightarrow>
              do { d0 \<leftarrow> netbuf_adj (nb_data nb) offset;
                   let d = netbuf_trim d0 payload_len;
                   upgrade \<leftarrow> (if host_intf_type a = HOST_INTF_USB \<and> rx_pkt_type nb = WLAN_PKT
                              then do { b2 \<leftarrow> rd8 d 2;
                                        if b2 = RX_MISC_IND
                                        then do { b15 \<leftarrow> rd8 d 15; Some (b15 = FW_UPGRADE_REQ) } else Some False }
                              else Some False);
                   let nb' = (if upgrade then nb\<lparr>nb_data := d, rx_pkt_type := COEX_PKT\<rparr> else nb\<lparr>nb_data := d\<rparr>);
                   let a1 = (if netbuf_queue_len (deferred_rx_queue a) \<le> 1000
                             then a\<lparr>deferred_rx_queue := netbuf_queue_tail (deferred_rx_queue a) nb'\<rparr>
                             else log (Free_pkt d) (a\<lparr>rx_packtes_dropped := rx_packtes_dropped a + 1\<rparr>));
                   Some (0, log Queue_work a1) } }"

section \<open>Aggregates\<close>

text \<open>
  The checks of \<^verbatim>\<open>process_lmac_aggregated_pkt\<close> on the frame that starts the
  buffer; \<open>pkt_len\<close> is what is left of the transfer.
\<close>

definition aggregated_frame :: "adapter \<Rightarrow> u8 \<Rightarrow> bytes \<Rightarrow> u32 \<Rightarrow> (u16 \<times> nat \<times> nat) option option" where
  "aggregated_frame a pkt_type frame_desc_addr pkt_len =
     do { actual_length \<leftarrow> rd16 frame_desc_addr 0; offset \<leftarrow> rd16 frame_desc_addr 2;
          if bad_header actual_length offset pkt_len then Some None
          else do { w \<leftarrow> rd16 frame_desc_addr (unat offset);
                    extended_desc \<leftarrow> (if pkt_type = WLAN_PKT then rd8 frame_desc_addr (unat offset + 4) else Some 0);
                    let len = (ucast (w AND 0x0fff) :: u32);
                    if ucast actual_length \<noteq> united_length (host_intf_type a) offset len then Some None
                    else if len < ucast extended_desc \<or> too_big a len then Some None
                    else Some (Some (actual_length, unat offset, unat len + 16)) } }"

lemma bad_header_bounds:
  assumes "\<not> bad_header actual off total_len"
  shows "20 \<le> unat actual \<and> 4 \<le> unat off \<and> unat actual \<le> unat total_len \<and>
         unat (total_len - ucast actual) = unat total_len - unat actual"
proof -
  from assms have ge: "20 \<le> unat actual" "4 \<le> unat off"
    by (simp_all add: bad_header_def word_less_nat_alt not_less)
  have le: "ucast actual \<le> total_len"
  proof (cases "ucast actual = total_len")
    case False
    with assms have "ucast actual + 20 \<le> total_len" by (simp add: bad_header_def)
    moreover have "unat (ucast actual + 20 :: u32) = unat actual + 20"
      using unsigned_less [of actual, where ?'a = nat] by (simp add: unat_word_ariths unat_ucast_widen)
    ultimately show ?thesis by (simp add: word_le_nat_alt unat_ucast_widen)
  qed simp
  then have "unat actual \<le> unat total_len" by (simp add: word_le_nat_alt unat_ucast_widen)
  with ge le show ?thesis by (simp add: unat_sub unat_ucast_widen)
qed

lemma aggregated_frame_progress:
  assumes "aggregated_frame a t b pkt_len = Some (Some (actual, offset, payload))"
  shows "20 \<le> unat actual \<and> unat actual \<le> unat pkt_len \<and> unat (pkt_len - ucast actual) = unat pkt_len - unat actual"
proof -
  have "\<not> bad_header actual (the (rd16 b 2)) pkt_len"
    using assms by (auto simp: aggregated_frame_def Let_def split: bind_splits if_splits)
  from bad_header_bounds [OF this] show ?thesis by simp
qed

function lmac_aggregated_loop :: "host \<Rightarrow> u8 \<Rightarrow> nat \<Rightarrow> u32 \<Rightarrow> adapter \<Rightarrow> (status \<times> adapter) option" where
  "lmac_aggregated_loop h pkt_type index pkt_len a =
     (case aggregated_frame a pkt_type (drop index (DataRcvPacket a)) pkt_len of
        None \<Rightarrow> None
      | Some None \<Rightarrow> Some (panic_stop_all_activites h SD_MSDU_PACKET_PENDING a)
      | Some (Some (actual_length, offset, payload_len)) \<Rightarrow>
          if \<not> h_alloc_skb h (trace a) then Some (-12, a)
          else (case mem_slice (drop index (DataRcvPacket a)) offset payload_len of
              None \<Rightarrow> None
            | Some d \<Rightarrow>
                let nb = (fresh_netbuf d)\<lparr>rx_pkt_type := pkt_type\<rparr>;
                    a1 = a\<lparr>deferred_rx_queue := netbuf_queue_tail (deferred_rx_queue a) nb\<rparr>;
                    rest = pkt_len - ucast actual_length
                in if 0 < rest then lmac_aggregated_loop h pkt_type (index + unat actual_length) rest a1
                   else Some (ONEBOX_STATUS_SUCCESS, log Queue_work a1)))"
  by pat_completeness auto

termination
proof (relation "measure (\<lambda>(h, t, i, n, a). unat n)", goal_cases)
  case 1
  then show ?case by simp
next
  case (2 h t i n a x y act p off len d nb a1 rest)
  then show ?case using aggregated_frame_progress [of a t "drop i (DataRcvPacket a)" n act off len] by simp
qed

declare lmac_aggregated_loop.simps [simp del]

definition process_lmac_aggregated_pkt :: "host \<Rightarrow> u32 \<Rightarrow> u8 \<Rightarrow> adapter \<Rightarrow> (u8 \<times> adapter) option" where
  "process_lmac_aggregated_pkt h pkt_len pkt_type a =
     do { (s, a') \<leftarrow> lmac_aggregated_loop h pkt_type 0 pkt_len a; Some (status_u8 s, a') }"

section \<open>Handing a packet on\<close>

text \<open>
  The label \<^verbatim>\<open>fail\<close> frees the packet; a packet given to a receive callback is
  the callback's, and a missing callback drops it without freeing it.
\<close>

definition drop_pkt :: "netbuf \<Rightarrow> adapter \<Rightarrow> adapter" where
  "drop_pkt nb = log (Free_pkt (nb_data nb))"

definition give_to_protocol :: "protocols \<Rightarrow> nat \<Rightarrow> netbuf \<Rightarrow> adapter \<Rightarrow> adapter" where
  "give_to_protocol P i nb a =
     (if drv_state (tech a i) = MODULE_ACTIVE
      then if has_pkt_callback (tech a i) then p_get_pkt P i nb (log (Deliver i nb) a) else a
      else drop_pkt nb a)"

definition bt_card_ready :: "build \<Rightarrow> protocols \<Rightarrow> host \<Rightarrow> adapter \<Rightarrow> adapter option" where
  "bt_card_ready b P h a =
     do { a1 \<leftarrow> onebox_update_common_hal_tx_access h BT_ID
                  (upd_assets (\<lambda>d. d\<lparr>bt_deregister_sent := False\<rparr>) (upd_tech BT_ID (\<lambda>t. t\<lparr>fw_state := FW_ACTIVE\<rparr>) a));
          Some (snd (inaugurate_assets b P BT_ID a1)) }"

definition deploy_bt :: "build \<Rightarrow> protocols \<Rightarrow> host \<Rightarrow> netbuf \<Rightarrow> adapter \<Rightarrow> adapter option" where
  "deploy_bt b P h nb a =
     (if fw_state (tech a BT_ID) = FW_INACTIVE \<or> bt_deregister_sent (d_assets a) then
        do { b14 \<leftarrow> rd8 (nb_data nb) 14;
             a1 \<leftarrow> (if b14 = BT_CARD_READY_IND then bt_card_ready b P h a else Some a);
             Some (drop_pkt nb a1) }
      else Some (give_to_protocol P BT_ID nb a))"

text \<open>The card details of the WLAN card-ready packet (lines 816 to 827).\<close>

definition wlan_card_details :: "bytes \<Rightarrow> driver_assets \<Rightarrow> driver_assets option" where
  "wlan_card_details m d =
     do { major \<leftarrow> rd8 m 18; minor \<leftarrow> rd8 m 19;
          antenna \<leftarrow> (if (3 < major \<and> 1 < minor) \<or> 4 \<le> major then rd8 m 17 else Some (user_onboard_ant_val d));
          mac \<leftarrow> mem_slice m 20 6; mtype \<leftarrow> rd8 m 26; band \<leftarrow> rd8 m 27;
          Some (d\<lparr>mfg_major_verion := major, mfg_minor_verion := minor, onboard_antenna := antenna,
                  wlan_mac_address := mac, module_type := mtype, band_version := band\<rparr>) }"

definition wlan_card_ready :: "build \<Rightarrow> protocols \<Rightarrow> host \<Rightarrow> netbuf \<Rightarrow> adapter \<Rightarrow> adapter option" where
  "wlan_card_ready b P h nb a =
     do { magic \<leftarrow> rd8 (nb_data nb) FRAME_DESC_SZ;
          if magic \<noteq> MAGIC_WORD then Some a
          else do { d \<leftarrow> wlan_card_details (nb_data nb) (d_assets a);
                    let a1 = upd_tech WLAN_ID (\<lambda>t. t\<lparr>fw_state := FW_ACTIVE\<rparr>) (upd_assets (\<lambda>_. d) a);
                    a2 \<leftarrow> onebox_update_common_hal_tx_access h WLAN_ID a1;
                    a3 \<leftarrow> (if host_intf_type a2 = HOST_INTF_USB
                          then do { r \<leftarrow> rd32 (nb_data nb) 8;
                                    Some (upd_tech WLAN_ID (\<lambda>t. t\<lparr>buffer_status_reg_addr := r\<rparr>) a2) }
                          else Some a2);
                    Some (snd (inaugurate_assets b P WLAN_ID a3)) } }"

definition deploy_wlan :: "build \<Rightarrow> protocols \<Rightarrow> host \<Rightarrow> netbuf \<Rightarrow> adapter \<Rightarrow> adapter option" where
  "deploy_wlan b P h nb a =
     (if fw_state (tech a WLAN_ID) = FW_INACTIVE then
        do { b2 \<leftarrow> rd8 (nb_data nb) 2;
             a1 \<leftarrow> (if b2 = WLAN_CARD_READY_IND then wlan_card_ready b P h nb a else Some a);
             Some (drop_pkt nb a1) }
      else Some (give_to_protocol P WLAN_ID nb a))"

definition deploy_zigb :: "build \<Rightarrow> protocols \<Rightarrow> host \<Rightarrow> netbuf \<Rightarrow> adapter \<Rightarrow> adapter option" where
  "deploy_zigb b P h nb a =
     (if fw_state (tech a ZB_ID) = FW_INACTIVE then
        do { b15 \<leftarrow> rd8 (nb_data nb) 15;
             a1 \<leftarrow> (if b15 = ZIGB_CARD_READY_IND
                   then do { a1 \<leftarrow> onebox_update_common_hal_tx_access h ZB_ID
                                     (upd_tech ZB_ID (\<lambda>t. t\<lparr>fw_state := FW_ACTIVE\<rparr>) a);
                             Some (snd (inaugurate_assets b P ZB_ID a1)) }
                   else Some a);
             Some (drop_pkt nb a1) }
      else Some (give_to_protocol P ZB_ID nb a))"

definition deploy_packet_to_assets :: "build \<Rightarrow> protocols \<Rightarrow> host \<Rightarrow> netbuf \<Rightarrow> adapter \<Rightarrow> (u8 \<times> adapter) option" where
  "deploy_packet_to_assets b P h nb a =
     (if card_state (d_assets a) = GS_CARD_DETACH then Some (0, drop_pkt nb a)
      else do { b1 \<leftarrow> rd8 (nb_data nb) 1;
                let proto = (if drop_bit 4 b1 = COEX_PKT then COEX_PKT else rx_pkt_type nb);
                a' \<leftarrow> (if proto = COEX_PKT then
                         do { (_, a1) \<leftarrow> onebox_process_coex_rx_pkt b P h (nb_data nb) a; Some (drop_pkt nb a1) }
                       else if proto = BT_PKT then deploy_bt b P h nb a
                       else if proto = WLAN_PKT then deploy_wlan b P h nb a
                       else if proto = ZIGB_PKT then deploy_zigb b P h nb a
                       else Some a);
                Some (0, a') })"

text \<open>
  The bottom half: packets until the queue is empty. A deployed packet may queue nothing
  here itself, but the callbacks could, so the loop runs under fuel; \<open>None\<close> is a fault
  or fuel that ran out.
\<close>

fun deferred_rx_packet_parser :: "nat \<Rightarrow> build \<Rightarrow> protocols \<Rightarrow> host \<Rightarrow> adapter \<Rightarrow> adapter option" where
  "deferred_rx_packet_parser 0 b P h a = None"
| "deferred_rx_packet_parser (Suc fuel) b P h a =
     (case dequeue_pkt (deferred_rx_queue a) of
        (None, _) \<Rightarrow> Some a
      | (Some nb, q) \<Rightarrow>
          do { (s, a1) \<leftarrow> deploy_packet_to_assets b P h nb (a\<lparr>deferred_rx_queue := q\<rparr>);
               if s \<noteq> 0 then Some a1 else deferred_rx_packet_parser fuel b P h a1 })"

section \<open>Reading a transfer\<close>

definition num_rx_blocks :: "u32 \<Rightarrow> u8" where
  "num_rx_blocks intr = ucast ((intr AND 1) OR push_bit 1 (drop_bit 4 intr))"

text \<open>The number of blocks and the protocol, from the interrupt status or from the card.\<close>

definition rx_block_count :: "host \<Rightarrow> adapter \<Rightarrow> (status \<times> u8 \<times> u8) \<times> adapter" where
  "rx_block_count h a =
     (let n = num_rx_blocks (interrupt_status a) in
      if n \<noteq> 0 then ((ONEBOX_STATUS_SUCCESS, n, WLAN_PKT), a)
      else case read_register h 0xF1 a of
             ((s, reg_value), a1) \<Rightarrow> ((s, reg_value AND 0x1F, drop_bit 5 reg_value), a1))"

text \<open>From the read of the transfer to the end of \<^verbatim>\<open>onebox_read_pkt\<close>.\<close>

definition rx_transfer :: "host \<Rightarrow> u8 \<Rightarrow> u8 \<Rightarrow> adapter \<Rightarrow> (status \<times> adapter) option" where
  "rx_transfer h num_blks protocol0 a =
     (let unaggr_pkt = (ta_aggr (d_assets a) < 2 \<or> protocol0 = BT_PKT \<or> protocol0 = ZIGB_PKT);
          rcv_pkt_len = (ucast num_blks * 256 :: u32);
          protocol = (if flashing_mode_on a then COEX_PKT else protocol0)
      in if unaggr_pkt \<and> \<not> h_alloc_skb h (trace a) then Some (-12, a)
         else case sdio_host_intf_read_pkt h rcv_pkt_len a of
           ((s, raw), a1) \<Rightarrow>
             (let data = fill (unat rcv_pkt_len) raw; nb = (fresh_netbuf data)\<lparr>rx_pkt_type := protocol\<rparr> in
              do { a2 \<leftarrow> (if unaggr_pkt then Some a1
                         else do { buf \<leftarrow> mem_write (DataRcvPacket a1) data; Some (a1\<lparr>DataRcvPacket := buf\<rparr>) });
                   if card_state (d_assets a2) \<noteq> GS_CARD_ABOARD then
                     Some (ONEBOX_STATUS_FAILURE, if unaggr_pkt then drop_pkt nb a2 else a2)
                   else if s \<noteq> ONEBOX_STATUS_SUCCESS then Some (panic_stop_all_activites h SD_MSDU_PACKET_PENDING a2)
                   else if protocol = ZIGB_PKT then
                     Some (ONEBOX_STATUS_SUCCESS,
                           log Queue_work (a2\<lparr>deferred_rx_queue := netbuf_queue_tail (deferred_rx_queue a2) nb\<rparr>))
                   else do { (_, a3) \<leftarrow> (if unaggr_pkt then process_unaggregated_pkt h nb rcv_pkt_len a2
                                        else process_lmac_aggregated_pkt h rcv_pkt_len protocol a2);
                             Some (ONEBOX_STATUS_SUCCESS, a3) } }))"

definition onebox_read_pkt :: "host \<Rightarrow> adapter \<Rightarrow> (status \<times> adapter) option" where
  "onebox_read_pkt h a =
     (case rx_block_count h a of
        ((s, num_blks, protocol), a1) \<Rightarrow>
          if s \<noteq> ONEBOX_STATUS_SUCCESS then Some (s, a1)
          else if stop_card_write a1 = 2 then
            (case sdio_ack_interrupt h (push_bit SD_MSDU_PACKET_PENDING 1) a1 of
               (s', a2) \<Rightarrow> Some (ONEBOX_STATUS_FAILURE,
                                if s' \<noteq> ONEBOX_STATUS_SUCCESS then log Deregister_irq a2 else a2))
          else if num_blks = 0 then
            Some (panic_stop_all_activites h SD_MSDU_PACKET_PENDING (a1\<lparr>stop_card_write := 2\<rparr>))
          else rx_transfer h num_blks protocol a1)"

text \<open>The USB entry (\<^verbatim>\<open>onebox_usb_devops.c\<close>).\<close>

definition process_usb_rcv_pkt :: "host \<Rightarrow> netbuf \<Rightarrow> u8 \<Rightarrow> adapter \<Rightarrow> (u8 \<times> adapter) option" where
  "process_usb_rcv_pkt h nb pkt_type a =
     (if pkt_type = ZIGB_PKT then
        Some (0, log Queue_work (a\<lparr>deferred_rx_queue := netbuf_queue_tail (deferred_rx_queue a) nb\<rparr>))
      else process_unaggregated_pkt h nb (word_of_nat (length (nb_data nb))) a)"

section \<open>Arithmetic of the padding\<close>

lemma unat_round_down: "unat (w AND NOT (mask n)) = unat w div 2 ^ n * 2 ^ n" for w :: u32
proof -
  have eq: "w AND NOT (mask n) = push_bit n (drop_bit n w)"
    by (rule bit_word_eqI) (auto simp: bit_simps)
  have "unat w div 2 ^ n * 2 ^ n \<le> unat w" by simp
  also have "unat w < 2 ^ 32" using unsigned_less [of w, where ?'a = nat] by simp
  finally have "unat w div 2 ^ n * 2 ^ n < 2 ^ 32" .
  then show ?thesis
    using unat_drop_bit_eq [of n w]
    by (simp add: eq unsigned_push_bit_eq flip: push_bit_eq_mult drop_bit_eq_div)
      (simp add: push_bit_eq_mult drop_bit_eq_div take_bit_nat_eq_self)
qed

lemma unat_united_length:
  assumes "len < 4096"
  shows "unat (united_length intf offset len) =
    (if intf \<noteq> HOST_INTF_SDIO then (unat offset + unat len + 19) div 4 * 4
     else (unat offset + unat len + 271) div 256 * 256)"
proof -
  have "unat len < 4096" using assms by (simp add: word_less_nat_alt)
  then have "unat (ucast offset + len + 16 + 3) = unat offset + unat len + 19"
    "unat (ucast offset + len + 16 + 255) = unat offset + unat len + 271"
    using unsigned_less [of offset, where ?'a = nat] by (simp_all add: unat_word_ariths unat_ucast_widen)
  moreover have "(255 :: u32) = mask 8" "(3 :: u32) = mask 2" by (simp_all add: mask_eq_exp_minus_1)
  ultimately show ?thesis
    using unat_round_down [of "ucast offset + len + 16 + 3" 2] unat_round_down [of "ucast offset + len + 16 + 255" 8]
    by (auto simp: united_length_def)
qed

lemma frame_len_bound: "ucast (w AND 0x0fff :: u16) < (4096 :: u32)"
proof -
  have "w AND 0x0fff \<le> 0x0fff" by (rule word_and_le1)
  then have "unat (w AND 0x0fff) \<le> 4095" by (simp add: word_le_nat_alt)
  then show ?thesis by (simp add: word_less_nat_alt unat_ucast_widen)
qed

lemma frame_fits_united:
  assumes "len < 4096"
  shows "unat offset + unat len + 16 \<le> unat (united_length intf offset len)"
  using unat_united_length [OF assms, of intf offset] by (auto split: if_splits)

section \<open>An accepted frame lies inside the transfer\<close>

lemma unaggregated_frame_accepts:
  assumes "unaggregated_frame a nb total_len = Some (Some (offset, n))"
  shows "\<exists>actual. 20 \<le> unat actual \<and> unat actual \<le> unat total_len \<and> 4 \<le> offset \<and> 16 \<le> n \<and> n < 4112 \<and>
           (host_intf_type a = HOST_INTF_SDIO \<longrightarrow> offset + n \<le> unat (actual :: u16)) \<and>
           rd16 (nb_data nb) 0 = Some actual \<and> (\<exists>w. rd16 (nb_data nb) offset = Some w \<and> n = unat (w AND 0xfff) + 16)"
proof -
  obtain actual off w where r: "rd16 (nb_data nb) 0 = Some actual" "rd16 (nb_data nb) 2 = Some off"
      "rd16 (nb_data nb) (unat off) = Some w" and hd: "\<not> bad_header actual off total_len"
    and o: "offset = unat off" "n = unat (w AND 0xfff) + 16"
    and u: "host_intf_type a \<noteq> HOST_INTF_USB \<longrightarrow>
              ucast actual = united_length (host_intf_type a) off (ucast (w AND 0xfff))"
    using assms
    by (auto simp: unaggregated_frame_def Let_def unat_ucast_widen split: bind_splits if_splits)
  have b: "unat (w AND 0xfff) < 4096"
    using frame_len_bound [of w] by (simp add: word_less_nat_alt unat_ucast_widen)
  have "unat actual = unat (united_length HOST_INTF_SDIO off (ucast (w AND 0xfff)))"
    if "host_intf_type a = HOST_INTF_SDIO"
    using u that unat_ucast_widen(3) [of actual] by auto
  then have "host_intf_type a = HOST_INTF_SDIO \<longrightarrow> offset + n \<le> unat actual"
    using frame_fits_united [OF frame_len_bound, of off w HOST_INTF_SDIO] o
    by (auto simp: unat_ucast_widen)
  with hd b r o bad_header_bounds [OF hd] show ?thesis by auto
qed

text \<open>
  C3. A packet that passes the checks on SDIO is cut out of the transfer exactly: the slice
  of its announced length at its announced offset lies inside the bytes that were read, it
  is the packet that is queued (unless more than a thousand wait), and no fault occurs.
\<close>

theorem sdio_packet_in_bounds:
  assumes "host_intf_type a = HOST_INTF_SDIO" and "unat total_len = length (nb_data nb)"
    and "unaggregated_frame a nb total_len = Some (Some (offset, n))"
  shows "offset + n \<le> length (nb_data nb) \<and> 16 \<le> n \<and> n \<le> 4111 \<and>
    (\<exists>a'. process_unaggregated_pkt h nb total_len a = Some (0, a') \<and> d_assets a' = d_assets a \<and>
       deferred_rx_queue a' =
         (if length (deferred_rx_queue a) \<le> 1000
          then deferred_rx_queue a @ [nb\<lparr>nb_data := take n (drop offset (nb_data nb))\<rparr>]
          else deferred_rx_queue a))"
proof -
  have b: "offset + n \<le> length (nb_data nb)" "16 \<le> n" "n < 4112"
    using unaggregated_frame_accepts [OF assms(3)] assms(1,2) by auto
  then have "netbuf_adj (nb_data nb) offset = Some (drop offset (nb_data nb))"
    by (simp add: netbuf_adj_def)
  with assms b show ?thesis
    by (auto simp: process_unaggregated_pkt_def netbuf_trim_def netbuf_queue_defs Let_def)
qed

definition rx_example :: netbuf where
  \<comment> \<open>a transfer of one block: offset 4, a frame of four payload bytes\<close>
  "rx_example = (fresh_netbuf (set_word 0 256 (set_word 1 4 (set_word 2 0x2004 (replicate 256 0)))))\<lparr>rx_pkt_type := WLAN_PKT\<rparr>"

lemma rx_example_frame: "unaggregated_frame idle_adapter rx_example 256 = Some (Some (4, 20))"
  by (simp add: unaggregated_frame_def rx_example_def fresh_netbuf_def rd16_def rd8_in set_word_nth bad_header_def
      united_length_def too_big_def Let_def example_defs)

theorem sdio_packet_in_bounds_witness:
  "\<exists>a'. process_unaggregated_pkt calm_host rx_example 256 idle_adapter = Some (0, a') \<and>
        length (deferred_rx_queue a') = 1"
  using sdio_packet_in_bounds [OF _ _ rx_example_frame, of calm_host]
  by (auto simp: example_defs rx_example_def fresh_netbuf_def)

section \<open>Aggregates are split into their frames\<close>

text \<open>
  The inverse of the splitting: a frame at an offset of at least four behind its length
  and offset words, padded to a multiple of 256 bytes, as the firmware sends it on SDIO.
\<close>

definition unit_length :: "nat \<times> bytes \<Rightarrow> nat" where
  "unit_length u = (case u of (off, frame) \<Rightarrow> (off + length frame + 255) div 256 * 256)"

definition transfer_unit :: "nat \<times> bytes \<Rightarrow> bytes" where
  "transfer_unit u = (case u of (off, frame) \<Rightarrow>
     set_word 0 (word_of_nat (unit_length u)) (set_word 1 (word_of_nat off)
       (replicate off 0 @ frame @ replicate (unit_length u - off - length frame) 0)))"

definition sendable :: "adapter \<Rightarrow> nat \<times> bytes \<Rightarrow> bool" where
  "sendable a u = (case u of (off, frame) \<Rightarrow>
     4 \<le> off \<and> unit_length u < 65536 \<and> 16 \<le> length frame \<and>
     (case rd16 frame 0 of None \<Rightarrow> False
      | Some w \<Rightarrow> length frame = unat (w AND 0xfff) + 16 \<and> unat (frame ! 4) \<le> unat (w AND 0xfff) \<and>
                  \<not> too_big a (ucast (w AND 0xfff))))"

lemma unit_length_bounds:
  "off + length frame \<le> unit_length (off, frame)" "unit_length u mod 256 = 0"
  by (simp_all add: unit_length_def split_def)

lemma length_transfer_unit [simp]: "length (transfer_unit u) = unit_length u"
  using unit_length_bounds(1) [of "fst u" "snd u"] by (cases u) (simp add: transfer_unit_def)

lemma transfer_unit_header:
  assumes "sendable a (off, frame)" and "256 \<le> unit_length (off, frame)"
  shows "rd16 (transfer_unit (off, frame) @ rest) 0 = Some (word_of_nat (unit_length (off, frame)))"
    and "rd16 (transfer_unit (off, frame) @ rest) 2 = Some (word_of_nat off)"
  using assms unit_length_bounds(1) [of off frame]
    rd16_set_word [of 0] rd16_set_word [of 1]
  by (simp_all add: rd16_append) (simp_all add: transfer_unit_def rd16_set_word_below rd16_set_word_above)

lemma transfer_unit_frame:
  assumes "sendable a (off, frame)"
  shows "drop off (transfer_unit (off, frame) @ rest) =
         frame @ replicate (unit_length (off, frame) - off - length frame) 0 @ rest"
  using assms unit_length_bounds(1) [of off frame]
  by (simp add: sendable_def transfer_unit_def drop_set_word)

lemma aggregated_frame_unit:
  assumes "sendable a (off, frame)" and "host_intf_type a = HOST_INTF_SDIO"
    and "unat pkt_len = unit_length (off, frame) + k" and "k = 0 \<or> 20 \<le> k"
  shows "aggregated_frame a t (transfer_unit (off, frame) @ rest) pkt_len =
           Some (Some (word_of_nat (unit_length (off, frame)), off, length frame))"
proof -
  let ?n = "unit_length (off, frame)" and ?b = "transfer_unit (off, frame) @ rest"
  obtain w where w: "rd16 frame 0 = Some w" "length frame = unat (w AND 0xfff) + 16"
      "unat (frame ! 4) \<le> unat (w AND 0xfff)" "\<not> too_big a (ucast (w AND 0xfff))"
    and off: "4 \<le> off" "?n < 65536" "off + length frame \<le> ?n" "16 \<le> length frame"
    using assms(1) unit_length_bounds(1) [of off frame]
    by (auto simp: sendable_def split: option.splits)
  have n: "256 \<le> ?n" "unat (word_of_nat ?n :: u16) = ?n" "unat (word_of_nat off :: u16) = off"
    using off unit_length_bounds(2) [of "(off, frame)"]
    by (auto simp: unat_of_nat mod_eq_0_iff_dvd intro!: dvd_imp_le)
  note h = transfer_unit_header [OF assms(1) n(1), of rest]
  have f: "rd16 ?b off = Some w" "rd8 ?b (off + 4) = Some (frame ! 4)"
    using w(1) off transfer_unit_frame [OF assms(1), of rest] rd16_drop [of off ?b 0] rd8_drop [of off ?b 4]
    by (simp_all add: rd16_append rd8_append nth_append)
  have good: "\<not> bad_header (word_of_nat ?n) (word_of_nat off) pkt_len"
    using n off assms(3,4)
    by (auto simp: bad_header_def word_less_nat_alt word_le_nat_alt unat_ucast_widen unat_word_ariths word_unat_eq_iff)
  have u: "ucast (word_of_nat ?n :: u16) = united_length HOST_INTF_SDIO (word_of_nat off) (ucast (w AND 0xfff))"
    using n w(2) unat_united_length [OF frame_len_bound, of HOST_INTF_SDIO "word_of_nat off" w]
    by (simp add: word_unat_eq_iff unat_ucast_widen unit_length_def ac_simps)
  show ?thesis
    using h f good u n w assms(2)
    by (simp add: aggregated_frame_def Let_def word_less_nat_alt unat_ucast_widen)
qed

lemma drop_past_unit: "drop i b = transfer_unit u @ c \<Longrightarrow> drop (i + unit_length u) b = c"
  by (metis append_eq_conv_conj drop_drop length_transfer_unit add.commute)

abbreviation queued_frame :: "u8 \<Rightarrow> nat \<times> bytes \<Rightarrow> netbuf" where
  "queued_frame t u \<equiv> (fresh_netbuf (snd u))\<lparr>rx_pkt_type := t\<rparr>"

lemma sendable_length: "sendable a u \<Longrightarrow> 256 \<le> unit_length u \<and> unit_length u < 65536"
  using unit_length_bounds(1) [of "fst u" "snd u"] unit_length_bounds(2) [of u]
  by (auto simp: sendable_def split_def mod_eq_0_iff_dvd intro!: dvd_imp_le)

lemma lmac_loop_splits:
  assumes "host_intf_type a = HOST_INTF_SDIO" and "\<forall>tr. h_alloc_skb h tr"
    and "\<forall>u\<in>set (u # us). sendable a u"
    and "drop index (DataRcvPacket a) = concat (map transfer_unit (u # us)) @ junk"
    and "unat pkt_len = sum_list (map unit_length (u # us))"
  shows "lmac_aggregated_loop h t index pkt_len a =
     Some (0, log Queue_work (a\<lparr>deferred_rx_queue := deferred_rx_queue a @ map (queued_frame t) (u # us)\<rparr>))"
  using assms
proof (induction us arbitrary: u index pkt_len a)
  case Nil
  obtain off frame where u: "u = (off, frame)" by (cases u)
  have s: "sendable a (off, frame)" using Nil.prems u by simp
  have fr: "aggregated_frame a t (drop index (DataRcvPacket a)) pkt_len =
      Some (Some (word_of_nat (unit_length u), off, length frame))"
    using aggregated_frame_unit [OF s Nil.prems(1), of pkt_len 0 t junk] Nil.prems(4,5) u by simp
  have sl: "mem_slice (drop index (DataRcvPacket a)) off (length frame) = Some frame"
    using Nil.prems(4) u transfer_unit_frame [OF s, of junk] unit_length_bounds(1) [of off frame]
    by (simp add: mem_slice_def)
  have "pkt_len = ucast (word_of_nat (unit_length u) :: u16)"
    using Nil.prems(5) sendable_length [OF s] u
    by (simp add: word_unat_eq_iff unat_ucast_widen unat_of_nat)
  with fr sl Nil.prems(2) u show ?case
    by (subst lmac_aggregated_loop.simps) (simp add: netbuf_queue_tail_def Let_def)
next
  case (Cons v us)
  obtain off frame where u: "u = (off, frame)" by (cases u)
  let ?rest = "concat (map transfer_unit (v # us)) @ junk" and ?n = "unit_length u"
    and ?k = "sum_list (map unit_length (v # us))"
  have s: "sendable a (off, frame)" and sv: "sendable a v" using Cons.prems u by auto
  have k: "20 \<le> ?k" using sendable_length [OF sv] by simp
  have d: "drop index (DataRcvPacket a) = transfer_unit u @ ?rest" using Cons.prems(4) by simp
  have fr: "aggregated_frame a t (drop index (DataRcvPacket a)) pkt_len =
      Some (Some (word_of_nat ?n, off, length frame))"
    using aggregated_frame_unit [OF s Cons.prems(1), of pkt_len ?k t ?rest] k d Cons.prems(5) u by simp
  have sl: "mem_slice (drop index (DataRcvPacket a)) off (length frame) = Some frame"
    using transfer_unit_frame [OF s, of ?rest] unit_length_bounds(1) [of off frame] d u
    by (simp add: mem_slice_def)
  have n: "unat (word_of_nat ?n :: u16) = ?n"
    using sendable_length [OF s] u by (simp add: unat_of_nat)
  have r: "unat (pkt_len - ucast (word_of_nat ?n :: u16)) = ?k"
    using Cons.prems(5) n by (subst unat_sub) (simp_all add: word_le_nat_alt unat_ucast_widen)
  have "0 < unat (pkt_len - ucast (word_of_nat ?n :: u16))" using k r by linarith
  then have pos: "0 < pkt_len - ucast (word_of_nat ?n :: u16)" by (simp add: word_less_nat_alt)
  let ?a1 = "a\<lparr>deferred_rx_queue := deferred_rx_queue a @ [queued_frame t u]\<rparr>"
  have eq: "\<And>x. sendable ?a1 x = sendable a x" by (simp add: sendable_def split_def split: option.split)
  have "lmac_aggregated_loop h t (index + ?n) (pkt_len - ucast (word_of_nat ?n :: u16)) ?a1 =
      Some (0, log Queue_work (?a1\<lparr>deferred_rx_queue := deferred_rx_queue ?a1 @ map (queued_frame t) (v # us)\<rparr>))"
    using Cons.prems r eq drop_past_unit [OF d] by (intro Cons.IH) simp_all
  with fr sl pos n Cons.prems(2) u show ?case
    by (subst lmac_aggregated_loop.simps) (simp add: netbuf_queue_tail_def Let_def)
qed

text \<open>
  C4. Over SDIO, and while memory for the frames can be had, an aggregate is split into exactly
  the frames the firmware packed, in order: for any non-empty list of frames that the checks
  admit, whatever their offsets, lengths and contents and whatever follows in the buffer,
  every frame is queued once with the packet type of the transfer, and the bottom half is
  scheduled once. (When an allocation fails, the routine returns at once: that frame and the
  rest of the aggregate are lost. On USB the padding is to four bytes, and a transfer holds
  one frame.)
\<close>

theorem aggregate_roundtrip:
  assumes "host_intf_type a = HOST_INTF_SDIO" and "\<forall>tr. h_alloc_skb h tr"
    and "us \<noteq> []" and "\<forall>u\<in>set us. sendable a u"
    and "DataRcvPacket a = concat (map transfer_unit us) @ junk"
    and "unat pkt_len = sum_list (map unit_length us)"
  shows "process_lmac_aggregated_pkt h pkt_len t a =
     Some (0, log Queue_work (a\<lparr>deferred_rx_queue := deferred_rx_queue a @ map (queued_frame t) us\<rparr>))"
  using lmac_loop_splits [of a h "hd us" "tl us" 0 junk pkt_len t] assms
  by (cases us) (simp_all add: process_lmac_aggregated_pkt_def)

definition two_frames :: "(nat \<times> bytes) list" where
  "two_frames = [(4, set_word 0 0x2004 (replicate 20 3)), (12, set_word 0 0x1002 (replicate 18 1))]"

theorem aggregate_roundtrip_witness:
  "\<exists>a'. process_lmac_aggregated_pkt calm_host 512 WLAN_PKT
          (idle_adapter\<lparr>DataRcvPacket := concat (map transfer_unit two_frames)\<rparr>) = Some (0, a') \<and>
        map nb_data (deferred_rx_queue a') = map snd two_frames"
proof -
  let ?a = "idle_adapter\<lparr>DataRcvPacket := concat (map transfer_unit two_frames)\<rparr>"
  have u: "unat (0x1002 AND 0xfff :: u16) = 2" "unat (0x2004 AND 0xfff :: u16) = 4" by simp_all
  have s: "\<forall>u\<in>set two_frames. sendable ?a u"
    using u by (auto simp: two_frames_def sendable_def unit_length_def rd16_def rd8_in set_word_nth too_big_def example_defs)
  have l: "unat (512 :: u32) = sum_list (map unit_length two_frames)"
    by (simp add: two_frames_def unit_length_def)
  from aggregate_roundtrip [of ?a calm_host two_frames "[]" 512 WLAN_PKT] s l show ?thesis
    by (simp add: example_defs two_frames_def fresh_netbuf_def)
qed

text \<open>
  The checks read the descriptor word at the announced offset before anything has bounded
  that offset: a transfer whose header announces an offset beyond its end makes the
  driver read outside the buffer.
\<close>

lemma offset_read_outside_transfer:
  "unaggregated_frame idle_adapter
     ((fresh_netbuf (set_word 0 256 (set_word 1 0x400 (replicate 256 0))))\<lparr>rx_pkt_type := WLAN_PKT\<rparr>) 256 = None"
  by (simp add: unaggregated_frame_def fresh_netbuf_def rd16_def rd8_def set_word_nth bad_header_def Let_def)

text \<open>
  On USB the padded length is not checked, so a frame shorter than its descriptor is
  queued and the bottom half reads outside it.
\<close>

definition usb_truncated :: netbuf where
  "usb_truncated = (fresh_netbuf (set_word 0 20 (set_word 1 18 (set_word 9 0x2000 (replicate 20 0)))))\<lparr>rx_pkt_type := BT_PKT\<rparr>"

lemma usb_truncated_frame_faults:
  "\<exists>a'. process_usb_rcv_pkt calm_host usb_truncated BT_PKT (idle_adapter\<lparr>host_intf_type := HOST_INTF_USB\<rparr>) = Some (0, a') \<and>
        map (length \<circ> nb_data) (deferred_rx_queue a') = [2] \<and>
        deferred_rx_packet_parser 2 b P calm_host a' = None"
proof -
  let ?a = "idle_adapter\<lparr>host_intf_type := HOST_INTF_USB\<rparr>"
  let ?q = "usb_truncated\<lparr>nb_data := [0, 0x20]\<rparr>"
  have d: "nb_data usb_truncated = [20, 0, 18] @ replicate 15 0 @ [0, 0x20]"
    by code_simp
  have rt: "rx_pkt_type usb_truncated = BT_PKT"
    by (simp add: usb_truncated_def)
  have fr: "unaggregated_frame ?a usb_truncated 20 = Some (Some (18, 16))"
    by (simp add: unaggregated_frame_def d rt rd16_def rd8_def bad_header_def too_big_def Let_def nth_append
        example_defs)
  have ad: "netbuf_adj (nb_data usb_truncated) 18 = Some [0, 0x20]" by (simp add: netbuf_adj_def d)
  let ?a' = "log Queue_work (?a\<lparr>deferred_rx_queue := [?q]\<rparr>)"
  have "length (nb_data usb_truncated) = 20" by (simp add: d)
  with fr ad rt have p: "process_usb_rcv_pkt calm_host usb_truncated BT_PKT ?a = Some (0, ?a')"
    by (simp add: process_usb_rcv_pkt_def process_unaggregated_pkt_def netbuf_trim_def netbuf_queue_defs Let_def
        idle_adapter_def)
  have "deploy_packet_to_assets b P calm_host ?q (?a'\<lparr>deferred_rx_queue := []\<rparr>) = None"
    by (simp add: deploy_packet_to_assets_def deploy_bt_def rt rd8_def log_def example_defs)
  then have "deferred_rx_packet_parser 2 b P calm_host ?a' = None"
    by (simp add: numeral_2_eq_2 dequeue_pkt_def)
  with p show ?thesis by simp
qed

section \<open>The transfer fits the receive buffer\<close>

lemma num_rx_blocks_table: "list_all (\<lambda>k. num_rx_blocks (word_of_nat k) \<le> 31) [0..<256]"
  by code_simp

lemma num_rx_blocks_bound:
  assumes "intr < 256"
  shows "unat (num_rx_blocks intr) \<le> 31"
proof -
  have "unat intr \<in> set [0..<256]" using assms by (simp add: word_less_nat_alt)
  with num_rx_blocks_table have "num_rx_blocks (word_of_nat (unat intr)) \<le> 31"
    by (auto simp only: list_all_iff)
  then show ?thesis by (simp add: word_le_nat_alt)
qed

lemma reg_blocks_bound: "unat (v AND 0x1F :: u8) \<le> 31"
  using word_and_le1 [of v "0x1F"] by (simp add: word_le_nat_alt)

text \<open>
  No transfer overruns the receive buffer: with the eight-bit interrupt status the
  block count is at most thirty-one wherever it comes from, so what the bus delivers fits
  the 8400 bytes of \<^verbatim>\<open>DataRcvPacket\<close>, whose size it keeps.
\<close>

theorem rx_transfer_fits_buffer:
  assumes "interrupt_status a < 256" and "length (DataRcvPacket a) = 8400"
    and "rx_block_count h a = ((s, num_blks, protocol), a1)"
  shows "unat (ucast num_blks * 256 :: u32) = unat num_blks * 256 \<and> unat num_blks \<le> 31 \<and>
    (\<exists>buf. mem_write (DataRcvPacket a1) (fill (unat (ucast num_blks * 256 :: u32)) raw) = Some buf \<and> length buf = 8400)"
proof -
  have n: "unat num_blks \<le> 31" and d: "DataRcvPacket a1 = DataRcvPacket a"
    using assms(3) num_rx_blocks_bound [OF assms(1)] reg_blocks_bound
    by (auto simp: rx_block_count_def read_register_def Let_def split: if_splits prod.splits)
  then have "unat (ucast num_blks * 256 :: u32) = unat num_blks * 256"
    by (simp add: unat_word_ariths unat_ucast_widen)
  with n d assms(2) show ?thesis by (simp add: mem_write_def)
qed

theorem rx_transfer_fits_buffer_witness:
  "length (DataRcvPacket (idle_adapter\<lparr>interrupt_status := 0xFF, DataRcvPacket := replicate 8400 0\<rparr>)) = 8400 \<and>
   (\<exists>buf. mem_write (replicate 8400 0) (fill 7936 [1]) = Some buf \<and> length buf = 8400)"
proof -
  let ?a = "idle_adapter\<lparr>interrupt_status := 0xFF, DataRcvPacket := replicate 8400 0\<rparr>"
  have "rx_block_count calm_host ?a = ((0, 31, WLAN_PKT), ?a)"
    by (simp add: rx_block_count_def num_rx_blocks_def)
  from rx_transfer_fits_buffer [OF _ _ this, of "[1]"] show ?thesis by simp
qed

end
