(* ===== verification/Rx_Delivery.thy ===== *)
theory Rx_Delivery
  imports Coex_Rx
begin

text \<open>
  What becomes of a received packet: it is freed or handed to a protocol exactly once, the
  card-ready packets start their protocol, corruption stops everything, and the sleep
  request of the firmware reaches the power manager with its token.
\<close>

section \<open>Packets consumed\<close>

text \<open>A packet leaves the common HAL when it is freed or delivered.\<close>

fun is_end :: "event \<Rightarrow> bool" where
  "is_end (Free_pkt d) = True"
| "is_end (Deliver i nb) = True"
| "is_end _ = False"

definition consumed :: "adapter \<Rightarrow> nat" where
  "consumed a = length (filter is_end (trace a))"

lemma consumed_log [simp]: "consumed (log e a) = (if is_end e then Suc (consumed a) else consumed a)"
  by (simp add: consumed_def)

text \<open>
  The ledger of the receive path: how many packets were consumed, those that wait, and
  which protocols have a receive callback. Handling a packet changes nothing else of it.
\<close>

definition ledger :: "adapter \<Rightarrow> nat \<times> netbuf list \<times> (nat \<Rightarrow> bool)" where
  "ledger a = (consumed a, deferred_rx_queue a, \<lambda>i. has_pkt_callback (tech a i))"

lemma ledger_log [simp]: "\<not> is_end e \<Longrightarrow> ledger (log e a) = ledger a"
  by (simp add: ledger_def)

lemma ledger_tech [simp]:
  "(\<And>t. has_pkt_callback (f t) = has_pkt_callback t) \<Longrightarrow> ledger (upd_tech i f a) = ledger a"
  by (auto simp: ledger_def consumed_def)

lemma ledger_assets [simp]:
  "techs (f (d_assets a)) = techs (d_assets a) \<Longrightarrow> ledger (upd_assets f a) = ledger a"
  by (simp add: ledger_def consumed_def)

lemma ledger_updates [simp]:
  "ledger (set_coex_queue n ps a) = ledger a" "ledger (tot_pkts_qed_update c a) = ledger a"
  "ledger (ulp_sleep_token_update t a) = ledger a" "ledger (flashing_mode_on_update b a) = ledger a"
  "ledger (flashing_started_update b a) = ledger a" "ledger (fsm_state_update s a) = ledger a"
  "ledger (eeprom_cfm_count_update n8 a) = ledger a" "ledger (DataRcvPacket_update d a) = ledger a"
  "ledger (dev_config_vals_update v a) = ledger a"
  by (simp_all add: ledger_def consumed_def set_coex_queue_def)

text \<open>The modules' functions leave the ledger of the common HAL alone.\<close>

definition packet_neutral :: "protocols \<Rightarrow> bool" where
  "packet_neutral P \<longleftrightarrow>
     (\<forall>i a. ledger (snd (p_module_init P i a)) = ledger a) \<and>
     (\<forall>i nb a. ledger (p_get_pkt P i nb a) = ledger a) \<and>
     (\<forall>a. ledger (snd (p_qspi_bootup_params P a)) = ledger a)"

lemma ledger_send_queued:
  "send_pkt_to_coex h nb COEX_Q a = Some (s, a') \<Longrightarrow> ledger a' = ledger a"
  by (auto simp: send_pkt_to_coex_def coex_queue_at_def coex_sched_pkt_xmit_def Let_def split: if_splits)

lemma ledger_wake_fold: "ledger (foldl wake_protocol a xs) = ledger a"
  by (induction xs arbitrary: a) (simp_all add: wake_protocol_def)

lemma ledger_sleep_entry:
  "sleep_entry_recvd_handler h a = Some a' \<Longrightarrow> ledger a' = ledger a"
  by (auto simp: sleep_entry_recvd_handler_def send_ulp_sleep_ack_def wake_protocols_def ledger_wake_fold Let_def
      split: if_splits bind_splits dest!: ledger_send_queued)

lemma ledger_sleep_exit [simp]: "ledger (sleep_exit_recvd a) = ledger a"
  by (simp add: sleep_exit_recvd_def wake_protocols_def ledger_wake_fold Let_def)

lemma ledger_configure:
  "onebox_configure_common_dev_params h a = Some (s, a') \<Longrightarrow> ledger a' = ledger a"
  by (auto simp: onebox_configure_common_dev_params_def Let_def split: if_splits bind_splits
      dest!: ledger_send_queued)

lemma ledger_update_access:
  "onebox_update_common_hal_tx_access h i a = Some a' \<Longrightarrow> ledger a' = ledger a"
  by (auto simp: onebox_update_common_hal_tx_access_def send_config_params_def set_common_hal_fsm_def
      wake_protocol_def Let_def split: common_hal_fsm.splits if_splits bind_splits dest!: ledger_configure)

lemma ledger_device_ready:
  "device_ready_rx b h msg n a = Some (s, a') \<Longrightarrow> ledger a' = ledger a"
  by (auto simp: device_ready_rx_def iap_rx_def process_ulp_sleep_notify_def Let_def
      split: if_splits bind_splits dest!: ledger_sleep_entry ledger_update_access)

lemma ledger_flash: "flash_burn_rx msg n t a = Some (s, a') \<Longrightarrow> ledger a' = ledger a"
  by (auto simp: flash_burn_rx_def split: if_splits bind_splits)

lemma ledger_coex_rx:
  assumes "packet_neutral P" "onebox_process_coex_rx_pkt b P h msg a = Some (s, a')"
  shows "ledger a' = ledger a"
proof -
  have q: "p_qspi_bootup_params P x = (y, z) \<Longrightarrow> ledger z = ledger x" for x y z
    using assms(1) by (metis packet_neutral_def snd_conv)
  show ?thesis
    using assms(2)
    by (auto simp: onebox_process_coex_rx_pkt_def Let_def split: bind_splits fsm_state.splits if_splits prod.splits
        dest!: ledger_device_ready ledger_flash q)
qed

lemma ledger_inaugurate:
  "packet_neutral P \<Longrightarrow> ledger (snd (inaugurate_assets b P i a)) = ledger a"
  by (simp add: inaugurate_assets_def packet_neutral_def)

section \<open>Each packet is consumed exactly once\<close>

definition consume :: "nat \<times> netbuf list \<times> (nat \<Rightarrow> bool) \<Rightarrow> nat \<times> netbuf list \<times> (nat \<Rightarrow> bool)" where
  "consume l = (Suc (fst l), snd l)"

lemma ledger_drop [simp]: "ledger (drop_pkt nb a) = consume (ledger a)"
  by (simp add: drop_pkt_def ledger_def consume_def)

lemma ledger_give:
  "packet_neutral P \<Longrightarrow> has_pkt_callback (tech a i) \<Longrightarrow> ledger (give_to_protocol P i nb a) = consume (ledger a)"
  by (simp add: give_to_protocol_def packet_neutral_def) (simp add: ledger_def consume_def)

lemma ledger_bt:
  assumes "packet_neutral P" "has_pkt_callback (tech a BT_ID)" "deploy_bt b P h nb a = Some a'"
  shows "ledger a' = consume (ledger a)"
  using assms(3) ledger_give [OF assms(1,2)]
  by (auto simp: deploy_bt_def bt_card_ready_def ledger_inaugurate [OF assms(1)]
      split: if_splits bind_splits dest!: ledger_update_access)

lemma ledger_wlan:
  assumes "packet_neutral P" "has_pkt_callback (tech a WLAN_ID)" "deploy_wlan b P h nb a = Some a'"
  shows "ledger a' = consume (ledger a)"
proof -
  have d: "wlan_card_details m d = Some d' \<Longrightarrow> techs d' = techs d" for m d d'
    by (auto simp: wlan_card_details_def split: bind_splits)
  show ?thesis
    using assms(3) ledger_give [OF assms(1,2)]
    by (auto simp: deploy_wlan_def wlan_card_ready_def ledger_inaugurate [OF assms(1)] d Let_def
        split: if_splits bind_splits dest!: ledger_update_access)
qed

lemma ledger_zigb:
  assumes "packet_neutral P" "has_pkt_callback (tech a ZB_ID)" "deploy_zigb b P h nb a = Some a'"
  shows "ledger a' = consume (ledger a)"
  using assms(3) ledger_give [OF assms(1,2)]
  by (auto simp: deploy_zigb_def ledger_inaugurate [OF assms(1)]
      split: if_splits bind_splits dest!: ledger_update_access)

definition known_protocol :: "netbuf \<Rightarrow> bool" where
  "known_protocol nb \<longleftrightarrow> drop_bit 4 (nb_data nb ! 1) = COEX_PKT \<or> rx_pkt_type nb \<in> {COEX_PKT, BT_PKT, WLAN_PKT, ZIGB_PKT}"

lemma ledger_deploy:
  assumes "packet_neutral P" "known_protocol nb" "\<forall>i<MAX_IDS. has_pkt_callback (tech a i)"
    and "deploy_packet_to_assets b P h nb a = Some (s, a')"
  shows "ledger a' = consume (ledger a) \<and> s = 0"
proof (cases "card_state (d_assets a) = GS_CARD_DETACH")
  case True
  with assms(4) show ?thesis by (auto simp: deploy_packet_to_assets_def)
next
  case False
  define p where "p = (if drop_bit 4 (nb_data nb ! 1) = COEX_PKT then COEX_PKT else rx_pkt_type nb)"
  have d: "(if p = COEX_PKT then
              do { (_, a1) \<leftarrow> onebox_process_coex_rx_pkt b P h (nb_data nb) a; Some (drop_pkt nb a1) }
            else if p = BT_PKT then deploy_bt b P h nb a
            else if p = WLAN_PKT then deploy_wlan b P h nb a
            else if p = ZIGB_PKT then deploy_zigb b P h nb a else Some a) = Some a'" "s = 0"
    using assms(4) False
    by (auto simp: deploy_packet_to_assets_def p_def rd8_Some_iff Let_def split: bind_splits)
  have "p \<in> {COEX_PKT, BT_PKT, WLAN_PKT, ZIGB_PKT}"
    using assms(2) unfolding p_def known_protocol_def by auto
  then consider "p = COEX_PKT" | "p = BT_PKT" | "p = WLAN_PKT" | "p = ZIGB_PKT" by blast
  then show ?thesis
  proof cases
    case 1
    with d show ?thesis by (auto split: bind_splits dest!: ledger_coex_rx [OF assms(1)])
  next
    case 2
    with d ledger_bt [OF assms(1), of a b h nb a'] assms(3) show ?thesis by simp
  next
    case 3
    with d ledger_wlan [OF assms(1), of a b h nb a'] assms(3) show ?thesis by simp
  next
    case 4
    with d ledger_zigb [OF assms(1), of a b h nb a'] assms(3) show ?thesis by simp
  qed
qed

text \<open>
  Whatever the fuel: if the bottom half comes back from packets of known protocols, it has
  consumed each of them once.
\<close>

lemma bottom_half_ledger:
  assumes "packet_neutral P" and "\<forall>i<MAX_IDS. has_pkt_callback (tech a i)"
    and "\<forall>nb\<in>set (deferred_rx_queue a). known_protocol nb"
    and "deferred_rx_packet_parser fuel b P h a = Some a'"
  shows "deferred_rx_queue a' = [] \<and> consumed a' = consumed a + length (deferred_rx_queue a)"
  using assms(2-4)
proof (induction fuel arbitrary: a)
  case 0
  then show ?case by simp
next
  case (Suc fuel)
  show ?case
  proof (cases "deferred_rx_queue a")
    case Nil
    with Suc.prems(3) show ?thesis by (simp add: dequeue_pkt_def)
  next
    case (Cons nb q)
    let ?a = "a\<lparr>deferred_rx_queue := q\<rparr>"
    from Cons Suc.prems(3) obtain s a1 where d: "deploy_packet_to_assets b P h nb ?a = Some (s, a1)"
      by (auto simp: dequeue_pkt_def split: bind_splits)
    have l: "ledger a1 = consume (ledger ?a)" "s = 0"
      using ledger_deploy [OF assms(1) _ _ d] Suc.prems(1,2) Cons by auto
    then have f: "deferred_rx_queue a1 = q" "consumed a1 = Suc (consumed a)"
        "\<And>i. has_pkt_callback (tech a1 i) = has_pkt_callback (tech a i)"
      by (auto simp: ledger_def consume_def consumed_def fun_eq_iff)
    from Suc.prems(3) Cons d l(2) have "deferred_rx_packet_parser fuel b P h a1 = Some a'"
      by (simp add: dequeue_pkt_def)
    with Suc.IH [of a1] f Suc.prems(1,2) Cons show ?thesis by auto
  qed
qed

section \<open>The bottom half returns\<close>

text \<open>
  What the handlers read of a packet without a check: the announced payload is there, the
  card-ready packet of the WLAN firmware carries the card's details, and the length of an
  authentication answer leaves room for the two bytes that are subtracted from it.
\<close>

definition whole_packet :: "netbuf \<Rightarrow> bool" where
  "whole_packet nb \<longleftrightarrow>
     (let d = nb_data nb; n = unat ((the (rd16 d 0) AND 0x0fff) :: u16) in
      16 \<le> length d \<and> 16 + n \<le> length d \<and>
      (d ! 2 = WLAN_CARD_READY_IND \<longrightarrow> 28 \<le> length d) \<and>
      (d ! 2 = IAP_CONFIG \<longrightarrow> n \<noteq> 1))"

definition buffer_neutral :: "protocols \<Rightarrow> bool" where
  "buffer_neutral P \<longleftrightarrow>
     (\<forall>i a. length (DataRcvPacket (snd (p_module_init P i a))) = length (DataRcvPacket a)) \<and>
     (\<forall>i nb a. length (DataRcvPacket (p_get_pkt P i nb a)) = length (DataRcvPacket a)) \<and>
     (\<forall>a. length (DataRcvPacket (snd (p_qspi_bootup_params P a))) = length (DataRcvPacket a))"

lemma buffer_send_queued:
  "send_pkt_to_coex h nb COEX_Q a = Some (s, a') \<Longrightarrow> DataRcvPacket a' = DataRcvPacket a"
  by (auto simp: send_pkt_to_coex_def coex_queue_at_def coex_sched_pkt_xmit_def set_coex_queue_def Let_def
      split: if_splits)

lemma buffer_wake_fold [simp]: "DataRcvPacket (foldl wake_protocol a xs) = DataRcvPacket a"
  by (induction xs arbitrary: a) (simp_all add: wake_protocol_def upd_tech_def)

lemma buffer_sleep_entry:
  "sleep_entry_recvd_handler h a = Some a' \<Longrightarrow> DataRcvPacket a' = DataRcvPacket a"
  by (auto simp: sleep_entry_recvd_handler_def send_ulp_sleep_ack_def wake_protocols_def Let_def
      split: if_splits bind_splits dest!: buffer_send_queued)

lemma buffer_sleep_exit [simp]: "DataRcvPacket (sleep_exit_recvd a) = DataRcvPacket a"
  by (simp add: sleep_exit_recvd_def wake_protocols_def Let_def)

lemma buffer_update_access:
  "onebox_update_common_hal_tx_access h i a = Some a' \<Longrightarrow> DataRcvPacket a' = DataRcvPacket a"
  by (auto simp: onebox_update_common_hal_tx_access_def send_config_params_def set_common_hal_fsm_def
      onebox_configure_common_dev_params_def wake_protocol_def upd_tech_def Let_def
      split: common_hal_fsm.splits if_splits bind_splits dest!: buffer_send_queued)

lemma update_access_some: "\<exists>a'. onebox_update_common_hal_tx_access h i a = Some a'"
proof -
  obtain r where "onebox_configure_common_dev_params h (set_common_hal_fsm COMMON_HAL_SEND_CONFIG_PARAMS a) = Some r"
    using onebox_configure_some by blast
  then show ?thesis
    by (cases r) (auto simp: onebox_update_common_hal_tx_access_def send_config_params_def Let_def split: common_hal_fsm.split)
qed

lemma access_returns:
  "\<exists>a'. onebox_update_common_hal_tx_access h i a = Some a' \<and> DataRcvPacket a' = DataRcvPacket a"
  using update_access_some buffer_update_access by blast

lemma sleep_entry_returns: "\<exists>a'. sleep_entry_recvd_handler h a = Some a' \<and> DataRcvPacket a' = DataRcvPacket a"
  using sleep_entry_recvd_some buffer_sleep_entry by blast

text \<open>Each handler returns on a whole packet and keeps the size of the receive buffer.\<close>

lemma coex_handler_returns:
  assumes "whole_packet nb" "buffer_neutral P" "\<And>t. h_kmalloc h t" "4095 \<le> length (DataRcvPacket a)"
  shows "\<exists>s a'. onebox_process_coex_rx_pkt b P h (nb_data nb) a = Some (s, a') \<and>
           length (DataRcvPacket a') = length (DataRcvPacket a)"
proof -
  let ?d = "nb_data nb"
  define w where "w = (the (rd16 ?d 0) :: u16)"
  have d: "16 \<le> length ?d" "16 + unat (w AND 0xfff) \<le> length ?d" "?d ! 2 = IAP_CONFIG \<longrightarrow> unat (w AND 0xfff) \<noteq> 1"
    using assms(1) by (simp_all add: whole_packet_def w_def Let_def)
  have w: "rd16 ?d 0 = Some w"
    using d(1) rd16_defined_iff [of ?d 0] by (auto simp: w_def)
  let ?n = "ucast (w AND 0xfff) :: u32"
  have n: "unat ?n = unat (w AND 0xfff)"
    by (simp add: unsigned_ucast_eq take_bit_nat_eq_self_iff less_le_trans [OF unsigned_less])
  have n12: "unat ?n \<le> 4095"
    unfolding n using take_bit_nat_less_exp [of 12 "unat w"]
    by (simp add: unsigned_and_eq take_bit_eq_mask mask_eq_exp_minus_1)
  have flash: "\<exists>s a'. flash_burn_rx ?d ?n (?d ! 15) a = Some (s, a') \<and> length (DataRcvPacket a') = length (DataRcvPacket a)"
    using d n n12 assms(4) by (auto simp: flash_burn_rx_def mem_slice_def mem_write_def)
  have iap: "\<exists>s a'. iap_rx h ?d ?n a = Some (s, a') \<and> length (DataRcvPacket a') = length (DataRcvPacket a)"
    if "?d ! 2 = IAP_CONFIG"
  proof -
    have "mfi_copy h ?d ?n a \<noteq> None" if "?n \<noteq> 0"
    proof -
      have "unat ?n \<noteq> 0" using that by (metis unat_eq_zero)
      with d(3) \<open>?d ! 2 = IAP_CONFIG\<close> n have "2 \<le> unat ?n" by linarith
      then have "unat (?n - 2) = unat ?n - 2" by (simp add: unat_sub word_le_nat_alt)
      with d(2) n \<open>2 \<le> unat ?n\<close> assms(3) show ?thesis by (simp add: mfi_copy_def mem_slice_def)
    qed
    then show ?thesis using d(1) by (auto simp: iap_rx_def)
  qed
  have ulp: "\<exists>s a'. process_ulp_sleep_notify b h ?d a = Some (s, a') \<and> length (DataRcvPacket a') = length (DataRcvPacket a)"
  proof -
    obtain v where "rd16 ?d 12 = Some v" using d(1) rd16_defined_iff [of ?d 12] by auto
    moreover obtain a' where "sleep_entry_recvd_handler h (a\<lparr>ulp_sleep_token := drop_bit 4 v\<rparr>) = Some a'"
      "DataRcvPacket a' = DataRcvPacket a"
      using sleep_entry_returns [of h "a\<lparr>ulp_sleep_token := drop_bit 4 v\<rparr>"] by auto
    ultimately show ?thesis using d(1) by (simp add: process_ulp_sleep_notify_def Let_def)
  qed
  obtain a1 where "onebox_update_common_hal_tx_access h WLAN_ID
      (upd_assets (\<lambda>d. d\<lparr>common_hal_fw_state := FW_ACTIVE\<rparr>) a) = Some a1" "DataRcvPacket a1 = DataRcvPacket a"
    using access_returns [of h WLAN_ID "upd_assets (\<lambda>d. d\<lparr>common_hal_fw_state := FW_ACTIVE\<rparr>) a"] by auto
  then have ready: "\<exists>s a'. device_ready_rx b h ?d ?n a = Some (s, a') \<and> length (DataRcvPacket a') = length (DataRcvPacket a)"
    using d(1) ulp iap by (auto simp: device_ready_rx_def)
  have boot: "length (DataRcvPacket y) = length (DataRcvPacket x)" if "p_qspi_bootup_params P x = (s, y)" for x s y
    using assms(2) that by (metis buffer_neutral_def snd_conv)
  show ?thesis
    using w d(1) flash ready
    by (auto simp: onebox_process_coex_rx_pkt_def Let_def split: fsm_state.split prod.split dest!: boot)
qed

lemma buffer_inaugurate:
  "buffer_neutral P \<Longrightarrow> length (DataRcvPacket (snd (inaugurate_assets b P i a))) = length (DataRcvPacket a)"
  by (simp add: inaugurate_assets_def buffer_neutral_def)

lemma buffer_give:
  "buffer_neutral P \<Longrightarrow> length (DataRcvPacket (give_to_protocol P i nb a)) = length (DataRcvPacket a)"
  by (simp add: give_to_protocol_def buffer_neutral_def drop_pkt_def)

lemma card_ready_returns:
  assumes "28 \<le> length (nb_data nb)" "buffer_neutral P"
  shows "\<exists>a'. wlan_card_ready b P h nb a = Some a' \<and> length (DataRcvPacket a') = length (DataRcvPacket a)"
proof -
  have "\<exists>d. wlan_card_details (nb_data nb) (d_assets a) = Some d"
    using assms(1) by (simp add: wlan_card_details_def mem_slice_def)
  then obtain d where d: "wlan_card_details (nb_data nb) (d_assets a) = Some d" ..
  let ?a1 = "upd_tech WLAN_ID (\<lambda>t. t\<lparr>fw_state := FW_ACTIVE\<rparr>) (upd_assets (\<lambda>_. d) a)"
  obtain a2 where a2: "onebox_update_common_hal_tx_access h WLAN_ID ?a1 = Some a2" "DataRcvPacket a2 = DataRcvPacket ?a1"
    using access_returns by blast
  have "\<exists>r. rd32 (nb_data nb) 8 = Some r"
    using assms(1) by (simp add: rd32_def rd16_def)
  with a2 d show ?thesis
    using assms(1) by (auto simp: wlan_card_ready_def buffer_inaugurate [OF assms(2)] upd_tech_def)
qed

lemma deploy_returns:
  assumes "whole_packet nb" "buffer_neutral P" "\<And>t. h_kmalloc h t" "4095 \<le> length (DataRcvPacket a)"
  shows "\<exists>s a'. deploy_packet_to_assets b P h nb a = Some (s, a') \<and>
           length (DataRcvPacket a') = length (DataRcvPacket a)"
proof -
  have d: "16 \<le> length (nb_data nb)" "nb_data nb ! 2 = WLAN_CARD_READY_IND \<Longrightarrow> 28 \<le> length (nb_data nb)"
    using assms(1) by (simp_all add: whole_packet_def Let_def)
  have acc: "\<exists>a'. onebox_update_common_hal_tx_access h i x = Some a' \<and> length (DataRcvPacket a') = length (DataRcvPacket x)"
    for i x using access_returns [of h i x] by auto
  have bt: "\<exists>a'. deploy_bt b P h nb a = Some a' \<and> length (DataRcvPacket a') = length (DataRcvPacket a)"
    using d(1) acc [of BT_ID "upd_assets (\<lambda>d. d\<lparr>bt_deregister_sent := False\<rparr>)
        (upd_tech BT_ID (\<lambda>t. t\<lparr>fw_state := FW_ACTIVE\<rparr>) a)"]
    by (auto simp: deploy_bt_def bt_card_ready_def drop_pkt_def buffer_inaugurate [OF assms(2)] buffer_give [OF assms(2)]
        upd_tech_def)
  have zb: "\<exists>a'. deploy_zigb b P h nb a = Some a' \<and> length (DataRcvPacket a') = length (DataRcvPacket a)"
    using d(1) acc [of ZB_ID "upd_tech ZB_ID (\<lambda>t. t\<lparr>fw_state := FW_ACTIVE\<rparr>) a"]
    by (auto simp: deploy_zigb_def drop_pkt_def buffer_inaugurate [OF assms(2)] buffer_give [OF assms(2)] upd_tech_def)
  have wl: "\<exists>a'. deploy_wlan b P h nb a = Some a' \<and> length (DataRcvPacket a') = length (DataRcvPacket a)"
    using d card_ready_returns [OF _ assms(2), of nb b h a]
    by (auto simp: deploy_wlan_def drop_pkt_def buffer_give [OF assms(2)])
  from coex_handler_returns [OF assms, of b] bt zb wl d(1) show ?thesis
    by (auto simp: deploy_packet_to_assets_def drop_pkt_def Let_def)
qed

lemma bottom_half_returns:
  assumes "buffer_neutral P" "\<And>t. h_kmalloc h t" "packet_neutral P"
  shows "\<forall>i<MAX_IDS. has_pkt_callback (tech a i) \<Longrightarrow> 4095 \<le> length (DataRcvPacket a) \<Longrightarrow>
     \<forall>nb\<in>set (deferred_rx_queue a). known_protocol nb \<and> whole_packet nb \<Longrightarrow>
     length (deferred_rx_queue a) < fuel \<Longrightarrow> \<exists>a'. deferred_rx_packet_parser fuel b P h a = Some a'"
proof (induction fuel arbitrary: a)
  case 0
  then show ?case by simp
next
  case (Suc fuel)
  show ?case
  proof (cases "deferred_rx_queue a")
    case Nil
    then show ?thesis by (simp add: dequeue_pkt_def)
  next
    case (Cons nb q)
    let ?a = "a\<lparr>deferred_rx_queue := q\<rparr>"
    obtain s a1 where d: "deploy_packet_to_assets b P h nb ?a = Some (s, a1)"
      "length (DataRcvPacket a1) = length (DataRcvPacket a)"
      using deploy_returns [of nb P h ?a b] assms(1,2) Suc.prems(2,3) Cons by auto
    have l: "ledger a1 = consume (ledger ?a)" "s = 0"
      using ledger_deploy [OF assms(3) _ _ d(1)] Suc.prems(1,3) Cons by auto
    then have f: "deferred_rx_queue a1 = q" "\<And>i. has_pkt_callback (tech a1 i) = has_pkt_callback (tech a i)"
      by (auto simp: ledger_def consume_def fun_eq_iff)
    have "\<exists>a'. deferred_rx_packet_parser fuel b P h a1 = Some a'"
      using f d(2) Suc.prems Cons by (intro Suc.IH) auto
    with Cons d(1) l(2) show ?thesis by (simp add: dequeue_pkt_def)
  qed
qed

text \<open>
  C5. The bottom half neither loses nor frees twice, and it comes back: started on a queue of
  packets of known protocols it returns after one round per packet and one for the empty queue,
  the queue is empty, and exactly as many packets were freed or delivered as were waiting. The
  packets are whole, that is, they contain what the handlers read of them unchecked
  (an authentication answer of one byte is not whole: its length is taken less two); memory
  for the copies of such answers can be had, the receive buffer has room for the longest
  payload, every protocol's receive callback is set, and the functions of the protocols
  neither touch the queue of the common HAL nor log packets as consumed nor change the
  callbacks and the size of its buffer.
\<close>

theorem bottom_half_consumes_each_once:
  assumes "packet_neutral P" and "buffer_neutral P" and "\<forall>i<MAX_IDS. has_pkt_callback (tech a i)"
    and "\<forall>t. h_kmalloc h t" and "4095 \<le> length (DataRcvPacket a)"
    and "\<forall>nb\<in>set (deferred_rx_queue a). known_protocol nb \<and> whole_packet nb"
    and "length (deferred_rx_queue a) < fuel"
  shows "\<exists>a'. deferred_rx_packet_parser fuel b P h a = Some a' \<and>
     deferred_rx_queue a' = [] \<and> consumed a' = consumed a + length (deferred_rx_queue a)"
proof -
  obtain a' where a': "deferred_rx_packet_parser fuel b P h a = Some a'"
    using bottom_half_returns [OF assms(2) _ assms(1,3,5-7), of h b] assms(4) by auto
  with bottom_half_ledger [OF assms(1,3) _ a'] assms(6) show ?thesis by auto
qed

lemma quiet_neutral: "packet_neutral quiet_protocols"
  by (simp add: packet_neutral_def quiet_protocols_def)

lemma quiet_buffer_neutral: "buffer_neutral quiet_protocols"
  by (simp add: buffer_neutral_def quiet_protocols_def)

definition two_waiting :: adapter where
  \<comment> \<open>an empty packet for the WLAN module and a sleep request of the firmware\<close>
  "two_waiting = idle_adapter\<lparr>DataRcvPacket := replicate 4096 0, fsm_state := FSM_DEVICE_READY,
     deferred_rx_queue := [(fresh_netbuf (set_word 1 7 (replicate 16 0)))\<lparr>rx_pkt_type := WLAN_PKT\<rparr>,
       (fresh_netbuf (set_word 6 0x0A11 (set_word 1 (ucast ULP_SLEEP_NOTIFY) (replicate 16 0))))\<lparr>rx_pkt_type := COEX_PKT\<rparr>]\<rparr>"

theorem bottom_half_consumes_each_once_witness:
  "\<exists>a'. deferred_rx_packet_parser 3 shipped_build quiet_protocols calm_host two_waiting = Some a' \<and>
        deferred_rx_queue a' = [] \<and> consumed a' = 2"
proof -
  have k: "\<forall>t. h_kmalloc calm_host t" by (simp add: calm_host_def)
  have w: "whole_packet nb" if "nb_data nb = set_word 1 7 (replicate 16 0) \<or>
      nb_data nb = set_word 6 0x0A11 (set_word 1 (ucast ULP_SLEEP_NOTIFY) (replicate 16 0))" for nb
    using that by (auto simp: whole_packet_def rd16_def rd8_def set_word_nth Let_def)
  have q: "\<forall>nb\<in>set (deferred_rx_queue two_waiting). known_protocol nb \<and> whole_packet nb"
    using w by (auto simp: two_waiting_def known_protocol_def fresh_netbuf_def)
  have c: "\<forall>i<MAX_IDS. has_pkt_callback (tech two_waiting i)" "4095 \<le> length (DataRcvPacket two_waiting)"
    "length (deferred_rx_queue two_waiting) = 2" "consumed two_waiting = 0"
    by (simp_all add: two_waiting_def example_defs consumed_def)
  from bottom_half_consumes_each_once [OF quiet_neutral quiet_buffer_neutral c(1) k c(2) q, of 3 shipped_build] c
  show ?thesis by (simp add: numeral_2_eq_2)
qed

text \<open>
  A packet of one of the four unused protocol numbers, or of a protocol without a callback,
  is neither freed nor delivered: its buffer is lost.
\<close>

lemma unknown_protocol_leaks:
  assumes "card_state (d_assets a) = GS_CARD_ABOARD" "4 \<le> rx_pkt_type nb" "1 < length (nb_data nb)"
    and "drop_bit 4 (nb_data nb ! 1) \<noteq> COEX_PKT"
  shows "deploy_packet_to_assets b P h nb a = Some (0, a)"
proof -
  have "rx_pkt_type nb \<notin> {COEX_PKT, ZIGB_PKT, BT_PKT, WLAN_PKT}"
    using assms(2) by (auto simp: word_le_nat_alt)
  with assms show ?thesis by (simp add: deploy_packet_to_assets_def rd8_in Let_def)
qed

section \<open>Corruption stops everything\<close>

lemma panic_result:
  assumes "panic_stop_all_activites h r a = (s, a')"
  shows "s = ONEBOX_STATUS_FAILURE \<and> card_state (d_assets a') = GS_CARD_DETACH \<and> stop_card_write a' = 2 \<and>
     fsm_state a' = FSM_CARD_NOT_READY \<and> (\<forall>i<MAX_IDS. fw_state (tech a' i) = FW_INACTIVE) \<and>
     deferred_rx_queue a' = deferred_rx_queue a \<and> (\<exists>es. trace a' = es @ trace a \<and> list_all (\<lambda>e. \<not> is_end e) es)"
  using assms
  by (auto simp: panic_stop_all_activites_def sdio_ack_interrupt_def write_register_def upd_tech_def Let_def
      numeral_3_eq_3 less_Suc_eq)

text \<open>
  C6. A transfer that fails the checks is freed once and takes the card down for good: it is
  not queued, the first thing that happens is the free of its buffer and no other packet is freed or
  delivered on the way, the card counts as detached, the COEX state machine is back at the
  start, no firmware is active, and from then on every packet that still waits is freed, not
  delivered, in the order of the queue.
\<close>

theorem corrupted_packet_detaches:
  assumes "unaggregated_frame a nb total_len = Some None"
  shows "\<exists>a'. process_unaggregated_pkt h nb total_len a = Some (255, a') \<and>
     (\<exists>es. trace a' = es @ Free_pkt (nb_data nb) # trace a \<and> list_all (\<lambda>e. \<not> is_end e) es) \<and>
     deferred_rx_queue a' = deferred_rx_queue a \<and>
     card_state (d_assets a') = GS_CARD_DETACH \<and> fsm_state a' = FSM_CARD_NOT_READY \<and>
     (\<forall>i<MAX_IDS. fw_state (tech a' i) = FW_INACTIVE) \<and>
     deferred_rx_packet_parser (Suc (length (deferred_rx_queue a))) b P h a' =
       Some (a'\<lparr>deferred_rx_queue := [],
                 trace := rev (map (\<lambda>p. Free_pkt (nb_data p)) (deferred_rx_queue a)) @ trace a'\<rparr>)"
proof -
  have drain: "deferred_rx_packet_parser (Suc (length q)) b P h x =
      Some (x\<lparr>deferred_rx_queue := [], trace := rev (map (\<lambda>p. Free_pkt (nb_data p)) q) @ trace x\<rparr>)"
    if "card_state (d_assets x) = GS_CARD_DETACH" "deferred_rx_queue x = q" for q x
    using that
  proof (induction q arbitrary: x)
    case Nil
    then show ?case by (simp add: dequeue_pkt_def)
  next
    case (Cons p q)
    have "deferred_rx_packet_parser (Suc (length q)) b P h (drop_pkt p (x\<lparr>deferred_rx_queue := q\<rparr>)) =
        Some (x\<lparr>deferred_rx_queue := [], trace := rev (map (\<lambda>p. Free_pkt (nb_data p)) (p # q)) @ trace x\<rparr>)"
      using Cons.IH [of "drop_pkt p (x\<lparr>deferred_rx_queue := q\<rparr>)"] Cons.prems
      by (simp add: drop_pkt_def) (simp add: log_def)
    then show ?case using Cons.prems by (simp add: dequeue_pkt_def deploy_packet_to_assets_def)
  qed
  obtain s a' where p: "panic_stop_all_activites h SD_MSDU_PACKET_PENDING (log (Free_pkt (nb_data nb)) a) = (s, a')"
    by fastforce
  from panic_result [OF p] drain [of a' "deferred_rx_queue a"] p assms show ?thesis
    by (simp add: process_unaggregated_pkt_def)
qed

theorem corrupted_packet_detaches_witness:
  "\<exists>a'. process_unaggregated_pkt calm_host (fresh_netbuf [0, 0, 0, 0]) 4 idle_adapter = Some (255, a') \<and>
        card_state (d_assets a') = GS_CARD_DETACH \<and> consumed a' = 1"
proof -
  have "unaggregated_frame idle_adapter (fresh_netbuf [0, 0, 0, 0]) 4 = Some None"
    by (simp add: unaggregated_frame_def fresh_netbuf_def rd16_def rd8_def bad_header_def)
  from corrupted_packet_detaches [OF this, of calm_host] obtain a' es where a':
      "process_unaggregated_pkt calm_host (fresh_netbuf [0, 0, 0, 0]) 4 idle_adapter = Some (255, a')"
      "card_state (d_assets a') = GS_CARD_DETACH"
      "trace a' = es @ Free_pkt (nb_data (fresh_netbuf [0, 0, 0, 0])) # trace idle_adapter" "list_all (\<lambda>e. \<not> is_end e) es"
    by blast
  then have "consumed a' = 1"
    by (simp add: consumed_def idle_adapter_def filter_empty_conv list_all_iff)
  with a' show ?thesis by blast
qed

section \<open>The card-ready packets\<close>

lemma onebox_configure_assets:
  "onebox_configure_common_dev_params h a = Some (s, a') \<Longrightarrow> d_assets a' = d_assets a \<and> host_intf_type a' = host_intf_type a"
  using onebox_configure_effect by blast

lemma send_config_params_assets:
  "send_config_params h a = Some a' \<Longrightarrow>
   host_intf_type a' = host_intf_type a \<and> d_assets a' = (d_assets a)\<lparr>common_hal_fsm := COMMON_HAL_TX_ACCESS\<rparr>"
  by (auto simp: send_config_params_def set_common_hal_fsm_def split: bind_splits dest!: onebox_configure_assets)

lemma update_access_assets:
  assumes "onebox_update_common_hal_tx_access h i a = Some a'"
  shows "host_intf_type a' = host_intf_type a \<and>
    d_assets a' = (d_assets a)\<lparr>common_hal_fsm := common_hal_fsm (d_assets a'),
      common_hal_tx_access := common_hal_tx_access (d_assets a'), techs := techs (d_assets a')\<rparr> \<and>
    (\<forall>j. fw_state (tech a' j) = fw_state (tech a j))"
proof (cases "common_hal_fsm (d_assets a) = COMMON_HAL_TX_ACCESS")
  case True
  then show ?thesis
    using assms
    by (auto simp: onebox_update_common_hal_tx_access_def wake_protocol_def upd_tech_def Let_def split: if_splits)
next
  case False
  then show ?thesis
    using assms
    by (auto simp: onebox_update_common_hal_tx_access_def split: common_hal_fsm.splits if_splits
        dest!: send_config_params_assets)
qed

text \<open>
  While the WLAN firmware is inactive only one packet matters: the card-ready packet
  with the magic word. It makes the firmware active, takes the MAC address, the module type
  and the band from their offsets, takes the antenna from the card for manufacturing
  versions from 4 on and from the user otherwise, and starts the WLAN module; the packet is
  freed. Every other packet is freed and changes nothing.
\<close>

theorem wlan_card_ready_cases:
  assumes "fw_state (tech a WLAN_ID) = FW_INACTIVE" and "host_intf_type a = HOST_INTF_SDIO"
    and "28 \<le> length (nb_data nb)"
  shows "if nb_data nb ! 2 = WLAN_CARD_READY_IND \<and> nb_data nb ! 16 = MAGIC_WORD
    then \<exists>a1. deploy_wlan b P h nb a = Some (drop_pkt nb (snd (inaugurate_assets b P WLAN_ID a1))) \<and>
           fw_state (tech a1 WLAN_ID) = FW_ACTIVE \<and>
           wlan_mac_address (d_assets a1) = take 6 (drop 20 (nb_data nb)) \<and>
           module_type (d_assets a1) = nb_data nb ! 26 \<and> band_version (d_assets a1) = nb_data nb ! 27 \<and>
           onboard_antenna (d_assets a1) =
             (if 4 \<le> nb_data nb ! 18 then nb_data nb ! 17 else user_onboard_ant_val (d_assets a))
    else deploy_wlan b P h nb a = Some (drop_pkt nb a)"
proof (cases "nb_data nb ! 2 = WLAN_CARD_READY_IND \<and> nb_data nb ! 16 = MAGIC_WORD")
  case False
  with assms show ?thesis by (auto simp: deploy_wlan_def wlan_card_ready_def rd8_in)
next
  case True
  let ?m = "nb_data nb"
  have v: "(3 < x \<and> 1 < y) \<or> 4 \<le> x \<longleftrightarrow> 4 \<le> x" for x y :: u8
    by (auto simp: word_less_nat_alt word_le_nat_alt)
  define d where "d = (d_assets a)\<lparr>mfg_major_verion := ?m ! 18, mfg_minor_verion := ?m ! 19,
    onboard_antenna := (if 4 \<le> ?m ! 18 then ?m ! 17 else user_onboard_ant_val (d_assets a)),
    wlan_mac_address := take 6 (drop 20 ?m), module_type := ?m ! 26, band_version := ?m ! 27\<rparr>"
  have det: "wlan_card_details ?m (d_assets a) = Some d"
    using assms(3) v by (simp add: wlan_card_details_def rd8_in mem_slice_in d_def)
  let ?a1 = "upd_tech WLAN_ID (\<lambda>t. t\<lparr>fw_state := FW_ACTIVE\<rparr>) (upd_assets (\<lambda>_. d) a)"
  obtain a2 where u: "onebox_update_common_hal_tx_access h WLAN_ID ?a1 = Some a2"
    using update_access_some by blast
  from update_access_assets [OF u] obtain f t ts where a2: "host_intf_type a2 = HOST_INTF_SDIO"
      "d_assets a2 = (d_assets ?a1)\<lparr>common_hal_fsm := f, common_hal_tx_access := t, techs := ts\<rparr>"
      "\<forall>j. fw_state (tech a2 j) = fw_state (tech ?a1 j)"
    using assms(2) by auto
  have "deploy_wlan b P h nb a = Some (drop_pkt nb (snd (inaugurate_assets b P WLAN_ID a2)))"
    using assms True det u a2(1) by (simp add: deploy_wlan_def wlan_card_ready_def rd8_in Let_def)
  moreover have "fw_state (tech a2 WLAN_ID) = FW_ACTIVE" using a2 by simp
  ultimately show ?thesis
    using True a2(2) by (auto simp: upd_tech_def d_def intro!: exI [of _ a2])
qed

theorem wlan_card_ready_cases_witness:
  "\<exists>a1. deploy_wlan shipped_build quiet_protocols calm_host
          (fresh_netbuf (set_word 10 0x2211 (set_word 8 0x5A (replicate 28 0)))) idle_adapter =
        Some (drop_pkt (fresh_netbuf (set_word 10 0x2211 (set_word 8 0x5A (replicate 28 0))))
                (snd (inaugurate_assets shipped_build quiet_protocols WLAN_ID a1))) \<and>
        take 2 (wlan_mac_address (d_assets a1)) = [0x11, 0x22]"
proof -
  let ?nb = "fresh_netbuf (set_word 10 0x2211 (set_word 8 0x5A (replicate 28 0)))"
  have c: "nb_data ?nb ! 2 = WLAN_CARD_READY_IND \<and> nb_data ?nb ! 16 = MAGIC_WORD"
    "take 2 (take 6 (drop 20 (nb_data ?nb))) = [0x11, 0x22]" "28 \<le> length (nb_data ?nb)"
    by code_simp+
  have "fw_state (tech idle_adapter WLAN_ID) = FW_INACTIVE" "host_intf_type idle_adapter = HOST_INTF_SDIO"
    by (simp_all add: example_defs)
  from wlan_card_ready_cases [OF this c(3), of shipped_build quiet_protocols calm_host] c(1,2) show ?thesis
    by (simp only: if_True simp_thms) metis
qed

text \<open>
  The header file says of the antenna byte that it is valid for manufacturing versions
  above 3.1; the comparison accepts no version 3.
\<close>

lemma version_3_2_ignores_card_antenna:
  assumes "28 \<le> length m" "m ! 18 = 3" "m ! 19 = 2"
  shows "map_option onboard_antenna (wlan_card_details m d) = Some (user_onboard_ant_val d)"
  using assms by (simp add: wlan_card_details_def rd8_in mem_slice_in)

text \<open>
  An MFI answer of length one makes the unsigned difference wrap, and the copy runs far
  outside the packet.
\<close>

lemma mfi_length_one_faults:
  "length msg < 4294967295 \<Longrightarrow> mfi_copy h msg 1 a = None"
  by (simp add: mfi_copy_def mem_slice_def unsigned_minus_1_eq_mask mask_eq_exp_minus_1)

section \<open>The sleep request\<close>

lemma sleep_entry_token: "sleep_entry_recvd_handler h a = Some a' \<Longrightarrow> ulp_sleep_token a' = ulp_sleep_token a"
proof -
  have w: "ulp_sleep_token (foldl wake_protocol x xs) = ulp_sleep_token x" for x xs
    by (induction xs arbitrary: x) (simp_all add: wake_protocol_def upd_tech_def)
  show "sleep_entry_recvd_handler h a = Some a' \<Longrightarrow> ulp_sleep_token a' = ulp_sleep_token a"
    by (auto simp: sleep_entry_recvd_handler_def send_ulp_sleep_ack_def wake_protocols_def w Let_def
        send_pkt_to_coex_def coex_queue_at_def coex_sched_pkt_xmit_def set_coex_queue_def split: if_splits bind_splits)
qed

lemma ulp_sleep_ack_frame_fields:
  "rd8 (ulp_sleep_ack_frame token) 2 = Some CONFIRM" "rd8 (ulp_sleep_ack_frame token) 15 = Some ULP_SLEEP_NOTIFY"
  "rd16 (ulp_sleep_ack_frame token) 12 = Some token"
  using rejoin_u16 [of token]
  by (simp_all add: ulp_sleep_ack_frame_def rd16_def rd8_in set_word_nth)

text \<open>
  A sleep notification is decoded by its lowest bit: with the bit set the request's
  twelve-bit token is kept and, when no active protocol wants to send, comes back in the
  acknowledgement that is queued for the device, whose bytes say CONFIRM and
  ULP\_SLEEP\_NOTIFY; with the bit clear the access is restored.
\<close>

theorem sleep_notify_roundtrip:
  assumes "rd16 msg 12 = Some w" and "global_priv (d_assets a)"
    and "h_alloc_skb h (Acquire Tx_access_lock # trace a)"
  shows "\<exists>a'. process_ulp_sleep_notify b h msg a = Some (ONEBOX_STATUS_SUCCESS, a') \<and>
    (if bit w 0 then
       ulp_sleep_token a' = drop_bit 4 w \<and>
       (\<not> protocol_tx_access (d_assets a) \<longrightarrow>
          (\<exists>nb. coex_queues a' 0 = coex_queues a 0 @ [nb] \<and> rd8 (nb_data nb) 2 = Some CONFIRM \<and>
                rd8 (nb_data nb) 15 = Some ULP_SLEEP_NOTIFY \<and> rd16 (nb_data nb) 12 = Some (drop_bit 4 w)))
     else common_hal_tx_access (d_assets a') \<and> \<not> sleep_entry_recvd (d_assets a'))"
proof -
  have "rd8 msg 12 \<noteq> None" "rd8 msg 13 \<noteq> None"
    using assms(1) by (auto simp: rd16_def split: bind_splits)
  then obtain lo hi where lh: "rd8 msg 12 = Some lo" "rd8 msg 13 = Some hi" by auto
  with assms(1) have b: "rd8 msg 12 = Some lo" "w = ucast lo OR push_bit 8 (ucast hi)"
    by (simp_all add: rd16_def)
  have "bit w 0 \<longleftrightarrow> bit lo 0"
    unfolding b(2) by (simp add: bit_or_iff bit_push_bit_iff bit_unsigned_iff del: bit_0)
  moreover have "lo AND 1 = 1 \<longleftrightarrow> bit lo 0"
    by (simp add: and_one_eq mod2_eq_if bit_0)
  ultimately have dec: "lo AND 1 = ULP_SLEEP_ENTRY \<longleftrightarrow> bit w 0" by simp
  show ?thesis
  proof (cases "bit w 0")
    case False
    with b(1) dec show ?thesis
      by (simp add: process_ulp_sleep_notify_def Let_def sleep_exit_assets)
  next
    case True
    let ?a = "a\<lparr>ulp_sleep_token := drop_bit 4 w\<rparr>"
    obtain a' where s: "sleep_entry_recvd_handler h ?a = Some a'" using sleep_entry_recvd_some by blast
    have p: "process_ulp_sleep_notify b h msg a = Some (0, a')"
      using True b(1) dec s assms(1) by (simp add: process_ulp_sleep_notify_def)
    have t: "ulp_sleep_token a' = drop_bit 4 w"
      using sleep_entry_token [OF s] by simp
    have "\<exists>nb. coex_queues a' 0 = coex_queues a 0 @ [nb] \<and> nb_data nb = ulp_sleep_ack_frame (drop_bit 4 w)"
      if "\<not> protocol_tx_access (d_assets a)"
      using sleep_request_cases [OF _ _ s] assms(2,3) that by (auto simp: fresh_netbuf_def)
    with p t True ulp_sleep_ack_frame_fields show ?thesis by auto
  qed
qed

theorem sleep_notify_roundtrip_witness:
  "\<exists>a'. process_ulp_sleep_notify shipped_build calm_host (set_word 6 0x1231 (replicate 16 0)) idle_adapter = Some (0, a') \<and>
        (\<exists>nb. coex_queues a' 0 = [nb] \<and> rd16 (nb_data nb) 12 = Some 0x123)"
proof -
  have "rd16 (set_word 6 0x1231 (replicate 16 0)) 12 = Some 0x1231"
    using rd16_set_word [of 6 "replicate 16 0" "0x1231"] by simp
  moreover have "\<not> protocol_tx_access (d_assets idle_adapter)"
    by (simp add: protocol_tx_access_iff example_defs)
  ultimately show ?thesis
    using sleep_notify_roundtrip [where b = shipped_build and h = calm_host and a = idle_adapter and w = "0x1231"
        and msg = "set_word 6 0x1231 (replicate 16 0)"]
    by (auto simp: example_defs)
qed

end
