(* ===== verification/Sdio_Interrupt.thy ===== *)
theory Sdio_Interrupt
  imports Rx_Delivery
begin

text \<open>
  The SDIO interrupt handler (\<^verbatim>\<open>sdio_interrupt_handler\<close> of
  \<^verbatim>\<open>onebox_sdio_devops.c\<close>): it reads the interrupt register until no interrupt
  of the driver is pending and serves the pending ones by priority: buffer status, received
  packet, firmware assertion. The outer loop of the source has no bound, so it runs under
  fuel; \<open>None\<close> is a fault or fuel that ran out.
\<close>

datatype interrupt_type = BUFF_STATUS_UPDATE | MSDU_PACKET_PENDING | FIRMWARE_ASSERT_IND | UNKNOWN_INT

definition ONEBOX_GET_SDIO_INTERRUPT_TYPE :: "u8 \<Rightarrow> interrupt_type" where
  "ONEBOX_GET_SDIO_INTERRUPT_TYPE i =
     (if i AND push_bit SD_BUFF_STATUS_UPDATE 1 \<noteq> 0 then BUFF_STATUS_UPDATE
      else if i AND push_bit SD_MSDU_PACKET_PENDING 1 \<noteq> 0 then MSDU_PACKET_PENDING
      else if i AND push_bit SD_FW_ASSERT_IND 1 \<noteq> 0 then FIRMWARE_ASSERT_IND
      else UNKNOWN_INT)"

text \<open>
  \<^verbatim>\<open>sdio_interrupt_status ^= BIT(interrupt_type - 1)\<close> on the eight-bit status; for
  an unknown interrupt the status was set to zero and the bit lies outside it.
\<close>

definition mask_serviced :: "u8 \<Rightarrow> u8" where
  "mask_serviced st =
     (case ONEBOX_GET_SDIO_INTERRUPT_TYPE st of
        BUFF_STATUS_UPDATE \<Rightarrow> st XOR 2 | FIRMWARE_ASSERT_IND \<Rightarrow> st XOR 4
      | MSDU_PACKET_PENDING \<Rightarrow> st XOR 8 | UNKNOWN_INT \<Rightarrow> 0)"

definition serve_buff_status :: "protocols \<Rightarrow> host \<Rightarrow> adapter \<Rightarrow> adapter" where
  "serve_buff_status P h a =
     (let a1 = snd (sdio_ack_interrupt h (push_bit SD_BUFF_STATUS_UPDATE 1)
                     (a\<lparr>buf_status_interrupts := buf_status_interrupts a + 1\<rparr>)) in
      case read_register h 0xF3 a1 of
        ((s, device_buf_status), a2) \<Rightarrow>
          if s \<noteq> ONEBOX_STATUS_SUCCESS then a2
          else if drv_state (tech a2 WLAN_ID) = MODULE_ACTIVE \<and> has_buf_status_callback (tech a2 WLAN_ID)
          then p_get_buf_status P device_buf_status (log (Buf_status_callback device_buf_status) a2)
          else a2)"

text \<open>The Boolean says that the handler returns at once.\<close>

definition serve_fw_assert :: "protocols \<Rightarrow> host \<Rightarrow> adapter \<Rightarrow> bool \<times> adapter" where
  "serve_fw_assert P h a =
     (case read_register h 0xF2 a of
        ((s, fw_status), a1) \<Rightarrow>
          if s \<noteq> ONEBOX_STATUS_SUCCESS
          then (False, upd_assets (\<lambda>d. d\<lparr>card_state := GS_CARD_DETACH\<rparr>) (a1\<lparr>fsm_state := FSM_CARD_NOT_READY\<rparr>))
          else (let a2 = (if drv_state (tech a1 WLAN_ID) = MODULE_ACTIVE
                          then p_dump_mgmt_pending P (log Dump_mgmt_pending a1) else a1)
                in (True, snd (panic_stop_all_activites h SD_FW_ASSERT_IND a2))))"

definition serve_msdu :: "host \<Rightarrow> adapter \<Rightarrow> adapter option" where
  "serve_msdu h a =
     do { (_, a1) \<leftarrow> onebox_read_pkt h (a\<lparr>total_sdio_msdu_pending_intr := total_sdio_msdu_pending_intr a + 1\<rparr>);
          Some a1 }"

definition serve_unknown :: "host \<Rightarrow> u8 \<Rightarrow> adapter \<Rightarrow> adapter" where
  "serve_unknown h st a =
     (let a1 = snd (sdio_ack_interrupt h st a) in a1\<lparr>total_sdio_unknown_intr := total_sdio_unknown_intr a1 + 1\<rparr>)"

definition serve_interrupt :: "protocols \<Rightarrow> host \<Rightarrow> interrupt_type \<Rightarrow> u8 \<Rightarrow> adapter \<Rightarrow> (bool \<times> adapter) option" where
  "serve_interrupt P h t st a =
     (case t of
        BUFF_STATUS_UPDATE \<Rightarrow> Some (False, serve_buff_status P h a)
      | FIRMWARE_ASSERT_IND \<Rightarrow> Some (serve_fw_assert P h a)
      | MSDU_PACKET_PENDING \<Rightarrow> do { a1 \<leftarrow> serve_msdu h a; Some (False, a1) }
      | UNKNOWN_INT \<Rightarrow> Some (False, serve_unknown h st a))"

text \<open>The inner loop; masking always takes a bit away.\<close>

lemma mask_serviced_table: "list_all (\<lambda>k. mask_serviced (word_of_nat k) = 0 \<or> mask_serviced (word_of_nat k) < word_of_nat k) [0..<256]"
  by code_simp

lemma mask_serviced_less: "mask_serviced st = 0 \<or> mask_serviced st < st"
proof -
  have "unat st \<in> set [0..<256]" using unsigned_less [of st, where ?'a = nat] by simp
  with mask_serviced_table show ?thesis
    by (simp only: list_all_iff) (drule (1) bspec, simp)
qed

function service_loop :: "protocols \<Rightarrow> host \<Rightarrow> u8 \<Rightarrow> adapter \<Rightarrow> (bool \<times> adapter) option" where
  "service_loop P h st a =
     (case serve_interrupt P h (ONEBOX_GET_SDIO_INTERRUPT_TYPE st) st a of
        None \<Rightarrow> None
      | Some (returned, a1) \<Rightarrow>
          if returned then Some (True, a1)
          else if mask_serviced st = 0 then Some (False, a1)
          else service_loop P h (mask_serviced st) a1)"
  by pat_completeness auto

termination
proof (relation "measure (\<lambda>(P, h, st, a). unat st)", goal_cases)
  case 1
  then show ?case by simp
next
  case (2 P h st a x r a1)
  then show ?case using mask_serviced_less [of st] by (simp add: word_less_nat_alt)
qed

declare service_loop.simps [simp del]

fun sdio_interrupt_rounds :: "nat \<Rightarrow> protocols \<Rightarrow> host \<Rightarrow> adapter \<Rightarrow> adapter option" where
  "sdio_interrupt_rounds 0 P h a = None"
| "sdio_interrupt_rounds (Suc fuel) P h a =
     (case read_register h 0xF9 a of
        ((s, v), a1) \<Rightarrow>
          if s \<noteq> ONEBOX_STATUS_SUCCESS then Some a1
          else
            (let a2 = a1\<lparr>interrupt_status := ucast v\<rparr>; st = v AND 0xE in
             if st = 0 then
               (let a3 = log (Set_event Scheduler_event) a2 in
                Some (a3\<lparr>sdio_intr_status_zero := sdio_intr_status_zero a3 + 1\<rparr>))
             else do { (returned, a3) \<leftarrow> service_loop P h st a2;
                       if returned then Some a3 else sdio_interrupt_rounds fuel P h a3 }))"

definition sdio_interrupt_handler :: "nat \<Rightarrow> protocols \<Rightarrow> host \<Rightarrow> adapter \<Rightarrow> adapter option" where
  "sdio_interrupt_handler fuel P h a =
     sdio_interrupt_rounds fuel P h (a\<lparr>sdio_int_counter := sdio_int_counter a + 1\<rparr>)"

section \<open>Priority\<close>

text \<open>The specification: the pending interrupts in their order of service, each once.\<close>

definition service_order :: "u8 \<Rightarrow> interrupt_type list" where
  "service_order st =
     (if bit st 1 then [BUFF_STATUS_UPDATE] else []) @ (if bit st 3 then [MSDU_PACKET_PENDING] else []) @
     (if bit st 2 then [FIRMWARE_ASSERT_IND] else [])"

fun serve_all :: "protocols \<Rightarrow> host \<Rightarrow> interrupt_type list \<Rightarrow> adapter \<Rightarrow> (bool \<times> adapter) option" where
  "serve_all P h [] a = Some (False, a)"
| "serve_all P h (t # ts) a =
     do { (returned, a1) \<leftarrow> serve_interrupt P h t 0 a;
          if returned then Some (True, a1) else serve_all P h ts a1 }"

lemma serve_known_status: "t \<noteq> UNKNOWN_INT \<Longrightarrow> serve_interrupt P h t st a = serve_interrupt P h t 0 a"
  by (cases t) (simp_all add: serve_interrupt_def)

lemma masked_status_cases:
  "v AND 0xE \<noteq> 0 \<Longrightarrow> v AND 0xE \<in> {2, 4, 6, 8, 10, 12, 14}" for v :: u8
proof -
  have "list_all (\<lambda>k. (word_of_nat k :: u8) AND 0xE = 0 \<or> word_of_nat k AND 0xE \<in> {2, 4, 6, 8, 10, 12, 14 :: u8}) [0..<256]"
    by code_simp
  moreover have "unat v \<in> set [0..<256]" using unsigned_less [of v, where ?'a = nat] by simp
  ultimately have "(word_of_nat (unat v) :: u8) AND 0xE = 0 \<or> word_of_nat (unat v) AND 0xE \<in> {2, 4, 6, 8, 10, 12, 14 :: u8}"
    by (auto simp only: list_all_iff)
  then show "v AND 0xE \<noteq> 0 \<Longrightarrow> v AND 0xE \<in> {2, 4, 6, 8, 10, 12, 14}" by simp
qed

lemma service_loop_last:
  assumes "ONEBOX_GET_SDIO_INTERRUPT_TYPE st = t" "t \<noteq> UNKNOWN_INT" "mask_serviced st = 0"
  shows "service_loop P h st a = serve_all P h [t] a"
  using assms serve_known_status [OF assms(2), of P h st a]
  by (subst service_loop.simps) (auto split: option.split)

lemma service_loop_next:
  assumes "ONEBOX_GET_SDIO_INTERRUPT_TYPE st = t" "t \<noteq> UNKNOWN_INT" "mask_serviced st = st'" "st' \<noteq> 0"
    and "\<And>a. service_loop P h st' a = serve_all P h ts a"
  shows "service_loop P h st a = serve_all P h (t # ts) a"
  using assms serve_known_status [OF assms(2), of P h st a]
  by (subst service_loop.simps) (auto split: option.split)

text \<open>
  C7. Whatever combination of interrupts the register reports, one pass of the handler
  serves exactly the reported ones, each once, in the order buffer status, received packet,
  firmware assertion, and stops early only when the assertion handler returns.
\<close>

theorem interrupts_served_by_priority:
  assumes "v AND 0xE \<noteq> (0 :: u8)"
  shows "service_loop P h (v AND 0xE) a = serve_all P h (service_order (v AND 0xE)) a"
proof -
  note cases = masked_status_cases [OF assms]
  have m: "mask_serviced 2 = 0" "mask_serviced 4 = 0" "mask_serviced 6 = 4" "mask_serviced 8 = 0"
    "mask_serviced 10 = 8" "mask_serviced 12 = 4" "mask_serviced 14 = 12"
    by code_simp+
  have t: "ONEBOX_GET_SDIO_INTERRUPT_TYPE 2 = BUFF_STATUS_UPDATE" "ONEBOX_GET_SDIO_INTERRUPT_TYPE 4 = FIRMWARE_ASSERT_IND"
    "ONEBOX_GET_SDIO_INTERRUPT_TYPE 6 = BUFF_STATUS_UPDATE" "ONEBOX_GET_SDIO_INTERRUPT_TYPE 8 = MSDU_PACKET_PENDING"
    "ONEBOX_GET_SDIO_INTERRUPT_TYPE 10 = BUFF_STATUS_UPDATE" "ONEBOX_GET_SDIO_INTERRUPT_TYPE 12 = MSDU_PACKET_PENDING"
    "ONEBOX_GET_SDIO_INTERRUPT_TYPE 14 = BUFF_STATUS_UPDATE"
    by code_simp+
  have o: "service_order 2 = [BUFF_STATUS_UPDATE]" "service_order 4 = [FIRMWARE_ASSERT_IND]"
    "service_order 6 = [BUFF_STATUS_UPDATE, FIRMWARE_ASSERT_IND]" "service_order 8 = [MSDU_PACKET_PENDING]"
    "service_order 10 = [BUFF_STATUS_UPDATE, MSDU_PACKET_PENDING]"
    "service_order 12 = [MSDU_PACKET_PENDING, FIRMWARE_ASSERT_IND]"
    "service_order 14 = [BUFF_STATUS_UPDATE, MSDU_PACKET_PENDING, FIRMWARE_ASSERT_IND]"
    by code_simp+
  have l4: "service_loop P h 4 a = serve_all P h [FIRMWARE_ASSERT_IND] a" for a
    by (rule service_loop_last) (simp_all add: m t)
  have l8: "service_loop P h 8 a = serve_all P h [MSDU_PACKET_PENDING] a" for a
    by (rule service_loop_last) (simp_all add: m t)
  have l2: "service_loop P h 2 a = serve_all P h [BUFF_STATUS_UPDATE] a"
    by (rule service_loop_last) (simp_all add: m t)
  have l12: "service_loop P h 12 a = serve_all P h [MSDU_PACKET_PENDING, FIRMWARE_ASSERT_IND] a" for a
    by (rule service_loop_next [where st' = 4]) (simp_all only: m t l4, simp_all)
  have l6: "service_loop P h 6 a = serve_all P h [BUFF_STATUS_UPDATE, FIRMWARE_ASSERT_IND] a"
    by (rule service_loop_next [where st' = 4]) (simp_all only: m t l4, simp_all)
  have l10: "service_loop P h 10 a = serve_all P h [BUFF_STATUS_UPDATE, MSDU_PACKET_PENDING] a"
    by (rule service_loop_next [where st' = 8]) (simp_all only: m t l8, simp_all)
  have l14: "service_loop P h 14 a =
      serve_all P h [BUFF_STATUS_UPDATE, MSDU_PACKET_PENDING, FIRMWARE_ASSERT_IND] a"
    by (rule service_loop_next [where st' = 12]) (simp_all only: m t l12, simp_all)
  show ?thesis
    using cases by (elim insertE emptyE) (simp_all only: o l2 l4 l6 l8 l10 l12 l14)
qed

theorem interrupts_served_by_priority_witness:
  "service_loop quiet_protocols calm_host 0xC idle_adapter =
   serve_all quiet_protocols calm_host [MSDU_PACKET_PENDING, FIRMWARE_ASSERT_IND] idle_adapter"
proof -
  have "(0xC :: u8) AND 0xE \<noteq> 0" "(0xC :: u8) AND 0xE = 0xC"
    "service_order 0xC = [MSDU_PACKET_PENDING, FIRMWARE_ASSERT_IND]"
    by code_simp+
  with interrupts_served_by_priority [of "0xC" quiet_protocols calm_host idle_adapter] show ?thesis by simp
qed

section \<open>When the handler returns\<close>

lemma serve_returned:
  "serve_interrupt P h t st a = Some (True, a') \<Longrightarrow> card_state (d_assets a') = GS_CARD_DETACH"
proof -
  have "card_state (d_assets (snd (panic_stop_all_activites h r x))) = GS_CARD_DETACH" for r x
    using panic_result [of h r x] by (cases "panic_stop_all_activites h r x") simp
  then show "serve_interrupt P h t st a = Some (True, a') \<Longrightarrow> card_state (d_assets a') = GS_CARD_DETACH"
    by (auto simp: serve_interrupt_def serve_fw_assert_def Let_def split: interrupt_type.splits bind_splits prod.splits if_splits)
qed

lemma service_loop_returned:
  "service_loop P h st a = Some (True, a') \<Longrightarrow> card_state (d_assets a') = GS_CARD_DETACH"
proof (induction P h st a rule: service_loop.induct)
  case (1 P h st a)
  obtain r a1 where s: "serve_interrupt P h (ONEBOX_GET_SDIO_INTERRUPT_TYPE st) st a = Some (r, a1)"
    using 1(2) by (subst (asm) service_loop.simps) (auto split: option.splits)
  show ?case
  proof (cases r)
    case True
    with s 1(2) serve_returned [of P h _ st a a1] show ?thesis
      by (subst (asm) service_loop.simps) auto
  next
    case False
    with 1(2) s have "mask_serviced st \<noteq> 0" "service_loop P h (mask_serviced st) a1 = Some (True, a')"
      by (subst (asm) service_loop.simps, auto split: if_splits)+
    with 1(1) [OF s refl False] show ?thesis by simp
  qed
qed

text \<open>
  The handler never returns with work left: its last access to the card is a read of
  the interrupt register that failed, or one that shows no interrupt of the driver, after
  which the transmit thread is woken; the only other way out is the firmware assertion,
  and then the card counts as detached.
\<close>

theorem interrupt_handler_drains:
  assumes "sdio_interrupt_handler fuel P h a = Some a'"
  shows "(\<exists>t. trace a' = Set_event Scheduler_event # Reg_read 0xF9 # t \<and>
            fst (h_read_register h (Reg_read 0xF9 # t)) = ONEBOX_STATUS_SUCCESS \<and>
            snd (h_read_register h (Reg_read 0xF9 # t)) AND 0xE = 0) \<or>
         (\<exists>t. trace a' = Reg_read 0xF9 # t \<and> fst (h_read_register h (Reg_read 0xF9 # t)) \<noteq> ONEBOX_STATUS_SUCCESS) \<or>
         card_state (d_assets a') = GS_CARD_DETACH"
proof -
  have "sdio_interrupt_rounds fuel P h x = Some a' \<Longrightarrow> ?thesis" for x
  proof (induction fuel arbitrary: x)
    case 0
    then show ?case by simp
  next
    case (Suc fuel)
    let ?t = "Reg_read 0xF9 # trace x"
    obtain s v where hv: "h_read_register h ?t = (s, v)" by fastforce
    then have r: "read_register h 0xF9 x = ((s, v), log (Reg_read 0xF9) x)" by (simp add: read_register_def)
    consider "s \<noteq> 0" | "s = 0" "v AND 0xE = 0" | "s = 0" "v AND 0xE \<noteq> 0" by blast
    then show ?case
    proof cases
      case 1
      with Suc.prems r have "trace a' = ?t" by auto
      with 1 hv show ?thesis by auto
    next
      case 2
      with Suc.prems r have "trace a' = Set_event Scheduler_event # ?t" by (auto simp: log_def Let_def)
      with 2 hv show ?thesis by auto
    next
      case 3
      with Suc.prems r obtain ret a3 where l:
          "service_loop P h (v AND 0xE) ((log (Reg_read 0xF9) x)\<lparr>interrupt_status := ucast v\<rparr>) = Some (ret, a3)"
          "if ret then a' = a3 else sdio_interrupt_rounds fuel P h a3 = Some a'"
        by (auto simp: Let_def split: bind_splits if_splits)
      then show ?thesis using Suc.IH [of a3] service_loop_returned [of P h _ _ a3] by (cases ret) auto
    qed
  qed
  with assms show ?thesis by (simp add: sdio_interrupt_handler_def)
qed

theorem interrupt_handler_drains_witness:
  "\<exists>a'. sdio_interrupt_handler 1 quiet_protocols calm_host idle_adapter = Some a' \<and>
        trace a' = [Set_event Scheduler_event, Reg_read 0xF9]"
proof -
  obtain a' where a': "sdio_interrupt_handler 1 quiet_protocols calm_host idle_adapter = Some a'"
      "trace a' = [Set_event Scheduler_event, Reg_read 0xF9]" "card_state (d_assets a') = GS_CARD_ABOARD"
    by (simp add: sdio_interrupt_handler_def read_register_def log_def Let_def example_defs)
  from interrupt_handler_drains [OF a'(1)] a' show ?thesis by auto
qed

end
