(* ===== verification/Firmware_Load.thy ===== *)
theory Firmware_Load
  imports Sdio_Bus
begin

text \<open>
  What the bus accesses of \<^verbatim>\<open>Sdio_Bus\<close> do to the device: register sequences that stop at the
  first failure, packet writes whose address carries the length and the queue, and the
  firmware download, stated against a device that replays the trace: a 64 KiB window
  selected by two byte registers in front of a byte-addressed memory.
\<close>

section \<open>Whole blocks\<close>

lemma div_round_up:
  assumes "0 < (b :: nat)"
  shows "(m + b - 1) div b = (if m mod b = 0 then m div b else Suc (m div b))"
proof -
  obtain q r where m: "m = b * q + r" "r < b"
    using assms by (metis mod_less_divisor mult_div_mod_eq)
  then have "m div b = q" "m mod b = r" using assms by simp_all
  moreover have "(m + b - 1) div b = (if r = 0 then q else Suc q)"
    using m assms by (intro div_nat_eqI) (auto simp: algebra_simps)
  ultimately show ?thesis by simp
qed

lemma num_blocks_arith:
  assumes "0 < bs" and "unat len + unat bs < 2 ^ 32"
  shows "unat (num_blocks len bs * bs) = (unat len + unat bs - 1) div unat bs * unat bs"
proof -
  have b: "0 < unat bs" using assms(1) by (simp add: word_less_nat_alt)
  let ?q = "unat len div unat bs" and ?r = "unat len mod unat bs"
  have len: "unat len = ?q * unat bs + ?r" by simp
  have rb: "?r < unat bs" using b by simp
  have up: "(unat len + unat bs - 1) div unat bs = (if ?r = 0 then ?q else Suc ?q)"
    using div_round_up [OF b] .
  have "(unat len + unat bs - 1) div unat bs * unat bs \<le> unat len + unat bs - 1" by simp
  then have le: "(if ?r = 0 then ?q else Suc ?q) * unat bs < 2 ^ 32"
    using assms(2) unfolding up by linarith
  have "unat (num_blocks len bs) = (if ?r = 0 then ?q else Suc ?q)"
  proof -
    have "Suc ?q < 2 ^ 32" using assms(2) b div_le_dividend [of "unat len" "unat bs"] by linarith
    then show ?thesis
      by (auto simp: num_blocks_def Let_def unat_div unat_mod word_unat_eq_iff unat_word_ariths)
  qed
  with le up show ?thesis by (simp add: unat_mult_lem [THEN iffD1] unat_word_ariths)
qed

section \<open>The device as the trace shows it\<close>

record device =
  ms_word :: u16                        \<comment> \<open>registers \<^verbatim>\<open>SDIO_MASTER_ACCESS_MSBYTE\<close> and \<^verbatim>\<open>LSBYTE\<close>\<close>
  memory :: "nat \<Rightarrow> u8"

definition store :: "nat \<Rightarrow> bytes \<Rightarrow> (nat \<Rightarrow> u8) \<Rightarrow> nat \<Rightarrow> u8" where
  "store addr d m x = (if addr \<le> x \<and> x < addr + length d then d ! (x - addr) else m x)"

text \<open>A master access has bit 16 of its address set; its low half is the offset in the window.\<close>

fun device_step :: "event \<Rightarrow> device \<Rightarrow> device" where
  "device_step (Reg_write dmn addr v) s =
     (if addr = 0xFA then s\<lparr>ms_word := two_bytes v (ucast (drop_bit 8 (ms_word s)))\<rparr>
      else if addr = 0xFB then s\<lparr>ms_word := two_bytes (ucast (ms_word s)) v\<rparr> else s)"
| "device_step (Multi_write addr d n) s =
     (if bit addr 16
      then s\<lparr>memory := store (unat (ms_word s) * 65536 + unat (take_bit 16 addr)) (take (unat n) d) (memory s)\<rparr> else s)"
| "device_step (Ta_write addr d n) s = s\<lparr>memory := store (unat addr) (take (unat n) d) (memory s)\<rparr>"
| "device_step _ s = s"

definition device_after :: "device \<Rightarrow> history \<Rightarrow> device" where
  "device_after s t = foldr device_step t s"

lemma device_after_Cons [simp]: "device_after s (e # t) = device_step e (device_after s t)"
  by (simp add: device_after_def)

lemma master_address:
  "bit (ucast (lsb :: u16) OR 0x10000 :: u32) 16" "unat (take_bit 16 (ucast (lsb :: u16) OR 0x10000 :: u32)) = unat lsb"
proof -
  show "bit (ucast (lsb :: u16) OR 0x10000 :: u32) 16" by (simp add: bit_simps)
  have "take_bit 16 (ucast lsb OR 0x10000 :: u32) = ucast lsb"
    by (rule bit_word_eqI) (auto simp: bit_simps dest: bit_imp_le_length)
  then show "unat (take_bit 16 (ucast lsb OR 0x10000 :: u32)) = unat lsb" by (simp add: unat_ucast_widen)
qed

lemma ucast_take_bit_8: "ucast (take_bit 8 (w :: u16)) = (ucast w :: u8)"
  by (rule bit_word_eqI) (auto simp: bit_simps)

lemma msword_success:
  assumes "onebox_sdio_master_access_msword h w a = (s, a')" and "s = ONEBOX_STATUS_SUCCESS"
  shows "device_after d (trace a') = (device_after d (trace a))\<lparr>ms_word := w\<rparr>"
proof -
  have "ucast (w AND 0x00FF) = (ucast w :: u8)"
    using take_bit_eq_mask [of 8 w] by (simp add: mask_eq_exp_minus_1) (metis ucast_take_bit_8)
  with assms show ?thesis
    by (auto simp: onebox_sdio_master_access_msword_def or_fail_def write_register_def Let_def
        split: prod.splits if_splits)
qed

section \<open>The download over SDIO\<close>

lemma store_append:
  "store (a + length d) e (store a d m) = store a (d @ e) m"
  by (rule ext) (auto simp: store_def nth_append)

lemma store_Nil [simp]: "store a [] m = m"
  by (rule ext) (auto simp: store_def)

lemma take_drop_append: "take n (drop c xs) @ take k (drop (c + n) xs) = take (n + k) (drop c xs)"
  using take_add [of n k "drop c xs"] by (simp add: add.commute)

text \<open>One block: a write at the low half of the address, and a new window where the address left it.\<close>

lemma load_blocks_step:
  assumes l: "load_blocks h fw (word_of_nat bs) (Suc n) cur (word_of_nat base) (word_of_nat (base div 65536)) a =
             Some (ONEBOX_STATUS_SUCCESS, cur', base', a')"
    and bs: "0 < bs" "bs dvd 65536" and top: "base + bs < 2 ^ 32"
  obtains a1 a2 where
    "a1 = log (Multi_write (ucast (ucast (word_of_nat base :: u32) :: u16) OR 0x10000) (take bs (drop cur fw)) (word_of_nat bs)) a"
    "a2 = a1 \<and> (base + bs) div 65536 = base div 65536 \<or>
     onebox_sdio_master_access_msword h (word_of_nat ((base + bs) div 65536)) a1 = (ONEBOX_STATUS_SUCCESS, a2)"
    "load_blocks h fw (word_of_nat bs) n (cur + bs) (word_of_nat (base + bs)) (word_of_nat ((base + bs) div 65536)) a2 =
       Some (ONEBOX_STATUS_SUCCESS, cur', base', a')"
proof -
  let ?m = "base div 65536"
  have bsl: "bs \<le> 65536" using bs by (simp add: dvd_imp_le)
  have ubs: "unat (word_of_nat bs :: u32) = bs" using bsl by (simp add: unat_of_nat)
  have um: "unat (word_of_nat ?m :: u16) = ?m" using top by (simp add: unat_of_nat)
  define a1 where "a1 = log (Multi_write (ucast (ucast (word_of_nat base :: u32) :: u16) OR 0x10000)
      (take bs (drop cur fw)) (word_of_nat bs)) a"
  have t: "temp_copy fw (word_of_nat bs) cur (word_of_nat bs) = Some (take bs (drop cur fw))"
    using l ubs by (cases "temp_copy fw (word_of_nat bs) cur (word_of_nat bs)") (auto dest!: temp_copy_Some)
  have w: "write_multiple h (ucast (ucast (word_of_nat base :: u32) :: u16) OR 0x10000) (take bs (drop cur fw))
      (word_of_nat bs) a = (h_write_multiple h (trace a1), a1)"
    by (simp add: write_multiple_def Let_def a1_def)
  have ok: "h_write_multiple h (trace a1) = 0" using l w t by (auto simp: Let_def split: if_splits)
  have nxt: "word_of_nat base + word_of_nat bs = (word_of_nat (base + bs) :: u32)" by simp
  have "unat (word_of_nat (base + bs) :: u32) = base + bs" using top by (simp add: unat_of_nat flip: of_nat_add)
  then have dtop: "unat (drop_bit 16 (word_of_nat (base + bs) :: u32)) = (base + bs) div 65536"
    unfolding unat_drop_bit_eq by (simp add: drop_bit_eq_div)
  have same: "drop_bit 16 (word_of_nat (base + bs) :: u32) = ucast (word_of_nat ?m :: u16) \<longleftrightarrow> (base + bs) div 65536 = ?m"
    unfolding word_unat_eq_iff dtop by (simp only: unat_ucast_widen um)
  show ?thesis
  proof (cases "(base + bs) div 65536 = ?m")
    case True
    with l w t ok ubs nxt same show ?thesis by (intro that [of a1 a1]) (simp_all add: a1_def Let_def)
  next
    case False
    have "?m \<le> (base + bs) div 65536" by (simp add: div_le_mono)
    moreover have "(base + bs) div 65536 \<le> ?m + 1" using bsl by (simp add: div_le_mono)
    ultimately have suc: "(base + bs) div 65536 = Suc ?m" using False by simp
    have inc: "word_of_nat ?m + 1 = (word_of_nat ((base + bs) div 65536) :: u16)" by (simp add: suc)
    obtain s' a2 where ms: "onebox_sdio_master_access_msword h (word_of_nat ((base + bs) div 65536)) a1 = (s', a2)" by fastforce
    with l w t ok ubs nxt same False inc show ?thesis
      by (intro that [of a1 a2]) (auto simp: a1_def Let_def split: if_splits)
  qed
qed

lemma master_write_effect:
  assumes "ms_word (device_after d (trace a)) = word_of_nat (base div 65536)" "base < 2 ^ 32" "unat cnt = n"
  shows "device_after d (Multi_write (ucast (ucast (word_of_nat base :: u32) :: u16) OR 0x10000) buf cnt # trace a) =
    (device_after d (trace a))\<lparr>memory := store base (take n buf) (memory (device_after d (trace a)))\<rparr>"
proof -
  have ub: "unat (word_of_nat base :: u32) = base" using assms(2) by (simp add: unat_of_nat)
  have um: "unat (word_of_nat (base div 65536) :: u16) = base div 65536" using assms(2) by (simp add: unat_of_nat)
  have lsb: "unat (ucast (word_of_nat base :: u32) :: u16) = base mod 65536"
    using ub by (simp only: unsigned_ucast_eq) (simp add: take_bit_eq_mod)
  have "base div 65536 * 65536 + base mod 65536 = base" by simp
  with assms(1,3) um lsb master_address show ?thesis by simp
qed

lemma load_blocks_success:
  assumes "load_blocks h fw (word_of_nat bs) n cur (word_of_nat base) (word_of_nat (base div 65536)) a =
             Some (ONEBOX_STATUS_SUCCESS, cur', base', a')"
    and "0 < bs" "bs dvd 65536" "bs dvd base" "base + n * bs < 2 ^ 32" "cur + n * bs \<le> length fw"
    and "ms_word (device_after d (trace a)) = word_of_nat (base div 65536)"
  shows "cur' = cur + n * bs \<and> base' = word_of_nat (base + n * bs) \<and>
     device_after d (trace a') = (device_after d (trace a))
       \<lparr>ms_word := word_of_nat ((base + n * bs) div 65536),
        memory := store base (take (n * bs) (drop cur fw)) (memory (device_after d (trace a)))\<rparr>"
  using assms
proof (induction n arbitrary: cur base a)
  case 0
  then show ?case by simp
next
  case (Suc n)
  let ?dev = "device_after d (trace a)" and ?c = "take bs (drop cur fw)"
  have top: "base + bs < 2 ^ 32" "base < 2 ^ 32" using Suc.prems(5) by simp_all
  have ubs: "unat (word_of_nat bs :: u32) = bs"
    using Suc.prems(2,3) dvd_imp_le [of bs 65536] by (simp add: unat_of_nat)
  obtain a1 a2 where a1: "a1 = log (Multi_write (ucast (ucast (word_of_nat base :: u32) :: u16) OR 0x10000) ?c (word_of_nat bs)) a"
    and a2: "a2 = a1 \<and> (base + bs) div 65536 = base div 65536 \<or>
       onebox_sdio_master_access_msword h (word_of_nat ((base + bs) div 65536)) a1 = (ONEBOX_STATUS_SUCCESS, a2)"
    and l: "load_blocks h fw (word_of_nat bs) n (cur + bs) (word_of_nat (base + bs)) (word_of_nat ((base + bs) div 65536)) a2 =
       Some (ONEBOX_STATUS_SUCCESS, cur', base', a')"
    using load_blocks_step [OF Suc.prems(1-3) top(1)] by blast
  have "device_after d (trace a1) = ?dev\<lparr>memory := store base ?c (memory ?dev)\<rparr>"
    using master_write_effect [OF Suc.prems(7) top(2) ubs] by (simp add: a1)
  with a2 msword_success [OF _ refl] Suc.prems(7)
  have dev2: "device_after d (trace a2) = ?dev\<lparr>ms_word := word_of_nat ((base + bs) div 65536), memory := store base ?c (memory ?dev)\<rparr>"
    by fastforce
  have nd: "bs dvd base + bs" "base + bs + n * bs < 2 ^ 32" "cur + bs + n * bs \<le> length fw"
    using Suc.prems(4-6) by (simp_all add: algebra_simps)
  have "length ?c = bs" using Suc.prems(6) by simp
  with store_append [of base ?c] take_drop_append [of bs cur fw "n * bs"]
    Suc.IH [OF l Suc.prems(2,3) nd] dev2 show ?case by (simp add: algebra_simps)
qed

text \<open>A download that reports success: the window, the whole blocks, and the rest.\<close>

lemma sdio_load_parts:
  assumes "sdio_load_data_master_write h (word_of_nat base) (word_of_nat sz) (word_of_nat bs) fw a =
             Some (ONEBOX_STATUS_SUCCESS, a')"
    and "0 < bs" "bs dvd 65536" "bs dvd base" "base + sz < 2 ^ 32" "sz \<le> length fw"
  obtains a1 a2 where
    "onebox_sdio_master_access_msword h (word_of_nat (base div 65536)) a = (ONEBOX_STATUS_SUCCESS, a1)"
    "load_blocks h fw (word_of_nat bs) (sz div bs) 0 (word_of_nat base) (word_of_nat (base div 65536)) a1 =
       Some (ONEBOX_STATUS_SUCCESS, sz div bs * bs, word_of_nat (base + sz div bs * bs), a2)"
    "if sz mod bs = 0 then a' = a2
     else a' = log (Multi_write (ucast (ucast (word_of_nat (base + sz div bs * bs) :: u32) :: u16) OR 0x10000)
       (take (sz mod bs) (drop (sz div bs * bs) fw)) (word_of_nat sz mod word_of_nat bs)) a2"
proof -
  let ?n = "sz div bs" and ?r = "sz mod bs"
  have bs: "bs \<le> 65536" using assms(2,3) by (simp add: dvd_imp_le)
  have ubs: "unat (word_of_nat bs :: u32) = bs" using bs by (simp add: unat_of_nat)
  have ub: "unat (word_of_nat base :: u32) = base" and us: "unat (word_of_nat sz :: u32) = sz"
    using assms(5) by (simp_all add: unat_of_nat)
  have n: "unat (word_of_nat sz div word_of_nat bs :: u32) = ?n" "unat (word_of_nat sz mod word_of_nat bs :: u32) = ?r"
    using us ubs by (simp_all add: unat_div unat_mod)
  have szn: "?n * bs + ?r = sz" by simp
  have msb: "(ucast (drop_bit 16 (word_of_nat base :: u32)) :: u16) = word_of_nat (base div 65536)"
  proof -
    have "unat (drop_bit 16 (word_of_nat base :: u32)) = base div 65536"
      unfolding unat_drop_bit_eq ub by (simp add: drop_bit_eq_div)
    then have "unat (ucast (drop_bit 16 (word_of_nat base :: u32)) :: u16) = base div 65536"
      using assms(5) by (simp only: unsigned_ucast_eq) (simp add: take_bit_nat_eq_self)
    then show ?thesis using assms(5) by (simp add: word_unat_eq_iff unat_of_nat)
  qed
  obtain s1 a1 where m: "onebox_sdio_master_access_msword h (word_of_nat (base div 65536)) a = (s1, a1)" by fastforce
  obtain s2 cur b2 a2 where l: "load_blocks h fw (word_of_nat bs) ?n 0 (word_of_nat base) (word_of_nat (base div 65536)) a1 =
      Some (s2, cur, b2, a2)" using assms(1) m n msb by (auto simp: sdio_load_data_master_write_def Let_def split: if_splits bind_splits)
  have ok: "s1 = 0" "s2 = 0" using assms(1) m l n msb
    by (auto simp: sdio_load_data_master_write_def or_fail_def Let_def split: if_splits prod.splits bind_splits)
  let ?d = "\<lparr>ms_word = 0, memory = \<lambda>_. 0\<rparr>"
  have ms1: "ms_word (device_after ?d (trace a1)) = word_of_nat (base div 65536)"
    using msword_success [OF m ok(1)] by simp
  have le: "base + ?n * bs < 2 ^ 32" "0 + ?n * bs \<le> length fw" using assms(5,6) szn by linarith+
  have cur: "cur = ?n * bs" "b2 = word_of_nat (base + ?n * bs)"
    using load_blocks_success [OF l [unfolded ok(2)] assms(2-4) le ms1] by simp_all
  have z: "word_of_nat sz mod word_of_nat bs = (0 :: u32) \<longleftrightarrow> ?r = 0"
    unfolding word_unat_eq_iff n(2) by simp
  have fin: "if ?r = 0 then a' = a2
     else a' = log (Multi_write (ucast (ucast b2 :: u16) OR 0x10000) (take ?r (drop cur fw)) (word_of_nat sz mod word_of_nat bs)) a2"
    using assms(1) m l n msb ok z
    by (auto simp: sdio_load_data_master_write_def or_fail_def write_multiple_def Let_def simp del: of_nat_add of_nat_mult
        dest!: temp_copy_Some split: if_splits bind_splits)
  show ?thesis using that m l fin unfolding ok cur by blast
qed

lemma sdio_load_memory:
  assumes "sdio_load_data_master_write h (word_of_nat base) (word_of_nat sz) (word_of_nat bs) fw a =
             Some (ONEBOX_STATUS_SUCCESS, a')"
    and "0 < bs" "bs dvd 65536" "bs dvd base" "base + sz < 2 ^ 32" "sz \<le> length fw"
  shows "memory (device_after d (trace a')) = store base (take sz fw) (memory (device_after d (trace a)))"
proof -
  let ?n = "sz div bs" and ?r = "sz mod bs" let ?B = "base + ?n * bs"
  obtain a1 a2 where m: "onebox_sdio_master_access_msword h (word_of_nat (base div 65536)) a = (ONEBOX_STATUS_SUCCESS, a1)"
    and l: "load_blocks h fw (word_of_nat bs) ?n 0 (word_of_nat base) (word_of_nat (base div 65536)) a1 =
       Some (ONEBOX_STATUS_SUCCESS, ?n * bs, word_of_nat ?B, a2)"
    and r: "if ?r = 0 then a' = a2
     else a' = log (Multi_write (ucast (ucast (word_of_nat ?B :: u32) :: u16) OR 0x10000)
       (take ?r (drop (?n * bs) fw)) (word_of_nat sz mod word_of_nat bs)) a2"
    using sdio_load_parts [OF assms] by blast
  have szn: "?n * bs + ?r = sz" by simp
  have le: "?B < 2 ^ 32" "0 + ?n * bs \<le> length fw" using assms(5,6) szn by linarith+
  have "unat (word_of_nat bs :: u32) = bs" "unat (word_of_nat sz :: u32) = sz"
    using assms(2,3,5) dvd_imp_le [of bs 65536] by (simp_all add: unat_of_nat)
  then have cnt: "unat (word_of_nat sz mod word_of_nat bs :: u32) = ?r" by (simp add: unat_mod)
  have ms1: "device_after d (trace a1) = (device_after d (trace a))\<lparr>ms_word := word_of_nat (base div 65536)\<rparr>"
    using msword_success [OF m refl] .
  have blocks: "device_after d (trace a2) = (device_after d (trace a))\<lparr>ms_word := word_of_nat (?B div 65536),
       memory := store base (take (?n * bs) fw) (memory (device_after d (trace a)))\<rparr>"
    using load_blocks_success [OF l assms(2-4) le, of d] ms1 by simp
  then have ms2: "ms_word (device_after d (trace a2)) = word_of_nat (?B div 65536)" by simp
  show ?thesis
  proof (cases "?r = 0")
    case True
    with r blocks szn show ?thesis by simp
  next
    case False
    with r have "memory (device_after d (trace a')) =
        store ?B (take ?r (drop (?n * bs) fw)) (memory (device_after d (trace a2)))"
      using master_write_effect [OF ms2 le(1) cnt] by (simp del: of_nat_add of_nat_mult device_after_Cons)
    then show ?thesis
      using blocks store_append [of base "take (?n * bs) fw"] take_add [of "?n * bs" ?r fw] le(2) szn by simp
  qed
qed

text \<open>
  C8. A firmware download that reports success has put the image where it belongs: for a
  block size that divides the window and the base address, the device memory afterwards
  is the old one with exactly the first \<open>sz\<close> bytes of the image at the base address, also
  when the image crosses 64 KiB windows and when its last block is partial.
\<close>

theorem sdio_download_image:
  assumes "sdio_load_data_master_write h (word_of_nat base) (word_of_nat sz) (word_of_nat bs) fw a =
             Some (ONEBOX_STATUS_SUCCESS, a')"
    and "0 < bs" "bs dvd 65536" "bs dvd base" "base + sz < 2 ^ 32" "sz \<le> length fw"
  shows "memory (device_after d (trace a')) = store base (take sz fw) (memory (device_after d (trace a)))"
  using assms by (rule sdio_load_memory)

theorem sdio_download_image_witness:
  "\<exists>a'. sdio_load_data_master_write calm_host (word_of_nat 65280) (word_of_nat 300) (word_of_nat 256) (replicate 300 7) idle_adapter =
          Some (ONEBOX_STATUS_SUCCESS, a') \<and>
        memory (device_after \<lparr>ms_word = 0, memory = \<lambda>_. 0\<rparr> (trace a')) 65579 = 7"
proof -
  obtain a' where r: "sdio_load_data_master_write calm_host (word_of_nat 65280) (word_of_nat 300) (word_of_nat 256)
      (replicate 300 7) idle_adapter = Some (0, a')"
    by (simp add: temp_copy_def mem_slice_def sdio_load_data_master_write_def or_fail_def onebox_sdio_master_access_msword_def write_register_def
        write_multiple_def calm_host_def Let_def)
  have d: "(256 :: nat) dvd 65536" "(256 :: nat) dvd 65280" by simp_all
  have "memory (device_after \<lparr>ms_word = 0, memory = \<lambda>_. 0\<rparr> (trace a')) 65579 = 7"
    using sdio_download_image [OF r _ d] by (simp add: store_def)
  with r show ?thesis by blast
qed

section \<open>The download over USB\<close>

lemma usb_load_blocks_success:
  assumes "usb_load_blocks h fw (word_of_nat bs) n cur (word_of_nat base) a = Some (ONEBOX_STATUS_SUCCESS, cur', base', a')"
    and "0 < bs" "bs < 2 ^ 32" "base + n * bs < 2 ^ 32" "cur + n * bs \<le> length fw"
  shows "cur' = cur + n * bs \<and> base' = word_of_nat (base + n * bs) \<and>
     device_after d (trace a') = (device_after d (trace a))
       \<lparr>memory := store base (take (n * bs) (drop cur fw)) (memory (device_after d (trace a)))\<rparr>"
  using assms
proof (induction n arbitrary: cur base a)
  case 0
  then show ?case by simp
next
  case (Suc n)
  have u: "unat (word_of_nat bs :: u32) = bs" "unat (word_of_nat base :: u32) = base"
    using Suc.prems(3,4) by (simp_all add: unat_of_nat)
  let ?a1 = "log (Ta_write (word_of_nat base) (take bs (drop cur fw)) (word_of_nat bs)) a"
  have l: "usb_load_blocks h fw (word_of_nat bs) n (cur + bs) (word_of_nat (base + bs)) ?a1 = Some (0, cur', base', a')"
    using Suc.prems(1) u by (auto simp: ta_write_multiple_def Let_def dest!: temp_copy_Some split: if_splits bind_splits)
  have p: "base + bs + n * bs < 2 ^ 32" "cur + bs + n * bs \<le> length fw"
    using Suc.prems(4,5) by (simp_all add: algebra_simps)
  have "length (take bs (drop cur fw)) = bs" using Suc.prems(5) by simp
  with Suc.IH [OF l Suc.prems(2,3) p] u store_append [of base "take bs (drop cur fw)"]
    take_drop_append [of bs cur fw "n * bs"]
  show ?case by (simp add: algebra_simps)
qed

text \<open>
  The same for the USB download, whose accesses carry the full address: a download
  that reports success leaves exactly the image at the base address.
\<close>

theorem usb_download_image:
  assumes "usb_load_data_master_write h (word_of_nat base) (word_of_nat sz) (word_of_nat bs) fw a =
             Some (ONEBOX_STATUS_SUCCESS, a')"
    and "0 < bs" "bs < 2 ^ 32" "base + sz < 2 ^ 32" "sz \<le> length fw"
  shows "memory (device_after d (trace a')) = store base (take sz fw) (memory (device_after d (trace a)))"
proof -
  let ?n = "sz div bs" and ?r = "sz mod bs"
  have u: "unat (word_of_nat bs :: u32) = bs" "unat (word_of_nat sz :: u32) = sz"
    using assms(3,4) by (simp_all add: unat_of_nat)
  have n: "unat (word_of_nat sz div word_of_nat bs :: u32) = ?n" "unat (word_of_nat sz mod word_of_nat bs :: u32) = ?r"
    using u by (simp_all add: unat_div unat_mod)
  have szn: "?n * bs + ?r = sz" by simp
  obtain s2 cur b2 a2 where l: "usb_load_blocks h fw (word_of_nat bs) ?n 0 (word_of_nat base) a = Some (s2, cur, b2, a2)"
    using assms(1) n by (auto simp: usb_load_data_master_write_def split: if_splits bind_splits)
  have ok: "s2 = 0" using assms(1) l n
    by (auto simp: usb_load_data_master_write_def split: if_splits bind_splits)
  have le: "base + ?n * bs < 2 ^ 32" "0 + ?n * bs \<le> length fw" using assms(4,5) szn by linarith+
  note blocks = usb_load_blocks_success [OF l [unfolded ok] assms(2,3) le, of d]
  show ?thesis
  proof (cases "?r = 0")
    case True
    then have "word_of_nat sz mod word_of_nat bs = (0 :: u32)" using n(2) by (simp add: word_unat_eq_iff)
    with assms(1) l n ok have "a' = a2" by (simp add: usb_load_data_master_write_def split: if_splits)
    with blocks szn True show ?thesis by simp
  next
    case False
    then have nz: "word_of_nat sz mod word_of_nat bs \<noteq> (0 :: u32)" using n(2) by (auto simp: word_unat_eq_iff)
    have uB: "unat (word_of_nat (base + ?n * bs) :: u32) = base + ?n * bs" using le(1) by (subst unat_of_nat) simp
    have "trace a' = Ta_write b2 (take ?r (drop cur fw)) (word_of_nat sz mod word_of_nat bs) # trace a2"
      using assms(1) l n ok nz
      by (auto simp: usb_load_data_master_write_def or_fail_def ta_write_multiple_def Let_def dest!: temp_copy_Some split: if_splits bind_splits)
    then have "memory (device_after d (trace a')) =
        store (base + ?n * bs) (take ?r (drop (?n * bs) fw)) (memory (device_after d (trace a2)))"
      using blocks n(2) uB by (simp del: of_nat_add of_nat_mult)
    then show ?thesis
      using blocks store_append [of base "take (?n * bs) fw"] take_add [of "?n * bs" ?r fw] le(2) szn by simp
  qed
qed

theorem usb_download_image_witness:
  "\<exists>a'. usb_load_data_master_write calm_host (word_of_nat 100) (word_of_nat 3) (word_of_nat 4) [1, 2, 3] idle_adapter =
          Some (ONEBOX_STATUS_SUCCESS, a') \<and>
        memory (device_after \<lparr>ms_word = 0, memory = \<lambda>_. 0\<rparr> (trace a')) 102 = 3"
proof -
  obtain a' where r: "usb_load_data_master_write calm_host (word_of_nat 100) (word_of_nat 3) (word_of_nat 4)
      [1, 2, 3] idle_adapter = Some (0, a')"
    by (simp add: temp_copy_def mem_slice_def usb_load_data_master_write_def or_fail_def ta_write_multiple_def calm_host_def Let_def)
  then show ?thesis
    using usb_download_image [OF r, of "\<lparr>ms_word = 0, memory = \<lambda>_. 0\<rparr>"] by (auto simp: store_def)
qed

section \<open>The slave registers\<close>

definition slave_reg_writes :: "adapter \<Rightarrow> (u32 \<times> u8) list" where
  "slave_reg_writes a =
     (if next_read_delay a \<noteq> 0 then [(0xF5, ucast (next_read_delay a))] else []) @
     (if sdio_high_speed_enable a \<noteq> 0 then [(0x13, 3)] else []) @ [(0xFC, 0x24), (0xFD, 96), (0xFE, 32)]"

fun write_regs :: "host \<Rightarrow> (u32 \<times> u8) list \<Rightarrow> adapter \<Rightarrow> status \<times> adapter" where
  "write_regs h [] a = (ONEBOX_STATUS_SUCCESS, a)"
| "write_regs h ((r, v) # rs) a = or_fail (write_register h 0 r v) (write_regs h rs) a"

abbreviation reg_events :: "(u32 \<times> u8) list \<Rightarrow> event list" where
  "reg_events rs \<equiv> map (\<lambda>(r, v). Reg_write 0 r v) rs"

lemma init_slave_regs_as_sequence: "onebox_init_sdio_slave_regs h a = write_regs h (slave_reg_writes a) a"
  by (cases "next_read_delay a = 0"; cases "sdio_high_speed_enable a = 0")
    (simp_all add: onebox_init_sdio_slave_regs_def slave_reg_writes_def or_fail_def write_register_def Let_def)

lemma write_regs_trace:
  "write_regs h rs a = (s, a') \<Longrightarrow>
   (s = ONEBOX_STATUS_SUCCESS \<and> trace a' = rev (reg_events rs) @ trace a) \<or>
   (s = ONEBOX_STATUS_FAILURE \<and> h_write_register h (trace a') \<noteq> ONEBOX_STATUS_SUCCESS \<and>
    (\<exists>k<length rs. trace a' = rev (reg_events (take (Suc k) rs)) @ trace a))"
proof (induction rs arbitrary: a)
  case Nil
  then show ?case by simp
next
  case (Cons x rs)
  obtain r v where x: "x = (r, v)" by (cases x)
  let ?a1 = "log (Reg_write 0 r v) a"
  show ?case
  proof (cases "h_write_register h (trace ?a1) = 0")
    case True
    with Cons.prems x have "write_regs h rs ?a1 = (s, a')" by (simp add: or_fail_def write_register_def Let_def)
    from Cons.IH [OF this] x show ?thesis by (auto intro: exI [of _ "Suc _"])
  next
    case False
    with Cons.prems x have "s = -1" "a' = ?a1" by (auto simp: or_fail_def write_register_def Let_def)
    with False x show ?thesis by auto
  qed
qed

text \<open>
  The slave registers are written in their order, each once, and a failing write is
  the last: success means that every register was written, failure that the last access
  of the trace is the write the card refused and nothing after it was tried.
\<close>

theorem slave_regs_stop_at_failure:
  "case onebox_init_sdio_slave_regs h a of (s, a') \<Rightarrow>
     (s = ONEBOX_STATUS_SUCCESS \<and> trace a' = rev (reg_events (slave_reg_writes a)) @ trace a) \<or>
     (s = ONEBOX_STATUS_FAILURE \<and> h_write_register h (trace a') \<noteq> ONEBOX_STATUS_SUCCESS \<and>
      (\<exists>k<length (slave_reg_writes a). trace a' = rev (reg_events (take (Suc k) (slave_reg_writes a))) @ trace a))"
  unfolding init_slave_regs_as_sequence
  by (cases "write_regs h (slave_reg_writes a) a") (use write_regs_trace in auto)

section \<open>Writing a packet\<close>

text \<open>
  A packet of up to 3840 bytes is written as whole blocks, and the device can recover
  both facts from the address: its low twelve bits are the padded length, which exceeds the
  packet by less than a block, and the bits above are the queue.
\<close>

theorem sdio_write_address_roundtrip:
  assumes "TransmitBlockSize a = 256" and "0 < length pkt" and "length pkt \<le> 3840"
    and "sdio_host_intf_write_pkt h pkt (word_of_nat (length pkt)) q a = (s, a')"
  shows "\<exists>addr n. trace a' = Multi_write addr pkt n # trace a \<and> s = h_write_multiple h (trace a') \<and>
     unat n mod 256 = 0 \<and> length pkt \<le> unat n \<and> unat n < length pkt + 256 \<and>
     take_bit 12 addr = n \<and> drop_bit 12 addr = ucast q"
proof -
  let ?L = "word_of_nat (length pkt) :: u32" and ?n = "num_blocks (word_of_nat (length pkt)) 256 * 256"
  have uL: "unat ?L = length pkt" using assms(3) by (simp add: unat_of_nat)
  have un: "unat ?n = (length pkt + 255) div 256 * 256"
    using num_blocks_arith [of 256 ?L] uL assms(3) by simp
  then have b: "length pkt \<le> unat ?n" "unat ?n < length pkt + 256" "unat ?n < 4096" using assms(3) by linarith+
  have t: "take_bit 12 ?n = ?n"
    using b(3) by (simp add: word_unat_eq_iff unsigned_take_bit_eq take_bit_nat_eq_self)
  have nbit: "\<not> bit ?n k" if "12 \<le> k" for k
    using that t by (metis bit_take_bit_iff not_less)
  have a1: "take_bit 12 (?n OR push_bit 12 (ucast q)) = ?n"
    using t by (simp add: take_bit_push_bit)
  have a2: "drop_bit 12 (?n OR push_bit 12 (ucast q)) = (ucast q :: u32)"
    using nbit by (intro bit_word_eqI) (auto simp: bit_simps dest: bit_imp_le_length)
  have "?L \<noteq> 0" using uL assms(2) by (auto simp: word_unat_eq_iff)
  then have "trace a' = Multi_write (?n OR push_bit 12 (ucast q)) pkt ?n # trace a" "s = h_write_multiple h (trace a')"
    using assms(1,4) by (auto simp: sdio_host_intf_write_pkt_def write_multiple_def sdio_pkt_address_def Let_def)
  with a1 a2 un b show ?thesis by (intro exI [of _ "?n OR push_bit 12 (ucast q)"] exI [of _ ?n]) simp
qed

theorem sdio_write_address_roundtrip_witness:
  "\<exists>a' addr n. sdio_host_intf_write_pkt calm_host (replicate 300 1) (word_of_nat 300) WLAN_TX_M_Q idle_adapter = (0, a') \<and>
     trace a' = [Multi_write addr (replicate 300 1) n] \<and> unat n < 556 \<and> drop_bit 12 addr = 4"
proof -
  obtain a' where r: "sdio_host_intf_write_pkt calm_host (replicate 300 1) (word_of_nat 300) WLAN_TX_M_Q idle_adapter = (0, a')"
    by (simp add: sdio_host_intf_write_pkt_def write_multiple_def calm_host_def Let_def)
  from sdio_write_address_roundtrip [of idle_adapter "replicate 300 1" calm_host WLAN_TX_M_Q 0 a'] r
  show ?thesis by (auto simp: idle_adapter_def)
qed

text \<open>
  Above 3840 bytes the padded length reaches bit 12 and changes the queue: a packet of 4000
  bytes for queue 4 goes to queue 5 with length zero.
\<close>

lemma long_packet_changes_queue:
  "sdio_pkt_address 4000 256 4 = sdio_pkt_address 0 256 5"
  by (simp add: sdio_pkt_address_def num_blocks_def)

end
