(* ===== verification/Power_Save.thy ===== *)
theory Power_Save
  imports Onebox_Prelude "HOL-Library.While_Combinator"
begin

text \<open>
  The power save module of the WLAN HAL (\<^verbatim>\<open>onebox_ps.c\<close>): the decision when
  the station asks the firmware to enter or leave power save, and the state machine of the
  requests and their confirmations. A vap is an index into the list of interfaces; a lookup
  that finds none is the NULL pointer of the source and a fault, \<open>None\<close>, where it is used.
\<close>

section \<open>State\<close>

datatype ieee80211_state = S_INIT | S_SCAN | S_AUTH | S_ASSOC | S_CAC | S_RUN | S_CSA | S_SLEEP
datatype ieee80211_opmode = M_IBSS | M_STA | M_WDS | M_AHDEMO | M_HOSTAP | M_MONITOR | M_MBSS | M_P2P

datatype ps_state = PS_NONE | PS_EN_REQ_SENT | DEV_IN_PWR_SVE | PS_DIS_REQ_SENT | PS_EN_REQ_QUEUED

datatype ps_path =
    MGMT_PENDING_PATH | IOCTL_PATH | CONNECTED_PATH | DISCONNECTED_PATH | SCAN_END_PATH | TIMER_PATH
  | VAP_CREATE_PATH | VAP_DELETE_PATH | TX_RX_PATH | PS_EN_DEQUEUED_PATH | PS_EN_REQ_CNFM_PATH
  | PS_DIS_REQ_CNFM_PATH

abbreviation (input) PS_ENABLE :: u32 where "PS_ENABLE \<equiv> 1"
abbreviation (input) PS_DISABLE :: u32 where "PS_DISABLE \<equiv> 0"
abbreviation (input) SLEEP_REQUEST :: u16 where "SLEEP_REQUEST \<equiv> 1"
abbreviation (input) WAKEUP_REQUEST :: u16 where "WAKEUP_REQUEST \<equiv> 2"
abbreviation (input) DEEP_SLEEP :: u8 where "DEEP_SLEEP \<equiv> 1"
abbreviation (input) CONNECTED_SLEEP :: u8 where "CONNECTED_SLEEP \<equiv> 2"

record pwr_save_params =
  ps_en :: u8
  sleep_type :: u8
  tx_threshold :: u8
  rx_threshold :: u8
  tx_hysterisis :: u8
  rx_hysterisis :: u8
  monitor_interval :: u16
  listen_interval :: u32
  num_beacons_per_listen_interval :: u16
  dtim_interval_duration :: u32
  num_dtims_per_sleep :: u16
  deep_sleep_wakeup_period :: u32

record uapsd_params =
  mimic_support :: u8
  uapsd_acs :: u8
  uapsd_wakeup_period :: u8

text \<open>
  The fields of \<^verbatim>\<open>struct ieee80211vap\<close> and of its private part that the module
  uses; \<^verbatim>\<open>driver_ps\<close> is \<^verbatim>\<open>drv_params\<close>.
\<close>

record vap =
  iv_state :: ieee80211_state
  iv_opmode :: ieee80211_opmode
  conn_in_prog :: bool
  roam_ind :: bool
  stop_tx_q :: bool
  bg_ioctl :: bool
  ps_params :: pwr_save_params
  ps_params_ioctl :: pwr_save_params
  uapsd_params_updated :: uapsd_params
  tx_dataload :: u32
  rx_dataload :: u32
  jiffies_prev :: "64 word"
  update_ta :: bool
  ps_state :: ps_state
  delay_pwr_sve_decision_flag :: bool
  disable_ps_for_change_in_params :: bool

text \<open>The request frame: the words of its descriptor that are set, and its body.\<close>

record ps_req_frame =
  desc_word0 :: u16
  desc_word1 :: u16
  desc_word6 :: u16
  req_ps_en :: u8
  req_sleep_type :: u8
  req_connected_sleep :: u8
  req_num_beacons :: u16
  req_sleep_duration :: u32
  req_mimic_support :: u8
  req_uapsd_acs :: u8
  req_uapsd_wakeup_period :: u8
  req_listen_interval :: u32
  req_dtim_interval_duration :: u32
  req_num_dtim_intervals :: u16

datatype ps_event =
    Send_internal_mgmt ps_req_frame      \<comment> \<open>queued to the tail by the devdep layer\<close>
  | Queue_mgmt_head ps_req_frame
  | Schedule_pkt_for_tx
  | Init_timer
  | Mod_timer u32
  | Remove_timer
  | Ieee80211_lock
  | Ieee80211_unlock
  | Send_block_unblock nat
  | Start_ifp_txq nat
  | Send_bgscan nat
  | Send_bgscan_probe nat

record ps_host =
  ps_alloc_skb :: "ps_event list \<Rightarrow> bool"
  ps_jiffies :: "ps_event list \<Rightarrow> 64 word"
  jiffies_to_msecs :: "64 word \<Rightarrow> u32"
  ps_bgscan_status :: "ps_event list \<Rightarrow> int"

record wlan_ps =
  ic_vaps :: "vap list"
  sc_nvaps :: u32
  scan_flag :: bool                     \<comment> \<open>\<^verbatim>\<open>ic_flags & IEEE80211_F_SCAN\<close>\<close>
  timer_function :: bool                \<comment> \<open>\<^verbatim>\<open>traffic_timer.function\<close> is not NULL\<close>
  delay_sta_support_decision_flag :: bool
  block_ap_queues :: bool
  sta_data_block :: bool
  sta_vap_in_use :: bool                \<comment> \<open>\<^verbatim>\<open>hal_vap[sta_mode.vap_id].vap_in_use\<close>\<close>
  ps_trace :: "ps_event list"           \<comment> \<open>newest first\<close>

definition ps_log :: "ps_event \<Rightarrow> wlan_ps \<Rightarrow> wlan_ps" where
  [handler_defs]: "ps_log e s = s\<lparr>ps_trace := e # ps_trace s\<rparr>"

abbreviation the_vap :: "wlan_ps \<Rightarrow> nat \<Rightarrow> vap" where
  "the_vap s v \<equiv> ic_vaps s ! v"

definition upd_vap :: "nat \<Rightarrow> (vap \<Rightarrow> vap) \<Rightarrow> wlan_ps \<Rightarrow> wlan_ps" where
  [handler_defs]: "upd_vap v f s = s\<lparr>ic_vaps := (ic_vaps s)[v := f (ic_vaps s ! v)]\<rparr>"

abbreviation set_ps_state :: "nat \<Rightarrow> ps_state \<Rightarrow> wlan_ps \<Rightarrow> wlan_ps" where
  "set_ps_state v p \<equiv> upd_vap v (\<lambda>x. x\<lparr>ps_state := p\<rparr>)"

text \<open>\<^verbatim>\<open>TAILQ_FOREACH\<close> up to the first interface in station mode.\<close>

definition sta_vap :: "wlan_ps \<Rightarrow> nat option" where
  "sta_vap s = (case filter (\<lambda>i. iv_opmode (the_vap s i) = M_STA) [0..<length (ic_vaps s)] of
                  [] \<Rightarrow> None | i # _ \<Rightarrow> Some i)"

abbreviation traffic_ps_en :: "vap \<Rightarrow> bool" where
  "traffic_ps_en x \<equiv> monitor_interval (ps_params x) \<noteq> 0"

text \<open>\<^verbatim>\<open>n * BYTES_CONVRTR\<close>, with \<^verbatim>\<open>125 * monitor_interval\<close>.\<close>

definition threshold_bytes :: "vap \<Rightarrow> u32 \<Rightarrow> u32" where
  "threshold_bytes x n = n * (125 * ucast (monitor_interval (ps_params x)))"

definition over_threshold :: "vap \<Rightarrow> bool" where
  "over_threshold x \<longleftrightarrow>
     threshold_bytes x (ucast (tx_threshold (ps_params x))) < tx_dataload x \<or>
     threshold_bytes x (ucast (rx_threshold (ps_params x))) < rx_dataload x"

section \<open>The request frame\<close>

definition ps_request_frame :: "vap \<Rightarrow> u32 \<Rightarrow> u32 \<Rightarrow> ps_req_frame" where
  "ps_request_frame x nvaps en =
     (let p = ps_params x; u = uapsd_params_updated x; running = (iv_state x = S_RUN);
          use_uapsd = (running \<and> uapsd_acs u \<noteq> 0); enable = (en \<noteq> 0 \<and> nvaps < 2);
          word0 = (26 :: u16) OR push_bit 12 4
      in \<lparr>desc_word0 = (if enable then word0 else word0 OR push_bit 15 1), desc_word1 = 0x05,
          desc_word6 = (if enable then SLEEP_REQUEST else WAKEUP_REQUEST),
          req_ps_en = (if enable then 1 else 0), req_sleep_type = sleep_type p,
          req_connected_sleep = (if running then CONNECTED_SLEEP else DEEP_SLEEP),
          req_num_beacons = num_beacons_per_listen_interval p, req_sleep_duration = deep_sleep_wakeup_period p,
          req_mimic_support = (if use_uapsd then mimic_support u else 0),
          req_uapsd_acs = (if use_uapsd \<and> mimic_support u = 0 then uapsd_acs u else 0),
          req_uapsd_wakeup_period = (if use_uapsd then uapsd_wakeup_period u else 0),
          req_listen_interval = listen_interval p, req_dtim_interval_duration = dtim_interval_duration p,
          req_num_dtim_intervals = num_dtims_per_sleep p\<rparr>)"

definition send_ps_params_req :: "ps_host \<Rightarrow> nat \<Rightarrow> u32 \<Rightarrow> bool \<Rightarrow> wlan_ps \<Rightarrow> wlan_ps" where
  "send_ps_params_req h v en queue_pkt_to_head s =
     (let f = ps_request_frame (the_vap s v) (sc_nvaps s) en;
          s1 = (if en \<noteq> 0 \<and> sc_nvaps s < 2 then s
                else if ps_state (the_vap s v) \<noteq> PS_DIS_REQ_SENT then set_ps_state v PS_DIS_REQ_SENT s else s)
      in if \<not> queue_pkt_to_head then ps_log (Send_internal_mgmt f) s1
         else if \<not> ps_alloc_skb h (ps_trace s1) then s1
         else ps_log Schedule_pkt_for_tx (ps_log (Queue_mgmt_head f) s1))"


section \<open>The request state machine\<close>

text \<open>
  One pass of the \<^verbatim>\<open>do ... while (loop)\<close> of \<open>pwr_sve_event_handler\<close>: the value of
  \<^verbatim>\<open>loop\<close>, of \<^verbatim>\<open>queue_pkt_to_head\<close> (which one branch overwrites) and the state. A
  \<^verbatim>\<open>case\<close> of the switch without a \<^verbatim>\<open>break\<close> continues with the next function.
\<close>

type_synonym ps_pass = "bool \<times> bool \<times> wlan_ps"

definition transition_pending :: "wlan_ps \<Rightarrow> nat \<Rightarrow> bool" where
  "transition_pending s v \<longleftrightarrow>
     delay_pwr_sve_decision_flag (the_vap s v) \<or> conn_in_prog (the_vap s v) \<or> roam_ind (the_vap s v) \<or> scan_flag s"

definition is_confirm :: "ps_path \<Rightarrow> bool" where
  [simp]: "is_confirm p \<longleftrightarrow> p = PS_EN_REQ_CNFM_PATH \<or> p = PS_DIS_REQ_CNFM_PATH"

text \<open>The user's new parameters take effect.\<close>

definition update_params_case :: "ps_host \<Rightarrow> nat \<Rightarrow> u32 \<Rightarrow> bool \<Rightarrow> wlan_ps \<Rightarrow> bool \<times> wlan_ps" where
  "update_params_case h v ps_status q s =
     (let x = the_vap s v; diff_status = (ps_params x \<noteq> ps_params_ioctl x);
          s1 = upd_vap v (\<lambda>x. x\<lparr>ps_params := ps_params_ioctl x, update_ta := False\<rparr>) s;
          en = (ps_en (ps_params (the_vap s1 v)) \<noteq> 0); st = ps_state (the_vap s1 v)
      in if \<not> en \<and> st = PS_NONE then (q, s1)
         else if \<not> en \<and> st = DEV_IN_PWR_SVE then
           (q, set_ps_state v PS_DIS_REQ_SENT (send_ps_params_req h v ps_status q s1))
         else if en \<and> st = DEV_IN_PWR_SVE then
           (if diff_status then
              (let q1 = (if iv_state (the_vap s1 v) \<noteq> S_RUN then True else q)
               in (q1, upd_vap v (\<lambda>x. x\<lparr>disable_ps_for_change_in_params := True\<rparr>)
                         (set_ps_state v PS_DIS_REQ_SENT (send_ps_params_req h v PS_DISABLE q1 s1))))
            else (q, s1))
         else if en \<and> st = PS_NONE then
           (q, set_ps_state v PS_EN_REQ_QUEUED (send_ps_params_req h v PS_ENABLE False s1))
         else (q, s1))"

definition ps_idle_case :: "ps_host \<Rightarrow> nat \<Rightarrow> u32 \<Rightarrow> ps_path \<Rightarrow> bool \<Rightarrow> wlan_ps \<Rightarrow> ps_pass" where
  "ps_idle_case h v ps_status path q s =
     (let x = the_vap s v
      in if path = MGMT_PENDING_PATH \<and> ps_state x = DEV_IN_PWR_SVE \<and> iv_state x \<noteq> S_RUN then
           (False, q, set_ps_state v PS_DIS_REQ_SENT (send_ps_params_req h v ps_status q s))
         else if update_ta x then (case update_params_case h v ps_status q s of (q1, s1) \<Rightarrow> (False, q1, s1))
         else if \<not> is_confirm path \<and> ps_en (ps_params x) \<noteq> 0 then
           (False, q, set_ps_state v (if ps_status \<noteq> 0 then PS_EN_REQ_QUEUED else PS_DIS_REQ_SENT)
                        (send_ps_params_req h v ps_status q s))
         else if disable_ps_for_change_in_params x then
           (let s1 = (if ps_en (ps_params x) \<noteq> 0 \<and> ps_state x = PS_NONE
                      then set_ps_state v PS_EN_REQ_QUEUED (send_ps_params_req h v PS_ENABLE q s) else s)
            in (False, q, upd_vap v (\<lambda>x. x\<lparr>disable_ps_for_change_in_params := False\<rparr>) s1))
         else (False, q, s))"

text \<open>A confirmed wake-up: the state, the counters and the next decision of the timer.\<close>

definition confirm_awake :: "nat \<Rightarrow> wlan_ps \<Rightarrow> wlan_ps" where
  "confirm_awake v s =
     (let s1 = set_ps_state v PS_NONE s
      in if iv_state (the_vap s1 v) = S_RUN \<and> traffic_ps_en (the_vap s1 v) then
           (let s2 = upd_vap v (\<lambda>x. x\<lparr>tx_dataload := 0, rx_dataload := 0\<rparr>) s1
            in if timer_function s2
               then ps_log (Mod_timer (ucast (monitor_interval (ps_params (the_vap s2 v))))) s2 else s2)
         else s1)"

definition ps_dis_sent_case :: "ps_host \<Rightarrow> nat \<Rightarrow> u32 \<Rightarrow> ps_path \<Rightarrow> bool \<Rightarrow> wlan_ps \<Rightarrow> ps_pass" where
  "ps_dis_sent_case h v ps_status path q s =
     (if path = PS_DIS_REQ_CNFM_PATH then
        (let s1 = confirm_awake v s
         in if transition_pending s1 v then (False, q, s1) else ps_idle_case h v ps_status path q s1)
      else (False, q, s))"

definition ps_en_sent_case :: "ps_host \<Rightarrow> nat \<Rightarrow> u32 \<Rightarrow> ps_path \<Rightarrow> bool \<Rightarrow> bool \<Rightarrow> wlan_ps \<Rightarrow> ps_pass" where
  "ps_en_sent_case h v ps_status path loop q s =
     (if path = PS_EN_REQ_CNFM_PATH then
        (let s1 = ps_log Schedule_pkt_for_tx (set_ps_state v DEV_IN_PWR_SVE s);
             s2 = (if iv_state (the_vap s1 v) = S_RUN \<and> traffic_ps_en (the_vap s1 v)
                   then upd_vap v (\<lambda>x. x\<lparr>jiffies_prev := ps_jiffies h (ps_trace s1)\<rparr>) s1 else s1)
         in if transition_pending s2 v then (False, q, s2) else ps_dis_sent_case h v ps_status path q s2)
      else (loop, q, s))"

definition pwr_sve_pass :: "ps_host \<Rightarrow> nat \<Rightarrow> u32 \<Rightarrow> ps_path \<Rightarrow> ps_pass \<Rightarrow> ps_pass" where
  "pwr_sve_pass h v ps_status path r =
     (case r of (loop, q, s) \<Rightarrow>
        (case ps_state (the_vap s v) of
           PS_EN_REQ_SENT \<Rightarrow> ps_en_sent_case h v ps_status path loop q s
         | PS_DIS_REQ_SENT \<Rightarrow> ps_dis_sent_case h v ps_status path q s
         | PS_NONE \<Rightarrow> ps_idle_case h v ps_status path q s
         | DEV_IN_PWR_SVE \<Rightarrow> ps_idle_case h v ps_status path q s
         | PS_EN_REQ_QUEUED \<Rightarrow>
             (loop, q, if path = PS_EN_DEQUEUED_PATH then set_ps_state v PS_EN_REQ_SENT s else s)))"

text \<open>The loop itself: the first pass, then more while \<^verbatim>\<open>loop\<close> is set; \<open>None\<close> is no return.\<close>

definition pwr_sve_loop :: "ps_host \<Rightarrow> nat \<Rightarrow> u32 \<Rightarrow> ps_path \<Rightarrow> ps_pass \<Rightarrow> ps_pass option" where
  "pwr_sve_loop h v ps_status path r =
     while_option fst (pwr_sve_pass h v ps_status path) (pwr_sve_pass h v ps_status path r)"

text \<open>The branches for more than one interface.\<close>

definition multi_vap_case :: "ps_host \<Rightarrow> nat \<Rightarrow> ps_path \<Rightarrow> bool \<Rightarrow> wlan_ps \<Rightarrow> wlan_ps" where
  "multi_vap_case h v path q s =
     (let x = the_vap s v
      in if ps_en (ps_params x) \<noteq> 0 \<and> ps_state x = DEV_IN_PWR_SVE then
           set_ps_state v PS_DIS_REQ_SENT (send_ps_params_req h v PS_DISABLE False s)
         else if ps_state x = PS_EN_REQ_SENT \<or> ps_state x = PS_DIS_REQ_SENT then
           (if path = PS_EN_REQ_CNFM_PATH then
              (if ps_state x = PS_EN_REQ_SENT
               then set_ps_state v PS_DIS_REQ_SENT (send_ps_params_req h v PS_DISABLE q s) else s)
            else if ps_state x = PS_DIS_REQ_SENT \<and> path = PS_DIS_REQ_CNFM_PATH then set_ps_state v PS_NONE s
            else s)
         else s)"

text \<open>The three early returns of the handler.\<close>

definition scanning_transition :: "wlan_ps \<Rightarrow> nat \<Rightarrow> bool" where
  "scanning_transition s v \<longleftrightarrow>
     iv_state (the_vap s v) \<noteq> S_RUN \<and> iv_state (the_vap s v) \<noteq> S_INIT \<and>
     (iv_state (the_vap s v) = S_SCAN \<and> scan_flag s \<and> ps_state (the_vap s v) = PS_NONE)"

definition connecting :: "wlan_ps \<Rightarrow> nat \<Rightarrow> u32 \<Rightarrow> ps_path \<Rightarrow> bool" where
  "connecting s v ps_status path \<longleftrightarrow>
     iv_state (the_vap s v) \<in> {S_AUTH, S_ASSOC, S_RUN, S_SCAN} \<and>
     (conn_in_prog (the_vap s v) \<or> roam_ind (the_vap s v)) \<and> ps_status = PS_ENABLE \<and> \<not> is_confirm path"

definition pwr_sve_event_handler ::
  "ps_host \<Rightarrow> nat \<Rightarrow> u32 \<Rightarrow> ps_path \<Rightarrow> bool \<Rightarrow> wlan_ps \<Rightarrow> wlan_ps option" where
  "pwr_sve_event_handler h v ps_status path q s =
     (let s1 = ps_log Ieee80211_lock s
      in if scanning_transition s1 v then Some (ps_log Ieee80211_unlock s1)
         else if connecting s1 v ps_status path then Some (ps_log Ieee80211_unlock s1)
         else if delay_pwr_sve_decision_flag (the_vap s1 v) \<and> \<not> is_confirm path then Some (ps_log Ieee80211_unlock s1)
         else if sc_nvaps s1 < 2 then
           (case pwr_sve_loop h v ps_status path (False, q, s1) of
              None \<Rightarrow> None | Some (l, q', s2) \<Rightarrow> Some (ps_log Ieee80211_unlock s2))
         else Some (ps_log Ieee80211_unlock (multi_vap_case h v path q s1)))"


section \<open>The entry points\<close>

definition check_deep_sleep_status :: "wlan_ps \<Rightarrow> (bool \<times> wlan_ps) option" where
  "check_deep_sleep_status s =
     (case sta_vap s of
        None \<Rightarrow> None
      | Some v \<Rightarrow>
          Some (if delay_pwr_sve_decision_flag (the_vap s v) \<and> iv_state (the_vap s v) \<noteq> S_RUN
                then (False, upd_vap v (\<lambda>x. x\<lparr>delay_pwr_sve_decision_flag := False\<rparr>) (ps_log Remove_timer s))
                else if ps_state (the_vap s v) = DEV_IN_PWR_SVE \<and> iv_state (the_vap s v) \<noteq> S_RUN
                then (True, s) else (False, s)))"

text \<open>\<open>case SCAN_END_PATH\<close>, where the connect and disconnect paths end, too.\<close>

definition delay_decision :: "nat \<Rightarrow> wlan_ps \<Rightarrow> wlan_ps" where
  "delay_decision v s =
     (let s1 = upd_vap v (\<lambda>x. x\<lparr>delay_pwr_sve_decision_flag := True\<rparr>) s;
          s2 = (if \<not> timer_function s1 then ps_log Init_timer (s1\<lparr>timer_function := True\<rparr>) else s1)
      in ps_log (Mod_timer (if iv_state (the_vap s2 v) = S_RUN then 100 else 1000)) s2)"

definition mark_sta_decision :: "nat \<Rightarrow> wlan_ps \<Rightarrow> wlan_ps" where
  "mark_sta_decision v s =
     (if iv_state (the_vap s v) = S_RUN then s\<lparr>delay_sta_support_decision_flag := True\<rparr> else s)"

definition update_pwr_save_status :: "ps_host \<Rightarrow> nat \<Rightarrow> u32 \<Rightarrow> ps_path \<Rightarrow> wlan_ps \<Rightarrow> wlan_ps option" where
  "update_pwr_save_status h v ps_status path s =
     (case path of
        IOCTL_PATH \<Rightarrow>
          (if iv_state (the_vap s v) = S_INIT \<or> iv_state (the_vap s v) = S_RUN then
             pwr_sve_event_handler h v
               (if ps_en (ps_params_ioctl (the_vap s v)) = 0 then PS_DISABLE else PS_ENABLE) path False s
           else Some s)
      | DISCONNECTED_PATH \<Rightarrow>
          Some (delay_decision v (mark_sta_decision v (s\<lparr>delay_sta_support_decision_flag := False\<rparr>)))
      | CONNECTED_PATH \<Rightarrow> Some (delay_decision v (mark_sta_decision v s))
      | SCAN_END_PATH \<Rightarrow> Some (delay_decision v s)
      | MGMT_PENDING_PATH \<Rightarrow>
          (case check_deep_sleep_status
                  (ps_log Remove_timer (upd_vap v (\<lambda>x. x\<lparr>delay_pwr_sve_decision_flag := False\<rparr>) s)) of
             None \<Rightarrow> None
           | Some (asleep, s1) \<Rightarrow>
               if asleep then pwr_sve_event_handler h v 0 path True s1 else Some s1)
      | TIMER_PATH \<Rightarrow> pwr_sve_event_handler h v ps_status path False s
      | TX_RX_PATH \<Rightarrow> pwr_sve_event_handler h v ps_status path False s
      | PS_EN_REQ_CNFM_PATH \<Rightarrow> pwr_sve_event_handler h v ps_status path False s
      | PS_DIS_REQ_CNFM_PATH \<Rightarrow> pwr_sve_event_handler h v ps_status path False s
      | PS_EN_DEQUEUED_PATH \<Rightarrow> pwr_sve_event_handler h v ps_status path False s
      | VAP_CREATE_PATH \<Rightarrow> Some s
      | VAP_DELETE_PATH \<Rightarrow> Some s)"

section \<open>Traffic accounting\<close>

definition reset_traffic :: "ps_host \<Rightarrow> nat \<Rightarrow> wlan_ps \<Rightarrow> wlan_ps" where
  "reset_traffic h v s =
     upd_vap v (\<lambda>x. x\<lparr>tx_dataload := 0, rx_dataload := 0, jiffies_prev := ps_jiffies h (ps_trace s)\<rparr>) s"

definition check_data_load :: "ps_host \<Rightarrow> nat \<Rightarrow> wlan_ps \<Rightarrow> (bool \<times> wlan_ps) option" where
  "check_data_load h v s =
     (if over_threshold (the_vap s v) \<and> ps_state (the_vap s v) = DEV_IN_PWR_SVE then
        (case update_pwr_save_status h v PS_DISABLE TX_RX_PATH (reset_traffic h v s) of
           None \<Rightarrow> None | Some s1 \<Rightarrow> Some (True, s1))
      else if over_threshold (the_vap s v) then
        (let s1 = reset_traffic h v s
         in Some (False, if timer_function s1
                         then ps_log (Mod_timer (ucast (monitor_interval (ps_params (the_vap s1 v))))) s1 else s1))
      else Some (False, s))"

definition add_traffic :: "nat \<Rightarrow> bool \<Rightarrow> u32 \<Rightarrow> wlan_ps \<Rightarrow> wlan_ps" where
  "add_traffic v tx_path payload_size s =
     upd_vap v (\<lambda>x. if tx_path then x\<lparr>tx_dataload := tx_dataload x + payload_size\<rparr>
                    else x\<lparr>rx_dataload := rx_dataload x + payload_size\<rparr>) s"

definition check_traffic_pwr_save :: "ps_host \<Rightarrow> nat \<Rightarrow> bool \<Rightarrow> u32 \<Rightarrow> wlan_ps \<Rightarrow> wlan_ps option" where
  "check_traffic_pwr_save h v tx_path payload_size s =
     (let x = the_vap s v; current_jiffies = ps_jiffies h (ps_trace s)
      in if ps_en (ps_params x) \<noteq> 0 \<and> traffic_ps_en x \<and> iv_state x = S_RUN \<and> \<not> delay_pwr_sve_decision_flag x then
           (let s1 = add_traffic v tx_path payload_size s
            in if jiffies_prev (the_vap s1 v) = 0
               then Some (upd_vap v (\<lambda>x. x\<lparr>jiffies_prev := current_jiffies\<rparr>) s1)
               else if ucast (monitor_interval (ps_params x)) \<le>
                       jiffies_to_msecs h (current_jiffies - jiffies_prev (the_vap s1 v))
               then map_option (\<lambda>r. reset_traffic h v (snd r)) (check_data_load h v s1)
               else map_option snd (check_data_load h v s1))
         else Some s)"

section \<open>The monitor interval timer\<close>

text \<open>
  \<^verbatim>\<open>onebox_send_sta_supported_features\<close>: the background scan parameters, then power save.
\<close>

definition onebox_send_sta_supported_features :: "ps_host \<Rightarrow> nat \<Rightarrow> wlan_ps \<Rightarrow> wlan_ps option" where
  "onebox_send_sta_supported_features h v s =
     (if bg_ioctl (the_vap s v) then
        (let s1 = ps_log (Send_bgscan v) s
         in if ps_bgscan_status h (ps_trace s1) \<noteq> 0 then Some s1
            else update_pwr_save_status h v PS_ENABLE TIMER_PATH (ps_log (Send_bgscan_probe v) s1))
      else update_pwr_save_status h v PS_ENABLE TIMER_PATH s)"

definition unblock_ap :: "nat \<Rightarrow> wlan_ps \<Rightarrow> wlan_ps" where
  "unblock_ap v s =
     (if iv_opmode (the_vap s v) = M_HOSTAP \<and> block_ap_queues s \<and> sta_data_block s then
        ps_log (Start_ifp_txq v) (upd_vap v (\<lambda>x. x\<lparr>stop_tx_q := False\<rparr>)
          (ps_log (Send_block_unblock v) (s\<lparr>block_ap_queues := False\<rparr>)))
      else s)"

definition data_threshold :: "vap \<Rightarrow> u8 \<Rightarrow> u8 \<Rightarrow> u32" where
  "data_threshold x threshold hysterisis =
     (if threshold < hysterisis then 0 else threshold_bytes x (ucast (threshold - hysterisis)))"

text \<open>The decision of the timer for a connected station.\<close>

definition timer_decision :: "ps_host \<Rightarrow> nat \<Rightarrow> u32 \<Rightarrow> u32 \<Rightarrow> wlan_ps \<Rightarrow> wlan_ps option" where
  "timer_decision h v tx_data_threshold rx_data_threshold s =
     (let x = the_vap s v
      in if over_threshold x \<and> ps_state x = DEV_IN_PWR_SVE then update_pwr_save_status h v PS_DISABLE TIMER_PATH s
         else if tx_dataload x \<le> tx_data_threshold \<and> rx_dataload x \<le> rx_data_threshold \<and> ps_state x = PS_NONE
         then update_pwr_save_status h v PS_ENABLE TIMER_PATH s
         else if ps_state x \<noteq> DEV_IN_PWR_SVE
         then Some (ps_log (Mod_timer (ucast (monitor_interval (ps_params x)))) s)
         else Some s)"

definition connected_timer :: "ps_host \<Rightarrow> nat \<Rightarrow> wlan_ps \<Rightarrow> wlan_ps option" where
  "connected_timer h v s =
     (let s1 = upd_vap v (\<lambda>x. x\<lparr>delay_pwr_sve_decision_flag := False\<rparr>) s
      in case (if delay_sta_support_decision_flag s1
               then map_option (\<lambda>s. s\<lparr>delay_sta_support_decision_flag := False\<rparr>)
                      (onebox_send_sta_supported_features h v s1)
               else Some s1) of
           None \<Rightarrow> None
         | Some s2 \<Rightarrow>
             (let p = ps_params (the_vap s2 v)
              in if ps_en p \<noteq> 0 \<and> traffic_ps_en (the_vap s2 v) then
                   map_option (upd_vap v (\<lambda>x. x\<lparr>tx_dataload := 0, rx_dataload := 0\<rparr>))
                     (timer_decision h v (data_threshold (the_vap s2 v) (tx_threshold p) (tx_hysterisis p))
                        (data_threshold (the_vap s2 v) (rx_threshold p) (rx_hysterisis p)) s2)
                 else Some s2))"

definition traffic_timer_callback :: "ps_host \<Rightarrow> wlan_ps \<Rightarrow> wlan_ps option" where
  "traffic_timer_callback h s =
     (let s1 = fold unblock_ap [0..<length (ic_vaps s)] s
      in if \<not> sta_vap_in_use s1 then Some s1
         else (case sta_vap s1 of
                 None \<Rightarrow> Some s1
               | Some v \<Rightarrow>
                   if conn_in_prog (the_vap s1 v) then Some s1
                   else if iv_state (the_vap s1 v) = S_RUN then connected_timer h v s1
                   else if delay_pwr_sve_decision_flag (the_vap s1 v) \<and> \<not> scan_flag s1
                   then update_pwr_save_status h v PS_ENABLE TIMER_PATH
                          (upd_vap v (\<lambda>x. x\<lparr>delay_pwr_sve_decision_flag := False\<rparr>) s1)
                   else Some s1))"


section \<open>Projections of the updates\<close>

lemma upd_vap_sel [simp]:
  "ps_trace (upd_vap v f s) = ps_trace s" "sc_nvaps (upd_vap v f s) = sc_nvaps s"
  "scan_flag (upd_vap v f s) = scan_flag s" "timer_function (upd_vap v f s) = timer_function s"
  "length (ic_vaps (upd_vap v f s)) = length (ic_vaps s)"
  by (simp_all add: upd_vap_def)

lemma the_vap_upd_vap [simp]:
  "v < length (ic_vaps s) \<Longrightarrow> the_vap (upd_vap v f s) v = f (the_vap s v)"
  by (simp add: upd_vap_def)

lemma ps_log_sel [simp]:
  "ps_trace (ps_log e s) = e # ps_trace s" "ic_vaps (ps_log e s) = ic_vaps s" "sc_nvaps (ps_log e s) = sc_nvaps s"
  "scan_flag (ps_log e s) = scan_flag s" "timer_function (ps_log e s) = timer_function s"
  by (simp_all add: ps_log_def)

lemma send_req_sel [simp]:
  "length (ic_vaps (send_ps_params_req h v en q s)) = length (ic_vaps s)"
  "sc_nvaps (send_ps_params_req h v en q s) = sc_nvaps s"
  by (simp_all add: send_ps_params_req_def Let_def)

text \<open>A request changes no other field of the interface than its power save state.\<close>

lemma send_req_vap:
  assumes "v < length (ic_vaps s)"
  shows "\<exists>p. the_vap (send_ps_params_req h v en q s) v = (the_vap s v)\<lparr>ps_state := p\<rparr>"
  using assms by (auto simp: send_ps_params_req_def Let_def intro: exI [of _ "ps_state (the_vap s v)"])

lemma send_req_vap_state [simp]:
  "v < length (ic_vaps s) \<Longrightarrow>
     (the_vap (send_ps_params_req h v en q s) v)\<lparr>ps_state := p\<rparr> = (the_vap s v)\<lparr>ps_state := p\<rparr>"
  using send_req_vap [of v s h en q] by auto

section \<open>The loop\<close>

lemma ps_idle_no_loop [simp]: "fst (ps_idle_case h v st path q s) = False"
  by (simp add: ps_idle_case_def Let_def split: prod.split)

lemma ps_dis_no_loop [simp]: "fst (ps_dis_sent_case h v st path q s) = False"
  by (simp add: ps_dis_sent_case_def Let_def)

lemma ps_pass_no_loop: "fst (pwr_sve_pass h v st path (False, q, s)) = False"
  by (simp add: pwr_sve_pass_def ps_en_sent_case_def Let_def split: ps_state.split)

text \<open>The body runs once: every pass leaves \<^verbatim>\<open>loop\<close> at 0.\<close>

lemma pwr_sve_loop_once:
  "pwr_sve_loop h v st path (False, q, s) = Some (pwr_sve_pass h v st path (False, q, s))"
  by (simp add: pwr_sve_loop_def while_option_unfold ps_pass_no_loop)

text \<open>The state the handler reaches when it is not stopped by an early return.\<close>

definition ps_served :: "ps_host \<Rightarrow> nat \<Rightarrow> u32 \<Rightarrow> ps_path \<Rightarrow> bool \<Rightarrow> wlan_ps \<Rightarrow> wlan_ps" where
  "ps_served h v st path q s =
     (if sc_nvaps s < 2 then snd (snd (pwr_sve_pass h v st path (False, q, s))) else multi_vap_case h v path q s)"

definition ps_early_return :: "nat \<Rightarrow> u32 \<Rightarrow> ps_path \<Rightarrow> wlan_ps \<Rightarrow> bool" where
  "ps_early_return v st path s \<longleftrightarrow>
     scanning_transition s v \<or> connecting s v st path \<or>
     delay_pwr_sve_decision_flag (the_vap s v) \<and> \<not> is_confirm path"

lemma scanning_log [simp]: "scanning_transition (ps_log e s) v = scanning_transition s v"
  by (simp add: scanning_transition_def)

lemma connecting_log [simp]: "connecting (ps_log e s) v st path = connecting s v st path"
  by (simp add: connecting_def)

lemma handler_result:
  "pwr_sve_event_handler h v st path q s =
     Some (ps_log Ieee80211_unlock
             (if ps_early_return v st path s then ps_log Ieee80211_lock s
              else ps_served h v st path q (ps_log Ieee80211_lock s)))"
  by (simp add: pwr_sve_event_handler_def ps_served_def ps_early_return_def pwr_sve_loop_once Let_def prod.case_eq_if)

section \<open>The events of one call\<close>

primrec requests :: "ps_event list \<Rightarrow> ps_req_frame list" where
  "requests [] = []"
| "requests (e # es) =
     (case e of Send_internal_mgmt f \<Rightarrow> f # requests es | Queue_mgmt_head f \<Rightarrow> f # requests es | _ \<Rightarrow> requests es)"

definition grows :: "wlan_ps \<Rightarrow> wlan_ps \<Rightarrow> bool" where
  "grows s s' \<longleftrightarrow> (\<exists>evs. ps_trace s' = evs @ ps_trace s \<and> Ieee80211_lock \<notin> set evs \<and> Ieee80211_unlock \<notin> set evs)"

lemma grows_refl [simp, intro]: "grows s s"
  by (simp add: grows_def)

lemma grows_upd [simp]: "grows s (upd_vap v f s') = grows s s'"
  by (simp add: grows_def)

lemma grows_log:
  "grows s s' \<Longrightarrow> e \<noteq> Ieee80211_lock \<Longrightarrow> e \<noteq> Ieee80211_unlock \<Longrightarrow> grows s (ps_log e s')"
  by (auto simp: grows_def intro: exI [of _ "e # _"])

lemma grows_send: "grows s s' \<Longrightarrow> grows s (send_ps_params_req h v en q s')"
  by (auto simp: send_ps_params_req_def Let_def intro!: grows_log)

lemmas grows_intros = grows_log grows_send

lemma grows_update_params: "grows t s \<Longrightarrow> grows t (snd (update_params_case h v st q s))"
  by (simp add: update_params_case_def Let_def grows_send)

lemma grows_idle: "grows t s \<Longrightarrow> grows t (snd (snd (ps_idle_case h v st path q s)))"
  using grows_update_params [of t s h v st q]
  by (simp add: ps_idle_case_def Let_def grows_send prod.case_eq_if)

lemma grows_dis: "grows t s \<Longrightarrow> grows t (snd (snd (ps_dis_sent_case h v st path q s)))"
  by (simp add: ps_dis_sent_case_def confirm_awake_def Let_def grows_intros grows_idle)

lemma grows_pass: "grows t s \<Longrightarrow> grows t (snd (snd (pwr_sve_pass h v st path (False, q, s))))"
  by (simp add: pwr_sve_pass_def ps_en_sent_case_def Let_def grows_intros grows_idle grows_dis split: ps_state.split)

lemma grows_multi: "grows t s \<Longrightarrow> grows t (multi_vap_case h v path q s)"
  by (simp add: multi_vap_case_def Let_def grows_intros)

lemma grows_served: "grows s (ps_served h v st path q s)"
  by (simp add: ps_served_def grows_pass grows_multi)

text \<open>
  C12. The handler of the power save events returns whatever the state and the path, although
  its body is a loop: the body runs once. It holds the lock of the stack from its first to its
  last step on every path, the three early returns included.
\<close>

theorem pwr_sve_handler_returns:
  "\<exists>s' evs. pwr_sve_event_handler h v st path q s = Some s' \<and>
            ps_trace s' = Ieee80211_unlock # evs @ Ieee80211_lock # ps_trace s \<and>
            Ieee80211_lock \<notin> set evs \<and> Ieee80211_unlock \<notin> set evs"
proof -
  obtain evs where "ps_trace (ps_served h v st path q (ps_log Ieee80211_lock s)) =
      evs @ Ieee80211_lock # ps_trace s" "Ieee80211_lock \<notin> set evs" "Ieee80211_unlock \<notin> set evs"
    using grows_served [of "ps_log Ieee80211_lock s" h v st path q] by (auto simp: grows_def)
  then show ?thesis by (auto simp: handler_result)
qed


section \<open>The protocol of requests and confirmations\<close>

text \<open>
  The contract with the firmware: a step of the state on an event, with the types of the
  requests (\<^verbatim>\<open>desc_word[6]\<close>) sent on the way.
\<close>

inductive ps_protocol :: "ps_path \<Rightarrow> ps_state \<Rightarrow> u16 list \<Rightarrow> ps_state \<Rightarrow> bool" for path where
  silent: "ps_protocol path p [] p"
| ask_sleep: "p = PS_NONE \<or> p = DEV_IN_PWR_SVE \<Longrightarrow> ps_protocol path p [SLEEP_REQUEST] PS_EN_REQ_QUEUED"
| ask_wakeup: "p = PS_NONE \<or> p = DEV_IN_PWR_SVE \<Longrightarrow> ps_protocol path p [WAKEUP_REQUEST] PS_DIS_REQ_SENT"
| dequeued: "path = PS_EN_DEQUEUED_PATH \<Longrightarrow> ps_protocol path PS_EN_REQ_QUEUED [] PS_EN_REQ_SENT"
| asleep: "path = PS_EN_REQ_CNFM_PATH \<Longrightarrow> ps_protocol path PS_EN_REQ_SENT [] DEV_IN_PWR_SVE"
| awake: "path = PS_DIS_REQ_CNFM_PATH \<Longrightarrow> ps_protocol path PS_DIS_REQ_SENT [] PS_NONE"
| restart: "path = PS_DIS_REQ_CNFM_PATH \<Longrightarrow> ps_protocol path PS_DIS_REQ_SENT [SLEEP_REQUEST] PS_EN_REQ_QUEUED"
| second_vap: "path = PS_EN_REQ_CNFM_PATH \<Longrightarrow> ps_protocol path PS_EN_REQ_SENT [WAKEUP_REQUEST] PS_DIS_REQ_SENT"

declare ps_protocol.intros [intro]

inductive_cases outstanding_disable: "ps_protocol path PS_DIS_REQ_SENT rs p"
inductive_cases outstanding_enable: "ps_protocol path PS_EN_REQ_SENT rs p"
inductive_cases outstanding_queued: "ps_protocol path PS_EN_REQ_QUEUED rs p"

code_pred (modes: i \<Rightarrow> i \<Rightarrow> i \<Rightarrow> i \<Rightarrow> bool) ps_protocol .

text \<open>
  The state moves from \<open>s\<close> to \<open>s'\<close> with the requests \<open>rs\<close> in mind: at most as
  many requests leave, and if the call is in order (\<open>ok\<close>), exactly these.
\<close>

definition asks :: "bool \<Rightarrow> wlan_ps \<Rightarrow> wlan_ps \<Rightarrow> u16 list \<Rightarrow> bool" where
  "asks ok s s' rs \<longleftrightarrow>
     (\<exists>fs. requests (ps_trace s') = fs @ requests (ps_trace s) \<and> length fs \<le> length rs \<and>
           (ok \<longrightarrow> map desc_word6 fs = rs))"

lemma asks_refl [simp]: "asks ok s s []"
  by (simp add: asks_def)

lemma asks_upd [simp]: "asks ok s (upd_vap v f s') rs = asks ok s s' rs" "asks ok (upd_vap v f s) s' rs = asks ok s s' rs"
  by (simp_all add: asks_def)

lemma asks_log [simp]:
  "requests [e] = [] \<Longrightarrow> asks ok s (ps_log e s') rs = asks ok s s' rs"
  "requests [e] = [] \<Longrightarrow> asks ok (ps_log e s) s' rs = asks ok s s' rs"
  by (cases e; simp add: asks_def)+

lemma asks_send:
  "ok \<longrightarrow> (\<forall>t. ps_alloc_skb h t) \<Longrightarrow> ok \<longrightarrow> r = (if en \<noteq> 0 \<and> sc_nvaps s < 2 then SLEEP_REQUEST else WAKEUP_REQUEST) \<Longrightarrow>
     asks ok s (send_ps_params_req h v en q s) [r]"
  by (auto simp: asks_def send_ps_params_req_def ps_request_frame_def Let_def)

lemma asks_send_any [simp]:
  "asks False s (send_ps_params_req h v en q s) [r]"
  "asks False s (send_ps_params_req h v en q (upd_vap w f s)) [r]"
  using asks_send [of False h r en s v q] asks_send [of False h r en "upd_vap w f s" v q] by simp_all

lemma asks_send_enable:
  "ok \<longrightarrow> (\<forall>t. ps_alloc_skb h t) \<Longrightarrow> ok \<longrightarrow> en \<noteq> 0 \<and> sc_nvaps s < 2 \<Longrightarrow>
     asks ok s (send_ps_params_req h v en q s) [SLEEP_REQUEST]"
  by (rule asks_send) auto

lemma asks_send_disable:
  "ok \<longrightarrow> (\<forall>t. ps_alloc_skb h t) \<Longrightarrow> ok \<longrightarrow> en = 0 \<Longrightarrow> asks ok s (send_ps_params_req h v en q s) [WAKEUP_REQUEST]"
  by (rule asks_send) auto

lemma vap_of_send [simp]:
  "v < length (ic_vaps s) \<Longrightarrow> iv_state (the_vap (send_ps_params_req h v en q s) v) = iv_state (the_vap s v)"
  using send_req_vap [of v s h en q] by auto

text \<open>
  The calls the driver makes: a wake-up before pending management frames is a disable, and
  new parameters that turn power save off arrive with a disable.
\<close>

definition ps_call_ok :: "nat \<Rightarrow> u32 \<Rightarrow> ps_path \<Rightarrow> wlan_ps \<Rightarrow> bool" where
  "ps_call_ok v st path s \<longleftrightarrow>
     (path = MGMT_PENDING_PATH \<longrightarrow> st = 0) \<and>
     (update_ta (the_vap s v) \<and> ps_en (ps_params_ioctl (the_vap s v)) = 0 \<longrightarrow> st = 0)"

definition ps_outcome :: "bool \<Rightarrow> ps_path \<Rightarrow> nat \<Rightarrow> wlan_ps \<Rightarrow> wlan_ps \<Rightarrow> bool" where
  "ps_outcome ok path v s s' \<longleftrightarrow>
     asks ok s s' [] \<and> ps_state (the_vap s' v) = ps_state (the_vap s v) \<or>
     asks ok s s' [SLEEP_REQUEST] \<and> ps_state (the_vap s' v) = PS_EN_REQ_QUEUED \<or>
     asks ok s s' [WAKEUP_REQUEST] \<and> ps_state (the_vap s' v) = PS_DIS_REQ_SENT \<and>
       (path \<noteq> PS_DIS_REQ_CNFM_PATH \<or> ps_state (the_vap s v) = DEV_IN_PWR_SVE)"

lemma update_params_outcome:
  assumes "v < length (ic_vaps s)" "sc_nvaps s < 2" "ok \<longrightarrow> (\<forall>t. ps_alloc_skb h t)" "ok \<longrightarrow> ps_call_ok v st path s"
    and "update_ta (the_vap s v)"
  shows "ps_outcome ok path v s (snd (update_params_case h v st q s))"
proof -
  let ?f = "\<lambda>x. x\<lparr>ps_params := ps_params_ioctl x, update_ta := False\<rparr>"
  have *: "asks ok s (send_ps_params_req h v en q' (upd_vap v ?f s)) [SLEEP_REQUEST]" if "en \<noteq> 0" for en q'
    using asks_send_enable [of ok h en "upd_vap v ?f s" v q'] that assms by simp
  have **: "asks ok s (send_ps_params_req h v 0 q' (upd_vap v ?f s)) [WAKEUP_REQUEST]" for q'
    using asks_send_disable [of ok h 0 "upd_vap v ?f s" v q'] assms by simp
  show ?thesis
    using assms by (auto simp: update_params_case_def ps_outcome_def ps_call_ok_def Let_def * **)
qed

lemma idle_outcome:
  assumes "v < length (ic_vaps s)" "sc_nvaps s < 2" "ok \<longrightarrow> (\<forall>t. ps_alloc_skb h t)" "ok \<longrightarrow> ps_call_ok v st path s"
  shows "ps_outcome ok path v s (snd (snd (ps_idle_case h v st path q s)))"
proof (cases "update_ta (the_vap s v)")
  case True
  show ?thesis
    using update_params_outcome [OF assms True, of q] assms True asks_send_disable [of ok h st s v q]
    by (simp add: ps_idle_case_def prod.case_eq_if ps_outcome_def ps_call_ok_def Let_def)
next
  case False
  then show ?thesis
    using assms asks_send_enable [of ok h st s v q] asks_send_enable [of ok h 1 s v q] asks_send_disable [of ok h st s v q]
    by (auto simp: ps_idle_case_def ps_outcome_def ps_call_ok_def Let_def)
qed


definition follows :: "bool \<Rightarrow> ps_path \<Rightarrow> nat \<Rightarrow> wlan_ps \<Rightarrow> wlan_ps \<Rightarrow> bool" where
  "follows ok path v s s' \<longleftrightarrow>
     (\<exists>rs. asks ok s s' rs \<and> ps_protocol path (ps_state (the_vap s v)) rs (ps_state (the_vap s' v)))"

lemma outcome_follows:
  "ps_outcome ok path v s s' \<Longrightarrow> ps_state (the_vap s v) \<in> {PS_NONE, DEV_IN_PWR_SVE} \<Longrightarrow> follows ok path v s s'"
  by (fastforce simp: ps_outcome_def follows_def)

lemma asks_trans: "asks ok s t rs \<Longrightarrow> requests (ps_trace s) = requests (ps_trace s0) \<Longrightarrow> asks ok s0 t rs"
  by (simp add: asks_def)

text \<open>The confirmation of a wake-up: the idle case runs from the state without power save.\<close>

lemma confirmed_follows:
  assumes "ps_outcome ok PS_DIS_REQ_CNFM_PATH v s s'" "ps_state (the_vap s v) = PS_NONE"
    and "requests (ps_trace s) = requests (ps_trace s0)" "ps_state (the_vap s0 v) = PS_DIS_REQ_SENT"
  shows "follows ok PS_DIS_REQ_CNFM_PATH v s0 s'"
  using assms asks_trans [of ok s s' _ s0] by (fastforce simp: ps_outcome_def follows_def)

lemma dis_sent_follows:
  assumes "v < length (ic_vaps s)" "sc_nvaps s < 2" "ok \<longrightarrow> (\<forall>t. ps_alloc_skb h t)" "ok \<longrightarrow> ps_call_ok v st path s"
    and "ps_state (the_vap s v) = PS_DIS_REQ_SENT"
  shows "follows ok path v s (snd (snd (ps_dis_sent_case h v st path q s)))"
proof (cases "path = PS_DIS_REQ_CNFM_PATH")
  case False
  then show ?thesis by (auto simp: ps_dis_sent_case_def follows_def intro!: exI [of _ "[]"])
next
  case True
  let ?s = "confirm_awake v s"
  have c: "v < length (ic_vaps ?s)" "sc_nvaps ?s < 2" "ok \<longrightarrow> ps_call_ok v st path ?s"
      "ps_state (the_vap ?s v) = PS_NONE" "requests (ps_trace ?s) = requests (ps_trace s)" "asks ok s ?s []"
    using assms True by (auto simp: confirm_awake_def Let_def ps_call_ok_def)
  have "follows ok path v s (snd (snd (ps_idle_case h v st path q ?s)))"
    unfolding True
    by (rule confirmed_follows [OF idle_outcome [OF c(1,2) assms(3) c(3), unfolded True] c(4,5) assms(5)])
  moreover have "follows ok path v s ?s"
    using c(4,6) assms(5) True by (auto simp: follows_def intro!: exI [of _ "[]"])
  ultimately show ?thesis using True by (simp add: ps_dis_sent_case_def Let_def)
qed

lemma en_sent_follows:
  assumes "v < length (ic_vaps s)" "ps_state (the_vap s v) = PS_EN_REQ_SENT"
  shows "follows ok path v s (snd (snd (ps_en_sent_case h v st path l q s)))"
  using assms
  by (auto simp: ps_en_sent_case_def ps_dis_sent_case_def follows_def Let_def intro!: exI [of _ "[]"])

lemma multi_follows:
  assumes "v < length (ic_vaps s)" "\<not> sc_nvaps s < 2" "ok \<longrightarrow> (\<forall>t. ps_alloc_skb h t)"
  shows "follows ok path v s (multi_vap_case h v path q s)"
  using assms asks_send_disable [of ok h 0 s v]
  by (auto simp: multi_vap_case_def follows_def Let_def intro: exI [of _ "[]"])

lemma served_follows:
  assumes "v < length (ic_vaps s)" "ok \<longrightarrow> (\<forall>t. ps_alloc_skb h t)" "ok \<longrightarrow> ps_call_ok v st path s"
  shows "follows ok path v s (ps_served h v st path q s)"
proof (cases "sc_nvaps s < 2")
  case False
  then show ?thesis using multi_follows assms by (simp add: ps_served_def)
next
  case True
  note idle = outcome_follows [OF idle_outcome [OF assms(1) True assms(2,3)]]
  have queued: "follows ok path v s (if path = PS_EN_DEQUEUED_PATH then set_ps_state v PS_EN_REQ_SENT s else s)"
    if "ps_state (the_vap s v) = PS_EN_REQ_QUEUED"
    using that assms(1) by (auto simp: follows_def intro!: exI [of _ "[]"])
  show ?thesis
    using True idle queued dis_sent_follows [OF assms(1) True assms(2,3)] en_sent_follows [OF assms(1)]
    by (cases "path = PS_EN_DEQUEUED_PATH") (simp_all add: ps_served_def pwr_sve_pass_def split: ps_state.split)
qed

text \<open>
  C13. Every call of the handler is a step of the request protocol, whatever the parameters and
  the memory: the state after it follows from the state before it on this event, nothing is
  requested while a request is outstanding except by its own confirmation, and at most one
  request leaves, none where the step has none. The request put on the management queue is the
  one of the step if memory for the frame can be had and the call is in order: a wake-up before pending
  management frames is a disable, and new parameters that turn power save off arrive with a
  disable. (Outside these conditions the request can be lost, or be a sleep request while
  the state waits for a wake-up.)
\<close>

theorem pwr_sve_handler_refines_protocol:
  assumes "v < length (ic_vaps s)" and "pwr_sve_event_handler h v st path q s = Some s'"
  shows "\<exists>fs rs. requests (ps_trace s') = fs @ requests (ps_trace s) \<and> length fs \<le> length rs \<and> length rs \<le> 1 \<and>
           ps_protocol path (ps_state (the_vap s v)) rs (ps_state (the_vap s' v)) \<and>
           ((\<forall>t. ps_alloc_skb h t) \<and> ps_call_ok v st path s \<longrightarrow> map desc_word6 fs = rs)"
proof (cases "ps_early_return v st path s")
  case True
  then show ?thesis using assms(2) by (auto simp: handler_result intro!: exI [of _ "[]"])
next
  case False
  obtain ok where ok: "ok \<longleftrightarrow> (\<forall>t. ps_alloc_skb h t) \<and> ps_call_ok v st path s" by blast
  let ?s = "ps_served h v st path q (ps_log Ieee80211_lock s)"
  have "follows ok path v (ps_log Ieee80211_lock s) ?s"
    using assms(1) ok by (intro served_follows) (simp_all add: ps_call_ok_def)
  then obtain rs where r: "asks ok (ps_log Ieee80211_lock s) ?s rs"
      "ps_protocol path (ps_state (the_vap s v)) rs (ps_state (the_vap ?s v))"
    by (auto simp: follows_def)
  have s': "s' = ps_log Ieee80211_unlock ?s" using assms(2) False by (simp add: handler_result)
  from r obtain fs where f: "requests (ps_trace s') = fs @ requests (ps_trace s)" "length fs \<le> length rs"
      "ok \<longrightarrow> map desc_word6 fs = rs" "ps_protocol path (ps_state (the_vap s v)) rs (ps_state (the_vap s' v))"
    unfolding s' asks_def by (elim exE conjE) simp
  from f(4) have "length rs \<le> 1" by cases simp_all
  with f ok show ?thesis by blast
qed


section \<open>A station in power save\<close>

text \<open>The interface and the host the concrete instances below use.\<close>

definition sample_params :: pwr_save_params where
  "sample_params = \<lparr>ps_en = 1, sleep_type = 1, tx_threshold = 2, rx_threshold = 2, tx_hysterisis = 1,
     rx_hysterisis = 1, monitor_interval = 50, listen_interval = 200, num_beacons_per_listen_interval = 2,
     dtim_interval_duration = 0, num_dtims_per_sleep = 1, deep_sleep_wakeup_period = 0\<rparr>"

definition sample_vap :: "ieee80211_state \<Rightarrow> ps_state \<Rightarrow> vap" where
  "sample_vap st p = \<lparr>iv_state = st, iv_opmode = M_STA, conn_in_prog = False, roam_ind = False, stop_tx_q = False,
     bg_ioctl = False, ps_params = sample_params, ps_params_ioctl = sample_params,
     uapsd_params_updated = \<lparr>mimic_support = 0, uapsd_acs = 0, uapsd_wakeup_period = 0\<rparr>,
     tx_dataload = 0, rx_dataload = 0, jiffies_prev = 0, update_ta = False, ps_state = p,
     delay_pwr_sve_decision_flag = False, disable_ps_for_change_in_params = False\<rparr>"

definition sample_ps :: "vap \<Rightarrow> wlan_ps" where
  "sample_ps x = \<lparr>ic_vaps = [x], sc_nvaps = 1, scan_flag = False, timer_function = True,
     delay_sta_support_decision_flag = False, block_ap_queues = False, sta_data_block = False,
     sta_vap_in_use = True, ps_trace = []\<rparr>"

definition sample_ps_host :: ps_host where
  "sample_ps_host = \<lparr>ps_alloc_skb = (\<lambda>_. True), ps_jiffies = (\<lambda>_. 1000), jiffies_to_msecs = (\<lambda>j. ucast j),
     ps_bgscan_status = (\<lambda>_. 0)\<rparr>"

lemmas sample_defs = sample_params_def sample_vap_def sample_ps_def sample_ps_host_def

lemmas ps_event_defs =
  handler_result ps_early_return_def scanning_transition_def connecting_def ps_served_def pwr_sve_pass_def
  ps_en_sent_case_def ps_dis_sent_case_def confirm_awake_def transition_pending_def ps_idle_case_def
  update_params_case_def multi_vap_case_def Let_def

theorem pwr_sve_handler_refines_protocol_witness:
  "\<exists>f s'. pwr_sve_event_handler sample_ps_host 0 PS_DISABLE TX_RX_PATH False
              (sample_ps (sample_vap S_RUN DEV_IN_PWR_SVE)) = Some s' \<and>
           requests (ps_trace s') = [f] \<and> desc_word6 f = WAKEUP_REQUEST \<and> ps_state (the_vap s' 0) = PS_DIS_REQ_SENT"
proof -
  let ?s = "sample_ps (sample_vap S_RUN DEV_IN_PWR_SVE)"
  obtain s' where s': "pwr_sve_event_handler sample_ps_host 0 PS_DISABLE TX_RX_PATH False ?s = Some s'"
    by (simp add: handler_result)
  have ok: "ps_call_ok 0 PS_DISABLE TX_RX_PATH ?s" "\<forall>t. ps_alloc_skb sample_ps_host t" "0 < length (ic_vaps ?s)"
    by (simp_all add: ps_call_ok_def sample_defs)
  have "ps_state (the_vap s' 0) = PS_DIS_REQ_SENT"
    using s' by (auto simp: ps_event_defs send_ps_params_req_def sample_defs upd_vap_def ps_log_def)
  moreover have "ps_state (the_vap ?s 0) = DEV_IN_PWR_SVE" "requests (ps_trace ?s) = []" by (simp_all add: sample_defs)
  moreover have "rs = [WAKEUP_REQUEST]" if "ps_protocol TX_RX_PATH DEV_IN_PWR_SVE rs PS_DIS_REQ_SENT" for rs
    using that by cases auto
  ultimately show ?thesis
    using pwr_sve_handler_refines_protocol [OF ok(3) s'] ok(1,2) s' by auto
qed

definition settled :: "nat \<Rightarrow> wlan_ps \<Rightarrow> bool" where
  "settled v s \<longleftrightarrow> v < length (ic_vaps s) \<and> sc_nvaps s < 2 \<and> \<not> transition_pending s v \<and> iv_state (the_vap s v) = S_RUN"

lemma changed_params_ask_wakeup:
  assumes "settled v s" "ps_state (the_vap s v) = DEV_IN_PWR_SVE" "update_ta (the_vap s v)"
    and "ps_en (ps_params_ioctl (the_vap s v)) \<noteq> 0" "ps_params_ioctl (the_vap s v) \<noteq> ps_params (the_vap s v)"
  shows "\<exists>s'. update_pwr_save_status h v st IOCTL_PATH s = Some s' \<and> settled v s' \<and>
           ps_params (the_vap s' v) = ps_params_ioctl (the_vap s v) \<and> \<not> update_ta (the_vap s' v) \<and>
           ps_state (the_vap s' v) = PS_DIS_REQ_SENT \<and> disable_ps_for_change_in_params (the_vap s' v) \<and>
           asks True s s' [WAKEUP_REQUEST]"
  using assms
  by (auto simp: update_pwr_save_status_def ps_event_defs settled_def send_ps_params_req_def
        ps_request_frame_def asks_def)


lemma confirmed_wakeup_restarts:
  assumes "settled v s" "ps_state (the_vap s v) = PS_DIS_REQ_SENT" "\<not> update_ta (the_vap s v)"
    and "ps_en (ps_params (the_vap s v)) \<noteq> 0" "disable_ps_for_change_in_params (the_vap s v)"
  shows "\<exists>s'. update_pwr_save_status h v PS_DISABLE PS_DIS_REQ_CNFM_PATH s = Some s' \<and>
           ps_params (the_vap s' v) = ps_params (the_vap s v) \<and>
           ps_state (the_vap s' v) = PS_EN_REQ_QUEUED \<and> \<not> disable_ps_for_change_in_params (the_vap s' v) \<and>
           (\<exists>f. requests (ps_trace s') = f # requests (ps_trace s) \<and> desc_word6 f = SLEEP_REQUEST \<and>
                req_listen_interval f = listen_interval (ps_params (the_vap s v)) \<and>
                req_sleep_type f = sleep_type (ps_params (the_vap s v)))"
  using assms
  by (auto simp: update_pwr_save_status_def ps_event_defs settled_def send_ps_params_req_def
        ps_request_frame_def)

text \<open>
  C14. When the user changes the parameters of a sleeping, connected station, the device is
  first woken up, and its confirmation starts power save again with the new parameters: one
  wake-up request, then one sleep request built from what the user asked for.
\<close>

theorem changed_params_restart_power_save:
  assumes "settled v s" "ps_state (the_vap s v) = DEV_IN_PWR_SVE" "update_ta (the_vap s v)"
    and "ps_en (ps_params_ioctl (the_vap s v)) \<noteq> 0" "ps_params_ioctl (the_vap s v) \<noteq> ps_params (the_vap s v)"
  shows "\<exists>s1 s2 f g. update_pwr_save_status h v st IOCTL_PATH s = Some s1 \<and>
           update_pwr_save_status h v PS_DISABLE PS_DIS_REQ_CNFM_PATH s1 = Some s2 \<and>
           requests (ps_trace s2) = f # g # requests (ps_trace s) \<and>
           desc_word6 g = WAKEUP_REQUEST \<and> desc_word6 f = SLEEP_REQUEST \<and>
           req_listen_interval f = listen_interval (ps_params_ioctl (the_vap s v)) \<and>
           req_sleep_type f = sleep_type (ps_params_ioctl (the_vap s v)) \<and>
           ps_params (the_vap s2 v) = ps_params_ioctl (the_vap s v) \<and>
           ps_state (the_vap s2 v) = PS_EN_REQ_QUEUED \<and> \<not> disable_ps_for_change_in_params (the_vap s2 v)"
proof -
  obtain s1 where 1: "update_pwr_save_status h v st IOCTL_PATH s = Some s1" "settled v s1"
      "ps_params (the_vap s1 v) = ps_params_ioctl (the_vap s v)" "\<not> update_ta (the_vap s1 v)"
      "ps_state (the_vap s1 v) = PS_DIS_REQ_SENT" "disable_ps_for_change_in_params (the_vap s1 v)"
      "asks True s s1 [WAKEUP_REQUEST]"
    using changed_params_ask_wakeup [OF assms] by auto
  obtain g where g: "requests (ps_trace s1) = g # requests (ps_trace s)" "desc_word6 g = WAKEUP_REQUEST"
    using 1(7) by (auto simp: asks_def)
  show ?thesis
    using confirmed_wakeup_restarts [of v s1 h] 1 g assms(4) by auto
qed

definition reconfigured_vap :: vap where
  "reconfigured_vap = (sample_vap S_RUN DEV_IN_PWR_SVE)\<lparr>update_ta := True,
     ps_params_ioctl := sample_params\<lparr>listen_interval := 500\<rparr>\<rparr>"

lemma changed_params_restart_power_save_witness:
  "\<exists>s1 s2 f g. update_pwr_save_status sample_ps_host 0 PS_ENABLE IOCTL_PATH (sample_ps reconfigured_vap) = Some s1 \<and>
     update_pwr_save_status sample_ps_host 0 PS_DISABLE PS_DIS_REQ_CNFM_PATH s1 = Some s2 \<and>
     requests (ps_trace s2) = [f, g] \<and> req_listen_interval f = 500"
proof -
  let ?s = "sample_ps reconfigured_vap"
  have "settled 0 ?s" "ps_state (the_vap ?s 0) = DEV_IN_PWR_SVE" "update_ta (the_vap ?s 0)"
      "ps_en (ps_params_ioctl (the_vap ?s 0)) \<noteq> 0" "ps_params_ioctl (the_vap ?s 0) \<noteq> ps_params (the_vap ?s 0)"
    by (simp_all add: settled_def transition_pending_def reconfigured_vap_def sample_defs)
  from changed_params_restart_power_save [OF this, of sample_ps_host PS_ENABLE] show ?thesis
    by (auto simp: reconfigured_vap_def sample_defs)
qed

text \<open>
  Traffic above the threshold wakes a sleeping, connected station: the packet that passes
  it sends one wake-up request, the state waits for the confirmation, and the counters start
  again from zero.
\<close>

theorem traffic_wakes_station:
  assumes "settled v s" "ps_state (the_vap s v) = DEV_IN_PWR_SVE" "\<not> update_ta (the_vap s v)"
    and "ps_en (ps_params (the_vap s v)) \<noteq> 0" "traffic_ps_en (the_vap s v)" "jiffies_prev (the_vap s v) \<noteq> 0"
    and "over_threshold (the_vap (add_traffic v tx n s) v)"
  shows "\<exists>s' f. check_traffic_pwr_save h v tx n s = Some s' \<and>
           requests (ps_trace s') = f # requests (ps_trace s) \<and> desc_word6 f = WAKEUP_REQUEST \<and>
           req_connected_sleep f = CONNECTED_SLEEP \<and>
           ps_state (the_vap s' v) = PS_DIS_REQ_SENT \<and>
           tx_dataload (the_vap s' v) = 0 \<and> rx_dataload (the_vap s' v) = 0"
  using assms
  by (cases tx) (auto simp: check_traffic_pwr_save_def check_data_load_def add_traffic_def reset_traffic_def
      update_pwr_save_status_def ps_event_defs settled_def send_ps_params_req_def ps_request_frame_def)

lemma traffic_wakes_station_witness:
  "\<exists>s' f. check_traffic_pwr_save sample_ps_host 0 True 12501
             (sample_ps ((sample_vap S_RUN DEV_IN_PWR_SVE)\<lparr>jiffies_prev := 990\<rparr>)) = Some s' \<and>
           requests (ps_trace s') = [f] \<and> desc_word6 f = WAKEUP_REQUEST"
proof -
  let ?s = "sample_ps ((sample_vap S_RUN DEV_IN_PWR_SVE)\<lparr>jiffies_prev := 990\<rparr>)"
  have "settled 0 ?s" "ps_state (the_vap ?s 0) = DEV_IN_PWR_SVE" "\<not> update_ta (the_vap ?s 0)"
      "ps_en (ps_params (the_vap ?s 0)) \<noteq> 0" "traffic_ps_en (the_vap ?s 0)" "jiffies_prev (the_vap ?s 0) \<noteq> 0"
      "over_threshold (the_vap (add_traffic 0 True 12501 ?s) 0)"
    by (simp_all add: settled_def transition_pending_def over_threshold_def threshold_bytes_def add_traffic_def
        upd_vap_def sample_defs)
  from traffic_wakes_station [OF this, of sample_ps_host] show ?thesis
    by (auto simp: sample_defs)
qed


text \<open>
  Before a management frame leaves, a device in deep sleep is woken up: the wake-up request
  is put at the head of the management queue, ahead of the frame, whatever delayed decision
  was pending (the timer is removed).
\<close>

theorem pending_frame_wakes_station:
  assumes "sta_vap s = Some v" "sc_nvaps s < 2" "iv_state (the_vap s v) = S_INIT"
    and "ps_state (the_vap s v) = DEV_IN_PWR_SVE" "\<forall>t. ps_alloc_skb h t"
  shows "\<exists>s' f. update_pwr_save_status h v st MGMT_PENDING_PATH s = Some s' \<and>
           ps_trace s' = [Ieee80211_unlock, Schedule_pkt_for_tx, Queue_mgmt_head f, Ieee80211_lock, Remove_timer]
                         @ ps_trace s \<and>
           desc_word6 f = WAKEUP_REQUEST \<and> req_connected_sleep f = DEEP_SLEEP \<and>
           ps_state (the_vap s' v) = PS_DIS_REQ_SENT \<and> \<not> delay_pwr_sve_decision_flag (the_vap s' v)"
proof -
  let ?s = "ps_log Remove_timer (upd_vap v (\<lambda>x. x\<lparr>delay_pwr_sve_decision_flag := False\<rparr>) s)"
  obtain vs where "filter (\<lambda>i. iv_opmode (the_vap s i) = M_STA) [0..<length (ic_vaps s)] = v # vs"
    using assms(1) by (auto simp: sta_vap_def split: list.splits)
  then have "v \<in> set (filter (\<lambda>i. iv_opmode (the_vap s i) = M_STA) [0..<length (ic_vaps s)])"
    by simp
  then have v: "v < length (ic_vaps s)" by simp
  then have "iv_opmode (the_vap ?s i) = iv_opmode (the_vap s i)" for i
    by (cases "i = v") (simp_all add: upd_vap_def)
  then have "sta_vap ?s = Some v" using assms(1) by (simp add: sta_vap_def)
  then have "check_deep_sleep_status ?s = Some (True, ?s)"
    using v assms by (simp add: check_deep_sleep_status_def)
  then show ?thesis
    using v assms by (auto simp: update_pwr_save_status_def ps_event_defs send_ps_params_req_def ps_request_frame_def)
qed

lemma pending_frame_wakes_station_witness:
  "\<exists>s' f. update_pwr_save_status sample_ps_host 0 PS_DISABLE MGMT_PENDING_PATH
            (sample_ps (sample_vap S_INIT DEV_IN_PWR_SVE)) = Some s' \<and>
          ps_trace s' = [Ieee80211_unlock, Schedule_pkt_for_tx, Queue_mgmt_head f, Ieee80211_lock, Remove_timer]"
proof -
  let ?s = "sample_ps (sample_vap S_INIT DEV_IN_PWR_SVE)"
  have "sta_vap ?s = Some 0" "sc_nvaps ?s < 2" "iv_state (the_vap ?s 0) = S_INIT"
      "ps_state (the_vap ?s 0) = DEV_IN_PWR_SVE" "\<forall>t. ps_alloc_skb sample_ps_host t"
    by (simp_all add: sta_vap_def sample_defs)
  from pending_frame_wakes_station [OF this, of PS_DISABLE] show ?thesis
    by (auto simp: sample_defs)
qed

section \<open>Calls that go wrong\<close>

text \<open>
  Creating a second interface is meant to end power save, but the path is not one
  \<open>update_pwr_save_status\<close> knows: nothing is requested and the device sleeps on.
\<close>

lemma second_interface_ignored:
  "update_pwr_save_status h v PS_DISABLE VAP_CREATE_PATH s = Some s"
  by (simp add: update_pwr_save_status_def)

text \<open>
  A timer that runs between the user's turning power save off and the event for it sends the
  request with its own status: a sleep request, while the state waits for a wake-up.
\<close>

definition turned_off_vap :: vap where
  "turned_off_vap = (sample_vap S_RUN DEV_IN_PWR_SVE)\<lparr>update_ta := True, ps_params_ioctl := sample_params\<lparr>ps_en := 0\<rparr>\<rparr>"

lemma turning_off_asks_for_sleep:
  "\<exists>s' f. update_pwr_save_status sample_ps_host 0 PS_ENABLE TIMER_PATH (sample_ps turned_off_vap) = Some s' \<and>
          requests (ps_trace s') = [f] \<and> desc_word6 f = SLEEP_REQUEST \<and>
          ps_state (the_vap s' 0) = PS_DIS_REQ_SENT"
  by (simp add: update_pwr_save_status_def ps_event_defs send_ps_params_req_def ps_request_frame_def
      turned_off_vap_def sample_defs upd_vap_def ps_log_def)

text \<open>
  Without memory for the frame the request is dropped, but the state still waits for its
  confirmation, which only a request that reached the firmware would bring.
\<close>

lemma dropped_request_waits_for_ever:
  "\<exists>s'. update_pwr_save_status (sample_ps_host\<lparr>ps_alloc_skb := (\<lambda>_. False)\<rparr>) 0 PS_DISABLE MGMT_PENDING_PATH
          (sample_ps (sample_vap S_INIT DEV_IN_PWR_SVE)) = Some s' \<and>
        requests (ps_trace s') = [] \<and> ps_state (the_vap s' 0) = PS_DIS_REQ_SENT"
  by (simp add: update_pwr_save_status_def check_deep_sleep_status_def sta_vap_def ps_event_defs send_ps_params_req_def
      sample_defs upd_vap_def ps_log_def)

text \<open>With a second interface, a sleep request that is still queued is never marked as sent.\<close>

lemma queued_request_ignores_dequeue:
  assumes "v < length (ic_vaps s)" "\<not> sc_nvaps s < 2" "ps_state (the_vap s v) = PS_EN_REQ_QUEUED"
    and "pwr_sve_event_handler h v st path q s = Some s'"
  shows "ps_state (the_vap s' v) = PS_EN_REQ_QUEUED"
  using assms by (auto simp: ps_event_defs)

text \<open>Without a station, the check for deep sleep follows a NULL pointer.\<close>

lemma no_station_faults:
  "sta_vap s = None \<Longrightarrow> check_deep_sleep_status s = None"
  by (simp add: check_deep_sleep_status_def)

end
