(* ===== verification/Wmm_Scheduler.thy ===== *)
theory Wmm_Scheduler
  imports Coex_Queues Power_Save
begin

text \<open>
  The state of the WLAN HAL (\<^verbatim>\<open>struct wlan_adapter\<close> of
  \<^verbatim>\<open>wlan_common.h\<close>) and its packet scheduler (\<^verbatim>\<open>onebox_core_wmm.c\<close>): which
  of the eight EDCA queues sends next. A queue with packets contends with a back-off value;
  the least value wins and is subtracted from the others, so that waiting queues come closer
  to their turn. The array indices are constants or below the array length, so the
  arrays are functions on numbers.
\<close>

section \<open>The state of the WLAN HAL\<close>

abbreviation (input) BK_Q_STA :: nat where "BK_Q_STA \<equiv> 0"
abbreviation (input) BE_Q_STA :: nat where "BE_Q_STA \<equiv> 1"
abbreviation (input) VI_Q_STA :: nat where "VI_Q_STA \<equiv> 2"
abbreviation (input) VO_Q_STA :: nat where "VO_Q_STA \<equiv> 3"
abbreviation (input) BK_Q_AP :: nat where "BK_Q_AP \<equiv> 4"
abbreviation (input) BE_Q_AP :: nat where "BE_Q_AP \<equiv> 5"
abbreviation (input) VI_Q_AP :: nat where "VI_Q_AP \<equiv> 6"
abbreviation (input) VO_Q_AP :: nat where "VO_Q_AP \<equiv> 7"
abbreviation (input) NUM_EDCA_QUEUES :: nat where "NUM_EDCA_QUEUES \<equiv> 8"
abbreviation (input) MGMT_SOFT_Q :: nat where "MGMT_SOFT_Q \<equiv> 8"
abbreviation (input) BEACON_HW_Q :: nat where "BEACON_HW_Q \<equiv> 11"
abbreviation (input) MAX_HW_QUEUES :: nat where "MAX_HW_QUEUES \<equiv> 12"
abbreviation (input) NUM_SOFT_QUEUES :: nat where "NUM_SOFT_QUEUES \<equiv> 10"
abbreviation (input) NO_STA_DATA_QUEUES :: nat where "NO_STA_DATA_QUEUES \<equiv> 4"
abbreviation (input) INVALID_HAL_QUEUE :: nat where "INVALID_HAL_QUEUE \<equiv> 0xff"

abbreviation (input) WME_AC_BE :: nat where "WME_AC_BE \<equiv> 0"
abbreviation (input) WME_AC_BK :: nat where "WME_AC_BK \<equiv> 1"
abbreviation (input) WME_AC_VI :: nat where "WME_AC_VI \<equiv> 2"
abbreviation (input) WME_AC_VO :: nat where "WME_AC_VO \<equiv> 3"

record wmeParams =
  wmep_acm :: u8
  wmep_aifsn :: u8
  wmep_logcwmin :: u8
  wmep_logcwmax :: u8
  wmep_txopLimit :: u8

text \<open>
  \<open>w_common\<close> is the adapter of the common HAL below, \<open>w_ps\<close> the interfaces and the
  power save state. \<open>hal_vap\<close> gives, for a vap identifier, \<^verbatim>\<open>vap_in_use\<close>
  and the interface; \<open>ni_vap\<close> gives the interface of a node. \<open>stop_udp_pkts\<close>, \<open>stop_per_q\<close> and \<open>ifp_txq_stopped\<close> are
  fields of the interfaces.
\<close>

record wlan_adapter =
  w_common :: adapter
  w_ps :: wlan_ps
  w_fsm_state :: fsm_state
  w_driver_mode :: u8
  host_tx_queue :: "nat \<Rightarrow> netbuf list"
  per_q_wt :: "nat \<Rightarrow> int"
  wme_org_q :: "nat \<Rightarrow> int"
  pkt_contended :: "nat \<Rightarrow> bool"
  selected_qnum :: nat
  pkt_cnt :: u8
  cap_wmeParams :: "nat \<Rightarrow> wmeParams"
  beacon_event :: bool
  buf_status_updated :: bool
  buffer_status_register :: u32
  buffer_full :: bool
  semi_buffer_full :: bool
  mgmt_buffer_full :: bool
  buf_full_counter :: u32
  buf_semi_full_counter :: u32
  mgmt_buf_full_counter :: u32
  no_buffer_fulls :: u32
  total_tx_data_sent :: "nat \<Rightarrow> u32"
  host_txq_maxlen :: "nat \<Rightarrow> u16"
  hal_vap :: "nat \<Rightarrow> bool \<times> nat option"
  max_stations_supported :: u32
  sta_connected_bitmap :: "nat \<Rightarrow> u32"
  stop_udp_pkts :: "nat \<Rightarrow> nat \<Rightarrow> bool"
  stop_per_q :: "nat \<Rightarrow> nat \<Rightarrow> bool"
  ifp_txq_stopped :: "nat \<Rightarrow> bool"
  ni_vap :: "nat \<Rightarrow> nat option"

abbreviation hal_queue_len :: "wlan_adapter \<Rightarrow> nat \<Rightarrow> nat" where
  "hal_queue_len w q \<equiv> netbuf_queue_len (host_tx_queue w q)"

section \<open>The contention values\<close>

definition contention_val :: "wmeParams \<Rightarrow> int" where
  "contention_val p = (uint (wmep_logcwmin p) div 2 + uint (wmep_aifsn p)) * 9 + 16"

text \<open>The best effort queue of a station contends with one slot less.\<close>

definition contention_val_be_sta :: "wmeParams \<Rightarrow> int" where
  "contention_val_be_sta p = (uint (wmep_logcwmin p) div 2 + (uint (wmep_aifsn p) - 1)) * 9 + 16"

definition onebox_set_contention_vals :: "wlan_adapter \<Rightarrow> wlan_adapter" where
  "onebox_set_contention_vals w =
     (let p = cap_wmeParams w;
          org = (wme_org_q w)
            (VO_Q_STA := contention_val (p WME_AC_VO), VI_Q_STA := contention_val (p WME_AC_VI),
             BE_Q_STA := contention_val_be_sta (p WME_AC_BE), BK_Q_STA := contention_val (p WME_AC_BK),
             VO_Q_AP := contention_val (p WME_AC_VO), VI_Q_AP := contention_val (p WME_AC_VI),
             BE_Q_AP := contention_val (p WME_AC_BE), BK_Q_AP := contention_val (p WME_AC_BK))
      in w\<lparr>wme_org_q := org, per_q_wt := org, pkt_contended := (\<lambda>_. False)\<rparr>)"

section \<open>One contention\<close>

text \<open>A queue that takes part: it contended before and has packets.\<close>

definition contends :: "wlan_adapter \<Rightarrow> nat \<Rightarrow> bool" where
  "contends w ii \<longleftrightarrow> pkt_contended w ii \<and> hal_queue_len w ii \<noteq> 0"

text \<open>
  The two selection loops: the first queue that contends, then the least back-off from there
  on. \<^verbatim>\<open>min\<close> is a \<^verbatim>\<open>uint8\<close>: storing a back-off in it truncates.
\<close>

definition least_back_off :: "wlan_adapter \<Rightarrow> nat list \<Rightarrow> nat \<times> u8 \<Rightarrow> nat \<times> u8" where
  "least_back_off w = fold (\<lambda>ii (q_num, m).
     if contends w ii \<and> per_q_wt w ii < uint m then (ii, word_of_int (per_q_wt w ii)) else (q_num, m))"

definition select_queue :: "wlan_adapter \<Rightarrow> u8 \<Rightarrow> nat \<times> u8" where
  "select_queue w m =
     (case filter (contends w) [0..<NUM_EDCA_QUEUES] of
        [] \<Rightarrow> (0, m)
      | ii # _ \<Rightarrow> least_back_off w [ii..<NUM_EDCA_QUEUES] (ii, word_of_int (per_q_wt w ii)))"

text \<open>The adjustment of one queue; the flag is \<^verbatim>\<open>fresh_contention\<close>.\<close>

definition adjust_queue :: "u8 \<Rightarrow> nat \<Rightarrow> wlan_adapter \<times> bool \<Rightarrow> wlan_adapter \<times> bool" where
  "adjust_queue m ii r =
     (case r of (w, fresh) \<Rightarrow>
        if hal_queue_len w ii \<noteq> 0 then
          if pkt_contended w ii then
            (w\<lparr>per_q_wt := (per_q_wt w)(ii := if uint m < per_q_wt w ii then per_q_wt w ii - uint m else 0)\<rparr>, fresh)
          else
            (w\<lparr>pkt_contended := (pkt_contended w)(ii := True), per_q_wt := (per_q_wt w)(ii := wme_org_q w ii)\<rparr>, True)
        else
          (w\<lparr>per_q_wt := (per_q_wt w)(ii := 0), pkt_contended := (pkt_contended w)(ii := False)\<rparr>, fresh))"

definition contention_round :: "wlan_adapter \<Rightarrow> u8 \<Rightarrow> nat \<times> u8 \<times> bool \<times> wlan_adapter" where
  "contention_round w m =
     (case select_queue w m of (q_num, m') \<Rightarrow>
        (let w1 = w\<lparr>pkt_contended := (pkt_contended w)(q_num := False)\<rparr>
         in case fold (adjust_queue m') [0..<NUM_EDCA_QUEUES] (w1, False) of
              (w2, fresh) \<Rightarrow> (q_num, m', fresh, w2)))"


section \<open>What a round does\<close>

lemma least_back_off_simps [simp]:
  "least_back_off w [] r = r"
  "least_back_off w (ii # qs) r = least_back_off w qs
     (if contends w ii \<and> per_q_wt w ii < uint (snd r) then (ii, word_of_int (per_q_wt w ii)) else r)"
  by (simp_all add: least_back_off_def split: prod.split)

lemma least_back_off_in:
  "fst (least_back_off w qs r) = fst r \<or> fst (least_back_off w qs r) \<in> set qs \<and> contends w (fst (least_back_off w qs r))"
proof (induction qs arbitrary: r)
  case Nil
  show ?case by simp
next
  case (Cons ii qs)
  show ?case
    using Cons.IH [of "if contends w ii \<and> per_q_wt w ii < uint (snd r) then (ii, word_of_int (per_q_wt w ii)) else r"]
    by (auto split: if_splits)
qed

text \<open>Back-off values that fit into \<^verbatim>\<open>min\<close>.\<close>

definition byte_weights :: "wlan_adapter \<Rightarrow> bool" where
  "byte_weights w \<longleftrightarrow> (\<forall>q<NUM_EDCA_QUEUES. 0 \<le> per_q_wt w q \<and> per_q_wt w q < 256 \<and>
                                            0 \<le> wme_org_q w q \<and> wme_org_q w q < 256)"

lemma uint_byte: "0 \<le> i \<Longrightarrow> i < 256 \<Longrightarrow> uint (word_of_int i :: u8) = i"
  by (simp add: uint_word_of_int)

lemma least_back_off_least:
  "(\<forall>q\<in>set qs. 0 \<le> per_q_wt w q \<and> per_q_wt w q < 256) \<Longrightarrow> uint (snd r) = per_q_wt w (fst r) \<Longrightarrow>
     uint (snd (least_back_off w qs r)) = per_q_wt w (fst (least_back_off w qs r)) \<and>
     per_q_wt w (fst (least_back_off w qs r)) \<le> per_q_wt w (fst r) \<and>
     (\<forall>q\<in>set qs. contends w q \<longrightarrow> per_q_wt w (fst (least_back_off w qs r)) \<le> per_q_wt w q)"
proof (induction qs arbitrary: r)
  case Nil
  then show ?case by simp
next
  case (Cons ii qs)
  show ?case
    using Cons.IH [of "(ii, word_of_int (per_q_wt w ii))"] Cons.IH [of r] Cons.prems
    by (auto simp: uint_byte)
qed

lemma select_queue_contends:
  "(\<exists>ii<NUM_EDCA_QUEUES. contends w ii) \<Longrightarrow>
     fst (select_queue w m) < NUM_EDCA_QUEUES \<and> contends w (fst (select_queue w m))"
proof -
  assume "\<exists>ii<NUM_EDCA_QUEUES. contends w ii"
  then have "filter (contends w) [0..<NUM_EDCA_QUEUES] \<noteq> []" by (auto simp: filter_empty_conv)
  then obtain ii iis where f: "filter (contends w) [0..<NUM_EDCA_QUEUES] = ii # iis"
    by (cases "filter (contends w) [0..<NUM_EDCA_QUEUES]") auto
  then have "ii \<in> set (filter (contends w) [0..<NUM_EDCA_QUEUES])" by simp
  then have "contends w ii \<and> ii < NUM_EDCA_QUEUES" by simp
  then show ?thesis
    using least_back_off_in [of w "[ii..<NUM_EDCA_QUEUES]" "(ii, word_of_int (per_q_wt w ii))"] f
    by (auto simp: select_queue_def)
qed

lemma select_queue_none:
  "\<not> (\<exists>ii<NUM_EDCA_QUEUES. contends w ii) \<Longrightarrow> select_queue w m = (0, m)"
  by (auto simp: select_queue_def filter_empty_conv split: list.split dest: arg_cong [where f = set])

lemma select_queue_less: "fst (select_queue w m) < NUM_EDCA_QUEUES"
  using select_queue_contends [of w m] select_queue_none [of w m] by (cases "\<exists>ii<NUM_EDCA_QUEUES. contends w ii") auto

text \<open>The adjustment loop leaves the packets alone and settles every queue it visits.\<close>

lemma adjust_fold:
  "distinct qs \<Longrightarrow> fold (adjust_queue m) qs (w, b) = (w', b') \<Longrightarrow>
     host_tx_queue w' = host_tx_queue w \<and> wme_org_q w' = wme_org_q w \<and>
     (\<forall>q. q \<notin> set qs \<longrightarrow> pkt_contended w' q = pkt_contended w q \<and> per_q_wt w' q = per_q_wt w q) \<and>
     (\<forall>q\<in>set qs. pkt_contended w' q = (hal_queue_len w q \<noteq> 0) \<and>
        per_q_wt w' q = (if hal_queue_len w q = 0 then 0
                         else if pkt_contended w q then max 0 (per_q_wt w q - uint m) else wme_org_q w q)) \<and>
     (b' \<longleftrightarrow> b \<or> (\<exists>q\<in>set qs. hal_queue_len w q \<noteq> 0 \<and> \<not> pkt_contended w q))"
proof (induction qs arbitrary: w b)
  case Nil
  then show ?case by simp
next
  case (Cons q qs)
  obtain w1 b1 where 1: "adjust_queue m q (w, b) = (w1, b1)" by fastforce
  then have step: "host_tx_queue w1 = host_tx_queue w" "wme_org_q w1 = wme_org_q w"
      "\<forall>p. p \<noteq> q \<longrightarrow> pkt_contended w1 p = pkt_contended w p \<and> per_q_wt w1 p = per_q_wt w p"
      "pkt_contended w1 q = (hal_queue_len w q \<noteq> 0)"
      "per_q_wt w1 q = (if hal_queue_len w q = 0 then 0
                        else if pkt_contended w q then max 0 (per_q_wt w q - uint m) else wme_org_q w q)"
      "b1 \<longleftrightarrow> b \<or> (hal_queue_len w q \<noteq> 0 \<and> \<not> pkt_contended w q)"
    by (auto simp: adjust_queue_def split: if_splits)
  show ?case
    using Cons.IH [of w1 b1] Cons.prems 1 step by (auto simp: Ball_def)
qed

lemma contention_round_result:
  assumes "contention_round w m = (q, m', fresh, w')"
  shows "select_queue w m = (q, m')" and "q < NUM_EDCA_QUEUES"
    and "host_tx_queue w' = host_tx_queue w" and "wme_org_q w' = wme_org_q w"
    and "ii < NUM_EDCA_QUEUES \<Longrightarrow> pkt_contended w' ii = (hal_queue_len w ii \<noteq> 0)"
    and "ii < NUM_EDCA_QUEUES \<Longrightarrow> ii \<noteq> q \<Longrightarrow> contends w ii \<Longrightarrow> per_q_wt w' ii = max 0 (per_q_wt w ii - uint m')"
    and "hal_queue_len w q \<noteq> 0 \<Longrightarrow> per_q_wt w' q = wme_org_q w q"
    and "fresh \<longleftrightarrow> (\<exists>ii<NUM_EDCA_QUEUES. hal_queue_len w ii \<noteq> 0 \<and> (ii = q \<or> \<not> pkt_contended w ii))"
    and "ii < NUM_EDCA_QUEUES \<Longrightarrow> per_q_wt w' ii \<in> {0, wme_org_q w ii, max 0 (per_q_wt w ii - uint m')}"
    and "ii < NUM_EDCA_QUEUES \<Longrightarrow> hal_queue_len w ii \<noteq> 0 \<Longrightarrow> \<not> pkt_contended w ii \<Longrightarrow> per_q_wt w' ii = wme_org_q w ii"
proof -
  let ?w = "w\<lparr>pkt_contended := (pkt_contended w)(q := False)\<rparr>"
  show sel: "select_queue w m = (q, m')" using assms
    by (auto simp: contention_round_def Let_def split: prod.splits)
  then show q: "q < NUM_EDCA_QUEUES" using select_queue_less [of w m] by simp
  have "fold (adjust_queue m') [0..<NUM_EDCA_QUEUES] (?w, False) = (w', fresh)"
    using assms sel by (auto simp: contention_round_def Let_def split: prod.splits)
  note * = adjust_fold [OF _ this, simplified]
  show "host_tx_queue w' = host_tx_queue w" "wme_org_q w' = wme_org_q w" using * by simp_all
  show "ii < NUM_EDCA_QUEUES \<Longrightarrow> pkt_contended w' ii = (hal_queue_len w ii \<noteq> 0)" using * by simp
  show "ii < NUM_EDCA_QUEUES \<Longrightarrow> ii \<noteq> q \<Longrightarrow> contends w ii \<Longrightarrow> per_q_wt w' ii = max 0 (per_q_wt w ii - uint m')"
    using * by (simp add: contends_def)
  show "hal_queue_len w q \<noteq> 0 \<Longrightarrow> per_q_wt w' q = wme_org_q w q" using * q by simp
  show "fresh \<longleftrightarrow> (\<exists>ii<NUM_EDCA_QUEUES. hal_queue_len w ii \<noteq> 0 \<and> (ii = q \<or> \<not> pkt_contended w ii))"
    using * by auto
  show "ii < NUM_EDCA_QUEUES \<Longrightarrow> per_q_wt w' ii \<in> {0, wme_org_q w ii, max 0 (per_q_wt w ii - uint m')}"
    using * by simp
  show "ii < NUM_EDCA_QUEUES \<Longrightarrow> hal_queue_len w ii \<noteq> 0 \<Longrightarrow> \<not> pkt_contended w ii \<Longrightarrow> per_q_wt w' ii = wme_org_q w ii"
    using * by simp
qed

section \<open>core\_determine\_hal\_queue\<close>

text \<open>
  The label \<^verbatim>\<open>GET_QUEUE_NUM\<close> with its backward \<^verbatim>\<open>goto\<close>. It is taken at most
  once: after a round every queue with packets contends.
\<close>

definition contenders :: "wlan_adapter \<Rightarrow> bool" where
  "contenders w = list_ex (contends w) [0..<NUM_EDCA_QUEUES]"

lemma contenders_iff: "contenders w \<longleftrightarrow> (\<exists>ii<NUM_EDCA_QUEUES. contends w ii)"
  by (auto simp: contenders_def list_ex_iff)

lemma round_makes_contenders:
  assumes "contention_round w m = (q, m', fresh, w')" "hal_queue_len w' q = 0" fresh
  shows "contenders w' \<and> \<not> contenders w"
proof
  note r = contention_round_result [OF assms(1)]
  show "\<not> contenders w"
  proof
    assume "contenders w"
    then have "contends w q" using select_queue_contends [of w m] r(1) by (simp add: contenders_iff)
    then show False using assms(2) r(3) by (simp add: contends_def)
  qed
  obtain ii where "ii < NUM_EDCA_QUEUES" "hal_queue_len w ii \<noteq> 0" using r(8) assms(3) by auto
  then have "contends w' ii" using r(3,5) by (simp add: contends_def)
  then show "contenders w'" using \<open>ii < NUM_EDCA_QUEUES\<close> by (auto simp: contenders_iff)
qed

function get_queue_num :: "wlan_adapter \<Rightarrow> u8 \<Rightarrow> nat \<times> wlan_adapter" where
  "get_queue_num w m =
     (case contention_round w m of (q_num, m', fresh, w') \<Rightarrow>
        if hal_queue_len w' q_num = 0 then
          if fresh then get_queue_num w' m' else (INVALID_HAL_QUEUE, w')
        else (q_num, w'))"
  by auto
termination
  by (relation "measure (\<lambda>(w, m). if contenders w then 0 else 1)") (auto dest!: round_makes_contenders [OF sym])

declare get_queue_num.simps [simp del]

text \<open>How many packets the winner may send before the next contention.\<close>

definition burst_of :: "wlan_adapter \<Rightarrow> nat \<Rightarrow> u8" where
  "burst_of w q_num =
     (if q_num = VO_Q_STA then (if wmep_acm (cap_wmeParams w q_num) \<noteq> 0 then 1 else 6)
      else if wmep_acm (cap_wmeParams w q_num) \<noteq> 0 then 1
      else word_of_int ((uint (wmep_txopLimit (cap_wmeParams w q_num)) * 32) div 800))"

definition set_burst :: "nat \<Rightarrow> wlan_adapter \<Rightarrow> wlan_adapter" where
  "set_burst q_num w =
     (if q_num = VO_Q_STA \<or> q_num = VI_Q_STA then
        (let c = burst_of w q_num;
             c' = (if hal_queue_len w q_num \<le> unat c then word_of_nat (hal_queue_len w q_num) else c)
         in w\<lparr>pkt_cnt := (if c' \<noteq> 0 then c' - 1 else 0)\<rparr>)
      else w)"

definition core_determine_hal_queue :: "wlan_adapter \<Rightarrow> nat \<times> wlan_adapter" where
  "core_determine_hal_queue w =
     (if hal_queue_len w MGMT_SOFT_Q \<noteq> 0 then (MGMT_SOFT_Q, w)
      else if pkt_cnt w \<noteq> 0 then (selected_qnum w, w\<lparr>pkt_cnt := pkt_cnt w - 1\<rparr>)
      else (case get_queue_num w 0 of (q_num, w1) \<Rightarrow>
              if q_num = INVALID_HAL_QUEUE then (q_num, w1)
              else (q_num, set_burst q_num (w1\<lparr>selected_qnum := q_num\<rparr>))))"


section \<open>What a contest decides\<close>

lemma get_queue_num_contenders:
  assumes "contenders w" "contention_round w m = (q, m', fresh, w')"
  shows "get_queue_num w m = (q, w')"
proof -
  have "contends w q"
    using assms(1) select_queue_contends [of w m] contention_round_result(1) [OF assms(2)] by (simp add: contenders_iff)
  then have "hal_queue_len w' q \<noteq> 0" using contention_round_result(3) [OF assms(2)] by (simp add: contends_def)
  then show ?thesis by (subst get_queue_num.simps) (simp add: assms(2))
qed

lemma get_queue_num_result:
  assumes "get_queue_num w m = (q, w')"
  shows "host_tx_queue w' = host_tx_queue w \<and>
         (if \<forall>ii<NUM_EDCA_QUEUES. hal_queue_len w ii = 0 then q = INVALID_HAL_QUEUE
          else q < NUM_EDCA_QUEUES \<and> hal_queue_len w q \<noteq> 0)"
proof -
  obtain p m' fresh w1 where r: "contention_round w m = (p, m', fresh, w1)" by (metis prod_cases4)
  note rr = contention_round_result [OF r]
  show ?thesis
  proof (cases "hal_queue_len w1 p = 0 \<and> fresh")
    case True
    then have c: "contenders w1" using round_makes_contenders [OF r] by simp
    obtain p2 m2 f2 w2 where r2: "contention_round w1 m' = (p2, m2, f2, w2)" by (metis prod_cases4)
    note rr2 = contention_round_result [OF r2]
    have "get_queue_num w m = (p2, w2)"
      using get_queue_num_contenders [OF c r2] True by (subst get_queue_num.simps) (simp add: r)
    moreover have "contends w1 p2"
      using c rr2(1) select_queue_contends [of w1 m'] by (simp add: contenders_iff)
    ultimately show ?thesis using assms rr(3) rr2(2,3) by (auto simp: contends_def)
  next
    case False
    then have "get_queue_num w m = (if hal_queue_len w1 p = 0 then (INVALID_HAL_QUEUE, w1) else (p, w1))"
      by (subst get_queue_num.simps) (auto simp: r)
    moreover have "hal_queue_len w ii = 0" if "hal_queue_len w1 p = 0" "ii < NUM_EDCA_QUEUES" for ii
    proof (rule ccontr)
      assume "hal_queue_len w ii \<noteq> 0"
      then have "contends w ii" using False that rr(8) by (auto simp: contends_def)
      then have "contends w p" using select_queue_contends [of w m] rr(1) that(2) by auto
      then show False using that(1) rr(3) by (simp add: contends_def)
    qed
    ultimately show ?thesis using assms rr(2,3) by (auto split: if_splits)
  qed
qed

lemma adjust_fold_pkt_cnt: "pkt_cnt (fst (fold (adjust_queue m) qs r)) = pkt_cnt (fst r)"
  by (induction qs arbitrary: r) (simp_all add: adjust_queue_def split: prod.split)

lemma contention_round_pkt_cnt: "contention_round w m = (q, m', fresh, w') \<Longrightarrow> pkt_cnt w' = pkt_cnt w"
  using adjust_fold_pkt_cnt [of m' "[0..<NUM_EDCA_QUEUES]" "(w\<lparr>pkt_contended := (pkt_contended w)(q := False)\<rparr>, False)"]
  by (auto simp: contention_round_def Let_def split: prod.splits)

lemma get_queue_num_pkt_cnt: "pkt_cnt (snd (get_queue_num w m)) = pkt_cnt w"
proof (induction w m rule: get_queue_num.induct)
  case (1 w m)
  then show ?case
    using contention_round_pkt_cnt [of w m]
    by (subst get_queue_num.simps) (auto split: prod.split)
qed

lemma set_burst_fields [simp]:
  "host_tx_queue (set_burst q w) = host_tx_queue w" "per_q_wt (set_burst q w) = per_q_wt w"
  "wme_org_q (set_burst q w) = wme_org_q w" "pkt_contended (set_burst q w) = pkt_contended w"
  "selected_qnum (set_burst q w) = selected_qnum w"
  by (simp_all add: set_burst_def Let_def)

lemma set_burst_bound:
  assumes "hal_queue_len w q \<noteq> 0" "pkt_cnt w = 0"
  shows "unat (pkt_cnt (set_burst q w)) < hal_queue_len w q"
proof -
  have "unat (c - 1) < n" if "unat c \<le> n" "c \<noteq> 0" for c :: u8 and n
    using that by (metis le_less_trans not_le unat_eq_zero unat_minus_one diff_less less_le_trans zero_less_one not_gr_zero)
  moreover have "unat (word_of_nat (hal_queue_len w q) :: u8) \<le> hal_queue_len w q"
    by (simp add: unat_of_nat)
  ultimately show ?thesis using assms by (auto simp: set_burst_def Let_def)
qed

text \<open>
  C15. The scheduler returns, and what it names: management frames go first and change nothing
  else. While a burst runs, it is the queue of the burst, with one packet less to go; if the
  rest of the burst was covered by the packets of that queue, the queue has a packet and the
  new rest is covered by the others. Otherwise it is one of the eight EDCA queues with
  packets, "no queue" exactly when all are empty, and the burst it grants never runs past the
  packets the queue holds.
\<close>

theorem hal_queue_choice:
  assumes "core_determine_hal_queue w = (q, w')"
  shows "host_tx_queue w' = host_tx_queue w \<and>
         (if hal_queue_len w MGMT_SOFT_Q \<noteq> 0 then q = MGMT_SOFT_Q \<and> w' = w
          else if pkt_cnt w \<noteq> 0 then
            q = selected_qnum w \<and> selected_qnum w' = q \<and> Suc (unat (pkt_cnt w')) = unat (pkt_cnt w) \<and>
            (unat (pkt_cnt w) \<le> hal_queue_len w q \<longrightarrow> hal_queue_len w q \<noteq> 0 \<and> unat (pkt_cnt w') < hal_queue_len w q)
          else if \<forall>ii<NUM_EDCA_QUEUES. hal_queue_len w ii = 0 then q = INVALID_HAL_QUEUE
          else q < NUM_EDCA_QUEUES \<and> hal_queue_len w q \<noteq> 0 \<and> selected_qnum w' = q \<and>
               unat (pkt_cnt w') < hal_queue_len w q)"
proof (cases "hal_queue_len w MGMT_SOFT_Q \<noteq> 0 \<or> pkt_cnt w \<noteq> 0")
  case True
  have "unat (pkt_cnt w) = Suc (unat (pkt_cnt w - 1))" if "pkt_cnt w \<noteq> 0"
    using that by (metis Suc_pred' unat_gt_0 unat_minus_one)
  with True show ?thesis using assms by (auto simp: core_determine_hal_queue_def)
next
  case False
  obtain p w1 where g: "get_queue_num w 0 = (p, w1)" by fastforce
  note r = get_queue_num_result [OF g]
  have pc: "pkt_cnt w1 = 0" using get_queue_num_pkt_cnt [of w 0] g False by simp
  show ?thesis
    using False assms g r set_burst_bound [of "w1\<lparr>selected_qnum := p\<rparr>" p] pc
    by (auto simp: core_determine_hal_queue_def split: if_splits)
qed


text \<open>A state with two waiting queues, for the concrete instances.\<close>

definition sample_wme :: wmeParams where
  "sample_wme = \<lparr>wmep_acm = 0, wmep_aifsn = 3, wmep_logcwmin = 4, wmep_logcwmax = 10, wmep_txopLimit = 94\<rparr>"

definition sample_wlan :: wlan_adapter where
  "sample_wlan = \<lparr>w_common = idle_adapter, w_ps = sample_ps (sample_vap S_RUN PS_NONE),
     w_fsm_state = FSM_MAC_INIT_DONE, w_driver_mode = WIFI_MODE_ON,
     host_tx_queue = (\<lambda>_. [])(BK_Q_STA := [fresh_netbuf [1]], VO_Q_STA := [fresh_netbuf [2], fresh_netbuf [3]]),
     per_q_wt = (\<lambda>_. 61), wme_org_q = (\<lambda>_. 61), pkt_contended = (\<lambda>_. False),
     selected_qnum = 0, pkt_cnt = 0, cap_wmeParams = (\<lambda>_. sample_wme), beacon_event = False,
     buf_status_updated = False, buffer_status_register = 0xF3, buffer_full = False, semi_buffer_full = False,
     mgmt_buffer_full = False, buf_full_counter = 0, buf_semi_full_counter = 0, mgmt_buf_full_counter = 0,
     no_buffer_fulls = 0, total_tx_data_sent = (\<lambda>_. 0), host_txq_maxlen = (\<lambda>_. 1500),
     hal_vap = (\<lambda>_. (True, Some 0)), max_stations_supported = 8, sta_connected_bitmap = (\<lambda>_. 1),
     stop_udp_pkts = (\<lambda>_ _. False), stop_per_q = (\<lambda>_ _. False), ifp_txq_stopped = (\<lambda>_. False), ni_vap = (\<lambda>_. Some 0)\<rparr>"

theorem hal_queue_choice_witness:
  "\<exists>q w'. core_determine_hal_queue sample_wlan = (q, w') \<and> q < NUM_EDCA_QUEUES \<and> hal_queue_len sample_wlan q \<noteq> 0"
proof -
  obtain q w' where qw: "core_determine_hal_queue sample_wlan = (q, w')" by fastforce
  have n: "pkt_cnt sample_wlan = 0" "hal_queue_len sample_wlan MGMT_SOFT_Q = 0" "hal_queue_len sample_wlan 0 \<noteq> 0"
    by (simp_all add: sample_wlan_def netbuf_queue_len_def)
  have "\<not> (\<forall>ii<NUM_EDCA_QUEUES. hal_queue_len sample_wlan ii = 0)" using n(3) by (auto intro!: exI [of _ 0])
  with hal_queue_choice [OF qw] n qw show ?thesis by simp
qed

text \<open>The selected queue has the least back-off of those that contend.\<close>

lemma select_queue_least:
  assumes "select_queue w m = (q, m')" "byte_weights w" "contends w p" "p < NUM_EDCA_QUEUES"
  shows "uint m' = per_q_wt w q \<and> per_q_wt w q \<le> per_q_wt w p"
proof -
  let ?c = "filter (contends w) [0..<NUM_EDCA_QUEUES]"
  have p: "p \<in> set ?c" using assms(3,4) by simp
  then obtain ii iis where f: "?c = ii # iis" by (cases ?c) auto
  have "sorted_wrt (<) ?c" by (rule sorted_wrt_filter) simp
  then have le: "ii \<le> p" using p unfolding f by auto
  have "ii \<in> set ?c" using f by simp
  then have ii: "ii < NUM_EDCA_QUEUES" by simp
  have q: "(q, m') = least_back_off w [ii..<NUM_EDCA_QUEUES] (ii, word_of_int (per_q_wt w ii))"
    using assms(1) f by (simp add: select_queue_def)
  have "\<forall>q\<in>set [ii..<NUM_EDCA_QUEUES]. 0 \<le> per_q_wt w q \<and> per_q_wt w q < 256"
    using assms(2) by (simp add: byte_weights_def)
  moreover have "uint (snd (ii, word_of_int (per_q_wt w ii) :: u8)) = per_q_wt w (fst (ii, word_of_int (per_q_wt w ii) :: u8))"
    using assms(2) ii by (simp add: byte_weights_def uint_byte)
  ultimately show ?thesis
    using least_back_off_least [of "[ii..<NUM_EDCA_QUEUES]" w "(ii, word_of_int (per_q_wt w ii))"] q le assms(3,4)
    by (metis atLeastLessThan_iff fst_conv set_upt snd_conv)
qed

text \<open>What a contest with contenders comes to, for the theorems below.\<close>

lemma contest_round:
  assumes "core_determine_hal_queue w = (q, w')" "pkt_cnt w = 0" "hal_queue_len w MGMT_SOFT_Q = 0"
    and "contends w p" "p < NUM_EDCA_QUEUES"
  obtains m' fresh w1 where "contention_round w 0 = (q, m', fresh, w1)" "contends w q" "q < NUM_EDCA_QUEUES"
    "per_q_wt w' = per_q_wt w1" "wme_org_q w' = wme_org_q w1" "pkt_contended w' = pkt_contended w1"
proof -
  obtain r m' fresh w1 where r: "contention_round w 0 = (r, m', fresh, w1)" by (metis prod_cases4)
  have c: "contenders w" using assms(4,5) by (auto simp: contenders_iff)
  then have "contends w r" "r < NUM_EDCA_QUEUES"
    using select_queue_contends [of w 0] contention_round_result(1,2) [OF r] by (simp_all add: contenders_iff)
  moreover have "q = r \<and> w' = set_burst q (w1\<lparr>selected_qnum := q\<rparr>)"
    using assms(1-3) get_queue_num_contenders [OF c r] \<open>r < NUM_EDCA_QUEUES\<close>
    by (auto simp: core_determine_hal_queue_def split: if_splits)
  ultimately show ?thesis using r that by simp
qed

lemma contest_result:
  assumes "core_determine_hal_queue w = (q, w')" "pkt_cnt w = 0" "hal_queue_len w MGMT_SOFT_Q = 0"
    and "byte_weights w" "contends w p" "p < NUM_EDCA_QUEUES"
  shows "contends w q \<and> per_q_wt w q \<le> per_q_wt w p \<and>
         per_q_wt w' q = wme_org_q w q \<and> (p \<noteq> q \<longrightarrow> per_q_wt w' p = per_q_wt w p - per_q_wt w q)"
proof -
  obtain m' fresh w1 where r: "contention_round w 0 = (q, m', fresh, w1)" "contends w q" "q < NUM_EDCA_QUEUES"
      "per_q_wt w' = per_q_wt w1"
    using contest_round [OF assms(1-3,5,6)] by metis
  note rr = contention_round_result [OF r(1)]
  have "uint m' = per_q_wt w q \<and> per_q_wt w q \<le> per_q_wt w p"
    by (rule select_queue_least [OF rr(1) assms(4-6)])
  then show ?thesis using r(2,4) rr(6) [OF assms(6)] rr(7) assms(5) by (auto simp: contends_def)
qed

lemma contest_keeps_byte_weights:
  assumes "core_determine_hal_queue w = (q, w')" "pkt_cnt w = 0" "hal_queue_len w MGMT_SOFT_Q = 0"
    and "byte_weights w" "contends w p" "p < NUM_EDCA_QUEUES"
  shows "byte_weights w'"
proof -
  obtain m' fresh w1 where r: "contention_round w 0 = (q, m', fresh, w1)"
      "per_q_wt w' = per_q_wt w1" "wme_org_q w' = wme_org_q w1"
    using contest_round [OF assms(1-3,5,6)] by metis
  note rr = contention_round_result [OF r(1)]
  have "0 \<le> per_q_wt w1 k \<and> per_q_wt w1 k < 256" if "k < NUM_EDCA_QUEUES" for k
  proof -
    have "0 \<le> per_q_wt w k" "per_q_wt w k < 256" "0 \<le> wme_org_q w k" "wme_org_q w k < 256"
      using assms(4) that by (simp_all add: byte_weights_def)
    moreover have "0 \<le> uint m'" by (rule unsigned_greater_eq)
    moreover have "per_q_wt w k - uint m' < 256" using calculation(2,5) by linarith
    ultimately show ?thesis using rr(9) [OF that] by (auto simp: max_def)
  qed
  then show ?thesis using r(2,3) rr(4) assms(4) by (simp add: byte_weights_def)
qed

text \<open>
  With contention values that fit into a byte, the queue with the least back-off of those
  that contend wins, the back-off of every other waiting queue decreases by exactly that
  amount, and the winner starts again from its original value.
\<close>

theorem least_back_off_wins:
  assumes "core_determine_hal_queue w = (q, w')" "pkt_cnt w = 0" "hal_queue_len w MGMT_SOFT_Q = 0"
    and "byte_weights w" "contends w p" "p < NUM_EDCA_QUEUES"
  shows "contends w q \<and> per_q_wt w q \<le> per_q_wt w p \<and>
         per_q_wt w' q = wme_org_q w q \<and> (p \<noteq> q \<longrightarrow> per_q_wt w' p = per_q_wt w p - per_q_wt w q) \<and>
         byte_weights w'"
  using contest_result [OF assms] contest_keeps_byte_weights [OF assms] by blast


definition two_contenders :: wlan_adapter where
  "two_contenders = sample_wlan\<lparr>pkt_contended := (\<lambda>_. False)(BK_Q_STA := True, VO_Q_STA := True),
     per_q_wt := (\<lambda>_. 0)(BK_Q_STA := 97, VO_Q_STA := 43)\<rparr>"

lemma two_contenders_ok:
  "pkt_cnt two_contenders = 0" "hal_queue_len two_contenders MGMT_SOFT_Q = 0" "byte_weights two_contenders"
  "contends two_contenders BK_Q_STA" "contends two_contenders VO_Q_STA"
  "per_q_wt two_contenders BK_Q_STA = 97" "per_q_wt two_contenders VO_Q_STA = 43"
  by (simp_all add: two_contenders_def sample_wlan_def byte_weights_def contends_def netbuf_queue_len_def)

lemma least_back_off_wins_witness:
  "\<exists>q w'. core_determine_hal_queue two_contenders = (q, w') \<and> q \<noteq> BK_Q_STA \<and>
          per_q_wt w' BK_Q_STA = 97 - per_q_wt two_contenders q"
proof -
  obtain q w' where qw: "core_determine_hal_queue two_contenders = (q, w')" by fastforce
  note t = two_contenders_ok
  have "per_q_wt two_contenders q \<le> 43" "q \<noteq> BK_Q_STA \<longrightarrow> per_q_wt w' BK_Q_STA = 97 - per_q_wt two_contenders q"
    using least_back_off_wins [OF qw t(1-3) t(5)] least_back_off_wins [OF qw t(1-3) t(4)] t(6,7) by auto
  moreover from this(1) have "q \<noteq> BK_Q_STA" using t(6) by (cases "q = BK_Q_STA") simp_all
  ultimately show ?thesis using qw by blast
qed

section \<open>No queue starves\<close>

text \<open>
  The number of contests a queue can still lose: its back-off, and the queues ahead of it
  whose back-off is used up. A contest that the queue loses makes the number smaller,
  because the winner starts again with a positive back-off.
\<close>

definition used_up :: "wlan_adapter \<Rightarrow> nat \<Rightarrow> nat set" where
  "used_up w p = {q. q < NUM_EDCA_QUEUES \<and> q \<noteq> p \<and> pkt_contended w q \<and> per_q_wt w q = 0}"

definition waiting :: "wlan_adapter \<Rightarrow> nat \<Rightarrow> nat" where
  "waiting w p = 9 * nat (per_q_wt w p) + card (used_up w p)"

lemma used_up_bound: "card (used_up w p) \<le> 8" "finite (used_up w p)"
proof -
  have s: "used_up w p \<subseteq> {..<8}" by (auto simp: used_up_def)
  then show "finite (used_up w p)" by (rule finite_subset) simp
  show "card (used_up w p) \<le> 8" using card_mono [OF _ s] by simp
qed

definition positive_weights :: "wlan_adapter \<Rightarrow> bool" where
  "positive_weights w \<longleftrightarrow> (\<forall>q<NUM_EDCA_QUEUES. 0 < wme_org_q w q)"

lemma lost_contest_progress:
  assumes c: "core_determine_hal_queue w = (q, w')" "pkt_cnt w = 0" "hal_queue_len w MGMT_SOFT_Q = 0"
    and "byte_weights w" "positive_weights w" and p: "contends w p" "p < NUM_EDCA_QUEUES" "p \<noteq> q"
  shows "waiting w' p < waiting w p \<and> pkt_contended w' p"
proof -
  obtain m' fresh w1 where r: "contention_round w 0 = (q, m', fresh, w1)" "contends w q" "q < NUM_EDCA_QUEUES"
      and eq: "per_q_wt w' = per_q_wt w1" "wme_org_q w' = wme_org_q w1" "pkt_contended w' = pkt_contended w1"
    using contest_round [OF c p(1,2)] by metis
  note rr = contention_round_result [OF r(1)]
  note res = contest_result [OF c assms(4) p(1,2)]
  have cont: "pkt_contended w' p" using rr(5) [OF p(2)] p(1) eq(3) by (simp add: contends_def)
  have m: "uint m' = per_q_wt w q" using select_queue_least [OF rr(1) assms(4) p(1,2)] by simp
  have pos: "0 \<le> per_q_wt w q" using assms(4) r(3) by (simp add: byte_weights_def)
  show ?thesis
  proof (cases "per_q_wt w q = 0")
    case False
    have "nat (per_q_wt w' p) < nat (per_q_wt w p)" using res p(3) pos False by auto
    then have "9 * nat (per_q_wt w' p) + 9 \<le> 9 * nat (per_q_wt w p)" by linarith
    then show ?thesis unfolding waiting_def using cont used_up_bound(1) [of w' p] by linarith
  next
    case True
    have "used_up w' p \<subseteq> used_up w p - {q}"
    proof
      fix k assume k: "k \<in> used_up w' p"
      then have "k < NUM_EDCA_QUEUES" "k \<noteq> p" "hal_queue_len w k \<noteq> 0" "per_q_wt w1 k = 0"
        using rr(5) eq by (auto simp: used_up_def)
      moreover have "0 < wme_org_q w k" "0 \<le> per_q_wt w k"
        using assms(4,5) \<open>k < NUM_EDCA_QUEUES\<close> by (simp_all add: positive_weights_def byte_weights_def)
      ultimately show "k \<in> used_up w p - {q}"
        using rr(6) [of k] rr(7) rr(10) [of k] m True by (auto simp: used_up_def contends_def)
    qed
    moreover have "q \<in> used_up w p" using r(2,3) p(3) True by (auto simp: used_up_def contends_def)
    ultimately have "card (used_up w' p) < card (used_up w p)"
      using psubset_card_mono [OF used_up_bound(2), of "used_up w' p" w p] by blast
    then show ?thesis using cont res p(3) True by (simp add: waiting_def)
  qed
qed


text \<open>
  A run of contests: between two of them packets come and go, bursts are sent and the
  device answers, but the contention values stay as the last contest left them.
\<close>

definition contest_run :: "(nat \<Rightarrow> wlan_adapter) \<Rightarrow> (nat \<Rightarrow> nat) \<Rightarrow> bool" where
  "contest_run ws qs \<longleftrightarrow>
     (\<forall>i. pkt_cnt (ws i) = 0 \<and> hal_queue_len (ws i) MGMT_SOFT_Q = 0 \<and>
          (\<exists>w'. core_determine_hal_queue (ws i) = (qs i, w') \<and>
                per_q_wt (ws (Suc i)) = per_q_wt w' \<and> wme_org_q (ws (Suc i)) = wme_org_q w' \<and>
                pkt_contended (ws (Suc i)) = pkt_contended w'))"

lemma contest_run_step:
  assumes "contest_run ws qs" "byte_weights (ws i)" "positive_weights (ws i)"
    and "contends (ws i) p" "p < NUM_EDCA_QUEUES" "qs i \<noteq> p" "hal_queue_len (ws (Suc i)) p \<noteq> 0"
  shows "waiting (ws (Suc i)) p < waiting (ws i) p \<and> contends (ws (Suc i)) p \<and>
         byte_weights (ws (Suc i)) \<and> positive_weights (ws (Suc i))"
proof -
  obtain w' where c: "core_determine_hal_queue (ws i) = (qs i, w')" "pkt_cnt (ws i) = 0"
      "hal_queue_len (ws i) MGMT_SOFT_Q = 0" and eq: "per_q_wt (ws (Suc i)) = per_q_wt w'"
      "wme_org_q (ws (Suc i)) = wme_org_q w'" "pkt_contended (ws (Suc i)) = pkt_contended w'"
    using assms(1) by (auto simp: contest_run_def)
  have org: "wme_org_q w' = wme_org_q (ws i)"
    using contest_round [OF c assms(4,5)] contention_round_result(4) by metis
  show ?thesis
    using lost_contest_progress [OF c assms(2-5)] contest_keeps_byte_weights [OF c assms(2,4,5)] assms(3,6,7) eq org
    by (simp add: waiting_def used_up_def contends_def byte_weights_def positive_weights_def)
qed

text \<open>
  C16. No queue starves: a queue that contends and keeps having packets wins one of the next
  contests, at most nine per unit of its back-off and one per queue ahead of it, however the
  other queues are filled in the meantime.
\<close>

theorem waiting_queue_wins:
  assumes "contest_run ws qs" "byte_weights (ws 0)" "positive_weights (ws 0)"
    and "contends (ws 0) p" "p < NUM_EDCA_QUEUES" "\<forall>i. hal_queue_len (ws i) p \<noteq> 0"
  shows "\<exists>i\<le>waiting (ws 0) p. qs i = p"
proof (rule ccontr)
  assume "\<not> (\<exists>i\<le>waiting (ws 0) p. qs i = p)"
  then have no: "\<And>i. i \<le> waiting (ws 0) p \<Longrightarrow> qs i \<noteq> p" by blast
  have "i \<le> Suc (waiting (ws 0) p) \<Longrightarrow> waiting (ws i) p + i \<le> waiting (ws 0) p \<and> contends (ws i) p \<and>
        byte_weights (ws i) \<and> positive_weights (ws i)" for i
  proof (induction i)
    case 0
    then show ?case using assms by simp
  next
    case (Suc i)
    then show ?case
      using contest_run_step [OF assms(1), of i p] no [of i] assms(5,6) by auto
  qed
  from this [of "Suc (waiting (ws 0) p)"] show False by simp
qed


text \<open>A run in which both queues are always full again at the next contest.\<close>

definition next_contest :: "wlan_adapter \<Rightarrow> wlan_adapter" where
  "next_contest w = (snd (core_determine_hal_queue w))\<lparr>host_tx_queue := host_tx_queue w, pkt_cnt := 0\<rparr>"

lemma sample_run:
  "contest_run (\<lambda>i. (next_contest ^^ i) two_contenders)
               (\<lambda>i. fst (core_determine_hal_queue ((next_contest ^^ i) two_contenders)))"
  "host_tx_queue ((next_contest ^^ i) two_contenders) = host_tx_queue two_contenders"
proof -
  have *: "pkt_cnt ((next_contest ^^ i) two_contenders) = 0 \<and>
        host_tx_queue ((next_contest ^^ i) two_contenders) = host_tx_queue two_contenders" for i
    using two_contenders_ok(1) by (induction i) (simp_all add: next_contest_def)
  then show "host_tx_queue ((next_contest ^^ i) two_contenders) = host_tx_queue two_contenders" by simp
  show "contest_run (\<lambda>i. (next_contest ^^ i) two_contenders)
               (\<lambda>i. fst (core_determine_hal_queue ((next_contest ^^ i) two_contenders)))"
    unfolding contest_run_def
  proof (intro allI conjI)
    fix i
    let ?w = "(next_contest ^^ i) two_contenders"
    show "pkt_cnt ?w = 0" "hal_queue_len ?w MGMT_SOFT_Q = 0" using * [of i] two_contenders_ok(2) by simp_all
    show "\<exists>w'. core_determine_hal_queue ?w = (fst (core_determine_hal_queue ?w), w') \<and>
             per_q_wt ((next_contest ^^ Suc i) two_contenders) = per_q_wt w' \<and>
             wme_org_q ((next_contest ^^ Suc i) two_contenders) = wme_org_q w' \<and>
             pkt_contended ((next_contest ^^ Suc i) two_contenders) = pkt_contended w'"
      by (intro exI [of _ "snd (core_determine_hal_queue ?w)"]) (simp add: next_contest_def)
  qed
qed

lemma waiting_queue_wins_witness:
  "\<exists>i\<le>waiting two_contenders BK_Q_STA.
     fst (core_determine_hal_queue ((next_contest ^^ i) two_contenders)) = BK_Q_STA"
proof -
  let ?ws = "\<lambda>i. (next_contest ^^ i) two_contenders"
  have "hal_queue_len (?ws i) BK_Q_STA \<noteq> 0" for i
    using sample_run(2) [of i] two_contenders_ok(4) by (simp add: contends_def)
  moreover have "positive_weights (?ws 0)"
    by (simp add: positive_weights_def two_contenders_def sample_wlan_def)
  ultimately show ?thesis
    using waiting_queue_wins [OF sample_run(1), of BK_Q_STA] two_contenders_ok(3,4) by simp
qed

section \<open>The contention values of an association\<close>

text \<open>
  The contention values computed from parameters as they are received, four bits each,
  satisfy what the theorems above ask for: each is positive and fits into a byte, and the
  new values start a fresh contention.
\<close>

theorem contention_vals_fit:
  assumes "\<forall>ac<4. wmep_logcwmin (cap_wmeParams w ac) < 16 \<and> wmep_aifsn (cap_wmeParams w ac) < 16"
  shows "byte_weights (onebox_set_contention_vals w) \<and> positive_weights (onebox_set_contention_vals w) \<and>
         \<not> contenders (onebox_set_contention_vals w)"
proof -
  have c: "0 < contention_val (cap_wmeParams w ac)" "contention_val (cap_wmeParams w ac) < 256"
      "0 < contention_val_be_sta (cap_wmeParams w ac)" "contention_val_be_sta (cap_wmeParams w ac) < 256"
    if "ac < 4" for ac
  proof -
    have "uint (wmep_logcwmin (cap_wmeParams w ac)) < 16" "uint (wmep_aifsn (cap_wmeParams w ac)) < 16"
      using assms that by (simp_all add: word_less_def)
    moreover have "0 \<le> uint (wmep_logcwmin (cap_wmeParams w ac))" "0 \<le> uint (wmep_aifsn (cap_wmeParams w ac))"
      by (simp_all)
    ultimately show "0 < contention_val (cap_wmeParams w ac)" "contention_val (cap_wmeParams w ac) < 256"
      "0 < contention_val_be_sta (cap_wmeParams w ac)" "contention_val_be_sta (cap_wmeParams w ac) < 256"
      unfolding contention_val_def contention_val_be_sta_def by presburger+
  qed
  have q: "q = 0 \<or> q = 1 \<or> q = 2 \<or> q = 3 \<or> q = 4 \<or> q = 5 \<or> q = 6 \<or> q = 7" if "q < 8" for q :: nat
    using that by presburger
  have org: "0 < wme_org_q (onebox_set_contention_vals w) q \<and> wme_org_q (onebox_set_contention_vals w) q < 256"
    if "q < NUM_EDCA_QUEUES" for q
    using q [OF that] c [of 0] c [of 1] c [of 2] c [of 3] by (auto simp: onebox_set_contention_vals_def Let_def)
  have "per_q_wt (onebox_set_contention_vals w) = wme_org_q (onebox_set_contention_vals w)"
      "\<not> contenders (onebox_set_contention_vals w)"
    by (simp_all add: onebox_set_contention_vals_def contenders_iff contends_def Let_def)
  then show ?thesis using org by (auto simp: byte_weights_def positive_weights_def intro: less_imp_le)
qed

lemma contention_vals_fit_witness:
  "byte_weights (onebox_set_contention_vals sample_wlan) \<and>
   wme_org_q (onebox_set_contention_vals sample_wlan) VO_Q_STA = 61"
proof -
  have "\<forall>ac<4. wmep_logcwmin (cap_wmeParams sample_wlan ac) < 16 \<and> wmep_aifsn (cap_wmeParams sample_wlan ac) < 16"
    by (simp add: sample_wlan_def sample_wme_def)
  from contention_vals_fit [OF this] show ?thesis
    by (simp add: onebox_set_contention_vals_def contention_val_def sample_wlan_def sample_wme_def Let_def)
qed

section \<open>The first contest after silence\<close>

text \<open>
  When no queue contends yet, the selection loops leave \<^verbatim>\<open>q_num\<close> at 0, and queue 0 is the
  background queue: if it has packets they go first, before voice packets that arrived at the
  same time, without a contest.
\<close>

lemma background_before_voice:
  assumes "\<not> contenders w" "hal_queue_len w BK_Q_STA \<noteq> 0" "hal_queue_len w MGMT_SOFT_Q = 0" "pkt_cnt w = 0"
  shows "fst (core_determine_hal_queue w) = BK_Q_STA"
proof -
  obtain q m' fresh w1 where r: "contention_round w 0 = (q, m', fresh, w1)" by (metis prod_cases4)
  have "q = 0" using contention_round_result(1) [OF r] select_queue_none [of w 0] assms(1) by (simp add: contenders_iff)
  then have "get_queue_num w 0 = (0, w1)"
    using assms(2) contention_round_result(3) [OF r] by (subst get_queue_num.simps) (simp add: r)
  then show ?thesis using assms(3,4) by (simp add: core_determine_hal_queue_def)
qed

end
