(* ===== verification/Coex_Tx.thy ===== *)
theory Coex_Tx
  imports Power_Manager
begin

text \<open>
  The transmit thread of the common HAL, \<^verbatim>\<open>coex_pkt_processor\<close> of
  \<^verbatim>\<open>onebox_common_tx.c\<close>: it takes packets from the soft queues in their fixed
  order, obtains the bus for Bluetooth and ZigBee, writes the packet and recognises the
  sleep acknowledgement among the packets. While the thread waits for an event or for the
  bus the other threads run: \<open>others\<close> is what they did meanwhile, an argument of the
  model. The loop runs under fuel; \<open>None\<close> is a fault or fuel that ran out.
\<close>

type_synonym interference = "adapter \<Rightarrow> adapter"

section \<open>One round of the loop\<close>

text \<open>
  \<^verbatim>\<open>wait_event_timeout\<close> on the protocol's event: the wait succeeds when the
  other threads cleared \<^verbatim>\<open>deregister_flags\<close> before the time-out.
\<close>

definition wait_for_access :: "interference \<Rightarrow> nat \<Rightarrow> adapter \<Rightarrow> bool \<times> adapter" where
  "wait_for_access others i a =
     (let a1 = log (Wait_event i) (upd_tech i (\<lambda>t. t\<lparr>deregister_flags := True\<rparr>) a);
          a2 = others a1
      in (\<not> deregister_flags (tech a2 i), a2))"

definition acquire_bus :: "interference \<Rightarrow> host \<Rightarrow> nat \<Rightarrow> adapter \<Rightarrow> (bool \<times> adapter) option" where
  "acquire_bus others h i a =
     (if tx_access (tech a i) then Some (True, a)
      else do { a1 \<leftarrow> update_tx_status h i (upd_tech i (\<lambda>t. t\<lparr>tx_intention := True\<rparr>) a);
                Some (if tx_access (tech a1 i) then (True, a1) else wait_for_access others i a1) })"

text \<open>With nothing to send, the protocols with power save give the bus back.\<close>

definition release_if_ps :: "host \<Rightarrow> nat \<Rightarrow> adapter \<Rightarrow> adapter option" where
  "release_if_ps h i a =
     (if default_ps_en (tech a i)
      then update_tx_status h i (upd_tech i (\<lambda>t. t\<lparr>tx_intention := False, tx_access := False\<rparr>) a)
      else Some a)"

definition coex_pkt_rejected :: "adapter \<Rightarrow> netbuf \<Rightarrow> bool" where
  "coex_pkt_rejected a nb \<longleftrightarrow>
     Driver_Mode a = WIFI_MODE_ON \<and> \<not> flashing_mode_on a \<and>
     (proto_id_to_pkttype (tx_pkt_type nb) = 0xff \<or>
      (tx_pkt_type nb = COEX_Q \<and> common_hal_fw_state (d_assets a) \<noteq> FW_ACTIVE))"

definition is_ulp_sleep_ack :: "bytes \<Rightarrow> bool option" where
  "is_ulp_sleep_ack d =
     do { b2 \<leftarrow> rd8 d 2;
          if b2 = CONFIRM then do { b15 \<leftarrow> rd8 d 15; Some (b15 = ULP_SLEEP_NOTIFY) } else Some False }"

text \<open>\<^verbatim>\<open>data[1] |= BIT(7)\<close>: immediate wake-up.\<close>

definition mark_immediate_wakeup :: "bytes \<Rightarrow> bytes option" where
  "mark_immediate_wakeup d = do { b \<leftarrow> rd8 d 1; Some (d[1 := b OR 0x80]) }"

definition free_coex_pkt :: "build \<Rightarrow> netbuf \<Rightarrow> adapter \<Rightarrow> adapter" where
  "free_coex_pkt b nb a =
     (if USE_USB_INTF b \<and> tx_pkt_type nb = COEX_Q then a else log (Free_pkt (nb_data nb)) a)"

text \<open>
  From the dequeued packet to the label \<^verbatim>\<open>fail\<close>; \<open>ack\<close> is the local
  variable \<^verbatim>\<open>ulp_sleep_ack\<close>, which lives across the rounds.
\<close>

definition coex_transmit_one ::
  "build \<Rightarrow> interference \<Rightarrow> host \<Rightarrow> u8 \<Rightarrow> bool \<Rightarrow> netbuf \<Rightarrow> adapter \<Rightarrow> (bool \<times> adapter) option" where
  "coex_transmit_one b others h q_num ack nb a =
     (let a1 = log (Acquire Transmit_lock) a in
      if coex_pkt_rejected a1 nb
      then Some (ack, free_coex_pkt b nb (log (Release Transmit_lock) a1))
      else do { is_ack \<leftarrow> is_ulp_sleep_ack (nb_data nb);
                d \<leftarrow> (if is_ack then Some (nb_data nb) else mark_immediate_wakeup (nb_data nb));
                let nb' = nb\<lparr>nb_data := d\<rparr>;
                let ack' = (ack \<or> is_ack);
                let (s, a2) = host_intf_write_pkt h nb' a1;
                let a3 = log (Acquire Tx_access_lock) (others a2);
                let a4 = (if ack' \<and> sleep_entry_recvd (d_assets a3)
                          then upd_assets (\<lambda>d. d\<lparr>ulp_sleep_ack_sent := True, common_hal_tx_access := False\<rparr>) a3
                          else a3);
                let a5 = log (Release Tx_access_lock) a4;
                let a6 = a5\<lparr>tot_pkts_sentout := bump (unat q_num) (tot_pkts_sentout a5)\<rparr>;
                Some (ack', free_coex_pkt b nb' (log (Release Transmit_lock) a6)) })"

datatype tx_round = Next_round bool adapter | Left_loop adapter

definition coex_tx_round ::
  "build \<Rightarrow> interference \<Rightarrow> host \<Rightarrow> bool \<Rightarrow> adapter \<Rightarrow> tx_round option" where
  "coex_tx_round b others h ack a =
     (let q_num = coex_get_queue_num a in
      if q_num = INVALID_QUEUE then
        do { a1 \<leftarrow> release_if_ps h BT_ID a; a2 \<leftarrow> release_if_ps h ZB_ID a1; Some (Left_loop a2) }
      else
        do { (go, a1) \<leftarrow> (if q_num = BT_Q then acquire_bus others h BT_ID a
                         else if q_num = ZIGB_Q then acquire_bus others h ZB_ID a
                         else Some (True, a));
             if \<not> go then Some (Left_loop a1)
             else do { (nb, a2) \<leftarrow> coex_dequeue_pkt q_num a1;
                       case nb of
                         None \<Rightarrow> Some (Left_loop a2)
                       | Some p \<Rightarrow> do { (ack', a3) \<leftarrow> coex_transmit_one b others h q_num ack p a2;
                                        Some (Next_round ack' a3) } } })"

fun coex_pkt_loop :: "nat \<Rightarrow> build \<Rightarrow> interference \<Rightarrow> host \<Rightarrow> bool \<Rightarrow> adapter \<Rightarrow> adapter option" where
  "coex_pkt_loop 0 b others h ack a = None"
| "coex_pkt_loop (Suc fuel) b others h ack a =
     do { r \<leftarrow> coex_tx_round b others h ack a;
          case r of Left_loop a' \<Rightarrow> Some a'
                  | Next_round ack' a' \<Rightarrow> coex_pkt_loop fuel b others h ack' a' }"

definition coex_pkt_processor :: "nat \<Rightarrow> build \<Rightarrow> interference \<Rightarrow> host \<Rightarrow> adapter \<Rightarrow> adapter option" where
  "coex_pkt_processor fuel b others h a = coex_pkt_loop fuel b others h False a"

end
