(* ===== verification/Bus_Arbiter.thy ===== *)
theory Bus_Arbiter
  imports Power_Manager
begin

text \<open>
  What the senders of all protocols rely on when they ask the power manager for the bus and
  hand it back. The interface is the locale \<open>tx_arbiter\<close>, with \<open>update\<close> for the function
  behind \<^verbatim>\<open>d_assets->update_tx_status\<close>; the lemmas inside are the ones the transmit
  threads of the common HAL and of the WLAN core use.
\<close>

text \<open>
  The two calling patterns of the source: set the intention and ask, and clear intention and
  access and tell.
\<close>

definition ask_bus :: "(nat \<Rightarrow> adapter \<Rightarrow> adapter option) \<Rightarrow> nat \<Rightarrow> adapter \<Rightarrow> adapter option" where
  "ask_bus upd i a = upd i (upd_tech i (\<lambda>t. t\<lparr>tx_intention := True\<rparr>) a)"

definition hand_back :: "(nat \<Rightarrow> adapter \<Rightarrow> adapter option) \<Rightarrow> nat \<Rightarrow> adapter \<Rightarrow> adapter option" where
  "hand_back upd i a = upd i (upd_tech i (\<lambda>t. t\<lparr>tx_intention := False, tx_access := False\<rparr>) a)"

text \<open>Senders that ask one after the other.\<close>

fun ask_all :: "(nat \<Rightarrow> adapter \<Rightarrow> adapter option) \<Rightarrow> nat list \<Rightarrow> adapter \<Rightarrow> adapter option" where
  "ask_all upd [] a = Some a"
| "ask_all upd (i # ps) a = Option.bind (ask_bus upd i a) (ask_all upd ps)"

locale tx_arbiter =
  fixes update :: "nat \<Rightarrow> adapter \<Rightarrow> adapter option"
  assumes answers: "\<exists>a'. update i a = Some a'"
    and locks: "locks_held (trace a) = Some ls \<Longrightarrow> Tx_access_lock \<notin> set ls \<Longrightarrow> update i a = Some a' \<Longrightarrow>
                  locks_held (trace a') = Some ls"
    and others_kept: "update i a = Some a' \<Longrightarrow> j \<noteq> i \<Longrightarrow> tech a' j = tech a j"
    and intention_kept: "update i a = Some a' \<Longrightarrow> tx_intention (tech a' i) = tx_intention (tech a i)"
    and grant: "update i a = Some a' \<Longrightarrow> tx_access (tech a' i) \<Longrightarrow>
                  tx_access (tech a i) \<or> (tx_intention (tech a i) \<and> common_hal_tx_access (d_assets a))"
    and queues_kept: "tx_intention (tech a i) \<Longrightarrow> update i a = Some a' \<Longrightarrow> coex_queues a' = coex_queues a"
    and safe: "arb_inv (d_assets a) \<Longrightarrow> update i a = Some a' \<Longrightarrow> arb_inv (d_assets a')"
    and global_kept: "update i a = Some a' \<Longrightarrow> host_intf_type a' = host_intf_type a \<and>
                  global_priv (d_assets a') = global_priv (d_assets a)"
begin

lemma ask_answers: "\<exists>a'. ask_bus update i a = Some a'"
  unfolding ask_bus_def by (rule answers)

lemma back_answers: "\<exists>a'. hand_back update i a = Some a'"
  unfolding hand_back_def by (rule answers)

lemma ask_locks:
  "ask_bus update i a = Some a' \<Longrightarrow> locks_held (trace a) = Some ls \<Longrightarrow> Tx_access_lock \<notin> set ls \<Longrightarrow>
     locks_held (trace a') = Some ls"
  unfolding ask_bus_def by (drule locks [rotated 2]) simp_all

lemma back_locks:
  "hand_back update i a = Some a' \<Longrightarrow> locks_held (trace a) = Some ls \<Longrightarrow> Tx_access_lock \<notin> set ls \<Longrightarrow>
     locks_held (trace a') = Some ls"
  unfolding hand_back_def by (drule locks [rotated 2]) simp_all

lemma ask_queues: "ask_bus update i a = Some a' \<Longrightarrow> coex_queues a' = coex_queues a"
  unfolding ask_bus_def by (drule queues_kept [rotated]) simp_all

lemma ask_global:
  "ask_bus update i a = Some a' \<Longrightarrow> host_intf_type a' = host_intf_type a \<and> global_priv (d_assets a') = global_priv (d_assets a)"
  unfolding ask_bus_def by (drule global_kept) (simp add: upd_tech_def)

lemma back_global:
  "hand_back update i a = Some a' \<Longrightarrow> host_intf_type a' = host_intf_type a \<and> global_priv (d_assets a') = global_priv (d_assets a)"
  unfolding hand_back_def by (drule global_kept) (simp add: upd_tech_def)

text \<open>A sender that asks is recorded as wanting the bus, and gets it only when the device is awake.\<close>

lemma ask_grant:
  assumes "ask_bus update i a = Some a'"
  shows "tx_intention (tech a' i) \<and> (\<forall>j. j \<noteq> i \<longrightarrow> tech a' j = tech a j) \<and>
         (tx_access (tech a' i) \<longrightarrow> tx_access (tech a i) \<or> common_hal_tx_access (d_assets a))"
  using assms intention_kept grant others_kept unfolding ask_bus_def by fastforce

text \<open>After handing back, a sender neither holds the bus nor wants it; nobody else is touched.\<close>

lemma back_clears:
  assumes "hand_back update i a = Some a'"
  shows "\<not> tx_access (tech a' i) \<and> \<not> tx_intention (tech a' i) \<and> (\<forall>j. j \<noteq> i \<longrightarrow> tech a' j = tech a j)"
  using assms intention_kept grant others_kept unfolding hand_back_def by fastforce

lemma ask_safe: "arb_inv (d_assets a) \<Longrightarrow> ask_bus update i a = Some a' \<Longrightarrow> arb_inv (d_assets a')"
  unfolding ask_bus_def by (rule safe) (simp_all add: arb_inv_def)

lemma back_safe:
  "arb_inv (d_assets a) \<Longrightarrow> \<not> deregister_flags (tech a i) \<Longrightarrow> hand_back update i a = Some a' \<Longrightarrow> arb_inv (d_assets a')"
  unfolding hand_back_def by (rule safe) (simp_all add: arb_inv_def)

text \<open>Senders that ask one after the other never take the bus from each other.\<close>

lemma ask_all_safe:
  "arb_inv (d_assets a) \<Longrightarrow> \<exists>a'. ask_all update ps a = Some a' \<and> arb_inv (d_assets a')"
proof (induction ps arbitrary: a)
  case Nil
  then show ?case by simp
next
  case (Cons i ps)
  obtain a1 where a1: "ask_bus update i a = Some a1" using ask_answers by blast
  with Cons.IH [of a1] ask_safe [OF Cons.prems a1] show ?case by simp
qed

end

text \<open>The power manager without the GPIO handshake is such an arbiter.\<close>

lemma update_tx_status_tech:
  assumes "update_tx_status h i a = Some a'"
  shows "tech a' j = tech a j \<or> (j = i \<and> tx_intention (tech a i) \<and> common_hal_tx_access (d_assets a) \<and>
           tech a' j = (tech a j)\<lparr>tx_access := True\<rparr>)"
  using update_tx_status_assets [OF assms] by (auto split: if_splits)

lemma update_tx_status_quiet:
  "tx_intention (tech a i) \<Longrightarrow> update_tx_status h i a = Some a' \<Longrightarrow> coex_queues a' = coex_queues a"
  by (auto simp: update_tx_status_def Let_def split: if_splits)

lemma update_tx_status_global:
  assumes "update_tx_status h i a = Some a'"
  shows "host_intf_type a' = host_intf_type a \<and> global_priv (d_assets a') = global_priv (d_assets a)"
proof -
  have "host_intf_type a2 = host_intf_type a1" if "send_ulp_sleep_ack h a1 = Some a2" for a1 a2
    using that by (auto simp: send_ulp_sleep_ack_def send_pkt_to_coex_def coex_queue_at_def Let_def
        coex_sched_pkt_xmit_def set_coex_queue_def split: if_splits)
  with assms have "host_intf_type a' = host_intf_type a"
    by (auto simp: update_tx_status_def Let_def split: if_splits bind_splits)
  moreover have "global_priv (d_assets a') = global_priv (d_assets a)"
    using update_tx_status_assets [OF assms] by auto
  ultimately show ?thesis ..
qed

interpretation arbiter: tx_arbiter "update_tx_status h" for h
proof unfold_locales
  fix i a a' j ls
  show "\<exists>a'. update_tx_status h i a = Some a'" by (rule update_tx_status_some)
  show "locks_held (trace a) = Some ls \<Longrightarrow> Tx_access_lock \<notin> set ls \<Longrightarrow> update_tx_status h i a = Some a' \<Longrightarrow>
          locks_held (trace a') = Some ls" by (rule update_tx_status_locks_lemma)
  assume u: "update_tx_status h i a = Some a'"
  show "j \<noteq> i \<Longrightarrow> tech a' j = tech a j" using update_tx_status_tech [OF u, of j] by blast
  show "tx_intention (tech a' i) = tx_intention (tech a i)" using update_tx_status_tech [OF u, of i] by auto
  show "tx_access (tech a' i) \<Longrightarrow> tx_access (tech a i) \<or> (tx_intention (tech a i) \<and> common_hal_tx_access (d_assets a))"
    using update_tx_status_tech [OF u, of i] by auto
  show "tx_intention (tech a i) \<Longrightarrow> coex_queues a' = coex_queues a" using u by (rule update_tx_status_quiet [rotated])
  show "arb_inv (d_assets a) \<Longrightarrow> arb_inv (d_assets a')" using u by (rule arb_inv_update [rotated])
  show "host_intf_type a' = host_intf_type a \<and> global_priv (d_assets a') = global_priv (d_assets a)"
    by (rule update_tx_status_global [OF u])
qed

end
