(* ===== verification/Tx_Scheduling.thy ===== *)
theory Tx_Scheduling
  imports Coex_Tx Bus_Arbiter
begin

text \<open>
  What the transmit side guarantees: a direct write happens only with access, a round of the
  transmit thread takes the oldest packet of the queue with the highest priority, the
  thread ends once the queues are drained, it leaves the semaphores as it found them, and
  it gives up the bus exactly when it has written the sleep acknowledgement.
\<close>

section \<open>The direct path\<close>

text \<open>Writes of packets on the bus.\<close>

fun is_packet_write :: "event \<Rightarrow> bool" where
  "is_packet_write (Multi_write addr d n) = True"
| "is_packet_write (Usb_write_pkt d q) = True"
| "is_packet_write _ = False"

definition packet_writes :: "adapter \<Rightarrow> nat" where
  "packet_writes a = length (filter is_packet_write (trace a))"

lemma packet_writes_log [simp]:
  "packet_writes (log e a) = (if is_packet_write e then Suc (packet_writes a) else packet_writes a)"
  by (simp add: packet_writes_def)

lemma packet_writes_counters [simp]:
  "packet_writes (tot_pkts_dropped_update f a) = packet_writes a" "packet_writes (tot_pkts_sentout_update f a) = packet_writes a"
  by (simp_all add: packet_writes_def)

lemma host_intf_write_effect:
  assumes "host_intf_write_pkt h nb a = (s, a')"
  shows "d_assets a' = d_assets a \<and> coex_queues a' = coex_queues a \<and> locks_held (trace a') = locks_held (trace a) \<and>
     deferred_rx_queue a' = deferred_rx_queue a \<and> Driver_Mode a' = Driver_Mode a \<and>
     flashing_mode_on a' = flashing_mode_on a \<and> host_intf_type a' = host_intf_type a"
  using assms
  by (auto simp: host_intf_write_pkt_def sdio_host_intf_write_pkt_def write_multiple_def Let_def
      simp del: locks_held.simps split: host_intf.splits if_splits)

lemma send_pkt_to_coex_direct:
  assumes "global_priv (d_assets a)" "hal_queue = WLAN_Q \<or> hal_queue = VIP_Q" "2 \<le> length (nb_data nb)"
  shows "\<exists>s a'. send_pkt_to_coex h nb hal_queue a = Some (s, a')"
proof -
  obtain v where "rd16 (nb_data nb) 0 = Some v" using assms(3) rd16_defined_iff [of "nb_data nb" 0] by auto
  with assms have "send_pkt_to_coex h nb hal_queue a \<noteq> None"
    by (auto simp: send_pkt_to_coex_def Let_def split: option.split prod.split)
  then show ?thesis by auto
qed

lemma send_pkt_to_coex_locks:
  assumes "send_pkt_to_coex h nb q a = Some (s, a')" "locks_held (trace a) = Some ls" "Transmit_lock \<notin> set ls"
  shows "locks_held (trace a') = Some ls"
proof (cases "q \<noteq> WLAN_Q \<and> q \<noteq> VIP_Q \<or> \<not> global_priv (d_assets a)")
  case True
  with assms show ?thesis
    by (auto simp: send_pkt_to_coex_def coex_sched_pkt_xmit_def Let_def set_coex_queue_def split: if_splits bind_splits)
next
  case False
  with assms show ?thesis
    by (auto simp: send_pkt_to_coex_def Let_def split: if_splits bind_splits option.splits prod.splits
        dest!: host_intf_write_effect)
qed

text \<open>
  C9. On the direct path of a running WLAN device nothing is written unless the packet's
  protocol is valid, its firmware active and both the protocol and the common HAL have
  access; at most one packet is written, and the transmit semaphore is released on every
  path.
\<close>

theorem direct_tx_gated:
  assumes "hal_queue = WLAN_Q \<or> hal_queue = VIP_Q" and "Driver_Mode a = WIFI_MODE_ON" and "\<not> flashing_mode_on a"
    and "send_pkt_to_coex h nb hal_queue a = Some (s, a')"
    and "locks_held (trace a) = Some ls" and "Transmit_lock \<notin> set ls"
  shows "locks_held (trace a') = Some ls \<and> packet_writes a' \<le> Suc (packet_writes a) \<and>
    (packet_writes a' \<noteq> packet_writes a \<longrightarrow>
       (let p = proto_id_to_pkttype (tx_pkt_type nb) in
        p \<noteq> 0xff \<and> fw_state (tech a (unat p)) = FW_ACTIVE \<and> tx_access (tech a (unat p)) \<and>
        common_hal_tx_access (d_assets a)))"
proof -
  have one: "packet_writes x' \<le> Suc (packet_writes x)" if "host_intf_write_pkt h n x = (r, x')" for n x r x'
    using that by (auto simp: host_intf_write_pkt_def sdio_host_intf_write_pkt_def write_multiple_def Let_def
        split: host_intf.splits if_splits)
  have gate: "tx_refused a1 nb \<noteq> None" if "d_assets a1 = d_assets a" "Driver_Mode a1 = Driver_Mode a"
      "flashing_mode_on a1 = flashing_mode_on a" "\<not> (let p = proto_id_to_pkttype (tx_pkt_type nb) in
        p \<noteq> 0xff \<and> fw_state (tech a (unat p)) = FW_ACTIVE \<and> tx_access (tech a (unat p)) \<and> common_hal_tx_access (d_assets a))"
    for a1
    using that assms(2,3) by (auto simp: tx_refused_def Let_def)
  show ?thesis
  proof (cases "global_priv (d_assets a)")
    case False
    with assms(4,5) show ?thesis by (auto simp: send_pkt_to_coex_def)
  next
    case True
    let ?a0 = "log (Acquire Transmit_lock) a"
    show ?thesis
    proof (cases "tx_refused ?a0 nb")
      case (Some r)
      with True assms(1,4) have "packet_writes a' = packet_writes a"
        by (auto simp: send_pkt_to_coex_def Let_def split: if_splits prod.splits)
      with send_pkt_to_coex_locks [OF assms(4-6)] show ?thesis by simp
    next
      case None
      with True assms(1,4) obtain nb' r a1 where "host_intf_write_pkt h nb' ?a0 = (r, a1)"
          "packet_writes a' = packet_writes a1"
        by (auto simp: send_pkt_to_coex_def Let_def split: if_splits bind_splits prod.splits)
      with one [of nb' ?a0 r a1] gate [of ?a0] None send_pkt_to_coex_locks [OF assms(4-6)] show ?thesis by auto
    qed
  qed
qed

definition wlan_ready :: adapter where
  "wlan_ready = upd_assets (\<lambda>d. d\<lparr>common_hal_tx_access := True\<rparr>)
     (upd_tech WLAN_ID (\<lambda>_. active_tech\<lparr>tx_access := True, tx_intention := True\<rparr>) idle_adapter)"

definition wlan_data_pkt :: netbuf where
  "wlan_data_pkt = (fresh_netbuf (set_word 0 0x5004 (replicate 20 0)))\<lparr>tx_pkt_type := WLAN_TX_D_Q\<rparr>"

theorem direct_tx_gated_witness:
  "\<exists>s a'. send_pkt_to_coex calm_host wlan_data_pkt WLAN_Q wlan_ready = Some (s, a') \<and>
          locks_held (trace a') = Some [] \<and> packet_writes a' \<le> 1"
proof -
  obtain s a' where r: "send_pkt_to_coex calm_host wlan_data_pkt WLAN_Q wlan_ready = Some (s, a')"
    using send_pkt_to_coex_direct [of wlan_ready WLAN_Q wlan_data_pkt calm_host]
    by (auto simp: wlan_ready_def wlan_data_pkt_def fresh_netbuf_def upd_tech_def example_defs)
  have "Driver_Mode wlan_ready = WIFI_MODE_ON" "\<not> flashing_mode_on wlan_ready" "trace wlan_ready = []"
    "packet_writes wlan_ready = 0"
    by (simp_all add: wlan_ready_def upd_tech_def example_defs packet_writes_def)
  with direct_tx_gated [OF _ _ _ r] r show ?thesis by auto
qed

text \<open>
  A packet without access is not written and not freed on SDIO, yet the status is success,
  so the caller cannot tell that it was lost.
\<close>

lemma refused_packet_reports_success:
  assumes "global_priv (d_assets a)" "hal_queue = WLAN_Q" "Driver_Mode a = WIFI_MODE_ON" "\<not> flashing_mode_on a"
    and "host_intf_type a = HOST_INTF_SDIO" "tx_pkt_type nb = WLAN_TX_D_Q" "fw_state (tech a WLAN_ID) = FW_ACTIVE"
    and "\<not> common_hal_tx_access (d_assets a)"
  shows "send_pkt_to_coex h nb hal_queue a =
    Some (ONEBOX_STATUS_SUCCESS, log (Release Transmit_lock) (log (Acquire Transmit_lock) a))"
  using assms by (simp add: send_pkt_to_coex_def tx_refused_def proto_id_to_pkttype_def Let_def)

section \<open>The transmit thread\<close>

text \<open>
  What the other threads may do between two steps of this one: they leave the packets
  that wait where they are and behave well with the semaphores.
\<close>

definition queue_neutral :: "interference \<Rightarrow> bool" where
  "queue_neutral others \<longleftrightarrow> (\<forall>a. coex_queues (others a) = coex_queues a)"

definition lock_neutral :: "interference \<Rightarrow> bool" where
  "lock_neutral others \<longleftrightarrow> (\<forall>a. locks_held (trace (others a)) = locks_held (trace a))"

lemma acquire_bus_asks:
  "acquire_bus others h i a =
     (if tx_access (tech a i) then Some (True, a)
      else Option.bind (ask_bus (update_tx_status h) i a)
             (\<lambda>a1. Some (if tx_access (tech a1 i) then (True, a1) else wait_for_access others i a1)))"
  by (simp add: acquire_bus_def ask_bus_def)

lemma release_if_ps_hands_back:
  "release_if_ps h i a = (if default_ps_en (tech a i) then hand_back (update_tx_status h) i a else Some a)"
  by (simp add: release_if_ps_def hand_back_def)

lemma acquire_bus_some: "\<exists>go a'. acquire_bus others h i a = Some (go, a')"
  using arbiter.ask_answers [of h i a] by (auto simp: acquire_bus_asks wait_for_access_def Let_def)

lemma acquire_bus_queues:
  assumes "queue_neutral others" "acquire_bus others h i a = Some (go, a')"
  shows "coex_queues a' = coex_queues a"
  using assms
  by (auto simp: acquire_bus_asks wait_for_access_def queue_neutral_def Let_def split: if_splits bind_splits
      dest!: arbiter.ask_queues)

text \<open>A packet the thread can handle: its descriptor is complete.\<close>

definition well_formed_queues :: "adapter \<Rightarrow> bool" where
  "well_formed_queues a \<longleftrightarrow> (\<forall>q. \<forall>nb\<in>set (coex_queues a q). 16 \<le> length (nb_data nb))"

lemma transmit_one_some:
  assumes "16 \<le> length (nb_data nb)"
  shows "\<exists>ack' a'. coex_transmit_one b others h q ack nb a = Some (ack', a')"
proof -
  have "is_ulp_sleep_ack (nb_data nb) = Some (nb_data nb ! 2 = CONFIRM \<and> nb_data nb ! 15 = ULP_SLEEP_NOTIFY)"
    "mark_immediate_wakeup (nb_data nb) = Some ((nb_data nb)[1 := nb_data nb ! 1 OR 0x80])"
    using assms by (simp_all add: is_ulp_sleep_ack_def mark_immediate_wakeup_def rd8_in)
  then have "coex_transmit_one b others h q ack nb a \<noteq> None"
    by (auto simp: coex_transmit_one_def Let_def split: prod.split)
  then show ?thesis by auto
qed

lemma free_coex_pkt_fields [simp]:
  "coex_queues (free_coex_pkt b nb a) = coex_queues a" "d_assets (free_coex_pkt b nb a) = d_assets a"
  "locks_held (trace (free_coex_pkt b nb a)) = locks_held (trace a)"
  by (simp_all add: free_coex_pkt_def del: locks_held.simps)

lemma transmit_one_queues:
  assumes "queue_neutral others" "coex_transmit_one b others h q ack nb a = Some (ack', a')"
  shows "coex_queues a' = coex_queues a"
proof (cases "coex_pkt_rejected (log (Acquire Transmit_lock) a) nb")
  case True
  with assms(2) show ?thesis by (auto simp: coex_transmit_one_def Let_def)
next
  case False
  then obtain nb' s a2 where w: "host_intf_write_pkt h nb' (log (Acquire Transmit_lock) a) = (s, a2)"
      and "coex_queues a' = coex_queues (others a2)"
    using assms(2) by (auto simp: coex_transmit_one_def Let_def split: bind_splits prod.splits if_splits)
  with assms(1) host_intf_write_effect [OF w] show ?thesis by (simp add: queue_neutral_def)
qed

definition ready_to_send :: "interference \<Rightarrow> host \<Rightarrow> u8 \<Rightarrow> adapter \<Rightarrow> (bool \<times> adapter) option" where
  "ready_to_send others h q a =
     (if q = BT_Q then acquire_bus others h BT_ID a
      else if q = ZIGB_Q then acquire_bus others h ZB_ID a else Some (True, a))"

lemma ready_to_send_facts:
  "\<exists>go a'. ready_to_send others h q a = Some (go, a')"
  "queue_neutral others \<Longrightarrow> ready_to_send others h q a = Some (go, a') \<Longrightarrow> coex_queues a' = coex_queues a"
  using acquire_bus_some [of others h BT_ID a] acquire_bus_some [of others h ZB_ID a] acquire_bus_queues
  by (auto simp: ready_to_send_def split: if_splits)

lemma coex_queue_num_range:
  "coex_get_queue_num a = q \<Longrightarrow> q \<noteq> INVALID_QUEUE \<Longrightarrow> q < 5 \<and> \<not> 5 < q \<and> unat q < 5 \<and> coex_queues a (unat q) \<noteq> []"
  using coex_get_queue_num_nonempty [of a q] by (auto simp: word_less_nat_alt)

lemma coex_tx_round_sending:
  assumes "coex_get_queue_num a = q" "q \<noteq> INVALID_QUEUE" "queue_neutral others"
    and "ready_to_send others h q a = Some (True, a1)"
  shows "coex_tx_round b others h ack a =
     do { (ack', a3) \<leftarrow> coex_transmit_one b others h q ack (hd (coex_queues a (unat q)))
                          (set_coex_queue q (tl (coex_queues a (unat q))) a1);
          Some (Next_round ack' a3) }"
proof -
  have e: "coex_queues a1 = coex_queues a" using ready_to_send_facts(2) [OF assms(3,4)] .
  have d: "coex_dequeue_pkt q a1 = Some (Some (hd (coex_queues a (unat q))), set_coex_queue q (tl (coex_queues a (unat q))) a1)"
    using coex_queue_num_range [OF assms(1,2)] e
    by (cases "coex_queues a (unat q)") (auto simp: coex_dequeue_pkt_def coex_queue_at_def dequeue_pkt_def)
  show ?thesis
    using assms(1,2,4) d by (simp add: coex_tx_round_def ready_to_send_def Let_def)
qed

lemma coex_tx_round_refused:
  assumes "coex_get_queue_num a = q" "q \<noteq> INVALID_QUEUE" "ready_to_send others h q a = Some (False, a1)"
  shows "coex_tx_round b others h ack a = Some (Left_loop a1)"
  using assms by (simp add: coex_tx_round_def ready_to_send_def Let_def)

definition queue_priority :: "u8 list" where
  "queue_priority = [VIP_Q, COEX_Q, BT_Q, ZIGB_Q, WLAN_Q]"

text \<open>
  C10. A round that sends takes the oldest packet of the first non-empty queue in the order
  VIP, COEX, Bluetooth, ZigBee, WLAN, and touches no other queue; packets of one queue are
  therefore sent in the order they were queued.
\<close>

theorem transmit_round_priority:
  assumes "queue_neutral others" and "coex_tx_round b others h ack a = Some (Next_round ack' a')"
  shows "\<exists>q \<in> set queue_priority.
     (\<forall>p \<in> set (takeWhile (\<lambda>x. x \<noteq> q) queue_priority). coex_queues a (unat p) = []) \<and>
     coex_queues a (unat q) = hd (coex_queues a (unat q)) # coex_queues a' (unat q) \<and>
     (\<forall>k. k \<noteq> unat q \<longrightarrow> coex_queues a' k = coex_queues a k)"
proof -
  define q where "q = coex_get_queue_num a"
  have ne: "q \<noteq> INVALID_QUEUE"
  proof
    assume "q = INVALID_QUEUE"
    with assms(2) show False by (auto simp: coex_tx_round_def q_def split: bind_splits)
  qed
  obtain go a1 where r: "ready_to_send others h q a = Some (go, a1)" using ready_to_send_facts(1) by blast
  have go using assms(2) coex_tx_round_refused [OF q_def [symmetric] ne, of others h a1] r by (cases go) auto
  then have r': "ready_to_send others h q a = Some (True, a1)" using r by simp
  from coex_tx_round_sending [OF q_def [symmetric] ne assms(1) r'] assms(2)
  have t: "coex_transmit_one b others h q ack (hd (coex_queues a (unat q)))
      (set_coex_queue q (tl (coex_queues a (unat q))) a1) = Some (ack', a')"
    by (auto split: bind_splits)
  have qs: "coex_queues a' = (coex_queues a)(unat q := tl (coex_queues a (unat q)))"
    using transmit_one_queues [OF assms(1) t] ready_to_send_facts(2) [OF assms(1) r'] by simp
  have pr: "q \<in> set queue_priority \<and> (\<forall>p \<in> set (takeWhile (\<lambda>x. x \<noteq> q) queue_priority). coex_queues a (unat p) = [])"
    using ne unfolding q_def coex_get_queue_num_def netbuf_queue_len_def queue_priority_def
    by (auto split: if_splits)
  have "coex_queues a (unat q) \<noteq> []" using coex_queue_num_range [OF q_def [symmetric] ne] by simp
  with pr qs show ?thesis by (intro bexI [of _ q]) auto
qed

definition two_queues :: adapter where
  "two_queues = idle_adapter\<lparr>coex_queues := (\<lambda>_. [])(0 := [(fresh_netbuf (replicate 16 1))\<lparr>tx_pkt_type := COEX_Q\<rparr>],
     2 := [fresh_netbuf (replicate 16 2)])\<rparr>"

lemma neutral_id: "queue_neutral (\<lambda>a. a)" "lock_neutral (\<lambda>a. a)"
  by (simp_all add: queue_neutral_def lock_neutral_def)

theorem transmit_round_priority_witness:
  "\<exists>ack' a'. coex_tx_round shipped_build (\<lambda>a. a) calm_host False two_queues = Some (Next_round ack' a') \<and>
     coex_queues a' 0 = [] \<and> length (coex_queues a' 2) = 1"
proof -
  have q: "coex_get_queue_num two_queues = COEX_Q"
    by (simp add: coex_get_queue_num_def netbuf_queue_len_def two_queues_def)
  have "16 \<le> length (nb_data (hd (coex_queues two_queues (unat COEX_Q))))"
    by (simp add: two_queues_def fresh_netbuf_def)
  then obtain ack' a' where r: "coex_tx_round shipped_build (\<lambda>a. a) calm_host False two_queues = Some (Next_round ack' a')"
    using coex_tx_round_sending [OF q _ neutral_id(1), of calm_host two_queues shipped_build False]
      transmit_one_some [of "hd (coex_queues two_queues (unat COEX_Q))" shipped_build "\<lambda>a. a" calm_host COEX_Q False
        "set_coex_queue COEX_Q (tl (coex_queues two_queues (unat COEX_Q))) two_queues"]
    by (auto simp: ready_to_send_def)
  obtain q where p: "coex_queues two_queues (unat q) = hd (coex_queues two_queues (unat q)) # coex_queues a' (unat q)"
      "\<forall>k. k \<noteq> unat q \<longrightarrow> coex_queues a' k = coex_queues two_queues k"
      "\<forall>p \<in> set (takeWhile (\<lambda>x. x \<noteq> q) queue_priority). coex_queues two_queues (unat p) = []" "q \<in> set queue_priority"
    using transmit_round_priority [OF neutral_id(1) r] by blast
  have "q = COEX_Q" using p(1,3,4) by (auto simp: queue_priority_def two_queues_def)
  with p(1,2) r show ?thesis by (auto simp: two_queues_def)
qed

section \<open>The thread ends\<close>

lemma release_if_ps_some: "\<exists>a'. release_if_ps h i a = Some a'"
  using update_tx_status_some by (simp add: release_if_ps_def)

lemma coex_tx_round_idle:
  "coex_get_queue_num a = INVALID_QUEUE \<Longrightarrow> \<exists>a'. coex_tx_round b others h ack a = Some (Left_loop a')"
proof -
  assume i: "coex_get_queue_num a = INVALID_QUEUE"
  obtain a1 where "release_if_ps h BT_ID a = Some a1" using release_if_ps_some by blast
  moreover obtain a2 where "release_if_ps h ZB_ID a1 = Some a2" using release_if_ps_some by blast
  ultimately show ?thesis using i by (simp add: coex_tx_round_def)
qed

lemma coex_tx_round_cases:
  assumes "queue_neutral others" "well_formed_queues a"
  shows "(\<exists>a'. coex_tx_round b others h ack a = Some (Left_loop a')) \<or>
    (\<exists>ack' a'. coex_tx_round b others h ack a = Some (Next_round ack' a') \<and> well_formed_queues a' \<and>
        coex_pending a = Suc (coex_pending a'))"
proof (cases "coex_get_queue_num a = INVALID_QUEUE")
  case True
  then show ?thesis using coex_tx_round_idle by blast
next
  case False
  let ?q = "coex_get_queue_num a"
  obtain go a1 where r: "ready_to_send others h ?q a = Some (go, a1)" using ready_to_send_facts(1) by blast
  show ?thesis
  proof (cases go)
    case False
    with r coex_tx_round_refused [OF refl \<open>?q \<noteq> INVALID_QUEUE\<close>] show ?thesis by auto
  next
    case True
    with r have r': "ready_to_send others h ?q a = Some (True, a1)" by simp
    note rng = coex_queue_num_range [OF refl \<open>?q \<noteq> INVALID_QUEUE\<close>]
    let ?p = "hd (coex_queues a (unat ?q))" and ?a2 = "set_coex_queue ?q (tl (coex_queues a (unat ?q))) a1"
    have "?p \<in> set (coex_queues a (unat ?q))" using rng by simp
    then have "16 \<le> length (nb_data ?p)" using assms(2) by (auto simp: well_formed_queues_def)
    from transmit_one_some [OF this, of b others h ?q ack ?a2] obtain ack' a' where
      t: "coex_transmit_one b others h ?q ack ?p ?a2 = Some (ack', a')" by blast
    have qs: "coex_queues a' = (coex_queues a)(unat ?q := tl (coex_queues a (unat ?q)))"
      using transmit_one_queues [OF assms(1) t] ready_to_send_facts(2) [OF assms(1) r'] by simp
    have wf: "well_formed_queues a'"
      using assms(2) qs by (auto simp: well_formed_queues_def) (metis list.sel(2) list.set_sel(2))
    have "coex_pending a = Suc (coex_pending a')"
    proof -
      have "coex_pending a = length (coex_queues a (unat ?q)) + (\<Sum>k\<in>{..<5} - {unat ?q}. length (coex_queues a k))"
        using rng by (simp add: coex_pending_def sum.remove [of "{..<5}" "unat ?q"])
      moreover have "coex_pending a' = length (coex_queues a' (unat ?q)) + (\<Sum>k\<in>{..<5} - {unat ?q}. length (coex_queues a' k))"
        using rng by (simp add: coex_pending_def sum.remove [of "{..<5}" "unat ?q"])
      moreover have "(\<Sum>k\<in>{..<5} - {unat ?q}. length (coex_queues a' k)) = (\<Sum>k\<in>{..<5} - {unat ?q}. length (coex_queues a k))"
        using qs by (intro sum.cong) auto
      moreover have "length (coex_queues a (unat ?q)) = Suc (length (coex_queues a' (unat ?q)))"
        using qs rng by (cases "coex_queues a (unat ?q)") auto
      ultimately show ?thesis by simp
    qed
    with coex_tx_round_sending [OF refl \<open>?q \<noteq> INVALID_QUEUE\<close> assms(1) r', of b ack] t wf show ?thesis by auto
  qed
qed

text \<open>
  The transmit thread ends: when the packets that wait have complete descriptors and
  the other threads queue nothing meanwhile, one round more than there are packets is
  enough, whatever the card answers, with no fault on the way.
\<close>

theorem transmit_thread_terminates:
  assumes "queue_neutral others" and "well_formed_queues a" and "coex_pending a < fuel"
  shows "\<exists>a'. coex_pkt_processor fuel b others h a = Some a'"
proof -
  have "\<exists>a'. coex_pkt_loop fuel b others h ack a = Some a'" for ack
    using assms(2,3)
  proof (induction fuel arbitrary: a ack)
    case 0
    then show ?case by simp
  next
    case (Suc fuel)
    from coex_tx_round_cases [OF assms(1) Suc.prems(1), of b h ack] show ?case
    proof (elim disjE exE conjE)
      fix a' assume "coex_tx_round b others h ack a = Some (Left_loop a')"
      then show ?thesis by simp
    next
      fix ack' a' assume r: "coex_tx_round b others h ack a = Some (Next_round ack' a')" "well_formed_queues a'"
        "coex_pending a = Suc (coex_pending a')"
      with Suc.IH [of a' ack'] Suc.prems(2) show ?thesis by simp
    qed
  qed
  then show ?thesis by (simp add: coex_pkt_processor_def)
qed

theorem transmit_thread_terminates_witness:
  "\<exists>a'. coex_pkt_processor 3 shipped_build (\<lambda>a. a) calm_host two_queues = Some a'"
proof -
  have "well_formed_queues two_queues" by (simp add: well_formed_queues_def two_queues_def fresh_netbuf_def)
  moreover have "coex_pending two_queues < 3"
    by (simp add: coex_pending_def two_queues_def eval_nat_numeral lessThan_Suc)
  ultimately show ?thesis using transmit_thread_terminates [OF neutral_id(1)] by blast
qed

section \<open>The semaphores\<close>

lemma acquire_bus_locks:
  assumes "lock_neutral others" "locks_held (trace a) = Some ls" "Tx_access_lock \<notin> set ls"
    and "acquire_bus others h i a = Some (go, a')"
  shows "locks_held (trace a') = Some ls"
  using assms
  by (auto simp: acquire_bus_asks wait_for_access_def lock_neutral_def Let_def simp del: locks_held.simps
      split: if_splits bind_splits dest!: arbiter.ask_locks)

lemma release_if_ps_locks:
  assumes "locks_held (trace a) = Some ls" "Tx_access_lock \<notin> set ls" "release_if_ps h i a = Some a'"
  shows "locks_held (trace a') = Some ls"
  using assms arbiter.back_locks by (auto simp: release_if_ps_hands_back split: if_splits)

lemma transmit_one_locks:
  assumes "lock_neutral others" "locks_held (trace a) = Some ls" "Transmit_lock \<notin> set ls" "Tx_access_lock \<notin> set ls"
    and "coex_transmit_one b others h q ack nb a = Some (ack', a')"
  shows "locks_held (trace a') = Some ls"
proof (cases "coex_pkt_rejected (log (Acquire Transmit_lock) a) nb")
  case True
  with assms show ?thesis by (auto simp: coex_transmit_one_def Let_def)
next
  case False
  then obtain nb' s a2 a3 where w: "host_intf_write_pkt h nb' (log (Acquire Transmit_lock) a) = (s, a2)"
      and t: "locks_held (trace a') = locks_held (Release Transmit_lock # Release Tx_access_lock # Acquire Tx_access_lock # trace (others a2))"
    using assms(5) by (auto simp: coex_transmit_one_def Let_def split: bind_splits prod.splits if_splits)
  have "locks_held (trace (others a2)) = Some (Transmit_lock # ls)"
    using host_intf_write_effect [OF w] assms(1-3) by (simp add: lock_neutral_def)
  with t assms(3,4) show ?thesis by simp
qed

lemma coex_tx_round_locks:
  assumes "lock_neutral others" "locks_held (trace a) = Some ls" "Transmit_lock \<notin> set ls" "Tx_access_lock \<notin> set ls"
    and "coex_tx_round b others h ack a = Some r"
  shows "locks_held (trace (case r of Next_round ack' a' \<Rightarrow> a' | Left_loop a' \<Rightarrow> a')) = Some ls"
proof (cases "coex_get_queue_num a = INVALID_QUEUE")
  case True
  with assms(5) obtain a1 a2 where "release_if_ps h BT_ID a = Some a1" "release_if_ps h ZB_ID a1 = Some a2"
      "r = Left_loop a2"
    by (auto simp: coex_tx_round_def split: bind_splits)
  with release_if_ps_locks [OF assms(2,4)] release_if_ps_locks [OF _ assms(4)] show ?thesis by fastforce
next
  case False
  let ?q = "coex_get_queue_num a"
  obtain go a1 where r: "ready_to_send others h ?q a = Some (go, a1)" using ready_to_send_facts(1) by blast
  have l1: "locks_held (trace a1) = Some ls"
    using r acquire_bus_locks [OF assms(1,2,4)] assms(2) by (auto simp: ready_to_send_def split: if_splits)
  show ?thesis
  proof (cases go)
    case False
    with r coex_tx_round_refused [OF refl \<open>?q \<noteq> INVALID_QUEUE\<close>, of others h a1 b ack] assms(5) l1 show ?thesis by simp
  next
    case True
    with assms(5) r False obtain nb a2 where d: "coex_dequeue_pkt ?q a1 = Some (nb, a2)"
      by (auto simp: coex_tx_round_def ready_to_send_def Let_def split: bind_splits)
    then have l2: "locks_held (trace a2) = Some ls"
      using l1 by (auto simp: coex_dequeue_pkt_def dequeue_pkt_def split: if_splits bind_splits list.splits)
    from True assms(5) r False d show ?thesis
      using l2 transmit_one_locks [OF assms(1) l2 assms(3,4)]
      by (auto simp: coex_tx_round_def ready_to_send_def Let_def split: option.splits bind_splits)
  qed
qed

text \<open>
  The transmit thread leaves the semaphores as it found them, however many packets it
  sends, whichever it rejects, and whether it runs out of packets or gives up waiting for
  the bus; in particular it never takes a semaphore it already holds.
\<close>

theorem transmit_thread_lock_balance:
  assumes "lock_neutral others" and "locks_held (trace a) = Some ls"
    and "Transmit_lock \<notin> set ls" and "Tx_access_lock \<notin> set ls"
    and "coex_pkt_processor fuel b others h a = Some a'"
  shows "locks_held (trace a') = Some ls"
proof -
  have "coex_pkt_loop fuel b others h ack a = Some a' \<Longrightarrow> locks_held (trace a') = Some ls" for ack
    using assms(2)
  proof (induction fuel arbitrary: a ack)
    case 0
    then show ?case by simp
  next
    case (Suc fuel)
    from Suc.prems(1) obtain r where r: "coex_tx_round b others h ack a = Some r"
      by (auto split: bind_splits)
    note l = coex_tx_round_locks [OF assms(1) Suc.prems(2) assms(3,4) r]
    show ?case
    proof (cases r)
      case (Next_round ack' a1)
      with Suc.prems(1) r Suc.IH [of ack' a1] l show ?thesis by simp
    next
      case (Left_loop a1)
      with Suc.prems(1) r l show ?thesis by simp
    qed
  qed
  with assms(5) show ?thesis by (simp add: coex_pkt_processor_def)
qed

theorem transmit_thread_lock_balance_witness:
  "\<exists>a'. coex_pkt_processor 1 shipped_build (\<lambda>a. a) calm_host idle_adapter = Some a' \<and> locks_held (trace a') = Some []"
proof -
  have "coex_get_queue_num idle_adapter = INVALID_QUEUE"
    by (simp add: coex_get_queue_num_def netbuf_queue_len_def idle_adapter_def)
  from coex_tx_round_idle [OF this, of shipped_build "\<lambda>a. a" calm_host False]
  obtain a' where r: "coex_pkt_processor 1 shipped_build (\<lambda>a. a) calm_host idle_adapter = Some a'"
    by (auto simp: coex_pkt_processor_def)
  have "locks_held (trace idle_adapter) = Some []" by (simp add: idle_adapter_def)
  with transmit_thread_lock_balance [OF neutral_id(2) _ _ _ r] r show ?thesis by simp
qed

section \<open>The sleep acknowledgement on the bus\<close>

text \<open>
  C11. What the transmit thread does to a packet and to the shared flags. A rejected packet
  leaves the flags alone. A sleep acknowledgement goes out unchanged, every other packet with
  the immediate wake-up bit set. The access of the common HAL is given up, and the
  acknowledgement marked as sent, exactly when this packet or an earlier one of the same run of the
  thread was an acknowledgement and the device still waits for one; in every other case the
  flags are as the other threads left them. (The flag of the thread that remembers the acknowledgement
  is never reset in a run, so a later ordinary packet can give up the access as well.)
\<close>

theorem acknowledgement_gives_up_access:
  assumes "16 \<le> length (nb_data nb)"
    and "coex_transmit_one b others h q ack nb a = Some (ack', a')"
  shows "if coex_pkt_rejected (log (Acquire Transmit_lock) a) nb then ack' = ack \<and> d_assets a' = d_assets a
    else \<exists>d s a2. host_intf_write_pkt h (nb\<lparr>nb_data := d\<rparr>) (log (Acquire Transmit_lock) a) = (s, a2) \<and>
      (let is_ack = (nb_data nb ! 2 = CONFIRM \<and> nb_data nb ! 15 = ULP_SLEEP_NOTIFY) in
       d = (if is_ack then nb_data nb else (nb_data nb)[1 := nb_data nb ! 1 OR 0x80]) \<and>
       ack' = (ack \<or> is_ack) \<and>
       d_assets a' = (if (ack \<or> is_ack) \<and> sleep_entry_recvd (d_assets (others a2))
         then (d_assets (others a2))\<lparr>ulp_sleep_ack_sent := True, common_hal_tx_access := False\<rparr>
         else d_assets (others a2)))"
proof (cases "coex_pkt_rejected (log (Acquire Transmit_lock) a) nb")
  case True
  with assms(2) show ?thesis by (auto simp: coex_transmit_one_def Let_def)
next
  case False
  let ?ia = "nb_data nb ! 2 = CONFIRM \<and> nb_data nb ! 15 = ULP_SLEEP_NOTIFY"
  let ?d = "if ?ia then nb_data nb else (nb_data nb)[1 := nb_data nb ! 1 OR 0x80]"
  have f: "is_ulp_sleep_ack (nb_data nb) = Some ?ia"
    "(if ?ia then Some (nb_data nb) else mark_immediate_wakeup (nb_data nb)) = Some ?d"
    using assms(1) by (simp_all add: is_ulp_sleep_ack_def mark_immediate_wakeup_def rd8_in)
  obtain s a2 where w: "host_intf_write_pkt h (nb\<lparr>nb_data := ?d\<rparr>) (log (Acquire Transmit_lock) a) = (s, a2)" by fastforce
  have "ack' = (ack \<or> ?ia)" "d_assets a' = (if (ack \<or> ?ia) \<and> sleep_entry_recvd (d_assets (others a2))
         then (d_assets (others a2))\<lparr>ulp_sleep_ack_sent := True, common_hal_tx_access := False\<rparr>
         else d_assets (others a2))"
    using assms(2) False w by (auto simp: coex_transmit_one_def f Let_def split: if_splits)
  with w False show ?thesis by (auto simp: Let_def)
qed

definition ack_packet :: netbuf where
  "ack_packet = (fresh_netbuf (ulp_sleep_ack_frame 5))\<lparr>tx_pkt_type := COEX_Q\<rparr>"

definition sleepy_adapter :: adapter where
  "sleepy_adapter = upd_assets (\<lambda>d. d\<lparr>sleep_entry_recvd := True, common_hal_tx_access := True, common_hal_fw_state := FW_ACTIVE\<rparr>) idle_adapter"

theorem acknowledgement_gives_up_access_witness:
  "\<exists>a'. coex_transmit_one shipped_build (\<lambda>a. a) calm_host COEX_Q False ack_packet sleepy_adapter = Some (True, a') \<and>
        \<not> common_hal_tx_access (d_assets a') \<and> ulp_sleep_ack_sent (d_assets a')"
proof -
  have l: "16 \<le> length (nb_data ack_packet)" "nb_data ack_packet ! 2 = CONFIRM" "nb_data ack_packet ! 15 = ULP_SLEEP_NOTIFY"
    by (simp_all add: ack_packet_def fresh_netbuf_def ulp_sleep_ack_frame_def set_word_nth)
  have n: "coex_pkt_rejected (log (Acquire Transmit_lock) sleepy_adapter) ack_packet = False"
    by (simp add: coex_pkt_rejected_def proto_id_to_pkttype_def ack_packet_def sleepy_adapter_def)
  obtain ack' a' where t: "coex_transmit_one shipped_build (\<lambda>a. a) calm_host COEX_Q False ack_packet sleepy_adapter = Some (ack', a')"
    using transmit_one_some [OF l(1)] by blast
  from acknowledgement_gives_up_access [OF l(1) t] obtain d s a2 where w:
      "host_intf_write_pkt calm_host (ack_packet\<lparr>nb_data := d\<rparr>) (log (Acquire Transmit_lock) sleepy_adapter) = (s, a2)"
      "ack'" "d_assets a' = (if sleep_entry_recvd (d_assets a2)
         then (d_assets a2)\<lparr>ulp_sleep_ack_sent := True, common_hal_tx_access := False\<rparr> else d_assets a2)"
    by (simp only: n l(2,3) Let_def simp_thms if_True if_False) blast
  have "d_assets a2 = d_assets sleepy_adapter" using host_intf_write_effect [OF w(1)] by simp
  then have "sleep_entry_recvd (d_assets a2)" by (simp add: sleepy_adapter_def)
  with t w show ?thesis by auto
qed

text \<open>
  The variable \<^verbatim>\<open>ulp_sleep_ack\<close> of the source lives across the rounds: after an
  acknowledgement, a later ordinary packet of the same run takes the access away again as
  soon as a new sleep request has arrived, although nobody acknowledged it.
\<close>

lemma stale_ack_flag_revokes_access:
  assumes "\<not> coex_pkt_rejected (log (Acquire Transmit_lock) a) nb" "16 \<le> length (nb_data nb)"
    and "nb_data nb ! 2 \<noteq> CONFIRM" "\<And>x. sleep_entry_recvd (d_assets (others x))"
  shows "\<exists>a'. coex_transmit_one b others h q True nb a = Some (True, a') \<and>
    \<not> common_hal_tx_access (d_assets a') \<and> ulp_sleep_ack_sent (d_assets a')"
proof -
  have f: "is_ulp_sleep_ack (nb_data nb) = Some False"
    "mark_immediate_wakeup (nb_data nb) = Some ((nb_data nb)[1 := nb_data nb ! 1 OR 0x80])"
    using assms(2,3) by (simp_all add: is_ulp_sleep_ack_def mark_immediate_wakeup_def rd8_in)
  obtain s a2 where w: "host_intf_write_pkt h (nb\<lparr>nb_data := (nb_data nb)[1 := nb_data nb ! 1 OR 0x80]\<rparr>)
      (log (Acquire Transmit_lock) a) = (s, a2)" by fastforce
  with f assms(1,4) show ?thesis by (auto simp: coex_transmit_one_def Let_def)
qed

text \<open>
  The queueing helper compares with \<open>>\<close> where the array has five elements: queue number
  five passes the check and addresses an element behind the array.
\<close>

lemma queue_number_five_outside_array: "coex_queue_pkt nb 5 a = None"
  by (simp add: coex_queue_pkt_def coex_queue_at_def)

end
