(* ===== verification/Core_Queues.thy ===== *)
theory Core_Queues
  imports Wmm_Scheduler Tx_Scheduling "HOL-Library.Multiset"
begin

text \<open>
  The soft queues of the WLAN core (\<^verbatim>\<open>core_queue_pkt\<close>, \<^verbatim>\<open>core_dequeue_pkt\<close> of
  \<^verbatim>\<open>onebox_core_os_intf.c\<close>), the frames the driver itself puts on the management queue
  (\<^verbatim>\<open>onebox_send_internal_mgmt_frame\<close> of \<^verbatim>\<open>onebox_devdep_mgmt.c\<close> and the end of
  \<^verbatim>\<open>send_ps_params_req\<close>), and the composition of the power save module with these
  queues: the requests it sends become packets.
\<close>

section \<open>The host of the WLAN core\<close>

record core_host =
  ch_host :: host
  ch_ps :: ps_host
  ch_usb_buf_status :: "history \<Rightarrow> u8"   \<comment> \<open>\<^verbatim>\<open>d_assets->update_usb_buf_status\<close>, stored in a byte\<close>

text \<open>A call of the common HAL below.\<close>

definition on_common :: "(adapter \<Rightarrow> adapter option) \<Rightarrow> wlan_adapter \<Rightarrow> wlan_adapter option" where
  "on_common f w = map_option (\<lambda>a. w\<lparr>w_common := a\<rparr>) (f (w_common w))"

definition log_common :: "event \<Rightarrow> wlan_adapter \<Rightarrow> wlan_adapter" where
  "log_common e w = w\<lparr>w_common := log e (w_common w)\<rparr>"

section \<open>The soft queues\<close>

definition upd_queue :: "nat \<Rightarrow> netbuf list \<Rightarrow> wlan_adapter \<Rightarrow> wlan_adapter" where
  "upd_queue q ps w = w\<lparr>host_tx_queue := (host_tx_queue w)(q := ps)\<rparr>"

text \<open>
  The bound test lets \<^verbatim>\<open>NUM_SOFT_QUEUES\<close> itself pass, which is one past the array:
  \<open>None\<close>.
\<close>

definition core_queue_pkt :: "netbuf \<Rightarrow> nat \<Rightarrow> wlan_adapter \<Rightarrow> wlan_adapter option" where
  "core_queue_pkt nb q_num w =
     (if NUM_SOFT_QUEUES < q_num then Some w
      else if q_num = NUM_SOFT_QUEUES then None
      else Some (upd_queue q_num (netbuf_queue_tail (host_tx_queue w q_num) nb) w))"

definition core_dequeue_pkt :: "nat \<Rightarrow> wlan_adapter \<Rightarrow> (netbuf option \<times> wlan_adapter) option" where
  "core_dequeue_pkt q_num w =
     (if NUM_SOFT_QUEUES < q_num then Some (None, w)
      else if q_num = NUM_SOFT_QUEUES then None
      else (case dequeue_pkt (host_tx_queue w q_num) of (nb, q') \<Rightarrow> Some (nb, upd_queue q_num q' w)))"

section \<open>Internal management frames\<close>

abbreviation (input) INTERNAL_MGMT_PKT :: u16 where "INTERNAL_MGMT_PKT \<equiv> 0x80"
abbreviation (input) ONEBOX_BROADCAST_PKT :: u16 where "ONEBOX_BROADCAST_PKT \<equiv> 0x200"
abbreviation (input) ONEBOX_WIFI_MGMT_Q :: u16 where "ONEBOX_WIFI_MGMT_Q \<equiv> 4"
abbreviation (input) WAKEUP_SLEEP_REQUEST :: u8 where "WAKEUP_SLEEP_REQUEST \<equiv> 5"

definition schedule_wlan :: "wlan_adapter \<Rightarrow> wlan_adapter" where
  "schedule_wlan = log_common (Set_event Wlan_scheduler_event)"

definition internal_mgmt_pkt :: "bytes \<Rightarrow> netbuf" where
  "internal_mgmt_pkt d = (fresh_netbuf d)\<lparr>nb_flags := INTERNAL_MGMT_PKT, tx_pkt_type := WLAN_TX_M_Q\<rparr>"

text \<open>
  The descriptor of the queued copy: the length grows by the extension of the buffer, the
  queue number is set again, and the immediate wake-up bit is added.
\<close>

definition internal_mgmt_bytes :: "bytes \<Rightarrow> u16 \<Rightarrow> u8 \<Rightarrow> (nat \<Rightarrow> u8) \<Rightarrow> bytes" where
  "internal_mgmt_bytes addr word0 extnd_size garbage =
     (let d = set_word 0 (((word0 AND 0xfff) + ucast extnd_size) OR push_bit 12 ONEBOX_WIFI_MGMT_Q)
                (addr @ frame_padding (length addr) extnd_size garbage)
      in d[1 := d ! 1 OR 0x80])"

definition onebox_send_internal_mgmt_frame :: "host \<Rightarrow> bytes \<Rightarrow> wlan_adapter \<Rightarrow> (status \<times> wlan_adapter) option" where
  "onebox_send_internal_mgmt_frame h addr w =
     (let t = trace (w_common w) in
      if \<not> h_alloc_skb h t then Some (ONEBOX_STATUS_FAILURE, w)
      else do { word0 \<leftarrow> rd16 addr 0;
                let nb = internal_mgmt_pkt (internal_mgmt_bytes addr word0 (h_skb_misalign h t AND 0x3f) (h_skb_garbage h t));
                Some (ONEBOX_STATUS_SUCCESS, schedule_wlan
                  (upd_queue MGMT_SOFT_Q (netbuf_queue_tail (host_tx_queue w MGMT_SOFT_Q) nb) w)) })"

section \<open>The power save requests as packets\<close>

definition le16 :: "u16 \<Rightarrow> bytes" where
  "le16 v = [ucast v, ucast (drop_bit 8 v)]"

text \<open>\<^verbatim>\<open>onebox_mac_frame_t\<close> with \<^verbatim>\<open>u.ps_req_params\<close>: 16 bytes of descriptor, 26 of body.\<close>

definition ps_req_bytes :: "ps_req_frame \<Rightarrow> bytes" where
  "ps_req_bytes f =
     le16 (desc_word0 f) @ le16 (desc_word1 f) @ replicate 8 0 @ le16 (desc_word6 f) @ [0, 0] @
     [req_ps_en f, req_sleep_type f, req_connected_sleep f, 0] @ le16 (req_num_beacons f) @ [0, 0] @
     le32 (req_sleep_duration f) @
     [req_mimic_support f, req_uapsd_acs f, req_uapsd_wakeup_period f, 0] @
     le32 (req_listen_interval f) @ le32 (req_dtim_interval_duration f) @ le16 (req_num_dtim_intervals f)"

text \<open>What an effect of the power save module does to the queues of the core.\<close>

definition perform_ps_event :: "host \<Rightarrow> ps_event \<Rightarrow> wlan_adapter \<Rightarrow> wlan_adapter option" where
  "perform_ps_event h e w =
     (case e of
        Queue_mgmt_head f \<Rightarrow>
          Some (upd_queue MGMT_SOFT_Q
                  (netbuf_queue_head (host_tx_queue w MGMT_SOFT_Q) (internal_mgmt_pkt (ps_req_bytes f))) w)
      | Send_internal_mgmt f \<Rightarrow> map_option snd (onebox_send_internal_mgmt_frame h (ps_req_bytes f) w)
      | Schedule_pkt_for_tx \<Rightarrow> Some (schedule_wlan w)
      | _ \<Rightarrow> Some w)"

primrec perform_all :: "host \<Rightarrow> ps_event list \<Rightarrow> wlan_adapter \<Rightarrow> wlan_adapter option" where
  "perform_all h [] w = Some w"
| "perform_all h (e # es) w = do { w1 \<leftarrow> perform_ps_event h e w; perform_all h es w1 }"

text \<open>A call into the power save module, whose trace grows at the front.\<close>

definition new_ps_events :: "wlan_ps \<Rightarrow> wlan_ps \<Rightarrow> ps_event list" where
  "new_ps_events s s' = rev (take (length (ps_trace s') - length (ps_trace s)) (ps_trace s'))"

definition call_ps :: "host \<Rightarrow> (wlan_ps \<Rightarrow> wlan_ps option) \<Rightarrow> wlan_adapter \<Rightarrow> wlan_adapter option" where
  "call_ps h f w = do { s \<leftarrow> f (w_ps w); perform_all h (new_ps_events (w_ps w) s) (w\<lparr>w_ps := s\<rparr>) }"


section \<open>Facts about the queues\<close>

lemma upd_queue_sel [simp]:
  "host_tx_queue (upd_queue q ps w) = (host_tx_queue w)(q := ps)" "w_common (upd_queue q ps w) = w_common w"
  "w_ps (upd_queue q ps w) = w_ps w" "selected_qnum (upd_queue q ps w) = selected_qnum w"
  "max_stations_supported (upd_queue q ps w) = max_stations_supported w" "hal_vap (upd_queue q ps w) = hal_vap w"
  "ni_vap (upd_queue q ps w) = ni_vap w" "w_driver_mode (upd_queue q ps w) = w_driver_mode w"
  by (simp_all add: upd_queue_def)

lemma log_common_sel [simp]:
  "host_tx_queue (log_common e w) = host_tx_queue w" "w_ps (log_common e w) = w_ps w"
  "w_common (log_common e w) = log e (w_common w)" "selected_qnum (log_common e w) = selected_qnum w"
  "max_stations_supported (log_common e w) = max_stations_supported w" "hal_vap (log_common e w) = hal_vap w"
  "ni_vap (log_common e w) = ni_vap w" "w_driver_mode (log_common e w) = w_driver_mode w"
  by (simp_all add: log_common_def)

lemma schedule_wlan_sel [simp]:
  "host_tx_queue (schedule_wlan w) = host_tx_queue w" "w_ps (schedule_wlan w) = w_ps w"
  "d_assets (w_common (schedule_wlan w)) = d_assets (w_common w)"
  "host_intf_type (w_common (schedule_wlan w)) = host_intf_type (w_common w)"
  "coex_queues (w_common (schedule_wlan w)) = coex_queues (w_common w)"
  "trace (w_common (schedule_wlan w)) = Set_event Wlan_scheduler_event # trace (w_common w)"
  "selected_qnum (schedule_wlan w) = selected_qnum w"
  by (simp_all add: schedule_wlan_def)

lemma length_ps_req_bytes [simp]: "length (ps_req_bytes f) = 42"
  by (simp add: ps_req_bytes_def le16_def le32_def)

lemma length_internal_mgmt_bytes [simp]:
  "length (internal_mgmt_bytes addr word0 e g) = length addr + unat e"
  by (simp add: internal_mgmt_bytes_def Let_def)

lemma internal_mgmt_pkt_sel [simp]:
  "nb_data (internal_mgmt_pkt d) = d" "nb_flags (internal_mgmt_pkt d) = INTERNAL_MGMT_PKT"
  "tx_pkt_type (internal_mgmt_pkt d) = WLAN_TX_M_Q" "nb_ni (internal_mgmt_pkt d) = None"
  by (simp_all add: internal_mgmt_pkt_def fresh_netbuf_def)

lemma send_internal_mgmt_cases:
  assumes "2 \<le> length addr"
  obtains (no_memory) "onebox_send_internal_mgmt_frame h addr w = Some (ONEBOX_STATUS_FAILURE, w)"
      "\<not> h_alloc_skb h (trace (w_common w))"
  | (queued) word0 where "rd16 addr 0 = Some word0" "h_alloc_skb h (trace (w_common w))"
      "onebox_send_internal_mgmt_frame h addr w = Some (ONEBOX_STATUS_SUCCESS, schedule_wlan
         (upd_queue MGMT_SOFT_Q (host_tx_queue w MGMT_SOFT_Q @
            [internal_mgmt_pkt (internal_mgmt_bytes addr word0 (h_skb_misalign h (trace (w_common w)) AND 0x3f)
               (h_skb_garbage h (trace (w_common w))))]) w))"
proof (cases "h_alloc_skb h (trace (w_common w))")
  case True
  from assms obtain word0 where "rd16 addr 0 = Some word0" using rd16_defined_iff [of addr 0] by auto
  with True show ?thesis
    by (intro queued [of word0]) (simp_all add: onebox_send_internal_mgmt_frame_def Let_def netbuf_queue_tail_def)
next
  case False
  then show ?thesis by (intro no_memory) (simp_all add: onebox_send_internal_mgmt_frame_def)
qed


section \<open>What the power save module adds to the queues\<close>

text \<open>
  The whole effect of at most \<open>n\<close> requests: packets with a complete request frame join the
  management queue; of the common HAL only the trace grows, by scheduling events.
\<close>

definition request_pkt :: "netbuf \<Rightarrow> bool" where
  "request_pkt nb \<longleftrightarrow> 42 \<le> length (nb_data nb) \<and> nb_flags nb = INTERNAL_MGMT_PKT"

definition frames_added :: "nat \<Rightarrow> wlan_adapter \<Rightarrow> wlan_adapter \<Rightarrow> bool" where
  "frames_added n w w' \<longleftrightarrow>
     (\<exists>ps rs es. w' = w\<lparr>host_tx_queue := (host_tx_queue w)(MGMT_SOFT_Q := ps),
                       w_common := (w_common w)\<lparr>trace := es @ trace (w_common w)\<rparr>\<rparr> \<and>
               mset ps = mset (host_tx_queue w MGMT_SOFT_Q) + mset rs \<and> length rs \<le> n \<and> list_all request_pkt rs \<and>
               set es \<subseteq> {Set_event Wlan_scheduler_event})"

lemma frames_added_refl [simp]: "frames_added 0 w w"
  unfolding frames_added_def
  by (intro exI [of _ "host_tx_queue w MGMT_SOFT_Q"] exI [of _ "[]"]) simp

lemma frames_added_trans:
  assumes "frames_added n w w1" "frames_added m w1 w2"
  shows "frames_added (n + m) w w2"
proof -
  obtain ps rs es where 1: "w1 = w\<lparr>host_tx_queue := (host_tx_queue w)(MGMT_SOFT_Q := ps),
        w_common := (w_common w)\<lparr>trace := es @ trace (w_common w)\<rparr>\<rparr>"
      "mset ps = mset (host_tx_queue w MGMT_SOFT_Q) + mset rs" "length rs \<le> n" "list_all request_pkt rs"
      "set es \<subseteq> {Set_event Wlan_scheduler_event}"
    using assms(1) unfolding frames_added_def by blast
  obtain qs ss fs where 2: "w2 = w1\<lparr>host_tx_queue := (host_tx_queue w1)(MGMT_SOFT_Q := qs),
        w_common := (w_common w1)\<lparr>trace := fs @ trace (w_common w1)\<rparr>\<rparr>"
      "mset qs = mset (host_tx_queue w1 MGMT_SOFT_Q) + mset ss" "length ss \<le> m" "list_all request_pkt ss"
      "set fs \<subseteq> {Set_event Wlan_scheduler_event}"
    using assms(2) unfolding frames_added_def by blast
  from 1 2 show ?thesis unfolding frames_added_def
    by (intro exI [of _ qs] exI [of _ "rs @ ss"] exI [of _ "fs @ es"]) auto
qed

text \<open>The scheduling event touches no semaphore.\<close>

lemma schedule_events_locks:
  "set es \<subseteq> {Set_event Wlan_scheduler_event} \<Longrightarrow> locks_held (es @ t) = locks_held t"
  by (induction es) (simp_all del: locks_held.simps)

lemma frames_added_schedule [simp]: "frames_added 0 w (schedule_wlan w)"
  unfolding frames_added_def
  by (intro exI [of _ "host_tx_queue w MGMT_SOFT_Q"] exI [of _ "[]"] exI [of _ "[Set_event Wlan_scheduler_event]"])
    (simp add: schedule_wlan_def log_common_def log_def)

lemma frames_added_queue:
  assumes "mset ps = add_mset nb (mset (host_tx_queue w MGMT_SOFT_Q))" "request_pkt nb"
  shows "frames_added 1 w (upd_queue MGMT_SOFT_Q ps w)"
  unfolding frames_added_def upd_queue_def using assms
  by (intro exI [of _ ps] exI [of _ "[nb]"] exI [of _ "[]"]) auto

lemma send_internal_adds:
  assumes "42 \<le> length addr"
  shows "\<exists>s w'. onebox_send_internal_mgmt_frame h addr w = Some (s, w') \<and> (\<exists>n\<le>1. frames_added n w w')"
proof (rule send_internal_mgmt_cases [of addr h w])
  show "2 \<le> length addr" using assms by simp
  assume "onebox_send_internal_mgmt_frame h addr w = Some (ONEBOX_STATUS_FAILURE, w)"
  then show ?thesis using frames_added_refl by blast
next
  fix word0
  let ?nb = "internal_mgmt_pkt (internal_mgmt_bytes addr word0 (h_skb_misalign h (trace (w_common w)) AND 0x3f)
               (h_skb_garbage h (trace (w_common w))))"
  let ?w = "upd_queue MGMT_SOFT_Q (host_tx_queue w MGMT_SOFT_Q @ [?nb]) w"
  assume q: "onebox_send_internal_mgmt_frame h addr w = Some (ONEBOX_STATUS_SUCCESS, schedule_wlan ?w)"
  have "request_pkt ?nb" using assms by (simp add: request_pkt_def)
  then have "frames_added 1 w ?w" by (intro frames_added_queue) auto
  from frames_added_trans [OF this frames_added_schedule] q show ?thesis by auto
qed

text \<open>Every effect is performed, and a request adds at most one frame.\<close>

lemma perform_ps_event_adds:
  "\<exists>w'. perform_ps_event h e w = Some w' \<and> (\<exists>n\<le>length (requests [e]). frames_added n w w')"
proof (cases e)
  case (Send_internal_mgmt f)
  with send_internal_adds [of "ps_req_bytes f" h w] show ?thesis
    by (auto simp: perform_ps_event_def)
next
  case (Queue_mgmt_head f)
  have "frames_added 1 w (upd_queue MGMT_SOFT_Q (internal_mgmt_pkt (ps_req_bytes f) # host_tx_queue w MGMT_SOFT_Q) w)"
    by (intro frames_added_queue) (auto simp: request_pkt_def)
  with Queue_mgmt_head show ?thesis by (auto simp: perform_ps_event_def netbuf_queue_head_def)
qed (auto simp: perform_ps_event_def)

lemma requests_append [simp]: "requests (es @ fs) = requests es @ requests fs"
  by (induction es) (simp_all split: ps_event.split)

lemma length_requests_rev [simp]: "length (requests (rev es)) = length (requests es)"
  by (induction es) (simp_all split: ps_event.split)

lemma length_requests_Cons: "length (requests (e # es)) = length (requests [e]) + length (requests es)"
  by (simp split: ps_event.split)

lemma perform_all_adds:
  "\<exists>w'. perform_all h es w = Some w' \<and> (\<exists>n\<le>length (requests es). frames_added n w w')"
proof (induction es arbitrary: w)
  case Nil
  then show ?case using frames_added_refl by auto
next
  case (Cons e es)
  obtain w1 n where 1: "perform_ps_event h e w = Some w1" "n \<le> length (requests [e])" "frames_added n w w1"
    using perform_ps_event_adds [of h e w] by blast
  obtain w2 m where 2: "perform_all h es w1 = Some w2" "m \<le> length (requests es)" "frames_added m w1 w2"
    using Cons.IH [of w1] by blast
  have "n + m \<le> length (requests (e # es))" using 1(2) 2(2) by (subst length_requests_Cons) simp
  with frames_added_trans [OF 1(3) 2(3)] 1(1) 2(1) show ?case by auto
qed

text \<open>The waiting sleepers: interfaces asleep outside the RUN state.\<close>

definition asleep_vaps :: "wlan_ps \<Rightarrow> nat" where
  "asleep_vaps s = sum_list (map (\<lambda>x. if ps_state x = DEV_IN_PWR_SVE \<and> iv_state x \<noteq> S_RUN then 1 else 0) (ic_vaps s))"

lemma asleep_vaps_log [simp]: "asleep_vaps (ps_log e s) = asleep_vaps s"
  by (simp add: asleep_vaps_def)

lemma asleep_vaps_upd_same:
  "ps_state (f (the_vap s v)) = ps_state (the_vap s v) \<Longrightarrow> iv_state (f (the_vap s v)) = iv_state (the_vap s v) \<Longrightarrow>
     asleep_vaps (upd_vap v f s) = asleep_vaps s"
  by (cases "v < length (ic_vaps s)") (simp_all add: asleep_vaps_def upd_vap_def map_update sum_list_update list_update_beyond)

lemma asleep_vaps_wake:
  assumes "v < length (ic_vaps s)" "ps_state (the_vap s v) = DEV_IN_PWR_SVE" "iv_state (the_vap s v) \<noteq> S_RUN"
    and "ps_state (f (the_vap s v)) \<noteq> DEV_IN_PWR_SVE"
  shows "Suc (asleep_vaps (upd_vap v f s)) = asleep_vaps s"
proof -
  let ?g = "\<lambda>x. if ps_state x = DEV_IN_PWR_SVE \<and> iv_state x \<noteq> S_RUN then 1 else (0 :: nat)"
  have "1 \<le> sum_list (map ?g (ic_vaps s))"
    using assms(1-3) elem_le_sum_list [of v "map ?g (ic_vaps s)"] by simp
  with assms show ?thesis by (simp add: asleep_vaps_def upd_vap_def map_update sum_list_update)
qed

text \<open>The request for a wake-up: its events, and what it leaves of the interfaces.\<close>

lemma wake_request_vaps:
  "ic_vaps (set_ps_state v p (send_ps_params_req h v en q s)) = ic_vaps (set_ps_state v p s)"
  by (cases "v < length (ic_vaps s)")
    (simp_all add: send_ps_params_req_def upd_vap_def Let_def ps_log_def list_update_beyond)

lemma wake_request_trace:
  "\<exists>evs. ps_trace (send_ps_params_req h v en q s) = evs @ ps_trace s \<and> length (requests evs) \<le> 1"
proof -
  have "\<exists>evs. (evs = [] \<or> (\<exists>f. evs = [Send_internal_mgmt f]) \<or> (\<exists>f. evs = [Schedule_pkt_for_tx, Queue_mgmt_head f])) \<and>
      ps_trace (send_ps_params_req h v en q s) = evs @ ps_trace s"
    by (auto simp: send_ps_params_req_def Let_def)
  then show ?thesis by auto
qed

lemma wake_request_adds:
  assumes "v < length (ic_vaps s)" "ps_state (the_vap s v) = DEV_IN_PWR_SVE" "iv_state (the_vap s v) \<noteq> S_RUN"
  shows "\<exists>evs. ps_trace (set_ps_state v PS_DIS_REQ_SENT (send_ps_params_req h v en q s)) = evs @ ps_trace s \<and>
     length (requests evs) + asleep_vaps (set_ps_state v PS_DIS_REQ_SENT (send_ps_params_req h v en q s)) \<le> asleep_vaps s"
proof -
  have "Suc (asleep_vaps (set_ps_state v PS_DIS_REQ_SENT s)) = asleep_vaps s"
    using assms by (intro asleep_vaps_wake) simp_all
  moreover have "asleep_vaps (set_ps_state v PS_DIS_REQ_SENT (send_ps_params_req h v en q s)) =
      asleep_vaps (set_ps_state v PS_DIS_REQ_SENT s)"
    by (simp only: asleep_vaps_def wake_request_vaps)
  ultimately show ?thesis using wake_request_trace [of h v en q s] by auto
qed

lemma wake_served_adds:
  assumes "v < length (ic_vaps s)" "ps_state (the_vap s v) = DEV_IN_PWR_SVE" "iv_state (the_vap s v) \<noteq> S_RUN"
  shows "\<exists>evs. ps_trace (ps_served h v 0 MGMT_PENDING_PATH q s) = evs @ ps_trace s \<and>
     length (requests evs) + asleep_vaps (ps_served h v 0 MGMT_PENDING_PATH q s) \<le> asleep_vaps s"
  using assms wake_request_adds [OF assms]
  by (auto simp: ps_served_def pwr_sve_pass_def ps_idle_case_def multi_vap_case_def Let_def)

lemma served_vaps: "length (ic_vaps (ps_served h v 0 MGMT_PENDING_PATH q s)) = length (ic_vaps s)"
  if "ps_state (the_vap s v) = DEV_IN_PWR_SVE" "iv_state (the_vap s v) \<noteq> S_RUN"
  using that by (auto simp: ps_served_def pwr_sve_pass_def ps_idle_case_def multi_vap_case_def Let_def)

lemma deep_sleep_check_keeps:
  assumes "check_deep_sleep_status s = Some (b, s')"
  shows "(b \<longrightarrow> s' = s) \<and> asleep_vaps s' = asleep_vaps s \<and> length (ic_vaps s') = length (ic_vaps s) \<and>
     (\<exists>evs. ps_trace s' = evs @ ps_trace s \<and> requests evs = [])"
proof -
  have "asleep_vaps (upd_vap u (\<lambda>x. x\<lparr>delay_pwr_sve_decision_flag := False\<rparr>) t) = asleep_vaps t" for u t
    by (rule asleep_vaps_upd_same) simp_all
  with assms show ?thesis
    by (auto simp: check_deep_sleep_status_def split: option.splits if_splits intro: exI [of _ "[Remove_timer]"])
qed

lemma deep_sleep_check_some: "sta_vap s = Some u \<Longrightarrow> \<exists>b s'. check_deep_sleep_status s = Some (b, s')"
  by (simp add: check_deep_sleep_status_def)

lemma sta_vap_exists:
  "v < length (ic_vaps s) \<Longrightarrow> iv_opmode (the_vap s v) = M_STA \<Longrightarrow> \<exists>u. sta_vap s = Some u"
proof -
  assume v: "v < length (ic_vaps s)" "iv_opmode (the_vap s v) = M_STA"
  have "v \<in> set (filter (\<lambda>i. iv_opmode (the_vap s i) = M_STA) [0..<length (ic_vaps s)])" using v by simp
  then have "filter (\<lambda>i. iv_opmode (the_vap s i) = M_STA) [0..<length (ic_vaps s)] \<noteq> []" by force
  then show ?thesis by (auto simp: sta_vap_def split: list.split)
qed

lemma wake_for_pending_adds:
  assumes "v < length (ic_vaps s)" "ps_state (the_vap s v) = DEV_IN_PWR_SVE" "iv_state (the_vap s v) \<noteq> S_RUN"
    and "iv_opmode (the_vap s v) = M_STA"
  shows "\<exists>s' evs. update_pwr_save_status h v PS_DISABLE MGMT_PENDING_PATH s = Some s' \<and>
     length (ic_vaps s') = length (ic_vaps s) \<and> ps_trace s' = evs @ ps_trace s \<and>
     length (requests evs) + asleep_vaps s' \<le> asleep_vaps s"
proof -
  let ?s1 = "ps_log Remove_timer (upd_vap v (\<lambda>x. x\<lparr>delay_pwr_sve_decision_flag := False\<rparr>) s)"
  let ?s2 = "ps_log Ieee80211_lock ?s1"
  have a1: "asleep_vaps ?s1 = asleep_vaps s" by (simp add: asleep_vaps_upd_same)
  obtain u where "sta_vap ?s1 = Some u"
    using sta_vap_exists [of v ?s1] assms by auto
  then obtain b s' where c: "check_deep_sleep_status ?s1 = Some (b, s')"
    using deep_sleep_check_some by blast
  note k = deep_sleep_check_keeps [OF c]
  show ?thesis
  proof (cases b)
    case True
    with k have s': "s' = ?s1" by blast
    have "\<not> ps_early_return v 0 MGMT_PENDING_PATH ?s1"
      using assms by (simp add: ps_early_return_def scanning_transition_def connecting_def)
    then have h: "update_pwr_save_status h v PS_DISABLE MGMT_PENDING_PATH s =
        Some (ps_log Ieee80211_unlock (ps_served h v 0 MGMT_PENDING_PATH True ?s2))"
      using c True s' by (simp add: update_pwr_save_status_def handler_result)
    have p: "v < length (ic_vaps ?s2)" "ps_state (the_vap ?s2 v) = DEV_IN_PWR_SVE" "iv_state (the_vap ?s2 v) \<noteq> S_RUN"
      using assms by simp_all
    obtain evs where e: "ps_trace (ps_served h v 0 MGMT_PENDING_PATH True ?s2) = evs @ ps_trace ?s2"
        "length (requests evs) + asleep_vaps (ps_served h v 0 MGMT_PENDING_PATH True ?s2) \<le> asleep_vaps ?s2"
      using wake_served_adds [OF p] by blast
    have "asleep_vaps ?s2 = asleep_vaps s" using a1 by simp
    then show ?thesis using h e served_vaps [OF p(2,3), of h True]
      by (intro exI [of _ "ps_log Ieee80211_unlock (ps_served h v 0 MGMT_PENDING_PATH True ?s2)"]
          exI [of _ "Ieee80211_unlock # evs @ [Ieee80211_lock, Remove_timer]"]) simp
  next
    case False
    with c have h: "update_pwr_save_status h v PS_DISABLE MGMT_PENDING_PATH s = Some s'"
      by (simp add: update_pwr_save_status_def)
    from k obtain evs where "ps_trace s' = evs @ ps_trace ?s1" "requests evs = []" by blast
    with h k a1 show ?thesis
      by (intro exI [of _ s'] exI [of _ "evs @ [Remove_timer]"]) simp
  qed
qed

lemma call_ps_adds:
  assumes "f (w_ps w) = Some s'" "ps_trace s' = evs @ ps_trace (w_ps w)"
  shows "\<exists>w'. call_ps h f w = Some w' \<and> (\<exists>n\<le>length (requests evs). frames_added n (w\<lparr>w_ps := s'\<rparr>) w')"
proof -
  have "new_ps_events (w_ps w) s' = rev evs" using assms(2) by (simp add: new_ps_events_def)
  with perform_all_adds [of h "rev evs" "w\<lparr>w_ps := s'\<rparr>"] assms(1) show ?thesis by (simp add: call_ps_def)
qed

end
