(* ===== verification/Core_Wlan.thy ===== *)
theory Core_Wlan
  imports Core_Queues
begin

text \<open>
  The transmit side of the WLAN core (\<^verbatim>\<open>core_qos_processor\<close> of
  \<^verbatim>\<open>onebox_core_wlan.c\<close>): it asks the power manager for the bus, takes packets from the
  queue the WMM scheduler chooses as long as the device has room, wakes a sleeping station
  first, drops packets of stations and interfaces that are gone, and hands the bus back when
  the station may sleep.

  The local variables of the source are arguments: \<open>counter\<close> of a round to the next, and
  \<open>vap\<close> (\<open>None\<close> for NULL), which the end of the function looks at. The record of an interface
  includes its private part, so the test for \<^verbatim>\<open>hal_priv_vap\<close> is always true here. The
  \<open>None\<close> of a result is a fault (NULL dereference, access outside a buffer or an array).
\<close>

section \<open>Asking for the bus\<close>

text \<open>What the other threads do while the core waits is a parameter.\<close>

type_synonym core_interference = "wlan_adapter \<Rightarrow> wlan_adapter"

definition core_acquire_bus :: "core_interference \<Rightarrow> host \<Rightarrow> wlan_adapter \<Rightarrow> (bool \<times> wlan_adapter) option" where
  "core_acquire_bus others h w =
     (if tx_access (tech (w_common w) WLAN_ID) then Some (True, w)
      else do { w1 \<leftarrow> on_common (ask_bus (update_tx_status h) WLAN_ID) w;
                if tx_access (tech (w_common w1) WLAN_ID) then Some (True, w1)
                else (let w2 = others (w1\<lparr>w_common := log (Wait_event WLAN_ID)
                                  (upd_tech WLAN_ID (\<lambda>t. t\<lparr>deregister_flags := True\<rparr>) (w_common w1))\<rparr>)
                      in Some (\<not> deregister_flags (tech (w_common w2) WLAN_ID) \<and>
                               tx_access (tech (w_common w2) WLAN_ID), w2)) })"

section \<open>Room in the device\<close>

text \<open>
  Reading the buffer status of an SDIO device; the result is the new \<^verbatim>\<open>counter\<close>, \<open>None\<close>
  when the loop is left.
\<close>

definition poll_buffer_status :: "host \<Rightarrow> wlan_adapter \<Rightarrow> u8 option \<times> wlan_adapter" where
  "poll_buffer_status h w =
     (case read_register h (buffer_status_register w) (w_common w) of
        ((s, st), a) \<Rightarrow>
          (let w1 = w\<lparr>w_common := a, buf_status_updated := False\<rparr> in
           if status_u8 s \<noteq> 0 then (None, w1)
           else if bit st 2 then
             (None, w1\<lparr>mgmt_buf_full_counter := (if mgmt_buffer_full w1 then id else (+) 1) (mgmt_buf_full_counter w1),
                       mgmt_buffer_full := True\<rparr>)
           else
             (let w2 = w1\<lparr>mgmt_buffer_full := False,
                          no_buffer_fulls := (if \<not> bit st 1 \<and> \<not> bit st 0 then (+) 1 else id) (no_buffer_fulls w1),
                          buf_full_counter := (if bit st 1 \<and> \<not> buffer_full w1 then (+) 1 else id) (buf_full_counter w1),
                          buffer_full := bit st 1,
                          buf_semi_full_counter := (if bit st 0 \<and> \<not> semi_buffer_full w1 then (+) 1 else id) (buf_semi_full_counter w1),
                          semi_buffer_full := bit st 0\<rparr>
              in (Some (if semi_buffer_full w2 then 1 else 4), w2))))"

text \<open>
  The check before a packet is taken: \<open>Some counter\<close> when it may be. A USB device is asked
  for its fill level instead.
\<close>

definition sdio_room :: "host \<Rightarrow> nat \<Rightarrow> u8 \<Rightarrow> wlan_adapter \<Rightarrow> u8 option \<times> wlan_adapter" where
  "sdio_room h q_num counter w =
     (case (if buf_status_updated w \<or> counter = 0 then poll_buffer_status h w else (Some counter, w)) of
        (None, w1) \<Rightarrow> (None, w1)
      | (Some c, w1) \<Rightarrow>
          if q_num = MGMT_SOFT_Q \<and> mgmt_buffer_full w1 then (None, w1)
          else if buffer_full w1 \<and> q_num \<noteq> MGMT_SOFT_Q then (None, w1)
          else (Some c, w1))"

definition usb_room :: "core_host \<Rightarrow> wlan_adapter \<Rightarrow> u8 option \<times> wlan_adapter" where
  "usb_room h w =
     (let counter = ch_usb_buf_status h (trace (w_common w)) in
      if 15 \<le> counter
      then (None, w\<lparr>w_common := upd_tech WLAN_ID (\<lambda>t. t\<lparr>pkt_write_pending := True\<rparr>) (w_common w)\<rparr>)
      else (Some counter, w))"

definition device_room :: "core_host \<Rightarrow> nat \<Rightarrow> u8 \<Rightarrow> wlan_adapter \<Rightarrow> u8 option \<times> wlan_adapter" where
  "device_room h q_num counter w =
     (case host_intf_type (w_common w) of
        HOST_INTF_SDIO \<Rightarrow> sdio_room (ch_host h) q_num counter w | HOST_INTF_USB \<Rightarrow> usb_room h w)"

section \<open>Waking the station\<close>

definition asleep_sta :: "wlan_ps \<Rightarrow> nat option" where
  "asleep_sta s =
     (case filter (\<lambda>i. iv_opmode (the_vap s i) = M_STA \<and> ps_state (the_vap s i) = DEV_IN_PWR_SVE \<and>
                       iv_state (the_vap s i) \<noteq> S_RUN) [0..<length (ic_vaps s)] of
        [] \<Rightarrow> None | i # _ \<Rightarrow> Some i)"

text \<open>The loop leaves \<^verbatim>\<open>vap\<close> at the interface it woke, or NULL.\<close>

definition wake_for_pending :: "core_host \<Rightarrow> nat option \<Rightarrow> wlan_adapter \<Rightarrow> (nat option \<times> wlan_adapter) option" where
  "wake_for_pending h vap w =
     (if w_fsm_state w \<noteq> FSM_MAC_INIT_DONE then Some (vap, w)
      else (case asleep_sta (w_ps w) of
              None \<Rightarrow> Some (None, w)
            | Some v \<Rightarrow>
                do { w1 \<leftarrow> call_ps (ch_host h) (update_pwr_save_status (ch_ps h) v PS_DISABLE MGMT_PENDING_PATH) w;
                     Some (Some v, w1) }))"

section \<open>Sending one packet\<close>

definition send_to_bus :: "host \<Rightarrow> netbuf \<Rightarrow> wlan_adapter \<Rightarrow> wlan_adapter option" where
  "send_to_bus h nb = on_common (\<lambda>a. map_option snd (send_pkt_to_coex h nb WLAN_Q a))"

definition on_sdio :: "wlan_adapter \<Rightarrow> bool" where
  "on_sdio w \<longleftrightarrow> host_intf_type (w_common w) = HOST_INTF_SDIO"

definition free_sent :: "netbuf \<Rightarrow> wlan_adapter \<Rightarrow> wlan_adapter" where
  "free_sent nb w = (if on_sdio w then log_common (Free_pkt (nb_data nb)) w else w)"

text \<open>A queued sleep request that goes out moves the power save state on.\<close>

definition note_sleep_request :: "netbuf \<Rightarrow> nat option \<Rightarrow> wlan_adapter \<Rightarrow> (nat option \<times> wlan_adapter) option" where
  "note_sleep_request nb vap w =
     do { b2 \<leftarrow> rd8 (nb_data nb) 2;
          if b2 \<noteq> WAKEUP_SLEEP_REQUEST then Some (vap, w)
          else do { b16 \<leftarrow> rd8 (nb_data nb) 16;
                    deep \<leftarrow> (if b16 = 0 then do { b18 \<leftarrow> rd8 (nb_data nb) 18; Some (b18 = DEEP_SLEEP) } else Some False);
                    let v = sta_vap (w_ps w);
                    Some (v, if deep then w
                             else (case v of
                                     Some i \<Rightarrow> if ps_state (the_vap (w_ps w) i) = PS_EN_REQ_QUEUED
                                               then w\<lparr>w_ps := set_ps_state i PS_EN_REQ_SENT (w_ps w)\<rparr> else w
                                   | None \<Rightarrow> w)) } }"

text \<open>On USB the state changes before the packet goes out, on SDIO after it.\<close>

definition core_internal_pkt :: "host \<Rightarrow> netbuf \<Rightarrow> nat option \<Rightarrow> wlan_adapter \<Rightarrow> (nat option \<times> wlan_adapter) option" where
  "core_internal_pkt h nb vap w =
     (if on_sdio w
      then do { w1 \<leftarrow> send_to_bus h nb w; (v, w2) \<leftarrow> note_sleep_request nb vap w1; Some (v, free_sent nb w2) }
      else do { (v, w1) \<leftarrow> note_sleep_request nb vap w; w2 \<leftarrow> send_to_bus h nb w1; Some (v, free_sent nb w2) })"

text \<open>
  The debug dump of a management frame looks at its type, and at the Ethernet type of the
  three types under which EAPOL frames appear: these reads can fault.
\<close>

definition onair_mgmt_dump :: "bytes \<Rightarrow> u8 \<Rightarrow> unit option" where
  "onair_mgmt_dump d extnd_size =
     (let i = FRAME_DESC_SZ + unat extnd_size in
      do { b \<leftarrow> rd8 d i;
           if b = 0xb0 \<or> b = 0x00 \<or> b = 0x10
           then do { x \<leftarrow> rd8 d (i + 12);
                     if x \<noteq> 0x88 then do { _ \<leftarrow> rd8 d (i + 13); Some () } else Some () }
           else Some () })"

definition core_mgmt_pkt :: "host \<Rightarrow> netbuf \<Rightarrow> wlan_adapter \<Rightarrow> wlan_adapter option" where
  "core_mgmt_pkt h nb w =
     do { extnd \<leftarrow> rd8 (nb_data nb) 4; _ \<leftarrow> onair_mgmt_dump (nb_data nb) extnd;
          w1 \<leftarrow> send_to_bus h nb w; Some (free_sent nb w1) }"

text \<open>A data packet that goes nowhere is freed and the lock released.\<close>

definition drop_data_pkt :: "netbuf \<Rightarrow> wlan_adapter \<Rightarrow> wlan_adapter" where
  "drop_data_pkt nb w = log_common (Release Ic_lock_vap) (log_common (Free_pkt (nb_data nb)) w)"

text \<open>
  The queue of the interface is restarted when it has drained enough; the lengths are
  compared as signed numbers.
\<close>

definition restart_txq :: "nat \<Rightarrow> nat \<Rightarrow> nat \<Rightarrow> wlan_adapter \<Rightarrow> wlan_adapter" where
  "restart_txq q_num vap_id v w =
     (if snd (hal_vap w vap_id) = Some v \<and> int (hal_queue_len w q_num) < uint (host_txq_maxlen w q_num) - 500
      then w\<lparr>ifp_txq_stopped := (ifp_txq_stopped w)(v := False),
             stop_udp_pkts := (stop_udp_pkts w)(v := (stop_udp_pkts w v)(q_num := False)),
             stop_per_q := (stop_per_q w)(v := (stop_per_q w v)(q_num := False))\<rparr>
      else w)"

definition sta_gone :: "netbuf \<Rightarrow> nat \<Rightarrow> u8 \<Rightarrow> wlan_adapter \<Rightarrow> bool option" where
  "sta_gone nb v sta_id w =
     (if nb_flags nb AND ONEBOX_BROADCAST_PKT \<noteq> 0 \<and> iv_opmode (the_vap (w_ps w) v) = M_HOSTAP then Some False
      else if max_stations_supported w \<le> ucast sta_id then Some True
      else if 4 \<le> unat sta_id div 32 then None
      else Some (\<not> bit (sta_connected_bitmap w (unat sta_id div 32)) (unat sta_id mod 32)))"

definition core_data_pkt :: "host \<Rightarrow> nat \<Rightarrow> netbuf \<Rightarrow> nat option \<Rightarrow> wlan_adapter \<Rightarrow> (nat option \<times> wlan_adapter) option" where
  "core_data_pkt h q_num nb vap w =
     do { b9 \<leftarrow> rd8 (nb_data nb) 9; sta_id \<leftarrow> rd8 (nb_data nb) 15;
          let vap_id = unat (drop_bit 6 b9);
          let w1 = log_common (Acquire Ic_lock_vap) w;
          if \<not> fst (hal_vap w1 vap_id) then
            (if w_driver_mode w1 = 2
             then do { w2 \<leftarrow> send_to_bus h nb w1; Some (vap, log_common (Release Ic_lock_vap) w2) }
             else Some (vap, drop_data_pkt nb w1))
          else do { ni \<leftarrow> nb_ni nb;
                    case ni_vap w1 ni of
                      None \<Rightarrow> Some (None, drop_data_pkt nb w1)
                    | Some v \<Rightarrow>
                        do { let w2 = restart_txq q_num vap_id v w1;
                             gone \<leftarrow> sta_gone nb v sta_id w2;
                             if gone then Some (Some v, drop_data_pkt nb w2)
                             else do { w3 \<leftarrow> send_to_bus h nb (log_common (Release Ic_lock_vap) w2);
                                       Some (Some v, free_sent nb w3) } } } }"

definition count_sent :: "nat \<Rightarrow> wlan_adapter \<Rightarrow> wlan_adapter" where
  "count_sent q_num w =
     (if q_num < MAX_HW_QUEUES then w\<lparr>total_tx_data_sent := bump q_num (total_tx_data_sent w)\<rparr> else w)"

definition core_send_pkt :: "host \<Rightarrow> nat \<Rightarrow> netbuf \<Rightarrow> nat option \<Rightarrow> wlan_adapter \<Rightarrow> (nat option \<times> wlan_adapter) option" where
  "core_send_pkt h q_num nb vap w =
     (if q_num = MGMT_SOFT_Q \<and> nb_flags nb AND INTERNAL_MGMT_PKT \<noteq> 0 then core_internal_pkt h nb vap w
      else if q_num = MGMT_SOFT_Q then do { w1 \<leftarrow> core_mgmt_pkt h nb (count_sent q_num w); Some (vap, w1) }
      else core_data_pkt h q_num nb vap (count_sent q_num w))"

section \<open>The loop\<close>

text \<open>The station the loop looks at, and whether its sleep request is out.\<close>

definition sleep_pending :: "wlan_ps \<Rightarrow> nat option \<Rightarrow> bool" where
  "sleep_pending s vap \<longleftrightarrow>
     (case vap of None \<Rightarrow> False | Some v \<Rightarrow> ps_state (the_vap s v) = PS_EN_REQ_SENT \<and> iv_state (the_vap s v) \<noteq> S_RUN)"

definition queue_blocked :: "wlan_adapter \<Rightarrow> nat \<Rightarrow> bool" where
  "queue_blocked w q_num \<longleftrightarrow>
     (sta_data_block (w_ps w) \<and> q_num < NO_STA_DATA_QUEUES) \<or>
     (block_ap_queues (w_ps w) \<and> ((NO_STA_DATA_QUEUES < q_num \<and> q_num < MGMT_SOFT_Q) \<or> q_num = BEACON_HW_Q))"

datatype core_round = Core_next u8 "nat option" wlan_adapter | Core_left "nat option" wlan_adapter

text \<open>With room for it, the next packet of the chosen queue is taken and sent.\<close>

definition core_serve :: "core_host \<Rightarrow> nat \<Rightarrow> u8 \<Rightarrow> nat option \<Rightarrow> wlan_adapter \<Rightarrow> core_round option" where
  "core_serve h q_num c vap w =
     do { (vap1, w1) \<leftarrow> wake_for_pending h vap w;
          (nb, w2) \<leftarrow> core_dequeue_pkt q_num w1;
          case nb of
            None \<Rightarrow> Some (Core_left vap1 w2)
          | Some p \<Rightarrow> do { (vap2, w3) \<leftarrow> core_send_pkt (ch_host h) q_num p vap1 w2;
                            Some (Core_next (if on_sdio w2 then c - 1 else c) vap2 w3) } }"

definition core_round :: "core_host \<Rightarrow> u8 \<Rightarrow> nat option \<Rightarrow> wlan_adapter \<Rightarrow> core_round option" where
  "core_round h counter vap w =
     (if beacon_event w then Some (Core_left vap w)
      else
        (let vap1 = (if w_fsm_state w = FSM_MAC_INIT_DONE then sta_vap (w_ps w) else vap) in
         if w_fsm_state w = FSM_MAC_INIT_DONE \<and> sleep_pending (w_ps w) vap1 then Some (Core_left vap1 w)
         else
           (case core_determine_hal_queue w of (q_num, w1) \<Rightarrow>
              if q_num = INVALID_HAL_QUEUE then Some (Core_left vap1 w1)
              else if queue_blocked w1 q_num then Some (Core_left vap1 w1)
              else
                (case device_room h q_num counter w1 of
                   (None, w2) \<Rightarrow> Some (Core_left vap1 w2)
                 | (Some c, w2) \<Rightarrow> core_serve h q_num c vap1 w2))))"

text \<open>
  The loop with fuel: \<open>None\<close> is a fault or no fuel left. How much fuel is enough is the
  termination theorem below.
\<close>

fun core_loop :: "nat \<Rightarrow> core_host \<Rightarrow> u8 \<Rightarrow> nat option \<Rightarrow> wlan_adapter \<Rightarrow> (nat option \<times> wlan_adapter) option" where
  "core_loop 0 h counter vap w = None"
| "core_loop (Suc fuel) h counter vap w =
     do { r \<leftarrow> core_round h counter vap w;
          case r of Core_left vap' w' \<Rightarrow> Some (vap', w')
                  | Core_next c vap' w' \<Rightarrow> core_loop fuel h c vap' w' }"

text \<open>The end: a station that is asleep needs the bus no longer.\<close>

definition release_if_asleep :: "host \<Rightarrow> nat option \<Rightarrow> wlan_adapter \<Rightarrow> wlan_adapter option" where
  "release_if_asleep h vap w =
     (case vap of
        None \<Rightarrow> Some w
      | Some v \<Rightarrow>
          if iv_opmode (the_vap (w_ps w) v) = M_STA \<and> ps_state (the_vap (w_ps w) v) = DEV_IN_PWR_SVE
          then on_common (hand_back (update_tx_status h) WLAN_ID) w else Some w)"

definition core_qos_processor :: "nat \<Rightarrow> core_interference \<Rightarrow> core_host \<Rightarrow> wlan_adapter \<Rightarrow> wlan_adapter option" where
  "core_qos_processor fuel others h w =
     do { (go, w1) \<leftarrow> core_acquire_bus others (ch_host h) w;
          if \<not> go then Some w1
          else do { (vap, w2) \<leftarrow> core_loop fuel h 0 None w1; release_if_asleep (ch_host h) vap w2 } }"


section \<open>What the scheduler touches\<close>

text \<open>
  Its fields aside, the scheduler leaves the adapter alone: with the fields overwritten by
  the same values the two adapters are equal.
\<close>

lemma adjust_fold_frame:
  "(fst (fold (adjust_queue m) qs r))\<lparr>per_q_wt := p, pkt_contended := c\<rparr> = (fst r)\<lparr>per_q_wt := p, pkt_contended := c\<rparr>"
proof (induction qs arbitrary: r)
  case Nil
  show ?case by simp
next
  case (Cons ii qs)
  have "(fst (adjust_queue m ii r))\<lparr>per_q_wt := p, pkt_contended := c\<rparr> = (fst r)\<lparr>per_q_wt := p, pkt_contended := c\<rparr>"
    by (cases r) (simp add: adjust_queue_def)
  with Cons.IH [of "adjust_queue m ii r"] show ?case by simp
qed

lemma contention_round_frame:
  assumes "contention_round w m = (q, m', fresh, w')"
  shows "w'\<lparr>per_q_wt := p, pkt_contended := c\<rparr> = w\<lparr>per_q_wt := p, pkt_contended := c\<rparr>"
proof -
  have "w' = fst (fold (adjust_queue m') [0..<NUM_EDCA_QUEUES] (w\<lparr>pkt_contended := (pkt_contended w)(q := False)\<rparr>, False))"
    using assms by (auto simp: contention_round_def Let_def split: prod.splits)
  then show ?thesis by (simp only: adjust_fold_frame) simp
qed

lemma get_queue_num_frame:
  "(snd (get_queue_num w m))\<lparr>per_q_wt := p, pkt_contended := c\<rparr> = w\<lparr>per_q_wt := p, pkt_contended := c\<rparr>"
proof (induction w m rule: get_queue_num.induct)
  case (1 w m)
  obtain q m' fresh w' where r: "contention_round w m = (q, m', fresh, w')" by (metis prod_cases4)
  note w' = contention_round_frame [OF r, where p = p and c = c]
  show ?case
  proof (cases "hal_queue_len w' q = 0 \<and> fresh")
    case True
    then have "get_queue_num w m = get_queue_num w' m'" by (subst get_queue_num.simps) (simp add: r)
    with 1 [OF r [symmetric] refl refl] True w' show ?thesis by simp
  next
    case False
    then have "snd (get_queue_num w m) = w'" by (subst get_queue_num.simps) (auto simp: r)
    with w' show ?thesis by simp
  qed
qed

lemma get_queue_num_range: "fst (get_queue_num w m) < NUM_EDCA_QUEUES \<or> fst (get_queue_num w m) = INVALID_HAL_QUEUE"
proof (induction w m rule: get_queue_num.induct)
  case (1 w m)
  obtain q m' fresh w' where r: "contention_round w m = (q, m', fresh, w')" by (metis prod_cases4)
  show ?case
  proof (cases "hal_queue_len w' q = 0 \<and> fresh")
    case True
    then have "get_queue_num w m = get_queue_num w' m'" by (subst get_queue_num.simps) (simp add: r)
    with 1 [OF r [symmetric] refl refl] True show ?thesis by simp
  next
    case False
    then have "get_queue_num w m = (if hal_queue_len w' q = 0 then (INVALID_HAL_QUEUE, w') else (q, w'))"
      by (subst get_queue_num.simps) (auto simp: r)
    with contention_round_result(2) [OF r] show ?thesis by simp
  qed
qed

lemma hal_queue_frame:
  assumes "core_determine_hal_queue w = (q, w')"
  shows "w'\<lparr>per_q_wt := p, pkt_contended := c, pkt_cnt := n, selected_qnum := s\<rparr> =
           w\<lparr>per_q_wt := p, pkt_contended := c, pkt_cnt := n, selected_qnum := s\<rparr>"
    and "selected_qnum w < NUM_EDCA_QUEUES \<Longrightarrow>
           selected_qnum w' < NUM_EDCA_QUEUES \<and> (q < NUM_EDCA_QUEUES \<or> q = MGMT_SOFT_Q \<or> q = INVALID_HAL_QUEUE)"
proof -
  obtain q1 w1 where g: "get_queue_num w 0 = (q1, w1)" by fastforce
  from get_queue_num_frame [where w = w and m = 0] g have w1: "w1\<lparr>per_q_wt := p, pkt_contended := c\<rparr> = w\<lparr>per_q_wt := p, pkt_contended := c\<rparr>" for p c
    by simp
  then have w1n: "w1\<lparr>per_q_wt := p, pkt_contended := c, pkt_cnt := n, selected_qnum := s\<rparr> =
      w\<lparr>per_q_wt := p, pkt_contended := c, pkt_cnt := n, selected_qnum := s\<rparr>" for p c n s
    using arg_cong [OF w1 [where p = p and c = c], of "\<lambda>x. x\<lparr>pkt_cnt := n, selected_qnum := s\<rparr>"] by simp
  show "w'\<lparr>per_q_wt := p, pkt_contended := c, pkt_cnt := n, selected_qnum := s\<rparr> =
      w\<lparr>per_q_wt := p, pkt_contended := c, pkt_cnt := n, selected_qnum := s\<rparr>"
    using assms g w1n by (auto simp: core_determine_hal_queue_def set_burst_def Let_def split: if_splits)
  have "selected_qnum w1 = selected_qnum w" using arg_cong [OF w1, of selected_qnum] by simp
  then show "selected_qnum w' < NUM_EDCA_QUEUES \<and> (q < NUM_EDCA_QUEUES \<or> q = MGMT_SOFT_Q \<or> q = INVALID_HAL_QUEUE)"
    if "selected_qnum w < NUM_EDCA_QUEUES"
    using assms g get_queue_num_range [of w 0] that
    by (auto simp: core_determine_hal_queue_def set_burst_def Let_def split: if_splits)
qed


section \<open>What the steps of a round keep\<close>

text \<open>
  A step that takes no packet from the queues and leaves the semaphores as it found them,
  called without any of the three the core and the layers below it use.
\<close>

definition balanced :: "adapter \<Rightarrow> adapter \<Rightarrow> bool" where
  "balanced a a' \<longleftrightarrow>
     (\<forall>ls. locks_held (trace a) = Some ls \<longrightarrow> {Tx_access_lock, Transmit_lock, Ic_lock_vap} \<inter> set ls = {} \<longrightarrow>
           locks_held (trace a') = Some ls)"

definition quiet_step :: "wlan_adapter \<Rightarrow> wlan_adapter \<Rightarrow> bool" where
  "quiet_step w w' \<longleftrightarrow>
     host_tx_queue w' = host_tx_queue w \<and> selected_qnum w' = selected_qnum w \<and>
     max_stations_supported w' = max_stations_supported w \<and> asleep_vaps (w_ps w') = asleep_vaps (w_ps w) \<and>
     on_sdio w' = on_sdio w \<and> balanced (w_common w) (w_common w')"

lemma balanced_refl [simp]: "balanced a a"
  by (simp add: balanced_def)

lemma balanced_trans: "balanced a b \<Longrightarrow> balanced b c \<Longrightarrow> balanced a c"
  by (simp add: balanced_def)

lemma balanced_same: "locks_held (trace a') = locks_held (trace a) \<Longrightarrow> balanced a a'"
  by (simp add: balanced_def)

lemma quiet_step_refl [simp]: "quiet_step w w"
  by (simp add: quiet_step_def)

lemma quiet_step_trans: "quiet_step w w1 \<Longrightarrow> quiet_step w1 w2 \<Longrightarrow> quiet_step w w2"
  by (auto simp: quiet_step_def intro: balanced_trans)

lemma send_pkt_intf: "send_pkt_to_coex h nb q a = Some (s, a') \<Longrightarrow> host_intf_type a' = host_intf_type a"
  by (auto simp: send_pkt_to_coex_def coex_sched_pkt_xmit_def Let_def set_coex_queue_def
      split: if_splits bind_splits option.splits prod.splits dest!: host_intf_write_effect)

lemma send_pkt_direct_some:
  assumes "2 \<le> length (nb_data nb)"
  shows "\<exists>s a'. send_pkt_to_coex h nb WLAN_Q a = Some (s, a')"
proof (cases "global_priv (d_assets a)")
  case True
  then show ?thesis using send_pkt_to_coex_direct [of a WLAN_Q nb h] assms by blast
next
  case False
  then show ?thesis by (simp add: send_pkt_to_coex_def)
qed

lemma send_to_bus_effect:
  assumes "2 \<le> length (nb_data nb)"
  obtains a' where "send_to_bus h nb w = Some (w\<lparr>w_common := a'\<rparr>)"
    and "host_intf_type a' = host_intf_type (w_common w)"
    and "\<And>ls. locks_held (trace (w_common w)) = Some ls \<Longrightarrow> Transmit_lock \<notin> set ls \<Longrightarrow> locks_held (trace a') = Some ls"
proof -
  obtain s a' where "send_pkt_to_coex h nb WLAN_Q (w_common w) = Some (s, a')"
    using send_pkt_direct_some [OF assms] by blast
  then show ?thesis using that send_pkt_intf send_pkt_to_coex_locks
    by (auto simp: send_to_bus_def on_common_def)
qed

lemma quiet_common:
  assumes "host_intf_type a' = host_intf_type (w_common w)" "balanced (w_common w) a'"
  shows "quiet_step w (w\<lparr>w_common := a'\<rparr>)"
  using assms by (simp add: quiet_step_def on_sdio_def)

lemma send_to_bus_quiet:
  assumes "2 \<le> length (nb_data nb)"
  shows "\<exists>w'. send_to_bus h nb w = Some w' \<and> quiet_step w w'"
proof (rule send_to_bus_effect [OF assms, of h w])
  fix a'
  assume "send_to_bus h nb w = Some (w\<lparr>w_common := a'\<rparr>)" "host_intf_type a' = host_intf_type (w_common w)"
    and "\<And>ls. locks_held (trace (w_common w)) = Some ls \<Longrightarrow> Transmit_lock \<notin> set ls \<Longrightarrow> locks_held (trace a') = Some ls"
  then show ?thesis using quiet_common [of a' w] by (auto simp: balanced_def)
qed

lemma free_sent_quiet [simp]: "quiet_step w (free_sent nb w)"
  unfolding free_sent_def log_common_def
  by (auto intro!: quiet_common balanced_same simp del: locks_held.simps)

lemma count_sent_quiet [simp]: "quiet_step w (count_sent q w)"
  by (simp add: count_sent_def quiet_step_def on_sdio_def)

lemma note_sleep_request_quiet:
  assumes "19 \<le> length (nb_data nb)"
  shows "\<exists>v w'. note_sleep_request nb vap w = Some (v, w') \<and> quiet_step w w'"
proof -
  have "asleep_vaps (set_ps_state i PS_EN_REQ_SENT s) = asleep_vaps s"
    if "ps_state (the_vap s i) = PS_EN_REQ_QUEUED" for i s
  proof -
    have "sum_list (map f ((ic_vaps s)[i := x])) = sum_list (map f (ic_vaps s))"
      if "f x = f (the_vap s i)" for f :: "vap \<Rightarrow> nat" and x
      using that by (cases "i < length (ic_vaps s)")
        (simp_all add: map_update sum_list_update list_update_beyond list_update_same_conv elem_le_sum_list)
    with that show ?thesis by (simp add: asleep_vaps_def upd_vap_def)
  qed
  then show ?thesis using assms
    by (auto simp: note_sleep_request_def quiet_step_def on_sdio_def Let_def split: option.split)
qed

lemma internal_pkt_quiet:
  assumes "19 \<le> length (nb_data nb)"
  shows "\<exists>v w'. core_internal_pkt h nb vap w = Some (v, w') \<and> quiet_step w w'"
proof (cases "on_sdio w")
  case True
  obtain w1 where 1: "send_to_bus h nb w = Some w1" "quiet_step w w1" using send_to_bus_quiet [of nb h w] assms by auto
  obtain v w2 where 2: "note_sleep_request nb vap w1 = Some (v, w2)" "quiet_step w1 w2"
    using note_sleep_request_quiet [OF assms] by blast
  from True 1 2 quiet_step_trans [OF quiet_step_trans [OF 1(2) 2(2)] free_sent_quiet [of w2 nb]]
  show ?thesis by (simp add: core_internal_pkt_def)
next
  case False
  obtain v w1 where 1: "note_sleep_request nb vap w = Some (v, w1)" "quiet_step w w1"
    using note_sleep_request_quiet [OF assms] by blast
  obtain w2 where 2: "send_to_bus h nb w1 = Some w2" "quiet_step w1 w2" using send_to_bus_quiet [of nb h w1] assms by auto
  from False 1 2 quiet_step_trans [OF quiet_step_trans [OF 1(2) 2(2)] free_sent_quiet [of w2 nb]]
  show ?thesis by (simp add: core_internal_pkt_def)
qed

lemma onair_mgmt_dump_some:
  "30 + unat e \<le> length d \<Longrightarrow> onair_mgmt_dump d e = Some ()"
  by (simp add: onair_mgmt_dump_def Let_def)

lemma mgmt_pkt_quiet:
  assumes "30 + unat (nb_data nb ! 4) \<le> length (nb_data nb)"
  shows "\<exists>w'. core_mgmt_pkt h nb w = Some w' \<and> quiet_step w w'"
proof -
  obtain w1 where 1: "send_to_bus h nb w = Some w1" "quiet_step w w1" using send_to_bus_quiet [of nb h w] assms by auto
  from 1(1) quiet_step_trans [OF 1(2) free_sent_quiet [of w1 nb]] assms onair_mgmt_dump_some [OF assms] show ?thesis
    by (simp add: core_mgmt_pkt_def)
qed

text \<open>Under the lock of the interfaces, which every branch releases.\<close>

lemma drop_data_pkt_locks:
  "Ic_lock_vap \<notin> set ls \<Longrightarrow> locks_held (trace (w_common w)) = Some (Ic_lock_vap # ls) \<Longrightarrow>
     locks_held (trace (w_common (drop_data_pkt nb w))) = Some ls"
  by (simp add: drop_data_pkt_def)

lemma restart_txq_sel [simp]:
  "w_common (restart_txq q i v w) = w_common w" "host_tx_queue (restart_txq q i v w) = host_tx_queue w"
  "w_ps (restart_txq q i v w) = w_ps w" "selected_qnum (restart_txq q i v w) = selected_qnum w"
  "max_stations_supported (restart_txq q i v w) = max_stations_supported w"
  "ni_vap (restart_txq q i v w) = ni_vap w"
  by (simp_all add: restart_txq_def)

lemma restart_txq_quiet [simp]: "quiet_step w (restart_txq q i v w)"
  by (simp add: quiet_step_def on_sdio_def)

lemma drop_locked_quiet:
  assumes "quiet_step (log_common (Acquire Ic_lock_vap) w) w1" "w_common w1 = log (Acquire Ic_lock_vap) (w_common w)"
  shows "quiet_step w (drop_data_pkt nb w1)"
  using assms by (auto simp: quiet_step_def drop_data_pkt_def on_sdio_def balanced_def)

lemma max_stations_bound:
  fixes b :: u8
  assumes "m \<le> (128 :: u32)" "\<not> m \<le> ucast b"
  shows "unat b div 32 < 4"
proof -
  have "unat (ucast b :: u32) = unat b" by (simp add: unat_ucast_widen)
  with assms have "unat b < 128" by (simp add: word_le_nat_alt not_le)
  then show ?thesis by simp
qed

lemma sta_gone_some:
  assumes "max_stations_supported w \<le> 128"
  shows "\<exists>g. sta_gone nb v sta_id w = Some g"
  using max_stations_bound [OF assms, of sta_id] by (auto simp: sta_gone_def)

lemma locked_send_quiet:
  assumes "2 \<le> length (nb_data nb)"
  shows "\<exists>w2. send_to_bus h nb (log_common (Acquire Ic_lock_vap) w) = Some w2 \<and>
              quiet_step w (log_common (Release Ic_lock_vap) w2)"
proof (rule send_to_bus_effect [OF assms, of h "log_common (Acquire Ic_lock_vap) w"])
  fix a'
  assume s: "send_to_bus h nb (log_common (Acquire Ic_lock_vap) w) = Some (log_common (Acquire Ic_lock_vap) w\<lparr>w_common := a'\<rparr>)"
    and i: "host_intf_type a' = host_intf_type (w_common (log_common (Acquire Ic_lock_vap) w))"
    and l: "\<And>ls. locks_held (trace (w_common (log_common (Acquire Ic_lock_vap) w))) = Some ls \<Longrightarrow>
              Transmit_lock \<notin> set ls \<Longrightarrow> locks_held (trace a') = Some ls"
  have "balanced (w_common w) (log (Release Ic_lock_vap) a')"
    unfolding balanced_def
  proof (intro allI impI)
    fix ls
    assume "locks_held (trace (w_common w)) = Some ls" "{Tx_access_lock, Transmit_lock, Ic_lock_vap} \<inter> set ls = {}"
    then show "locks_held (trace (log (Release Ic_lock_vap) a')) = Some ls"
      using l [of "Ic_lock_vap # ls"] by simp
  qed
  with s i show ?thesis
    by (simp add: quiet_step_def on_sdio_def log_common_def)
qed

lemma release_locked_quiet: "quiet_step w (log_common (Release Ic_lock_vap) (restart_txq q i v (log_common (Acquire Ic_lock_vap) w)))"
  by (auto simp: quiet_step_def on_sdio_def balanced_def)

lemma data_pkt_quiet:
  assumes "16 \<le> length (nb_data nb)" "nb_ni nb \<noteq> None" "max_stations_supported w \<le> 128"
  shows "\<exists>v w'. core_data_pkt h q nb vap w = Some (v, w') \<and> quiet_step w w'"
proof -
  let ?i = "unat (drop_bit 6 (nb_data nb ! 9))"
  let ?w1 = "log_common (Acquire Ic_lock_vap) w"
  have max1: "max_stations_supported ?w1 = max_stations_supported w" by (simp add: log_common_def)
  have rd: "rd8 (nb_data nb) 9 = Some (nb_data nb ! 9)" "rd8 (nb_data nb) 15 = Some (nb_data nb ! 15)"
    using assms(1) by simp_all
  have dropped: "quiet_step w (drop_data_pkt nb ?w1)" by (rule drop_locked_quiet) simp_all
  show ?thesis
  proof (cases "fst (hal_vap ?w1 ?i)")
    case False
    obtain w2 where "send_to_bus h nb ?w1 = Some w2" "quiet_step w (log_common (Release Ic_lock_vap) w2)"
      using locked_send_quiet [of nb h w] assms(1) by auto
    with False rd dropped show ?thesis by (simp add: core_data_pkt_def Let_def)
  next
    case True
    obtain ni where ni: "nb_ni nb = Some ni" using assms(2) by auto
    show ?thesis
    proof (cases "ni_vap ?w1 ni")
      case None
      with True rd ni dropped show ?thesis by (simp add: core_data_pkt_def Let_def)
    next
      case (Some v)
      let ?w2 = "restart_txq q ?i v ?w1"
      obtain g where g: "sta_gone nb v (nb_data nb ! 15) ?w2 = Some g"
        using sta_gone_some [of ?w2 nb v] assms(3) max1 by auto
      have d: "quiet_step w (drop_data_pkt nb ?w2)" by (rule drop_locked_quiet) simp_all
      obtain w3 where w3: "send_to_bus h nb (log_common (Release Ic_lock_vap) ?w2) = Some w3"
          "quiet_step (log_common (Release Ic_lock_vap) ?w2) w3"
        using send_to_bus_quiet [of nb h "log_common (Release Ic_lock_vap) ?w2"] assms(1) by auto
      have q: "quiet_step w (free_sent nb w3)"
        by (rule quiet_step_trans [OF quiet_step_trans [OF release_locked_quiet w3(2)] free_sent_quiet])
      from True rd ni Some g d w3(1) q show ?thesis by (simp add: core_data_pkt_def Let_def)
    qed
  qed
qed

text \<open>The packets the core can handle without a fault.\<close>

definition core_pkt_ok :: "nat \<Rightarrow> netbuf \<Rightarrow> bool" where
  "core_pkt_ok q nb \<longleftrightarrow>
     (if q = MGMT_SOFT_Q
      then 19 \<le> length (nb_data nb) \<and>
           (nb_flags nb AND INTERNAL_MGMT_PKT = 0 \<longrightarrow> 30 + unat (nb_data nb ! 4) \<le> length (nb_data nb))
      else 16 \<le> length (nb_data nb) \<and> nb_ni nb \<noteq> None)"

definition core_ok :: "wlan_adapter \<Rightarrow> bool" where
  "core_ok w \<longleftrightarrow>
     selected_qnum w < NUM_EDCA_QUEUES \<and> max_stations_supported w \<le> 128 \<and>
     (\<forall>q. q < NUM_EDCA_QUEUES \<or> q = MGMT_SOFT_Q \<longrightarrow> (\<forall>nb\<in>set (host_tx_queue w q). core_pkt_ok q nb))"

definition core_pending :: "wlan_adapter \<Rightarrow> nat" where
  "core_pending w = (\<Sum>q<NUM_EDCA_QUEUES. hal_queue_len w q) + hal_queue_len w MGMT_SOFT_Q + asleep_vaps (w_ps w)"

lemma send_pkt_quiet:
  assumes "core_pkt_ok q nb" and "max_stations_supported w \<le> 128"
  shows "\<exists>v w'. core_send_pkt h q nb vap w = Some (v, w') \<and> quiet_step w w'"
proof -
  have "max_stations_supported (count_sent q w) \<le> 128" using assms(2) by (simp add: count_sent_def)
  then show ?thesis
    using assms internal_pkt_quiet [of nb h vap w] mgmt_pkt_quiet [of nb h "count_sent q w"]
      data_pkt_quiet [of nb "count_sent q w" h q vap] quiet_step_trans [OF count_sent_quiet [of w q]]
    by (fastforce simp: core_send_pkt_def core_pkt_ok_def split: if_splits)
qed


section \<open>One round and the whole run\<close>

lemma quiet_core_ok: "quiet_step w w' \<Longrightarrow> core_ok w \<Longrightarrow> core_ok w' \<and> core_pending w' = core_pending w"
  by (simp add: quiet_step_def core_ok_def core_pending_def)

lemma poll_quiet: "quiet_step w (snd (poll_buffer_status h w))"
  by (auto simp: poll_buffer_status_def read_register_def quiet_step_def on_sdio_def Let_def
      intro!: balanced_same simp del: locks_held.simps split: prod.split)

lemma sdio_room_quiet: "quiet_step w (snd (sdio_room h q c w))"
proof -
  obtain x w1 where r: "(if buf_status_updated w \<or> c = 0 then poll_buffer_status h w else (Some c, w)) = (x, w1)" by fastforce
  with poll_quiet [of w h] have "quiet_step w w1" by (auto split: if_splits)
  then show ?thesis by (simp add: sdio_room_def r split: option.split)
qed

lemma usb_room_quiet: "quiet_step w (snd (usb_room h w))"
  by (auto simp: usb_room_def quiet_step_def on_sdio_def Let_def intro!: balanced_same simp del: locks_held.simps)

lemma device_room_quiet: "quiet_step w (snd (device_room h q c w))"
  by (simp add: device_room_def sdio_room_quiet usb_room_quiet split: host_intf.split)

text \<open>
  What may change the queues: at most one request for each station that stops sleeping, so
  the work left does not grow.
\<close>

definition work_step :: "wlan_adapter \<Rightarrow> wlan_adapter \<Rightarrow> bool" where
  "work_step w w' \<longleftrightarrow>
     core_ok w' \<and> core_pending w' \<le> core_pending w \<and> on_sdio w' = on_sdio w \<and> balanced (w_common w) (w_common w') \<and>
     w_driver_mode w' = w_driver_mode w \<and> (\<forall>q. q \<noteq> MGMT_SOFT_Q \<longrightarrow> host_tx_queue w' q = host_tx_queue w q)"

lemma frames_added_work:
  assumes "frames_added n (w\<lparr>w_ps := s'\<rparr>) w'" "core_ok w" "n + asleep_vaps s' \<le> asleep_vaps (w_ps w)"
  shows "work_step w w'"
proof -
  obtain ps rs es where w': "w' = w\<lparr>w_ps := s', host_tx_queue := (host_tx_queue w)(MGMT_SOFT_Q := ps),
      w_common := (w_common w)\<lparr>trace := es @ trace (w_common w)\<rparr>\<rparr>"
    and ps: "mset ps = mset (host_tx_queue w MGMT_SOFT_Q) + mset rs" "length rs \<le> n" "list_all request_pkt rs"
    and es: "set es \<subseteq> {Set_event Wlan_scheduler_event}"
    using assms(1) by (auto simp: frames_added_def)
  have "length ps = hal_queue_len w MGMT_SOFT_Q + length rs" "set ps = set (host_tx_queue w MGMT_SOFT_Q) \<union> set rs"
    using arg_cong [OF ps(1), of size] arg_cong [OF ps(1), of set_mset] by (simp_all add: netbuf_queue_len_def)
  note ps' = this ps(2,3)
  have "core_ok w'" using assms(2) ps'(2,4) by (fastforce simp: core_ok_def w' request_pkt_def core_pkt_ok_def list_all_iff)
  moreover have "core_pending w' \<le> core_pending w"
    using ps'(1,3) assms(3) by (simp add: core_pending_def w' netbuf_queue_len_def)
  ultimately show ?thesis
    using schedule_events_locks [OF es] by (auto simp: work_step_def w' on_sdio_def intro!: balanced_same)
qed

lemma asleep_sta_some:
  assumes "asleep_sta s = Some v"
  shows "v < length (ic_vaps s) \<and> iv_opmode (the_vap s v) = M_STA \<and> ps_state (the_vap s v) = DEV_IN_PWR_SVE \<and>
         iv_state (the_vap s v) \<noteq> S_RUN"
proof -
  let ?P = "\<lambda>i. iv_opmode (the_vap s i) = M_STA \<and> ps_state (the_vap s i) = DEV_IN_PWR_SVE \<and> iv_state (the_vap s i) \<noteq> S_RUN"
  obtain vs where "filter ?P [0..<length (ic_vaps s)] = v # vs"
    using assms by (auto simp: asleep_sta_def split: list.splits)
  then have "v \<in> set (filter ?P [0..<length (ic_vaps s)])" by (simp only: list.set_intros)
  then show ?thesis by simp
qed

lemma wake_for_pending_work:
  assumes "core_ok w"
  shows "\<exists>v w'. wake_for_pending h vap w = Some (v, w') \<and> work_step w w'"
proof (cases "w_fsm_state w \<noteq> FSM_MAC_INIT_DONE \<or> asleep_sta (w_ps w) = None")
  case True
  with assms show ?thesis by (auto simp: wake_for_pending_def work_step_def)
next
  case False
  then obtain v where v: "asleep_sta (w_ps w) = Some v" by auto
  obtain s' evs where s': "update_pwr_save_status (ch_ps h) v PS_DISABLE MGMT_PENDING_PATH (w_ps w) = Some s'"
      "ps_trace s' = evs @ ps_trace (w_ps w)" "length (requests evs) + asleep_vaps s' \<le> asleep_vaps (w_ps w)"
    using wake_for_pending_adds [of v "w_ps w" "ch_ps h"] asleep_sta_some [OF v] by blast
  obtain w' n where w': "call_ps (ch_host h) (update_pwr_save_status (ch_ps h) v PS_DISABLE MGMT_PENDING_PATH) w = Some w'"
      "n \<le> length (requests evs)" "frames_added n (w\<lparr>w_ps := s'\<rparr>) w'"
    using call_ps_adds [where f = "update_pwr_save_status (ch_ps h) v PS_DISABLE MGMT_PENDING_PATH", OF s'(1,2), of "ch_host h"] by blast
  have "work_step w w'" using frames_added_work [where n = n and w = w and s' = s' and w' = w'] assms w'(2,3) s'(3) by simp
  with False v w'(1) show ?thesis by (simp add: wake_for_pending_def)
qed

lemma dequeue_sum:
  assumes "q < (n :: nat)" "f q = x # xs"
  shows "(\<Sum>i<n. length ((f(q := xs)) i)) + 1 = (\<Sum>i<n. length (f i))"
proof -
  have "(\<Sum>i<n. length (g i)) = length (g q) + (\<Sum>i\<in>{..<n} - {q}. length (g i))" for g :: "nat \<Rightarrow> 'a list"
    using assms(1) by (intro sum.remove) auto
  from this [of f] this [of "f(q := xs)"] assms(2) show ?thesis by simp
qed

lemma core_dequeue_cases:
  assumes "core_ok w" "q < NUM_EDCA_QUEUES \<or> q = MGMT_SOFT_Q"
  obtains (empty) "core_dequeue_pkt q w = Some (None, w)"
  | (packet) p ps where "host_tx_queue w q = p # ps" "core_dequeue_pkt q w = Some (Some p, upd_queue q ps w)"
      "core_ok (upd_queue q ps w)" "Suc (core_pending (upd_queue q ps w)) = core_pending w"
      "core_pkt_ok q p"
proof (cases "host_tx_queue w q")
  case Nil
  moreover from this have "upd_queue q [] w = w" by (simp add: upd_queue_def fun_upd_idem)
  ultimately show ?thesis using assms(2) by (intro empty) (auto simp: core_dequeue_pkt_def dequeue_pkt_def)
next
  case (Cons p ps)
  have "core_ok (upd_queue q ps w)"
    using assms(1) Cons by (auto simp: core_ok_def)
  moreover have "Suc (core_pending (upd_queue q ps w)) = core_pending w"
    using assms(2) Cons dequeue_sum [of q NUM_EDCA_QUEUES "host_tx_queue w" p ps]
    by (auto simp: core_pending_def netbuf_queue_len_def)
  moreover have "core_pkt_ok q p"
    using assms Cons by (auto simp: core_ok_def)
  ultimately show ?thesis using assms(2) Cons
    by (intro packet [of p ps]) (auto simp: core_dequeue_pkt_def dequeue_pkt_def)
qed

text \<open>The effect of a round on the state, whether or not it is the last.\<close>

definition round_state :: "core_round \<Rightarrow> wlan_adapter" where
  "round_state r = (case r of Core_next c v w \<Rightarrow> w | Core_left v w \<Rightarrow> w)"

lemma round_state_simps [simp]: "round_state (Core_next c v w) = w" "round_state (Core_left v w) = w"
  by (simp_all add: round_state_def)

definition progress :: "wlan_adapter \<Rightarrow> core_round \<Rightarrow> bool" where
  "progress w r \<longleftrightarrow>
     core_ok (round_state r) \<and> balanced (w_common w) (w_common (round_state r)) \<and>
     core_pending (round_state r) \<le> core_pending w \<and>
     (\<forall>c v w'. r = Core_next c v w' \<longrightarrow> core_pending w' < core_pending w)"

lemma quiet_left: "quiet_step w w' \<Longrightarrow> core_ok w \<Longrightarrow> progress w (Core_left v w')"
  using quiet_core_ok [of w w'] by (simp add: progress_def quiet_step_def)

lemma hal_queue_keeps:
  assumes "core_determine_hal_queue w = (q, w')" "core_ok w"
  shows "core_ok w' \<and> core_pending w' = core_pending w \<and> w_common w' = w_common w \<and> on_sdio w' = on_sdio w \<and>
         host_tx_queue w' = host_tx_queue w \<and> w_ps w' = w_ps w \<and> w_driver_mode w' = w_driver_mode w \<and>
         (q < NUM_EDCA_QUEUES \<or> q = MGMT_SOFT_Q \<or> q = INVALID_HAL_QUEUE)"
proof -
  note f = hal_queue_frame(1) [OF assms(1)]
  have "host_tx_queue w' = host_tx_queue w" "w_ps w' = w_ps w" "w_common w' = w_common w"
    "max_stations_supported w' = max_stations_supported w" "w_driver_mode w' = w_driver_mode w"
    using arg_cong [OF f, of host_tx_queue] arg_cong [OF f, of w_ps] arg_cong [OF f, of w_common]
      arg_cong [OF f, of max_stations_supported] arg_cong [OF f, of w_driver_mode] by simp_all
  with hal_queue_frame(2) [OF assms(1)] assms(2) show ?thesis
    by (simp add: core_ok_def core_pending_def on_sdio_def)
qed

lemma balanced_common: "w_common w' = w_common w \<Longrightarrow> balanced (w_common w) (w_common w')"
  by simp

lemma core_serve_progress:
  assumes "core_ok w" "q < NUM_EDCA_QUEUES \<or> q = MGMT_SOFT_Q"
  shows "\<exists>r. core_serve h q c vap1 w = Some r \<and> progress w r"
proof -
  obtain v w3 where w3: "wake_for_pending h vap1 w = Some (v, w3)" "work_step w w3"
    using wake_for_pending_work [OF assms(1)] by blast
  then have ok3: "core_ok w3" by (simp add: work_step_def)
  from ok3 assms(2) show ?thesis
  proof (cases rule: core_dequeue_cases)
    case empty
    with w3 show ?thesis by (simp add: core_serve_def progress_def work_step_def)
  next
    case (packet p ps)
    let ?w4 = "upd_queue q ps w3"
    have "max_stations_supported ?w4 \<le> 128" using packet(3) by (simp add: core_ok_def)
    from send_pkt_quiet [OF packet(5) this] obtain v' w5 where
        w5: "core_send_pkt (ch_host h) q p v ?w4 = Some (v', w5)" "quiet_step ?w4 w5" by blast
    have "balanced (w_common w) (w_common w5)"
      using w3(2) w5(2) by (auto simp: work_step_def quiet_step_def intro: balanced_trans)
    moreover have "core_ok w5 \<and> core_pending w5 < core_pending w"
      using quiet_core_ok [OF w5(2) packet(3)] packet(4) w3(2) by (simp add: work_step_def)
    ultimately show ?thesis using w3(1) packet(2) w5(1) by (simp add: core_serve_def progress_def)
  qed
qed

lemma progress_trans:
  "core_pending w1 = core_pending w \<Longrightarrow> balanced (w_common w) (w_common w1) \<Longrightarrow> progress w1 r \<Longrightarrow> progress w r"
  by (auto simp: progress_def intro: balanced_trans)

lemma core_round_progress:
  assumes "core_ok w"
  shows "\<exists>r. core_round h c vap w = Some r \<and> progress w r"
proof -
  let ?vap1 = "if w_fsm_state w = FSM_MAC_INIT_DONE then sta_vap (w_ps w) else vap"
  obtain q w1 where q: "core_determine_hal_queue w = (q, w1)" by fastforce
  note k = hal_queue_keeps [OF q assms]
  obtain c2 w2 where r: "device_room h q c w1 = (c2, w2)" by fastforce
  have q2: "quiet_step w1 w2" using device_room_quiet [of w1 h q c] r by simp
  have left: "progress w (Core_left v w)" "progress w (Core_left v w1)" "progress w (Core_left v w2)" for v
    using assms k quiet_left [OF quiet_step_refl assms] progress_trans [of w1 w] quiet_left [OF quiet_step_refl, of w1]
      quiet_left [OF q2] by simp_all
  have ok2: "core_ok w2" "core_pending w2 = core_pending w" "balanced (w_common w) (w_common w2)"
    using quiet_core_ok [OF q2] k q2 by (auto simp: quiet_step_def)
  have "core_round h c vap w =
      (if beacon_event w then Some (Core_left vap w)
       else if w_fsm_state w = FSM_MAC_INIT_DONE \<and> sleep_pending (w_ps w) ?vap1 then Some (Core_left ?vap1 w)
       else if q = INVALID_HAL_QUEUE \<or> queue_blocked w1 q then Some (Core_left ?vap1 w1)
       else case c2 of None \<Rightarrow> Some (Core_left ?vap1 w2) | Some c' \<Rightarrow> core_serve h q c' ?vap1 w2)"
    by (simp add: core_round_def q r Let_def split: option.split)
  moreover have "\<exists>r. core_serve h q c' ?vap1 w2 = Some r \<and> progress w r" if "q \<noteq> INVALID_HAL_QUEUE" for c'
    using core_serve_progress [OF ok2(1), of q h c' ?vap1] k that progress_trans [OF ok2(2,3)] by blast
  ultimately show ?thesis using left by (cases c2) auto
qed

lemma core_loop_progress:
  "core_ok w \<Longrightarrow> core_pending w < fuel \<Longrightarrow>
     \<exists>v w'. core_loop fuel h c vap w = Some (v, w') \<and> core_ok w' \<and> balanced (w_common w) (w_common w') \<and>
            core_pending w' \<le> core_pending w"
proof (induction fuel arbitrary: c vap w)
  case 0
  then show ?case by simp
next
  case (Suc fuel)
  obtain r where r: "core_round h c vap w = Some r" "progress w r" using core_round_progress [OF Suc.prems(1)] by blast
  show ?case
  proof (cases r)
    case (Core_left v w')
    with r show ?thesis by (auto simp: progress_def)
  next
    case (Core_next c' v w1)
    with r have w1: "core_ok w1" "core_pending w1 < core_pending w" "balanced (w_common w) (w_common w1)"
      by (simp_all add: progress_def)
    with Suc.prems(2) obtain v' w' where "core_loop fuel h c' v w1 = Some (v', w')" "core_ok w'"
        "balanced (w_common w1) (w_common w')" "core_pending w' \<le> core_pending w1"
      using Suc.IH [of w1 c' v] by auto
    with r Core_next w1 show ?thesis by (auto intro: balanced_trans)
  qed
qed


section \<open>Two bounds of the source\<close>

text \<open>The background queue of the access point escapes the block.\<close>

lemma ap_background_queue_not_blocked:
  "\<not> sta_data_block (w_ps w) \<Longrightarrow> \<not> queue_blocked w BK_Q_AP"
  by (simp add: queue_blocked_def)

text \<open>The bound of the queue number admits one past the array.\<close>

lemma core_queue_ten_outside_array:
  "core_queue_pkt nb NUM_SOFT_QUEUES w = None" "core_dequeue_pkt NUM_SOFT_QUEUES w = None"
  by (simp_all add: core_queue_pkt_def core_dequeue_pkt_def)

end
