(* ===== verification/Core_Run.thy ===== *)
theory Core_Run
  imports Core_Wlan "HOL-Library.Sublist"
begin

text \<open>
  What a run of the transmit side of the WLAN core achieves: it returns and leaves the
  semaphores as it found them, it frees every packet it takes exactly once, a sleep request
  leaves it as the frame the power save module built, and a station that is asleep gives the
  bus back.
\<close>

section \<open>A run returns\<close>

text \<open>The threads that run while the core waits keep its packets well formed.\<close>

definition fair_others :: "nat \<Rightarrow> core_interference \<Rightarrow> bool" where
  "fair_others n others \<longleftrightarrow>
     (\<forall>w. core_ok w \<and> core_pending w \<le> n \<longrightarrow>
          core_ok (others w) \<and> core_pending (others w) \<le> n \<and> balanced (w_common w) (w_common (others w)))"

lemma core_ok_common [simp]: "core_ok (w\<lparr>w_common := a\<rparr>) = core_ok w"
  by (simp add: core_ok_def)

lemma core_pending_common [simp]: "core_pending (w\<lparr>w_common := a\<rparr>) = core_pending w"
  by (simp add: core_pending_def)

lemma core_acquire_bus_returns:
  assumes "core_ok w" "core_pending w \<le> n" "fair_others n others"
  shows "\<exists>go w1. core_acquire_bus others h w = Some (go, w1) \<and> core_ok w1 \<and> core_pending w1 \<le> n \<and>
           balanced (w_common w) (w_common w1)"
proof (cases "tx_access (tech (w_common w) WLAN_ID)")
  case True
  with assms show ?thesis by (auto simp: core_acquire_bus_def)
next
  case False
  obtain a where a: "ask_bus (update_tx_status h) WLAN_ID (w_common w) = Some a"
    using arbiter.ask_answers by blast
  let ?v = "w\<lparr>w_common := log (Wait_event WLAN_ID) (upd_tech WLAN_ID (\<lambda>t. t\<lparr>deregister_flags := True\<rparr>) a)\<rparr>"
  have 1: "balanced (w_common w) a" using arbiter.ask_locks [OF a] by (simp add: balanced_def)
  have 2: "balanced a (w_common ?v)" by (intro balanced_same) (simp del: locks_held.simps)
  have "core_ok ?v" "core_pending ?v \<le> n" using assms by simp_all
  with assms(3) have 3: "core_ok (others ?v)" "core_pending (others ?v) \<le> n" "balanced (w_common ?v) (w_common (others ?v))"
    unfolding fair_others_def by blast+
  have "core_acquire_bus others h w =
      (if tx_access (tech a WLAN_ID) then Some (True, w\<lparr>w_common := a\<rparr>)
       else Some (\<not> deregister_flags (tech (w_common (others ?v)) WLAN_ID) \<and>
                  tx_access (tech (w_common (others ?v)) WLAN_ID), others ?v))"
    using False a by (simp add: core_acquire_bus_def on_common_def Let_def)
  with 1 3 balanced_trans [OF balanced_trans [OF 1 2] 3(3)] assms(1,2) show ?thesis by (cases "tx_access (tech a WLAN_ID)") auto
qed

lemma release_if_asleep_returns:
  "\<exists>a. release_if_asleep h vap w = Some (w\<lparr>w_common := a\<rparr>) \<and> balanced (w_common w) a"
proof -
  obtain a where a: "hand_back (update_tx_status h) WLAN_ID (w_common w) = Some a"
    using arbiter.back_answers by blast
  have b: "balanced (w_common w) a" using arbiter.back_locks [OF a] by (simp add: balanced_def)
  have "release_if_asleep h vap w = Some w \<or> release_if_asleep h vap w = Some (w\<lparr>w_common := a\<rparr>)"
    using a by (simp add: release_if_asleep_def on_common_def split: option.split)
  then show ?thesis
  proof
    assume "release_if_asleep h vap w = Some w"
    then show ?thesis by (intro exI [of _ "w_common w"]) simp
  next
    assume "release_if_asleep h vap w = Some (w\<lparr>w_common := a\<rparr>)"
    with b show ?thesis by blast
  qed
qed

lemma core_run_returns:
  assumes "core_ok w" "core_pending w \<le> n" "fair_others n others" "n < fuel"
  shows "\<exists>w'. core_qos_processor fuel others h w = Some w' \<and> core_ok w' \<and> core_pending w' \<le> n \<and>
           balanced (w_common w) (w_common w')"
proof -
  obtain go w1 where 1: "core_acquire_bus others (ch_host h) w = Some (go, w1)" "core_ok w1" "core_pending w1 \<le> n"
      "balanced (w_common w) (w_common w1)"
    using core_acquire_bus_returns [OF assms(1-3)] by blast
  show ?thesis
  proof (cases go)
    case False
    with 1 show ?thesis by (simp add: core_qos_processor_def)
  next
    case True
    obtain v w2 where 2: "core_loop fuel h 0 None w1 = Some (v, w2)" "core_ok w2"
        "balanced (w_common w1) (w_common w2)" "core_pending w2 \<le> core_pending w1"
      using core_loop_progress [of w1 fuel h 0 None] 1 assms(4) by force
    obtain a where "release_if_asleep (ch_host h) v w2 = Some (w2\<lparr>w_common := a\<rparr>)" "balanced (w_common w2) a"
      using release_if_asleep_returns by blast
    with True 1 2 show ?thesis by (auto simp: core_qos_processor_def intro: balanced_trans)
  qed
qed

text \<open>
  C17. Fuel above the work that waits (the packets of the eight data queues and the
  management queue, and one for each station that sleeps outside the RUN state) is enough for
  a run of the core: it returns, whatever the device answers and whether or not it gets the
  bus. It leaves every semaphore as it found it, and no more work than there was.
\<close>

theorem core_processor_returns:
  assumes "core_ok w" and "core_pending w \<le> n" and "fair_others n others" and "n < fuel"
    and "locks_held (trace (w_common w)) = Some ls"
    and "Tx_access_lock \<notin> set ls" and "Transmit_lock \<notin> set ls" and "Ic_lock_vap \<notin> set ls"
  shows "\<exists>w'. core_qos_processor fuel others h w = Some w' \<and> core_pending w' \<le> n \<and>
              locks_held (trace (w_common w')) = Some ls"
  using core_run_returns [OF assms(1-4)] assms(5-8) unfolding balanced_def by fastforce

text \<open>A run with three packets to send.\<close>

definition core_frame :: "u8 \<Rightarrow> netbuf" where
  "core_frame b = (fresh_netbuf (replicate 15 b @ [0]))\<lparr>nb_ni := Some 0\<rparr>"

definition core_sample :: wlan_adapter where
  "core_sample = sample_wlan\<lparr>host_tx_queue := (\<lambda>_. [])(BK_Q_STA := [core_frame 1], VO_Q_STA := [core_frame 2],
                   MGMT_SOFT_Q := [internal_mgmt_pkt (replicate 20 0)]), w_common := idle_adapter\<rparr>"

definition core_sample_host :: core_host where
  "core_sample_host = \<lparr>ch_host = calm_host, ch_ps = sample_ps_host, ch_usb_buf_status = (\<lambda>_. 0)\<rparr>"

lemma core_sample_ok: "core_ok core_sample" "core_pending core_sample = 3" "locks_held (trace (w_common core_sample)) = Some []"
  by (simp_all add: core_sample_def core_ok_def core_pkt_ok_def core_pending_def sample_wlan_def core_frame_def fresh_netbuf_def
      netbuf_queue_len_def idle_adapter_def asleep_vaps_def sample_ps_def sample_vap_def lessThan_nat_numeral lessThan_Suc)

lemma core_processor_returns_witness:
  "\<exists>w'. core_qos_processor 4 (\<lambda>w. w) core_sample_host core_sample = Some w' \<and> locks_held (trace (w_common w')) = Some []"
  using core_processor_returns [of core_sample 3 "\<lambda>w. w" 4 "[]" core_sample_host] core_sample_ok
  by (auto simp: fair_others_def)


section \<open>Every packet taken is freed once\<close>

fun freed_by :: "event \<Rightarrow> bytes list" where
  "freed_by (Free_pkt d) = [d]"
| "freed_by _ = []"

text \<open>The buffers freed so far, and the packets that wait in the queues of the core.\<close>

definition freed :: "history \<Rightarrow> bytes multiset" where
  "freed t = mset (concat (map freed_by t))"

definition core_waiting :: "wlan_adapter \<Rightarrow> netbuf multiset" where
  "core_waiting w = (\<Sum>q<NUM_EDCA_QUEUES. mset (host_tx_queue w q)) + mset (host_tx_queue w MGMT_SOFT_Q)"

lemma freed_Cons [simp]: "freed (e # t) = mset (freed_by e) + freed t"
  by (simp add: freed_def)

lemma freed_append [simp]: "freed (s @ t) = freed s + freed t"
  by (simp add: freed_def)

lemma freed_schedule: "set es \<subseteq> {Set_event Wlan_scheduler_event} \<Longrightarrow> freed (es @ t) = freed t"
  by (induction es) auto

text \<open>On SDIO the layers below free nothing.\<close>

lemma host_intf_write_freed:
  "host_intf_write_pkt h nb a = (s, a') \<Longrightarrow> host_intf_type a = HOST_INTF_SDIO \<Longrightarrow> freed (trace a') = freed (trace a)"
  by (auto simp: host_intf_write_pkt_def sdio_host_intf_write_pkt_def write_multiple_def Let_def
      split: host_intf.splits if_splits)

lemma send_to_bus_freed:
  assumes "send_to_bus h nb w = Some w'" "on_sdio w"
  shows "\<exists>a'. w' = w\<lparr>w_common := a'\<rparr> \<and> host_intf_type a' = HOST_INTF_SDIO \<and> freed (trace a') = freed (trace (w_common w))"
proof -
  obtain s a' where a': "send_pkt_to_coex h nb WLAN_Q (w_common w) = Some (s, a')" "w' = w\<lparr>w_common := a'\<rparr>"
    using assms(1) by (auto simp: send_to_bus_def on_common_def)
  have "host_intf_type a' = HOST_INTF_SDIO" using send_pkt_intf [OF a'(1)] assms(2) by (simp add: on_sdio_def)
  moreover have "freed (trace a') = freed (trace (w_common w))"
    using a'(1) assms(2)
    by (auto simp: send_pkt_to_coex_def tx_refused_def on_sdio_def Let_def dest!: host_intf_write_freed
        split: if_splits bind_splits option.splits prod.splits)
  ultimately show ?thesis using a'(2) by blast
qed

text \<open>The packet sent is the only one freed, and no queue changes.\<close>

definition frees_one :: "netbuf \<Rightarrow> wlan_adapter \<Rightarrow> wlan_adapter \<Rightarrow> bool" where
  "frees_one nb w w' \<longleftrightarrow>
     freed (trace (w_common w')) = add_mset (nb_data nb) (freed (trace (w_common w))) \<and>
     host_tx_queue w' = host_tx_queue w \<and> on_sdio w' = on_sdio w \<and> w_driver_mode w' = w_driver_mode w"

lemma note_sleep_request_frame:
  "note_sleep_request nb vap w = Some (v, w') \<Longrightarrow>
     w_common w' = w_common w \<and> host_tx_queue w' = host_tx_queue w \<and> w_driver_mode w' = w_driver_mode w"
  by (auto simp: note_sleep_request_def Let_def split: bind_splits if_splits option.splits)

lemma sent_freed:
  assumes "send_to_bus h nb w = Some w'" "on_sdio w"
  shows "frees_one nb w (free_sent nb w')"
proof -
  obtain a' where "w' = w\<lparr>w_common := a'\<rparr>" "host_intf_type a' = HOST_INTF_SDIO"
      "freed (trace a') = freed (trace (w_common w))"
    using send_to_bus_freed [OF assms] by blast
  with assms(2) show ?thesis by (simp add: frees_one_def free_sent_def on_sdio_def)
qed

lemma internal_pkt_frees:
  assumes "core_internal_pkt h nb vap w = Some (v, w')" "on_sdio w"
  shows "frees_one nb w w'"
proof -
  obtain w1 w2 where w: "send_to_bus h nb w = Some w1" "note_sleep_request nb vap w1 = Some (v, w2)" "w' = free_sent nb w2"
    using assms by (auto simp: core_internal_pkt_def split: bind_splits)
  with note_sleep_request_frame [OF w(2)] sent_freed [OF w(1) assms(2)] show ?thesis
    by (auto simp: frees_one_def free_sent_def on_sdio_def split: if_splits)
qed

lemma dropped_freed:
  "host_tx_queue w1 = host_tx_queue w \<Longrightarrow> w_driver_mode w1 = w_driver_mode w \<Longrightarrow>
   w_common w1 = log (Acquire Ic_lock_vap) (w_common w) \<Longrightarrow> frees_one nb w (drop_data_pkt nb w1)"
  by (simp add: frees_one_def drop_data_pkt_def on_sdio_def)

lemma data_pkt_frees:
  assumes "core_data_pkt h q nb vap w = Some (v, w')" "on_sdio w" "w_driver_mode w \<noteq> 2"
  shows "frees_one nb w w'"
proof -
  let ?w1 = "log_common (Acquire Ic_lock_vap) w"
  let ?d = "\<lambda>v. restart_txq q (unat (drop_bit 6 (nb_data nb ! 9))) v ?w1"
  have r: "w_driver_mode (restart_txq q i v ?w1) = w_driver_mode w" for i v by (simp add: restart_txq_def)
  consider "w' = drop_data_pkt nb ?w1"
    | i u where "w' = drop_data_pkt nb (restart_txq q i u ?w1)"
    | i u w3 where "send_to_bus h nb (log_common (Release Ic_lock_vap) (restart_txq q i u ?w1)) = Some w3" "w' = free_sent nb w3"
    using assms by (auto simp: core_data_pkt_def Let_def split: bind_splits if_splits option.splits)
  then show ?thesis
  proof cases
    case 1
    then show ?thesis by (simp add: dropped_freed)
  next
    case 2
    then show ?thesis using r by (simp add: dropped_freed)
  next
    case 3
    let ?w2 = "log_common (Release Ic_lock_vap) (restart_txq q i u ?w1)"
    have "on_sdio ?w2" using assms(2) by (simp add: on_sdio_def)
    from sent_freed [OF 3(1) this] 3(2) r [of i u] show ?thesis by (auto simp: frees_one_def on_sdio_def)
  qed
qed

lemma count_sent_sel [simp]:
  "w_common (count_sent q w) = w_common w" "host_tx_queue (count_sent q w) = host_tx_queue w"
  "w_driver_mode (count_sent q w) = w_driver_mode w" "on_sdio (count_sent q w) = on_sdio w"
  by (simp_all add: count_sent_def on_sdio_def)

lemma core_send_frees:
  assumes "core_send_pkt h q nb vap w = Some (v, w')" "on_sdio w" "w_driver_mode w \<noteq> 2"
  shows "frees_one nb w w'"
proof -
  have c: "frees_one nb (count_sent q w) w' \<Longrightarrow> ?thesis" by (simp add: frees_one_def)
  from assms consider "core_internal_pkt h nb vap w = Some (v, w')" | "core_mgmt_pkt h nb (count_sent q w) = Some w'"
    | "core_data_pkt h q nb vap (count_sent q w) = Some (v, w')"
    by (auto simp: core_send_pkt_def split: if_splits bind_splits)
  then show ?thesis
  proof cases
    case 1
    then show ?thesis using assms(2) by (rule internal_pkt_frees)
  next
    case 2
    then show ?thesis using assms(2) sent_freed [of h nb "count_sent q w"]
      by (intro c) (auto simp: core_mgmt_pkt_def split: bind_splits)
  next
    case 3
    then show ?thesis using assms(2,3) data_pkt_frees [of h q nb vap "count_sent q w"] by (intro c) simp
  qed
qed

text \<open>
  From one state to the next nothing is lost: what waits and what was freed add up, apart
  from the requests \<open>rs\<close> that joined, and the data queues lose packets only at the head.
\<close>

definition conserves :: "netbuf list \<Rightarrow> wlan_adapter \<Rightarrow> wlan_adapter \<Rightarrow> bool" where
  "conserves rs w w' \<longleftrightarrow>
     list_all request_pkt rs \<and>
     freed (trace (w_common w')) + image_mset nb_data (core_waiting w') =
       freed (trace (w_common w)) + image_mset nb_data (core_waiting w + mset rs) \<and>
     (\<forall>q<NUM_EDCA_QUEUES. suffix (host_tx_queue w' q) (host_tx_queue w q)) \<and>
     on_sdio w' = on_sdio w \<and> w_driver_mode w' = w_driver_mode w"

lemma conserves_same:
  assumes "freed (trace (w_common w')) = freed (trace (w_common w))" "host_tx_queue w' = host_tx_queue w"
    and "on_sdio w' = on_sdio w" "w_driver_mode w' = w_driver_mode w"
  shows "conserves [] w w'"
  using assms by (simp add: conserves_def core_waiting_def)

lemma conserves_refl [simp]: "conserves [] w w"
  by (simp add: conserves_same)

lemma conserves_trans:
  assumes "conserves rs w w1" "conserves ss w1 w2"
  shows "conserves (rs @ ss) w w2"
proof -
  have "freed (trace (w_common w2)) + image_mset nb_data (core_waiting w2) =
        freed (trace (w_common w1)) + image_mset nb_data (core_waiting w1) + image_mset nb_data (mset ss)"
    using assms(2) by (simp add: conserves_def ac_simps)
  also have "\<dots> = freed (trace (w_common w)) + image_mset nb_data (core_waiting w + mset (rs @ ss))"
    using assms(1) by (simp add: conserves_def ac_simps)
  finally show ?thesis using assms by (auto simp: conserves_def intro: suffix_order.trans)
qed

lemma frames_added_conserves:
  assumes "frames_added n (w\<lparr>w_ps := s\<rparr>) w'"
  shows "\<exists>rs. conserves rs w w'"
proof -
  obtain ps rs es where "w' = w\<lparr>w_ps := s, host_tx_queue := (host_tx_queue w)(MGMT_SOFT_Q := ps),
      w_common := (w_common w)\<lparr>trace := es @ trace (w_common w)\<rparr>\<rparr>"
    "mset ps = mset (host_tx_queue w MGMT_SOFT_Q) + mset rs" "list_all request_pkt rs"
    "set es \<subseteq> {Set_event Wlan_scheduler_event}"
    using assms by (auto simp: frames_added_def)
  then have "conserves rs w w'"
    using freed_schedule [of es "trace (w_common w)"] by (simp add: conserves_def core_waiting_def on_sdio_def ac_simps)
  then show ?thesis ..
qed

lemma wake_conserves:
  assumes "wake_for_pending h vap w = Some (v, w')"
  shows "\<exists>rs. conserves rs w w'"
proof (cases "w_fsm_state w \<noteq> FSM_MAC_INIT_DONE \<or> asleep_sta (w_ps w) = None")
  case True
  with assms have "w' = w" by (auto simp: wake_for_pending_def split: if_splits)
  then show ?thesis by (intro exI [of _ "[]"]) simp
next
  case False
  then obtain u where u: "asleep_sta (w_ps w) = Some u" by auto
  obtain s' evs where s': "update_pwr_save_status (ch_ps h) u PS_DISABLE MGMT_PENDING_PATH (w_ps w) = Some s'"
      "ps_trace s' = evs @ ps_trace (w_ps w)"
    using wake_for_pending_adds [of u "w_ps w" "ch_ps h"] asleep_sta_some [OF u] by blast
  from call_ps_adds [where f = "update_pwr_save_status (ch_ps h) u PS_DISABLE MGMT_PENDING_PATH", OF s', of "ch_host h"]
  obtain n where "frames_added n (w\<lparr>w_ps := s'\<rparr>) w'"
    using assms False u by (auto simp: wake_for_pending_def split: bind_splits)
  then show ?thesis by (rule frames_added_conserves)
qed

lemma waiting_dequeue:
  assumes "q < NUM_EDCA_QUEUES \<or> q = MGMT_SOFT_Q" "host_tx_queue w q = p # ps"
  shows "core_waiting w = add_mset p (core_waiting (upd_queue q ps w))"
proof (cases "q = MGMT_SOFT_Q")
  case True
  with assms(2) show ?thesis by (simp add: core_waiting_def)
next
  case False
  with assms(1) have q: "q \<in> {..<NUM_EDCA_QUEUES}" by simp
  have split: "(\<Sum>i<NUM_EDCA_QUEUES. mset (f i)) = mset (f q) + (\<Sum>i\<in>{..<NUM_EDCA_QUEUES} - {q}. mset (f i))"
    for f :: "nat \<Rightarrow> netbuf list"
    by (rule sum.remove [OF _ q]) simp
  have "(\<Sum>i\<in>{..<NUM_EDCA_QUEUES} - {q}. mset (((host_tx_queue w)(q := ps)) i)) =
      (\<Sum>i\<in>{..<NUM_EDCA_QUEUES} - {q}. mset (host_tx_queue w i))"
    by (intro sum.cong) auto
  with split [of "host_tx_queue w"] split [of "(host_tx_queue w)(q := ps)"] assms(2) False show ?thesis
    by (simp add: core_waiting_def)
qed

lemma serve_conserves:
  assumes "q < NUM_EDCA_QUEUES \<or> q = MGMT_SOFT_Q" "host_tx_queue w q = p # ps" "frees_one p (upd_queue q ps w) w'"
  shows "conserves [] w w'"
proof -
  have "freed (trace (w_common w')) + image_mset nb_data (core_waiting w') =
      freed (trace (w_common w)) + image_mset nb_data (core_waiting w)"
    using assms(3) waiting_dequeue [OF assms(1,2)] by (simp add: frees_one_def core_waiting_def)
  moreover have "on_sdio w' = on_sdio w" "w_driver_mode w' = w_driver_mode w" "host_tx_queue w' = (host_tx_queue w)(q := ps)"
    using assms(3) by (simp_all add: frees_one_def on_sdio_def)
  ultimately show ?thesis using assms(2) by (simp add: conserves_def suffix_Cons)
qed

lemma core_serve_conserves:
  assumes "core_serve h q c vap w = Some r" "core_ok w" "q < NUM_EDCA_QUEUES \<or> q = MGMT_SOFT_Q"
    and "on_sdio w" "w_driver_mode w \<noteq> 2"
  shows "\<exists>rs. conserves rs w (round_state r)"
proof -
  obtain v w1 where w1: "wake_for_pending h vap w = Some (v, w1)" using assms(1) by (auto simp: core_serve_def split: bind_splits)
  then obtain rs where rs: "conserves rs w w1" using wake_conserves by blast
  have ok: "core_ok w1" "on_sdio w1" "w_driver_mode w1 \<noteq> 2"
    using wake_for_pending_work [OF assms(2), of h vap] w1 rs assms(4,5) by (auto simp: work_step_def conserves_def)
  from ok(1) assms(3) show ?thesis
  proof (cases rule: core_dequeue_cases)
    case empty
    with w1 assms(1) rs show ?thesis by (auto simp: core_serve_def)
  next
    case (packet p ps)
    obtain v' w2 where w2: "core_send_pkt (ch_host h) q p v (upd_queue q ps w1) = Some (v', w2)" "round_state r = w2"
      using w1 packet(2) assms(1) by (auto simp: core_serve_def split: bind_splits)
    have "frees_one p (upd_queue q ps w1) w2"
      using w2(1) ok(2,3) by (intro core_send_frees) (auto simp: on_sdio_def)
    with serve_conserves [OF assms(3) packet(1)] conserves_trans [OF rs] w2(2) show ?thesis by blast
  qed
qed

lemma poll_freed:
  "host_tx_queue (snd (poll_buffer_status h w)) = host_tx_queue w"
  "w_driver_mode (snd (poll_buffer_status h w)) = w_driver_mode w"
  "on_sdio (snd (poll_buffer_status h w)) = on_sdio w"
  "freed (trace (w_common (snd (poll_buffer_status h w)))) = freed (trace (w_common w))"
  by (simp_all add: poll_buffer_status_def read_register_def on_sdio_def Let_def split: prod.split)

lemma sdio_room_freed:
  assumes "sdio_room h q c w = (c', w')"
  shows "host_tx_queue w' = host_tx_queue w \<and> w_driver_mode w' = w_driver_mode w \<and> on_sdio w' = on_sdio w \<and>
     freed (trace (w_common w')) = freed (trace (w_common w))"
proof -
  obtain x w1 where r: "(if buf_status_updated w \<or> c = 0 then poll_buffer_status h w else (Some c, w)) = (x, w1)" by fastforce
  then have "w1 = w \<or> poll_buffer_status h w = (x, w1)" by (auto split: if_splits)
  moreover have "w' = w1" using assms by (auto simp: sdio_room_def r split: option.splits if_splits)
  ultimately show ?thesis using poll_freed [of h w] by auto
qed

lemma device_room_freed:
  "device_room h q c w = (c', w') \<Longrightarrow>
     host_tx_queue w' = host_tx_queue w \<and> w_driver_mode w' = w_driver_mode w \<and> on_sdio w' = on_sdio w \<and>
     freed (trace (w_common w')) = freed (trace (w_common w))"
  using sdio_room_freed [of "ch_host h" q c w c' w']
  by (auto simp: device_room_def usb_room_def on_sdio_def Let_def split: host_intf.splits if_splits)

lemma core_round_conserves:
  assumes "core_round h c vap w = Some r" "core_ok w" "on_sdio w" "w_driver_mode w \<noteq> 2"
  shows "\<exists>rs. conserves rs w (round_state r)"
proof -
  obtain q w1 where q: "core_determine_hal_queue w = (q, w1)" by fastforce
  note k = hal_queue_keeps [OF q assms(2)]
  obtain c2 w2 where r: "device_room h q c w1 = (c2, w2)" by fastforce
  have 1: "conserves [] w w1" using k by (intro conserves_same) auto
  have 2: "conserves [] w w2" using k device_room_freed [OF r] by (intro conserves_same) auto
  have "quiet_step w1 w2" using device_room_quiet [of w1 h q c] r by simp
  then have "core_ok w2" using quiet_core_ok k by blast
  then have 3: "\<exists>rs. conserves rs w2 (round_state r)" if "core_serve h q c' v w2 = Some r" "q \<noteq> INVALID_HAL_QUEUE" for c' v
    using that core_serve_conserves [of h q c' v w2 r] k 2 assms(3,4) by (auto simp: conserves_def)
  have "round_state r \<in> {w, w1, w2} \<or> (\<exists>c' v. core_serve h q c' v w2 = Some r \<and> q \<noteq> INVALID_HAL_QUEUE)"
    using assms(1) by (auto simp: core_round_def q r Let_def split: if_splits option.splits)
  with 1 2 3 conserves_trans [OF 2] conserves_refl [of w] show ?thesis by blast
qed

lemma core_loop_conserves:
  "core_loop fuel h c vap w = Some (v, w') \<Longrightarrow> core_ok w \<Longrightarrow> on_sdio w \<Longrightarrow> w_driver_mode w \<noteq> 2 \<Longrightarrow>
     \<exists>rs. conserves rs w w'"
proof (induction fuel arbitrary: c vap w)
  case 0
  then show ?case by simp
next
  case (Suc fuel)
  obtain r where r: "core_round h c vap w = Some r" using Suc.prems(1) by (auto split: bind_splits)
  obtain rs where rs: "conserves rs w (round_state r)" using core_round_conserves [OF r Suc.prems(2-4)] by blast
  show ?case
  proof (cases r)
    case (Core_left u w1)
    with Suc.prems(1) r rs show ?thesis by auto
  next
    case (Core_next c' u w1)
    moreover have "core_ok w1" using core_round_progress [OF Suc.prems(2), of h c vap] r Core_next by (simp add: progress_def)
    moreover have "on_sdio w1" "w_driver_mode w1 \<noteq> 2" using rs Suc.prems(3,4) Core_next by (simp_all add: conserves_def)
    ultimately obtain ss where "conserves ss w1 w'" using Suc.IH [of c' u w1] Suc.prems(1) r by auto
    with rs Core_next conserves_trans [of rs w w1 ss w'] show ?thesis by auto
  qed
qed

text \<open>
  C18. On an SDIO device, outside the PER mode, the loop of the core loses no packet and
  frees none twice: what it freed and what still waits is what waited before, together with
  the power save requests it made itself; from each data queue it takes packets at the head.
\<close>

theorem taken_packets_freed_once:
  assumes "core_loop fuel h c vap w = Some (v, w')" and "core_ok w" and "on_sdio w" and "w_driver_mode w \<noteq> 2"
  shows "\<exists>rs. list_all request_pkt rs \<and>
     freed (trace (w_common w')) + image_mset nb_data (core_waiting w') =
       freed (trace (w_common w)) + image_mset nb_data (core_waiting w) + image_mset nb_data (mset rs) \<and>
     (\<forall>q<NUM_EDCA_QUEUES. suffix (host_tx_queue w' q) (host_tx_queue w q))"
  using core_loop_conserves [OF assms] by (auto simp: conserves_def ac_simps)

lemma taken_packets_freed_once_witness:
  "\<exists>v w' rs. core_loop 4 core_sample_host 0 None core_sample = Some (v, w') \<and> list_all request_pkt rs \<and>
     freed (trace (w_common w')) + image_mset nb_data (core_waiting w') =
       image_mset nb_data (core_waiting core_sample) + image_mset nb_data (mset rs)"
proof -
  obtain v w' where r: "core_loop 4 core_sample_host 0 None core_sample = Some (v, w')"
    using core_loop_progress [of core_sample 4 core_sample_host 0 None] core_sample_ok by auto
  have "on_sdio core_sample" "w_driver_mode core_sample \<noteq> 2" "freed (trace (w_common core_sample)) = {#}"
    by (simp_all add: core_sample_def on_sdio_def sample_wlan_def idle_adapter_def freed_def)
  with taken_packets_freed_once [OF r core_sample_ok(1)] r show ?thesis by auto
qed

text \<open>
  In the PER mode a packet for an interface that is not in use is sent and never freed on
  SDIO.
\<close>

lemma per_mode_leaks_packet:
  assumes "core_data_pkt h q nb vap w = Some (v, w')" "on_sdio w" "w_driver_mode w = 2"
    and "rd8 (nb_data nb) 9 = Some b9" "\<not> fst (hal_vap w (unat (drop_bit 6 b9)))"
  shows "freed (trace (w_common w')) = freed (trace (w_common w))"
proof -
  obtain w2 where w2: "send_to_bus h nb (log_common (Acquire Ic_lock_vap) w) = Some w2" "w' = log_common (Release Ic_lock_vap) w2"
    using assms by (auto simp: core_data_pkt_def Let_def split: bind_splits if_splits)
  then show ?thesis using send_to_bus_freed [OF w2(1)] assms(2) by (auto simp: on_sdio_def)
qed

end
