(* ===== verification/Core_Sleep.thy ===== *)
theory Core_Sleep
  imports Core_Run
begin

text \<open>
  Power save across the components: the request the power save module builds, the internal
  management queue that carries it, the core that writes it and moves the state machine on,
  and the power manager that gets the bus back once the station is asleep.
\<close>

section \<open>Reading a request back\<close>

text \<open>
  The device's view of \<^verbatim>\<open>onebox_mac_frame_t\<close>: the fields at the offsets of the
  structure.
\<close>

definition ps_req_of_bytes :: "bytes \<Rightarrow> ps_req_frame option" where
  "ps_req_of_bytes d =
     do { w0 \<leftarrow> rd16 d 0; w1 \<leftarrow> rd16 d 2; w6 \<leftarrow> rd16 d 12;
          en \<leftarrow> rd8 d 16; ty \<leftarrow> rd8 d 17; cs \<leftarrow> rd8 d 18; nb \<leftarrow> rd16 d 20; sd \<leftarrow> rd32 d 24;
          ms \<leftarrow> rd8 d 28; ua \<leftarrow> rd8 d 29; up \<leftarrow> rd8 d 30; li \<leftarrow> rd32 d 32; di \<leftarrow> rd32 d 36; nd \<leftarrow> rd16 d 40;
          Some \<lparr>desc_word0 = w0, desc_word1 = w1, desc_word6 = w6, req_ps_en = en, req_sleep_type = ty,
                req_connected_sleep = cs, req_num_beacons = nb, req_sleep_duration = sd, req_mimic_support = ms,
                req_uapsd_acs = ua, req_uapsd_wakeup_period = up, req_listen_interval = li,
                req_dtim_interval_duration = di, req_num_dtim_intervals = nd\<rparr> }"

lemma ps_req_bytes_roundtrip: "ps_req_of_bytes (ps_req_bytes f) = Some f"
  by (simp add: ps_req_of_bytes_def ps_req_bytes_def le16_def le32_def rd16_def rd32_def rd8_def nth_append
      rejoin_u16 rejoin_u32)

text \<open>Queueing changes the first word only.\<close>

lemma internal_mgmt_bytes_nth:
  "2 \<le> i \<Longrightarrow> i < length d \<Longrightarrow> internal_mgmt_bytes d w0 e g ! i = d ! i"
  by (simp add: internal_mgmt_bytes_def Let_def set_word_nth nth_append)

lemma internal_mgmt_bytes_rd8:
  "2 \<le> i \<Longrightarrow> i < length d \<Longrightarrow> rd8 (internal_mgmt_bytes d w0 e g) i = rd8 d i"
  by (simp add: rd8_def internal_mgmt_bytes_nth)

lemma internal_mgmt_bytes_rd16:
  "2 \<le> i \<Longrightarrow> Suc i < length d \<Longrightarrow> rd16 (internal_mgmt_bytes d w0 e g) i = rd16 d i"
  by (simp add: rd16_def internal_mgmt_bytes_rd8 internal_mgmt_bytes_nth)

lemma internal_mgmt_bytes_rd32:
  "2 \<le> i \<Longrightarrow> i + 3 < length d \<Longrightarrow> rd32 (internal_mgmt_bytes d w0 e g) i = rd32 d i"
  by (simp add: rd32_def internal_mgmt_bytes_rd16)

definition queued_word0 :: "u16 \<Rightarrow> u8 \<Rightarrow> u16" where
  "queued_word0 w0 e = (((w0 AND 0xfff) + ucast e) OR push_bit 12 4) OR 0x8000"

lemma mark_high_byte:
  "(ucast (ucast v :: u8) :: u16) OR push_bit 8 (ucast ((ucast (drop_bit 8 v) :: u8) OR 0x80)) = v OR 0x8000"
proof -
  have "(ucast ((ucast (drop_bit 8 v) :: u8) OR 0x80) :: u16) = ucast (ucast (drop_bit 8 v) :: u8) OR 0x80"
    by (simp add: unsigned_or_eq)
  then have "(ucast (ucast v :: u8) :: u16) OR push_bit 8 (ucast ((ucast (drop_bit 8 v) :: u8) OR 0x80)) =
      (ucast (ucast v :: u8) OR push_bit 8 (ucast (ucast (drop_bit 8 v) :: u8))) OR push_bit 8 (0x80 :: u16)"
    by (simp only: push_bit_or or.assoc)
  also have "push_bit 8 (0x80 :: u16) = 0x8000" by simp
  finally show ?thesis by (simp only: rejoin_u16)
qed

lemma rd16_marked:
  "2 \<le> length b \<Longrightarrow> rd16 ((set_word 0 v b)[1 := set_word 0 v b ! 1 OR 0x80]) 0 = Some (v OR 0x8000)"
  by (auto simp: rd16_def rd8_def set_word_nth mark_high_byte)

lemma internal_mgmt_bytes_word0:
  assumes "2 \<le> length d"
  shows "rd16 (internal_mgmt_bytes d w0 e g) 0 = Some (queued_word0 w0 e)"
proof -
  have "2 \<le> length (d @ frame_padding (length d) e g)" using assms by simp
  from rd16_marked [OF this] show ?thesis by (simp only: internal_mgmt_bytes_def queued_word0_def Let_def)
qed

lemma queued_request_roundtrip:
  "ps_req_of_bytes (internal_mgmt_bytes (ps_req_bytes f) w0 e g) = Some (f\<lparr>desc_word0 := queued_word0 w0 e\<rparr>)"
  using ps_req_bytes_roundtrip [of f] internal_mgmt_bytes_word0 [of "ps_req_bytes f" w0 e g]
  by (cases f) (auto simp: ps_req_of_bytes_def internal_mgmt_bytes_rd8 internal_mgmt_bytes_rd16 internal_mgmt_bytes_rd32
      internal_mgmt_bytes_nth split: bind_splits)

lemma queued_word0_length:
  assumes "w0 AND 0xfff = 26" "unat e < 64"
  shows "unat (queued_word0 w0 e AND 0xfff) = 26 + unat e"
proof -
  have u: "unat (26 + ucast e :: u16) = 26 + unat e"
    using assms(2) by (simp add: unat_word_ariths unat_ucast_widen)
  have "queued_word0 w0 e AND 0xfff = (26 + ucast e) AND 0xfff"
    unfolding queued_word0_def assms(1) by (simp add: bit.conj_disj_distrib2)
  also have "\<dots> = take_bit 12 (26 + ucast e)"
    by (simp add: take_bit_eq_mask mask_eq_exp_minus_1)
  finally have "unat (queued_word0 w0 e AND 0xfff) = take_bit 12 (unat (26 + ucast e :: u16))"
    by (simp only: unsigned_take_bit_eq)
  with u assms(2) show ?thesis by (simp add: take_bit_nat_eq_self)
qed

section \<open>A sleep request on its way to the device\<close>

lemma rd16_ps_req_word0: "rd16 (ps_req_bytes f) 0 = Some (desc_word0 f)"
  by (simp add: ps_req_bytes_def le16_def rd16_def rd8_def rejoin_u16)

lemma send_internal_request:
  fixes f :: ps_req_frame
  assumes "h_alloc_skb h (trace (w_common w))"
  defines "nb \<equiv> internal_mgmt_pkt (internal_mgmt_bytes (ps_req_bytes f) (desc_word0 f)
            (h_skb_misalign h (trace (w_common w)) AND 0x3f) (h_skb_garbage h (trace (w_common w))))"
  shows "perform_ps_event h (Send_internal_mgmt f) w =
    Some (schedule_wlan (upd_queue MGMT_SOFT_Q (host_tx_queue w MGMT_SOFT_Q @ [nb]) w))"
  using assms(1) unfolding nb_def
  by (simp add: perform_ps_event_def onebox_send_internal_mgmt_frame_def rd16_ps_req_word0 Let_def netbuf_queue_tail_def)

lemma sleep_frame_fields:
  assumes "en \<noteq> 0" "nvaps < 2"
  shows "desc_word0 (ps_request_frame x nvaps en) AND 0xfff = 26" "desc_word1 (ps_request_frame x nvaps en) = 5"
    and "desc_word6 (ps_request_frame x nvaps en) = SLEEP_REQUEST" "req_ps_en (ps_request_frame x nvaps en) = 1"
  using assms by (simp_all add: ps_request_frame_def Let_def)

lemma request_pkt_bytes:
  "internal_mgmt_bytes (ps_req_bytes f) w0 e g ! 2 = ucast (desc_word1 f)"
  "internal_mgmt_bytes (ps_req_bytes f) w0 e g ! 16 = req_ps_en f"
  "internal_mgmt_bytes (ps_req_bytes f) w0 e g ! 18 = req_connected_sleep f"
  by (simp_all add: internal_mgmt_bytes_nth) (simp_all add: ps_req_bytes_def le16_def le32_def nth_append)

lemma sleep_request_noted:
  assumes "desc_word1 f = 5" "req_ps_en f = 1" "sta_vap (w_ps w) = Some v" "ps_state (the_vap (w_ps w) v) = PS_EN_REQ_QUEUED"
  shows "note_sleep_request (internal_mgmt_pkt (internal_mgmt_bytes (ps_req_bytes f) w0 e g)) vap w =
    Some (Some v, w\<lparr>w_ps := set_ps_state v PS_EN_REQ_SENT (w_ps w)\<rparr>)"
  using assms by (simp add: note_sleep_request_def rd8_def request_pkt_bytes)

lemma sta_vap_bound: "sta_vap s = Some v \<Longrightarrow> v < length (ic_vaps s)"
proof -
  assume "sta_vap s = Some v"
  then have "v \<in> set (filter (\<lambda>i. iv_opmode (the_vap s i) = M_STA) [0..<length (ic_vaps s)])"
    by (auto simp: sta_vap_def simp del: set_filter split: list.splits)
  then show "v < length (ic_vaps s)" by simp
qed

text \<open>
  A sleep request of the power save module reaches the SDIO device intact: it is queued
  at the tail of the management queue as a packet whose length field counts the bytes behind
  the descriptor, which the device reads back as the request of the module (the first word
  apart); when the core takes it, it is written and freed, and the station's request moves
  from queued to sent.
\<close>

theorem sleep_request_roundtrip:
  assumes "f = ps_request_frame x nvaps en" and "en \<noteq> 0" and "nvaps < 2"
    and "h_alloc_skb h (trace (w_common w))" and "on_sdio w"
    and "sta_vap (w_ps w) = Some v" and "ps_state (the_vap (w_ps w) v) = PS_EN_REQ_QUEUED"
  shows "\<exists>w1 nb w0 w2. perform_ps_event h (Send_internal_mgmt f) w = Some w1 \<and>
     host_tx_queue w1 MGMT_SOFT_Q = host_tx_queue w MGMT_SOFT_Q @ [nb] \<and>
     ps_req_of_bytes (nb_data nb) = Some (f\<lparr>desc_word0 := w0\<rparr>) \<and>
     unat (w0 AND 0xfff) = length (nb_data nb) - FRAME_DESC_SZ \<and>
     core_send_pkt h MGMT_SOFT_Q nb vap w1 = Some (Some v, w2) \<and>
     ps_state (the_vap (w_ps w2) v) = PS_EN_REQ_SENT \<and>
     freed (trace (w_common w2)) = add_mset (nb_data nb) (freed (trace (w_common w)))"
proof -
  let ?e = "h_skb_misalign h (trace (w_common w)) AND 0x3f"
  let ?d = "internal_mgmt_bytes (ps_req_bytes f) (desc_word0 f) ?e (h_skb_garbage h (trace (w_common w)))"
  let ?nb = "internal_mgmt_pkt ?d"
  let ?w1 = "schedule_wlan (upd_queue MGMT_SOFT_Q (host_tx_queue w MGMT_SOFT_Q @ [?nb]) w)"
  let ?s = "set_ps_state v PS_EN_REQ_SENT (w_ps w)"
  note f = sleep_frame_fields [OF assms(2,3), of x, folded assms(1)]
  have e: "unat ?e < 64"
  proof -
    have "?e \<le> 0x3f" by (rule word_and_le1)
    then show ?thesis by (simp add: word_le_nat_alt)
  qed
  have p: "perform_ps_event h (Send_internal_mgmt f) w = Some ?w1" by (rule send_internal_request [OF assms(4)])
  have sd: "on_sdio ?w1" using assms(5) by (simp add: on_sdio_def)
  obtain w' where s: "send_to_bus h ?nb ?w1 = Some w'" using send_to_bus_quiet [of ?nb h ?w1] by auto
  obtain a' where a': "w' = ?w1\<lparr>w_common := a'\<rparr>" "host_intf_type a' = HOST_INTF_SDIO"
      "freed (trace a') = freed (trace (w_common w))"
    using send_to_bus_freed [OF s sd] by auto
  have "note_sleep_request ?nb vap w' = Some (Some v, w'\<lparr>w_ps := ?s\<rparr>)"
    using sleep_request_noted [OF f(2,4), of w' v] assms(6,7) a'(1) by simp
  with s sd have c: "core_send_pkt h MGMT_SOFT_Q ?nb vap ?w1 = Some (Some v, free_sent ?nb (w'\<lparr>w_ps := ?s\<rparr>))"
    by (simp add: core_send_pkt_def core_internal_pkt_def)
  have "unat (queued_word0 (desc_word0 f) ?e AND 0xfff) = length (nb_data ?nb) - FRAME_DESC_SZ"
    using queued_word0_length [OF f(1) e] by simp
  with p c a' queued_request_roundtrip [of f] sta_vap_bound [OF assms(6)] show ?thesis
    by (intro exI [of _ ?w1] exI [of _ ?nb] exI [of _ "queued_word0 (desc_word0 f) ?e"]
        exI [of _ "free_sent ?nb (w'\<lparr>w_ps := ?s\<rparr>)"]) (simp add: free_sent_def on_sdio_def)
qed

lemma sleep_request_roundtrip_witness:
  "\<exists>w1 w2. perform_ps_event calm_host (Send_internal_mgmt (ps_request_frame (sample_vap S_RUN PS_EN_REQ_QUEUED) 1 1))
       (core_sample\<lparr>w_ps := sample_ps (sample_vap S_RUN PS_EN_REQ_QUEUED)\<rparr>) = Some w1 \<and>
     core_send_pkt calm_host MGMT_SOFT_Q (host_tx_queue w1 MGMT_SOFT_Q ! 1) None w1 = Some (Some 0, w2) \<and>
     ps_state (the_vap (w_ps w2) 0) = PS_EN_REQ_SENT"
proof -
  let ?w = "core_sample\<lparr>w_ps := sample_ps (sample_vap S_RUN PS_EN_REQ_QUEUED)\<rparr>"
  have "sta_vap (w_ps ?w) = Some 0" "ps_state (the_vap (w_ps ?w) 0) = PS_EN_REQ_QUEUED" "on_sdio ?w"
      "h_alloc_skb calm_host (trace (w_common ?w))" "length (host_tx_queue ?w MGMT_SOFT_Q) = 1"
    by (simp_all add: sta_vap_def sample_ps_def sample_vap_def core_sample_def on_sdio_def sample_wlan_def idle_adapter_def
        calm_host_def)
  from sleep_request_roundtrip [OF refl _ _ this(4,3,1,2), of 1 1 "sample_vap S_RUN PS_EN_REQ_QUEUED" None] this(5) show ?thesis
    by (auto simp: nth_append)
qed

section \<open>A station that is asleep gives the bus back\<close>

definition sta_asleep :: "wlan_ps \<Rightarrow> nat \<Rightarrow> bool" where
  "sta_asleep s v \<longleftrightarrow> iv_opmode (the_vap s v) = M_STA \<and> ps_state (the_vap s v) = DEV_IN_PWR_SVE"

text \<open>No other protocol wants to send, and the device waits for the answer to its request.\<close>

definition device_may_sleep :: "adapter \<Rightarrow> bool" where
  "device_may_sleep a \<longleftrightarrow>
     sleep_entry_recvd (d_assets a) \<and> \<not> ulp_sleep_ack_sent (d_assets a) \<and>
     (\<forall>j<MAX_IDS. j \<noteq> WLAN_ID \<longrightarrow> \<not> (drv_state (tech a j) = MODULE_ACTIVE \<and> tx_intention (tech a j)))"

lemma hand_back_queues:
  assumes "hand_back (update_tx_status h) WLAN_ID a = Some a'"
    and "global_priv (d_assets a)" "h_alloc_skb h (Acquire Tx_access_lock # trace a)"
    and "drv_state (tech a WLAN_ID) \<noteq> MODULE_REMOVED"
  shows "coex_queues a' = (if device_may_sleep a
           then (coex_queues a)(0 := coex_queues a 0 @ [(fresh_netbuf (ulp_sleep_ack_frame (ulp_sleep_token a)))\<lparr>tx_pkt_type := COEX_Q\<rparr>])
           else coex_queues a)"
proof -
  let ?a = "log (Acquire Tx_access_lock) (upd_tech WLAN_ID (\<lambda>t. t\<lparr>tx_intention := False, tx_access := False\<rparr>) a)"
  have m: "device_may_sleep a \<longleftrightarrow> sleep_entry_recvd (d_assets ?a) \<and> \<not> ulp_sleep_ack_sent (d_assets ?a) \<and>
      \<not> protocol_tx_access (d_assets ?a)"
    by (auto simp: device_may_sleep_def protocol_tx_access_iff upd_tech_def)
  obtain a2 where a2: "(if device_may_sleep a then send_ulp_sleep_ack h ?a else Some ?a) = Some a2" "coex_queues a' = coex_queues a2"
    using assms(1,4) unfolding m by (auto simp: hand_back_def update_tx_status_def Let_def split: bind_splits)
  show ?thesis
  proof (cases "device_may_sleep a")
    case True
    have "global_priv (d_assets ?a)" "h_alloc_skb h (trace ?a)" using assms(2,3) by (simp_all add: upd_tech_def)
    from send_ulp_sleep_ack_effect [OF this, of a2] a2 True show ?thesis by (simp add: upd_tech_def)
  next
    case False
    with a2 show ?thesis by (auto simp: upd_tech_def)
  qed
qed

text \<open>
  At the end of a run the core gives the bus back exactly when the station it looked at
  is asleep: WLAN then neither holds the bus nor asks for it and no other protocol is
  touched; if the device had asked to sleep and nobody else wants to send, this is the moment
  at which its one acknowledgement is queued.
\<close>

theorem asleep_station_hands_back:
  assumes "global_priv (d_assets (w_common w))" and "drv_state (tech (w_common w) WLAN_ID) \<noteq> MODULE_REMOVED"
    and "h_alloc_skb h (Acquire Tx_access_lock # trace (w_common w))"
  shows "\<exists>a. release_if_asleep h (Some v) w = Some (w\<lparr>w_common := a\<rparr>) \<and>
    (if sta_asleep (w_ps w) v
     then \<not> tx_access (tech a WLAN_ID) \<and> \<not> tx_intention (tech a WLAN_ID) \<and>
          (\<forall>j. j \<noteq> WLAN_ID \<longrightarrow> tech a j = tech (w_common w) j) \<and>
          coex_queues a =
            (if device_may_sleep (w_common w)
             then (coex_queues (w_common w))(0 := coex_queues (w_common w) 0 @
                    [(fresh_netbuf (ulp_sleep_ack_frame (ulp_sleep_token (w_common w))))\<lparr>tx_pkt_type := COEX_Q\<rparr>])
             else coex_queues (w_common w))
     else a = w_common w)"
proof (cases "sta_asleep (w_ps w) v")
  case True
  obtain a where a: "hand_back (update_tx_status h) WLAN_ID (w_common w) = Some a" using arbiter.back_answers by blast
  with True arbiter.back_clears [OF a] hand_back_queues [OF a assms(1,3,2)] show ?thesis
    by (intro exI [of _ a]) (simp add: release_if_asleep_def sta_asleep_def on_common_def)
next
  case False
  then show ?thesis by (intro exI [of _ "w_common w"]) (auto simp: release_if_asleep_def sta_asleep_def)
qed

text \<open>A sleeping station that held the bus when the device asked to sleep.\<close>

definition sleepy_wlan :: wlan_adapter where
  "sleepy_wlan = core_sample\<lparr>w_ps := sample_ps (sample_vap S_RUN DEV_IN_PWR_SVE),
     w_common := idle_adapter\<lparr>d_assets := (d_assets idle_adapter)\<lparr>sleep_entry_recvd := True,
        techs := (\<lambda>_. active_tech\<lparr>tx_intention := False, tx_access := False\<rparr>)(WLAN_ID := active_tech\<lparr>tx_intention := True, tx_access := True\<rparr>)\<rparr>\<rparr>\<rparr>"

lemma asleep_station_hands_back_witness:
  "\<exists>w'. release_if_asleep calm_host (Some 0) sleepy_wlan = Some w' \<and> \<not> tx_access (tech (w_common w') WLAN_ID) \<and>
        length (coex_queues (w_common w') 0) = 1"
proof -
  let ?a = "w_common sleepy_wlan"
  have "global_priv (d_assets ?a)" "drv_state (tech ?a WLAN_ID) \<noteq> MODULE_REMOVED"
      "h_alloc_skb calm_host (Acquire Tx_access_lock # trace ?a)" "sta_asleep (w_ps sleepy_wlan) 0"
      "device_may_sleep ?a" "coex_queues ?a 0 = []"
    by (simp_all add: sleepy_wlan_def core_sample_def example_defs sta_asleep_def device_may_sleep_def sample_ps_def sample_vap_def)
  with asleep_station_hands_back [of sleepy_wlan calm_host 0] show ?thesis by auto
qed

end
