(* ===== verification/Tx_Descriptor.thy ===== *)
theory Tx_Descriptor
  imports Core_Run
begin

text \<open>
  How the WLAN core prepares a packet for the device (\<^verbatim>\<open>onebox_core_os_intf.c\<close>): the
  frame descriptor of eight words, the extended descriptor, the zero bytes that align the
  buffer, and behind them the frame of the network stack. The build defines
  \<^verbatim>\<open>BYPASS_TX_DATA_PATH\<close>, \<^verbatim>\<open>ACM_NO_TSPEC_CNFM\<close> and
  \<^verbatim>\<open>ENABLE_P2P_SUPPORT\<close>.

  \<open>None\<close> is a fault: NULL dereference, or a read outside the frame or an array. The buffer
  is assumed to have the head room the descriptors need.
\<close>

section \<open>Nodes, interfaces and the state\<close>

text \<open>What the code reads of \<^verbatim>\<open>struct ieee80211_node\<close>, with \<^verbatim>\<open>hal_priv_node.sta_id\<close>.\<close>

record ni_node =
  ni_flags :: u32
  ni_htcap :: u16
  rs_nrates :: u8
  rs_rates :: "u8 list"
  ni_macaddr :: bytes
  uapsd_flags :: u8
  node_sta_id :: u8

text \<open>What it reads of the interfaces beside the power save part; \<open>rv_mcastq\<close> is in \<^verbatim>\<open>core_vp\<close>.\<close>

record tx_vap =
  iv_flags :: u32
  iv_flags_ht :: u32
  has_wpa_ie :: bool                    \<comment> \<open>\<^verbatim>\<open>iv_rsn_ie\<close> or \<^verbatim>\<open>iv_wpa_ie\<close>\<close>
  p2p_enable :: bool
  fixed_rate_enable :: bool
  rate_hix :: u32
  mgmt_rate_enable :: bool
  default_mgmt_rate :: u16
  vap_id :: u8
  probe_req_bcast :: bool
  rv_mcastq :: "netbuf list"

text \<open>
  \<open>radiotap\<close> and \<open>freed_nodes\<close> record what was given to the monitor interface and which
  temporary nodes were given back.
\<close>

record wlan_xmit =
  x_wlan :: wlan_adapter
  x_node :: "nat \<Rightarrow> ni_node"
  x_vap :: "nat \<Rightarrow> tx_vap"
  ic_flags :: u32
  band_flags :: u32
  operating_band :: u8
  sc_nmonvaps :: u8
  std_rates :: "u8 list"
  rps_rates :: "u16 list"
  tx_dropped :: "64 word"
  tx_packets :: "64 word"
  tx_bytes :: "64 word"
  multicast_pkts :: "64 word"
  total_tx_data_dropped :: "nat \<Rightarrow> u32"
  udp_pkts_dropped :: u32
  radiotap :: "(nat option \<times> bytes) list"
  freed_nodes :: "nat list"

definition free_xmit :: "netbuf \<Rightarrow> wlan_xmit \<Rightarrow> wlan_xmit" where
  "free_xmit nb s = s\<lparr>x_wlan := log_common (Free_pkt (nb_data nb)) (x_wlan s)\<rparr>"

abbreviation x_opmode :: "wlan_xmit \<Rightarrow> nat \<Rightarrow> ieee80211_opmode" where
  "x_opmode s v \<equiv> iv_opmode (the_vap (w_ps (x_wlan s)) v)"

abbreviation x_trace :: "wlan_xmit \<Rightarrow> history" where
  "x_trace s \<equiv> trace (w_common (x_wlan s))"

section \<open>Constants\<close>

abbreviation (input) NODE_AUTH :: u32 where "NODE_AUTH \<equiv> 0x1"
abbreviation (input) NODE_QOS_HT :: u32 where "NODE_QOS_HT \<equiv> 0x42"
abbreviation (input) NODE_TMP :: u32 where "NODE_TMP \<equiv> 0x400000"
abbreviation (input) NODE_ENCRYPT_ENBL :: u32 where "NODE_ENCRYPT_ENBL \<equiv> 0x800000"
abbreviation (input) F_PRIVACY :: u32 where "F_PRIVACY \<equiv> 0x10"
abbreviation (input) F_SCAN :: u32 where "F_SCAN \<equiv> 0x80"
abbreviation (input) F_WME :: u32 where "F_WME \<equiv> 0x2000"
abbreviation (input) FHT_SHORTGI20 :: u32 where "FHT_SHORTGI20 \<equiv> 0x4000000"
abbreviation (input) FHT_SHORTGI40 :: u32 where "FHT_SHORTGI40 \<equiv> 0x8000000"
abbreviation (input) HTCAP_CHWIDTH40 :: u16 where "HTCAP_CHWIDTH40 \<equiv> 0x2"
abbreviation (input) HTCAP_SHORTGI20 :: u16 where "HTCAP_SHORTGI20 \<equiv> 0x20"
abbreviation (input) HTCAP_SHORTGI40 :: u16 where "HTCAP_SHORTGI40 \<equiv> 0x40"
abbreviation (input) CHAN_HT40U :: u32 where "CHAN_HT40U \<equiv> 0x20000"
abbreviation (input) CHAN_HT40 :: u32 where "CHAN_HT40 \<equiv> 0x60000"

abbreviation (input) M_EOSP :: u16 where "M_EOSP \<equiv> 0x8"
abbreviation (input) M_EAPOL :: u16 where "M_EAPOL \<equiv> 0x40"
abbreviation (input) MORE_DATA :: u16 where "MORE_DATA \<equiv> 0x100"
abbreviation (input) ONEBOX_BROADCAST :: u16 where "ONEBOX_BROADCAST \<equiv> 0x200"
abbreviation (input) ONEBOX_MULTICAST :: u16 where "ONEBOX_MULTICAST \<equiv> 0x400"

abbreviation (input) WLAN_TX_D_Q :: u8 where "WLAN_TX_D_Q \<equiv> 5"
abbreviation (input) ONEBOX_WIFI_DATA_Q :: u16 where "ONEBOX_WIFI_DATA_Q \<equiv> 5"
abbreviation (input) BROADCAST_HW_Q :: nat where "BROADCAST_HW_Q \<equiv> 9"
abbreviation (input) XTENDED_DESC_SZ :: nat where "XTENDED_DESC_SZ \<equiv> 4"
abbreviation (input) MAX_MGMT_PKT_SIZE :: nat where "MAX_MGMT_PKT_SIZE \<equiv> 512"

text \<open>Bits of the descriptor words.\<close>

abbreviation (input) RATE_INFO_ENABLE :: u16 where "RATE_INFO_ENABLE \<equiv> 0x1"
abbreviation (input) MORE_DATA_PRESENT :: u16 where "MORE_DATA_PRESENT \<equiv> 0x2"
abbreviation (input) INSERT_SEQ_NO :: u16 where "INSERT_SEQ_NO \<equiv> 0x4"
abbreviation (input) INSERT_TSF :: u16 where "INSERT_TSF \<equiv> 0x8000"
abbreviation (input) REQUIRE_CONFIRM_TO_HOST :: u16 where "REQUIRE_CONFIRM_TO_HOST \<equiv> 0x400"
abbreviation (input) ADD_DELTA_TSF_VAP_ID :: u16 where "ADD_DELTA_TSF_VAP_ID \<equiv> 0x800"
abbreviation (input) FETCH_RETRY_CNT_FRM_HST :: u16 where "FETCH_RETRY_CNT_FRM_HST \<equiv> 0x1000"
abbreviation (input) EOSP_INDICATION :: u16 where "EOSP_INDICATION \<equiv> 0x2000"
abbreviation (input) REQUIRE_TSF_SYNC_CONFIRM :: u16 where "REQUIRE_TSF_SYNC_CONFIRM \<equiv> 0x4000"

section \<open>The frame with its descriptors\<close>

definition extended_frame :: "u16 list \<Rightarrow> u8 \<Rightarrow> u8 \<Rightarrow> u8 \<Rightarrow> bytes \<Rightarrow> bytes" where
  "extended_frame desc confirm_frame_type retry_cnt extnd_size frame =
     concat (map le16 desc) @ [confirm_frame_type, retry_cnt, 0, 0] @ replicate (unat extnd_size) 0 @ frame"

text \<open>The length of the buffer once the descriptors are in front of the frame.\<close>

definition extended_length :: "u8 \<Rightarrow> bytes \<Rightarrow> nat" where
  "extended_length extnd_size frame = FRAME_DESC_SZ + XTENDED_DESC_SZ + unat extnd_size + length frame"

definition node_and_vap :: "netbuf \<Rightarrow> wlan_xmit \<Rightarrow> (nat \<times> nat) option" where
  "node_and_vap nb s =
     do { ni \<leftarrow> nb_ni nb; v \<leftarrow> ni_vap (x_wlan s) ni; Some (ni, v) }"

definition group_addressed :: "netbuf \<Rightarrow> bool" where
  "group_addressed nb \<longleftrightarrow> nb_flags nb AND ONEBOX_BROADCAST \<noteq> 0 \<or> nb_flags nb AND ONEBOX_MULTICAST \<noteq> 0"

text \<open>The Ethernet type at an offset says EAPOL; the second byte is read only after the first.\<close>

definition eapol_at :: "nat \<Rightarrow> bytes \<Rightarrow> bool option" where
  "eapol_at i d =
     do { x \<leftarrow> rd8 d i; if x = 0x88 then do { y \<leftarrow> rd8 d (Suc i); Some (y = 0x8e) } else Some False }"

definition mgmt_rate :: "wlan_xmit \<Rightarrow> tx_vap \<Rightarrow> u16" where
  "mgmt_rate s x =
     (if \<not> mgmt_rate_enable x
      then if operating_band s \<noteq> 0 \<or> p2p_enable x then 0xB OR 0x80 else 0
      else default_mgmt_rate x)"

text \<open>On a 40 MHz channel, in which half the primary channel is.\<close>

definition primary_half :: "u32 \<Rightarrow> u16" where
  "primary_half flags = (if flags AND CHAN_HT40U \<noteq> 0 then 0x4000 OR 0x4 else 0x2000 OR 0x2)"

text \<open>The copy for the monitor interface; without memory for it the driver writes to NULL.\<close>

definition onebox_completion_handler :: "host \<Rightarrow> netbuf \<Rightarrow> wlan_xmit \<Rightarrow> wlan_xmit option" where
  "onebox_completion_handler h nb s =
     (if \<not> h_alloc_skb h (x_trace s) then None
      else do { ext \<leftarrow> rd8 (nb_data nb) 4;
                d \<leftarrow> netbuf_adj (nb_data nb) (FRAME_DESC_SZ + unat ext);
                let vaps = ic_vaps (w_ps (x_wlan s));
                let mon = filter (\<lambda>i. iv_opmode (vaps ! i) = M_MONITOR) [0..<length vaps];
                Some (s\<lparr>radiotap := (if mon = [] then None else Some (hd mon), d) # radiotap s\<rparr>) })"

section \<open>The descriptor of a data packet\<close>

text \<open>
  A category that needs admission is replaced by background traffic. The test looks at the
  queue the scheduler served last.
\<close>

definition acm_remap :: "wlan_xmit \<Rightarrow> nat \<Rightarrow> netbuf \<Rightarrow> nat \<Rightarrow> (u8 \<times> nat) option" where
  "acm_remap s v nb q_num =
     (if x_opmode s v \<noteq> M_STA then Some (nb_tid nb, q_num)
      else if 4 \<le> selected_qnum (x_wlan s) then None
      else if wmep_acm (cap_wmeParams (x_wlan s) (selected_qnum (x_wlan s))) \<noteq> 0 then Some (1, BK_Q_STA)
      else Some (nb_tid nb, q_num))"

definition data_word1 :: "bool \<Rightarrow> bool \<Rightarrow> u16" where
  "data_word1 eosp eapol =
     1 OR (if eosp then REQUIRE_TSF_SYNC_CONFIRM OR EOSP_INDICATION else 0) OR
     (if eapol then FETCH_RETRY_CNT_FRM_HST else 0)"

definition data_word3 :: "tx_vap \<Rightarrow> netbuf \<Rightarrow> ieee80211_opmode \<Rightarrow> nat \<Rightarrow> u16" where
  "data_word3 x nb opmode q_num =
     (let hw_q = (q_num = BEACON_HW_Q \<or> q_num = BROADCAST_HW_Q) in
      (if fixed_rate_enable x then RATE_INFO_ENABLE else 0) OR
      (if opmode = M_HOSTAP \<and> nb_flags nb AND MORE_DATA \<noteq> 0 \<and> \<not> hw_q then MORE_DATA_PRESENT else 0) OR
      (if hw_q then INSERT_SEQ_NO else 0) OR
      (if group_addressed nb then ONEBOX_BROADCAST_PKT OR RATE_INFO_ENABLE else 0))"

definition fixed_rate_word :: "ni_node \<Rightarrow> tx_vap \<Rightarrow> u16" where
  "fixed_rate_word n x =
     ucast (rate_hix x) OR
     (if (iv_flags_ht x AND FHT_SHORTGI20 \<noteq> 0 \<or> iv_flags_ht x AND FHT_SHORTGI40 \<noteq> 0) \<and>
         (ni_htcap n AND HTCAP_SHORTGI40 \<noteq> 0 \<or> ni_htcap n AND HTCAP_SHORTGI20 \<noteq> 0) \<and>
         ni_htcap n AND HTCAP_SHORTGI20 \<noteq> 0 \<and> iv_flags_ht x AND FHT_SHORTGI20 \<noteq> 0 \<and>
         rate_hix x AND 0x100 \<noteq> 0
      then 0x200 else 0)"

definition data_word4 :: "wlan_xmit \<Rightarrow> ni_node \<Rightarrow> tx_vap \<Rightarrow> netbuf \<Rightarrow> u16" where
  "data_word4 s n x nb =
     (if group_addressed nb then mgmt_rate s x else if fixed_rate_enable x then fixed_rate_word n x else 0) OR
     push_bit 14 (ucast (vap_id x))"

definition data_word5 :: "wlan_xmit \<Rightarrow> ni_node \<Rightarrow> tx_vap \<Rightarrow> u16" where
  "data_word5 s n x =
     (if fixed_rate_enable x \<and> band_flags s AND CHAN_HT40 \<noteq> 0
      then if ni_htcap n AND HTCAP_CHWIDTH40 \<noteq> 0 then 0x6 else primary_half (band_flags s)
      else 0)"

definition data_word6 :: "ni_node \<Rightarrow> tx_vap \<Rightarrow> netbuf \<Rightarrow> bool \<Rightarrow> u16" where
  "data_word6 n x nb eapol =
     (if iv_flags x AND F_PRIVACY \<noteq> 0 \<and> (ni_flags n AND NODE_ENCRYPT_ENBL \<noteq> 0 \<or> group_addressed nb) then 0x8000 else 0) OR
     (if ni_flags n AND NODE_QOS_HT \<noteq> 0 then 0x1000 else 0) OR
     (if eapol then 0x2000 else 0)"

definition data_word7 :: "tx_vap \<Rightarrow> netbuf \<Rightarrow> u8 \<Rightarrow> nat \<Rightarrow> u16" where
  "data_word7 x nb tid q_num =
     push_bit 4 (ucast tid AND 0xf) OR (word_of_nat q_num AND 0xf) OR
     push_bit 8 (ucast (if group_addressed nb then vap_id x else nb_sta_id nb))"

definition data_desc :: "wlan_xmit \<Rightarrow> nat \<Rightarrow> nat \<Rightarrow> netbuf \<Rightarrow> u8 \<Rightarrow> nat \<Rightarrow> u8 \<Rightarrow> bool \<Rightarrow> u16 list" where
  "data_desc s ni v nb tid q_num extnd_size eapol =
     (let n = x_node s ni; x = x_vap s v; opmode = x_opmode s v;
          eosp = (opmode = M_HOSTAP \<and> nb_flags nb AND M_EOSP \<noteq> 0 \<and> q_num \<noteq> BEACON_HW_Q \<and> q_num \<noteq> BROADCAST_HW_Q)
      in [word_of_nat (extended_length extnd_size (nb_data nb) - FRAME_DESC_SZ) OR push_bit 12 ONEBOX_WIFI_DATA_Q,
          data_word1 eosp eapol, ucast extnd_size + 4, data_word3 x nb opmode q_num, data_word4 s n x nb,
          data_word5 s n x, data_word6 n x nb eapol, data_word7 x nb tid q_num])"

definition data_netbuf :: "wlan_xmit \<Rightarrow> nat \<Rightarrow> nat \<Rightarrow> netbuf \<Rightarrow> u8 \<Rightarrow> nat \<Rightarrow> u8 \<Rightarrow> bool \<Rightarrow> netbuf" where
  "data_netbuf s ni v nb tid q_num extnd_size eapol =
     nb\<lparr>nb_data := extended_frame (data_desc s ni v nb tid q_num extnd_size eapol) 0 (if eapol then 15 else 0)
                      extnd_size (nb_data nb),
        tx_pkt_type := WLAN_TX_D_Q, nb_tid := tid\<rparr>"

text \<open>The Ethernet type is looked for at a fixed distance from the start of the buffer.\<close>

definition prepare_onair_data_pkt_desc ::
  "host \<Rightarrow> netbuf \<Rightarrow> nat \<Rightarrow> wlan_xmit \<Rightarrow> (status \<times> netbuf \<times> wlan_xmit) option" where
  "prepare_onair_data_pkt_desc h nb q_num s =
     (case node_and_vap nb s of
        None \<Rightarrow> Some (ONEBOX_STATUS_FAILURE, nb, free_xmit nb s)
      | Some (ni, v) \<Rightarrow>
          (let extnd_size = h_skb_misalign h (x_trace s) AND 0x3f;
               cleared = extended_frame (replicate 8 0) 0 0 extnd_size (nb_data nb) in
           do { (tid, q) \<leftarrow> acm_remap s v nb q_num;
                eapol \<leftarrow> eapol_at (16 + 12 + unat extnd_size) cleared;
                let nb' = data_netbuf s ni v nb tid q extnd_size eapol;
                s' \<leftarrow> (if length (nb_data nb') \<le> 1594 \<and> sc_nmonvaps s \<noteq> 0 then onebox_completion_handler h nb' s else Some s);
                Some (ONEBOX_STATUS_SUCCESS, nb', s') }))"

section \<open>The descriptor of a management packet\<close>

text \<open>
  The first basic rate of the node, looked up among the standard rates. The loop over the
  rates of the node tests the index of the inner loop, so it ends only at a basic rate: with
  none among the fifteen it reads on behind the array.
\<close>

definition basic_rate_word :: "wlan_xmit \<Rightarrow> ni_node \<Rightarrow> u16 option option" where
  "basic_rate_word s n =
     (if rs_nrates n = 0 then Some None
      else (case filter (\<lambda>r. r AND 0x80 \<noteq> 0) (rs_rates n) of
              [] \<Rightarrow> None
            | r # _ \<Rightarrow> Some (case filter (\<lambda>(std, _). std = r AND 0x7f) (zip (std_rates s) (rps_rates s)) of
                               [] \<Rightarrow> None | (_, rps) # _ \<Rightarrow> Some rps)))"

definition iv_state_number :: "ieee80211_state \<Rightarrow> nat" where
  "iv_state_number st = (case st of S_INIT \<Rightarrow> 0 | S_SCAN \<Rightarrow> 1 | S_AUTH \<Rightarrow> 2 | S_ASSOC \<Rightarrow> 3 | S_CAC \<Rightarrow> 4 |
     S_RUN \<Rightarrow> 5 | S_CSA \<Rightarrow> 6 | S_SLEEP \<Rightarrow> 7)"

definition mgmt_word4 :: "wlan_xmit \<Rightarrow> ni_node \<Rightarrow> nat \<Rightarrow> u16 option" where
  "mgmt_word4 s n v =
     (let p = the_vap (w_ps (x_wlan s)) v; x = x_vap s v in
      do { basic \<leftarrow> (if iv_state_number (iv_state p) > 1 \<and> iv_opmode p = M_STA \<and> ic_flags s AND F_SCAN = 0 \<and>
                          operating_band s = 0
                      then basic_rate_word s n else Some None);
           Some ((case basic of Some r \<Rightarrow> r | None \<Rightarrow> mgmt_rate s x) OR push_bit 14 (ucast (vap_id x))) })"

text \<open>
  The words that depend on what the frame is: an EAPOL frame, and the first byte of the
  frame (\<open>fc\<close>). The result is the confirmation type, the retry count and words 1, 3, 6
  and 7.
\<close>

record mgmt_marks =
  mm_confirm :: u8
  mm_retry :: u8
  mm_word1 :: u16
  mm_word3 :: u16
  mm_word6 :: u16
  mm_word7 :: u16

definition eapol_marks :: "wlan_xmit \<Rightarrow> ni_node \<Rightarrow> nat \<Rightarrow> netbuf \<Rightarrow> mgmt_marks \<Rightarrow> mgmt_marks" where
  "eapol_marks s n v nb m =
     (let p = the_vap (w_ps (x_wlan s)) v;
          m1 = (if ni_flags n AND NODE_QOS_HT \<noteq> 0
                then m\<lparr>mm_word6 := mm_word6 m OR 0x1000,
                       mm_word7 := mm_word7 m OR (push_bit 4 7 OR push_bit 8 (ucast (nb_sta_id nb)))\<rparr> else m);
          m2 = (if length (nb_data nb) = 113 \<and> conn_in_prog p \<and> iv_opmode p = M_STA
                then m1\<lparr>mm_word1 := mm_word1 m1 OR REQUIRE_CONFIRM_TO_HOST, mm_confirm := 1\<rparr> else m1)
      in m2\<lparr>mm_word1 := mm_word1 m2 OR 0x8000 OR FETCH_RETRY_CNT_FRM_HST,
            mm_word3 := mm_word3 m2 AND NOT RATE_INFO_ENABLE AND NOT ONEBOX_BROADCAST_PKT, mm_retry := 15\<rparr>)"

definition probe_marks :: "tx_vap \<Rightarrow> u8 \<Rightarrow> mgmt_marks \<Rightarrow> mgmt_marks" where
  "probe_marks x fc m =
     (if fc = 0x40
      then if probe_req_bcast x then m\<lparr>mm_word1 := mm_word1 m OR REQUIRE_CONFIRM_TO_HOST, mm_confirm := 2\<rparr> else m
      else if fc = 0x50
      then m\<lparr>mm_word1 := mm_word1 m OR ADD_DELTA_TSF_VAP_ID OR FETCH_RETRY_CNT_FRM_HST, mm_retry := 3\<rparr>
      else m)"

text \<open>The frames an access point asks to have confirmed.\<close>

definition hostap_marks :: "ni_node \<Rightarrow> netbuf \<Rightarrow> u8 \<Rightarrow> mgmt_marks \<Rightarrow> mgmt_marks option" where
  "hostap_marks n nb fc m =
     do { to_node \<leftarrow> (if fc = 0x08 OR 0xc0 \<or> fc = 0x08 OR 0x40
                       then do { a \<leftarrow> mem_slice (nb_data nb) 4 6; Some (a = ni_macaddr n) } else Some False);
          let m1 = (if to_node then m\<lparr>mm_word1 := mm_word1 m OR REQUIRE_CONFIRM_TO_HOST,
                                      mm_word7 := push_bit 8 (ucast (node_sta_id n)), mm_confirm := 3\<rparr> else m);
          Some (if nb_flags nb AND M_EOSP \<noteq> 0
                then m1\<lparr>mm_word1 := mm_word1 m1 OR (if uapsd_flags n \<noteq> 0 then EOSP_INDICATION else 0) OR REQUIRE_TSF_SYNC_CONFIRM\<rparr>
                else m1) }"

definition mgmt_marks_of :: "wlan_xmit \<Rightarrow> nat \<Rightarrow> nat \<Rightarrow> netbuf \<Rightarrow> mgmt_marks option" where
  "mgmt_marks_of s ni v nb =
     (let n = x_node s ni; x = x_vap s v; d = nb_data nb; eapol_flag = (nb_flags nb AND M_EAPOL \<noteq> 0) in
      do { addr1 \<leftarrow> rd8 d 4; seq \<leftarrow> rd16 d 22; fc \<leftarrow> rd8 d 0;
           eapol_type \<leftarrow> eapol_at 12 d;
           let m = \<lparr>mm_confirm = 0, mm_retry = 0, mm_word1 = 0,
                    mm_word3 = (if eapol_flag then RATE_INFO_ENABLE else RATE_INFO_ENABLE OR INSERT_SEQ_NO) OR
                               (if bit addr1 0 then ONEBOX_BROADCAST_PKT else 0),
                    mm_word6 = drop_bit 4 seq, mm_word7 = 0\<rparr>;
           let m1 = (if eapol_type \<and> eapol_flag then eapol_marks s n v nb m else m);
           let m2 = probe_marks x fc m1;
           m3 \<leftarrow> (if x_opmode s v = M_HOSTAP then hostap_marks n nb fc m2 else Some m2);
           let m4 = (if fc = 0x50 then m3\<lparr>mm_word3 := mm_word3 m3 OR INSERT_TSF\<rparr> else m3);
           Some (if fc = 0xd0 then m4\<lparr>mm_word7 := mm_word7 m4 OR push_bit 8 (ucast (node_sta_id n))\<rparr> else m4) })"

definition mgmt_desc :: "wlan_xmit \<Rightarrow> netbuf \<Rightarrow> u8 \<Rightarrow> u16 \<Rightarrow> mgmt_marks \<Rightarrow> u16 list" where
  "mgmt_desc s nb extnd_size word4 m =
     [word_of_nat (extended_length extnd_size (nb_data nb) - FRAME_DESC_SZ) OR push_bit 12 ONEBOX_WIFI_MGMT_Q,
      mm_word1 m, (ucast extnd_size + 4) OR push_bit 8 24, mm_word3 m, word4,
      (if band_flags s AND CHAN_HT40 \<noteq> 0 then primary_half (band_flags s) else 0), mm_word6 m, mm_word7 m]"

definition mgmt_netbuf :: "wlan_xmit \<Rightarrow> netbuf \<Rightarrow> u8 \<Rightarrow> u16 \<Rightarrow> mgmt_marks \<Rightarrow> netbuf" where
  "mgmt_netbuf s nb extnd_size word4 m =
     nb\<lparr>nb_data := extended_frame (mgmt_desc s nb extnd_size word4 m) (mm_confirm m) (mm_retry m) extnd_size (nb_data nb),
        tx_pkt_type := WLAN_TX_M_Q\<rparr>"

text \<open>A broadcast probe request that asks for its confirmation does so once.\<close>

definition clear_probe_req :: "nat \<Rightarrow> u8 \<Rightarrow> wlan_xmit \<Rightarrow> wlan_xmit" where
  "clear_probe_req v fc s =
     (if fc = 0x40 then s\<lparr>x_vap := (x_vap s)(v := (x_vap s v)\<lparr>probe_req_bcast := False\<rparr>)\<rparr> else s)"

text \<open>A rekeying EAPOL frame takes the way of the data packets.\<close>

definition is_rekeying :: "wlan_xmit \<Rightarrow> nat \<Rightarrow> nat \<Rightarrow> bool" where
  "is_rekeying s ni v \<longleftrightarrow>
     (let p = the_vap (w_ps (x_wlan s)) v in
      (iv_state p = S_RUN \<and> \<not> conn_in_prog p \<and> iv_opmode p = M_STA) \<or>
      (iv_opmode p = M_HOSTAP \<and> ni_flags (x_node s ni) AND NODE_AUTH \<noteq> 0))"

definition prepare_mgmt_frame ::
  "host \<Rightarrow> netbuf \<Rightarrow> nat \<Rightarrow> nat \<Rightarrow> wlan_xmit \<Rightarrow> (status \<times> netbuf \<times> wlan_xmit) option" where
  "prepare_mgmt_frame h nb ni v s =
     (let extnd_size = h_skb_misalign h (x_trace s) AND 0x3f;
          cleared = nb\<lparr>nb_data := extended_frame (replicate 8 0) 0 0 extnd_size (nb_data nb)\<rparr> in
      if nb_flags nb AND M_EAPOL = 0 \<and> MAX_MGMT_PKT_SIZE < extended_length extnd_size (nb_data nb)
      then Some (ONEBOX_STATUS_FAILURE, cleared, free_xmit cleared s)
      else do { w4 \<leftarrow> mgmt_word4 s (x_node s ni) v;
                m \<leftarrow> mgmt_marks_of s ni v nb;
                fc \<leftarrow> rd8 (nb_data nb) 0;
                let nb' = mgmt_netbuf s nb extnd_size w4 m;
                let s1 = clear_probe_req v fc s;
                s2 \<leftarrow> (if sc_nmonvaps s \<noteq> 0 then onebox_completion_handler h nb' s1 else Some s1);
                let s3 = (if ni_flags (x_node s ni) AND NODE_TMP \<noteq> 0 then s2\<lparr>freed_nodes := ni # freed_nodes s2\<rparr> else s2);
                Some (ONEBOX_STATUS_SUCCESS, nb', s3) })"

definition prepare_onair_mgmt_pkt_desc ::
  "host \<Rightarrow> netbuf \<Rightarrow> wlan_xmit \<Rightarrow> (status \<times> netbuf \<times> wlan_xmit) option" where
  "prepare_onair_mgmt_pkt_desc h nb s =
     (case node_and_vap nb s of
        None \<Rightarrow> Some (ONEBOX_STATUS_FAILURE, nb, free_xmit nb s)
      | Some (ni, v) \<Rightarrow>
          do { eapol_type \<leftarrow> eapol_at 12 (nb_data nb);
               if eapol_type \<and> nb_flags nb AND M_EAPOL \<noteq> 0 \<and> is_rekeying s ni v
               then (let q = (if x_opmode s v = M_STA then VO_Q_STA else VO_Q_AP)
                     in prepare_onair_data_pkt_desc h (nb\<lparr>nb_tid := 7, nb_priority := word_of_nat q\<rparr>) q s)
               else prepare_mgmt_frame h nb ni v s })"

end
