(* ===== verification/Core_Xmit.thy ===== *)
theory Core_Xmit
  imports Tx_Descriptor
begin

text \<open>
  The entry of the transmit path: \<^verbatim>\<open>core_xmit\<close> for the packets of the network stack
  and \<^verbatim>\<open>onebox_send_mgmt_pkt\<close> for the frames of net80211
  (\<^verbatim>\<open>onebox_core_os_intf.c\<close>). A packet is given a queue, passes the flow control of
  its interface, gets its descriptor and is queued for the core; or it is dropped.
\<close>

section \<open>Small steps\<close>

definition on_wlan :: "(wlan_adapter \<Rightarrow> wlan_adapter) \<Rightarrow> wlan_xmit \<Rightarrow> wlan_xmit" where
  "on_wlan f s = s\<lparr>x_wlan := f (x_wlan s)\<rparr>"

definition schedule_xmit :: "wlan_xmit \<Rightarrow> wlan_xmit" where
  "schedule_xmit = on_wlan schedule_wlan"

definition xmit_fail :: "netbuf \<Rightarrow> nat \<Rightarrow> wlan_xmit \<Rightarrow> wlan_xmit" where
  "xmit_fail nb pkt_priority s =
     (let s1 = free_xmit nb (s\<lparr>tx_dropped := tx_dropped s + 1\<rparr>)
      in s1\<lparr>total_tx_data_dropped := bump pkt_priority (total_tx_data_dropped s1)\<rparr>)"

text \<open>The type of service: of IPv6 from the traffic class, else from the byte behind the header.\<close>

definition xmit_tos :: "bytes \<Rightarrow> u8 option" where
  "xmit_tos d =
     do { ethertype \<leftarrow> rd16 d 12;
          if ethertype = 0xdd86
          then do { b0 \<leftarrow> rd8 d 14; b1 \<leftarrow> rd8 d 15; b2 \<leftarrow> rd8 d 16; b3 \<leftarrow> rd8 d 17;
                    let word = push_bit 24 (ucast b0) OR push_bit 16 (ucast b1) OR push_bit 8 (ucast b2) OR (ucast b3 :: u32);
                    Some (drop_bit 5 (ucast (drop_bit 20 word))) }
          else do { b \<leftarrow> rd8 d 15; Some (drop_bit 5 b) } }"

definition tid_to_wme_ac :: "u8 \<Rightarrow> nat" where
  "tid_to_wme_ac tid =
     (if tid = 0 \<or> tid = 3 then WME_AC_BE else if tid < 3 then WME_AC_BK else if tid < 6 then WME_AC_VI else WME_AC_VO)"

definition wmm_queue :: "u32 \<Rightarrow> nat \<Rightarrow> nat" where
  "wmm_queue flags ac =
     (if flags AND F_WME \<noteq> 0
      then if ac = WME_AC_VO then VO_Q_STA else if ac = WME_AC_VI then VI_Q_STA
           else if ac = WME_AC_BE then BE_Q_STA else if ac = WME_AC_BK then BK_Q_STA else BE_Q_STA
      else BE_Q_STA)"

text \<open>
  The queue of a packet; \<open>Some None\<close> is an access point that has no key yet. EAPOL frames go
  to the management queue: of a station whether or not they are flagged.
\<close>

definition xmit_queue_of :: "wlan_xmit \<Rightarrow> nat \<Rightarrow> nat \<Rightarrow> netbuf \<Rightarrow> nat option option" where
  "xmit_queue_of s ni v nb =
     do { eapol_type \<leftarrow> eapol_at 12 (nb_data nb);
          let hostap = (x_opmode s v = M_HOSTAP);
          let flagged = (nb_flags nb AND M_EAPOL \<noteq> 0 \<and> eapol_type);
          let q = wmm_queue (ic_flags s) (unat (nb_priority nb)) + (if hostap then 4 else 0);
          if hostap \<and> iv_flags (x_vap s v) AND F_PRIVACY \<noteq> 0 \<and> ni_flags (x_node s ni) AND NODE_ENCRYPT_ENBL = 0 \<and> \<not> flagged
          then Some None
          else if hostap \<and> flagged \<or> x_opmode s v = M_STA \<and> eapol_type then Some (Some MGMT_SOFT_Q)
          else Some (Some q) }"

section \<open>Flow control\<close>

abbreviation stopped :: "wlan_xmit \<Rightarrow> nat \<Rightarrow> nat \<Rightarrow> bool" where
  "stopped s v q \<equiv> stop_per_q (x_wlan s) v q"

abbreviation udp_stopped :: "wlan_xmit \<Rightarrow> nat \<Rightarrow> nat \<Rightarrow> bool" where
  "udp_stopped s v q \<equiv> stop_udp_pkts (x_wlan s) v q"

text \<open>A queue that reached its maximal length stops the interface's use of it.\<close>

definition check_queue_full :: "nat \<Rightarrow> nat \<Rightarrow> wlan_xmit \<Rightarrow> wlan_xmit" where
  "check_queue_full v q s =
     (if q \<noteq> MGMT_SOFT_Q \<and> q \<noteq> BROADCAST_HW_Q \<and> unat (host_txq_maxlen (x_wlan s) q) \<le> hal_queue_len (x_wlan s) q + 1
      then on_wlan (\<lambda>w. w\<lparr>stop_per_q := (stop_per_q w)(v := (stop_per_q w v)(q := True))\<rparr>) s else s)"

text \<open>While a secured connection is made the queues are not stopped.\<close>

definition stop_if_full :: "nat \<Rightarrow> nat \<Rightarrow> wlan_xmit \<Rightarrow> bool \<times> wlan_xmit" where
  "stop_if_full v q s =
     (if \<not> stopped s v q then (True, s)
      else if x_opmode s v = M_STA \<and> conn_in_prog (the_vap (w_ps (x_wlan s)) v) \<and> has_wpa_ie (x_vap s v)
      then (True, schedule_xmit s)
      else (False, schedule_xmit (on_wlan (\<lambda>w. w\<lparr>ifp_txq_stopped := (ifp_txq_stopped w)(v := True)\<rparr>) s)))"

definition water_mark :: "nat \<Rightarrow> nat" where
  "water_mark q =
     (if q = VO_Q_STA \<or> q = VO_Q_AP then 4500 else if q = VI_Q_STA \<or> q = VI_Q_AP then 3900
      else if q = BE_Q_STA \<or> q = BE_Q_AP then 3200 else 600)"

definition check_water_mark :: "nat \<Rightarrow> nat \<Rightarrow> wlan_xmit \<Rightarrow> wlan_xmit" where
  "check_water_mark v q s =
     (let s1 = (if q < NUM_EDCA_QUEUES \<and> water_mark q \<le> hal_queue_len (x_wlan s) q + 1
                then on_wlan (\<lambda>w. w\<lparr>stop_udp_pkts := (stop_udp_pkts w)(v := (stop_udp_pkts w v)(q := True))\<rparr>) s else s)
      in if udp_stopped s1 v q then schedule_xmit s1 else s1)"

text \<open>
  Above the water mark UDP packets are dropped. The comparison takes one byte of the
  Ethernet type for the whole: any type that starts with 8 passes for IP.
\<close>

definition drop_udp :: "nat \<Rightarrow> nat \<Rightarrow> bytes \<Rightarrow> wlan_xmit \<Rightarrow> (bool \<times> wlan_xmit) option" where
  "drop_udp v q d s =
     (if \<not> udp_stopped s v q then Some (True, s)
      else do { ty \<leftarrow> rd8 d 12;
                if ty \<noteq> 8 then Some (True, s)
                else do { protocol \<leftarrow> rd8 d (14 + 9);
                          if protocol = 17 then Some (False, s\<lparr>udp_pkts_dropped := udp_pkts_dropped s + 1\<rparr>)
                          else Some (True, s) } })"

definition flow_control :: "nat \<Rightarrow> nat \<Rightarrow> bytes \<Rightarrow> wlan_xmit \<Rightarrow> (bool \<times> wlan_xmit) option" where
  "flow_control v q d s =
     (case stop_if_full v q (check_queue_full v q s) of
        (False, s1) \<Rightarrow> Some (False, s1)
      | (True, s1) \<Rightarrow> drop_udp v q d (check_water_mark v q s1))"

section \<open>Queueing\<close>

definition prepare_pkt :: "host \<Rightarrow> netbuf \<Rightarrow> nat \<Rightarrow> wlan_xmit \<Rightarrow> (status \<times> netbuf \<times> wlan_xmit) option" where
  "prepare_pkt h nb q s =
     (if q \<noteq> MGMT_SOFT_Q then prepare_onair_data_pkt_desc h nb q s else prepare_onair_mgmt_pkt_desc h nb s)"

definition queue_xmit :: "netbuf \<Rightarrow> nat \<Rightarrow> wlan_xmit \<Rightarrow> wlan_xmit option" where
  "queue_xmit nb q s =
     do { w \<leftarrow> core_queue_pkt nb q (x_wlan s); Some (schedule_xmit (s\<lparr>x_wlan := w\<rparr>)) }"

definition xmit_enqueue :: "host \<Rightarrow> netbuf \<Rightarrow> nat \<Rightarrow> wlan_xmit \<Rightarrow> wlan_xmit option" where
  "xmit_enqueue h nb q s =
     do { (status, nb', s1) \<leftarrow> prepare_pkt h (nb\<lparr>nb_priority := word_of_nat q\<rparr>) q s;
          if status = ONEBOX_STATUS_SUCCESS then queue_xmit nb' q s1 else Some (xmit_fail nb' q s1) }"

text \<open>Group addressed packets of an access point wait for the next DTIM beacon.\<close>

definition xmit_multicast :: "netbuf \<Rightarrow> nat \<Rightarrow> wlan_xmit \<Rightarrow> wlan_xmit" where
  "xmit_multicast nb v s =
     (let s1 = s\<lparr>multicast_pkts := multicast_pkts s + 1\<rparr>; x = x_vap s v in
      if 500 < netbuf_queue_len (rv_mcastq x) then xmit_fail nb BE_Q_STA s1
      else s1\<lparr>x_vap := (x_vap s)(v := x\<lparr>rv_mcastq := netbuf_queue_tail (rv_mcastq x) nb\<rparr>)\<rparr>)"

text \<open>A packet for one station, with its type of service already set.\<close>

definition xmit_unicast :: "host \<Rightarrow> netbuf \<Rightarrow> nat \<Rightarrow> nat \<Rightarrow> wlan_xmit \<Rightarrow> wlan_xmit option" where
  "xmit_unicast h nb ni v s =
     (let nb1 = nb\<lparr>nb_sta_id := node_sta_id (x_node s ni)\<rparr> in
      do { queue \<leftarrow> xmit_queue_of s ni v nb1;
           case queue of
             None \<Rightarrow> Some (xmit_fail nb1 (wmm_queue (ic_flags s) (unat (nb_priority nb1)) + 4) s)
           | Some q \<Rightarrow>
               do { (go, s1) \<leftarrow> flow_control v q (nb_data nb1) s;
                    if go then xmit_enqueue h nb1 q s1 else Some (xmit_fail nb1 q s1) } })"

definition core_xmit :: "host \<Rightarrow> netbuf \<Rightarrow> wlan_xmit \<Rightarrow> wlan_xmit option" where
  "core_xmit h nb s =
     (if nb_data nb = [] \<or> w_fsm_state (x_wlan s) \<noteq> FSM_MAC_INIT_DONE
      then Some (xmit_fail nb BE_Q_STA (s\<lparr>tx_dropped := tx_dropped s + 1\<rparr>))
      else (case nb_ni nb of
              None \<Rightarrow> Some (xmit_fail nb BE_Q_STA s)
            | Some ni \<Rightarrow>
                do { tos \<leftarrow> xmit_tos (nb_data nb);
                     let nb1 = nb\<lparr>nb_tid := tos, nb_priority := word_of_nat (tid_to_wme_ac tos)\<rparr>;
                     v \<leftarrow> ni_vap (x_wlan s) ni;
                     if group_addressed nb1 \<and> x_opmode s v = M_HOSTAP then Some (xmit_multicast nb1 v s)
                     else if group_addressed nb1
                     then xmit_unicast h (nb1\<lparr>nb_flags := nb_flags nb1 AND NOT (ONEBOX_BROADCAST OR ONEBOX_MULTICAST)\<rparr>) ni v s
                     else xmit_unicast h nb1 ni v
                            (s\<lparr>tx_packets := tx_packets s + 1, tx_bytes := tx_bytes s + word_of_nat (length (nb_data nb1))\<rparr>) }))"

section \<open>The frames of net80211\<close>

text \<open>
  \<open>pkt\<close> is the translated buffer, \<open>None\<close> without memory for it, which the next line
  dereferences. \<open>notify\<close> is the peer notification sent before an association request.
\<close>

definition onebox_send_mgmt_pkt ::
  "(nat \<Rightarrow> wlan_xmit \<Rightarrow> wlan_xmit) \<Rightarrow> host \<Rightarrow> nat \<Rightarrow> netbuf option \<Rightarrow> wlan_xmit \<Rightarrow> wlan_xmit option" where
  "onebox_send_mgmt_pkt notify h ni pkt s =
     do { v \<leftarrow> ni_vap (x_wlan s) ni; nb \<leftarrow> pkt;
          if nb_data nb = [] \<or> w_fsm_state (x_wlan s) \<noteq> FSM_MAC_INIT_DONE then Some (free_xmit nb s)
          else (let nb1 = nb\<lparr>nb_ni := Some ni\<rparr> in
                if 200 < hal_queue_len (x_wlan s) MGMT_SOFT_Q then Some (free_xmit nb1 s)
                else do { fc \<leftarrow> rd8 (nb_data nb1) 0;
                          let s1 = (if (fc = 0x00 \<or> fc = 0x20) \<and> x_opmode s v = M_STA then notify ni s else s);
                          (status, nb2, s2) \<leftarrow> prepare_onair_mgmt_pkt_desc h nb1 s1;
                          if status = ONEBOX_STATUS_SUCCESS then queue_xmit nb2 MGMT_SOFT_Q s2
                          else Some (free_xmit nb2 s2) }) }"

end
