(* ===== verification/Xmit_Run.thy ===== *)
theory Xmit_Run
  imports Core_Xmit
begin

text \<open>
  What the entry of the transmit path achieves: the device can recover a prepared frame from
  its descriptors, every packet has one fate, and what is queued is what the core can handle.
\<close>

section \<open>The layout of a prepared frame\<close>

lemma length_concat_le16 [simp]: "length (concat (map le16 ws)) = 2 * length ws"
  by (induction ws) (simp_all add: le16_def)

lemma concat_le16_nth:
  "k < length ws \<Longrightarrow> concat (map le16 ws) ! (2 * k) = ucast (ws ! k)"
  "k < length ws \<Longrightarrow> concat (map le16 ws) ! Suc (2 * k) = ucast (drop_bit 8 (ws ! k))"
proof (induction ws arbitrary: k)
  case Nil
  { case 1 then show ?case by simp next case 2 then show ?case by simp }
next
  case (Cons w ws)
  { case 1 then show ?case using Cons.IH(1) [of "k - 1"] by (cases k) (simp_all add: le16_def)
  next case 2 then show ?case using Cons.IH(2) [of "k - 1"] by (cases k) (simp_all add: le16_def) }
qed

lemma length_extended_frame [simp]:
  "length ws = 8 \<Longrightarrow> length (extended_frame ws c r e f) = extended_length e f"
  by (simp add: extended_frame_def extended_length_def)

lemma extended_frame_rd16:
  "length ws = 8 \<Longrightarrow> k < 8 \<Longrightarrow> rd16 (extended_frame ws c r e f) (2 * k) = Some (ws ! k)"
  by (simp add: rd16_def rd8_def extended_frame_def nth_append concat_le16_nth rejoin_u16)

lemma extended_frame_nth4: "length ws = 8 \<Longrightarrow> extended_frame ws c r e f ! 4 = ucast (ws ! 2)"
  using concat_le16_nth(1) [of 2 ws] by (simp add: extended_frame_def nth_append)

lemma extended_frame_drop:
  "length ws = 8 \<Longrightarrow> drop (FRAME_DESC_SZ + XTENDED_DESC_SZ + unat e) (extended_frame ws c r e f) = f"
proof -
  assume "length ws = 8"
  moreover define pre where "pre = concat (map le16 ws) @ [c, r, 0, 0] @ replicate (unat e) 0"
  ultimately have "length pre = FRAME_DESC_SZ + XTENDED_DESC_SZ + unat e" "extended_frame ws c r e f = pre @ f"
    by (simp_all add: extended_frame_def)
  then show ?thesis by (metis append_eq_conv_conj)
qed

lemma extended_frame_payload:
  "length ws = 8 \<Longrightarrow> extended_frame ws c r e f ! (FRAME_DESC_SZ + XTENDED_DESC_SZ + unat e + i) = f ! i"
  by (simp add: extended_frame_def nth_append)

text \<open>What preparation makes of a packet: its frame behind descriptors that tell where it starts.\<close>

definition prepared :: "nat \<Rightarrow> netbuf \<Rightarrow> netbuf \<Rightarrow> bool" where
  "prepared fw_queue nb nb' \<longleftrightarrow>
     (\<exists>ws c r e. nb_data nb' = extended_frame ws c r e (nb_data nb) \<and> length ws = 8 \<and> unat e < 64 \<and>
                 ucast (ws ! 2) = e + 4 \<and>
                 ws ! 0 = word_of_nat (extended_length e (nb_data nb) - FRAME_DESC_SZ) OR push_bit 12 (word_of_nat fw_queue)) \<and>
     nb_ni nb' = nb_ni nb \<and> nb_flags nb' = nb_flags nb"

lemma misalign_small: "unat (x AND 0x3f :: u8) < 64"
proof -
  have "x AND 0x3f \<le> 0x3f" by (rule word_and_le1)
  then show ?thesis by (simp add: word_le_nat_alt)
qed

lemma ext_size_byte:
  assumes "unat (e :: u8) < 64"
  shows "(ucast (ucast e + 4 :: u16) :: u8) = e + 4" "(ucast ((ucast e + 4) OR push_bit 8 24 :: u16) :: u8) = e + 4"
    and "unat (e + 4) = unat e + 4"
proof -
  show 1: "(ucast (ucast e + 4 :: u16) :: u8) = e + 4"
    using assms by (simp add: word_unat_eq_iff unsigned_ucast_eq unat_word_ariths take_bit_eq_mod unat_ucast_widen)
  have "(ucast (push_bit 8 24 :: u16) :: u8) = 0" by simp
  with 1 show "(ucast ((ucast e + 4) OR push_bit 8 24 :: u16) :: u8) = e + 4"
    by (simp only: unsigned_or_eq or.right_neutral)
  show "unat (e + 4) = unat e + 4" using assms by (simp add: unat_word_ariths)
qed

section \<open>Preparing a packet\<close>

text \<open>The state apart from counters, marks and the copies for the monitor.\<close>

definition xmit_same :: "wlan_xmit \<Rightarrow> wlan_xmit \<Rightarrow> bool" where
  "xmit_same s s' \<longleftrightarrow> x_wlan s' = x_wlan s \<and> (\<forall>v. rv_mcastq (x_vap s' v) = rv_mcastq (x_vap s v))"

lemma xmit_same_refl [simp]: "xmit_same s s"
  by (simp add: xmit_same_def)

lemma xmit_same_trans: "xmit_same s t \<Longrightarrow> xmit_same t u \<Longrightarrow> xmit_same s u"
  by (simp add: xmit_same_def)

lemma completion_same: "onebox_completion_handler h nb s = Some s' \<Longrightarrow> xmit_same s s'"
  by (auto simp: onebox_completion_handler_def xmit_same_def Let_def split: if_splits bind_splits)

lemma length_data_desc [simp]: "length (data_desc s ni v nb tid q e b) = 8"
  by (simp add: data_desc_def Let_def)

lemma data_desc_nth:
  "data_desc s ni v nb tid q e b ! 0 = word_of_nat (extended_length e (nb_data nb) - FRAME_DESC_SZ) OR push_bit 12 (word_of_nat 5)"
  "data_desc s ni v nb tid q e b ! 2 = ucast e + 4"
  "data_desc s ni v nb tid q e b ! 4 = data_word4 s (x_node s ni) (x_vap s v) nb"
  "data_desc s ni v nb tid q e b ! 7 = data_word7 (x_vap s v) nb tid q"
  by (simp_all add: data_desc_def Let_def)

lemma prepare_data_result:
  assumes "node_and_vap nb s = Some (ni, v)" "prepare_onair_data_pkt_desc h nb q s = Some (st, nb', s')"
  obtains tid q' b where "st = ONEBOX_STATUS_SUCCESS" "acm_remap s v nb q = Some (tid, q')"
    and "nb' = data_netbuf s ni v nb tid q' (h_skb_misalign h (x_trace s) AND 0x3f) b" and "xmit_same s s'"
proof -
  let ?e = "h_skb_misalign h (x_trace s) AND 0x3f"
  obtain tid q' b where "acm_remap s v nb q = Some (tid, q')" "st = ONEBOX_STATUS_SUCCESS" "nb' = data_netbuf s ni v nb tid q' ?e b"
      "s' = s \<or> onebox_completion_handler h nb' s = Some s'"
    using assms by (fastforce simp: prepare_onair_data_pkt_desc_def Let_def split: bind_splits if_splits)
  then show ?thesis using that completion_same xmit_same_refl by blast
qed

lemma data_netbuf_prepared:
  assumes "unat e < 64"
  shows "prepared 5 nb (data_netbuf s ni v nb tid q e b)"
  unfolding prepared_def data_netbuf_def
  using assms ext_size_byte(1) [OF assms] data_desc_nth(1,2) [of s ni v nb tid q e b]
  by (intro conjI exI [of _ "data_desc s ni v nb tid q e b"] exI [of _ 0] exI [of _ "if b then 15 else 0"] exI [of _ e])
    simp_all

lemma prepare_data_prepared:
  assumes "node_and_vap nb s = Some (ni, v)" "prepare_onair_data_pkt_desc h nb q s = Some (st, nb', s')"
  shows "st = ONEBOX_STATUS_SUCCESS \<and> prepared 5 nb nb' \<and> xmit_same s s'"
proof (rule prepare_data_result [OF assms])
  fix tid q' b
  assume "st = ONEBOX_STATUS_SUCCESS" "xmit_same s s'" "nb' = data_netbuf s ni v nb tid q' (h_skb_misalign h (x_trace s) AND 0x3f) b"
  then show ?thesis using data_netbuf_prepared [OF misalign_small] by simp
qed

lemma length_mgmt_desc [simp]: "length (mgmt_desc s nb e w4 m) = 8"
  by (simp add: mgmt_desc_def)

lemma mgmt_desc_nth:
  "mgmt_desc s nb e w4 m ! 0 = word_of_nat (extended_length e (nb_data nb) - FRAME_DESC_SZ) OR push_bit 12 (word_of_nat 4)"
  "mgmt_desc s nb e w4 m ! 2 = (ucast e + 4) OR push_bit 8 24"
  by (simp_all add: mgmt_desc_def)

lemma mgmt_netbuf_prepared:
  assumes "unat e < 64"
  shows "prepared 4 nb (mgmt_netbuf s nb e w4 m)"
  unfolding prepared_def mgmt_netbuf_def
  using assms ext_size_byte(2) [OF assms] mgmt_desc_nth [of s nb e w4 m]
  by (intro conjI exI [of _ "mgmt_desc s nb e w4 m"] exI [of _ "mm_confirm m"] exI [of _ "mm_retry m"] exI [of _ e]) simp_all

lemma mgmt_marks_length: "mgmt_marks_of s ni v nb = Some m \<Longrightarrow> 24 \<le> length (nb_data nb)"
  by (auto simp: mgmt_marks_of_def Let_def split: bind_splits dest: rd16_Some_bound)

text \<open>A frame that is too long is freed with its descriptors cleared; only unflagged frames are.\<close>

lemma prepare_mgmt_result:
  assumes "prepare_mgmt_frame h nb ni v s = Some (st, nb', s')"
  obtains (sent) "st = ONEBOX_STATUS_SUCCESS" "prepared 4 nb nb'" "xmit_same s s'" "24 \<le> length (nb_data nb)"
  | (too_long) e where "st = ONEBOX_STATUS_FAILURE" "nb_flags nb AND M_EAPOL = 0" "unat e < 64"
      "MAX_MGMT_PKT_SIZE < extended_length e (nb_data nb)" "s' = free_xmit nb' s"
proof -
  let ?e = "h_skb_misalign h (x_trace s) AND 0x3f"
  have e: "unat ?e < 64" by (rule misalign_small)
  show ?thesis
  proof (cases "nb_flags nb AND M_EAPOL = 0 \<and> MAX_MGMT_PKT_SIZE < extended_length ?e (nb_data nb)")
    case True
    with assms e show ?thesis by (intro too_long) (auto simp: prepare_mgmt_frame_def Let_def)
  next
    case False
    then obtain w4 m fc s2 where m: "mgmt_marks_of s ni v nb = Some m"
      and nb': "nb' = mgmt_netbuf s nb ?e w4 m" and st: "st = ONEBOX_STATUS_SUCCESS"
      and s2: "clear_probe_req v fc s = s2 \<or> onebox_completion_handler h nb' (clear_probe_req v fc s) = Some s2"
      and s': "s' = s2 \<or> s' = s2\<lparr>freed_nodes := ni # freed_nodes s2\<rparr>"
      using assms by (fastforce simp: prepare_mgmt_frame_def Let_def split: bind_splits if_splits)
    have "xmit_same s (clear_probe_req v fc s)"
      by (simp add: clear_probe_req_def xmit_same_def)
    with s2 have "xmit_same s s2" by (auto dest!: completion_same intro: xmit_same_trans)
    then have "xmit_same s s'" using s' by (auto simp: xmit_same_def)
    moreover have "prepared 4 nb nb'" unfolding nb' by (rule mgmt_netbuf_prepared [OF e])
    ultimately show ?thesis using st mgmt_marks_length [OF m] by (intro sent)
  qed
qed

section \<open>What the device and the core read of a prepared packet\<close>

lemma prepared_frame:
  assumes "prepared fw_queue nb nb'"
  shows "drop (FRAME_DESC_SZ + unat (nb_data nb' ! 4)) (nb_data nb') = nb_data nb"
    and "length (nb_data nb') = FRAME_DESC_SZ + unat (nb_data nb' ! 4) + length (nb_data nb)"
    and "4 \<le> unat (nb_data nb' ! 4)"
proof -
  obtain ws c r e where p: "nb_data nb' = extended_frame ws c r e (nb_data nb)" "length ws = 8" "unat e < 64"
      "ucast (ws ! 2) = e + 4"
    using assms by (auto simp: prepared_def)
  have e: "unat (nb_data nb' ! 4) = XTENDED_DESC_SZ + unat e"
    using extended_frame_nth4 [OF p(2)] ext_size_byte(3) [OF p(3)] p(1,4) by simp
  then show "4 \<le> unat (nb_data nb' ! 4)" by simp
  show "drop (FRAME_DESC_SZ + unat (nb_data nb' ! 4)) (nb_data nb') = nb_data nb"
    using extended_frame_drop [OF p(2)] e p(1) by (simp add: add.assoc)
  show "length (nb_data nb') = FRAME_DESC_SZ + unat (nb_data nb' ! 4) + length (nb_data nb)"
    using e p(1,2) by (simp add: extended_length_def)
qed

lemma first_word_fields:
  assumes "n < 4096" "q < 16"
  shows "unat ((word_of_nat n OR push_bit 12 (word_of_nat q) :: u16) AND 0xfff) = n"
    and "unat (drop_bit 12 (word_of_nat n OR push_bit 12 (word_of_nat q) :: u16)) = q"
proof -
  have n: "unat (word_of_nat n :: u16) = n" using assms(1) by (simp add: unat_of_nat)
  have q: "unat (word_of_nat q :: u16) = q" using assms(2) by (simp add: unat_of_nat)
  have m: "(x AND 0xfff) = take_bit 12 x" for x :: u16
    by (simp add: take_bit_eq_mask mask_eq_exp_minus_1)
  have "take_bit 12 (push_bit 12 (word_of_nat q :: u16)) = 0"
    by (rule bit_word_eqI) (simp add: bit_simps)
  then have "(word_of_nat n OR push_bit 12 (word_of_nat q) :: u16) AND 0xfff = take_bit 12 (word_of_nat n)"
    by (simp only: m take_bit_or or.right_neutral)
  then have "unat ((word_of_nat n OR push_bit 12 (word_of_nat q) :: u16) AND 0xfff) = take_bit 12 (unat (word_of_nat n :: u16))"
    by (simp only: unsigned_take_bit_eq)
  with n assms(1) show "unat ((word_of_nat n OR push_bit 12 (word_of_nat q) :: u16) AND 0xfff) = n"
    by (simp add: take_bit_nat_eq_self)
  have "unat (drop_bit 12 (word_of_nat n :: u16)) = n div 4096"
    using n by (simp add: drop_bit_eq_div unat_div)
  then have z: "drop_bit 12 (word_of_nat n :: u16) = 0" using assms(1) by (simp add: unat_eq_zero)
  have "drop_bit 12 (push_bit 12 (word_of_nat q :: u16)) = take_bit 4 (word_of_nat q)"
    by (rule bit_word_eqI) (auto simp: bit_simps)
  then have "drop_bit 12 (word_of_nat n OR push_bit 12 (word_of_nat q) :: u16) = take_bit 4 (word_of_nat q)"
    using z by (simp only: drop_bit_or or.left_neutral)
  then have "unat (drop_bit 12 (word_of_nat n OR push_bit 12 (word_of_nat q) :: u16)) = take_bit 4 (unat (word_of_nat q :: u16))"
    by (simp only: unsigned_take_bit_eq)
  with q assms(2) show "unat (drop_bit 12 (word_of_nat n OR push_bit 12 (word_of_nat q) :: u16)) = q"
    by (simp add: take_bit_nat_eq_self)
qed

lemma prepared_first_word:
  assumes "prepared q nb nb'" "q < 16" "length (nb_data nb) < 4000"
  shows "\<exists>w0. rd16 (nb_data nb') 0 = Some w0 \<and> unat (w0 AND 0xfff) = length (nb_data nb') - FRAME_DESC_SZ \<and>
              unat (drop_bit 12 w0) = q"
proof -
  obtain ws c r e where p: "nb_data nb' = extended_frame ws c r e (nb_data nb)" "length ws = 8" "unat e < 64"
      "ws ! 0 = word_of_nat (extended_length e (nb_data nb) - FRAME_DESC_SZ) OR push_bit 12 (word_of_nat q)"
    using assms(1) by (auto simp: prepared_def)
  have n: "extended_length e (nb_data nb) - FRAME_DESC_SZ < 4096" using p(3) assms(3) by (simp add: extended_length_def)
  have "rd16 (nb_data nb') 0 = Some (ws ! 0)" using extended_frame_rd16 [OF p(2), of 0] p(1) by simp
  with first_word_fields [OF n assms(2)] p show ?thesis by simp
qed

lemma prepared_core_ok:
  assumes "prepared fw_queue nb nb'" "nb_ni nb \<noteq> None" "14 \<le> length (nb_data nb)"
  shows "core_pkt_ok q nb'"
  using prepared_frame [OF assms(1)] assms by (auto simp: core_pkt_ok_def prepared_def)

text \<open>Preparation either makes the frame or, for an unflagged management frame that is too long, frees it.\<close>

lemma eapol_at_bound: "eapol_at i d = Some True \<Longrightarrow> Suc i < length d"
  by (auto simp: eapol_at_def rd8_def split: bind_splits if_splits)

lemma prepare_onair_mgmt_result:
  assumes "node_and_vap nb s = Some (ni, v)" "prepare_onair_mgmt_pkt_desc h nb s = Some (st, nb', s')"
  obtains (sent) fw nb1 where "st = ONEBOX_STATUS_SUCCESS" "fw = 4 \<or> fw = 5" "prepared fw nb1 nb'" "xmit_same s s'"
      "14 \<le> length (nb_data nb)" "nb_data nb1 = nb_data nb" "nb_ni nb1 = nb_ni nb" "nb_flags nb1 = nb_flags nb"
  | (too_long) e where "st = ONEBOX_STATUS_FAILURE" "nb_flags nb AND M_EAPOL = 0" "unat e < 64"
      "MAX_MGMT_PKT_SIZE < extended_length e (nb_data nb)" "s' = free_xmit nb' s"
proof -
  obtain et where et: "eapol_at 12 (nb_data nb) = Some et" using assms by (auto simp: prepare_onair_mgmt_pkt_desc_def split: bind_splits)
  show ?thesis
  proof (cases "et \<and> nb_flags nb AND M_EAPOL \<noteq> 0 \<and> is_rekeying s ni v")
    case True
    let ?q = "if x_opmode s v = M_STA then VO_Q_STA else VO_Q_AP"
    let ?nb = "nb\<lparr>nb_tid := 7, nb_priority := word_of_nat ?q\<rparr>"
    have d: "prepare_onair_data_pkt_desc h ?nb ?q s = Some (st, nb', s')"
      using assms True et by (simp add: prepare_onair_mgmt_pkt_desc_def Let_def)
    have "node_and_vap ?nb s = Some (ni, v)" using assms(1) by (simp add: node_and_vap_def)
    from prepare_data_prepared [OF this d] eapol_at_bound [of 12 "nb_data nb"] et True show ?thesis
      by (intro sent [of 5 ?nb]) auto
  next
    case False
    have "prepare_mgmt_frame h nb ni v s = Some (st, nb', s')"
      using assms False et by (auto simp: prepare_onair_mgmt_pkt_desc_def split: if_splits)
    then show ?thesis
    proof (cases rule: prepare_mgmt_result)
      case s: sent
      then show ?thesis by (intro sent [of 4 nb]) auto
    next
      case (too_long e)
      then show ?thesis by (intro that(2) [of e])
    qed
  qed
qed

end
