(* ===== verification/Xmit_Fate.thy ===== *)
theory Xmit_Fate
  imports Xmit_Run
begin

text \<open>
  What becomes of a packet that enters the transmit path, that the path returns, and that
  the queues it fills are those the core of the driver can serve.
\<close>

section \<open>Steps that move no packet\<close>

definition xmit_quiet :: "wlan_xmit \<Rightarrow> wlan_xmit \<Rightarrow> bool" where
  "xmit_quiet s s' \<longleftrightarrow>
     host_tx_queue (x_wlan s') = host_tx_queue (x_wlan s) \<and> freed (x_trace s') = freed (x_trace s) \<and>
     (\<forall>v. rv_mcastq (x_vap s' v) = rv_mcastq (x_vap s v)) \<and> ni_vap (x_wlan s') = ni_vap (x_wlan s) \<and>
     selected_qnum (x_wlan s') = selected_qnum (x_wlan s) \<and>
     max_stations_supported (x_wlan s') = max_stations_supported (x_wlan s) \<and> w_ps (x_wlan s') = w_ps (x_wlan s) \<and>
     x_node s' = x_node s \<and> rps_rates s' = rps_rates s \<and> sc_nmonvaps s' = sc_nmonvaps s"

lemma xmit_quiet_refl [simp]: "xmit_quiet s s"
  by (simp add: xmit_quiet_def)

lemma xmit_quiet_trans: "xmit_quiet s t \<Longrightarrow> xmit_quiet t u \<Longrightarrow> xmit_quiet s u"
  by (simp add: xmit_quiet_def)

lemma schedule_wlan_fields [simp]:
  "max_stations_supported (schedule_wlan w) = max_stations_supported w" "ni_vap (schedule_wlan w) = ni_vap w"
  by (simp_all add: schedule_wlan_def)

lemma schedule_xmit_quiet [simp]: "xmit_quiet s (schedule_xmit s)"
  by (simp add: xmit_quiet_def schedule_xmit_def on_wlan_def)

lemma check_queue_full_quiet: "xmit_quiet s (check_queue_full v q s)"
  by (simp add: xmit_quiet_def check_queue_full_def on_wlan_def)

lemma stop_if_full_quiet: "stop_if_full v q s = (go, s') \<Longrightarrow> xmit_quiet s s'"
  by (auto simp: xmit_quiet_def stop_if_full_def schedule_xmit_def on_wlan_def split: if_splits)

lemma check_water_mark_quiet: "xmit_quiet s (check_water_mark v q s)"
  by (simp add: xmit_quiet_def check_water_mark_def schedule_xmit_def on_wlan_def Let_def)

lemma drop_udp_quiet: "drop_udp v q d s = Some (go, s') \<Longrightarrow> xmit_quiet s s'"
  by (auto simp: xmit_quiet_def drop_udp_def split: if_splits bind_splits)

lemma drop_udp_some: "24 \<le> length d \<Longrightarrow> \<exists>go s'. drop_udp v q d s = Some (go, s')"
  by (auto simp: drop_udp_def)

lemma flow_control_quiet:
  assumes "flow_control v q d s = Some (go, s')"
  shows "xmit_quiet s s'"
proof -
  obtain b s1 where s1: "stop_if_full v q (check_queue_full v q s) = (b, s1)" by fastforce
  have 1: "xmit_quiet s s1" using check_queue_full_quiet stop_if_full_quiet [OF s1] by (rule xmit_quiet_trans)
  show ?thesis
  proof (cases b)
    case True
    with assms s1 have "drop_udp v q d (check_water_mark v q s1) = Some (go, s')" by (simp add: flow_control_def)
    from xmit_quiet_trans [OF 1 xmit_quiet_trans [OF check_water_mark_quiet drop_udp_quiet [OF this]]] show ?thesis .
  next
    case False
    with assms s1 1 show ?thesis by (simp add: flow_control_def)
  qed
qed

lemma flow_control_some:
  assumes "24 \<le> length d"
  shows "\<exists>go s'. flow_control v q d s = Some (go, s')"
proof -
  obtain b s1 where s1: "stop_if_full v q (check_queue_full v q s) = (b, s1)" by fastforce
  then show ?thesis using drop_udp_some [OF assms] by (cases b) (auto simp: flow_control_def)
qed

section \<open>The fates of a packet\<close>

text \<open>Queued for the core behind descriptors, held for the next beacon, or freed \<open>n\<close> times.\<close>

definition xmit_queued :: "bytes \<Rightarrow> wlan_xmit \<Rightarrow> wlan_xmit \<Rightarrow> bool" where
  "xmit_queued d s s' \<longleftrightarrow>
     (\<exists>q nb'. (q < NUM_EDCA_QUEUES \<or> q = MGMT_SOFT_Q) \<and> core_pkt_ok q nb' \<and>
        drop (FRAME_DESC_SZ + unat (nb_data nb' ! 4)) (nb_data nb') = d \<and>
        host_tx_queue (x_wlan s') = (host_tx_queue (x_wlan s))(q := host_tx_queue (x_wlan s) q @ [nb'])) \<and>
     (\<forall>v. rv_mcastq (x_vap s' v) = rv_mcastq (x_vap s v)) \<and> freed (x_trace s') = freed (x_trace s)"

definition xmit_held :: "bytes \<Rightarrow> wlan_xmit \<Rightarrow> wlan_xmit \<Rightarrow> bool" where
  "xmit_held d s s' \<longleftrightarrow>
     (\<exists>v nb'. nb_data nb' = d \<and> x_opmode s v = M_HOSTAP \<and> rv_mcastq (x_vap s' v) = rv_mcastq (x_vap s v) @ [nb'] \<and>
        (\<forall>u. u \<noteq> v \<longrightarrow> rv_mcastq (x_vap s' u) = rv_mcastq (x_vap s u))) \<and>
     host_tx_queue (x_wlan s') = host_tx_queue (x_wlan s) \<and> freed (x_trace s') = freed (x_trace s)"

definition xmit_freed :: "nat \<Rightarrow> bytes \<Rightarrow> wlan_xmit \<Rightarrow> wlan_xmit \<Rightarrow> bool" where
  "xmit_freed n d s s' \<longleftrightarrow>
     host_tx_queue (x_wlan s') = host_tx_queue (x_wlan s) \<and> (\<forall>v. rv_mcastq (x_vap s' v) = rv_mcastq (x_vap s v)) \<and>
     freed (x_trace s') = freed (x_trace s) + replicate_mset n d"

text \<open>The rest of what the core needs stays.\<close>

definition xmit_rest :: "wlan_xmit \<Rightarrow> wlan_xmit \<Rightarrow> bool" where
  "xmit_rest s s' \<longleftrightarrow>
     selected_qnum (x_wlan s') = selected_qnum (x_wlan s) \<and> max_stations_supported (x_wlan s') = max_stations_supported (x_wlan s) \<and>
     w_ps (x_wlan s') = w_ps (x_wlan s)"

lemma xmit_fail_freed: "xmit_freed 1 (nb_data nb) s (xmit_fail nb q s) \<and> xmit_rest s (xmit_fail nb q s)"
  by (simp add: xmit_freed_def xmit_rest_def xmit_fail_def free_xmit_def Let_def)

lemma quiet_then_freed: "xmit_quiet s s1 \<Longrightarrow> xmit_freed n d s1 s2 \<Longrightarrow> xmit_freed n d s s2"
  by (simp add: xmit_quiet_def xmit_freed_def)

lemma quiet_then_queued: "xmit_quiet s s1 \<Longrightarrow> xmit_queued d s1 s2 \<Longrightarrow> xmit_queued d s s2"
  by (simp add: xmit_quiet_def xmit_queued_def)

lemma quiet_then_rest: "xmit_quiet s s1 \<Longrightarrow> xmit_rest s1 s2 \<Longrightarrow> xmit_rest s s2"
  by (simp add: xmit_quiet_def xmit_rest_def)

lemma queue_xmit_queued:
  assumes "q < NUM_EDCA_QUEUES \<or> q = MGMT_SOFT_Q" "core_pkt_ok q nb'"
    and "drop (FRAME_DESC_SZ + unat (nb_data nb' ! 4)) (nb_data nb') = d" "xmit_same s s1"
  shows "\<exists>s'. queue_xmit nb' q s1 = Some s' \<and> xmit_queued d s s' \<and> xmit_rest s s'"
proof -
  have q: "core_queue_pkt nb' q (x_wlan s1) = Some (upd_queue q (host_tx_queue (x_wlan s) q @ [nb']) (x_wlan s))"
    using assms(1,4) by (auto simp: core_queue_pkt_def netbuf_queue_tail_def xmit_same_def)
  have "host_tx_queue (x_wlan (schedule_xmit (s1\<lparr>x_wlan := upd_queue q (host_tx_queue (x_wlan s) q @ [nb']) (x_wlan s)\<rparr>))) =
      (host_tx_queue (x_wlan s))(q := host_tx_queue (x_wlan s) q @ [nb'])"
    by (simp add: schedule_xmit_def on_wlan_def)
  with assms show ?thesis unfolding queue_xmit_def q xmit_queued_def
    by (auto simp: xmit_rest_def schedule_xmit_def on_wlan_def xmit_same_def)
qed

text \<open>
  The last step: queued, or, for an unflagged management frame that is too long, freed twice:
  once where the preparation fails and once by the caller.
\<close>

definition over_long :: "netbuf \<Rightarrow> bool" where
  "over_long nb \<longleftrightarrow> nb_flags nb AND M_EAPOL = 0 \<and> 429 < length (nb_data nb)"

lemma xmit_enqueue_fate:
  assumes "xmit_enqueue h nb q s = Some s'" "node_and_vap nb s = Some (ni, v)" "q < NUM_EDCA_QUEUES \<or> q = MGMT_SOFT_Q"
    and "14 \<le> length (nb_data nb)"
  shows "xmit_queued (nb_data nb) s s' \<and> xmit_rest s s' \<or>
         q = MGMT_SOFT_Q \<and> over_long nb \<and> (\<exists>d. xmit_freed 2 d s s') \<and> xmit_rest s s'"
proof -
  let ?nb = "nb\<lparr>nb_priority := word_of_nat q\<rparr>"
  have nv: "node_and_vap ?nb s = Some (ni, v)" using assms(2) by (simp add: node_and_vap_def)
  have ni: "nb_ni nb \<noteq> None" using assms(2) by (auto simp: node_and_vap_def split: bind_splits)
  obtain st nb' s1 where p: "prepare_pkt h ?nb q s = Some (st, nb', s1)"
    and r: "(if st = ONEBOX_STATUS_SUCCESS then queue_xmit nb' q s1 else Some (xmit_fail nb' q s1)) = Some s'"
    using assms(1) by (auto simp: xmit_enqueue_def split: bind_splits)
  have queued: ?thesis if "st = ONEBOX_STATUS_SUCCESS" "prepared fw nb1 nb'" "nb_data nb1 = nb_data nb" "nb_ni nb1 = nb_ni nb" "xmit_same s s1"
    for fw nb1
  proof -
    have "core_pkt_ok q nb'" using prepared_core_ok [OF that(2)] that ni assms(4) by simp
    from queue_xmit_queued [OF assms(3) this _ that(5)] prepared_frame(1) [OF that(2)] that(1,3) r show ?thesis by auto
  qed
  show ?thesis
  proof (cases "q = MGMT_SOFT_Q")
    case False
    then have "prepare_onair_data_pkt_desc h ?nb q s = Some (st, nb', s1)" using p by (simp add: prepare_pkt_def)
    from prepare_data_prepared [OF nv this] queued [of 5 ?nb] show ?thesis by simp
  next
    case True
    then have "prepare_onair_mgmt_pkt_desc h ?nb s = Some (st, nb', s1)" using p by (simp add: prepare_pkt_def)
    with nv show ?thesis
    proof (cases rule: prepare_onair_mgmt_result)
      case (sent fw nb1)
      then show ?thesis using queued [of fw nb1] by simp
    next
      case (too_long e)
      then have "over_long nb" by (auto simp: over_long_def extended_length_def)
      moreover have "xmit_freed 2 (nb_data nb') s s' \<and> xmit_rest s s'"
        using r too_long by (auto simp: xmit_freed_def xmit_rest_def xmit_fail_def free_xmit_def numeral_2_eq_2)
      ultimately show ?thesis using True by blast
    qed
  qed
qed

section \<open>The fate of a packet of the network stack\<close>

lemma xmit_queue_of_range:
  "xmit_queue_of s ni v nb = Some (Some q) \<Longrightarrow> q < NUM_EDCA_QUEUES \<or> q = MGMT_SOFT_Q"
  by (auto simp: xmit_queue_of_def wmm_queue_def Let_def split: bind_splits if_splits)

lemma xmit_queue_of_eapol:
  "xmit_queue_of s ni v nb = Some (Some MGMT_SOFT_Q) \<Longrightarrow> eapol_at 12 (nb_data nb) = Some True"
  by (auto simp: xmit_queue_of_def wmm_queue_def Let_def split: bind_splits if_splits)

definition over_long_eapol :: "netbuf \<Rightarrow> bool" where
  "over_long_eapol nb \<longleftrightarrow> over_long nb \<and> eapol_at 12 (nb_data nb) = Some True"

lemma xmit_unicast_fate:
  assumes "xmit_unicast h nb ni v s = Some s'" "node_and_vap nb s = Some (ni, v)" "14 \<le> length (nb_data nb)"
  shows "((xmit_queued (nb_data nb) s s' \<or> xmit_freed 1 (nb_data nb) s s') \<and> xmit_rest s s') \<or>
         over_long_eapol nb \<and> (\<exists>d. xmit_freed 2 d s s') \<and> xmit_rest s s'"
proof -
  let ?nb = "nb\<lparr>nb_sta_id := node_sta_id (x_node s ni)\<rparr>"
  obtain queue where queue: "xmit_queue_of s ni v ?nb = Some queue"
    using assms(1) by (auto simp: xmit_unicast_def Let_def split: bind_splits)
  show ?thesis
  proof (cases queue)
    case None
    with assms(1) queue xmit_fail_freed [of ?nb] show ?thesis by (auto simp: xmit_unicast_def Let_def)
  next
    case (Some q)
    obtain go s1 where fc: "flow_control v q (nb_data nb) s = Some (go, s1)"
      using assms(1) queue Some by (auto simp: xmit_unicast_def Let_def split: bind_splits)
    note quiet = flow_control_quiet [OF fc]
    show ?thesis
    proof (cases go)
      case False
      then have "s' = xmit_fail ?nb q s1" using assms(1) queue Some fc by (simp add: xmit_unicast_def Let_def)
      with xmit_fail_freed [of ?nb s1 q] quiet_then_freed [OF quiet, of 1 "nb_data nb" s'] quiet_then_rest [OF quiet, of s']
      show ?thesis by auto
    next
      case True
      then have e: "xmit_enqueue h ?nb q s1 = Some s'" using assms(1) queue Some fc by (simp add: xmit_unicast_def Let_def)
      have nv: "node_and_vap ?nb s1 = Some (ni, v)" using assms(2) quiet by (simp add: node_and_vap_def xmit_quiet_def)
      have "q < NUM_EDCA_QUEUES \<or> q = MGMT_SOFT_Q" using xmit_queue_of_range queue Some by blast
      from xmit_enqueue_fate [OF e nv this] assms(3)
      have "xmit_queued (nb_data nb) s1 s' \<and> xmit_rest s1 s' \<or>
          over_long_eapol nb \<and> (\<exists>d. xmit_freed 2 d s1 s') \<and> xmit_rest s1 s'"
        using xmit_queue_of_eapol [of s ni v ?nb] queue Some by (auto simp: over_long_def over_long_eapol_def)
      with quiet_then_queued [OF quiet] quiet_then_freed [OF quiet] quiet_then_rest [OF quiet] show ?thesis by blast
    qed
  qed
qed

lemma xmit_multicast_fate:
  assumes "x_opmode s v = M_HOSTAP"
  shows "(xmit_held (nb_data nb) s (xmit_multicast nb v s) \<or> xmit_freed 1 (nb_data nb) s (xmit_multicast nb v s)) \<and>
         xmit_rest s (xmit_multicast nb v s)"
proof (cases "500 < netbuf_queue_len (rv_mcastq (x_vap s v))")
  case True
  with xmit_fail_freed [of nb "s\<lparr>multicast_pkts := multicast_pkts s + 1\<rparr>" BE_Q_STA] show ?thesis
    by (simp add: xmit_multicast_def xmit_freed_def xmit_rest_def Let_def)
next
  case False
  with assms show ?thesis
    by (auto simp: xmit_multicast_def xmit_held_def xmit_rest_def netbuf_queue_tail_def Let_def)
qed

lemma xmit_tos_length: "xmit_tos d = Some t \<Longrightarrow> 16 \<le> length d"
  by (auto simp: xmit_tos_def rd8_def split: bind_splits if_splits)

lemma eapol_flag_kept: "(f AND NOT (ONEBOX_BROADCAST OR ONEBOX_MULTICAST)) AND M_EAPOL = f AND M_EAPOL"
proof -
  have "NOT (ONEBOX_BROADCAST OR ONEBOX_MULTICAST) AND M_EAPOL = M_EAPOL" by simp
  then show ?thesis by (simp only: and.assoc)
qed

lemma over_long_cleared:
  "nb_flags a = nb_flags b AND NOT (ONEBOX_BROADCAST OR ONEBOX_MULTICAST) \<Longrightarrow> nb_data a = nb_data b \<Longrightarrow>
     over_long_eapol a = over_long_eapol b"
  by (simp only: over_long_eapol_def over_long_def eapol_flag_kept)

lemma core_xmit_fate:
  assumes "core_xmit h nb s = Some s'"
  shows "((xmit_queued (nb_data nb) s s' \<or> xmit_held (nb_data nb) s s' \<or> xmit_freed 1 (nb_data nb) s s') \<and> xmit_rest s s') \<or>
         over_long_eapol nb \<and> (\<exists>d. xmit_freed 2 d s s') \<and> xmit_rest s s'"
proof (cases "nb_data nb = [] \<or> w_fsm_state (x_wlan s) \<noteq> FSM_MAC_INIT_DONE \<or> nb_ni nb = None")
  case True
  then have "\<exists>s0. s' = xmit_fail nb BE_Q_STA s0 \<and> (s0 = s \<or> s0 = s\<lparr>tx_dropped := tx_dropped s + 1\<rparr>)"
    using assms by (auto simp: core_xmit_def split: if_splits)
  then show ?thesis using xmit_fail_freed [of nb] by (auto simp: xmit_freed_def xmit_rest_def)
next
  case False
  then obtain ni where ni: "nb_ni nb = Some ni" by auto
  obtain tos v where tos: "xmit_tos (nb_data nb) = Some tos" and v: "ni_vap (x_wlan s) ni = Some v"
    using assms False ni by (auto simp: core_xmit_def Let_def split: bind_splits if_splits)
  let ?nb = "nb\<lparr>nb_tid := tos, nb_priority := word_of_nat (tid_to_wme_ac tos)\<rparr>"
  let ?clr = "?nb\<lparr>nb_flags := nb_flags ?nb AND NOT (ONEBOX_BROADCAST OR ONEBOX_MULTICAST)\<rparr>"
  let ?s = "s\<lparr>tx_packets := tx_packets s + 1, tx_bytes := tx_bytes s + word_of_nat (length (nb_data nb))\<rparr>"
  have len: "14 \<le> length (nb_data nb)" using xmit_tos_length [OF tos] by simp
  have "s' = xmit_multicast ?nb v s \<and> x_opmode s v = M_HOSTAP \<or> xmit_unicast h ?clr ni v s = Some s' \<or>
      xmit_unicast h ?nb ni v ?s = Some s'"
    using assms False ni tos v by (auto simp: core_xmit_def Let_def split: if_splits)
  then consider (group) "s' = xmit_multicast ?nb v s" "x_opmode s v = M_HOSTAP" | (cleared) "xmit_unicast h ?clr ni v s = Some s'"
    | (single) "xmit_unicast h ?nb ni v ?s = Some s'" by blast
  then show ?thesis
  proof cases
    case group
    with xmit_multicast_fate [of s v ?nb] show ?thesis by auto
  next
    case cleared
    have "node_and_vap ?clr s = Some (ni, v)" using ni v by (simp add: node_and_vap_def)
    have "over_long_eapol ?clr = over_long_eapol nb"
      by (rule over_long_cleared) simp_all
    with xmit_unicast_fate [OF cleared \<open>node_and_vap ?clr s = Some (ni, v)\<close>] len show ?thesis
      by auto
  next
    case single
    have "node_and_vap ?nb ?s = Some (ni, v)" using ni v by (simp add: node_and_vap_def)
    from xmit_unicast_fate [OF single this] len show ?thesis
      by (auto simp: over_long_eapol_def over_long_def xmit_queued_def xmit_freed_def xmit_rest_def)
  qed
qed

text \<open>What is queued is what the core can serve.\<close>

lemma fate_core_ok:
  assumes "core_ok (x_wlan s)" "xmit_rest s s'"
    and "xmit_queued d s s' \<or> host_tx_queue (x_wlan s') = host_tx_queue (x_wlan s)"
  shows "core_ok (x_wlan s')"
proof -
  have "core_pkt_ok q nb"
    if "q < NUM_EDCA_QUEUES \<or> q = MGMT_SOFT_Q" "nb \<in> set (host_tx_queue (x_wlan s') q)" for q nb
    using that assms(1,3) by (auto simp: core_ok_def xmit_queued_def split: if_splits)
  with assms(1,2) show ?thesis by (simp add: core_ok_def xmit_rest_def)
qed

end
