(* ===== verification/Xmit_Safe.thy ===== *)
theory Xmit_Safe
  imports Xmit_Fate
begin

text \<open>
  The properties of the entry of the transmit path: it returns and keeps the queues
  serviceable, gives every packet one fate, and builds frames whose fields the device and the
  core read back. At the end what it does not get right.
\<close>

section \<open>The path returns\<close>

text \<open>
  A frame with a complete header, of a node with an interface; the rates of the node include
  a basic one, and the scheduler last served a queue of the stations.
\<close>

definition xmit_fit :: "host \<Rightarrow> netbuf \<Rightarrow> wlan_xmit \<Rightarrow> bool" where
  "xmit_fit h nb s \<longleftrightarrow>
     24 \<le> length (nb_data nb) \<and> (sc_nmonvaps s = 0 \<or> (\<forall>t. h_alloc_skb h t)) \<and>
     (case nb_ni nb of
        None \<Rightarrow> True
      | Some ni \<Rightarrow>
          (case ni_vap (x_wlan s) ni of
             None \<Rightarrow> False
           | Some v \<Rightarrow> (x_opmode s v = M_STA \<longrightarrow> selected_qnum (x_wlan s) < 4) \<and>
                       (rs_nrates (x_node s ni) = 0 \<or> list_ex (\<lambda>r. r AND 0x80 \<noteq> 0) (rs_rates (x_node s ni)))))"

lemma eapol_at_some: "Suc i < length d \<Longrightarrow> \<exists>b. eapol_at i d = Some b"
  by (auto simp: eapol_at_def)

lemma xmit_tos_some: "24 \<le> length d \<Longrightarrow> \<exists>t. xmit_tos d = Some t"
  using rd16_defined_iff [of d 12] by (auto simp: xmit_tos_def)

lemma completion_some:
  assumes "h_alloc_skb h (x_trace s)" "prepared fw nb nb'"
  shows "\<exists>s'. onebox_completion_handler h nb' s = Some s'"
  using assms(1) prepared_frame(2) [OF assms(2)]
  by (simp add: onebox_completion_handler_def netbuf_adj_def Let_def rd8_def)

lemma acm_remap_some:
  "(x_opmode s v = M_STA \<longrightarrow> selected_qnum (x_wlan s) < 4) \<Longrightarrow> \<exists>tid q'. acm_remap s v nb q = Some (tid, q')"
  by (auto simp: acm_remap_def)

lemma prepare_data_some:
  assumes "node_and_vap nb s = Some (ni, v)" "10 \<le> length (nb_data nb)" "sc_nmonvaps s = 0 \<or> (\<forall>t. h_alloc_skb h t)"
    and "x_opmode s v = M_STA \<longrightarrow> selected_qnum (x_wlan s) < 4"
  shows "\<exists>r. prepare_onair_data_pkt_desc h nb q s = Some r"
proof -
  let ?e = "h_skb_misalign h (x_trace s) AND 0x3f"
  obtain tid q' where a: "acm_remap s v nb q = Some (tid, q')" using acm_remap_some [OF assms(4)] by blast
  obtain b where b: "eapol_at (16 + 12 + unat ?e) (extended_frame (replicate 8 0) 0 0 ?e (nb_data nb)) = Some b"
    using eapol_at_some [of "16 + 12 + unat ?e" "extended_frame (replicate 8 0) 0 0 ?e (nb_data nb)"] assms(2)
    by (auto simp: extended_length_def)
  have "\<exists>s'. (if length (nb_data (data_netbuf s ni v nb tid q' ?e b)) \<le> 1594 \<and> sc_nmonvaps s \<noteq> 0
      then onebox_completion_handler h (data_netbuf s ni v nb tid q' ?e b) s else Some s) = Some s'"
    using completion_some [OF _ data_netbuf_prepared [OF misalign_small]] assms(3) by auto
  then show ?thesis using a b assms(1) by (auto simp: prepare_onair_data_pkt_desc_def Let_def)
qed

lemma basic_rate_some:
  "rs_nrates n = 0 \<or> list_ex (\<lambda>r. r AND 0x80 \<noteq> 0) (rs_rates n) \<Longrightarrow> \<exists>r. basic_rate_word s n = Some r"
  by (auto simp: basic_rate_word_def list_ex_iff filter_empty_conv split: list.split)

lemma mgmt_word4_some:
  "rs_nrates (x_node s ni) = 0 \<or> list_ex (\<lambda>r. r AND 0x80 \<noteq> 0) (rs_rates (x_node s ni)) \<Longrightarrow> \<exists>w. mgmt_word4 s (x_node s ni) v = Some w"
  using basic_rate_some [of "x_node s ni" s] by (auto simp: mgmt_word4_def Let_def)

lemma hostap_marks_some: "10 \<le> length (nb_data nb) \<Longrightarrow> hostap_marks n nb fc m \<noteq> None"
  by (auto simp: hostap_marks_def mem_slice_def Let_def)

lemma bind_Some_neq_None: "x \<bind> (\<lambda>a. Some (f a)) \<noteq> None \<longleftrightarrow> x \<noteq> None"
  by (cases x) simp_all

lemma mgmt_marks_some:
  assumes "24 \<le> length (nb_data nb)"
  shows "mgmt_marks_of s ni v nb \<noteq> None"
proof -
  obtain b where "eapol_at 12 (nb_data nb) = Some b" using eapol_at_some [of 12 "nb_data nb"] assms by auto
  moreover obtain sq where "rd16 (nb_data nb) 22 = Some sq" using rd16_defined_iff [of "nb_data nb" 22] assms by auto
  moreover have "rd8 (nb_data nb) 0 = Some (nb_data nb ! 0)" "rd8 (nb_data nb) 4 = Some (nb_data nb ! 4)"
    using assms by (auto simp: rd8_def)
  ultimately show ?thesis using assms hostap_marks_some [of nb]
    by (simp add: mgmt_marks_of_def Let_def bind_Some_neq_None del: not_None_eq)
qed

lemma prepare_mgmt_some:
  assumes "24 \<le> length (nb_data nb)" "sc_nmonvaps s = 0 \<or> (\<forall>t. h_alloc_skb h t)"
    and "rs_nrates (x_node s ni) = 0 \<or> list_ex (\<lambda>r. r AND 0x80 \<noteq> 0) (rs_rates (x_node s ni))"
  shows "\<exists>r. prepare_mgmt_frame h nb ni v s = Some r"
proof -
  let ?e = "h_skb_misalign h (x_trace s) AND 0x3f"
  obtain w4 where w4: "mgmt_word4 s (x_node s ni) v = Some w4" using mgmt_word4_some [OF assms(3)] by blast
  obtain m where m: "mgmt_marks_of s ni v nb = Some m" using mgmt_marks_some [OF assms(1)] by blast
  have fc: "rd8 (nb_data nb) 0 = Some (nb_data nb ! 0)" using assms(1) by (auto simp: rd8_def)
  have "\<exists>s2. (if sc_nmonvaps s \<noteq> 0 then onebox_completion_handler h (mgmt_netbuf s nb ?e w4 m) (clear_probe_req v (nb_data nb ! 0) s)
      else Some (clear_probe_req v (nb_data nb ! 0) s)) = Some s2"
    using completion_some [OF _ mgmt_netbuf_prepared [OF misalign_small]] assms(2) by auto
  with w4 m fc show ?thesis by (auto simp: prepare_mgmt_frame_def Let_def)
qed

lemma prepare_onair_mgmt_some:
  assumes "node_and_vap nb s = Some (ni, v)" "24 \<le> length (nb_data nb)" "sc_nmonvaps s = 0 \<or> (\<forall>t. h_alloc_skb h t)"
    and "rs_nrates (x_node s ni) = 0 \<or> list_ex (\<lambda>r. r AND 0x80 \<noteq> 0) (rs_rates (x_node s ni))"
    and "x_opmode s v = M_STA \<longrightarrow> selected_qnum (x_wlan s) < 4"
  shows "\<exists>r. prepare_onair_mgmt_pkt_desc h nb s = Some r"
proof -
  obtain b where b: "eapol_at 12 (nb_data nb) = Some b" using eapol_at_some [of 12 "nb_data nb"] assms(2) by auto
  define q where "q = (if x_opmode s v = M_STA then VO_Q_STA else VO_Q_AP)"
  have "\<exists>r. prepare_onair_data_pkt_desc h (nb\<lparr>nb_tid := 7, nb_priority := word_of_nat q\<rparr>) q s = Some r"
    using assms by (intro prepare_data_some) (auto simp: node_and_vap_def)
  moreover have "\<exists>r. prepare_mgmt_frame h nb ni v s = Some r" by (rule prepare_mgmt_some [OF assms(2-4)])
  ultimately show ?thesis using assms(1) b by (auto simp: prepare_onair_mgmt_pkt_desc_def Let_def q_def)
qed

lemma xmit_enqueue_some:
  assumes "node_and_vap nb s = Some (ni, v)" "24 \<le> length (nb_data nb)" "sc_nmonvaps s = 0 \<or> (\<forall>t. h_alloc_skb h t)"
    and "rs_nrates (x_node s ni) = 0 \<or> list_ex (\<lambda>r. r AND 0x80 \<noteq> 0) (rs_rates (x_node s ni))"
    and "x_opmode s v = M_STA \<longrightarrow> selected_qnum (x_wlan s) < 4" "q < NUM_EDCA_QUEUES \<or> q = MGMT_SOFT_Q"
  shows "\<exists>s'. xmit_enqueue h nb q s = Some s'"
proof -
  let ?nb = "nb\<lparr>nb_priority := word_of_nat q\<rparr>"
  have nv: "node_and_vap ?nb s = Some (ni, v)" "24 \<le> length (nb_data ?nb)" "10 \<le> length (nb_data ?nb)"
    using assms(1,2) by (simp_all add: node_and_vap_def)
  have "\<exists>r. prepare_pkt h ?nb q s = Some r"
    using prepare_onair_mgmt_some [OF nv(1,2) assms(3-5)] prepare_data_some [OF nv(1,3) assms(3,5), of q]
    by (cases "q = MGMT_SOFT_Q") (simp_all only: prepare_pkt_def simp_thms if_True if_False)
  moreover have "\<exists>s'. queue_xmit nb' q s1 = Some s'" for nb' s1
    using assms(6) by (auto simp: queue_xmit_def core_queue_pkt_def)
  ultimately show ?thesis by (auto simp: xmit_enqueue_def)
qed

lemma flow_control_go:
  assumes "flow_control v q d s = Some (go, s')"
  shows "node_and_vap nb s' = node_and_vap nb s" "x_node s' = x_node s" "sc_nmonvaps s' = sc_nmonvaps s"
    "x_opmode s' u = x_opmode s u" "selected_qnum (x_wlan s') = selected_qnum (x_wlan s)"
  using flow_control_quiet [OF assms] by (simp_all add: xmit_quiet_def node_and_vap_def)

lemma xmit_unicast_some:
  assumes "node_and_vap nb s = Some (ni, v)" "24 \<le> length (nb_data nb)" "sc_nmonvaps s = 0 \<or> (\<forall>t. h_alloc_skb h t)"
    and "rs_nrates (x_node s ni) = 0 \<or> list_ex (\<lambda>r. r AND 0x80 \<noteq> 0) (rs_rates (x_node s ni))"
    and "x_opmode s v = M_STA \<longrightarrow> selected_qnum (x_wlan s) < 4"
  shows "\<exists>s'. xmit_unicast h nb ni v s = Some s'"
proof -
  let ?nb = "nb\<lparr>nb_sta_id := node_sta_id (x_node s ni)\<rparr>"
  obtain b where "eapol_at 12 (nb_data ?nb) = Some b" using eapol_at_some [of 12 "nb_data nb"] assms(2) by auto
  then have "xmit_queue_of s ni v ?nb \<noteq> None" by (simp add: xmit_queue_of_def Let_def)
  then obtain queue where queue: "xmit_queue_of s ni v ?nb = Some queue" by blast
  show ?thesis
  proof (cases queue)
    case None
    with queue show ?thesis by (simp add: xmit_unicast_def Let_def)
  next
    case (Some q)
    obtain go s1 where fc: "flow_control v q (nb_data nb) s = Some (go, s1)" using flow_control_some [OF assms(2)] by blast
    note same = flow_control_go [OF fc]
    have q: "q < NUM_EDCA_QUEUES \<or> q = MGMT_SOFT_Q" using xmit_queue_of_range queue Some by blast
    have nv: "node_and_vap ?nb s1 = Some (ni, v)" using assms(1) same(1) [of nb] by (simp add: node_and_vap_def)
    obtain s2 where "xmit_enqueue h ?nb q s1 = Some s2"
      using xmit_enqueue_some [OF nv _ _ _ _ q, of h] assms(2-5) same(2-5) by auto
    with queue Some fc show ?thesis by (simp add: xmit_unicast_def Let_def)
  qed
qed

lemma core_xmit_some:
  assumes "xmit_fit h nb s"
  shows "\<exists>s'. core_xmit h nb s = Some s'"
proof (cases "nb_data nb = [] \<or> w_fsm_state (x_wlan s) \<noteq> FSM_MAC_INIT_DONE \<or> nb_ni nb = None")
  case True
  then show ?thesis by (auto simp: core_xmit_def)
next
  case False
  then obtain ni where ni: "nb_ni nb = Some ni" by auto
  with assms obtain v where v: "ni_vap (x_wlan s) ni = Some v" by (auto simp: xmit_fit_def split: option.splits)
  obtain tos where tos: "xmit_tos (nb_data nb) = Some tos" using assms xmit_tos_some by (auto simp: xmit_fit_def)
  have "\<exists>s'. xmit_unicast h nb1 ni v s1 = Some s'"
    if "nb_data nb1 = nb_data nb" "nb_ni nb1 = nb_ni nb" "x_wlan s1 = x_wlan s" "x_node s1 = x_node s" "sc_nmonvaps s1 = sc_nmonvaps s"
    for nb1 s1
    using that assms ni v by (intro xmit_unicast_some) (auto simp: xmit_fit_def node_and_vap_def)
  with False ni v tos show ?thesis by (auto simp: core_xmit_def Let_def)
qed

lemma core_pending_queued:
  assumes "xmit_queued d s s'" "xmit_rest s s'"
  shows "core_pending (x_wlan s') = core_pending (x_wlan s) + 1"
proof -
  obtain q nb' where q: "q < NUM_EDCA_QUEUES \<or> q = MGMT_SOFT_Q"
    and h: "host_tx_queue (x_wlan s') = (host_tx_queue (x_wlan s))(q := host_tx_queue (x_wlan s) q @ [nb'])"
    using assms(1) by (auto simp: xmit_queued_def)
  have l: "hal_queue_len (x_wlan s') k = hal_queue_len (x_wlan s) k + (if k = q then 1 else 0)" for k
    using h by (simp add: netbuf_queue_len_def)
  have "(\<Sum>k<NUM_EDCA_QUEUES. hal_queue_len (x_wlan s') k) =
      (\<Sum>k<NUM_EDCA_QUEUES. hal_queue_len (x_wlan s) k) + (if q < NUM_EDCA_QUEUES then 1 else 0)"
    unfolding l sum.distrib by (simp add: sum.delta)
  then show ?thesis using q l [of MGMT_SOFT_Q] assms(2) by (auto simp: core_pending_def xmit_rest_def)
qed

text \<open>
  C19. The network stack's entry into the transmit path returns for every frame that is fit
  (\<open>xmit_fit\<close>), and composes with the thread that empties the queues: whatever becomes of
  the packet, the queues hold only what the thread can serve, and at most one packet more. Fit
  means: a complete header; memory for the copy if a monitor interface listens; the interface
  of the packet's node exists; the node has no rates or at least one basic rate; and on a
  station interface the scheduler last served one of the four categories of a station. Each is
  read or assumed without a test: after one of the four queues of an access point was
  served, a station's data frame makes the test for admission read behind its array
  (\<open>acm_test_reads_behind\<close>).
\<close>

theorem xmit_keeps_core_serviceable:
  assumes "core_ok (x_wlan s)" and "xmit_fit h nb s"
  shows "\<exists>s'. core_xmit h nb s = Some s' \<and> core_ok (x_wlan s') \<and>
              core_pending (x_wlan s) \<le> core_pending (x_wlan s') \<and> core_pending (x_wlan s') \<le> core_pending (x_wlan s) + 1"
proof -
  obtain s' where s': "core_xmit h nb s = Some s'" using core_xmit_some [OF assms(2)] by blast
  note fate = core_xmit_fate [OF s']
  have "core_ok (x_wlan s')"
    using fate fate_core_ok [OF assms(1)] by (auto simp: xmit_held_def xmit_freed_def)
  moreover have "core_pending (x_wlan s') = core_pending (x_wlan s)"
    if "host_tx_queue (x_wlan s') = host_tx_queue (x_wlan s)" "xmit_rest s s'"
    using that by (simp add: core_pending_def xmit_rest_def)
  ultimately show ?thesis
    using s' fate core_pending_queued by (fastforce simp: xmit_held_def xmit_freed_def)
qed

text \<open>A station with one interface and node, and an IPv4 packet of it.\<close>

definition xmit_sample :: wlan_xmit where
  "xmit_sample = \<lparr>x_wlan = core_sample,
     x_node = (\<lambda>_. \<lparr>ni_flags = 0, ni_htcap = 0, rs_nrates = 2, rs_rates = [0x0c, 0x82], ni_macaddr = [2, 0, 0, 0, 0, 1],
                    uapsd_flags = 0, node_sta_id = 3\<rparr>),
     x_vap = (\<lambda>_. \<lparr>iv_flags = 0, iv_flags_ht = 0, has_wpa_ie = False, p2p_enable = False, fixed_rate_enable = False,
                   rate_hix = 0, mgmt_rate_enable = False, default_mgmt_rate = 0, vap_id = 0, probe_req_bcast = False,
                   rv_mcastq = []\<rparr>),
     ic_flags = F_WME, band_flags = 0, operating_band = 0, sc_nmonvaps = 0, std_rates = [2, 4, 11, 22], rps_rates = [0, 2, 4, 6],
     tx_dropped = 0, tx_packets = 0, tx_bytes = 0, multicast_pkts = 0, total_tx_data_dropped = (\<lambda>_. 0), udp_pkts_dropped = 0,
     radiotap = [], freed_nodes = []\<rparr>"

definition xmit_packet :: netbuf where
  "xmit_packet = (fresh_netbuf (replicate 12 2 @ [0x08, 0x00, 0x45, 0xb8] @ replicate 24 7))\<lparr>nb_ni := Some 0\<rparr>"

lemma xmit_sample_fit: "xmit_fit calm_host xmit_packet xmit_sample" "core_ok (x_wlan xmit_sample)"
  using core_sample_ok(1)
  by (simp_all add: xmit_fit_def xmit_packet_def xmit_sample_def fresh_netbuf_def core_sample_def sample_wlan_def)

lemma xmit_keeps_core_serviceable_witness:
  "\<exists>s'. core_xmit calm_host xmit_packet xmit_sample = Some s' \<and> core_ok (x_wlan s') \<and>
        core_pending (x_wlan s') \<le> core_pending (x_wlan xmit_sample) + 1"
  using xmit_keeps_core_serviceable [OF xmit_sample_fit(2,1)] by blast

text \<open>
  C20. Every packet of the network stack has one fate: it is queued unchanged behind its
  descriptors at the end of one of the queues of the core, or held unchanged at the end of
  the multicast queue of an access point, or freed once, with the other queues and the other
  interfaces untouched. Left out is the unflagged EAPOL frame of more than 429 bytes, which
  may be freed twice.
\<close>

theorem xmit_gives_one_fate:
  assumes "core_xmit h nb s = Some s'"
    and "\<not> (eapol_at 12 (nb_data nb) = Some True \<and> nb_flags nb AND M_EAPOL = 0 \<and> 429 < length (nb_data nb))"
  shows "xmit_queued (nb_data nb) s s' \<or> xmit_held (nb_data nb) s s' \<or> xmit_freed 1 (nb_data nb) s s'"
  using core_xmit_fate [OF assms(1)] assms(2) by (auto simp: over_long_eapol_def over_long_def)

lemma xmit_gives_one_fate_witness:
  "\<exists>s'. core_xmit calm_host xmit_packet xmit_sample = Some s' \<and>
        (xmit_queued (nb_data xmit_packet) xmit_sample s' \<or> xmit_held (nb_data xmit_packet) xmit_sample s' \<or>
         xmit_freed 1 (nb_data xmit_packet) xmit_sample s')"
proof -
  obtain s' where s': "core_xmit calm_host xmit_packet xmit_sample = Some s'"
    using core_xmit_some [OF xmit_sample_fit(1)] by blast
  have "eapol_at 12 (nb_data xmit_packet) = Some False"
    by (simp add: xmit_packet_def fresh_netbuf_def eapol_at_def rd8_def nth_append)
  then show ?thesis using xmit_gives_one_fate [OF s'] s' by auto
qed

section \<open>What the path does not get right\<close>

text \<open>
  A frame for the management queue that is too long is freed where its preparation fails and
  once more by the caller, on both ways into the queue.
\<close>

lemma long_mgmt_preparation_frees:
  assumes "node_and_vap nb s = Some (ni, v)" "nb_flags nb AND M_EAPOL = 0" "492 < length (nb_data nb)"
  shows "\<exists>nb' . prepare_onair_mgmt_pkt_desc h nb s = Some (ONEBOX_STATUS_FAILURE, nb', free_xmit nb' s)"
proof -
  obtain b where "eapol_at 12 (nb_data nb) = Some b" using eapol_at_some [of 12 "nb_data nb"] assms(3) by auto
  with assms show ?thesis
    by (auto simp: prepare_onair_mgmt_pkt_desc_def prepare_mgmt_frame_def extended_length_def Let_def)
qed

lemma long_eapol_freed_twice:
  assumes "node_and_vap nb s = Some (ni, v)" "nb_flags nb AND M_EAPOL = 0" "492 < length (nb_data nb)"
  shows "\<exists>d s'. xmit_enqueue h nb MGMT_SOFT_Q s = Some s' \<and> xmit_freed 2 d s s'"
proof -
  have "node_and_vap (nb\<lparr>nb_priority := 8\<rparr>) s = Some (ni, v)" using assms(1) by (simp add: node_and_vap_def)
  from long_mgmt_preparation_frees [OF this, of h] assms(2,3) show ?thesis
    by (auto simp: xmit_enqueue_def prepare_pkt_def xmit_freed_def xmit_fail_def free_xmit_def numeral_2_eq_2)
qed

lemma long_mgmt_frame_freed_twice:
  assumes "ni_vap (x_wlan s) ni = Some v" "nb_flags nb AND M_EAPOL = 0" "492 < length (nb_data nb)"
    and "w_fsm_state (x_wlan s) = FSM_MAC_INIT_DONE" "hal_queue_len (x_wlan s) MGMT_SOFT_Q \<le> 200"
  shows "\<exists>d s'. onebox_send_mgmt_pkt (\<lambda>_ s. s) h ni (Some nb) s = Some s' \<and> xmit_freed 2 d s s'"
proof -
  have "node_and_vap (nb\<lparr>nb_ni := Some ni\<rparr>) s = Some (ni, v)" using assms(1) by (simp add: node_and_vap_def)
  from long_mgmt_preparation_frees [OF this, of h] assms show ?thesis
    by (auto simp: onebox_send_mgmt_pkt_def rd8_def xmit_freed_def free_xmit_def numeral_2_eq_2 Let_def)
qed

text \<open>On the data path the Ethernet type is looked for in the source address.\<close>

lemma data_path_misses_eapol:
  assumes "10 \<le> length d"
  shows "eapol_at (16 + 12 + unat e) (extended_frame (replicate 8 0) 0 0 e d) = eapol_at 8 d"
proof -
  let ?x = "extended_frame (replicate 8 0) 0 0 e d"
  have "?x ! (28 + unat e) = d ! 8" "?x ! Suc (28 + unat e) = d ! 9"
    using extended_frame_payload [of "replicate 8 0" 0 0 e d 8] extended_frame_payload [of "replicate 8 0" 0 0 e d 9]
    by (simp_all add: add.commute)
  moreover have "length ?x = 20 + unat e + length d" by (simp add: extended_length_def)
  ultimately show ?thesis using assms by (simp add: eapol_at_def rd8_def)
qed

text \<open>The test for admission reads behind its four categories once the scheduler served a higher queue.\<close>

lemma acm_test_reads_behind:
  assumes "node_and_vap nb s = Some (ni, v)" "x_opmode s v = M_STA" "4 \<le> selected_qnum (x_wlan s)"
  shows "prepare_onair_data_pkt_desc h nb q s = None"
  using assms by (simp add: prepare_onair_data_pkt_desc_def acm_remap_def Let_def)

text \<open>A packet reported as too big to transmit is prepared, and queued, like any other.\<close>

lemma bigger_packet_prepared:
  assumes "node_and_vap nb s = Some (ni, v)" "1594 < length (nb_data nb)" "selected_qnum (x_wlan s) < 4"
  shows "\<exists>nb'. prepare_onair_data_pkt_desc h nb q s = Some (ONEBOX_STATUS_SUCCESS, nb', s)"
proof -
  obtain tid q' where a: "acm_remap s v nb q = Some (tid, q')" using acm_remap_some [of s v nb q] assms(3) by blast
  let ?e = "h_skb_misalign h (x_trace s) AND 0x3f"
  obtain b where b: "eapol_at (16 + 12 + unat ?e) (extended_frame (replicate 8 0) 0 0 ?e (nb_data nb)) = Some b"
    using data_path_misses_eapol [of "nb_data nb" ?e] eapol_at_some [of 8 "nb_data nb"] assms(2) by auto
  have "\<not> length (nb_data (data_netbuf s ni v nb tid q' ?e b)) \<le> 1594"
    using assms(2) by (simp add: data_netbuf_def extended_length_def)
  with a b assms(1) show ?thesis by (simp add: prepare_onair_data_pkt_desc_def Let_def)
qed

text \<open>A packet that comes while the firmware is not ready counts as two.\<close>

lemma early_packet_counted_twice:
  "w_fsm_state (x_wlan s) \<noteq> FSM_MAC_INIT_DONE \<Longrightarrow> \<exists>s'. core_xmit h nb s = Some s' \<and> tx_dropped s' = tx_dropped s + 2"
  by (simp add: core_xmit_def xmit_fail_def free_xmit_def Let_def)

end
