(* ===== verification/Xmit_Frame.thy ===== *)
theory Xmit_Frame
  imports Xmit_Safe
begin

text \<open>
  The fields of a data packet's descriptor, as the device and the core of the driver read them
  back.
\<close>

lemma low_nibble: "x AND 0xf = take_bit 4 (x :: u16)" "y AND 0xf = take_bit 4 (y :: u8)"
  by (simp_all add: take_bit_eq_mask mask_eq_exp_minus_1)

lemma data_word7_fields:
  shows "(ucast (drop_bit 8 (data_word7 x nb tid q)) :: u8) = (if group_addressed nb then vap_id x else nb_sta_id nb)"
    and "drop_bit 4 (ucast (data_word7 x nb tid q) :: u8) = tid AND 0xf"
    and "(ucast (data_word7 x nb tid q) :: u8) AND 0xf = word_of_nat q AND 0xf"
proof -
  let ?i = "if group_addressed nb then vap_id x else nb_sta_id nb"
  have w: "data_word7 x nb tid q = push_bit 4 (take_bit 4 (ucast tid)) OR take_bit 4 (word_of_nat q) OR push_bit 8 (ucast ?i)"
    by (simp only: data_word7_def low_nibble)
  show "(ucast (drop_bit 8 (data_word7 x nb tid q)) :: u8) = ?i"
    unfolding w by (rule bit_word_eqI) (auto simp: bit_simps)
  show "drop_bit 4 (ucast (data_word7 x nb tid q) :: u8) = tid AND 0xf"
    unfolding w low_nibble by (rule bit_word_eqI) (auto simp: bit_simps)
  show "(ucast (data_word7 x nb tid q) :: u8) AND 0xf = word_of_nat q AND 0xf"
    unfolding w low_nibble by (rule bit_word_eqI) (auto simp: bit_simps)
qed

text \<open>The rate that is ored into the word of the interface number leaves its two bits alone.\<close>

definition rate_fits :: "wlan_xmit \<Rightarrow> tx_vap \<Rightarrow> netbuf \<Rightarrow> bool" where
  "rate_fits s x nb \<longleftrightarrow>
     (if group_addressed nb then mgmt_rate s x < 0x4000 else fixed_rate_enable x \<longrightarrow> rate_hix x < 0x4000)"

lemma data_word4_vap:
  assumes "rate_fits s x nb" "vap_id x < 4"
  shows "drop_bit 6 (ucast (drop_bit 8 (data_word4 s n x nb)) :: u8) = vap_id x"
proof -
  have v: "take_bit 2 (vap_id x) = vap_id x"
    using assms(2) by (simp add: word_unat_eq_iff unsigned_take_bit_eq take_bit_nat_eq_self word_less_nat_alt)
  have "drop_bit 14 (ucast (rate_hix x) :: u16) = 0" if "rate_hix x < 0x4000"
    using that by (simp add: word_unat_eq_iff drop_bit_eq_div unat_div unsigned_ucast_eq take_bit_nat_eq_self word_less_nat_alt)
  moreover have "drop_bit 14 (mgmt_rate s x) = 0" if "mgmt_rate s x < 0x4000"
    using that by (simp add: word_unat_eq_iff drop_bit_eq_div unat_div word_less_nat_alt)
  ultimately have "drop_bit 14 (if group_addressed nb then mgmt_rate s x
      else if fixed_rate_enable x then fixed_rate_word n x else 0) = 0"
    using assms(1) by (auto simp: rate_fits_def fixed_rate_word_def drop_bit_or)
  then have "drop_bit 14 (data_word4 s n x nb) = take_bit 2 (ucast (vap_id x))"
    by (simp only: data_word4_def drop_bit_or) (rule bit_word_eqI, auto simp: bit_simps)
  moreover have "drop_bit 6 (ucast (drop_bit 8 w) :: u8) = ucast (drop_bit 14 w)" for w :: u16
    by (rule bit_word_eqI) (auto simp: bit_simps dest: bit_imp_le_length)
  ultimately have "drop_bit 6 (ucast (drop_bit 8 (data_word4 s n x nb)) :: u8) = take_bit 2 (vap_id x)"
    by (simp only:) (rule bit_word_eqI, auto simp: bit_simps)
  with v show ?thesis by simp
qed

text \<open>
  C21. Packet and descriptor round trip, for every packet whose preparation succeeds, unicast
  or group addressed: the device recovers the frame of a data packet from the size byte, and
  the traffic class and the hardware queue that the driver put in are read back from their byte. The
  station byte is the packet's station, and for a group addressed packet the number of the
  interface. The length and the firmware queue are read back from the first word if the
  frame is shorter than 4000 bytes, which fits its twelve bits; the interface number from its
  two bits, if it is less than four and the rate in the same word leaves these bits alone
  (neither is tested). The station and the interface are what the core reads when it sends
  the packet.
\<close>

theorem data_descriptor_roundtrip:
  assumes "prepare_onair_data_pkt_desc h nb q s = Some (ONEBOX_STATUS_SUCCESS, nb', s')"
    and "node_and_vap nb s = Some (ni, v)"
  shows "\<exists>tid q' w0. acm_remap s v nb q = Some (tid, q') \<and>
           drop (FRAME_DESC_SZ + unat (nb_data nb' ! 4)) (nb_data nb') = nb_data nb \<and>
           drop_bit 4 (nb_data nb' ! 14) = tid AND 0xf \<and> nb_data nb' ! 14 AND 0xf = word_of_nat q' AND 0xf \<and>
           nb_data nb' ! 15 = (if group_addressed nb then vap_id (x_vap s v) else nb_sta_id nb) \<and>
           (length (nb_data nb) < 4000 \<longrightarrow>
              rd16 (nb_data nb') 0 = Some w0 \<and> unat (w0 AND 0xfff) = length (nb_data nb') - FRAME_DESC_SZ \<and>
              unat (drop_bit 12 w0) = unat ONEBOX_WIFI_DATA_Q) \<and>
           (vap_id (x_vap s v) < 4 \<and> rate_fits s (x_vap s v) nb \<longrightarrow>
              drop_bit 6 (nb_data nb' ! 9) = vap_id (x_vap s v))"
proof -
  obtain tid q' b where a: "acm_remap s v nb q = Some (tid, q')"
    and nb': "nb' = data_netbuf s ni v nb tid q' (h_skb_misalign h (x_trace s) AND 0x3f) b"
    using prepare_data_result [OF assms(2,1)] by metis
  have p: "prepared 5 nb nb'" unfolding nb' by (rule data_netbuf_prepared [OF misalign_small])
  let ?ws = "data_desc s ni v nb tid q' (h_skb_misalign h (x_trace s) AND 0x3f) b"
  obtain w0 where w0: "length (nb_data nb) < 4000 \<longrightarrow>
      rd16 (nb_data nb') 0 = Some w0 \<and> unat (w0 AND 0xfff) = length (nb_data nb') - FRAME_DESC_SZ \<and>
      unat (drop_bit 12 w0) = 5"
    using prepared_first_word [OF p] by (cases "length (nb_data nb) < 4000") auto
  have "nb_data nb' ! 14 = ucast (?ws ! 7)" "nb_data nb' ! 15 = ucast (drop_bit 8 (?ws ! 7))" "nb_data nb' ! 9 = ucast (drop_bit 8 (?ws ! 4))"
    using concat_le16_nth [of 7 ?ws] concat_le16_nth(2) [of 4 ?ws]
    by (simp_all add: nb' data_netbuf_def extended_frame_def nth_append)
  then have bytes: "drop_bit 4 (nb_data nb' ! 14) = tid AND 0xf" "nb_data nb' ! 14 AND 0xf = word_of_nat q' AND 0xf"
      "nb_data nb' ! 15 = (if group_addressed nb then vap_id (x_vap s v) else nb_sta_id nb)"
      "vap_id (x_vap s v) < 4 \<and> rate_fits s (x_vap s v) nb \<longrightarrow> drop_bit 6 (nb_data nb' ! 9) = vap_id (x_vap s v)"
    using data_word7_fields data_word4_vap [of s "x_vap s v" nb] by (simp_all only: data_desc_nth) blast
  have "unat ONEBOX_WIFI_DATA_Q = 5" by simp
  with a w0 bytes prepared_frame(1) [OF p] show ?thesis by metis
qed

theorem data_descriptor_roundtrip_witness:
  "\<exists>nb' s' . prepare_onair_data_pkt_desc calm_host (xmit_packet\<lparr>nb_sta_id := 3\<rparr>) BE_Q_STA xmit_sample = Some (ONEBOX_STATUS_SUCCESS, nb', s') \<and>
     drop (FRAME_DESC_SZ + unat (nb_data nb' ! 4)) (nb_data nb') = nb_data xmit_packet \<and> nb_data nb' ! 15 = 3 \<and> drop_bit 6 (nb_data nb' ! 9) = 0"
proof -
  let ?nb = "xmit_packet\<lparr>nb_sta_id := 3\<rparr>"
  have nv: "node_and_vap ?nb xmit_sample = Some (0, 0)"
    by (simp add: node_and_vap_def xmit_packet_def xmit_sample_def fresh_netbuf_def core_sample_def sample_wlan_def)
  have k: "\<not> group_addressed ?nb" "length (nb_data ?nb) = 40" "nb_sta_id ?nb = 3"
      "vap_id (x_vap xmit_sample 0) = 0" "\<not> fixed_rate_enable (x_vap xmit_sample 0)"
      "selected_qnum (x_wlan xmit_sample) = 0" "sc_nmonvaps xmit_sample = 0"
    by (simp_all add: group_addressed_def xmit_packet_def xmit_sample_def fresh_netbuf_def core_sample_def sample_wlan_def)
  obtain st nb' s' where r: "prepare_onair_data_pkt_desc calm_host ?nb BE_Q_STA xmit_sample = Some (st, nb', s')"
    using prepare_data_some [OF nv, of calm_host BE_Q_STA] k by auto
  from prepare_data_prepared [OF nv r] have "st = ONEBOX_STATUS_SUCCESS" by simp
  moreover have "rate_fits xmit_sample (x_vap xmit_sample 0) ?nb" using k(1,5) by (simp add: rate_fits_def)
  ultimately show ?thesis
    using r data_descriptor_roundtrip [OF _ nv, of calm_host BE_Q_STA nb' s'] k by auto
qed

end
