(* ===== verification/Mgmt_Frames.thy ===== *)
theory Mgmt_Frames
  imports Xmit_Frame
begin

text \<open>
  The frames with which the WLAN HAL configures the firmware
  (\<^verbatim>\<open>onebox_devdep_mgmt.c\<close>): reset of the MAC, boot-up parameters, radio
  capabilities, baseband and RF programming, channel and band. Each is eight descriptor words
  and a body, handed to \<open>onebox_send_internal_mgmt_frame\<close>. The build defines
  \<^verbatim>\<open>PROGRAMMING_BBP_TA\<close>, \<^verbatim>\<open>RF_8111\<close> and
  \<^verbatim>\<open>BYPASS_RX_DATA_PATH\<close>.
\<close>

section \<open>The state\<close>

text \<open>The flags of the connection of the station, \<^verbatim>\<open>struct stamode\<close>.\<close>

record sta_conn =
  ptk_key :: bool
  gtk_key :: bool
  eapol4_cnfrm :: bool

text \<open>More of the nodes: what net80211 and the aggregation keep in them.\<close>

record mgmt_node =
  ni_associd :: u16
  ni_htparam :: u8
  ni_inact :: u16
  ni_inact_reload :: u16
  eosp_tsf :: u32
  eosp_triggered :: u8
  tidnum :: u16
  seq_start :: "nat \<Rightarrow> u16"
  baw_size :: "nat \<Rightarrow> u16"
  delba_ind :: bool
  txa_running :: "nat \<Rightarrow> bool"
  rxa_running :: "nat \<Rightarrow> bool"
  ni_txseqs :: "nat \<Rightarrow> u16"
  ni_avgrssi :: u32
  ni_txrate :: u16
  ni_rxrate :: u16
  ni_chno :: u8

text \<open>More of the interfaces.\<close>

record mgmt_vap =
  iv_rtsthreshold :: u16
  iv_bmissthreshold :: u16
  iv_dtim_period :: u8
  iv_keep_alive_period :: u16
  iv_myaddr :: bytes
  p2p_go :: bool
  vap_data_block :: bool
  carrier_on :: bool
  wep_key :: bytes                      \<comment> \<open>the four keys of 32 bytes\<close>
  wep_keylen :: "nat \<Rightarrow> u8"
  wep_key_idx :: u8
  iv_bss :: "nat option"
  extended_desc_size :: u8

text \<open>The parameters of the endpoint, \<^verbatim>\<open>per_params\<close>, and the current channel.\<close>

record endpoint_params =
  ep_channel :: u16
  ep_enable_11j :: bool
  per_ch_bw :: u16
  ep_power :: u16

record curchan =
  ic_ieee :: u8
  ic_freq :: u16
  ic_maxregpower :: u32
  chan_11j :: bool

text \<open>What the driver asks of net80211 and of the kernel here.\<close>

datatype net_event =
    Net80211_attach | Start_per_thread | Set_stats_event | Set_bb_rf_event
  | Send_scan_done nat | Send_bgscan_params u8 | Scanreq_signal | Probereq_confirm nat | Sta_leave nat
  | Beacon_miss | Node_pwrsave nat bool | Rxmic_failure "nat option" bytes | Radar_detect bytes
  | Mgmt_input nat bytes u8 bool | Input_all bytes u8 u8
  | Deliver_data nat "nat option" bytes bool | Input_data nat bytes u8 u16 bool
  | Stop_initial_timer nat | Remove_traffic_timer | Ic_lock | Ic_unlock

text \<open>
  \<open>sta\<close> is the station table of thirty entries: the address, zero when free, and the
  node. \<open>net_trace\<close> records the calls out of the driver, the newest first.
\<close>

record wlan_mgmt =
  g_xmit :: wlan_xmit
  m_node :: "nat \<Rightarrow> mgmt_node"
  m_vap :: "nat \<Rightarrow> mgmt_vap"
  sta :: "nat \<Rightarrow> bytes \<times> nat option"
  sta_mode :: sta_conn
  sta_mode_id :: "u16 \<times> u8"
  band_supported :: bool
  module_model_type :: u16
  mac_addr :: bytes
  calib_mode :: bool
  per_lpbk_mode :: bool
  da_retry_count :: u16
  da_antenna_diversity :: bool
  w_antenna_diversity :: bool
  aggr_tx_limit :: u16
  endpoint :: u8
  rf_pwr_mode :: u16
  rf_reset :: bool
  rf_power_mode_change :: bool
  bb_rf_prog_count :: u8
  operating_chwidth :: u8
  def_chwidth :: u8
  chw_flag :: bool
  primary_channel :: u8
  endpoint_params :: endpoint_params
  ic_curchan :: curchan
  ic_txpowlimit :: u16
  regdomain_pad :: u16
  ant_gain :: "u8 \<times> u8"
  ch_power :: u8
  rx_filter_word :: u16
  radio_timing :: "u16 list"
  ch_bandwidth :: u8
  mac_id :: u8
  radio_id :: u8
  ic_nonerpsta :: u16
  ic_bintval :: u16
  tx_running :: u8
  sta_info :: bytes
  bb_rf_read :: bytes
  bb_rf_no_of_values :: u8
  bb_rf_value :: u8
  rf_lpbk_data :: bytes
  rf_lpbk_len :: u16
  eeprom_data :: bytes
  bgscan_triggered :: bool
  bgscan_2ghz_sent :: bool
  bgscan_5ghz_sent :: bool
  antenna_in_use :: u8
  scan_count :: u8
  total_mgmt_rx :: u32
  beacon_event_vap_id :: u16
  beacon_interrupt :: u32
  total_data_rx :: u32
  rx_packets :: "64 word"
  nt_nodes :: "nat list"                \<comment> \<open>the node table of net80211\<close>
  net_trace :: "net_event list"

abbreviation g_wlan :: "wlan_mgmt \<Rightarrow> wlan_adapter" where
  "g_wlan s \<equiv> x_wlan (g_xmit s)"

abbreviation g_vap :: "wlan_mgmt \<Rightarrow> nat \<Rightarrow> vap" where
  "g_vap s v \<equiv> the_vap (w_ps (g_wlan s)) v"

abbreviation g_assets :: "wlan_mgmt \<Rightarrow> driver_assets" where
  "g_assets s \<equiv> d_assets (w_common (g_wlan s))"

definition with_wlan :: "wlan_adapter \<Rightarrow> wlan_mgmt \<Rightarrow> wlan_mgmt" where
  "with_wlan w s = s\<lparr>g_xmit := (g_xmit s)\<lparr>x_wlan := w\<rparr>\<rparr>"

definition net_log :: "net_event \<Rightarrow> wlan_mgmt \<Rightarrow> wlan_mgmt" where
  "net_log e s = s\<lparr>net_trace := e # net_trace s\<rparr>"

section \<open>Constants\<close>

abbreviation (input) RF_EVAL_MODE_ON :: u8 where "RF_EVAL_MODE_ON \<equiv> 2"
abbreviation (input) QSPI_FLASHING :: u8 where "QSPI_FLASHING \<equiv> 5"
abbreviation (input) SNIFFER_MODE :: u8 where "SNIFFER_MODE \<equiv> 7"
abbreviation (input) BW_20Mhz :: u8 where "BW_20Mhz \<equiv> 0"
abbreviation (input) BW_40Mhz :: u8 where "BW_40Mhz \<equiv> 1"
abbreviation (input) BW_10Mhz :: u8 where "BW_10Mhz \<equiv> 2"
abbreviation (input) BW_5Mhz :: u8 where "BW_5Mhz \<equiv> 3"
abbreviation (input) BAND_2_4GHZ :: u8 where "BAND_2_4GHZ \<equiv> 0"
abbreviation (input) BAND_5GHZ :: u8 where "BAND_5GHZ \<equiv> 1"
abbreviation (input) BAND_4_9GHZ :: u8 where "BAND_4_9GHZ \<equiv> 1"

text \<open>The types of the command frames; the firmware confirms a command with its type.\<close>

abbreviation (input) RESET_MAC_REQ :: u16 where "RESET_MAC_REQ \<equiv> 0x01"
abbreviation (input) RADIO_CAPABILITIES :: u16 where "RADIO_CAPABILITIES \<equiv> 0x02"
abbreviation (input) BB_PROG_VALUES_REQUEST :: u16 where "BB_PROG_VALUES_REQUEST \<equiv> 0x03"
abbreviation (input) RF_PROG_VALUES_REQUEST :: u16 where "RF_PROG_VALUES_REQUEST \<equiv> 0x04"
abbreviation (input) SCAN_REQUEST :: u16 where "SCAN_REQUEST \<equiv> 0x06"
abbreviation (input) PEER_NOTIFY :: u16 where "PEER_NOTIFY \<equiv> 0x08"
abbreviation (input) BLOCK_UNBLOCK :: u16 where "BLOCK_UNBLOCK \<equiv> 0x09"
abbreviation (input) SET_KEY :: u16 where "SET_KEY \<equiv> 10"
abbreviation (input) BOOTUP_PARAMS_REQUEST :: u16 where "BOOTUP_PARAMS_REQUEST \<equiv> 12"
abbreviation (input) VAP_CAPABILITIES :: u16 where "VAP_CAPABILITIES \<equiv> 13"
abbreviation (input) AMPDU_IND :: u16 where "AMPDU_IND \<equiv> 18"
abbreviation (input) BBP_PROG_IN_TA :: u16 where "BBP_PROG_IN_TA \<equiv> 21"
abbreviation (input) VAP_DYNAMIC_UPDATE :: u16 where "VAP_DYNAMIC_UPDATE \<equiv> 39"

section \<open>Sending a command\<close>

definition mgmt_word0 :: "nat \<Rightarrow> u16" where
  "mgmt_word0 len = word_of_nat len OR push_bit 12 ONEBOX_WIFI_MGMT_Q"

definition mgmt_frame :: "u16 list \<Rightarrow> bytes \<Rightarrow> bytes" where
  "mgmt_frame desc body = concat (map le16 desc) @ body"

definition send_mgmt :: "host \<Rightarrow> u16 list \<Rightarrow> bytes \<Rightarrow> wlan_mgmt \<Rightarrow> (status \<times> wlan_mgmt) option" where
  "send_mgmt h desc body s =
     do { (status, w) \<leftarrow> onebox_send_internal_mgmt_frame h (mgmt_frame desc body) (g_wlan s);
          Some (status, with_wlan w s) }"

section \<open>Reset of the MAC\<close>

definition reset_mac_desc :: "wlan_mgmt \<Rightarrow> u16 list" where
  "reset_mac_desc s =
     (let sniffer = (w_driver_mode (g_wlan s) = SNIFFER_MODE) in
      [mgmt_word0 0, RESET_MAC_REQ, 0,
       (if sniffer then 1 OR push_bit 8 1 else push_bit 8 (ta_aggr (g_assets s))),
       1 OR push_bit 8 (da_retry_count s),
       (if w_driver_mode (g_wlan s) = RF_EVAL_MODE_ON then 1 else 0) OR (if calib_mode s then push_bit 8 1 else 0) OR
         (if per_lpbk_mode s then push_bit 8 2 else 0),
       (if da_antenna_diversity s then 1 else 0), 0])"

definition onebox_send_reset_mac :: "host \<Rightarrow> wlan_mgmt \<Rightarrow> (status \<times> wlan_mgmt) option" where
  "onebox_send_reset_mac h s = send_mgmt h (reset_mac_desc s) [] s"

section \<open>The boot-up parameters\<close>

text \<open>\<^verbatim>\<open>device_clk_info_t\<close>: the PLL settings are those of all three radios.\<close>

definition device_clk_info :: "u16 \<Rightarrow> u16 \<Rightarrow> u16 \<Rightarrow> u16 \<Rightarrow> bytes" where
  "device_clk_info switches bbp_lmac umac qspi_uart =
     concat (map le16 [push_bit 8 0 OR 9, 4, push_bit 8 5 OR 0, 0x14, 0, 0x9f0, switches, bbp_lmac, umac, qspi_uart])"

text \<open>
  \<^verbatim>\<open>BOOTUP_PARAMETERS\<close>, 116 bytes with the padding at its end. The three tables
  differ in the clock of the baseband only.
\<close>

definition boot_params :: "u16 \<Rightarrow> bytes" where
  "boot_params bbp_lmac =
     le16 0x5aa5 @ le16 0 @ le32 (0x20 OR 0x40 OR 0x80 OR 0x100 OR 0x2 OR 0x1) @ le32 0 @ concat (replicate 4 (le16 0)) @
     device_clk_info (1 OR push_bit 1 1 OR push_bit 3 1) bbp_lmac 0x48 0x1211 @
     device_clk_info 0 0 0 0 @ device_clk_info 0 0 0 0 @
     le32 0 @ le16 0 @ [0, 0] @ concat (replicate 6 (le32 0)) @ [0, 0, 0, 0]"

definition boot_params_10 :: bytes where "boot_params_10 = boot_params 0x222"

definition boot_params_20 :: bytes where "boot_params_20 = boot_params 0x111"

definition boot_params_40 :: bytes where "boot_params_40 = boot_params 0x1121"

text \<open>The clock, \<^verbatim>\<open>UMAC_CLK_20BW\<close> and \<^verbatim>\<open>UMAC_CLK_40BW\<close>.\<close>

definition umac_clk :: u16 where
  "umac_clk = ((9 + 1) * 40) div ((0 + 1) * (4 + 1))"

definition onebox_load_bootup_params :: "host \<Rightarrow> wlan_mgmt \<Rightarrow> (status \<times> wlan_mgmt) option" where
  "onebox_load_bootup_params h s =
     (let chw = operating_chwidth s;
          body = (if chw = BW_40Mhz then boot_params_40 else if chw = BW_20Mhz then boot_params_20
                  else if chw = BW_10Mhz then boot_params_10 else replicate 116 0)
      in send_mgmt h [mgmt_word0 116, BOOTUP_PARAMS_REQUEST, 0, 0, 0, 0, 0, (if chw \<in> {BW_40Mhz, BW_20Mhz, BW_10Mhz} then umac_clk else 0)] body s)"

section \<open>The radio capabilities\<close>

definition contention_window :: "u8 \<Rightarrow> u16" where
  "contention_window logcw = ucast (push_bit (unat logcw) 1 - 1 :: u32)"

text \<open>
  The parameters of a hardware queue: window minimum and maximum, AIFS and TXOP. The windows
  of the queues 6 and 7 are not decremented.
\<close>

definition qos_params :: "(nat \<Rightarrow> wmeParams) \<Rightarrow> nat \<Rightarrow> u16 list" where
  "qos_params wme q =
     (if q \<in> {0, 4} then
        [contention_window (wmep_logcwmin (wme 1)), contention_window (wmep_logcwmax (wme 1)),
         ucast (wmep_aifsn (wme 1)), push_bit 5 (ucast (wmep_txopLimit (wme 1)))]
      else if q \<in> {1, 5} then
        [contention_window (wmep_logcwmin (wme 0)), contention_window (wmep_logcwmax (wme 0)),
         (if 2 \<le> wmep_aifsn (wme 0) then ucast (wmep_aifsn (wme 0)) - 2 else ucast (wmep_aifsn (wme 0))),
         push_bit 5 (ucast (wmep_txopLimit (wme 0)))]
      else if q \<in> {2, 3} then
        [contention_window (wmep_logcwmin (wme q)), contention_window (wmep_logcwmax (wme q)),
         ucast (wmep_aifsn (wme q)), push_bit 5 (ucast (wmep_txopLimit (wme q)))]
      else if q \<in> {6, 7} then
        [contention_window (wmep_logcwmin (wme (q - 4))) + 1, contention_window (wmep_logcwmax (wme (q - 4))) + 1,
         ucast (wmep_aifsn (wme (q - 4))), push_bit 5 (ucast (wmep_txopLimit (wme (q - 4))))]
      else [0, 0, 0, 0])"

definition qos_with_defaults :: "(nat \<Rightarrow> wmeParams) \<Rightarrow> nat \<Rightarrow> u16 list" where
  "qos_with_defaults wme q =
     (let p = qos_params wme q; p1 = (if p ! 0 = 0 then [7, 0x3f, 2, 0] else p)
      in if q = BROADCAST_HW_Q \<or> q = BEACON_HW_Q then p1[3 := 0xffff] else if q = 10 then p1[3 := 0] else p1)"

text \<open>The gains of the twenty rates are set to one value just before.\<close>

definition radio_caps_body :: "wlan_mgmt \<Rightarrow> bytes" where
  "radio_caps_body s =
     concat (map (\<lambda>q. concat (map le16 (qos_with_defaults (cap_wmeParams (g_wlan s)) q))) [0..<12]) @
     [0, 0] @ concat (replicate 20 (le16 (0xf0 AND 0xff))) @ concat (map le16 (radio_timing s))"

definition radio_caps_desc :: "wlan_mgmt \<Rightarrow> u16 list" where
  "radio_caps_desc s =
     (let wide = (operating_chwidth s = BW_40Mhz); flags = band_flags (g_xmit s); bw = per_ch_bw (endpoint_params s) in
      [mgmt_word0 150, RADIO_CAPABILITIES, 0, 0, ucast (ic_ieee (ic_curchan s)) OR push_bit 8 1,
       (if \<not> wide then 0 else if flags AND CHAN_HT40 \<noteq> 0 then primary_half flags
        else if bw \<noteq> 0 then push_bit 12 bw OR 0x6 else 0),
       0, 1 OR (if wide then 8 else 0)])"

definition onebox_load_radio_caps :: "host \<Rightarrow> wlan_mgmt \<Rightarrow> (status \<times> wlan_mgmt) option" where
  "onebox_load_radio_caps h s = send_mgmt h (radio_caps_desc s) (radio_caps_body s) s"

section \<open>Baseband, band and channel\<close>

definition program_bb_rf :: "host \<Rightarrow> wlan_mgmt \<Rightarrow> (status \<times> wlan_mgmt) option" where
  "program_bb_rf h s =
     send_mgmt h [mgmt_word0 0, BBP_PROG_IN_TA, 0, rf_pwr_mode s, ucast (endpoint s), 0, 0, (if rf_reset s then 8 else 0) OR 0x10]
       [] (s\<lparr>rf_reset := False, bb_rf_prog_count := 1\<rparr>)"

text \<open>The power is that of the endpoint, or the limit of the channel where the global one is above it.\<close>

definition channel_power :: "wlan_mgmt \<Rightarrow> u8" where
  "channel_power s =
     (if w_driver_mode (g_wlan s) = RF_EVAL_MODE_ON \<or> w_driver_mode (g_wlan s) = SNIFFER_MODE
      then ucast (ep_power (endpoint_params s))
      else if sint (ic_maxregpower (ic_curchan s)) < sint (ic_txpowlimit s)
      then ucast (ic_maxregpower (ic_curchan s)) else ucast (ic_txpowlimit s))"

definition channel_freq :: "u16 \<Rightarrow> u16 \<Rightarrow> u16" where
  "channel_freq ch old = (if ch = 14 then 2484 else if ch < 14 then 2407 + ch * 5 else if 36 \<le> ch then 5000 + ch * 5 else old)"

definition set_channel_desc :: "u16 \<Rightarrow> wlan_mgmt \<Rightarrow> u16 list" where
  "set_channel_desc chno s =
     (let mode = w_driver_mode (g_wlan s);
          ch = (if mode = RF_EVAL_MODE_ON \<or> mode = SNIFFER_MODE then chno else ucast (ic_ieee (ic_curchan s)));
          j = (if mode = RF_EVAL_MODE_ON then ep_enable_11j (endpoint_params s) else chan_11j (ic_curchan s)) in
      [mgmt_word0 0, SCAN_REQUEST, 0, 0, ch OR push_bit 8 (ucast (fst (ant_gain s))),
       scast (snd (ant_gain s)) OR (if operating_chwidth s = BW_40Mhz then 0x100 else if operating_chwidth s = BW_10Mhz then 0x200 else 0),
       ucast (channel_power s) OR (if j then 0x100 else 0), regdomain_pad s])"

definition set_channel :: "host \<Rightarrow> u16 \<Rightarrow> wlan_mgmt \<Rightarrow> (status \<times> wlan_mgmt) option" where
  "set_channel h chno s =
     send_mgmt h (set_channel_desc chno s) []
       (s\<lparr>ch_power := channel_power s,
          ic_curchan := (if w_driver_mode (g_wlan s) = SNIFFER_MODE
                         then (ic_curchan s)\<lparr>ic_ieee := ucast chno, ic_freq := channel_freq chno (ic_freq (ic_curchan s))\<rparr>
                         else ic_curchan s)\<rparr>)"

definition band_of_channel :: "endpoint_params \<Rightarrow> u8 option" where
  "band_of_channel p =
     (let ch = ep_channel p in
      if ch \<le> 14 \<and> \<not> ep_enable_11j p then Some BAND_2_4GHZ
      else if 36 \<le> ch \<and> ch \<le> 165 then Some BAND_5GHZ
      else if 183 \<le> ch \<and> ch \<le> 196 then Some BAND_4_9GHZ
      else if 7 \<le> ch \<and> ch \<le> 16 \<and> ep_enable_11j p then Some BAND_4_9GHZ
      else None)"

definition chwidth_of_bw :: "u16 \<Rightarrow> u8 option" where
  "chwidth_of_bw bw =
     (if bw = 0 then Some BW_20Mhz else if bw \<in> {1, 2, 4, 6} then Some BW_40Mhz else if bw = 5 then Some BW_5Mhz
      else if bw = 7 then Some BW_10Mhz else None)"

definition endpoint_of :: "u8 \<Rightarrow> u8 \<Rightarrow> u8 \<Rightarrow> u8" where
  "endpoint_of band chw old =
     (if band = BAND_2_4GHZ then if chw = BW_40Mhz then 1 else 0
      else if chw = BW_40Mhz then 3 else if chw = BW_20Mhz then 2 else if chw = BW_10Mhz then 4
      else if chw = BW_5Mhz then 5 else old)"

text \<open>
  The result is 1 when the endpoint changed, -1 on failure. The new parameters are sent only
  where the width changed, or for another half of a wide channel.
\<close>

definition send_band_change :: "host \<Rightarrow> u8 \<Rightarrow> status \<Rightarrow> wlan_mgmt \<Rightarrow> (status \<times> wlan_mgmt) option" where
  "send_band_change h old_chw change s =
     (if operating_chwidth s \<noteq> old_chw
      then do { (_, s1) \<leftarrow> onebox_load_bootup_params h (s\<lparr>chw_flag := True\<rparr>);
                (caps, s2) \<leftarrow> onebox_load_radio_caps h s1;
                Some (if caps \<noteq> ONEBOX_STATUS_SUCCESS then ONEBOX_STATUS_FAILURE else 1, s2) }
      else if operating_chwidth s = BW_40Mhz \<and> ucast (primary_channel s) \<noteq> per_ch_bw (endpoint_params s)
      then do { (caps, s1) \<leftarrow> onebox_load_radio_caps h (s\<lparr>primary_channel := ucast (per_ch_bw (endpoint_params s))\<rparr>);
                Some (if caps \<noteq> ONEBOX_STATUS_SUCCESS then ONEBOX_STATUS_FAILURE else change, s1) }
      else Some (change, s))"

definition band_check :: "host \<Rightarrow> wlan_mgmt \<Rightarrow> (status \<times> wlan_mgmt) option" where
  "band_check h s =
     (case band_of_channel (endpoint_params s) of
        None \<Rightarrow> Some (ONEBOX_STATUS_FAILURE, s)
      | Some band \<Rightarrow>
          (case chwidth_of_bw (per_ch_bw (endpoint_params s)) of
             None \<Rightarrow> Some (ONEBOX_STATUS_FAILURE, s)
           | Some chw \<Rightarrow>
               (let change = (if operating_band (g_xmit s) \<noteq> band then 1 else 0);
                    s1 = s\<lparr>operating_chwidth := chw, g_xmit := (g_xmit s)\<lparr>operating_band := band\<rparr>,
                           endpoint := endpoint_of band chw (endpoint s)\<rparr> in
                do { s2 \<leftarrow> (if endpoint s1 \<noteq> endpoint s \<or> rf_power_mode_change s1
                            then map_option snd (program_bb_rf h (s1\<lparr>rf_power_mode_change := False\<rparr>)) else Some s1);
                     send_band_change h (operating_chwidth s) change s2 })))"

end
