(* ===== verification/Sta_Frames.thy ===== *)
theory Sta_Frames
  imports Mgmt_Frames
begin

text \<open>
  The stations as the firmware knows them: the frames that add and remove a peer, load its
  keys, block and unblock its queues, announce its aggregation and describe the interface
  (\<^verbatim>\<open>onebox_devdep_mgmt.c\<close>), and above them \<^verbatim>\<open>core_send_station_info\<close>
  with the station table (\<^verbatim>\<open>onebox_core_vap.c\<close>).
\<close>

section \<open>Constants and small steps\<close>

datatype notify_event = STA_CONNECTED | STA_DISCONNECTED | STA_ADDBA_DONE | STA_DELBA | STA_RX_ADDBA_DONE | STA_RX_DELBA

abbreviation (input) F_USEPROT :: u32 where "F_USEPROT \<equiv> 0x100000"
abbreviation (input) F_WPA :: u32 where "F_WPA \<equiv> 0x1800000"
abbreviation (input) NODE_QOS :: u32 where "NODE_QOS \<equiv> 0x2"
abbreviation (input) NODE_HT :: u32 where "NODE_HT \<equiv> 0x40"
abbreviation (input) CHAN_HT40D :: u32 where "CHAN_HT40D \<equiv> 0x40000"
abbreviation (input) ONEBOX_PAIRWISE_KEY :: u8 where "ONEBOX_PAIRWISE_KEY \<equiv> 1"
abbreviation (input) ONEBOX_GROUP_KEY :: u8 where "ONEBOX_GROUP_KEY \<equiv> 2"
abbreviation (input) CIPHER_WEP :: u32 where "CIPHER_WEP \<equiv> 0"
abbreviation (input) CIPHER_TKIP :: u32 where "CIPHER_TKIP \<equiv> 1"
abbreviation (input) CIPHER_NONE :: u32 where "CIPHER_NONE \<equiv> 6"
abbreviation (input) MAX_STATIONS_SUPPORTED :: nat where "MAX_STATIONS_SUPPORTED \<equiv> 30"
abbreviation (input) ONEBOX_VAPS_DEFAULT :: nat where "ONEBOX_VAPS_DEFAULT \<equiv> 4"

abbreviation g_node :: "wlan_mgmt \<Rightarrow> nat \<Rightarrow> ni_node" where
  "g_node s \<equiv> x_node (g_xmit s)"

abbreviation g_txvap :: "wlan_mgmt \<Rightarrow> nat \<Rightarrow> tx_vap" where
  "g_txvap s \<equiv> x_vap (g_xmit s)"

definition upd_wlan :: "(wlan_adapter \<Rightarrow> wlan_adapter) \<Rightarrow> wlan_mgmt \<Rightarrow> wlan_mgmt" where
  "upd_wlan f s = with_wlan (f (g_wlan s)) s"

definition upd_ps :: "(wlan_ps \<Rightarrow> wlan_ps) \<Rightarrow> wlan_mgmt \<Rightarrow> wlan_mgmt" where
  "upd_ps f = upd_wlan (\<lambda>w. w\<lparr>w_ps := f (w_ps w)\<rparr>)"

definition upd_node :: "nat \<Rightarrow> (ni_node \<Rightarrow> ni_node) \<Rightarrow> wlan_mgmt \<Rightarrow> wlan_mgmt" where
  "upd_node ni f s = s\<lparr>g_xmit := (g_xmit s)\<lparr>x_node := (x_node (g_xmit s))(ni := f (g_node s ni))\<rparr>\<rparr>"

definition upd_mvap :: "nat \<Rightarrow> (mgmt_vap \<Rightarrow> mgmt_vap) \<Rightarrow> wlan_mgmt \<Rightarrow> wlan_mgmt" where
  "upd_mvap v f s = s\<lparr>m_vap := (m_vap s)(v := f (m_vap s v))\<rparr>"

definition power_save :: "core_host \<Rightarrow> nat \<Rightarrow> u32 \<Rightarrow> ps_path \<Rightarrow> wlan_mgmt \<Rightarrow> wlan_mgmt option" where
  "power_save h v ps_status path s =
     do { w \<leftarrow> call_ps (ch_host h) (update_pwr_save_status (ch_ps h) v ps_status path) (g_wlan s); Some (with_wlan w s) }"

text \<open>Whether a station is in the bit map of the connected ones; beyond its four words is a fault.\<close>

definition station_connected :: "nat \<Rightarrow> wlan_adapter \<Rightarrow> bool option" where
  "station_connected sta_id w =
     (if unat (max_stations_supported w) \<le> sta_id then Some False
      else if 4 \<le> sta_id div 32 then None
      else Some (bit (sta_connected_bitmap w (sta_id div 32)) (sta_id mod 32)))"

section \<open>Blocking and unblocking\<close>

definition start_txq :: "nat \<Rightarrow> wlan_mgmt \<Rightarrow> wlan_mgmt" where
  "start_txq v s =
     upd_wlan (\<lambda>w. w\<lparr>ifp_txq_stopped := (ifp_txq_stopped w)(v := False)\<rparr>) (upd_ps (upd_vap v (\<lambda>x. x\<lparr>stop_tx_q := False\<rparr>)) s)"

definition stop_txq :: "nat \<Rightarrow> wlan_mgmt \<Rightarrow> wlan_mgmt" where
  "stop_txq v s =
     (if ifp_txq_stopped (g_wlan s) v then s
      else upd_wlan (\<lambda>w. w\<lparr>ifp_txq_stopped := (ifp_txq_stopped w)(v := True)\<rparr>) (upd_ps (upd_vap v (\<lambda>x. x\<lparr>stop_tx_q := True\<rparr>)) s))"

definition block_flags :: "nat \<Rightarrow> notify_event \<Rightarrow> wlan_mgmt \<Rightarrow> wlan_mgmt" where
  "block_flags v event s =
     (if event = STA_DISCONNECTED
      then stop_txq v (net_log (Stop_initial_timer v)
             (upd_mvap v (\<lambda>x. x\<lparr>vap_data_block := True, carrier_on := False\<rparr>) (upd_ps (\<lambda>p. p\<lparr>sta_data_block := True\<rparr>) s)))
      else if event = STA_CONNECTED
      then (let s1 = upd_mvap v (\<lambda>x. x\<lparr>vap_data_block := False, carrier_on := True\<rparr>)
                       (upd_ps (\<lambda>p. p\<lparr>sta_data_block := False, block_ap_queues := False\<rparr>) s)
            in if w_antenna_diversity s1 then s1\<lparr>scan_count := 0\<rparr> else s1)
      else s)"

definition restart_ap_queues :: "wlan_mgmt \<Rightarrow> wlan_mgmt" where
  "restart_ap_queues s =
     (let vaps = ic_vaps (w_ps (g_wlan s))
      in fold start_txq (filter (\<lambda>i. iv_opmode (vaps ! i) = M_HOSTAP) [0..<length vaps]) s)"

definition block_desc :: "notify_event \<Rightarrow> bool \<Rightarrow> bool \<Rightarrow> u16 list" where
  "block_desc event quiet ap_blocked =
     [mgmt_word0 0, BLOCK_UNBLOCK, 0, 1 OR (if event = STA_DISCONNECTED \<and> quiet then 2 else 0),
      (if event = STA_DISCONNECTED then 0xf else 0) OR (if ap_blocked then 0xf0 else 0),
      (if event = STA_CONNECTED then 0xf else 0) OR (if ap_blocked then 0 else 0xf0), 0, 0]"

definition onebox_send_block_unblock ::
  "host \<Rightarrow> nat \<Rightarrow> notify_event \<Rightarrow> bool \<Rightarrow> wlan_mgmt \<Rightarrow> (status \<times> wlan_mgmt) option" where
  "onebox_send_block_unblock h v event quiet s =
     (let s1 = block_flags v event s; blocked = block_ap_queues (w_ps (g_wlan s1));
          s2 = (if blocked then s1 else restart_ap_queues s1)
      in send_mgmt h (block_desc event quiet blocked) [] s2)"

section \<open>The end of the four-way handshake\<close>

text \<open>
  The same lines follow the load of a key and the confirmation of the last EAPOL frame: the
  queues are unblocked once the pairwise key is there and the frame is confirmed, and power
  save is entered once the group key is there too.
\<close>

definition connection_step :: "core_host \<Rightarrow> nat \<Rightarrow> wlan_mgmt \<Rightarrow> wlan_mgmt option" where
  "connection_step h v s =
     do { s1 \<leftarrow> (if ptk_key (sta_mode s) \<and> eapol4_cnfrm (sta_mode s) \<and> sta_data_block (w_ps (g_wlan s))
                  then map_option snd (onebox_send_block_unblock (ch_host h) v STA_CONNECTED False s) else Some s);
          if ptk_key (sta_mode s1) \<and> gtk_key (sta_mode s1) \<and> eapol4_cnfrm (sta_mode s1)
          then power_save h v PS_ENABLE CONNECTED_PATH (s1\<lparr>sta_mode := (sta_mode s1)\<lparr>ptk_key := False\<rparr>\<rparr>)
          else Some s1 }"

section \<open>Keys\<close>

definition key_descriptor :: "bool \<Rightarrow> u8 \<Rightarrow> u8 \<Rightarrow> u32 \<Rightarrow> u16 \<Rightarrow> u16" where
  "key_descriptor hostap key_type key_id cipher key_len =
     (let id = (if key_type = ONEBOX_PAIRWISE_KEY \<and> cipher \<noteq> CIPHER_WEP then 0 else key_id) in
      (if key_type = ONEBOX_GROUP_KEY \<and> hostap then 0x80 else 0) OR (if key_type = ONEBOX_GROUP_KEY then 2 else 0) OR
      0x2000 OR push_bit 14 (ucast id) OR
      (if cipher = CIPHER_WEP then 4 OR (if 13 \<le> key_len then 8 else 0)
       else if cipher \<noteq> CIPHER_NONE then 0x10 OR (if cipher = CIPHER_TKIP then 0x20 else 0) else 0))"

text \<open>The four keys of 32 bytes, and from the first the two keys of the integrity code.\<close>

definition key_body :: "bytes option \<Rightarrow> bytes option" where
  "key_body data =
     (case data of
        None \<Rightarrow> Some (replicate 144 0)
      | Some d \<Rightarrow> do { key \<leftarrow> mem_slice d 0 128; tx \<leftarrow> mem_slice d 16 8; rx \<leftarrow> mem_slice d 24 8; Some (key @ tx @ rx) })"

definition note_key :: "u8 \<Rightarrow> sta_conn \<Rightarrow> sta_conn" where
  "note_key key_type c =
     (if key_type = ONEBOX_PAIRWISE_KEY then c\<lparr>ptk_key := True\<rparr>
      else if key_type = ONEBOX_GROUP_KEY then c\<lparr>gtk_key := True\<rparr> else c)"

definition hal_load_key ::
  "core_host \<Rightarrow> bytes option \<Rightarrow> u16 \<Rightarrow> u16 \<Rightarrow> u8 \<Rightarrow> u8 \<Rightarrow> u32 \<Rightarrow> nat \<Rightarrow> wlan_mgmt \<Rightarrow> (status \<times> wlan_mgmt) option" where
  "hal_load_key h data key_len sta_id key_type key_id cipher v s =
     (let hostap = (iv_opmode (g_vap s v) = M_HOSTAP) in
      do { known \<leftarrow> (if key_type = ONEBOX_PAIRWISE_KEY \<or> key_type = ONEBOX_GROUP_KEY \<and> \<not> hostap
                      then station_connected (unat sta_id) (g_wlan s) else Some True);
           if \<not> known then Some (ONEBOX_STATUS_FAILURE, s)
           else do { body \<leftarrow> key_body data;
                     (status, s1) \<leftarrow> send_mgmt (ch_host h)
                        [mgmt_word0 144, SET_KEY, 0, 0, key_descriptor hostap key_type key_id cipher key_len, 0, 0,
                         sta_id OR push_bit 8 (ucast (vap_id (g_txvap s v)))] body s;
                     if status \<noteq> ONEBOX_STATUS_SUCCESS then Some (ONEBOX_STATUS_FAILURE, s1)
                     else if iv_opmode (g_vap s1 v) = M_STA
                     then do { s2 \<leftarrow> connection_step h v (s1\<lparr>sta_mode := note_key key_type (sta_mode s1)\<rparr>);
                               Some (ONEBOX_STATUS_SUCCESS, s2) }
                     else Some (ONEBOX_STATUS_SUCCESS, s1) } })"

section \<open>Aggregation\<close>

definition ampdu_desc :: "notify_event \<Rightarrow> mgmt_node \<Rightarrow> u8 \<Rightarrow> u16 list option" where
  "ampdu_desc event n peer_id =
     (let tid = tidnum n; t = unat tid; peer = push_bit 8 (ucast peer_id);
          desc = (\<lambda>w4 w5 w7. [mgmt_word0 0, AMPDU_IND, 0, 0, w4, w5, 0, w7]) in
      case event of
        STA_ADDBA_DONE \<Rightarrow> if 16 \<le> t then None else Some (desc (seq_start n t) (baw_size n t) (tid OR 0x10 OR peer))
      | STA_RX_ADDBA_DONE \<Rightarrow> if 16 \<le> t then None else Some (desc (seq_start n t) 0 (tid OR 0x10 OR 0x20 OR peer))
      | STA_DELBA \<Rightarrow> Some (desc 0 0 (tid OR peer))
      | STA_RX_DELBA \<Rightarrow> Some (desc 0 0 (tid OR (if delba_ind n then 0x20 else 0) OR peer))
      | _ \<Rightarrow> Some (desc 0 0 0))"

definition onebox_send_ampdu_indication_frame ::
  "host \<Rightarrow> nat \<Rightarrow> notify_event \<Rightarrow> wlan_mgmt \<Rightarrow> (status \<times> wlan_mgmt) option" where
  "onebox_send_ampdu_indication_frame h ni event s =
     do { desc \<leftarrow> ampdu_desc event (m_node s ni) (node_sta_id (g_node s ni)); send_mgmt h desc [] s }"

section \<open>Peers\<close>

definition peer_opmode :: "ieee80211_opmode \<Rightarrow> u16 option" where
  "peer_opmode m = (case m of M_STA \<Rightarrow> Some 0 | M_HOSTAP \<Rightarrow> Some (push_bit 1 1) | M_MBSS \<Rightarrow> Some (push_bit 1 4) | _ \<Rightarrow> None)"

definition mpdu_density :: "u8 \<Rightarrow> u16" where
  "mpdu_density htparam = [0, 1, 1, 1, 2, 4, 8, 16] ! unat (drop_bit 2 htparam AND 7)"

definition peer_body :: "wlan_mgmt \<Rightarrow> nat \<Rightarrow> u16 \<Rightarrow> notify_event \<Rightarrow> bytes" where
  "peer_body s ni command event =
     ni_macaddr (g_node s ni) @
     le16 (command OR (if event = STA_CONNECTED then 1 else 0) OR push_bit 4 (ni_associd (m_node s ni) AND 0xfff)) @
     le16 (if event = STA_CONNECTED then mpdu_density (ni_htparam (m_node s ni)) else 0) @ le16 0 @
     le32 (if ni_flags (g_node s ni) AND NODE_QOS \<noteq> 0 then 1 else 0)"

text \<open>What a disconnection changes before the frame is sent.\<close>

definition peer_gone :: "core_host \<Rightarrow> nat \<Rightarrow> nat \<Rightarrow> wlan_mgmt \<Rightarrow> wlan_mgmt option" where
  "peer_gone h ni v s =
     (let s1 = upd_node ni (\<lambda>n. n\<lparr>ni_flags := ni_flags n AND NOT NODE_ENCRYPT_ENBL\<rparr>) s in
      if iv_opmode (g_vap s1 v) \<noteq> M_STA then Some s1
      else do { s2 \<leftarrow> (if \<not> sta_data_block (w_ps (g_wlan s1))
                        then map_option snd (onebox_send_block_unblock (ch_host h) v STA_DISCONNECTED False s1) else Some s1);
                let s3 = s2\<lparr>sta_mode := \<lparr>ptk_key = False, gtk_key = False, eapol4_cnfrm = False\<rparr>,
                            sta_mode_id := (0, snd (sta_mode_id s2))\<rparr>;
                let s4 = (if timer_function (w_ps (g_wlan s3)) then net_log Remove_traffic_timer s3 else s3);
                power_save h v PS_ENABLE DISCONNECTED_PATH s4 })"

text \<open>A network with WEP loads its keys with the peer; the connection is then complete, as in an open one.\<close>

definition load_wep_keys :: "core_host \<Rightarrow> nat \<Rightarrow> nat \<Rightarrow> wlan_mgmt \<Rightarrow> wlan_mgmt option" where
  "load_wep_keys h ni v s =
     (let m = m_vap s v; idx = wep_key_idx m; id = ucast (node_sta_id (g_node s ni));
          load = (\<lambda>ty. hal_load_key h (Some (wep_key m)) (ucast (wep_keylen m (unat idx))) id ty idx CIPHER_WEP v) in
      do { (_, s1) \<leftarrow> load ONEBOX_PAIRWISE_KEY s;
           s2 \<leftarrow> (if iv_opmode (g_vap s1 v) = M_STA
                   then map_option (\<lambda>(_, s'). upd_ps (upd_vap v (\<lambda>x. x\<lparr>conn_in_prog := False\<rparr>)) s') (load ONEBOX_GROUP_KEY s1)
                   else Some s1);
           Some (upd_node ni (\<lambda>n. n\<lparr>ni_flags := ni_flags n OR NODE_ENCRYPT_ENBL\<rparr>) s2) })"

definition peer_sent :: "core_host \<Rightarrow> nat \<Rightarrow> nat \<Rightarrow> wlan_mgmt \<Rightarrow> wlan_mgmt option" where
  "peer_sent h ni v s =
     (let flags = iv_flags (g_txvap s v) in
      if flags AND F_WPA = 0 \<and> flags AND F_PRIVACY \<noteq> 0 then load_wep_keys h ni v s
      else if iv_opmode (g_vap s v) = M_STA \<and> iv_state (g_vap s v) = S_RUN \<and> flags AND F_PRIVACY = 0
      then Some (upd_ps (upd_vap v (\<lambda>x. x\<lparr>conn_in_prog := False\<rparr>)) s)
      else Some s)"

definition hal_send_sta_notify_frame ::
  "core_host \<Rightarrow> nat \<Rightarrow> nat \<Rightarrow> notify_event \<Rightarrow> wlan_mgmt \<Rightarrow> (status \<times> wlan_mgmt) option" where
  "hal_send_sta_notify_frame h ni v event s =
     (case peer_opmode (iv_opmode (g_vap s v)) of
        None \<Rightarrow> Some (ONEBOX_STATUS_FAILURE, s)
      | Some command \<Rightarrow>
          (if event \<notin> {STA_CONNECTED, STA_DISCONNECTED} then onebox_send_ampdu_indication_frame (ch_host h) ni event s
           else do { s1 \<leftarrow> (if event = STA_DISCONNECTED then peer_gone h ni v s
                             else Some (if iv_opmode (g_vap s v) = M_STA then start_txq v s else s));
                     (status, s2) \<leftarrow> send_mgmt (ch_host h)
                        [mgmt_word0 16, PEER_NOTIFY, 0, 0, 0, 0, 0,
                         ucast (node_sta_id (g_node s1 ni)) OR push_bit 8 (ucast (vap_id (g_txvap s1 v)))]
                        (peer_body s1 ni command event) s1;
                     if status \<noteq> ONEBOX_STATUS_SUCCESS then Some (ONEBOX_STATUS_FAILURE, s2)
                     else do { s3 \<leftarrow> peer_sent h ni v s2; Some (ONEBOX_STATUS_SUCCESS, s3) } }))"

section \<open>Interfaces\<close>

definition vap_valid :: "nat \<Rightarrow> wlan_mgmt \<Rightarrow> bool" where
  "vap_valid v s \<longleftrightarrow>
     (let id = unat (vap_id (g_txvap s v)) in id < ONEBOX_VAPS_DEFAULT \<and> hal_vap (g_wlan s) id = (True, Some v))"

definition vap_opmode :: "bool \<Rightarrow> bool \<Rightarrow> ieee80211_opmode \<Rightarrow> u16" where
  "vap_opmode p2p go m =
     (if p2p then if go then 2 else 3
      else case m of M_STA \<Rightarrow> 1 | M_HOSTAP \<Rightarrow> 0 | M_IBSS \<Rightarrow> 4 | _ \<Rightarrow> 2)"

definition vap_caps_desc :: "nat \<Rightarrow> u8 \<Rightarrow> wlan_mgmt \<Rightarrow> u16 list" where
  "vap_caps_desc v vap_status s =
     [mgmt_word0 42, VAP_CAPABILITIES, push_bit 8 (ucast vap_status), 0,
      vap_opmode (p2p_enable (g_txvap s v)) (p2p_go (m_vap s v)) (iv_opmode (g_vap s v)) OR push_bit 8 (ucast (ch_bandwidth s)), 0, 0,
      push_bit 8 (ucast (vap_id (g_txvap s v))) OR push_bit 4 (ucast (mac_id s)) OR ucast (radio_id s)]"

definition ctrl_rate :: "wlan_mgmt \<Rightarrow> u32" where
  "ctrl_rate s =
     (let flags = band_flags (g_xmit s) in
      (if operating_band (g_xmit s) = BAND_5GHZ then 0x8b else 0) OR
      (if flags AND CHAN_HT40 \<noteq> 0 then if flags AND CHAN_HT40U \<noteq> 0 then push_bit 16 4 else push_bit 16 2 else 0))"

definition vap_caps_body :: "nat \<Rightarrow> wlan_mgmt \<Rightarrow> bytes" where
  "vap_caps_body v s =
     iv_myaddr (m_vap s v) @ le16 90 @ replicate 6 0 @ le16 0 @
     le32 (if ic_flags (g_xmit s) AND F_USEPROT \<noteq> 0 \<and> ic_nonerpsta s \<noteq> 0 then 2 else 0) @
     le16 2346 @ le16 (iv_rtsthreshold (m_vap s v)) @ le32 0x8b @ le32 (ctrl_rate s) @ le32 0 @
     le16 (ic_bintval s) @ le16 (ucast (iv_dtim_period (m_vap s v))) @ le16 (iv_bmissthreshold (m_vap s v))"

definition set_vap_capabilities :: "host \<Rightarrow> nat \<Rightarrow> u8 \<Rightarrow> wlan_mgmt \<Rightarrow> (status \<times> wlan_mgmt) option" where
  "set_vap_capabilities h v vap_status s =
     (if \<not> vap_valid v s then Some (ONEBOX_STATUS_FAILURE, s)
      else send_mgmt h (vap_caps_desc v vap_status s) (vap_caps_body v s) s)"

definition onebox_send_vap_dynamic_update :: "host \<Rightarrow> nat \<Rightarrow> wlan_mgmt \<Rightarrow> (status \<times> wlan_mgmt) option" where
  "onebox_send_vap_dynamic_update h v s =
     (let m = m_vap s v; x = g_txvap s v; opmode = iv_opmode (g_vap s v) in
      send_mgmt h
        [mgmt_word0 6, VAP_DYNAMIC_UPDATE,
         (if ic_flags (g_xmit s) AND F_USEPROT \<noteq> 0 \<and> (ic_nonerpsta s \<noteq> 0 \<and> opmode = M_HOSTAP \<or> opmode = M_STA) then 2 else 0),
         (if fixed_rate_enable x then 1 else 0), iv_rtsthreshold m, 0, iv_bmissthreshold m, push_bit 8 (ucast (vap_id x))]
        (le16 (if fixed_rate_enable x then ucast (rate_hix x) else 0) @ le16 0 @ le16 (iv_keep_alive_period m)) s)"

section \<open>The station table\<close>

text \<open>The first index that passes the test; the test faults outside the arrays.\<close>

fun first_index :: "(nat \<Rightarrow> bool option) \<Rightarrow> nat \<Rightarrow> nat \<Rightarrow> nat option option" where
  "first_index p i 0 = Some None"
| "first_index p i (Suc n) = do { found \<leftarrow> p i; if found then Some (Some i) else first_index p (Suc i) n }"

definition has_address :: "bytes \<Rightarrow> wlan_mgmt \<Rightarrow> nat \<Rightarrow> bool option" where
  "has_address a s i = (if MAX_STATIONS_SUPPORTED \<le> i then None else Some (fst (sta s i) = a))"

definition slot_free :: "wlan_mgmt \<Rightarrow> nat \<Rightarrow> bool option" where
  "slot_free s i =
     (if 4 \<le> i div 32 then None else Some (\<not> bit (sta_connected_bitmap (g_wlan s) (i div 32)) (i mod 32)))"

definition mark_slot :: "nat \<Rightarrow> bool \<Rightarrow> wlan_mgmt \<Rightarrow> wlan_mgmt" where
  "mark_slot i used =
     upd_wlan (\<lambda>w. w\<lparr>sta_connected_bitmap := (sta_connected_bitmap w)
       (i div 32 := (if used then set_bit (i mod 32) (sta_connected_bitmap w (i div 32))
                     else unset_bit (i mod 32) (sta_connected_bitmap w (i div 32))))\<rparr>)"

definition set_address :: "nat \<Rightarrow> bytes \<Rightarrow> wlan_mgmt \<Rightarrow> wlan_mgmt" where
  "set_address i a s = s\<lparr>sta := (sta s)(i := (a, snd (sta s i)))\<rparr>"

definition set_sta_ni :: "nat \<Rightarrow> nat option \<Rightarrow> wlan_mgmt \<Rightarrow> wlan_mgmt" where
  "set_sta_ni i ni s = s\<lparr>sta := (sta s)(i := (fst (sta s i), ni))\<rparr>"

text \<open>
  A station that connects keeps its place in the table if it has one, and takes the first
  free one otherwise. \<open>Some (False, _)\<close> is the failure.
\<close>

definition admit_station :: "nat \<Rightarrow> wlan_mgmt \<Rightarrow> (bool \<times> wlan_mgmt) option" where
  "admit_station ni s =
     (let a = ni_macaddr (g_node s ni); n = unat (max_stations_supported (g_wlan s)) in
      do { known \<leftarrow> first_index (has_address a s) 0 n;
           case known of
             Some i \<Rightarrow> Some (i = unat (node_sta_id (g_node s ni)), s)
           | None \<Rightarrow>
               do { slot \<leftarrow> first_index (slot_free s) 0 n;
                    case slot of
                      None \<Rightarrow> Some (False, s)
                    | Some i \<Rightarrow>
                        (if MAX_STATIONS_SUPPORTED \<le> i then None
                         else Some (True, upd_node ni (\<lambda>x. x\<lparr>node_sta_id := word_of_nat i\<rparr>)
                                            (mark_slot i True (set_address i a s)))) } })"

definition node_valid :: "nat \<Rightarrow> wlan_mgmt \<Rightarrow> bool option" where
  "node_valid ni s =
     (let i = unat (node_sta_id (g_node s ni)) in
      if unat (max_stations_supported (g_wlan s)) \<le> i then Some False
      else do { same \<leftarrow> has_address (ni_macaddr (g_node s ni)) s i;
                if same then station_connected i (g_wlan s) else Some False })"

definition start_aggregation :: "nat \<Rightarrow> wlan_mgmt \<Rightarrow> wlan_mgmt option" where
  "start_aggregation ni s =
     (let n = m_node s ni; t = unat (tidnum n) in
      if 16 \<le> t then None
      else Some (if txa_running n (tid_to_wme_ac (word_of_nat t))
                 then s\<lparr>m_node := (m_node s)(ni := n\<lparr>seq_start := (seq_start n)(t := ni_txseqs n t AND 0xfff),
                                                    baw_size := (baw_size n)(t := aggr_tx_limit s)\<rparr>)\<rparr>
                 else s))"

definition table_step :: "nat \<Rightarrow> notify_event \<Rightarrow> wlan_mgmt \<Rightarrow> (bool \<times> wlan_mgmt) option" where
  "table_step ni event s =
     (if event = STA_CONNECTED then admit_station ni s
      else do { valid \<leftarrow> node_valid ni s;
                let i = unat (node_sta_id (g_node s ni));
                if \<not> valid then Some (False, s)
                else if event = STA_DISCONNECTED then Some (True, set_address i (replicate 6 0) (mark_slot i False s))
                else if event = STA_ADDBA_DONE then do { s1 \<leftarrow> start_aggregation ni s; Some (True, s1) }
                else Some (True, s) })"

definition table_node :: "nat \<Rightarrow> nat \<Rightarrow> notify_event \<Rightarrow> wlan_mgmt \<Rightarrow> wlan_mgmt" where
  "table_node ni v event s =
     (let i = unat (node_sta_id (g_node s ni)) in
      if event = STA_CONNECTED
      then (let s1 = set_sta_ni i (Some ni) s
            in if iv_opmode (g_vap s1 v) = M_STA
               then s1\<lparr>sta_mode_id := (ucast (node_sta_id (g_node s1 ni)), vap_id (g_txvap s1 v))\<rparr> else s1)
      else if event = STA_DISCONNECTED then set_sta_ni i None s
      else s)"

section \<open>The width of the channel follows the connection\<close>

definition center_channel :: "u32 \<Rightarrow> u8 \<Rightarrow> u8" where
  "center_channel flags ieee =
     (if flags AND CHAN_HT40U \<noteq> 0 then word_of_nat ((unat (ieee + 4) + unat ieee) div 2)
      else if flags AND CHAN_HT40D \<noteq> 0 then word_of_nat ((unat (ieee - 4) + unat ieee) div 2) else 0)"

definition change_width :: "core_host \<Rightarrow> nat \<Rightarrow> u16 \<Rightarrow> u16 \<Rightarrow> wlan_mgmt \<Rightarrow> wlan_mgmt option" where
  "change_width h v bw chno s =
     do { (changed, s1) \<leftarrow> band_check (ch_host h) (s\<lparr>endpoint_params := (endpoint_params s)\<lparr>ep_channel := ucast (ic_ieee (ic_curchan s)), per_ch_bw := bw\<rparr>\<rparr>);
          s2 \<leftarrow> (if changed = 1 then map_option snd (set_vap_capabilities (ch_host h) v 3 s1) else Some s1);
          map_option snd (set_channel (ch_host h) chno (s2\<lparr>def_chwidth := operating_chwidth s2\<rparr>)) }"

definition follow_width :: "core_host \<Rightarrow> nat \<Rightarrow> notify_event \<Rightarrow> wlan_mgmt \<Rightarrow> wlan_mgmt option" where
  "follow_width h v event s =
     (let flags = band_flags (g_xmit s); ieee = ic_ieee (ic_curchan s) in
      if iv_opmode (g_vap s v) \<noteq> M_STA then Some s
      else if event = STA_CONNECTED
      then if flags AND CHAN_HT40 \<noteq> 0 then change_width h v 1 (ucast (center_channel flags ieee)) s else Some s
      else if event = STA_DISCONNECTED
      then (let s1 = s\<lparr>g_xmit := (g_xmit s)\<lparr>band_flags := flags AND NOT CHAN_HT40\<rparr>\<rparr>
            in if operating_chwidth s1 = BW_40Mhz then change_width h v 0 (ucast ieee) s1 else Some s1)
      else Some s)"

definition core_send_station_info :: "core_host \<Rightarrow> nat option \<Rightarrow> notify_event \<Rightarrow> wlan_mgmt \<Rightarrow> (status \<times> wlan_mgmt) option" where
  "core_send_station_info h node event s =
     (case node of
        None \<Rightarrow> Some (ONEBOX_STATUS_FAILURE, s)
      | Some ni \<Rightarrow>
          (case ni_vap (g_wlan s) ni of
             None \<Rightarrow> Some (ONEBOX_STATUS_FAILURE, s)
           | Some v \<Rightarrow>
               (if \<not> vap_valid v s then Some (ONEBOX_STATUS_FAILURE, s)
                else do { (ok, s1) \<leftarrow> table_step ni event s;
                          if \<not> ok then Some (ONEBOX_STATUS_FAILURE, s1)
                          else do { (status, s2) \<leftarrow> hal_send_sta_notify_frame h ni v event (table_node ni v event s1);
                                    if status \<noteq> ONEBOX_STATUS_SUCCESS then Some (ONEBOX_STATUS_FAILURE, s2)
                                    else do { s3 \<leftarrow> follow_width h v event s2; Some (ONEBOX_STATUS_SUCCESS, s3) } } })))"

end
