(* ===== verification/Mgmt_Recv.thy ===== *)
theory Mgmt_Recv
  imports Sta_Frames
begin

text \<open>
  The packets that reach the WLAN module: \<^verbatim>\<open>wlan_read_pkt\<close>
  (\<^verbatim>\<open>onebox_dev_ops.c\<close>) separates data from management packets;
  \<^verbatim>\<open>onebox_mgmt_pkt_recv\<close> and \<^verbatim>\<open>onebox_mgmt_pkt_to_core\<close>
  (\<^verbatim>\<open>onebox_devdep_mgmt.c\<close>) run the protocol of the initialisation and serve
  the confirmations and indications of the firmware; \<^verbatim>\<open>onebox_reorder_pkt\<close> and
  \<^verbatim>\<open>wlan_core_pkt_recv\<close> hand packets to net80211.
\<close>

section \<open>Types\<close>

text \<open>
  What the receive path asks of the surroundings: whether the control block of net80211 can be
  allocated and whether the thread of the packet error rate test starts.
\<close>

record net_host =
  nh_core :: core_host
  nh_kmalloc :: "net_event list \<Rightarrow> bool"
  nh_thread :: "net_event list \<Rightarrow> bool"

text \<open>How the handler of a state ends: the packet is freed below it, or it returned itself.\<close>

datatype recv_end = Handled | Returned status

abbreviation (input) TA_CONFIRM_TYPE :: u16 where "TA_CONFIRM_TYPE \<equiv> 0x01"
abbreviation (input) RX_DOT11_MGMT :: u16 where "RX_DOT11_MGMT \<equiv> 0x02"
abbreviation (input) TX_STATUS_IND :: u16 where "TX_STATUS_IND \<equiv> 0x04"
abbreviation (input) PS_NOTIFY_IND :: u16 where "PS_NOTIFY_IND \<equiv> 0x05"
abbreviation (input) DECRYPT_ERROR_IND :: u16 where "DECRYPT_ERROR_IND \<equiv> 0x07"
abbreviation (input) BEACON_EVENT_IND :: u16 where "BEACON_EVENT_IND \<equiv> 0x08"
abbreviation (input) DEBUG_IND :: u16 where "DEBUG_IND \<equiv> 0x09"
abbreviation (input) HW_BMISS_EVENT :: u16 where "HW_BMISS_EVENT \<equiv> 0x0c"
abbreviation (input) RATE_GC_TABLE_UPDATE :: u16 where "RATE_GC_TABLE_UPDATE \<equiv> 0x0d"
abbreviation (input) RADAR_DETECTED :: u16 where "RADAR_DETECTED \<equiv> 0x0e"
abbreviation (input) ANTENNA_SELECT :: u16 where "ANTENNA_SELECT \<equiv> 0x0f"
abbreviation (input) TSF_SYNC_CONFIRM :: u16 where "TSF_SYNC_CONFIRM \<equiv> 0xc0"

abbreviation (input) WAKEUP_SLEEP_REQUEST :: u16 where "WAKEUP_SLEEP_REQUEST \<equiv> 5"
abbreviation (input) EEPROM_READ_TYPE :: u16 where "EEPROM_READ_TYPE \<equiv> 14"
abbreviation (input) EEPROM_WRITE :: u16 where "EEPROM_WRITE \<equiv> 15"
abbreviation (input) STATS_REQUEST_FRAME :: u16 where "STATS_REQUEST_FRAME \<equiv> 19"
abbreviation (input) BB_BUF_PROG_VALUES_REQ :: u16 where "BB_BUF_PROG_VALUES_REQ \<equiv> 20"
abbreviation (input) BG_SCAN_PROBE_REQ :: u16 where "BG_SCAN_PROBE_REQ \<equiv> 23"
abbreviation (input) CW_MODE_REQ :: u16 where "CW_MODE_REQ \<equiv> 24"
abbreviation (input) RF_LOOPBACK_REQ :: u16 where "RF_LOOPBACK_REQ \<equiv> 28"
abbreviation (input) RF_LPBK_M3 :: u16 where "RF_LPBK_M3 \<equiv> 29"
abbreviation (input) LMAC_REG_OPS :: u16 where "LMAC_REG_OPS \<equiv> 31"
abbreviation (input) EAPOL4_CONFIRM :: u16 where "EAPOL4_CONFIRM \<equiv> 1"
abbreviation (input) PROBEREQ_CONFIRM :: u16 where "PROBEREQ_CONFIRM \<equiv> 2"
abbreviation (input) NULLDATA_CONFIRM :: u16 where "NULLDATA_CONFIRM \<equiv> 3"

definition set_fsm :: "fsm_state \<Rightarrow> wlan_mgmt \<Rightarrow> wlan_mgmt" where
  "set_fsm f = upd_wlan (\<lambda>w. w\<lparr>w_fsm_state := f\<rparr>)"

definition log_wlan :: "event \<Rightarrow> wlan_mgmt \<Rightarrow> wlan_mgmt" where
  "log_wlan e = upd_wlan (log_common e)"

definition free_rx :: "netbuf \<Rightarrow> wlan_mgmt \<Rightarrow> wlan_mgmt" where
  "free_rx nb = log_wlan (Free_pkt (nb_data nb))"

definition vap_ids :: "wlan_mgmt \<Rightarrow> nat list" where
  "vap_ids s = [0..<length (ic_vaps (w_ps (g_wlan s)))]"

definition vaps_of_mode :: "ieee80211_opmode \<Rightarrow> wlan_mgmt \<Rightarrow> nat list" where
  "vaps_of_mode m s = filter (\<lambda>v. iv_opmode (g_vap s v) = m) (vap_ids s)"

definition vap_with_id :: "nat \<Rightarrow> wlan_mgmt \<Rightarrow> nat option" where
  "vap_with_id i s = List.find (\<lambda>v. unat (vap_id (g_txvap s v)) = i) (vap_ids s)"

text \<open>\<^verbatim>\<open>ieee80211_find_node\<close>; the reference it takes is not counted.\<close>

definition find_node :: "wlan_mgmt \<Rightarrow> bytes \<Rightarrow> nat option" where
  "find_node s a = List.find (\<lambda>ni. ni_macaddr (g_node s ni) = a) (nt_nodes s)"

text \<open>A broadcast probe request belongs to no node.\<close>

definition find_rxnode :: "wlan_mgmt \<Rightarrow> bytes \<Rightarrow> nat option option" where
  "find_rxnode s d =
     do { fc \<leftarrow> rd8 d 0; a3 \<leftarrow> (if fc AND 0xfc = 0x40 then rd8 d 16 else Some 0);
          if fc AND 0xfc = 0x40 \<and> a3 AND 1 \<noteq> 0 then Some None
          else do { a \<leftarrow> mem_slice d 10 6; Some (find_node s a) } }"

text \<open>\<^verbatim>\<open>netbuf_ctrl_block_t_adj\<close>: beyond the end the data pointer is NULL.\<close>

definition netbuf_pull :: "nat \<Rightarrow> netbuf \<Rightarrow> netbuf option" where
  "netbuf_pull n nb = map_option (\<lambda>d. nb\<lparr>nb_data := d\<rparr>) (netbuf_adj (nb_data nb) n)"

section \<open>The states of the initialisation\<close>

text \<open>The card details that arrived with the card-ready message decide the band.\<close>

definition apply_assets :: "wlan_mgmt \<Rightarrow> wlan_mgmt" where
  "apply_assets s =
     (let d = g_assets s; dual = (band_version d = 3) in
      s\<lparr>g_xmit := (g_xmit s)\<lparr>operating_band := BAND_2_4GHZ\<rparr>, band_supported := dual,
        module_model_type := (if onboard_antenna d \<noteq> 0 then if dual then 0x301 else 0x201 else if dual then 0x03 else 0x02),
        mac_addr := wlan_mac_address d\<rparr>)"

definition on_load_bootup :: "host \<Rightarrow> u16 \<Rightarrow> u16 \<Rightarrow> wlan_mgmt \<Rightarrow> (recv_end \<times> wlan_mgmt) option" where
  "on_load_bootup h ty sub s =
     (if ty = TA_CONFIRM_TYPE \<and> sub = BOOTUP_PARAMS_REQUEST
      then if w_driver_mode (g_wlan s) = QSPI_FLASHING then Some (Handled, set_fsm FSM_MAC_INIT_DONE s)
           else do { (status, s1) \<leftarrow> onebox_send_reset_mac h (net_log Net80211_attach (apply_assets s));
                     Some (Handled, if status = 0 then set_fsm FSM_RESET_MAC_CFM s1 else s1) }
      else Some (Handled, s))"

text \<open>
  The result of \<^verbatim>\<open>onebox_load_radio_caps\<close> is tested the wrong way round: success
  leaves the function with a failure.
\<close>

definition on_reset_mac :: "host \<Rightarrow> u16 \<Rightarrow> u16 \<Rightarrow> wlan_mgmt \<Rightarrow> (recv_end \<times> wlan_mgmt) option" where
  "on_reset_mac h ty sub s =
     (if ty = TA_CONFIRM_TYPE \<and> sub = RESET_MAC_REQ
      then do { (status, s1) \<leftarrow> onebox_load_radio_caps h
                  (s\<lparr>rx_filter_word := 0, radio_timing := [580, 346, 360, 2720, 9440, 0]\<rparr>);
                Some (if status = 0 then Returned ONEBOX_STATUS_FAILURE else Handled, s1) }
      else if ty = TA_CONFIRM_TYPE \<and> sub = RADIO_CAPABILITIES
      then do { (status, s1) \<leftarrow> program_bb_rf h (s\<lparr>rf_reset := True\<rparr>);
                Some (Handled, if status = 0 then set_fsm FSM_MAC_INIT_DONE s1 else s1) }
      else Some (Handled, s))"

definition on_bb_rf_start :: "u16 \<Rightarrow> u16 \<Rightarrow> wlan_mgmt \<Rightarrow> wlan_mgmt" where
  "on_bb_rf_start ty sub s =
     (if ty = TA_CONFIRM_TYPE \<and> sub \<in> {BB_PROG_VALUES_REQUEST, RF_PROG_VALUES_REQUEST, BBP_PROG_IN_TA}
      then (let n = bb_rf_prog_count s - 1; s1 = s\<lparr>bb_rf_prog_count := n\<rparr>
            in if n = 0 then set_fsm FSM_MAC_INIT_DONE s1 else s1)
      else s)"

definition on_ampdu_sent :: "net_host \<Rightarrow> u16 \<Rightarrow> u16 \<Rightarrow> wlan_mgmt \<Rightarrow> recv_end \<times> wlan_mgmt" where
  "on_ampdu_sent nh ty sub s =
     (if ty = TA_CONFIRM_TYPE \<and> sub = AMPDU_IND
      then if nh_thread nh (net_trace s)
           then (Handled, set_fsm FSM_MAC_INIT_DONE ((net_log Start_per_thread s)\<lparr>tx_running := 2\<rparr>))
           else (Returned (-14), s)
      else (Handled, set_fsm FSM_MAC_INIT_DONE s))"

section \<open>Confirmations\<close>

text \<open>The buffer for the values of the baseband and the RF chip holds 1024 bytes; writing past it is a fault.\<close>

definition copy_values :: "bytes \<Rightarrow> nat \<Rightarrow> wlan_mgmt \<Rightarrow> wlan_mgmt option" where
  "copy_values msg len s =
     (if len = 0 then Some s
      else do { d \<leftarrow> mem_slice msg 16 len; b \<leftarrow> mem_write (bb_rf_read s) d;
                Some (net_log Set_bb_rf_event (s\<lparr>bb_rf_read := b, bb_rf_no_of_values := word_of_nat (len div 2)\<rparr>)) })"

definition mem_write_at :: "bytes \<Rightarrow> nat \<Rightarrow> bytes \<Rightarrow> bytes option" where
  "mem_write_at dst off src =
     (if off + length src \<le> length dst then Some (take off dst @ src @ drop (off + length src) dst) else None)"

definition loopback_values :: "nat \<Rightarrow> bytes \<Rightarrow> nat \<Rightarrow> wlan_mgmt \<Rightarrow> wlan_mgmt option" where
  "loopback_values limit msg len s =
     (if len = 0 then Some s
      else do { d \<leftarrow> mem_slice msg 16 len; b \<leftarrow> mem_write_at (rf_lpbk_data s) (unat (rf_lpbk_len s)) d;
                let n = rf_lpbk_len s + word_of_nat len;
                let s1 = s\<lparr>rf_lpbk_data := b, rf_lpbk_len := n\<rparr>;
                Some (if limit \<le> unat n then net_log Set_bb_rf_event s1 else s1) })"

definition eeprom_values :: "bytes \<Rightarrow> nat \<Rightarrow> wlan_mgmt \<Rightarrow> wlan_mgmt option" where
  "eeprom_values msg len s =
     (if len = 0 then Some (net_log Set_bb_rf_event s)
      else do { d \<leftarrow> mem_slice msg 16 len; b \<leftarrow> mem_write (eeprom_data s) d;
                Some (net_log Set_bb_rf_event (s\<lparr>eeprom_data := b\<rparr>)) })"

definition stats_values :: "bytes \<Rightarrow> wlan_mgmt \<Rightarrow> wlan_mgmt option" where
  "stats_values msg s =
     do { d \<leftarrow> mem_slice msg 16 (length (sta_info s)); Some (net_log Set_stats_event (s\<lparr>sta_info := d\<rparr>)) }"

text \<open>The end of a background scan of the host: both bands must have been scanned.\<close>

primrec bgscan_complete :: "nat list \<Rightarrow> wlan_mgmt \<Rightarrow> wlan_mgmt" where
  "bgscan_complete [] s = s"
| "bgscan_complete (v # vs) s =
     (if iv_opmode (g_vap s v) \<noteq> M_STA then bgscan_complete vs s
      else if bgscan_triggered s \<and>
                (bgscan_2ghz_sent s \<and> \<not> band_supported s \<or> band_supported s \<and> bgscan_2ghz_sent s \<and> bgscan_5ghz_sent s) \<or>
              \<not> bgscan_triggered s
      then net_log (Send_scan_done v) s
      else bgscan_complete vs
             (if band_supported s then net_log (Send_bgscan_params BAND_5GHZ) (s\<lparr>bgscan_5ghz_sent := True\<rparr>) else s))"

definition sleep_confirm :: "core_host \<Rightarrow> bytes \<Rightarrow> wlan_mgmt \<Rightarrow> (recv_end \<times> wlan_mgmt) option" where
  "sleep_confirm h msg s =
     (if w_driver_mode (g_wlan s) = RF_EVAL_MODE_ON then Some (Handled, s)
      else case sta_vap (w_ps (g_wlan s)) of
             None \<Rightarrow> Some (Handled, s)
           | Some v \<Rightarrow>
               do { token \<leftarrow> rd16 msg 12;
                    if token = SLEEP_REQUEST
                    then map_option (Pair Handled) (power_save h v PS_DISABLE PS_EN_REQ_CNFM_PATH s)
                    else if token = WAKEUP_REQUEST
                    then map_option (Pair Handled) (power_save h v PS_DISABLE PS_DIS_REQ_CNFM_PATH s)
                    else Some (Returned ONEBOX_STATUS_FAILURE, s) })"

definition scan_confirm :: "wlan_mgmt \<Rightarrow> wlan_mgmt" where
  "scan_confirm s =
     (if scan_flag (w_ps (g_wlan s)) then fold (\<lambda>_. net_log Scanreq_signal) (vaps_of_mode M_STA s) s else s)"

definition on_confirm :: "core_host \<Rightarrow> u16 \<Rightarrow> bytes \<Rightarrow> nat \<Rightarrow> wlan_mgmt \<Rightarrow> (recv_end \<times> wlan_mgmt) option" where
  "on_confirm h sub msg len s =
     (let done = map_option (Pair Handled) in
      if sub = STATS_REQUEST_FRAME then done (stats_values msg s)
      else if sub \<in> {BB_PROG_VALUES_REQUEST, RF_PROG_VALUES_REQUEST, LMAC_REG_OPS} then done (copy_values msg len s)
      else if sub = BB_BUF_PROG_VALUES_REQ
      then done (if len = 0 \<and> bb_rf_value s = 7 then Some (net_log Set_bb_rf_event s) else copy_values msg len s)
      else if sub = CW_MODE_REQ \<or> sub = EEPROM_WRITE then Some (Handled, net_log Set_bb_rf_event s)
      else if sub = RF_LOOPBACK_REQ then done (loopback_values 4096 msg len s)
      else if sub = RF_LPBK_M3 then done (loopback_values 512 msg len s)
      else if sub = BG_SCAN_PROBE_REQ then Some (Handled, bgscan_complete (vap_ids s) s)
      else if sub = WAKEUP_SLEEP_REQUEST then sleep_confirm h msg s
      else if sub = SCAN_REQUEST then Some (Handled, scan_confirm s)
      else if sub = EEPROM_READ_TYPE then done (eeprom_values msg len s)
      else Some (Handled, s))"

section \<open>The fate of transmitted frames\<close>

text \<open>The association id of the message indexes the station table of thirty entries.\<close>

primrec keepalive_confirm :: "bool \<Rightarrow> nat \<Rightarrow> nat list \<Rightarrow> wlan_mgmt \<Rightarrow> wlan_mgmt option" where
  "keepalive_confirm ok associd [] s = Some s"
| "keepalive_confirm ok associd (v # vs) s =
     (if iv_opmode (g_vap s v) \<noteq> M_HOSTAP then keepalive_confirm ok associd vs s
      else if MAX_STATIONS_SUPPORTED \<le> associd then None
      else if \<not> ok then Some s
      else do { ni \<leftarrow> snd (sta s associd);
                keepalive_confirm ok associd vs
                  (s\<lparr>m_node := (m_node s)(ni := (m_node s ni)\<lparr>ni_inact := ni_inact_reload (m_node s ni)\<rparr>)\<rparr>) })"

definition eapol4_confirmed :: "core_host \<Rightarrow> wlan_mgmt \<Rightarrow> wlan_mgmt option" where
  "eapol4_confirmed h s =
     (case sta_vap (w_ps (g_wlan s)) of
        None \<Rightarrow> Some s
      | Some v \<Rightarrow> connection_step h v
          (let s1 = upd_ps (upd_vap v (\<lambda>x. x\<lparr>conn_in_prog := False\<rparr>)) s
           in s1\<lparr>sta_mode := (sta_mode s1)\<lparr>eapol4_cnfrm := True\<rparr>\<rparr>))"

definition eapol4_failed :: "wlan_mgmt \<Rightarrow> wlan_mgmt" where
  "eapol4_failed s =
     fold (\<lambda>v. case iv_bss (m_vap s v) of None \<Rightarrow> (\<lambda>x. x) | Some ni \<Rightarrow> net_log (Sta_leave ni)) (vaps_of_mode M_STA s) s"

definition on_tx_status :: "core_host \<Rightarrow> u16 \<Rightarrow> bytes \<Rightarrow> wlan_mgmt \<Rightarrow> wlan_mgmt option" where
  "on_tx_status h sub msg s =
     (if sub = NULLDATA_CONFIRM
      then do { st \<leftarrow> rd8 msg 12; associd \<leftarrow> rd8 msg 13; keepalive_confirm (st \<noteq> 0) (unat associd) (vap_ids s) s }
      else if sub = EAPOL4_CONFIRM
      then do { st \<leftarrow> rd8 msg 12; if st \<noteq> 0 then eapol4_confirmed h s else Some (eapol4_failed s) }
      else if sub = PROBEREQ_CONFIRM
      then do { _ \<leftarrow> rd8 msg 12; Some (fold (\<lambda>v. net_log (Probereq_confirm v)) (vaps_of_mode M_STA s) s) }
      else Some s)"

text \<open>
  The end of a service period. Station 30 passes the check and is outside the table; the
  message about a node that is not of an access point reads a NULL interface.
\<close>

definition on_tsf_sync :: "bytes \<Rightarrow> wlan_mgmt \<Rightarrow> (recv_end \<times> wlan_mgmt) option" where
  "on_tsf_sync msg s =
     do { sta_id \<leftarrow> rd8 msg 13;
          if MAX_STATIONS_SUPPORTED < unat sta_id then Some (Returned (-1), s)
          else if unat sta_id = MAX_STATIONS_SUPPORTED then None
          else case snd (sta s (unat sta_id)) of
                 None \<Rightarrow> Some (Returned ONEBOX_STATUS_FAILURE, s)
               | Some ni \<Rightarrow>
                   do { v \<leftarrow> ni_vap (g_wlan s) ni;
                        if iv_opmode (g_vap s v) \<noteq> M_HOSTAP then None
                        else do { tsf \<leftarrow> rd32 msg 16;
                                  Some (Handled, s\<lparr>m_node := (m_node s)(ni := (m_node s ni)\<lparr>eosp_tsf := tsf, eosp_triggered := 0\<rparr>)\<rparr>) } } }"

section \<open>Frames for net80211\<close>

definition gettid :: "bytes \<Rightarrow> nat option" where
  "gettid d =
     do { fc \<leftarrow> rd8 d 0;
          if fc AND 0x8c = 0x88
          then do { fc1 \<leftarrow> rd8 d 1; q \<leftarrow> rd8 d (if fc1 AND 3 = 3 then 30 else 24); Some (unat (q AND 0xf)) }
          else Some 16 }"

definition ampdu_frame :: "wlan_mgmt \<Rightarrow> nat \<Rightarrow> bytes \<Rightarrow> bool option" where
  "ampdu_frame s ni d =
     (if ni_flags (g_node s ni) AND NODE_HT = 0 then Some False
      else do { t \<leftarrow> gettid d; Some (t < 16 \<and> rxa_running (m_node s ni) t) })"

text \<open>\<^verbatim>\<open>wlan_core_pkt_recv\<close>; without memory for its control block the packet is freed.\<close>

definition wlan_core_pkt_recv :: "net_host \<Rightarrow> netbuf \<Rightarrow> u8 \<Rightarrow> u8 \<Rightarrow> wlan_mgmt \<Rightarrow> wlan_mgmt option" where
  "wlan_core_pkt_recv nh nb rssi chno s =
     do { node \<leftarrow> find_rxnode s (nb_data nb);
          if \<not> nh_kmalloc nh (net_trace s) then Some (free_rx nb s)
          else case node of
                 None \<Rightarrow> Some (net_log (Input_all (nb_data nb) rssi chno) s)
               | Some ni \<Rightarrow>
                   do { _ \<leftarrow> ni_vap (g_wlan s) ni; ampdu \<leftarrow> ampdu_frame s ni (nb_data nb);
                        Some (net_log (Mgmt_input ni (nb_data nb) rssi ampdu)
                          (s\<lparr>m_node := (m_node s)(ni := (m_node s ni)\<lparr>ni_chno := chno, ni_avgrssi := scast rssi\<rparr>)\<rparr>)) } }"

definition dot11_mgmt :: "net_host \<Rightarrow> netbuf \<Rightarrow> int \<Rightarrow> u8 \<Rightarrow> u8 \<Rightarrow> u8 \<Rightarrow> wlan_mgmt \<Rightarrow> (status \<times> wlan_mgmt) option" where
  "dot11_mgmt nh nb msg_len pad rssi chno s =
     (if msg_len - uint pad \<le> 0 then Some (ONEBOX_STATUS_FAILURE, s)
      else if w_driver_mode (g_wlan s) = SNIFFER_MODE
      then case vap_ids s of
             [] \<Rightarrow> Some (ONEBOX_STATUS_FAILURE, s)
           | v # _ \<Rightarrow>
               do { nb' \<leftarrow> netbuf_pull FRAME_DESC_SZ nb;
                    s1 \<leftarrow> wlan_core_pkt_recv nh nb' rssi chno (upd_mvap v (\<lambda>x. x\<lparr>extended_desc_size := pad\<rparr>) s);
                    Some (0, s1) }
      else do { nb' \<leftarrow> netbuf_pull (FRAME_DESC_SZ + unat pad) nb; _ \<leftarrow> rd8 (nb_data nb') 0;
                s1 \<leftarrow> wlan_core_pkt_recv nh nb' rssi chno s; Some (0, s1) })"

text \<open>
  A station of an access point changes its power state: it must be in the station table under
  its own number, on an interface that is installed, and a node of net80211 on that interface.
\<close>

definition known_station :: "bytes \<Rightarrow> wlan_mgmt \<Rightarrow> bool option" where
  "known_station a s =
     do { known \<leftarrow> first_index (has_address a s) 0 (unat (max_stations_supported (g_wlan s)));
          case known of
            None \<Rightarrow> Some False
          | Some i \<Rightarrow> do { ni \<leftarrow> snd (sta s i); Some (i = unat (node_sta_id (g_node s ni))) } }"

definition ps_node :: "bytes \<Rightarrow> nat \<Rightarrow> wlan_mgmt \<Rightarrow> nat option" where
  "ps_node a vid s =
     (if \<not> fst (hal_vap (g_wlan s) vid) then None
      else do { v \<leftarrow> vap_with_id vid s; ni \<leftarrow> find_node s a; if ni_vap (g_wlan s) ni = Some v then Some ni else None })"

definition ps_notify :: "bytes \<Rightarrow> wlan_mgmt \<Rightarrow> (bool \<times> wlan_mgmt) option" where
  "ps_notify msg s =
     do { a \<leftarrow> mem_slice msg 6 6; sta_flags \<leftarrow> rd16 msg 12; known \<leftarrow> known_station a s;
          if \<not> known then Some (False, s)
          else let s1 = net_log Ic_lock s in
               Some (case ps_node a (unat (drop_bit 2 (sta_flags AND 0xc))) s1 of
                       None \<Rightarrow> (False, net_log Ic_unlock s1)
                     | Some ni \<Rightarrow>
                         (True, net_log Ic_unlock
                            (if sta_flags AND 2 \<noteq> 0 then net_log (Node_pwrsave ni True) s1
                             else if sta_flags AND 1 \<noteq> 0 then net_log (Node_pwrsave ni False) s1 else s1))) }"

text \<open>A beacon is due on an interface; the table of the interfaces has four entries.\<close>

definition beacon_due :: "nat \<Rightarrow> wlan_mgmt \<Rightarrow> bool" where
  "beacon_due v s \<longleftrightarrow>
     iv_state (g_vap s v) = S_RUN \<and> \<not> block_ap_queues (w_ps (g_wlan s)) \<or> iv_state (g_vap s v) = S_CSA"

definition note_beacon :: "nat \<Rightarrow> wlan_mgmt \<Rightarrow> wlan_mgmt" where
  "note_beacon vid s =
     upd_wlan (\<lambda>w. log_common (Set_event Wlan_scheduler_event) (w\<lparr>beacon_event := True\<rparr>))
       (s\<lparr>beacon_event_vap_id := word_of_nat vid, beacon_interrupt := beacon_interrupt s + 1\<rparr>)"

definition beacon_event_ind :: "nat \<Rightarrow> wlan_mgmt \<Rightarrow> (bool \<times> wlan_mgmt) option" where
  "beacon_event_ind vid s =
     (let s1 = net_log Ic_lock s in
      if ONEBOX_VAPS_DEFAULT \<le> vid then None
      else if \<not> fst (hal_vap (g_wlan s1) vid) then Some (False, net_log Ic_unlock s1)
      else Some (True, net_log Ic_unlock
             (fold (\<lambda>v x. if unat (vap_id (g_txvap x v)) = vid \<and> beacon_due v x then note_beacon vid x else x) (vap_ids s1) s1)))"

text \<open>\<^verbatim>\<open>core_michael_failure\<close>.\<close>

definition core_michael_failure :: "bytes \<Rightarrow> wlan_mgmt \<Rightarrow> wlan_mgmt option" where
  "core_michael_failure msg s =
     do { a \<leftarrow> mem_slice msg 6 6; st \<leftarrow> rd8 msg 12;
          Some (case find_node s a of
                  None \<Rightarrow> s
                | Some ni \<Rightarrow>
                    (if st AND 1 \<noteq> 0 \<or> st AND 2 \<noteq> 0 then s
                     else if st AND 4 \<noteq> 0 \<or> st AND 8 \<noteq> 0 then net_log (Rxmic_failure (ni_vap (g_wlan s) ni) a) s else s)) }"

definition onebox_mgmt_pkt_to_core :: "net_host \<Rightarrow> netbuf \<Rightarrow> nat \<Rightarrow> u16 \<Rightarrow> wlan_mgmt \<Rightarrow> (status \<times> wlan_mgmt) option" where
  "onebox_mgmt_pkt_to_core nh nb msg_len ty s =
     (let msg = nb_data nb; free_if = (\<lambda>(ok, s1). if ok then (0, free_rx nb s1) else (ONEBOX_STATUS_FAILURE, s1)) in
      do { pad \<leftarrow> rd8 msg 4; rssi \<leftarrow> rd16 msg 16; chno \<leftarrow> rd8 msg 15;
           if ty = RX_DOT11_MGMT then dot11_mgmt nh nb (int msg_len) pad (ucast rssi) chno s
           else if ty = PS_NOTIFY_IND then map_option free_if (ps_notify msg s)
           else if ty = BEACON_EVENT_IND then map_option free_if (beacon_event_ind (unat chno) s)
           else if ty = DECRYPT_ERROR_IND then map_option (\<lambda>s1. (0, free_rx nb s1)) (core_michael_failure msg s)
           else Some (0, free_rx nb s) })"

section \<open>The management packet\<close>

definition on_init_done :: "net_host \<Rightarrow> netbuf \<Rightarrow> u16 \<Rightarrow> u16 \<Rightarrow> nat \<Rightarrow> wlan_mgmt \<Rightarrow> (recv_end \<times> wlan_mgmt) option" where
  "on_init_done nh nb ty sub len s =
     (let msg = nb_data nb in
      if ty = TA_CONFIRM_TYPE then on_confirm (nh_core nh) sub msg len s
      else if ty = TX_STATUS_IND then map_option (Pair Handled) (on_tx_status (nh_core nh) sub msg s)
      else if ty = DEBUG_IND then Some (Handled, s)
      else if ty = RADAR_DETECTED then Some (Handled, net_log (Radar_detect (take len msg)) s)
      else if ty = HW_BMISS_EVENT then Some (Handled, net_log Beacon_miss s)
      else if ty = TSF_SYNC_CONFIRM then on_tsf_sync msg s
      else if ty = RATE_GC_TABLE_UPDATE then Some (Handled, s)
      else if ty = ANTENNA_SELECT then do { a \<leftarrow> rd8 msg 12; Some (Handled, s\<lparr>antenna_in_use := a\<rparr>) }
      else do { (status, s1) \<leftarrow> onebox_mgmt_pkt_to_core nh nb len ty s;
                Some (if status = 0 then Returned 0 else Handled, s1) })"

definition mgmt_state_step :: "net_host \<Rightarrow> netbuf \<Rightarrow> u16 \<Rightarrow> u16 \<Rightarrow> nat \<Rightarrow> wlan_mgmt \<Rightarrow> (recv_end \<times> wlan_mgmt) option" where
  "mgmt_state_step nh nb ty sub len s =
     (case w_fsm_state (g_wlan s) of
        FSM_LOAD_BOOTUP_PARAMS \<Rightarrow> on_load_bootup (ch_host (nh_core nh)) ty sub s
      | FSM_RESET_MAC_CFM \<Rightarrow> on_reset_mac (ch_host (nh_core nh)) ty sub s
      | FSM_BB_RF_START \<Rightarrow> Some (Handled, on_bb_rf_start ty sub s)
      | FSM_AMPDU_IND_SENT \<Rightarrow> Some (on_ampdu_sent nh ty sub s)
      | FSM_SCAN_CFM \<Rightarrow>
          Some (Handled, if ty = TA_CONFIRM_TYPE \<and> sub = SCAN_REQUEST then net_log Set_bb_rf_event s else s)
      | FSM_MAC_INIT_DONE \<Rightarrow> on_init_done nh nb ty sub len s
      | _ \<Rightarrow> Some (Handled, s))"

definition onebox_mgmt_pkt_recv :: "net_host \<Rightarrow> netbuf \<Rightarrow> wlan_mgmt \<Rightarrow> (status \<times> wlan_mgmt) option" where
  "onebox_mgmt_pkt_recv nh nb s =
     do { w0 \<leftarrow> rd16 (nb_data nb) 0; ty \<leftarrow> rd8 (nb_data nb) 2; sub \<leftarrow> rd8 (nb_data nb) 15;
          (end, s1) \<leftarrow> mgmt_state_step nh nb (ucast ty) (ucast sub) (unat (w0 AND 0xfff))
                         (s\<lparr>total_mgmt_rx := total_mgmt_rx s + 1\<rparr>);
          Some (case end of Handled \<Rightarrow> (ONEBOX_STATUS_SUCCESS, free_rx nb s1) | Returned r \<Rightarrow> (r, s1)) }"

section \<open>Data packets\<close>

definition rx_traffic :: "core_host \<Rightarrow> nat \<Rightarrow> bytes \<Rightarrow> wlan_mgmt \<Rightarrow> wlan_mgmt option" where
  "rx_traffic h v d s =
     (let x = g_vap s v in
      if iv_opmode x = M_STA \<and> traffic_ps_en x \<and> ps_en (ps_params x) \<noteq> 0
      then do { b \<leftarrow> rd8 d 0;
                if b AND 1 \<noteq> 0 then Some s
                else do { w \<leftarrow> call_ps (ch_host h) (check_traffic_pwr_save (ch_ps h) v False (word_of_nat (length d))) (g_wlan s);
                          Some (with_wlan w s) } }
      else Some s)"

definition data_node :: "wlan_mgmt \<Rightarrow> nat \<Rightarrow> bytes \<Rightarrow> nat option option" where
  "data_node s v d =
     (if iv_opmode (g_vap s v) = M_HOSTAP then do { a \<leftarrow> mem_slice d 6 6; Some (find_node s a) }
      else do { bss \<leftarrow> iv_bss (m_vap s v); Some (find_node s (ni_macaddr (g_node s bss))) })"

definition note_rates :: "bytes \<Rightarrow> nat \<Rightarrow> wlan_mgmt \<Rightarrow> wlan_mgmt option" where
  "note_rates msg ni s =
     do { rssi \<leftarrow> rd16 msg 16; txrate \<leftarrow> rd16 msg 34; rxrate \<leftarrow> rd16 msg 18;
          Some (s\<lparr>m_node := (m_node s)(ni := (m_node s ni)\<lparr>ni_avgrssi := ucast rssi, ni_txrate := txrate, ni_rxrate := rxrate\<rparr>)\<rparr>) }"

text \<open>A packet without a traffic class goes straight to the stack, the others through the reordering.\<close>

definition deliver_data :: "bytes \<Rightarrow> nat \<Rightarrow> nat \<Rightarrow> bytes \<Rightarrow> wlan_mgmt \<Rightarrow> wlan_mgmt option" where
  "deliver_data msg v ni d s =
     do { flags \<leftarrow> rd8 msg 7; b14 \<leftarrow> rd8 msg 14; w5 \<leftarrow> rd16 msg 5;
          let tid = b14 AND 0xf;
          Some (if flags AND 1 = 0 \<or> 8 < tid then net_log (Deliver_data v (iv_bss (m_vap s v)) d True) s
                else net_log (Input_data ni d tid (drop_bit 4 w5 AND 0xfff)
                       (ni_flags (g_node s ni) AND NODE_HT \<noteq> 0 \<and> rxa_running (m_node s ni) (unat tid))) s) }"

definition reorder_data :: "core_host \<Rightarrow> bytes \<Rightarrow> nat \<Rightarrow> bytes \<Rightarrow> wlan_mgmt \<Rightarrow> wlan_mgmt option" where
  "reorder_data h msg v d s =
     do { node \<leftarrow> data_node s v d;
          case node of
            None \<Rightarrow> Some (net_log (Deliver_data v (iv_bss (m_vap s v)) d False) s)
          | Some ni \<Rightarrow>
              do { s1 \<leftarrow> note_rates msg ni s; _ \<leftarrow> eapol_at 12 d;
                   s2 \<leftarrow> rx_traffic h v d s1; deliver_data msg v ni d s2 } }"

definition reorder_locked :: "net_host \<Rightarrow> netbuf \<Rightarrow> wlan_mgmt \<Rightarrow> wlan_mgmt option" where
  "reorder_locked nh nb s =
     do { pad \<leftarrow> rd8 (nb_data nb) 4; b14 \<leftarrow> rd8 (nb_data nb) 14;
          case vap_with_id (unat (drop_bit 4 (b14 AND 0xf0))) s of
            None \<Rightarrow> Some (free_rx nb s)
          | Some v \<Rightarrow>
              do { nb' \<leftarrow> netbuf_pull (FRAME_DESC_SZ + unat pad) nb;
                   if \<not> nh_kmalloc nh (net_trace s) then Some (free_rx nb' s)
                   else reorder_data (nh_core nh) (nb_data nb) v (nb_data nb') s } }"

definition onebox_reorder_pkt :: "net_host \<Rightarrow> netbuf \<Rightarrow> wlan_mgmt \<Rightarrow> wlan_mgmt option" where
  "onebox_reorder_pkt nh nb s =
     map_option (log_wlan (Release Ic_lock_vap))
       (reorder_locked nh nb ((log_wlan (Acquire Ic_lock_vap) s)\<lparr>total_data_rx := total_data_rx s + 1\<rparr>))"

definition wlan_read_pkt :: "net_host \<Rightarrow> netbuf \<Rightarrow> wlan_mgmt \<Rightarrow> wlan_mgmt option" where
  "wlan_read_pkt nh nb s =
     do { w0 \<leftarrow> rd16 (nb_data nb) 0; _ \<leftarrow> rd8 (nb_data nb) 4;
          let queueno = drop_bit 12 (w0 AND 0x7000);
          let s1 = s\<lparr>rx_packets := rx_packets s + 1\<rparr>;
          if queueno = ONEBOX_WIFI_DATA_Q then onebox_reorder_pkt nh nb s1
          else if queueno = ONEBOX_WIFI_MGMT_Q
          then do { (status, s2) \<leftarrow> onebox_mgmt_pkt_recv nh nb s1; Some (if status \<noteq> 0 then free_rx nb s2 else s2) }
          else Some (free_rx nb s1) }"

end
