(* ===== verification/Mgmt_Command.thy ===== *)
theory Mgmt_Command
  imports Mgmt_Recv Core_Sleep
begin

text \<open>
  The contract of a command to the firmware: one frame at the end of the management queue that
  the firmware reads back as it was built, or, without memory, nothing. It is stated once as a
  locale and discharged for the senders of \<^verbatim>\<open>onebox_devdep_mgmt.c\<close>.
\<close>

section \<open>Accessors\<close>

lemma with_wlan_sel [simp]:
  "g_wlan (with_wlan w s) = w" "net_trace (with_wlan w s) = net_trace s" "sta (with_wlan w s) = sta s"
  "sta_mode (with_wlan w s) = sta_mode s" "m_node (with_wlan w s) = m_node s" "m_vap (with_wlan w s) = m_vap s"
  "x_node (g_xmit (with_wlan w s)) = x_node (g_xmit s)" "x_vap (g_xmit (with_wlan w s)) = x_vap (g_xmit s)"
  by (simp_all add: with_wlan_def)

lemma with_wlan_id [simp]: "with_wlan (g_wlan s) s = s"
  by (simp add: with_wlan_def)

lemma with_wlan_twice [simp]: "with_wlan w (with_wlan w' s) = with_wlan w s"
  by (simp add: with_wlan_def)

lemma net_log_sel [simp]:
  "g_xmit (net_log e s) = g_xmit s" "net_trace (net_log e s) = e # net_trace s" "sta (net_log e s) = sta s"
  "sta_mode (net_log e s) = sta_mode s" "m_node (net_log e s) = m_node s" "m_vap (net_log e s) = m_vap s"
  "radio_timing (net_log e s) = radio_timing s"
  by (simp_all add: net_log_def)

lemma upd_wlan_sel [simp]:
  "g_wlan (upd_wlan f s) = f (g_wlan s)" "net_trace (upd_wlan f s) = net_trace s" "sta (upd_wlan f s) = sta s"
  "sta_mode (upd_wlan f s) = sta_mode s" "m_node (upd_wlan f s) = m_node s" "m_vap (upd_wlan f s) = m_vap s"
  "x_node (g_xmit (upd_wlan f s)) = x_node (g_xmit s)" "x_vap (g_xmit (upd_wlan f s)) = x_vap (g_xmit s)"
  by (simp_all add: upd_wlan_def)

lemma upd_ps_sel [simp]:
  "g_wlan (upd_ps f s) = (g_wlan s)\<lparr>w_ps := f (w_ps (g_wlan s))\<rparr>" "net_trace (upd_ps f s) = net_trace s"
  "sta (upd_ps f s) = sta s" "sta_mode (upd_ps f s) = sta_mode s" "m_node (upd_ps f s) = m_node s"
  "m_vap (upd_ps f s) = m_vap s"
  "x_node (g_xmit (upd_ps f s)) = x_node (g_xmit s)" "x_vap (g_xmit (upd_ps f s)) = x_vap (g_xmit s)"
  by (simp_all add: upd_ps_def)

lemma upd_node_sel [simp]:
  "g_wlan (upd_node ni f s) = g_wlan s" "net_trace (upd_node ni f s) = net_trace s" "sta (upd_node ni f s) = sta s"
  "sta_mode (upd_node ni f s) = sta_mode s" "m_node (upd_node ni f s) = m_node s" "m_vap (upd_node ni f s) = m_vap s"
  "x_vap (g_xmit (upd_node ni f s)) = x_vap (g_xmit s)"
  by (simp_all add: upd_node_def)

lemma upd_mvap_sel [simp]:
  "g_xmit (upd_mvap v f s) = g_xmit s" "net_trace (upd_mvap v f s) = net_trace s" "sta (upd_mvap v f s) = sta s"
  "sta_mode (upd_mvap v f s) = sta_mode s" "m_node (upd_mvap v f s) = m_node s"
  by (simp_all add: upd_mvap_def)

section \<open>The frame as the firmware reads it\<close>

text \<open>The queue number, the seven further words of the descriptor and the body with its padding.\<close>

definition read_command :: "bytes \<Rightarrow> (u16 list \<times> bytes) option" where
  "read_command d =
     do { w0 \<leftarrow> rd16 d 0;
          if drop_bit 12 (w0 AND 0x7000) \<noteq> ONEBOX_WIFI_MGMT_Q then None
          else do { w1 \<leftarrow> rd16 d 2; w2 \<leftarrow> rd16 d 4; w3 \<leftarrow> rd16 d 6; w4 \<leftarrow> rd16 d 8; w5 \<leftarrow> rd16 d 10; w6 \<leftarrow> rd16 d 12;
                    w7 \<leftarrow> rd16 d 14; body \<leftarrow> mem_slice d FRAME_DESC_SZ (unat (w0 AND 0xfff));
                    Some ([w1, w2, w3, w4, w5, w6, w7], body) } }"

lemma desc_words:
  assumes "length desc = 8"
  obtains w0 w1 w2 w3 w4 w5 w6 w7 where "desc = [w0, w1, w2, w3, w4, w5, w6, w7]"
proof -
  have "length desc = Suc (Suc (Suc (Suc (Suc (Suc (Suc (Suc 0)))))))" using assms by simp
  then show ?thesis using that by (auto simp: length_Suc_conv)
qed

lemma rd16_le16: "rd16 (le16 w @ r) 0 = Some w"
  by (simp add: le16_def rd16_def rd8_def rejoin_u16)

lemma rd16_skip: "rd16 (le16 w @ r) (Suc (Suc i)) = rd16 r i"
  by (simp add: le16_def rd16_def rd8_def)

lemma mgmt_frame_words:
  assumes "length desc = 8" "k < 8"
  shows "rd16 (mgmt_frame desc body) (2 * k) = Some (desc ! k)"
proof -
  obtain w0 w1 w2 w3 w4 w5 w6 w7 where "desc = [w0, w1, w2, w3, w4, w5, w6, w7]"
    using desc_words [OF assms(1)] by blast
  with assms(2) show ?thesis
    by (auto simp: mgmt_frame_def less_Suc_eq numeral_eq_Suc rd16_le16 rd16_skip)
qed

lemma length_mgmt_frame: "length desc = 8 \<Longrightarrow> length (mgmt_frame desc body) = 16 + length body"
  by (erule desc_words) (simp add: mgmt_frame_def le16_def)

lemma mgmt_word0_fields:
  fixes e :: u8
  assumes "n + 63 < 4096" "unat e < 64"
  shows "unat (queued_word0 (mgmt_word0 n) e AND 0xfff) = n + unat e"
    and "drop_bit 12 (queued_word0 (mgmt_word0 n) e AND 0x7000) = (4 :: u16)"
proof -
  have n: "unat (word_of_nat n :: u16) = n" using assms(1) by (simp add: unat_of_nat)
  have m: "take_bit 12 (word_of_nat n :: u16) = word_of_nat n"
    using assms(1) by (simp add: word_unat_eq_iff unsigned_take_bit_eq n take_bit_nat_eq_self)
  have low: "mgmt_word0 n AND 0xfff = word_of_nat n"
  proof -
    have "mgmt_word0 n AND 0xfff = take_bit 12 (mgmt_word0 n)" by (simp add: take_bit_eq_mask mask_eq_exp_minus_1)
    also have "\<dots> = take_bit 12 (word_of_nat n)"
      unfolding mgmt_word0_def by (rule bit_word_eqI) (auto simp: bit_simps)
    finally show ?thesis using m by simp
  qed
  let ?x = "word_of_nat n + ucast e :: u16"
  have x: "unat ?x = n + unat e" using assms n by (simp add: unat_word_ariths unat_ucast_widen)
  have t: "take_bit 12 ?x = ?x" using assms by (simp add: word_unat_eq_iff unsigned_take_bit_eq x take_bit_nat_eq_self)
  have "queued_word0 (mgmt_word0 n) e AND 0xfff = take_bit 12 (queued_word0 (mgmt_word0 n) e)"
    by (simp add: take_bit_eq_mask mask_eq_exp_minus_1)
  also have "\<dots> = take_bit 12 ?x"
    unfolding queued_word0_def low by (rule bit_word_eqI) (auto simp: bit_simps)
  finally show "unat (queued_word0 (mgmt_word0 n) e AND 0xfff) = n + unat e" using x t by simp
  have h: "\<not> bit ?x i" if "12 \<le> i" for i using t that by (metis bit_take_bit_iff not_le)
  have "drop_bit 12 (queued_word0 (mgmt_word0 n) e AND 0x7000) = take_bit 3 (drop_bit 12 (queued_word0 (mgmt_word0 n) e))"
    by (simp add: drop_bit_and take_bit_eq_mask mask_eq_exp_minus_1)
  also have "\<dots> = take_bit 3 (drop_bit 12 ?x OR (4 OR 8))"
    unfolding queued_word0_def low by (simp add: drop_bit_or or.assoc)
  also have "drop_bit 12 ?x = 0" using h by (intro bit_word_eqI) (simp add: bit_simps)
  finally show "drop_bit 12 (queued_word0 (mgmt_word0 n) e AND 0x7000) = (4 :: u16)" by simp
qed


lemma frame_word: "rd16 (mgmt_frame desc body) 0 = Some (desc ! 0)" if "length desc = 8"
  using mgmt_frame_words [OF that, of 0] by simp

lemma read_queued:
  fixes e :: u8
  assumes "length desc = 8" "desc ! 0 = mgmt_word0 (length body)" "length body + 63 < 4096" "unat e < 64"
  shows "\<exists>pad. length pad = unat e \<and>
     read_command (internal_mgmt_bytes (mgmt_frame desc body) (desc ! 0) e g) = Some (tl desc, body @ pad)"
proof -
  let ?d = "internal_mgmt_bytes (mgmt_frame desc body) (desc ! 0) e g"
  let ?w0 = "queued_word0 (mgmt_word0 (length body)) e"
  have len: "length (mgmt_frame desc body) = 16 + length body" using length_mgmt_frame [OF assms(1)] .
  note f = mgmt_word0_fields [OF assms(3,4)]
  have w0: "rd16 ?d 0 = Some ?w0"
    using internal_mgmt_bytes_word0 [of "mgmt_frame desc body" "desc ! 0" e g] len assms(2) by simp
  have w: "rd16 ?d (2 * k) = Some (desc ! k)" if "0 < k" "k < 8" for k
    using that len mgmt_frame_words [OF assms(1) that(2)] by (simp add: internal_mgmt_bytes_rd16)
  have b: "drop 16 (take (16 + length body) ?d) = body"
  proof (rule nth_equalityI)
    fix i assume i: "i < length (drop 16 (take (16 + length body) ?d))"
    then have "?d ! (16 + i) = mgmt_frame desc body ! (16 + i)" using len by (simp add: internal_mgmt_bytes_nth)
    also have "\<dots> = body ! i" using assms(1) by (elim desc_words) (simp add: mgmt_frame_def le16_def nth_append)
    finally show "drop 16 (take (16 + length body) ?d) ! i = body ! i" using i len by simp
  qed (simp add: len)
  have "take (length body + unat e) (drop 16 ?d) = drop 16 ?d" using len by simp
  also have "\<dots> = drop 16 (take (16 + length body) ?d @ drop (16 + length body) ?d)" by simp
  also have "\<dots> = body @ drop (16 + length body) ?d" using b len by (simp only: drop_append) simp
  finally have s: "mem_slice ?d 16 (length body + unat e) = Some (body @ drop (16 + length body) ?d)"
    using len by (simp add: mem_slice_def)
  obtain v0 v1 v2 v3 v4 v5 v6 v7 where desc: "desc = [v0, v1, v2, v3, v4, v5, v6, v7]"
    using desc_words [OF assms(1)] by blast
  have "read_command ?d = Some (tl desc, body @ drop (16 + length body) ?d)"
    using w0 f s w [of 1] w [of 2] w [of 3] w [of 4] w [of 5] w [of 6] w [of 7] desc
    by (simp add: read_command_def)
  then show ?thesis using len by (intro exI [of _ "drop (16 + length body) ?d"]) simp
qed

section \<open>Sending\<close>

definition queue_command :: "bytes \<Rightarrow> wlan_mgmt \<Rightarrow> wlan_mgmt" where
  "queue_command d =
     upd_wlan (\<lambda>w. schedule_wlan (upd_queue MGMT_SOFT_Q (host_tx_queue w MGMT_SOFT_Q @ [internal_mgmt_pkt d]) w))"

lemma misalign_bound: "unat (x AND 0x3f :: u8) < 64"
proof -
  have "x AND 0x3f = take_bit 6 x" by (simp add: take_bit_eq_mask mask_eq_exp_minus_1)
  then have "unat (x AND 0x3f) = take_bit 6 (unat x)" by (simp only: unsigned_take_bit_eq)
  then show ?thesis using take_bit_nat_less_exp [of 6 "unat x"] by simp
qed

lemma send_mgmt_cases:
  assumes "length desc = 8"
  obtains (no_memory) "send_mgmt h desc body s = Some (ONEBOX_STATUS_FAILURE, s)"
      "\<not> h_alloc_skb h (trace (w_common (g_wlan s)))"
  | (queued) e g where "unat (e :: u8) < 64" "h_alloc_skb h (trace (w_common (g_wlan s)))"
      "send_mgmt h desc body s = Some (ONEBOX_STATUS_SUCCESS,
         queue_command (internal_mgmt_bytes (mgmt_frame desc body) (desc ! 0) e g) s)"
proof -
  have len: "2 \<le> length (mgmt_frame desc body)" using length_mgmt_frame [OF assms, of body] by simp
  show ?thesis
  proof (cases rule: send_internal_mgmt_cases [OF len, of h "g_wlan s"])
    case 1
    then show ?thesis by (intro no_memory) (simp_all add: send_mgmt_def)
  next
    case (2 word0)
    then show ?thesis using frame_word [OF assms, of body] misalign_bound
      by (intro queued) (simp_all add: send_mgmt_def queue_command_def upd_wlan_def)
  qed
qed

lemma send_mgmt_answers: "length desc = 8 \<Longrightarrow> send_mgmt h desc body s \<noteq> None"
  by (erule send_mgmt_cases [of desc h body s]) auto

section \<open>What the receive path must not touch\<close>

text \<open>The packets handed to net80211 so far.\<close>

fun handed_by :: "net_event \<Rightarrow> bytes list" where
  "handed_by (Mgmt_input ni d r a) = [d]"
| "handed_by (Input_all d r c) = [d]"
| "handed_by (Deliver_data v b d k) = [d]"
| "handed_by (Input_data ni d t n a) = [d]"
| "handed_by _ = []"

definition handed :: "wlan_mgmt \<Rightarrow> bytes multiset" where
  "handed s = mset (concat (map handed_by (net_trace s)))"

abbreviation g_trace :: "wlan_mgmt \<Rightarrow> history" where
  "g_trace s \<equiv> trace (w_common (g_wlan s))"

text \<open>The station table: the slots, the bit map of the used ones, and the number and address of each node.\<close>

definition table_view ::
  "wlan_mgmt \<Rightarrow> (nat \<Rightarrow> bytes \<times> nat option) \<times> (nat \<Rightarrow> u32) \<times> u32 \<times> (nat \<Rightarrow> u8 \<times> bytes)" where
  "table_view s = (sta s, sta_connected_bitmap (g_wlan s), max_stations_supported (g_wlan s),
                   \<lambda>ni. (node_sta_id (g_node s ni), ni_macaddr (g_node s ni)))"

text \<open>
  No packet is freed or handed on; the state of the initialisation and the station table stay.
\<close>

definition mgmt_quiet :: "wlan_mgmt \<Rightarrow> wlan_mgmt \<Rightarrow> bool" where
  "mgmt_quiet s s' \<longleftrightarrow>
     freed (g_trace s') = freed (g_trace s) \<and> handed s' = handed s \<and>
     w_fsm_state (g_wlan s') = w_fsm_state (g_wlan s) \<and> w_driver_mode (g_wlan s') = w_driver_mode (g_wlan s) \<and>
     table_view s' = table_view s"

lemma mgmt_quiet_refl [simp]: "mgmt_quiet s s"
  by (simp add: mgmt_quiet_def)

lemma mgmt_quiet_trans: "mgmt_quiet s t \<Longrightarrow> mgmt_quiet t u \<Longrightarrow> mgmt_quiet s u"
  by (simp add: mgmt_quiet_def)

lemma handed_log [simp]: "handed (net_log e s) = mset (handed_by e) + handed s"
  by (simp add: handed_def)

lemma handed_same [simp]:
  "handed (with_wlan w s) = handed s" "handed (upd_wlan f s) = handed s" "handed (upd_ps g s) = handed s"
  "handed (upd_node ni k s) = handed s" "handed (upd_mvap v l s) = handed s"
  by (simp_all add: handed_def)

lemma table_view_same [simp]:
  "table_view (net_log e s) = table_view s" "table_view (upd_ps g s) = table_view s" "table_view (upd_mvap v l s) = table_view s"
  by (simp_all add: table_view_def)

lemma table_view_node:
  "(\<And>n. node_sta_id (k n) = node_sta_id n) \<Longrightarrow> (\<And>n. ni_macaddr (k n) = ni_macaddr n) \<Longrightarrow>
     table_view (upd_node ni k s) = table_view s"
  by (auto simp: table_view_def upd_node_def)

lemma quiet_log: "handed_by e = [] \<Longrightarrow> mgmt_quiet s (net_log e s)"
  by (simp add: mgmt_quiet_def)

lemma quiet_upd [simp]:
  "mgmt_quiet s (upd_ps g s)" "mgmt_quiet s (upd_mvap v l s)"
  "mgmt_quiet s (upd_node ni (\<lambda>n. n\<lparr>ni_flags := fl n\<rparr>) s)"
  by (simp_all add: mgmt_quiet_def table_view_node)

lemma quiet_upd_wlan:
  "w_common (f (g_wlan s)) = w_common (g_wlan s) \<Longrightarrow> w_fsm_state (f (g_wlan s)) = w_fsm_state (g_wlan s) \<Longrightarrow>
     w_driver_mode (f (g_wlan s)) = w_driver_mode (g_wlan s) \<Longrightarrow>
     sta_connected_bitmap (f (g_wlan s)) = sta_connected_bitmap (g_wlan s) \<Longrightarrow>
     max_stations_supported (f (g_wlan s)) = max_stations_supported (g_wlan s) \<Longrightarrow> mgmt_quiet s (upd_wlan f s)"
  by (simp add: mgmt_quiet_def table_view_def)

lemma quiet_queue_command [simp]: "mgmt_quiet s (queue_command d s)"
  by (simp add: mgmt_quiet_def table_view_def queue_command_def schedule_wlan_def log_common_def upd_queue_def)

lemma quiet_send_mgmt:
  assumes "length desc = 8" "send_mgmt h desc body s = Some (r, s')"
  shows "mgmt_quiet s s'"
  using send_mgmt_cases [OF assms(1), of h body s] assms(2) by (metis Pair_inject mgmt_quiet_refl option.inject quiet_queue_command)

lemma call_ps_quiet:
  assumes "call_ps h f w = Some w'"
  shows "freed (trace (w_common w')) = freed (trace (w_common w)) \<and> w_fsm_state w' = w_fsm_state w \<and>
         w_driver_mode w' = w_driver_mode w \<and> sta_connected_bitmap w' = sta_connected_bitmap w \<and>
         max_stations_supported w' = max_stations_supported w"
proof -
  obtain p where p: "f (w_ps w) = Some p" "perform_all h (new_ps_events (w_ps w) p) (w\<lparr>w_ps := p\<rparr>) = Some w'"
    using assms by (auto simp: call_ps_def split: bind_splits)
  obtain n where "frames_added n (w\<lparr>w_ps := p\<rparr>) w'"
    using perform_all_adds [of h "new_ps_events (w_ps w) p" "w\<lparr>w_ps := p\<rparr>"] p(2) by auto
  then show ?thesis by (auto simp: frames_added_def freed_schedule simp del: freed_append)
qed

lemma quiet_call_ps: "call_ps h f (g_wlan s) = Some w \<Longrightarrow> mgmt_quiet s (with_wlan w s)"
  using call_ps_quiet by (simp add: mgmt_quiet_def table_view_def)

lemma quiet_power_save: "power_save h v st path s = Some s' \<Longrightarrow> mgmt_quiet s s'"
  by (auto simp: power_save_def quiet_call_ps split: bind_splits)

section \<open>The contract of a command\<close>

text \<open>
  \<open>prep\<close> is what the sender changes before the frame is built, \<open>ok\<close> what it needs of the
  state for a body of the announced length.
\<close>

locale command =
  fixes send :: "host \<Rightarrow> wlan_mgmt \<Rightarrow> (status \<times> wlan_mgmt) option"
    and prep :: "wlan_mgmt \<Rightarrow> wlan_mgmt"
    and desc :: "wlan_mgmt \<Rightarrow> u16 list"
    and body :: "wlan_mgmt \<Rightarrow> bytes"
    and len :: nat
    and ok :: "wlan_mgmt \<Rightarrow> bool"
  assumes sends: "send h s = send_mgmt h (desc s) (body s) (prep s)"
    and desc_length: "length (desc s) = 8"
    and desc_word0: "desc s ! 0 = mgmt_word0 len"
    and body_length: "ok s \<Longrightarrow> length (body s) = len"
    and short: "len + 63 < 4096"
    and prep_queue: "host_tx_queue (g_wlan (prep s)) = host_tx_queue (g_wlan s)"
    and prep_common: "w_common (g_wlan (prep s)) = w_common (g_wlan s)"
    and prep_quiet: "mgmt_quiet s (prep s)"
begin

lemma cases:
  obtains (no_memory) "send h s = Some (ONEBOX_STATUS_FAILURE, prep s)" "\<not> h_alloc_skb h (g_trace s)"
  | (queued) d where "send h s = Some (ONEBOX_STATUS_SUCCESS, queue_command d (prep s))" "h_alloc_skb h (g_trace s)"
      "ok s \<Longrightarrow> \<exists>pad. length pad < 64 \<and> read_command d = Some (tl (desc s), body s @ pad)"
proof (cases rule: send_mgmt_cases [OF desc_length [of s], of h "body s" "prep s"])
  case 1
  then show ?thesis by (intro no_memory) (simp_all add: sends prep_common)
next
  case (2 e g)
  show ?thesis
  proof (rule queued)
    show "h_alloc_skb h (g_trace s)" using 2 by (simp add: prep_common)
    show "send h s = Some (ONEBOX_STATUS_SUCCESS,
        queue_command (internal_mgmt_bytes (mgmt_frame (desc s) (body s)) (desc s ! 0) e g) (prep s))"
      using 2 by (simp add: sends)
    assume ok: "ok s"
    show "\<exists>pad. length pad < 64 \<and> read_command
            (internal_mgmt_bytes (mgmt_frame (desc s) (body s)) (desc s ! 0) e g) = Some (tl (desc s), body s @ pad)"
      using read_queued [OF desc_length [of s], of "body s" e g] 2(1) body_length [OF ok] desc_word0 [of s] short by auto
  qed
qed

lemma answers: "send h s \<noteq> None"
  by (rule cases [of h s]) auto

lemma quiet: "send h s = Some (r, s') \<Longrightarrow> mgmt_quiet s s'"
  by (rule cases [of h s]) (auto intro: mgmt_quiet_trans prep_quiet)

lemma succeeds_iff: "send h s = Some (r, s') \<Longrightarrow> r = ONEBOX_STATUS_SUCCESS \<longleftrightarrow> h_alloc_skb h (g_trace s)"
  by (rule cases [of h s]) auto

text \<open>A command that succeeds is one frame behind those that wait, and read back it is the command.\<close>

lemma delivered:
  assumes "send h s = Some (ONEBOX_STATUS_SUCCESS, s')" "ok s"
  shows "\<exists>d pad. host_tx_queue (g_wlan s') MGMT_SOFT_Q = host_tx_queue (g_wlan s) MGMT_SOFT_Q @ [internal_mgmt_pkt d] \<and>
           read_command d = Some (tl (desc s), body s @ pad) \<and> length pad < 64"
proof (rule cases [of h s])
  fix d
  assume "send h s = Some (ONEBOX_STATUS_SUCCESS, queue_command d (prep s))"
    and "ok s \<Longrightarrow> \<exists>pad. length pad < 64 \<and> read_command d = Some (tl (desc s), body s @ pad)"
  with assms show ?thesis by (auto simp: queue_command_def prep_queue)
qed (use assms in simp)

end

section \<open>The commands\<close>

lemma length_concat_replicate: "length (concat (replicate n xs)) = n * length xs"
  by (induction n) simp_all

lemma length_boot_params [simp]:
  "length boot_params_10 = 116" "length boot_params_20 = 116" "length boot_params_40 = 116"
  by (simp_all add: boot_params_10_def boot_params_20_def boot_params_40_def boot_params_def device_clk_info_def
      le16_def le32_def length_concat_replicate)

lemma length_qos: "length (qos_with_defaults wme q) = 4"
  by (simp add: qos_with_defaults_def qos_params_def Let_def)

lemma length_radio_caps_body: "length (radio_timing s) = 6 \<Longrightarrow> length (radio_caps_body s) = 150"
  by (simp add: radio_caps_body_def length_concat_le16 length_qos upt_rec [of _ 12] le16_def length_concat_replicate)

lemma fold_invariant: "(\<And>x s. P s \<Longrightarrow> P (f x s)) \<Longrightarrow> P s \<Longrightarrow> P (fold f xs s)"
  by (induction xs arbitrary: s) auto

text \<open>Starting and stopping the transmit queues of the interfaces.\<close>

definition same_bus :: "wlan_mgmt \<Rightarrow> wlan_mgmt \<Rightarrow> bool" where
  "same_bus s s' \<longleftrightarrow>
     host_tx_queue (g_wlan s') = host_tx_queue (g_wlan s) \<and> w_common (g_wlan s') = w_common (g_wlan s) \<and>
     w_fsm_state (g_wlan s') = w_fsm_state (g_wlan s) \<and> w_driver_mode (g_wlan s') = w_driver_mode (g_wlan s) \<and>
     table_view s' = table_view s \<and> handed s' = handed s"

lemma same_bus_refl [simp]: "same_bus s s"
  by (simp add: same_bus_def)

lemma same_bus_quiet: "same_bus s s' \<Longrightarrow> mgmt_quiet s s'"
  by (simp add: same_bus_def mgmt_quiet_def)

lemma start_txq_bus: "same_bus s t \<Longrightarrow> same_bus s (start_txq v t)"
  by (simp add: same_bus_def start_txq_def table_view_def)

lemma stop_txq_bus: "same_bus s t \<Longrightarrow> same_bus s (stop_txq v t)"
  by (simp add: same_bus_def stop_txq_def table_view_def)

lemma restart_ap_queues_bus: "same_bus s t \<Longrightarrow> same_bus s (restart_ap_queues t)"
  unfolding restart_ap_queues_def Let_def by (rule fold_invariant) (auto intro: start_txq_bus)

lemma block_flags_bus: "same_bus s (block_flags v event s)"
  unfolding block_flags_def Let_def
  by (auto intro!: stop_txq_bus) (auto simp: same_bus_def handed_def table_view_def)

definition block_prep :: "nat \<Rightarrow> notify_event \<Rightarrow> wlan_mgmt \<Rightarrow> wlan_mgmt" where
  "block_prep v event s =
     (let s1 = block_flags v event s in if block_ap_queues (w_ps (g_wlan s1)) then s1 else restart_ap_queues s1)"

lemma block_prep_bus: "same_bus s (block_prep v event s)"
  by (simp add: block_prep_def Let_def block_flags_bus restart_ap_queues_bus)

interpretation reset_mac: command onebox_send_reset_mac "\<lambda>s. s" reset_mac_desc "\<lambda>s. []" 0 "\<lambda>s. True"
  by unfold_locales (simp_all add: onebox_send_reset_mac_def reset_mac_desc_def Let_def)

interpretation bootup: command onebox_load_bootup_params "\<lambda>s. s"
  "\<lambda>s. [mgmt_word0 116, BOOTUP_PARAMS_REQUEST, 0, 0, 0, 0, 0,
        (if operating_chwidth s \<in> {BW_40Mhz, BW_20Mhz, BW_10Mhz} then umac_clk else 0)]"
  "\<lambda>s. if operating_chwidth s = BW_40Mhz then boot_params_40 else if operating_chwidth s = BW_20Mhz then boot_params_20
       else if operating_chwidth s = BW_10Mhz then boot_params_10 else replicate 116 0"
  116 "\<lambda>s. True"
  by unfold_locales (simp_all add: onebox_load_bootup_params_def Let_def)

interpretation radio_caps: command onebox_load_radio_caps "\<lambda>s. s" radio_caps_desc radio_caps_body 150
  "\<lambda>s. length (radio_timing s) = 6"
  by unfold_locales (simp_all add: onebox_load_radio_caps_def radio_caps_desc_def length_radio_caps_body Let_def)

interpretation bb_rf: command program_bb_rf "\<lambda>s. s\<lparr>rf_reset := False, bb_rf_prog_count := 1\<rparr>"
  "\<lambda>s. [mgmt_word0 0, BBP_PROG_IN_TA, 0, rf_pwr_mode s, ucast (endpoint s), 0, 0, (if rf_reset s then 8 else 0) OR 0x10]"
  "\<lambda>s. []" 0 "\<lambda>s. True"
  by unfold_locales (simp_all add: program_bb_rf_def mgmt_quiet_def handed_def table_view_def)

interpretation channel: command "\<lambda>h. set_channel h chno"
  "\<lambda>s. s\<lparr>ch_power := channel_power s,
          ic_curchan := (if w_driver_mode (g_wlan s) = SNIFFER_MODE
                         then (ic_curchan s)\<lparr>ic_ieee := ucast chno, ic_freq := channel_freq chno (ic_freq (ic_curchan s))\<rparr>
                         else ic_curchan s)\<rparr>"
  "set_channel_desc chno" "\<lambda>s. []" 0 "\<lambda>s. True" for chno
  by unfold_locales (simp_all add: set_channel_def set_channel_desc_def mgmt_quiet_def handed_def table_view_def Let_def)

interpretation block: command "\<lambda>h. onebox_send_block_unblock h v event quiet" "block_prep v event"
  "\<lambda>s. block_desc event quiet (block_ap_queues (w_ps (g_wlan (block_flags v event s))))" "\<lambda>s. []" 0 "\<lambda>s. True"
  for v event quiet
proof unfold_locales
  fix s
  show "mgmt_quiet s (block_prep v event s)" using block_prep_bus by (rule same_bus_quiet)
  show "host_tx_queue (g_wlan (block_prep v event s)) = host_tx_queue (g_wlan s)"
    "w_common (g_wlan (block_prep v event s)) = w_common (g_wlan s)"
    using block_prep_bus [of s v event] by (simp_all add: same_bus_def)
qed (simp_all add: onebox_send_block_unblock_def block_prep_def block_desc_def Let_def)

interpretation dynamic_update: command "\<lambda>h. onebox_send_vap_dynamic_update h v" "\<lambda>s. s"
  "\<lambda>s. [mgmt_word0 6, VAP_DYNAMIC_UPDATE,
         (if ic_flags (g_xmit s) AND F_USEPROT \<noteq> 0 \<and>
             (ic_nonerpsta s \<noteq> 0 \<and> iv_opmode (g_vap s v) = M_HOSTAP \<or> iv_opmode (g_vap s v) = M_STA) then 2 else 0),
         (if fixed_rate_enable (g_txvap s v) then 1 else 0), iv_rtsthreshold (m_vap s v), 0, iv_bmissthreshold (m_vap s v),
         push_bit 8 (ucast (vap_id (g_txvap s v)))]"
  "\<lambda>s. le16 (if fixed_rate_enable (g_txvap s v) then ucast (rate_hix (g_txvap s v)) else 0) @ le16 0 @
        le16 (iv_keep_alive_period (m_vap s v))"
  6 "\<lambda>s. True" for v
  by unfold_locales (simp_all add: onebox_send_vap_dynamic_update_def le16_def Let_def)

section \<open>A station, for the concrete instances\<close>

definition mgmt_sample :: "fsm_state \<Rightarrow> wlan_mgmt" where
  "mgmt_sample f = \<lparr>g_xmit = xmit_sample\<lparr>x_wlan := core_sample\<lparr>host_tx_queue := \<lambda>_. [], w_fsm_state := f, sta_connected_bitmap := \<lambda>_. 0\<rparr>\<rparr>,
     m_node = (\<lambda>_. \<lparr>ni_associd = 0, ni_htparam = 0, ni_inact = 0, ni_inact_reload = 5, eosp_tsf = 0, eosp_triggered = 0,
       tidnum = 0, seq_start = \<lambda>_. 0, baw_size = \<lambda>_. 0, delba_ind = False, txa_running = \<lambda>_. False, rxa_running = \<lambda>_. False,
       ni_txseqs = \<lambda>_. 0, ni_avgrssi = 0, ni_txrate = 0, ni_rxrate = 0, ni_chno = 0\<rparr>),
     m_vap = (\<lambda>_. \<lparr>iv_rtsthreshold = 2346, iv_bmissthreshold = 7, iv_dtim_period = 1, iv_keep_alive_period = 90,
       iv_myaddr = replicate 6 3, p2p_go = False, vap_data_block = False, carrier_on = True, wep_key = replicate 128 0,
       wep_keylen = \<lambda>_. 5, wep_key_idx = 0, iv_bss = Some 0, extended_desc_size = 0\<rparr>),
     sta = (\<lambda>_. (replicate 6 0, None)), sta_mode = \<lparr>ptk_key = False, gtk_key = False, eapol4_cnfrm = False\<rparr>, sta_mode_id = (0, 0),
     band_supported = False, module_model_type = 0, mac_addr = replicate 6 0, calib_mode = False, per_lpbk_mode = False,
     da_retry_count = 15, da_antenna_diversity = False, w_antenna_diversity = False, aggr_tx_limit = 11, endpoint = 0,
     rf_pwr_mode = 0, rf_reset = False, rf_power_mode_change = False, bb_rf_prog_count = 0, operating_chwidth = 0,
     def_chwidth = 0, chw_flag = False, primary_channel = 0,
     endpoint_params = \<lparr>ep_channel = 1, ep_enable_11j = False, per_ch_bw = 0, ep_power = 18\<rparr>,
     ic_curchan = \<lparr>ic_ieee = 1, ic_freq = 2412, ic_maxregpower = 30, chan_11j = False\<rparr>, ic_txpowlimit = 18, regdomain_pad = 0,
     ant_gain = (0, 0), ch_power = 0, rx_filter_word = 0, radio_timing = [0, 0, 0, 0, 0, 0], ch_bandwidth = 0, mac_id = 0,
     radio_id = 0, ic_nonerpsta = 0, ic_bintval = 100, tx_running = 0, sta_info = replicate 20 0, bb_rf_read = replicate 1024 0,
     bb_rf_no_of_values = 0, bb_rf_value = 0, rf_lpbk_data = replicate 4096 0, rf_lpbk_len = 0, eeprom_data = replicate 480 0,
     bgscan_triggered = False, bgscan_2ghz_sent = False, bgscan_5ghz_sent = False, antenna_in_use = 0, scan_count = 0,
     total_mgmt_rx = 0, beacon_event_vap_id = 0, beacon_interrupt = 0, total_data_rx = 0, rx_packets = 0, nt_nodes = [0],
     net_trace = []\<rparr>"

definition sample_net_host :: net_host where
  "sample_net_host = \<lparr>nh_core = core_sample_host, nh_kmalloc = \<lambda>_. True, nh_thread = \<lambda>_. True\<rparr>"

text \<open>A packet of the firmware: the length of its body, its type and its subtype.\<close>

definition mgmt_packet :: "u8 \<Rightarrow> u8 \<Rightarrow> netbuf" where
  "mgmt_packet ty sub = fresh_netbuf ([0, 0x40, ty] @ replicate 12 0 @ [sub])"

lemmas mgmt_sample_defs = mgmt_sample_def sample_net_host_def mgmt_packet_def xmit_sample_def core_sample_def sample_wlan_def
  core_sample_host_def calm_host_def idle_adapter_def idle_assets_def sample_defs fresh_netbuf_def

end
