(* ===== verification/Mgmt_Fate.thy ===== *)
theory Mgmt_Fate
  imports Mgmt_Command
begin

text \<open>
  What becomes of a packet that reaches the WLAN module: whatever its type and whatever the
  state of the initialisation, it is freed once or handed to net80211 once.
\<close>

section \<open>Steps that leave the packet alone\<close>

lemma quiet_record [simp]:
  "mgmt_quiet s (s\<lparr>total_mgmt_rx := n\<rparr>)" "mgmt_quiet s (s\<lparr>total_data_rx := n\<rparr>)" "mgmt_quiet s (s\<lparr>rx_packets := p\<rparr>)"
  "mgmt_quiet s (s\<lparr>m_node := ns\<rparr>)" "mgmt_quiet s (s\<lparr>antenna_in_use := a\<rparr>)" "mgmt_quiet s (s\<lparr>sta_mode := m\<rparr>)"
  "mgmt_quiet s (s\<lparr>rf_reset := b\<rparr>)" "mgmt_quiet s (s\<lparr>bb_rf_prog_count := a\<rparr>)" "mgmt_quiet s (s\<lparr>sta_info := bs\<rparr>)"
  "mgmt_quiet s (s\<lparr>eeprom_data := bs\<rparr>)" "mgmt_quiet s (s\<lparr>bgscan_5ghz_sent := b\<rparr>)"
  by (simp_all add: mgmt_quiet_def handed_def table_view_def)

lemma quiet_record2 [simp]:
  "mgmt_quiet s (s\<lparr>rx_filter_word := w, radio_timing := ws\<rparr>)" "mgmt_quiet s (s\<lparr>bb_rf_read := bs, bb_rf_no_of_values := a\<rparr>)"
  "mgmt_quiet s (s\<lparr>rf_lpbk_data := bs, rf_lpbk_len := w\<rparr>)" "mgmt_quiet s (s\<lparr>beacon_event_vap_id := w, beacon_interrupt := i\<rparr>)"
  "mgmt_quiet s (apply_assets s)"
  by (simp_all add: mgmt_quiet_def handed_def table_view_def apply_assets_def Let_def)

lemma quiet_trans_log: "mgmt_quiet s t \<Longrightarrow> handed_by e = [] \<Longrightarrow> mgmt_quiet s (net_log e t)"
  by (erule mgmt_quiet_trans) (rule quiet_log)

text \<open>The packet-moving parts of a state, without the state of the initialisation.\<close>

definition pkts_kept :: "wlan_mgmt \<Rightarrow> wlan_mgmt \<Rightarrow> bool" where
  "pkts_kept s s' \<longleftrightarrow> freed (g_trace s') = freed (g_trace s) \<and> handed s' = handed s"

lemma pkts_kept_refl [simp]: "pkts_kept s s"
  by (simp add: pkts_kept_def)

lemma pkts_kept_trans: "pkts_kept s t \<Longrightarrow> pkts_kept t u \<Longrightarrow> pkts_kept s u"
  by (simp add: pkts_kept_def)

lemma quiet_kept: "mgmt_quiet s s' \<Longrightarrow> pkts_kept s s'"
  by (simp add: mgmt_quiet_def pkts_kept_def)

lemma set_fsm_kept [simp]: "pkts_kept s (set_fsm f t) = pkts_kept s t"
  by (simp add: pkts_kept_def set_fsm_def)

lemma quiet_from [simp]:
  "mgmt_quiet (s\<lparr>rf_reset := b\<rparr>) t = mgmt_quiet s t" "mgmt_quiet (s\<lparr>sta_mode := m\<rparr>) t = mgmt_quiet s t"
  "mgmt_quiet (s\<lparr>rx_filter_word := w, radio_timing := ws\<rparr>) t = mgmt_quiet s t"
  "mgmt_quiet (s\<lparr>m_node := ns\<rparr>) t = mgmt_quiet s t" "mgmt_quiet (apply_assets s) t = mgmt_quiet s t"
  by (simp_all add: mgmt_quiet_def handed_def table_view_def apply_assets_def Let_def)

lemma quiet_from_log: "handed_by e = [] \<Longrightarrow> mgmt_quiet (net_log e s) t = mgmt_quiet s t"
  by (simp add: mgmt_quiet_def)

section \<open>The handlers\<close>

lemma connection_step_quiet:
  assumes "connection_step h v s = Some s'"
  shows "mgmt_quiet s s'"
proof -
  obtain s1 where 1: "(if ptk_key (sta_mode s) \<and> eapol4_cnfrm (sta_mode s) \<and> sta_data_block (w_ps (g_wlan s))
         then map_option snd (onebox_send_block_unblock (ch_host h) v STA_CONNECTED False s) else Some s) = Some s1"
    and 2: "(if ptk_key (sta_mode s1) \<and> gtk_key (sta_mode s1) \<and> eapol4_cnfrm (sta_mode s1)
         then power_save h v PS_ENABLE CONNECTED_PATH (s1\<lparr>sta_mode := (sta_mode s1)\<lparr>ptk_key := False\<rparr>\<rparr>)
         else Some s1) = Some s'"
    using assms unfolding connection_step_def bind_eq_Some_conv by blast
  have "mgmt_quiet s s1" using 1 by (auto split: if_splits dest: block.quiet)
  moreover have "mgmt_quiet s1 s'" using 2 by (auto split: if_splits dest!: quiet_power_save)
  ultimately show ?thesis by (rule mgmt_quiet_trans)
qed

lemma on_load_bootup_kept: "on_load_bootup h ty sub s = Some (end, s') \<Longrightarrow> pkts_kept s s' \<and> end = Handled"
  by (auto simp: on_load_bootup_def quiet_from_log split: if_splits bind_splits intro: quiet_kept dest!: reset_mac.quiet)

lemma on_reset_mac_kept:
  "on_reset_mac h ty sub s = Some (end, s') \<Longrightarrow> pkts_kept s s' \<and> (end = Handled \<or> end = Returned (-1))"
  by (auto simp: on_reset_mac_def split: if_splits bind_splits intro: quiet_kept dest!: radio_caps.quiet bb_rf.quiet)

lemma on_bb_rf_start_kept: "pkts_kept s (on_bb_rf_start ty sub s)"
  by (auto simp: on_bb_rf_start_def Let_def quiet_kept)

lemma on_ampdu_sent_kept: "on_ampdu_sent nh ty sub s = (end, s') \<Longrightarrow> pkts_kept s s' \<and> (end = Handled \<or> end = Returned (-14))"
  by (auto simp: on_ampdu_sent_def pkts_kept_def set_fsm_def handed_def split: if_splits)

lemma quiet_option: "map_option (Pair e) x = Some (e', s') \<Longrightarrow> x = Some s' \<and> e' = e"
  by auto

lemma copy_values_quiet: "copy_values msg len s = Some s' \<Longrightarrow> mgmt_quiet s s'"
  by (auto simp: copy_values_def intro!: quiet_trans_log split: if_splits bind_splits)

lemma loopback_values_quiet: "loopback_values n msg len s = Some s' \<Longrightarrow> mgmt_quiet s s'"
  by (auto simp: loopback_values_def Let_def intro!: quiet_trans_log split: if_splits bind_splits)

lemma eeprom_values_quiet: "eeprom_values msg len s = Some s' \<Longrightarrow> mgmt_quiet s s'"
  by (auto simp: eeprom_values_def intro!: quiet_trans_log split: if_splits bind_splits)

lemma stats_values_quiet: "stats_values msg s = Some s' \<Longrightarrow> mgmt_quiet s s'"
  by (auto simp: stats_values_def intro!: quiet_trans_log split: bind_splits)

lemma bgscan_complete_quiet: "mgmt_quiet t s \<Longrightarrow> mgmt_quiet t (bgscan_complete vs s)"
proof (induction vs arbitrary: s)
  case (Cons v vs)
  have "mgmt_quiet t (net_log (Send_bgscan_params BAND_5GHZ) (s\<lparr>bgscan_5ghz_sent := True\<rparr>))"
    by (intro quiet_trans_log mgmt_quiet_trans [OF Cons.prems]) simp_all
  with Cons show ?case by (auto intro!: quiet_trans_log)
qed simp

lemma sleep_confirm_quiet:
  "sleep_confirm h msg s = Some (end, s') \<Longrightarrow> mgmt_quiet s s' \<and> (end = Handled \<or> end = Returned (-1))"
  by (auto simp: sleep_confirm_def split: if_splits option.splits bind_splits dest: quiet_power_save)

lemma quiet_fold:
  assumes "\<And>x t. mgmt_quiet s t \<Longrightarrow> mgmt_quiet s (f x t)"
  shows "mgmt_quiet s (fold f xs s)"
  by (rule fold_invariant) (auto intro: assms)

lemma scan_confirm_quiet: "mgmt_quiet s (scan_confirm s)"
  by (simp add: scan_confirm_def quiet_fold quiet_trans_log)

lemmas value_quiet = copy_values_quiet loopback_values_quiet eeprom_values_quiet stats_values_quiet

lemma on_confirm_quiet:
  assumes "on_confirm h sub msg len s = Some (end, s')"
  shows "mgmt_quiet s s' \<and> (end = Handled \<or> end = Returned (-1))"
proof (cases "sub = WAKEUP_SLEEP_REQUEST")
  case True
  then show ?thesis using assms sleep_confirm_quiet [of h msg s "end" s'] by (simp add: on_confirm_def)
next
  case False
  then show ?thesis using assms
    by (auto simp: on_confirm_def Let_def bgscan_complete_quiet scan_confirm_quiet quiet_log
        split: if_splits dest: value_quiet)
qed

lemma keepalive_confirm_quiet: "keepalive_confirm ok a vs s = Some s' \<Longrightarrow> mgmt_quiet s s'"
  by (induction vs arbitrary: s) (auto split: if_splits bind_splits intro: mgmt_quiet_trans [OF quiet_record(4)])

lemma eapol4_confirmed_quiet:
  assumes "eapol4_confirmed h s = Some s'"
  shows "mgmt_quiet s s'"
proof -
  have "mgmt_quiet s (let s1 = upd_ps (upd_vap v (\<lambda>x. x\<lparr>conn_in_prog := False\<rparr>)) s
           in s1\<lparr>sta_mode := (sta_mode s1)\<lparr>eapol4_cnfrm := True\<rparr>\<rparr>)" for v
    by (simp add: mgmt_quiet_def handed_def table_view_def Let_def)
  with assms show ?thesis
    by (auto simp: eapol4_confirmed_def split: option.splits dest!: connection_step_quiet intro: mgmt_quiet_trans)
qed

lemma eapol4_failed_quiet: "mgmt_quiet s (eapol4_failed s)"
  unfolding eapol4_failed_def by (rule quiet_fold) (auto split: option.split intro: quiet_trans_log)

lemma probereq_quiet: "mgmt_quiet s (fold (\<lambda>v. net_log (Probereq_confirm v)) vs s)"
  by (rule quiet_fold) (simp add: quiet_trans_log)

lemma on_tx_status_quiet: "on_tx_status h sub msg s = Some s' \<Longrightarrow> mgmt_quiet s s'"
  by (auto simp: on_tx_status_def split: if_splits bind_splits
      intro: keepalive_confirm_quiet eapol4_confirmed_quiet eapol4_failed_quiet probereq_quiet)

lemma on_tsf_sync_quiet: "on_tsf_sync msg s = Some (end, s') \<Longrightarrow> mgmt_quiet s s' \<and> (end = Handled \<or> end = Returned (-1))"
  by (auto simp: on_tsf_sync_def split: if_splits bind_splits option.splits)

section \<open>One fate for each packet\<close>

text \<open>The packet \<open>d\<close>, or what is left of it behind its descriptor, left the module once.\<close>

definition one_fate :: "bytes \<Rightarrow> wlan_mgmt \<Rightarrow> wlan_mgmt \<Rightarrow> bool" where
  "one_fate d s s' \<longleftrightarrow>
     (\<exists>n. freed (g_trace s') = freed (g_trace s) + {#drop n d#} \<and> handed s' = handed s \<or>
          freed (g_trace s') = freed (g_trace s) \<and> handed s' = handed s + {#drop n d#})"

lemma kept_then_fate: "pkts_kept s t \<Longrightarrow> one_fate d t u \<Longrightarrow> one_fate d s u"
  by (simp add: pkts_kept_def one_fate_def)

lemma fate_then_kept: "one_fate d s t \<Longrightarrow> pkts_kept t u \<Longrightarrow> one_fate d s u"
  by (simp add: pkts_kept_def one_fate_def)

lemma free_rx_fate: "one_fate (nb_data nb) s (free_rx nb s)"
  unfolding one_fate_def by (intro exI [of _ 0]) (simp add: free_rx_def log_wlan_def)

lemma free_pulled_fate: "netbuf_pull n nb = Some nb' \<Longrightarrow> one_fate (nb_data nb) s (free_rx nb' s)"
  unfolding one_fate_def
  by (intro exI [of _ n]) (auto simp: free_rx_def log_wlan_def netbuf_pull_def netbuf_adj_def split: if_splits)

lemma handed_fate: "handed_by e = [drop n d] \<Longrightarrow> one_fate d s (net_log e s)"
  unfolding one_fate_def by (intro exI [of _ n]) simp

lemma pulled_data: "netbuf_pull n nb = Some nb' \<Longrightarrow> nb_data nb' = drop n (nb_data nb)"
  by (auto simp: netbuf_pull_def netbuf_adj_def split: if_splits)

lemma wlan_core_pkt_recv_fate:
  assumes "wlan_core_pkt_recv nh nb' rssi chno s = Some s'" "netbuf_pull n nb = Some nb'"
  shows "one_fate (nb_data nb) s s'"
proof -
  note d = pulled_data [OF assms(2)]
  from assms(1) consider "s' = free_rx nb' s" | "s' = net_log (Input_all (nb_data nb') rssi chno) s"
    | ni a ns where "s' = net_log (Mgmt_input ni (nb_data nb') rssi a) (s\<lparr>m_node := ns\<rparr>)"
    unfolding wlan_core_pkt_recv_def bind_eq_Some_conv by (auto split: if_splits option.splits bind_splits)
  then show ?thesis
  proof cases
    case 1
    then show ?thesis using free_pulled_fate [OF assms(2)] by simp
  next
    case 2
    show ?thesis unfolding 2 by (rule handed_fate [where n = n]) (simp add: d)
  next
    case 3
    have "one_fate (nb_data nb) (s\<lparr>m_node := ns\<rparr>) s'" unfolding 3 by (rule handed_fate [where n = n]) (simp add: d)
    with kept_then_fate [OF quiet_kept [OF quiet_record(4)]] show ?thesis by blast
  qed
qed

lemma dot11_mgmt_fate:
  assumes "dot11_mgmt nh nb len pad rssi chno s = Some (st, s')"
  shows "st = 0 \<and> one_fate (nb_data nb) s s' \<or> st = ONEBOX_STATUS_FAILURE \<and> s' = s"
  using assms
  by (auto simp: dot11_mgmt_def split: if_splits list.splits bind_splits
      dest: wlan_core_pkt_recv_fate intro: kept_then_fate [OF quiet_kept [OF quiet_upd(2)]])

lemma ps_notify_quiet: "ps_notify msg s = Some (ok, s') \<Longrightarrow> mgmt_quiet s s'"
  by (auto simp: ps_notify_def Let_def split: bind_splits if_splits option.splits intro!: quiet_trans_log)

lemma note_beacon_quiet: "mgmt_quiet s t \<Longrightarrow> mgmt_quiet s (note_beacon vid t)"
  by (auto simp: note_beacon_def mgmt_quiet_def handed_def table_view_def log_common_def)

lemma beacon_event_quiet:
  assumes "beacon_event_ind vid s = Some (ok, s')"
  shows "mgmt_quiet s s'"
proof -
  let ?f = "\<lambda>v x. if unat (vap_id (g_txvap x v)) = vid \<and> beacon_due v x then note_beacon vid x else x"
  have "mgmt_quiet s (fold ?f vs (net_log Ic_lock s))" for vs
    by (rule fold_invariant) (auto intro: note_beacon_quiet quiet_log)
  with assms show ?thesis
    by (auto simp: beacon_event_ind_def Let_def split: if_splits intro!: quiet_trans_log)
qed

lemma core_michael_failure_quiet: "core_michael_failure msg s = Some s' \<Longrightarrow> mgmt_quiet s s'"
  by (auto simp: core_michael_failure_def split: bind_splits option.splits if_splits intro!: quiet_log)

lemma free_quiet_fate: "mgmt_quiet s t \<Longrightarrow> one_fate (nb_data nb) s (free_rx nb t)"
  using quiet_kept free_rx_fate by (rule kept_then_fate)

text \<open>The function that serves net80211 either disposes of the packet or reports a failure and keeps it.\<close>

lemma mgmt_pkt_to_core_fate:
  assumes "onebox_mgmt_pkt_to_core nh nb len ty s = Some (st, s')"
  shows "st = 0 \<and> one_fate (nb_data nb) s s' \<or> st \<noteq> 0 \<and> pkts_kept s s'"
  using assms unfolding onebox_mgmt_pkt_to_core_def Let_def
  by (auto simp: free_rx_fate quiet_kept split: bind_splits if_splits
      dest!: dot11_mgmt_fate ps_notify_quiet beacon_event_quiet core_michael_failure_quiet intro: free_quiet_fate)

definition end_fate :: "netbuf \<Rightarrow> wlan_mgmt \<Rightarrow> recv_end \<Rightarrow> wlan_mgmt \<Rightarrow> bool" where
  "end_fate nb s end s' \<longleftrightarrow>
     (end = Returned 0 \<and> one_fate (nb_data nb) s s' \<or> end \<noteq> Returned 0 \<and> pkts_kept s s')"

lemma quiet_end: "mgmt_quiet s s' \<Longrightarrow> end \<noteq> Returned 0 \<Longrightarrow> end_fate nb s end s'"
  by (simp add: end_fate_def quiet_kept)

lemma on_init_done_fate:
  assumes "on_init_done nh nb ty sub len s = Some (end, s')"
  shows "end_fate nb s end s'"
proof -
  have core: "end_fate nb s (if st = 0 then Returned 0 else Handled) s1"
    if "onebox_mgmt_pkt_to_core nh nb len ty s = Some (st, s1)" for st s1
    using mgmt_pkt_to_core_fate [OF that] by (auto simp: end_fate_def)
  show ?thesis
    using assms unfolding on_init_done_def Let_def
    by (auto simp: quiet_log split: if_splits bind_splits intro: quiet_end core
        dest!: on_confirm_quiet on_tx_status_quiet on_tsf_sync_quiet)
qed

lemma mgmt_state_step_fate:
  assumes "mgmt_state_step nh nb ty sub len s = Some (end, s')"
  shows "end_fate nb s end s'"
proof (cases "w_fsm_state (g_wlan s) = FSM_MAC_INIT_DONE")
  case True
  with assms show ?thesis by (intro on_init_done_fate) (simp add: mgmt_state_step_def)
next
  case False
  with assms show ?thesis unfolding mgmt_state_step_def
    by (auto simp: quiet_log quiet_kept on_bb_rf_start_kept end_fate_def split: fsm_state.splits if_splits
        dest!: on_load_bootup_kept on_reset_mac_kept on_ampdu_sent_kept)
qed

lemma mgmt_pkt_recv_fate:
  assumes "onebox_mgmt_pkt_recv nh nb s = Some (st, s')"
  shows "st = 0 \<and> one_fate (nb_data nb) s s' \<or> st \<noteq> 0 \<and> pkts_kept s s'"
proof -
  obtain w0 :: u16 and ty sub "end" s1 where r: "mgmt_state_step nh nb ty sub (unat (w0 AND 0xfff))
        (s\<lparr>total_mgmt_rx := total_mgmt_rx s + 1\<rparr>) = Some (end, s1)"
      "(st, s') = (case end of Handled \<Rightarrow> (ONEBOX_STATUS_SUCCESS, free_rx nb s1) | Returned r \<Rightarrow> (r, s1))"
    using assms by (auto simp: onebox_mgmt_pkt_recv_def split: bind_splits)
  have f: "end_fate nb s end s1"
    using mgmt_state_step_fate [OF r(1)] by (simp add: end_fate_def one_fate_def pkts_kept_def handed_def)
  show ?thesis
  proof (cases "end")
    case Handled
    with f r(2) kept_then_fate [of s s1, OF _ free_rx_fate [of nb s1]] show ?thesis by (auto simp: end_fate_def)
  next
    case (Returned r)
    with f r(2) show ?thesis by (auto simp: end_fate_def)
  qed
qed

section \<open>Data packets\<close>

lemma note_rates_quiet: "note_rates msg ni s = Some s' \<Longrightarrow> mgmt_quiet s s'"
  by (auto simp: note_rates_def split: bind_splits)

lemma rx_traffic_quiet: "rx_traffic h v d s = Some s' \<Longrightarrow> mgmt_quiet s s'"
  by (auto simp: rx_traffic_def Let_def split: if_splits bind_splits intro: quiet_call_ps)

lemma deliver_data_cases:
  "deliver_data msg v ni d s = Some s' \<Longrightarrow>
     s' = net_log (Deliver_data v (iv_bss (m_vap s v)) d True) s \<or> (\<exists>a b c. s' = net_log (Input_data ni d a b c) s)"
  by (auto simp: deliver_data_def Let_def split: bind_splits if_splits)

lemma reorder_data_log:
  assumes "reorder_data h msg v d s = Some s'"
  shows "\<exists>t e. mgmt_quiet s t \<and> handed_by e = [d] \<and> s' = net_log e t"
proof -
  obtain node where node: "data_node s v d = Some node"
    using assms unfolding reorder_data_def bind_eq_Some_conv by blast
  show ?thesis
  proof (cases node)
    case None
    with assms node have "s' = net_log (Deliver_data v (iv_bss (m_vap s v)) d False) s" by (simp add: reorder_data_def)
    moreover have "handed_by (Deliver_data v (iv_bss (m_vap s v)) d False) = [d]" by simp
    ultimately show ?thesis using mgmt_quiet_refl by blast
  next
    case (Some ni)
    obtain s1 s2 where s: "note_rates msg ni s = Some s1" "rx_traffic h v d s1 = Some s2"
        "deliver_data msg v ni d s2 = Some s'"
      using assms node Some by (auto simp: reorder_data_def split: bind_splits)
    have "mgmt_quiet s s2" using note_rates_quiet [OF s(1)] rx_traffic_quiet [OF s(2)] by (rule mgmt_quiet_trans)
    with deliver_data_cases [OF s(3)] show ?thesis by (metis handed_by.simps(3,4))
  qed
qed

lemma reorder_locked_fate:
  assumes "reorder_locked nh nb s = Some s'"
  shows "one_fate (nb_data nb) s s'"
proof -
  consider "s' = free_rx nb s" | n nb' where "netbuf_pull n nb = Some nb'" "s' = free_rx nb' s"
    | n nb' v where "netbuf_pull n nb = Some nb'" "reorder_data (nh_core nh) (nb_data nb) v (nb_data nb') s = Some s'"
    using assms unfolding reorder_locked_def by (auto split: bind_splits option.splits if_splits)
  then show ?thesis
  proof cases
    case 1
    then show ?thesis by (simp add: free_rx_fate)
  next
    case 2
    then show ?thesis by (simp add: free_pulled_fate)
  next
    case 3
    obtain t e where e: "mgmt_quiet s t" "handed_by e = [nb_data nb']" "s' = net_log e t"
      using reorder_data_log [OF 3(2)] by blast
    have "one_fate (nb_data nb) t s'"
      unfolding e(3) using e(2) pulled_data [OF 3(1)] by (intro handed_fate [where n = n]) simp
    with quiet_kept [OF e(1)] show ?thesis by (rule kept_then_fate)
  qed
qed

lemma log_wlan_kept: "freed_by e = [] \<Longrightarrow> pkts_kept s (log_wlan e s)"
  by (simp add: pkts_kept_def log_wlan_def)

lemma reorder_pkt_fate:
  assumes "onebox_reorder_pkt nh nb s = Some s'"
  shows "one_fate (nb_data nb) s s'"
proof -
  let ?s0 = "(log_wlan (Acquire Ic_lock_vap) s)\<lparr>total_data_rx := total_data_rx s + 1\<rparr>"
  obtain t where t: "reorder_locked nh nb ?s0 = Some t" "s' = log_wlan (Release Ic_lock_vap) t"
    using assms by (auto simp: onebox_reorder_pkt_def)
  have "pkts_kept s ?s0"
    by (rule pkts_kept_trans [OF log_wlan_kept quiet_kept [OF quiet_record(2)]]) simp
  from kept_then_fate [OF this reorder_locked_fate [OF t(1)]] t(2) log_wlan_kept [of "Release Ic_lock_vap" t]
  show ?thesis by (auto intro: fate_then_kept)
qed

text \<open>
  C22. A packet that reaches the WLAN module, in whatever state the initialisation is and
  whatever its type, its length and its content, is either freed exactly once or handed to the
  802.11 stack exactly once, as itself or without its descriptor; no other packet is freed or
  handed over with it.
\<close>

theorem received_packet_has_one_fate:
  assumes "wlan_read_pkt nh nb s = Some s'"
  shows "\<exists>n. freed (g_trace s') = freed (g_trace s) + {#drop n (nb_data nb)#} \<and> handed s' = handed s \<or>
             freed (g_trace s') = freed (g_trace s) \<and> handed s' = handed s + {#drop n (nb_data nb)#}"
proof -
  let ?s1 = "s\<lparr>rx_packets := rx_packets s + 1\<rparr>"
  have "one_fate (nb_data nb) ?s1 s'"
    using assms unfolding wlan_read_pkt_def Let_def
    by (auto simp: free_rx_fate reorder_pkt_fate split: bind_splits if_splits
        dest!: mgmt_pkt_recv_fate intro: kept_then_fate free_rx_fate)
  from kept_then_fate [OF quiet_kept [OF quiet_record(3)] this] show ?thesis unfolding one_fate_def .
qed

text \<open>The antenna the firmware selected.\<close>

lemma received_packet_has_one_fate_witness:
  "\<exists>s' n. wlan_read_pkt sample_net_host (mgmt_packet 0x0f 0) (mgmt_sample FSM_MAC_INIT_DONE) = Some s' \<and>
     (freed (g_trace s') = {#drop n (nb_data (mgmt_packet 0x0f 0))#} \<and> handed s' = {#} \<or>
      freed (g_trace s') = {#} \<and> handed s' = {#drop n (nb_data (mgmt_packet 0x0f 0))#})"
proof -
  let ?s = "mgmt_sample FSM_MAC_INIT_DONE"
  have "wlan_read_pkt sample_net_host (mgmt_packet 0x0f 0) ?s \<noteq> None"
    by (simp add: wlan_read_pkt_def onebox_mgmt_pkt_recv_def mgmt_state_step_def on_init_done_def rd16_def rd8_def
        mgmt_sample_defs Let_def)
  then obtain s' where s': "wlan_read_pkt sample_net_host (mgmt_packet 0x0f 0) ?s = Some s'" by blast
  have "freed (g_trace ?s) = {#}" "handed ?s = {#}" by (simp_all add: mgmt_sample_defs freed_def handed_def)
  with received_packet_has_one_fate [OF s'] s' show ?thesis by auto
qed

end
