(* ===== verification/Wlan_Init.thy ===== *)
theory Wlan_Init
  imports Mgmt_Fate
begin

text \<open>
  The initialisation of the WLAN module as a protocol: the transitions the confirmations of the
  firmware may cause, that the receive path refines them, that the module is ready only after
  the confirmations it waits for, and that they suffice.
\<close>

section \<open>The protocol\<close>

abbreviation g_fsm :: "wlan_mgmt \<Rightarrow> fsm_state" where
  "g_fsm s \<equiv> w_fsm_state (g_wlan s)"

abbreviation g_mode :: "wlan_mgmt \<Rightarrow> u8" where
  "g_mode s \<equiv> w_driver_mode (g_wlan s)"

text \<open>What a packet says: management queue or not, its type and its subtype.\<close>

definition packet_label :: "netbuf \<Rightarrow> (bool \<times> u16 \<times> u16) option" where
  "packet_label nb =
     do { w0 \<leftarrow> rd16 (nb_data nb) 0; ty \<leftarrow> rd8 (nb_data nb) 2; sub \<leftarrow> rd8 (nb_data nb) 15;
          Some (drop_bit 12 (w0 AND 0x7000) = ONEBOX_WIFI_MGMT_Q, ucast ty, ucast sub) }"

definition confirms :: "u16 \<Rightarrow> netbuf \<Rightarrow> bool" where
  "confirms c nb \<longleftrightarrow> packet_label nb = Some (True, TA_CONFIRM_TYPE, c)"

text \<open>The transitions; \<open>flashing\<close> is the mode in which only the flash is written.\<close>

inductive init_step :: "bool \<Rightarrow> netbuf \<Rightarrow> fsm_state \<Rightarrow> fsm_state \<Rightarrow> bool" for flashing nb where
  stay: "init_step flashing nb f f"
| booted: "confirms BOOTUP_PARAMS_REQUEST nb \<Longrightarrow> \<not> flashing \<Longrightarrow>
     init_step flashing nb FSM_LOAD_BOOTUP_PARAMS FSM_RESET_MAC_CFM"
| flash_ready: "confirms BOOTUP_PARAMS_REQUEST nb \<Longrightarrow> flashing \<Longrightarrow>
     init_step flashing nb FSM_LOAD_BOOTUP_PARAMS FSM_MAC_INIT_DONE"
| radio_ready: "confirms RADIO_CAPABILITIES nb \<Longrightarrow> init_step flashing nb FSM_RESET_MAC_CFM FSM_MAC_INIT_DONE"
| programmed: "\<exists>c\<in>{BB_PROG_VALUES_REQUEST, RF_PROG_VALUES_REQUEST, BBP_PROG_IN_TA}. confirms c nb \<Longrightarrow>
     init_step flashing nb FSM_BB_RF_START FSM_MAC_INIT_DONE"
| aggregated: "init_step flashing nb FSM_AMPDU_IND_SENT FSM_MAC_INIT_DONE"

inductive_cases from_loaded: "init_step flashing nb FSM_FW_LOADED f"
inductive_cases from_boot: "init_step flashing nb FSM_LOAD_BOOTUP_PARAMS f"
inductive_cases from_reset: "init_step flashing nb FSM_RESET_MAC_CFM f"
inductive_cases from_done: "init_step flashing nb FSM_MAC_INIT_DONE f"

section \<open>The receive path refines it\<close>

lemma quiet_phase: "mgmt_quiet s s' \<Longrightarrow> g_fsm s' = g_fsm s \<and> g_mode s' = g_mode s"
  by (simp add: mgmt_quiet_def)

lemma set_fsm_sel [simp]: "g_fsm (set_fsm f s) = f" "g_mode (set_fsm f s) = g_mode s"
  by (simp_all add: set_fsm_def)

lemma apply_assets_sel [simp]: "g_wlan (apply_assets s) = g_wlan s"
  by (simp add: apply_assets_def Let_def)

lemma on_load_bootup_phase:
  "on_load_bootup h ty sub s = Some (end, s') \<Longrightarrow>
     g_mode s' = g_mode s \<and>
     (g_fsm s' = g_fsm s \<or>
      ty = TA_CONFIRM_TYPE \<and> sub = BOOTUP_PARAMS_REQUEST \<and>
      g_fsm s' = (if g_mode s = QSPI_FLASHING then FSM_MAC_INIT_DONE else FSM_RESET_MAC_CFM))"
  by (auto simp: on_load_bootup_def split: if_splits bind_splits dest!: reset_mac.quiet quiet_phase)

lemma on_reset_mac_phase:
  "on_reset_mac h ty sub s = Some (end, s') \<Longrightarrow>
     g_mode s' = g_mode s \<and>
     (g_fsm s' = g_fsm s \<or> ty = TA_CONFIRM_TYPE \<and> sub = RADIO_CAPABILITIES \<and> g_fsm s' = FSM_MAC_INIT_DONE)"
  by (auto simp: on_reset_mac_def split: if_splits bind_splits dest!: radio_caps.quiet bb_rf.quiet quiet_phase)

lemma free_rx_sel [simp]: "g_fsm (free_rx nb s) = g_fsm s" "g_mode (free_rx nb s) = g_mode s"
  by (simp_all add: free_rx_def log_wlan_def log_common_def)

lemma wlan_core_pkt_recv_phase:
  "wlan_core_pkt_recv nh nb rssi chno s = Some s' \<Longrightarrow> g_fsm s' = g_fsm s \<and> g_mode s' = g_mode s"
  unfolding wlan_core_pkt_recv_def bind_eq_Some_conv by (auto split: if_splits option.splits bind_splits)

lemma mgmt_pkt_to_core_phase:
  assumes "onebox_mgmt_pkt_to_core nh nb len ty s = Some (st, s')"
  shows "g_fsm s' = g_fsm s \<and> g_mode s' = g_mode s"
  using assms unfolding onebox_mgmt_pkt_to_core_def Let_def
  by (auto simp: dot11_mgmt_def split: bind_splits if_splits list.splits prod.splits
      dest!: wlan_core_pkt_recv_phase ps_notify_quiet beacon_event_quiet core_michael_failure_quiet quiet_phase)

lemma on_init_done_phase:
  assumes "on_init_done nh nb ty sub len s = Some (end, s')"
  shows "g_fsm s' = g_fsm s \<and> g_mode s' = g_mode s"
  using assms unfolding on_init_done_def Let_def
  by (auto split: if_splits bind_splits
      dest!: on_confirm_quiet on_tx_status_quiet on_tsf_sync_quiet quiet_phase mgmt_pkt_to_core_phase)

lemma mgmt_state_step_phase:
  assumes "mgmt_state_step nh nb' ty sub len s = Some (end, s')" "packet_label nb = Some (True, ty, sub)"
  shows "init_step (g_mode s = QSPI_FLASHING) nb (g_fsm s) (g_fsm s') \<and> g_mode s' = g_mode s"
proof (cases "g_fsm s")
  case FSM_LOAD_BOOTUP_PARAMS
  with assms on_load_bootup_phase [of "ch_host (nh_core nh)" ty sub s "end" s'] show ?thesis
    by (auto simp: mgmt_state_step_def confirms_def booted flash_ready stay split: if_splits)
next
  case FSM_RESET_MAC_CFM
  with assms on_reset_mac_phase [of "ch_host (nh_core nh)" ty sub s "end" s'] show ?thesis
    by (auto simp: mgmt_state_step_def confirms_def radio_ready stay)
next
  case FSM_BB_RF_START
  with assms show ?thesis
    by (auto simp: mgmt_state_step_def on_bb_rf_start_def confirms_def Let_def programmed stay)
next
  case FSM_AMPDU_IND_SENT
  with assms show ?thesis
    by (auto simp: mgmt_state_step_def on_ampdu_sent_def aggregated stay split: if_splits)
next
  case FSM_MAC_INIT_DONE
  with assms on_init_done_phase [of nh nb' ty sub len s "end" s'] show ?thesis
    by (simp add: mgmt_state_step_def stay)
qed (use assms in \<open>auto simp: mgmt_state_step_def stay\<close>)

lemma reorder_pkt_phase:
  assumes "onebox_reorder_pkt nh nb s = Some s'"
  shows "g_fsm s' = g_fsm s \<and> g_mode s' = g_mode s"
proof -
  have "g_fsm t = g_fsm x \<and> g_mode t = g_mode x" if "reorder_locked nh nb x = Some t" for x t
    using that unfolding reorder_locked_def
    by (auto split: bind_splits option.splits if_splits dest!: reorder_data_log quiet_phase)
  with assms show ?thesis by (fastforce simp: onebox_reorder_pkt_def log_wlan_def log_common_def)
qed

lemma wlan_read_pkt_phase:
  assumes "wlan_read_pkt nh nb s = Some s'"
  shows "init_step (g_mode s = QSPI_FLASHING) nb (g_fsm s) (g_fsm s') \<and> g_mode s' = g_mode s"
proof -
  obtain w0 where w0: "rd16 (nb_data nb) 0 = Some w0" using assms by (auto simp: wlan_read_pkt_def split: bind_splits)
  show ?thesis
  proof (cases "drop_bit 12 (w0 AND 0x7000) = ONEBOX_WIFI_MGMT_Q")
    case True
    obtain st t where t: "onebox_mgmt_pkt_recv nh nb (s\<lparr>rx_packets := rx_packets s + 1\<rparr>) = Some (st, t)"
        "s' = (if st \<noteq> 0 then free_rx nb t else t)"
      using assms w0 True by (auto simp: wlan_read_pkt_def Let_def split: bind_splits)
    obtain ty sub "end" u where u: "rd8 (nb_data nb) 2 = Some ty" "rd8 (nb_data nb) 15 = Some sub"
        "mgmt_state_step nh nb (ucast ty) (ucast sub) (unat (w0 AND 0xfff))
           (s\<lparr>rx_packets := rx_packets s + 1, total_mgmt_rx := total_mgmt_rx s + 1\<rparr>) = Some (end, u)"
        "t = (case end of Handled \<Rightarrow> free_rx nb u | Returned r \<Rightarrow> u)"
      using t(1) w0 by (auto simp: onebox_mgmt_pkt_recv_def split: bind_splits recv_end.splits)
    have "packet_label nb = Some (True, ucast ty, ucast sub)" using w0 u True by (simp add: packet_label_def)
    from mgmt_state_step_phase [OF u(3) this] t(2) u(4) show ?thesis by (cases "end") auto
  next
    case False
    with assms w0 have "g_fsm s' = g_fsm s \<and> g_mode s' = g_mode s"
      by (auto simp: wlan_read_pkt_def Let_def split: bind_splits if_splits dest: reorder_pkt_phase)
    then show ?thesis by (simp add: stay)
  qed
qed

text \<open>
  C23. The receive path refines the protocol of the initialisation: whatever packet arrives,
  the state of the module changes only along a transition the protocol allows for the type and
  subtype of that packet, and the mode of the driver not at all.
\<close>

theorem receive_refines_init_protocol:
  assumes "wlan_read_pkt nh nb s = Some s'"
  shows "init_step (g_mode s = QSPI_FLASHING) nb (g_fsm s) (g_fsm s') \<and> g_mode s' = g_mode s"
  using assms by (rule wlan_read_pkt_phase)

text \<open>The handling of one packet, where the handler leaves it to the receive path.\<close>

definition count_rx :: "wlan_mgmt \<Rightarrow> wlan_mgmt" where
  "count_rx s = s\<lparr>rx_packets := rx_packets s + 1, total_mgmt_rx := total_mgmt_rx s + 1\<rparr>"

lemma count_rx_sel [simp]: "g_wlan (count_rx s) = g_wlan s" "radio_timing (count_rx s) = radio_timing s"
  by (simp_all add: count_rx_def)

lemma read_handled:
  assumes "packet_label nb = Some (True, ty, sub)"
    and "\<And>len. mgmt_state_step nh nb ty sub len (count_rx s) = Some (end, t)" "end \<noteq> Returned 0"
  shows "wlan_read_pkt nh nb s = Some (free_rx nb t)"
proof -
  obtain w0 a b where l: "rd16 (nb_data nb) 0 = Some w0" "rd8 (nb_data nb) 2 = Some a" "rd8 (nb_data nb) 15 = Some b"
      "drop_bit 12 (w0 AND 0x7000) = ONEBOX_WIFI_MGMT_Q" "ucast a = ty" "ucast b = sub"
    using assms(1) by (auto simp: packet_label_def split: bind_splits)
  have "4 < length (nb_data nb)" using l(3) by (simp add: rd8_Some_iff)
  then have "rd8 (nb_data nb) 4 = Some (nb_data nb ! 4)" by simp
  with l assms(2,3) show ?thesis
    by (cases "end") (auto simp: wlan_read_pkt_def onebox_mgmt_pkt_recv_def Let_def count_rx_def)
qed

lemma mgmt_packet_label: "packet_label (mgmt_packet ty sub) = Some (True, ucast ty, ucast sub)"
  by (simp add: packet_label_def mgmt_packet_def fresh_netbuf_def rd16_def rd8_def nth_append)

lemma mgmt_packet_confirms: "confirms (ucast sub) (mgmt_packet 1 sub)"
  by (simp add: confirms_def mgmt_packet_label)

text \<open>The frames of the initialisation.\<close>

definition command_type :: "netbuf \<Rightarrow> u16 option" where
  "command_type nb = map_option (\<lambda>(ws, body). hd ws) (read_command (nb_data nb))"

abbreviation mgmt_queue :: "wlan_mgmt \<Rightarrow> netbuf list" where
  "mgmt_queue s \<equiv> host_tx_queue (g_wlan s) MGMT_SOFT_Q"

lemma free_rx_queue [simp]: "host_tx_queue (g_wlan (free_rx nb s)) = host_tx_queue (g_wlan s)"
  by (simp add: free_rx_def log_wlan_def)

lemma set_fsm_queue [simp]: "host_tx_queue (g_wlan (set_fsm f s)) = host_tx_queue (g_wlan s)"
  by (simp add: set_fsm_def)

lemma boot_confirmed:
  assumes "confirms BOOTUP_PARAMS_REQUEST nb" "g_fsm s = FSM_LOAD_BOOTUP_PARAMS" "g_mode s \<noteq> QSPI_FLASHING"
    and "h_alloc_skb (ch_host (nh_core nh)) (g_trace s)"
  shows "\<exists>s' c. wlan_read_pkt nh nb s = Some s' \<and> g_fsm s' = FSM_RESET_MAC_CFM \<and>
            mgmt_queue s' = mgmt_queue s @ [c] \<and> command_type c = Some RESET_MAC_REQ"
proof -
  let ?t = "net_log Net80211_attach (apply_assets (count_rx s))"
  obtain r u where u: "onebox_send_reset_mac (ch_host (nh_core nh)) ?t = Some (r, u)"
    using reset_mac.answers [of "ch_host (nh_core nh)" ?t] by auto
  have r: "r = ONEBOX_STATUS_SUCCESS" using reset_mac.succeeds_iff [OF u] assms(4) by simp
  have step: "mgmt_state_step nh nb TA_CONFIRM_TYPE BOOTUP_PARAMS_REQUEST len (count_rx s) =
      Some (Handled, set_fsm FSM_RESET_MAC_CFM u)" for len
    using assms(2,3) u r by (simp add: mgmt_state_step_def on_load_bootup_def)
  have "wlan_read_pkt nh nb s = Some (free_rx nb (set_fsm FSM_RESET_MAC_CFM u))"
    using assms(1) by (intro read_handled [OF _ step]) (simp_all add: confirms_def)
  moreover obtain d pad where "mgmt_queue u = mgmt_queue ?t @ [internal_mgmt_pkt d]"
      "read_command d = Some (tl (reset_mac_desc ?t), pad)"
    using reset_mac.delivered [of "ch_host (nh_core nh)" ?t u] u r by auto
  ultimately show ?thesis
    by (intro exI [of _ "free_rx nb (set_fsm FSM_RESET_MAC_CFM u)"] exI [of _ "internal_mgmt_pkt d"])
      (simp add: command_type_def reset_mac_desc_def Let_def)
qed

text \<open>The confirmation of the reset is reported as a failure precisely when the frame was sent.\<close>

lemma reset_confirmed:
  assumes "confirms RESET_MAC_REQ nb" "g_fsm s = FSM_RESET_MAC_CFM"
    and "h_alloc_skb (ch_host (nh_core nh)) (g_trace s)"
  shows "\<exists>s' c. wlan_read_pkt nh nb s = Some s' \<and> g_fsm s' = FSM_RESET_MAC_CFM \<and>
            mgmt_queue s' = mgmt_queue s @ [c] \<and> command_type c = Some RADIO_CAPABILITIES"
proof -
  let ?t = "(count_rx s)\<lparr>rx_filter_word := 0, radio_timing := [580, 346, 360, 2720, 9440, 0]\<rparr>"
  obtain r u where u: "onebox_load_radio_caps (ch_host (nh_core nh)) ?t = Some (r, u)"
    using radio_caps.answers [of "ch_host (nh_core nh)" ?t] by auto
  have r: "r = ONEBOX_STATUS_SUCCESS" using radio_caps.succeeds_iff [OF u] assms(3) by (simp add: count_rx_def)
  have step: "mgmt_state_step nh nb TA_CONFIRM_TYPE RESET_MAC_REQ len (count_rx s) =
      Some (Returned ONEBOX_STATUS_FAILURE, u)" for len
    using assms(2) u r by (simp add: mgmt_state_step_def on_reset_mac_def)
  have "wlan_read_pkt nh nb s = Some (free_rx nb u)"
    using assms(1) by (intro read_handled [OF _ step]) (simp_all add: confirms_def)
  moreover have "g_fsm u = FSM_RESET_MAC_CFM"
    using quiet_phase [OF radio_caps.quiet [OF u]] assms(2) by (simp add: count_rx_def)
  moreover obtain d pad where "mgmt_queue u = mgmt_queue ?t @ [internal_mgmt_pkt d]"
      "read_command d = Some (tl (radio_caps_desc ?t), pad)"
    using radio_caps.delivered [of "ch_host (nh_core nh)" ?t u] u r by auto
  ultimately show ?thesis
    by (intro exI [of _ "free_rx nb u"] exI [of _ "internal_mgmt_pkt d"])
      (simp add: command_type_def radio_caps_desc_def count_rx_def Let_def)
qed

lemma radio_caps_confirmed:
  assumes "confirms RADIO_CAPABILITIES nb" "g_fsm s = FSM_RESET_MAC_CFM"
    and "h_alloc_skb (ch_host (nh_core nh)) (g_trace s)"
  shows "\<exists>s' c. wlan_read_pkt nh nb s = Some s' \<and> g_fsm s' = FSM_MAC_INIT_DONE \<and>
            mgmt_queue s' = mgmt_queue s @ [c] \<and> command_type c = Some BBP_PROG_IN_TA"
proof -
  let ?t = "(count_rx s)\<lparr>rf_reset := True\<rparr>"
  obtain r u where u: "program_bb_rf (ch_host (nh_core nh)) ?t = Some (r, u)"
    using bb_rf.answers [of "ch_host (nh_core nh)" ?t] by auto
  have r: "r = ONEBOX_STATUS_SUCCESS" using bb_rf.succeeds_iff [OF u] assms(3) by (simp add: count_rx_def)
  have step: "mgmt_state_step nh nb TA_CONFIRM_TYPE RADIO_CAPABILITIES len (count_rx s) =
      Some (Handled, set_fsm FSM_MAC_INIT_DONE u)" for len
    using assms(2) u r by (simp add: mgmt_state_step_def on_reset_mac_def)
  have "wlan_read_pkt nh nb s = Some (free_rx nb (set_fsm FSM_MAC_INIT_DONE u))"
    using assms(1) by (intro read_handled [OF _ step]) (simp_all add: confirms_def)
  moreover obtain d pad where "mgmt_queue u = mgmt_queue ?t @ [internal_mgmt_pkt d]"
      "read_command d = Some (BBP_PROG_IN_TA # tl (tl [mgmt_word0 0, BBP_PROG_IN_TA, 0, rf_pwr_mode ?t, ucast (endpoint ?t), 0, 0,
         (if rf_reset ?t then 8 else 0) OR 0x10]), pad)"
    using bb_rf.delivered [of "ch_host (nh_core nh)" ?t u] u r by auto
  ultimately show ?thesis
    by (intro exI [of _ "free_rx nb (set_fsm FSM_MAC_INIT_DONE u)"] exI [of _ "internal_mgmt_pkt d"])
      (simp add: command_type_def count_rx_def)
qed

lemma receive_refines_init_protocol_witness:
  "\<exists>s'. wlan_read_pkt sample_net_host (mgmt_packet 1 12) (mgmt_sample FSM_LOAD_BOOTUP_PARAMS) = Some s' \<and>
     init_step False (mgmt_packet 1 12) FSM_LOAD_BOOTUP_PARAMS (g_fsm s')"
proof -
  let ?s = "mgmt_sample FSM_LOAD_BOOTUP_PARAMS"
  have s: "g_fsm ?s = FSM_LOAD_BOOTUP_PARAMS" "g_mode ?s \<noteq> QSPI_FLASHING"
      "h_alloc_skb (ch_host (nh_core sample_net_host)) (g_trace ?s)"
    by (simp_all add: mgmt_sample_defs)
  obtain s' where s': "wlan_read_pkt sample_net_host (mgmt_packet 1 12) ?s = Some s'"
    using boot_confirmed [OF _ s, of "mgmt_packet 1 12"] mgmt_packet_confirms [of 12] by auto
  from receive_refines_init_protocol [OF s'] s s' show ?thesis by auto
qed

section \<open>Ready only after the confirmations\<close>

text \<open>
  A run of the initialisation with the packets of the firmware since it was last started, in
  the order of their arrival. Other threads change the rest of the state at any time
  (\<open>others\<close>). Loading the module leaves the state \<^verbatim>\<open>FSM_FW_LOADED\<close>
  (\<^verbatim>\<open>onebox_wlan_osd_init.c\<close>), and the request that enables WLAN sets
  \<^verbatim>\<open>FSM_LOAD_BOOTUP_PARAMS\<close> (\<^verbatim>\<open>onebox_wlan_ioctl.c\<close>): both start it anew
  (\<open>started\<close>). The measurements of packet errors and of the carrier
  (\<^verbatim>\<open>onebox_wlan_ioctl.c\<close>, \<^verbatim>\<open>start_per_tx\<close> in \<^verbatim>\<open>onebox_wlan_per.c\<close>) write the state
  themselves; the requests for them are served outside the two modes with a
  network only (\<open>measuring\<close>).
\<close>

abbreviation network_mode :: "wlan_mgmt \<Rightarrow> bool" where
  "network_mode s \<equiv> g_mode s = WIFI_MODE_ON \<or> g_mode s = SNIFFER_MODE"

inductive init_run :: "net_host \<Rightarrow> netbuf list \<Rightarrow> wlan_mgmt \<Rightarrow> wlan_mgmt \<Rightarrow> bool" for nh where
  start: "init_run nh [] s s"
| packet: "init_run nh nbs s t \<Longrightarrow> wlan_read_pkt nh nb t = Some u \<Longrightarrow> init_run nh (nbs @ [nb]) s u"
| others: "init_run nh nbs s t \<Longrightarrow> g_fsm u = g_fsm t \<Longrightarrow> g_mode u = g_mode t \<Longrightarrow> init_run nh nbs s u"
| started: "init_run nh nbs s t \<Longrightarrow> g_fsm u = FSM_FW_LOADED \<or> g_fsm u = FSM_LOAD_BOOTUP_PARAMS \<Longrightarrow>
     g_mode u = g_mode t \<Longrightarrow> init_run nh [] s u"
| measuring: "init_run nh nbs s t \<Longrightarrow> \<not> network_mode t \<Longrightarrow>
     g_fsm u = FSM_SCAN_CFM \<or> g_fsm u = FSM_MAC_INIT_DONE \<or> g_fsm u = FSM_AMPDU_IND_SENT \<Longrightarrow>
     g_mode u = g_mode t \<Longrightarrow> init_run nh nbs s u"

definition confirmed :: "u16 \<Rightarrow> netbuf list \<Rightarrow> bool" where
  "confirmed c nbs \<longleftrightarrow> (\<exists>nb\<in>set nbs. confirms c nb)"

text \<open>First the boot-up confirmation, later that of the radio capabilities.\<close>

definition confirmed_in_order :: "netbuf list \<Rightarrow> bool" where
  "confirmed_in_order nbs \<longleftrightarrow>
     (\<exists>xs ys. nbs = xs @ ys \<and> confirmed BOOTUP_PARAMS_REQUEST xs \<and> confirmed RADIO_CAPABILITIES ys)"

lemma confirmed_append [simp]: "confirmed c (xs @ ys) \<longleftrightarrow> confirmed c xs \<or> confirmed c ys"
  by (auto simp: confirmed_def)

lemma confirmed_single [simp]: "confirmed c [nb] \<longleftrightarrow> confirms c nb"
  by (simp add: confirmed_def)

lemma in_order_append: "confirmed_in_order nbs \<Longrightarrow> confirmed_in_order (nbs @ ys)"
  by (force simp: confirmed_in_order_def)

definition phase_ok :: "netbuf list \<Rightarrow> fsm_state \<Rightarrow> bool" where
  "phase_ok nbs f \<longleftrightarrow>
     f = FSM_FW_LOADED \<or> f = FSM_LOAD_BOOTUP_PARAMS \<or>
     f = FSM_RESET_MAC_CFM \<and> confirmed BOOTUP_PARAMS_REQUEST nbs \<or>
     f = FSM_MAC_INIT_DONE \<and> confirmed_in_order nbs"

lemma phase_ok_step:
  assumes "phase_ok nbs f" "init_step False nb f f'"
  shows "phase_ok (nbs @ [nb]) f'"
proof -
  consider "f = FSM_FW_LOADED" | "f = FSM_LOAD_BOOTUP_PARAMS" | "f = FSM_RESET_MAC_CFM" "confirmed BOOTUP_PARAMS_REQUEST nbs"
    | "f = FSM_MAC_INIT_DONE" "confirmed_in_order nbs"
    using assms(1) by (auto simp: phase_ok_def)
  then show ?thesis
  proof cases
    case 1
    with assms(2) show ?thesis by (auto simp: phase_ok_def elim!: from_loaded)
  next
    case 2
    with assms(2) show ?thesis by (auto simp: phase_ok_def confirmed_def elim!: from_boot)
  next
    case 3
    have "confirmed_in_order (nbs @ [nb])" if "confirms RADIO_CAPABILITIES nb"
      unfolding confirmed_in_order_def using 3(2) that
      by (intro exI [of _ nbs] exI [of _ "[nb]"]) (simp add: confirmed_def)
    with 3 assms(2) show ?thesis by (auto simp: phase_ok_def confirmed_def elim!: from_reset)
  next
    case 4
    with assms(2) show ?thesis by (auto simp: phase_ok_def in_order_append elim!: from_done)
  qed
qed

lemma init_run_phase:
  assumes "init_run nh nbs s s'" "phase_ok [] (g_fsm s)" "network_mode s"
  shows "phase_ok nbs (g_fsm s') \<and> network_mode s'"
  using assms
proof (induction rule: init_run.induct)
  case (packet nbs s t nb u)
  then have "init_step False nb (g_fsm t) (g_fsm u) \<and> g_mode u = g_mode t"
    using wlan_read_pkt_phase [OF packet.hyps(2)] by auto
  with packet show ?case by (auto intro: phase_ok_step)
qed (auto simp: phase_ok_def)

text \<open>
  C24. In the modes with a network, whatever the firmware sends and other threads do, the WLAN module is
  ready only after the firmware confirmed the boot-up parameters and later its radio
  capabilities, in this order and both since the initialisation was last started. Other
  threads may change anything but the state of the initialisation, which they only write to
  start it anew; the measurements that write it otherwise are not served in these modes. (In the
  remaining modes they are, and set the ready state without a confirmation; the mode that only writes
  the flash is ready with the first confirmation.)
\<close>

theorem ready_only_after_confirmations:
  assumes "init_run nh nbs s s'" and "g_fsm s = FSM_FW_LOADED \<or> g_fsm s = FSM_LOAD_BOOTUP_PARAMS"
    and "network_mode s" and "g_fsm s' = FSM_MAC_INIT_DONE"
  shows "confirmed_in_order nbs"
proof -
  have "phase_ok [] (g_fsm s)" using assms(2) by (auto simp: phase_ok_def)
  with init_run_phase [OF assms(1) _ assms(3)] assms(4) show ?thesis by (simp add: phase_ok_def)
qed

section \<open>The confirmations suffice\<close>

primrec wlan_read_all :: "net_host \<Rightarrow> netbuf list \<Rightarrow> wlan_mgmt \<Rightarrow> wlan_mgmt option" where
  "wlan_read_all nh [] s = Some s"
| "wlan_read_all nh (nb # nbs) s = do { t \<leftarrow> wlan_read_pkt nh nb s; wlan_read_all nh nbs t }"

lemma wlan_read_all_run: "wlan_read_all nh nbs t = Some u \<Longrightarrow> init_run nh ps s t \<Longrightarrow> init_run nh (ps @ nbs) s u"
proof (induction nbs arbitrary: ps t)
  case (Cons nb nbs)
  from Cons.prems(1) obtain v where v: "wlan_read_pkt nh nb t = Some v" "wlan_read_all nh nbs v = Some u"
    by (auto split: bind_splits)
  from Cons.IH [OF v(2) packet [OF Cons.prems(2) v(1)]] show ?case by simp
qed simp

lemma initialisation_runs:
  assumes "\<And>t. h_alloc_skb (ch_host (nh_core nh)) t"
    and "g_fsm s = FSM_LOAD_BOOTUP_PARAMS" "g_mode s \<noteq> QSPI_FLASHING"
    and "confirms BOOTUP_PARAMS_REQUEST b" "confirms RESET_MAC_REQ r" "confirms RADIO_CAPABILITIES c"
  shows "\<exists>s' f1 f2 f3. wlan_read_all nh [b, r, c] s = Some s' \<and> g_fsm s' = FSM_MAC_INIT_DONE \<and>
            mgmt_queue s' = mgmt_queue s @ [f1, f2, f3] \<and>
            map command_type [f1, f2, f3] = [Some RESET_MAC_REQ, Some RADIO_CAPABILITIES, Some BBP_PROG_IN_TA]"
proof -
  obtain s1 f1 where 1: "wlan_read_pkt nh b s = Some s1" "g_fsm s1 = FSM_RESET_MAC_CFM" "mgmt_queue s1 = mgmt_queue s @ [f1]"
      "command_type f1 = Some RESET_MAC_REQ"
    using boot_confirmed [OF assms(4,2,3,1)] by blast
  obtain s2 f2 where 2: "wlan_read_pkt nh r s1 = Some s2" "g_fsm s2 = FSM_RESET_MAC_CFM" "mgmt_queue s2 = mgmt_queue s1 @ [f2]"
      "command_type f2 = Some RADIO_CAPABILITIES"
    using reset_confirmed [OF assms(5) 1(2) assms(1)] by blast
  obtain s3 f3 where 3: "wlan_read_pkt nh c s2 = Some s3" "g_fsm s3 = FSM_MAC_INIT_DONE" "mgmt_queue s3 = mgmt_queue s2 @ [f3]"
      "command_type f3 = Some BBP_PROG_IN_TA"
    using radio_caps_confirmed [OF assms(6) 2(2) assms(1)] by blast
  from 1 2 3 show ?thesis by auto
qed

text \<open>
  C25. With memory for its frames the initialisation completes: the confirmations of the
  boot-up parameters, of the reset and of the radio capabilities bring the module from its
  first state to the ready state, and the frames queued for the firmware on the way are, read
  back from their bytes, the reset, the radio capabilities and the baseband programming.
\<close>

theorem initialisation_completes:
  assumes "\<And>t. h_alloc_skb (ch_host (nh_core nh)) t"
    and "g_fsm s = FSM_LOAD_BOOTUP_PARAMS" "g_mode s \<noteq> QSPI_FLASHING"
    and "confirms BOOTUP_PARAMS_REQUEST b" "confirms RESET_MAC_REQ r" "confirms RADIO_CAPABILITIES c"
  shows "\<exists>s' f1 f2 f3. wlan_read_all nh [b, r, c] s = Some s' \<and> g_fsm s' = FSM_MAC_INIT_DONE \<and>
            mgmt_queue s' = mgmt_queue s @ [f1, f2, f3] \<and>
            map command_type [f1, f2, f3] = [Some RESET_MAC_REQ, Some RADIO_CAPABILITIES, Some BBP_PROG_IN_TA]"
  using assms by (rule initialisation_runs)

lemma sample_init:
  "g_fsm (mgmt_sample FSM_LOAD_BOOTUP_PARAMS) = FSM_LOAD_BOOTUP_PARAMS"
  "g_mode (mgmt_sample FSM_LOAD_BOOTUP_PARAMS) \<noteq> QSPI_FLASHING" "h_alloc_skb (ch_host (nh_core sample_net_host)) t"
  "mgmt_queue (mgmt_sample FSM_LOAD_BOOTUP_PARAMS) = []"
  by (simp_all add: mgmt_sample_defs)

lemma sample_confirms:
  "confirms BOOTUP_PARAMS_REQUEST (mgmt_packet 1 12)" "confirms RESET_MAC_REQ (mgmt_packet 1 1)"
  "confirms RADIO_CAPABILITIES (mgmt_packet 1 2)"
  using mgmt_packet_confirms [of 12] mgmt_packet_confirms [of 1] mgmt_packet_confirms [of 2] by simp_all

lemma initialisation_completes_witness:
  "\<exists>s' f1 f2 f3. wlan_read_all sample_net_host [mgmt_packet 1 12, mgmt_packet 1 1, mgmt_packet 1 2]
        (mgmt_sample FSM_LOAD_BOOTUP_PARAMS) = Some s' \<and> g_fsm s' = FSM_MAC_INIT_DONE \<and> mgmt_queue s' = [f1, f2, f3] \<and>
     map command_type [f1, f2, f3] = [Some 1, Some 2, Some 21]"
  using initialisation_completes [OF sample_init(3) sample_init(1,2) sample_confirms] sample_init(4) by simp

theorem ready_only_after_confirmations_witness:
  "confirmed_in_order [mgmt_packet 1 12, mgmt_packet 1 1, mgmt_packet 1 2]"
proof -
  let ?s = "mgmt_sample FSM_LOAD_BOOTUP_PARAMS"
  obtain s' where s': "wlan_read_all sample_net_host [mgmt_packet 1 12, mgmt_packet 1 1, mgmt_packet 1 2] ?s = Some s'"
      "g_fsm s' = FSM_MAC_INIT_DONE"
    using initialisation_runs [OF sample_init(3) sample_init(1,2) sample_confirms] by blast
  have m: "network_mode (mgmt_sample FSM_FW_LOADED)" "g_mode ?s = g_mode (mgmt_sample FSM_FW_LOADED)"
    by (simp_all add: mgmt_sample_defs)
  have "init_run sample_net_host [] (mgmt_sample FSM_FW_LOADED) ?s"
    by (rule started [OF start]) (use sample_init(1) m(2) in simp_all)
  from ready_only_after_confirmations [OF wlan_read_all_run [OF s'(1) this] _ m(1) s'(2)] show ?thesis
    by (simp add: mgmt_sample_defs)
qed

section \<open>What the initialisation does not get right\<close>

text \<open>A radio capability frame that was queued is reported as a failure, one that was not as a success.\<close>

lemma radio_caps_result_inverted:
  assumes "on_reset_mac h TA_CONFIRM_TYPE RESET_MAC_REQ s = Some (end, s')"
  shows "end = (if h_alloc_skb h (g_trace s) then Returned ONEBOX_STATUS_FAILURE else Handled)"
  using assms radio_caps.succeeds_iff
  by (fastforce simp: on_reset_mac_def split: bind_splits)

text \<open>Without that confirmation the module never becomes ready, and nothing sends the frame again.\<close>

lemma lost_radio_caps_never_ready:
  assumes "init_run nh nbs s s'" "phase_ok [] (g_fsm s)" "network_mode s"
    and "\<not> confirmed RADIO_CAPABILITIES nbs"
  shows "g_fsm s' \<noteq> FSM_MAC_INIT_DONE"
  using init_run_phase [OF assms(1-3)] assms(4) by (auto simp: phase_ok_def confirmed_in_order_def)

end
