(* ===== verification/Checksum.thy ===== *)
theory Checksum
  imports Onebox_Prelude
begin

text \<open>
  The ones' complement checksum of \<^verbatim>\<open>checksum_onescompliment.c\<close>, with which
  \<^verbatim>\<open>onebox_flashing.c\<close> verifies a flash image: the dwords of the scattered buffers are
  added with the carry put back, and the sum is inverted. It is the little-endian number
  made of the bytes, modulo \<open>2 ^ 32 - 1\<close>.
\<close>

section \<open>The routine\<close>

definition add_carry :: "u32 \<Rightarrow> u32 \<Rightarrow> u32" where
  "add_carry acc dword = (let s = acc + dword in if s < dword then s + 1 else s)"

text \<open>The loop over the whole dwords: \<open>n\<close> are left, the next one is at \<open>cnt\<close>.\<close>

fun accumulate :: "bytes \<Rightarrow> nat \<Rightarrow> nat \<Rightarrow> u32 \<Rightarrow> u32 option" where
  "accumulate buf 0 cnt acc = Some acc"
| "accumulate buf (Suc n) cnt acc =
     do { dword \<leftarrow> rd32 buf cnt; accumulate buf n (cnt + 4) (add_carry acc dword) }"

definition checksum_addition :: "bytes \<Rightarrow> u32 \<Rightarrow> u32 \<Rightarrow> u32 option" where
  "checksum_addition buf len prev_sum =
     (if len = 0 then Some prev_sum
      else (let cnt_limit = len AND NOT 3 in
        do { acc \<leftarrow> accumulate buf (unat cnt_limit div 4) 0 prev_sum;
             if len AND 3 \<noteq> 0 then
               (let dword = NOT (push_bit (8 * unat (len AND 3)) 0xffffffff :: u32) in
                do { d \<leftarrow> rd32 buf (unat cnt_limit); Some (add_carry acc (d AND dword)) })
             else Some acc }))"

fun checksum_scatters :: "(bytes \<times> u32) list \<Rightarrow> u32 \<Rightarrow> u32 option" where
  "checksum_scatters [] acc = Some acc"
| "checksum_scatters ((buf, len) # ss) acc =
     do { s \<leftarrow> checksum_addition buf len acc; checksum_scatters ss s }"

definition checksum_32bit :: "(bytes \<times> u32) list \<Rightarrow> u32 option" where
  "checksum_32bit scatters = do { s \<leftarrow> checksum_scatters scatters 0; Some (NOT s) }"

section \<open>Addition with the carry put back\<close>

abbreviation (input) ones_mod :: nat where "ones_mod \<equiv> 2 ^ 32 - 1"

lemma add_carry_mod: "unat (add_carry a b) mod ones_mod = (unat a + unat b) mod ones_mod"
proof -
  have lt: "unat a < 2 ^ 32" "unat b < 2 ^ 32"
    using unsigned_less [of a, where ?'a = nat] unsigned_less [of b, where ?'a = nat] by simp_all
  show ?thesis
  proof (cases "unat a + unat b < 2 ^ 32")
    case True
    then have "unat (a + b) = unat a + unat b" by (simp add: unat_word_ariths)
    then show ?thesis by (simp add: add_carry_def Let_def word_less_nat_alt)
  next
    case False
    then have s: "unat (a + b) = unat a + unat b - 2 ^ 32"
      using lt by (simp add: unat_word_ariths mod_if)
    then have "unat (a + b) < unat b" "unat (a + b) + 1 < 2 ^ 32" using lt False by linarith+
    then have "unat (add_carry a b) = unat a + unat b - ones_mod"
      using s False by (simp add: add_carry_def Let_def word_less_nat_alt unat_word_ariths)
    moreover have "ones_mod \<le> unat a + unat b" using False by simp
    ultimately show ?thesis by (simp add: le_mod_geq)
  qed
qed

section \<open>A dword as a number\<close>

definition le_value :: "bytes \<Rightarrow> nat \<Rightarrow> nat" where
  "le_value buf n = (\<Sum>i<n. unat (buf ! i) * 256 ^ (i mod 4))"

lemma unat_two_bytes: "unat (two_bytes lo hi) = unat lo + 256 * unat hi"
proof -
  have "two_bytes lo hi = ucast lo + push_bit 8 (ucast hi)"
    unfolding two_bytes_def
    by (rule disjunctive_add [symmetric]) (auto simp: bit_simps dest: bit_imp_le_length)
  moreover have "unat lo < 256" "unat hi < 256"
    using unsigned_less [of lo, where ?'a = nat] unsigned_less [of hi, where ?'a = nat] by simp_all
  ultimately show ?thesis
    by (simp add: unat_word_ariths unat_ucast_widen push_bit_eq_mult)
qed


lemma plus_3: "n + 3 = Suc (Suc (Suc n))"
  by simp

lemma rd16_two_bytes: "Suc i < length b \<Longrightarrow> rd16 b i = Some (two_bytes (b ! i) (b ! Suc i))"
  by (simp add: rd16_def two_bytes_def)

lemma rd32_value:
  assumes "i + 3 < length b"
  obtains d where "rd32 b i = Some d"
    "unat d = unat (b ! i) + 256 * unat (b ! (i + 1)) + 256 ^ 2 * unat (b ! (i + 2)) + 256 ^ 3 * unat (b ! (i + 3))"
proof -
  let ?lo = "two_bytes (b ! i) (b ! Suc i)" and ?hi = "two_bytes (b ! (i + 2)) (b ! Suc (i + 2))"
  have r: "rd32 b i = Some (ucast ?lo OR push_bit 16 (ucast ?hi))"
    using assms by (simp add: rd32_def rd16_two_bytes)
  have "(ucast ?lo OR push_bit 16 (ucast ?hi) :: u32) = ucast ?lo + push_bit 16 (ucast ?hi)"
    by (rule disjunctive_add [symmetric]) (auto simp: bit_simps dest: bit_imp_le_length)
  moreover have "unat ?lo < 65536" "unat ?hi < 65536"
    using unsigned_less [of ?lo, where ?'a = nat] unsigned_less [of ?hi, where ?'a = nat] by simp_all
  ultimately have "unat (ucast ?lo OR push_bit 16 (ucast ?hi) :: u32) = unat ?lo + 65536 * unat ?hi"
    by (simp add: unat_word_ariths unat_ucast_widen push_bit_eq_mult)
  then show thesis using that [OF r] by (simp add: unat_two_bytes plus_3)
qed

lemma rd32_out: "length b \<le> i + 3 \<Longrightarrow> rd32 b i = None"
  by (cases "rd16 b i") (simp_all add: rd32_def)

text \<open>The dword at a multiple of four adds four terms to the value.\<close>

lemma le_value_add4:
  "le_value b (4 * n + 4) = le_value b (4 * n) +
     (unat (b ! (4 * n)) + 256 * unat (b ! (4 * n + 1)) + 256 ^ 2 * unat (b ! (4 * n + 2)) + 256 ^ 3 * unat (b ! (4 * n + 3)))"
proof -
  have "4 * n + 4 = Suc (Suc (Suc (Suc (4 * n))))" by simp
  then have "le_value b (4 * n + 4) = le_value b (4 * n) + unat (b ! (4 * n)) * 256 ^ (4 * n mod 4)
     + unat (b ! (Suc (4 * n))) * 256 ^ (Suc (4 * n) mod 4) + unat (b ! Suc (Suc (4 * n))) * 256 ^ (Suc (Suc (4 * n)) mod 4)
     + unat (b ! Suc (Suc (Suc (4 * n)))) * 256 ^ (Suc (Suc (Suc (4 * n))) mod 4)"
    by (simp only: le_value_def sum.lessThan_Suc)
  moreover have "Suc (4 * n) mod 4 = 1" "Suc (Suc (4 * n)) mod 4 = 2" "Suc (Suc (Suc (4 * n))) mod 4 = 3"
    by presburger+
  ultimately show ?thesis by (simp add: plus_3)
qed

lemma mod_add_chain: "(x :: nat) mod m = (a + y) mod m \<Longrightarrow> a mod m = (p + b) mod m \<Longrightarrow> x mod m = (p + (b + y)) mod m"
  by (metis add.assoc mod_add_left_eq)

lemma accumulate_value:
  assumes "4 * (k + n) \<le> length b" "unat acc mod ones_mod = (p + le_value b (4 * k)) mod ones_mod"
  shows "\<exists>s. accumulate b n (4 * k) acc = Some s \<and> unat s mod ones_mod = (p + le_value b (4 * (k + n))) mod ones_mod"
  using assms
proof (induction n arbitrary: k acc)
  case 0
  then show ?case by simp
next
  case (Suc n)
  obtain d where d: "rd32 b (4 * k) = Some d" and
      v: "unat d = unat (b ! (4 * k)) + 256 * unat (b ! (4 * k + 1)) + 256 ^ 2 * unat (b ! (4 * k + 2)) + 256 ^ 3 * unat (b ! (4 * k + 3))"
    using rd32_value [of "4 * k" b] Suc.prems(1) by auto
  have "unat (add_carry acc d) mod ones_mod = (p + (le_value b (4 * k) + unat d)) mod ones_mod"
    using mod_add_chain [OF add_carry_mod Suc.prems(2)] by simp
  also have "le_value b (4 * k) + unat d = le_value b (4 * Suc k)"
    using le_value_add4 [of b k] v by (simp add: add.commute)
  finally show ?case
    using Suc.IH [of "Suc k" "add_carry acc d"] Suc.prems(1) d by (simp add: add.commute)
qed

section \<open>The tail that is not a whole dword\<close>

text \<open>What \<^verbatim>\<open>checksum_addition\<close> may read: the buffer reaches to a dword boundary.\<close>

definition padded :: "bytes \<times> u32 \<Rightarrow> bool" where
  "padded s \<longleftrightarrow> 4 * ((unat (snd s) + 3) div 4) \<le> length (fst s)"

lemma dword_mask: "NOT (push_bit n (0xffffffff :: u32)) = mask n"
proof -
  have "(0xffffffff :: u32) = -1" by simp
  then show ?thesis by (simp only:) (rule bit_word_eqI, auto simp: bit_simps)
qed


lemma le_value_add:
  "le_value b (4 * n + 1) = le_value b (4 * n) + unat (b ! (4 * n))"
  "le_value b (4 * n + 2) = le_value b (4 * n) + (unat (b ! (4 * n)) + 256 * unat (b ! (4 * n + 1)))"
  "le_value b (4 * n + 3) = le_value b (4 * n) +
     (unat (b ! (4 * n)) + 256 * unat (b ! (4 * n + 1)) + 65536 * unat (b ! (4 * n + 2)))"
proof -
  have "Suc (4 * n) mod 4 = 1" "Suc (Suc (4 * n)) mod 4 = 2" by presburger+
  then show "le_value b (4 * n + 1) = le_value b (4 * n) + unat (b ! (4 * n))"
    "le_value b (4 * n + 2) = le_value b (4 * n) + (unat (b ! (4 * n)) + 256 * unat (b ! (4 * n + 1)))"
    "le_value b (4 * n + 3) = le_value b (4 * n) +
       (unat (b ! (4 * n)) + 256 * unat (b ! (4 * n + 1)) + 65536 * unat (b ! (4 * n + 2)))"
    by (simp_all add: le_value_def plus_3)
qed

lemma low_part: "x < m \<Longrightarrow> (x + m * y) mod m = (x :: nat)"
  by simp

lemma masked_dword:
  assumes "rd32 b (4 * n) = Some d" "0 < r" "r < 4"
  shows "le_value b (4 * n + r) = le_value b (4 * n) + unat (d AND mask (8 * r))"
proof -
  have "4 * n + 3 < length b" using assms(1) rd32_out [of b "4 * n"] by (cases "4 * n + 3 < length b") auto
  then have v: "unat d = unat (b ! (4 * n)) + 256 * unat (b ! (4 * n + 1)) + 256 ^ 2 * unat (b ! (4 * n + 2))
      + 256 ^ 3 * unat (b ! (4 * n + 3))"
    using rd32_value [of "4 * n" b] assms(1) by auto
  have m: "unat (d AND mask (8 * r)) = unat d mod 2 ^ (8 * r)"
    by (simp add: unsigned_take_bit_eq flip: take_bit_eq_mask take_bit_eq_mod)
  have lt: "unat (b ! i) < 256" for i using unsigned_less [of "b ! i", where ?'a = nat] by simp
  consider "r = 1" | "r = 2" | "r = 3" using assms(2,3) by linarith
  then show ?thesis
  proof cases
    case 1
    have "unat d = unat (b ! (4 * n))
        + 256 * (unat (b ! (4 * n + 1)) + 256 * unat (b ! (4 * n + 2)) + 65536 * unat (b ! (4 * n + 3)))" using v by simp
    then have "unat d mod 256 = unat (b ! (4 * n))" by (simp only: low_part [OF lt])
    then show ?thesis using 1 m le_value_add(1) [of b n] by simp
  next
    case 2
    have "unat d = (unat (b ! (4 * n)) + 256 * unat (b ! (4 * n + 1)))
        + 65536 * (unat (b ! (4 * n + 2)) + 256 * unat (b ! (4 * n + 3)))" using v by simp
    moreover have "unat (b ! (4 * n)) + 256 * unat (b ! (4 * n + 1)) < 65536"
      using lt [of "4 * n"] lt [of "4 * n + 1"] by linarith
    ultimately have "unat d mod 65536 = unat (b ! (4 * n)) + 256 * unat (b ! (4 * n + 1))"
      by (simp only: low_part)
    then show ?thesis using 2 m le_value_add(2) [of b n] by simp
  next
    case 3
    have "unat d = (unat (b ! (4 * n)) + 256 * unat (b ! (4 * n + 1)) + 65536 * unat (b ! (4 * n + 2)))
        + 16777216 * unat (b ! (4 * n + 3))" using v by simp
    moreover have "unat (b ! (4 * n)) + 256 * unat (b ! (4 * n + 1)) + 65536 * unat (b ! (4 * n + 2)) < 16777216"
      using lt [of "4 * n"] lt [of "4 * n + 1"] lt [of "4 * n + 2"] by linarith
    ultimately have "unat d mod 16777216 = unat (b ! (4 * n)) + 256 * unat (b ! (4 * n + 1)) + 65536 * unat (b ! (4 * n + 2))"
      by (simp only: low_part)
    then show ?thesis using 3 m le_value_add(3) [of b n] by simp
  qed
qed

lemma len_parts:
  "unat (len AND 3) = unat (len :: u32) mod 4" "unat (len AND NOT 3) = 4 * (unat len div 4)"
  "unat (len AND -4) = 4 * (unat len div 4)"
proof -
  have 3: "(3 :: u32) = mask 2" by (simp add: mask_eq_exp_minus_1)
  show r: "unat (len AND 3) = unat len mod 4"
    using take_bit_eq_mod [of 2 "unat len"] by (simp add: 3 unsigned_take_bit_eq flip: take_bit_eq_mask)
  have "(len AND NOT 3) + (len AND 3) = (len AND NOT 3) OR (len AND 3)"
    by (rule disjunctive_add) (simp add: bit_simps)
  also have "\<dots> = len" by (rule bit_word_eqI) (auto simp: bit_simps)
  finally have "len AND NOT 3 = len - (len AND 3)" by (metis add_diff_cancel_right')
  moreover have "len AND 3 \<le> len" by (simp add: word_le_nat_alt r)
  ultimately have "unat (len AND NOT 3) = unat len - unat (len AND 3)" by (metis unat_sub)
  then show *: "unat (len AND NOT 3) = 4 * (unat len div 4)" using r by (metis minus_mod_eq_mult_div)
  have "NOT 3 = (-4 :: u32)" by simp
  then show "unat (len AND -4) = 4 * (unat len div 4)" using * by simp
qed

lemma checksum_addition_value:
  assumes "padded (b, len)" "unat acc mod ones_mod = p mod ones_mod"
  shows "\<exists>s. checksum_addition b len acc = Some s \<and> unat s mod ones_mod = (p + le_value b (unat len)) mod ones_mod"
proof (cases "len = 0")
  case True
  then show ?thesis using assms by (simp add: checksum_addition_def le_value_def)
next
  case False
  let ?n = "unat len div 4" and ?r = "unat len mod 4"
  have len: "unat len = 4 * ?n + ?r" by simp
  have "4 * (0 + ?n) \<le> length b" using assms(1) unfolding padded_def fst_conv snd_conv by presburger
  then obtain s where s: "accumulate b ?n 0 acc = Some s" "unat s mod ones_mod = (p + le_value b (4 * ?n)) mod ones_mod"
    using accumulate_value [of 0 ?n b acc p] assms(2) by (auto simp: le_value_def)
  show ?thesis
  proof (cases "len AND 3 = 0")
    case True
    then have "?r = 0" using len_parts(1) [of len] by simp
    then have e: "4 * ?n = unat len" using len by linarith
    have "checksum_addition b len acc = Some s"
      using s(1) False True by (simp add: checksum_addition_def Let_def len_parts)
    then show ?thesis using s(2) unfolding e by blast
  next
    case nz: False
    then have r: "0 < ?r" "?r < 4" using len_parts(1) [of len] by (metis gr0I unat_eq_zero, simp)
    have "unat len + 3 = 4 * ((unat len + 3) div 4) + (unat len + 3) mod 4" "(unat len + 3) mod 4 < 4" by simp_all
    then have "?n < (unat len + 3) div 4" using r len by linarith
    then have "4 * ?n + 3 < length b" using assms(1) by (simp add: padded_def)
    then obtain d where d: "rd32 b (4 * ?n) = Some d" using rd32_value [of "4 * ?n" b] by metis
    let ?t = "add_carry s (d AND mask (8 * ?r))"
    have "checksum_addition b len acc = Some ?t"
      using False nz s(1) d by (simp add: checksum_addition_def Let_def len_parts dword_mask)
    moreover have "unat ?t mod ones_mod = (p + (le_value b (4 * ?n) + unat (d AND mask (8 * ?r)))) mod ones_mod"
      by (rule mod_add_chain [OF add_carry_mod s(2)])
    ultimately show ?thesis using masked_dword [OF d r] len by metis
  qed
qed


section \<open>The checksum of scattered buffers\<close>

definition scatter_value :: "(bytes \<times> u32) list \<Rightarrow> nat" where
  "scatter_value ss = (\<Sum>(b, len)\<leftarrow>ss. le_value b (unat len))"

lemma checksum_scatters_value:
  "\<forall>x\<in>set ss. padded x \<Longrightarrow> unat acc mod ones_mod = p mod ones_mod \<Longrightarrow>
     \<exists>s. checksum_scatters ss acc = Some s \<and> unat s mod ones_mod = (p + scatter_value ss) mod ones_mod"
proof (induction ss arbitrary: acc p)
  case Nil
  then show ?case by (simp add: scatter_value_def)
next
  case (Cons x ss)
  obtain b len where x: "x = (b, len)" by fastforce
  obtain s where s: "checksum_addition b len acc = Some s"
      "unat s mod ones_mod = (p + le_value b (unat len)) mod ones_mod"
    using checksum_addition_value [of b len acc p] Cons.prems x by auto
  show ?case
    using Cons.IH [OF _ s(2)] Cons.prems(1) s(1) x by (simp add: scatter_value_def add.assoc)
qed

lemma checksum_32bit_value:
  assumes "\<forall>x\<in>set scatters. padded x"
  shows "\<exists>c. checksum_32bit scatters = Some c \<and> unat (NOT c) mod ones_mod = scatter_value scatters mod ones_mod"
proof -
  obtain s where s: "checksum_scatters scatters 0 = Some s" "unat s mod ones_mod = (0 + scatter_value scatters) mod ones_mod"
    using checksum_scatters_value [OF assms, of 0 0] unsigned_0 by metis
  have "checksum_32bit scatters = Some (NOT s)" using s(1) by (simp add: checksum_32bit_def)
  moreover have "unat (NOT (NOT s)) mod ones_mod = scatter_value scatters mod ones_mod"
    using s(2) by (simp only: bit.double_compl add_0)
  ultimately show ?thesis by blast
qed

lemma scatter_value_single: "scatter_value [(b, len)] = le_value b (unat len)"
  by (simp add: scatter_value_def)

text \<open>
  C40. The checksum of scattered buffers is defined when each reaches to a dword boundary, and
  its complement is the sum of the little-endian values of the buffers modulo
  \<open>2 ^ 32 - 1\<close>: it depends on the bytes within the given lengths only, not on the padding.
\<close>

theorem checksum_is_ones_complement_sum:
  assumes "\<forall>x\<in>set scatters. padded x"
  shows "\<exists>c. checksum_32bit scatters = Some c \<and>
             unat (NOT c) mod (2 ^ 32 - 1) = scatter_value scatters mod (2 ^ 32 - 1)"
  by (rule checksum_32bit_value [OF assms])

lemma checksum_is_ones_complement_sum_witness:
  "\<exists>c. checksum_32bit [([1, 2, 3, 4], 4), ([255, 255, 9, 9], 2)] = Some c \<and>
       unat (NOT c) mod (2 ^ 32 - 1) = 67305985 + 65535"
proof -
  have "\<forall>x\<in>set [([1, 2, 3, 4], 4 :: u32), ([255, 255, 9, 9], 2)]. padded x" by (simp add: padded_def)
  moreover have "scatter_value [([1, 2, 3, 4], 4), ([255, 255, 9, 9], 2)] = 67305985 + 65535"
    by (simp add: scatter_value_def le_value_def lessThan_nat_numeral)
  ultimately show ?thesis using checksum_is_ones_complement_sum by fastforce
qed

text \<open>Two values that differ by less than the modulus, and differ, have different remainders.\<close>

lemma mod_differ:
  assumes "(a :: nat) \<noteq> b" "a < b + m" "b < a + m"
  shows "a mod m \<noteq> b mod m"
proof
  assume "a mod m = b mod m"
  then have "int m dvd int a - int b" by (metis mod_eq_dvd_iff of_nat_mod)
  then show False using assms zdvd_not_zless [of "int a - int b" "int m"] zdvd_not_zless [of "int b - int a" "int m"]
    by (cases "a < b") (auto simp: dvd_diff_commute)
qed

lemma le_value_update:
  assumes "i < n" "n \<le> length b"
  shows "le_value (b[i := y]) n + unat (b ! i) * 256 ^ (i mod 4) = le_value b n + unat y * 256 ^ (i mod 4)"
proof -
  have f: "finite {..<n}" "i \<in> {..<n}" using assms(1) by simp_all
  have "(\<Sum>k\<in>{..<n} - {i}. unat (b[i := y] ! k) * 256 ^ (k mod 4)) = (\<Sum>k\<in>{..<n} - {i}. unat (b ! k) * 256 ^ (k mod 4))"
    by (rule sum.cong) auto
  moreover have "le_value (b[i := y]) n = unat y * 256 ^ (i mod 4)
      + (\<Sum>k\<in>{..<n} - {i}. unat (b[i := y] ! k) * 256 ^ (k mod 4))"
    using sum.remove [OF f, of "\<lambda>k. unat (b[i := y] ! k) * 256 ^ (k mod 4)"] assms by (simp add: le_value_def)
  moreover have "le_value b n = unat (b ! i) * 256 ^ (i mod 4)
      + (\<Sum>k\<in>{..<n} - {i}. unat (b ! k) * 256 ^ (k mod 4))"
    using sum.remove [OF f, of "\<lambda>k. unat (b ! k) * 256 ^ (k mod 4)"] by (simp add: le_value_def)
  ultimately show ?thesis by simp
qed

text \<open>
  The checksum detects the corruption of any one byte of an image: with byte \<open>i\<close> replaced
  by a different one, the checksum is defined and different.
\<close>

theorem checksum_detects_byte_error:
  assumes "padded (buf, len)" "i < unat len" "y \<noteq> buf ! i"
  shows "\<exists>c c'. checksum_32bit [(buf, len)] = Some c \<and> checksum_32bit [(buf[i := y], len)] = Some c' \<and> c \<noteq> c'"
proof -
  let ?b = "buf[i := y]"
  obtain c where c: "checksum_32bit [(buf, len)] = Some c"
      "unat (NOT c) mod ones_mod = le_value buf (unat len) mod ones_mod"
    using checksum_32bit_value [of "[(buf, len)]"] assms(1) unfolding scatter_value_single by auto
  have "padded (?b, len)" using assms(1) by (simp add: padded_def)
  then obtain c' where c': "checksum_32bit [(?b, len)] = Some c'"
      "unat (NOT c') mod ones_mod = le_value ?b (unat len) mod ones_mod"
    using checksum_32bit_value [of "[(?b, len)]"] unfolding scatter_value_single by auto
  have "unat len \<le> length buf" using assms(1) unfolding padded_def fst_conv snd_conv by presburger
  note u = le_value_update [OF assms(2) this, of y]
  have "(256 :: nat) ^ (i mod 4) \<le> 256 ^ 3" using power_increasing [of "i mod 4" 3 "256 :: nat"] by simp
  moreover have "unat y \<le> 255" "unat (buf ! i) \<le> 255"
    using unsigned_less [of y, where ?'a = nat] unsigned_less [of "buf ! i", where ?'a = nat] by simp_all
  ultimately have m: "unat y * 256 ^ (i mod 4) < ones_mod" "unat (buf ! i) * 256 ^ (i mod 4) < ones_mod"
    using mult_le_mono [of "unat y" 255 "256 ^ (i mod 4)" "256 ^ 3"]
      mult_le_mono [of "unat (buf ! i)" 255 "256 ^ (i mod 4)" "256 ^ 3"] by simp_all
  have ne: "unat y * 256 ^ (i mod 4) \<noteq> unat (buf ! i) * 256 ^ (i mod 4)" using assms(3) by (simp add: word_unat_eq_iff)
  have "le_value ?b (unat len) mod ones_mod \<noteq> le_value buf (unat len) mod ones_mod"
    by (rule mod_differ) (use u m ne in linarith)+
  then show ?thesis using c c' by (metis option.inject)
qed

lemma checksum_detects_byte_error_witness:
  "\<exists>c c'. checksum_32bit [([1, 2, 3, 4, 5, 0, 0, 0], 5)] = Some c \<and>
          checksum_32bit [([1, 2, 3, 4, 6, 0, 0, 0], 5)] = Some c' \<and> c \<noteq> c'"
proof -
  have "padded ([1, 2, 3, 4, 5, 0, 0, 0], 5)" "4 < unat (5 :: u32)" "(6 :: u8) \<noteq> [1, 2, 3, 4, 5, 0, 0, 0] ! 4"
    by (simp_all add: padded_def)
  from checksum_detects_byte_error [OF this] show ?thesis by (simp add: numeral_eq_Suc)
qed

text \<open>
  Without the padding the last dword is read past the end of the buffer: for a length that
  is no multiple of four the routine reads four bytes where fewer are left.
\<close>

lemma tail_read_past_end: "checksum_32bit [([1, 2, 3, 4, 5], 5)] = None"
  by code_simp

end
