(* ===== verification/Sta_Table.thy ===== *)
theory Sta_Table
  imports Mgmt_Fate
begin

text \<open>
  The table of the connected stations, \<^verbatim>\<open>core_send_station_info\<close>: an
  invariant that ties the slots, the bit map of the used ones and the numbers the nodes carry
  to each other, and the finite map from addresses to nodes that the table implements.
\<close>

section \<open>The frames leave the table alone\<close>

abbreviation same_table :: "wlan_mgmt \<Rightarrow> wlan_mgmt \<Rightarrow> bool" where
  "same_table s s' \<equiv> table_view s' = table_view s"

lemma quiet_table: "mgmt_quiet s s' \<Longrightarrow> same_table s s'"
  by (simp add: mgmt_quiet_def)

lemma same_table_sel:
  assumes "same_table s s'"
  shows "sta s' = sta s" "sta_connected_bitmap (g_wlan s') = sta_connected_bitmap (g_wlan s)"
    "max_stations_supported (g_wlan s') = max_stations_supported (g_wlan s)"
    "node_sta_id (g_node s' ni) = node_sta_id (g_node s ni)" "ni_macaddr (g_node s' ni) = ni_macaddr (g_node s ni)"
  using assms by (auto simp: table_view_def dest: fun_cong [where x = ni])

lemma send_ampdu_quiet: "onebox_send_ampdu_indication_frame h ni event s = Some (r, s') \<Longrightarrow> mgmt_quiet s s'"
  by (auto simp: onebox_send_ampdu_indication_frame_def ampdu_desc_def Let_def
      split: bind_splits notify_event.splits if_splits elim!: quiet_send_mgmt [rotated])

lemma set_vap_capabilities_quiet: "set_vap_capabilities h v st s = Some (r, s') \<Longrightarrow> mgmt_quiet s s'"
  by (auto simp: set_vap_capabilities_def vap_caps_desc_def split: if_splits elim!: quiet_send_mgmt [rotated])

lemma hal_load_key_quiet:
  assumes "hal_load_key h data kl sid ty k cipher v s = Some (r, s')"
  shows "mgmt_quiet s s'"
proof -
  let ?hostap = "iv_opmode (g_vap s v) = M_HOSTAP"
  let ?desc = "[mgmt_word0 144, SET_KEY, 0, 0, key_descriptor ?hostap ty k cipher kl, 0, 0,
                sid OR push_bit 8 (ucast (vap_id (g_txvap s v)))]"
  obtain known where known: "(if ty = ONEBOX_PAIRWISE_KEY \<or> ty = ONEBOX_GROUP_KEY \<and> \<not> ?hostap
      then station_connected (unat sid) (g_wlan s) else Some True) = Some known"
    using assms unfolding hal_load_key_def Let_def bind_eq_Some_conv by blast
  show ?thesis
  proof (cases known)
    case False
    with assms known show ?thesis by (simp add: hal_load_key_def)
  next
    case True
    obtain body where body: "key_body data = Some body"
      using assms known True by (cases "key_body data") (auto simp: hal_load_key_def)
    obtain st s1 where s1: "send_mgmt (ch_host h) ?desc body s = Some (st, s1)"
        "(if st \<noteq> ONEBOX_STATUS_SUCCESS then Some (ONEBOX_STATUS_FAILURE, s1)
          else if iv_opmode (g_vap s1 v) = M_STA
          then do { s2 \<leftarrow> connection_step h v (s1\<lparr>sta_mode := note_key ty (sta_mode s1)\<rparr>); Some (ONEBOX_STATUS_SUCCESS, s2) }
          else Some (ONEBOX_STATUS_SUCCESS, s1)) = Some (r, s')"
      using assms known True body unfolding hal_load_key_def Let_def
      by (cases "send_mgmt (ch_host h) ?desc body s") auto
    have "mgmt_quiet s s1" using s1(1) by (rule quiet_send_mgmt [rotated]) simp
    moreover have "s' = s1 \<or> connection_step h v (s1\<lparr>sta_mode := note_key ty (sta_mode s1)\<rparr>) = Some s'"
      using s1(2) by (auto split: if_splits bind_splits)
    moreover have "mgmt_quiet s1 (s1\<lparr>sta_mode := note_key ty (sta_mode s1)\<rparr>)" by simp
    ultimately show ?thesis using connection_step_quiet mgmt_quiet_trans by metis
  qed
qed

lemma quiet_ni_flags: "mgmt_quiet s t \<Longrightarrow> mgmt_quiet s (upd_node ni (\<lambda>n. n\<lparr>ni_flags := fl n\<rparr>) t)"
  by (erule mgmt_quiet_trans) simp

lemma quiet_upd_ps: "mgmt_quiet s t \<Longrightarrow> mgmt_quiet s (upd_ps g t)"
  by (erule mgmt_quiet_trans) simp

lemma load_wep_keys_quiet: "load_wep_keys h ni v s = Some s' \<Longrightarrow> mgmt_quiet s s'"
  by (auto simp: load_wep_keys_def Let_def split: bind_splits if_splits
      dest!: hal_load_key_quiet intro!: quiet_ni_flags quiet_upd_ps intro: mgmt_quiet_trans)

lemma peer_gone_quiet:
  assumes "peer_gone h ni v s = Some s'"
  shows "mgmt_quiet s s'"
proof -
  let ?s1 = "upd_node ni (\<lambda>n. n\<lparr>ni_flags := ni_flags n AND NOT NODE_ENCRYPT_ENBL\<rparr>) s"
  let ?reset = "\<lambda>s2. s2\<lparr>sta_mode := \<lparr>ptk_key = False, gtk_key = False, eapol4_cnfrm = False\<rparr>,
                      sta_mode_id := (0, snd (sta_mode_id s2))\<rparr>"
  let ?timer = "\<lambda>s3. if timer_function (w_ps (g_wlan s3)) then net_log Remove_traffic_timer s3 else s3"
  have s1: "mgmt_quiet s ?s1" by simp
  show ?thesis
  proof (cases "iv_opmode (g_vap ?s1 v) = M_STA")
    case True
    obtain s2 where s2: "(if \<not> sta_data_block (w_ps (g_wlan ?s1))
          then map_option snd (onebox_send_block_unblock (ch_host h) v STA_DISCONNECTED False ?s1) else Some ?s1) = Some s2"
      and rest: "power_save h v PS_ENABLE DISCONNECTED_PATH (?timer (?reset s2)) = Some s'"
      using assms True unfolding peer_gone_def Let_def
      by (simp only: simp_thms if_False bind_eq_Some_conv) blast
    have a: "mgmt_quiet ?s1 s2" using s2 block.quiet by (auto split: if_splits)
    have b: "mgmt_quiet s2 (?timer (?reset s2))" by (simp add: mgmt_quiet_def handed_def table_view_def)
    show ?thesis
      by (rule mgmt_quiet_trans [OF s1 mgmt_quiet_trans [OF a mgmt_quiet_trans [OF b quiet_power_save [OF rest]]]])
  next
    case False
    with assms have "Some ?s1 = Some s'" unfolding peer_gone_def Let_def by (simp only: simp_thms if_True)
    with s1 show ?thesis by (simp only: option.inject)
  qed
qed

lemma peer_sent_quiet: "peer_sent h ni v s = Some s' \<Longrightarrow> mgmt_quiet s s'"
  by (auto simp: peer_sent_def Let_def split: if_splits dest: load_wep_keys_quiet)

lemma start_txq_quiet: "mgmt_quiet s (start_txq v s)"
  by (rule same_bus_quiet [OF start_txq_bus]) simp

lemma hal_send_sta_notify_frame_quiet:
  assumes "hal_send_sta_notify_frame h ni v event s = Some (r, s')"
  shows "mgmt_quiet s s'"
proof (cases "peer_opmode (iv_opmode (g_vap s v))")
  case None
  with assms show ?thesis by (simp add: hal_send_sta_notify_frame_def)
next
  case (Some command)
  show ?thesis
  proof (cases "event \<in> {STA_CONNECTED, STA_DISCONNECTED}")
    case False
    with assms Some show ?thesis by (auto simp: hal_send_sta_notify_frame_def dest: send_ampdu_quiet)
  next
    case True
    let ?desc = "\<lambda>s1. [mgmt_word0 16, PEER_NOTIFY, 0, 0, 0, 0, 0,
                   ucast (node_sta_id (g_node s1 ni)) OR push_bit 8 (ucast (vap_id (g_txvap s1 v)))]"
    obtain s1 where s1: "(if event = STA_DISCONNECTED then peer_gone h ni v s
        else Some (if iv_opmode (g_vap s v) = M_STA then start_txq v s else s)) = Some s1"
      and rest: "do { (status, s2) \<leftarrow> send_mgmt (ch_host h) (?desc s1) (peer_body s1 ni command event) s1;
                     if status \<noteq> ONEBOX_STATUS_SUCCESS then Some (ONEBOX_STATUS_FAILURE, s2)
                     else do { s3 \<leftarrow> peer_sent h ni v s2; Some (ONEBOX_STATUS_SUCCESS, s3) } } = Some (r, s')"
      using assms True Some unfolding hal_send_sta_notify_frame_def
      by (simp only: option.case simp_thms if_False bind_eq_Some_conv) blast
    obtain st s2 where s2: "send_mgmt (ch_host h) (?desc s1) (peer_body s1 ni command event) s1 = Some (st, s2)"
        "s' = s2 \<or> peer_sent h ni v s2 = Some s'"
      using rest by (cases "send_mgmt (ch_host h) (?desc s1) (peer_body s1 ni command event) s1")
        (auto split: if_splits bind_splits)
    have a: "mgmt_quiet s s1" using s1 peer_gone_quiet start_txq_quiet by (auto split: if_splits)
    have b: "mgmt_quiet s1 s2" by (rule quiet_send_mgmt [OF _ s2(1)]) simp
    have c: "mgmt_quiet s2 s'" using s2(2) peer_sent_quiet by auto
    show ?thesis by (rule mgmt_quiet_trans [OF a mgmt_quiet_trans [OF b c]])
  qed
qed

section \<open>The invariant\<close>

definition slot_used :: "wlan_mgmt \<Rightarrow> nat \<Rightarrow> bool" where
  "slot_used s i \<longleftrightarrow> bit (sta_connected_bitmap (g_wlan s) (i div 32)) (i mod 32)"

abbreviation slots :: "wlan_mgmt \<Rightarrow> nat" where
  "slots s \<equiv> unat (max_stations_supported (g_wlan s))"

text \<open>The node in slot \<open>i\<close> carries the number of the slot and the address in it.\<close>

definition slot_ok :: "wlan_mgmt \<Rightarrow> nat \<Rightarrow> bool" where
  "slot_ok s i \<longleftrightarrow>
     (if slot_used s i
      then fst (sta s i) \<noteq> replicate 6 0 \<and>
           (case snd (sta s i) of None \<Rightarrow> False
            | Some ni \<Rightarrow> unat (node_sta_id (g_node s ni)) = i \<and> ni_macaddr (g_node s ni) = fst (sta s i))
      else fst (sta s i) = replicate 6 0)"

definition sta_table_ok :: "wlan_mgmt \<Rightarrow> bool" where
  "sta_table_ok s \<longleftrightarrow>
     slots s \<le> MAX_STATIONS_SUPPORTED \<and> list_all (slot_ok s) [0..<slots s] \<and>
     distinct (map (\<lambda>i. fst (sta s i)) (filter (slot_used s) [0..<slots s]))"

text \<open>The stations the table holds: from the address to the node.\<close>

definition known_stations :: "wlan_mgmt \<Rightarrow> bytes \<Rightarrow> nat option" where
  "known_stations s = map_of (map (\<lambda>i. (fst (sta s i), the (snd (sta s i)))) (filter (slot_used s) [0..<slots s]))"

lemma sta_table_okD:
  assumes "sta_table_ok s"
  shows "slots s \<le> 30" "i < slots s \<Longrightarrow> slot_ok s i"
    "i < slots s \<Longrightarrow> j < slots s \<Longrightarrow> slot_used s i \<Longrightarrow> slot_used s j \<Longrightarrow> fst (sta s i) = fst (sta s j) \<Longrightarrow> i = j"
  using assms by (auto simp: sta_table_ok_def list_all_iff distinct_map inj_on_def)

lemma sta_table_okI:
  assumes "slots s \<le> 30" "\<And>i. i < slots s \<Longrightarrow> slot_ok s i"
    "\<And>i j. i < slots s \<Longrightarrow> j < slots s \<Longrightarrow> slot_used s i \<Longrightarrow> slot_used s j \<Longrightarrow> fst (sta s i) = fst (sta s j) \<Longrightarrow> i = j"
  shows "sta_table_ok s"
  using assms by (auto simp: sta_table_ok_def list_all_iff distinct_map inj_on_def)

lemma known_stations_iff:
  assumes "sta_table_ok s"
  shows "known_stations s a = Some ni \<longleftrightarrow> (\<exists>i. i < slots s \<and> slot_used s i \<and> sta s i = (a, Some ni))"
proof -
  let ?l = "map (\<lambda>i. (fst (sta s i), the (snd (sta s i)))) (filter (slot_used s) [0..<slots s])"
  have "distinct (map fst ?l)" using assms by (simp add: sta_table_ok_def comp_def)
  then have "known_stations s a = Some ni \<longleftrightarrow> (a, ni) \<in> set ?l" by (simp add: known_stations_def)
  also have "\<dots> \<longleftrightarrow> (\<exists>i. i < slots s \<and> slot_used s i \<and> sta s i = (a, Some ni))"
    using sta_table_okD(2) [OF assms]
    by (force simp: slot_ok_def image_iff split: option.splits if_splits)
  finally show ?thesis .
qed

lemma same_table_ok:
  assumes "same_table s s'"
  shows "sta_table_ok s' = sta_table_ok s" "known_stations s' = known_stations s"
    "slot_used s' = slot_used s" "slots s' = slots s"
proof -
  note e = same_table_sel [OF assms]
  have u: "slot_used s' = slot_used s" by (rule ext) (simp add: slot_used_def e)
  have "slot_ok s' = slot_ok s" by (rule ext) (simp add: slot_ok_def u e split: option.split)
  with u e show "sta_table_ok s' = sta_table_ok s" "known_stations s' = known_stations s"
    "slot_used s' = slot_used s" "slots s' = slots s"
    by (simp_all add: sta_table_ok_def known_stations_def)
qed

section \<open>The steps\<close>

lemma first_index_Some:
  "first_index p i n = Some (Some j) \<Longrightarrow> p j = Some True \<and> i \<le> j \<and> j < i + n"
  by (induction n arbitrary: i) (force split: bind_splits if_splits)+

lemma first_index_None:
  "first_index p i n = Some None \<Longrightarrow> i \<le> j \<Longrightarrow> j < i + n \<Longrightarrow> p j = Some False"
proof (induction n arbitrary: i)
  case (Suc n)
  then have "p i = Some False" "first_index p (Suc i) n = Some None" by (auto split: bind_splits if_splits)
  with Suc show ?case by (cases "i = j") auto
qed simp

lemma first_index_returns: "(\<And>j. i \<le> j \<Longrightarrow> j < i + n \<Longrightarrow> p j \<noteq> None) \<Longrightarrow> first_index p i n \<noteq> None"
  by (induction n arbitrary: i) (auto simp: bind_eq_None_conv)

lemma slot_used_mark: "slot_used (mark_slot i used s) j = (if j = i then used else slot_used s j)"
proof -
  have "j div 32 = i div 32 \<Longrightarrow> j mod 32 = i mod 32 \<Longrightarrow> j = i" by (metis div_mult_mod_eq)
  then show ?thesis
    by (auto simp: slot_used_def mark_slot_def bit_simps)
qed

lemma slot_used_other [simp]:
  "slot_used (set_address i a s) = slot_used s" "slot_used (set_sta_ni i n s) = slot_used s"
  "slot_used (upd_node ni f s) = slot_used s"
  by (rule ext, simp add: slot_used_def set_address_def set_sta_ni_def)+

lemma slots_other [simp]:
  "slots (set_address i a s) = slots s" "slots (set_sta_ni i n s) = slots s"
  "slots (mark_slot i u s) = slots s"
  by (simp_all add: set_address_def set_sta_ni_def mark_slot_def)

lemma sta_other [simp]:
  "sta (set_address i a s) = (sta s)(i := (a, snd (sta s i)))" "sta (set_sta_ni i n s) = (sta s)(i := (fst (sta s i), n))"
  "sta (mark_slot i u s) = sta s"
  by (simp_all add: set_address_def set_sta_ni_def mark_slot_def)

lemma g_node_other [simp]:
  "x_node (g_xmit (set_address i a s)) = x_node (g_xmit s)" "x_node (g_xmit (set_sta_ni i n s)) = x_node (g_xmit s)"
  "x_node (g_xmit (mark_slot i u s)) = x_node (g_xmit s)"
  "x_node (g_xmit (upd_node ni f s)) = (x_node (g_xmit s))(ni := f (g_node s ni))"
  by (simp_all add: set_address_def set_sta_ni_def mark_slot_def upd_node_def)

text \<open>A change of one slot is a change of the map at one address.\<close>

lemma known_stations_update:
  assumes ok: "sta_table_ok s" "sta_table_ok s'" and i: "i < slots s" "slots s' = slots s"
    and others: "\<And>j. j < slots s \<Longrightarrow> j \<noteq> i \<Longrightarrow> slot_used s' j = slot_used s j \<and> sta s' j = sta s j"
    and unique: "\<And>j. j < slots s \<Longrightarrow> j \<noteq> i \<Longrightarrow> slot_used s j \<Longrightarrow> fst (sta s j) \<noteq> a"
    and before: "slot_used s i \<Longrightarrow> fst (sta s i) = a" and after: "slot_used s' i \<Longrightarrow> fst (sta s' i) = a"
  shows "known_stations s' = (known_stations s)(a := if slot_used s' i then snd (sta s' i) else None)"
proof
  fix b
  have "known_stations s' b = Some n \<longleftrightarrow> ((known_stations s)(a := if slot_used s' i then snd (sta s' i) else None)) b = Some n" for n
  proof (cases "b = a")
    case True
    have "j = i" if "j < slots s" "slot_used s' j" "sta s' j = (a, Some n)" for j
      using others [OF that(1)] unique [OF that(1)] that(2,3) by fastforce
    then have "known_stations s' a = Some n \<longleftrightarrow> slot_used s' i \<and> sta s' i = (a, Some n)"
      using known_stations_iff [OF ok(2), of a n] i by auto
    with True after show ?thesis by (cases "sta s' i") auto
  next
    case False
    have "slot_used s' j \<and> sta s' j = (b, Some n) \<longleftrightarrow> slot_used s j \<and> sta s j = (b, Some n)" if "j < slots s" for j
      using others [OF that] before after False by (cases "j = i") auto
    then have "known_stations s' b = Some n \<longleftrightarrow> known_stations s b = Some n"
      unfolding known_stations_iff [OF ok(2)] known_stations_iff [OF ok(1)] i(2) by blast
    with False show ?thesis by simp
  qed
  then show "known_stations s' b = ((known_stations s)(a := if slot_used s' i then snd (sta s' i) else None)) b"
    by (metis option.exhaust)
qed

lemma slot_okD:
  assumes "slot_ok s i" "slot_used s i"
  obtains ni where "sta s i = (ni_macaddr (g_node s ni), Some ni)" "unat (node_sta_id (g_node s ni)) = i"
    "ni_macaddr (g_node s ni) \<noteq> replicate 6 0"
  using assms by (cases "sta s i") (auto simp: slot_ok_def split: option.splits)

text \<open>A station that takes the free slot \<open>i\<close>.\<close>

definition taken :: "nat \<Rightarrow> nat \<Rightarrow> wlan_mgmt \<Rightarrow> wlan_mgmt" where
  "taken i ni s = set_sta_ni i (Some ni) (upd_node ni (\<lambda>x. x\<lparr>node_sta_id := word_of_nat i\<rparr>)
                    (mark_slot i True (set_address i (ni_macaddr (g_node s ni)) s)))"

lemma taken_sel:
  assumes "i < 256"
  shows "sta (taken i ni s) = (sta s)(i := (ni_macaddr (g_node s ni), Some ni))" "slots (taken i ni s) = slots s"
    "slot_used (taken i ni s) j = (j = i \<or> slot_used s j)"
    "ni_macaddr (g_node (taken i ni s) n) = ni_macaddr (g_node s n)"
    "unat (node_sta_id (g_node (taken i ni s) n)) = (if n = ni then i else unat (node_sta_id (g_node s n)))"
  using assms by (simp_all add: taken_def slot_used_mark unat_of_nat)

lemma taken_ok:
  assumes ok: "sta_table_ok s" and i: "i < slots s" "\<not> slot_used s i" and a: "ni_macaddr (g_node s ni) \<noteq> replicate 6 0"
    and new: "\<And>j. j < slots s \<Longrightarrow> fst (sta s j) \<noteq> ni_macaddr (g_node s ni)"
  shows "sta_table_ok (taken i ni s)" "known_stations (taken i ni s) = (known_stations s)(ni_macaddr (g_node s ni) \<mapsto> ni)"
proof -
  note D = sta_table_okD [OF ok]
  have i30: "i < 256" using i D(1) by simp
  note sel = taken_sel [OF i30, of ni s]
  show t: "sta_table_ok (taken i ni s)"
  proof (rule sta_table_okI)
    show "slots (taken i ni s) \<le> 30" using D(1) by (simp add: sel)
  next
    fix j assume j: "j < slots (taken i ni s)"
    show "slot_ok (taken i ni s) j"
    proof (cases "j = i")
      case False
      have "slot_ok s j" "fst (sta s j) \<noteq> ni_macaddr (g_node s ni)" using D(2) new j by (simp_all add: sel)
      moreover from this have "snd (sta s j) \<noteq> Some ni" if "slot_used s j"
        using that by (auto simp: slot_ok_def)
      ultimately show ?thesis using False by (auto simp: slot_ok_def sel split: option.splits)
    qed (use a in \<open>simp add: slot_ok_def sel\<close>)
  next
    fix j k
    assume "j < slots (taken i ni s)" "k < slots (taken i ni s)" "slot_used (taken i ni s) j" "slot_used (taken i ni s) k"
      "fst (sta (taken i ni s) j) = fst (sta (taken i ni s) k)"
    then show "j = k" using D(3) [of j k] new by (auto simp: sel split: if_splits)
  qed
  show "known_stations (taken i ni s) = (known_stations s)(ni_macaddr (g_node s ni) \<mapsto> ni)"
    using known_stations_update [OF ok t i(1), of "ni_macaddr (g_node s ni)"] i new by (simp add: sel)
qed

text \<open>One that is in the table already, in slot \<open>i\<close>.\<close>

lemma kept_ok:
  assumes ok: "sta_table_ok s" and i: "i < slots s" "slot_used s i" "fst (sta s i) = ni_macaddr (g_node s ni)"
    "unat (node_sta_id (g_node s ni)) = i"
  shows "sta_table_ok (set_sta_ni i (Some ni) s)"
    "known_stations (set_sta_ni i (Some ni) s) = (known_stations s)(ni_macaddr (g_node s ni) \<mapsto> ni)"
proof -
  note D = sta_table_okD [OF ok]
  show t: "sta_table_ok (set_sta_ni i (Some ni) s)"
  proof (rule sta_table_okI)
    fix j assume "j < slots (set_sta_ni i (Some ni) s)"
    then have "slot_ok s j" using D(2) by simp
    with i show "slot_ok (set_sta_ni i (Some ni) s) j"
      by (cases "j = i") (simp_all add: slot_ok_def split: option.splits if_splits)
  qed (use D in \<open>auto split: if_splits\<close>)
  let ?a = "ni_macaddr (g_node s ni)"
  have unique: "fst (sta s j) \<noteq> ?a" if "j < slots s" "j \<noteq> i" "slot_used s j" for j
    using D(3) [OF that(1) i(1) that(3) i(2)] i(3) that(2) by auto
  have "known_stations (set_sta_ni i (Some ni) s) = (known_stations s)(?a :=
          if slot_used (set_sta_ni i (Some ni) s) i then snd (sta (set_sta_ni i (Some ni) s) i) else None)"
    by (rule known_stations_update [OF ok t i(1)]) (use i(3) unique in simp_all)
  with i(2) show "known_stations (set_sta_ni i (Some ni) s) = (known_stations s)(?a \<mapsto> ni)" by simp
qed

text \<open>One that leaves slot \<open>i\<close>.\<close>

definition released :: "nat \<Rightarrow> wlan_mgmt \<Rightarrow> wlan_mgmt" where
  "released i s = set_sta_ni i None (set_address i (replicate 6 0) (mark_slot i False s))"

lemma released_sel:
  "sta (released i s) = (sta s)(i := (replicate 6 0, None))" "slots (released i s) = slots s"
  "slot_used (released i s) j = (j \<noteq> i \<and> slot_used s j)" "x_node (g_xmit (released i s)) = x_node (g_xmit s)"
  by (simp_all add: released_def slot_used_mark)

lemma released_ok:
  assumes ok: "sta_table_ok s" and i: "i < slots s" "slot_used s i"
  shows "sta_table_ok (released i s)" "known_stations (released i s) = (known_stations s)(fst (sta s i) := None)"
proof -
  note D = sta_table_okD [OF ok]
  show t: "sta_table_ok (released i s)"
  proof (rule sta_table_okI)
    fix j assume "j < slots (released i s)"
    then have "slot_ok s j" using D(2) by (simp add: released_sel)
    then show "slot_ok (released i s) j"
      by (cases "j = i") (simp_all add: slot_ok_def released_sel split: option.splits if_splits)
  qed (use D in \<open>auto simp: released_sel split: if_splits\<close>)
  have "j = i" if "j < slots s" "slot_used s j" "fst (sta s j) = fst (sta s i)" for j
    using D(3) [OF that(1) i(1) that(2) i(2) that(3)] .
  then show "known_stations (released i s) = (known_stations s)(fst (sta s i) := None)"
    using known_stations_update [OF ok t i(1), of "fst (sta s i)"] by (auto simp: released_sel)
qed

section \<open>The channel follows\<close>

lemma send_band_change_quiet: "send_band_change h old change s = Some (r, s') \<Longrightarrow> mgmt_quiet s s'"
proof -
  have a: "mgmt_quiet s (s\<lparr>chw_flag := b\<rparr>)" "mgmt_quiet s (s\<lparr>primary_channel := p\<rparr>)" for b p
    by (simp_all add: mgmt_quiet_def handed_def table_view_def)
  show "send_band_change h old change s = Some (r, s') \<Longrightarrow> mgmt_quiet s s'"
    by (auto simp: send_band_change_def split: if_splits bind_splits dest!: bootup.quiet radio_caps.quiet
        intro: mgmt_quiet_trans [OF a(1)] mgmt_quiet_trans [OF a(2)] mgmt_quiet_trans)
qed

lemma band_check_quiet:
  assumes "band_check h s = Some (r, s')"
  shows "mgmt_quiet s s'"
proof -
  consider "s' = s" | band chw where "band_of_channel (endpoint_params s) = Some band"
      "chwidth_of_bw (per_ch_bw (endpoint_params s)) = Some chw"
    using assms by (auto simp: band_check_def split: option.splits)
  then show ?thesis
  proof cases
    case 2
    let ?s1 = "s\<lparr>operating_chwidth := chw, g_xmit := (g_xmit s)\<lparr>operating_band := band\<rparr>,
                 endpoint := endpoint_of band chw (endpoint s)\<rparr>"
    obtain change s2 where s2: "(if endpoint ?s1 \<noteq> endpoint s \<or> rf_power_mode_change ?s1
            then map_option snd (program_bb_rf h (?s1\<lparr>rf_power_mode_change := False\<rparr>)) else Some ?s1) = Some s2"
      and rest: "send_band_change h (operating_chwidth s) change s2 = Some (r, s')"
      using assms 2 unfolding band_check_def Let_def by (simp only: option.case bind_eq_Some_conv) blast
    have a: "mgmt_quiet s ?s1" "mgmt_quiet ?s1 (?s1\<lparr>rf_power_mode_change := False\<rparr>)"
      by (simp_all add: mgmt_quiet_def handed_def table_view_def)
    have b: "mgmt_quiet ?s1 s2"
      using s2 a(2) by (auto split: if_splits dest!: bb_rf.quiet intro: mgmt_quiet_trans)
    show ?thesis by (rule mgmt_quiet_trans [OF a(1) mgmt_quiet_trans [OF b send_band_change_quiet [OF rest]]])
  qed simp
qed

lemma change_width_quiet:
  assumes "change_width h v bw chno s = Some s'"
  shows "mgmt_quiet s s'"
proof -
  let ?s0 = "s\<lparr>endpoint_params := (endpoint_params s)\<lparr>ep_channel := ucast (ic_ieee (ic_curchan s)), per_ch_bw := bw\<rparr>\<rparr>"
  obtain changed s1 where s1: "band_check (ch_host h) ?s0 = Some (changed, s1)"
    using assms by (cases "band_check (ch_host h) ?s0") (auto simp: change_width_def)
  obtain s2 where s2: "(if changed = 1 then map_option snd (set_vap_capabilities (ch_host h) v 3 s1) else Some s1) = Some s2"
      "map_option snd (set_channel (ch_host h) chno (s2\<lparr>def_chwidth := operating_chwidth s2\<rparr>)) = Some s'"
    using assms s1 unfolding change_width_def by (simp only: bind.bind_lunit split_conv bind_eq_Some_conv) blast
  have a: "mgmt_quiet s ?s0" "mgmt_quiet s2 (s2\<lparr>def_chwidth := operating_chwidth s2\<rparr>)"
    by (simp_all add: mgmt_quiet_def handed_def table_view_def)
  have b: "mgmt_quiet s1 s2" using s2(1) by (auto split: if_splits dest!: set_vap_capabilities_quiet)
  have c: "mgmt_quiet (s2\<lparr>def_chwidth := operating_chwidth s2\<rparr>) s'" using s2(2) by (auto dest: channel.quiet)
  show ?thesis
    by (rule mgmt_quiet_trans [OF a(1) mgmt_quiet_trans [OF band_check_quiet [OF s1] mgmt_quiet_trans [OF b mgmt_quiet_trans [OF a(2) c]]]])
qed

lemma follow_width_quiet:
  assumes "follow_width h v event s = Some s'"
  shows "mgmt_quiet s s'"
proof -
  have "mgmt_quiet s (s\<lparr>g_xmit := (g_xmit s)\<lparr>band_flags := b\<rparr>\<rparr>)" for b
    by (simp add: mgmt_quiet_def handed_def table_view_def)
  with assms show ?thesis
    by (auto simp: follow_width_def Let_def split: if_splits dest!: change_width_quiet intro: mgmt_quiet_trans)
qed

section \<open>The table as a map\<close>

text \<open>
  A node is registered when the table holds its address under its number; it is admitted when
  it is registered, or its address is new and the table is not full.
\<close>

definition registered :: "wlan_mgmt \<Rightarrow> nat \<Rightarrow> bool" where
  "registered s ni \<longleftrightarrow>
     (case known_stations s (ni_macaddr (g_node s ni)) of None \<Rightarrow> False
      | Some n \<Rightarrow> node_sta_id (g_node s n) = node_sta_id (g_node s ni))"

definition admitted :: "wlan_mgmt \<Rightarrow> nat \<Rightarrow> bool" where
  "admitted s ni \<longleftrightarrow>
     (if known_stations s (ni_macaddr (g_node s ni)) = None then card (dom (known_stations s)) < slots s
      else registered s ni)"

lemma registered_iff:
  assumes "sta_table_ok s" "ni_macaddr (g_node s ni) \<noteq> replicate 6 0"
  shows "registered s ni \<longleftrightarrow>
     (let i = unat (node_sta_id (g_node s ni)) in i < slots s \<and> fst (sta s i) = ni_macaddr (g_node s ni) \<and> slot_used s i)"
proof
  assume "registered s ni"
  then obtain n where n: "known_stations s (ni_macaddr (g_node s ni)) = Some n"
      "node_sta_id (g_node s n) = node_sta_id (g_node s ni)"
    by (auto simp: registered_def split: option.splits)
  from n(1) obtain i where i: "i < slots s" "slot_used s i" "sta s i = (ni_macaddr (g_node s ni), Some n)"
    using known_stations_iff [OF assms(1)] by blast
  with sta_table_okD(2) [OF assms(1) i(1)] n(2) show "let i = unat (node_sta_id (g_node s ni))
      in i < slots s \<and> fst (sta s i) = ni_macaddr (g_node s ni) \<and> slot_used s i"
    by (auto simp: slot_ok_def)
next
  let ?i = "unat (node_sta_id (g_node s ni))"
  assume "let i = ?i in i < slots s \<and> fst (sta s i) = ni_macaddr (g_node s ni) \<and> slot_used s i"
  then have i: "?i < slots s" "fst (sta s ?i) = ni_macaddr (g_node s ni)" "slot_used s ?i" by (simp_all add: Let_def)
  obtain n where n: "sta s ?i = (ni_macaddr (g_node s n), Some n)" "unat (node_sta_id (g_node s n)) = ?i"
    by (rule slot_okD [OF sta_table_okD(2) [OF assms(1) i(1)] i(3)])
  then have "known_stations s (ni_macaddr (g_node s ni)) = Some n"
    using i known_stations_iff [OF assms(1)] by auto
  with n(2) show "registered s ni" by (simp add: registered_def word_unat_eq_iff)
qed

lemma unknown_iff:
  assumes "sta_table_ok s" "a \<noteq> replicate 6 0"
  shows "known_stations s a = None \<longleftrightarrow> (\<forall>i < slots s. fst (sta s i) \<noteq> a)"
proof -
  have "known_stations s a \<noteq> None" if i: "i < slots s" "fst (sta s i) = a" for i
  proof -
    have ok: "slot_ok s i" using sta_table_okD(2) [OF assms(1) i(1)] .
    then have u: "slot_used s i" using i(2) assms(2) by (auto simp: slot_ok_def split: if_splits)
    obtain n where "sta s i = (a, Some n)" using slot_okD [OF ok u] i(2) by (metis fst_conv)
    with i u show ?thesis using known_stations_iff [OF assms(1), of a n] by auto
  qed
  moreover have "\<exists>i < slots s. fst (sta s i) = a" if "known_stations s a = Some n" for n
    using that known_stations_iff [OF assms(1)] by (metis fst_conv)
  ultimately show ?thesis by (metis not_None_eq)
qed

lemma card_known:
  assumes "sta_table_ok s"
  shows "card (dom (known_stations s)) = length (filter (slot_used s) [0..<slots s])"
proof -
  let ?l = "filter (slot_used s) [0..<slots s]"
  have "dom (known_stations s) = set (map (\<lambda>i. fst (sta s i)) ?l)"
    by (auto simp: known_stations_def dom_map_of_conv_image_fst image_image)
  then show ?thesis using assms by (simp add: sta_table_ok_def distinct_card del: set_map)
qed

lemma full_iff:
  assumes "sta_table_ok s"
  shows "card (dom (known_stations s)) < slots s \<longleftrightarrow> (\<exists>i < slots s. \<not> slot_used s i)"
proof -
  have "length (filter p xs) < length xs \<longleftrightarrow> (\<exists>x \<in> set xs. \<not> p x)" for p and xs :: "nat list"
    using length_filter_less by (metis filter_True less_irrefl)
  from this [of "slot_used s" "[0..<slots s]"] show ?thesis by (auto simp: card_known [OF assms])
qed

lemma slot_free_iff: "i < 128 \<Longrightarrow> slot_free s i = Some (\<not> slot_used s i)"
  by (simp add: slot_free_def slot_used_def div_le_mono)

text \<open>The search and the bookkeeping of a station that connects.\<close>

lemma connect_step:
  assumes ok: "sta_table_ok s" and a: "ni_macaddr (g_node s ni) \<noteq> replicate 6 0"
    and step: "table_step ni STA_CONNECTED s = Some (fine, s1)"
  shows "fine = admitted s ni"
    and "\<not> fine \<Longrightarrow> s1 = s"
    and "fine \<Longrightarrow> sta_table_ok (table_node ni v STA_CONNECTED s1) \<and>
           known_stations (table_node ni v STA_CONNECTED s1) = (known_stations s)(ni_macaddr (g_node s ni) \<mapsto> ni)"
proof -
  let ?a = "ni_macaddr (g_node s ni)"
  let ?id = "unat (node_sta_id (g_node s ni))"
  note D = sta_table_okD [OF ok]
  have note_mode: "same_table t (t\<lparr>sta_mode_id := p\<rparr>)" for t p by (simp add: table_view_def)
  have node: "same_table (set_sta_ni (unat (node_sta_id (g_node s1 ni))) (Some ni) s1) (table_node ni v STA_CONNECTED s1)"
    by (simp add: table_node_def Let_def note_mode)
  obtain known where known: "first_index (has_address ?a s) 0 (slots s) = Some known"
    using step by (auto simp: table_step_def admit_station_def Let_def split: bind_splits)
  have "(fine = admitted s ni) \<and> (\<not> fine \<longrightarrow> s1 = s) \<and> (fine \<longrightarrow>
      sta_table_ok (table_node ni v STA_CONNECTED s1) \<and>
           known_stations (table_node ni v STA_CONNECTED s1) = (known_stations s)(?a \<mapsto> ni))"
  proof (cases known)
    case (Some i)
    have i: "i < slots s" "fst (sta s i) = ?a"
      using first_index_Some [OF known [unfolded Some]] D(1) by (auto simp: has_address_def split: if_splits)
    then have u: "slot_used s i" using D(2) [OF i(1)] a by (auto simp: slot_ok_def split: if_splits)
    have r: "fine \<longleftrightarrow> i = ?id" "s1 = s"
      using step known Some by (auto simp: table_step_def admit_station_def Let_def)
    have k: "known_stations s ?a \<noteq> None" using unknown_iff [OF ok a] i by auto
    have "registered s ni \<longleftrightarrow> i = ?id"
    proof
      assume "registered s ni"
      then have "?id < slots s" "fst (sta s ?id) = ?a" "slot_used s ?id"
        using registered_iff [OF ok a] by (simp_all add: Let_def)
      then show "i = ?id" using D(3) [OF i(1) _ u] i(2) by simp
    qed (use registered_iff [OF ok a] i u in \<open>simp add: Let_def\<close>)
    with k r have "fine = admitted s ni" by (auto simp: admitted_def)
    with r same_table_ok [OF node] kept_ok [OF ok i(1) u i(2)] show ?thesis by auto
  next
    case None
    have new: "fst (sta s j) \<noteq> ?a" if "j < slots s" for j
      using first_index_None [OF known [unfolded None], of j] that D(1) by (simp add: has_address_def)
    then have k: "known_stations s ?a = None" using unknown_iff [OF ok a] by simp
    obtain slot where slot: "first_index (slot_free s) 0 (slots s) = Some slot"
      using step known None by (auto simp: table_step_def admit_station_def Let_def split: bind_splits)
    show ?thesis
    proof (cases slot)
      case full: None
      have "slot_used s j" if "j < slots s" for j
        using first_index_None [OF slot [unfolded full], of j] that D(1) by (simp add: slot_free_iff)
      then have "\<not> admitted s ni" using k full_iff [OF ok] by (auto simp: admitted_def)
      with step known None slot full show ?thesis by (auto simp: table_step_def admit_station_def Let_def)
    next
      case (Some i)
      have i: "i < slots s" "\<not> slot_used s i"
        using first_index_Some [OF slot [unfolded Some]] D(1) by (auto simp: slot_free_iff)
      have s1: "fine" "s1 = upd_node ni (\<lambda>x. x\<lparr>node_sta_id := word_of_nat i\<rparr>) (mark_slot i True (set_address i ?a s))"
        using step known None slot Some i(1) D(1) by (auto simp: table_step_def admit_station_def Let_def)
      then have "unat (node_sta_id (g_node s1 ni)) = i" using i(1) D(1) by (simp add: unat_of_nat)
      with s1 have t: "same_table (taken i ni s) (table_node ni v STA_CONNECTED s1)"
        using node by (simp add: taken_def)
      have "admitted s ni" using k full_iff [OF ok] i by (auto simp: admitted_def)
      with s1(1) same_table_ok [OF t] taken_ok [OF ok i a new] show ?thesis by simp
    qed
  qed
  then show "fine = admitted s ni" "\<not> fine \<Longrightarrow> s1 = s"
    "fine \<Longrightarrow> sta_table_ok (table_node ni v STA_CONNECTED s1) \<and>
       known_stations (table_node ni v STA_CONNECTED s1) = (known_stations s)(?a \<mapsto> ni)" by blast+
qed

text \<open>The other events: a disconnection releases the slot, aggregation leaves the table alone.\<close>

lemma node_valid_registered:
  assumes "sta_table_ok s" "ni_macaddr (g_node s ni) \<noteq> replicate 6 0" "node_valid ni s = Some valid"
  shows "valid = registered s ni"
  using assms(3) sta_table_okD(1) [OF assms(1)] registered_iff [OF assms(1,2)]
  by (auto simp: node_valid_def station_connected_def has_address_def slot_used_def Let_def split: if_splits)

lemma start_aggregation_table: "start_aggregation ni s = Some s' \<Longrightarrow> same_table s s'"
  by (auto simp: start_aggregation_def table_view_def Let_def split: if_splits)

lemma other_step:
  assumes ok: "sta_table_ok s" and a: "ni_macaddr (g_node s ni) \<noteq> replicate 6 0" and e: "event \<noteq> STA_CONNECTED"
    and step: "table_step ni event s = Some (fine, s1)"
  shows "fine = registered s ni"
    and "\<not> fine \<Longrightarrow> s1 = s"
    and "fine \<Longrightarrow> event = STA_DISCONNECTED \<Longrightarrow>
           same_table (released (unat (node_sta_id (g_node s ni))) s) (table_node ni v event s1)"
    and "fine \<Longrightarrow> event \<noteq> STA_DISCONNECTED \<Longrightarrow> same_table s (table_node ni v event s1)"
proof -
  obtain valid where valid: "node_valid ni s = Some valid" using step e by (auto simp: table_step_def split: bind_splits)
  have r: "valid = registered s ni" by (rule node_valid_registered [OF ok a valid])
  show "fine = registered s ni" "\<not> fine \<Longrightarrow> s1 = s"
    using step e valid r by (auto simp: table_step_def Let_def split: if_splits bind_splits)
  show "fine \<Longrightarrow> event = STA_DISCONNECTED \<Longrightarrow>
      same_table (released (unat (node_sta_id (g_node s ni))) s) (table_node ni v event s1)"
    using step valid by (auto simp: table_step_def table_node_def released_def Let_def
        split: if_splits)
  show "fine \<Longrightarrow> event \<noteq> STA_DISCONNECTED \<Longrightarrow> same_table s (table_node ni v event s1)"
    using step e valid by (auto simp: table_step_def table_node_def Let_def start_aggregation_table
        split: if_splits bind_splits)
qed

text \<open>What an event asks of the map; an interface that is not served, of nothing.\<close>

definition served :: "wlan_mgmt \<Rightarrow> nat \<Rightarrow> bool" where
  "served s ni \<longleftrightarrow> (case ni_vap (g_wlan s) ni of None \<Rightarrow> False | Some v \<Rightarrow> vap_valid v s)"

definition stations_after :: "nat \<Rightarrow> notify_event \<Rightarrow> wlan_mgmt \<Rightarrow> bytes \<Rightarrow> nat option" where
  "stations_after ni event s =
     (let m = known_stations s; a = ni_macaddr (g_node s ni) in
      if served s ni \<and> event = STA_CONNECTED \<and> admitted s ni then m(a \<mapsto> ni)
      else if served s ni \<and> event = STA_DISCONNECTED \<and> registered s ni then m(a := None)
      else m)"

lemma table_event:
  assumes ok: "sta_table_ok s" and a: "ni_macaddr (g_node s ni) \<noteq> replicate 6 0"
    and step: "table_step ni event s = Some (fine, s1)"
  shows "fine = (if event = STA_CONNECTED then admitted s ni else registered s ni)"
    and "\<not> fine \<Longrightarrow> s1 = s"
    and "fine \<Longrightarrow> served s ni \<Longrightarrow> sta_table_ok (table_node ni v event s1) \<and>
           known_stations (table_node ni v event s1) = stations_after ni event s"
proof -
  note c = connect_step [OF ok a, of fine s1] and d = other_step [OF ok a _ step]
  show f: "fine = (if event = STA_CONNECTED then admitted s ni else registered s ni)"
    using c(1) d(1) step by (cases "event = STA_CONNECTED") auto
  show "\<not> fine \<Longrightarrow> s1 = s" using c(2) d(2) step by (cases "event = STA_CONNECTED") auto
  assume t: "fine" "served s ni"
  consider "event = STA_CONNECTED" | "event = STA_DISCONNECTED" | "event \<noteq> STA_CONNECTED" "event \<noteq> STA_DISCONNECTED"
    by blast
  then show "sta_table_ok (table_node ni v event s1) \<and> known_stations (table_node ni v event s1) = stations_after ni event s"
  proof cases
    case 1
    then show ?thesis using c(3) [OF step [unfolded 1] t(1)] f t by (simp add: stations_after_def Let_def)
  next
    case 2
    let ?i = "unat (node_sta_id (g_node s ni))"
    have r: "registered s ni" using f t 2 by simp
    then have i: "?i < slots s" "slot_used s ?i" "fst (sta s ?i) = ni_macaddr (g_node s ni)"
      using registered_iff [OF ok a] by (simp_all add: Let_def)
    have q: "same_table (released ?i s) (table_node ni v event s1)" using d(3) t(1) 2 by simp
    from same_table_ok(1,2) [OF q] released_ok [OF ok i(1,2)] i(3) r 2 t show ?thesis
      by (simp add: stations_after_def Let_def)
  next
    case 3
    have q: "same_table s (table_node ni v event s1)" using d(4) [OF 3(1) t(1) 3(2)] .
    from same_table_ok(1,2) [OF q] ok 3 show ?thesis by (simp add: stations_after_def Let_def)
  qed
qed

lemma event_addresses:
  assumes "table_step ni event s = Some (fine, s1)"
  shows "ni_macaddr (g_node (table_node ni v event s1) n) = ni_macaddr (g_node s n)"
proof -
  have "ni_macaddr (g_node s1 n) = ni_macaddr (g_node s n)"
    using assms by (auto simp: table_step_def admit_station_def start_aggregation_def Let_def
        split: if_splits bind_splits option.splits)
  then show ?thesis by (simp add: table_node_def Let_def)
qed

text \<open>Up to the table a message is either refused or the table step and frames that leave it alone.\<close>

lemma station_info_cases:
  assumes "core_send_station_info h (Some ni) event s = Some (r, s')"
  obtains (refused) "r = ONEBOX_STATUS_FAILURE" "s' = s" "\<not> served s ni"
  | (step) v fine s1 where "ni_vap (g_wlan s) ni = Some v" "served s ni" "table_step ni event s = Some (fine, s1)"
      "fine \<Longrightarrow> same_table (table_node ni v event s1) s'" "\<not> fine \<Longrightarrow> r = ONEBOX_STATUS_FAILURE \<and> s' = s1"
proof (cases "served s ni")
  case False
  with assms show ?thesis by (intro refused) (auto simp: core_send_station_info_def served_def split: option.splits)
next
  case True
  then obtain v where v: "ni_vap (g_wlan s) ni = Some v" "vap_valid v s"
    by (auto simp: served_def split: option.splits)
  obtain fine s1 where s1: "table_step ni event s = Some (fine, s1)"
    using assms v by (cases "table_step ni event s") (auto simp: core_send_station_info_def)
  have "same_table (table_node ni v event s1) s'" if t: fine
  proof -
    obtain st s2 where s2: "hal_send_sta_notify_frame h ni v event (table_node ni v event s1) = Some (st, s2)"
        "s' = s2 \<or> follow_width h v event s2 = Some s'"
      using assms v s1 t
      by (cases "hal_send_sta_notify_frame h ni v event (table_node ni v event s1)")
        (auto simp: core_send_station_info_def split: if_splits bind_splits)
    then show ?thesis
      using quiet_table [OF hal_send_sta_notify_frame_quiet [OF s2(1)]] quiet_table [OF follow_width_quiet] by metis
  qed
  moreover have "r = ONEBOX_STATUS_FAILURE \<and> s' = s1" if "\<not> fine"
    using assms v s1 that by (simp add: core_send_station_info_def)
  ultimately show ?thesis using that(2) [OF v(1) True s1] by blast
qed

lemma core_send_station_info_table:
  assumes ok: "sta_table_ok s" and a: "ni_macaddr (g_node s ni) \<noteq> replicate 6 0"
    and step: "core_send_station_info h (Some ni) event s = Some (r, s')"
  shows "sta_table_ok s' \<and> known_stations s' = stations_after ni event s \<and>
         (\<forall>n. ni_macaddr (g_node s' n) = ni_macaddr (g_node s n))"
    and "r = ONEBOX_STATUS_SUCCESS \<longrightarrow>
           served s ni \<and> (if event = STA_CONNECTED then admitted s ni else registered s ni)"
    and "\<not> (if event = STA_CONNECTED then admitted s ni else registered s ni) \<longrightarrow> r = ONEBOX_STATUS_FAILURE \<and> s' = s"
proof -
  let ?fine = "if event = STA_CONNECTED then admitted s ni else registered s ni"
  have "(sta_table_ok s' \<and> known_stations s' = stations_after ni event s \<and>
         (\<forall>n. ni_macaddr (g_node s' n) = ni_macaddr (g_node s n))) \<and>
      (r = ONEBOX_STATUS_SUCCESS \<longrightarrow> served s ni \<and> ?fine) \<and> (\<not> ?fine \<longrightarrow> r = ONEBOX_STATUS_FAILURE \<and> s' = s)"
    using step
  proof (cases rule: station_info_cases)
    case refused
    with ok show ?thesis by (simp add: stations_after_def Let_def)
  next
    case (step v fine s1)
    note e = table_event [OF ok a step(3)]
    show ?thesis
    proof (cases fine)
      case True
      have q: "same_table (table_node ni v event s1) s'" using step(4) True .
      show ?thesis
        using e(1) e(3) [OF True step(2)] same_table_ok(1,2) [OF q] same_table_sel(5) [OF q] event_addresses [OF step(3)]
          True step(2) by simp
    next
      case False
      with e step(5) have "s' = s" "r = ONEBOX_STATUS_FAILURE" by simp_all
      with e(1) False ok show ?thesis by (auto simp: stations_after_def Let_def)
    qed
  qed
  then show "sta_table_ok s' \<and> known_stations s' = stations_after ni event s \<and>
         (\<forall>n. ni_macaddr (g_node s' n) = ni_macaddr (g_node s n))"
    "r = ONEBOX_STATUS_SUCCESS \<longrightarrow> served s ni \<and> ?fine" "\<not> ?fine \<longrightarrow> r = ONEBOX_STATUS_FAILURE \<and> s' = s" by blast+
qed

section \<open>The properties\<close>

text \<open>
  C26. The station table refines a finite map from addresses to nodes: a station that connects
  is entered under its address when it is admitted (its address is new and the table is not
  full, or it is there already under the number the node carries), one that disconnects is
  taken out, every other event and every event of an interface that is not served leaves the
  map as it is, whatever becomes of the frame to the firmware. The invariant of the table is
  kept: a slot is marked in the bit map exactly when it holds an address, no two hold the same,
  and its node carries the number of the slot.
\<close>

theorem station_table_refines_map:
  assumes "sta_table_ok s" "ni_macaddr (g_node s ni) \<noteq> replicate 6 0"
    and "core_send_station_info h (Some ni) event s = Some (r, s')"
  shows "sta_table_ok s' \<and> known_stations s' = stations_after ni event s"
  using core_send_station_info_table(1) [OF assms] by blast

text \<open>
  C27. A station that is refused costs nothing: a success means that the
  interface is served and the station was admitted or, for the later events, registered; a
  station that is not, such as a new one when the table is full, gets a failure and nothing at
  all is changed or sent.
\<close>

theorem refused_station_changes_nothing:
  assumes "sta_table_ok s" "ni_macaddr (g_node s ni) \<noteq> replicate 6 0"
    and "core_send_station_info h (Some ni) event s = Some (r, s')"
  shows "if (if event = STA_CONNECTED then admitted s ni else registered s ni)
         then r = ONEBOX_STATUS_SUCCESS \<longrightarrow> served s ni else r = ONEBOX_STATUS_FAILURE \<and> s' = s"
  using core_send_station_info_table(2,3) [OF assms] by auto

text \<open>A sequence of events, one after the other under the lock of net80211.\<close>

primrec station_events :: "core_host \<Rightarrow> (nat \<times> notify_event) list \<Rightarrow> wlan_mgmt \<Rightarrow> wlan_mgmt option" where
  "station_events h [] s = Some s"
| "station_events h (e # es) s = do { (r, t) \<leftarrow> core_send_station_info h (Some (fst e)) (snd e) s; station_events h es t }"

lemma station_events_table:
  assumes "station_events h es s = Some s'" "sta_table_ok s"
    and "\<forall>e\<in>set es. ni_macaddr (g_node s (fst e)) \<noteq> replicate 6 0"
  shows "sta_table_ok s'"
  using assms
proof (induction es arbitrary: s)
  case (Cons e es)
  from Cons.prems(1) obtain r t where t: "core_send_station_info h (Some (fst e)) (snd e) s = Some (r, t)"
      "station_events h es t = Some s'"
    by (auto split: bind_splits)
  have "sta_table_ok t \<and> (\<forall>n. ni_macaddr (g_node t n) = ni_macaddr (g_node s n))"
    using core_send_station_info_table(1) [OF Cons.prems(2) _ t(1)] Cons.prems(3) by simp
  with Cons.IH [OF t(2)] Cons.prems(3) show ?case by simp
qed simp

lemma numbers_distinct:
  assumes "sta_table_ok s" "known_stations s a = Some n" "known_stations s b = Some m" "a \<noteq> b"
  shows "node_sta_id (g_node s n) \<noteq> node_sta_id (g_node s m) \<and> unat (node_sta_id (g_node s n)) < slots s"
proof -
  obtain i where i: "i < slots s" "slot_used s i" "sta s i = (a, Some n)"
    using assms(2) known_stations_iff [OF assms(1)] by blast
  obtain j where j: "j < slots s" "slot_used s j" "sta s j = (b, Some m)"
    using assms(3) known_stations_iff [OF assms(1)] by blast
  have "unat (node_sta_id (g_node s n)) = i" "unat (node_sta_id (g_node s m)) = j"
    using sta_table_okD(2) [OF assms(1) i(1)] sta_table_okD(2) [OF assms(1) j(1)] i j by (simp_all add: slot_ok_def)
  with i j assms(4) show ?thesis by auto
qed

text \<open>
  C28. The firmware tells the stations apart by their numbers, and rightly so: after any sequence
  of connections, disconnections and aggregation events that started from a good table, two
  stations with different addresses carry different numbers, and each number is within the
  table.
\<close>

theorem station_numbers_distinct:
  assumes "station_events h es s = Some s'" "sta_table_ok s"
    and "\<forall>e\<in>set es. ni_macaddr (g_node s (fst e)) \<noteq> replicate 6 0"
    and "known_stations s' a = Some n" "known_stations s' b = Some m" "a \<noteq> b"
  shows "node_sta_id (g_node s' n) \<noteq> node_sta_id (g_node s' m) \<and> unat (node_sta_id (g_node s' n)) < slots s'"
  using numbers_distinct [OF station_events_table [OF assms(1-3)] assms(4-6)] .

section \<open>Two stations, for the concrete instances\<close>

definition table_sample :: wlan_mgmt where
  "table_sample = (let s = mgmt_sample FSM_MAC_INIT_DONE in
     upd_node 1 (\<lambda>n. n\<lparr>ni_macaddr := [2, 0, 0, 0, 0, 2]\<rparr>) (upd_ps (upd_vap 0 (\<lambda>v. v\<lparr>iv_opmode := M_HOSTAP\<rparr>)) s))"

lemma no_address: "replicate 6 (0 :: u8) = [0, 0, 0, 0, 0, 0]"
  by (simp add: numeral_eq_Suc)

lemma table_sample_ok: "sta_table_ok table_sample" "ni_macaddr (g_node table_sample 0) \<noteq> replicate 6 0"
    "ni_macaddr (g_node table_sample 1) \<noteq> replicate 6 0"
  by (simp_all add: table_sample_def mgmt_sample_defs sta_table_ok_def slot_ok_def slot_used_def Let_def list_all_iff no_address)

text \<open>An access point without WEP answers every station that connects.\<close>

definition open_ap :: "nat \<Rightarrow> wlan_mgmt \<Rightarrow> bool" where
  "open_ap v s \<longleftrightarrow> iv_opmode (g_vap s v) = M_HOSTAP \<and> iv_flags (g_txvap s v) AND F_PRIVACY = 0"

lemma admit_answers:
  assumes "sta_table_ok s"
  shows "admit_station ni s \<noteq> None"
proof -
  note D = sta_table_okD(1) [OF assms]
  obtain known where known: "first_index (has_address (ni_macaddr (g_node s ni)) s) 0 (slots s) = Some known"
    using first_index_returns [of 0 "slots s" "has_address (ni_macaddr (g_node s ni)) s"] D
    by (fastforce simp: has_address_def)
  obtain slot where slot: "first_index (slot_free s) 0 (slots s) = Some slot"
    using first_index_returns [of 0 "slots s" "slot_free s"] D by (fastforce simp: slot_free_iff)
  show ?thesis
    using known slot D first_index_Some [of "slot_free s" 0 "slots s"]
    by (fastforce simp: admit_station_def Let_def split: option.splits)
qed

lemma open_ap_queue [simp]: "open_ap v (queue_command d s) = open_ap v s"
  by (simp add: open_ap_def queue_command_def schedule_wlan_def log_common_def upd_queue_def)

lemma open_ap_send: "send_mgmt h desc body s = Some (r, s') \<Longrightarrow> length desc = 8 \<Longrightarrow> open_ap v s' = open_ap v s"
  using send_mgmt_cases [of desc h body s] by (metis Pair_inject open_ap_queue option.inject)

lemma connect_answers:
  assumes "sta_table_ok s" "ni_vap (g_wlan s) ni = Some v" "open_ap v s"
  shows "core_send_station_info h (Some ni) STA_CONNECTED s \<noteq> None"
proof -
  obtain fine s1 where s1: "admit_station ni s = Some (fine, s1)" using admit_answers [OF assms(1), of ni] by auto
  let ?s2 = "table_node ni v STA_CONNECTED s1"
  have "open_ap v s1"
    using s1 assms(3) by (auto simp: admit_station_def open_ap_def mark_slot_def set_address_def Let_def upd_wlan_def
        with_wlan_def upd_node_def split: bind_splits option.splits if_splits)
  then have o: "open_ap v ?s2" by (simp add: open_ap_def table_node_def set_sta_ni_def Let_def)
  let ?desc = "[mgmt_word0 16, PEER_NOTIFY, 0, 0, 0, 0, 0,
                ucast (node_sta_id (g_node ?s2 ni)) OR push_bit 8 (ucast (vap_id (g_txvap ?s2 v)))] :: u16 list"
  let ?body = "peer_body ?s2 ni (push_bit 1 1) STA_CONNECTED"
  obtain st s3 where s3: "send_mgmt (ch_host h) ?desc ?body ?s2 = Some (st, s3)"
    using send_mgmt_answers [of ?desc "ch_host h" ?body ?s2] by auto
  have o3: "open_ap v s3" using open_ap_send [OF s3] o by simp
  have sent: "peer_sent h ni v s3 = Some s3" using o3 by (simp add: peer_sent_def open_ap_def Let_def)
  have m: "iv_opmode (g_vap ?s2 v) = M_HOSTAP" using o by (simp add: open_ap_def)
  have "hal_send_sta_notify_frame h ni v STA_CONNECTED ?s2 =
      Some (if st \<noteq> ONEBOX_STATUS_SUCCESS then ONEBOX_STATUS_FAILURE else ONEBOX_STATUS_SUCCESS, s3)"
    using s3 sent m by (simp add: hal_send_sta_notify_frame_def peer_opmode_def)
  moreover have "follow_width h v STA_CONNECTED s3 = Some s3" using o3 by (simp add: follow_width_def open_ap_def Let_def)
  ultimately show ?thesis using assms(2) s1 by (simp add: core_send_station_info_def table_step_def)
qed

lemma table_sample_ap: "ni_vap (g_wlan table_sample) 0 = Some 0" "open_ap 0 table_sample"
  "ni_macaddr (g_node table_sample 0) = [2, 0, 0, 0, 0, 1]" "known_stations table_sample = Map.empty"
  "served table_sample 0" "3 < slots table_sample" "node_sta_id (g_node table_sample 0) = 3"
  "fst (sta table_sample 3) = replicate 6 0"
  by (simp_all add: table_sample_def mgmt_sample_defs open_ap_def known_stations_def slot_used_def served_def vap_valid_def
      Let_def upd_vap_def)

lemma table_sample_entered: "stations_after 0 STA_CONNECTED table_sample = [[2, 0, 0, 0, 0, 1] \<mapsto> 0]"
  using table_sample_ap by (simp add: stations_after_def admitted_def)

lemma station_table_refines_map_witness:
  "\<exists>r s'. core_send_station_info core_sample_host (Some 0) STA_CONNECTED table_sample = Some (r, s') \<and>
          sta_table_ok s' \<and> known_stations s' = [[2, 0, 0, 0, 0, 1] \<mapsto> 0]"
proof -
  obtain r s' where "core_send_station_info core_sample_host (Some 0) STA_CONNECTED table_sample = Some (r, s')"
    using connect_answers [OF table_sample_ok(1) table_sample_ap(1,2), of core_sample_host] by auto
  with station_table_refines_map [OF table_sample_ok(1,2) this] table_sample_entered show ?thesis by auto
qed

text \<open>An aggregation event of a station that never connected.\<close>

lemma refused_station_changes_nothing_witness:
  "core_send_station_info core_sample_host (Some 0) STA_ADDBA_DONE table_sample = Some (ONEBOX_STATUS_FAILURE, table_sample)"
proof -
  have "node_valid 0 table_sample = Some False"
    using table_sample_ok(2) table_sample_ap(6-8) by (simp add: node_valid_def has_address_def)
  then have "core_send_station_info core_sample_host (Some 0) STA_ADDBA_DONE table_sample \<noteq> None"
    using table_sample_ap by (simp add: core_send_station_info_def table_step_def served_def)
  then obtain r s' where "core_send_station_info core_sample_host (Some 0) STA_ADDBA_DONE table_sample = Some (r, s')" by auto
  with refused_station_changes_nothing [OF table_sample_ok(1,2) this] table_sample_ap(4) show ?thesis
    by (simp add: registered_def)
qed

text \<open>A second station beside one that is in the table.\<close>

definition pair_sample :: wlan_mgmt where
  "pair_sample = taken 0 1 table_sample"

lemma table_sample_free: "j < slots table_sample \<Longrightarrow> fst (sta table_sample j) = replicate 6 0" "\<not> slot_used table_sample 0"
  "ni_macaddr (g_node table_sample 1) = [2, 0, 0, 0, 0, 2]" "slots table_sample = 8" "ni_vap (g_wlan table_sample) ni = Some 0"
  by (simp_all add: table_sample_def mgmt_sample_defs slot_used_def)

lemma pair_sample_ok: "sta_table_ok pair_sample" "known_stations pair_sample = [[2, 0, 0, 0, 0, 2] \<mapsto> 1]"
  using taken_ok [OF table_sample_ok(1), of 0 1] table_sample_free table_sample_ok(3) table_sample_ap(4,6)
  by (simp_all add: pair_sample_def)

lemma pair_sample_ap: "ni_vap (g_wlan pair_sample) 0 = Some 0" "open_ap 0 pair_sample" "served pair_sample 0"
  "ni_macaddr (g_node pair_sample 0) = [2, 0, 0, 0, 0, 1]" "slots pair_sample = 8"
  "ni_macaddr (g_node pair_sample 0) \<noteq> replicate 6 0"
  using table_sample_ap table_sample_free table_sample_ok(2)
  by (simp_all add: pair_sample_def taken_def served_def vap_valid_def open_ap_def set_sta_ni_def set_address_def mark_slot_def
      upd_node_def upd_wlan_def with_wlan_def)

lemma station_numbers_distinct_witness:
  "\<exists>s'. station_events core_sample_host [(0, STA_CONNECTED)] pair_sample = Some s' \<and>
     node_sta_id (g_node s' 0) \<noteq> node_sta_id (g_node s' 1)"
proof -
  obtain r s' where s': "core_send_station_info core_sample_host (Some 0) STA_CONNECTED pair_sample = Some (r, s')"
    using connect_answers [OF pair_sample_ok(1) pair_sample_ap(1,2), of core_sample_host] by auto
  then have run: "station_events core_sample_host [(0, STA_CONNECTED)] pair_sample = Some s'" by simp
  have "known_stations s' = [[2, 0, 0, 0, 0, 2] \<mapsto> 1, [2, 0, 0, 0, 0, 1] \<mapsto> 0]"
    using core_send_station_info_table(1) [OF pair_sample_ok(1) pair_sample_ap(6) s'] pair_sample_ok(2) pair_sample_ap
    by (simp add: stations_after_def admitted_def)
  with station_numbers_distinct [OF run pair_sample_ok(1), of "[2, 0, 0, 0, 0, 1]" 0 "[2, 0, 0, 0, 0, 2]" 1] pair_sample_ap(6) run
  show ?thesis by auto
qed

end
