(* ===== verification/Boot_Loader.thy ===== *)
theory Boot_Loader
  imports Sdio_Bus
begin

text \<open>
  Loading the firmware through the boot loader of the device
  (\<^verbatim>\<open>onebox_common_devops.c\<close>, \<^verbatim>\<open>device_init\<close> of
  \<^verbatim>\<open>onebox_common_init.c\<close>, and \<^verbatim>\<open>auto_fw_upgrade\<close>,
  \<^verbatim>\<open>read_flash_content\<close> and \<^verbatim>\<open>verify_flash_content\<close> of
  \<^verbatim>\<open>onebox_flashing.c\<close>): commands through two registers under a timer, the image
  written chunk by chunk into two buffers in turn, and the sequence of steps around them. The
  polling loops end when the register or the timer says so: \<open>None\<close> is a loop that never
  ends or a read outside a buffer.
\<close>

section \<open>Constants\<close>

abbreviation (input) FLASH_SIZE_ADDR :: u32 where "FLASH_SIZE_ADDR \<equiv> 0x04000016"
abbreviation (input) SOC_FLASH_ADDR :: u32 where "SOC_FLASH_ADDR \<equiv> 0x04000000"
abbreviation (input) PING_BUFFER_ADDRESS :: u32 where "PING_BUFFER_ADDRESS \<equiv> 0x19000"
abbreviation (input) PONG_BUFFER_ADDRESS :: u32 where "PONG_BUFFER_ADDRESS \<equiv> 0x1a000"
abbreviation (input) SWBL_REGIN :: u32 where "SWBL_REGIN \<equiv> 0x41050034"
abbreviation (input) SWBL_REGOUT :: u32 where "SWBL_REGOUT \<equiv> 0x4105003c"
abbreviation (input) PING_WRITE :: u8 where "PING_WRITE \<equiv> 1"
abbreviation (input) PONG_WRITE :: u8 where "PONG_WRITE \<equiv> 2"
abbreviation (input) CMD_PASS :: u8 where "CMD_PASS \<equiv> 0xAA"
abbreviation (input) CMD_FAIL :: u16 where "CMD_FAIL \<equiv> 0xCC"
abbreviation (input) SEND_RPS_FILE :: u8 where "SEND_RPS_FILE \<equiv> 0x32"
abbreviation (input) BURN_BL :: u8 where "BURN_BL \<equiv> 0x23"
abbreviation (input) LOAD_HOSTED_FW :: u8 where "LOAD_HOSTED_FW \<equiv> 0x41"
abbreviation (input) BURN_HOSTED_FW :: u8 where "BURN_HOSTED_FW \<equiv> 0x42"
abbreviation (input) PING_VALID :: u8 where "PING_VALID \<equiv> 0x49"
abbreviation (input) PONG_VALID :: u8 where "PONG_VALID \<equiv> 0x4F"
abbreviation (input) PING_AVAIL :: u8 where "PING_AVAIL \<equiv> 0x49"
abbreviation (input) PONG_AVAIL :: u8 where "PONG_AVAIL \<equiv> 0x4F"
abbreviation (input) EOF_REACHED :: u8 where "EOF_REACHED \<equiv> 0x45"
abbreviation (input) CHECK_CRC :: u8 where "CHECK_CRC \<equiv> 0x4B"
abbreviation (input) POLLING_MODE :: u8 where "POLLING_MODE \<equiv> 0x50"
abbreviation (input) CONFIG_AUTO_READ_MODE :: u8 where "CONFIG_AUTO_READ_MODE \<equiv> 0x52"
abbreviation (input) JUMP_TO_ZERO_PC :: u8 where "JUMP_TO_ZERO_PC \<equiv> 0x4A"
abbreviation (input) FW_LOADING_SUCCESSFUL :: u8 where "FW_LOADING_SUCCESSFUL \<equiv> 0x53"
abbreviation (input) LOADING_INITIATED :: u8 where "LOADING_INITIATED \<equiv> 0x31"
abbreviation (input) BL_CMD_TIMEOUT :: nat where "BL_CMD_TIMEOUT \<equiv> 2000"
abbreviation (input) BL_BURN_TIMEOUT :: nat where "BL_BURN_TIMEOUT \<equiv> 30000"
abbreviation (input) FULL_FLASH_SBL :: u8 where "FULL_FLASH_SBL \<equiv> 1"
abbreviation (input) FULL_RAM_SBL :: u8 where "FULL_RAM_SBL \<equiv> 2"
abbreviation (input) FLASH_RAM_SBL :: u8 where "FLASH_RAM_SBL \<equiv> 3"
abbreviation (input) FLASH_RAM_NO_SBL :: u8 where "FLASH_RAM_NO_SBL \<equiv> 4"
abbreviation (input) RF_EVAL_ON :: u8 where "RF_EVAL_ON \<equiv> 2"
abbreviation (input) RF_EVAL_LPBK_CALIB :: u8 where "RF_EVAL_LPBK_CALIB \<equiv> 3"
abbreviation (input) RF_EVAL_LPBK :: u8 where "RF_EVAL_LPBK \<equiv> 4"
abbreviation (input) SNIFFING_MODE :: u8 where "SNIFFING_MODE \<equiv> 7"
abbreviation (input) SWBL_FLASHING_SBL :: u8 where "SWBL_FLASHING_SBL \<equiv> 9"
abbreviation (input) FLASH_WRITE_CHUNK :: nat where "FLASH_WRITE_CHUNK \<equiv> 4096"
abbreviation (input) EEPROM_DATA_SIZE :: nat where "EEPROM_DATA_SIZE \<equiv> 4096"
abbreviation (input) BL_HEADER :: nat where "BL_HEADER \<equiv> 32"
abbreviation (input) MAX_FLASH_FILE_SIZE :: u32 where "MAX_FLASH_FILE_SIZE \<equiv> 409600"
abbreviation (input) LMAC_VER_OFFSET :: nat where "LMAC_VER_OFFSET \<equiv> 0xa20"

section \<open>The state and the surroundings\<close>

record lmac_version =
  lmac_major :: u16
  lmac_minor :: u16
  lmac_release :: u8
  lmac_patch :: u8
  fw_ver0 :: u8
  fw_ver1 :: u8

record boot_loader =
  bl_common :: adapter
  coex_mode :: u8
  fw_load_mode :: u8
  flashing_mode :: u8
  skip_fw_load :: bool
  flash_capacity :: u32
  lmac_ver :: lmac_version

text \<open>
  Beside the bus: what \<^verbatim>\<open>bl_timer_expired\<close> holds when it is read, the files of the
  firmware directory, and the accesses of the USB layer.
\<close>

record boot_host =
  bh_host :: host
  bh_expired :: "history \<Rightarrow> bool"
  bh_firmware :: "string \<Rightarrow> bytes option"
  bh_usb_reg_read :: "history \<Rightarrow> status \<times> u32"
  bh_usb_reg_write :: "history \<Rightarrow> status"
  bh_ta_read :: "history \<Rightarrow> status \<times> bytes"

definition bl_log :: "event \<Rightarrow> boot_loader \<Rightarrow> boot_loader" where
  "bl_log e b = b\<lparr>bl_common := log e (bl_common b)\<rparr>"

text \<open>A step on the bus as a step of the loader.\<close>

definition on_bus :: "boot_loader \<Rightarrow> ('a \<times> adapter) option \<Rightarrow> ('a \<times> boot_loader) option" where
  "on_bus b r = map_option (\<lambda>(x, a). (x, b\<lparr>bl_common := a\<rparr>)) r"

section \<open>Registers of the device\<close>

definition read_multiple :: "host \<Rightarrow> u32 \<Rightarrow> u32 \<Rightarrow> adapter \<Rightarrow> (status \<times> bytes) \<times> adapter" where
  "read_multiple h addr cnt a =
     (let a' = log (Multi_read addr cnt) a in (h_read_multiple h (trace a'), a'))"

text \<open>Four bytes as a register; the buffer is zero before it is read into.\<close>

definition reg_word :: "bytes \<Rightarrow> u32" where
  "reg_word d = (case rd32 (d @ [0, 0, 0, 0]) 0 of None \<Rightarrow> 0 | Some w \<Rightarrow> w)"

definition reg_value :: "nat \<Rightarrow> u32 \<Rightarrow> u32 \<Rightarrow> u32" where
  "reg_value width addr data =
     (if width = 2 then (if addr AND 3 = 0 then data else drop_bit 16 data) AND 0xFFFF
      else if width = 1 then drop_bit (8 * unat (addr AND 3)) data AND 0xFF
      else data)"

text \<open>The high byte of the address is tested after the address was cut to the window.\<close>

definition sdio_master_reg_read :: "host \<Rightarrow> u32 \<Rightarrow> nat \<Rightarrow> adapter \<Rightarrow> u32 option \<times> adapter" where
  "sdio_master_reg_read h addr width a =
     (let (s, a1) = onebox_sdio_master_access_msword h (ucast (drop_bit 16 addr)) a;
          low = addr AND 0xFFFF; page = low AND 0xFF000000;
          on_bus = (if page = FLASH_SIZE_ADDR AND 0xFF000000 \<or> page = 0 then low AND NOT 3 else low) in
      if s \<noteq> ONEBOX_STATUS_SUCCESS then (None, a1)
      else (case read_multiple h (on_bus OR 0x10000) 4 a1 of
              ((s', d), a2) \<Rightarrow>
                if s' \<noteq> ONEBOX_STATUS_SUCCESS then (None, a2) else (Some (reg_value width low (reg_word d)), a2)))"

definition reg_data :: "nat \<Rightarrow> u32 \<Rightarrow> u32" where
  "reg_data width data =
     (if width = 2 then push_bit 16 data OR (data AND 0xFFFF)
      else if width = 1 then (let d = data AND 0xFF in push_bit 24 d OR push_bit 16 d OR push_bit 8 d OR d)
      else data)"

definition sdio_master_reg_write :: "host \<Rightarrow> u32 \<Rightarrow> u32 \<Rightarrow> nat \<Rightarrow> adapter \<Rightarrow> status \<times> adapter" where
  "sdio_master_reg_write h addr data width =
     or_fail (onebox_sdio_master_access_msword h (ucast (drop_bit 16 addr)))
     (or_fail (write_multiple h ((addr AND 0xFFFF) OR 0x10000) (le32 (reg_data width data)) 4)
      return_success)"

definition master_reg_read :: "boot_host \<Rightarrow> u32 \<Rightarrow> nat \<Rightarrow> adapter \<Rightarrow> u32 option \<times> adapter" where
  "master_reg_read h addr width a =
     (case host_intf_type a of
        HOST_INTF_SDIO \<Rightarrow> sdio_master_reg_read (bh_host h) addr width a
      | HOST_INTF_USB \<Rightarrow>
          (let a' = log (Usb_reg_read addr width) a; (s, v) = bh_usb_reg_read h (trace a')
           in (if s < 0 then None else Some v, a')))"

definition master_reg_write :: "boot_host \<Rightarrow> u32 \<Rightarrow> u32 \<Rightarrow> nat \<Rightarrow> adapter \<Rightarrow> status \<times> adapter" where
  "master_reg_write h addr data width a =
     (case host_intf_type a of
        HOST_INTF_SDIO \<Rightarrow> sdio_master_reg_write (bh_host h) addr data width a
      | HOST_INTF_USB \<Rightarrow> (let a' = log (Usb_reg_write addr data width) a in (bh_usb_reg_write h (trace a'), a')))"

definition load_data_master_write :: "boot_host \<Rightarrow> u32 \<Rightarrow> u32 \<Rightarrow> bytes \<Rightarrow> adapter \<Rightarrow> (status \<times> adapter) option" where
  "load_data_master_write h base sz data a =
     (case host_intf_type a of
        HOST_INTF_USB \<Rightarrow> usb_load_data_master_write (bh_host h) base sz (TransmitBlockSize a) data a
      | HOST_INTF_SDIO \<Rightarrow> sdio_load_data_master_write (bh_host h) base sz (TransmitBlockSize a) data a)"

section \<open>Commands to the boot loader\<close>

definition bl_cmd_start_timer :: "nat \<Rightarrow> adapter \<Rightarrow> adapter" where
  "bl_cmd_start_timer timeout = log (Timer_start timeout)"

definition bl_cmd_stop_timer :: "adapter \<Rightarrow> adapter" where
  "bl_cmd_stop_timer = log Timer_stop"

definition timer_expired :: "boot_host \<Rightarrow> adapter \<Rightarrow> bool \<times> adapter" where
  "timer_expired h a = (let a' = log Timer_check a in (bh_expired h (trace a'), a'))"

text \<open>
  \<^verbatim>\<open>while (!bl_timer_expired)\<close> around the read of a register: the value that
  ended the loop, or the last one when the timer did, or \<open>Some None\<close> for a failed read.
\<close>

partial_function (option) poll_register ::
  "boot_host \<Rightarrow> u32 \<Rightarrow> (u32 \<Rightarrow> bool) \<Rightarrow> u32 \<Rightarrow> adapter \<Rightarrow> (u32 option \<times> adapter) option" where
  "poll_register h reg done val a =
     (let (expired, a1) = timer_expired h a in
      if expired then Some (Some val, a1)
      else (case master_reg_read h reg 2 a1 of
              (None, a2) \<Rightarrow> Some (None, a2)
            | (Some v, a2) \<Rightarrow> if done v then Some (Some v, a2) else poll_register h reg done v a2))"

definition regin_word :: "u8 \<Rightarrow> u8 \<Rightarrow> u32" where
  "regin_word coex cmd = ucast cmd OR push_bit 8 (0xA0 OR ucast coex)"

text \<open>The second half of a command: the answer is fetched and cleared.\<close>

definition bl_response :: "boot_host \<Rightarrow> u8 \<Rightarrow> u8 \<Rightarrow> u16 \<Rightarrow> adapter \<Rightarrow> ((status \<times> u16) \<times> adapter) option" where
  "bl_response h cmd exp_resp resp a =
     do { (regout, a1) \<leftarrow> poll_register h SWBL_REGOUT (\<lambda>v. drop_bit 8 v = 0xAB) 0 a;
          case regout of
            None \<Rightarrow> Some ((ONEBOX_STATUS_FAILURE, resp), a1)
          | Some v \<Rightarrow>
              (let (expired, a2) = timer_expired h a1 in
               if expired then Some ((ONEBOX_STATUS_FAILURE, resp), a2)
               else (let (s, a3) = master_reg_write h SWBL_REGOUT (ucast cmd OR push_bit 8 (NOT 0xAB)) 2 a2 in
                     if s < 0 then Some ((ONEBOX_STATUS_FAILURE, ucast v), a3)
                     else if ucast (v AND 0xff) = exp_resp then Some ((ONEBOX_STATUS_SUCCESS, ucast v), a3)
                     else Some ((ONEBOX_STATUS_FAILURE, ucast v), a3))) }"

text \<open>\<open>resp\<close> is what the caller's variable for the answer holds; it is written when an answer came.\<close>

definition bl_write_cmd :: "boot_host \<Rightarrow> u8 \<Rightarrow> u8 \<Rightarrow> u8 \<Rightarrow> u16 \<Rightarrow> adapter \<Rightarrow> ((status \<times> u16) \<times> adapter) option" where
  "bl_write_cmd h coex cmd exp_resp resp a =
     do { (regin, a1) \<leftarrow> poll_register h SWBL_REGIN (\<lambda>v. drop_bit 12 v \<noteq> 0xA) 0 a;
          case regin of
            None \<Rightarrow> Some ((ONEBOX_STATUS_FAILURE, resp), a1)
          | Some _ \<Rightarrow>
              (let (expired, a2) = timer_expired h a1 in
               if expired then Some ((ONEBOX_STATUS_FAILURE, resp), a2)
               else (let (s, a3) = master_reg_write h SWBL_REGIN (regin_word coex cmd) 2 a2 in
                     if s < 0 then Some ((ONEBOX_STATUS_FAILURE, resp), a3)
                     else if cmd = LOAD_HOSTED_FW \<or> cmd = JUMP_TO_ZERO_PC then Some ((ONEBOX_STATUS_SUCCESS, resp), a3)
                     else bl_response h cmd exp_resp resp a3)) }"

definition bl_cmd :: "boot_host \<Rightarrow> u8 \<Rightarrow> u8 \<Rightarrow> u8 \<Rightarrow> adapter \<Rightarrow> (status \<times> adapter) option" where
  "bl_cmd h coex cmd exp_resp a =
     (let timeout = (if cmd \<in> {EOF_REACHED, PING_VALID, PONG_VALID} then BL_BURN_TIMEOUT else BL_CMD_TIMEOUT) in
      do { ((s, _), a1) \<leftarrow> bl_write_cmd h coex cmd exp_resp 0 (bl_cmd_start_timer timeout a);
           if s < 0 then Some (ONEBOX_STATUS_FAILURE, a1) else Some (ONEBOX_STATUS_SUCCESS, bl_cmd_stop_timer a1) })"

section \<open>The image in chunks\<close>

definition ping_pong_write :: "boot_host \<Rightarrow> u8 \<Rightarrow> u8 \<Rightarrow> bytes \<Rightarrow> u32 \<Rightarrow> adapter \<Rightarrow> (status \<times> adapter) option" where
  "ping_pong_write h coex cmd data sz a =
     (let (addr, resp, req) = (if cmd = PING_WRITE then (PING_BUFFER_ADDRESS, PONG_AVAIL, PING_VALID)
                               else (PONG_BUFFER_ADDRESS, PING_AVAIL, PONG_VALID)) in
      do { (s, a1) \<leftarrow> load_data_master_write h addr sz data a;
           if s \<noteq> ONEBOX_STATUS_SUCCESS then Some (ONEBOX_STATUS_FAILURE, a1)
           else do { (s', a2) \<leftarrow> bl_cmd h coex req resp a1;
                     if s' < 0 then Some (ONEBOX_STATUS_FAILURE, bl_cmd_stop_timer a2) else Some (ONEBOX_STATUS_SUCCESS, a2) } })"

text \<open>The loop over the chunks: \<open>kk\<close> is its counter, \<open>n\<close> whole chunks are left, then the rest.\<close>

fun write_chunks :: "boot_host \<Rightarrow> u8 \<Rightarrow> u32 \<Rightarrow> nat \<Rightarrow> nat \<Rightarrow> bytes \<Rightarrow> adapter \<Rightarrow> (status \<times> adapter) option" where
  "write_chunks h coex rest kk 0 data a =
     (if rest = 0 then Some (ONEBOX_STATUS_SUCCESS, a)
      else ping_pong_write h coex (if odd kk then PING_WRITE else PONG_WRITE) data rest a)"
| "write_chunks h coex rest kk (Suc n) data a =
     do { (s, a1) \<leftarrow> ping_pong_write h coex (if odd kk then PING_WRITE else PONG_WRITE) data (word_of_nat FLASH_WRITE_CHUNK) a;
          if s = ONEBOX_STATUS_FAILURE then Some (ONEBOX_STATUS_FAILURE, a1)
          else write_chunks h coex rest (Suc kk) n (drop FLASH_WRITE_CHUNK data) a1 }"

text \<open>The checks of the start address; the sum with the size is taken in 32 bits.\<close>

definition start_address_ok :: "bool \<Rightarrow> u32 \<Rightarrow> u32 \<Rightarrow> u32 \<Rightarrow> bool" where
  "start_address_ok boot_image start sz capacity \<longleftrightarrow>
     (if boot_image then 4096 \<le> start else 68 * 1024 \<le> start) \<and> start mod 4096 = 0 \<and> start + sz \<le> capacity"

definition auto_fw_upgrade :: "boot_host \<Rightarrow> bytes \<Rightarrow> u32 \<Rightarrow> boot_loader \<Rightarrow> (status \<times> adapter) option" where
  "auto_fw_upgrade h content sz b =
     (let a = bl_common b in
      if MAX_FLASH_FILE_SIZE < sz then Some (ONEBOX_STATUS_FAILURE, a)
      else do { start \<leftarrow> rd32 content 16;
                if \<not> start_address_ok (Driver_Mode a = QSPI_FLASHING \<and> flashing_mode b = SWBL_FLASHING_SBL) start sz (flash_capacity b)
                then Some (ONEBOX_STATUS_FAILURE, a)
                else do { (s, a1) \<leftarrow> write_chunks h (coex_mode b) (sz mod word_of_nat FLASH_WRITE_CHUNK) 0
                                     (unat (sz div word_of_nat FLASH_WRITE_CHUNK)) content a;
                          if s = ONEBOX_STATUS_FAILURE then Some (ONEBOX_STATUS_FAILURE, a1)
                          else do { (s', a2) \<leftarrow> bl_cmd h (coex_mode b) EOF_REACHED FW_LOADING_SUCCESSFUL a1;
                                    if s' < 0 then Some (ONEBOX_STATUS_FAILURE, bl_cmd_stop_timer a2)
                                    else Some (ONEBOX_STATUS_SUCCESS, a2) } } })"

section \<open>Reading the flash back\<close>

definition read_flash_capacity :: "boot_host \<Rightarrow> adapter \<Rightarrow> u32 \<times> adapter" where
  "read_flash_capacity h a =
     (case master_reg_read h FLASH_SIZE_ADDR 2 a of
        (None, a1) \<Rightarrow> (0, a1)
      | (Some v, a1) \<Rightarrow> (v * 1024, a1))"

definition read_flash_content :: "boot_host \<Rightarrow> u32 \<Rightarrow> u32 \<Rightarrow> adapter \<Rightarrow> (status \<times> bytes) \<times> adapter" where
  "read_flash_content h address len a =
     (case host_intf_type a of
        HOST_INTF_SDIO \<Rightarrow>
          (let (s, a1) = onebox_sdio_master_access_msword (bh_host h) (ucast (drop_bit 16 address)) a in
           if s \<noteq> ONEBOX_STATUS_SUCCESS then ((ONEBOX_STATUS_FAILURE, []), a1)
           else read_multiple (bh_host h) ((address AND 0xFFFF) OR 0x10000) len a1)
      | HOST_INTF_USB \<Rightarrow> (let a' = log (Ta_read address len) a in (bh_ta_read h (trace a'), a')))"

text \<open>
  \<^verbatim>\<open>verify_flash_content\<close> in \<^verbatim>\<open>MASTER_READ_MODE\<close>, the mode the boot loader path
  uses. \<open>left\<close> bytes are left to compare; the buffer that is compared is zeroed first,
  and what the bus delivers is written over it.
\<close>

definition verify_chunk_size :: "adapter \<Rightarrow> nat" where
  "verify_chunk_size a = (if host_intf_type a = HOST_INTF_USB then 2048 - 4 else 2048)"

function verify_chunks :: "boot_host \<Rightarrow> nat \<Rightarrow> bytes \<Rightarrow> nat \<Rightarrow> u32 \<Rightarrow> adapter \<Rightarrow> (status \<times> adapter) option" where
  "verify_chunks h cs content left off a =
     (if left = 0 \<or> cs = 0 then Some (ONEBOX_STATUS_SUCCESS, a)
      else (let n = min left cs; ((s, d), a1) = read_flash_content h (SOC_FLASH_ADDR + off) (word_of_nat cs) a in
            if s < 0 then Some (ONEBOX_STATUS_FAILURE, a1)
            else do { expected \<leftarrow> mem_slice content 0 n;
                      if expected \<noteq> take n (d @ replicate n 0) then Some (ONEBOX_STATUS_FAILURE, a1)
                      else verify_chunks h cs (drop cs content) (left - n) (off + word_of_nat n) a1 }))"
  by pat_completeness auto
termination by (relation "measure (\<lambda>(h, cs, content, left, off, a). left)") auto

definition verify_flash_content :: "boot_host \<Rightarrow> bytes \<Rightarrow> u32 \<Rightarrow> u32 \<Rightarrow> adapter \<Rightarrow> (status \<times> adapter) option" where
  "verify_flash_content h content sz off a =
     (if \<not> h_kmalloc (bh_host h) (trace a) then Some (ONEBOX_STATUS_FAILURE, a)
      else verify_chunks h (verify_chunk_size a) content (unat sz) off a)"

section \<open>Loading an image into memory\<close>

definition image_lmac_ver :: "bytes \<Rightarrow> lmac_version \<Rightarrow> lmac_version option" where
  "image_lmac_ver img v =
     do { b0 \<leftarrow> rd8 img LMAC_VER_OFFSET; b1 \<leftarrow> rd8 img (LMAC_VER_OFFSET + 1); b2 \<leftarrow> rd8 img (LMAC_VER_OFFSET + 2);
          b3 \<leftarrow> rd8 img (LMAC_VER_OFFSET + 3); b4 \<leftarrow> rd8 img (LMAC_VER_OFFSET + 4);
          Some (v\<lparr>lmac_major := ucast b0, lmac_minor := ucast b1, lmac_release := b2, lmac_patch := b3, fw_ver0 := b4\<rparr>) }"

text \<open>The size is rounded up to a multiple of four: the download of another size reads behind the image, a fault.\<close>

definition load_fw :: "boot_host \<Rightarrow> string \<Rightarrow> boot_loader \<Rightarrow> (status \<times> boot_loader) option" where
  "load_fw h name b =
     (case bh_firmware h name of
        None \<Rightarrow> Some (ONEBOX_STATUS_FAILURE, b)
      | Some img \<Rightarrow>
          do { let b0 = bl_log (Get_firmware name) b;
               ver \<leftarrow> (if take 8 name = ''pmemdata'' then image_lmac_ver img (lmac_ver b0) else Some (lmac_ver b0));
               let sz = (word_of_nat (length img) :: u32);
               let padded = (if sz mod 4 \<noteq> 0 then sz + (4 - sz mod 4) else sz);
               (s, a) \<leftarrow> load_data_master_write h 0 padded img (bl_common b0);
               Some (if s \<noteq> ONEBOX_STATUS_SUCCESS then ONEBOX_STATUS_FAILURE else ONEBOX_STATUS_SUCCESS,
                     bl_log Vmem_free (b0\<lparr>bl_common := a, lmac_ver := ver\<rparr>)) })"

text \<open>\<^verbatim>\<open>metadata[]\<close> by the coexistence mode; an index outside it is a fault.\<close>

definition metadata :: "u8 \<Rightarrow> string option" where
  "metadata coex =
     (let names = [''pmemdata_dummy'', ''pmemdata'', ''pmemdata_wlan_bt_classic'', ''pmemdata_wlan_zigb'', ''pmemdata_wlan_bt_le'']
      in if unat coex < length names then Some (names ! unat coex) else None)"

definition ta_image :: "boot_loader \<Rightarrow> string option" where
  "ta_image b =
     (let mode = Driver_Mode (bl_common b) in
      if mode = QSPI_FLASHING then Some ''pmemdata_burn''
      else if mode \<in> {RF_EVAL_ON, RF_EVAL_LPBK_CALIB, RF_EVAL_LPBK} then Some ''pmemdata_lpbk''
      else if mode = SNIFFING_MODE then Some ''pmemdata_sniffer''
      else metadata (coex_mode b))"

definition load_ta_instructions :: "boot_host \<Rightarrow> boot_loader \<Rightarrow> (status \<times> boot_loader) option" where
  "load_ta_instructions h b =
     do { name \<leftarrow> ta_image b;
          (s, b1) \<leftarrow> load_fw h name b;
          if s = ONEBOX_STATUS_FAILURE then Some (ONEBOX_STATUS_FAILURE, b1)
          else if fw_load_mode b1 = FLASH_RAM_NO_SBL \<and> host_intf_type (bl_common b1) = HOST_INTF_SDIO
          then (case sdio_ta_reset_ops (bh_host h) (bl_common b1) of
                  (s', a) \<Rightarrow> Some (if s' = ONEBOX_STATUS_FAILURE then ONEBOX_STATUS_FAILURE else ONEBOX_STATUS_SUCCESS,
                                   b1\<lparr>bl_common := a\<rparr>))
          else Some (ONEBOX_STATUS_SUCCESS, b1) }"

section \<open>The image header\<close>

text \<open>\<^verbatim>\<open>struct bl_header\<close>: flags, image number, checksum, start address and length.\<close>

definition bl_header :: "u8 \<Rightarrow> bytes \<Rightarrow> bytes option" where
  "bl_header coex content =
     do { check_sum \<leftarrow> rd32 content 20; start \<leftarrow> rd32 content 16; len \<leftarrow> rd32 content 8;
          Some (le32 0 @ le32 (ucast coex) @ le32 check_sum @ le32 start @ le32 len) }"

definition write_bl_header :: "boot_host \<Rightarrow> u8 \<Rightarrow> bytes \<Rightarrow> adapter \<Rightarrow> (status \<times> adapter) option" where
  "write_bl_header h coex content a =
     do { hdr \<leftarrow> bl_header coex content;
          Some (case host_intf_type a of
                  HOST_INTF_USB \<Rightarrow>
                    or_fail (ta_write_multiple (bh_host h) PING_BUFFER_ADDRESS hdr 20) return_success a
                | HOST_INTF_SDIO \<Rightarrow>
                    or_fail (onebox_sdio_master_access_msword (bh_host h) (ucast (drop_bit 16 PING_BUFFER_ADDRESS)))
                    (or_fail (write_multiple (bh_host h) (0x10000 OR (PING_BUFFER_ADDRESS AND 0xFFFF)) hdr 20)
                     return_success) a) }"

section \<open>The whole sequence\<close>

text \<open>
  The labels of \<^verbatim>\<open>load_fw_thru_sbl\<close>, the last ones first. \<open>img\<close> is
  \<^verbatim>\<open>flash_content\<close>, which both exits free.
\<close>

definition free_image :: "bytes option \<Rightarrow> boot_loader \<Rightarrow> boot_loader" where
  "free_image img b = (case img of None \<Rightarrow> b | Some _ \<Rightarrow> bl_log Vmem_free b)"

definition sbl_success :: "bytes option \<Rightarrow> boot_loader \<Rightarrow> (status \<times> boot_loader) option" where
  "sbl_success img b = Some (ONEBOX_STATUS_SUCCESS, free_image img b)"

definition sbl_fail :: "bytes option \<Rightarrow> boot_loader \<Rightarrow> (status \<times> boot_loader) option" where
  "sbl_fail img b = Some (ONEBOX_STATUS_FAILURE, free_image img (bl_log Timer_stop b))"

text \<open>\<^verbatim>\<open>if (bl_cmd(...) < 0) goto fail;\<close> and the rest.\<close>

definition sbl_cmd :: "boot_host \<Rightarrow> u8 \<Rightarrow> u8 \<Rightarrow> bytes option \<Rightarrow>
    (boot_loader \<Rightarrow> (status \<times> boot_loader) option) \<Rightarrow> boot_loader \<Rightarrow> (status \<times> boot_loader) option" where
  "sbl_cmd h cmd exp_resp img rest b =
     do { (s, b1) \<leftarrow> on_bus b (bl_cmd h (coex_mode b) cmd exp_resp (bl_common b));
          if s < 0 then sbl_fail img b1 else rest b1 }"

definition jump_to_zero :: "boot_host \<Rightarrow> bytes option \<Rightarrow> boot_loader \<Rightarrow> (status \<times> boot_loader) option" where
  "jump_to_zero h img = sbl_cmd h JUMP_TO_ZERO_PC CMD_PASS img (sbl_success img)"

definition load_pmemdata :: "boot_host \<Rightarrow> bytes option \<Rightarrow> boot_loader \<Rightarrow> (status \<times> boot_loader) option" where
  "load_pmemdata h img b =
     do { (s, b1) \<leftarrow> load_ta_instructions h b;
          if s = ONEBOX_STATUS_FAILURE then sbl_fail img b1 else jump_to_zero h img b1 }"

definition load_image_cmd :: "boot_host \<Rightarrow> bytes option \<Rightarrow> boot_loader \<Rightarrow> (status \<times> boot_loader) option" where
  "load_image_cmd h img = sbl_cmd h LOAD_HOSTED_FW LOADING_INITIATED img (sbl_success img)"

definition polling_mode_cmd :: "boot_host \<Rightarrow> bytes option \<Rightarrow> boot_loader \<Rightarrow> (status \<times> boot_loader) option" where
  "polling_mode_cmd h img =
     sbl_cmd h POLLING_MODE CMD_PASS img
       (\<lambda>b. if fw_load_mode b = FULL_FLASH_SBL then load_image_cmd h img b else load_pmemdata h img b)"

text \<open>The calibration data is a pointer into the receive buffer, read again here.\<close>

definition auto_read_mode_cmd :: "boot_host \<Rightarrow> bytes \<Rightarrow> boot_loader \<Rightarrow> (status \<times> boot_loader) option" where
  "auto_read_mode_cmd h content =
     sbl_cmd h CONFIG_AUTO_READ_MODE CMD_PASS (Some content)
       (\<lambda>b. if \<not> (Driver_Mode (bl_common b) = QSPI_FLASHING \<and> flashing_mode b = SWBL_FLASHING_SBL) then sbl_fail (Some content) b
            else do { (s, b1) \<leftarrow> on_bus b (verify_flash_content h (DataRcvPacket (bl_common b)) (word_of_nat EEPROM_DATA_SIZE) 0 (bl_common b));
                      if s = ONEBOX_STATUS_FAILURE then sbl_fail (Some content) b1
                      else do { (s', b2) \<leftarrow> on_bus b1 (verify_flash_content h (drop BL_HEADER content)
                                   (word_of_nat (length content) - word_of_nat BL_HEADER) (word_of_nat EEPROM_DATA_SIZE) (bl_common b1));
                                if s' = ONEBOX_STATUS_FAILURE then sbl_fail (Some content) b2
                                else sbl_success (Some content) b2 } })"

definition upgrade_image :: "boot_host \<Rightarrow> bytes \<Rightarrow> boot_loader \<Rightarrow> (status \<times> boot_loader) option" where
  "upgrade_image h content b = on_bus b (auto_fw_upgrade h content (word_of_nat (length content)) b)"

definition fw_upgrade :: "boot_host \<Rightarrow> bytes \<Rightarrow> boot_loader \<Rightarrow> (status \<times> boot_loader) option" where
  "fw_upgrade h content =
     sbl_cmd h BURN_HOSTED_FW SEND_RPS_FILE (Some content)
       (\<lambda>b. do { (s, b1) \<leftarrow> upgrade_image h content b;
                 if s = ONEBOX_STATUS_SUCCESS then load_image_cmd h (Some content) b1 else auto_read_mode_cmd h content b1 })"

text \<open>A command that failed without the answer \<^verbatim>\<open>CMD_FAIL\<close> goes on as one that passed.\<close>

definition check_crc_cmd :: "boot_host \<Rightarrow> bytes \<Rightarrow> boot_loader \<Rightarrow> (status \<times> boot_loader) option" where
  "check_crc_cmd h content b =
     do { ((s, regout), b1) \<leftarrow> on_bus b (bl_write_cmd h (coex_mode b) CHECK_CRC CMD_PASS 0
                                           (bl_cmd_start_timer BL_CMD_TIMEOUT (bl_common b)));
          let b2 = (if s < 0 then bl_log Timer_stop b1 else b1);
          if s < 0 \<and> regout AND 0xff = CMD_FAIL then fw_upgrade h content b2
          else (let b3 = bl_log Timer_stop b2 in
                if fw_load_mode b3 \<in> {FLASH_RAM_SBL, FULL_FLASH_SBL} then polling_mode_cmd h (Some content) b3
                else sbl_fail (Some content) b3) }"

text \<open>The file of the image, by the driver mode, the coexistence mode and, for ZigBee, its role.\<close>

definition flash_names :: "string list" where
  "flash_names = [''flash_content_dummy'', ''RS9113_WLAN_QSPI.rps'', ''RS9113_WLAN_BT_DUAL_MODE.rps'', ''RS9113_WLAN_ZIGBEE.rps'',
     ''RS9113_AP_BT_DUAL_MODE.rps'', ''RS9113_WLAN_QSPI.rps'', ''RS9113_ZIGBEE_COORDINATOR.rps'', ''RS9113_ZIGBEE_ROUTER.rps'']"

definition per_flash_names :: "string list" where
  "per_flash_names = [''flash_content_dummy'', ''RS9113_WLAN_QSPI.rps'', ''RS9113_WLAN_BT_DUAL_MODE_PER.rps'', ''RS9113_WLAN_ZIGBEE.rps'',
     ''RS9113_WLAN_BT_DUAL_MODE_PER.rps'']"

definition name_at :: "string list \<Rightarrow> u8 \<Rightarrow> string option" where
  "name_at names i = (if unat i < length names then Some (names ! unat i) else None)"

datatype image_choice = Image string bool | No_image

text \<open>
  The flag says that the operating mode becomes ZigBee alone. The source tests the coexistence
  mode of the driver assets, which is the one of the adapter.
\<close>

definition hosted_image :: "boot_loader \<Rightarrow> image_choice option" where
  "hosted_image b =
     (let mode = Driver_Mode (bl_common b); role = drop_bit 4 (oper_mode (d_assets (bl_common b))) AND 3;
          plain = map_option (\<lambda>n. Image n False) in
      if mode = RF_EVAL_ON \<or> mode = RF_EVAL_LPBK_CALIB then plain (name_at per_flash_names (coex_mode b))
      else if mode = SNIFFING_MODE then plain (name_at flash_names 5)
      else if coex_mode b = 3
      then (if role = 1 then plain (name_at flash_names (coex_mode b))
            else if role = 2 then map_option (\<lambda>n. Image n True) (name_at flash_names 6)
            else if role = 3 then map_option (\<lambda>n. Image n True) (name_at flash_names 7)
            else Some No_image)
      else plain (name_at flash_names (coex_mode b)))"

definition image_fw_ver :: "bytes \<Rightarrow> lmac_version \<Rightarrow> lmac_version option" where
  "image_fw_ver img v =
     do { b0 \<leftarrow> rd8 img LMAC_VER_OFFSET; b1 \<leftarrow> rd8 img (LMAC_VER_OFFSET + 1); b2 \<leftarrow> rd8 img (LMAC_VER_OFFSET + 2);
          b3 \<leftarrow> rd8 img (LMAC_VER_OFFSET + 3); b4 \<leftarrow> rd8 img (LMAC_VER_OFFSET + 4);
          Some (v\<lparr>fw_ver0 := b0, fw_ver1 := b1, lmac_major := ucast b2, lmac_release := b3, lmac_minor := ucast b4, lmac_patch := 0\<rparr>) }"

definition rps_image_header :: "boot_host \<Rightarrow> boot_loader \<Rightarrow> (status \<times> boot_loader) option" where
  "rps_image_header h b =
     do { choice \<leftarrow> hosted_image b;
          case choice of
            No_image \<Rightarrow> sbl_fail None b
          | Image name zigbee \<Rightarrow>
              (let b0 = (if zigbee then b\<lparr>bl_common := upd_assets (\<lambda>d. d\<lparr>oper_mode := 16\<rparr>) (bl_common b)\<rparr> else b) in
               case bh_firmware h name of
                 None \<Rightarrow> sbl_fail None b0
               | Some content \<Rightarrow>
                   do { let b1 = bl_log (Get_firmware name) b0;
                        ver \<leftarrow> (if take 6 name = ''RS9113'' then image_fw_ver content (lmac_ver b1) else Some (lmac_ver b1));
                        (s, b2) \<leftarrow> on_bus (b1\<lparr>lmac_ver := ver\<rparr>) (write_bl_header h (coex_mode b1) content (bl_common b1));
                        if s = ONEBOX_STATUS_SUCCESS then check_crc_cmd h content b2 else sbl_fail (Some content) b2 }) }"

definition burn_bootloader :: "boot_host \<Rightarrow> boot_loader \<Rightarrow> (status \<times> boot_loader) option" where
  "burn_bootloader h b =
     (case read_flash_content h SOC_FLASH_ADDR (word_of_nat EEPROM_DATA_SIZE) (bl_common b) of
        ((s, d), a) \<Rightarrow>
          (let b1 = b\<lparr>bl_common := a\<lparr>DataRcvPacket := d @ drop (length d) (DataRcvPacket a)\<rparr>\<rparr> in
           if s < 0 then sbl_fail None b1
           else sbl_cmd h BURN_BL SEND_RPS_FILE None
                  (\<lambda>b2. case bh_firmware h ''RS9113_WC_BL.rps'' of
                          None \<Rightarrow> sbl_fail None b2
                        | Some content \<Rightarrow>
                            do { (s', b3) \<leftarrow> upgrade_image h content (bl_log (Get_firmware ''RS9113_WC_BL.rps'') b2);
                                 if s' = ONEBOX_STATUS_SUCCESS then auto_read_mode_cmd h content b3
                                 else sbl_fail (Some content) b3 }) b1))"

definition load_fw_thru_sbl :: "boot_host \<Rightarrow> boot_loader \<Rightarrow> (status \<times> boot_loader) option" where
  "load_fw_thru_sbl h =
     sbl_cmd h CONFIG_AUTO_READ_MODE CMD_PASS None
       (\<lambda>b. case read_flash_capacity h (bl_common b) of
              (cap, a) \<Rightarrow>
                (let b1 = b\<lparr>bl_common := a, flash_capacity := cap\<rparr> in
                 if cap \<le> 0 then sbl_fail None b1
                 else if Driver_Mode a = QSPI_FLASHING \<and> flashing_mode b1 = SWBL_FLASHING_SBL then burn_bootloader h b1
                 else if fw_load_mode b1 \<in> {FULL_FLASH_SBL, FLASH_RAM_SBL} then rps_image_header h b1
                 else if fw_load_mode b1 = FULL_RAM_SBL then polling_mode_cmd h None b1
                 else sbl_fail None b1))"

section \<open>Start of the device\<close>

text \<open>Whether the boot loader is there: its version in the answer register before the timer ends.\<close>

definition find_boot_loader :: "boot_host \<Rightarrow> adapter \<Rightarrow> (bool option \<times> adapter) option" where
  "find_boot_loader h a =
     do { (regout, a1) \<leftarrow> poll_register h SWBL_REGOUT (\<lambda>v. drop_bit 8 v = 0xAB) 0 (bl_cmd_start_timer BL_CMD_TIMEOUT a);
          case regout of
            None \<Rightarrow> Some (None, bl_cmd_stop_timer a1)
          | Some v \<Rightarrow> (let (expired, a2) = timer_expired h a1 in
                       Some (if expired then (Some False, a2) else (Some True, bl_cmd_stop_timer a2))) }"

definition device_init :: "boot_host \<Rightarrow> bool \<Rightarrow> boot_loader \<Rightarrow> (status \<times> boot_loader) option" where
  "device_init h fw_load b0 =
     (let a = bl_common b0;
          b = b0\<lparr>bl_common := a\<lparr>fsm_state := (if Driver_Mode a = QSPI_FLASHING then FSM_CARD_NOT_READY else FSM_DEVICE_READY)\<rparr>\<rparr>;
          bl_req = (fw_load_mode b \<in> {FULL_FLASH_SBL, FULL_RAM_SBL, FLASH_RAM_SBL}) in
      if \<not> bl_req \<and> fw_load_mode b \<noteq> FLASH_RAM_NO_SBL then Some (ONEBOX_STATUS_FAILURE, b)
      else if \<not> fw_load \<or> skip_fw_load b then Some (ONEBOX_STATUS_SUCCESS, b)
      else do { (found, b1) \<leftarrow> on_bus b (find_boot_loader h (bl_common b));
                if found \<noteq> Some bl_req then Some (ONEBOX_STATUS_FAILURE, b1)
                else (case master_reg_write h SWBL_REGOUT (NOT 0xAB OR push_bit 8 (NOT 0xAB)) 2 (bl_common b1) of
                        (s, a2) \<Rightarrow>
                          (let b2 = b1\<lparr>bl_common := a2\<rparr> in
                           if s < 0 then Some (ONEBOX_STATUS_FAILURE, b2)
                           else if fw_load_mode b2 = FLASH_RAM_NO_SBL then load_ta_instructions h b2
                           else load_fw_thru_sbl h b2)) })"

end
