(* ===== verification/Boot_Steps.thy ===== *)
theory Boot_Steps
  imports Boot_Loader
begin

text \<open>
  What the steps of the boot loader path leave behind: which events they add and that nothing
  else of the adapter changes, that every polling loop ends once the timer fires, and that on
  every path the image is freed and the timer stopped.
\<close>

section \<open>Steps by the events they add\<close>

definition adds :: "(event \<Rightarrow> bool) \<Rightarrow> adapter \<Rightarrow> adapter \<Rightarrow> bool" where
  "adds P a a' \<longleftrightarrow> (\<exists>es. list_all P es \<and> a' = a\<lparr>trace := es @ trace a\<rparr>)"

lemma adds_refl [simp]: "adds P a a"
  unfolding adds_def by (rule exI [of _ "[]"]) simp

lemma adds_trans [trans]: "adds P a b \<Longrightarrow> adds P b c \<Longrightarrow> adds P a c"
  unfolding adds_def by (elim exE conjE, rule_tac x = "esa @ es" in exI) simp

lemma adds_log [simp]: "P e \<Longrightarrow> adds P a (log e a)"
  unfolding adds_def log_def by (rule exI [of _ "[e]"]) simp

lemma adds_then_log: "adds P a b \<Longrightarrow> P e \<Longrightarrow> adds P a (log e b)"
  by (erule adds_trans) simp

lemma adds_mono: "adds P a b \<Longrightarrow> (\<And>e. P e \<Longrightarrow> Q e) \<Longrightarrow> adds Q a b"
  unfolding adds_def by (metis list.pred_mono_strong)

lemma adds_fields:
  assumes "adds P a a'"
  shows "host_intf_type a' = host_intf_type a" "TransmitBlockSize a' = TransmitBlockSize a"
    "Driver_Mode a' = Driver_Mode a" "d_assets a' = d_assets a" "DataRcvPacket a' = DataRcvPacket a"
  using assms by (auto simp: adds_def)

text \<open>Bus accesses, polls of the timer, and commands.\<close>

fun bus_event :: "event \<Rightarrow> bool" where
  "bus_event (Timer_start n) = False"
| "bus_event Timer_stop = False"
| "bus_event Timer_check = False"
| "bus_event (Get_firmware f) = False"
| "bus_event Vmem_free = False"
| "bus_event _ = True"

fun poll_event :: "event \<Rightarrow> bool" where
  "poll_event Timer_check = True"
| "poll_event e = bus_event e"

fun cmd_event :: "event \<Rightarrow> bool" where
  "cmd_event (Timer_start n) = True"
| "cmd_event Timer_stop = True"
| "cmd_event e = poll_event e"

lemma bus_poll: "bus_event e \<Longrightarrow> poll_event e"
  by (cases e) simp_all

lemma poll_cmd: "poll_event e \<Longrightarrow> cmd_event e"
  by (cases e) simp_all

lemma as_poll: "adds bus_event a b \<Longrightarrow> adds poll_event a b"
  by (erule adds_mono) (rule bus_poll)

lemma as_cmd: "adds poll_event a b \<Longrightarrow> adds cmd_event a b"
  by (erule adds_mono) (rule poll_cmd)

section \<open>The bus\<close>

definition bus_op :: "(adapter \<Rightarrow> 'a \<times> adapter) \<Rightarrow> bool" where
  "bus_op f \<longleftrightarrow> (\<forall>a. adds bus_event a (snd (f a)))"

lemma bus_opD: "bus_op f \<Longrightarrow> f a = (x, a') \<Longrightarrow> adds bus_event a a'"
  unfolding bus_op_def by (metis snd_conv)

lemma bus_single [simp]:
  "bus_op (write_register h d r v)" "bus_op (write_multiple h ad buf cnt)" "bus_op (ta_write_multiple h ad buf cnt)"
  "bus_op (read_multiple h ad cnt)" "bus_op return_success"
  by (simp_all add: bus_op_def write_register_def write_multiple_def ta_write_multiple_def read_multiple_def Let_def)

lemma bus_or_fail [simp]: "bus_op f \<Longrightarrow> bus_op g \<Longrightarrow> bus_op (or_fail f g)"
  unfolding bus_op_def or_fail_def by (auto split: prod.split) (metis adds_trans snd_conv)+

lemma bus_msword [simp]: "bus_op (onebox_sdio_master_access_msword h w)"
  by (simp add: onebox_sdio_master_access_msword_def)

lemma bus_load_blocks: "load_blocks h fw bs n cur base msb a = Some (s, c, b, a') \<Longrightarrow> adds bus_event a a'"
proof (induction n arbitrary: cur base msb a)
  case (Suc n)
  obtain t where t: "temp_copy fw bs cur bs = Some t" using Suc.prems by (auto split: bind_splits)
  obtain s1 a1 where w: "write_multiple h (ucast (ucast base :: u16) OR 0x10000) t bs a = (s1, a1)" by fastforce
  obtain s2 a2 where m: "onebox_sdio_master_access_msword h (msb + 1) a1 = (s2, a2)" by fastforce
  have 1: "adds bus_event a a1" "adds bus_event a1 a2" using bus_opD [OF bus_single(2) w] bus_opD [OF bus_msword m] .
  obtain moves where moves: "moves \<longleftrightarrow> drop_bit 16 (base + bs) \<noteq> ucast msb" by blast
  have r: "(if s1 \<noteq> ONEBOX_STATUS_SUCCESS then Some (ONEBOX_STATUS_FAILURE, cur, base, a1)
      else if moves
      then if s2 \<noteq> ONEBOX_STATUS_SUCCESS then Some (ONEBOX_STATUS_FAILURE, cur, base + bs, a2)
           else load_blocks h fw bs n (cur + unat bs) (base + bs) (msb + 1) a2
      else load_blocks h fw bs n (cur + unat bs) (base + bs) msb a1) = Some (s, c, b, a')"
    using Suc.prems unfolding load_blocks.simps t bind.simps Let_def w m prod.case moves .
  show ?case using r 1 Suc.IH adds_trans [OF 1(1)] adds_trans [OF 1] adds_trans [OF adds_trans [OF 1]]
    by (cases "s1 = ONEBOX_STATUS_SUCCESS"; cases "s2 = ONEBOX_STATUS_SUCCESS"; cases moves) auto
qed simp

lemma bus_usb_load_blocks: "usb_load_blocks h fw bs n cur base a = Some (s, c, b, a') \<Longrightarrow> adds bus_event a a'"
proof (induction n arbitrary: cur base a)
  case (Suc n)
  obtain t where t: "temp_copy fw bs cur bs = Some t" using Suc.prems by (auto split: bind_splits)
  obtain s1 a1 where w: "ta_write_multiple h base t bs a = (s1, a1)" by fastforce
  have 1: "adds bus_event a a1" using bus_opD [OF bus_single(3) w] .
  have "a' = a1 \<or> (\<exists>cur' base'. usb_load_blocks h fw bs n cur' base' a1 = Some (s, c, b, a'))"
    using Suc.prems t w by (auto simp: Let_def split: if_splits)
  with 1 show ?case using Suc.IH adds_trans by metis
qed simp

lemma bus_sdio_load:
  assumes "sdio_load_data_master_write h base sz bs fw a = Some (s, a')"
  shows "adds bus_event a a'"
proof -
  let ?msb = "ucast (drop_bit 16 base) :: u16"
  obtain s0 a1 where m: "onebox_sdio_master_access_msword h ?msb a = (s0, a1)" by fastforce
  have 1: "adds bus_event a a1" using bus_opD [OF bus_msword m] .
  show ?thesis
  proof (cases "s0 = ONEBOX_STATUS_SUCCESS")
    case True
    obtain s1 c b a2 where l: "load_blocks h fw bs (unat (sz div bs)) 0 base ?msb a1 = Some (s1, c, b, a2)"
      using assms m True by (auto simp: sdio_load_data_master_write_def Let_def split: if_splits bind_splits)
    have 2: "adds bus_event a a2" using adds_trans [OF 1 bus_load_blocks [OF l]] .
    have "a' = a2 \<or> (\<exists>t s'. or_fail (write_multiple h (ucast (ucast b :: u16) OR 0x10000) t (sz mod bs)) return_success a2 = (s', a'))"
      using assms m True l by (auto simp: sdio_load_data_master_write_def Let_def split: if_splits bind_splits)
    with 2 show ?thesis using adds_trans [OF 2 bus_opD [OF bus_or_fail [OF bus_single(2,5)]]] by blast
  next
    case False
    with assms m 1 show ?thesis by (simp add: sdio_load_data_master_write_def Let_def split: if_splits)
  qed
qed

lemma bus_usb_load:
  assumes "usb_load_data_master_write h base sz bs fw a = Some (s, a')"
  shows "adds bus_event a a'"
proof -
  obtain s1 c b a2 where l: "usb_load_blocks h fw bs (unat (sz div bs)) 0 base a = Some (s1, c, b, a2)"
    using assms by (auto simp: usb_load_data_master_write_def split: if_splits bind_splits)
  have 2: "adds bus_event a a2" using bus_usb_load_blocks [OF l] .
  have "a' = a2 \<or> (\<exists>t s'. or_fail (ta_write_multiple h b t (sz mod bs)) return_success a2 = (s', a'))"
    using assms l by (auto simp: usb_load_data_master_write_def split: if_splits bind_splits)
  with 2 show ?thesis using adds_trans [OF 2 bus_opD [OF bus_or_fail [OF bus_single(3,5)]]] by blast
qed

lemma bus_sdio_reg_read: "adds bus_event a (snd (sdio_master_reg_read g ad n a))"
proof -
  obtain s a1 where m: "onebox_sdio_master_access_msword g (ucast (drop_bit 16 ad)) a = (s, a1)" by fastforce
  have a1: "adds bus_event a a1" using bus_opD [OF bus_msword m] .
  let ?low = "ad AND 0xFFFF"
  let ?page = "?low AND 0xFF000000"
  let ?on = "if ?page = FLASH_SIZE_ADDR AND 0xFF000000 \<or> ?page = 0 then ?low AND NOT 3 else ?low"
  obtain s' d a2 where r: "read_multiple g (?on OR 0x10000) 4 a1 = ((s', d), a2)" by (metis prod.exhaust)
  have "adds bus_event a1 a2" using bus_opD [OF bus_single(4) r] .
  with a1 have a2: "adds bus_event a a2" by (rule adds_trans)
  have "snd (sdio_master_reg_read g ad n a) \<in> {a1, a2}"
    unfolding sdio_master_reg_read_def Let_def m split_conv r by simp
  with a1 a2 show ?thesis by auto
qed

lemma bus_reg_read [simp]: "bus_op (master_reg_read h ad n)"
  by (auto simp: bus_op_def master_reg_read_def Let_def bus_sdio_reg_read split: host_intf.split prod.split)

lemma bus_reg_write [simp]: "bus_op (master_reg_write h ad d n)"
proof -
  have "bus_op (sdio_master_reg_write g ad d n)" for g by (simp add: sdio_master_reg_write_def)
  then show ?thesis by (auto simp: bus_op_def master_reg_write_def Let_def split: host_intf.split)
qed

lemma bus_load: "load_data_master_write h base sz d a = Some (s, a') \<Longrightarrow> adds bus_event a a'"
  using bus_sdio_load bus_usb_load by (auto simp: load_data_master_write_def split: host_intf.splits)

text \<open>The size of a block is set at the probe: 256 bytes over SDIO, 252 over USB.\<close>

definition block_size_ok :: "adapter \<Rightarrow> bool" where
  "block_size_ok a \<longleftrightarrow> TransmitBlockSize a \<noteq> 0 \<and> TransmitBlockSize a \<le> 256"

lemma block_size_kept: "adds P a a' \<Longrightarrow> block_size_ok a' = block_size_ok a"
  by (simp add: block_size_ok_def adds_fields)

lemma load_returns: "block_size_ok a \<Longrightarrow> unat sz \<le> length d \<Longrightarrow> \<exists>s a'. load_data_master_write h base sz d a = Some (s, a')"
  using sdio_load_returns usb_load_returns by (auto simp: load_data_master_write_def block_size_ok_def split: host_intf.split)

lemma bus_ta_reset [simp]: "bus_op (sdio_ta_reset_ops h)"
  by (simp add: sdio_ta_reset_ops_def)

lemma bus_capacity [simp]: "bus_op (read_flash_capacity h)"
  using bus_reg_read [of h FLASH_SIZE_ADDR 2]
  by (auto simp: bus_op_def read_flash_capacity_def split: prod.split option.split) (metis snd_conv)+

lemma bus_read_flash [simp]: "bus_op (read_flash_content h ad n)"
  unfolding bus_op_def
proof
  fix a
  obtain s a1 where m: "onebox_sdio_master_access_msword (bh_host h) (ucast (drop_bit 16 ad)) a = (s, a1)" by fastforce
  have "adds bus_event a1 (snd (read_multiple (bh_host h) x n a1))" for x using bus_single(4) by (simp add: bus_op_def)
  with bus_opD [OF bus_msword m] m show "adds bus_event a (snd (read_flash_content h ad n a))"
    by (auto simp: read_flash_content_def Let_def split: host_intf.split intro: adds_trans)
qed

lemma bus_header: "write_bl_header h coex c a = Some (s, a') \<Longrightarrow> adds bus_event a a'"
proof -
  assume "write_bl_header h coex c a = Some (s, a')"
  then obtain hdr where "(case host_intf_type a of
          HOST_INTF_USB \<Rightarrow> or_fail (ta_write_multiple (bh_host h) PING_BUFFER_ADDRESS hdr 20) return_success a
        | HOST_INTF_SDIO \<Rightarrow>
            or_fail (onebox_sdio_master_access_msword (bh_host h) (ucast (drop_bit 16 PING_BUFFER_ADDRESS)))
            (or_fail (write_multiple (bh_host h) (0x10000 OR (PING_BUFFER_ADDRESS AND 0xFFFF)) hdr 20)
             return_success) a) = (s, a')"
    unfolding write_bl_header_def bind_eq_Some_conv by blast
  moreover have "bus_op (or_fail (ta_write_multiple (bh_host h) PING_BUFFER_ADDRESS hdr 20) return_success)"
    "bus_op (or_fail (onebox_sdio_master_access_msword (bh_host h) (ucast (drop_bit 16 PING_BUFFER_ADDRESS)))
       (or_fail (write_multiple (bh_host h) (0x10000 OR (PING_BUFFER_ADDRESS AND 0xFFFF)) hdr 20) return_success))"
    by (intro bus_or_fail bus_msword bus_single)+
  ultimately show ?thesis by (cases "host_intf_type a") (simp_all only: host_intf.case, blast dest: bus_opD, blast dest: bus_opD)
qed

section \<open>Polling\<close>

lemma poll_register_invariant:
  assumes "poll_register h reg done val a = Some (r, a')" "I a"
    and check: "\<And>b. I b \<Longrightarrow> I (log Timer_check b)"
    and reg: "\<And>b v b'. I b \<Longrightarrow> master_reg_read h reg 2 b = (v, b') \<Longrightarrow> I b'"
  shows "I a'"
proof -
  have "h = h \<longrightarrow> reg = reg \<longrightarrow> I a \<longrightarrow> (\<forall>x b. rr = (x, b) \<longrightarrow> I b)" if "poll_register h reg done val a = Some rr" for rr
  proof (rule poll_register.raw_induct [where P = "\<lambda>h' reg' done' val' a rr. h' = h \<longrightarrow> reg' = reg \<longrightarrow> I a \<longrightarrow> (\<forall>x b. rr = (x, b) \<longrightarrow> I b)",
        OF _ that], intro impI allI)
    fix f h' reg' "done" val a rr x b
    assume IH: "\<And>h' reg' done val a rr. f h' reg' done val a = Some rr \<Longrightarrow> h' = h \<longrightarrow> reg' = reg \<longrightarrow> I a \<longrightarrow> (\<forall>x b. rr = (x, b) \<longrightarrow> I b)"
      and eq: "(let (expired, a1) = timer_expired h' a in
          if expired then Some (Some val, a1)
          else (case master_reg_read h' reg' 2 a1 of
                  (None, a2) \<Rightarrow> Some (None, a2)
                | (Some v, a2) \<Rightarrow> if done v then Some (Some v, a2) else f h' reg' done v a2)) = Some rr"
      and h: "h' = h" "reg' = reg" and "I a" "rr = (x, b)"
    obtain y a1 where t: "timer_expired h a = (y, a1)" by fastforce
    have 1: "I a1" using t check [OF \<open>I a\<close>] by (auto simp: timer_expired_def Let_def)
    obtain v a2 where m: "master_reg_read h reg 2 a1 = (v, a2)" by fastforce
    show "I b"
      using eq t m 1 reg [OF 1 m] IH h \<open>rr = (x, b)\<close> by (auto simp: Let_def split: if_splits option.splits)
  qed
  with assms show ?thesis by blast
qed

lemma poll_register_adds:
  assumes "poll_register h reg done val a = Some (r, a')"
  shows "adds poll_event a a'"
  using assms
proof (rule poll_register_invariant)
  fix b v b' assume "adds poll_event a b" "master_reg_read h reg 2 b = (v, b')"
  then show "adds poll_event a b'" using as_poll [OF bus_opD [OF bus_reg_read]] adds_trans by blast
qed (auto intro: adds_then_log)

text \<open>How often the timer was asked since it was started; after \<open>n\<close> times it has fired.\<close>

fun checks :: "history \<Rightarrow> nat" where
  "checks [] = 0"
| "checks (e # t) = (case e of Timer_start n \<Rightarrow> 0 | Timer_check \<Rightarrow> Suc (checks t) | _ \<Rightarrow> checks t)"

definition timer_fires :: "nat \<Rightarrow> boot_host \<Rightarrow> bool" where
  "timer_fires n h \<longleftrightarrow> (\<forall>t. n \<le> checks t \<longrightarrow> bh_expired h t)"

lemma checks_bus: "list_all bus_event es \<Longrightarrow> checks (es @ t) = checks t"
proof (induction es)
  case (Cons e es)
  then show ?case by (cases e) simp_all
qed simp

lemma adds_bus_checks: "adds bus_event a a' \<Longrightarrow> checks (trace a') = checks (trace a)"
  by (auto simp: adds_def checks_bus)

lemma poll_register_returns:
  assumes "timer_fires n h"
  shows "poll_register h reg done val a \<noteq> None"
proof (induction "n - checks (trace a)" arbitrary: a val rule: less_induct)
  case less
  let ?a1 = "log Timer_check a"
  obtain v a2 where m: "master_reg_read h reg 2 ?a1 = (v, a2)" by fastforce
  have c: "checks (trace a2) = Suc (checks (trace a))"
    using adds_bus_checks [OF bus_opD [OF bus_reg_read m]] by simp
  show ?case
  proof (cases "bh_expired h (trace ?a1)")
    case True
    then show ?thesis by (subst poll_register.simps) (simp add: timer_expired_def Let_def)
  next
    case False
    then have "\<not> n \<le> Suc (checks (trace a))" using assms unfolding timer_fires_def by force
    then have "poll_register h reg done w a2 \<noteq> None" for w using less [of a2 w] c by simp
    with False m show ?thesis
      by (subst poll_register.simps) (auto simp: timer_expired_def Let_def split: option.split)
  qed
qed

section \<open>Commands\<close>

lemma timer_expired_adds: "timer_expired h a = (x, a') \<Longrightarrow> adds poll_event a a'"
  by (auto simp: timer_expired_def Let_def)

lemma bl_response_adds:
  assumes "bl_response h cmd e resp a = Some (r, a')"
  shows "adds poll_event a a'"
proof -
  obtain regout a1 where p: "poll_register h SWBL_REGOUT (\<lambda>v. drop_bit 8 v = 0xAB) 0 a = Some (regout, a1)"
    using assms by (auto simp: bl_response_def split: bind_splits)
  obtain x a2 where t: "timer_expired h a1 = (x, a2)" by fastforce
  obtain s a3 where w: "master_reg_write h SWBL_REGOUT (ucast cmd OR push_bit 8 (NOT 0xAB)) 2 a2 = (s, a3)" by fastforce
  have 1: "adds poll_event a a1" using poll_register_adds [OF p] .
  have 2: "adds poll_event a a2" using adds_trans [OF 1 timer_expired_adds [OF t]] .
  have 3: "adds poll_event a a3" using adds_trans [OF 2 as_poll [OF bus_opD [OF bus_reg_write w]]] .
  have "a' \<in> {a1, a2, a3}"
    using assms p t w unfolding bl_response_def Let_def by (auto split: option.splits if_splits)
  with 1 2 3 show ?thesis by auto
qed

lemma bl_write_cmd_adds:
  assumes "bl_write_cmd h coex cmd e resp a = Some (r, a')"
  shows "adds poll_event a a'"
proof -
  obtain regin a1 where p: "poll_register h SWBL_REGIN (\<lambda>v. drop_bit 12 v \<noteq> 0xA) 0 a = Some (regin, a1)"
    using assms by (auto simp: bl_write_cmd_def split: bind_splits)
  obtain x a2 where t: "timer_expired h a1 = (x, a2)" by fastforce
  obtain s a3 where w: "master_reg_write h SWBL_REGIN (regin_word coex cmd) 2 a2 = (s, a3)" by fastforce
  have 1: "adds poll_event a a1" using poll_register_adds [OF p] .
  have 2: "adds poll_event a a2" using adds_trans [OF 1 timer_expired_adds [OF t]] .
  have 3: "adds poll_event a a3" using adds_trans [OF 2 as_poll [OF bus_opD [OF bus_reg_write w]]] .
  have "a' \<in> {a1, a2, a3} \<or> bl_response h cmd e resp a3 = Some (r, a')"
    using assms p t w unfolding bl_write_cmd_def Let_def by (auto split: option.splits if_splits)
  then show ?thesis using 1 2 3 adds_trans [OF 3] bl_response_adds by (cases r) blast
qed

lemma bl_response_returns:
  assumes "timer_fires n h"
  shows "bl_response h cmd e resp a \<noteq> None"
proof -
  obtain r a1 where p: "poll_register h SWBL_REGOUT (\<lambda>v. drop_bit 8 v = 0xAB) 0 a = Some (r, a1)"
    using poll_register_returns [OF assms] by (metis not_None_eq prod.exhaust)
  show ?thesis
    unfolding bl_response_def p by (auto simp: Let_def split: option.splits prod.splits)
qed

lemma bl_write_cmd_returns:
  assumes "timer_fires n h"
  shows "bl_write_cmd h coex cmd e resp a \<noteq> None"
proof -
  obtain r a1 where p: "poll_register h SWBL_REGIN (\<lambda>v. drop_bit 12 v \<noteq> 0xA) 0 a = Some (r, a1)"
    using poll_register_returns [OF assms] by (metis not_None_eq prod.exhaust)
  show ?thesis
    unfolding bl_write_cmd_def p using bl_response_returns [OF assms]
    by (auto simp: Let_def split: option.splits prod.splits)
qed

text \<open>
  Whether the timer is armed, and how many images are held: \<open>None\<close> once an image was freed
  that was not held.
\<close>

fun armed :: "history \<Rightarrow> bool" where
  "armed [] = False"
| "armed (e # t) = (case e of Timer_start n \<Rightarrow> True | Timer_stop \<Rightarrow> False | _ \<Rightarrow> armed t)"

fun images :: "history \<Rightarrow> nat option" where
  "images [] = Some 0"
| "images (e # t) =
     (case e of
        Get_firmware f \<Rightarrow> map_option Suc (images t)
      | Vmem_free \<Rightarrow> (case images t of Some (Suc n) \<Rightarrow> Some n | _ \<Rightarrow> None)
      | _ \<Rightarrow> images t)"

lemma images_cmd: "list_all cmd_event es \<Longrightarrow> images (es @ t) = images t"
proof (induction es)
  case (Cons e es)
  then show ?case by (cases e) simp_all
qed simp

lemma armed_poll: "list_all poll_event es \<Longrightarrow> armed (es @ t) = armed t"
proof (induction es)
  case (Cons e es)
  then show ?case by (cases e) simp_all
qed simp

lemma adds_images: "adds cmd_event a a' \<Longrightarrow> images (trace a') = images (trace a)"
  by (auto simp: adds_def images_cmd)

lemma adds_armed: "adds poll_event a a' \<Longrightarrow> armed (trace a') = armed (trace a)"
  by (auto simp: adds_def armed_poll)

lemma bl_cmd_cases:
  assumes "bl_cmd h coex cmd e a = Some (s, a')"
  shows "adds cmd_event a a'" "s = ONEBOX_STATUS_FAILURE \<or> s = ONEBOX_STATUS_SUCCESS \<and> \<not> armed (trace a')"
proof -
  define timeout where "timeout = (if cmd \<in> {EOF_REACHED, PING_VALID, PONG_VALID} then BL_BURN_TIMEOUT else BL_CMD_TIMEOUT)"
  obtain st r a1 where w: "bl_write_cmd h coex cmd e 0 (bl_cmd_start_timer timeout a) = Some ((st, r), a1)"
    using assms by (auto simp: bl_cmd_def timeout_def Let_def split: bind_splits)
  have r: "s = ONEBOX_STATUS_FAILURE \<and> a' = a1 \<or> s = ONEBOX_STATUS_SUCCESS \<and> a' = bl_cmd_stop_timer a1"
    using assms w by (auto simp: bl_cmd_def timeout_def Let_def split: if_splits)
  have "adds cmd_event a (bl_cmd_start_timer timeout a)" by (simp add: bl_cmd_start_timer_def)
  then have "adds cmd_event a a1" using as_cmd [OF bl_write_cmd_adds [OF w]] adds_trans by blast
  with r show "adds cmd_event a a'" by (auto simp: bl_cmd_stop_timer_def intro: adds_then_log)
  show "s = ONEBOX_STATUS_FAILURE \<or> s = ONEBOX_STATUS_SUCCESS \<and> \<not> armed (trace a')"
    using r by (auto simp: bl_cmd_stop_timer_def log_def)
qed

lemma bl_cmd_returns:
  assumes "timer_fires n h"
  shows "bl_cmd h coex cmd e a \<noteq> None"
proof -
  define timeout where "timeout = (if cmd \<in> {EOF_REACHED, PING_VALID, PONG_VALID} then BL_BURN_TIMEOUT else BL_CMD_TIMEOUT)"
  obtain st r a1 where "bl_write_cmd h coex cmd e 0 (bl_cmd_start_timer timeout a) = Some ((st, r), a1)"
    using bl_write_cmd_returns [OF assms] by (metis not_None_eq prod.exhaust)
  then show ?thesis by (simp add: bl_cmd_def timeout_def Let_def)
qed

section \<open>Writing the image\<close>

lemma ping_pong_write_adds:
  assumes "ping_pong_write h coex cmd data sz a = Some (s, a')"
  shows "adds cmd_event a a'" "s = ONEBOX_STATUS_FAILURE \<or> s = ONEBOX_STATUS_SUCCESS"
proof -
  obtain ad resp req where m: "(if cmd = PING_WRITE then (PING_BUFFER_ADDRESS, PONG_AVAIL, PING_VALID)
      else (PONG_BUFFER_ADDRESS, PING_AVAIL, PONG_VALID)) = (ad, resp, req)" by (metis prod_cases3)
  obtain s1 a1 where l: "load_data_master_write h ad sz data a = Some (s1, a1)"
    using assms unfolding ping_pong_write_def m Let_def by (auto split: bind_splits)
  have 1: "adds cmd_event a a1" using as_cmd [OF as_poll [OF bus_load [OF l]]] .
  have "s = ONEBOX_STATUS_FAILURE \<and> a' = a1 \<or>
      (\<exists>s2 a2. bl_cmd h coex req resp a1 = Some (s2, a2) \<and>
        (s = ONEBOX_STATUS_FAILURE \<and> a' = bl_cmd_stop_timer a2 \<or> s = ONEBOX_STATUS_SUCCESS \<and> a' = a2))"
    using assms unfolding ping_pong_write_def m Let_def by (auto simp: l split: if_splits bind_splits)
  then show "adds cmd_event a a'" "s = ONEBOX_STATUS_FAILURE \<or> s = ONEBOX_STATUS_SUCCESS"
    using 1 adds_trans [OF 1 bl_cmd_cases(1)] by (auto simp: bl_cmd_stop_timer_def intro: adds_then_log)
qed

lemma ping_pong_write_returns:
  assumes "timer_fires n h" "block_size_ok a" "unat sz \<le> length data"
  shows "ping_pong_write h coex cmd data sz a \<noteq> None"
proof -
  obtain ad resp req where m: "(if cmd = PING_WRITE then (PING_BUFFER_ADDRESS, PONG_AVAIL, PING_VALID)
      else (PONG_BUFFER_ADDRESS, PING_AVAIL, PONG_VALID)) = (ad, resp, req)" by (metis prod_cases3)
  obtain s1 a1 where l: "load_data_master_write h ad sz data a = Some (s1, a1)" using load_returns [OF assms(2,3)] by blast
  obtain s2 a2 where "bl_cmd h coex req resp a1 = Some (s2, a2)"
    using bl_cmd_returns [OF assms(1)] by (metis not_None_eq prod.exhaust)
  with l show ?thesis unfolding ping_pong_write_def m Let_def by simp
qed

lemma write_chunks_adds:
  "write_chunks h coex rest kk n data a = Some (s, a') \<Longrightarrow>
   adds cmd_event a a' \<and> (s = ONEBOX_STATUS_FAILURE \<or> s = ONEBOX_STATUS_SUCCESS)"
proof (induction h coex rest kk n data a arbitrary: s a' rule: write_chunks.induct)
  case (1 h coex rest kk data a)
  then show ?case using ping_pong_write_adds by (auto split: if_splits)
next
  case (2 h coex rest kk n data a)
  obtain s1 a1 where p: "ping_pong_write h coex (if odd kk then PING_WRITE else PONG_WRITE) data (word_of_nat FLASH_WRITE_CHUNK) a = Some (s1, a1)"
    using "2.prems" by (auto split: bind_splits)
  note p' = ping_pong_write_adds [OF p]
  show ?case
  proof (cases "s1 = ONEBOX_STATUS_FAILURE")
    case True
    with "2.prems" p p' show ?thesis by simp
  next
    case False
    with "2.prems" p have "write_chunks h coex rest (Suc kk) n (drop FLASH_WRITE_CHUNK data) a1 = Some (s, a')" by simp
    with "2.IH" [OF p refl False] adds_trans [OF p'(1)] show ?thesis by blast
  qed
qed

lemma write_chunks_returns:
  assumes "timer_fires m h" "block_size_ok a" "n * FLASH_WRITE_CHUNK + unat rest \<le> length data"
  shows "write_chunks h coex rest kk n data a \<noteq> None"
  using assms(2,3)
proof (induction n arbitrary: kk data a)
  case 0
  then show ?case using ping_pong_write_returns [OF assms(1)] by simp
next
  case (Suc n)
  have "unat (word_of_nat FLASH_WRITE_CHUNK :: u32) \<le> length data" using Suc.prems(2) by simp
  then obtain s1 a1 where w: "ping_pong_write h coex (if odd kk then PING_WRITE else PONG_WRITE) data (word_of_nat FLASH_WRITE_CHUNK) a = Some (s1, a1)"
    using ping_pong_write_returns [OF assms(1) Suc.prems(1)] by (metis not_None_eq prod.exhaust)
  have "block_size_ok a1" "n * FLASH_WRITE_CHUNK + unat rest \<le> length (drop FLASH_WRITE_CHUNK data)"
    using block_size_kept [OF ping_pong_write_adds(1) [OF w]] Suc.prems by simp_all
  with Suc.IH w show ?case by simp
qed

lemma auto_fw_upgrade_cases:
  assumes "auto_fw_upgrade h content sz b = Some (s, a')"
  shows "a' = bl_common b \<and> s = ONEBOX_STATUS_FAILURE \<or>
      (\<exists>s1 a1. write_chunks h (coex_mode b) (sz mod word_of_nat FLASH_WRITE_CHUNK) 0
           (unat (sz div word_of_nat FLASH_WRITE_CHUNK)) content (bl_common b) = Some (s1, a1) \<and>
         (a' = a1 \<and> s = ONEBOX_STATUS_FAILURE \<or>
          s1 \<noteq> ONEBOX_STATUS_FAILURE \<and> (\<exists>s2 a2. bl_cmd h (coex_mode b) EOF_REACHED FW_LOADING_SUCCESSFUL a1 = Some (s2, a2) \<and>
            (a' = bl_cmd_stop_timer a2 \<and> s = ONEBOX_STATUS_FAILURE \<or> a' = a2 \<and> s = ONEBOX_STATUS_SUCCESS))))"
proof -
  let ?w = "write_chunks h (coex_mode b) (sz mod word_of_nat FLASH_WRITE_CHUNK) 0
           (unat (sz div word_of_nat FLASH_WRITE_CHUNK)) content (bl_common b)"
  have "a' = bl_common b \<and> s = ONEBOX_STATUS_FAILURE \<or>
      (do { (s, a1) \<leftarrow> ?w;
            if s = ONEBOX_STATUS_FAILURE then Some (ONEBOX_STATUS_FAILURE, a1)
            else do { (s', a2) \<leftarrow> bl_cmd h (coex_mode b) EOF_REACHED FW_LOADING_SUCCESSFUL a1;
                      if s' < 0 then Some (ONEBOX_STATUS_FAILURE, bl_cmd_stop_timer a2)
                      else Some (ONEBOX_STATUS_SUCCESS, a2) } }) = Some (s, a')"
    using assms unfolding auto_fw_upgrade_def Let_def by (cases "rd32 content 16") (simp_all split: if_splits)
  then show ?thesis
  proof
    assume *: "(do { (s, a1) \<leftarrow> ?w;
            if s = ONEBOX_STATUS_FAILURE then Some (ONEBOX_STATUS_FAILURE, a1)
            else do { (s', a2) \<leftarrow> bl_cmd h (coex_mode b) EOF_REACHED FW_LOADING_SUCCESSFUL a1;
                      if s' < 0 then Some (ONEBOX_STATUS_FAILURE, bl_cmd_stop_timer a2)
                      else Some (ONEBOX_STATUS_SUCCESS, a2) } }) = Some (s, a')"
    obtain s1 a1 where w: "?w = Some (s1, a1)" using * by (cases ?w) auto
    show ?thesis
    proof (cases "s1 = ONEBOX_STATUS_FAILURE")
      case True
      with * w show ?thesis by simp
    next
      case False
      with * w obtain s2 a2 where "bl_cmd h (coex_mode b) EOF_REACHED FW_LOADING_SUCCESSFUL a1 = Some (s2, a2)"
        by (cases "bl_cmd h (coex_mode b) EOF_REACHED FW_LOADING_SUCCESSFUL a1") auto
      with * w False show ?thesis by (auto split: if_splits)
    qed
  qed simp
qed

lemma auto_fw_upgrade_adds:
  assumes "auto_fw_upgrade h content sz b = Some (s, a')"
  shows "adds cmd_event (bl_common b) a'"
  using auto_fw_upgrade_cases [OF assms]
proof (elim disjE exE conjE)
  fix s1 a1 s2 a2
  assume w: "write_chunks h (coex_mode b) (sz mod word_of_nat FLASH_WRITE_CHUNK) 0
           (unat (sz div word_of_nat FLASH_WRITE_CHUNK)) content (bl_common b) = Some (s1, a1)"
    and c: "bl_cmd h (coex_mode b) EOF_REACHED FW_LOADING_SUCCESSFUL a1 = Some (s2, a2)"
  have "adds cmd_event (bl_common b) a2" using adds_trans [OF _ bl_cmd_cases(1) [OF c]] write_chunks_adds [OF w] by blast
  then show "a' = a2 \<Longrightarrow> ?thesis" "a' = bl_cmd_stop_timer a2 \<Longrightarrow> ?thesis"
    by (simp_all add: bl_cmd_stop_timer_def adds_then_log)
qed (auto dest: write_chunks_adds)

lemma rd32_in: "n + 4 \<le> length d \<Longrightarrow> rd32 d n \<noteq> None"
  by (simp add: rd32_def rd16_def rd8_in)

lemma auto_fw_upgrade_returns:
  assumes "timer_fires n h" "20 \<le> length content" "block_size_ok (bl_common b)" "unat sz \<le> length content"
  shows "auto_fw_upgrade h content sz b \<noteq> None"
proof -
  obtain start where "rd32 content 16 = Some start" using rd32_in [of 16 content] assms(2) by auto
  moreover have "unat (sz div word_of_nat FLASH_WRITE_CHUNK) * FLASH_WRITE_CHUNK + unat (sz mod word_of_nat FLASH_WRITE_CHUNK) \<le> length content"
    using blocks_and_rest [of sz "word_of_nat FLASH_WRITE_CHUNK"] assms(4) by simp
  moreover obtain s1 a1 where "write_chunks h (coex_mode b) (sz mod word_of_nat FLASH_WRITE_CHUNK) 0
      (unat (sz div word_of_nat FLASH_WRITE_CHUNK)) content (bl_common b) = Some (s1, a1)"
    using write_chunks_returns [OF assms(1,3) calculation(2)] by (metis not_None_eq prod.exhaust)
  moreover obtain s2 a2 where "bl_cmd h (coex_mode b) EOF_REACHED FW_LOADING_SUCCESSFUL a1 = Some (s2, a2)"
    using bl_cmd_returns [OF assms(1)] by (metis not_None_eq prod.exhaust)
  ultimately show ?thesis by (simp add: auto_fw_upgrade_def Let_def)
qed

section \<open>Reading back\<close>

lemma verify_chunks_adds:
  "verify_chunks h cs content left off a = Some (s, a') \<Longrightarrow> adds bus_event a a'"
proof (induction h cs content left off a rule: verify_chunks.induct)
  case (1 h cs content left off a)
  obtain s1 d a1 where r: "read_flash_content h (SOC_FLASH_ADDR + off) (word_of_nat cs) a = ((s1, d), a1)"
    by (metis prod_cases3 prod.exhaust)
  have a1: "adds bus_event a a1" using bus_opD [OF bus_read_flash r] .
  show ?case
  proof (cases "left = 0 \<or> cs = 0")
    case True
    with "1.prems" show ?thesis by simp
  next
    case False
    have "a' = a1 \<or> (0 \<le> s1 \<and> (\<exists>e. mem_slice content 0 (min left cs) = Some e \<and>
          e = take (min left cs) (d @ replicate (min left cs) 0) \<and>
          verify_chunks h cs (drop cs content) (left - min left cs) (off + word_of_nat (min left cs)) a1 = Some (s, a')))"
      using "1.prems" False by (subst (asm) verify_chunks.simps) (auto simp: Let_def r split: if_splits bind_splits)
    then show ?thesis using "1.IH" [OF False refl r [symmetric]] a1 adds_trans by fastforce
  qed
qed

lemma verify_chunks_returns: "left \<le> length content \<Longrightarrow> verify_chunks h cs content left off a \<noteq> None"
proof (induction h cs content left off a rule: verify_chunks.induct)
  case (1 h cs content left off a)
  obtain s1 d a1 where r: "read_flash_content h (SOC_FLASH_ADDR + off) (word_of_nat cs) a = ((s1, d), a1)"
    by (metis prod_cases3 prod.exhaust)
  show ?case
  proof (cases "left = 0 \<or> cs = 0")
    case True
    then show ?thesis by (subst verify_chunks.simps) simp
  next
    case False
    have m: "mem_slice content 0 (min left cs) = Some (take (min left cs) content)"
      using "1.prems" by (simp add: mem_slice_def)
    have "left - min left cs \<le> length (drop cs content)" using "1.prems" by auto
    with "1.IH" [OF False refl r [symmetric]] m False show ?thesis
      by (subst verify_chunks.simps) (auto simp: Let_def r)
  qed
qed

lemma verify_flash_adds: "verify_flash_content h content sz off a = Some (s, a') \<Longrightarrow> adds cmd_event a a'"
  using verify_chunks_adds as_poll as_cmd by (fastforce simp: verify_flash_content_def split: if_splits)

lemma verify_flash_returns: "unat sz \<le> length content \<Longrightarrow> verify_flash_content h content sz off a \<noteq> None"
  using verify_chunks_returns by (simp add: verify_flash_content_def del: not_None_eq verify_chunks.simps)

end
