(* ===== verification/Boot_Upgrade.thy ===== *)
theory Boot_Upgrade
  imports Boot_Steps Firmware_Load
begin

text \<open>
  What the boot loader is handed over SDIO: each command is a write to its command register,
  and with the commands \<^verbatim>\<open>PING_VALID\<close> and \<^verbatim>\<open>PONG_VALID\<close> the driver announces that the
  next 4096 bytes lie in one of two buffers. An upgrade that reports success has announced
  exactly the image, in order and in the two buffers in turn.
\<close>

section \<open>Commands as the trace shows them\<close>

definition absolute :: "device \<Rightarrow> u32 \<Rightarrow> nat" where
  "absolute s addr = unat (ms_word s) * 65536 + unat (take_bit 16 addr)"

definition buffer_at :: "u32 \<Rightarrow> (nat \<Rightarrow> u8) \<Rightarrow> bytes" where
  "buffer_at addr m = map m [unat addr ..< unat addr + FLASH_WRITE_CHUNK]"

definition announced :: "u8 \<Rightarrow> (nat \<Rightarrow> u8) \<Rightarrow> bytes" where
  "announced cmd m =
     (if cmd = PING_VALID then buffer_at PING_BUFFER_ADDRESS m
      else if cmd = PONG_VALID then buffer_at PONG_BUFFER_ADDRESS m else [])"

fun command :: "event \<Rightarrow> device \<Rightarrow> (u8 \<times> bytes) list" where
  "command (Multi_write addr x n) s =
     (if bit addr 16 \<and> absolute s addr = unat SWBL_REGIN then [(hd x, announced (hd x) (memory s))] else [])"
| "command _ s = []"

text \<open>The commands, the oldest first, each with the buffer it announces.\<close>

fun told :: "device \<Rightarrow> history \<Rightarrow> (u8 \<times> bytes) list" where
  "told d [] = []"
| "told d (e # t) = told d t @ command e (device_after d t)"

section \<open>Steps that hand over nothing\<close>

definition unseen :: "device \<Rightarrow> adapter \<Rightarrow> adapter \<Rightarrow> bool" where
  "unseen d a a' \<longleftrightarrow> told d (trace a') = told d (trace a) \<and> host_intf_type a' = host_intf_type a \<and>
     TransmitBlockSize a' = TransmitBlockSize a \<and>
     (\<forall>x < 0x41050000. memory (device_after d (trace a')) x = memory (device_after d (trace a)) x)"

lemma unseen_refl [simp]: "unseen d a a"
  by (simp add: unseen_def)

lemma unseen_trans: "unseen d a b \<Longrightarrow> unseen d b c \<Longrightarrow> unseen d a c"
  by (simp add: unseen_def)

fun no_write :: "event \<Rightarrow> bool" where
  "no_write (Multi_write addr d n) = False"
| "no_write (Ta_write addr d n) = False"
| "no_write _ = True"

lemma unseen_log: "no_write e \<Longrightarrow> unseen d a (log e a)"
  by (cases e) (simp_all add: unseen_def)

lemma unseen_or_fail:
  assumes "or_fail f g a = (s, a')" "\<And>s b. f a = (s, b) \<Longrightarrow> unseen d a b"
    and "\<And>b. f a = (ONEBOX_STATUS_SUCCESS, b) \<Longrightarrow> g b = (s, a') \<Longrightarrow> unseen d b a'"
  shows "unseen d a a'"
proof -
  obtain s1 b where f: "f a = (s1, b)" by fastforce
  then show ?thesis
    using assms unseen_trans [OF assms(2) [OF f]] by (cases "s1 = ONEBOX_STATUS_SUCCESS") (auto simp: or_fail_def)
qed

lemma unseen_reg_byte: "write_register h dmn addr v a = (s, a') \<Longrightarrow> unseen d a a'"
  by (auto simp: write_register_def Let_def intro: unseen_log)

lemma unseen_msword:
  assumes "onebox_sdio_master_access_msword h w a = (s, a')"
  shows "unseen d a a'"
  using assms unfolding onebox_sdio_master_access_msword_def
  by (elim unseen_or_fail) (auto elim: unseen_or_fail unseen_reg_byte)

lemma unseen_reg_read:
  assumes "host_intf_type a = HOST_INTF_SDIO" "master_reg_read h reg n a = (v, a')"
  shows "unseen d a a'"
proof -
  obtain s a1 where m: "onebox_sdio_master_access_msword (bh_host h) (ucast (drop_bit 16 reg)) a = (s, a1)" by fastforce
  have rd: "unseen d b c" if "read_multiple (bh_host h) ad cnt b = ((s', x), c)" for b s' x c ad cnt
    using that by (auto simp: read_multiple_def Let_def intro: unseen_log)
  show ?thesis
    using assms m
    by (auto simp: master_reg_read_def sdio_master_reg_read_def Let_def split: if_splits prod.splits
        intro: unseen_msword [OF m] unseen_trans [OF unseen_msword [OF m]] rd)
qed

lemma unseen_poll:
  assumes "host_intf_type a = HOST_INTF_SDIO" "poll_register h reg done val a = Some (r, a')"
  shows "unseen d a a'"
proof -
  have "unseen d a a' \<and> host_intf_type a' = HOST_INTF_SDIO"
    using assms(2)
  proof (rule poll_register_invariant)
    fix b assume "unseen d a b \<and> host_intf_type b = HOST_INTF_SDIO"
    then show "unseen d a (log Timer_check b) \<and> host_intf_type (log Timer_check b) = HOST_INTF_SDIO"
      using unseen_trans unseen_log [of Timer_check] by (auto simp: log_def) 
  next
    fix b v b' assume "unseen d a b \<and> host_intf_type b = HOST_INTF_SDIO" "master_reg_read h reg 2 b = (v, b')"
    then show "unseen d a b' \<and> host_intf_type b' = HOST_INTF_SDIO"
      using unseen_reg_read [of b h reg 2 v b' d] by (auto simp: unseen_def)
  qed (use assms(1) in simp)
  then show ?thesis ..
qed

section \<open>Writing a register\<close>

lemma window_offset:
  assumes "ms_word s = 0x4105"
  shows "absolute s (0x10034) = unat SWBL_REGIN" "absolute s (0x1003c) = unat SWBL_REGOUT"
  using assms by (simp_all add: absolute_def)

lemma reg_data_low: "ucast (reg_data 2 w) = (ucast w :: u8)"
proof -
  have "(0xFFFF :: u32) = mask 16" by (simp add: mask_eq_exp_minus_1)
  then have "reg_data 2 w = push_bit 16 w OR (w AND mask 16)" by (simp add: reg_data_def)
  then show ?thesis by (simp only:) (rule bit_word_eqI, auto simp: bit_simps)
qed

lemma regin_low: "hd (le32 (reg_data 2 (regin_word coex cmd))) = cmd"
proof -
  have "ucast (ucast cmd OR push_bit 8 x :: u32) = cmd" for x
    by (rule bit_word_eqI) (auto simp: bit_simps dest: bit_imp_le_length)
  then have "ucast (regin_word coex cmd) = cmd" unfolding regin_word_def .
  then show ?thesis using reg_data_low by (simp add: le32_def)
qed

lemma reg_write_at_window:
  assumes sdio: "host_intf_type a = HOST_INTF_SDIO"
    and w: "master_reg_write h reg v 2 a = (s, a')" and ok: "\<not> s < 0" and reg: "drop_bit 16 reg = 0x4105"
  obtains a1 where "unseen d a a1" "ms_word (device_after d (trace a1)) = 0x4105"
    "a' = log (Multi_write ((reg AND 0xFFFF) OR 0x10000) (le32 (reg_data 2 v)) 4) a1"
proof -
  obtain s1 a1 where m: "onebox_sdio_master_access_msword (bh_host h) (ucast (drop_bit 16 reg)) a = (s1, a1)" by fastforce
  have s1: "s1 = ONEBOX_STATUS_SUCCESS"
    using w m ok sdio by (cases "s1 = 0") (auto simp: master_reg_write_def sdio_master_reg_write_def or_fail_def)
  have ms: "ms_word (device_after d (trace a1)) = 0x4105"
    using msword_success [OF m s1] reg by simp
  have "a' = log (Multi_write ((reg AND 0xFFFF) OR 0x10000) (le32 (reg_data 2 v)) 4) a1"
    using w m s1 sdio by (auto simp: master_reg_write_def sdio_master_reg_write_def or_fail_def write_multiple_def Let_def split: if_splits)
  with that unseen_msword [OF m] ms show ?thesis by blast
qed

lemma store_above: "x < addr \<Longrightarrow> store addr b m x = m x"
  by (simp add: store_def)

lemma unseen_regout:
  assumes "host_intf_type a = HOST_INTF_SDIO" "master_reg_write h SWBL_REGOUT v 2 a = (s, a')"
  shows "unseen d a a'"
proof -
  obtain s1 a1 where m: "onebox_sdio_master_access_msword (bh_host h) 0x4105 a = (s1, a1)" by fastforce
  show ?thesis
  proof (cases "s1 = ONEBOX_STATUS_SUCCESS")
    case False
    with assms m unseen_msword [OF m] show ?thesis
      by (auto simp: master_reg_write_def sdio_master_reg_write_def or_fail_def)
  next
    case True
    have "a' = log (Multi_write 0x1003c (le32 (reg_data 2 v)) 4) a1"
      using assms m True by (auto simp: master_reg_write_def sdio_master_reg_write_def or_fail_def write_multiple_def Let_def split: if_splits)
    moreover have "ms_word (device_after d (trace a1)) = 0x4105" using msword_success [OF m True] by simp
    ultimately have "unseen d a1 a'"
      using window_offset(2) by (auto simp: unseen_def store_above absolute_def)
    with unseen_msword [OF m] show ?thesis by (rule unseen_trans)
  qed
qed

text \<open>What is told when the command register is written.\<close>

definition tells :: "device \<Rightarrow> u8 \<Rightarrow> adapter \<Rightarrow> adapter \<Rightarrow> bool" where
  "tells d cmd a a' \<longleftrightarrow> told d (trace a') = told d (trace a) @ [(cmd, announced cmd (memory (device_after d (trace a))))] \<and>
     host_intf_type a' = host_intf_type a \<and> TransmitBlockSize a' = TransmitBlockSize a \<and>
     (\<forall>x < 0x41050000. memory (device_after d (trace a')) x = memory (device_after d (trace a)) x)"

lemma buffer_at_low:
  "(\<And>x. x < 0x41050000 \<Longrightarrow> m x = m' x) \<Longrightarrow> unat addr + FLASH_WRITE_CHUNK \<le> 0x41050000 \<Longrightarrow> buffer_at addr m = buffer_at addr m'"
  by (auto simp: buffer_at_def)

lemma announced_low:
  "(\<And>x. x < 0x41050000 \<Longrightarrow> m x = m' x) \<Longrightarrow> announced cmd m = announced cmd m'"
  by (auto simp: announced_def intro!: buffer_at_low)

lemma tells_unseen: "unseen d a b \<Longrightarrow> tells d cmd b c \<Longrightarrow> tells d cmd a c"
  using announced_low [of "memory (device_after d (trace b))" "memory (device_after d (trace a))" cmd]
  by (simp add: unseen_def tells_def)

lemma unseen_tells: "tells d cmd a b \<Longrightarrow> unseen d b c \<Longrightarrow> tells d cmd a c"
  by (simp add: unseen_def tells_def)

lemma regin_tells:
  assumes "host_intf_type a = HOST_INTF_SDIO" "master_reg_write h SWBL_REGIN (regin_word coex cmd) 2 a = (s, a')" "\<not> s < 0"
  shows "tells d cmd a a'"
proof -
  obtain a1 where a1: "unseen d a a1" "ms_word (device_after d (trace a1)) = 0x4105"
    and a': "a' = log (Multi_write ((SWBL_REGIN AND 0xFFFF) OR 0x10000) (le32 (reg_data 2 (regin_word coex cmd))) 4) a1"
    using reg_write_at_window [OF assms(1,2,3), of d] by auto
  have "tells d cmd a1 a'"
    using a1(2) a' regin_low [of coex cmd] by (simp add: tells_def absolute_def store_above)
  with a1(1) show ?thesis by (rule tells_unseen)
qed

section \<open>Commands\<close>

lemma bl_response_unseen:
  assumes "host_intf_type a = HOST_INTF_SDIO" "bl_response h cmd e resp a = Some (r, a')"
  shows "unseen d a a'"
proof -
  obtain regout a1 where p: "poll_register h SWBL_REGOUT (\<lambda>v. drop_bit 8 v = 0xAB) 0 a = Some (regout, a1)"
    using assms(2) by (auto simp: bl_response_def split: bind_splits)
  obtain x a2 where t: "timer_expired h a1 = (x, a2)" by fastforce
  obtain s a3 where w: "master_reg_write h SWBL_REGOUT (ucast cmd OR push_bit 8 (NOT 0xAB)) 2 a2 = (s, a3)" by fastforce
  have 1: "unseen d a a1" using unseen_poll [OF assms(1) p] .
  have 2: "unseen d a a2" using unseen_trans [OF 1 unseen_log] t by (auto simp: timer_expired_def Let_def)
  then have "host_intf_type a2 = HOST_INTF_SDIO" using assms(1) by (simp add: unseen_def)
  then have 3: "unseen d a a3" using unseen_trans [OF 2 unseen_regout [OF _ w]] by blast
  have "a' \<in> {a1, a2, a3}"
    using assms(2) p t w unfolding bl_response_def Let_def by (auto split: option.splits if_splits)
  with 1 2 3 show ?thesis by auto
qed

lemma bl_write_cmd_tells:
  assumes "host_intf_type a = HOST_INTF_SDIO" "bl_write_cmd h coex cmd e resp a = Some ((s, r), a')" "\<not> s < 0"
  shows "tells d cmd a a'"
proof -
  obtain regin a1 where p: "poll_register h SWBL_REGIN (\<lambda>v. drop_bit 12 v \<noteq> 0xA) 0 a = Some (regin, a1)"
    using assms(2) by (auto simp: bl_write_cmd_def split: bind_splits)
  obtain x a2 where t: "timer_expired h a1 = (x, a2)" by fastforce
  obtain s3 a3 where w: "master_reg_write h SWBL_REGIN (regin_word coex cmd) 2 a2 = (s3, a3)" by fastforce
  have 1: "unseen d a a1" using unseen_poll [OF assms(1) p] .
  have 2: "unseen d a a2" using unseen_trans [OF 1 unseen_log] t by (auto simp: timer_expired_def Let_def)
  have sdio: "host_intf_type a2 = HOST_INTF_SDIO" using 2 assms(1) by (simp add: unseen_def)
  have r: "\<not> s3 < 0 \<and> (a' = a3 \<or> bl_response h cmd e resp a3 = Some ((s, r), a'))"
    using assms(2,3) p t w unfolding bl_write_cmd_def Let_def by (auto split: option.splits if_splits)
  then have 3: "tells d cmd a a3" using tells_unseen [OF 2 regin_tells [OF sdio w]] by blast
  then have "host_intf_type a3 = HOST_INTF_SDIO" using assms(1) by (simp add: tells_def)
  with r 3 unseen_tells [OF 3 bl_response_unseen] show ?thesis by blast
qed

lemma bl_cmd_tells:
  assumes "host_intf_type a = HOST_INTF_SDIO" "bl_cmd h coex cmd e a = Some (s, a')" "\<not> s < 0"
  shows "tells d cmd a a'"
proof -
  define timeout where "timeout = (if cmd \<in> {EOF_REACHED, PING_VALID, PONG_VALID} then BL_BURN_TIMEOUT else BL_CMD_TIMEOUT)"
  obtain st r a1 where w: "bl_write_cmd h coex cmd e 0 (bl_cmd_start_timer timeout a) = Some ((st, r), a1)"
    using assms(2) by (auto simp: bl_cmd_def timeout_def Let_def split: bind_splits)
  have r: "\<not> st < 0" "a' = log Timer_stop a1"
    using assms(2,3) w by (auto simp: bl_cmd_def timeout_def Let_def bl_cmd_stop_timer_def split: if_splits)
  have "unseen d a (bl_cmd_start_timer timeout a)" unfolding bl_cmd_start_timer_def by (rule unseen_log) simp
  moreover have "tells d cmd (bl_cmd_start_timer timeout a) a1"
    using assms(1) by (intro bl_write_cmd_tells [OF _ w r(1)]) (simp add: bl_cmd_start_timer_def)
  ultimately have "tells d cmd a a1" by (rule tells_unseen)
  then show ?thesis unfolding r(2) by (rule unseen_tells) (rule unseen_log, simp)
qed

section \<open>The buffers\<close>

lemma told_low_write:
  assumes "ms_word (device_after d (trace a)) = word_of_nat (base div 65536)" "base < 0x41050000"
  shows "told d (Multi_write (ucast (ucast (word_of_nat base :: u32) :: u16) OR 0x10000) buf cnt # trace a) = told d (trace a)"
proof -
  have ub: "unat (word_of_nat base :: u32) = base" using assms(2) by (simp add: unat_of_nat)
  have um: "unat (word_of_nat (base div 65536) :: u16) = base div 65536" using assms(2) by (simp add: unat_of_nat)
  have lsb: "unat (ucast (word_of_nat base :: u32) :: u16) = base mod 65536"
    using ub by (simp only: unsigned_ucast_eq) (simp add: take_bit_eq_mod)
  have "base div 65536 * 65536 + base mod 65536 = base" by simp
  then have "absolute (device_after d (trace a)) (ucast (ucast (word_of_nat base :: u32) :: u16) OR 0x10000) = base"
    using assms(1) um lsb master_address by (simp add: absolute_def)
  with assms(2) show ?thesis by simp
qed

lemma told_msword:
  "onebox_sdio_master_access_msword h w a = (s, a') \<Longrightarrow> told d (trace a') = told d (trace a)"
  using unseen_msword [of h w a s a' d] by (simp add: unseen_def)

lemma load_blocks_told:
  assumes "load_blocks h fw (word_of_nat bs) n cur (word_of_nat base) (word_of_nat (base div 65536)) a =
             Some (ONEBOX_STATUS_SUCCESS, cur', base', a')"
    and "0 < bs" "bs dvd 65536" "base + n * bs \<le> 0x41050000"
    and "ms_word (device_after d (trace a)) = word_of_nat (base div 65536)"
  shows "told d (trace a') = told d (trace a)"
  using assms
proof (induction n arbitrary: cur base a)
  case 0
  then show ?case by simp
next
  case (Suc n)
  let ?c = "take bs (drop cur fw)"
  have top: "base + bs < 2 ^ 32" "base < 2 ^ 32" "base < 0x41050000" "base + bs + n * bs \<le> 0x41050000"
    using Suc.prems(2,4) by simp_all
  have ubs: "unat (word_of_nat bs :: u32) = bs"
    using Suc.prems(2,3) dvd_imp_le [of bs 65536] by (simp add: unat_of_nat)
  obtain a1 a2 where a1: "a1 = log (Multi_write (ucast (ucast (word_of_nat base :: u32) :: u16) OR 0x10000) ?c (word_of_nat bs)) a"
    and a2: "a2 = a1 \<and> (base + bs) div 65536 = base div 65536 \<or>
       onebox_sdio_master_access_msword h (word_of_nat ((base + bs) div 65536)) a1 = (ONEBOX_STATUS_SUCCESS, a2)"
    and l: "load_blocks h fw (word_of_nat bs) n (cur + bs) (word_of_nat (base + bs)) (word_of_nat ((base + bs) div 65536)) a2 =
       Some (ONEBOX_STATUS_SUCCESS, cur', base', a')"
    using load_blocks_step [OF Suc.prems(1-3) top(1)] by blast
  have 1: "told d (trace a1) = told d (trace a)" using told_low_write [OF Suc.prems(5) top(3)] by (simp add: a1)
  have "ms_word (device_after d (trace a1)) = word_of_nat (base div 65536)"
    using master_write_effect [OF Suc.prems(5) top(2) ubs] Suc.prems(5) by (simp add: a1)
  with a2 msword_success [OF _ refl] have "ms_word (device_after d (trace a2)) = word_of_nat ((base + bs) div 65536)" by fastforce
  from Suc.IH [OF l Suc.prems(2,3) top(4) this] a2 1 told_msword show ?case by metis
qed

lemma sdio_load_told:
  assumes "sdio_load_data_master_write h (word_of_nat base) (word_of_nat sz) (word_of_nat bs) fw a =
             Some (ONEBOX_STATUS_SUCCESS, a')"
    and "0 < bs" "bs dvd 65536" "bs dvd base" "base + sz \<le> 0x41050000" "sz \<le> length fw"
  shows "told d (trace a') = told d (trace a)"
proof -
  let ?n = "sz div bs" and ?r = "sz mod bs" let ?B = "base + ?n * bs"
  have top: "base + sz < 2 ^ 32" using assms(5) by simp
  obtain a1 a2 where m: "onebox_sdio_master_access_msword h (word_of_nat (base div 65536)) a = (ONEBOX_STATUS_SUCCESS, a1)"
    and l: "load_blocks h fw (word_of_nat bs) ?n 0 (word_of_nat base) (word_of_nat (base div 65536)) a1 =
       Some (ONEBOX_STATUS_SUCCESS, ?n * bs, word_of_nat ?B, a2)"
    and r: "if ?r = 0 then a' = a2
     else a' = log (Multi_write (ucast (ucast (word_of_nat ?B :: u32) :: u16) OR 0x10000)
       (take ?r (drop (?n * bs) fw)) (word_of_nat sz mod word_of_nat bs)) a2"
    using sdio_load_parts [OF assms(1-4) top assms(6)] by blast
  have szn: "?n * bs + ?r = sz" by simp
  have "?n * bs \<le> sz" using szn by linarith
  with assms(5,6) have "?B \<le> 0x41050000" "0 + ?n * bs \<le> length fw" by linarith+
  moreover have "?B < 2 ^ 32" using \<open>?B \<le> 0x41050000\<close> by (rule le_less_trans) simp
  ultimately have le: "?B \<le> 0x41050000" "?B < 2 ^ 32" "0 + ?n * bs \<le> length fw" by blast+
  have ms1: "ms_word (device_after d (trace a1)) = word_of_nat (base div 65536)"
    using msword_success [OF m refl] by simp
  have 2: "told d (trace a2) = told d (trace a)"
    using load_blocks_told [OF l assms(2,3) le(1) ms1] told_msword [OF m, of d] by simp
  have ms2: "ms_word (device_after d (trace a2)) = word_of_nat (?B div 65536)"
    using load_blocks_success [OF l assms(2-4) le(2,3) ms1] by simp
  show ?thesis
  proof (cases "?r = 0")
    case True
    with r 2 show ?thesis by simp
  next
    case False
    then have "?B < 0x41050000" using assms(5) szn by linarith
    with False r 2 told_low_write [OF ms2] show ?thesis by (simp del: of_nat_add of_nat_mult told.simps)
  qed
qed

lemma buffer_at_store:
  assumes "length c \<le> FLASH_WRITE_CHUNK"
  shows "buffer_at addr (store (unat addr) c m) = c @ drop (length c) (buffer_at addr m)"
  using assms by (intro nth_equalityI) (auto simp: buffer_at_def store_def nth_append)

lemma length_buffer_at [simp]: "length (buffer_at addr m) = FLASH_WRITE_CHUNK"
  by (simp add: buffer_at_def)

text \<open>One buffer: the chunk and what the rest of the buffer held.\<close>

lemma ping_pong_write_tells:
  assumes sdio: "host_intf_type a = HOST_INTF_SDIO"
    and w: "ping_pong_write h coex cmd data sz a = Some (s, a')" "s \<noteq> ONEBOX_STATUS_FAILURE"
    and sz: "unat sz \<le> length data" "unat sz \<le> FLASH_WRITE_CHUNK"
    and bs: "0 < TransmitBlockSize a" "unat (TransmitBlockSize a) dvd FLASH_WRITE_CHUNK"
  obtains junk where "length junk + unat sz = FLASH_WRITE_CHUNK"
    "told d (trace a') = told d (trace a) @ [(if cmd = PING_WRITE then PING_VALID else PONG_VALID, take (unat sz) data @ junk)]"
    "host_intf_type a' = HOST_INTF_SDIO" "TransmitBlockSize a' = TransmitBlockSize a"
proof -
  define addr where "addr = (if cmd = PING_WRITE then PING_BUFFER_ADDRESS else PONG_BUFFER_ADDRESS)"
  define resp where "resp = (if cmd = PING_WRITE then PONG_AVAIL else PING_AVAIL)"
  define req where "req = (if cmd = PING_WRITE then PING_VALID else PONG_VALID)"
  have m: "(if cmd = PING_WRITE then (PING_BUFFER_ADDRESS, PONG_AVAIL, PING_VALID)
      else (PONG_BUFFER_ADDRESS, PING_AVAIL, PONG_VALID)) = (addr, resp, req)"
    by (simp add: addr_def resp_def req_def)
  obtain s1 a1 where l: "load_data_master_write h addr sz data a = Some (s1, a1)"
    using w unfolding ping_pong_write_def m Let_def by (auto split: bind_splits)
  have s1: "s1 = ONEBOX_STATUS_SUCCESS"
    using w l unfolding ping_pong_write_def m Let_def by (auto split: if_splits)
  then obtain s2 where c: "bl_cmd h coex req resp a1 = Some (s2, a')" "\<not> s2 < 0"
    using w l unfolding ping_pong_write_def m Let_def by (auto split: bind_splits if_splits)
  have l': "sdio_load_data_master_write (bh_host h) (word_of_nat (unat addr)) (word_of_nat (unat sz))
      (word_of_nat (unat (TransmitBlockSize a))) data a = Some (ONEBOX_STATUS_SUCCESS, a1)"
    using l sdio s1 by (simp add: load_data_master_write_def)
  have "FLASH_WRITE_CHUNK dvd (65536 :: nat)" by simp
  then have bs': "0 < unat (TransmitBlockSize a)" "unat (TransmitBlockSize a) dvd 65536"
    using bs(1) dvd_trans [OF bs(2)] by (simp_all add: word_less_nat_alt)
  have "FLASH_WRITE_CHUNK dvd unat addr" by (simp add: addr_def)
  then have ba: "unat (TransmitBlockSize a) dvd unat addr" using bs(2) dvd_trans by blast
  have top: "unat addr + unat sz \<le> 0x41050000" using sz(2) by (simp add: addr_def)
  have mem: "memory (device_after d (trace a1)) = store (unat addr) (take (unat sz) data) (memory (device_after d (trace a)))"
    using sdio_load_memory [OF l' bs' ba _ sz(1)] top by simp
  have td: "told d (trace a1) = told d (trace a)" using sdio_load_told [OF l' bs' ba top sz(1)] .
  have f: "host_intf_type a1 = host_intf_type a" "TransmitBlockSize a1 = TransmitBlockSize a"
    using adds_fields [OF bus_load [OF l]] by simp_all
  have ann: "announced req (memory (device_after d (trace a1))) = buffer_at addr (memory (device_after d (trace a1)))"
    by (simp add: announced_def req_def addr_def)
  have len: "length (take (unat sz) data) = unat sz" using sz(1) by simp
  define junk where "junk = drop (unat sz) (buffer_at addr (memory (device_after d (trace a))))"
  have "announced req (memory (device_after d (trace a1))) = take (unat sz) data @ junk"
    using buffer_at_store [of "take (unat sz) data"] len sz(2) unfolding ann by (simp add: mem junk_def)
  then have "tells d req a1 a'" "told d (trace a') = told d (trace a) @ [(req, take (unat sz) data @ junk)]"
    using bl_cmd_tells [OF _ c, of d] f(1) sdio td by (auto simp: tells_def)
  then show ?thesis
    using f sdio sz(2) by (intro that [of junk]) (auto simp: tells_def junk_def req_def)
qed

section \<open>The image\<close>

text \<open>The loop: whole chunks, the two buffers in turn, and the rest with what its buffer held.\<close>

lemma write_chunks_tells:
  assumes "write_chunks h coex rest kk n data a = Some (s, a')" "s \<noteq> ONEBOX_STATUS_FAILURE"
    and "host_intf_type a = HOST_INTF_SDIO" "0 < TransmitBlockSize a" "unat (TransmitBlockSize a) dvd FLASH_WRITE_CHUNK"
    and "unat rest < FLASH_WRITE_CHUNK" "length data = n * FLASH_WRITE_CHUNK + unat rest"
  shows "\<exists>new junk. told d (trace a') = told d (trace a) @ new \<and> concat (map snd new) = data @ junk \<and>
     length junk < FLASH_WRITE_CHUNK \<and> host_intf_type a' = HOST_INTF_SDIO \<and>
     map fst new = map (\<lambda>i. if odd i then PING_VALID else PONG_VALID) [kk ..< kk + length new]"
  using assms
proof (induction n arbitrary: kk data a)
  case 0
  show ?case
  proof (cases "rest = 0")
    case True
    with 0 show ?thesis by (intro exI [of _ "[]"]) simp
  next
    case False
    then have "0 < unat rest" by (simp add: unat_gt_0)
    let ?cmd = "if odd kk then PING_WRITE else PONG_WRITE"
    have w: "ping_pong_write h coex ?cmd data rest a = Some (s, a')" using "0.prems"(1) False by simp
    obtain junk where "length junk + unat rest = FLASH_WRITE_CHUNK"
      "told d (trace a') = told d (trace a) @ [(if ?cmd = PING_WRITE then PING_VALID else PONG_VALID, take (unat rest) data @ junk)]"
      "host_intf_type a' = HOST_INTF_SDIO"
      using ping_pong_write_tells [OF "0.prems"(3) w "0.prems"(2), of d] "0.prems"(4-7) by auto
    with "0.prems"(7) \<open>0 < unat rest\<close> show ?thesis
      by (intro exI [of _ "[(if ?cmd = PING_WRITE then PING_VALID else PONG_VALID, data @ junk)]"] exI [of _ junk]) auto
  qed
next
  case (Suc n)
  let ?cmd = "if odd kk then PING_WRITE else PONG_WRITE"
  obtain s1 a1 where w: "ping_pong_write h coex ?cmd data (word_of_nat FLASH_WRITE_CHUNK) a = Some (s1, a1)"
    using Suc.prems(1) by (auto split: bind_splits)
  have s1: "s1 \<noteq> ONEBOX_STATUS_FAILURE" and
    r: "write_chunks h coex rest (Suc kk) n (drop FLASH_WRITE_CHUNK data) a1 = Some (s, a')"
    using Suc.prems(1,2) w by (auto split: if_splits)
  obtain junk where 1: "length junk + unat (word_of_nat FLASH_WRITE_CHUNK :: u32) = FLASH_WRITE_CHUNK"
      "told d (trace a1) = told d (trace a) @ [(if ?cmd = PING_WRITE then PING_VALID else PONG_VALID,
         take (unat (word_of_nat FLASH_WRITE_CHUNK :: u32)) data @ junk)]"
      "host_intf_type a1 = HOST_INTF_SDIO" "TransmitBlockSize a1 = TransmitBlockSize a"
    using ping_pong_write_tells [OF Suc.prems(3) w s1, of d] Suc.prems(4-7) by auto
  then have j: "junk = []" by simp
  let ?e = "(if odd kk then PING_VALID else PONG_VALID, take FLASH_WRITE_CHUNK data)"
  have t1: "told d (trace a1) = told d (trace a) @ [?e]" using 1(2) j by simp
  have len: "length (drop FLASH_WRITE_CHUNK data) = n * FLASH_WRITE_CHUNK + unat rest" using Suc.prems(7) by simp
  obtain new jk where 2: "told d (trace a') = told d (trace a1) @ new" "concat (map snd new) = drop FLASH_WRITE_CHUNK data @ jk"
    "length jk < FLASH_WRITE_CHUNK" "host_intf_type a' = HOST_INTF_SDIO"
    "map fst new = map (\<lambda>i. if odd i then PING_VALID else PONG_VALID) [Suc kk ..< Suc kk + length new]"
    using Suc.IH [OF r Suc.prems(2) 1(3) _ _ Suc.prems(6) len] 1(4) Suc.prems(4,5) by metis
  have "[kk ..< kk + length (?e # new)] = kk # [Suc kk ..< Suc kk + length new]" by (simp add: upt_rec)
  with 2 t1 show ?case by (intro exI [of _ "?e # new"] exI [of _ jk]) simp
qed

text \<open>
  C29. An upgrade of the firmware over SDIO that reports success has handed over exactly the
  image: the commands that announced a buffer since it began, in the order of the bus, used the
  two buffers in turn, the buffers held at the time of their command, put together, the image
  and less than one chunk more, and the last command announced the end of the file.
\<close>

theorem upgrade_hands_over_image:
  assumes "auto_fw_upgrade h content (word_of_nat (length content)) b = Some (ONEBOX_STATUS_SUCCESS, a')"
    and "host_intf_type (bl_common b) = HOST_INTF_SDIO" "length content < 2 ^ 32"
    and "0 < TransmitBlockSize (bl_common b)" "unat (TransmitBlockSize (bl_common b)) dvd FLASH_WRITE_CHUNK"
  shows "\<exists>new junk. told d (trace a') = told d (trace (bl_common b)) @ new @ [(EOF_REACHED, [])] \<and>
     concat (map snd new) = content @ junk \<and> length junk < FLASH_WRITE_CHUNK \<and>
     map fst new = map (\<lambda>i. if odd i then PING_VALID else PONG_VALID) [0 ..< length new]"
proof -
  let ?sz = "word_of_nat (length content) :: u32"
  have sz: "unat ?sz = length content" using assms(3) by (simp add: unat_of_nat)
  obtain s1 a1 s2 where w: "write_chunks h (coex_mode b) (?sz mod word_of_nat FLASH_WRITE_CHUNK) 0
           (unat (?sz div word_of_nat FLASH_WRITE_CHUNK)) content (bl_common b) = Some (s1, a1)" "s1 \<noteq> ONEBOX_STATUS_FAILURE"
    and c: "bl_cmd h (coex_mode b) EOF_REACHED FW_LOADING_SUCCESSFUL a1 = Some (s2, a')"
    using auto_fw_upgrade_cases [OF assms(1)] by auto
  have n: "unat (?sz mod word_of_nat FLASH_WRITE_CHUNK) < FLASH_WRITE_CHUNK"
    "length content = unat (?sz div word_of_nat FLASH_WRITE_CHUNK) * FLASH_WRITE_CHUNK + unat (?sz mod word_of_nat FLASH_WRITE_CHUNK)"
    by (simp_all add: unat_div unat_mod sz)
  obtain new junk where r: "told d (trace a1) = told d (trace (bl_common b)) @ new" "concat (map snd new) = content @ junk"
     "length junk < FLASH_WRITE_CHUNK" "host_intf_type a1 = HOST_INTF_SDIO"
     "map fst new = map (\<lambda>i. if odd i then PING_VALID else PONG_VALID) [0 ..< 0 + length new]"
    using write_chunks_tells [OF w assms(2,4,5) n, of d] by blast
  have "\<not> s2 < 0"
    using assms(1) w c by (auto simp: auto_fw_upgrade_def Let_def split: bind_splits if_splits)
  then have "told d (trace a') = told d (trace a1) @ [(EOF_REACHED, [])]"
    using bl_cmd_tells [OF r(4) c, of d] by (simp add: tells_def announced_def)
  with r show ?thesis by (intro exI [of _ new] exI [of _ junk]) simp
qed

text \<open>
  A boot loader that is ready for every command and answers each as the driver expects, and an
  image of 24 bytes whose header asks for the start address 69632.
\<close>

fun last_command :: "history \<Rightarrow> u8" where
  "last_command [] = 0"
| "last_command (Multi_write addr d n # t) = (if addr = 0x10034 then hd d else last_command t)"
| "last_command (e # t) = last_command t"

definition obliging_host :: boot_host where
  "obliging_host = \<lparr>
     bh_host = calm_host\<lparr>h_read_multiple := (\<lambda>t. case t of
         Multi_read addr n # t' \<Rightarrow>
           (0, if addr = 0x1003c
               then [if last_command t' = EOF_REACHED then FW_LOADING_SUCCESSFUL
                     else if last_command t' = PING_VALID then PONG_AVAIL else PING_AVAIL, 0xAB, 0, 0]
               else [0, 0, 0, 0])
       | _ \<Rightarrow> (0, []))\<rparr>,
     bh_expired = (\<lambda>_. False), bh_firmware = (\<lambda>_. None), bh_usb_reg_read = (\<lambda>_. (0, 0)),
     bh_usb_reg_write = (\<lambda>_. 0), bh_ta_read = (\<lambda>_. (0, []))\<rparr>"

definition small_image :: bytes where
  "small_image = replicate 16 0 @ [0x00, 0x10, 0x01, 0x00] @ [1, 2, 3, 4]"

definition start_loader :: boot_loader where
  "start_loader = \<lparr>bl_common = idle_adapter, coex_mode = 1, fw_load_mode = FULL_FLASH_SBL, flashing_mode = 0, skip_fw_load = False,
     flash_capacity = 1048576, lmac_ver = \<lparr>lmac_major = 0, lmac_minor = 0, lmac_release = 0, lmac_patch = 0, fw_ver0 = 0, fw_ver1 = 0\<rparr>\<rparr>"

lemma small_image_facts: "rd32 small_image 16 = Some 0x11000" "length small_image = 24"
  by code_simp+

lemma small_image_upgrades:
  "\<exists>a'. auto_fw_upgrade obliging_host small_image (word_of_nat (length small_image)) start_loader = Some (ONEBOX_STATUS_SUCCESS, a')"
  unfolding auto_fw_upgrade_def Let_def small_image_facts
  by (simp add: start_loader_def obliging_host_def idle_adapter_def calm_host_def Let_def
      start_address_ok_def ping_pong_write_def load_data_master_write_def temp_copy_def mem_slice_def small_image_def sdio_load_data_master_write_def
      or_fail_def onebox_sdio_master_access_msword_def write_register_def write_multiple_def bl_cmd_def bl_write_cmd_def
      bl_response_def poll_register.simps timer_expired_def master_reg_read_def sdio_master_reg_read_def read_multiple_def
      reg_value_def reg_word_def rd32_def rd16_def rd8_def master_reg_write_def sdio_master_reg_write_def bl_cmd_start_timer_def bl_cmd_stop_timer_def
      le32_def reg_data_def regin_word_def)

theorem upgrade_hands_over_image_witness:
  "\<exists>a' new junk. auto_fw_upgrade obliging_host small_image (word_of_nat (length small_image)) start_loader =
       Some (ONEBOX_STATUS_SUCCESS, a') \<and>
     told \<lparr>ms_word = 0, memory = \<lambda>_. 0\<rparr> (trace a') = new @ [(EOF_REACHED, [])] \<and>
     concat (map snd new) = small_image @ junk \<and> length junk < 4096"
proof -
  obtain a' where u: "auto_fw_upgrade obliging_host small_image (word_of_nat (length small_image)) start_loader =
      Some (ONEBOX_STATUS_SUCCESS, a')" using small_image_upgrades by blast
  have "host_intf_type (bl_common start_loader) = HOST_INTF_SDIO" "length small_image < 2 ^ 32"
    "0 < TransmitBlockSize (bl_common start_loader)" "unat (TransmitBlockSize (bl_common start_loader)) dvd 4096"
    "trace (bl_common start_loader) = []"
    by (simp_all add: start_loader_def idle_adapter_def small_image_facts)
  with upgrade_hands_over_image [OF u, of "\<lparr>ms_word = 0, memory = \<lambda>_. 0\<rparr>"] u show ?thesis by auto
qed

text \<open>The sum of the start address and the size is taken in 32 bits.\<close>

lemma start_address_wraps: "start_address_ok False 0xFFFFF000 0x2000 0x100000"
  by (simp add: start_address_ok_def)

end
