(* ===== verification/Boot_Run.thy ===== *)
theory Boot_Run
  imports Boot_Steps
begin

text \<open>
  The whole sequence of the boot loader path: on every path the image is freed once and the
  timer is stopped, and the sequence returns once the timer fires.
\<close>

section \<open>Images and the timer\<close>

text \<open>\<open>n\<close> images are held beside \<^verbatim>\<open>flash_content\<close>.\<close>

definition holds :: "bytes option \<Rightarrow> nat \<Rightarrow> boot_loader \<Rightarrow> bool" where
  "holds img n b \<longleftrightarrow> images (trace (bl_common b)) = Some (n + (case img of None \<Rightarrow> 0 | Some _ \<Rightarrow> 1))"

definition quiet_timer :: "boot_loader \<Rightarrow> bool" where
  "quiet_timer b \<longleftrightarrow> \<not> armed (trace (bl_common b))"

definition settled :: "nat \<Rightarrow> (status \<times> boot_loader) option \<Rightarrow> bool" where
  "settled n r \<longleftrightarrow> (\<forall>s b. r = Some (s, b) \<longrightarrow> images (trace (bl_common b)) = Some n \<and> quiet_timer b)"

lemma settled_None [simp]: "settled n None"
  by (simp add: settled_def)

lemma settled_success [intro]: "holds img n b \<Longrightarrow> quiet_timer b \<Longrightarrow> settled n (sbl_success img b)"
  by (cases img) (simp_all add: settled_def sbl_success_def free_image_def holds_def quiet_timer_def bl_log_def log_def)

lemma settled_fail [intro]: "holds img n b \<Longrightarrow> settled n (sbl_fail img b)"
  by (cases img) (simp_all add: settled_def sbl_fail_def free_image_def holds_def quiet_timer_def bl_log_def log_def)

lemma holds_set: "adds cmd_event (bl_common b) a \<Longrightarrow> holds img n b \<Longrightarrow> holds img n (b\<lparr>bl_common := a\<rparr>)"
  by (simp add: holds_def adds_images)

lemma quiet_set: "adds poll_event (bl_common b) a \<Longrightarrow> quiet_timer b \<Longrightarrow> quiet_timer (b\<lparr>bl_common := a\<rparr>)"
  by (simp add: quiet_timer_def adds_armed)

lemma settled_bind:
  "(\<And>s b. r = Some (s, b) \<Longrightarrow> settled n (f s b)) \<Longrightarrow> settled n (Option.bind r (\<lambda>(s, b). f s b))"
  by (cases r) auto

lemma settled_cmd:
  assumes "holds img n b"
    and rest: "\<And>b1. holds img n b1 \<Longrightarrow> quiet_timer b1 \<Longrightarrow> settled n (rest b1)"
  shows "settled n (sbl_cmd h cmd e img rest b)"
proof (cases "bl_cmd h (coex_mode b) cmd e (bl_common b)")
  case None
  then show ?thesis by (simp add: sbl_cmd_def on_bus_def)
next
  case (Some r)
  then obtain s a where c: "bl_cmd h (coex_mode b) cmd e (bl_common b) = Some (s, a)" by (cases r) simp
  let ?b = "b\<lparr>bl_common := a\<rparr>"
  have h: "holds img n ?b" using bl_cmd_cases(1) [OF c] assms(1) by (rule holds_set)
  show ?thesis
  proof (cases "s < 0")
    case True
    with c h settled_fail show ?thesis by (simp add: sbl_cmd_def on_bus_def)
  next
    case False
    then have "quiet_timer ?b" using bl_cmd_cases(2) [OF c] by (auto simp: quiet_timer_def)
    with False c h rest show ?thesis by (simp add: sbl_cmd_def on_bus_def)
  qed
qed

lemma on_bus_Some:
  "on_bus b r = Some (x, b') \<longleftrightarrow> (\<exists>a. r = Some (x, a) \<and> b' = b\<lparr>bl_common := a\<rparr>)"
  by (auto simp: on_bus_def)

text \<open>The image that \<^verbatim>\<open>load_fw\<close> fetches is its own: it is freed before the return.\<close>

lemma load_fw_keeps:
  assumes "load_fw h name b = Some (s, b')" "holds img n b"
  shows "holds img n b'" "quiet_timer b \<Longrightarrow> quiet_timer b'"
proof -
  have "b' = b \<or> (\<exists>sz d s1 a v. load_data_master_write h 0 sz d (log (Get_firmware name) (bl_common b)) = Some (s1, a) \<and>
      b' = b\<lparr>lmac_ver := v, bl_common := log Vmem_free a\<rparr>)"
  proof (cases "bh_firmware h name")
    case None
    with assms(1) show ?thesis by (simp add: load_fw_def)
  next
    case (Some img)
    define b0 where "b0 = b\<lparr>bl_common := log (Get_firmware name) (bl_common b)\<rparr>"
    define sz where "sz = (word_of_nat (length img) :: u32)"
    define padded where "padded = (if sz mod 4 \<noteq> 0 then sz + (4 - sz mod 4) else sz)"
    obtain v s1 a where l: "load_data_master_write h 0 padded img (log (Get_firmware name) (bl_common b)) = Some (s1, a)"
      "b' = bl_log Vmem_free (b0\<lparr>bl_common := a, lmac_ver := v\<rparr>)"
      using assms(1) Some unfolding load_fw_def b0_def bl_log_def sz_def padded_def Let_def
      by (auto split: bind_splits)
    then have "b' = b\<lparr>lmac_ver := v, bl_common := log Vmem_free a\<rparr>" by (simp add: bl_log_def b0_def)
    with l(1) show ?thesis by blast
  qed
  moreover have "images (trace a) = map_option Suc (images (trace (bl_common b))) \<and> armed (trace a) = armed (trace (bl_common b))"
    if "load_data_master_write h 0 sz d (log (Get_firmware name) (bl_common b)) = Some (s1, a)" for sz d s1 a
    using bus_load [OF that] adds_images [OF as_cmd [OF as_poll]] adds_armed [OF as_poll] by (auto simp: log_def)
  ultimately show "holds img n b'" "quiet_timer b \<Longrightarrow> quiet_timer b'"
    using assms(2) by (auto simp: holds_def quiet_timer_def log_def)
qed

lemma load_ta_keeps:
  assumes "load_ta_instructions h b = Some (s, b')" "holds img n b"
  shows "holds img n b'" "quiet_timer b \<Longrightarrow> quiet_timer b'"
proof -
  obtain name s1 b1 where t: "ta_image b = Some name" and f: "load_fw h name b = Some (s1, b1)"
    using assms(1) by (auto simp: load_ta_instructions_def split: bind_splits)
  have "b' = b1 \<or> (\<exists>s2 a. sdio_ta_reset_ops (bh_host h) (bl_common b1) = (s2, a) \<and> b' = b1\<lparr>bl_common := a\<rparr>)"
    using assms(1) by (auto simp: load_ta_instructions_def t f split: if_splits prod.splits)
  with load_fw_keeps [OF f assms(2)] bus_opD [OF bus_ta_reset] as_poll as_cmd
  show "holds img n b'" "quiet_timer b \<Longrightarrow> quiet_timer b'"
    by (auto intro: holds_set quiet_set)
qed

lemma settled_jump: "holds img n b \<Longrightarrow> settled n (jump_to_zero h img b)"
  unfolding jump_to_zero_def by (rule settled_cmd) auto

lemma settled_load_image: "holds img n b \<Longrightarrow> settled n (load_image_cmd h img b)"
  unfolding load_image_cmd_def by (rule settled_cmd) auto

lemma settled_pmemdata: "holds img n b \<Longrightarrow> settled n (load_pmemdata h img b)"
  unfolding load_pmemdata_def using load_ta_keeps(1) by (intro settled_bind) (auto intro: settled_jump)

lemma settled_polling: "holds img n b \<Longrightarrow> settled n (polling_mode_cmd h img b)"
  unfolding polling_mode_cmd_def by (rule settled_cmd) (auto intro: settled_load_image settled_pmemdata)

lemma settled_verify:
  assumes "on_bus b (verify_flash_content h c sz off (bl_common b)) = Some (s, b')" "holds img n b" "quiet_timer b"
  shows "holds img n b' \<and> quiet_timer b'"
proof -
  obtain a where v: "verify_flash_content h c sz off (bl_common b) = Some (s, a)" "b' = b\<lparr>bl_common := a\<rparr>"
    using assms(1) by (auto simp: on_bus_Some)
  have "adds bus_event (bl_common b) a" using v(1) verify_chunks_adds by (auto simp: verify_flash_content_def split: if_splits)
  with v(2) assms(2,3) show ?thesis
    by (auto intro: holds_set quiet_set as_poll as_cmd)
qed

lemma settled_auto_read:
  assumes "holds (Some content) n b"
  shows "settled n (auto_read_mode_cmd h content b)"
  unfolding auto_read_mode_cmd_def
proof (rule settled_cmd [OF assms])
  fix b assume hq: "holds (Some content) n b" "quiet_timer b"
  show "settled n (if \<not> (Driver_Mode (bl_common b) = QSPI_FLASHING \<and> flashing_mode b = SWBL_FLASHING_SBL) then sbl_fail (Some content) b
            else do { (s, b1) \<leftarrow> on_bus b (verify_flash_content h (DataRcvPacket (bl_common b)) (word_of_nat EEPROM_DATA_SIZE) 0 (bl_common b));
                      if s = ONEBOX_STATUS_FAILURE then sbl_fail (Some content) b1
                      else do { (s', b2) \<leftarrow> on_bus b1 (verify_flash_content h (drop BL_HEADER content)
                                   (word_of_nat (length content) - word_of_nat BL_HEADER) (word_of_nat EEPROM_DATA_SIZE) (bl_common b1));
                                if s' = ONEBOX_STATUS_FAILURE then sbl_fail (Some content) b2
                                else sbl_success (Some content) b2 } })"
    using hq by (auto intro!: settled_fail settled_bind settled_success dest!: settled_verify)
qed

lemma upgrade_keeps:
  "upgrade_image h content b = Some (s, b') \<Longrightarrow> holds img n b \<Longrightarrow> holds img n b'"
  using auto_fw_upgrade_adds by (fastforce simp: upgrade_image_def on_bus_Some intro: holds_set)

lemma settled_upgrade:
  assumes "holds (Some content) n b"
  shows "settled n (fw_upgrade h content b)"
  unfolding fw_upgrade_def using assms
proof (rule settled_cmd)
  fix b assume "holds (Some content) n b"
  then show "settled n (do { (s, b1) \<leftarrow> upgrade_image h content b;
                 if s = ONEBOX_STATUS_SUCCESS then load_image_cmd h (Some content) b1 else auto_read_mode_cmd h content b1 })"
    by (intro settled_bind) (auto intro: settled_load_image settled_auto_read upgrade_keeps)
qed

lemma bl_write_cmd_holds:
  assumes "bl_write_cmd h coex cmd e r (bl_cmd_start_timer t (bl_common b)) = Some (x, a)" "holds img n b"
  shows "holds img n (b\<lparr>bl_common := a\<rparr>)"
proof -
  have "adds cmd_event (bl_common b) (bl_cmd_start_timer t (bl_common b))" by (simp add: bl_cmd_start_timer_def)
  with adds_trans [OF this as_cmd [OF bl_write_cmd_adds [OF assms(1)]]] assms(2) show ?thesis
    by (auto intro: holds_set)
qed

lemma holds_stop [simp]: "holds img n (bl_log Timer_stop b) = holds img n b"
  by (simp add: holds_def bl_log_def log_def)

lemma settled_check_crc:
  assumes "holds (Some content) n b"
  shows "settled n (check_crc_cmd h content b)"
proof (cases "bl_write_cmd h (coex_mode b) CHECK_CRC CMD_PASS 0 (bl_cmd_start_timer BL_CMD_TIMEOUT (bl_common b))")
  case None
  then show ?thesis by (simp add: check_crc_cmd_def on_bus_def)
next
  case (Some r)
  then obtain s x a where w: "bl_write_cmd h (coex_mode b) CHECK_CRC CMD_PASS 0 (bl_cmd_start_timer BL_CMD_TIMEOUT (bl_common b)) = Some ((s, x), a)"
    by (metis prod_cases3 prod.exhaust)
  have "holds (Some content) n (b\<lparr>bl_common := a\<rparr>)" using bl_write_cmd_holds [OF w assms] .
  then show ?thesis
    using settled_upgrade settled_polling settled_fail by (simp add: check_crc_cmd_def on_bus_def w Let_def)
qed

lemma settled_burn:
  assumes "holds None n b"
  shows "settled n (burn_bootloader h b)"
proof -
  obtain s d a where r: "read_flash_content h SOC_FLASH_ADDR (word_of_nat EEPROM_DATA_SIZE) (bl_common b) = ((s, d), a)"
    by (metis prod_cases3 prod.exhaust)
  let ?b = "b\<lparr>bl_common := a\<lparr>DataRcvPacket := d @ drop (length d) (DataRcvPacket a)\<rparr>\<rparr>"
  have "holds None n (b\<lparr>bl_common := a\<rparr>)"
    using holds_set [OF as_cmd [OF as_poll [OF bus_opD [OF bus_read_flash r]]] assms] .
  then have h: "holds None n ?b" by (simp add: holds_def)
  have rest: "settled n (case bh_firmware h ''RS9113_WC_BL.rps'' of
                          None \<Rightarrow> sbl_fail None b2
                        | Some content \<Rightarrow>
                            do { (s', b3) \<leftarrow> upgrade_image h content (bl_log (Get_firmware ''RS9113_WC_BL.rps'') b2);
                                 if s' = ONEBOX_STATUS_SUCCESS then auto_read_mode_cmd h content b3
                                 else sbl_fail (Some content) b3 })" if "holds None n b2" for b2
  proof (cases "bh_firmware h ''RS9113_WC_BL.rps''")
    case None
    with that show ?thesis by auto
  next
    case (Some content)
    have "holds (Some content) n (bl_log (Get_firmware ''RS9113_WC_BL.rps'') b2)"
      using that by (simp add: holds_def bl_log_def log_def)
    then show ?thesis
      unfolding Some option.case by (intro settled_bind) (auto intro: settled_auto_read upgrade_keeps)
  qed
  show ?thesis
    unfolding burn_bootloader_def r using h rest by (auto simp: Let_def intro!: settled_cmd)
qed

lemma rps_image_header_found:
  assumes "hosted_image b = Some (Image name zigbee)" "bh_firmware h name = Some content"
    and b1: "b1 = bl_log (Get_firmware name)
               (if zigbee then b\<lparr>bl_common := upd_assets (\<lambda>d. d\<lparr>oper_mode := 16\<rparr>) (bl_common b)\<rparr> else b)"
  shows "rps_image_header h b =
    do { ver \<leftarrow> (if take 6 name = ''RS9113'' then image_fw_ver content (lmac_ver b1) else Some (lmac_ver b1));
         (s, b2) \<leftarrow> on_bus (b1\<lparr>lmac_ver := ver\<rparr>) (write_bl_header h (coex_mode b1) content (bl_common b1));
         if s = ONEBOX_STATUS_SUCCESS then check_crc_cmd h content b2 else sbl_fail (Some content) b2 }"
  unfolding rps_image_header_def assms(1) bind.simps image_choice.case Let_def assms(2) option.case b1 ..

lemma settled_rps_header:
  assumes "holds None n b"
  shows "settled n (rps_image_header h b)"
proof (cases "hosted_image b")
  case None
  then show ?thesis by (simp add: rps_image_header_def)
next
  case (Some choice)
  show ?thesis
  proof (cases choice)
    case No_image
    with Some assms show ?thesis by (auto simp: rps_image_header_def)
  next
    case (Image name zigbee)
    define b0 where "b0 = (if zigbee then b\<lparr>bl_common := upd_assets (\<lambda>d. d\<lparr>oper_mode := 16\<rparr>) (bl_common b)\<rparr> else b)"
    have b0: "holds None n b0" using assms by (simp add: b0_def holds_def)
    show ?thesis
    proof (cases "bh_firmware h name")
      case None
      with Some Image b0 show ?thesis by (auto simp: rps_image_header_def b0_def Let_def)
    next
      case (Some content)
      define b1 where "b1 = bl_log (Get_firmware name) b0"
      define v where "v = (if take 6 name = ''RS9113'' then image_fw_ver content (lmac_ver b1) else Some (lmac_ver b1))"
      have b1: "holds (Some content) n b1" using b0 by (simp add: b1_def holds_def bl_log_def log_def)
      have "settled n (do { (s, b2) \<leftarrow> on_bus (b1\<lparr>lmac_ver := ver\<rparr>) (write_bl_header h (coex_mode b1) content (bl_common b1));
                        if s = ONEBOX_STATUS_SUCCESS then check_crc_cmd h content b2 else sbl_fail (Some content) b2 })" for ver
      proof (intro settled_bind)
        fix s b2 assume "on_bus (b1\<lparr>lmac_ver := ver\<rparr>) (write_bl_header h (coex_mode b1) content (bl_common b1)) = Some (s, b2)"
        then obtain a where w: "write_bl_header h (coex_mode b1) content (bl_common b1) = Some (s, a)"
          and b2: "b2 = b1\<lparr>lmac_ver := ver, bl_common := a\<rparr>" by (auto simp: on_bus_Some)
        have "holds (Some content) n b2"
          using holds_set [OF as_cmd [OF as_poll [OF bus_header [OF w]]] b1] by (simp add: b2 holds_def)
        then show "settled n (if s = ONEBOX_STATUS_SUCCESS then check_crc_cmd h content b2 else sbl_fail (Some content) b2)"
          by (auto intro: settled_check_crc)
      qed
      moreover have "rps_image_header h b = do { ver \<leftarrow> v; (s, b2) \<leftarrow> on_bus (b1\<lparr>lmac_ver := ver\<rparr>) (write_bl_header h (coex_mode b1) content (bl_common b1));
                        if s = ONEBOX_STATUS_SUCCESS then check_crc_cmd h content b2 else sbl_fail (Some content) b2 }"
        unfolding v_def using \<open>hosted_image b = Some choice\<close> unfolding Image
        by (rule rps_image_header_found [OF _ Some]) (simp add: b1_def b0_def)
      ultimately show ?thesis by (cases v) simp_all
    qed
  qed
qed

lemma settled_sbl:
  assumes "holds None n b"
  shows "settled n (load_fw_thru_sbl h b)"
  unfolding load_fw_thru_sbl_def using assms
proof (rule settled_cmd)
  fix b assume b: "holds None n b"
  obtain cap a where c: "read_flash_capacity h (bl_common b) = (cap, a)" by fastforce
  have "holds None n (b\<lparr>bl_common := a\<rparr>)" using holds_set [OF as_cmd [OF as_poll [OF bus_opD [OF bus_capacity c]]] b] .
  then have "holds None n (b\<lparr>bl_common := a, flash_capacity := cap\<rparr>)" by (simp add: holds_def)
  then show "settled n (case read_flash_capacity h (bl_common b) of
              (cap, a) \<Rightarrow>
                (let b1 = b\<lparr>bl_common := a, flash_capacity := cap\<rparr> in
                 if cap \<le> 0 then sbl_fail None b1
                 else if Driver_Mode a = QSPI_FLASHING \<and> flashing_mode b1 = SWBL_FLASHING_SBL then burn_bootloader h b1
                 else if fw_load_mode b1 \<in> {FULL_FLASH_SBL, FLASH_RAM_SBL} then rps_image_header h b1
                 else if fw_load_mode b1 = FULL_RAM_SBL then polling_mode_cmd h None b1
                 else sbl_fail None b1))"
    unfolding c split_conv Let_def by (auto intro: settled_burn settled_rps_header settled_polling)
qed

section \<open>The sequence returns\<close>

text \<open>
  The coexistence mode names an image, the receive buffer holds the calibration data and the size of a block
  is 1 to 256; the images of the firmware directory hold their header and version, and those that are
  loaded into memory by \<^verbatim>\<open>load_fw\<close>, which rounds their size up, are a multiple of four bytes long.
\<close>

definition fit :: "boot_loader \<Rightarrow> bool" where
  "fit b \<longleftrightarrow> coex_mode b < 5 \<and> EEPROM_DATA_SIZE \<le> length (DataRcvPacket (bl_common b)) \<and> block_size_ok (bl_common b)"

definition images_fit :: "boot_host \<Rightarrow> bool" where
  "images_fit h \<longleftrightarrow>
     (\<forall>name img. bh_firmware h name = Some img \<longrightarrow>
        LMAC_VER_OFFSET + 5 \<le> length img \<and> length img < 2 ^ 32 \<and> (take 8 name = ''pmemdata'' \<longrightarrow> 4 dvd length img))"

lemma fit_set: "adds P (bl_common b) a \<Longrightarrow> fit b \<Longrightarrow> fit (b\<lparr>bl_common := a\<rparr>)"
  by (simp add: fit_def adds_fields block_size_kept)

lemma fit_log [simp]: "fit (bl_log e b) = fit b"
  by (simp add: fit_def bl_log_def log_def block_size_ok_def)

lemma returns_exit [simp]:
  "sbl_success img b \<noteq> None" "sbl_fail img b \<noteq> None"
  "\<exists>s b'. sbl_success img b = Some (s, b')" "\<exists>s b'. sbl_fail img b = Some (s, b')"
  by (simp_all add: sbl_success_def sbl_fail_def)

lemma returns_bind:
  "r \<noteq> None \<Longrightarrow> (\<And>s b. r = Some (s, b) \<Longrightarrow> f s b \<noteq> None) \<Longrightarrow> Option.bind r (\<lambda>(s, b). f s b) \<noteq> None"
  by (cases r) auto

lemma returns_cmd:
  assumes "timer_fires m h" "fit b" and rest: "\<And>b1. fit b1 \<Longrightarrow> rest b1 \<noteq> None"
  shows "sbl_cmd h cmd e img rest b \<noteq> None"
  unfolding sbl_cmd_def
proof (rule returns_bind)
  show "on_bus b (bl_cmd h (coex_mode b) cmd e (bl_common b)) \<noteq> None"
    using bl_cmd_returns [OF assms(1)] by (simp add: on_bus_def)
  fix s b1 assume "on_bus b (bl_cmd h (coex_mode b) cmd e (bl_common b)) = Some (s, b1)"
  then have "fit b1" using assms(2) by (auto simp: on_bus_Some intro: fit_set [OF bl_cmd_cases(1)])
  with rest show "(if s < 0 then sbl_fail img b1 else rest b1) \<noteq> None" by (simp del: not_None_eq)
qed

lemma returns_jump: "timer_fires m h \<Longrightarrow> fit b \<Longrightarrow> jump_to_zero h img b \<noteq> None"
  unfolding jump_to_zero_def by (rule returns_cmd) simp_all

lemma returns_load_image: "timer_fires m h \<Longrightarrow> fit b \<Longrightarrow> load_image_cmd h img b \<noteq> None"
  unfolding load_image_cmd_def by (rule returns_cmd) simp_all

lemma whole_words: "length img < 2 ^ 32 \<Longrightarrow> 4 dvd length img \<Longrightarrow> (word_of_nat (length img) :: u32) mod 4 = 0"
  by (simp add: word_unat_eq_iff unat_mod unat_of_nat)

lemma load_fw_result:
  assumes "images_fit h" "fit b" "take 8 name = ''pmemdata''"
  shows "\<exists>s b'. load_fw h name b = Some (s, b') \<and> fit b'"
proof (cases "bh_firmware h name")
  case None
  with assms show ?thesis by (simp add: load_fw_def)
next
  case (Some img)
  then have len: "LMAC_VER_OFFSET + 5 \<le> length img" "length img < 2 ^ 32" "4 dvd length img"
    using assms(1,3) by (auto simp: images_fit_def)
  then have "image_lmac_ver img v \<noteq> None" for v by (simp add: image_lmac_ver_def rd8_in)
  then obtain ver where ver: "(if take 8 name = ''pmemdata'' then image_lmac_ver img (lmac_ver (bl_log (Get_firmware name) b))
      else Some (lmac_ver (bl_log (Get_firmware name) b))) = Some ver" by fastforce
  let ?sz = "word_of_nat (length img) :: u32"
  have sz: "?sz mod 4 = 0" "unat ?sz \<le> length img" using whole_words [OF len(2,3)] len(2) by (simp_all add: unat_of_nat)
  have "block_size_ok (bl_common (bl_log (Get_firmware name) b))" using assms(2) fit_log [of "Get_firmware name" b] by (simp add: fit_def)
  then obtain s a where l: "load_data_master_write h 0 ?sz img (bl_common (bl_log (Get_firmware name) b)) = Some (s, a)"
    using load_returns [OF _ sz(2)] by blast
  have "fit (bl_log (Get_firmware name) b\<lparr>bl_common := a\<rparr>)"
    using fit_set [OF bus_load [OF l]] assms(2) by simp
  then have "fit (bl_log Vmem_free (bl_log (Get_firmware name) b\<lparr>bl_common := a, lmac_ver := ver\<rparr>))"
    by (simp add: fit_def bl_log_def log_def block_size_ok_def)
  with Some ver l sz(1) show ?thesis by (simp add: load_fw_def Let_def)
qed

text \<open>An image of another length is never loaded: its end is read behind, or the load fails before.\<close>

lemma loaded_image_is_whole_words:
  assumes "load_fw h name b = Some (ONEBOX_STATUS_SUCCESS, b')" "bh_firmware h name = Some img" "length img < 2 ^ 32 - 4"
  shows "4 dvd length img"
proof -
  define sz where "sz = (word_of_nat (length img) :: u32)"
  define padded where "padded = (if sz mod 4 \<noteq> 0 then sz + (4 - sz mod 4) else sz)"
  have sz: "unat sz = length img" using assms(3) by (simp add: sz_def unat_of_nat)
  obtain a0 a where l: "load_data_master_write h 0 padded img a0 = Some (ONEBOX_STATUS_SUCCESS, a)"
    using assms(1,2) unfolding load_fw_def sz_def [symmetric] padded_def [symmetric] Let_def
    by (auto simp: padded_def sz_def split: bind_splits if_splits)
  then have "unat padded \<le> length img"
    using sdio_load_within usb_load_within by (auto simp: load_data_master_write_def split: host_intf.splits)
  moreover have "unat padded = length img + (4 - length img mod 4)" if "length img mod 4 \<noteq> 0"
  proof -
    have m: "unat (sz mod 4) = length img mod 4" using sz by (simp add: unat_mod)
    then have "unat (4 - sz mod 4) = 4 - length img mod 4" by (simp add: unat_sub word_le_nat_alt less_imp_le)
    then show ?thesis using m that assms(3) sz by (auto simp: padded_def unat_plus_if' word_unat_eq_iff)
  qed
  ultimately show ?thesis by (cases "length img mod 4 = 0") (auto simp: dvd_eq_mod_eq_0)
qed

lemma ta_image_some: "fit b \<Longrightarrow> ta_image b \<noteq> None"
  by (simp add: fit_def ta_image_def metadata_def Let_def word_less_nat_alt)

lemma ta_image_name: "ta_image b = Some name \<Longrightarrow> take 8 name = ''pmemdata''"
proof -
  assume t: "ta_image b = Some name"
  have "unat (coex_mode b) < 5 \<Longrightarrow> unat (coex_mode b) \<in> {0, 1, 2, 3, 4}" by auto
  then show ?thesis using t by (auto simp: ta_image_def metadata_def Let_def split: if_splits)
qed

lemma load_ta_result:
  assumes "images_fit h" "fit b"
  shows "\<exists>s b'. load_ta_instructions h b = Some (s, b') \<and> fit b'"
proof -
  obtain name where t: "ta_image b = Some name" using ta_image_some [OF assms(2)] by blast
  obtain s b1 where f: "load_fw h name b = Some (s, b1)" "fit b1" using load_fw_result [OF assms ta_image_name [OF t]] by blast
  obtain s2 a where r: "sdio_ta_reset_ops (bh_host h) (bl_common b1) = (s2, a)" by fastforce
  have "fit (b1\<lparr>bl_common := a\<rparr>)" using fit_set [OF bus_opD [OF bus_ta_reset r] f(2)] .
  with t f r show ?thesis by (simp add: load_ta_instructions_def)
qed

lemma returns_pmemdata:
  assumes "timer_fires m h" "images_fit h" "fit b"
  shows "load_pmemdata h img b \<noteq> None"
proof -
  obtain s b' where "load_ta_instructions h b = Some (s, b')" "fit b'" using load_ta_result [OF assms(2,3)] by blast
  then show ?thesis using returns_jump [OF assms(1)] by (simp add: load_pmemdata_def)
qed

lemma returns_polling: "timer_fires m h \<Longrightarrow> images_fit h \<Longrightarrow> fit b \<Longrightarrow> polling_mode_cmd h img b \<noteq> None"
  unfolding polling_mode_cmd_def by (rule returns_cmd) (simp_all add: returns_load_image returns_pmemdata del: not_None_eq)

lemma returns_verify:
  assumes "fit b" "unat sz \<le> length c"
  obtains s b' where "on_bus b (verify_flash_content h c sz off (bl_common b)) = Some (s, b')" "fit b'"
proof -
  obtain s a where v: "verify_flash_content h c sz off (bl_common b) = Some (s, a)"
    using verify_flash_returns [OF assms(2)] by (metis not_None_eq prod.exhaust)
  with that fit_set [OF verify_flash_adds [OF v] assms(1)] show ?thesis by (auto simp: on_bus_Some)
qed

lemma returns_auto_read:
  assumes "timer_fires m h" "fit b" "LMAC_VER_OFFSET \<le> length content" "length content < 2 ^ 32"
  shows "auto_read_mode_cmd h content b \<noteq> None"
  unfolding auto_read_mode_cmd_def using assms(1,2)
proof (rule returns_cmd)
  fix b assume b: "fit b"
  have "unat (word_of_nat EEPROM_DATA_SIZE :: u32) \<le> length (DataRcvPacket (bl_common b))" using b by (simp add: fit_def)
  then obtain s b1 where 1: "on_bus b (verify_flash_content h (DataRcvPacket (bl_common b)) (word_of_nat EEPROM_DATA_SIZE) 0 (bl_common b)) = Some (s, b1)" "fit b1"
    using returns_verify [OF b] by blast
  have "(32 :: u32) \<le> word_of_nat (length content)"
    using assms(3,4) by (simp add: word_le_nat_alt unat_of_nat)
  then have "unat (word_of_nat (length content) - word_of_nat BL_HEADER :: u32) \<le> length (drop BL_HEADER content)"
    using assms(3,4) by (simp add: unat_sub unat_of_nat)
  then obtain s' b2 where 2: "on_bus b1 (verify_flash_content h (drop BL_HEADER content)
        (word_of_nat (length content) - word_of_nat BL_HEADER) (word_of_nat EEPROM_DATA_SIZE) (bl_common b1)) = Some (s', b2)"
    using returns_verify [OF 1(2)] by blast
  show "(if \<not> (Driver_Mode (bl_common b) = QSPI_FLASHING \<and> flashing_mode b = SWBL_FLASHING_SBL) then sbl_fail (Some content) b
            else do { (s, b1) \<leftarrow> on_bus b (verify_flash_content h (DataRcvPacket (bl_common b)) (word_of_nat EEPROM_DATA_SIZE) 0 (bl_common b));
                      if s = ONEBOX_STATUS_FAILURE then sbl_fail (Some content) b1
                      else do { (s', b2) \<leftarrow> on_bus b1 (verify_flash_content h (drop BL_HEADER content)
                                   (word_of_nat (length content) - word_of_nat BL_HEADER) (word_of_nat EEPROM_DATA_SIZE) (bl_common b1));
                                if s' = ONEBOX_STATUS_FAILURE then sbl_fail (Some content) b2
                                else sbl_success (Some content) b2 } }) \<noteq> None"
    unfolding 1 bind.simps split_conv 2 by (simp add: 2)
qed

lemma unat_of_nat_len: "length c < 2 ^ 32 \<Longrightarrow> unat (word_of_nat (length c) :: u32) \<le> length c"
  by (simp add: unat_of_nat)

lemma upgrade_result:
  assumes "timer_fires m h" "fit b" "20 \<le> length content" "length content < 2 ^ 32"
  shows "\<exists>s b'. upgrade_image h content b = Some (s, b') \<and> fit b'"
proof -
  obtain s a where u: "auto_fw_upgrade h content (word_of_nat (length content)) b = Some (s, a)"
    using auto_fw_upgrade_returns [OF assms(1,3)] assms(2,4) by (metis fit_def not_None_eq prod.exhaust unat_of_nat_len)
  with fit_set [OF auto_fw_upgrade_adds [OF u] assms(2)] show ?thesis by (simp add: upgrade_image_def on_bus_Some)
qed

lemma returns_upgrade:
  assumes "timer_fires m h" "fit b" "LMAC_VER_OFFSET \<le> length content" "length content < 2 ^ 32"
  shows "fw_upgrade h content b \<noteq> None"
  unfolding fw_upgrade_def using assms(1,2)
proof (rule returns_cmd)
  fix b assume "fit b"
  then obtain s b1 where "upgrade_image h content b = Some (s, b1)" "fit b1"
    using upgrade_result [OF assms(1), of b content] assms(3,4) by auto
  then show "do { (s, b1) \<leftarrow> upgrade_image h content b;
       if s = ONEBOX_STATUS_SUCCESS then load_image_cmd h (Some content) b1 else auto_read_mode_cmd h content b1 } \<noteq> None"
    using returns_load_image [OF assms(1)] returns_auto_read [OF assms(1) _ assms(3,4)] by simp
qed

lemma returns_check_crc:
  assumes "timer_fires m h" "images_fit h" "fit b" "LMAC_VER_OFFSET \<le> length content" "length content < 2 ^ 32"
  shows "check_crc_cmd h content b \<noteq> None"
proof -
  obtain s x a where w: "bl_write_cmd h (coex_mode b) CHECK_CRC CMD_PASS 0 (bl_cmd_start_timer BL_CMD_TIMEOUT (bl_common b)) = Some ((s, x), a)"
    using bl_write_cmd_returns [OF assms(1)] by (metis not_None_eq prod.exhaust)
  have "adds cmd_event (bl_common b) (bl_cmd_start_timer BL_CMD_TIMEOUT (bl_common b))" by (simp add: bl_cmd_start_timer_def)
  then have "fit (b\<lparr>bl_common := a\<rparr>)"
    using fit_set [OF adds_trans [OF _ as_cmd [OF bl_write_cmd_adds [OF w]]] assms(3)] by blast
  then show ?thesis
    using returns_upgrade [OF assms(1) _ assms(4,5)] returns_polling [OF assms(1,2)]
    by (simp add: check_crc_cmd_def on_bus_def w Let_def del: not_None_eq)
qed

lemma returns_burn:
  assumes "timer_fires m h" "images_fit h" "fit b"
  shows "burn_bootloader h b \<noteq> None"
proof -
  obtain s d a where r: "read_flash_content h SOC_FLASH_ADDR (word_of_nat EEPROM_DATA_SIZE) (bl_common b) = ((s, d), a)"
    by (metis prod_cases3 prod.exhaust)
  let ?b = "b\<lparr>bl_common := a\<lparr>DataRcvPacket := d @ drop (length d) (DataRcvPacket a)\<rparr>\<rparr>"
  have "fit (b\<lparr>bl_common := a\<rparr>)" using fit_set [OF bus_opD [OF bus_read_flash r] assms(3)] .
  then have fit: "fit ?b" by (auto simp: fit_def block_size_ok_def)
  have rest: "(case bh_firmware h ''RS9113_WC_BL.rps'' of
                          None \<Rightarrow> sbl_fail None b2
                        | Some content \<Rightarrow>
                            do { (s', b3) \<leftarrow> upgrade_image h content (bl_log (Get_firmware ''RS9113_WC_BL.rps'') b2);
                                 if s' = ONEBOX_STATUS_SUCCESS then auto_read_mode_cmd h content b3
                                 else sbl_fail (Some content) b3 }) \<noteq> None" if "fit b2" for b2
  proof (cases "bh_firmware h ''RS9113_WC_BL.rps''")
    case (Some content)
    then have len: "LMAC_VER_OFFSET \<le> length content" "length content < 2 ^ 32"
      using assms(2) by (auto simp: images_fit_def dest!: spec [of _ "''RS9113_WC_BL.rps''"])
    then obtain s' b3 where "upgrade_image h content (bl_log (Get_firmware ''RS9113_WC_BL.rps'') b2) = Some (s', b3)" "fit b3"
      using upgrade_result [OF assms(1), of "bl_log (Get_firmware ''RS9113_WC_BL.rps'') b2" content] \<open>fit b2\<close> len by auto
    then show ?thesis using Some returns_auto_read [OF assms(1) _ len] by simp
  qed simp
  show ?thesis
    unfolding burn_bootloader_def r prod.case Let_def
    using returns_cmd [OF assms(1) fit rest] by simp
qed

lemma bl_header_some: "24 \<le> length content \<Longrightarrow> bl_header coex content \<noteq> None"
  using rd32_in [of 20 content] rd32_in [of 16 content] rd32_in [of 8 content] by (auto simp: bl_header_def)

lemma hosted_image_some: "fit b \<Longrightarrow> hosted_image b \<noteq> None"
  by (simp add: fit_def hosted_image_def name_at_def flash_names_def per_flash_names_def Let_def word_less_nat_alt)

lemma returns_rps_header:
  assumes "timer_fires m h" "images_fit h" "fit b"
  shows "rps_image_header h b \<noteq> None"
proof -
  obtain choice where choice: "hosted_image b = Some choice" using hosted_image_some [OF assms(3)] by blast
  show ?thesis
  proof (cases choice)
    case No_image
    with choice show ?thesis by (simp add: rps_image_header_def)
  next
    case (Image name zigbee)
    define b0 where "b0 = (if zigbee then b\<lparr>bl_common := upd_assets (\<lambda>d. d\<lparr>oper_mode := 16\<rparr>) (bl_common b)\<rparr> else b)"
    have b0: "fit b0" using assms(3) by (simp add: b0_def fit_def block_size_ok_def)
    show ?thesis
    proof (cases "bh_firmware h name")
      case None
      with choice Image show ?thesis by (simp add: rps_image_header_def Let_def)
    next
      case (Some content)
      then have len: "LMAC_VER_OFFSET + 5 \<le> length content" "length content < 2 ^ 32"
        using assms(2) by (auto simp: images_fit_def dest!: spec [of _ name])
      define b1 where "b1 = bl_log (Get_firmware name) b0"
      have b1: "fit b1" using b0 by (simp add: b1_def)
      have "image_fw_ver content (lmac_ver b1) \<noteq> None" using len by (simp add: image_fw_ver_def rd8_in)
      then obtain ver where v: "(if take 6 name = ''RS9113'' then image_fw_ver content (lmac_ver b1) else Some (lmac_ver b1)) = Some ver"
        by fastforce
      have "24 \<le> length content" using len by simp
      then obtain s a where w: "write_bl_header h (coex_mode b1) content (bl_common b1) = Some (s, a)"
        using bl_header_some [of content "coex_mode b1"] by (auto simp: write_bl_header_def) (metis prod.exhaust)
      have "fit (b1\<lparr>bl_common := a\<rparr>)" using fit_set [OF bus_header [OF w] b1] .
      then have b2: "fit (b1\<lparr>lmac_ver := ver, bl_common := a\<rparr>)" by (simp add: fit_def)
      have "rps_image_header h b = (if s = ONEBOX_STATUS_SUCCESS then check_crc_cmd h content (b1\<lparr>lmac_ver := ver, bl_common := a\<rparr>)
          else sbl_fail (Some content) (b1\<lparr>lmac_ver := ver, bl_common := a\<rparr>))"
        using rps_image_header_found [OF choice [unfolded Image] Some b1_def [unfolded b0_def]] by (simp add: v w on_bus_def)
      then show ?thesis using returns_check_crc [OF assms(1,2) b2] len by simp
    qed
  qed
qed

lemma sbl_returns:
  assumes "timer_fires m h" "images_fit h" "fit b"
  shows "load_fw_thru_sbl h b \<noteq> None"
  unfolding load_fw_thru_sbl_def using assms(1,3)
proof (rule returns_cmd)
  fix b assume b: "fit b"
  obtain cap a where c: "read_flash_capacity h (bl_common b) = (cap, a)" by fastforce
  have "fit (b\<lparr>bl_common := a\<rparr>)" using fit_set [OF bus_opD [OF bus_capacity c] b] .
  then have "fit (b\<lparr>bl_common := a, flash_capacity := cap\<rparr>)" by (simp add: fit_def)
  then show "(case read_flash_capacity h (bl_common b) of
              (cap, a) \<Rightarrow>
                (let b1 = b\<lparr>bl_common := a, flash_capacity := cap\<rparr> in
                 if cap \<le> 0 then sbl_fail None b1
                 else if Driver_Mode a = QSPI_FLASHING \<and> flashing_mode b1 = SWBL_FLASHING_SBL then burn_bootloader h b1
                 else if fw_load_mode b1 \<in> {FULL_FLASH_SBL, FLASH_RAM_SBL} then rps_image_header h b1
                 else if fw_load_mode b1 = FULL_RAM_SBL then polling_mode_cmd h None b1
                 else sbl_fail None b1)) \<noteq> None"
    unfolding c split_conv Let_def
    using returns_burn [OF assms(1,2)] returns_rps_header [OF assms(1,2)] returns_polling [OF assms(1,2)]
    by (simp del: not_None_eq)
qed

section \<open>What the sequence guarantees\<close>

text \<open>
  Loading the firmware through the boot loader returns: once the command timer fires when
  it was asked \<open>n\<close> times since it was started, whatever the registers of the device hold, every
  polling loop of the sequence ends, and no image file, calibration data or table of names is
  read out of bounds. Files of the firmware directory hold their header and version, the
  coexistence mode is one the driver knows and the receive buffer holds the calibration data.
\<close>

theorem boot_loader_sequence_returns:
  assumes "timer_fires n h" "images_fit h" "fit b"
  shows "\<exists>s b'. load_fw_thru_sbl h b = Some (s, b')"
  using sbl_returns [OF assms] by (metis not_None_eq prod.exhaust)

definition mute_host :: boot_host where
  "mute_host = \<lparr>bh_host = calm_host, bh_expired = (\<lambda>t. 3 \<le> checks t), bh_firmware = (\<lambda>_. Some (replicate 4096 0)),
     bh_usb_reg_read = (\<lambda>_. (0, 0)), bh_usb_reg_write = (\<lambda>_. 0), bh_ta_read = (\<lambda>_. (0, []))\<rparr>"

definition fit_loader :: boot_loader where
  "fit_loader = \<lparr>bl_common = idle_adapter\<lparr>DataRcvPacket := replicate 4096 0\<rparr>, coex_mode = 1, fw_load_mode = FULL_FLASH_SBL,
     flashing_mode = 0, skip_fw_load = False, flash_capacity = 1048576,
     lmac_ver = \<lparr>lmac_major = 0, lmac_minor = 0, lmac_release = 0, lmac_patch = 0, fw_ver0 = 0, fw_ver1 = 0\<rparr>\<rparr>"

lemma mute_host_fits: "timer_fires 3 mute_host" "images_fit mute_host" "fit fit_loader"
  "images (trace (bl_common fit_loader)) = Some 0"
  by (simp_all add: timer_fires_def mute_host_def images_fit_def fit_def block_size_ok_def fit_loader_def idle_adapter_def split: if_splits)

theorem boot_loader_sequence_returns_witness:
  "\<exists>s b'. load_fw_thru_sbl mute_host fit_loader = Some (s, b')"
  using boot_loader_sequence_returns [OF mute_host_fits(1-3)] .

text \<open>
  C30. Every way out of the sequence has given back what it took: as many images are held as
  before, none was freed twice, and the command timer is not left running.
\<close>

theorem boot_loader_frees_image_and_timer:
  assumes "images (trace (bl_common b)) = Some n" "load_fw_thru_sbl h b = Some (s, b')"
  shows "images (trace (bl_common b')) = Some n \<and> \<not> armed (trace (bl_common b'))"
  using settled_sbl [of n b h] assms by (simp add: holds_def settled_def quiet_timer_def)

theorem boot_loader_frees_image_and_timer_witness:
  "\<exists>s b'. load_fw_thru_sbl mute_host fit_loader = Some (s, b') \<and> images (trace (bl_common b')) = Some 0 \<and>
     \<not> armed (trace (bl_common b'))"
proof -
  obtain s b' where "load_fw_thru_sbl mute_host fit_loader = Some (s, b')"
    using sbl_returns [OF mute_host_fits(1-3)] by (metis not_None_eq prod.exhaust)
  with boot_loader_frees_image_and_timer [OF mute_host_fits(4) this] show ?thesis by blast
qed

text \<open>
  Without an answer the checksum counts as right: only the answer \<^verbatim>\<open>CMD_FAIL\<close> leads to an
  upgrade.
\<close>

lemma unanswered_crc_proceeds:
  assumes "bl_write_cmd h (coex_mode b) CHECK_CRC CMD_PASS 0 (bl_cmd_start_timer BL_CMD_TIMEOUT (bl_common b)) =
      Some ((ONEBOX_STATUS_FAILURE, 0), a)" and "fw_load_mode b = FULL_FLASH_SBL"
  shows "check_crc_cmd h c b = polling_mode_cmd h (Some c) (bl_log Timer_stop (bl_log Timer_stop (b\<lparr>bl_common := a\<rparr>)))"
  using assms by (simp add: check_crc_cmd_def on_bus_def bl_log_def)

end
