(* ===== verification/Driver_Config.thy ===== *)
theory Driver_Config
  imports Boot_Run
begin

text \<open>
  The parameters of the kernel module and the configuration they give
  (\<^verbatim>\<open>read_reg_parameters\<close> and \<^verbatim>\<open>obm_configure_region\<close> of
  \<^verbatim>\<open>onebox_common_init.c\<close>), the removal of the protocols
  (\<^verbatim>\<open>disconnect_assets\<close>), and the start of the device with a configuration that was read:
  what the parameters promise is what the start relies on.
\<close>

section \<open>The parameters\<close>

abbreviation (input) OP_WLAN_STA_MODE :: u8 where "OP_WLAN_STA_MODE \<equiv> 1"
abbreviation (input) OP_WLAN_AP_MODE :: u8 where "OP_WLAN_AP_MODE \<equiv> 2"
abbreviation (input) OP_BT_CLASSIC_MODE :: u8 where "OP_BT_CLASSIC_MODE \<equiv> 4"
abbreviation (input) OP_BT_LE_MODE :: u8 where "OP_BT_LE_MODE \<equiv> 8"
abbreviation (input) OP_ZIGBEE_MODE :: u8 where "OP_ZIGBEE_MODE \<equiv> 0x30"
abbreviation (input) WIFI_ALONE :: u8 where "WIFI_ALONE \<equiv> 1"
abbreviation (input) WIFI_BT_CLASSIC :: u8 where "WIFI_BT_CLASSIC \<equiv> 2"
abbreviation (input) WIFI_ZIGBEE :: u8 where "WIFI_ZIGBEE \<equiv> 3"
abbreviation (input) WIFI_BT_LE :: u8 where "WIFI_BT_LE \<equiv> 4"
abbreviation (input) NO_HAND_SHAKE :: u8 where "NO_HAND_SHAKE \<equiv> 0"
abbreviation (input) RF_POWER_1_9 :: u8 where "RF_POWER_1_9 \<equiv> 0"
abbreviation (input) ULP_GPIO :: u8 where "ULP_GPIO \<equiv> 1"

record module_params =
  driver_mode_p :: u16
  coex_mode_p :: u16
  oper_mode_p :: u16
  fw_load_mode_p :: u16
  skip_fw_load_p :: u16
  lp_ps_handshake_p :: u16
  ulp_ps_handshake_p :: u16
  rf_power_p :: u16
  device_gpio_p :: u16
  sdio_clock_p :: u16
  ta_aggr_p :: u16
  wlan_rf_power_p :: u16
  bt_rf_power_p :: u16
  zigb_rf_power_p :: u16
  antenna_diversity_p :: bool
  ant_sel_p :: u16
  onboard_ant_p :: u16
  country_p :: u16
  retry_p :: u16

text \<open>The fields of the adapter and of the driver assets that only the configuration uses.\<close>

record configuration =
  cfg :: boot_loader
  asset_role :: u8
  assets_coex_mode :: u8
  country_code :: u16
  retry_count :: u16
  antenna_diversity :: bool
  sdio_clock_speed :: u16

section \<open>Reading the parameters\<close>

definition obm_configure_region :: "u16 \<Rightarrow> u16 \<times> u8" where
  "obm_configure_region country =
     (if country \<in> {124, 484, 840} then (country, 0)
      else if country \<in> {250, 276, 380, 56} then (country, 1)
      else if country = 392 then (country, 2)
      else if country = 156 then (country, 4)
      else if country = 158 then (country, 5)
      else if country \<in> {36, 356, 364, 458, 554, 643, 702, 710} then (country, 3)
      else (0, 3))"

text \<open>The mode of the driver, and the mode of the flashing where the driver flashes.\<close>

definition driver_mode_of :: "u16 \<Rightarrow> u8 \<times> u8 option" where
  "driver_mode_of m =
     (if m \<in> {1, 2, 3, 4} then (ucast m, None)
      else if m \<in> {5, 6} then (QSPI_FLASHING, Some (ucast m))
      else if m = 7 then (7, None)
      else if m \<in> {8, 10, 9} then (QSPI_FLASHING, Some (ucast m))
      else (WIFI_MODE_ON, None))"

text \<open>The parameter is a set of protocols, one bit each; \<open>None\<close> is the combination that is refused.\<close>

definition coex_mode_of :: "u8 \<Rightarrow> u8 option" where
  "coex_mode_of m =
     (let bt = m AND (OP_BT_CLASSIC_MODE OR OP_BT_LE_MODE) \<noteq> 0; zigbee = m AND OP_ZIGBEE_MODE \<noteq> 0 in
      if m \<noteq> 0 \<and> m < 4 then Some WIFI_ALONE
      else if bt \<and> \<not> zigbee
      then Some (if m AND (OP_WLAN_AP_MODE OR OP_WLAN_STA_MODE) = OP_WLAN_AP_MODE then WIFI_BT_LE else WIFI_BT_CLASSIC)
      else if zigbee \<and> \<not> bt then Some WIFI_ZIGBEE
      else None)"

definition fw_load_mode_of :: "u16 \<Rightarrow> u8" where
  "fw_load_mode_of m = (if m \<in> {1, 2, 3, 4} then ucast m else FULL_FLASH_SBL)"

definition retry_count_of :: "u16 \<Rightarrow> u16" where
  "retry_count_of r = (if r < 7 \<or> 15 < r then 15 else r)"

text \<open>A power save handshake the parameter does not name leaves the field as it is.\<close>

definition read_power_params :: "module_params \<Rightarrow> driver_assets \<Rightarrow> driver_assets" where
  "read_power_params p d = d\<lparr>
     lp_ps_handshake_mode := (if lp_ps_handshake_p p = 0 then NO_HAND_SHAKE
                              else if lp_ps_handshake_p p = 1 then GPIO_HAND_SHAKE else lp_ps_handshake_mode d),
     ulp_ps_handshake_mode := (if ulp_ps_handshake_p p = 0 then NO_HAND_SHAKE
                               else if ulp_ps_handshake_p p = 2 then PACKET_HAND_SHAKE
                               else if ulp_ps_handshake_p p = 1 then GPIO_HAND_SHAKE else ulp_ps_handshake_mode d),
     rf_power_val := (if rf_power_p p = 0 then RF_POWER_1_9 else RF_POWER_3_3),
     device_gpio_type := (if device_gpio_p p = 0 then TA_GPIO else ULP_GPIO)\<rparr>"

definition read_reg_parameters :: "module_params \<Rightarrow> configuration \<Rightarrow> status \<times> configuration" where
  "read_reg_parameters p c =
     (let (mode, flash) = driver_mode_of (driver_mode_p p);
          a = bl_common (cfg c);
          a1 = upd_assets (\<lambda>d. (read_power_params p d)\<lparr>oper_mode := ucast (coex_mode_p p)\<rparr>) (a\<lparr>Driver_Mode := mode\<rparr>);
          b1 = (cfg c)\<lparr>bl_common := a1,
                       flashing_mode := (case flash of None \<Rightarrow> flashing_mode (cfg c) | Some f \<Rightarrow> f)\<rparr> in
      case coex_mode_of (oper_mode (d_assets a1)) of
        None \<Rightarrow> (ONEBOX_STATUS_FAILURE, c\<lparr>cfg := b1\<rparr>)
      | Some coex \<Rightarrow>
          (let (country, region) = obm_configure_region (country_p p);
               a2 = upd_assets (\<lambda>d. d\<lparr>ta_aggr := ta_aggr_p p, wlan_rf_power_mode := ucast (wlan_rf_power_p p),
                      bt_rf_power_mode := ucast (bt_rf_power_p p), zigb_rf_power_mode := ucast (zigb_rf_power_p p),
                      obm_ant_sel_val := ucast (ant_sel_p p), user_onboard_ant_val := ucast (onboard_ant_p p),
                      region_code := region\<rparr>) a1 in
           (ONEBOX_STATUS_SUCCESS,
            c\<lparr>cfg := b1\<lparr>bl_common := a2, coex_mode := coex, fw_load_mode := fw_load_mode_of (fw_load_mode_p p),
                        skip_fw_load := (ucast (skip_fw_load_p p) \<noteq> (0 :: u8))\<rparr>,
              asset_role := mode, assets_coex_mode := coex, country_code := country,
              retry_count := retry_count_of (retry_p p), antenna_diversity := antenna_diversity_p p,
              sdio_clock_speed := sdio_clock_p p\<rparr>)))"

section \<open>Removing the protocols\<close>

text \<open>One protocol: its callback is a parameter, \<open>None\<close> where it is not set.\<close>

definition disconnect_asset :: "(nat \<Rightarrow> (adapter \<Rightarrow> adapter) option) \<Rightarrow> nat \<Rightarrow> adapter \<Rightarrow> adapter" where
  "disconnect_asset disconnect i a =
     (if drv_state (tech a i) = MODULE_ACTIVE then
        let a1 = (if deregister_flags (tech a i) then log (Wake_up i) (upd_tech i (\<lambda>t. t\<lparr>deregister_flags := False\<rparr>) a) else a);
            a2 = (case disconnect i of None \<Rightarrow> a1 | Some f \<Rightarrow> f a1)
        in upd_tech i (\<lambda>t. t\<lparr>drv_state := MODULE_INSERTED\<rparr>) a2
      else a)"

definition disconnect_assets :: "(nat \<Rightarrow> (adapter \<Rightarrow> adapter) option) \<Rightarrow> adapter \<Rightarrow> status \<times> adapter" where
  "disconnect_assets disconnect a =
     (let a0 = upd_assets (\<lambda>d. d\<lparr>card_state := GS_CARD_DETACH\<rparr>) a in
      (ONEBOX_STATUS_SUCCESS,
       disconnect_asset disconnect ZB_ID (disconnect_asset disconnect BT_ID (disconnect_asset disconnect WLAN_ID a0))))"

section \<open>A configuration that was read is well typed\<close>

text \<open>What the rest of the driver takes for granted of its configuration.\<close>

definition driver_mode_typed :: "boot_loader \<Rightarrow> bool" where
  "driver_mode_typed b \<longleftrightarrow> Driver_Mode (bl_common b) \<in> {1, 2, 3, 4, 5, 7} \<and>
     (Driver_Mode (bl_common b) = QSPI_FLASHING \<longrightarrow> flashing_mode b \<in> {5, 6, 8, 9, 10})"

definition power_typed :: "driver_assets \<Rightarrow> bool" where
  "power_typed d \<longleftrightarrow> lp_ps_handshake_mode d \<in> {NO_HAND_SHAKE, GPIO_HAND_SHAKE} \<and>
     ulp_ps_handshake_mode d \<in> {NO_HAND_SHAKE, GPIO_HAND_SHAKE, PACKET_HAND_SHAKE} \<and>
     rf_power_val d \<in> {RF_POWER_1_9, RF_POWER_3_3} \<and> device_gpio_type d \<in> {TA_GPIO, ULP_GPIO}"

text \<open>The regulatory domain: a country the driver knows with its region, or none with the world's.\<close>

definition regions :: "u8 \<Rightarrow> u16 set" where
  "regions r = (if r = 0 then {124, 484, 840} else if r = 1 then {56, 250, 276, 380} else if r = 2 then {392}
     else if r = 3 then {0, 36, 356, 364, 458, 554, 643, 702, 710} else if r = 4 then {156} else if r = 5 then {158} else {})"

definition well_typed :: "configuration \<Rightarrow> bool" where
  "well_typed c \<longleftrightarrow> driver_mode_typed (cfg c) \<and> power_typed (d_assets (bl_common (cfg c))) \<and>
     coex_mode (cfg c) \<in> {WIFI_ALONE, WIFI_BT_CLASSIC, WIFI_ZIGBEE, WIFI_BT_LE} \<and>
     assets_coex_mode c = coex_mode (cfg c) \<and> asset_role c = Driver_Mode (bl_common (cfg c)) \<and>
     fw_load_mode (cfg c) \<in> {FULL_FLASH_SBL, FULL_RAM_SBL, FLASH_RAM_SBL, FLASH_RAM_NO_SBL} \<and>
     7 \<le> retry_count c \<and> retry_count c \<le> 15 \<and>
     country_code c \<in> regions (region_code (d_assets (bl_common (cfg c))))"

lemma region_typed: "obm_configure_region x = (country, region) \<Longrightarrow> country \<in> regions region"
  by (auto simp: obm_configure_region_def regions_def split: if_splits)

lemma coex_mode_typed: "coex_mode_of m = Some x \<Longrightarrow> x \<in> {WIFI_ALONE, WIFI_BT_CLASSIC, WIFI_ZIGBEE, WIFI_BT_LE}"
  by (auto simp: coex_mode_of_def Let_def split: if_splits)

lemma fw_load_mode_typed: "fw_load_mode_of m \<in> {FULL_FLASH_SBL, FULL_RAM_SBL, FLASH_RAM_SBL, FLASH_RAM_NO_SBL}"
  by (auto simp: fw_load_mode_of_def)

lemma retry_typed: "7 \<le> retry_count_of r \<and> retry_count_of r \<le> 15"
  by (auto simp: retry_count_of_def not_less)

lemma driver_mode_of_typed:
  "driver_mode_of m = (mode, flash) \<Longrightarrow>
     mode \<in> {1, 2, 3, 4, 5, 7} \<and> (mode = QSPI_FLASHING \<longrightarrow> (\<exists>f. flash = Some f \<and> f \<in> {5, 6, 8, 9, 10}))"
  by (auto simp: driver_mode_of_def split: if_splits)

lemma read_power_typed: "power_typed d \<Longrightarrow> power_typed (read_power_params p d)"
  by (auto simp: power_typed_def read_power_params_def)

lemma power_typed_fields [simp]:
  "power_typed (d\<lparr>oper_mode := x\<rparr>) = power_typed d"
  "power_typed (d\<lparr>ta_aggr := x1, wlan_rf_power_mode := x2, bt_rf_power_mode := x3, zigb_rf_power_mode := x4,
     obm_ant_sel_val := x5, user_onboard_ant_val := x6, region_code := x7\<rparr>) = power_typed d"
  by (simp_all add: power_typed_def)

text \<open>What a reading that succeeds leaves.\<close>

lemma read_reg_parameters_success:
  assumes "read_reg_parameters p c = (ONEBOX_STATUS_SUCCESS, c')"
  obtains mode flash coex country region where
    "driver_mode_of (driver_mode_p p) = (mode, flash)" "coex_mode_of (ucast (coex_mode_p p)) = Some coex"
    "obm_configure_region (country_p p) = (country, region)"
    "Driver_Mode (bl_common (cfg c')) = mode" "asset_role c' = mode"
    "flashing_mode (cfg c') = (case flash of None \<Rightarrow> flashing_mode (cfg c) | Some f \<Rightarrow> f)"
    "coex_mode (cfg c') = coex" "assets_coex_mode c' = coex"
    "fw_load_mode (cfg c') = fw_load_mode_of (fw_load_mode_p p)"
    "retry_count c' = retry_count_of (retry_p p)" "country_code c' = country"
    "region_code (d_assets (bl_common (cfg c'))) = region"
    "power_typed (d_assets (bl_common (cfg c))) \<longrightarrow> power_typed (d_assets (bl_common (cfg c')))"
    "DataRcvPacket (bl_common (cfg c')) = DataRcvPacket (bl_common (cfg c))"
    "TransmitBlockSize (bl_common (cfg c')) = TransmitBlockSize (bl_common (cfg c))"
proof -
  obtain mode flash where m: "driver_mode_of (driver_mode_p p) = (mode, flash)" by fastforce
  obtain country region where r: "obm_configure_region (country_p p) = (country, region)" by fastforce
  obtain coex where x: "coex_mode_of (ucast (coex_mode_p p)) = Some coex"
    using assms m by (auto simp: read_reg_parameters_def Let_def split: option.splits)
  show ?thesis
    using assms m r x by (intro that [of mode flash coex country region])
      (auto simp: read_reg_parameters_def Let_def read_power_typed)
qed

text \<open>
  C39. Whatever the parameters of the module are, and however wide, a reading of them that
  succeeds gives a configuration of the types the driver relies on: modes it knows, the mode of
  the flashing set where it flashes, the two copies of the coexistence mode and of the driver mode
  equal, a retry count between 7 and 15, and a country that belongs to its region; the handshake
  modes stay in their types where the parameters name none.
\<close>

theorem configuration_well_typed:
  assumes "read_reg_parameters p c = (ONEBOX_STATUS_SUCCESS, c')" "power_typed (d_assets (bl_common (cfg c)))"
  shows "well_typed c'"
proof (rule read_reg_parameters_success [OF assms(1)])
  fix mode flash coex country region
  assume *: "driver_mode_of (driver_mode_p p) = (mode, flash)" "coex_mode_of (ucast (coex_mode_p p)) = Some coex"
    "obm_configure_region (country_p p) = (country, region)"
    and [simp]: "Driver_Mode (bl_common (cfg c')) = mode" "asset_role c' = mode"
    "flashing_mode (cfg c') = (case flash of None \<Rightarrow> flashing_mode (cfg c) | Some f \<Rightarrow> f)"
    "coex_mode (cfg c') = coex" "assets_coex_mode c' = coex"
    "fw_load_mode (cfg c') = fw_load_mode_of (fw_load_mode_p p)"
    "retry_count c' = retry_count_of (retry_p p)" "country_code c' = country"
    "region_code (d_assets (bl_common (cfg c'))) = region"
    and "power_typed (d_assets (bl_common (cfg c))) \<longrightarrow> power_typed (d_assets (bl_common (cfg c')))"
  with assms(2) have "power_typed (d_assets (bl_common (cfg c')))" by blast
  moreover have "driver_mode_typed (cfg c')"
    using driver_mode_of_typed [OF *(1)] by (auto simp: driver_mode_typed_def)
  ultimately show ?thesis
    using coex_mode_typed [OF *(2)] region_typed [OF *(3)] fw_load_mode_typed retry_typed
    by (simp add: well_typed_def)
qed

definition plain_params :: module_params where
  "plain_params = \<lparr>driver_mode_p = 1, coex_mode_p = 1, oper_mode_p = 1, fw_load_mode_p = 1, skip_fw_load_p = 0,
     lp_ps_handshake_p = 9, ulp_ps_handshake_p = 2, rf_power_p = 0, device_gpio_p = 0, sdio_clock_p = 0, ta_aggr_p = 0,
     wlan_rf_power_p = 0, bt_rf_power_p = 0, zigb_rf_power_p = 0, antenna_diversity_p = False, ant_sel_p = 2,
     onboard_ant_p = 1, country_p = 840, retry_p = 300\<rparr>"

definition plain_configuration :: configuration where
  "plain_configuration = \<lparr>cfg = fit_loader, asset_role = 0, assets_coex_mode = 0, country_code = 0, retry_count = 0,
     antenna_diversity = False, sdio_clock_speed = 0\<rparr>"

lemma plain_params_read: "\<exists>c'. read_reg_parameters plain_params plain_configuration = (ONEBOX_STATUS_SUCCESS, c')"
  by (simp add: read_reg_parameters_def plain_params_def driver_mode_of_def coex_mode_of_def obm_configure_region_def Let_def)

theorem configuration_well_typed_witness:
  "\<exists>c'. read_reg_parameters plain_params plain_configuration = (ONEBOX_STATUS_SUCCESS, c') \<and> well_typed c'"
proof -
  obtain c' where r: "read_reg_parameters plain_params plain_configuration = (ONEBOX_STATUS_SUCCESS, c')"
    using plain_params_read by blast
  have "power_typed (d_assets (bl_common (cfg plain_configuration)))"
    by (simp add: power_typed_def plain_configuration_def fit_loader_def idle_adapter_def idle_assets_def)
  with configuration_well_typed [OF r] r show ?thesis by blast
qed

section \<open>Starting the device with it\<close>

lemma find_boot_loader_result:
  assumes "timer_fires n h"
  obtains x a' where "find_boot_loader h a = Some (x, a')" "adds cmd_event a a'"
proof -
  let ?a = "bl_cmd_start_timer BL_CMD_TIMEOUT a"
  obtain r a1 where p: "poll_register h SWBL_REGOUT (\<lambda>v. drop_bit 8 v = 0xAB) 0 ?a = Some (r, a1)"
    using poll_register_returns [OF assms] by (metis not_None_eq prod.exhaust)
  obtain y a2 where t: "timer_expired h a1 = (y, a2)" by fastforce
  have "adds cmd_event a ?a" by (simp add: bl_cmd_start_timer_def)
  then have 1: "adds cmd_event a a1" using as_cmd [OF poll_register_adds [OF p]] by (rule adds_trans)
  then have 2: "adds cmd_event a a2" using as_cmd [OF timer_expired_adds [OF t]] by (rule adds_trans)
  show ?thesis
    using that p t adds_then_log [OF 1, of Timer_stop] 2 adds_then_log [OF 2, of Timer_stop]
    by (cases r; cases y) (auto simp: find_boot_loader_def bl_cmd_stop_timer_def Let_def)
qed

lemma device_init_returns:
  assumes "timer_fires n h" "images_fit h" "fit b0"
  shows "device_init h fw_load b0 \<noteq> None"
proof -
  define b where "b = b0\<lparr>bl_common := (bl_common b0)\<lparr>fsm_state :=
      (if Driver_Mode (bl_common b0) = QSPI_FLASHING then FSM_CARD_NOT_READY else FSM_DEVICE_READY)\<rparr>\<rparr>"
  have b: "fit b" using assms(3) by (simp add: fit_def block_size_ok_def b_def)
  obtain found a1 where f: "find_boot_loader h (bl_common b) = Some (found, a1)" "adds cmd_event (bl_common b) a1"
    using find_boot_loader_result [OF assms(1)] by blast
  have b1: "fit (b\<lparr>bl_common := a1\<rparr>)" using fit_set [OF f(2) b] .
  obtain s a2 where w: "master_reg_write h SWBL_REGOUT (NOT 0xAB OR push_bit 8 (NOT 0xAB)) 2 a1 = (s, a2)" by fastforce
  have "fit (b\<lparr>bl_common := a2\<rparr>)"
    using adds_fields [OF bus_opD [OF bus_reg_write w]] block_size_kept [OF bus_opD [OF bus_reg_write w]] b1 by (simp add: fit_def)
  moreover obtain s3 b3 where "load_ta_instructions h (b\<lparr>bl_common := a2\<rparr>) = Some (s3, b3)"
    using load_ta_result [OF assms(2) calculation] by blast
  ultimately show ?thesis
    using sbl_returns [OF assms(1,2)] f(1) w unfolding device_init_def Let_def b_def [symmetric]
    by (simp add: on_bus_def b_def [symmetric] del: not_None_eq)
qed

text \<open>
  C38. The driver starts the device or reports that it could not: with any parameters of the
  module that are accepted, once the command timer fires when it was asked \<open>n\<close> times since
  it was started, the start of the device with the configuration that was read returns, whatever
  the registers of the device hold, through the boot loader or without it; no table of names, no
  image, no calibration data and no block buffer is read or written out of bounds. This supposes of the files of
  the firmware directory that they hold their header and version, and of the images that are loaded
  into memory, whose size is rounded up to a multiple of four, that it is one already: an image of another length
  is read behind its end. The receive buffer holds the calibration data, and the size of a block is the one the probe
  sets, 256 over SDIO and 252 over USB.
\<close>

theorem configured_device_starts_or_fails:
  assumes "read_reg_parameters p c = (ONEBOX_STATUS_SUCCESS, c')"
    and "timer_fires n h" "images_fit h" "EEPROM_DATA_SIZE \<le> length (DataRcvPacket (bl_common (cfg c)))"
    and "TransmitBlockSize (bl_common (cfg c)) \<in> {252, 256}"
  shows "\<exists>s b'. device_init h fw_load (cfg c') = Some (s, b')"
proof (rule read_reg_parameters_success [OF assms(1)])
  fix mode flash coex country region
  assume "coex_mode_of (ucast (coex_mode_p p)) = Some coex" "coex_mode (cfg c') = coex"
    "DataRcvPacket (bl_common (cfg c')) = DataRcvPacket (bl_common (cfg c))"
    "TransmitBlockSize (bl_common (cfg c')) = TransmitBlockSize (bl_common (cfg c))"
  moreover from this(4) have "block_size_ok (bl_common (cfg c'))" using assms(5) by (auto simp: block_size_ok_def)
  ultimately have "fit (cfg c')" using coex_mode_typed assms(4) by (fastforce simp: fit_def)
  then show ?thesis using device_init_returns [OF assms(2,3)] by (metis not_None_eq prod.exhaust)
qed

theorem configured_device_starts_or_fails_witness:
  "\<exists>c' s b'. read_reg_parameters plain_params plain_configuration = (ONEBOX_STATUS_SUCCESS, c') \<and>
     device_init mute_host True (cfg c') = Some (s, b')"
proof -
  obtain c' where r: "read_reg_parameters plain_params plain_configuration = (ONEBOX_STATUS_SUCCESS, c')"
    using plain_params_read by blast
  have "4096 \<le> length (DataRcvPacket (bl_common (cfg plain_configuration)))"
    "TransmitBlockSize (bl_common (cfg plain_configuration)) \<in> {252, 256}"
    by (simp_all add: plain_configuration_def fit_loader_def idle_adapter_def)
  with configured_device_starts_or_fails [OF r mute_host_fits(1,2)] r show ?thesis by blast
qed

section \<open>Removal\<close>

lemma disconnect_asset_inactive:
  assumes "\<And>f a. disconnect i = Some f \<Longrightarrow> drv_state (tech (f a) j) = drv_state (tech a j)"
  shows "drv_state (tech (disconnect_asset disconnect i a) j) =
    (if j = i \<and> drv_state (tech a i) = MODULE_ACTIVE then MODULE_INSERTED else drv_state (tech a j))"
  using assms by (auto simp: disconnect_asset_def Let_def upd_tech_def split: option.splits)

text \<open>
  Callbacks that do not touch the module states leave no protocol of the three active.
\<close>

lemma disconnected_none_active:
  assumes "\<And>i j f a. disconnect i = Some f \<Longrightarrow> drv_state (tech (f a) j) = drv_state (tech a j)"
    and "j \<in> {WLAN_ID, BT_ID, ZB_ID}"
  shows "drv_state (tech (snd (disconnect_assets disconnect a)) j) \<noteq> MODULE_ACTIVE"
  using disconnect_asset_inactive [of disconnect _ j] assms
  by (auto simp: disconnect_assets_def Let_def)

section \<open>What the parameters do not say\<close>

text \<open>
  The documentation of the parameter \<^verbatim>\<open>coex_mode\<close> names 2 for WLAN with Bluetooth and 3 for
  WLAN with ZigBee; the code reads both as WLAN alone.
\<close>

lemma documented_coex_modes_are_wifi_alone: "coex_mode_of 2 = Some WIFI_ALONE" "coex_mode_of 3 = Some WIFI_ALONE"
  by (simp_all add: coex_mode_of_def)

text \<open>The parameter \<^verbatim>\<open>oper_mode\<close> has no effect.\<close>

lemma oper_mode_ignored: "read_reg_parameters (p\<lparr>oper_mode_p := m\<rparr>) c = read_reg_parameters p c"
  unfolding read_reg_parameters_def read_power_params_def
  by (cases p) (simp only: module_params.update_convs module_params.select_convs)

text \<open>Only the low byte of \<^verbatim>\<open>coex_mode\<close> counts, and a set of no protocols is refused.\<close>

lemma zero_coex_mode_refused: "coex_mode_of 0 = None" "coex_mode_of (ucast (256 :: u16)) = None"
  by (simp_all add: coex_mode_of_def)

end
