(* ===== verification/Flash_Eeprom.thy ===== *)
theory Flash_Eeprom
  imports Boot_Loader Coex_Rx Checksum
begin

text \<open>
  Burning the flash through the firmware of the device
  (\<^verbatim>\<open>onebox_flashing.c\<close> and the flashing part of \<^verbatim>\<open>coex_transmit_thread\<close> in
  \<^verbatim>\<open>onebox_common_tx.c\<close>): the frames that write and read the flash, the two ways to burn an
  image, by hand in the flashing mode and automatic for an upgrade, reading it back, and the
  calibration data. Dumps of buffers for debugging are left out. While the thread waits for a confirmation the receive path runs: what a wait
  returns, and the adapter it leaves, are answers of the surroundings. \<open>None\<close> is a loop that
  never ends or an access outside a buffer.
\<close>

section \<open>Constants and state\<close>

abbreviation (input) TX_MISC_IND :: u16 where "TX_MISC_IND \<equiv> 38"
abbreviation (input) SECTOR_ERASE :: u16 where "SECTOR_ERASE \<equiv> 0x20"
abbreviation (input) ONEBOX_WIFI_MGMT_Q :: u16 where "ONEBOX_WIFI_MGMT_Q \<equiv> 4"
abbreviation (input) FLASH_SECTOR_SIZE :: u32 where "FLASH_SECTOR_SIZE \<equiv> 4096"
abbreviation (input) FLASH_BLOCK_SIZE :: u32 where "FLASH_BLOCK_SIZE \<equiv> 32768"
abbreviation (input) FLASH_MAX_ADDRESS :: u32 where "FLASH_MAX_ADDRESS \<equiv> 4194304"
abbreviation (input) CALIB_VALUES_START_ADDR :: nat where "CALIB_VALUES_START_ADDR \<equiv> 16"
abbreviation (input) CALIB_DATA_SIZE :: nat where "CALIB_DATA_SIZE \<equiv> 4080"
abbreviation (input) CALIB_CRC_OFFSET :: nat where "CALIB_CRC_OFFSET \<equiv> 4092"
abbreviation (input) MAGIC_WORD_OFFSET_1 :: nat where "MAGIC_WORD_OFFSET_1 \<equiv> 40"
abbreviation (input) MAGIC_WORD_OFFSET_2 :: nat where "MAGIC_WORD_OFFSET_2 \<equiv> 424"
abbreviation (input) EEPROM_VERSION_OFFSET :: nat where "EEPROM_VERSION_OFFSET \<equiv> 77"
abbreviation (input) EEPROM_VER6 :: u8 where "EEPROM_VER6 \<equiv> 6"
abbreviation (input) DELAYS_LEN :: nat where "DELAYS_LEN \<equiv> 12"

record flasher =
  fl_boot :: boot_loader
  eeprom_offset :: u32                 \<comment> \<open>\<^verbatim>\<open>eeprom.offset\<close>; \<^verbatim>\<open>eeprom.length\<close> is in the adapter\<close>
  eeprom_write :: bool                 \<comment> \<open>\<^verbatim>\<open>eeprom.write\<close>\<close>
  erase_requested :: bool              \<comment> \<open>\<^verbatim>\<open>eeprom.eeprom_erase\<close>\<close>
  eeprom_erase :: bool
  eeprom_init :: bool
  qspi_flashing :: bool
  flash_offset :: u32

text \<open>
  Waiting for \<^verbatim>\<open>flash_event\<close>: whether it came before the timeout, and the adapter
  afterwards; and the adapter after what the receive path did while a chunk was written.
\<close>

record flash_host =
  fh_boot :: boot_host
  fh_wait :: "adapter \<Rightarrow> bool \<times> adapter"
  fh_meanwhile :: "adapter \<Rightarrow> adapter"

abbreviation fl_adapter :: "flasher \<Rightarrow> adapter" where
  "fl_adapter f \<equiv> bl_common (fl_boot f)"

definition set_adapter :: "adapter \<Rightarrow> flasher \<Rightarrow> flasher" where
  "set_adapter a f = f\<lparr>fl_boot := (fl_boot f)\<lparr>bl_common := a\<rparr>\<rparr>"

definition set_length :: "u32 \<Rightarrow> flasher \<Rightarrow> flasher" where
  "set_length n f = set_adapter ((fl_adapter f)\<lparr>eeprom_length := n\<rparr>) f"

definition flash_wait :: "flash_host \<Rightarrow> flasher \<Rightarrow> bool \<times> flasher" where
  "flash_wait h f = (case fh_wait h (fl_adapter f) of (came, a) \<Rightarrow> (came, set_adapter a f))"

section \<open>The frames\<close>

definition bit_if :: "bool \<Rightarrow> nat \<Rightarrow> u16" where
  "bit_if c n = (if c then push_bit n 1 else 0)"

text \<open>A frame in a buffer of its own, written to the management queue.\<close>

definition send_flash_frame :: "host \<Rightarrow> bytes \<Rightarrow> adapter \<Rightarrow> status \<times> adapter" where
  "send_flash_frame h frame a =
     (if \<not> h_alloc_skb h (trace a) then (ONEBOX_STATUS_FAILURE, a)
      else (let (s, a1) = host_intf_write_pkt h ((fresh_netbuf frame)\<lparr>tx_pkt_type := WLAN_TX_M_Q\<rparr>) a in
            (s, if host_intf_type a1 = HOST_INTF_SDIO then log (Free_pkt frame) a1 else a1)))"

text \<open>The descriptor words of a flash access: its length word is the caller's.\<close>

definition flash_desc :: "u16 \<Rightarrow> u16 \<Rightarrow> u16 \<Rightarrow> u16 \<Rightarrow> u32 \<Rightarrow> u16 \<Rightarrow> u16 \<Rightarrow> bytes" where
  "flash_desc w0 ty flags len offset w6 w7 =
     set_word 0 w0 (set_word 1 ty (set_word 2 flags (set_word 3 len (set_word 4 (ucast offset)
       (set_word 5 (ucast (drop_bit 16 offset)) (set_word 6 w6 (set_word 7 w7 (replicate FRAME_DESC_SZ 0))))))))"

text \<open>
  The frame that writes one chunk. Its length is a 16-bit number, and it is ORed into the first
  word beside the queue; the length of the chunk is shifted by four in 16 bits.
\<close>

definition auto_flash_frame :: "bool \<Rightarrow> bool \<Rightarrow> u32 \<Rightarrow> u32 \<Rightarrow> bytes \<Rightarrow> bytes" where
  "auto_flash_frame erase init offset len content =
     (let pkt_len = (word_of_nat (FRAME_DESC_SZ + length content + DELAYS_LEN) :: u16);
          flags = push_bit 8 3 OR bit_if erase 10 OR bit_if init 13 OR push_bit 11 1 in
      flash_desc (push_bit 12 ONEBOX_WIFI_MGMT_Q OR (pkt_len - 16)) (ucast EEPROM_WRITE) flags
        (ucast (push_bit 4 len)) offset 256 (SECTOR_ERASE OR push_bit 8 2)
      @ replicate DELAYS_LEN 0 @ content)"

text \<open>A failed allocation of the frame is written to.\<close>

definition auto_flash_write :: "flash_host \<Rightarrow> bytes \<Rightarrow> flasher \<Rightarrow> (status \<times> flasher) option" where
  "auto_flash_write h content f =
     (let a = fl_adapter f; bh = bh_host (fh_boot h) in
      if \<not> h_kmalloc bh (trace a) then None
      else (case send_flash_frame bh (auto_flash_frame (eeprom_erase f) (eeprom_init f) (eeprom_offset f) (eeprom_length a) content) a of
              (s, a1) \<Rightarrow> Some (s, set_adapter a1 f)))"

definition flash_read_frame :: "bool \<Rightarrow> bool \<Rightarrow> u32 \<Rightarrow> u32 \<Rightarrow> bytes" where
  "flash_read_frame qspi init offset len =
     flash_desc (push_bit 12 ONEBOX_WIFI_MGMT_Q) (ucast EEPROM_READ_TYPE) (push_bit 8 3 OR bit_if init 13)
       (ucast (if qspi then push_bit 4 len else len)) offset 0 0"

definition flash_read :: "flash_host \<Rightarrow> flasher \<Rightarrow> (status \<times> flasher) option" where
  "flash_read h f =
     (let a = fl_adapter f; bh = bh_host (fh_boot h) in
      if \<not> h_kmalloc bh (trace a) then None
      else (case send_flash_frame bh (flash_read_frame (Driver_Mode a = QSPI_FLASHING) (eeprom_init f) (eeprom_offset f) (eeprom_length a)) a of
              (s, a1) \<Rightarrow> Some (s, set_adapter a1 f)))"

definition flashing_status_frame :: "u8 \<Rightarrow> bytes" where
  "flashing_status_frame st =
     flash_desc (push_bit 12 ONEBOX_WIFI_MGMT_Q) TX_MISC_IND (ucast st) 0 0 0 0"

text \<open>The parameter, a byte, takes the status that is returned.\<close>

definition send_flashing_status :: "flash_host \<Rightarrow> u8 \<Rightarrow> flasher \<Rightarrow> (status \<times> flasher) option" where
  "send_flashing_status h st f =
     (let a = fl_adapter f; bh = bh_host (fh_boot h) in
      if \<not> h_kmalloc bh (trace a) then None
      else (case send_flash_frame bh (flashing_status_frame st) a of
              (s, a1) \<Rightarrow> Some (uint (status_u8 s), set_adapter a1 f)))"

text \<open>Bit fields, the first in the lowest bits: the width and the value of each.\<close>

fun bit_fields :: "(nat \<times> u32) list \<Rightarrow> u32" where
  "bit_fields [] = 0"
| "bit_fields ((w, v) # fs) = v OR push_bit w (bit_fields fs)"

definition spi_config_1 :: u32 where
  "spi_config_1 = bit_fields [(2, 0), (2, 0), (2, 0), (2, 0), (2, 0), (1, 1), (1, 0), (1, 0), (2, 3), (1, 0), (8, 0x03), (4, 7), (4, 0)]"

definition spi_config_2 :: "u32 \<Rightarrow> u32" where
  "spi_config_2 protection =
     bit_fields [(1, 1), (2, 0), (1, 0), (1, 1), (1, 1), (2, protection), (1, 0), (1, 1), (2, 2), (3, 7), (1, 0), (2, 3), (8, 0x08), (2, 1), (4, 10)]"

text \<open>
  The frame that burns from the memory of the device. The flash offset is written behind the
  eighth word, into the extended descriptor if there is one; the configuration of the flash
  interface follows it.
\<close>

definition manual_flash_frame :: "bool \<Rightarrow> u32 \<Rightarrow> u32 \<Rightarrow> u32 \<Rightarrow> u32 \<Rightarrow> bytes" where
  "manual_flash_frame qspi len offset flash_off protection =
     (let ext = (if qspi then 4 else 0) :: u16;
          flags = push_bit 8 3 OR ext OR push_bit 10 1 OR push_bit 11 1 OR push_bit 14 (ucast (len AND 3)) in
      flash_desc (push_bit 12 ONEBOX_WIFI_MGMT_Q OR ext * 3) (ucast EEPROM_WRITE) flags
        (ucast (drop_bit 2 len)) offset 256 (SECTOR_ERASE OR push_bit 8 2)
      @ (if qspi then le32 flash_off else []) @ le32 spi_config_1 @ le32 (spi_config_2 protection))"

definition manual_flash_write :: "flash_host \<Rightarrow> flasher \<Rightarrow> status \<times> flasher" where
  "manual_flash_write h f =
     (let a = fl_adapter f; bh = bh_host (fh_boot h) in
      if \<not> h_alloc_skb bh (trace a) then (ONEBOX_STATUS_FAILURE, f)
      else (let f1 = (if \<not> eeprom_erase f \<or> erase_requested f then f\<lparr>eeprom_erase := True, erase_requested := False\<rparr> else f);
                frame = manual_flash_frame (qspi_flashing f) (eeprom_length a) (eeprom_offset f) (flash_offset f)
                          (if qspi_flashing f \<or> eeprom_write f then 1 else 0);
                (s, a1) = host_intf_write_pkt bh ((fresh_netbuf frame)\<lparr>tx_pkt_type := WLAN_TX_M_Q\<rparr>) a in
            (s, set_adapter (if host_intf_type a1 = HOST_INTF_SDIO then log (Free_pkt frame) a1 else a1) f1)))"

section \<open>Burning\<close>

text \<open>
  By hand: the chunks of the block that was loaded into the memory of the device. The result of
  the wait is not looked at.
\<close>

fun manual_burn_chunks :: "flash_host \<Rightarrow> nat \<Rightarrow> u32 \<Rightarrow> flasher \<Rightarrow> status \<times> flasher" where
  "manual_burn_chunks h 0 sz f = (ONEBOX_STATUS_SUCCESS, f)"
| "manual_burn_chunks h (Suc n) sz f =
     (let chunk = (if sz < FLASH_SECTOR_SIZE then sz else FLASH_SECTOR_SIZE);
          (s, f1) = manual_flash_write h (set_length chunk f) in
      if s \<noteq> ONEBOX_STATUS_SUCCESS then (ONEBOX_STATUS_FAILURE, f1)
      else (let f2 = snd (flash_wait h f1) in
            manual_burn_chunks h n (sz - chunk)
              (f2\<lparr>eeprom_offset := eeprom_offset f2 + chunk, flash_offset := flash_offset f2 + chunk\<rparr>)))"

definition num_loops :: "u32 \<Rightarrow> u32 \<Rightarrow> u32" where
  "num_loops sz chunk = sz div chunk + (if sz mod chunk \<noteq> 0 then 1 else 0)"

definition trigger_manual_flash_burn :: "flash_host \<Rightarrow> u32 \<Rightarrow> u32 \<Rightarrow> nat \<Rightarrow> u32 \<Rightarrow> flasher \<Rightarrow> status \<times> flasher" where
  "trigger_manual_flash_burn h address sz iteration offset f =
     manual_burn_chunks h (unat (ucast (num_loops sz FLASH_SECTOR_SIZE) :: u8)) sz
       (f\<lparr>eeprom_offset := offset, flash_offset := address, erase_requested := even iteration\<rparr>)"

text \<open>
  Automatic: each chunk in a frame of its own, one frame ahead of its confirmations.
  \<open>content\<close> and \<open>offset\<close> are those of chunk \<open>idx\<close>, and \<open>n\<close> chunks are left.
\<close>

fun auto_burn_chunks :: "flash_host \<Rightarrow> nat \<Rightarrow> nat \<Rightarrow> u32 \<Rightarrow> bytes \<Rightarrow> u32 \<Rightarrow> flasher \<Rightarrow> (status \<times> flasher) option" where
  "auto_burn_chunks h idx 0 sz content offset f = Some (ONEBOX_STATUS_SUCCESS, f)"
| "auto_burn_chunks h idx (Suc n) sz content offset f =
     (let chunk = (if sz < word_of_nat FLASH_WRITE_CHUNK then sz else word_of_nat FLASH_WRITE_CHUNK);
          f0 = set_length chunk (f\<lparr>eeprom_erase := True, eeprom_offset := offset\<rparr>) in
      do { buf \<leftarrow> mem_slice content 0 (unat chunk);
           (s, f1) \<leftarrow> auto_flash_write h buf f0;
           if s \<noteq> ONEBOX_STATUS_SUCCESS then Some (ONEBOX_STATUS_FAILURE, f1)
           else (let f1' = set_adapter (fh_meanwhile h (fl_adapter f1)) f1;
                     ahead = word_of_nat (idx + 1) - ucast (eeprom_cfm_count (fl_adapter f1')) :: u32;
                     (came, f2) = (if 2 \<le> ahead then flash_wait h f1' else (True, f1')) in
                 if \<not> came then Some (ONEBOX_STATUS_FAILURE, f2)
                 else auto_burn_chunks h (idx + 1) n (sz - chunk) (drop (unat chunk) content) (offset + chunk)
                        (f2\<lparr>eeprom_init := False\<rparr>)) })"

text \<open>Waiting for the confirmations that are still missing.\<close>

partial_function (option) await_confirms :: "flash_host \<Rightarrow> u32 \<Rightarrow> flasher \<Rightarrow> (status \<times> flasher) option" where
  "await_confirms h idx f =
     (if idx = ucast (eeprom_cfm_count (fl_adapter f)) then Some (ONEBOX_STATUS_SUCCESS, f)
      else (let (came, f1) = flash_wait h f in
            if \<not> came then Some (ONEBOX_STATUS_FAILURE, f1) else await_confirms h idx f1))"

definition trigger_auto_flash_burn :: "flash_host \<Rightarrow> bytes \<Rightarrow> u32 \<Rightarrow> u32 \<Rightarrow> flasher \<Rightarrow> (status \<times> flasher) option" where
  "trigger_auto_flash_burn h content sz offset f =
     (let n = num_loops sz (word_of_nat FLASH_WRITE_CHUNK) in
      do { (s, f1) \<leftarrow> auto_burn_chunks h 0 (unat n) sz content offset (f\<lparr>eeprom_init := True\<rparr>);
           if s \<noteq> ONEBOX_STATUS_SUCCESS then Some (ONEBOX_STATUS_FAILURE, f1)
           else await_confirms h n f1 })"

section \<open>Reading back\<close>

text \<open>One chunk of the flash, in the receive buffer once its event came.\<close>

definition read_flash_chunk :: "flash_host \<Rightarrow> u32 \<Rightarrow> u32 \<Rightarrow> flasher \<Rightarrow> (status \<times> flasher) option" where
  "read_flash_chunk h offset chunk f =
     do { (s, f1) \<leftarrow> flash_read h (set_length chunk (f\<lparr>eeprom_offset := offset\<rparr>));
          if s \<noteq> ONEBOX_STATUS_SUCCESS then Some (ONEBOX_STATUS_FAILURE, f1)
          else (let (came, f2) = flash_wait h f1 in
                Some (if came then ONEBOX_STATUS_SUCCESS else ONEBOX_STATUS_FAILURE, f2)) }"

text \<open>\<^verbatim>\<open>verify_flash_content\<close> in \<^verbatim>\<open>EEPROM_READ_MODE\<close>.\<close>

function verify_eeprom_chunks :: "flash_host \<Rightarrow> nat \<Rightarrow> bytes \<Rightarrow> nat \<Rightarrow> u32 \<Rightarrow> flasher \<Rightarrow> (status \<times> flasher) option" where
  "verify_eeprom_chunks h cs content left off f =
     (if left = 0 \<or> cs = 0 then Some (ONEBOX_STATUS_SUCCESS, f)
      else (let n = min left cs in
            do { (s, f1) \<leftarrow> read_flash_chunk h off (word_of_nat n) f;
                 if s \<noteq> ONEBOX_STATUS_SUCCESS then Some (ONEBOX_STATUS_FAILURE, f1)
                 else do { expected \<leftarrow> mem_slice content 0 n; got \<leftarrow> mem_slice (DataRcvPacket (fl_adapter f1)) 0 n;
                           if expected \<noteq> got then Some (ONEBOX_STATUS_FAILURE, f1)
                           else verify_eeprom_chunks h cs (drop n content) (left - n) (off + word_of_nat n) f1 } }))"
  by pat_completeness auto
termination by (relation "measure (\<lambda>(h, cs, content, left, off, f). left)") auto

declare verify_eeprom_chunks.simps [simp del]

definition verify_eeprom_content :: "flash_host \<Rightarrow> bytes \<Rightarrow> u32 \<Rightarrow> u32 \<Rightarrow> flasher \<Rightarrow> (status \<times> flasher) option" where
  "verify_eeprom_content h content sz off f =
     verify_eeprom_chunks h (verify_chunk_size (fl_adapter f)) content (unat sz) off f"

section \<open>Calibration data\<close>

function read_calib_chunks :: "flash_host \<Rightarrow> nat \<Rightarrow> nat \<Rightarrow> u32 \<Rightarrow> bytes \<Rightarrow> flasher \<Rightarrow> ((status \<times> bytes) \<times> flasher) option" where
  "read_calib_chunks h cs left off acc f =
     (if left = 0 \<or> cs = 0 then Some ((ONEBOX_STATUS_SUCCESS, acc), f)
      else (let n = min left cs in
            do { (s, f1) \<leftarrow> read_flash_chunk h off (word_of_nat n) f;
                 if s \<noteq> ONEBOX_STATUS_SUCCESS then Some ((ONEBOX_STATUS_FAILURE, acc), f1)
                 else do { got \<leftarrow> mem_slice (DataRcvPacket (fl_adapter f1)) 0 n;
                           read_calib_chunks h cs (left - n) (off + word_of_nat n) (acc @ got) f1 } }))"
  by pat_completeness auto
termination by (relation "measure (\<lambda>(h, cs, left, off, acc, f). left)") auto

declare read_calib_chunks.simps [simp del]

text \<open>The checks of the data: the two magic bytes, and from version 6 the checksum.\<close>

definition calib_data_ok :: "bytes \<Rightarrow> bool option" where
  "calib_data_ok d =
     do { m1 \<leftarrow> rd8 d MAGIC_WORD_OFFSET_1; m2 \<leftarrow> rd8 d MAGIC_WORD_OFFSET_2;
          if m1 \<noteq> MAGIC_WORD \<or> m2 \<noteq> MAGIC_WORD then Some False
          else do { version \<leftarrow> rd8 d EEPROM_VERSION_OFFSET;
                    if version < EEPROM_VER6 then Some True
                    else do { calc \<leftarrow> checksum_32bit [(drop CALIB_VALUES_START_ADDR d, word_of_nat (CALIB_DATA_SIZE - 4))];
                              crc \<leftarrow> rd32 d CALIB_CRC_OFFSET; Some (calc = crc) } } }"

text \<open>
  The calibration data over the start of the image: from the flash, or from a file of at least
  4096 bytes, which is freed. The backup file that is written on the way has no effect here.
\<close>

definition read_calib_data :: "flash_host \<Rightarrow> bytes \<Rightarrow> flasher \<Rightarrow> ((status \<times> bytes) \<times> flasher) option" where
  "read_calib_data h content f =
     (let a = fl_adapter f; nosbl = (flashing_mode (fl_boot f) = SWBL_FLASHING_NOSBL);
          free = (\<lambda>f. if nosbl then f else set_adapter (log Vmem_free (fl_adapter f)) f);
          use = (\<lambda>d f. do { ok \<leftarrow> calib_data_ok d;
                           if \<not> ok then Some ((ONEBOX_STATUS_FAILURE, content), free f)
                           else do { src \<leftarrow> mem_slice d CALIB_VALUES_START_ADDR CALIB_DATA_SIZE;
                                     if length content < EEPROM_DATA_SIZE then None
                                     else Some ((ONEBOX_STATUS_SUCCESS,
                                            take CALIB_VALUES_START_ADDR content @ src @ drop EEPROM_DATA_SIZE content), free f) } }) in
      if nosbl then
        (if \<not> h_kmalloc (bh_host (fh_boot h)) (trace a) then Some ((ONEBOX_STATUS_FAILURE, content), f)
         else do { ((s, d), f1) \<leftarrow> read_calib_chunks h (verify_chunk_size a) EEPROM_DATA_SIZE 0 [] f;
                   if s \<noteq> ONEBOX_STATUS_SUCCESS then Some ((ONEBOX_STATUS_FAILURE, content), f1) else use d f1 })
      else (case bh_firmware (fh_boot h) ''calib_data'' of
              None \<Rightarrow> Some ((ONEBOX_STATUS_FAILURE, content), f)
            | Some d \<Rightarrow>
                (let f1 = set_adapter (log (Get_firmware ''calib_data'') a) f in
                 if length d < EEPROM_DATA_SIZE then Some ((ONEBOX_STATUS_FAILURE, content), free f1)
                 else use d f1)))"

section \<open>The whole image\<close>

text \<open>Every exit of the two functions below that frees the image.\<close>

definition flash_exit :: "status \<Rightarrow> flasher \<Rightarrow> (status \<times> flasher) option" where
  "flash_exit s f = Some (s, set_adapter (log Vmem_free (fl_adapter f)) f)"

text \<open>
  The blocks of 32 KiB by hand: each into the memory of the device, then burned; the result of the
  burning is not looked at. \<open>kk\<close> is the counter and \<open>n\<close> rounds are left.
\<close>

fun burn_blocks :: "flash_host \<Rightarrow> nat \<Rightarrow> nat \<Rightarrow> u32 \<Rightarrow> bytes \<Rightarrow> u32 \<Rightarrow> flasher \<Rightarrow> (status \<times> flasher) option" where
  "burn_blocks h kk 0 whole data indx f = Some (ONEBOX_STATUS_SUCCESS, f)"
| "burn_blocks h kk (Suc n) whole data indx f =
     (let sz = (if qspi_flashing f then (if n \<noteq> 0 then FLASH_BLOCK_SIZE else whole mod FLASH_BLOCK_SIZE) else whole) in
      if sz = 0 then burn_blocks h (Suc kk) n whole data (indx + FLASH_BLOCK_SIZE) f
      else do { (s, a) \<leftarrow> load_data_master_write (fh_boot h) 0x10000 sz data (fl_adapter f);
                let f1 = set_adapter a f;
                if s = ONEBOX_STATUS_FAILURE then Some (ONEBOX_STATUS_FAILURE, f1)
                else burn_blocks h (Suc kk) n whole (drop (unat sz) data) (indx + FLASH_BLOCK_SIZE)
                       (snd (trigger_manual_flash_burn h 0x10000 sz kk indx f1)) })"

definition burn_and_verify :: "flash_host \<Rightarrow> bytes \<Rightarrow> u32 \<Rightarrow> u32 \<Rightarrow> flasher \<Rightarrow> (status \<times> flasher) option" where
  "burn_and_verify h data sz indx f =
     do { (s, f1) \<leftarrow> burn_blocks h 0 (unat (sz div FLASH_BLOCK_SIZE) + 1) sz data indx f;
          if s = ONEBOX_STATUS_FAILURE then flash_exit ONEBOX_STATUS_FAILURE f1
          else do { (s2, f2) \<leftarrow> verify_eeprom_content h data sz 0 f1;
                    flash_exit (if s2 = ONEBOX_STATUS_FAILURE then ONEBOX_STATUS_FAILURE else ONEBOX_STATUS_SUCCESS) f2 } }"

text \<open>The address an image is burned at, in its header; \<open>None\<close> for one that is refused.\<close>

definition flash_start_ok :: "u32 \<Rightarrow> u32 \<Rightarrow> u32 \<Rightarrow> bool" where
  "flash_start_ok start sz limit \<longleftrightarrow> FLASH_SECTOR_SIZE < start \<and> start mod FLASH_SECTOR_SIZE = 0 \<and> start + sz \<le> limit"

definition manual_start :: "flash_host \<Rightarrow> bytes \<Rightarrow> u32 \<Rightarrow> flasher \<Rightarrow> (u32 option \<times> flasher) option" where
  "manual_start h img sz f =
     do { start \<leftarrow> rd32 img 16;
          if start \<le> FLASH_SECTOR_SIZE \<or> start mod FLASH_SECTOR_SIZE \<noteq> 0 then Some (None, f)
          else (case read_flash_capacity (fh_boot h) (fl_adapter f) of
                  (cap, a) \<Rightarrow> Some (if 0 < cap \<and> flash_start_ok start sz cap then Some start else None, set_adapter a f)) }"

text \<open>The calibration data of the flash over that of the image; a failed read goes unnoticed.\<close>

definition keep_calibration :: "flash_host \<Rightarrow> bytes \<Rightarrow> flasher \<Rightarrow> (bytes \<times> flasher) option" where
  "keep_calibration h img f =
     (case read_flash_content (fh_boot h) (SOC_FLASH_ADDR + word_of_nat CALIB_VALUES_START_ADDR) (word_of_nat CALIB_DATA_SIZE) (fl_adapter f) of
        ((s, d), a) \<Rightarrow>
          (let got = take CALIB_DATA_SIZE d in
           if length img < CALIB_VALUES_START_ADDR + length got then None
           else Some (take CALIB_VALUES_START_ADDR img @ got @ drop (CALIB_VALUES_START_ADDR + length got) img,
                      f\<lparr>fl_boot := (fl_boot f)\<lparr>bl_common := a, flashing_mode := QSPI_FLASHING\<rparr>\<rparr>)))"

text \<open>A failure to read the calibration data returns without freeing the image.\<close>

definition manual_load_flash_content :: "flash_host \<Rightarrow> string \<Rightarrow> flasher \<Rightarrow> (status \<times> flasher) option" where
  "manual_load_flash_content h name f =
     (case bh_firmware (fh_boot h) name of
        None \<Rightarrow> Some (ONEBOX_STATUS_FAILURE, f)
      | Some file \<Rightarrow>
          (let f0 = set_adapter (log (Get_firmware name) (fl_adapter f)) f; sz = word_of_nat (length file) :: u32 in
           if MAX_FLASH_FILE_SIZE < sz then flash_exit ONEBOX_STATUS_FAILURE f0
           else do {
             (img, f1) \<leftarrow> (if flashing_mode (fl_boot f0) = QSPI_UPDATE then keep_calibration h file f0 else Some (file, f0));
             let mode = flashing_mode (fl_boot f1);
             if mode = QSPI_FLASHING
             then do { (start, f2) \<leftarrow> manual_start h img sz f1;
                       case start of
                         None \<Rightarrow> flash_exit ONEBOX_STATUS_FAILURE f2
                       | Some indx \<Rightarrow> burn_and_verify h img sz indx f2 }
             else if mode = SWBL_FLASHING_NOSBL \<or> mode = SWBL_FLASHING_NOSBL_FILE
             then do { ((s, data), f2) \<leftarrow> read_calib_data h (drop BL_HEADER img) f1;
                       if s = ONEBOX_STATUS_FAILURE then Some (ONEBOX_STATUS_FAILURE, f2)
                       else burn_and_verify h data (sz - word_of_nat BL_HEADER) 0 f2 }
             else burn_and_verify h img sz 0 f1 }))"

definition auto_load_flash_content :: "flash_host \<Rightarrow> string \<Rightarrow> flasher \<Rightarrow> (status \<times> flasher) option" where
  "auto_load_flash_content h name f =
     (case bh_firmware (fh_boot h) name of
        None \<Rightarrow> Some (ONEBOX_STATUS_FAILURE, f)
      | Some img \<Rightarrow>
          (let f0 = set_adapter (log (Get_firmware name) (fl_adapter f)) f; sz = word_of_nat (length img) :: u32 in
           if MAX_FLASH_FILE_SIZE < sz then flash_exit ONEBOX_STATUS_FAILURE f0
           else do { start \<leftarrow> rd32 img 16;
                     if \<not> flash_start_ok start sz FLASH_MAX_ADDRESS then flash_exit ONEBOX_STATUS_FAILURE f0
                     else do { (s, f1) \<leftarrow> trigger_auto_flash_burn h img sz start f0;
                               if s = ONEBOX_STATUS_FAILURE then flash_exit ONEBOX_STATUS_FAILURE f1
                               else do { (s2, f2) \<leftarrow> verify_eeprom_content h img sz start f1;
                                         flash_exit (if s2 = ONEBOX_STATUS_FAILURE then ONEBOX_STATUS_FAILURE else ONEBOX_STATUS_SUCCESS) f2 } } }))"

section \<open>The transmit thread\<close>

definition set_fsm_state :: "fsm_state \<Rightarrow> flasher \<Rightarrow> flasher" where
  "set_fsm_state x f = set_adapter ((fl_adapter f)\<lparr>fsm_state := x\<rparr>) f"

text \<open>Which image, and how: \<open>st\<close> is what \<^verbatim>\<open>status\<close> held before.\<close>

definition flash_by_mode :: "flash_host \<Rightarrow> status \<Rightarrow> flasher \<Rightarrow> (status \<times> flasher) option" where
  "flash_by_mode h st f =
     (let mode = flashing_mode (fl_boot f) in
      if Driver_Mode (fl_adapter f) = QSPI_FLASHING
      then (if mode = QSPI_FLASHING \<or> mode = QSPI_UPDATE
            then do { name \<leftarrow> name_at flash_names (coex_mode (fl_boot f)); manual_load_flash_content h name (f\<lparr>qspi_flashing := True\<rparr>) }
            else if mode = SWBL_FLASHING_NOSBL \<or> mode = SWBL_FLASHING_NOSBL_FILE
            then manual_load_flash_content h ''RS9113_WC_BL_with_mbr.rps'' (f\<lparr>qspi_flashing := True\<rparr>)
            else Some (st, f\<lparr>qspi_flashing := True\<rparr>))
      else do { name \<leftarrow> name_at flash_names (coex_mode (fl_boot f)); auto_load_flash_content h name f })"

definition flash_if_started :: "flash_host \<Rightarrow> status \<Rightarrow> flasher \<Rightarrow> (status \<times> flasher) option" where
  "flash_if_started h st f =
     (if \<not> flashing_started (fl_adapter f) then Some (st, f)
      else do { (s, f1) \<leftarrow> flash_by_mode h st (set_fsm_state FSM_FLASH_BURN f);
                f2 \<leftarrow> (if s \<noteq> ONEBOX_STATUS_SUCCESS then Some (set_fsm_state FSM_CARD_NOT_READY f1)
                       else do { (_, f') \<leftarrow> (if Driver_Mode (fl_adapter f1) = WIFI_MODE_ON then send_flashing_status h 1 f1
                                              else Some (ONEBOX_STATUS_SUCCESS, f1));
                                 Some (set_fsm_state FSM_MAC_INIT_DONE f') });
                Some (s, set_adapter ((fl_adapter f2)\<lparr>Driver_Mode := WIFI_MODE_ON, flashing_started := False, flashing_mode_on := False\<rparr>) f2) })"

end
