(* ===== verification/Flash_Burn.thy ===== *)
theory Flash_Burn
  imports Boot_Steps Flash_Eeprom
begin

text \<open>
  What burning the flash through the firmware achieves: the frames of a successful automatic burn
  carry the image, chunk by chunk to consecutive addresses; the loop over the confirmations ends;
  and the transmit thread gives the image back and leaves the flashing state on every path but
  one. At the end what the code does not get right.
\<close>

section \<open>Flash writes as the trace shows them\<close>

text \<open>What the firmware reads of a frame: the address and the bytes behind the delays.\<close>

definition flash_write_of :: "bytes \<Rightarrow> (u32 \<times> bytes) list" where
  "flash_write_of d =
     (case (rd16 d 2, rd16 d 4, rd32 d 8) of
        (Some ty, Some flags, Some off) \<Rightarrow>
          if ty = ucast EEPROM_WRITE \<and> bit flags 11 then [(off, drop (FRAME_DESC_SZ + DELAYS_LEN) d)] else []
      | _ \<Rightarrow> [])"

fun event_write :: "event \<Rightarrow> (u32 \<times> bytes) list" where
  "event_write (Multi_write addr d n) = flash_write_of d"
| "event_write (Usb_write_pkt d q) = flash_write_of d"
| "event_write _ = []"

fun burned :: "history \<Rightarrow> (u32 \<times> bytes) list" where
  "burned [] = []"
| "burned (e # t) = burned t @ event_write e"

abbreviation (input) flasher_burned :: "flasher \<Rightarrow> (u32 \<times> bytes) list" where
  "flasher_burned f \<equiv> burned (trace (fl_adapter f))"

section \<open>The frame\<close>

lemma flash_desc_length [simp]: "length (flash_desc w0 ty fl len off w6 w7) = 16"
  by (simp add: flash_desc_def)

lemma flash_desc_reads:
  "rd16 (flash_desc w0 ty fl len off w6 w7 @ d) 2 = Some ty"
  "rd16 (flash_desc w0 ty fl len off w6 w7 @ d) 4 = Some fl"
  "rd16 (flash_desc w0 ty fl len off w6 w7 @ d) 8 = Some (ucast off)"
  "rd16 (flash_desc w0 ty fl len off w6 w7 @ d) 10 = Some (ucast (drop_bit 16 off))"
  using rd16_set_word [of 1] rd16_set_word [of 2] rd16_set_word [of 4] rd16_set_word [of 5]
  by (simp_all add: rd16_append, simp_all add: flash_desc_def rd16_set_word_above rd16_set_word_below)

lemma rejoin_halves: "ucast (ucast (w :: u32) :: u16) OR push_bit 16 (ucast (ucast (drop_bit 16 w) :: u16)) = w"
  by (rule bit_word_eqI) (auto simp: bit_simps)

lemma flash_desc_address: "rd32 (flash_desc w0 ty fl len off w6 w7 @ d) 8 = Some off"
  using flash_desc_reads(3,4) [of w0 ty fl len off w6 w7 d] by (simp add: rd32_def rejoin_halves)

lemma auto_frame_write [simp]: "flash_write_of (auto_flash_frame erase init off len c) = [(off, c)]"
proof -
  have "bit (push_bit 8 3 OR bit_if erase 10 OR bit_if init 13 OR push_bit 11 1 :: u16) 11"
    by (simp add: bit_simps)
  then show ?thesis
    by (simp add: flash_write_of_def auto_flash_frame_def Let_def flash_desc_reads flash_desc_address)
qed

section \<open>One step\<close>

lemma fl_adapter_set [simp]: "fl_adapter (set_adapter a f) = a" "set_adapter b (set_adapter a f) = set_adapter b f"
  "flashing_mode (fl_boot (set_adapter a f)) = flashing_mode (fl_boot f)"
  by (simp_all add: set_adapter_def)

lemma set_length_fields [simp]:
  "trace (fl_adapter (set_length n f)) = trace (fl_adapter f)" "eeprom_offset (set_length n f) = eeprom_offset f"
  "eeprom_cfm_count (fl_adapter (set_length n f)) = eeprom_cfm_count (fl_adapter f)"
  "flashing_mode (fl_boot (set_length n f)) = flashing_mode (fl_boot f)"
  by (simp_all add: set_length_def set_adapter_def)

lemma host_write_adds:
  "host_intf_write_pkt h nb a = (s, a') \<Longrightarrow> tx_pkt_type nb \<noteq> WLAN_TX_D_Q \<Longrightarrow>
   \<exists>e. a' = log e a \<and> bus_event e \<and> event_write e = flash_write_of (nb_data nb)"
  by (auto simp: host_intf_write_pkt_def sdio_host_intf_write_pkt_def write_multiple_def Let_def split: host_intf.splits)

lemma send_flash_frame_cases:
  assumes "send_flash_frame h d a = (s, a')"
  obtains "s = ONEBOX_STATUS_FAILURE" "a' = a"
  | es where "a' = a\<lparr>trace := es @ trace a\<rparr>" "list_all bus_event es" "burned es = flash_write_of d"
proof (cases "h_alloc_skb h (trace a)")
  case False
  with assms that(1) show ?thesis by (simp add: send_flash_frame_def)
next
  case True
  let ?nb = "(fresh_netbuf d)\<lparr>tx_pkt_type := WLAN_TX_M_Q\<rparr>"
  obtain s1 a1 where w: "host_intf_write_pkt h ?nb a = (s1, a1)" by fastforce
  have d: "nb_data ?nb = d" by (simp add: fresh_netbuf_def)
  obtain e where e: "a1 = log e a" "bus_event e" "event_write e = flash_write_of d"
    using host_write_adds [OF w] d by auto
  have a': "a' = (if host_intf_type a1 = HOST_INTF_SDIO then log (Free_pkt d) a1 else a1)"
    using assms True w by (simp add: send_flash_frame_def)
  show ?thesis
  proof (cases "host_intf_type a1 = HOST_INTF_SDIO")
    case True
    then show ?thesis using a' e by (intro that(2) [of "[Free_pkt d, e]"]) (simp_all add: log_def)
  next
    case False
    then show ?thesis using a' e by (intro that(2) [of "[e]"]) (simp_all add: log_def)
  qed
qed

lemma send_flash_frame_adds: "send_flash_frame h d a = (s, a') \<Longrightarrow> adds bus_event a a'"
  by (erule send_flash_frame_cases) (auto simp: adds_def)

lemma burned_append [simp]: "burned (es @ t) = burned t @ burned es"
  by (induction es) simp_all

lemma auto_flash_write_adds:
  assumes "auto_flash_write h c f = Some (s, f')"
  shows "\<exists>a'. f' = set_adapter a' f \<and> adds bus_event (fl_adapter f) a' \<and>
     (s = ONEBOX_STATUS_SUCCESS \<longrightarrow> burned (trace a') = flasher_burned f @ [(eeprom_offset f, c)])"
proof -
  let ?d = "auto_flash_frame (eeprom_erase f) (eeprom_init f) (eeprom_offset f) (eeprom_length (fl_adapter f)) c"
  obtain s1 a1 where w: "send_flash_frame (bh_host (fh_boot h)) ?d (fl_adapter f) = (s1, a1)" by fastforce
  have r: "s = s1" "f' = set_adapter a1 f"
    using assms w by (auto simp: auto_flash_write_def Let_def split: if_splits)
  have "s1 = ONEBOX_STATUS_SUCCESS \<longrightarrow> burned (trace a1) = flasher_burned f @ [(eeprom_offset f, c)]"
    using w by (rule send_flash_frame_cases) auto
  with r send_flash_frame_adds [OF w] show ?thesis by blast
qed

section \<open>Confirmations\<close>

lemma byte_widened: "unat (ucast (x :: u8) :: u32) = unat x" "ucast (ucast x :: u32) = x"
proof -
  have "unat x < 2 ^ 32" using unsigned_less [of x, where ?'a = nat] by simp
  then show "unat (ucast x :: u32) = unat x" by (simp add: unsigned_ucast_eq take_bit_nat_eq_self)
  show "ucast (ucast x :: u32) = x" by (rule bit_word_eqI) (auto simp: bit_simps)
qed

definition write_confirmed :: "adapter \<Rightarrow> adapter" where
  "write_confirmed a = log (Set_event Flash_event) (a\<lparr>eeprom_cfm_count := eeprom_cfm_count a + 1\<rparr>)"

lemma confirmed_received: "flash_burn_rx msg n EEPROM_WRITE a = Some (ONEBOX_STATUS_SUCCESS, write_confirmed a)"
  by (simp add: flash_burn_rx_def write_confirmed_def)

lemma burned_confirmed [simp]: "burned (trace ((write_confirmed ^^ k) a)) = burned (trace a)"
  by (induction k) (simp_all add: write_confirmed_def log_def)

text \<open>The receive path does nothing but count confirmations while the image is burned.\<close>

definition only_confirms :: "flash_host \<Rightarrow> bool" where
  "only_confirms h \<longleftrightarrow>
     (\<forall>a. \<exists>k. snd (fh_wait h a) = (write_confirmed ^^ k) a) \<and> (\<forall>a. \<exists>k. fh_meanwhile h a = (write_confirmed ^^ k) a)"

lemma wait_burned: "only_confirms h \<Longrightarrow> flash_wait h f = (c, f') \<Longrightarrow> flasher_burned f' = flasher_burned f"
  unfolding only_confirms_def flash_wait_def
  by (auto split: prod.splits) (metis burned_confirmed snd_conv)

lemma meanwhile_burned: "only_confirms h \<Longrightarrow> burned (trace (fh_meanwhile h a)) = burned (trace a)"
  unfolding only_confirms_def by (metis burned_confirmed)

section \<open>The chunks of an image\<close>

fun chunks :: "nat \<Rightarrow> u32 \<Rightarrow> bytes \<Rightarrow> (u32 \<times> bytes) list" where
  "chunks 0 off c = []"
| "chunks (Suc n) off c = (off, take 4096 c) # chunks n (off + 4096) (drop 4096 c)"

lemma chunks_length [simp]: "length (chunks n off c) = n"
  by (induction n arbitrary: off c) simp_all

lemma chunks_content: "length c \<le> n * 4096 \<Longrightarrow> concat (map snd (chunks n off c)) = c"
  by (induction n arbitrary: off c) simp_all

lemma chunks_addresses: "i < n \<Longrightarrow> fst (chunks n off c ! i) = off + word_of_nat (i * 4096)"
  by (induction n arbitrary: i off c) (auto simp: nth_Cons add.assoc split: nat.split)

lemma chunks_short: "w \<in> set (chunks n off c) \<Longrightarrow> length (snd w) \<le> 4096"
  by (induction n arbitrary: off c) auto

lemma num_loops_nat: "unat (num_loops sz 4096) = (unat sz + 4095) div 4096"
proof -
  have lt: "unat sz < 2 ^ 32" using unsigned_less [of sz, where ?'a = nat] by simp
  have u: "unat (sz div 4096) = unat sz div 4096" "unat (sz mod 4096) = unat sz mod 4096"
    by (simp_all add: unat_div unat_mod)
  have z: "sz mod 4096 \<noteq> 0 \<longleftrightarrow> unat sz mod 4096 \<noteq> 0" using u(2) by (metis unat_0 unsigned_word_eqI)
  have "unat (sz div 4096 + 1) = unat sz div 4096 + 1"
    using lt u(1) by (simp add: unat_word_ariths)
  moreover have "(m + 4095) div 4096 = m div 4096 + (if m mod 4096 = 0 then 0 else 1)" for m :: nat
  proof -
    have "(m + 4095) div 4096 = (m div 4096 * 4096 + (m mod 4096 + 4095)) div 4096"
      by (metis add.assoc div_mult_mod_eq)
    also have "\<dots> = m div 4096 + (m mod 4096 + 4095) div 4096" by (rule div_mult_self3) simp
    also have "(m mod 4096 + 4095) div 4096 = (if m mod 4096 = 0 then 0 else 1)"
      using mod_less_divisor [of 4096 m] by (auto intro!: div_nat_eqI)
    finally show ?thesis .
  qed
  ultimately show ?thesis using u z by (simp add: num_loops_def)
qed

section \<open>The automatic burn writes the image\<close>

lemma mem_slice_0: "n \<le> length c \<Longrightarrow> mem_slice c 0 n = Some (take n c)"
  by (simp add: mem_slice_def)

lemma first_chunk:
  fixes sz :: u32 and c :: bytes
  assumes "unat sz = length c"
  shows "(if sz < word_of_nat FLASH_WRITE_CHUNK then sz else word_of_nat FLASH_WRITE_CHUNK) = word_of_nat (min 4096 (length c))"
    and "unat (word_of_nat (min 4096 (length c)) :: u32) = min 4096 (length c)"
    and "unat (sz - word_of_nat (min 4096 (length c))) = length (drop (min 4096 (length c)) c)"
proof -
  have lt: "length c < 2 ^ 32" using assms unsigned_less [of sz, where ?'a = nat] by simp
  have sz: "word_of_nat (length c) = sz" by (simp flip: assms)
  show "(if sz < word_of_nat FLASH_WRITE_CHUNK then sz else word_of_nat FLASH_WRITE_CHUNK) = word_of_nat (min 4096 (length c))"
    using sz assms by (auto simp: min_def word_less_nat_alt)
  show u: "unat (word_of_nat (min 4096 (length c)) :: u32) = min 4096 (length c)" using lt by (simp add: unat_of_nat min_def)
  then have "word_of_nat (min 4096 (length c)) \<le> sz" using assms by (simp add: word_le_nat_alt)
  then show "unat (sz - word_of_nat (min 4096 (length c))) = length (drop (min 4096 (length c)) c)"
    using assms u by (simp add: unat_sub)
qed

lemma auto_burn_chunks_step:
  assumes "auto_burn_chunks h idx (Suc n) sz c off f = Some (s, f')" and "unat sz = length c"
  defines "k \<equiv> min 4096 (length c)"
  obtains (written) s1 f1 f2 where
      "auto_flash_write h (take k c) (set_length (word_of_nat k) (f\<lparr>eeprom_erase := True, eeprom_offset := off\<rparr>)) = Some (s1, f1)"
      "s1 = ONEBOX_STATUS_SUCCESS"
      "f2 = set_adapter (fh_meanwhile h (fl_adapter f1)) f1 \<or>
       flash_wait h (set_adapter (fh_meanwhile h (fl_adapter f1)) f1) = (True, f2)"
      "auto_burn_chunks h (idx + 1) n (sz - word_of_nat k) (drop k c) (off + word_of_nat k) (f2\<lparr>eeprom_init := False\<rparr>) = Some (s, f')"
      "unat (sz - word_of_nat k) = length (drop k c)"
  | (failed) "s = ONEBOX_STATUS_FAILURE"
proof -
  note chunk = first_chunk(1) [OF assms(2), folded k_def] and uk = first_chunk(2) [OF assms(2), folded k_def]
    and rest = first_chunk(3) [OF assms(2), folded k_def]
  let ?f0 = "set_length (word_of_nat k) (f\<lparr>eeprom_erase := True, eeprom_offset := off\<rparr>)"
  have r: "(do { (s1, f1) \<leftarrow> auto_flash_write h (take k c) ?f0;
           if s1 \<noteq> ONEBOX_STATUS_SUCCESS then Some (ONEBOX_STATUS_FAILURE, f1)
           else (let f1' = set_adapter (fh_meanwhile h (fl_adapter f1)) f1;
                     ahead = word_of_nat (idx + 1) - ucast (eeprom_cfm_count (fl_adapter f1')) :: u32;
                     (came, f2) = (if 2 \<le> ahead then flash_wait h f1' else (True, f1')) in
                 if \<not> came then Some (ONEBOX_STATUS_FAILURE, f2)
                 else auto_burn_chunks h (idx + 1) n (sz - word_of_nat k) (drop k c) (off + word_of_nat k) (f2\<lparr>eeprom_init := False\<rparr>)) }) = Some (s, f')"
    using assms(1) unfolding auto_burn_chunks.simps Let_def chunk uk
    by (simp add: mem_slice_0 k_def)
  obtain s1 f1 where w: "auto_flash_write h (take k c) ?f0 = Some (s1, f1)"
    using r by (cases "auto_flash_write h (take k c) ?f0") auto
  show thesis
  proof (cases "s1 = ONEBOX_STATUS_SUCCESS")
    case False
    with r w that(2) show thesis by simp
  next
    case True
    let ?g = "set_adapter (fh_meanwhile h (fl_adapter f1)) f1"
    obtain came f2 where b: "(if 2 \<le> (word_of_nat (idx + 1) - ucast (eeprom_cfm_count (fl_adapter ?g)) :: u32)
        then flash_wait h ?g else (True, ?g)) = (came, f2)" by fastforce
    show thesis
    proof (cases came)
      case False
      with r w True b that(2) show thesis by (simp add: Let_def)
    next
      case came: True
      have "f2 = ?g \<or> flash_wait h ?g = (True, f2)" using b came by (auto split: if_splits)
      with r w True b came rest show thesis by (intro that(1)) (simp_all add: Let_def)
    qed
  qed
qed

lemma f_updates_burned [simp]:
  "fl_adapter (f\<lparr>eeprom_init := b\<rparr>) = fl_adapter f" "fl_adapter (f\<lparr>eeprom_erase := b, eeprom_offset := off\<rparr>) = fl_adapter f"
  by simp_all

lemma auto_burn_chunks_writes:
  assumes "only_confirms h"
  shows "auto_burn_chunks h idx n sz c off f = Some (ONEBOX_STATUS_SUCCESS, f') \<Longrightarrow> unat sz = length c \<Longrightarrow>
     n = (length c + 4095) div 4096 \<Longrightarrow> flasher_burned f' = flasher_burned f @ chunks n off c"
proof (induction n arbitrary: idx sz c off f)
  case (Suc n)
  let ?k = "min 4096 (length c)"
  from Suc.prems(1,2) show ?case
  proof (cases rule: auto_burn_chunks_step)
    case (written s1 f1 f2)
    have f1: "flasher_burned f1 = flasher_burned f @ [(off, take ?k c)]"
      using auto_flash_write_adds [OF written(1)] written(2) by auto
    have f2: "flasher_burned f2 = flasher_burned f1"
      using written(3) wait_burned [OF assms] meanwhile_burned [OF assms] by auto
    have n: "n = (length (drop ?k c) + 4095) div 4096" using Suc.prems(3) by (auto simp: min_def)
    have "chunks n (off + word_of_nat ?k) (drop ?k c) = chunks n (off + 4096) (drop 4096 c)"
      using Suc.prems(3) by (cases n) (auto simp: min_def)
    moreover have "take ?k c = take 4096 c" by (simp add: min_def)
    ultimately show ?thesis using Suc.IH [OF written(4,5) n] f1 f2 by simp
  next
    case failed
    then show ?thesis by simp
  qed
qed simp

lemma await_confirms_keeps:
  assumes "await_confirms h idx f = Some (s, f')"
    and "P f" and "\<And>f c f'. P f \<Longrightarrow> flash_wait h f = (c, f') \<Longrightarrow> P f'"
  shows "P f' \<and> (s = ONEBOX_STATUS_SUCCESS \<longrightarrow> idx = ucast (eeprom_cfm_count (fl_adapter f'))) \<and>
    (s = ONEBOX_STATUS_SUCCESS \<or> s = ONEBOX_STATUS_FAILURE)"
proof -
  let ?good = "\<lambda>r :: status \<times> flasher. P (snd r) \<and> (fst r = ONEBOX_STATUS_SUCCESS \<longrightarrow> idx = ucast (eeprom_cfm_count (fl_adapter (snd r)))) \<and>
    (fst r = ONEBOX_STATUS_SUCCESS \<or> fst r = ONEBOX_STATUS_FAILURE)"
  have "h = h \<longrightarrow> idx = idx \<longrightarrow> P f \<longrightarrow> ?good rr" if "await_confirms h idx f = Some rr" for rr
  proof (rule await_confirms.raw_induct [where P = "\<lambda>h' i f rr. h' = h \<longrightarrow> i = idx \<longrightarrow> P f \<longrightarrow> ?good rr", OF _ that], intro impI)
    fix await h' i f rr
    assume IH: "\<And>h' i f rr. await h' i f = Some rr \<Longrightarrow> h' = h \<longrightarrow> i = idx \<longrightarrow> P f \<longrightarrow> ?good rr"
      and eq: "(if i = ucast (eeprom_cfm_count (fl_adapter f)) then Some (ONEBOX_STATUS_SUCCESS, f)
         else (let (came, f1) = flash_wait h' f in
               if \<not> came then Some (ONEBOX_STATUS_FAILURE, f1) else await h' i f1)) = Some rr"
      and h: "h' = h" "i = idx" "P f"
    obtain c f1 where w: "flash_wait h f = (c, f1)" by fastforce
    have "P f1" using assms(3) h(3) w .
    then show "?good rr" using eq w h IH [of h idx f1 rr] by (auto split: if_splits)
  qed
  from this [OF assms(1)] assms(2) show ?thesis by simp
qed

text \<open>
  C31. An automatic burn that reports success has handed the firmware exactly the image: one write
  for each 4096 bytes, to consecutive addresses from the start address on, the last one possibly
  shorter, and the number of confirmations counted is the number of writes. Meanwhile the receive
  path is assumed to do nothing but count confirmations.
\<close>

theorem auto_burn_writes_image:
  assumes "only_confirms h" and "unat sz = length c"
    and "trigger_auto_flash_burn h c sz off f = Some (ONEBOX_STATUS_SUCCESS, f')"
  shows "\<exists>ws. flasher_burned f' = flasher_burned f @ ws \<and> concat (map snd ws) = c \<and>
     (\<forall>i<length ws. fst (ws ! i) = off + word_of_nat (i * 4096)) \<and> (\<forall>w\<in>set ws. length (snd w) \<le> 4096) \<and>
     length ws = unat (eeprom_cfm_count (fl_adapter f'))"
proof -
  let ?n = "num_loops sz 4096"
  have n: "unat ?n = (length c + 4095) div 4096" using num_loops_nat [of sz] assms(2) by simp
  obtain f1 where b: "auto_burn_chunks h 0 (unat ?n) sz c off (f\<lparr>eeprom_init := True\<rparr>) = Some (ONEBOX_STATUS_SUCCESS, f1)"
    and a: "await_confirms h ?n f1 = Some (ONEBOX_STATUS_SUCCESS, f')"
    using assms(3) by (auto simp: trigger_auto_flash_burn_def Let_def split: bind_splits if_splits)
  have 1: "flasher_burned f1 = flasher_burned f @ chunks (unat ?n) off c"
    using auto_burn_chunks_writes [OF assms(1) b assms(2) n] by simp
  have 2: "flasher_burned f' = flasher_burned f1 \<and> ?n = ucast (eeprom_cfm_count (fl_adapter f'))"
    using await_confirms_keeps [OF a, of "\<lambda>g. flasher_burned g = flasher_burned f1", OF refl] wait_burned [OF assms(1)] by metis
  have "unat ?n = unat (eeprom_cfm_count (fl_adapter f'))" using 2 byte_widened(1) by metis
  with 1 2 n show ?thesis
    by (intro exI [of _ "chunks (unat ?n) off c"]) (auto simp: chunks_content chunks_addresses dest: chunks_short)
qed

section \<open>It returns\<close>

definition confirms_one_by_one :: "flash_host \<Rightarrow> bool" where
  "confirms_one_by_one h \<longleftrightarrow> (\<forall>a. fst (fh_wait h a) \<longrightarrow> snd (fh_wait h a) = write_confirmed a)"

lemma confirmed_count [simp]: "eeprom_cfm_count (write_confirmed a) = eeprom_cfm_count a + 1"
  by (simp add: write_confirmed_def log_def)

lemma await_confirms_returns:
  assumes "confirms_one_by_one h" and "unat idx < 256"
  shows "unat (ucast idx - eeprom_cfm_count (fl_adapter f) :: u8) = k \<Longrightarrow> \<exists>s f'. await_confirms h idx f = Some (s, f')"
proof (induction k arbitrary: f)
  case 0
  then have "ucast idx = eeprom_cfm_count (fl_adapter f)" by (simp add: unat_eq_0)
  moreover have "ucast (ucast idx :: u8) = idx"
    using assms(2) by (simp add: word_unat_eq_iff unsigned_ucast_eq unsigned_take_bit_eq take_bit_nat_eq_self)
  ultimately have "idx = ucast (eeprom_cfm_count (fl_adapter f))" by metis
  then show ?case by (simp add: await_confirms.simps)
next
  case (Suc k)
  let ?c = "eeprom_cfm_count (fl_adapter f)"
  obtain came f1 where w: "flash_wait h f = (came, f1)" by fastforce
  have ne: "idx \<noteq> ucast ?c"
  proof
    assume "idx = ucast ?c"
    then have "ucast idx = ?c" using byte_widened(2) [of ?c] by metis
    with Suc.prems show False by simp
  qed
  show ?case
  proof (cases came)
    case False
    with w ne show ?thesis by (simp add: await_confirms.simps [of h idx f])
  next
    case True
    have "fl_adapter f1 = write_confirmed (fl_adapter f)"
      using w True assms(1) by (auto simp: flash_wait_def confirms_one_by_one_def split: prod.splits) (metis fst_conv snd_conv)
    then have "ucast idx - eeprom_cfm_count (fl_adapter f1) = (ucast idx - ?c) - 1" by simp
    moreover have "ucast idx - ?c \<noteq> 0" using Suc.prems by auto
    ultimately have "unat (ucast idx - eeprom_cfm_count (fl_adapter f1) :: u8) = unat (ucast idx - ?c) - 1"
      using unat_minus_one by metis
    with Suc.prems have "unat (ucast idx - eeprom_cfm_count (fl_adapter f1) :: u8) = k" by simp
    from Suc.IH [OF this] show ?thesis using w True ne by (simp add: await_confirms.simps [of h idx f])
  qed
qed

lemma auto_flash_write_returns:
  assumes "\<And>t. h_kmalloc (bh_host (fh_boot h)) t"
  shows "\<exists>s f'. auto_flash_write h c f = Some (s, f')"
  using assms by (simp add: auto_flash_write_def Let_def split: prod.splits)

lemma auto_burn_chunks_returns:
  assumes "\<And>t. h_kmalloc (bh_host (fh_boot h)) t"
  shows "unat sz = length c \<Longrightarrow> n = (length c + 4095) div 4096 \<Longrightarrow>
     \<exists>s f'. auto_burn_chunks h idx n sz c off f = Some (s, f')"
proof (induction n arbitrary: idx sz c off f)
  case (Suc n)
  let ?k = "min 4096 (length c)"
  note chunk = first_chunk(1) [OF Suc.prems(1)] and uk = first_chunk(2) [OF Suc.prems(1)]
    and rest = first_chunk(3) [OF Suc.prems(1)]
  have n: "n = (length (drop ?k c) + 4095) div 4096" using Suc.prems(2) by (auto simp: min_def)
  let ?f0 = "set_length (word_of_nat ?k) (f\<lparr>eeprom_erase := True, eeprom_offset := off\<rparr>)"
  obtain s1 f1 where w: "auto_flash_write h (take ?k c) ?f0 = Some (s1, f1)"
    using auto_flash_write_returns [OF assms] by metis
  have IH: "\<exists>s f'. auto_burn_chunks h (idx + 1) n (sz - word_of_nat ?k) (drop ?k c) (off + word_of_nat ?k) g = Some (s, f')" for g
    using Suc.IH [OF rest n] .
  have sl: "mem_slice c 0 ?k = Some (take ?k c)" by (simp add: mem_slice_0)
  show ?case
    unfolding auto_burn_chunks.simps Let_def chunk uk sl Option.bind.simps w
    using IH by (auto split: prod.splits)
qed simp

text \<open>
  The automatic burn of an image of at most 255 chunks returns: each of its waits ends after
  the timeout or with one confirmation, and then the count of the confirmations, a byte, meets the
  number of the chunks, whatever it was before.
\<close>

theorem auto_burn_returns:
  assumes "\<And>t. h_kmalloc (bh_host (fh_boot h)) t" and "confirms_one_by_one h"
    and "unat sz = length c" and "length c \<le> 255 * 4096"
  shows "\<exists>s f'. trigger_auto_flash_burn h c sz off f = Some (s, f')"
proof -
  let ?n = "num_loops sz 4096"
  have n: "unat ?n = (length c + 4095) div 4096" using num_loops_nat [of sz] assms(3) by simp
  then have lt: "unat ?n < 256" using assms(4) by linarith
  obtain s1 f1 where "auto_burn_chunks h 0 (unat ?n) sz c off (f\<lparr>eeprom_init := True\<rparr>) = Some (s1, f1)"
    using auto_burn_chunks_returns [OF assms(1,3) n] by blast
  with await_confirms_returns [OF assms(2) lt refl, of f1] show ?thesis
    by (simp add: trigger_auto_flash_burn_def Let_def)
qed

section \<open>The image is given back\<close>

definition held :: "flasher \<Rightarrow> nat option" where
  "held f = images (trace (fl_adapter f))"

definition keeps_images :: "flash_host \<Rightarrow> bool" where
  "keeps_images h \<longleftrightarrow>
     (\<forall>a. images (trace (snd (fh_wait h a))) = images (trace a)) \<and>
     (\<forall>a. images (trace (fh_meanwhile h a)) = images (trace a))"

lemma held_update [simp]:
  "held (f\<lparr>eeprom_init := b\<rparr>) = held f" "held (f\<lparr>eeprom_erase := b\<rparr>) = held f" "held (f\<lparr>eeprom_offset := x\<rparr>) = held f"
  "held (f\<lparr>flash_offset := x\<rparr>) = held f" "held (f\<lparr>erase_requested := b\<rparr>) = held f" "held (f\<lparr>qspi_flashing := b\<rparr>) = held f"
  "held (set_length n f) = held f" "held (set_fsm_state st f) = held f"
  by (simp_all add: held_def set_fsm_state_def)

lemma held_set [simp]: "held (set_adapter a f) = images (trace a)"
  by (simp add: held_def)

lemma bus_images: "adds bus_event a a' \<Longrightarrow> images (trace a') = images (trace a)"
  by (intro adds_images as_cmd as_poll)

lemma held_bus: "adds bus_event (fl_adapter f) a \<Longrightarrow> images (trace a) = held f"
  by (simp add: bus_images held_def)

lemma held_wait: "keeps_images h \<Longrightarrow> flash_wait h f = (c, f') \<Longrightarrow> held f' = held f"
  by (auto simp: flash_wait_def keeps_images_def held_def split: prod.splits) (metis snd_conv)

lemma held_auto_write: "auto_flash_write h c f = Some (s, f') \<Longrightarrow> held f' = held f"
  by (drule auto_flash_write_adds) (auto simp: held_bus)

lemma held_read:
  assumes "flash_read h f = Some (s, f')"
  shows "held f' = held f"
proof -
  obtain a where "send_flash_frame (bh_host (fh_boot h)) (flash_read_frame (Driver_Mode (fl_adapter f) = QSPI_FLASHING)
      (eeprom_init f) (eeprom_offset f) (eeprom_length (fl_adapter f))) (fl_adapter f) = (s, a)" "f' = set_adapter a f"
    using assms by (auto simp: flash_read_def Let_def split: if_splits prod.splits)
  then show ?thesis by (auto dest!: send_flash_frame_adds simp: held_bus)
qed

lemma held_status:
  assumes "send_flashing_status h st f = Some (s, f')"
  shows "held f' = held f"
proof -
  obtain s1 a where "send_flash_frame (bh_host (fh_boot h)) (flashing_status_frame st) (fl_adapter f) = (s1, a)" "f' = set_adapter a f"
    using assms by (auto simp: send_flashing_status_def Let_def split: if_splits prod.splits)
  then show ?thesis by (auto dest!: send_flash_frame_adds simp: held_bus)
qed

lemma held_manual_write:
  assumes "manual_flash_write h f = (s, f')"
  shows "held f' = held f"
proof (cases "h_alloc_skb (bh_host (fh_boot h)) (trace (fl_adapter f))")
  case True
  define d where "d = manual_flash_frame (qspi_flashing f) (eeprom_length (fl_adapter f)) (eeprom_offset f) (flash_offset f)
      (if qspi_flashing f \<or> eeprom_write f then 1 else 0)"
  obtain f1 s1 a1 where w: "host_intf_write_pkt (bh_host (fh_boot h)) ((fresh_netbuf d)\<lparr>tx_pkt_type := WLAN_TX_M_Q\<rparr>) (fl_adapter f) = (s1, a1)"
    and f': "f' = set_adapter (if host_intf_type a1 = HOST_INTF_SDIO then log (Free_pkt d) a1 else a1) f1"
    using assms True unfolding manual_flash_write_def Let_def d_def [symmetric]
    by (cases "host_intf_write_pkt (bh_host (fh_boot h)) ((fresh_netbuf d)\<lparr>tx_pkt_type := WLAN_TX_M_Q\<rparr>) (fl_adapter f)")
      (auto simp: d_def [symmetric])
  obtain e where "a1 = log e (fl_adapter f)" "bus_event e" using host_write_adds [OF w] by auto
  then have "adds bus_event (fl_adapter f) a1" by simp
  then have "images (trace a1) = held f" by (rule held_bus)
  with f' show ?thesis by (simp add: log_def)
next
  case False
  with assms show ?thesis by (simp add: manual_flash_write_def Let_def)
qed

lemma held_manual_chunks: "keeps_images h \<Longrightarrow> manual_burn_chunks h n sz f = (s, f') \<Longrightarrow> held f' = held f"
proof (induction n arbitrary: sz f)
  case (Suc n)
  let ?k = "if sz < FLASH_SECTOR_SIZE then sz else FLASH_SECTOR_SIZE"
  obtain s1 f1 where w: "manual_flash_write h (set_length ?k f) = (s1, f1)" by fastforce
  obtain c f2 where t: "flash_wait h f1 = (c, f2)" by fastforce
  have "held f1 = held f" "held f2 = held f1"
    using held_manual_write [OF w] held_wait [OF Suc.prems(1) t] by simp_all
  then show ?case
    using Suc.prems(2) w t Suc.IH [OF Suc.prems(1), of "sz - ?k" "f2\<lparr>eeprom_offset := eeprom_offset f2 + ?k, flash_offset := flash_offset f2 + ?k\<rparr>"]
    by (simp add: Let_def split: if_split_asm)
qed simp

lemma held_trigger_manual: "keeps_images h \<Longrightarrow> held (snd (trigger_manual_flash_burn h ad sz it off f)) = held f"
proof -
  assume "keeps_images h"
  moreover obtain s f' where r: "trigger_manual_flash_burn h ad sz it off f = (s, f')" by fastforce
  ultimately show ?thesis using held_manual_chunks [OF _ r [unfolded trigger_manual_flash_burn_def]] r by simp
qed

lemma held_auto_chunks: "keeps_images h \<Longrightarrow> auto_burn_chunks h idx n sz c off f = Some (s, f') \<Longrightarrow> held f' = held f"
proof (induction n arbitrary: idx sz c off f)
  case (Suc n)
  let ?k = "if sz < word_of_nat FLASH_WRITE_CHUNK then sz else word_of_nat FLASH_WRITE_CHUNK"
  obtain buf s1 f1 where w: "auto_flash_write h buf (set_length ?k (f\<lparr>eeprom_erase := True, eeprom_offset := off\<rparr>)) = Some (s1, f1)"
    and m: "mem_slice c 0 (unat ?k) = Some buf"
    using Suc.prems(2) by (auto simp: Let_def split: bind_splits)
  let ?g = "set_adapter (fh_meanwhile h (fl_adapter f1)) f1"
  obtain came f2 where t: "(if 2 \<le> (word_of_nat (idx + 1) - ucast (eeprom_cfm_count (fl_adapter ?g)) :: u32)
      then flash_wait h ?g else (True, ?g)) = (came, f2)" by fastforce
  have "held f1 = held f" using held_auto_write [OF w] by simp
  moreover have "held ?g = held f1" using Suc.prems(1) by (simp add: keeps_images_def held_def)
  moreover have "held f2 = held ?g"
    using t held_wait [OF Suc.prems(1), of ?g came f2] by (auto split: if_split_asm)
  ultimately have held: "held f1 = held f" "held (f2\<lparr>eeprom_init := False\<rparr>) = held f" by simp_all
  from Suc.prems(2) have "s = ONEBOX_STATUS_FAILURE \<and> (f' = f1 \<or> f' = f2) \<or>
      auto_burn_chunks h (idx + 1) n (sz - ?k) (drop (unat ?k) c) (off + ?k) (f2\<lparr>eeprom_init := False\<rparr>) = Some (s, f')"
    unfolding auto_burn_chunks.simps Let_def m w Option.bind.simps prod.case t by (simp split: if_split_asm)
  then show ?case using held Suc.IH [OF Suc.prems(1)] by auto
qed simp

lemma held_await: "keeps_images h \<Longrightarrow> await_confirms h idx f = Some (s, f') \<Longrightarrow> held f' = held f"
  using await_confirms_keeps [of h idx f s f' "\<lambda>g. held g = held f"] held_wait [of h] by metis

lemma held_trigger_auto:
  assumes "keeps_images h" and "trigger_auto_flash_burn h c sz off f = Some (s, f')"
  shows "held f' = held f"
proof -
  obtain s1 f1 where b: "auto_burn_chunks h 0 (unat (num_loops sz 4096)) sz c off (f\<lparr>eeprom_init := True\<rparr>) = Some (s1, f1)"
    and r: "f' = f1 \<or> await_confirms h (num_loops sz 4096) f1 = Some (s, f')"
    using assms(2) by (auto simp: trigger_auto_flash_burn_def Let_def split: bind_splits if_splits)
  show ?thesis using held_auto_chunks [OF assms(1) b] r held_await [OF assms(1)] by auto
qed

lemma held_read_chunk:
  assumes "keeps_images h" and "read_flash_chunk h off n f = Some (s, f')"
  shows "held f' = held f"
proof -
  obtain s1 f1 where r: "flash_read h (set_length n (f\<lparr>eeprom_offset := off\<rparr>)) = Some (s1, f1)"
    and c: "f' = f1 \<or> (\<exists>came. flash_wait h f1 = (came, f'))"
    using assms(2) by (auto simp: read_flash_chunk_def Let_def split: bind_splits if_splits prod.splits)
  show ?thesis using held_read [OF r] c held_wait [OF assms(1)] by auto
qed

lemma held_verify_chunks:
  "keeps_images h \<Longrightarrow> verify_eeprom_chunks h cs c left off f = Some (s, f') \<Longrightarrow> held f' = held f"
proof (induction h cs c left off f rule: verify_eeprom_chunks.induct)
  case (1 h cs c left off f)
  show ?case
  proof (cases "left = 0 \<or> cs = 0")
    case True
    with 1(3) show ?thesis by (simp add: verify_eeprom_chunks.simps)
  next
    case False
    let ?n = "min left cs"
    obtain s1 f1 where r: "read_flash_chunk h off (word_of_nat ?n) f = Some (s1, f1)"
      using 1(3) False by (auto simp: verify_eeprom_chunks.simps [of h cs c left] Let_def split: bind_splits)
    have f1: "held f1 = held f" by (rule held_read_chunk [OF 1(2) r])
    have "f' = f1 \<or> (\<exists>d. s1 = ONEBOX_STATUS_SUCCESS \<and> mem_slice c 0 ?n = Some d \<and>
        mem_slice (DataRcvPacket (fl_adapter f1)) 0 ?n = Some d \<and> verify_eeprom_chunks h cs (drop ?n c) (left - ?n) (off + word_of_nat ?n) f1 = Some (s, f'))"
      using 1(3) False r by (auto simp: verify_eeprom_chunks.simps [of h cs c left] Let_def split: bind_splits if_splits)
    then show ?thesis using f1 1(1) [OF False refl r] 1(2) by auto
  qed
qed

lemma held_burn_blocks:
  "keeps_images h \<Longrightarrow> burn_blocks h kk n whole d indx f = Some (s, f') \<Longrightarrow> held f' = held f"
proof (induction n arbitrary: kk d indx f)
  case (Suc n)
  define z where "z = (if qspi_flashing f then (if n \<noteq> 0 then FLASH_BLOCK_SIZE else whole mod FLASH_BLOCK_SIZE) else whole)"
  show ?case
  proof (cases "z = 0")
    case True
    then have "burn_blocks h (Suc kk) n whole d (indx + FLASH_BLOCK_SIZE) f = Some (s, f')"
      using Suc.prems(2) unfolding burn_blocks.simps Let_def z_def [symmetric] by simp
    then show ?thesis by (rule Suc.IH [OF Suc.prems(1)])
  next
    case False
  obtain s1 a where l: "load_data_master_write (fh_boot h) 0x10000 z d (fl_adapter f) = Some (s1, a)"
    using Suc.prems(2) False unfolding burn_blocks.simps Let_def z_def [symmetric] by (auto split: bind_splits)
  let ?f1 = "set_adapter a f" and ?f2 = "snd (trigger_manual_flash_burn h 0x10000 z kk indx (set_adapter a f))"
  have f1: "held ?f1 = held f" using held_bus [OF bus_load [OF l]] by simp
  then have f2: "held ?f2 = held f" using held_trigger_manual [OF Suc.prems(1)] by simp
  have "f' = ?f1 \<or> burn_blocks h (Suc kk) n whole (drop (unat z) d) (indx + FLASH_BLOCK_SIZE) ?f2 = Some (s, f')"
    using Suc.prems(2) False unfolding burn_blocks.simps Let_def z_def [symmetric] l prod.case by (simp split: if_split_asm)
  then show ?thesis using Suc.IH [OF Suc.prems(1)] f1 f2 by auto
  qed
qed simp

lemma held_exit: "flash_exit s f = Some (s', f') \<Longrightarrow> held f = Some (Suc n) \<Longrightarrow> held f' = Some n"
  by (auto simp: flash_exit_def held_def log_def)

lemma held_burn_and_verify:
  assumes "keeps_images h" and "burn_and_verify h d sz indx f = Some (s, f')" and "held f = Some (Suc n)"
  shows "held f' = Some n"
proof -
  obtain s1 f1 where b: "burn_blocks h 0 (unat (sz div FLASH_BLOCK_SIZE) + 1) sz d indx f = Some (s1, f1)"
    and r: "flash_exit ONEBOX_STATUS_FAILURE f1 = Some (s, f') \<or>
      (\<exists>s2 f2 x. verify_eeprom_content h d sz 0 f1 = Some (s2, f2) \<and> flash_exit x f2 = Some (s, f'))"
    using assms(2) unfolding burn_and_verify_def by (auto simp del: burn_blocks.simps split: bind_splits if_split_asm) blast+
  have f1: "held f1 = Some (Suc n)" using held_burn_blocks [OF assms(1) b] assms(3) by simp
  then show ?thesis
    using r held_exit held_verify_chunks [OF assms(1)] unfolding verify_eeprom_content_def by metis
qed

lemma held_calibration:
  assumes "keep_calibration h img f = Some (img', f')"
  shows "held f' = held f \<and> flashing_mode (fl_boot f') = QSPI_FLASHING"
proof -
  obtain s d a where r: "read_flash_content (fh_boot h) (SOC_FLASH_ADDR + word_of_nat CALIB_VALUES_START_ADDR)
      (word_of_nat CALIB_DATA_SIZE) (fl_adapter f) = ((s, d), a)" by (metis prod.exhaust)
  have "f' = f\<lparr>fl_boot := (fl_boot f)\<lparr>bl_common := a, flashing_mode := QSPI_FLASHING\<rparr>\<rparr>"
    using assms r by (auto simp: keep_calibration_def Let_def split: if_split_asm)
  with held_bus [OF bus_opD [OF bus_read_flash r]] show ?thesis by (simp add: held_def)
qed

lemma held_manual_start:
  assumes "manual_start h img sz f = Some (x, f')"
  shows "held f' = held f"
proof -
  obtain cap a where r: "read_flash_capacity (fh_boot h) (fl_adapter f) = (cap, a)" by fastforce
  have "f' = f \<or> f' = set_adapter a f" using assms r by (auto simp: manual_start_def split: bind_splits if_split_asm)
  then show ?thesis using held_bus [OF bus_opD [OF bus_capacity r]] by auto
qed

lemma manual_load_frees:
  assumes "keeps_images h" and "manual_load_flash_content h name f = Some (s, f')" and "held f = Some n"
    and "flashing_mode (fl_boot f) \<notin> {SWBL_FLASHING_NOSBL, SWBL_FLASHING_NOSBL_FILE}"
  shows "held f' = Some n"
proof (cases "bh_firmware (fh_boot h) name")
  case None
  with assms(2,3) show ?thesis by (simp add: manual_load_flash_content_def)
next
  case (Some raw)
  let ?f0 = "set_adapter (log (Get_firmware name) (fl_adapter f)) f" and ?sz = "word_of_nat (length raw) :: u32"
  have f0: "held ?f0 = Some (Suc n)" using assms(3) by (simp add: held_def log_def)
  show ?thesis
  proof (cases "MAX_FLASH_FILE_SIZE < ?sz")
    case True
    with assms(2) Some held_exit [OF _ f0] show ?thesis by (simp add: manual_load_flash_content_def Let_def)
  next
    case False
    obtain img f1 where k: "(if flashing_mode (fl_boot ?f0) = QSPI_UPDATE then keep_calibration h raw ?f0 else Some (raw, ?f0)) = Some (img, f1)"
      and r: "(if flashing_mode (fl_boot f1) = QSPI_FLASHING
             then do { (start, f2) \<leftarrow> manual_start h img ?sz f1;
                       case start of
                         None \<Rightarrow> flash_exit ONEBOX_STATUS_FAILURE f2
                       | Some indx \<Rightarrow> burn_and_verify h img ?sz indx f2 }
             else if flashing_mode (fl_boot f1) = SWBL_FLASHING_NOSBL \<or> flashing_mode (fl_boot f1) = SWBL_FLASHING_NOSBL_FILE
             then do { ((s, data), f2) \<leftarrow> read_calib_data h (drop BL_HEADER img) f1;
                       if s = ONEBOX_STATUS_FAILURE then Some (ONEBOX_STATUS_FAILURE, f2)
                       else burn_and_verify h data (?sz - word_of_nat BL_HEADER) 0 f2 }
             else burn_and_verify h img ?sz 0 f1) = Some (s, f')"
      using assms(2) Some False unfolding manual_load_flash_content_def Let_def option.case
      by (cases "if flashing_mode (fl_boot ?f0) = QSPI_UPDATE then keep_calibration h raw ?f0 else Some (raw, ?f0)") auto
    have f1: "held f1 = Some (Suc n)" and
      mode: "flashing_mode (fl_boot f1) \<notin> {SWBL_FLASHING_NOSBL, SWBL_FLASHING_NOSBL_FILE}"
      using k held_calibration f0 assms(4) by (auto split: if_split_asm)
    show ?thesis
    proof (cases "flashing_mode (fl_boot f1) = QSPI_FLASHING")
      case True
      then obtain start f2 where m: "manual_start h img ?sz f1 = Some (start, f2)"
        and e: "(case start of None \<Rightarrow> flash_exit ONEBOX_STATUS_FAILURE f2 | Some indx \<Rightarrow> burn_and_verify h img ?sz indx f2) = Some (s, f')"
        using r by (auto split: bind_splits)
      have "held f2 = Some (Suc n)" using held_manual_start [OF m] f1 by simp
      with e held_exit held_burn_and_verify [OF assms(1)] show ?thesis by (auto split: option.splits)
    next
      case False
      with r mode held_burn_and_verify [OF assms(1) _ f1] show ?thesis by (auto split: if_split_asm)
    qed
  qed
qed

lemma auto_load_frees:
  assumes "keeps_images h" and "auto_load_flash_content h name f = Some (s, f')" and "held f = Some n"
  shows "held f' = Some n"
proof (cases "bh_firmware (fh_boot h) name")
  case None
  with assms(2,3) show ?thesis by (simp add: auto_load_flash_content_def)
next
  case (Some img)
  let ?f0 = "set_adapter (log (Get_firmware name) (fl_adapter f)) f" and ?sz = "word_of_nat (length img) :: u32"
  have f0: "held ?f0 = Some (Suc n)" using assms(3) by (simp add: held_def log_def)
  have "(\<exists>x. flash_exit x ?f0 = Some (s, f')) \<or>
      (\<exists>start s1 f1. trigger_auto_flash_burn h img ?sz start ?f0 = Some (s1, f1) \<and>
        ((\<exists>x. flash_exit x f1 = Some (s, f')) \<or>
         (\<exists>s2 f2 x. verify_eeprom_content h img ?sz start f1 = Some (s2, f2) \<and> flash_exit x f2 = Some (s, f'))))"
    using assms(2) Some unfolding auto_load_flash_content_def Let_def option.case
    by (simp split: bind_splits if_split_asm prod.splits) blast+
  then show ?thesis
    using f0 held_exit held_trigger_auto [OF assms(1)] held_verify_chunks [OF assms(1)] unfolding verify_eeprom_content_def by metis
qed

lemma flash_by_mode_frees:
  assumes "keeps_images h" and "flash_by_mode h st f = Some (s, f')" and "held f = Some n"
    and "flashing_mode (fl_boot f) \<notin> {SWBL_FLASHING_NOSBL, SWBL_FLASHING_NOSBL_FILE}"
  shows "held f' = Some n"
proof -
  let ?g = "f\<lparr>qspi_flashing := True\<rparr>"
  have g: "held ?g = Some n" "flashing_mode (fl_boot ?g) \<notin> {SWBL_FLASHING_NOSBL, SWBL_FLASHING_NOSBL_FILE}" using assms(3,4) by simp_all
  have "f' = ?g \<or> (\<exists>name. manual_load_flash_content h name ?g = Some (s, f')) \<or>
      (\<exists>name. auto_load_flash_content h name f = Some (s, f'))"
    using assms(2,4) by (auto simp: flash_by_mode_def Let_def split: bind_splits if_split_asm)
  then show ?thesis
    using g manual_load_frees [OF assms(1) _ g] auto_load_frees [OF assms(1) _ assms(3)] by auto
qed

lemma set_fsm_state_fields [simp]:
  "fsm_state (fl_adapter (set_fsm_state x f)) = x" "flashing_mode (fl_boot (set_fsm_state x f)) = flashing_mode (fl_boot f)"
  by (simp_all add: set_fsm_state_def)

section \<open>Success means read back\<close>

text \<open>
  What the driver reads back of the flash: the chunks that the verification asks for, put
  together; \<open>None\<close> when a chunk cannot be read.
\<close>

function read_back :: "flash_host \<Rightarrow> nat \<Rightarrow> nat \<Rightarrow> u32 \<Rightarrow> flasher \<Rightarrow> bytes option" where
  "read_back h cs left off f =
     (if left = 0 \<or> cs = 0 then Some []
      else (let n = min left cs in
            do { (s, f1) \<leftarrow> read_flash_chunk h off (word_of_nat n) f;
                 if s \<noteq> ONEBOX_STATUS_SUCCESS then None
                 else do { got \<leftarrow> mem_slice (DataRcvPacket (fl_adapter f1)) 0 n;
                           rest \<leftarrow> read_back h cs (left - n) (off + word_of_nat n) f1;
                           Some (got @ rest) } }))"
  by pat_completeness auto
termination by (relation "measure (\<lambda>(h, cs, left, off, f). left)") auto

declare read_back.simps [simp del]

lemma verified_reads_back:
  "verify_eeprom_chunks h cs c left off f = Some (s, f') \<Longrightarrow> s \<noteq> ONEBOX_STATUS_FAILURE \<Longrightarrow> 0 < cs \<Longrightarrow>
     s = ONEBOX_STATUS_SUCCESS \<and> read_back h cs left off f = Some (take left c)"
proof (induction h cs c left off f rule: verify_eeprom_chunks.induct)
  case (1 h cs c left off f)
  show ?case
  proof (cases "left = 0")
    case True
    with 1(2) show ?thesis by (simp add: verify_eeprom_chunks.simps read_back.simps)
  next
    case False
    let ?n = "min left cs"
    obtain s1 f1 where r: "read_flash_chunk h off (word_of_nat ?n) f = Some (s1, f1)"
      using 1(2,4) False by (auto simp: verify_eeprom_chunks.simps [of h cs c left] Let_def split: bind_splits)
    have "\<exists>d. s1 = ONEBOX_STATUS_SUCCESS \<and> mem_slice c 0 ?n = Some d \<and>
        mem_slice (DataRcvPacket (fl_adapter f1)) 0 ?n = Some d \<and> verify_eeprom_chunks h cs (drop ?n c) (left - ?n) (off + word_of_nat ?n) f1 = Some (s, f')"
      using 1(2,3,4) False r by (auto simp: verify_eeprom_chunks.simps [of h cs c left] Let_def split: bind_splits if_splits)
    then obtain d where d: "s1 = ONEBOX_STATUS_SUCCESS" "mem_slice c 0 ?n = Some d"
      "mem_slice (DataRcvPacket (fl_adapter f1)) 0 ?n = Some d"
      "verify_eeprom_chunks h cs (drop ?n c) (left - ?n) (off + word_of_nat ?n) f1 = Some (s, f')" by blast
    have nz: "\<not> (left = 0 \<or> cs = 0)" using False 1(4) by simp
    have "s = ONEBOX_STATUS_SUCCESS \<and> read_back h cs (left - ?n) (off + word_of_nat ?n) f1 = Some (take (left - ?n) (drop ?n c))"
      using 1(1) [OF nz refl r] d 1(3,4) by blast
    moreover have "d = take ?n c" using d(2) by (auto simp: mem_slice_def split: if_splits)
    moreover have "take ?n c @ take (left - ?n) (drop ?n c) = take left c"
      by (metis le_add_diff_inverse min.cobounded1 take_add)
    ultimately show ?thesis using r d(1,3) nz by (simp add: read_back.simps [of h cs left] Let_def)
  qed
qed

lemma burn_blocks_status:
  "burn_blocks h kk n whole d indx f = Some (s, f') \<Longrightarrow> s = ONEBOX_STATUS_SUCCESS \<or> s = ONEBOX_STATUS_FAILURE"
  by (induction h kk n whole d indx f rule: burn_blocks.induct) (auto simp: Let_def split: if_splits bind_splits)

abbreviation chunk_of :: "flasher \<Rightarrow> nat" where
  "chunk_of g \<equiv> verify_chunk_size (fl_adapter g)"

text \<open>The image was handed over through the firmware, confirmed, and reads back from its start address.\<close>

definition flashed_automatically :: "flash_host \<Rightarrow> flasher \<Rightarrow> bool" where
  "flashed_automatically h f \<longleftrightarrow>
     (\<exists>name img start g0 g. name_at flash_names (coex_mode (fl_boot f)) = Some name \<and>
        bh_firmware (fh_boot h) name = Some img \<and> rd32 img 16 = Some start \<and>
        trigger_auto_flash_burn h img (word_of_nat (length img)) start g0 = Some (ONEBOX_STATUS_SUCCESS, g) \<and>
        (let n = unat (word_of_nat (length img) :: u32) in read_back h (chunk_of g) n start g = Some (take n img)))"

text \<open>
  The image, in the update mode with other calibration data, was written block by block, and
  reads back from address 0 on.
\<close>

definition flashed_by_hand :: "flash_host \<Rightarrow> flasher \<Rightarrow> bool" where
  "flashed_by_hand h f \<longleftrightarrow>
     (\<exists>name file img indx g0 g. name_at flash_names (coex_mode (fl_boot f)) = Some name \<and>
        bh_firmware (fh_boot h) name = Some file \<and> length img = length file \<and>
        (flashing_mode (fl_boot f) \<noteq> QSPI_UPDATE \<longrightarrow> img = file) \<and>
        (let sz = word_of_nat (length file) :: u32 in
         burn_blocks h 0 (unat (sz div FLASH_BLOCK_SIZE) + 1) sz img indx g0 = Some (ONEBOX_STATUS_SUCCESS, g) \<and>
         read_back h (chunk_of g) (unat sz) 0 g = Some (take (unat sz) img)))"

lemma chunk_positive [simp]: "0 < verify_chunk_size a"
  by (simp add: verify_chunk_size_def)

lemma trigger_auto_status:
  assumes "trigger_auto_flash_burn h c sz off f = Some (s, f')" "s \<noteq> ONEBOX_STATUS_FAILURE"
  shows "s = ONEBOX_STATUS_SUCCESS"
proof -
  obtain f1 where "await_confirms h (num_loops sz (word_of_nat FLASH_WRITE_CHUNK)) f1 = Some (s, f')"
    using assms by (auto simp: trigger_auto_flash_burn_def Let_def split: bind_splits if_splits)
  from await_confirms_keeps [OF this, of "\<lambda>_. True"] assms(2) show ?thesis by simp
qed

lemma auto_load_success:
  assumes "auto_load_flash_content h name f = Some (ONEBOX_STATUS_SUCCESS, f')"
    and "name_at flash_names (coex_mode (fl_boot f)) = Some name"
  shows "flashed_automatically h f"
proof -
  obtain img where i: "bh_firmware (fh_boot h) name = Some img"
    using assms(1) by (auto simp: auto_load_flash_content_def split: option.splits)
  let ?f0 = "set_adapter (log (Get_firmware name) (fl_adapter f)) f" and ?sz = "word_of_nat (length img) :: u32"
  obtain start s1 f1 s2 f2 where r: "rd32 img 16 = Some start" "trigger_auto_flash_burn h img ?sz start ?f0 = Some (s1, f1)"
      "s1 \<noteq> ONEBOX_STATUS_FAILURE" "verify_eeprom_content h img ?sz start f1 = Some (s2, f2)" "s2 \<noteq> ONEBOX_STATUS_FAILURE"
    using assms(1) i unfolding auto_load_flash_content_def Let_def option.case flash_exit_def
    by (auto split: bind_splits if_split_asm)
  have "read_back h (chunk_of f1) (unat ?sz) start f1 = Some (take (unat ?sz) img)"
    using verified_reads_back [OF r(4) [unfolded verify_eeprom_content_def] r(5)] by simp
  with i r(1,2) trigger_auto_status [OF r(2,3)] assms(2) show ?thesis
    unfolding flashed_automatically_def Let_def by metis
qed

lemma burn_and_verify_success:
  assumes "burn_and_verify h d sz indx f = Some (ONEBOX_STATUS_SUCCESS, f')"
  shows "\<exists>g. burn_blocks h 0 (unat (sz div FLASH_BLOCK_SIZE) + 1) sz d indx f = Some (ONEBOX_STATUS_SUCCESS, g) \<and>
     read_back h (chunk_of g) (unat sz) 0 g = Some (take (unat sz) d)"
proof -
  obtain s1 g s2 f2 where r: "burn_blocks h 0 (unat (sz div FLASH_BLOCK_SIZE) + 1) sz d indx f = Some (s1, g)"
      "s1 \<noteq> ONEBOX_STATUS_FAILURE" "verify_eeprom_content h d sz 0 g = Some (s2, f2)" "s2 \<noteq> ONEBOX_STATUS_FAILURE"
    using assms unfolding burn_and_verify_def flash_exit_def by (auto split: bind_splits if_split_asm)
  have "s1 = ONEBOX_STATUS_SUCCESS" using burn_blocks_status [OF r(1)] r(2) by blast
  with r verified_reads_back [OF r(3) [unfolded verify_eeprom_content_def] r(4)] show ?thesis by auto
qed

lemma calibration_kept:
  "keep_calibration h img f = Some (img', f') \<Longrightarrow> length img' = length img \<and> flashing_mode (fl_boot f') = QSPI_FLASHING"
  by (auto simp: keep_calibration_def Let_def split: prod.splits if_splits)

lemma manual_load_success:
  assumes "manual_load_flash_content h name f = Some (ONEBOX_STATUS_SUCCESS, f')"
    and "name_at flash_names (coex_mode (fl_boot f)) = Some name"
    and "flashing_mode (fl_boot f) = QSPI_FLASHING \<or> flashing_mode (fl_boot f) = QSPI_UPDATE"
  shows "flashed_by_hand h f"
proof -
  obtain raw where i: "bh_firmware (fh_boot h) name = Some raw"
    using assms(1) by (auto simp: manual_load_flash_content_def split: option.splits)
  let ?f0 = "set_adapter (log (Get_firmware name) (fl_adapter f)) f" and ?sz = "word_of_nat (length raw) :: u32"
  have small: "\<not> MAX_FLASH_FILE_SIZE < ?sz"
    using assms(1) i by (auto simp: manual_load_flash_content_def flash_exit_def Let_def)
  obtain img f1 where k: "(if flashing_mode (fl_boot ?f0) = QSPI_UPDATE then keep_calibration h raw ?f0 else Some (raw, ?f0)) = Some (img, f1)"
    and r: "(if flashing_mode (fl_boot f1) = QSPI_FLASHING
           then do { (start, f2) \<leftarrow> manual_start h img ?sz f1;
                     case start of
                       None \<Rightarrow> flash_exit ONEBOX_STATUS_FAILURE f2
                     | Some indx \<Rightarrow> burn_and_verify h img ?sz indx f2 }
           else if flashing_mode (fl_boot f1) = SWBL_FLASHING_NOSBL \<or> flashing_mode (fl_boot f1) = SWBL_FLASHING_NOSBL_FILE
           then do { ((s, data), f2) \<leftarrow> read_calib_data h (drop BL_HEADER img) f1;
                     if s = ONEBOX_STATUS_FAILURE then Some (ONEBOX_STATUS_FAILURE, f2)
                     else burn_and_verify h data (?sz - word_of_nat BL_HEADER) 0 f2 }
           else burn_and_verify h img ?sz 0 f1) = Some (ONEBOX_STATUS_SUCCESS, f')"
    using assms(1) i small unfolding manual_load_flash_content_def Let_def option.case
    by (cases "if flashing_mode (fl_boot ?f0) = QSPI_UPDATE then keep_calibration h raw ?f0 else Some (raw, ?f0)") auto
  have m: "flashing_mode (fl_boot f1) = QSPI_FLASHING" "length img = length raw"
      "flashing_mode (fl_boot f) \<noteq> QSPI_UPDATE \<longrightarrow> img = raw"
    using k assms(3) by (auto dest!: calibration_kept split: if_split_asm)
  then obtain indx f2 where "burn_and_verify h img ?sz indx f2 = Some (ONEBOX_STATUS_SUCCESS, f')"
    using r by (auto simp: flash_exit_def split: bind_splits option.splits)
  from burn_and_verify_success [OF this] show ?thesis
    using assms(2) i m(2,3) unfolding flashed_by_hand_def Let_def by blast
qed

lemma flash_by_mode_success:
  assumes "flash_by_mode h st (set_fsm_state x f) = Some (s, f')"
    and "flashing_mode (fl_boot f) \<notin> {SWBL_FLASHING_NOSBL, SWBL_FLASHING_NOSBL_FILE}"
  shows "if Driver_Mode (fl_adapter f) \<noteq> QSPI_FLASHING then s = ONEBOX_STATUS_SUCCESS \<longrightarrow> flashed_automatically h f
      else if flashing_mode (fl_boot f) \<in> {QSPI_FLASHING, QSPI_UPDATE} then s = ONEBOX_STATUS_SUCCESS \<longrightarrow> flashed_by_hand h f
      else s = st"
proof -
  let ?f = "set_fsm_state x f"
  have m: "Driver_Mode (fl_adapter ?f) = Driver_Mode (fl_adapter f)" "coex_mode (fl_boot ?f) = coex_mode (fl_boot f)"
    by (simp_all add: set_fsm_state_def set_adapter_def)
  have auto: "flashed_automatically h ?f = flashed_automatically h f"
    by (simp add: flashed_automatically_def m)
  have hand: "flashed_by_hand h (?f\<lparr>qspi_flashing := True\<rparr>) = flashed_by_hand h f"
    by (simp add: flashed_by_hand_def m)
  show ?thesis
  proof (cases "Driver_Mode (fl_adapter f) = QSPI_FLASHING")
    case False
    then obtain name where "name_at flash_names (coex_mode (fl_boot ?f)) = Some name" "auto_load_flash_content h name ?f = Some (s, f')"
      using assms(1) m by (auto simp: flash_by_mode_def Let_def split: bind_splits)
    with auto_load_success [of h name ?f f'] auto False show ?thesis by auto
  next
    case True
    show ?thesis
    proof (cases "flashing_mode (fl_boot f) = QSPI_FLASHING \<or> flashing_mode (fl_boot f) = QSPI_UPDATE")
      case False
      with True assms m show ?thesis by (auto simp: flash_by_mode_def Let_def)
    next
      case manual: True
      then obtain name where "name_at flash_names (coex_mode (fl_boot ?f)) = Some name"
          "manual_load_flash_content h name (?f\<lparr>qspi_flashing := True\<rparr>) = Some (s, f')"
        using True assms(1) m by (auto simp: flash_by_mode_def Let_def split: bind_splits)
      with manual_load_success [of h name "?f\<lparr>qspi_flashing := True\<rparr>" f'] hand manual True m show ?thesis by auto
    qed
  qed
qed


section \<open>A device that confirms every write\<close>

definition flash_image :: bytes where
  "flash_image = replicate 16 0 @ le32 0x2000 @ [1, 2, 3, 4]"

definition burn_host :: flash_host where
  "burn_host = \<lparr>fh_boot = \<lparr>bh_host = calm_host, bh_expired = (\<lambda>_. False), bh_firmware = (\<lambda>_. Some flash_image),
      bh_usb_reg_read = (\<lambda>_. (0, 0)), bh_usb_reg_write = (\<lambda>_. 0), bh_ta_read = (\<lambda>_. (0, []))\<rparr>,
    fh_wait = (\<lambda>a. (True, write_confirmed a)), fh_meanwhile = (\<lambda>a. a)\<rparr>"

definition waiting_flasher :: "u8 \<Rightarrow> flasher" where
  "waiting_flasher n =
     \<lparr>fl_boot = \<lparr>bl_common = idle_adapter\<lparr>flashing_started := True, flashing_mode_on := True, DataRcvPacket := flash_image,
          eeprom_cfm_count := n\<rparr>, coex_mode = 1, fw_load_mode = FULL_FLASH_SBL, flashing_mode = 0, skip_fw_load = False,
        flash_capacity = 0, lmac_ver = \<lparr>lmac_major = 0, lmac_minor = 0, lmac_release = 0, lmac_patch = 0, fw_ver0 = 0, fw_ver1 = 0\<rparr>\<rparr>,
      eeprom_offset = 0, eeprom_write = False, erase_requested = False, eeprom_erase = False, eeprom_init = False,
      qspi_flashing = False, flash_offset = 0\<rparr>"

lemma burn_host_facts: "only_confirms burn_host" "confirms_one_by_one burn_host" "h_kmalloc (bh_host (fh_boot burn_host)) t"
    "keeps_images burn_host"
proof -
  show "only_confirms burn_host"
    unfolding only_confirms_def burn_host_def by (auto intro: exI [of _ "Suc 0"] exI [of _ 0])
qed (simp_all add: confirms_one_by_one_def keeps_images_def burn_host_def calm_host_def write_confirmed_def log_def)

lemmas burn_eval = trigger_auto_flash_burn_def num_loops_def burn_host_def waiting_flasher_def auto_flash_write_def
  send_flash_frame_def host_intf_write_pkt_def sdio_host_intf_write_pkt_def write_multiple_def calm_host_def idle_adapter_def
  set_length_def set_adapter_def flash_wait_def write_confirmed_def await_confirms.simps mem_slice_def log_def Let_def

lemma burn_host_writes: "\<exists>f'. trigger_auto_flash_burn burn_host [1, 2, 3] 3 0x2000 (waiting_flasher 0) = Some (ONEBOX_STATUS_SUCCESS, f')"
  by (simp add: burn_eval)

theorem auto_burn_writes_image_witness:
  "\<exists>f' ws. trigger_auto_flash_burn burn_host [1, 2, 3] 3 0x2000 (waiting_flasher 0) = Some (ONEBOX_STATUS_SUCCESS, f') \<and>
     burned (trace (fl_adapter f')) = ws \<and> concat (map snd ws) = [1, 2, 3]"
proof -
  obtain f' where r: "trigger_auto_flash_burn burn_host [1, 2, 3] 3 0x2000 (waiting_flasher 0) = Some (ONEBOX_STATUS_SUCCESS, f')"
    using burn_host_writes by blast
  have "unat (3 :: u32) = length [1, 2, 3 :: u8]" "burned (trace (fl_adapter (waiting_flasher 0))) = []"
    by (simp_all add: waiting_flasher_def idle_adapter_def)
  with auto_burn_writes_image [OF burn_host_facts(1) _ r] r show ?thesis by auto
qed

theorem auto_burn_returns_witness:
  "\<exists>s f'. trigger_auto_flash_burn burn_host [1, 2, 3] 3 0x2000 (waiting_flasher 200) = Some (s, f')"
  by (rule auto_burn_returns [OF burn_host_facts(3,2)]) simp_all

lemma flash_image_facts: "rd32 flash_image 16 = Some 0x2000" "length flash_image = 24"
  by code_simp+

lemma burn_host_flashes: "flash_if_started burn_host 0 (waiting_flasher 0) \<noteq> None"
  by (simp add: burn_eval flash_if_started_def flash_by_mode_def set_fsm_state_def name_at_def flash_names_def
      auto_load_flash_content_def flash_image_facts flash_start_ok_def verify_eeprom_content_def verify_eeprom_chunks.simps
      verify_chunk_size_def read_flash_chunk_def flash_read_def flash_exit_def send_flashing_status_def del: not_None_eq)


text \<open>
  The count of the confirmations is never set back. After an upgrade of one chunk the next one of
  one chunk reports success before anything was confirmed.
\<close>

lemma second_upgrade_unconfirmed:
  "\<exists>f'. trigger_auto_flash_burn burn_host [1, 2, 3] 3 0x2000 (waiting_flasher 1) = Some (ONEBOX_STATUS_SUCCESS, f') \<and>
     eeprom_cfm_count (fl_adapter f') = 1"
  by (simp add: burn_eval)

text \<open>
  The length of a whole chunk is lost in the sixteen bits of its word, and the length of its frame
  reaches into the number of the queue.
\<close>

lemma full_chunk_length_lost: "rd16 (auto_flash_frame erase init off 4096 c) 6 = Some 0"
  by (simp add: auto_flash_frame_def Let_def flash_desc_def rd16_append rd16_set_word_above rd16_set_word_below
      rd16_set_word [of 3, simplified])

lemma full_chunk_queue_bits: "length c = 4096 \<Longrightarrow> rd16 (auto_flash_frame erase init off len c) 0 = Some 0x500C"
  by (simp add: auto_flash_frame_def Let_def flash_desc_def rd16_append rd16_set_word [of 0, simplified])

text \<open>Without its calibration data the boot loader image is never freed.\<close>

lemma failed_calibration_leaks:
  assumes "bh_firmware (fh_boot h) name = Some raw" and "length raw \<le> 400 * 1024" and "flashing_mode (fl_boot f) = SWBL_FLASHING_NOSBL_FILE"
    and "bh_firmware (fh_boot h) ''calib_data'' = None" and "held f = Some n"
  shows "\<exists>f'. manual_load_flash_content h name f = Some (ONEBOX_STATUS_FAILURE, f') \<and> held f' = Some (Suc n)"
proof -
  have "\<not> MAX_FLASH_FILE_SIZE < (word_of_nat (length raw) :: u32)"
    using assms(2) by (simp add: word_less_nat_alt unat_of_nat)
  then show ?thesis
    using assms by (simp add: manual_load_flash_content_def read_calib_data_def Let_def held_def log_def)
qed

end
