(* ===== verification/Qspi_Bootup.thy ===== *)
theory Qspi_Bootup
  imports Rx_Delivery Flash_Eeprom Core_Queues
begin

text \<open>
  The boot-up parameters that are sent before the flash is burned
  (\<^verbatim>\<open>onebox_qspi_bootup_params\<close> of \<^verbatim>\<open>onebox_flashing.c\<close> with the tables of
  \<^verbatim>\<open>onebox_qspi_bootup_params.h\<close>): one frame on the queue of the common HAL. The receive
  path takes the function as a parameter and asks of it that it leaves received packets alone;
  it does.
\<close>

section \<open>The parameters\<close>

abbreviation (input) BOOTUP_PARAMETERS_SZ :: nat where "BOOTUP_PARAMETERS_SZ \<equiv> 116"

text \<open>\<^verbatim>\<open>device_clk_info_t\<close>: the PLL settings are those of all three radios.\<close>

definition qspi_clk_info :: "u16 \<Rightarrow> u16 \<Rightarrow> u16 \<Rightarrow> u16 \<Rightarrow> bytes" where
  "qspi_clk_info m_val switches bbp_lmac umac =
     concat (map le16 [push_bit 8 1 OR m_val, 4, push_bit 8 5 OR 0, 0x14, 0, 0x9f0, switches, bbp_lmac, umac, 0])"

definition qspi_boot_params :: "u16 \<Rightarrow> u16 \<Rightarrow> u16 \<Rightarrow> u16 \<Rightarrow> bytes" where
  "qspi_boot_params m_val switches bbp_lmac umac =
     le16 0x5aa5 @ le16 0 @ le32 (0x20 OR 0x40 OR 0x80 OR 0x100 OR 0x2 OR 0x1) @ le32 0 @ concat (replicate 4 (le16 0)) @
     qspi_clk_info m_val switches bbp_lmac umac @ qspi_clk_info m_val 0 0 0 @ qspi_clk_info m_val 0 0 0 @
     le32 0 @ le16 0 @ [0, 0] @ concat (replicate 6 (le32 0)) @ [0, 0, 0, 0]"

definition qspi_boot_params_20 :: bytes where
  "qspi_boot_params_20 = qspi_boot_params 9 (push_bit 3 1) 0x121 0"

definition qspi_boot_params_40 :: bytes where
  "qspi_boot_params_40 = qspi_boot_params 28 (1 OR push_bit 3 1) 0x1121 0x48"

text \<open>
  \<^verbatim>\<open>UMAC_CLK_40BW\<close> and \<^verbatim>\<open>UMAC_CLK_40MHZ\<close>. The field \<^verbatim>\<open>valid\<close> of the
  table for 20 MHz is the constant it is compared with, so the branch for another value is dead.
\<close>

definition qspi_umac_clk :: "bool \<Rightarrow> u16" where
  "qspi_umac_clk wide = (if wide then ((28 + 1) * 40) div ((1 + 1) * (4 + 1)) else 40)"

definition qspi_bootup_frame :: "bool \<Rightarrow> bytes" where
  "qspi_bootup_frame wide =
     flash_desc (word_of_nat BOOTUP_PARAMETERS_SZ OR push_bit 12 ONEBOX_WIFI_MGMT_Q) (ucast BOOTUP_PARAMS_REQUEST) 0 0 0 0
       (qspi_umac_clk wide) @ (if wide then qspi_boot_params_40 else qspi_boot_params_20)"

definition onebox_qspi_bootup_params :: "host \<Rightarrow> bool \<Rightarrow> adapter \<Rightarrow> (u8 \<times> adapter) option" where
  "onebox_qspi_bootup_params h wide a =
     do { (s, a1) \<leftarrow> onebox_coex_mgmt_frame h (qspi_bootup_frame wide) (BOOTUP_PARAMETERS_SZ + FRAME_DESC_SZ) a;
          Some (status_u8 s, a1) }"

section \<open>What it does\<close>

lemma qspi_boot_params_length [simp]: "length (qspi_boot_params m sw b u) = 116"
  by (simp add: qspi_boot_params_def qspi_clk_info_def le16_def le32_def length_concat sum_list_replicate)

lemma qspi_bootup_frame_length: "length (qspi_bootup_frame wide) = 132"
  by (simp add: qspi_bootup_frame_def qspi_boot_params_20_def qspi_boot_params_40_def flash_desc_def)

lemma onebox_qspi_bootup_params_cases:
  obtains (no_memory) "onebox_qspi_bootup_params h wide a = Some (255, a)" "\<not> h_alloc_skb h (trace a)"
  | (queued) "h_alloc_skb h (trace a)" "onebox_qspi_bootup_params h wide a =
      Some (0, coex_sched_pkt_xmit (set_coex_queue COEX_Q
        (netbuf_queue_tail (coex_queues a (unat COEX_Q)) ((fresh_netbuf (qspi_bootup_frame wide))\<lparr>nb_flags := 0x80\<rparr>)) a))"
proof (cases "h_alloc_skb h (trace a)")
  case False
  then show ?thesis by (intro no_memory) (simp_all add: onebox_qspi_bootup_params_def onebox_coex_mgmt_frame_def)
next
  case True
  have "mem_slice (qspi_bootup_frame wide) 0 (BOOTUP_PARAMETERS_SZ + FRAME_DESC_SZ) = Some (qspi_bootup_frame wide)"
    by (simp add: mem_slice_def qspi_bootup_frame_length)
  with True show ?thesis
    by (intro queued) (simp_all add: onebox_qspi_bootup_params_def onebox_coex_mgmt_frame_def coex_queue_at_def)
qed

text \<open>
  The hypothesis of the receive path about this function: it returns, and leaves received packets
  and the receive callbacks alone.
\<close>

lemma qspi_bootup_params_neutral: "\<exists>s a'. onebox_qspi_bootup_params h wide a = Some (s, a') \<and> ledger a' = ledger a"
  by (cases rule: onebox_qspi_bootup_params_cases [of h wide a]) (simp_all add: coex_sched_pkt_xmit_def)

lemma packet_neutral_bootup:
  assumes "packet_neutral P"
  shows "packet_neutral (P\<lparr>p_qspi_bootup_params := \<lambda>a. map_prod uint id (the (onebox_qspi_bootup_params h wide a))\<rparr>)"
proof -
  have "ledger (snd (the (onebox_qspi_bootup_params h wide a))) = ledger a" for a
    using qspi_bootup_params_neutral [of h wide a] by auto
  with assms show ?thesis by (simp add: packet_neutral_def)
qed

end
