(* ===== verification/Radar.thy ===== *)
theory Radar
  imports Mgmt_Command
begin

text \<open>
  Radar detection (\<^verbatim>\<open>onebox_radar.c\<close>). The firmware sends the pulses it saw, each with the
  time since the one before and its width; the driver joins pulses that come too fast, and looks
  for the patterns of the regulatory domain: pulses that repeat at a fixed interval or at two or
  three alternating ones. A found radar is reported to net80211 and the detection turned off.
  The samples are changed in place in the message; an access behind it is a fault, \<open>None\<close>.
\<close>

section \<open>Pulses, patterns and the state\<close>

record pulse =
  p_time :: u16
  p_pw :: "7 word"
  p_debug :: "9 word"

text \<open>\<^verbatim>\<open>struct pulse_sample\<close> is 32 bits, the time in the lowest.\<close>

definition pulse_of :: "u32 \<Rightarrow> pulse" where
  "pulse_of w = \<lparr>p_time = ucast w, p_pw = ucast (drop_bit 16 w), p_debug = ucast (drop_bit 23 w)\<rparr>"

text \<open>A minimum that was found: the interval and the width.\<close>

type_synonym interval = "u16 \<times> 7 word"

definition min_pw :: "u32 list" where
  "min_pw = [0, 0, 4, 8, 40, 0, 0, 0, 0, 0, 0, 0, 17, 0, 0]"

definition max_pw :: "u32 list" where
  "max_pw = [4, 9, 14, 22, 110, 2, 7, 5, 5, 15, 23, 23, 40, 9, 9]"

definition min_pri :: "u32 list" where
  "min_pri = [1428-20, 150-10, 200-10, 200-10, 1000-50, 333-10, 3846-200, 1389-50, 4000-100, 1000-200, 625-31, 250-13, 250-13,
     833-42, 2500-32]"

definition max_pri :: "u32 list" where
  "max_pri = [1428+20, 230+10, 500+10, 500+10, 2000+50, 333+10, 3846+200, 1389+50, 4000+100, 5000+200, 5000+200, 434+20, 500+25,
     2500+50, 3333+167]"

definition min_expected_pulses :: "int list" where
  "min_expected_pulses = [7, 7, 7, 7, 7, 6, 6, 6, 6, 6, 7, 7, 7, 6, 6]"

definition max_allowed_missed_pulses :: "int list" where
  "max_allowed_missed_pulses = [3, 3, 2, 2, 2, 3, 3, 3, 3, 3, 2, 4, 3, 2, 2]"

definition max_burst_length :: "u32 list" where
  "max_burst_length = [18*(1428+20), 29*(230+10), 18*(500+10), 18*(500+10), 4*(2000+100), 9*(333+10), 18*(3846+200), 18*(1389+50),
     18*(4000+100), 18*(5000+200), 18*(5000+200), 18*(434+20), 25*(500+25), 15*(2500+50), 15*(3333+167)]"

text \<open>\<^verbatim>\<open>pri_iteration_depth\<close> is the same for all patterns.\<close>

abbreviation (input) PRI_ITERATION_DEPTH :: nat where "PRI_ITERATION_DEPTH \<equiv> 4"
abbreviation (input) MAX_MULTIPLES :: nat where "MAX_MULTIPLES \<equiv> 10"
abbreviation (input) ETSI_MIN_PRI :: u16 where "ETSI_MIN_PRI \<equiv> 100"
abbreviation (input) LAST_PULSE_INDICATION :: u16 where "LAST_PULSE_INDICATION \<equiv> 0xFFFF"
abbreviation (input) RADAR_REQUEST :: u16 where "RADAR_REQUEST \<equiv> 42"

datatype radar_event = Radar_notify | Set_radar_event | Init_long_timer | Remove_long_timer

text \<open>
  The fields of \<^verbatim>\<open>struct wlan_adapter\<close> and the two global arrays of the file, of ten elements.
  \<^verbatim>\<open>multiples_pri\<close>, the third, is filled anew before each use.
\<close>

record radar =
  r_mgmt :: wlan_mgmt
  r_country :: u16
  r_regdomain :: u16
  staggered_min_pulses :: "u16 list"
  staggered_min_pw :: "u8 list"
  radar_pkt :: bytes
  radar_detected_flag :: bool
  radar_detected :: u16
  long_radar_detected :: u16
  time_stamp_fail :: u16
  no_of_pkts :: u32
  flush_pkts :: u32
  full_pkts :: u32
  large_pulse :: u8
  init_radar_timer :: bool
  radar_log :: "radar_event list"

definition r_wifi :: "radar \<Rightarrow> bool" where
  "r_wifi r \<longleftrightarrow> w_driver_mode (g_wlan (r_mgmt r)) = WIFI_MODE_ON"

definition radar_do :: "radar_event \<Rightarrow> radar \<Rightarrow> radar" where
  "radar_do e r = r\<lparr>radar_log := e # radar_log r\<rparr>"

definition sample :: "pulse list \<Rightarrow> nat \<Rightarrow> pulse option" where
  "sample mem j = (if j < length mem then Some (mem ! j) else None)"

text \<open>The samples a loop over the first \<open>n\<close> reads.\<close>

definition first_samples :: "pulse list \<Rightarrow> nat \<Rightarrow> pulse list option" where
  "first_samples mem n = (if n \<le> length mem then Some (take n mem) else None)"

definition pri_ok :: "nat \<Rightarrow> u16 \<Rightarrow> bool" where
  "pri_ok i t \<longleftrightarrow> min_pri ! i \<le> ucast t \<and> ucast t \<le> max_pri ! i"

definition pw_ok :: "nat \<Rightarrow> 7 word \<Rightarrow> bool" where
  "pw_ok i w \<longleftrightarrow> min_pw ! i \<le> ucast w \<and> ucast w \<le> max_pw ! i"

text \<open>The comparisons with a tolerance: unsigned with the multiples, signed with an interval.\<close>

definition near :: "u32 \<Rightarrow> u32 \<Rightarrow> u16 \<Rightarrow> bool" where
  "near m d t \<longleftrightarrow> m - d \<le> ucast t \<and> ucast t \<le> m + d"

definition near_int :: "int \<Rightarrow> int \<Rightarrow> int \<Rightarrow> bool" where
  "near_int m d t \<longleftrightarrow> m - d \<le> t \<and> t \<le> m + d"

section \<open>The least intervals\<close>

definition next_min_step :: "nat \<Rightarrow> interval \<Rightarrow> bool \<times> interval \<Rightarrow> pulse \<Rightarrow> bool \<times> interval" where
  "next_min_step i least best p =
     (if pri_ok i (p_time p) \<and> pw_ok i (p_pw p) \<and> p_time p < fst (snd best) \<and> \<not> p_time p \<le> fst least
      then (True, (p_time p, p_pw p)) else best)"

definition find_next_min :: "pulse list \<Rightarrow> interval \<Rightarrow> nat \<Rightarrow> interval" where
  "find_next_min ps least i =
     (let (found, best) = foldl (next_min_step i least) (False, (ucast (max_pri ! i), ucast (max_pw ! i))) ps in
      if found then best else least)"

definition get_min_step :: "nat \<Rightarrow> bool \<times> interval \<Rightarrow> pulse \<Rightarrow> bool \<times> interval" where
  "get_min_step i best p =
     (if pri_ok i (p_time p) then (True, if p_time p < fst (snd best) then (p_time p, p_pw p) else snd best) else best)"

definition get_min_pri :: "pulse list \<Rightarrow> nat \<Rightarrow> interval" where
  "get_min_pri ps i =
     (let (found, best) = foldl (get_min_step i) (False, (ucast (max_pri ! i), ucast (max_pw ! i))) ps in
      if found then best else (99, snd best))"

definition populate_multiple_pri :: "u16 \<Rightarrow> u32 list" where
  "populate_multiple_pri t = map (\<lambda>k. word_of_nat (unat t * (k + 1))) [0..<MAX_MULTIPLES]"

text \<open>How often a pulse lies at one of the multiples; the \<open>k\<close>-th multiple counts \<open>k\<close>.\<close>

definition multiple_matches :: "u32 \<Rightarrow> u32 list \<Rightarrow> pulse list \<Rightarrow> nat" where
  "multiple_matches d ms ps =
     sum_list (map (\<lambda>k. (k + 1) * length (filter (\<lambda>p. near (ms ! k) d (p_time p)) ps)) [0..<MAX_MULTIPLES])"

fun optimize_loop :: "nat \<Rightarrow> nat \<Rightarrow> u32 \<Rightarrow> pulse list \<Rightarrow> u32 list \<Rightarrow> interval \<Rightarrow> nat \<Rightarrow> interval option \<Rightarrow>
    interval option \<times> interval" where
  "optimize_loop 0 i d ps ms least most found = (found, least)"
| "optimize_loop (Suc k) i d ps ms least most found =
     (let n = multiple_matches d ms ps;
          better = (6 < n \<and> most < n);
          found' = (if better then Some least else found);
          next_min = find_next_min ps least i in
      if fst next_min = fst least then (found', least)
      else optimize_loop k i d ps (populate_multiple_pri (fst next_min)) next_min (if better then n else most) found')"

text \<open>
  The mean of the pulses around the best interval. The sum of the intervals is a field of 16
  bits. Without any such pulse the width is not set; \<open>junk\<close> is what it holds.
\<close>

definition average_match :: "7 word \<Rightarrow> pulse list \<Rightarrow> nat \<Rightarrow> int \<Rightarrow> interval \<Rightarrow> interval" where
  "average_match junk ps i d best =
     (let sel = filter (\<lambda>p. pw_ok i (p_pw p) \<and> near_int (uint (fst best)) d (uint (p_time p))) ps; n = length sel in
      if n = 0 then (0, junk)
      else (word_of_nat (unat (sum_list (map p_time sel)) div n), word_of_nat (sum_list (map (\<lambda>p. unat (p_pw p)) sel) div n)))"

definition optimize_min_pri :: "7 word \<Rightarrow> pulse list \<Rightarrow> u32 list \<Rightarrow> interval \<Rightarrow> nat \<Rightarrow> interval" where
  "optimize_min_pri junk ps ms least i =
     (let staggered = (i = 13 \<or> i = 14); d = (if staggered then 3 else 10) in
      case optimize_loop (length ps) i (word_of_int d) ps ms least 0 None of
        (None, least') \<Rightarrow> least'
      | (Some best, _) \<Rightarrow> if staggered then best else average_match junk ps i d best)"

section \<open>Staggered patterns\<close>

text \<open>
  Pulses at the interval itself; one that comes more than eight samples after the one before
  does not cnt. The pair is the number and the distance.
\<close>

definition count_spaced :: "u32 \<Rightarrow> pulse list \<Rightarrow> nat" where
  "count_spaced m ps =
     fst (foldl (\<lambda>(n, dist) p.
            let (n, dist) = (if near m 3 (p_time p) then (if 8 < dist then (n, 0) else (n + 1, dist)) else (n, dist)) in
            (n, if n \<noteq> 0 then dist + 1 else dist)) (0, 0 :: nat) ps)"

definition known_interval :: "u16 list \<Rightarrow> nat \<Rightarrow> u16 \<Rightarrow> bool" where
  "known_interval stag depth t \<longleftrightarrow> (\<exists>k<depth. near_int (uint (stag ! k)) 9 (uint t))"

text \<open>
  The loop of \<^verbatim>\<open>check_staggered_pattern\<close>: up to three intervals that occur often enough,
  first at least six times, then five, down to two. It ends as the next interval is either
  greater or the same, which \<open>find_next_min_greater\<close> shows.
\<close>

lemma next_min_fold:
  "foldl (next_min_step i least) (False, b0) ps = (found, best) \<Longrightarrow> found \<Longrightarrow>
     fst least < fst best \<and> (\<exists>p\<in>set ps. best = (p_time p, p_pw p) \<and> pri_ok i (p_time p) \<and> pw_ok i (p_pw p))"
proof (induction ps arbitrary: found best rule: rev_induct)
  case (snoc p ps)
  obtain f b where b: "foldl (next_min_step i least) (False, b0) ps = (f, b)" by (cases "foldl (next_min_step i least) (False, b0) ps")
  show ?case using snoc b by (auto simp: next_min_step_def split: if_split_asm)
qed simp

lemma find_next_min_greater: "fst (find_next_min ps least i) \<noteq> fst least \<Longrightarrow> fst least < fst (find_next_min ps least i)"
  using next_min_fold [of i least _ ps] by (auto simp: find_next_min_def split: prod.splits if_splits)

function staggered_loop :: "nat \<Rightarrow> pulse list \<Rightarrow> interval \<Rightarrow> nat \<Rightarrow> interval \<Rightarrow> nat \<Rightarrow> u16 list \<Rightarrow> u8 list \<Rightarrow>
    nat \<times> u16 list \<times> u8 list" where
  "staggered_loop i ps start expected least depth stag spw =
     (if expected < 2 then (depth, stag, spw)
      else (let add = (expected \<le> count_spaced (ucast (fst least)) ps \<and> \<not> known_interval stag depth (fst least));
                depth' = (if add then depth + 1 else depth);
                stag' = (if add then stag[depth := fst least] else stag);
                spw' = (if add then spw[depth := ucast (snd least)] else spw);
                next_min = find_next_min ps least i in
            if add \<and> 3 \<le> depth' then (depth', stag', spw')
            else if fst next_min = fst least then staggered_loop i ps start (expected - 1) start depth' stag' spw'
            else staggered_loop i ps start expected next_min depth' stag' spw'))"
  by pat_completeness auto
termination
proof (relation "measures [\<lambda>(i, ps, start, expected, least, d, s, w). expected,
    \<lambda>(i, ps, start, expected, least, d, s, w). 65536 - unat (fst least)]", goal_cases)
  case (3 i ps start expected least depth stag spw add depth' stag' spw' next_min)
  then have "fst least < fst next_min" using find_next_min_greater [of ps least i] by simp
  moreover have "unat (fst next_min) < 65536" using unsigned_less [of "fst next_min", where ?'a = nat] by simp
  ultimately show ?case by (simp add: word_less_nat_alt)
qed auto

declare staggered_loop.simps [simp del]

definition check_staggered_pattern :: "pulse list \<Rightarrow> interval \<Rightarrow> nat \<Rightarrow> u16 list \<Rightarrow> u8 list \<Rightarrow> nat \<times> u16 list \<times> u8 list" where
  "check_staggered_pattern ps least i stag spw = staggered_loop i ps least 6 least 0 stag spw"

text \<open>
  A pulse that was split: two neighbours that add up to an interval are joined, and the ones
  behind move down. The sample at \<open>idx\<close> is the one before the pointer; the index \<open>j\<close> that is
  compared with the cnt is a byte. The last access is one behind the cnt. A cnt the byte
  cannot reach makes the loops endless: they run out of the buffer.
\<close>

definition join_at :: "nat \<Rightarrow> nat \<Rightarrow> u16 \<Rightarrow> u8 \<Rightarrow> pulse list \<Rightarrow> pulse list option" where
  "join_at idx cnt t w mem =
     (let n = cnt - 1 - idx mod 256 in
      if 256 < cnt \<or> 0 < n \<and> length mem \<le> idx + 1 + n then None
      else (let moved = take (idx + 1) mem @ take n (drop (idx + 2) mem) @ drop (idx + 1 + n) mem in
            Some (moved[idx := (mem ! idx)\<lparr>p_time := t, p_pw := ucast w\<rparr>])))"

lemma join_at_length: "join_at idx cnt t w mem = Some mem' \<Longrightarrow> length mem' = length mem"
  by (auto simp: join_at_def Let_def split: if_split_asm)

function split_pass :: "u16 \<Rightarrow> u8 \<Rightarrow> nat \<Rightarrow> nat \<Rightarrow> pulse list \<Rightarrow> (nat \<times> pulse list) option" where
  "split_pass t w idx cnt mem =
     (if cnt \<le> idx mod 256 then Some (cnt, mem)
      else do { b \<leftarrow> sample mem (idx + 1); a \<leftarrow> sample mem idx;
                let added = (ucast (p_time b) + ucast (p_time a) :: u32);
                if word_of_int (uint t - 3) < added \<and> added < word_of_int (uint t + 3)
                then do { mem' \<leftarrow> join_at idx cnt t w mem; split_pass t w (idx + 1) (cnt - 1) mem' }
                else split_pass t w (idx + 1) cnt mem })"
  by pat_completeness auto
termination
  by (relation "measure (\<lambda>(t, w, idx, cnt, mem). length mem - idx)")
    (auto simp: sample_def split: if_split_asm dest: join_at_length)

declare split_pass.simps [simp del]

fun split_passes :: "(u16 \<times> u8) list \<Rightarrow> nat \<Rightarrow> pulse list \<Rightarrow> (nat \<times> pulse list) option" where
  "split_passes [] cnt mem = Some (cnt, mem)"
| "split_passes ((t, w) # ss) cnt mem = do { (cnt', mem') \<leftarrow> split_pass t w 0 cnt mem; split_passes ss cnt' mem' }"

text \<open>The loop that prints the samples has a byte as its index, too.\<close>

definition check_split_pulses :: "pulse list \<Rightarrow> int \<Rightarrow> nat \<Rightarrow> u16 list \<Rightarrow> u8 list \<Rightarrow> (int \<times> pulse list) option" where
  "check_split_pulses mem cnt depth stag spw =
     (if cnt \<le> 0 then Some (cnt, mem)
      else do { (n, mem') \<leftarrow> split_passes (take depth (zip stag spw)) (nat cnt) mem;
                if 255 < n then None else Some (int n, mem') })"

text \<open>
  Several pulses that were missed in between: the interval is a sum of the alternating ones, each
  taken up to twice. The third is taken from the array although the pattern may have two.
\<close>

definition check_for_clubbed_pulses :: "u16 \<Rightarrow> u16 list \<Rightarrow> nat" where
  "check_for_clubbed_pulses t stag =
     (let combined = [(a, b, c). a \<leftarrow> [0..<3], b \<leftarrow> [0..<3], c \<leftarrow> (if stag ! 2 \<noteq> 0 then [0..<3] else [0])] in
      case find (\<lambda>(a, b, c). near_int (uint (word_of_nat a * stag ! 0 + word_of_nat b * stag ! 1 + word_of_nat c * stag ! 2)) 3 (uint t)) combined of
        None \<Rightarrow> 0 | Some (a, b, c) \<Rightarrow> a + b + c)"

section \<open>Counting the pulses of a pattern\<close>

record track =
  tk_count :: int
  tk_missed :: int
  tk_cont :: u8
  tk_cons :: u8
  tk_least :: interval

definition tk_reset :: "track \<Rightarrow> track" where
  "tk_reset k = k\<lparr>tk_count := 0, tk_missed := 0, tk_cont := 0, tk_cons := 0\<rparr>"

definition tk_hit :: "nat \<Rightarrow> track \<Rightarrow> track" where
  "tk_hit n k = k\<lparr>tk_count := tk_count k + int n, tk_cont := tk_cont k + word_of_nat n, tk_cons := tk_cons k + 1\<rparr>"

definition tk_miss :: "int \<Rightarrow> track \<Rightarrow> track" where
  "tk_miss n k = k\<lparr>tk_missed := tk_missed k + n\<rparr>"

text \<open>One multiple of each interval; whether the pulse matched.\<close>

fun match_staggered :: "nat \<Rightarrow> pulse \<Rightarrow> (u16 \<times> u8) list \<Rightarrow> track \<Rightarrow> bool \<times> track" where
  "match_staggered y p [] k = (False, k)"
| "match_staggered y p ((t, w) # ss) k =
     (let k1 = k\<lparr>tk_least := (t, ucast w)\<rparr> in
      if near (populate_multiple_pri t ! y) 4 (p_time p)
      then (if near_int (uint (ucast w :: 7 word)) 5 (uint (p_pw p)) then (True, tk_hit (y + 1) k1) else (False, k1))
      else match_staggered y p ss k1)"

fun match_multiples :: "nat list \<Rightarrow> pulse \<Rightarrow> (u16 \<times> u8) list \<Rightarrow> track \<Rightarrow> bool \<times> track" where
  "match_multiples [] p ss k = (False, k)"
| "match_multiples (y # ys) p ss k =
     (let (hit, k1) = match_staggered y p ss k in
      if hit then (True, k1) else if 2 \<le> length ss then (False, k1) else match_multiples ys p ss k1)"

text \<open>
  A pulse whose width fits. The loop over \<^verbatim>\<open>x\<close> runs its body once, for the number of
  intervals that passed, when that is below ten. A division by zero is a fault.
\<close>

definition count_pulse :: "pulse \<Rightarrow> u16 list \<Rightarrow> (u16 \<times> u8) list \<Rightarrow> track \<Rightarrow> track option" where
  "count_pulse p stag ss k =
     (if fst (tk_least k) = 0 then None
      else (let q = unat (p_time p) div unat (fst (tk_least k)); missed = (if q = 0 then 1 else q) in
            if MAX_MULTIPLES \<le> missed \<or> PRI_ITERATION_DEPTH \<le> missed \<and> length ss < 2 then Some (tk_miss (int missed) k)
            else (let (hit, k1) = match_multiples [0..<PRI_ITERATION_DEPTH - 1] p ss k in
                  if hit then Some k1
                  else if length ss < 2 then Some (tk_miss (int missed) k1)
                  else (let v = check_for_clubbed_pulses (p_time p) stag in
                        Some (if v = 0 then tk_miss (int missed) k1 else if v < 5 then tk_hit v k1 else k1)))))"

section \<open>The decision\<close>

definition pattern_found :: "radar \<Rightarrow> radar" where
  "pattern_found r =
     radar_do (if r_wifi r then Radar_notify else Set_radar_event)
       (r\<lparr>radar_detected_flag := True, radar_detected := radar_detected r + 1\<rparr>)"

definition long_found :: "radar \<Rightarrow> radar" where
  "long_found r =
     radar_do Remove_long_timer ((if r_wifi r then radar_do Radar_notify r else r)
       \<lparr>long_radar_detected := long_radar_detected r + 1, radar_detected_flag := True, large_pulse := 0, init_radar_timer := False\<rparr>)"

text \<open>
  After a pulse was counted: whether the loop over the pulses is left, with the track and the
  state. The three ways to be sure are that no pulse was missed, that the intervals follow each other, or
  that the message spans no more than a burst.
\<close>

definition pulse_decision :: "nat \<Rightarrow> u32 \<Rightarrow> track \<Rightarrow> radar \<Rightarrow> bool \<times> track \<times> radar" where
  "pulse_decision i burst k r =
     (let enough = (min_expected_pulses ! i \<le> tk_count k);
          sure = (tk_missed k = 0 \<or> PRI_ITERATION_DEPTH \<le> unat (tk_cont k) \<or> burst \<le> max_burst_length ! i) in
      if max_allowed_missed_pulses ! i < tk_missed k then (False, tk_reset k, r)
      else if enough \<and> tk_cons k < 4 then (False, k, r)
      else if enough \<and> sure then (True, k, pattern_found r)
      else if 8 \<le> large_pulse r then (True, k, long_found r)
      else (False, k, if enough \<and> max_burst_length ! i < burst then r\<lparr>time_stamp_fail := time_stamp_fail r + 1\<rparr> else r))"

text \<open>One pulse against pattern \<open>i\<close>.\<close>

definition pulse_step :: "nat \<Rightarrow> u32 \<Rightarrow> (u16 \<times> u8) list \<Rightarrow> nat \<Rightarrow> pulse \<Rightarrow> track \<Rightarrow> radar \<Rightarrow> (bool \<times> track \<times> radar) option" where
  "pulse_step i burst ss j p k r =
     (if p_time p = 0 \<and> j = 0 then Some (False, k, r)
      else if \<not> pw_ok i (p_pw p)
      then (let k1 = tk_miss 1 k in Some (False, if max_allowed_missed_pulses ! i < tk_missed k1 then tk_reset k1 else k1, r))
      else if \<not> pri_ok i (fst (tk_least k)) then Some (True, tk_reset k, r)
      else do { k1 \<leftarrow> count_pulse p (staggered_min_pulses r) ss k; Some (pulse_decision i burst k1 r) })"

fun scan_pulses :: "nat \<Rightarrow> u32 \<Rightarrow> (u16 \<times> u8) list \<Rightarrow> nat \<Rightarrow> pulse list \<Rightarrow> track \<Rightarrow> radar \<Rightarrow> radar option" where
  "scan_pulses i burst ss j [] k r = Some r"
| "scan_pulses i burst ss j (p # ps) k r =
     do { (leave, k1, r1) \<leftarrow> pulse_step i burst ss j p k r;
          if leave then Some r1 else scan_pulses i burst ss (j + 1) ps k1 r1 }"

section \<open>The samples of a message\<close>

text \<open>All the samples the buffer holds, from byte twenty on.\<close>

definition radar_samples :: "bytes \<Rightarrow> pulse list" where
  "radar_samples msg = map (\<lambda>j. pulse_of (the (rd32 msg (20 + 4 * j)))) [0..<(length msg - 20) div 4]"

text \<open>How many cnt, from sample \<open>j\<close> on, and the sum of their intervals.\<close>

fun count_samples :: "nat \<Rightarrow> nat \<Rightarrow> pulse list \<Rightarrow> u32 \<Rightarrow> (nat \<times> u32) option" where
  "count_samples j 0 mem acc = Some (j, acc)"
| "count_samples j (Suc n) mem acc =
     do { p \<leftarrow> sample mem j;
          if j \<noteq> 0 \<and> p_time p = 0 \<or> p_time p = LAST_PULSE_INDICATION then Some (j, acc)
          else count_samples (j + 1) n mem (acc + ucast (p_time p)) }"

text \<open>
  Pulses after less than 100 microseconds belong to the one before: their intervals are added to
  the next long one, which also takes over the width of its predecessor.
\<close>

fun merge_short :: "bool \<Rightarrow> u16 \<Rightarrow> u16 \<Rightarrow> pulse list \<Rightarrow> pulse list" where
  "merge_short first store_pw store_pri [] = []"
| "merge_short first store_pw store_pri (p # ps) =
     (if p_time p < ETSI_MIN_PRI
      then p # (if first then merge_short True store_pw (store_pri + p_time p) ps else merge_short True (ucast (p_pw p)) store_pri ps)
      else p\<lparr>p_time := p_time p + store_pri, p_pw := ucast (store_pri + store_pw)\<rparr> # merge_short first (ucast (p_pw p)) 0 ps)"

text \<open>The short ones are taken out; the sample behind a removed one is passed over.\<close>

function remove_short :: "nat \<Rightarrow> nat \<Rightarrow> pulse list \<Rightarrow> nat \<times> pulse list" where
  "remove_short j cnt mem =
     (if cnt \<le> j then (cnt, mem)
      else if p_time (mem ! j) < ETSI_MIN_PRI
      then remove_short (j + 1) (cnt - 1) (take j mem @ take (cnt - 1 - j) (drop (j + 1) mem) @ drop (cnt - 1) mem)
      else remove_short (j + 1) cnt mem)"
  by pat_completeness auto
termination by (relation "measure (\<lambda>(j, cnt, mem). cnt - j)") auto

declare remove_short.simps [simp del]

definition join_pulses :: "nat \<Rightarrow> pulse list \<Rightarrow> nat \<times> pulse list" where
  "join_pulses cnt mem =
     (let mem1 = merge_short False 0 0 (take cnt mem) @ drop cnt mem; (cnt2, mem2) = remove_short 0 cnt mem1 in
      remove_short 0 cnt2 mem2)"

text \<open>Long pulses, which the American and the Japanese patterns know: the timer starts at the first.\<close>

definition long_pulse :: "pulse \<Rightarrow> bool" where
  "long_pulse p \<longleftrightarrow> 40 \<le> p_pw p \<and> p_pw p \<le> 100 \<and> 1000 \<le> p_time p \<and> p_time p \<le> 2000"

definition count_long_pulses :: "pulse list \<Rightarrow> radar \<Rightarrow> radar" where
  "count_long_pulses ps r =
     (if list_ex long_pulse ps
      then (let r1 = (if init_radar_timer r then r else radar_do Init_long_timer (r\<lparr>init_radar_timer := True\<rparr>)) in
            r1\<lparr>large_pulse := large_pulse r1 + 1\<rparr>)
      else r)"

section \<open>The request to the firmware, and the detection\<close>

definition onebox_send_radar_req_frame :: "host \<Rightarrow> u8 \<Rightarrow> u8 \<Rightarrow> radar \<Rightarrow> (status \<times> radar) option" where
  "onebox_send_radar_req_frame h req clear r =
     do { (s, m) \<leftarrow> send_mgmt h [mgmt_word0 0, RADAR_REQUEST, 0, 0, ucast req, ucast clear, 0, 0] [] (r_mgmt r);
          Some (s, r\<lparr>r_mgmt := m, radar_detected_flag := (if req \<noteq> 0 then False else radar_detected_flag r)\<rparr>) }"

definition regulatory_domain :: "u16 \<Rightarrow> u16" where
  "regulatory_domain country =
     (if country \<in> {124, 484, 840} then 1 else if country \<in> {56, 250, 276, 380} then 2 else if country = 392 then 3 else 4)"

definition radar_patterns :: "u16 \<Rightarrow> nat list" where
  "radar_patterns domain = (if domain = 1 then [0..<6] else if domain = 3 then [0..<9] else if domain = 2 then [9..<15] else [0])"

text \<open>
  One pattern against the samples: the count, the samples and the state after it. The functions that
  take the count as a byte read as many samples as it says. \<open>junk\<close> is the width of a mean of no pulses.
\<close>

definition pattern_scan :: "7 word \<Rightarrow> u32 \<Rightarrow> nat \<Rightarrow> interval \<Rightarrow> int \<Rightarrow> pulse list \<Rightarrow> pulse list \<Rightarrow> radar \<Rightarrow>
    (int \<times> pulse list \<times> radar) option" where
  "pattern_scan junk burst i least cnt ps mem r =
     do { let (depth, stag, spw) = (if i = 13 \<or> i = 14 then check_staggered_pattern ps least i (staggered_min_pulses r) (staggered_min_pw r)
                                    else (0, staggered_min_pulses r, staggered_min_pw r));
          (cnt', mem') \<leftarrow> check_split_pulses mem cnt depth stag spw;
          ps' \<leftarrow> first_samples mem' (unat (word_of_int cnt' :: u8));
          let best = optimize_min_pri junk ps' (populate_multiple_pri (fst least)) least i;
          let (depth', stag', spw') = (if depth = 0 then (1, stag[0 := fst best], spw[0 := ucast (snd best)]) else (depth, stag, spw));
          all \<leftarrow> first_samples mem' (nat cnt');
          r1 \<leftarrow> scan_pulses i burst (take depth' (zip stag' spw')) 0 all
                 \<lparr>tk_count = 0, tk_missed = 0, tk_cont = 0, tk_cons = 0, tk_least = best\<rparr>
                 (r\<lparr>staggered_min_pulses := stag', staggered_min_pw := spw'\<rparr>);
          Some (cnt', mem', r1) }"

fun scan_patterns :: "host \<Rightarrow> 7 word \<Rightarrow> u32 \<Rightarrow> nat list \<Rightarrow> int \<Rightarrow> pulse list \<Rightarrow> radar \<Rightarrow> (status \<times> radar) option" where
  "scan_patterns h junk burst [] cnt mem r = Some (ONEBOX_STATUS_SUCCESS, r)"
| "scan_patterns h junk burst (i # rest) cnt mem r =
     do { ps \<leftarrow> first_samples mem (unat (word_of_int cnt :: u8));
          let least = get_min_pri ps i;
          if fst least < 100 \<or> 10000 < fst least then scan_patterns h junk burst rest cnt mem r
          else do {
            (cnt', mem', r1) \<leftarrow> pattern_scan junk burst i least cnt ps mem r;
            if radar_detected_flag r1 then onebox_send_radar_req_frame h 0 1 r1
            else scan_patterns h junk burst rest cnt' mem' r1 } }"

text \<open>
  The search in the \<open>n\<close> samples of a message. A count below zero, of a message shorter
  than the time, is left as it is: no loop over the samples runs.
\<close>

definition radar_search :: "host \<Rightarrow> 7 word \<Rightarrow> u32 \<Rightarrow> int \<Rightarrow> nat \<Rightarrow> pulse list \<Rightarrow> radar \<Rightarrow> (status \<times> radar) option" where
  "radar_search h junk burst cnt n mem r =
     (let (n', mem') = join_pulses n mem;
          r1 = (if r_regdomain r = 2 then r else count_long_pulses (take n' mem') r) in
      scan_patterns h junk burst (radar_patterns (r_regdomain r1)) (if cnt < 0 then cnt else int n') mem' r1)"

text \<open>
  The message: at byte 6 whether the device flushed its samples, at byte 16 the time, then the
  samples. 256 bytes of them are copied whatever their number.
\<close>

definition radar_message :: "host \<Rightarrow> 7 word \<Rightarrow> bytes \<Rightarrow> u32 \<Rightarrow> radar \<Rightarrow> (status \<times> radar) option" where
  "radar_message h junk msg len r =
     do { kind \<leftarrow> rd8 msg 6;
          let r1 = (if kind = 0xaa then r\<lparr>flush_pkts := flush_pkts r + 1\<rparr> else r\<lparr>full_pkts := full_pkts r + 1\<rparr>);
          pkt \<leftarrow> mem_slice msg 20 256;
          let cnt = uint (len div 4) - 1;
          rcv \<leftarrow> rd32 msg 16;
          (n, span) \<leftarrow> count_samples 0 (nat cnt) (radar_samples msg) 0;
          let begun = rcv - span;
          radar_search h junk (rcv - begun) cnt n (radar_samples msg) (r1\<lparr>no_of_pkts := no_of_pkts r1 + 1, radar_pkt := pkt\<rparr>) }"

definition onebox_radar_detect_algo :: "host \<Rightarrow> 7 word \<Rightarrow> bytes \<Rightarrow> u32 \<Rightarrow> radar \<Rightarrow> (status \<times> radar) option" where
  "onebox_radar_detect_algo h junk msg len r =
     (let r1 = r\<lparr>radar_detected_flag := False\<rparr>;
          r2 = (if r_wifi r1 then r1\<lparr>r_regdomain := regulatory_domain (r_country r1)\<rparr> else r1) in
      if r_wifi r1 \<and> regulatory_domain (r_country r1) = 4 then onebox_send_radar_req_frame h 0 1 r2
      else radar_message h junk msg len r2)"

text \<open>Twelve seconds after the first long pulse.\<close>

definition radar_timer_callback :: "host \<Rightarrow> radar \<Rightarrow> radar option" where
  "radar_timer_callback h r =
     do { r1 \<leftarrow> (if 5 \<le> large_pulse r
                 then (let r' = (if r_wifi r then radar_do Radar_notify r else r) in
                       map_option snd (onebox_send_radar_req_frame h 0 1 (r'\<lparr>long_radar_detected := long_radar_detected r' + 1\<rparr>)))
                 else Some r);
          Some ((radar_do Remove_long_timer (r1\<lparr>large_pulse := 0\<rparr>))\<lparr>init_radar_timer := False\<rparr>) }"

end
