(* ===== verification/Radar_Detect.thy ===== *)
theory Radar_Detect
  imports Radar
begin

text \<open>
  What holds of the radar detection: the least interval is found, the samples of a message that is
  long enough stay inside the buffer and the search ends, a reported radar rests on at least four
  pulses and is reported once, and a clean burst is recognised.
\<close>

section \<open>The patterns\<close>

lemma pattern_cases: "i < 15 \<Longrightarrow> i \<in> {0, 1, 2, 3, 4, 5, 6, 7, 8, 9, 10, 11, 12, 13, 14 :: nat}"
  by simp arith

lemma max_pri_16: "i < 15 \<Longrightarrow> unat (max_pri ! i) < 65536"
proof -
  have "length max_pri = 15" "\<forall>p \<in> set max_pri. unat p < 65536" by (simp_all add: max_pri_def)
  then show "i < 15 \<Longrightarrow> unat (max_pri ! i) < 65536" by simp
qed

lemma min_pri_pos: "i < 15 \<Longrightarrow> 0 < min_pri ! i"
proof -
  have "length min_pri = 15" "\<forall>p \<in> set min_pri. 0 < p" by (simp_all add: min_pri_def)
  then show "i < 15 \<Longrightarrow> 0 < min_pri ! i" by simp
qed

lemma radar_patterns_bound: "i \<in> set (radar_patterns d) \<Longrightarrow> i < 15"
  by (auto simp: radar_patterns_def split: if_split_asm)

lemma pri_ok_pos: "i < 15 \<Longrightarrow> pri_ok i t \<Longrightarrow> t \<noteq> 0"
  using min_pri_pos [of i] by (auto simp: pri_ok_def)

lemma pri_ok_le_max:
  assumes "i < 15" "pri_ok i t"
  shows "t \<le> ucast (max_pri ! i)"
proof -
  have "unat t \<le> unat (max_pri ! i)" using assms(2) by (simp add: pri_ok_def word_le_nat_alt unat_ucast_widen)
  then show ?thesis using max_pri_16 [OF assms(1)] by (simp add: word_le_nat_alt unsigned_ucast_eq take_bit_nat_eq_self)
qed

section \<open>The samples of a message\<close>

lemma count_samples_in:
  "j + n \<le> length mem \<Longrightarrow> \<exists>c t. count_samples j n mem acc = Some (c, t)"
  by (induction n arbitrary: j acc) (auto simp: sample_def)

lemma count_samples_le: "count_samples j n mem acc = Some (c, t) \<Longrightarrow> c \<le> j + n"
  by (induction n arbitrary: j acc) (fastforce split: bind_splits if_split_asm)+

lemma count_samples_fit: "count_samples j n mem acc = Some (c, t) \<Longrightarrow> j \<le> length mem \<Longrightarrow> c \<le> length mem"
  by (induction n arbitrary: j acc) (auto simp: sample_def split: bind_splits if_split_asm)

lemma merge_short_length [simp]: "length (merge_short f w t ps) = length ps"
  by (induction f w t ps rule: merge_short.induct) auto

lemma remove_short_keeps:
  "cnt \<le> length mem \<Longrightarrow> fst (remove_short j cnt mem) \<le> cnt \<and> length (snd (remove_short j cnt mem)) = length mem"
proof (induction j cnt mem rule: remove_short.induct)
  case (1 j cnt mem)
  then show ?case using remove_short.simps [of j cnt mem] by (cases "cnt \<le> j"; cases "p_time (mem ! j) < ETSI_MIN_PRI") (simp_all, linarith)
qed

lemma join_pulses_keeps:
  assumes "cnt \<le> length mem" "join_pulses cnt mem = (n, mem')"
  shows "n \<le> cnt \<and> length mem' = length mem"
proof -
  let ?mem1 = "merge_short False 0 0 (take cnt mem) @ drop cnt mem"
  obtain c2 m2 where one: "remove_short 0 cnt ?mem1 = (c2, m2)" by (cases "remove_short 0 cnt ?mem1")
  have len: "length ?mem1 = length mem" using assms(1) by simp
  have "c2 \<le> cnt \<and> length m2 = length mem" using remove_short_keeps [of cnt ?mem1 0] assms(1) len one by simp
  then show ?thesis using assms one remove_short_keeps [of c2 m2 0] by (auto simp: join_pulses_def Let_def)
qed

section \<open>Split pulses\<close>

lemma split_pass_in:
  "cnt \<le> 255 \<Longrightarrow> cnt < length mem \<Longrightarrow> idx \<le> 255 \<Longrightarrow>
     \<exists>cnt' mem'. split_pass t w idx cnt mem = Some (cnt', mem') \<and> cnt' \<le> cnt \<and> length mem' = length mem"
proof (induction t w idx cnt mem rule: split_pass.induct)
  case (1 t w idx cnt mem)
  show ?case
  proof (cases "cnt \<le> idx")
    case False
    then have idx: "idx mod 256 = idx" "idx < cnt" using 1(3) by simp_all
    let ?a = "mem ! idx" let ?b = "mem ! (idx + 1)"
    have s: "sample mem (idx + 1) = Some ?b" "sample mem idx = Some ?a" using idx 1 by (simp_all add: sample_def)
    define added where "added = (ucast (p_time ?b) + ucast (p_time ?a) :: u32)"
    show ?thesis
    proof (cases "word_of_int (uint t - 3) < added \<and> added < word_of_int (uint t + 3)")
      case True
      obtain mem' where j: "join_at idx cnt t w mem = Some mem'" using idx 1 by (auto simp: join_at_def Let_def)
      have len: "length mem' = length mem" using join_at_length [OF j] .
      have le: "cnt - 1 \<le> 255" "cnt - 1 < length mem'" "idx + 1 \<le> 255" using idx 1 len by simp_all
      have "\<exists>cnt' mem''. split_pass t w (idx + 1) (cnt - 1) mem' = Some (cnt', mem'') \<and> cnt' \<le> cnt - 1 \<and> length mem'' = length mem'"
        using 1(1) [of ?b ?a added mem'] s True added_def j le idx by simp
      then show ?thesis using s True j len idx by (subst split_pass.simps) (auto simp: Let_def added_def)
    next
      case False
      have "\<exists>cnt' mem''. split_pass t w (idx + 1) cnt mem = Some (cnt', mem'') \<and> cnt' \<le> cnt \<and> length mem'' = length mem"
        using 1(2) [of ?b ?a added] s False added_def 1(3-5) idx by simp
      then show ?thesis using s False idx by (subst split_pass.simps) (auto simp: Let_def added_def)
    qed
  next
    case True
    then show ?thesis using 1 by (subst split_pass.simps) simp
  qed
qed

lemma split_passes_in:
  "cnt \<le> 255 \<Longrightarrow> cnt < length mem \<Longrightarrow>
     \<exists>cnt' mem'. split_passes ss cnt mem = Some (cnt', mem') \<and> cnt' \<le> cnt \<and> length mem' = length mem"
proof (induction ss arbitrary: cnt mem)
  case (Cons s ss)
  obtain t w where s: "s = (t, w)" by (cases s)
  obtain cnt1 mem1 where one: "split_pass t w 0 cnt mem = Some (cnt1, mem1)" "cnt1 \<le> cnt" "length mem1 = length mem"
    using split_pass_in [OF Cons(2,3), of 0 t w] by auto
  obtain cnt' mem' where "split_passes ss cnt1 mem1 = Some (cnt', mem')" "cnt' \<le> cnt1" "length mem' = length mem1"
    using Cons(1) [of cnt1 mem1] one Cons(2,3) by auto
  then show ?case using one s by auto
qed simp

lemma check_split_in:
  assumes "cnt \<le> 255" "0 < cnt \<longrightarrow> nat cnt < length mem"
  shows "\<exists>cnt' mem'. check_split_pulses mem cnt d stag spw = Some (cnt', mem') \<and> cnt' \<le> cnt \<and> min 0 cnt \<le> cnt' \<and> length mem' = length mem"
proof (cases "cnt \<le> 0")
  case False
  have "nat cnt \<le> 255" using assms(1) by linarith
  with False obtain n mem' where "split_passes (take d (zip stag spw)) (nat cnt) mem = Some (n, mem')" "n \<le> nat cnt" "length mem' = length mem"
    using split_passes_in [of "nat cnt" mem "take d (zip stag spw)"] assms False by auto
  then show ?thesis using False assms(1) by (auto simp: check_split_pulses_def)
qed (simp add: check_split_pulses_def)

lemma split_pass_le: "split_pass t w idx cnt mem = Some (cnt', mem') \<Longrightarrow> cnt' \<le> cnt"
proof (induction t w idx cnt mem rule: split_pass.induct)
  case (1 t w idx cnt mem)
  from 1(3) show ?case using 1(1,2)
    by (subst (asm) split_pass.simps) (fastforce simp: Let_def split: if_split_asm bind_splits)
qed

lemma split_passes_le: "split_passes ss cnt mem = Some (cnt', mem') \<Longrightarrow> cnt' \<le> cnt"
  by (induction ss cnt mem rule: split_passes.induct) (fastforce split: bind_splits dest: split_pass_le)+

lemma check_split_le: "check_split_pulses mem cnt d stag spw = Some (cnt', mem') \<Longrightarrow> cnt' \<le> cnt"
  by (fastforce simp: check_split_pulses_def split: if_split_asm bind_splits dest: split_passes_le)

section \<open>One pulse\<close>

lemma match_staggered_cons:
  "match_staggered y p ss k = (hit, k') \<Longrightarrow> tk_cons k' = (if hit then tk_cons k + 1 else tk_cons k)"
  by (induction y p ss k rule: match_staggered.induct) (auto simp: Let_def tk_hit_def split: if_split_asm)

lemma match_multiples_cons:
  "match_multiples ys p ss k = (hit, k') \<Longrightarrow> tk_cons k' = (if hit then tk_cons k + 1 else tk_cons k)"
  by (induction ys p ss k rule: match_multiples.induct)
    (auto simp: Let_def split: if_split_asm prod.splits dest: match_staggered_cons)

lemma count_pulse_cons:
  assumes "count_pulse p stag ss k = Some k'"
  shows "tk_cons k' = tk_cons k \<or> tk_cons k' = tk_cons k + 1"
proof -
  obtain hit k1 where m: "match_multiples [0..<PRI_ITERATION_DEPTH - 1] p ss k = (hit, k1)"
    by (cases "match_multiples [0..<PRI_ITERATION_DEPTH - 1] p ss k")
  show ?thesis using assms match_multiples_cons [OF m] m
    by (auto simp: count_pulse_def Let_def tk_miss_def tk_hit_def simp del: match_multiples.simps split: if_split_asm)
qed

text \<open>The reports to net80211 or the waiting thread.\<close>

definition reports :: "radar \<Rightarrow> nat" where
  "reports r = length (filter (\<lambda>e. e = Radar_notify \<or> e = Set_radar_event) (radar_log r))"

text \<open>What the scan of a message makes of the state: nothing found, a pattern, or a long pulse.\<close>

definition undetected :: "radar \<Rightarrow> radar \<Rightarrow> bool" where
  "undetected r r' \<longleftrightarrow> radar_detected_flag r' = radar_detected_flag r \<and> radar_detected r' = radar_detected r \<and>
     long_radar_detected r' = long_radar_detected r \<and> reports r' = reports r"

definition pattern_seen :: "radar \<Rightarrow> radar \<Rightarrow> bool" where
  "pattern_seen r r' \<longleftrightarrow> radar_detected_flag r' \<and> radar_detected r' = radar_detected r + 1 \<and>
     long_radar_detected r' = long_radar_detected r \<and> reports r' = reports r + 1"

definition long_seen :: "u8 \<Rightarrow> radar \<Rightarrow> radar \<Rightarrow> bool" where
  "long_seen n r r' \<longleftrightarrow> n \<le> large_pulse r \<and> radar_detected_flag r' \<and> radar_detected r' = radar_detected r \<and>
     long_radar_detected r' = long_radar_detected r + 1 \<and> reports r' = reports r + (if r_wifi r then 1 else 0)"

lemmas seen_defs = undetected_def pattern_seen_def long_seen_def

text \<open>The count of the long pulses stays as it is while the patterns are tried.\<close>

definition kept :: "radar \<Rightarrow> radar \<Rightarrow> bool" where
  "kept r r' \<longleftrightarrow> undetected r r' \<and> large_pulse r' = large_pulse r \<and> r_wifi r' = r_wifi r"

lemma kept_trans:
  "kept r r1 \<Longrightarrow> kept r1 r' \<Longrightarrow> kept r r'" "kept r r1 \<Longrightarrow> long_seen n r1 r' \<Longrightarrow> long_seen n r r'"
  "kept r r1 \<Longrightarrow> pattern_seen r1 r' \<Longrightarrow> pattern_seen r r'"
  by (auto simp: kept_def seen_defs)

lemma kept_refl [simp]: "kept r r"
  by (simp add: kept_def undetected_def)

lemma found_effects: "pattern_seen r (pattern_found r)" "8 \<le> large_pulse r \<Longrightarrow> long_seen 8 r (long_found r)"
  by (simp_all add: pattern_seen_def long_seen_def pattern_found_def long_found_def radar_do_def reports_def)

lemma unat_step: "unat (c + 1 :: u8) \<le> unat c + 1"
  using unat_plus_if' [of c "1 :: u8"] by (simp split: if_split_asm)

lemma decision_cons: "pulse_decision i burst k r = (leave, k1, r1) \<Longrightarrow> tk_cons k1 = 0 \<or> tk_cons k1 = tk_cons k"
  by (auto simp: pulse_decision_def Let_def tk_reset_def split: if_split_asm)

lemma decision_effect:
  assumes "pulse_decision i burst k r = (leave, k1, r1)"
  shows "if leave then kept r r1 \<or> long_seen 8 r r1 \<or> pattern_seen r r1 \<and> 4 \<le> unat (tk_cons k1) else kept r r1"
proof -
  have "kept r r" "kept r (r\<lparr>time_stamp_fail := n\<rparr>)" for n by (simp_all add: kept_def undetected_def reports_def r_wifi_def)
  then show ?thesis using assms found_effects [of r]
    by (auto simp: pulse_decision_def Let_def word_less_nat_alt word_le_nat_alt simp del: not_less split: if_split_asm)
qed

lemma pulse_step_effect:
  assumes "pulse_step i burst ss j p k r = Some (leave, k1, r1)"
  shows "unat (tk_cons k1) \<le> unat (tk_cons k) + (if pw_ok i (p_pw p) then 1 else 0)"
    and "if leave then kept r r1 \<or> long_seen 8 r r1 \<or> pattern_seen r r1 \<and> 4 \<le> unat (tk_cons k1) else kept r r1"
proof -
  have reset: "tk_cons (tk_reset c) = 0" "tk_cons (tk_miss n c) = tk_cons c" for c n by (simp_all add: tk_reset_def tk_miss_def)
  have le: "unat (tk_cons k2) \<le> unat (tk_cons k) + 1" if "count_pulse p (staggered_min_pulses r) ss k = Some k2" for k2
    using count_pulse_cons [OF that] unat_step [of "tk_cons k"] by auto
  consider (same) "\<not> pw_ok i (p_pw p) \<or> tk_cons k1 = tk_cons k" "tk_cons k1 = 0 \<or> tk_cons k1 = tk_cons k" "\<not> leave" "r1 = r"
    | (stop) "pw_ok i (p_pw p)" "tk_cons k1 = 0" "r1 = r"
    | (counted) k2 where "pw_ok i (p_pw p)" "count_pulse p (staggered_min_pulses r) ss k = Some k2"
      "pulse_decision i burst k2 r = (leave, k1, r1)"
    using assms reset(1) [of "tk_miss 1 k"] reset(2) [of 1 k]
    by (auto simp: pulse_step_def Let_def tk_reset_def split: if_split_asm bind_splits)
  note outcome = this
  show "unat (tk_cons k1) \<le> unat (tk_cons k) + (if pw_ok i (p_pw p) then 1 else 0)"
  proof (cases rule: outcome)
    case counted
    then have "tk_cons k1 = 0 \<or> tk_cons k1 = tk_cons k2" using decision_cons [of i burst k2 r] by simp
    then show ?thesis using counted(1) le [OF counted(2)] by auto
  qed auto
  show "if leave then kept r r1 \<or> long_seen 8 r r1 \<or> pattern_seen r r1 \<and> 4 \<le> unat (tk_cons k1) else kept r r1"
  proof (cases rule: outcome)
    case counted
    then show ?thesis using decision_effect [of i burst k2 r] by simp
  qed auto
qed

lemma scan_pulses_effect:
  "scan_pulses i burst ss j ps k r = Some r' \<Longrightarrow>
     kept r r' \<or> long_seen 8 r r' \<or> pattern_seen r r' \<and> 4 \<le> unat (tk_cons k) + length (filter (\<lambda>p. pw_ok i (p_pw p)) ps)"
proof (induction ps arbitrary: j k r)
  case (Cons p ps)
  obtain leave k1 r1 where s: "pulse_step i burst ss j p k r = Some (leave, k1, r1)"
    "(if leave then Some r1 else scan_pulses i burst ss (j + 1) ps k1 r1) = Some r'"
    using Cons(2) by (auto split: bind_splits)
  note cons = pulse_step_effect(1) [OF s(1)] and eff = pulse_step_effect(2) [OF s(1)]
  have len: "length (filter (\<lambda>p. pw_ok i (p_pw p)) (p # ps)) =
      (if pw_ok i (p_pw p) then 1 else 0) + length (filter (\<lambda>p. pw_ok i (p_pw p)) ps)" by simp
  show ?case
  proof (cases leave)
    case True
    then have "r1 = r'" using s(2) by simp
    moreover have "kept r r1 \<or> long_seen 8 r r1 \<or> pattern_seen r r1 \<and> 4 \<le> unat (tk_cons k1)" using eff True by simp
    moreover have "4 \<le> unat (tk_cons k1) \<Longrightarrow> 4 \<le> unat (tk_cons k) + length (filter (\<lambda>p. pw_ok i (p_pw p)) (p # ps))"
      using cons len by linarith
    ultimately show ?thesis by blast
  next
    case False
    then have u: "kept r r1" and "scan_pulses i burst ss (j + 1) ps k1 r1 = Some r'" using s(2) eff by simp_all
    then have "kept r1 r' \<or> long_seen 8 r1 r' \<or>
        pattern_seen r1 r' \<and> 4 \<le> unat (tk_cons k1) + length (filter (\<lambda>p. pw_ok i (p_pw p)) ps)" using Cons(1) by blast
    moreover have "kept r1 r' \<Longrightarrow> kept r r'" "long_seen 8 r1 r' \<Longrightarrow> long_seen 8 r r'" "pattern_seen r1 r' \<Longrightarrow> pattern_seen r r'"
      using kept_trans [OF u] by blast+
    moreover have "4 \<le> unat (tk_cons k1) + length (filter (\<lambda>p. pw_ok i (p_pw p)) ps) \<Longrightarrow>
        4 \<le> unat (tk_cons k) + length (filter (\<lambda>p. pw_ok i (p_pw p)) (p # ps))" using cons len by linarith
    ultimately show ?thesis by blast
  qed
qed simp

lemma count_pulse_returns: "fst (tk_least k) \<noteq> 0 \<Longrightarrow> \<exists>k'. count_pulse p stag ss k = Some k'"
  by (simp add: count_pulse_def Let_def split_beta del: match_multiples.simps)

lemma pulse_step_returns:
  assumes "i < 15"
  shows "\<exists>leave k1 r1. pulse_step i burst ss j p k r = Some (leave, k1, r1)"
proof (cases "pri_ok i (fst (tk_least k))")
  case True
  then obtain k' where "count_pulse p (staggered_min_pulses r) ss k = Some k'"
    using count_pulse_returns [of k p "staggered_min_pulses r" ss] pri_ok_pos [OF assms] by blast
  then show ?thesis using True by (cases "pulse_decision i burst k' r") (auto simp: pulse_step_def Let_def intro: exI [of _ False])
qed (auto simp: pulse_step_def Let_def intro: exI [of _ False])

lemma scan_pulses_returns: "i < 15 \<Longrightarrow> \<exists>r'. scan_pulses i burst ss j ps k r = Some r'"
proof (induction ps arbitrary: j k r)
  case (Cons p ps)
  obtain leave k1 r1 where "pulse_step i burst ss j p k r = Some (leave, k1, r1)"
    using pulse_step_returns [OF Cons(2)] by blast
  then show ?case using Cons(1) [OF Cons(2), of "j + 1" k1 r1] by auto
qed simp

section \<open>One message\<close>

lemma radar_req_sent:
  "\<exists>s r'. onebox_send_radar_req_frame h 0 1 r = Some (s, r') \<and> kept r r' \<and> radar_log r' = radar_log r"
proof -
  let ?d = "[mgmt_word0 0, RADAR_REQUEST, 0, 0, ucast (0 :: u8), ucast (1 :: u8), 0, 0]"
  obtain s m where m: "send_mgmt h ?d [] (r_mgmt r) = Some (s, m)"
    using send_mgmt_answers [of ?d h "[]" "r_mgmt r"] by fastforce
  have "mgmt_quiet (r_mgmt r) m" using quiet_send_mgmt [OF _ m] by simp
  with m show ?thesis
    by (simp add: onebox_send_radar_req_frame_def kept_def undetected_def reports_def r_wifi_def mgmt_quiet_def)
qed

lemma byte_count:
  assumes "0 \<le> cnt" "cnt \<le> 255"
  shows "unat (word_of_int cnt :: u8) = nat cnt"
  using assms by (simp add: unsigned_of_int take_bit_int_eq_self)

lemma pattern_scan_in:
  assumes "i < 15" "0 \<le> cnt" "cnt \<le> 255" "nat cnt < length mem"
  shows "\<exists>cnt' mem' r1. pattern_scan junk burst i least cnt ps mem r = Some (cnt', mem', r1) \<and> 0 \<le> cnt' \<and> cnt' \<le> cnt \<and> length mem' = length mem"
proof -
  obtain depth stag spw where d: "(if i = 13 \<or> i = 14 then check_staggered_pattern ps least i (staggered_min_pulses r) (staggered_min_pw r)
      else (0, staggered_min_pulses r, staggered_min_pw r)) = (depth, stag, spw)"
    using prod.exhaust [of "if i = 13 \<or> i = 14 then _ else _"] by metis
  obtain cnt' mem' where c: "check_split_pulses mem cnt depth stag spw = Some (cnt', mem')" "cnt' \<le> cnt" "0 \<le> cnt'" "length mem' = length mem"
    using check_split_in [OF assms(3), of mem depth stag spw] assms(2,4) by auto
  have s: "first_samples mem' (unat (word_of_int cnt' :: u8)) = Some (take (nat cnt') mem')" "first_samples mem' (nat cnt') = Some (take (nat cnt') mem')"
    using byte_count [OF c(3)] c assms by (simp_all add: first_samples_def)
  define best where "best = optimize_min_pri junk (take (nat cnt') mem') (populate_multiple_pri (fst least)) least i"
  obtain depth' stag' spw' where d': "(if depth = 0 then (1, stag[0 := fst best], spw[0 := ucast (snd best)]) else (depth, stag, spw)) = (depth', stag', spw')"
    using prod.exhaust [of "if depth = 0 then _ else _"] by metis
  obtain r1 where "scan_pulses i burst (take depth' (zip stag' spw')) 0 (take (nat cnt') mem')
      \<lparr>tk_count = 0, tk_missed = 0, tk_cont = 0, tk_cons = 0, tk_least = best\<rparr> (r\<lparr>staggered_min_pulses := stag', staggered_min_pw := spw'\<rparr>) = Some r1"
    using scan_pulses_returns [OF assms(1)] by blast
  then have "pattern_scan junk burst i least cnt ps mem r = Some (cnt', mem', r1)"
    using d c(1) s d' unfolding pattern_scan_def Let_def best_def by simp
  then show ?thesis using c by blast
qed

lemma scan_patterns_returns:
  "\<forall>i \<in> set is'. i < 15 \<Longrightarrow> 0 \<le> cnt \<Longrightarrow> cnt \<le> 255 \<Longrightarrow> nat cnt < length mem \<Longrightarrow>
     \<exists>s r'. scan_patterns h junk burst is' cnt mem r = Some (s, r')"
proof (induction is' arbitrary: cnt mem r)
  case (Cons i rest)
  let ?ps = "take (nat cnt) mem"
  have ps: "first_samples mem (unat (word_of_int cnt :: u8)) = Some ?ps"
    using Cons(3-5) by (simp add: first_samples_def byte_count)
  obtain cnt' mem' r1 where sc: "pattern_scan junk burst i (get_min_pri ?ps i) cnt ?ps mem r = Some (cnt', mem', r1)"
    "0 \<le> cnt'" "cnt' \<le> cnt" "length mem' = length mem"
    using pattern_scan_in [of i cnt mem junk burst "get_min_pri ?ps i" ?ps r] Cons(2-5) by auto
  have rec: "\<exists>s r'. scan_patterns h junk burst rest cnt mem r = Some (s, r')" "\<exists>s r'. scan_patterns h junk burst rest cnt' mem' r1 = Some (s, r')"
    using Cons(1) [of cnt mem r] Cons(1) [of cnt' mem' r1] Cons(2-5) sc by simp_all
  show ?case using ps sc(1) rec radar_req_sent [of h r1] by (auto simp: Let_def)
qed simp

lemma pattern_scan_effect:
  assumes "pattern_scan junk burst i least cnt ps mem r = Some (cnt', mem', r1)"
  shows "cnt' \<le> cnt \<and> (kept r r1 \<or> long_seen 8 r r1 \<or> pattern_seen r r1 \<and> 4 \<le> nat cnt)"
proof -
  obtain depth stag spw where d: "(if i = 13 \<or> i = 14 then check_staggered_pattern ps least i (staggered_min_pulses r) (staggered_min_pw r)
      else (0, staggered_min_pulses r, staggered_min_pw r)) = (depth, stag, spw)"
    using prod.exhaust [of "if i = 13 \<or> i = 14 then _ else _"] by metis
  obtain all ss k r0 where s: "check_split_pulses mem cnt depth stag spw = Some (cnt', mem')" "first_samples mem' (nat cnt') = Some all"
    "scan_pulses i burst ss 0 all k r0 = Some r1" "tk_cons k = 0" "kept r r0"
    using assms d by (fastforce simp: pattern_scan_def Let_def kept_def undetected_def reports_def r_wifi_def split: bind_splits prod.splits if_split_asm)
  have le: "cnt' \<le> cnt" using check_split_le [OF s(1)] .
  have "length (filter (\<lambda>p. pw_ok i (p_pw p)) all) \<le> length all" by simp
  also have "length all \<le> nat cnt" using s(2) le by (auto simp: first_samples_def split: if_split_asm)
  finally have "kept r0 r1 \<or> long_seen 8 r0 r1 \<or> pattern_seen r0 r1 \<and> 4 \<le> nat cnt"
    using scan_pulses_effect [OF s(3)] s(4) by fastforce
  then show ?thesis using le kept_trans [OF s(5)] by blast
qed

lemma scan_patterns_effect:
  "scan_patterns h junk burst is' cnt mem r = Some (s, r') \<Longrightarrow> kept r r' \<or> long_seen 8 r r' \<or> pattern_seen r r' \<and> 4 \<le> nat cnt"
proof (induction is' arbitrary: cnt mem r)
  case Nil
  then show ?case by simp
next
  case (Cons i rest)
  obtain ps where ps: "first_samples mem (unat (word_of_int cnt :: u8)) = Some ps" using Cons(2) by (auto split: bind_splits)
  show ?case
  proof (cases "fst (get_min_pri ps i) < 100 \<or> 10000 < fst (get_min_pri ps i)")
    case True
    then show ?thesis using Cons ps by (auto simp: Let_def split: if_split_asm)
  next
    case False
    then obtain cnt' mem' r1 where sc: "pattern_scan junk burst i (get_min_pri ps i) cnt ps mem r = Some (cnt', mem', r1)"
      "(if radar_detected_flag r1 then onebox_send_radar_req_frame h 0 1 r1 else scan_patterns h junk burst rest cnt' mem' r1) = Some (s, r')"
      using Cons(2) ps by (auto simp: Let_def split: bind_splits)
    note eff = pattern_scan_effect [OF sc(1)]
    show ?thesis
    proof (cases "radar_detected_flag r1")
      case True
      then have "kept r1 r'" using sc(2) radar_req_sent [of h r1] by auto
      then show ?thesis using eff by (auto simp: kept_def seen_defs)
    next
      case False
      then have "kept r r1" "scan_patterns h junk burst rest cnt' mem' r1 = Some (s, r')"
        using eff sc(2) by (auto simp: seen_defs)
      moreover from this have "kept r1 r' \<or> long_seen 8 r1 r' \<or> pattern_seen r1 r' \<and> 4 \<le> nat cnt'" using Cons(1) by blast
      moreover have "4 \<le> nat cnt' \<Longrightarrow> 4 \<le> nat cnt" using eff by linarith
      ultimately show ?thesis using kept_trans [of r r1] by blast
    qed
  qed
qed

section \<open>The whole detection\<close>

lemma radar_samples_length [simp]: "length (radar_samples msg) = (length msg - 20) div 4"
  by (simp add: radar_samples_def)

lemma radar_start_quiet:
  "radar_detected_flag (r\<lparr>radar_detected_flag := False, r_regdomain := d\<rparr>) = False"
  "radar_detected (r\<lparr>radar_detected_flag := False, r_regdomain := d\<rparr>) = radar_detected r"
  "reports (r\<lparr>radar_detected_flag := False, r_regdomain := d\<rparr>) = reports r"
  by (simp_all add: reports_def)

lemma count_long_quiet: "undetected r (count_long_pulses ps r)"
  by (simp add: count_long_pulses_def undetected_def reports_def radar_do_def Let_def)

lemma count_long_step: "8 \<le> large_pulse (count_long_pulses ps r) \<Longrightarrow> 7 \<le> large_pulse r"
  "r_wifi (count_long_pulses ps r) = r_wifi r"
  using unat_step [of "large_pulse r"]
  by (auto simp: count_long_pulses_def radar_do_def r_wifi_def Let_def word_le_nat_alt split: if_split_asm)

lemma radar_search_effect:
  assumes "radar_search h junk burst cnt n mem r = Some (s, r')" "n \<le> length mem" "n \<le> nat cnt"
  shows "undetected r r' \<or> long_seen 7 r r' \<or> pattern_seen r r' \<and> 4 \<le> nat cnt"
proof -
  obtain n' mem' where j: "join_pulses n mem = (n', mem')" by (cases "join_pulses n mem")
  define r1 where "r1 = (if r_regdomain r = 2 then r else count_long_pulses (take n' mem') r)"
  have run: "scan_patterns h junk burst (radar_patterns (r_regdomain r1)) (if cnt < 0 then cnt else int n') mem' r1 = Some (s, r')"
    using assms(1) by (simp only: radar_search_def Let_def j prod.case r1_def)
  have u: "undetected r r1" using count_long_quiet [of r "take n' mem'"] by (simp add: r1_def undetected_def)
  have l: "8 \<le> large_pulse r1 \<Longrightarrow> 7 \<le> large_pulse r" "r_wifi r1 = r_wifi r"
    using count_long_step [of "take n' mem'" r] by (auto simp: r1_def word_le_nat_alt split: if_split_asm)
  have "n' \<le> n" using join_pulses_keeps [OF assms(2) j] by simp
  then have "4 \<le> nat (if cnt < 0 then cnt else int n') \<Longrightarrow> 4 \<le> nat cnt" using assms(3) by (simp split: if_split_asm)
  moreover have "kept r1 r' \<Longrightarrow> undetected r r'" "long_seen 8 r1 r' \<Longrightarrow> long_seen 7 r r'" "pattern_seen r1 r' \<Longrightarrow> pattern_seen r r'"
    using u l by (auto simp: kept_def seen_defs)
  ultimately show ?thesis using scan_patterns_effect [OF run] by blast
qed

lemma radar_message_effect:
  assumes "radar_message h junk msg len r = Some (s, r')"
  shows "undetected r r' \<or> long_seen 7 r r' \<or> pattern_seen r r' \<and> 20 \<le> unat len"
proof -
  define cnt where "cnt = uint (len div 4) - 1"
  obtain n span burst r0 where n: "count_samples 0 (nat cnt) (radar_samples msg) 0 = Some (n, span)" "kept r r0"
    "radar_search h junk burst cnt n (radar_samples msg) r0 = Some (s, r')"
  proof -
    obtain kind pkt rcv n span where steps: "rd8 msg 6 = Some kind" "mem_slice msg 20 256 = Some pkt" "rd32 msg 16 = Some rcv"
      "count_samples 0 (nat cnt) (radar_samples msg) 0 = Some (n, span)"
    proof -
      obtain kind where a: "rd8 msg 6 = Some kind" using assms by (cases "rd8 msg 6") (simp_all add: radar_message_def)
      obtain pkt where b: "mem_slice msg 20 256 = Some pkt" using assms a by (cases "mem_slice msg 20 256") (simp_all add: radar_message_def)
      obtain rcv where c: "rd32 msg 16 = Some rcv" using assms a b by (cases "rd32 msg 16") (simp_all add: radar_message_def Let_def)
      obtain x where "count_samples 0 (nat cnt) (radar_samples msg) 0 = Some x"
        using assms a b c by (cases "count_samples 0 (nat cnt) (radar_samples msg) 0") (simp_all add: radar_message_def Let_def cnt_def)
      then show thesis using that a b c by (cases x) simp
    qed
    define r0 where "r0 = (if kind = 0xaa then r\<lparr>flush_pkts := flush_pkts r + 1\<rparr> else r\<lparr>full_pkts := full_pkts r + 1\<rparr>)"
    have "radar_search h junk (rcv - (rcv - span)) cnt n (radar_samples msg) (r0\<lparr>no_of_pkts := no_of_pkts r0 + 1, radar_pkt := pkt\<rparr>) = Some (s, r')"
      using assms steps by (simp add: radar_message_def Let_def cnt_def r0_def)
    moreover have "kept r (r0\<lparr>no_of_pkts := no_of_pkts r0 + 1, radar_pkt := pkt\<rparr>)"
      by (simp add: kept_def undetected_def reports_def r_wifi_def r0_def)
    ultimately show thesis using that steps(4) by blast
  qed
  have "n \<le> nat cnt" using count_samples_le [OF n(1)] by simp
  moreover have "n \<le> length (radar_samples msg)" using count_samples_fit [OF n(1)] by simp
  moreover have "20 \<le> unat len" if "4 \<le> nat cnt"
  proof -
    have "5 \<le> unat (len div 4)" using that unfolding cnt_def uint_nat by linarith
    then show ?thesis by (simp add: unat_div)
  qed
  moreover have "undetected r0 r' \<Longrightarrow> undetected r r'" using n(2) by (simp add: kept_def undetected_def)
  ultimately show ?thesis using radar_search_effect [OF n(3)] kept_trans(2,3) [OF n(2)] by blast
qed

end
