(* ===== verification/Radar_Burst.thy ===== *)
theory Radar_Burst
  imports Radar_Detect
begin

text \<open>
  A clean burst is recognised: pulses that all come after the same interval and have the same
  width, both in the range of a pattern. The joining of short pulses moves each width on to the next pulse.
\<close>

section \<open>The samples of a burst\<close>

lemma ucast_pw [simp]: "ucast (ucast (w :: 7 word) :: u16) = w" "ucast (ucast (w :: 7 word) :: u8) = w"
  by (rule bit_word_eqI, simp add: bit_simps)+

text \<open>A pulse with the interval \<open>t\<close> and the width \<open>w\<close>.\<close>

abbreviation pulse_at :: "u16 \<Rightarrow> 7 word \<Rightarrow> pulse \<Rightarrow> bool" where
  "pulse_at t w p \<equiv> p_time p = t \<and> p_pw p = w"

lemma merge_step:
  assumes "\<not> p_time p < ETSI_MIN_PRI"
  shows "merge_short False s 0 (p # ps) = p\<lparr>p_pw := ucast s\<rparr> # merge_short False (ucast (p_pw p)) 0 ps"
  using assms by (cases p) simp

lemma merge_burst_tail:
  assumes "\<not> t < ETSI_MIN_PRI"
  shows "\<forall>p \<in> set ps. pulse_at t w p \<Longrightarrow> \<forall>p \<in> set (merge_short False (ucast w) 0 ps). pulse_at t w p"
proof (induction ps)
  case (Cons p ps)
  from Cons.prems have p: "p_time p = t" "p_pw p = w" by simp_all
  have "merge_short False (ucast w) 0 (p # ps) = p\<lparr>p_pw := w\<rparr> # merge_short False (ucast w) 0 ps"
    using merge_step [of p "ucast w" ps] assms unfolding p ucast_pw by blast
  moreover have "\<forall>p \<in> set (merge_short False (ucast w) 0 ps). pulse_at t w p" using Cons by (metis list.set_intros(2))
  moreover have "pulse_at t w (p\<lparr>p_pw := w\<rparr>)" using p by simp
  ultimately show ?case by (metis set_ConsD)
qed simp

lemma merge_burst:
  assumes "\<forall>p \<in> set ps. pulse_at t w p" "\<not> t < ETSI_MIN_PRI" "ps \<noteq> []"
  shows "\<exists>q qs. merge_short False 0 0 ps = q # qs \<and> pulse_at t 0 q \<and> (\<forall>p \<in> set qs. pulse_at t w p)"
proof -
  obtain p ps' where ps: "ps = p # ps'" "p_time p = t" "p_pw p = w" using assms(1,3) by (cases ps) auto
  have "merge_short False 0 0 ps = p\<lparr>p_pw := ucast (0 :: u16)\<rparr> # merge_short False (ucast w) 0 ps'"
    using merge_step [of p 0 ps'] assms(2) unfolding ps by blast
  moreover have "pulse_at t 0 (p\<lparr>p_pw := ucast (0 :: u16)\<rparr>)" using ps(2) by simp
  moreover have "\<forall>p \<in> set (merge_short False (ucast w) 0 ps'). pulse_at t w p"
    using merge_burst_tail [OF assms(2), of ps' w] assms(1) unfolding ps(1) list.set by blast
  ultimately show ?thesis by blast
qed

lemma remove_short_none: "\<forall>p \<in> set (take cnt mem). ETSI_MIN_PRI \<le> p_time p \<Longrightarrow> cnt \<le> length mem \<Longrightarrow> remove_short j cnt mem = (cnt, mem)"
proof (induction j cnt mem rule: remove_short.induct)
  case (1 j cnt mem)
  show ?case
  proof (cases "cnt \<le> j")
    case False
    then have "mem ! j \<in> set (take cnt mem)" using 1(4) by (auto simp: in_set_conv_nth intro!: exI [of _ j])
    then have "\<not> p_time (mem ! j) < ETSI_MIN_PRI" using 1(3) by (simp add: not_less)
    then show ?thesis using 1(2-4) False remove_short.simps [of j cnt mem] by simp
  qed (simp add: remove_short.simps [of j cnt mem])
qed

lemma join_burst:
  assumes "\<forall>p \<in> set (take m mem). pulse_at t w p" "\<not> t < ETSI_MIN_PRI" "0 < m" "m \<le> length mem"
  shows "\<exists>mem' q qs. join_pulses m mem = (m, mem') \<and> length mem' = length mem \<and> take m mem' = q # qs \<and> length qs = m - 1 \<and>
           pulse_at t 0 q \<and> (\<forall>p \<in> set qs. pulse_at t w p)"
proof -
  have "take m mem \<noteq> []" using assms(3,4) by auto
  then obtain q qs where m: "merge_short False 0 0 (take m mem) = q # qs" "pulse_at t 0 q" "\<forall>p \<in> set qs. pulse_at t w p"
    using merge_burst [OF assms(1,2)] by blast
  have len: "length (q # qs) = m" using merge_short_length [of False 0 0 "take m mem"] m(1) assms(4) by simp
  let ?mem = "(q # qs) @ drop m mem"
  have "take m ?mem = q # qs" by (simp add: len [symmetric])
  moreover from this have "remove_short 0 m ?mem = (m, ?mem)"
    using remove_short_none [of m ?mem 0] m assms(2,4) len by (auto simp: not_less)
  moreover have "length ?mem = length mem" using len assms(4) by simp
  moreover have "join_pulses m mem = (m, ?mem)" using calculation(2) m(1) by (simp add: join_pulses_def)
  moreover have "length qs = m - 1" using len by simp
  ultimately show ?thesis using m(2,3) by blast
qed

section \<open>Its least interval\<close>

lemma get_min_fold_skip:
  "\<forall>p \<in> set ps. \<not> pri_ok i (p_time p) \<Longrightarrow> foldl (get_min_step i) b ps = b"
  by (induction ps arbitrary: b) (auto simp: get_min_step_def)

lemma get_min_fold_same:
  "\<forall>p \<in> set ps. p_time p = t \<Longrightarrow> pri_ok i t \<Longrightarrow> fst (snd b) = t \<Longrightarrow> fst (snd (foldl (get_min_step i) b ps)) = t"
proof (induction ps arbitrary: b)
  case (Cons p ps)
  then show ?case by (simp add: get_min_step_def)
qed simp

lemma get_min_fold_found: "fst b \<Longrightarrow> fst (foldl (get_min_step i) b ps)"
  by (induction ps arbitrary: b) (auto simp: get_min_step_def)

lemma get_min_burst:
  assumes "\<forall>p \<in> set ps. p_time p = t" "ps \<noteq> []" "i < 15"
  shows "fst (get_min_pri ps i) = (if pri_ok i t then t else 99)"
proof (cases "pri_ok i t")
  case False
  then show ?thesis using get_min_fold_skip [of ps i] assms(1) by (simp add: get_min_pri_def)
next
  case True
  obtain p qs where ps: "ps = p # qs" "p_time p = t" using assms(1,2) by (cases ps) auto
  have "t \<le> ucast (max_pri ! i)" using pri_ok_le_max [OF assms(3) True] .
  then obtain w where first: "get_min_step i (False, ucast (max_pri ! i), ucast (max_pw ! i)) p = (True, t, w)"
    using ps(2) True by (cases "t < ucast (max_pri ! i)") (auto simp: get_min_step_def)
  have "fst (snd (foldl (get_min_step i) (True, t, w) qs)) = t" "fst (foldl (get_min_step i) (True, t, w) qs)"
    using get_min_fold_same [of qs t i "(True, t, w)"] get_min_fold_found [of "(True, t, w)"] ps assms(1) True by auto
  then show ?thesis using True first ps(1) by (simp add: get_min_pri_def split_beta)
qed

lemma next_min_none:
  assumes "\<forall>p \<in> set ps. p_time p = fst least"
  shows "find_next_min ps least i = least"
proof -
  have "foldl (next_min_step i least) b ps = b" for b
    using assms by (induction ps arbitrary: b) (auto simp: next_min_step_def)
  then show ?thesis by (simp add: find_next_min_def)
qed

lemma populate_nth: "k < MAX_MULTIPLES \<Longrightarrow> populate_multiple_pri t ! k = word_of_nat (unat t * (k + 1))"
  by (simp add: populate_multiple_pri_def)

lemma unat_populate:
  assumes "k < MAX_MULTIPLES"
  shows "unat (populate_multiple_pri t ! k) = unat t * (k + 1)"
proof -
  have "unat t * (k + 1) \<le> 65535 * 10"
    using assms unsigned_less [of t, where ?'a = nat] by (intro mult_le_mono) simp_all
  then have "unat (word_of_nat (unat t * (k + 1)) :: u32) = unat t * (k + 1)"
    using take_bit_nat_eq_self [of "unat t * (k + 1)" 32] by (simp only: unsigned_of_nat) simp
  then show ?thesis using assms by (simp only: populate_nth)
qed

lemma near_nat:
  assumes "d \<le> unat m" "unat m < 1000000" "d < 1000"
  shows "near m (word_of_nat d) t \<longleftrightarrow> unat m - d \<le> unat t \<and> unat t \<le> unat m + d"
proof -
  have d: "unat (word_of_nat d :: u32) = d" using assms(3) by (simp add: unsigned_of_nat take_bit_nat_eq_self)
  have sum: "unat (m + word_of_nat d) = unat m + d" using assms d by (simp add: unat_plus_if')
  have diff: "unat (m - word_of_nat d) = unat m - d" using assms d by (simp add: unat_sub word_le_nat_alt)
  show ?thesis by (simp add: near_def word_le_nat_alt unat_ucast_widen sum diff)
qed

lemma multiples_burst:
  assumes "\<forall>p \<in> set ps. p_time p = t" "10 \<le> unat t"
  shows "length ps \<le> multiple_matches 10 (populate_multiple_pri t) ps"
proof -
  have "near (populate_multiple_pri t ! 0) 10 t"
    using near_nat [of 10 "populate_multiple_pri t ! 0" t] unat_populate [of 0 t] assms(2) unsigned_less [of t, where ?'a = nat] by simp
  then have "filter (\<lambda>p. near (populate_multiple_pri t ! 0) 10 (p_time p)) ps = ps" using assms(1) by (simp add: filter_id_conv)
  then have "length ps = (0 + 1) * length (filter (\<lambda>p. near (populate_multiple_pri t ! 0) 10 (p_time p)) ps)" by simp
  also have "\<dots> \<le> multiple_matches 10 (populate_multiple_pri t) ps"
    unfolding multiple_matches_def by (intro member_le_sum_list) (auto intro: image_eqI [of _ _ 0])
  finally show ?thesis .
qed

lemma optimize_burst:
  assumes "\<forall>p \<in> set ps. p_time p = t" "10 \<le> unat t" "7 \<le> length ps" "fst least = t" "i < 13"
  shows "optimize_min_pri junk ps (populate_multiple_pri t) least i = average_match junk ps i 10 least"
proof -
  obtain n where n: "length ps = Suc n" using assms(3) by (cases "length ps") auto
  have "find_next_min ps least i = least" using next_min_none [of ps least i] assms(1,4) by simp
  moreover have "7 \<le> multiple_matches 10 (populate_multiple_pri t) ps" using multiples_burst [OF assms(1,2)] assms(3) by simp
  ultimately show ?thesis using assms(5) n by (simp add: optimize_min_pri_def Let_def)
qed

section \<open>Its mean\<close>

lemma sum_same: "\<forall>p \<in> set ps. f p = (c :: 'a :: semiring_1) \<Longrightarrow> sum_list (map f ps) = of_nat (length ps) * c"
  by (induction ps) (simp_all add: distrib_right)

lemma mean_same:
  assumes "\<forall>p \<in> set ps. p_time p = t" "length ps * unat t < 65536" "ps \<noteq> []"
  shows "word_of_nat (unat (sum_list (map p_time ps)) div length ps) = t"
proof -
  have "unat (sum_list (map p_time ps)) = length ps * unat t"
  proof -
    have "sum_list (map p_time ps) = word_of_nat (length ps * unat t)" using sum_same [of ps p_time t] assms(1) by simp
    then show ?thesis using take_bit_nat_eq_self [of "length ps * unat t" 16] assms(2) by (simp only: unsigned_of_nat) simp
  qed
  then show ?thesis using assms(3) by simp
qed

lemma narrow_pattern: "i < 15 \<Longrightarrow> pw_ok i 0 \<Longrightarrow> unat (max_pw ! i) \<le> 23"
  by (auto dest!: pattern_cases simp: pw_ok_def min_pw_def max_pw_def)

lemma unat_pw: "unat (ucast (w :: 7 word) :: u32) = unat w"
  using unsigned_less [of w, where ?'a = nat] by (simp add: unsigned_ucast_eq take_bit_nat_eq_self)

text \<open>With the width of the first pulse lost, the mean is a little below the width of the others.\<close>

lemma mean_below:
  assumes "(w :: nat) \<le> 23" "7 \<le> n"
  shows "w \<le> n * w div (n + 1) + 5" "n * w div (n + 1) \<le> w"
proof -
  have "(w - 5) * (n + 1) \<le> n * w"
  proof (cases "5 \<le> w")
    case True
    then obtain x where x: "w = x + 5" using le_Suc_ex by (metis add.commute)
    then have "x * (n + 1) \<le> n * (x + 5)" using assms by (simp add: distrib_left distrib_right)
    then show ?thesis using x by simp
  qed simp
  moreover have "(w - 5) * (n + 1) div (n + 1) = w - 5" by (rule nonzero_mult_div_cancel_right) simp
  ultimately have "w - 5 \<le> n * w div (n + 1)" using div_le_mono [of "(w - 5) * (n + 1)" "n * w" "n + 1"] by metis
  then show "w \<le> n * w div (n + 1) + 5" by simp
  have "n * w div (n + 1) \<le> (n + 1) * w div (n + 1)" by (intro div_le_mono) simp
  moreover have "(n + 1) * w div (n + 1) = w" by (rule nonzero_mult_div_cancel_left) simp
  ultimately show "n * w div (n + 1) \<le> w" by metis
qed

lemma average_burst:
  assumes q: "pulse_at t 0 q" and qs: "\<forall>p \<in> set qs. pulse_at t w p" "7 \<le> length qs" "Suc (length qs) * unat t < 65536"
    and i: "i < 15" "pw_ok i w" and least: "fst least = t"
  shows "\<exists>w'. average_match junk (q # qs) i 10 least = (t, w') \<and> near_int (uint w') 5 (uint w)"
proof -
  have t: "near_int (uint t) 10 (uint t)" by (simp add: near_int_def)
  show ?thesis
  proof (cases "pw_ok i 0")
    case True
    let ?n = "length qs" let ?v = "length qs * unat w div (length qs + 1)"
    have "unat w \<le> unat (max_pw ! i)" using i(2) by (simp add: pw_ok_def word_le_nat_alt unat_pw)
    then have w: "unat w \<le> 23" using narrow_pattern [OF i(1) True] by simp
    have v: "unat w \<le> ?v + 5" "?v \<le> unat w" using mean_below [OF w qs(2)] by simp_all
    have sel: "filter (\<lambda>p. pw_ok i (p_pw p) \<and> near_int (uint (fst least)) 10 (uint (p_time p))) (q # qs) = q # qs"
      using True q qs(1) i(2) least t by (auto simp: filter_id_conv)
    have "sum_list (map (\<lambda>p. unat (p_pw p)) (q # qs)) = ?n * unat w"
      using q qs(1) sum_same [of qs "\<lambda>p. unat (p_pw p)" "unat w"] by simp
    moreover have "word_of_nat (unat (sum_list (map p_time (q # qs))) div length (q # qs)) = t"
      using q qs(1,3) by (intro mean_same) simp_all
    ultimately have "average_match junk (q # qs) i 10 least = (t, word_of_nat ?v)"
      unfolding average_match_def sel Let_def by simp
    moreover have "unat (word_of_nat ?v :: 7 word) = ?v"
      using v w take_bit_nat_eq_self [of ?v 7] by (simp only: unsigned_of_nat) simp
    then have "near_int (uint (word_of_nat ?v :: 7 word)) 5 (uint w)" using v by (simp only: near_int_def uint_nat) linarith
    ultimately show ?thesis by blast
  next
    case False
    have sel: "filter (\<lambda>p. pw_ok i (p_pw p) \<and> near_int (uint (fst least)) 10 (uint (p_time p))) (q # qs) = qs"
      using False q qs(1) i(2) least t by (auto simp: filter_id_conv)
    have ne: "qs \<noteq> []" using qs(2) by auto
    have "sum_list (map (\<lambda>p. unat (p_pw p)) qs) = length qs * unat w"
      using qs(1) sum_same [of qs "\<lambda>p. unat (p_pw p)" "unat w"] by simp
    moreover have "word_of_nat (unat (sum_list (map p_time qs)) div length qs) = t"
      using qs(1,3) ne by (intro mean_same) simp_all
    ultimately have "average_match junk (q # qs) i 10 least = (t, w)"
      unfolding average_match_def sel Let_def using ne by simp
    then show ?thesis by (simp add: near_int_def)
  qed
qed

section \<open>Its pulses counted\<close>

lemma multiple_near:
  assumes "10 \<le> unat t" "k < 3"
  shows "near (populate_multiple_pri t ! k) 4 t \<longleftrightarrow> k = 0"
proof -
  have le: "unat t < 65536" using unsigned_less [of t, where ?'a = nat] by simp
  have m: "unat (populate_multiple_pri t ! k) = unat t * (k + 1)" using unat_populate assms(2) by simp
  consider "k = 0" | "k = 1" | "k = 2" using assms(2) by linarith
  then have "4 \<le> unat t * (k + 1) \<and> unat t * (k + 1) < 1000000 \<and>
      (unat t * (k + 1) - 4 \<le> unat t \<and> unat t \<le> unat t * (k + 1) + 4 \<longleftrightarrow> k = 0)"
    using le assms(1) by cases simp_all
  then show ?thesis using near_nat [of 4 "populate_multiple_pri t ! k" t] m by simp
qed

lemma least_kept: "tk_least k = x \<Longrightarrow> k\<lparr>tk_least := x\<rparr> = k"
  by (cases k) simp

lemma burst_quotient: "10 \<le> unat t \<Longrightarrow> t \<noteq> 0 \<and> unat t div unat t = 1"
  by auto

lemma three_multiples: "[0..<PRI_ITERATION_DEPTH - 1] = [0, 1, 2]"
  by code_simp

lemma count_hit:
  assumes "tk_least k = (t, w')" "p_time p = t" "near_int (uint w') 5 (uint (p_pw p))" "10 \<le> unat t"
  shows "count_pulse p stag [(t, ucast w')] k = Some (tk_hit 1 k)"
proof -
  have "match_staggered 0 p [(t, ucast w')] k = (True, tk_hit 1 (k\<lparr>tk_least := (t, w')\<rparr>))"
    using assms multiple_near [of t 0] by simp
  then have "match_multiples [0, 1, 2] p [(t, ucast w')] k = (True, tk_hit 1 k)"
    unfolding least_kept [OF assms(1)] by (simp del: match_staggered.simps)
  then show ?thesis using assms burst_quotient [of t] three_multiples by (simp add: count_pulse_def Let_def del: match_multiples.simps)
qed

lemma count_miss:
  assumes "tk_least k = (t, w')" "p_time p = t" "\<not> near_int (uint w') 5 (uint (p_pw p))" "10 \<le> unat t"
  shows "count_pulse p stag [(t, ucast w')] k = Some (tk_miss 1 k)"
proof -
  have "match_staggered y p [(t, ucast w')] k = (False, k\<lparr>tk_least := (t, w')\<rparr>)" if "y < 3" for y
    using assms multiple_near [of t y] that by (simp add: Let_def)
  then have "match_staggered y p [(t, ucast w')] k = (False, k)" if "y < 3" for y
    using that unfolding least_kept [OF assms(1)] by blast
  then have "match_multiples [0, 1, 2] p [(t, ucast w')] k = (False, k)"
    by (simp del: match_staggered.simps)
  then show ?thesis using assms burst_quotient [of t] three_multiples by (simp add: count_pulse_def Let_def del: match_multiples.simps)
qed

section \<open>Its detection\<close>

lemma pattern_bounds:
  assumes "i < 15"
  shows "6 \<le> min_expected_pulses ! i \<and> min_expected_pulses ! i \<le> 7" "2 \<le> max_allowed_missed_pulses ! i" "137 \<le> unat (min_pri ! i)"
    "unat (max_pri ! i) \<le> 5200"
  using pattern_cases [OF assms] by (auto simp: min_expected_pulses_def max_allowed_missed_pulses_def min_pri_def max_pri_def)

lemma pri_range:
  assumes "i < 15" "pri_ok i t"
  shows "137 \<le> unat t" "unat t \<le> 5200"
  using pattern_bounds [OF assms(1)] assms(2) by (auto simp: pri_ok_def word_le_nat_alt unat_ucast_widen)

text \<open>After \<open>c\<close> pulses that fit and at most one that did not.\<close>

definition counted :: "nat \<Rightarrow> interval \<Rightarrow> track \<Rightarrow> bool" where
  "counted c least k \<longleftrightarrow> tk_count k = int c \<and> unat (tk_cont k) = c \<and> unat (tk_cons k) = c \<and> tk_missed k \<in> {0, 1} \<and> tk_least k = least"

lemma counted_hit:
  assumes "counted c least k" "c < 7"
  shows "counted (c + 1) least (tk_hit 1 k)"
proof -
  have "unat (x + 1 :: u8) = unat x + 1" if "unat x < 7" for x using that unat_plus_if' [of x "1 :: u8"] by simp
  then show ?thesis using assms by (simp add: counted_def tk_hit_def)
qed

lemma burst_pulse_step:
  assumes "counted c (t, w') k" "c < 7" "p_time p = t" "near_int (uint w') 5 (uint (p_pw p))" "pw_ok i (p_pw p)" "pri_ok i t" "i < 15"
    "large_pulse r < 8"
  shows "pulse_step i burst [(t, ucast w')] j p k r =
     Some (if min_expected_pulses ! i \<le> int c + 1 then (True, tk_hit 1 k, pattern_found r) else (False, tk_hit 1 k, r))"
proof -
  note c = counted_hit [OF assms(1,2)]
  have hit: "count_pulse p (staggered_min_pulses r) [(t, ucast w')] k = Some (tk_hit 1 k)"
    using assms pri_range [OF assms(7,6)] by (intro count_hit) (auto simp: counted_def)
  have t: "p_time p \<noteq> 0" "pri_ok i (fst (tk_least k))" using assms(1,3,6) pri_range [OF assms(7,6)] by (auto simp: counted_def)
  have "pulse_decision i burst (tk_hit 1 k) r =
     (if min_expected_pulses ! i \<le> int c + 1 then (True, tk_hit 1 k, pattern_found r) else (False, tk_hit 1 k, r))"
  proof -
    have missed: "\<not> max_allowed_missed_pulses ! i < tk_missed (tk_hit 1 k)" using c pattern_bounds [OF assms(7)] by (auto simp: counted_def)
    have cnt: "tk_count (tk_hit 1 k) = int c + 1" "unat (tk_cont (tk_hit 1 k)) = c + 1" "unat (tk_cons (tk_hit 1 k)) = c + 1"
      using c by (simp_all add: counted_def)
    show ?thesis
    proof (cases "min_expected_pulses ! i \<le> int c + 1")
      case True
      then have "4 \<le> c + 1" using pattern_bounds(1) [OF assms(7)] by linarith
      then have "\<not> tk_cons (tk_hit 1 k) < 4" "4 \<le> unat (tk_cont (tk_hit 1 k))" using cnt by (simp_all add: word_less_nat_alt)
      then show ?thesis using missed cnt(1) True by (simp add: pulse_decision_def Let_def)
    next
      case False
      then show ?thesis using missed cnt(1) assms(8) by (simp add: pulse_decision_def Let_def not_le)
    qed
  qed
  then show ?thesis using hit t assms(5) by (simp add: pulse_step_def)
qed

lemma burst_scan:
  assumes "i < 15" "pri_ok i t" "pw_ok i w" "near_int (uint w') 5 (uint w)" "large_pulse r < 8"
  shows "\<forall>p \<in> set ps. pulse_at t w p \<Longrightarrow> counted c (t, w') k \<Longrightarrow> int c < min_expected_pulses ! i \<Longrightarrow> 7 \<le> c + length ps \<Longrightarrow>
     scan_pulses i burst [(t, ucast w')] j ps k r = Some (pattern_found r)"
proof (induction ps arbitrary: c k j)
  case Nil
  then show ?case using pattern_bounds [OF assms(1)] by simp
next
  case (Cons p ps)
  have c: "c < 7" using Cons(4) pattern_bounds [OF assms(1)] by linarith
  have p: "p_time p = t" "p_pw p = w" using Cons(2) by simp_all
  have step: "pulse_step i burst [(t, ucast w')] j p k r =
     Some (if min_expected_pulses ! i \<le> int c + 1 then (True, tk_hit 1 k, pattern_found r) else (False, tk_hit 1 k, r))"
    using burst_pulse_step [OF Cons(3) c p(1)] assms p by simp
  show ?case
  proof (cases "min_expected_pulses ! i \<le> int c + 1")
    case False
    have "scan_pulses i burst [(t, ucast w')] (j + 1) ps (tk_hit 1 k) r = Some (pattern_found r)"
    proof (rule Cons(1))
      show "counted (c + 1) (t, w') (tk_hit 1 k)" using counted_hit [OF Cons(3) c] .
    qed (use Cons(2,5) False in auto)
    then show ?thesis using step False by simp
  qed (use step in simp)
qed

text \<open>The first pulse, whose width was lost, either fits as well or is one missed pulse.\<close>

lemma burst_first:
  assumes "i < 15" "pri_ok i t" "large_pulse r < 8" "pulse_at t 0 q"
    "k = \<lparr>tk_count = 0, tk_missed = 0, tk_cont = 0, tk_cons = 0, tk_least = (t, w')\<rparr>"
  shows "\<exists>c k1. pulse_step i burst [(t, ucast w')] 0 q k r = Some (False, k1, r) \<and> c \<le> 1 \<and> counted c (t, w') k1"
proof -
  have k: "counted 0 (t, w') k" using assms(5) by (simp add: counted_def)
  have miss: "counted 0 (t, w') (tk_miss 1 k)" using assms(5) by (simp add: counted_def tk_miss_def)
  have t: "p_time q \<noteq> 0" "10 \<le> unat t" "tk_least k = (t, w')" using assms pri_range [OF assms(1,2)] by auto
  note bounds = pattern_bounds [OF assms(1)]
  show ?thesis
  proof (cases "pw_ok i 0")
    case False
    have "\<not> max_allowed_missed_pulses ! i < tk_missed (tk_miss 1 k)" using bounds(2) assms(5) by (simp add: tk_miss_def)
    then have "pulse_step i burst [(t, ucast w')] 0 q k r = Some (False, tk_miss 1 k, r)"
      using False t(1) assms(4) by (simp add: pulse_step_def Let_def)
    then show ?thesis using miss by blast
  next
    case True
    show ?thesis
    proof (cases "near_int (uint w') 5 0")
      case fits: True
      have "pulse_step i burst [(t, ucast w')] 0 q k r = Some (False, tk_hit 1 k, r)"
        using burst_pulse_step [OF k, of q i r burst 0] assms True fits bounds(1) by simp
      then show ?thesis using counted_hit [OF k] by force
    next
      case False
      have "count_pulse q (staggered_min_pulses r) [(t, ucast w')] k = Some (tk_miss 1 k)"
        using count_miss [of k t w' q] t assms(4) False by simp
      moreover have "pulse_decision i burst (tk_miss 1 k) r = (False, tk_miss 1 k, r)"
        using bounds assms(3,5) by (auto simp: pulse_decision_def tk_miss_def Let_def)
      ultimately have "pulse_step i burst [(t, ucast w')] 0 q k r = Some (False, tk_miss 1 k, r)"
        using True t assms(2,4) by (simp add: pulse_step_def)
      then show ?thesis using miss by blast
    qed
  qed
qed

lemma burst_pattern_scan:
  assumes i: "i < 13" "pri_ok i t" "pw_ok i w"
    and mem: "take m mem = q # qs" "m \<le> length mem" "m \<le> 255" "pulse_at t 0 q" "\<forall>p \<in> set qs. pulse_at t w p" "7 \<le> length qs"
      "Suc (length qs) * unat t < 65536"
    and least: "fst least = t"
    and r: "large_pulse r < 8" "staggered_min_pulses r \<noteq> []" "staggered_min_pw r \<noteq> []"
  shows "\<exists>r1. pattern_scan junk burst i least (int m) (q # qs) mem r = Some (int m, mem, r1) \<and> pattern_seen r r1"
proof -
  have i15: "i < 15" "\<not> (i = 13 \<or> i = 14)" using i(1) by simp_all
  obtain w' where best: "average_match junk (q # qs) i 10 least = (t, w')" "near_int (uint w') 5 (uint w)"
    using average_burst [OF mem(4,5,6,7) i15(1) i(3) least] by blast
  have all: "\<forall>p \<in> set (q # qs). p_time p = t" using mem(4,5) by simp
  have opt: "optimize_min_pri junk (q # qs) (populate_multiple_pri t) least i = (t, w')"
    using optimize_burst [OF all _ _ least i(1)] pri_range [OF i15(1) i(2)] mem(6) best(1) by simp
  have split: "check_split_pulses mem (int m) 0 stag spw = Some (int m, mem)" for stag spw
    using mem(3) by (simp add: check_split_pulses_def)
  have taken: "first_samples mem (unat (word_of_int (int m) :: u8)) = Some (q # qs)" "first_samples mem (nat (int m)) = Some (q # qs)"
    using mem(1-3) byte_count [of "int m"] by (simp_all add: first_samples_def)
  obtain s0 ss v0 vs where stag: "staggered_min_pulses r = s0 # ss" "staggered_min_pw r = v0 # vs"
    using r(2,3) by (metis neq_Nil_conv)
  define r0 where "r0 = r\<lparr>staggered_min_pulses := t # ss, staggered_min_pw := ucast w' # vs\<rparr>"
  define k where "k = \<lparr>tk_count = 0, tk_missed = 0, tk_cont = 0, tk_cons = 0, tk_least = (t, w')\<rparr>"
  have large: "large_pulse r0 < 8" using r(1) by (simp add: r0_def)
  obtain c k1 where first: "pulse_step i burst [(t, ucast w')] 0 q k r0 = Some (False, k1, r0)" "c \<le> 1" "counted c (t, w') k1"
    using burst_first [OF i15(1) i(2) large mem(4) k_def] by blast
  have "scan_pulses i burst [(t, ucast w')] (0 + 1) qs k1 r0 = Some (pattern_found r0)"
    using burst_scan [OF i15(1) i(2,3) best(2) large mem(5) first(3)] first(2) pattern_bounds(1) [OF i15(1)] mem(6) by simp
  then have "scan_pulses i burst [(t, ucast w')] 0 (q # qs) k r0 = Some (pattern_found r0)" using first(1) by simp
  then have "pattern_scan junk burst i least (int m) (q # qs) mem r = Some (int m, mem, pattern_found r0)"
    using i15(2) split taken opt least unfolding pattern_scan_def
    by (simp add: Let_def stag r0_def k_def del: scan_pulses.simps)
  moreover have "pattern_seen r (pattern_found r0)" using found_effects(1) [of r0] by (simp add: pattern_seen_def r0_def reports_def)
  ultimately show ?thesis by blast
qed

lemma burst_scan_patterns:
  assumes i: "i < 13" "pri_ok i t" "pw_ok i w"
    and mem: "take m mem = q # qs" "m \<le> length mem" "m \<le> 255" "pulse_at t 0 q" "\<forall>p \<in> set qs. pulse_at t w p" "7 \<le> length qs"
      "Suc (length qs) * unat t < 65536"
    and r: "large_pulse r < 8" "staggered_min_pulses r \<noteq> []" "staggered_min_pw r \<noteq> []"
  shows "\<forall>j \<in> set before. j < 15 \<and> \<not> pri_ok j t \<Longrightarrow>
     \<exists>s r1. scan_patterns h junk burst (before @ i # rest) (int m) mem r = Some (s, r1) \<and> pattern_seen r r1"
proof (induction before)
  case Nil
  have taken: "first_samples mem (unat (word_of_int (int m) :: u8)) = Some (q # qs)"
    using mem(1-3) byte_count [of "int m"] by (simp add: first_samples_def)
  have least: "fst (get_min_pri (q # qs) i) = t"
    using get_min_burst [of "q # qs" t i] mem(4,5) i by simp
  have range: "\<not> (t < 100 \<or> 10000 < t)"
    using pri_range [of i t] i by (simp add: word_less_nat_alt)
  obtain r1 where r1: "pattern_scan junk burst i (get_min_pri (q # qs) i) (int m) (q # qs) mem r = Some (int m, mem, r1)" "pattern_seen r r1"
    using burst_pattern_scan [OF i mem least r] by blast
  obtain s r2 where r2: "onebox_send_radar_req_frame h 0 1 r1 = Some (s, r2)" "undetected r1 r2"
    using radar_req_sent [of h r1] by (auto simp: kept_def)
  have "scan_patterns h junk burst ([] @ i # rest) (int m) mem r = Some (s, r2)"
    using taken least range r1 r2(1) by (simp add: Let_def pattern_seen_def)
  moreover have "pattern_seen r r2" using r1(2) r2(2) by (simp add: seen_defs)
  ultimately show ?case by blast
next
  case (Cons j before)
  have taken: "first_samples mem (unat (word_of_int (int m) :: u8)) = Some (q # qs)"
    using mem(1-3) byte_count [of "int m"] by (simp add: first_samples_def)
  have "fst (get_min_pri (q # qs) j) = 99" using get_min_burst [of "q # qs" t j] mem(4,5) Cons(2) by simp
  then show ?case using Cons taken by (simp add: Let_def)
qed

lemma patterns_split:
  assumes "i \<in> set (radar_patterns d)"
  obtains before rest where "radar_patterns d = before @ i # rest" "set before = {j \<in> set (radar_patterns d). j < i}"
proof -
  obtain a b where ab: "radar_patterns d = [a..<b]" "a \<le> i" "i < b"
  proof -
    have "radar_patterns d = [0..<6] \<or> radar_patterns d = [0..<9] \<or> radar_patterns d = [9..<15] \<or> radar_patterns d = [0..<1]"
      by (simp add: radar_patterns_def)
    then show thesis using assms that by fastforce
  qed
  then have "[a..<b] = [a..<i] @ i # [Suc i..<b]" using upt_add_eq_append [of a i "b - i"] upt_conv_Cons [of i b] by simp
  moreover have "set [a..<i] = {j \<in> set [a..<b]. j < i}" using ab by auto
  ultimately show thesis using that [of "[a..<i]" "[Suc i..<b]"] unfolding ab(1) by metis
qed

lemma count_long_keeps:
  "staggered_min_pulses (count_long_pulses ps r) = staggered_min_pulses r" "staggered_min_pw (count_long_pulses ps r) = staggered_min_pw r"
  "r_regdomain (count_long_pulses ps r) = r_regdomain r"
  by (simp_all add: count_long_pulses_def radar_do_def Let_def)

lemma long_pulse_count:
  assumes "large_pulse r < 7"
  shows "large_pulse r < 8" "large_pulse (count_long_pulses ps r) < 8"
proof -
  have "unat (large_pulse r + 1) \<le> unat (large_pulse r) + 1" by (rule unat_step)
  then have "large_pulse r + 1 < 8" "large_pulse r < 8" using assms by (simp_all add: word_less_nat_alt)
  then show "large_pulse r < 8" "large_pulse (count_long_pulses ps r) < 8"
    by (simp_all add: count_long_pulses_def radar_do_def Let_def)
qed

lemma count_burst:
  "\<forall>p \<in> set (take n (drop j mem)). p_time p \<noteq> 0 \<and> p_time p \<noteq> LAST_PULSE_INDICATION \<Longrightarrow> j + n \<le> length mem \<Longrightarrow>
     \<exists>span. count_samples j n mem acc = Some (j + n, span)"
proof (induction n arbitrary: j acc)
  case (Suc n)
  have d: "drop j mem = mem ! j # drop (Suc j) mem" using Suc(3) by (simp add: Cons_nth_drop_Suc)
  have p: "p_time (mem ! j) \<noteq> 0" "p_time (mem ! j) \<noteq> LAST_PULSE_INDICATION" using Suc(2) d by simp_all
  have "\<exists>span. count_samples (j + 1) n mem (acc + ucast (p_time (mem ! j))) = Some (j + 1 + n, span)"
    using Suc(1) [of "j + 1" "acc + ucast (p_time (mem ! j))"] Suc(2,3) d by simp
  then show ?case using p Suc(3) by (simp add: sample_def)
qed simp

lemma burst_message_run:
  assumes state: "staggered_min_pulses r \<noteq> []" "staggered_min_pw r \<noteq> []" "large_pulse r < 7"
    and pattern: "i \<in> set (radar_patterns (r_regdomain r))" "i < 13" "pri_ok i t" "pw_ok i w"
      "\<forall>j \<in> set (radar_patterns (r_regdomain r)). j < i \<longrightarrow> \<not> pri_ok j t"
    and burst: "8 \<le> m" "m \<le> 255" "m * unat t < 65536" "\<forall>p \<in> set (take m (radar_samples msg)). pulse_at t w p"
    and msg: "unat len = 4 * m + 4" "276 \<le> length msg" "20 + 4 * m \<le> length msg"
  shows "\<exists>s r'. radar_message h junk msg len r = Some (s, r') \<and> pattern_seen r r'"
proof -
  let ?d = "r_regdomain r"
  have range: "137 \<le> unat t" "unat t \<le> 5200" using pri_range [of i t] pattern(2,3) by simp_all
  then have t: "\<not> t < ETSI_MIN_PRI" "t \<noteq> 0" "t \<noteq> LAST_PULSE_INDICATION" by (auto simp: word_less_nat_alt)
  define mem where "mem = radar_samples msg"
  have m: "m \<le> length mem" using msg(3) by (simp add: mem_def)
  have b: "\<forall>p \<in> set (take m mem). pulse_at t w p" using burst(4) by (simp add: mem_def)
  obtain span where n: "count_samples 0 m mem 0 = Some (m, span)"
    using count_burst [of m 0 mem 0] b t m by auto
  obtain mem' q qs where j: "join_pulses m mem = (m, mem')" "length mem' = length mem" "take m mem' = q # qs" "length qs = m - 1"
    "pulse_at t 0 q" "\<forall>p \<in> set qs. pulse_at t w p" using join_burst [OF b t(1) _ m] burst(1) by auto
  obtain before rest where p: "radar_patterns ?d = before @ i # rest" "set before = {j \<in> set (radar_patterns ?d). j < i}"
    using patterns_split [OF pattern(1)] .
  have search: "\<exists>s r'. radar_search h junk span' (int m) m mem r0 = Some (s, r') \<and> pattern_seen r0 r'"
    if r0: "large_pulse r0 < 7" "staggered_min_pulses r0 \<noteq> []" "staggered_min_pw r0 \<noteq> []" "r_regdomain r0 = ?d" for span' r0
  proof -
    define r1 where "r1 = (if r_regdomain r0 = 2 then r0 else count_long_pulses (take m mem') r0)"
    have r1: "large_pulse r1 < 8" "staggered_min_pulses r1 \<noteq> []" "staggered_min_pw r1 \<noteq> []" "r_regdomain r1 = ?d" "undetected r0 r1"
      using r0 long_pulse_count [of r0] count_long_quiet [of r0 "take m mem'"] by (auto simp: r1_def count_long_keeps undetected_def)
    have "\<forall>j \<in> set before. j < 15 \<and> \<not> pri_ok j t" using p(2) pattern(5) radar_patterns_bound by auto
    moreover have q: "m \<le> length mem'" "7 \<le> length qs" "Suc (length qs) * unat t < 65536" using m j(2,4) burst(1,3) by simp_all
    ultimately obtain s r' where "scan_patterns h junk span' (before @ i # rest) (int m) mem' r1 = Some (s, r')" "pattern_seen r1 r'"
      using burst_scan_patterns [OF pattern(2-4) j(3) q(1) burst(2) j(5,6) q(2,3) r1(1-3)] by blast
    moreover have "radar_search h junk span' (int m) m mem r0 = scan_patterns h junk span' (before @ i # rest) (int m) mem' r1"
      unfolding radar_search_def j(1) prod.case Let_def r1_def [symmetric] r1(4) p(1) by simp
    ultimately show ?thesis using r1(5) by (auto simp: seen_defs)
  qed
  obtain kind where a: "rd8 msg 6 = Some kind" using msg(2) by (simp add: rd8_def)
  obtain pkt where c: "mem_slice msg 20 256 = Some pkt" using msg(2) by (simp add: mem_slice_in)
  obtain rcv where d: "rd32 msg 16 = Some rcv" using msg(2) by (simp add: rd32_def rd16_def rd8_def)
  have cnt: "uint (len div 4) - 1 = int m" using msg(1) by (simp add: uint_nat unat_div)
  define r1 where "r1 = (if kind = 0xaa then r\<lparr>flush_pkts := flush_pkts r + 1\<rparr> else r\<lparr>full_pkts := full_pkts r + 1\<rparr>)"
  define r2 where "r2 = r1\<lparr>no_of_pkts := no_of_pkts r1 + 1, radar_pkt := pkt\<rparr>"
  have r2: "large_pulse r2 < 7" "staggered_min_pulses r2 \<noteq> []" "staggered_min_pw r2 \<noteq> []" "r_regdomain r2 = ?d" "undetected r r2"
    using state by (auto simp: r2_def r1_def undetected_def reports_def)
  have "radar_message h junk msg len r = radar_search h junk (rcv - (rcv - span)) (int m) m mem r2"
    unfolding radar_message_def a c d cnt using n by (simp add: Let_def mem_def r2_def r1_def)
  then show ?thesis using search [OF r2(1-4)] r2(5) by (fastforce simp: seen_defs)
qed

text \<open>
  C33. A burst of at least eight pulses with one interval and one width, both in the range of a pattern of the
  domain, is recognised: the radar is counted and reported and the detection left. The burst may have
  no more pulses than the sum of 16 bits and the count of eight bits can take, no pattern before may
  share its interval, and the pattern is not one of the two staggered ones.
\<close>

theorem clean_burst_detected:
  assumes mode: "r_wifi r" "regulatory_domain (r_country r) \<noteq> 4"
    and state: "length (staggered_min_pulses r) = 10" "length (staggered_min_pw r) = 10" "large_pulse r < 7"
    and pattern: "i \<in> set (radar_patterns (regulatory_domain (r_country r)))" "i < 13" "pri_ok i t" "pw_ok i w"
      "\<forall>j \<in> set (radar_patterns (regulatory_domain (r_country r))). j < i \<longrightarrow> \<not> pri_ok j t"
    and burst: "8 \<le> m" "m \<le> 255" "m * unat t < 65536" "\<forall>p \<in> set (take m (radar_samples msg)). p_time p = t \<and> p_pw p = w"
    and msg: "unat len = 4 * m + 4" "276 \<le> length msg" "20 + 4 * m \<le> length msg"
  shows "\<exists>s r'. onebox_radar_detect_algo h junk msg len r = Some (s, r') \<and> radar_detected_flag r' \<and>
           radar_detected r' = radar_detected r + 1 \<and> reports r' = reports r + 1"
proof -
  let ?d = "regulatory_domain (r_country r)"
  define r0 where "r0 = r\<lparr>radar_detected_flag := False, r_regdomain := ?d\<rparr>"
  have r0: "staggered_min_pulses r0 \<noteq> []" "staggered_min_pw r0 \<noteq> []" "large_pulse r0 < 7" "r_regdomain r0 = ?d"
    "radar_detected r0 = radar_detected r" "reports r0 = reports r" using state by (auto simp: r0_def reports_def)
  have "onebox_radar_detect_algo h junk msg len r = radar_message h junk msg len r0"
    using mode by (simp add: onebox_radar_detect_algo_def r_wifi_def r0_def Let_def)
  then show ?thesis using burst_message_run [OF r0(1-3) _ pattern(2-4) _ burst msg] pattern(1,5) r0(4-6) by (simp add: pattern_seen_def) blast
qed

text \<open>Eight pulses of the first American pattern.\<close>

definition burst_message :: bytes where
  "burst_message = replicate 20 0 @ concat (replicate 8 [0x94, 5, 2, 0]) @ replicate 224 0"

definition quiet_radar :: radar where
  "quiet_radar = \<lparr>r_mgmt = mgmt_sample FSM_MAC_INIT_DONE, r_country = 840, r_regdomain = 0, staggered_min_pulses = replicate 10 0,
     staggered_min_pw = replicate 10 0, radar_pkt = replicate 256 0, radar_detected_flag = False, radar_detected = 0, long_radar_detected = 0,
     time_stamp_fail = 0, no_of_pkts = 0, flush_pkts = 0, full_pkts = 0, large_pulse = 0, init_radar_timer = False, radar_log = []\<rparr>"

lemma burst_message_length: "length burst_message = 276"
  by (simp add: burst_message_def numeral_eq_Suc)

lemma burst_message_samples: "\<forall>p \<in> set (take 8 (radar_samples burst_message)). p_time p = 1428 \<and> p_pw p = 2"
proof -
  have "map (\<lambda>j. rd32 burst_message (20 + 4 * j)) [0..<8] = replicate 8 (Some 0x00020594)" by code_simp
  moreover have "pulse_of 0x00020594 = \<lparr>p_time = 1428, p_pw = 2, p_debug = 0\<rparr>" by code_simp
  moreover have "take 8 (radar_samples burst_message) = map (\<lambda>x. pulse_of (the x)) (map (\<lambda>j. rd32 burst_message (20 + 4 * j)) [0..<8])"
    by (simp add: radar_samples_def take_map burst_message_length)
  ultimately show ?thesis by simp
qed

lemma quiet_radar_mode: "r_wifi quiet_radar" "regulatory_domain (r_country quiet_radar) = 1" "radar_patterns 1 = [0, 1, 2, 3, 4, 5]"
  by (simp_all add: r_wifi_def quiet_radar_def mgmt_sample_defs regulatory_domain_def radar_patterns_def numeral_eq_Suc)

lemma quiet_radar_state: "length (staggered_min_pulses quiet_radar) = 10" "length (staggered_min_pw quiet_radar) = 10" "large_pulse quiet_radar < 7"
  "radar_detected quiet_radar = 0" "reports quiet_radar = 0"
  by (simp_all add: quiet_radar_def reports_def)

lemma first_pattern: "pri_ok 0 1428" "pw_ok 0 2"
  by (simp_all add: pri_ok_def pw_ok_def min_pri_def max_pri_def min_pw_def max_pw_def)

lemma clean_burst_detected_witness:
  "\<exists>s r'. onebox_radar_detect_algo calm_host 0 burst_message 36 quiet_radar = Some (s, r') \<and> radar_detected_flag r' \<and>
     radar_detected r' = 1 \<and> reports r' = 1"
  using clean_burst_detected [of quiet_radar 0 1428 2 8 burst_message 36 calm_host 0] quiet_radar_mode quiet_radar_state
    first_pattern burst_message_samples burst_message_length by simp

text \<open>
  C34. Every message that is worked off has one of three effects. Nothing was found: no flag, no
  report. Or the pattern of a radar was found: it is counted once and reported once, to net80211 or to the
  waiting thread, and the message had room for at least four pulses. Or the count of long pulses was full: it
  stood at seven or more when the message came, each message adds at most one to it, the long pulse radar is
  counted once and in the mode with a network reported once; for this alarm the length of the message does not matter.
\<close>

theorem radar_alarm_has_cause:
  assumes "onebox_radar_detect_algo h junk msg len r = Some (s, r')"
  shows "(\<not> radar_detected_flag r' \<and> radar_detected r' = radar_detected r \<and>
          long_radar_detected r' = long_radar_detected r \<and> reports r' = reports r) \<or>
     (20 \<le> unat len \<and> radar_detected_flag r' \<and> radar_detected r' = radar_detected r + 1 \<and>
          long_radar_detected r' = long_radar_detected r \<and> reports r' = reports r + 1) \<or>
     (7 \<le> large_pulse r \<and> radar_detected_flag r' \<and> radar_detected r' = radar_detected r \<and>
          long_radar_detected r' = long_radar_detected r + 1 \<and> reports r' = reports r + (if r_wifi r then 1 else 0))"
proof -
  have start: "\<exists>d. undetected (r\<lparr>radar_detected_flag := False, r_regdomain := d\<rparr>) r' \<or>
     radar_message h junk msg len (r\<lparr>radar_detected_flag := False, r_regdomain := d\<rparr>) = Some (s, r')"
  proof (cases "r_wifi (r\<lparr>radar_detected_flag := False\<rparr>) \<and> regulatory_domain (r_country r) = 4")
    case True
    then show ?thesis using assms radar_req_sent [of h "r\<lparr>radar_detected_flag := False, r_regdomain := 4\<rparr>"]
      by (intro exI [of _ 4]) (auto simp: onebox_radar_detect_algo_def Let_def kept_def)
  next
    case False
    then have "radar_message h junk msg len (r\<lparr>radar_detected_flag := False,
        r_regdomain := (if r_wifi (r\<lparr>radar_detected_flag := False\<rparr>) then regulatory_domain (r_country r) else r_regdomain r)\<rparr>) = Some (s, r')"
      using assms by (auto simp: onebox_radar_detect_algo_def Let_def)
    then show ?thesis by blast
  qed
  then obtain d where d: "undetected (r\<lparr>radar_detected_flag := False, r_regdomain := d\<rparr>) r' \<or>
     radar_message h junk msg len (r\<lparr>radar_detected_flag := False, r_regdomain := d\<rparr>) = Some (s, r')" by blast
  define r0 where "r0 = r\<lparr>radar_detected_flag := False, r_regdomain := d\<rparr>"
  have r0: "\<not> radar_detected_flag r0" "radar_detected r0 = radar_detected r" "reports r0 = reports r"
      "long_radar_detected r0 = long_radar_detected r" "large_pulse r0 = large_pulse r" "r_wifi r0 = r_wifi r"
    by (simp_all add: r0_def radar_start_quiet r_wifi_def)
  have "undetected r0 r' \<or> long_seen 7 r0 r' \<or> pattern_seen r0 r' \<and> 20 \<le> unat len"
    using d radar_message_effect [of h junk msg len r0 s r'] by (auto simp: r0_def)
  then show ?thesis using r0(1) unfolding undetected_def long_seen_def pattern_seen_def r0(2-6) by blast
qed

theorem radar_alarm_has_cause_witness:
  "\<exists>s r'. onebox_radar_detect_algo calm_host 0 burst_message 36 quiet_radar = Some (s, r') \<and> radar_detected r' = 1 \<and> reports r' = 1"
proof -
  let ?r = "quiet_radar\<lparr>radar_detected_flag := False, r_regdomain := 1\<rparr>"
  have r0: "staggered_min_pulses ?r \<noteq> []" "staggered_min_pw ?r \<noteq> []" "large_pulse ?r < 7" "r_regdomain ?r = 1" "radar_detected ?r = 0"
    by (simp_all add: quiet_radar_def)
  obtain s r' where "radar_message calm_host 0 burst_message 36 ?r = Some (s, r')" "radar_detected r' = 1"
    using burst_message_run [OF r0(1-3), of 0 1428 2 8 burst_message 36 calm_host 0] r0(4,5) quiet_radar_mode(3) first_pattern
      burst_message_samples burst_message_length by (auto simp: pattern_seen_def)
  moreover have "onebox_radar_detect_algo calm_host 0 burst_message 36 quiet_radar = radar_message calm_host 0 burst_message 36 ?r"
    using quiet_radar_mode(1,2) by (simp add: onebox_radar_detect_algo_def r_wifi_def Let_def)
  ultimately show ?thesis using radar_alarm_has_cause [of calm_host 0 burst_message 36 quiet_radar s r'] quiet_radar_state(4,5) by auto
qed

text \<open>
  C35. A message with at least the time and no more than 255 pulses, that lies in a buffer with the copied 256
  bytes and one sample behind the last, is always worked off: no access leaves the buffer, no division is by zero, every loop ends.
\<close>

theorem radar_detection_returns:
  assumes "4 \<le> unat len" "unat len < 1028" "20 + unat len \<le> length msg" "276 \<le> length msg"
  shows "\<exists>s r'. onebox_radar_detect_algo h junk msg len r = Some (s, r')"
proof -
  have msg: "\<exists>s r'. radar_message h junk msg len r0 = Some (s, r')" for r0
  proof -
    define n0 where "n0 = unat (len div 4) - 1"
    have n0: "n0 \<le> 255" "n0 < length (radar_samples msg)" "uint (len div 4) - 1 = int n0"
      using assms by (simp_all add: n0_def unat_div uint_nat of_nat_diff)
    obtain kind where a: "rd8 msg 6 = Some kind" using assms(4) by (simp add: rd8_def)
    obtain pkt where b: "mem_slice msg 20 256 = Some pkt" using assms(4) by (simp add: mem_slice_in)
    obtain rcv where c: "rd32 msg 16 = Some rcv" using assms(4) by (simp add: rd32_def rd16_def rd8_def)
    obtain n span where d: "count_samples 0 n0 (radar_samples msg) 0 = Some (n, span)"
      using count_samples_in [of 0 n0 "radar_samples msg" 0] n0(2) by auto
    have n: "n \<le> n0" using count_samples_le [OF d] by simp
    obtain n' mem where j: "join_pulses n (radar_samples msg) = (n', mem)" by (cases "join_pulses n (radar_samples msg)")
    have mem: "n' \<le> n" "length mem = length (radar_samples msg)" using join_pulses_keeps [OF _ j] n n0(2) by simp_all
    have "\<exists>s r'. radar_search h junk burst (int n0) n (radar_samples msg) r1 = Some (s, r')" for burst r1
    proof -
      have "\<exists>s r'. scan_patterns h junk burst (radar_patterns d) (int n') mem r2 = Some (s, r')" for d r2
        using scan_patterns_returns [of "radar_patterns d" "int n'" mem h junk burst r2] radar_patterns_bound mem n n0 by simp
      then show ?thesis by (simp add: radar_search_def Let_def j)
    qed
    then show ?thesis using a b c d n0(3) by (simp add: radar_message_def Let_def)
  qed
  show ?thesis
  proof (cases "r_wifi (r\<lparr>radar_detected_flag := False\<rparr>) \<and> regulatory_domain (r_country r) = 4")
    case True
    then show ?thesis using radar_req_sent [of h "r\<lparr>radar_detected_flag := False, r_regdomain := 4\<rparr>"]
      by (auto simp: onebox_radar_detect_algo_def Let_def)
  next
    case False
    then show ?thesis using msg by (auto simp: onebox_radar_detect_algo_def Let_def)
  qed
qed

lemma radar_detection_returns_witness:
  "\<exists>s r'. onebox_radar_detect_algo calm_host 0 (replicate 276 0xff) 4 quiet_radar = Some (s, r')"
  by (rule radar_detection_returns) simp_all

section \<open>What does not hold\<close>

text \<open>
  The interval of a Japanese burst of eighteen pulses is added up in 16 bits: the mean comes out
  at 205 microseconds instead of 3846, no interval of the pattern, and the pattern is given up.
\<close>

lemma japanese_mean_wraps:
  "average_match 0 (replicate 18 \<lparr>p_time = 3846, p_pw = 2, p_debug = 0\<rparr>) 6 10 (3846, 2) = (205, 2)" "\<not> pri_ok 6 205"
  by code_simp+

text \<open>The widths move on by one pulse even where no pulse is joined.\<close>

lemma widths_move_on:
  "merge_short False 0 0 [\<lparr>p_time = 1428, p_pw = 1, p_debug = 0\<rparr>, \<lparr>p_time = 1428, p_pw = 2, p_debug = 0\<rparr>] =
     [\<lparr>p_time = 1428, p_pw = 0, p_debug = 0\<rparr>, \<lparr>p_time = 1428, p_pw = 1, p_debug = 0\<rparr>]"
  by code_simp

text \<open>With more than 255 samples the loop that prints them never ends.\<close>

lemma many_samples_never_end: "255 < cnt \<Longrightarrow> check_split_pulses mem cnt 0 stag spw = None"
  by (simp add: check_split_pulses_def)

text \<open>A message shorter than the time makes the count a byte of 255.\<close>

lemma short_message_reads_on:
  assumes "unat (len :: u32) < 4"
  shows "unat (word_of_int (uint (len div 4) - 1) :: u8) = 255"
proof -
  have "uint (len div 4) - 1 = -1" using assms by (simp add: uint_nat unat_div)
  moreover have "unat (word_of_int (-1) :: u8) = 255" by code_simp
  ultimately show ?thesis by (simp only:)
qed

text \<open>A pulse counts as clubbed with the third interval that an earlier pattern left behind.\<close>

lemma clubbed_with_old_interval:
  "check_for_clubbed_pulses 1700 [1000, 1200, 700, 0, 0, 0, 0, 0, 0, 0] = 2" "check_for_clubbed_pulses 1700 [1000, 1200, 0, 0, 0, 0, 0, 0, 0, 0] = 0"
  by code_simp+

end
