(* ===== verification/Bt_Tables.thy ===== *)
theory Bt_Tables
  imports Onebox_Prelude
begin

text \<open>
  The tables of \<^verbatim>\<open>src/source/host/bt/include/linux/onebox_bt_per.h\<close>: the waveforms that are loaded into
  the radio for a continuous wave. A table begins with six numbers of a header; 256 lines of an address and
  two values follow, except in the last one.
\<close>

definition cw_array_1 :: "u16 list" where
  "cw_array_1 = [
    7, 0, 0x315, 0x316, 0x317, 0x100,
    0, 0xFF, 0x40, 1, 0x84EC, 0x41, 2, 0xD0B4, 0x42, 3, 0xB061, 0x43, 4, 0xFC00, 0x43, 5, 0xB39E, 0x43,
    6, 0xD34B, 0x42, 7, 0x8713, 0x41, 8, 0x300, 0x40, 9, 0x7B13, 0x4E, 0xA, 0x2F4B, 0x4D, 0xB, 0x4F9E, 0x4C,
    0xC, 0x3FF, 0x4C, 0xD, 0x4C61, 0x4C, 0xE, 0x2CB4, 0x4D, 0xF, 0x78EC, 0x4E, 0x10, 0xFCFF, 0x4F, 0x11, 0x84EC, 0x41,
    0x12, 0xD0B4, 0x42, 0x13, 0xB061, 0x43, 0x14, 0xFFFF, 0x43, 0x15, 0xB39E, 0x43, 0x16, 0xD34B, 0x42, 0x17, 0x8713, 0x41,
    0x18, 0x300, 0x40, 0x19, 0x7B13, 0x4E, 0x1A, 0x2F4B, 0x4D, 0x1B, 0x4F9E, 0x4C, 0x1C, 0x3FF, 0x4C, 0x1D, 0x4C61, 0x4C,
    0x1E, 0x2CB4, 0x4D, 0x1F, 0x78EC, 0x4E, 0x20, 0xFCFF, 0x4F, 0x21, 0x84EC, 0x41, 0x22, 0xD0B4, 0x42, 0x23, 0xB061, 0x43,
    0x24, 0xFC00, 0x43, 0x25, 0xB39E, 0x43, 0x26, 0xD34B, 0x42, 0x27, 0x8713, 0x41, 0x28, 0xFF00, 0x4F, 0x29, 0x7B13, 0x4E,
    0x2A, 0x2F4B, 0x4D, 0x2B, 0x4F9E, 0x4C, 0x2C, 0x3FF, 0x4C, 0x2D, 0x4C61, 0x4C, 0x2E, 0x2CB4, 0x4D, 0x2F, 0x78EC, 0x4E,
    0x30, 0xFCFF, 0x4F, 0x31, 0x84EC, 0x41, 0x32, 0xD0B4, 0x42, 0x33, 0xB061, 0x43, 0x34, 0xFFFF, 0x43, 0x35, 0xB39E, 0x43,
    0x36, 0xD34B, 0x42, 0x37, 0x8713, 0x41, 0x38, 0x300, 0x40, 0x39, 0x7B13, 0x4E, 0x3A, 0x2F4B, 0x4D, 0x3B, 0x4F9E, 0x4C,
    0x3C, 0, 0x4C, 0x3D, 0x4C61, 0x4C, 0x3E, 0x2CB4, 0x4D, 0x3F, 0x78EC, 0x4E, 0x40, 0xFCFF, 0x4F, 0x41, 0x84EC, 0x41,
    0x42, 0xD0B4, 0x42, 0x43, 0xB061, 0x43, 0x44, 0xFC00, 0x43, 0x45, 0xB39E, 0x43, 0x46, 0xD34B, 0x42, 0x47, 0x8713, 0x41,
    0x48, 0x300, 0x40, 0x49, 0x7B13, 0x4E, 0x4A, 0x2F4B, 0x4D, 0x4B, 0x4F9E, 0x4C, 0x4C, 0x3FF, 0x4C, 0x4D, 0x4C61, 0x4C,
    0x4E, 0x2CB4, 0x4D, 0x4F, 0x78EC, 0x4E, 0x50, 0xFF, 0x40, 0x51, 0x84EC, 0x41, 0x52, 0xD0B4, 0x42, 0x53, 0xB061, 0x43,
    0x54, 0xFC00, 0x43, 0x55, 0xB39E, 0x43, 0x56, 0xD34B, 0x42, 0x57, 0x8713, 0x41, 0x58, 0x300, 0x40, 0x59, 0x7B13, 0x4E,
    0x5A, 0x2F4B, 0x4D, 0x5B, 0x4F9E, 0x4C, 0x5C, 0x3FF, 0x4C, 0x5D, 0x4C61, 0x4C, 0x5E, 0x2CB4, 0x4D, 0x5F, 0x78EC, 0x4E,
    0x60, 0xFCFF, 0x4F, 0x61, 0x84EC, 0x41, 0x62, 0xD0B4, 0x42, 0x63, 0xB061, 0x43, 0x64, 0xFFFF, 0x43, 0x65, 0xB39E, 0x43,
    0x66, 0xD34B, 0x42, 0x67, 0x8713, 0x41, 0x68, 0xFF00, 0x4F, 0x69, 0x7B13, 0x4E, 0x6A, 0x2F4B, 0x4D, 0x6B, 0x4F9E, 0x4C,
    0x6C, 0, 0x4C, 0x6D, 0x4C61, 0x4C, 0x6E, 0x2CB4, 0x4D, 0x6F, 0x78EC, 0x4E, 0x70, 0xFCFF, 0x4F, 0x71, 0x84EC, 0x41,
    0x72, 0xD0B4, 0x42, 0x73, 0xB061, 0x43, 0x74, 0xFFFF, 0x43, 0x75, 0xB39E, 0x43, 0x76, 0xD34B, 0x42, 0x77, 0x8713, 0x41,
    0x78, 0xFF00, 0x4F, 0x79, 0x7B13, 0x4E, 0x7A, 0x2F4B, 0x4D, 0x7B, 0x4F9E, 0x4C, 0x7C, 0x3FF, 0x4C, 0x7D, 0x4C61, 0x4C,
    0x7E, 0x2CB4, 0x4D, 0x7F, 0x78EC, 0x4E, 0x80, 0xFF, 0x40, 0x81, 0x84EC, 0x41, 0x82, 0xD0B4, 0x42, 0x83, 0xB061, 0x43,
    0x84, 0xFC00, 0x43, 0x85, 0xB39E, 0x43, 0x86, 0xD34B, 0x42, 0x87, 0x8713, 0x41, 0x88, 0x300, 0x40, 0x89, 0x7B13, 0x4E,
    0x8A, 0x2F4B, 0x4D, 0x8B, 0x4F9E, 0x4C, 0x8C, 0x3FF, 0x4C, 0x8D, 0x4C61, 0x4C, 0x8E, 0x2CB4, 0x4D, 0x8F, 0x78EC, 0x4E,
    0x90, 0xFCFF, 0x4F, 0x91, 0x84EC, 0x41, 0x92, 0xD0B4, 0x42, 0x93, 0xB061, 0x43, 0x94, 0xFFFF, 0x43, 0x95, 0xB39E, 0x43,
    0x96, 0xD34B, 0x42, 0x97, 0x8713, 0x41, 0x98, 0x300, 0x40, 0x99, 0x7B13, 0x4E, 0x9A, 0x2F4B, 0x4D, 0x9B, 0x4F9E, 0x4C,
    0x9C, 0x3FF, 0x4C, 0x9D, 0x4C61, 0x4C, 0x9E, 0x2CB4, 0x4D, 0x9F, 0x78EC, 0x4E, 0xA0, 0xFCFF, 0x4F, 0xA1, 0x84EC, 0x41,
    0xA2, 0xD0B4, 0x42, 0xA3, 0xB061, 0x43, 0xA4, 0xFC00, 0x43, 0xA5, 0xB39E, 0x43, 0xA6, 0xD34B, 0x42, 0xA7, 0x8713, 0x41,
    0xA8, 0xFF00, 0x4F, 0xA9, 0x7B13, 0x4E, 0xAA, 0x2F4B, 0x4D, 0xAB, 0x4F9E, 0x4C, 0xAC, 0x3FF, 0x4C, 0xAD, 0x4C61, 0x4C,
    0xAE, 0x2CB4, 0x4D, 0xAF, 0x78EC, 0x4E, 0xB0, 0xFCFF, 0x4F, 0xB1, 0x84EC, 0x41, 0xB2, 0xD0B4, 0x42, 0xB3, 0xB061, 0x43,
    0xB4, 0xFFFF, 0x43, 0xB5, 0xB39E, 0x43, 0xB6, 0xD34B, 0x42, 0xB7, 0x8713, 0x41, 0xB8, 0x300, 0x40, 0xB9, 0x7B13, 0x4E,
    0xBA, 0x2F4B, 0x4D, 0xBB, 0x4F9E, 0x4C, 0xBC, 0, 0x4C, 0xBD, 0x4C61, 0x4C, 0xBE, 0x2CB4, 0x4D, 0xBF, 0x78EC, 0x4E,
    0xC0, 0xFCFF, 0x4F, 0xC1, 0x84EC, 0x41, 0xC2, 0xD0B4, 0x42, 0xC3, 0xB061, 0x43, 0xC4, 0xFC00, 0x43, 0xC5, 0xB39E, 0x43,
    0xC6, 0xD34B, 0x42, 0xC7, 0x8713, 0x41, 0xC8, 0x300, 0x40, 0xC9, 0x7B13, 0x4E, 0xCA, 0x2F4B, 0x4D, 0xCB, 0x4F9E, 0x4C,
    0xCC, 0x3FF, 0x4C, 0xCD, 0x4C61, 0x4C, 0xCE, 0x2CB4, 0x4D, 0xCF, 0x78EC, 0x4E, 0xD0, 0xFF, 0x40, 0xD1, 0x84EC, 0x41,
    0xD2, 0xD0B4, 0x42, 0xD3, 0xB061, 0x43, 0xD4, 0xFC00, 0x43, 0xD5, 0xB39E, 0x43, 0xD6, 0xD34B, 0x42, 0xD7, 0x8713, 0x41,
    0xD8, 0x300, 0x40, 0xD9, 0x7B13, 0x4E, 0xDA, 0x2F4B, 0x4D, 0xDB, 0x4F9E, 0x4C, 0xDC, 0x3FF, 0x4C, 0xDD, 0x4C61, 0x4C,
    0xDE, 0x2CB4, 0x4D, 0xDF, 0x78EC, 0x4E, 0xE0, 0xFCFF, 0x4F, 0xE1, 0x84EC, 0x41, 0xE2, 0xD0B4, 0x42, 0xE3, 0xB061, 0x43,
    0xE4, 0xFFFF, 0x43, 0xE5, 0xB39E, 0x43, 0xE6, 0xD34B, 0x42, 0xE7, 0x8713, 0x41, 0xE8, 0xFF00, 0x4F, 0xE9, 0x7B13, 0x4E,
    0xEA, 0x2F4B, 0x4D, 0xEB, 0x4F9E, 0x4C, 0xEC, 0, 0x4C, 0xED, 0x4C61, 0x4C, 0xEE, 0x2CB4, 0x4D, 0xEF, 0x78EC, 0x4E,
    0xF0, 0xFCFF, 0x4F, 0xF1, 0x84EC, 0x41, 0xF2, 0xD0B4, 0x42, 0xF3, 0xB061, 0x43, 0xF4, 0xFFFF, 0x43, 0xF5, 0xB39E, 0x43,
    0xF6, 0xD34B, 0x42, 0xF7, 0x8713, 0x41, 0xF8, 0xFF00, 0x4F, 0xF9, 0x7B13, 0x4E, 0xFA, 0x2F4B, 0x4D, 0xFB, 0x4F9E, 0x4C,
    0xFC, 0x3FF, 0x4C, 0xFD, 0x4C61, 0x4C, 0xFE, 0x2CB4, 0x4D, 0xFF, 0x78EC, 0x4E]"

definition cw_array_4 :: "u16 list" where
  "cw_array_4 = [
    7, 0, 0x315, 0x316, 0x317, 0x100,
    0, 0xC7E9, 0x41, 1, 0x380B, 0x41, 2, 0xE817, 0x40, 3, 0xF802, 0x40, 4, 0xE7F2, 0x40, 5, 0x5809, 0x40,
    6, 0xD02D, 0x4F, 7, 0xF828, 0x4F, 8, 0xA7ED, 0x40, 9, 0xE3A8, 0x40, 0xA, 0xF94, 0x40, 0xB, 0xBFBF, 0x4E,
    0xC, 0x1C0B, 0x4E, 0xD, 0xC84B, 0x4E, 0xE, 0x2868, 0x40, 0xF, 0x2060, 0x41, 0x10, 0xC43, 0x41, 0x11, 0x282A, 0x40,
    0x12, 0x3C26, 0x4F, 0x13, 0xF430, 0x4E, 0x14, 0x7829, 0x4F, 0x15, 0x4BFD, 0x40, 0x16, 0x9FC4, 0x40, 0x17, 0x17AE, 0x40,
    0x18, 0x27D2, 0x4F, 0x19, 0xA80B, 0x4E, 0x1A, 0x823, 0x4F, 0x1B, 0xB80A, 0x4F, 0x1C, 0xEFDF, 0x4F, 0x1D, 0x93C3, 0x4F,
    0x1E, 0x77B5, 0x4F, 0x1F, 0x23A1, 0x40, 0x20, 0xF8E, 0x41, 0x21, 0x2B97, 0x41, 0x22, 0x3FBB, 0x40, 0x23, 0x63DA, 0x4F,
    0x24, 0x9BDA, 0x4F, 0x25, 0x97D3, 0x40, 0x26, 0xF3F5, 0x40, 0x27, 0x3D, 0x40, 0x28, 0xA46D, 0x4E, 0x29, 0x4851, 0x4E,
    0x2A, 0x2809, 0x4F, 0x2B, 0x17E4, 0x40, 0x2C, 0xF401, 0x4F, 0x2D, 0x1823, 0x4F, 0x2E, 0xAC04, 0x4E, 0x2F, 0x53B3, 0x4F,
    0x30, 0x5B8E, 0x40, 0x31, 0xD7D0, 0x40, 0x32, 0x9846, 0x40, 0x33, 0x3486, 0x40, 0x34, 0x464, 0x40, 0x35, 0xD812, 0x4F,
    0x36, 0x9FD9, 0x4F, 0x37, 0x9FCD, 0x4F, 0x38, 0x27D2, 0x40, 0x39, 0xCBDC, 0x40, 0x3A, 0xBFFE, 0x40, 0x3B, 0xE43D, 0x4F,
    0x3C, 0x286E, 0x4F, 0x3D, 0x7860, 0x4F, 0x3E, 0xB01E, 0x40, 0x3F, 0xB7E7, 0x41, 0x40, 0xC7E9, 0x41, 0x41, 0x380B, 0x41,
    0x42, 0xE817, 0x40, 0x43, 0xF802, 0x40, 0x44, 0xE7F2, 0x40, 0x45, 0x5809, 0x40, 0x46, 0xD02D, 0x4F, 0x47, 0xF828, 0x4F,
    0x48, 0xA7ED, 0x40, 0x49, 0xE3A8, 0x40, 0x4A, 0xF94, 0x40, 0x4B, 0xBFBF, 0x4E, 0x4C, 0x1C0B, 0x4E, 0x4D, 0xC84B, 0x4E,
    0x4E, 0x2868, 0x40, 0x4F, 0x2060, 0x41, 0x50, 0xC43, 0x41, 0x51, 0x282A, 0x40, 0x52, 0x3C26, 0x4F, 0x53, 0xF430, 0x4E,
    0x54, 0x7829, 0x4F, 0x55, 0x4BFD, 0x40, 0x56, 0x9FC4, 0x40, 0x57, 0x17AE, 0x40, 0x58, 0x27D2, 0x4F, 0x59, 0xA80B, 0x4E,
    0x5A, 0x823, 0x4F, 0x5B, 0xB80A, 0x4F, 0x5C, 0xEFDF, 0x4F, 0x5D, 0x93C3, 0x4F, 0x5E, 0x77B5, 0x4F, 0x5F, 0x23A1, 0x40,
    0x60, 0xF8E, 0x41, 0x61, 0x2B97, 0x41, 0x62, 0x3FBB, 0x40, 0x63, 0x63DA, 0x4F, 0x64, 0x9BDA, 0x4F, 0x65, 0x97D3, 0x40,
    0x66, 0xF3F5, 0x40, 0x67, 0x3D, 0x40, 0x68, 0xA46D, 0x4E, 0x69, 0x4851, 0x4E, 0x6A, 0x2809, 0x4F, 0x6B, 0x17E4, 0x40,
    0x6C, 0xF401, 0x4F, 0x6D, 0x1823, 0x4F, 0x6E, 0xAC04, 0x4E, 0x6F, 0x53B3, 0x4F, 0x70, 0x5B8E, 0x40, 0x71, 0xD7D0, 0x40,
    0x72, 0x9846, 0x40, 0x73, 0x3486, 0x40, 0x74, 0x464, 0x40, 0x75, 0xD812, 0x4F, 0x76, 0x9FD9, 0x4F, 0x77, 0x9FCD, 0x4F,
    0x78, 0x27D2, 0x40, 0x79, 0xCBDC, 0x40, 0x7A, 0xBFFE, 0x40, 0x7B, 0xE43D, 0x4F, 0x7C, 0x286E, 0x4F, 0x7D, 0x7860, 0x4F,
    0x7E, 0xB01E, 0x40, 0x7F, 0xB7E7, 0x41, 0x80, 0xA416, 0x4F, 0x81, 0x42A, 0x4F, 0x82, 0x4016, 0x4E, 0x83, 0x37E7, 0x4E,
    0x84, 0x13CE, 0x4F, 0x85, 0x7EC, 0x40, 0x86, 0x6429, 0x40, 0x87, 0x644A, 0x40, 0x88, 0xC030, 0x40, 0x89, 0x7801, 0x41,
    0x8A, 0xD3FB, 0x41, 0x8B, 0x4029, 0x41, 0x8C, 0x3C59, 0x40, 0x8D, 0xA05C, 0x4F, 0x8E, 0xBC3D, 0x4F, 0x8F, 0x827, 0x40,
    0x90, 0x2D, 0x40, 0x91, 0xC436, 0x4F, 0x92, 0xD02A, 0x4F, 0x93, 0x1415, 0x40, 0x94, 0x810, 0x40, 0x95, 0x7817, 0x4F,
    0x96, 0xF40A, 0x4E, 0x97, 0x27E3, 0x4F, 0x98, 0xBC2, 0x40, 0x99, 0xE3CA, 0x40, 0x9A, 0xFEE, 0x41, 0x9B, 0xAC03, 0x40,
    0x9C, 0x4403, 0x40, 0x9D, 0xC0F, 0x40, 0x9E, 0xDC3B, 0x4F, 0x9F, 0xA855, 0x4F, 0xA0, 0xA416, 0x4F, 0xA1, 0xFF89, 0x4F,
    0xA2, 0x6B17, 0x40, 0xA3, 0x6726, 0x40, 0xA4, 0xBBA4, 0x4F, 0xA5, 0xCC1A, 0x4E, 0xA6, 0x3C2D, 0x4E, 0xA7, 0x6BF5, 0x4E,
    0xA8, 0x43D0, 0x4F, 0xA9, 0x57E7, 0x40, 0xAA, 0x140F, 0x41, 0xAB, 0xEC11, 0x40, 0xAC, 0xF7F4, 0x4F, 0xAD, 0x13E8, 0x4F,
    0xAE, 0x4400, 0x4F, 0xAF, 0xB015, 0x40, 0xB0, 0x1C00, 0x42, 0xB1, 0x33D6, 0x42, 0xB2, 0xEBCD, 0x40, 0xB3, 0xB3F5, 0x4F,
    0xB4, 0xC022, 0x4F, 0xB5, 0xB021, 0x40, 0xB6, 0xFFF8, 0x40, 0xB7, 0xF3D7, 0x4F, 0xB8, 0x8BE2, 0x4E, 0xB9, 0x4C0C, 0x4E,
    0xBA, 0x742B, 0x4F, 0xBB, 0xB828, 0x40, 0xBC, 0xEC0A, 0x40, 0xBD, 0x3FEA, 0x40, 0xBE, 0xB3E0, 0x4F, 0xBF, 0xB3F3, 0x4F,
    0xC0, 0xA416, 0x4F, 0xC1, 0x42A, 0x4F, 0xC2, 0x4016, 0x4E, 0xC3, 0x37E7, 0x4E, 0xC4, 0x13CE, 0x4F, 0xC5, 0x7EC, 0x40,
    0xC6, 0x6429, 0x40, 0xC7, 0x644A, 0x40, 0xC8, 0xC030, 0x40, 0xC9, 0x7801, 0x41, 0xCA, 0xD3FB, 0x41, 0xCB, 0x4029, 0x41,
    0xCC, 0x3C59, 0x40, 0xCD, 0xA05C, 0x4F, 0xCE, 0xBC3D, 0x4F, 0xCF, 0x827, 0x40, 0xD0, 0x2D, 0x40, 0xD1, 0xC436, 0x4F,
    0xD2, 0xD02A, 0x4F, 0xD3, 0x1415, 0x40, 0xD4, 0x810, 0x40, 0xD5, 0x7817, 0x4F, 0xD6, 0xF40A, 0x4E, 0xD7, 0x27E3, 0x4F,
    0xD8, 0xBC2, 0x40, 0xD9, 0xE3CA, 0x40, 0xDA, 0xFEE, 0x41, 0xDB, 0xAC03, 0x40, 0xDC, 0x4403, 0x40, 0xDD, 0xC0F, 0x40,
    0xDE, 0xDC3B, 0x4F, 0xDF, 0xA855, 0x4F, 0xE0, 0xA416, 0x4F, 0xE1, 0xFF89, 0x4F, 0xE2, 0x6B17, 0x40, 0xE3, 0x6726, 0x40,
    0xE4, 0xBBA4, 0x4F, 0xE5, 0xCC1A, 0x4E, 0xE6, 0x3C2D, 0x4E, 0xE7, 0x6BF5, 0x4E, 0xE8, 0x43D0, 0x4F, 0xE9, 0x57E7, 0x40,
    0xEA, 0x140F, 0x41, 0xEB, 0xEC11, 0x40, 0xEC, 0xF7F4, 0x4F, 0xED, 0x13E8, 0x4F, 0xEE, 0x4400, 0x4F, 0xEF, 0xB015, 0x40,
    0xF0, 0x1C00, 0x42, 0xF1, 0x33D6, 0x42, 0xF2, 0xEBCD, 0x40, 0xF3, 0xB3F5, 0x4F, 0xF4, 0xC022, 0x4F, 0xF5, 0xB021, 0x40,
    0xF6, 0xFFF8, 0x40, 0xF7, 0xF3D7, 0x4F, 0xF8, 0x8BE2, 0x4E, 0xF9, 0x4C0C, 0x4E, 0xFA, 0x742B, 0x4F, 0xFB, 0xB828, 0x40,
    0xFC, 0xEC0A, 0x40, 0xFD, 0x3FEA, 0x40, 0xFE, 0xB3E0, 0x4F, 0xFF, 0xB3F3, 0x4F]"

definition cw_array_3 :: "u16 list" where
  "cw_array_3 = [
    7, 0, 0x315, 0x316, 0x317, 0x100,
    0, 0x3000, 0x43, 1, 0xDC56, 0x42, 2, 0xF097, 0x41, 3, 0xB0B3, 0x40, 4, 0x78A7, 0x4F, 5, 0x9479, 0x4E,
    6, 0x343D, 0x4E, 7, 0x5805, 0x4E, 8, 0xDFE2, 0x4E, 9, 0x7BDB, 0x4F, 0xA, 0xEBEC, 0x4F, 0xB, 0xF809, 0x4F,
    0xC, 0xA421, 0x4F, 0xD, 0x1023, 0x4F, 0xE, 0x7C09, 0x4E, 0xF, 0x37D6, 0x4E, 0x10, 0x6799, 0x4E, 0x11, 0x2365, 0x4F,
    0x12, 0x474C, 0x40, 0x13, 0x8F5A, 0x41, 0x14, 0x9F90, 0x42, 0x15, 0x2BE1, 0x43, 0x16, 0xC3B, 0x43, 0x17, 0x4C85, 0x42,
    0x18, 0x20AE, 0x41, 0x19, 0xDCAF, 0x4F, 0x1A, 0xD48B, 0x4E, 0x1B, 0x4451, 0x4E, 0x1C, 0x4016, 0x4E, 0x1D, 0xAFEA, 0x4E,
    0x1E, 0x4BDA, 0x4F, 0x1F, 0xCFE4, 0x4F, 0x20, 0x3FF, 0x40, 0x21, 0xCC1B, 0x4F, 0x22, 0x4825, 0x4F, 0x23, 0xAC15, 0x4E,
    0x24, 0x43E9, 0x4E, 0x25, 0x47AE, 0x4E, 0x26, 0xD774, 0x4E, 0x27, 0xDF50, 0x4F, 0x28, 0x2351, 0x41, 0x29, 0x4F7A, 0x42,
    0x2A, 0xFC4, 0x43, 0x2B, 0x281E, 0x43, 0x2C, 0x9C6F, 0x42, 0x2D, 0x8CA5, 0x41, 0x2E, 0x44B3, 0x40, 0x2F, 0x209A, 0x4F,
    0x30, 0x6466, 0x4E, 0x31, 0x3429, 0x4E, 0x32, 0x7FF6, 0x4E, 0x33, 0x13DC, 0x4F, 0x34, 0xA7DE, 0x4F, 0x35, 0xFBF6, 0x4F,
    0x36, 0xE813, 0x4F, 0x37, 0x7824, 0x4F, 0x38, 0xDC1D, 0x4E, 0x39, 0x5BFA, 0x4E, 0x3A, 0x37C2, 0x4E, 0x3B, 0x9786, 0x4E,
    0x3C, 0x7B58, 0x4F, 0x3D, 0xB34C, 0x40, 0x3E, 0xF368, 0x41, 0x3F, 0xDFA9, 0x42, 0x40, 0x33FF, 0x43, 0x41, 0xDC56, 0x42,
    0x42, 0xF097, 0x41, 0x43, 0xB0B3, 0x40, 0x44, 0x78A7, 0x4F, 0x45, 0x9479, 0x4E, 0x46, 0x343D, 0x4E, 0x47, 0x5805, 0x4E,
    0x48, 0xDFE2, 0x4E, 0x49, 0x7BDB, 0x4F, 0x4A, 0xEBEC, 0x4F, 0x4B, 0xF809, 0x4F, 0x4C, 0xA421, 0x4F, 0x4D, 0x1023, 0x4F,
    0x4E, 0x7C09, 0x4E, 0x4F, 0x37D6, 0x4E, 0x50, 0x6799, 0x4E, 0x51, 0x2365, 0x4F, 0x52, 0x474C, 0x40, 0x53, 0x8F5A, 0x41,
    0x54, 0x9F90, 0x42, 0x55, 0x2BE1, 0x43, 0x56, 0xC3B, 0x43, 0x57, 0x4C85, 0x42, 0x58, 0x20AE, 0x41, 0x59, 0xDCAF, 0x4F,
    0x5A, 0xD48B, 0x4E, 0x5B, 0x4451, 0x4E, 0x5C, 0x4016, 0x4E, 0x5D, 0xAFEA, 0x4E, 0x5E, 0x4BDA, 0x4F, 0x5F, 0xCFE4, 0x4F,
    0x60, 0x3FF, 0x40, 0x61, 0xCC1B, 0x4F, 0x62, 0x4825, 0x4F, 0x63, 0xAC15, 0x4E, 0x64, 0x43E9, 0x4E, 0x65, 0x47AE, 0x4E,
    0x66, 0xD774, 0x4E, 0x67, 0xDF50, 0x4F, 0x68, 0x2351, 0x41, 0x69, 0x4F7A, 0x42, 0x6A, 0xFC4, 0x43, 0x6B, 0x281E, 0x43,
    0x6C, 0x9C6F, 0x42, 0x6D, 0x8CA5, 0x41, 0x6E, 0x44B3, 0x40, 0x6F, 0x209A, 0x4F, 0x70, 0x6466, 0x4E, 0x71, 0x3429, 0x4E,
    0x72, 0x7FF6, 0x4E, 0x73, 0x13DC, 0x4F, 0x74, 0xA7DE, 0x4F, 0x75, 0xFBF6, 0x4F, 0x76, 0xE813, 0x4F, 0x77, 0x7824, 0x4F,
    0x78, 0xDC1D, 0x4E, 0x79, 0x5BFA, 0x4E, 0x7A, 0x37C2, 0x4E, 0x7B, 0x9786, 0x4E, 0x7C, 0x7B58, 0x4F, 0x7D, 0xB34C, 0x40,
    0x7E, 0xF368, 0x41, 0x7F, 0xDFA9, 0x42, 0x80, 0x3000, 0x43, 0x81, 0xDC56, 0x42, 0x82, 0xF097, 0x41, 0x83, 0xB0B3, 0x40,
    0x84, 0x78A7, 0x4F, 0x85, 0x9479, 0x4E, 0x86, 0x343D, 0x4E, 0x87, 0x5805, 0x4E, 0x88, 0xDFE2, 0x4E, 0x89, 0x7BDB, 0x4F,
    0x8A, 0xEBEC, 0x4F, 0x8B, 0xF809, 0x4F, 0x8C, 0xA421, 0x4F, 0x8D, 0x1023, 0x4F, 0x8E, 0x7C09, 0x4E, 0x8F, 0x37D6, 0x4E,
    0x90, 0x6799, 0x4E, 0x91, 0x2365, 0x4F, 0x92, 0x474C, 0x40, 0x93, 0x8F5A, 0x41, 0x94, 0x9F90, 0x42, 0x95, 0x2BE1, 0x43,
    0x96, 0xC3B, 0x43, 0x97, 0x4C85, 0x42, 0x98, 0x20AE, 0x41, 0x99, 0xDCAF, 0x4F, 0x9A, 0xD48B, 0x4E, 0x9B, 0x4451, 0x4E,
    0x9C, 0x4016, 0x4E, 0x9D, 0xAFEA, 0x4E, 0x9E, 0x4BDA, 0x4F, 0x9F, 0xCFE4, 0x4F, 0xA0, 0x3FF, 0x40, 0xA1, 0xCC1B, 0x4F,
    0xA2, 0x4825, 0x4F, 0xA3, 0xAC15, 0x4E, 0xA4, 0x43E9, 0x4E, 0xA5, 0x47AE, 0x4E, 0xA6, 0xD774, 0x4E, 0xA7, 0xDF50, 0x4F,
    0xA8, 0x2351, 0x41, 0xA9, 0x4F7A, 0x42, 0xAA, 0xFC4, 0x43, 0xAB, 0x281E, 0x43, 0xAC, 0x9C6F, 0x42, 0xAD, 0x8CA5, 0x41,
    0xAE, 0x44B3, 0x40, 0xAF, 0x209A, 0x4F, 0xB0, 0x6466, 0x4E, 0xB1, 0x3429, 0x4E, 0xB2, 0x7FF6, 0x4E, 0xB3, 0x13DC, 0x4F,
    0xB4, 0xA7DE, 0x4F, 0xB5, 0xFBF6, 0x4F, 0xB6, 0xE813, 0x4F, 0xB7, 0x7824, 0x4F, 0xB8, 0xDC1D, 0x4E, 0xB9, 0x5BFA, 0x4E,
    0xBA, 0x37C2, 0x4E, 0xBB, 0x9786, 0x4E, 0xBC, 0x7B58, 0x4F, 0xBD, 0xB34C, 0x40, 0xBE, 0xF368, 0x41, 0xBF, 0xDFA9, 0x42,
    0xC0, 0x33FF, 0x43, 0xC1, 0xDC56, 0x42, 0xC2, 0xF097, 0x41, 0xC3, 0xB0B3, 0x40, 0xC4, 0x78A7, 0x4F, 0xC5, 0x9479, 0x4E,
    0xC6, 0x343D, 0x4E, 0xC7, 0x5805, 0x4E, 0xC8, 0xDFE2, 0x4E, 0xC9, 0x7BDB, 0x4F, 0xCA, 0xEBEC, 0x4F, 0xCB, 0xF809, 0x4F,
    0xCC, 0xA421, 0x4F, 0xCD, 0x1023, 0x4F, 0xCE, 0x7C09, 0x4E, 0xCF, 0x37D6, 0x4E, 0xD0, 0x6799, 0x4E, 0xD1, 0x2365, 0x4F,
    0xD2, 0x474C, 0x40, 0xD3, 0x8F5A, 0x41, 0xD4, 0x9F90, 0x42, 0xD5, 0x2BE1, 0x43, 0xD6, 0xC3B, 0x43, 0xD7, 0x4C85, 0x42,
    0xD8, 0x20AE, 0x41, 0xD9, 0xDCAF, 0x4F, 0xDA, 0xD48B, 0x4E, 0xDB, 0x4451, 0x4E, 0xDC, 0x4016, 0x4E, 0xDD, 0xAFEA, 0x4E,
    0xDE, 0x4BDA, 0x4F, 0xDF, 0xCFE4, 0x4F, 0xE0, 0x3FF, 0x40, 0xE1, 0xCC1B, 0x4F, 0xE2, 0x4825, 0x4F, 0xE3, 0xAC15, 0x4E,
    0xE4, 0x43E9, 0x4E, 0xE5, 0x47AE, 0x4E, 0xE6, 0xD774, 0x4E, 0xE7, 0xDF50, 0x4F, 0xE8, 0x2351, 0x41, 0xE9, 0x4F7A, 0x42,
    0xEA, 0xFC4, 0x43, 0xEB, 0x281E, 0x43, 0xEC, 0x9C6F, 0x42, 0xED, 0x8CA5, 0x41, 0xEE, 0x44B3, 0x40, 0xEF, 0x209A, 0x4F,
    0xF0, 0x6466, 0x4E, 0xF1, 0x3429, 0x4E, 0xF2, 0x7FF6, 0x4E, 0xF3, 0x13DC, 0x4F, 0xF4, 0xA7DE, 0x4F, 0xF5, 0xFBF6, 0x4F,
    0xF6, 0xE813, 0x4F, 0xF7, 0x7824, 0x4F, 0xF8, 0xDC1D, 0x4E, 0xF9, 0x5BFA, 0x4E, 0xFA, 0x37C2, 0x4E, 0xFB, 0x9786, 0x4E,
    0xFC, 0x7B58, 0x4F, 0xFD, 0xB34C, 0x40, 0xFE, 0xF368, 0x41, 0xFF, 0xDFA9, 0x42]"

definition cw_array_2 :: "u16 list" where
  "cw_array_2 = [
    7, 0, 0x315, 0x316, 0x317, 0x100,
    0, 0x9800, 0x41, 1, 0x2048, 0x41, 2, 0x66, 0x40, 3, 0xDC48, 0x4E, 4, 0x6400, 0x4E, 5, 0xDFB7, 0x4E,
    6, 0xFF99, 0x4F, 7, 0x23B7, 0x41, 8, 0x9BFF, 0x41, 9, 0x2048, 0x41, 0xA, 0xFC66, 0x4F, 0xB, 0xDC48, 0x4E,
    0xC, 0x6400, 0x4E, 0xD, 0xDFB7, 0x4E, 0xE, 0xFF99, 0x4F, 0xF, 0x23B7, 0x41, 0x10, 0x9BFF, 0x41, 0x11, 0x2048, 0x41,
    0x12, 0x66, 0x40, 0x13, 0xDC48, 0x4E, 0x14, 0x67FF, 0x4E, 0x15, 0xDFB7, 0x4E, 0x16, 0xFF99, 0x4F, 0x17, 0x23B7, 0x41,
    0x18, 0x9BFF, 0x41, 0x19, 0x2048, 0x41, 0x1A, 0xFC66, 0x4F, 0x1B, 0xDC48, 0x4E, 0x1C, 0x6400, 0x4E, 0x1D, 0xDFB7, 0x4E,
    0x1E, 0x399, 0x40, 0x1F, 0x23B7, 0x41, 0x20, 0x9BFF, 0x41, 0x21, 0x2048, 0x41, 0x22, 0x66, 0x40, 0x23, 0xDC48, 0x4E,
    0x24, 0x6400, 0x4E, 0x25, 0xDFB7, 0x4E, 0x26, 0xFF99, 0x4F, 0x27, 0x23B7, 0x41, 0x28, 0x9800, 0x41, 0x29, 0x2048, 0x41,
    0x2A, 0x66, 0x40, 0x2B, 0xDC48, 0x4E, 0x2C, 0x6400, 0x4E, 0x2D, 0xDFB7, 0x4E, 0x2E, 0xFF99, 0x4F, 0x2F, 0x23B7, 0x41,
    0x30, 0x9BFF, 0x41, 0x31, 0x2048, 0x41, 0x32, 0xFC66, 0x4F, 0x33, 0xDC48, 0x4E, 0x34, 0x67FF, 0x4E, 0x35, 0xDFB7, 0x4E,
    0x36, 0x399, 0x40, 0x37, 0x23B7, 0x41, 0x38, 0x9BFF, 0x41, 0x39, 0x2048, 0x41, 0x3A, 0xFC66, 0x4F, 0x3B, 0xDC48, 0x4E,
    0x3C, 0x67FF, 0x4E, 0x3D, 0xDFB7, 0x4E, 0x3E, 0xFF99, 0x4F, 0x3F, 0x23B7, 0x41, 0x40, 0x9BFF, 0x41, 0x41, 0x2048, 0x41,
    0x42, 0x66, 0x40, 0x43, 0xDC48, 0x4E, 0x44, 0x6400, 0x4E, 0x45, 0xDFB7, 0x4E, 0x46, 0x399, 0x40, 0x47, 0x23B7, 0x41,
    0x48, 0x9BFF, 0x41, 0x49, 0x2048, 0x41, 0x4A, 0x66, 0x40, 0x4B, 0xDC48, 0x4E, 0x4C, 0x6400, 0x4E, 0x4D, 0xDFB7, 0x4E,
    0x4E, 0x399, 0x40, 0x4F, 0x23B7, 0x41, 0x50, 0x9800, 0x41, 0x51, 0x2048, 0x41, 0x52, 0xFC66, 0x4F, 0x53, 0xDC48, 0x4E,
    0x54, 0x6400, 0x4E, 0x55, 0xDFB7, 0x4E, 0x56, 0xFF99, 0x4F, 0x57, 0x23B7, 0x41, 0x58, 0x9BFF, 0x41, 0x59, 0x2048, 0x41,
    0x5A, 0x66, 0x40, 0x5B, 0xDC48, 0x4E, 0x5C, 0x6400, 0x4E, 0x5D, 0xDFB7, 0x4E, 0x5E, 0x399, 0x40, 0x5F, 0x23B7, 0x41,
    0x60, 0x9BFF, 0x41, 0x61, 0x2048, 0x41, 0x62, 0x66, 0x40, 0x63, 0xDC48, 0x4E, 0x64, 0x67FF, 0x4E, 0x65, 0xDFB7, 0x4E,
    0x66, 0xFF99, 0x4F, 0x67, 0x23B7, 0x41, 0x68, 0x9800, 0x41, 0x69, 0x2048, 0x41, 0x6A, 0x66, 0x40, 0x6B, 0xDC48, 0x4E,
    0x6C, 0x67FF, 0x4E, 0x6D, 0xDFB7, 0x4E, 0x6E, 0xFF99, 0x4F, 0x6F, 0x23B7, 0x41, 0x70, 0x9BFF, 0x41, 0x71, 0x2048, 0x41,
    0x72, 0x66, 0x40, 0x73, 0xDC48, 0x4E, 0x74, 0x67FF, 0x4E, 0x75, 0xDFB7, 0x4E, 0x76, 0xFF99, 0x4F, 0x77, 0x23B7, 0x41,
    0x78, 0x9800, 0x41, 0x79, 0x2048, 0x41, 0x7A, 0x66, 0x40, 0x7B, 0xDC48, 0x4E, 0x7C, 0x6400, 0x4E, 0x7D, 0xDFB7, 0x4E,
    0x7E, 0x399, 0x40, 0x7F, 0x23B7, 0x41, 0x80, 0x9800, 0x41, 0x81, 0x2048, 0x41, 0x82, 0x66, 0x40, 0x83, 0xDC48, 0x4E,
    0x84, 0x6400, 0x4E, 0x85, 0xDFB7, 0x4E, 0x86, 0xFF99, 0x4F, 0x87, 0x23B7, 0x41, 0x88, 0x9BFF, 0x41, 0x89, 0x2048, 0x41,
    0x8A, 0xFC66, 0x4F, 0x8B, 0xDC48, 0x4E, 0x8C, 0x6400, 0x4E, 0x8D, 0xDFB7, 0x4E, 0x8E, 0xFF99, 0x4F, 0x8F, 0x23B7, 0x41,
    0x90, 0x9BFF, 0x41, 0x91, 0x2048, 0x41, 0x92, 0x66, 0x40, 0x93, 0xDC48, 0x4E, 0x94, 0x67FF, 0x4E, 0x95, 0xDFB7, 0x4E,
    0x96, 0xFF99, 0x4F, 0x97, 0x23B7, 0x41, 0x98, 0x9BFF, 0x41, 0x99, 0x2048, 0x41, 0x9A, 0xFC66, 0x4F, 0x9B, 0xDC48, 0x4E,
    0x9C, 0x6400, 0x4E, 0x9D, 0xDFB7, 0x4E, 0x9E, 0x399, 0x40, 0x9F, 0x23B7, 0x41, 0xA0, 0x9BFF, 0x41, 0xA1, 0x2048, 0x41,
    0xA2, 0x66, 0x40, 0xA3, 0xDC48, 0x4E, 0xA4, 0x6400, 0x4E, 0xA5, 0xDFB7, 0x4E, 0xA6, 0xFF99, 0x4F, 0xA7, 0x23B7, 0x41,
    0xA8, 0x9800, 0x41, 0xA9, 0x2048, 0x41, 0xAA, 0x66, 0x40, 0xAB, 0xDC48, 0x4E, 0xAC, 0x6400, 0x4E, 0xAD, 0xDFB7, 0x4E,
    0xAE, 0xFF99, 0x4F, 0xAF, 0x23B7, 0x41, 0xB0, 0x9BFF, 0x41, 0xB1, 0x2048, 0x41, 0xB2, 0xFC66, 0x4F, 0xB3, 0xDC48, 0x4E,
    0xB4, 0x67FF, 0x4E, 0xB5, 0xDFB7, 0x4E, 0xB6, 0x399, 0x40, 0xB7, 0x23B7, 0x41, 0xB8, 0x9BFF, 0x41, 0xB9, 0x2048, 0x41,
    0xBA, 0xFC66, 0x4F, 0xBB, 0xDC48, 0x4E, 0xBC, 0x67FF, 0x4E, 0xBD, 0xDFB7, 0x4E, 0xBE, 0xFF99, 0x4F, 0xBF, 0x23B7, 0x41,
    0xC0, 0x9BFF, 0x41, 0xC1, 0x2048, 0x41, 0xC2, 0x66, 0x40, 0xC3, 0xDC48, 0x4E, 0xC4, 0x6400, 0x4E, 0xC5, 0xDFB7, 0x4E,
    0xC6, 0x399, 0x40, 0xC7, 0x23B7, 0x41, 0xC8, 0x9BFF, 0x41, 0xC9, 0x2048, 0x41, 0xCA, 0x66, 0x40, 0xCB, 0xDC48, 0x4E,
    0xCC, 0x6400, 0x4E, 0xCD, 0xDFB7, 0x4E, 0xCE, 0x399, 0x40, 0xCF, 0x23B7, 0x41, 0xD0, 0x9800, 0x41, 0xD1, 0x2048, 0x41,
    0xD2, 0xFC66, 0x4F, 0xD3, 0xDC48, 0x4E, 0xD4, 0x6400, 0x4E, 0xD5, 0xDFB7, 0x4E, 0xD6, 0xFF99, 0x4F, 0xD7, 0x23B7, 0x41,
    0xD8, 0x9BFF, 0x41, 0xD9, 0x2048, 0x41, 0xDA, 0x66, 0x40, 0xDB, 0xDC48, 0x4E, 0xDC, 0x6400, 0x4E, 0xDD, 0xDFB7, 0x4E,
    0xDE, 0x399, 0x40, 0xDF, 0x23B7, 0x41, 0xE0, 0x9BFF, 0x41, 0xE1, 0x2048, 0x41, 0xE2, 0x66, 0x40, 0xE3, 0xDC48, 0x4E,
    0xE4, 0x67FF, 0x4E, 0xE5, 0xDFB7, 0x4E, 0xE6, 0xFF99, 0x4F, 0xE7, 0x23B7, 0x41, 0xE8, 0x9800, 0x41, 0xE9, 0x2048, 0x41,
    0xEA, 0x66, 0x40, 0xEB, 0xDC48, 0x4E, 0xEC, 0x67FF, 0x4E, 0xED, 0xDFB7, 0x4E, 0xEE, 0xFF99, 0x4F, 0xEF, 0x23B7, 0x41,
    0xF0, 0x9BFF, 0x41, 0xF1, 0x2048, 0x41, 0xF2, 0x66, 0x40, 0xF3, 0xDC48, 0x4E, 0xF4, 0x67FF, 0x4E, 0xF5, 0xDFB7, 0x4E,
    0xF6, 0xFF99, 0x4F, 0xF7, 0x23B7, 0x41, 0xF8, 0x9800, 0x41, 0xF9, 0x2048, 0x41, 0xFA, 0x66, 0x40, 0xFB, 0xDC48, 0x4E,
    0xFC, 0x6400, 0x4E, 0xFD, 0xDFB7, 0x4E, 0xFE, 0x399, 0x40, 0xFF, 0x23B7, 0x41]"

definition cw_array_5 :: "u16 list" where
  "cw_array_5 = [
    7, 0, 0x315, 0x316, 0x317, 0x100,
    0, 0xC7E9, 0x41, 1, 0x380B, 0x41, 2, 0xE817, 0x40, 3, 0xF802, 0x40, 4, 0xE7F2, 0x40, 5, 0x5809, 0x40,
    6, 0xD02D, 0x4F, 7, 0xF828, 0x4F, 8, 0xA7ED, 0x40, 9, 0xE3A8, 0x40, 0xA, 0xF94, 0x40, 0xB, 0xBFBF, 0x4E,
    0xC, 0x1C0B, 0x4E, 0xD, 0xC84B, 0x4E, 0xE, 0x2868, 0x40, 0xF, 0x2060, 0x41, 0x10, 0xC43, 0x41, 0x11, 0x282A, 0x40,
    0x12, 0x3C26, 0x4F, 0x13, 0xF430, 0x4E, 0x14, 0x7829, 0x4F, 0x15, 0x4BFD, 0x40, 0x16, 0x9FC4, 0x40, 0x17, 0x17AE, 0x40,
    0x18, 0x27D2, 0x4F, 0x19, 0xA80B, 0x4E, 0x1A, 0x823, 0x4F, 0x1B, 0xB80A, 0x4F, 0x1C, 0xEFDF, 0x4F, 0x1D, 0x93C3, 0x4F,
    0x1E, 0x77B5, 0x4F, 0x1F, 0x23A1, 0x40, 0x20, 0xF8E, 0x41, 0x21, 0x2B97, 0x41, 0x22, 0x3FBB, 0x40, 0x23, 0x63DA, 0x4F,
    0x24, 0x9BDA, 0x4F, 0x25, 0x97D3, 0x40, 0x26, 0xF3F5, 0x40, 0x27, 0x3D, 0x40, 0x28, 0xA46D, 0x4E, 0x29, 0x4851, 0x4E,
    0x2A, 0x2809, 0x4F, 0x2B, 0x17E4, 0x40, 0x2C, 0xF401, 0x4F, 0x2D, 0x1823, 0x4F, 0x2E, 0xAC04, 0x4E, 0x2F, 0x53B3, 0x4F,
    0x30, 0x5B8E, 0x40, 0x31, 0xD7D0, 0x40, 0x32, 0x9846, 0x40, 0x33, 0x3486, 0x40, 0x34, 0x464, 0x40, 0x35, 0xD812, 0x4F,
    0x36, 0x9FD9, 0x4F, 0x37, 0x9FCD, 0x4F, 0x38, 0x27D2, 0x40, 0x39, 0xCBDC, 0x40, 0x3A, 0xBFFE, 0x40, 0x3B, 0xE43D, 0x4F,
    0x3C, 0x286E, 0x4F, 0x3D, 0x7860, 0x4F, 0x3E, 0xB01E, 0x40, 0x3F, 0xB7E7, 0x41, 0x40, 0xC7E9, 0x41, 0x41, 0x380B, 0x41,
    0x42, 0xE817, 0x40, 0x43, 0xF802, 0x40, 0x44, 0xE7F2, 0x40, 0x45, 0x5809, 0x40, 0x46, 0xD02D, 0x4F, 0x47, 0xF828, 0x4F,
    0x48, 0xA7ED, 0x40, 0x49, 0xE3A8, 0x40, 0x4A, 0xF94, 0x40, 0x4B, 0xBFBF, 0x4E, 0x4C, 0x1C0B, 0x4E, 0x4D, 0xC84B, 0x4E,
    0x4E, 0x2868, 0x40, 0x4F, 0x2060, 0x41, 0x50, 0xC43, 0x41, 0x51, 0x282A, 0x40, 0x52, 0x3C26, 0x4F, 0x53, 0xF430, 0x4E,
    0x54, 0x7829, 0x4F, 0x55, 0x4BFD, 0x40, 0x56, 0x9FC4, 0x40, 0x57, 0x17AE, 0x40, 0x58, 0x27D2, 0x4F, 0x59, 0xA80B, 0x4E,
    0x5A, 0x823, 0x4F, 0x5B, 0xB80A, 0x4F, 0x5C, 0xEFDF, 0x4F, 0x5D, 0x93C3, 0x4F, 0x5E, 0x77B5, 0x4F, 0x5F, 0x23A1, 0x40,
    0x60, 0xF8E, 0x41, 0x61, 0x2B97, 0x41, 0x62, 0x3FBB, 0x40, 0x63, 0x63DA, 0x4F, 0x64, 0x9BDA, 0x4F, 0x65, 0x97D3, 0x40,
    0x66, 0xF3F5, 0x40, 0x67, 0x3D, 0x40, 0x68, 0xA46D, 0x4E, 0x69, 0x4851, 0x4E, 0x6A, 0x2809, 0x4F, 0x6B, 0x17E4, 0x40,
    0x6C, 0xF401, 0x4F, 0x6D, 0x1823, 0x4F, 0x6E, 0xAC04, 0x4E, 0x6F, 0x53B3, 0x4F, 0x70, 0x5B8E, 0x40, 0x71, 0xD7D0, 0x40,
    0x72, 0x9846, 0x40, 0x73, 0x3486, 0x40, 0x74, 0x464, 0x40, 0x75, 0xD812, 0x4F, 0x76, 0x9FD9, 0x4F, 0x77, 0x9FCD, 0x4F,
    0x78, 0x27D2, 0x40, 0x79, 0xCBDC, 0x40, 0x7A, 0xBFFE, 0x40, 0x7B, 0xE43D, 0x4F, 0x7C, 0x286E, 0x4F, 0x7D, 0x7860, 0x4F,
    0x7E, 0xB01E, 0x40, 0x7F, 0xB7E7, 0x41, 0x80, 0xA416, 0x4F, 0x81, 0x42A, 0x4F, 0x82, 0x4016, 0x4E, 0x83, 0x37E7, 0x4E,
    0x84, 0x13CE, 0x4F, 0x85, 0x7EC, 0x40, 0x86, 0x6429, 0x40, 0x87, 0x644A, 0x40, 0x88, 0xC030, 0x40, 0x89, 0x7801, 0x41,
    0x8A, 0xD3FB, 0x41, 0x8B, 0x4029, 0x41, 0x8C, 0x3C59, 0x40, 0x8D, 0xA05C, 0x4F, 0x8E, 0xBC3D, 0x4F, 0x8F, 0x827, 0x40,
    0x90, 0x2D, 0x40, 0x91, 0xC436, 0x4F, 0x92, 0xD02A, 0x4F, 0x93, 0x1415, 0x40, 0x94, 0x810, 0x40, 0x95, 0x7817, 0x4F,
    0x96, 0xF40A, 0x4E, 0x97, 0x27E3, 0x4F, 0x98, 0xBC2, 0x40, 0x99, 0xE3CA, 0x40, 0x9A, 0xFEE, 0x41, 0x9B, 0xAC03, 0x40,
    0x9C, 0x4403, 0x40, 0x9D, 0xC0F, 0x40, 0x9E, 0xDC3B, 0x4F, 0x9F, 0xA855, 0x4F, 0xA0, 0xA416, 0x4F, 0xA1, 0xFF89, 0x4F,
    0xA2, 0x6B17, 0x40, 0xA3, 0x6726, 0x40, 0xA4, 0xBBA4, 0x4F, 0xA5, 0xCC1A, 0x4E, 0xA6, 0x3C2D, 0x4E, 0xA7, 0x6BF5, 0x4E,
    0xA8, 0x43D0, 0x4F, 0xA9, 0x57E7, 0x40, 0xAA, 0x140F, 0x41, 0xAB, 0xEC11, 0x40, 0xAC, 0xF7F4, 0x4F, 0xAD, 0x13E8, 0x4F,
    0xAE, 0x4400, 0x4F, 0xAF, 0xB015, 0x40, 0xB0, 0x1C00, 0x42, 0xB1, 0x33D6, 0x42, 0xB2, 0xEBCD, 0x40, 0xB3, 0xB3F5, 0x4F,
    0xB4, 0xC022, 0x4F, 0xB5, 0xB021, 0x40, 0xB6, 0xFFF8, 0x40, 0xB7, 0xF3D7, 0x4F, 0xB8, 0x8BE2, 0x4E, 0xB9, 0x4C0C, 0x4E,
    0xBA, 0x742B, 0x4F, 0xBB, 0xB828, 0x40, 0xBC, 0xEC0A, 0x40, 0xBD, 0x3FEA, 0x40, 0xBE, 0xB3E0, 0x4F, 0xBF, 0xB3F3, 0x4F,
    0xC0, 0xA416, 0x4F, 0xC1, 0x42A, 0x4F, 0xC2, 0x4016, 0x4E, 0xC3, 0x37E7, 0x4E, 0xC4, 0x13CE, 0x4F, 0xC5, 0x7EC, 0x40,
    0xC6, 0x6429, 0x40, 0xC7, 0x644A, 0x40, 0xC8, 0xC030, 0x40, 0xC9, 0x7801, 0x41, 0xCA, 0xD3FB, 0x41, 0xCB, 0x4029, 0x41,
    0xCC, 0x3C59, 0x40, 0xCD, 0xA05C, 0x4F, 0xCE, 0xBC3D, 0x4F, 0xCF, 0x827, 0x40, 0xD0, 0x2D, 0x40, 0xD1, 0xC436, 0x4F,
    0xD2, 0xD02A, 0x4F, 0xD3, 0x1415, 0x40, 0xD4, 0x810, 0x40, 0xD5, 0x7817, 0x4F, 0xD6, 0xF40A, 0x4E, 0xD7, 0x27E3, 0x4F,
    0xD8, 0xBC2, 0x40, 0xD9, 0xE3CA, 0x40, 0xDA, 0xFEE, 0x41, 0xDB, 0xAC03, 0x40, 0xDC, 0x4403, 0x40, 0xDD, 0xC0F, 0x40,
    0xDE, 0xDC3B, 0x4F, 0xDF, 0xA855, 0x4F, 0xE0, 0xA416, 0x4F, 0xE1, 0xFF89, 0x4F, 0xE2, 0x6B17, 0x40, 0xE3, 0x6726, 0x40,
    0xE4, 0xBBA4, 0x4F, 0xE5, 0xCC1A, 0x4E, 0xE6, 0x3C2D, 0x4E, 0xE7, 0x6BF5, 0x4E, 0xE8, 0x43D0, 0x4F, 0xE9, 0x57E7, 0x40,
    0xEA, 0x140F, 0x41, 0xEB, 0xEC11, 0x40, 0xEC, 0xF7F4, 0x4F, 0xED, 0x13E8, 0x4F, 0xEE, 0x4400, 0x4F, 0xEF, 0xB015, 0x40,
    0xF0, 0x1C00, 0x42, 0xF1, 0x33D6, 0x42, 0xF2, 0xEBCD, 0x40, 0xF3, 0xB3F5, 0x4F, 0xF4, 0xC022, 0x4F, 0xF5, 0xB021, 0x40,
    0xF6, 0xFFF8, 0x40, 0xF7, 0xF3D7, 0x4F, 0xF8, 0x8BE2, 0x4E, 0xF9, 0x4C0C, 0x4E, 0xFA, 0x742B, 0x4F, 0xFB, 0xB828, 0x40,
    0xFC, 0xEC0A, 0x40, 0xFD, 0x3FEA, 0x40, 0xFE, 0xB3E0, 0x4F, 0xFF, 0xB3F3, 0x4F]"

definition cw_dc_tone :: "u16 list" where
  "cw_dc_tone = [
    7, 0, 0x315, 0x316, 0x317, 0x100,
    0, 0xE400, 0x41, 1, 0xE400, 0x41, 2, 0xE400, 0x41, 3, 0xE400, 0x41, 4, 0xE400, 0x41, 5, 0xE400, 0x41,
    6, 0xE400, 0x41, 7, 0xE400, 0x41, 8, 0xE400, 0x41, 9, 0xE400, 0x41, 0xA, 0xE400, 0x41, 0xB, 0xE400, 0x41,
    0xC, 0xE400, 0x41, 0xD, 0xE400, 0x41, 0xE, 0xE400, 0x41, 0xF, 0xE400, 0x41, 0x10, 0xE400, 0x41, 0x11, 0xE400, 0x41,
    0x12, 0xE400, 0x41, 0x13, 0xE400, 0x41, 0x14, 0xE400, 0x41, 0x15, 0xE400, 0x41, 0x16, 0xE400, 0x41, 0x17, 0xE400, 0x41,
    0x18, 0xE400, 0x41, 0x19, 0xE400, 0x41, 0x1A, 0xE400, 0x41, 0x1B, 0xE400, 0x41, 0x1C, 0xE400, 0x41, 0x1D, 0xE400, 0x41,
    0x1E, 0xE400, 0x41, 0x1F, 0xE400, 0x41, 0x20, 0xE400, 0x41, 0x21, 0xE400, 0x41, 0x22, 0xE400, 0x41, 0x23, 0xE400, 0x41,
    0x24, 0xE400, 0x41, 0x25, 0xE400, 0x41, 0x26, 0xE400, 0x41, 0x27, 0xE400, 0x41, 0x28, 0xE400, 0x41, 0x29, 0xE400, 0x41,
    0x2A, 0xE400, 0x41, 0x2B, 0xE400, 0x41, 0x2C, 0xE400, 0x41, 0x2D, 0xE400, 0x41, 0x2E, 0xE400, 0x41, 0x2F, 0xE400, 0x41,
    0x30, 0xE400, 0x41, 0x31, 0xE400, 0x41, 0x32, 0xE400, 0x41, 0x33, 0xE400, 0x41, 0x34, 0xE400, 0x41, 0x35, 0xE400, 0x41,
    0x36, 0xE400, 0x41, 0x37, 0xE400, 0x41, 0x38, 0xE400, 0x41, 0x39, 0xE400, 0x41, 0x3A, 0xE400, 0x41, 0x3B, 0xE400, 0x41,
    0x3C, 0xE400, 0x41, 0x3D, 0xE400, 0x41, 0x3E, 0xE400, 0x41, 0x3F, 0xE400, 0x41, 0x40, 0xE400, 0x41, 0x41, 0xE400, 0x41,
    0x42, 0xE400, 0x41, 0x43, 0xE400, 0x41, 0x44, 0xE400, 0x41, 0x45, 0xE400, 0x41, 0x46, 0xE400, 0x41, 0x47, 0xE400, 0x41,
    0x48, 0xE400, 0x41, 0x49, 0xE400, 0x41, 0x4A, 0xE400, 0x41, 0x4B, 0xE400, 0x41, 0x4C, 0xE400, 0x41, 0x4D, 0xE400, 0x41,
    0x4E, 0xE400, 0x41, 0x4F, 0xE400, 0x41, 0x50, 0xE400, 0x41, 0x51, 0xE400, 0x41, 0x52, 0xE400, 0x41, 0x53, 0xE400, 0x41,
    0x54, 0xE400, 0x41, 0x55, 0xE400, 0x41, 0x56, 0xE400, 0x41, 0x57, 0xE400, 0x41, 0x58, 0xE400, 0x41, 0x59, 0xE400, 0x41,
    0x5A, 0xE400, 0x41, 0x5B, 0xE400, 0x41, 0x5C, 0xE400, 0x41, 0x5D, 0xE400, 0x41, 0x5E, 0xE400, 0x41, 0x5F, 0xE400, 0x41,
    0x60, 0xE400, 0x41, 0x61, 0xE400, 0x41, 0x62, 0xE400, 0x41, 0x63, 0xE400, 0x41, 0x64, 0xE400, 0x41, 0x65, 0xE400, 0x41,
    0x66, 0xE400, 0x41, 0x67, 0xE400, 0x41, 0x68, 0xE400, 0x41, 0x69, 0xE400, 0x41, 0x6A, 0xE400, 0x41, 0x6B, 0xE400, 0x41,
    0x6C, 0xE400, 0x41, 0x6D, 0xE400, 0x41, 0x6E, 0xE400, 0x41, 0x6F, 0xE400, 0x41, 0x70, 0xE400, 0x41, 0x71, 0xE400, 0x41,
    0x72, 0xE400, 0x41, 0x73, 0xE400, 0x41, 0x74, 0xE400, 0x41, 0x75, 0xE400, 0x41, 0x76, 0xE400, 0x41, 0x77, 0xE400, 0x41,
    0x78, 0xE400, 0x41, 0x79, 0xE400, 0x41, 0x7A, 0xE400, 0x41, 0x7B, 0xE400, 0x41, 0x7C, 0xE400, 0x41, 0x7D, 0xE400, 0x41,
    0x7E, 0xE400, 0x41, 0x7F, 0xE400, 0x41, 0x80, 0xE400, 0x41, 0x81, 0xE400, 0x41, 0x82, 0xE400, 0x41, 0x83, 0xE400, 0x41,
    0x84, 0xE400, 0x41, 0x85, 0xE400, 0x41, 0x86, 0xE400, 0x41, 0x87, 0xE400, 0x41, 0x88, 0xE400, 0x41, 0x89, 0xE400, 0x41,
    0x8A, 0xE400, 0x41, 0x8B, 0xE400, 0x41, 0x8C, 0xE400, 0x41, 0x8D, 0xE400, 0x41, 0x8E, 0xE400, 0x41, 0x8F, 0xE400, 0x41,
    0x90, 0xE400, 0x41, 0x91, 0xE400, 0x41, 0x92, 0xE400, 0x41, 0x93, 0xE400, 0x41, 0x94, 0xE400, 0x41, 0x95, 0xE400, 0x41,
    0x96, 0xE400, 0x41, 0x97, 0xE400, 0x41, 0x98, 0xE400, 0x41, 0x99, 0xE400, 0x41, 0x9A, 0xE400, 0x41, 0x9B, 0xE400, 0x41,
    0x9C, 0xE400, 0x41, 0x9D, 0xE400, 0x41, 0x9E, 0xE400, 0x41, 0x9F, 0xE400, 0x41, 0xA0, 0xE400, 0x41, 0xA1, 0xE400, 0x41,
    0xA2, 0xE400, 0x41, 0xA3, 0xE400, 0x41, 0xA4, 0xE400, 0x41, 0xA5, 0xE400, 0x41, 0xA6, 0xE400, 0x41, 0xA7, 0xE400, 0x41,
    0xA8, 0xE400, 0x41, 0xA9, 0xE400, 0x41, 0xAA, 0xE400, 0x41, 0xAB, 0xE400, 0x41, 0xAC, 0xE400, 0x41, 0xAD, 0xE400, 0x41,
    0xAE, 0xE400, 0x41, 0xAF, 0xE400, 0x41, 0xB0, 0xE400, 0x41, 0xB1, 0xE400, 0x41, 0xB2, 0xE400, 0x41, 0xB3, 0xE400, 0x41,
    0xB4, 0xE400, 0x41, 0xB5, 0xE400, 0x41, 0xB6, 0xE400, 0x41, 0xB7, 0xE400, 0x41, 0xB8, 0xE400, 0x41, 0xB9, 0xE400, 0x41,
    0xBA, 0xE400, 0x41, 0xBB, 0xE400, 0x41, 0xBC, 0xE400, 0x41, 0xBD, 0xE400, 0x41, 0xBE, 0xE400, 0x41, 0xBF, 0xE400, 0x41,
    0xC0, 0xE400, 0x41, 0xC1, 0xE400, 0x41, 0xC2, 0xE400, 0x41, 0xC3, 0xE400, 0x41, 0xC4, 0xE400, 0x41, 0xC5, 0xE400, 0x41,
    0xC6, 0xE400, 0x41, 0xC7, 0xE400, 0x41, 0xC8, 0xE400, 0x41, 0xC9, 0xE400, 0x41, 0xCA, 0xE400, 0x41, 0xCB, 0xE400, 0x41,
    0xCC, 0xE400, 0x41, 0xCD, 0xE400, 0x41, 0xCE, 0xE400, 0x41, 0xCF, 0xE400, 0x41, 0xD0, 0xE400, 0x41, 0xD1, 0xE400, 0x41,
    0xD2, 0xE400, 0x41, 0xD3, 0xE400, 0x41, 0xD4, 0xE400, 0x41, 0xD5, 0xE400, 0x41, 0xD6, 0xE400, 0x41, 0xD7, 0xE400, 0x41,
    0xD8, 0xE400, 0x41, 0xD9, 0xE400, 0x41, 0xDA, 0xE400, 0x41, 0xDB, 0xE400, 0x41, 0xDC, 0xE400, 0x41, 0xDD, 0xE400, 0x41,
    0xDE, 0xE400, 0x41, 0xDF, 0xE400, 0x41, 0xE0, 0xE400, 0x41, 0xE1, 0xE400, 0x41, 0xE2, 0xE400, 0x41, 0xE3, 0xE400, 0x41,
    0xE4, 0xE400, 0x41, 0xE5, 0xE400, 0x41, 0xE6, 0xE400, 0x41, 0xE7, 0xE400, 0x41, 0xE8, 0xE400, 0x41, 0xE9, 0xE400, 0x41,
    0xEA, 0xE400, 0x41, 0xEB, 0xE400, 0x41, 0xEC, 0xE400, 0x41, 0xED, 0xE400, 0x41, 0xEE, 0xE400, 0x41, 0xEF, 0xE400, 0x41,
    0xF0, 0xE400, 0x41, 0xF1, 0xE400, 0x41, 0xF2, 0xE400, 0x41, 0xF3, 0xE400, 0x41, 0xF4, 0xE400, 0x41, 0xF5, 0xE400, 0x41,
    0xF6, 0xE400, 0x41, 0xF7, 0xE400, 0x41, 0xF8, 0xE400, 0x41, 0xF9, 0xE400, 0x41, 0xFA, 0xE400, 0x41, 0xFB, 0xE400, 0x41,
    0xFC, 0xE400, 0x41, 0xFD, 0xE400, 0x41, 0xFE, 0xE400, 0x41, 0xFF, 0xE400, 0x41]"

definition cw_array_6 :: "u16 list" where
  "cw_array_6 = [
    7, 0, 0x315, 0x316, 0x317, 0x100]"

definition cw_table :: "u8 \<Rightarrow> u16 list" where
  "cw_table ty =
     (if ty = 0 \<or> ty = 1 then cw_dc_tone else if ty = 2 then cw_array_2 else if ty = 3 then cw_array_3
      else if ty = 4 then cw_array_4 else if ty = 5 then cw_array_5 else if ty = 6 then cw_array_6 else cw_array_1)"

lemma cw_table_lengths:
  "length cw_dc_tone = 774" "length cw_array_1 = 774" "length cw_array_2 = 774" "length cw_array_3 = 774"
  "length cw_array_4 = 774" "length cw_array_5 = 774" "length cw_array_6 = 6"
  by (simp_all add: cw_dc_tone_def cw_array_1_def cw_array_2_def cw_array_3_def cw_array_4_def cw_array_5_def cw_array_6_def)

lemma length_cw_table: "ty \<noteq> 6 \<Longrightarrow> length (cw_table ty) = 774"
  by (simp add: cw_table_def cw_table_lengths)

end
