(* ===== verification/Bt_Driver.thy ===== *)
theory Bt_Driver
  imports Power_Manager Bt_Tables
begin

text \<open>
  The Bluetooth module above the common HAL (\<^verbatim>\<open>src/source/host/bt\<close>), built with
  \<^verbatim>\<open>USE_BLUEZ_BT_STACK\<close>. It gives the packets of the Bluetooth stack a descriptor and queues
  them at the common HAL, and hands what the firmware sends to the stack, in end-to-end mode, or to
  a test application over netlink, in the mode of radio evaluation. The packets of a bit error test wait in a
  ring until the application asks for them. The ZigBee module (\<^verbatim>\<open>src/source/host/zigbee\<close>), which
  does no more than pass packets on, is at the end.
\<close>

section \<open>The state\<close>

abbreviation (input) BT_DATA_Q :: u16 where "BT_DATA_Q \<equiv> 7"
abbreviation (input) BT_INT_MGMT_Q :: u16 where "BT_INT_MGMT_Q \<equiv> 6"
abbreviation (input) BT_E2E_MODE_ON :: u8 where "BT_E2E_MODE_ON \<equiv> 1"
abbreviation (input) RF_EVAL_MODE_ON :: u8 where "RF_EVAL_MODE_ON \<equiv> 2"
abbreviation (input) BT_DEVICE_READY :: u32 where "BT_DEVICE_READY \<equiv> 16"
abbreviation (input) BT_PER :: u8 where "BT_PER \<equiv> 0x10"
abbreviation (input) BT_CW :: u8 where "BT_CW \<equiv> 0x12"
abbreviation (input) BT_BER :: u8 where "BT_BER \<equiv> 0x11"
abbreviation (input) RESULT_CONFIRM_BT :: u8 where "RESULT_CONFIRM_BT \<equiv> 0x80"
abbreviation (input) BT_RF_POWER_MODE_REQ :: u8 where "BT_RF_POWER_MODE_REQ \<equiv> 0x55"
abbreviation (input) BER_BUFFER :: nat where "BER_BUFFER \<equiv> 1035"
abbreviation (input) BER_DATA :: nat where "BER_DATA \<equiv> 1032"

text \<open>
  \<^verbatim>\<open>onebox_alloc_skb\<close> asks the kernel for more than it reserves in front of the packet and hands out: 64
  bytes in a build with \<^verbatim>\<open>USE_USB_INTF\<close>, none in a build for SDIO alone.
\<close>

definition skb_tailroom :: "build \<Rightarrow> nat" where
  "skb_tailroom bd = (if USE_USB_INTF bd then 64 else 0)"

text \<open>The packet of this module has a type, and room in front of its data.\<close>

record bt_pkt = netbuf +
  bt_pkt_type :: u8
  headroom :: nat

datatype bt_event =
    Bt_to_stack bytes u8 | Bt_to_genl bytes | Bt_free bytes | Bt_mem_free bytes
  | Bt_per_event | Bt_reset_event | Bt_wait_event | Bt_acquire | Bt_release | Bt_init_acquire | Bt_init_release
  | Bt_stack_init | Bt_stack_deinit | Bt_hci_free | Bt_genl_init | Bt_genl_deinit | Bt_purge nat

text \<open>
  \<^verbatim>\<open>bt_ber_params_t\<close>: the array has 1033 elements, of which the byte indices reach 256; an
  element is a pointer to a buffer and the length of its content.
\<close>

record ber_ring =
  ber_slots :: "(bytes option \<times> u16) list"
  push_loc :: u8
  pop_loc :: u8
  num_pkts_avail :: u16

record ber_report =
  br_len :: u16
  br_data :: bytes
  br_num :: u16

record bt =
  bt_hal :: adapter
  bt_fsm :: u32
  core_init_done :: bool
  bt_tx_queue :: "bt_pkt list"
  bt_tx_dropped :: u32
  bt_rx_packets :: u32
  bb_rf_params :: bytes
  ber_info :: ber_ring
  bt_pkt_drop_cnt :: u32
  bt_ber_pkts :: u16
  get_ber_pkts :: ber_report
  num_pkt_inx :: u8
  read_cmd :: bool
  wait_cmd :: bool
  bt_mode :: u8
  bt_oper_mode :: u8
  tx_is_in_progress :: u8
  bt_power_mode :: u8
  cw_type :: u8
  cw_sub_type :: u8
  hdev :: bool                    \<comment> \<open>is not NULL\<close>
  hci_running :: bool
  hci_tx :: "u8 \<Rightarrow> u32"
  genl_cb :: bool                 \<comment> \<open>is not NULL\<close>
  bt_log :: "bt_event list"

text \<open>
  The answers of the kernel to this module. While it waits for an event others run, and the packets that arrive
  are worked off.
\<close>

record bt_host =
  bth :: host
  bth_alloc :: "bt_event list \<Rightarrow> bool"
  bth_kmalloc :: "bt_event list \<Rightarrow> bool"
  bth_garbage :: "bt_event list \<Rightarrow> nat \<Rightarrow> u8"
  bth_genl_send :: "bt_event list \<Rightarrow> status"
  bth_stack_recv :: "bt_event list \<Rightarrow> status"
  bth_hci_alloc :: "bt_event list \<Rightarrow> bool"
  bth_hci_register :: "bt_event list \<Rightarrow> status"
  bth_genl_init :: "bt_event list \<Rightarrow> status"
  bth_genl_deinit :: "bt_event list \<Rightarrow> status"
  bth_wait :: "bt \<Rightarrow> bool \<times> bt"
  bth_others :: "adapter \<Rightarrow> adapter"
  bth_build :: build

definition bt_do :: "bt_event \<Rightarrow> bt \<Rightarrow> bt" where
  "bt_do e b = b\<lparr>bt_log := e # bt_log b\<rparr>"

text \<open>A status that passes through a variable of one signed byte.\<close>

definition byte_status :: "status \<Rightarrow> status" where
  "byte_status s = sint (word_of_int s :: u8)"

section \<open>Handing packets on\<close>

definition send_pkt_to_btgenl :: "bt_host \<Rightarrow> bytes \<Rightarrow> bt \<Rightarrow> status \<times> bt" where
  "send_pkt_to_btgenl h d b =
     (if \<not> genl_cb b then (-14, b) else if d = [] then (-61, b)
      else (byte_status (bth_genl_send h (bt_log b)), bt_do (Bt_to_genl d) b))"

text \<open>Without a device of the stack a NULL pointer is used.\<close>

definition send_pkt_to_bluez :: "bt_host \<Rightarrow> bytes \<Rightarrow> u8 \<Rightarrow> bt \<Rightarrow> (status \<times> bt) option" where
  "send_pkt_to_bluez h d ty b = (if hdev b then Some (bth_stack_recv h (bt_log b), bt_do (Bt_to_stack d ty) b) else None)"

definition bt_core_pkt_recv :: "bt_host \<Rightarrow> bytes \<Rightarrow> u8 \<Rightarrow> bt \<Rightarrow> (status \<times> bt) option" where
  "bt_core_pkt_recv h d ty b =
     (if bt_mode b = RF_EVAL_MODE_ON then Some (send_pkt_to_btgenl h d b) else send_pkt_to_bluez h d ty b)"

section \<open>Sending\<close>

text \<open>Words 1 to 6 of the descriptor hold what was in memory. The type of the command is read for a print.\<close>

definition bt_frame :: "(nat \<Rightarrow> u8) \<Rightarrow> bytes \<Rightarrow> u8 \<Rightarrow> bytes" where
  "bt_frame g d ty =
     (let d0 = map g [0..<FRAME_DESC_SZ] @ d;
          w0 = (word_of_nat (length d) AND 0xFFF) OR push_bit 12 (BT_DATA_Q AND 7) in
      set_word 7 (ucast ty) (set_word 0 w0 d0))"

definition send_bt_pkt :: "bt_host \<Rightarrow> bt_pkt \<Rightarrow> bt \<Rightarrow> (status \<times> bt) option" where
  "send_bt_pkt h p b =
     (if headroom p < FRAME_DESC_SZ then Some (ONEBOX_STATUS_FAILURE, b)
      else do { let d = bt_frame (bth_garbage h (bt_log b)) (nb_data p) (bt_pkt_type p);
                ogcf \<leftarrow> rd16 d FRAME_DESC_SZ;
                (s, a) \<leftarrow> send_pkt_to_coex (bth h) ((netbuf.truncate p)\<lparr>nb_data := d, tx_pkt_type := BT_TX_Q\<rparr>) BT_Q (bt_hal b);
                Some (s, b\<lparr>bt_hal := a\<rparr>) })"

definition bt_xmit :: "bt_host \<Rightarrow> bt_pkt \<Rightarrow> bt \<Rightarrow> (status \<times> bt) option" where
  "bt_xmit h p b =
     (if nb_data p = [] \<or> bt_fsm b \<noteq> BT_DEVICE_READY
      then Some (ONEBOX_STATUS_SUCCESS, bt_do (Bt_free (nb_data p)) (b\<lparr>bt_tx_dropped := bt_tx_dropped b + 1\<rparr>))
      else do { (s, b1) \<leftarrow> send_bt_pkt h p b; Some (ONEBOX_STATUS_SUCCESS, b1) })"

fun send_all :: "bt_host \<Rightarrow> bt_pkt list \<Rightarrow> bt \<Rightarrow> bt option" where
  "send_all h [] b = Some (b\<lparr>bt_tx_queue := []\<rparr>)"
| "send_all h (p # ps) b = do { (s, b1) \<leftarrow> send_bt_pkt h p (b\<lparr>bt_tx_queue := ps\<rparr>); send_all h ps b1 }"

definition core_bt_deque_pkts :: "bt_host \<Rightarrow> bt \<Rightarrow> (status \<times> bt) option" where
  "core_bt_deque_pkts h b = do { b1 \<leftarrow> send_all h (bt_tx_queue b) b; Some (ONEBOX_STATUS_SUCCESS, b1) }"

text \<open>
  The stack sends. A packet without room for the descriptor is copied; without memory for the copy
  a NULL pointer is used.
\<close>

definition onebox_hdev_send_frame :: "bt_host \<Rightarrow> bt_pkt \<Rightarrow> bt \<Rightarrow> (status \<times> bt) option" where
  "onebox_hdev_send_frame h p b =
     (if \<not> hci_running b then Some (-16, b)
      else if bt_pkt_type p \<notin> {1, 2, 3} then Some (-84, b)
      else let ty = bt_pkt_type p; b1 = b\<lparr>hci_tx := (hci_tx b)(ty := hci_tx b ty + 1)\<rparr> in
           if headroom p < FRAME_DESC_SZ
           then if \<not> bth_alloc h (bt_log b1) then None
                else do { (s, b2) \<leftarrow> bt_xmit h (netbuf.extend (fresh_netbuf (nb_data p)) \<lparr>bt_pkt_type = ty, headroom = FRAME_DESC_SZ\<rparr>)
                                        (bt_do (Bt_free (nb_data p)) b1);
                          Some (0, b2) }
           else do { (s, b2) \<leftarrow> bt_xmit h p b1; Some (0, b2) })"

text \<open>
  The power mode of the radio, from two module parameters. Two bytes are copied from a field of
  one; the second is \<open>junk\<close>. The status is kept in a byte.
\<close>

definition bt_read_reg_params :: "bt_host \<Rightarrow> u16 \<Rightarrow> u16 \<Rightarrow> u8 \<Rightarrow> bt \<Rightarrow> (status \<times> bt) option" where
  "bt_read_reg_params h tx_mode rx_mode junk b =
     (let mode = ucast (tx_mode AND 0x0F) OR ucast (push_bit 4 rx_mode AND 0xF0); b1 = b\<lparr>bt_power_mode := mode\<rparr> in
      if \<not> bth_alloc h (bt_log b1) then Some (ONEBOX_STATUS_FAILURE, b1)
      else do { let d0 = map (bth_garbage h (bt_log b1)) [0..<FRAME_DESC_SZ] @ [mode, junk];
                let d = set_word 7 (ucast BT_RF_POWER_MODE_REQ) (set_word 0 (2 OR push_bit 12 BT_INT_MGMT_Q) d0);
                (s, a) \<leftarrow> send_pkt_to_coex (bth h) ((fresh_netbuf d)\<lparr>tx_pkt_type := BT_TX_Q\<rparr>) BT_Q (bt_hal b1);
                let st = (word_of_int s :: u8);
                Some (uint st, b1\<lparr>bt_hal := a\<rparr>) })"

section \<open>Start and end\<close>

definition bluez_init :: "bt_host \<Rightarrow> bt \<Rightarrow> status \<times> bt" where
  "bluez_init h b =
     (if \<not> bth_hci_alloc h (bt_log b) then (-12, b)
      else let err = bth_hci_register h (bt_log b); b1 = bt_do Bt_stack_init (b\<lparr>hdev := True\<rparr>) in
           if err < 0 then (err, (bt_do Bt_hci_free b1)\<lparr>hdev := False\<rparr>) else (ONEBOX_STATUS_SUCCESS, b1))"

definition bluez_deinit :: "bt \<Rightarrow> status \<times> bt" where
  "bluez_deinit b =
     (if \<not> hdev b then (-14, b) else (ONEBOX_STATUS_SUCCESS, bt_do Bt_hci_free (bt_do Bt_stack_deinit b)))"

definition btgenl_init :: "bt_host \<Rightarrow> bt \<Rightarrow> status \<times> bt" where
  "btgenl_init h b =
     (if \<not> bth_kmalloc h (bt_log b) then (-12, b)
      else let rc = bth_genl_init h (bt_log b); b1 = bt_do Bt_genl_init (b\<lparr>genl_cb := True\<rparr>) in
           if rc \<noteq> 0 then (rc, b1\<lparr>genl_cb := False\<rparr>) else (0, b1))"

definition btgenl_deinit :: "bt_host \<Rightarrow> bt \<Rightarrow> status \<times> bt" where
  "btgenl_deinit h b =
     (let rc = bth_genl_deinit h (bt_log b); b1 = bt_do Bt_genl_deinit b in
      if rc \<noteq> 0 then (rc, b1) else (rc, b1\<lparr>genl_cb := False\<rparr>))"

definition core_bt_init :: "bt_host \<Rightarrow> bt \<Rightarrow> status \<times> bt" where
  "core_bt_init h b =
     (let b0 = b\<lparr>bt_tx_queue := []\<rparr>;
          (rc, b1) = (if bt_mode b0 = BT_E2E_MODE_ON then bluez_init h b0 else (0, b0)) in
      if byte_status rc \<noteq> 0 then (ONEBOX_STATUS_FAILURE, b1)
      else let (rc2, b2) = btgenl_init h b1 in
           if byte_status rc2 \<noteq> 0 then (ONEBOX_STATUS_FAILURE, b2) else (ONEBOX_STATUS_SUCCESS, b2\<lparr>core_init_done := True\<rparr>))"

definition core_bt_deinit :: "bt_host \<Rightarrow> bt \<Rightarrow> bt" where
  "core_bt_deinit h b =
     (let b1 = bt_do (Bt_purge (length (bt_tx_queue b))) (b\<lparr>core_init_done := False, bt_tx_queue := []\<rparr>);
          b2 = (if bt_mode b1 = BT_E2E_MODE_ON then snd (bluez_deinit b1) else b1) in
      snd (btgenl_deinit h b2))"

text \<open>
  The module is linked to the common HAL; the state \<open>b\<close> is that of the new, cleared adapter. The module
  counts as active before the core is initialised.
\<close>

definition bt_insert :: "bt_host \<Rightarrow> u8 \<Rightarrow> u8 \<Rightarrow> u16 \<Rightarrow> u16 \<Rightarrow> u8 \<Rightarrow> bt \<Rightarrow> (status \<times> bt) option" where
  "bt_insert h role oper tx_mode rx_mode junk b =
     (let b0 = bt_do Bt_init_acquire b in
      if drv_state (tech (bt_hal b0) BT_ID) = MODULE_ACTIVE then Some (ONEBOX_STATUS_SUCCESS, bt_do Bt_init_release b0)
      else if \<not> bth_kmalloc h (bt_log b0) then Some (ONEBOX_STATUS_FAILURE, bt_do Bt_init_release b0)
      else do { let b1 = b0\<lparr>bt_fsm := BT_DEVICE_READY, bt_mode := role, bt_oper_mode := oper,
                             bt_hal := upd_tech BT_ID (\<lambda>t. t\<lparr>drv_state := MODULE_ACTIVE\<rparr>) (bt_hal b0)\<rparr>;
                (s, b2) \<leftarrow> bt_read_reg_params h tx_mode rx_mode junk b1;
                let (rc, b3) = core_bt_init h b2;
                if rc \<noteq> 0
                then Some (ONEBOX_STATUS_FAILURE,
                           bt_do Bt_init_release (b3\<lparr>bt_hal := upd_tech BT_ID (\<lambda>t. t\<lparr>drv_state := MODULE_INSERTED\<rparr>) (bt_hal b3)\<rparr>))
                else Some (ONEBOX_STATUS_SUCCESS,
                          bt_do Bt_init_release (b3\<lparr>bt_hal := upd_tech BT_ID (\<lambda>t. t\<lparr>default_ps_en := True\<rparr>) (bt_hal b3)\<rparr>)) })"

text \<open>The firmware is told that the module leaves; the frame goes out directly and is freed here.\<close>

definition bt_deregister_fw :: "bt_host \<Rightarrow> bt \<Rightarrow> (status \<times> bt) option" where
  "bt_deregister_fw h b =
     (if \<not> bth_alloc h (bt_log b) then Some (ONEBOX_STATUS_FAILURE, b)
      else do { let d = set_word 7 0x11 (set_word 0 (push_bit 12 BT_INT_MGMT_Q) (replicate FRAME_DESC_SZ 0));
                (s, a1) \<leftarrow> send_pkt_to_coex (bth h) ((fresh_netbuf d)\<lparr>tx_pkt_type := BT_TX_Q\<rparr>) VIP_Q
                              (upd_assets (\<lambda>d. d\<lparr>bt_deregister_sent := True\<rparr>) (bt_hal b));
                a2 \<leftarrow> update_tx_status (bth h) BT_ID (upd_tech BT_ID (\<lambda>t. t\<lparr>tx_intention := False, tx_access := False\<rparr>) a1);
                Some (s, bt_do (Bt_free d) (b\<lparr>bt_hal := upd_tech BT_ID (\<lambda>t. t\<lparr>fw_state := FW_INACTIVE\<rparr>) a2\<rparr>)) })"

definition bt_leave :: "bt_host \<Rightarrow> bt \<Rightarrow> bt option" where
  "bt_leave h b =
     (if card_state (d_assets (bt_hal b)) = GS_CARD_DETACH then Some b
      else do { a1 \<leftarrow> update_tx_status (bth h) BT_ID (upd_tech BT_ID (\<lambda>t. t\<lparr>tx_intention := True\<rparr>) (bt_hal b));
                if tx_access (tech a1 BT_ID) then map_option snd (bt_deregister_fw h (b\<lparr>bt_hal := a1\<rparr>))
                else (let a2 = bth_others h (log (Wait_event BT_ID) (upd_tech BT_ID (\<lambda>t. t\<lparr>deregister_flags := True\<rparr>) a1)) in
                      if deregister_flags (tech a2 BT_ID) then Some (b\<lparr>bt_hal := a2\<rparr>)
                      else map_option snd (bt_deregister_fw h (b\<lparr>bt_hal := a2\<rparr>))) })"

definition bt_remove :: "bt_host \<Rightarrow> bt \<Rightarrow> (status \<times> bt) option" where
  "bt_remove h b =
     (let b1 = bt_do Bt_acquire b in
      if drv_state (tech (bt_hal b1) BT_ID) \<noteq> MODULE_ACTIVE then Some (ONEBOX_STATUS_SUCCESS, b1)
      else do { b2 \<leftarrow> bt_leave h b1;
                let b3 = bt_do Bt_release (core_bt_deinit h b2);
                Some (ONEBOX_STATUS_SUCCESS, b3\<lparr>bt_hal := upd_tech BT_ID (\<lambda>t. t\<lparr>drv_state := MODULE_INSERTED\<rparr>) (bt_hal b3)\<rparr>) })"

section \<open>The ring of the bit error test\<close>

definition ber_at :: "ber_ring \<Rightarrow> u8 \<Rightarrow> bytes option \<times> u16" where
  "ber_at r i = ber_slots r ! unat i"

definition ber_push :: "bytes \<Rightarrow> ber_ring \<Rightarrow> ber_ring" where
  "ber_push p r =
     r\<lparr>ber_slots := (ber_slots r)[unat (push_loc r) := (Some p, word_of_nat (length p))],
       push_loc := push_loc r + 1, num_pkts_avail := num_pkts_avail r + 1\<rparr>"

definition ber_pop :: "ber_ring \<Rightarrow> ber_ring" where
  "ber_pop r =
     r\<lparr>ber_slots := (ber_slots r)[unat (pop_loc r) := (None, 0)], pop_loc := pop_loc r + 1, num_pkts_avail := num_pkts_avail r - 1\<rparr>"

text \<open>A new test clears the first \<open>n\<close> pointers and both indices, with an index of one byte; the count stays.\<close>

definition ber_reset :: "u16 \<Rightarrow> ber_ring \<Rightarrow> ber_ring option" where
  "ber_reset n r =
     (if 255 < n then None
      else Some (r\<lparr>ber_slots := map (\<lambda>(d, l). (None, l)) (take (unat n) (ber_slots r)) @ drop (unat n) (ber_slots r),
                   push_loc := 0, pop_loc := 0\<rparr>))"

text \<open>
  The report to the application: the running number, the length and the packet. The check admits three bytes more
  than the array of the report has.
\<close>

definition ber_report_of :: "u8 \<Rightarrow> bytes \<Rightarrow> u16 \<Rightarrow> u16 \<Rightarrow> ber_report \<Rightarrow> ber_report option" where
  "ber_report_of i p l avail r =
     do { body \<leftarrow> mem_slice p 0 (unat l);
          d \<leftarrow> mem_write (br_data r) ([i, ucast (l + 3), ucast (drop_bit 8 (l + 3))] @ body);
          Some \<lparr>br_len = l + 3, br_data = d, br_num = avail\<rparr> }"

definition report_bytes :: "ber_report \<Rightarrow> bytes" where
  "report_bytes r = [ucast (br_len r), ucast (drop_bit 8 (br_len r))] @ br_data r @ [ucast (br_num r), ucast (drop_bit 8 (br_num r))]"

text \<open>
  The oldest packet goes to the application behind sixteen bytes that are not set. The copy is sixteen bytes
  too long: its end is written into the spare room behind the packet, where there is any, and is read, for a packet
  of more than 1015 bytes, behind the report; without spare room, or behind the report, this is a fault. Without memory for the packet a NULL pointer is used.
\<close>

definition ber_receive :: "bt_host \<Rightarrow> bt \<Rightarrow> (status \<times> bt) option" where
  "ber_receive h b =
     (let r = ber_info b; (slot, l) = ber_at r (pop_loc r) in
      if num_pkts_avail r = 0 then Some (ONEBOX_STATUS_FAILURE, b)
      else case slot of
        None \<Rightarrow> Some (ONEBOX_STATUS_FAILURE, b)
      | Some p \<Rightarrow>
          (let b1 = b\<lparr>num_pkt_inx := num_pkt_inx b + 1\<rparr> in
           if 1035 < l + 3 then Some (ONEBOX_STATUS_FAILURE, b1\<lparr>get_ber_pkts := (get_ber_pkts b1)\<lparr>br_len := l + 3\<rparr>\<rparr>)
           else do { rep \<leftarrow> ber_report_of (num_pkt_inx b) p l (num_pkts_avail r) (get_ber_pkts b1);
                     let b2 = bt_do (Bt_mem_free p) (b1\<lparr>get_ber_pkts := rep, ber_info := ber_pop r\<rparr>);
                     if \<not> bth_alloc h (bt_log b2) then None
                     else do { let n = unat (br_len rep + 2) + 16;
                               let room = map (bth_garbage h (bt_log b2)) [0..<n + skb_tailroom (bth_build h)];
                               body \<leftarrow> mem_slice (report_bytes rep) 0 n;
                               filled \<leftarrow> mem_write (drop 16 room) body;
                               let d = take n (take 16 room @ filled);
                               (s, b3) \<leftarrow> bt_core_pkt_recv h d 0 b2;
                               Some (ONEBOX_STATUS_SUCCESS, bt_do (Bt_free d) b3) } }))"

definition ber_start :: "u16 \<Rightarrow> bt \<Rightarrow> (status \<times> bt) option" where
  "ber_start pkts b =
     do { r \<leftarrow> ber_reset pkts (ber_info b);
          Some (ONEBOX_STATUS_SUCCESS, b\<lparr>bt_ber_pkts := pkts, ber_info := r, num_pkt_inx := 0\<rparr>) }"

definition bt_ber :: "bt_host \<Rightarrow> bytes \<Rightarrow> nat \<Rightarrow> bt \<Rightarrow> (status \<times> bt) option" where
  "bt_ber h data n b =
     do { params \<leftarrow> mem_slice data 0 n;
          rf \<leftarrow> mem_write (bb_rf_params b) params;
          value \<leftarrow> rd8 rf 0;
          let b1 = b\<lparr>bb_rf_params := rf\<rparr>;
          if value = 0xA then do { pkts \<leftarrow> rd16 rf 6; ber_start pkts b1 }
          else if value = 0xB then ber_receive h b1
          else Some (ONEBOX_STATUS_SUCCESS, b1) }"

section \<open>Receiving\<close>

text \<open>
  A packet of the test that arrives. Without memory for its buffer a NULL pointer is used, and a packet
  longer than the buffer is copied behind it: faults. The first result says whether the caller still frees the packet.
\<close>

definition on_ber :: "bt_host \<Rightarrow> bytes \<Rightarrow> u16 \<Rightarrow> bt \<Rightarrow> (bool \<times> bt) option" where
  "on_ber h msg len b =
     (if bt_ber_pkts b = 0 then Some (True, b)
      else if fst (ber_at (ber_info b) (push_loc (ber_info b))) \<noteq> None
      then Some (False, bt_do (Bt_free msg) (b\<lparr>bt_pkt_drop_cnt := bt_pkt_drop_cnt b + 1\<rparr>))
      else if \<not> bth_kmalloc h (bt_log b) \<or> BER_BUFFER < unat len then None
      else do { p \<leftarrow> mem_slice msg 16 (unat len);
                Some (True, b\<lparr>ber_info := ber_push p (ber_info b), bt_ber_pkts := bt_ber_pkts b - 1\<rparr>) })"

definition bt_mgmt_pkt_to_core :: "bt_host \<Rightarrow> bytes \<Rightarrow> u8 \<Rightarrow> u16 \<Rightarrow> bt \<Rightarrow> (status \<times> bt) option" where
  "bt_mgmt_pkt_to_core h msg ty len b =
     (if len = 0 then Some (ONEBOX_STATUS_FAILURE, bt_do (Bt_free msg) b)
      else do { d \<leftarrow> (if bt_mode b = BT_E2E_MODE_ON then netbuf_adj msg FRAME_DESC_SZ else Some msg);
                (s, b1) \<leftarrow> bt_core_pkt_recv h d ty b;
                Some (0, b1) })"

definition onebox_bt_mgmt_pkt_recv :: "bt_host \<Rightarrow> bytes \<Rightarrow> u8 \<Rightarrow> bt \<Rightarrow> (status \<times> bt) option" where
  "onebox_bt_mgmt_pkt_recv h msg bty b =
     do { w0 \<leftarrow> rd16 msg 0;
          let len = w0 AND 0xFFF;
          ty \<leftarrow> rd8 msg 14;
          let freed = (\<lambda>b. Some (ONEBOX_STATUS_SUCCESS, bt_do (Bt_free msg) b));
          if bt_fsm b \<noteq> BT_DEVICE_READY then freed b
          else if ty = RESULT_CONFIRM_BT then freed b
          else if ty = BT_PER
          then do { let b1 = (if read_cmd b \<or> wait_cmd b then bt_do Bt_per_event b else b);
                    b2 \<leftarrow> (if read_cmd b then map_option snd (bt_core_pkt_recv h msg bty b1) else Some b1);
                    freed b2 }
          else if ty = BT_BER
          then do { (still, b1) \<leftarrow> on_ber h msg len b; if still then freed b1 else Some (0, b1) }
          else bt_mgmt_pkt_to_core h msg bty len b }"

text \<open>Whether a packet is a debug message of the firmware, which is printed and goes no further.\<close>

definition is_debug_message :: "bytes \<Rightarrow> bool option" where
  "is_debug_message d =
     do { ty \<leftarrow> rd8 d 14;
          if ty = 4
          then do { ev \<leftarrow> rd8 d 16; if ev = 0x0e then do { cmd \<leftarrow> rd16 d 19; Some False } else Some False }
          else if ty = 0xff
          then do { v \<leftarrow> rd16 d 16;
                    if v = 1 then do { n \<leftarrow> rd16 d 18; lmp \<leftarrow> rd8 d 22; Some True }
                    else if v = 2 then do { n \<leftarrow> rd16 d 18; Some True } else Some False }
          else Some False }"

definition bt_data_pkt :: "bt_host \<Rightarrow> bytes \<Rightarrow> u16 \<Rightarrow> bt \<Rightarrow> (status \<times> bt) option" where
  "bt_data_pkt h d len b =
     (if len = 0 then Some (ONEBOX_STATUS_FAILURE, bt_do (Bt_free d) b)
      else do { ty \<leftarrow> rd8 d 14;
                let b1 = b\<lparr>bt_rx_packets := bt_rx_packets b + 1\<rparr>;
                debug \<leftarrow> is_debug_message d;
                if debug then Some (ONEBOX_STATUS_SUCCESS, b1)
                else do { p \<leftarrow> (if bt_mode b1 = BT_E2E_MODE_ON then netbuf_adj d FRAME_DESC_SZ else Some d);
                          (s, b2) \<leftarrow> bt_core_pkt_recv h p ty b1;
                          Some (ONEBOX_STATUS_SUCCESS, b2) } })"

text \<open>\<open>bty\<close> is the type the control block has when the packet comes from the common HAL.\<close>

definition bt_read_pkt :: "bt_host \<Rightarrow> bytes \<Rightarrow> u8 \<Rightarrow> bt \<Rightarrow> (status \<times> bt) option" where
  "bt_read_pkt h d bty b =
     do { w0 \<leftarrow> rd16 d 0;
          ext \<leftarrow> rd8 d 4;
          let queueno = drop_bit 12 (w0 AND 0x7000);
          let len = w0 AND 0xFFF;
          if queueno = BT_DATA_Q then bt_data_pkt h d len b
          else if queueno = BT_INT_MGMT_Q
          then do { (s, b1) \<leftarrow> onebox_bt_mgmt_pkt_recv h d bty b; Some (ONEBOX_STATUS_SUCCESS, b1) }
          else Some (ONEBOX_STATUS_SUCCESS, bt_do (Bt_free d) b) }"

definition bt_gpl_read_pkt :: "bt_host \<Rightarrow> bytes \<Rightarrow> u8 \<Rightarrow> bt \<Rightarrow> bt option" where
  "bt_gpl_read_pkt h d bty b =
     (let b1 = bt_do Bt_acquire b in
      map_option (bt_do Bt_release)
        (if drv_state (tech (bt_hal b1) BT_ID) = MODULE_ACTIVE then map_option snd (bt_read_pkt h d bty b1)
         else Some (bt_do (Bt_free d) b1)))"

section \<open>Requests of the application\<close>

definition bt_wait :: "bt_host \<Rightarrow> bt \<Rightarrow> status \<times> bt" where
  "bt_wait h b =
     (let (came, b1) = bth_wait h (bt_do Bt_wait_event (bt_do Bt_reset_event b)) in
      (if came then ONEBOX_STATUS_SUCCESS else ONEBOX_STATUS_FAILURE, b1))"

definition bt_await :: "bt_host \<Rightarrow> bt \<Rightarrow> status \<times> bt" where
  "bt_await h b = (if read_cmd b \<or> wait_cmd b then bt_wait h b else (ONEBOX_STATUS_SUCCESS, b))"

definition bt_forward :: "bt_host \<Rightarrow> u16 \<Rightarrow> bytes \<Rightarrow> u16 \<Rightarrow> bt \<Rightarrow> (status \<times> bt) option" where
  "bt_forward h ty data len b =
     (if \<not> bth_alloc h (bt_log b) then Some (-12, b)
      else do { d \<leftarrow> mem_slice data 0 (unat len);
                bt_xmit h (netbuf.extend (fresh_netbuf d) \<lparr>bt_pkt_type = ucast ty, headroom = FRAME_DESC_SZ\<rparr>) b })"

definition bt_per_request :: "bt_host \<Rightarrow> bytes \<Rightarrow> u16 \<Rightarrow> bt \<Rightarrow> (status \<times> bt) option" where
  "bt_per_request h data len b =
     do { value \<leftarrow> rd8 data 0;
          if value = 0xF \<and> bt_mode b = RF_EVAL_MODE_ON
          then Some (if bt_oper_mode b AND 12 = 4 then 1 else if bt_oper_mode b AND 12 = 8 then 2 else ONEBOX_STATUS_FAILURE, b)
          else if value = 0xE then Some (if tx_is_in_progress b \<noteq> 0 then -1 else 1, b)
          else do { b1 \<leftarrow> (if value \<in> {0, 2, 8, 6} then Some (b\<lparr>read_cmd := True\<rparr>)
                             else if value = 7 then Some (b\<lparr>wait_cmd := True\<rparr>)
                             else if value = 4 then do { w \<leftarrow> rd16 data 4; Some (b\<lparr>tx_is_in_progress := ucast w\<rparr>) }
                             else Some b);
                    (rc, b2) \<leftarrow> bt_forward h (ucast BT_PER) data len b1;
                    Some (if rc \<noteq> 0 then (rc, b2) else bt_await h b2) } }"

subsection \<open>Continuous waves\<close>

text \<open>
  The message is the memory the commands are put together in, so a command that is longer than it is a
  fault. \<open>rf_put\<close> writes elements of \<open>Data\<close>.
\<close>

definition rf_put :: "nat \<Rightarrow> u16 list \<Rightarrow> bytes \<Rightarrow> bytes" where
  "rf_put k vs rf = fold (\<lambda>(i, v). set_word (k + 2 + i) v) (enumerate 0 vs) rf"

text \<open>A pass over the elements from \<open>j\<close> on; the table is read behind its end when it is too short.\<close>

function cw_copy :: "u16 list \<Rightarrow> nat \<Rightarrow> nat \<Rightarrow> bytes \<Rightarrow> (nat \<times> bytes) option" where
  "cw_copy t j i rf =
     (if j < 105 \<and> i < 774
      then if i + 1 < length t then cw_copy t (j + 2) (i + 2) (rf_put j [t ! i, t ! (i + 1)] rf) else None
      else Some (i, rf))"
  by auto
termination
  by (relation "measure (\<lambda>(t, j, i, rf). 105 - j)") auto

lemma cw_copy_le: "cw_copy t j i rf = Some (i', rf') \<Longrightarrow> i \<le> i'"
  by (induction t j i rf rule: cw_copy.induct) (fastforce split: if_split_asm)

lemma cw_copy_less:
  assumes "cw_copy t j i rf = Some (i', rf')" "j < 105" "i < 774"
  shows "i < i'"
  using assms cw_copy_le [of t "j + 2" "i + 2" _ i' rf'] by (simp add: cw_copy.simps [of t j] split: if_split_asm)

declare cw_copy.simps [simp del]

text \<open>The rounds: each loads what fits in a command and waits for its confirmation.\<close>

function cw_rounds :: "bt_host \<Rightarrow> u16 list \<Rightarrow> u16 \<Rightarrow> nat \<Rightarrow> bytes \<Rightarrow> bt \<Rightarrow> (status \<times> bt) option" where
  "cw_rounds h t len i data b =
     (if i < 774
      then case cw_copy t 3 i (rf_put 0 [0x315, 0x316, 0x317] ((replicate 1028 0)[0 := 7, 2 := 34, 3 := 3])) of
             None \<Rightarrow> None
           | Some (i1, rf) \<Rightarrow>
               (case mem_write data ([7, 0, 34, 3] @ take 210 (drop 4 rf)) of
                  None \<Rightarrow> None
                | Some d \<Rightarrow>
                    (case bt_forward h (ucast BT_PER) d len (b\<lparr>wait_cmd := False, bb_rf_params := rf\<rparr>) of
                       None \<Rightarrow> None
                     | Some (rc, b1) \<Rightarrow>
                         if rc \<noteq> 0 then Some (rc, b1)
                         else let (s, b2) = bt_wait h (b1\<lparr>wait_cmd := True\<rparr>) in
                              if s \<noteq> ONEBOX_STATUS_SUCCESS then Some (s, b2) else cw_rounds h t len i1 d b2))
      else Some (ONEBOX_STATUS_SUCCESS, b))"
  by auto
termination
  by (relation "measure (\<lambda>(h, t, len, i, data, b). 774 - i)") (auto dest: cw_copy_less)

declare cw_rounds.simps [simp del]

definition bt_cw :: "bt_host \<Rightarrow> bytes \<Rightarrow> u16 \<Rightarrow> bt \<Rightarrow> (status \<times> bt) option" where
  "bt_cw h data len b =
     do { params \<leftarrow> mem_slice data 0 (unat len);
          rf \<leftarrow> mem_write (bb_rf_params b) params;
          d0 \<leftarrow> mem_write data (replicate (unat len) 0);
          value \<leftarrow> rd8 rf 0;
          fields \<leftarrow> rd8 rf 1;
          values \<leftarrow> rd8 rf 2;
          soft_reset \<leftarrow> rd8 rf 3;
          let b1 = b\<lparr>bb_rf_params := rf, read_cmd := False, wait_cmd := False\<rparr>;
          if value \<noteq> 0xD then Some (ONEBOX_STATUS_SUCCESS, b1)
          else do { d1 \<leftarrow> mem_write d0 [0xD, soft_reset, values, fields];
                    (rc, b2) \<leftarrow> bt_forward h (ucast BT_PER) d1 len (b1\<lparr>cw_type := values, cw_sub_type := fields\<rparr>);
                    if rc \<noteq> 0 then Some (rc, b2)
                    else do { let (s, b3) = bt_wait h (b2\<lparr>wait_cmd := True\<rparr>);
                              if s \<noteq> ONEBOX_STATUS_SUCCESS then Some (s, b3)
                              else if cw_type b3 \<noteq> 0 then Some (ONEBOX_STATUS_SUCCESS, b3\<lparr>wait_cmd := False\<rparr>)
                              else do { let rf1 = rf_put 0 [0x311, 0, 0x321, 0x10, 0x322, 3] ((bb_rf_params b3)[0 := 1, 2 := 6, 3 := 0]);
                                        d2 \<leftarrow> mem_write d1 rf1;
                                        (rc, b4) \<leftarrow> bt_forward h (ucast BT_PER) d2 len (b3\<lparr>bb_rf_params := rf1\<rparr>);
                                        if rc \<noteq> 0 then Some (rc, b4)
                                        else do { (s, b5) \<leftarrow> cw_rounds h (cw_table (cw_sub_type b4)) len 6 d2 (bt_do Bt_reset_event b4);
                                                  Some (s, if s \<noteq> ONEBOX_STATUS_SUCCESS then b5 else b5\<lparr>wait_cmd := False\<rparr>) } } } } }"

subsection \<open>The netlink messages\<close>

definition bt_command :: "bt_host \<Rightarrow> u16 \<Rightarrow> bytes \<Rightarrow> u16 \<Rightarrow> bt \<Rightarrow> (status \<times> bt) option" where
  "bt_command h ty data len b =
     (if ty = ucast BT_PER then bt_per_request h data len b
      else if ty = ucast BT_CW \<or> ty = ucast BT_BER
      then do { (s, b1) \<leftarrow> (if ty = ucast BT_CW then bt_cw h data len b else bt_ber h data (unat len) b);
                Some (if s \<noteq> ONEBOX_STATUS_SUCCESS then (ONEBOX_STATUS_FAILURE, b1) else bt_await h b1) }
      else Some (ONEBOX_STATUS_FAILURE, b))"

text \<open>The message is the payload of the netlink attribute, when there is one.\<close>

definition onebox_genlrecv :: "bt_host \<Rightarrow> bytes option \<Rightarrow> bt \<Rightarrow> (status \<times> bt) option" where
  "onebox_genlrecv h attr b =
     (case attr of
        None \<Rightarrow> Some (-1, b)
      | Some msg \<Rightarrow>
          if \<not> genl_cb b then Some (-1, b)
          else do { ty \<leftarrow> rd16 msg 0;
                    len \<leftarrow> rd16 msg 2;
                    let data = drop 16 msg;
                    if bt_mode b = BT_E2E_MODE_ON then bt_forward h ty data len b
                    else bt_command h ty data len (b\<lparr>read_cmd := False, wait_cmd := False\<rparr>) })"

section \<open>The ZigBee module\<close>

record zigb =
  zb_hal :: adapter
  zb_read_cmd :: bool
  zb_wait_cmd :: bool
  zb_cnfm_flag :: bool
  zb_mode :: u8
  zb_core_init_done :: bool
  zb_log :: "bt_event list"

definition zb_do :: "bt_event \<Rightarrow> zigb \<Rightarrow> zigb" where
  "zb_do e z = z\<lparr>zb_log := e # zb_log z\<rparr>"

definition zigb_read_pkt :: "bytes \<Rightarrow> zigb \<Rightarrow> zigb" where
  "zigb_read_pkt d z =
     (let z1 = (if zb_read_cmd z \<or> zb_wait_cmd z then (zb_do Bt_per_event z)\<lparr>zb_cnfm_flag := True\<rparr> else z);
          z2 = (if zb_mode z1 \<noteq> RF_EVAL_MODE_ON \<or> zb_read_cmd z1 then zb_do (Bt_to_genl d) z1 else z1) in
      zb_do (Bt_free d) z2)"

definition send_zigb_pkt :: "host \<Rightarrow> netbuf \<Rightarrow> zigb \<Rightarrow> (status \<times> zigb) option" where
  "send_zigb_pkt h nb z =
     do { (s, a) \<leftarrow> send_pkt_to_coex h (nb\<lparr>tx_pkt_type := ZIGB_TX_Q\<rparr>) ZIGB_Q (zb_hal z); Some (s, z\<lparr>zb_hal := a\<rparr>) }"

definition core_zigb_init :: "status \<Rightarrow> zigb \<Rightarrow> status \<times> zigb" where
  "core_zigb_init registered z =
     (let z1 = zb_do Bt_genl_init z in
      if registered \<noteq> 0 then (ONEBOX_STATUS_FAILURE, z1) else (ONEBOX_STATUS_SUCCESS, z1\<lparr>zb_core_init_done := True\<rparr>))"

definition core_zigb_deinit :: "status \<Rightarrow> zigb \<Rightarrow> status \<times> zigb" where
  "core_zigb_deinit deregistered z =
     (let z1 = zb_do Bt_genl_deinit (zb_do (Bt_purge 0) (z\<lparr>zb_core_init_done := False\<rparr>)) in
      if deregistered \<noteq> 0 then (ONEBOX_STATUS_FAILURE, z1) else (ONEBOX_STATUS_SUCCESS, z1))"

end
