(* ===== verification/Bt_Ring.thy ===== *)
theory Bt_Ring
  imports Bt_Driver
begin

text \<open>
  What holds of the Bluetooth module: the ring of the bit error test is a queue of at most 256
  packets, every packet of the firmware has one fate in end-to-end mode, and the firmware finds in a frame
  what the stack sent.
\<close>

section \<open>The ring as a queue\<close>

text \<open>The longest packet whose report is read within its bounds.\<close>

abbreviation (input) BER_LONGEST :: nat where "BER_LONGEST \<equiv> 1015"

definition ring_at :: "ber_ring \<Rightarrow> nat \<Rightarrow> bytes option \<times> u16" where
  "ring_at r k = ber_slots r ! ((unat (pop_loc r) + k) mod 256)"

definition slot_holds :: "ber_ring \<Rightarrow> nat \<Rightarrow> bool" where
  "slot_holds r k =
     (case ring_at r k of (Some p, l) \<Rightarrow> k < unat (num_pkts_avail r) \<and> l = word_of_nat (length p) \<and> length p \<le> BER_LONGEST
      | (None, l) \<Rightarrow> unat (num_pkts_avail r) \<le> k)"

definition ring_ok :: "ber_ring \<Rightarrow> bool" where
  "ring_ok r \<longleftrightarrow> length (ber_slots r) = 1033 \<and> unat (num_pkts_avail r) \<le> 256 \<and>
     unat (push_loc r) = (unat (pop_loc r) + unat (num_pkts_avail r)) mod 256 \<and> (\<forall>k<256. slot_holds r k)"

definition ring_queue :: "ber_ring \<Rightarrow> bytes list" where
  "ring_queue r = map (\<lambda>k. the (fst (ring_at r k))) [0..<unat (num_pkts_avail r)]"

lemma length_ring_queue [simp]: "length (ring_queue r) = unat (num_pkts_avail r)"
  by (simp add: ring_queue_def)

lemma byte_bound: "unat (i :: u8) < 256"
  using unsigned_less [of i, where ?'a = nat] by simp

lemma byte_next: "unat (i + 1 :: u8) = (unat i + 1) mod 256"
  using byte_bound [of i] by (simp add: unat_word_ariths)

lemma word_next: "unat (n :: u16) \<le> 256 \<Longrightarrow> unat (n + 1) = unat n + 1"
  by (simp add: unat_word_ariths)

lemma word_prev: "n \<noteq> 0 \<Longrightarrow> unat (n - 1 :: u16) = unat n - 1"
  by (simp add: unat_minus_one)

lemma ring_index: "i < 256 \<Longrightarrow> k \<le> 256 \<Longrightarrow> (i + k) mod 256 = (if i + k < 256 then i + k else i + k - (256 :: nat))"
  by (simp add: mod_if)

lemma ring_slot_full: "ring_ok r \<Longrightarrow> k < unat (num_pkts_avail r) \<Longrightarrow> \<exists>p. ring_at r k = (Some p, word_of_nat (length p)) \<and> length p \<le> BER_LONGEST"
  by (cases "ring_at r k"; cases "fst (ring_at r k)") (auto simp: ring_ok_def slot_holds_def dest!: spec [of _ k])

lemma ring_slot_empty: "ring_ok r \<Longrightarrow> unat (num_pkts_avail r) \<le> k \<Longrightarrow> k < 256 \<Longrightarrow> fst (ring_at r k) = None"
  by (cases "ring_at r k"; cases "fst (ring_at r k)") (auto simp: ring_ok_def slot_holds_def dest!: spec [of _ k])

lemma push_slot:
  assumes "ring_ok r"
  shows "fst (ber_at r (push_loc r)) = None \<longleftrightarrow> unat (num_pkts_avail r) < 256"
proof (cases "unat (num_pkts_avail r) < 256")
  case True
  then have "ber_at r (push_loc r) = ring_at r (unat (num_pkts_avail r))" using assms by (simp add: ber_at_def ring_at_def ring_ok_def)
  then show ?thesis using True ring_slot_empty [OF assms] by simp
next
  case False
  then have n: "unat (num_pkts_avail r) = 256" using assms by (simp add: ring_ok_def)
  then have "unat (push_loc r) = unat (pop_loc r)" using assms byte_bound [of "pop_loc r"] by (simp add: ring_ok_def)
  then have "ber_at r (push_loc r) = ring_at r 0" using byte_bound [of "pop_loc r"] by (simp add: ber_at_def ring_at_def)
  then show ?thesis using n ring_slot_full [OF assms, of 0] by auto
qed

lemma ring_push:
  assumes "ring_ok r" "unat (num_pkts_avail r) < 256" "length p \<le> BER_LONGEST"
  shows "ring_ok (ber_push p r)" "ring_queue (ber_push p r) = ring_queue r @ [p]"
proof -
  let ?n = "unat (num_pkts_avail r)" and ?r = "ber_push p r"
  have len: "length (ber_slots r) = 1033" and push: "unat (push_loc r) = (unat (pop_loc r) + ?n) mod 256" using assms(1) by (simp_all add: ring_ok_def)
  have n: "unat (num_pkts_avail ?r) = ?n + 1" using word_next [of "num_pkts_avail r"] assms(2) by (simp add: ber_push_def)
  have at: "ring_at ?r k = (if k = ?n then (Some p, word_of_nat (length p)) else ring_at r k)" if "k < 256" for k
  proof -
    have "(unat (pop_loc r) + k) mod 256 = unat (push_loc r) \<longleftrightarrow> k = ?n" 
      using ring_index [OF byte_bound] that assms(2) byte_bound [of "pop_loc r"] push by (auto split: if_splits)
    moreover have "(unat (pop_loc r) + k) mod 256 < 1033" using mod_less_divisor [of 256 "unat (pop_loc r) + k"] by linarith
    ultimately show ?thesis using len by (auto simp: ring_at_def ber_push_def nth_list_update)
  qed
  have "slot_holds ?r k" if "k < 256" for k
  proof (cases "k = ?n")
    case True
    then show ?thesis using at [OF that] n assms(3) by (simp add: slot_holds_def)
  next
    case False
    moreover have "slot_holds r k" using assms(1) that by (simp add: ring_ok_def)
    ultimately show ?thesis using at [OF that] n by (auto simp: slot_holds_def split: prod.splits option.splits)
  qed
  moreover have "unat (push_loc ?r) = (unat (pop_loc ?r) + unat (num_pkts_avail ?r)) mod 256"
    using byte_next [of "push_loc r"] push n by (simp add: ber_push_def mod_simps)
  ultimately show "ring_ok ?r" using len n assms(2) by (simp add: ring_ok_def) (simp add: ber_push_def)
  have "map (\<lambda>k. the (fst (ring_at ?r k))) [0..<?n] = map (\<lambda>k. the (fst (ring_at r k))) [0..<?n]"
    using at assms(2) by (intro map_cong) simp_all
  then show "ring_queue ?r = ring_queue r @ [p]" using n at [OF assms(2)] by (simp add: ring_queue_def)
qed

lemma ring_pop:
  assumes "ring_ok r" "num_pkts_avail r \<noteq> 0"
  shows "ring_ok (ber_pop r)" "\<exists>p. ber_at r (pop_loc r) = (Some p, word_of_nat (length p)) \<and> length p \<le> BER_LONGEST \<and> ring_queue r = p # ring_queue (ber_pop r)"
proof -
  let ?n = "unat (num_pkts_avail r)" and ?r = "ber_pop r"
  have len: "length (ber_slots r) = 1033" and push: "unat (push_loc r) = (unat (pop_loc r) + ?n) mod 256" and le: "?n \<le> 256"
    using assms(1) by (simp_all add: ring_ok_def)
  have pos: "0 < ?n" using assms(2) by (simp add: unat_gt_0)
  have n: "unat (num_pkts_avail ?r) = ?n - 1" using word_prev [OF assms(2)] by (simp add: ber_pop_def)
  have at: "ring_at ?r k = (if k = 255 then (None, 0) else ring_at r (k + 1))" if "k < 256" for k
  proof -
    have i: "(unat (pop_loc ?r) + k) mod 256 = (unat (pop_loc r) + (k + 1)) mod 256" using byte_next [of "pop_loc r"] by (simp add: ber_pop_def mod_simps)
    have "(unat (pop_loc r) + (k + 1)) mod 256 = unat (pop_loc r) \<longleftrightarrow> k = 255" 
      using ring_index [OF byte_bound, of "k + 1" "pop_loc r"] that byte_bound [of "pop_loc r"] by auto
    moreover have "(unat (pop_loc r) + (k + 1)) mod 256 < 1033" using mod_less_divisor [of 256 "unat (pop_loc r) + (k + 1)"] by linarith
    ultimately show ?thesis using len i by (auto simp: ring_at_def ber_pop_def nth_list_update)
  qed
  have "slot_holds ?r k" if "k < 256" for k
  proof (cases "k = 255")
    case True
    then show ?thesis using at [OF that] n le by (simp add: slot_holds_def)
  next
    case False
    then have "slot_holds r (k + 1)" using assms(1) that by (simp add: ring_ok_def)
    then show ?thesis using at [OF that] False n pos by (auto simp: slot_holds_def split: prod.splits option.splits)
  qed
  moreover have "unat (push_loc ?r) = (unat (pop_loc ?r) + unat (num_pkts_avail ?r)) mod 256"
  proof -
    have "unat (pop_loc ?r) = (unat (pop_loc r) + 1) mod 256" using byte_next [of "pop_loc r"] by (simp add: ber_pop_def)
    moreover have "((unat (pop_loc r) + 1) mod 256 + (?n - 1)) mod 256 = (unat (pop_loc r) + 1 + (?n - 1)) mod 256" by (rule mod_add_left_eq)
    moreover have "unat (pop_loc r) + 1 + (?n - 1) = unat (pop_loc r) + ?n" using pos by simp
    moreover have "push_loc ?r = push_loc r" by (simp add: ber_pop_def)
    ultimately show ?thesis using push n by simp
  qed
  ultimately show "ring_ok ?r" using len n le by (simp add: ring_ok_def) (simp add: ber_pop_def)
  obtain p where p: "ring_at r 0 = (Some p, word_of_nat (length p))" "length p \<le> BER_LONGEST" using ring_slot_full [OF assms(1) pos] by auto
  have "ber_at r (pop_loc r) = ring_at r 0" using byte_bound [of "pop_loc r"] by (simp add: ber_at_def ring_at_def)
  moreover have "ring_queue r = p # ring_queue ?r"
  proof -
    have "[0..<?n] = 0 # map Suc [0..<?n - 1]" using pos by (simp add: map_Suc_upt upt_conv_Cons)
    moreover have "map (\<lambda>k. the (fst (ring_at r (Suc k)))) [0..<?n - 1] = map (\<lambda>k. the (fst (ring_at ?r k))) [0..<?n - 1]"
      using at le by (intro map_cong) auto
    ultimately show ?thesis using p(1) n by (simp add: ring_queue_def comp_def)
  qed
  ultimately show "\<exists>p. ber_at r (pop_loc r) = (Some p, word_of_nat (length p)) \<and> length p \<le> BER_LONGEST \<and> ring_queue r = p # ring_queue ?r"
    using p by auto
qed

lemma ring_empty: "ring_ok r \<Longrightarrow> ring_queue r = [] \<Longrightarrow> i < 256 \<Longrightarrow> fst (ber_slots r ! i) = None"
proof -
  assume ok: "ring_ok r" and q: "ring_queue r = []" and i: "i < 256"
  have n: "unat (num_pkts_avail r) = 0" using q length_ring_queue [of r] by (simp only: list.size)
  obtain k where "k < 256" "(unat (pop_loc r) + k) mod 256 = i"
  proof (cases "unat (pop_loc r) \<le> i")
    case True
    then show ?thesis using i that [of "i - unat (pop_loc r)"] by simp
  next
    case False
    then have "unat (pop_loc r) + (256 + i - unat (pop_loc r)) = 256 + i" using byte_bound [of "pop_loc r"] by simp
    then show ?thesis using False i that [of "256 + i - unat (pop_loc r)"] by simp
  qed
  with ring_slot_empty [OF ok, of k] n show ?thesis by (simp add: ring_at_def)
qed

lemma ring_reset:
  assumes "ring_ok r" "ring_queue r = []" "n \<le> 255"
  shows "\<exists>r'. ber_reset n r = Some r' \<and> ring_ok r' \<and> ring_queue r' = []"
proof -
  let ?s = "map (\<lambda>(d, l). (None, l)) (take (unat n) (ber_slots r)) @ drop (unat n) (ber_slots r)"
  let ?r = "r\<lparr>ber_slots := ?s, push_loc := 0, pop_loc := 0\<rparr>"
  have len: "length (ber_slots r) = 1033" using assms(1) by (simp add: ring_ok_def)
  have "length (ring_queue r) = 0" using assms(2) by simp
  then have num: "num_pkts_avail r = 0" by (simp add: unat_eq_0)
  have "fst (?s ! k) = None" if "k < 256" for k
    using ring_empty [OF assms(1,2) that] that len by (auto simp: nth_append split_def)
  then have "slot_holds ?r k" if "k < 256" for k
    using that num by (cases "?s ! k") (fastforce simp: slot_holds_def ring_at_def)
  then have "ring_ok ?r" using len num by (simp add: ring_ok_def)
  moreover have "ring_queue ?r = []" using num by (simp add: ring_queue_def)
  ultimately show ?thesis using assms(3) by (simp add: ber_reset_def)
qed

section \<open>The bit error test\<close>

text \<open>
  A test as a sequence of starts, packets that arrive and requests of the application. The specification is a queue of at
  most 256 packets, the number of packets still expected, and what was delivered, in order. \<open>None\<close> is
  outside the contract: a start for more than 255 packets or while packets wait, and a packet to be kept that is
  not whole or longer than 1015 bytes.
\<close>

datatype ber_op = Start u16 | Arrive bytes u16 | Fetch

definition ber_step :: "bt_host \<Rightarrow> ber_op \<Rightarrow> bt \<Rightarrow> bt option" where
  "ber_step h op b =
     (case op of Start n \<Rightarrow> map_option snd (ber_start n b)
      | Arrive msg len \<Rightarrow> map_option snd (on_ber h msg len b) | Fetch \<Rightarrow> map_option snd (ber_receive h b))"

fun ber_steps :: "bt_host \<Rightarrow> ber_op list \<Rightarrow> bt \<Rightarrow> bt option" where
  "ber_steps h [] b = Some b"
| "ber_steps h (op # ops) b = do { b1 \<leftarrow> ber_step h op b; ber_steps h ops b1 }"

type_synonym ber_spec = "nat \<times> bytes list \<times> bytes list"

fun spec_step :: "ber_op \<Rightarrow> ber_spec \<Rightarrow> ber_spec option" where
  "spec_step (Start n) (m, q, out) = (if n \<le> 255 \<and> q = [] then Some (unat n, [], out) else None)"
| "spec_step (Arrive msg len) (m, q, out) =
     (if m = 0 \<or> length q = 256 then Some (m, q, out)
      else if unat len \<le> BER_LONGEST \<and> 16 + unat len \<le> length msg
      then Some (m - 1, q @ [take (unat len) (drop 16 msg)], out) else None)"
| "spec_step Fetch (m, q, out) = Some (if q = [] then (m, q, out) else (m, tl q, out @ [hd q]))"

fun spec_steps :: "ber_op list \<Rightarrow> ber_spec \<Rightarrow> ber_spec option" where
  "spec_steps [] t = Some t"
| "spec_steps (op # ops) t = do { t1 \<leftarrow> spec_step op t; spec_steps ops t1 }"

text \<open>What the application got: the packets behind sixteen bytes, the lengths and the running number.\<close>

definition delivered :: "bt_event list \<Rightarrow> bytes list" where
  "delivered l = rev (List.map_filter (\<lambda>e. case e of Bt_to_genl d \<Rightarrow> Some (drop 21 d) | _ \<Rightarrow> None) l)"

definition ber_abs :: "bt \<Rightarrow> ber_spec" where
  "ber_abs b = (unat (bt_ber_pkts b), ring_queue (ber_info b), delivered (bt_log b))"

definition ber_ready :: "bt \<Rightarrow> bool" where
  "ber_ready b \<longleftrightarrow> ring_ok (ber_info b) \<and> length (br_data (get_ber_pkts b)) = BER_DATA \<and> bt_mode b = RF_EVAL_MODE_ON \<and> genl_cb b"

lemma delivered_simps [simp]:
  "delivered (Bt_to_genl d # l) = delivered l @ [drop 21 d]" "delivered (Bt_free x # l) = delivered l" "delivered (Bt_mem_free x # l) = delivered l"
  by (simp_all add: delivered_def List.map_filter_simps)

lemma start_refines:
  assumes "ber_ready b" "spec_step (Start n) (ber_abs b) = Some t"
  shows "\<exists>b'. ber_step h (Start n) b = Some b' \<and> ber_ready b' \<and> ber_abs b' = t"
proof -
  have n: "n \<le> 255" "ring_queue (ber_info b) = []" "t = (unat n, [], delivered (bt_log b))"
    using assms(2) by (auto simp: ber_abs_def split: if_split_asm)
  obtain r where "ber_reset n (ber_info b) = Some r" "ring_ok r" "ring_queue r = []"
    using ring_reset [OF _ n(2,1)] assms(1) by (auto simp: ber_ready_def)
  then show ?thesis using assms(1) n(3) by (simp add: ber_step_def ber_start_def ber_ready_def ber_abs_def)
qed

lemma arrive_refines:
  assumes "ber_ready b" "bth_kmalloc h (bt_log b)" "spec_step (Arrive msg len) (ber_abs b) = Some t"
  shows "\<exists>b'. ber_step h (Arrive msg len) b = Some b' \<and> ber_ready b' \<and> ber_abs b' = t"
proof -
  have ok: "ring_ok (ber_info b)" using assms(1) by (simp add: ber_ready_def)
  have le: "unat (num_pkts_avail (ber_info b)) \<le> 256" using ok by (simp add: ring_ok_def)
  have empty: "fst (ber_at (ber_info b) (push_loc (ber_info b))) = None \<longleftrightarrow> unat (num_pkts_avail (ber_info b)) < 256"
    by (rule push_slot [OF ok])
  consider (none) "bt_ber_pkts b = 0" | (full) "bt_ber_pkts b \<noteq> 0" "unat (num_pkts_avail (ber_info b)) = 256"
    | (room) "bt_ber_pkts b \<noteq> 0" "unat (num_pkts_avail (ber_info b)) < 256" using le by linarith
  then show ?thesis
  proof cases
    case none
    then show ?thesis using assms by (simp add: ber_step_def on_ber_def ber_abs_def)
  next
    case full
    then have "fst (ber_at (ber_info b) (push_loc (ber_info b))) \<noteq> None" using empty by simp
    then have "ber_step h (Arrive msg len) b = Some (bt_do (Bt_free msg) (b\<lparr>bt_pkt_drop_cnt := bt_pkt_drop_cnt b + 1\<rparr>))"
      using full(1) by (simp add: ber_step_def on_ber_def del: not_None_eq)
    moreover have "t = ber_abs b" using assms(3) full(2) by (simp add: ber_abs_def)
    ultimately show ?thesis using assms(1) by (simp add: ber_ready_def ber_abs_def bt_do_def)
  next
    case room
    let ?p = "take (unat len) (drop 16 msg)"
    have m: "unat (bt_ber_pkts b - 1) = unat (bt_ber_pkts b) - 1" "unat (bt_ber_pkts b) \<noteq> 0"
      using word_prev [OF room(1)] room(1) by (simp_all add: unat_eq_0)
    have fit: "unat len \<le> BER_LONGEST" "16 + unat len \<le> length msg"
      and t: "t = (unat (bt_ber_pkts b) - 1, ring_queue (ber_info b) @ [?p], delivered (bt_log b))"
      using assms(3) m(2) room by (auto simp: ber_abs_def split: if_split_asm)
    have p: "mem_slice msg 16 (unat len) = Some ?p" "length ?p = unat len" using fit(2) by (simp_all add: mem_slice_def)
    have push: "ring_ok (ber_push ?p (ber_info b))" "ring_queue (ber_push ?p (ber_info b)) = ring_queue (ber_info b) @ [?p]"
      using ring_push [OF ok room(2)] p(2) fit(1) by simp_all
    have "ber_step h (Arrive msg len) b = Some (b\<lparr>ber_info := ber_push ?p (ber_info b), bt_ber_pkts := bt_ber_pkts b - 1\<rparr>)"
      using room p(1) fit(1) empty assms(2) by (simp add: ber_step_def on_ber_def)
    then show ?thesis using push m t assms(1) by (simp add: ber_abs_def ber_ready_def)
  qed
qed

lemma mem_slice_prefix: "length x = n \<Longrightarrow> m \<le> length rest \<Longrightarrow> mem_slice (x @ rest) 0 (n + m) = Some (x @ take m rest)"
  by (simp add: mem_slice_def)

lemma take_prefix: "length x = n \<Longrightarrow> take n (x @ y) = x"
  by simp

lemma report_of_packet:
  assumes "length p \<le> BER_LONGEST" "length (br_data r) = BER_DATA"
  shows "\<exists>rep body. ber_report_of i p (word_of_nat (length p)) n r = Some rep \<and> length (br_data rep) = BER_DATA \<and>
           unat (br_len rep + 2) = length p + 5 \<and> mem_slice (report_bytes rep) 0 (length p + 5 + 16) = Some body \<and>
           drop 5 (take (length p + 5) body) = p \<and> \<not> 1035 < (word_of_nat (length p) :: u16) + 3"
proof -
  let ?l = "word_of_nat (length p) :: u16"
  have l: "unat ?l = length p" using assms(1) by (simp add: unsigned_of_nat take_bit_nat_eq_self)
  have l3: "unat (?l + 3) = length p + 3" "unat (?l + 3 + 2) = length p + 5" using l assms(1) by (simp_all add: unat_plus_if')
  let ?head = "[i, ucast (?l + 3), ucast (drop_bit 8 (?l + 3))] :: bytes"
  let ?rep = "\<lparr>br_len = ?l + 3, br_data = (?head @ p) @ drop (length (?head @ p)) (br_data r), br_num = n\<rparr>"
  let ?h5 = "[ucast (?l + 3), ucast (drop_bit 8 (?l + 3)), i, ucast (?l + 3), ucast (drop_bit 8 (?l + 3))] :: bytes"
  let ?rest = "drop (length (?head @ p)) (br_data r) @ [ucast n, ucast (drop_bit 8 n)]"
  have bytes: "report_bytes ?rep = (?h5 @ p) @ ?rest" by (simp add: report_bytes_def)
  have len: "length (?h5 @ p) = length p + 5" "16 \<le> length ?rest" using assms by simp_all
  have "mem_slice p 0 (unat ?l) = Some p" using l by (simp add: mem_slice_def)
  then have "ber_report_of i p ?l n r = Some ?rep" using assms by (simp add: ber_report_of_def mem_write_def)
  moreover have "length (br_data ?rep) = BER_DATA" using assms by simp
  moreover have "mem_slice (report_bytes ?rep) 0 (length p + 5 + 16) = Some ((?h5 @ p) @ take 16 ?rest)"
    unfolding bytes by (rule mem_slice_prefix [OF len])
  moreover have "drop 5 (take (length p + 5) ((?h5 @ p) @ take 16 ?rest)) = p" unfolding take_prefix [OF len(1)] by simp
  moreover have "\<not> 1035 < ?l + 3" using l3 assms(1) by (simp add: word_less_nat_alt)
  moreover have "unat (br_len ?rep + 2) = length p + 5" using l3 by simp
  ultimately show ?thesis by blast
qed

lemma fetch_refines:
  assumes "ber_ready b" "(\<forall>l. bth_alloc h l) \<and> USE_USB_INTF (bth_build h)" "spec_step Fetch (ber_abs b) = Some t"
  shows "\<exists>b'. ber_step h Fetch b = Some b' \<and> ber_ready b' \<and> ber_abs b' = t"
proof (cases "num_pkts_avail (ber_info b) = 0")
  case True
  then have "ring_queue (ber_info b) = []" "ber_step h Fetch b = Some b"
    by (simp_all add: ber_step_def ber_receive_def ring_queue_def split: prod.splits)
  then show ?thesis using assms(1,3) by (simp add: ber_abs_def)
next
  case False
  have ok: "ring_ok (ber_info b)" using assms(1) by (simp add: ber_ready_def)
  obtain p where p: "ber_at (ber_info b) (pop_loc (ber_info b)) = (Some p, word_of_nat (length p))" "length p \<le> BER_LONGEST"
    "ring_queue (ber_info b) = p # ring_queue (ber_pop (ber_info b))" using ring_pop(2) [OF ok False] by blast
  have data: "length (br_data (get_ber_pkts b)) = BER_DATA" using assms(1) by (simp add: ber_ready_def)
  obtain rep body where rep:
    "ber_report_of (num_pkt_inx b) p (word_of_nat (length p)) (num_pkts_avail (ber_info b)) (get_ber_pkts b) = Some rep"
    "length (br_data rep) = BER_DATA" "unat (br_len rep + 2) = length p + 5"
    "mem_slice (report_bytes rep) 0 (length p + 5 + 16) = Some body" "drop 5 (take (length p + 5) body) = p"
    "\<not> 1035 < (word_of_nat (length p) :: u16) + 3"
    using report_of_packet [OF p(2) data, of "num_pkt_inx b" "num_pkts_avail (ber_info b)"] by blast
  let ?b2 = "bt_do (Bt_mem_free p) (b\<lparr>num_pkt_inx := num_pkt_inx b + 1, get_ber_pkts := rep, ber_info := ber_pop (ber_info b)\<rparr>)"
  let ?n = "length p + 5 + 16"
  define room where "room = map (bth_garbage h (bt_log ?b2)) [0..<?n + skb_tailroom (bth_build h)]"
  have body: "length body = ?n" by (rule mem_slice_length [OF rep(4)])
  have room: "length room = ?n + 64" using assms(2) by (simp add: room_def skb_tailroom_def)
  define filled where "filled = body @ drop (length body) (drop 16 room)"
  have f: "mem_write (drop 16 room) body = Some filled" using body room by (simp add: mem_write_def filled_def)
  define d where "d = take ?n (take 16 room @ filled)"
  have "d = take 16 room @ take (length p + 5) body" using room body by (simp add: d_def filled_def add.commute)
  then have "drop 21 d = drop 5 (take (length p + 5) body)" using room by simp
  then have dp: "drop 21 d = p" using rep(5) by simp
  have ne: "d \<noteq> []" using body room by (auto simp: d_def filled_def)
  have mode: "bt_mode b = RF_EVAL_MODE_ON" "genl_cb b" using assms(1) by (simp_all add: ber_ready_def)
  have recv: "bt_core_pkt_recv h d 0 ?b2 = Some (byte_status (bth_genl_send h (bt_log ?b2)), bt_do (Bt_to_genl d) ?b2)"
    using mode ne by (simp add: bt_core_pkt_recv_def send_pkt_to_btgenl_def bt_do_def)
  have "ber_receive h b = Some (ONEBOX_STATUS_SUCCESS, bt_do (Bt_free d) (bt_do (Bt_to_genl d) ?b2))"
    unfolding ber_receive_def Let_def p(1) prod.case option.case
    using rep(1,3,4,6) False assms(2) recv f unfolding d_def room_def by (simp del: take_append take_map drop_map)
  moreover have "t = (unat (bt_ber_pkts b), ring_queue (ber_pop (ber_info b)), delivered (bt_log b) @ [p])"
    using assms(3) p(3) by (simp add: ber_abs_def)
  ultimately show ?thesis using ring_pop(1) [OF ok False] rep(2) mode dp
    by (simp add: ber_step_def ber_ready_def ber_abs_def bt_do_def)
qed

text \<open>In a build for SDIO alone every packet that is fetched is copied sixteen bytes behind its buffer.\<close>

lemma fetch_overruns:
  assumes "ber_ready b" "ring_queue (ber_info b) \<noteq> []" "\<not> USE_USB_INTF (bth_build h)"
  shows "ber_receive h b = None"
proof -
  have ok: "ring_ok (ber_info b)" using assms(1) by (simp add: ber_ready_def)
  have n: "num_pkts_avail (ber_info b) \<noteq> 0" using assms(2) by (auto simp: ring_queue_def)
  obtain p where p: "ber_at (ber_info b) (pop_loc (ber_info b)) = (Some p, word_of_nat (length p))" "length p \<le> BER_LONGEST"
    using ring_pop(2) [OF ok n] by blast
  have data: "length (br_data (get_ber_pkts b)) = BER_DATA" using assms(1) by (simp add: ber_ready_def)
  obtain rep body where rep:
    "ber_report_of (num_pkt_inx b) p (word_of_nat (length p)) (num_pkts_avail (ber_info b)) (get_ber_pkts b) = Some rep"
    "unat (br_len rep + 2) = length p + 5" "mem_slice (report_bytes rep) 0 (length p + 5 + 16) = Some body"
    "\<not> 1035 < (word_of_nat (length p) :: u16) + 3"
    using report_of_packet [OF p(2) data, of "num_pkt_inx b" "num_pkts_avail (ber_info b)"] by blast
  have "length body = length p + 5 + 16" by (rule mem_slice_length [OF rep(3)])
  then show ?thesis
    unfolding ber_receive_def Let_def p(1) prod.case option.case
    using rep n assms(3) by (simp add: mem_write_def skb_tailroom_def)
qed

lemma ber_steps_refine:
  assumes "ber_ready b" "\<forall>l. bth_alloc h l \<and> bth_kmalloc h l" "USE_USB_INTF (bth_build h)" "spec_steps ops (ber_abs b) = Some t"
  shows "\<exists>b'. ber_steps h ops b = Some b' \<and> ber_ready b' \<and> ber_abs b' = t"
  using assms
proof (induction ops arbitrary: b)
  case (Cons op ops)
  obtain t1 where t1: "spec_step op (ber_abs b) = Some t1" "spec_steps ops t1 = Some t" using Cons(5) by (auto split: bind_splits)
  have "\<exists>b1. ber_step h op b = Some b1 \<and> ber_ready b1 \<and> ber_abs b1 = t1"
    using t1(1) start_refines [OF Cons(2)] arrive_refines [OF Cons(2)] fetch_refines [OF Cons(2)] Cons(3,4) by (cases op) auto
  then show ?case using Cons(1,3,4) t1(2) by auto
qed simp

definition quiet_bt :: "u8 \<Rightarrow> bt" where
  "quiet_bt mode =
     \<lparr>bt_hal = idle_adapter, bt_fsm = BT_DEVICE_READY, core_init_done = True, bt_tx_queue = [], bt_tx_dropped = 0, bt_rx_packets = 0,
      bb_rf_params = replicate 1028 0, ber_info = \<lparr>ber_slots = replicate 1033 (None, 0), push_loc = 0, pop_loc = 0, num_pkts_avail = 0\<rparr>,
      bt_pkt_drop_cnt = 0, bt_ber_pkts = 0, get_ber_pkts = \<lparr>br_len = 0, br_data = replicate BER_DATA 0, br_num = 0\<rparr>, num_pkt_inx = 0,
      read_cmd = False, wait_cmd = False, bt_mode = mode, bt_oper_mode = 0, tx_is_in_progress = 0, bt_power_mode = 0, cw_type = 0,
      cw_sub_type = 0, hdev = True, hci_running = True, hci_tx = (\<lambda>_. 0), genl_cb = True, bt_log = []\<rparr>"

definition calm_bt_host :: bt_host where
  "calm_bt_host =
     \<lparr>bth = calm_host, bth_alloc = (\<lambda>_. True), bth_kmalloc = (\<lambda>_. True), bth_garbage = (\<lambda>_ _. 0), bth_genl_send = (\<lambda>_. 0),
      bth_stack_recv = (\<lambda>_. 0), bth_hci_alloc = (\<lambda>_. True), bth_hci_register = (\<lambda>_. 0), bth_genl_init = (\<lambda>_. 0),
      bth_genl_deinit = (\<lambda>_. 0), bth_wait = Pair True, bth_others = id,
      bth_build = shipped_build\<lparr>USE_USB_INTF := True, BT_ENABLE := True\<rparr>\<rparr>"

lemma quiet_bt_ready: "ber_ready (quiet_bt RF_EVAL_MODE_ON\<lparr>bt_ber_pkts := n\<rparr>)"
proof -
  have "ring_at (ber_info (quiet_bt RF_EVAL_MODE_ON)) k = (None, 0)" if "k < 256" for k using that by (simp add: ring_at_def quiet_bt_def)
  then show ?thesis by (simp add: ber_ready_def ring_ok_def slot_holds_def quiet_bt_def)
qed

text \<open>
  C36. A bit error test is a queue. Whatever order starts, packets of the firmware and requests of the application come in, the
  ring of 256 slots with its wrapping indices refines a queue of at most 256 packets: packets are delivered in
  the order they came, complete, each once; a packet for which there is no room, or that was not
  expected, changes nothing; and no step faults. The contract (\<open>spec_step\<close>): there is memory; a test is
  started only while no packet waits, since the start does not set their number back, and for
  at most 255 packets, since its loop counts in a byte; and a packet that is kept is whole and no longer
  than 1015 bytes, since the copy to the application reads sixteen bytes more than the report of the packet. The
  driver is built with USB: only then has the buffer of the copy room for the sixteen bytes that are
  written behind its end (\<open>fetch_overruns\<close>).
\<close>

theorem ber_test_refines_queue:
  assumes "ber_ready b" "\<forall>l. bth_alloc h l \<and> bth_kmalloc h l" "USE_USB_INTF (bth_build h)" "spec_steps ops (ber_abs b) = Some t"
  shows "\<exists>b'. ber_steps h ops b = Some b' \<and> ber_ready b' \<and> ber_abs b' = t"
  using ber_steps_refine [OF assms] .

theorem ber_test_refines_queue_witness:
  "\<exists>b'. ber_steps calm_bt_host [Start 2, Arrive (replicate 16 0 @ [1, 2, 3]) 3, Fetch] (quiet_bt RF_EVAL_MODE_ON\<lparr>bt_ber_pkts := 0\<rparr>) = Some b' \<and>
        ber_abs b' = (1, [], [[1, 2, 3]])"
proof -
  let ?b = "quiet_bt RF_EVAL_MODE_ON\<lparr>bt_ber_pkts := 0\<rparr>" and ?ops = "[Start 2, Arrive (replicate 16 0 @ [1, 2, 3]) 3, Fetch]"
  have "ber_abs ?b = (0, [], [])" by (simp add: ber_abs_def ring_queue_def quiet_bt_def delivered_def List.map_filter_simps)
  then have "spec_steps ?ops (ber_abs ?b) = Some (1, [], [[1, 2, 3]])" by simp
  from ber_test_refines_queue [OF quiet_bt_ready [of 0] _ _ this, of calm_bt_host] show ?thesis by (auto simp: calm_bt_host_def)
qed

section \<open>One fate of every packet\<close>

text \<open>The packet is gone when it is freed, or when the stack has it.\<close>

fun bt_end :: "bt_event \<Rightarrow> bool" where
  "bt_end (Bt_to_stack d ty) = True"
| "bt_end (Bt_free d) = True"
| "bt_end _ = False"

definition bt_ends :: "bt \<Rightarrow> nat" where
  "bt_ends b = length (filter bt_end (bt_log b))"

definition bt_queue :: "u16 \<Rightarrow> u16" where
  "bt_queue w0 = drop_bit 12 (w0 AND 0x7000)"

lemma bt_ends_simps [simp]:
  "bt_ends (bt_do e b) = (if bt_end e then bt_ends b + 1 else bt_ends b)"
  "bt_ends (b\<lparr>bt_rx_packets := x\<rparr>) = bt_ends b" "bt_ends (b\<lparr>bt_pkt_drop_cnt := c\<rparr>) = bt_ends b"
  "bt_ends (b\<lparr>ber_info := r, bt_ber_pkts := n\<rparr>) = bt_ends b"
  by (simp_all add: bt_ends_def bt_do_def)

lemma to_stack:
  assumes "bt_mode b = BT_E2E_MODE_ON" "hdev b"
  shows "\<exists>s b'. bt_core_pkt_recv h d ty b = Some (s, b') \<and> bt_ends b' = bt_ends b + 1"
  using assms by (simp add: bt_core_pkt_recv_def send_pkt_to_bluez_def)

text \<open>Whether the bit error test keeps the next packet.\<close>

definition ber_kept :: "bt \<Rightarrow> bool" where
  "ber_kept b \<longleftrightarrow> bt_ber_pkts b \<noteq> 0 \<and> fst (ber_at (ber_info b) (push_loc (ber_info b))) = None"

lemma data_fate:
  assumes "bt_mode b = BT_E2E_MODE_ON" "hdev b" "16 \<le> length d" "len \<noteq> 0 \<longrightarrow> is_debug_message d \<noteq> None"
  shows "\<exists>s b'. bt_data_pkt h d len b = Some (s, b') \<and>
           bt_ends b' = (if len \<noteq> 0 \<and> is_debug_message d = Some True then bt_ends b else bt_ends b + 1)"
proof (cases "len = 0")
  case True
  then show ?thesis by (simp add: bt_data_pkt_def)
next
  case False
  let ?b = "b\<lparr>bt_rx_packets := bt_rx_packets b + 1\<rparr>"
  obtain x where x: "is_debug_message d = Some x" using False assms(4) by blast
  obtain s b1 where "bt_core_pkt_recv h (drop FRAME_DESC_SZ d) (d ! 14) ?b = Some (s, b1)" "bt_ends b1 = bt_ends b + 1"
    using to_stack [of ?b h "drop FRAME_DESC_SZ d" "d ! 14"] assms by auto
  then show ?thesis using x assms by (auto simp: bt_data_pkt_def netbuf_adj_def)
qed

lemma ber_fate:
  assumes "\<forall>l. bth_kmalloc h l" "16 + unat len \<le> length msg" "ber_kept b \<longrightarrow> unat len \<le> BER_BUFFER"
  shows "\<exists>still b'. on_ber h msg len b = Some (still, b') \<and> bt_ends b' = (if still then bt_ends b else bt_ends b + 1)"
  using assms by (auto simp: on_ber_def mem_slice_def ber_kept_def)

lemma mgmt_fate:
  assumes mode: "bt_mode b = BT_E2E_MODE_ON" "hdev b" "\<not> read_cmd b"
    and "\<forall>l. bth_kmalloc h l" "rd16 msg 0 = Some w0" "16 + unat (w0 AND 0xFFF) \<le> length msg"
    and fits: "msg ! 14 = BT_BER \<and> ber_kept b \<longrightarrow> unat (w0 AND 0xFFF) \<le> BER_BUFFER"
  shows "\<exists>s b'. onebox_bt_mgmt_pkt_recv h msg bty b = Some (s, b') \<and> bt_ends b' = bt_ends b + 1"
proof -
  let ?len = "w0 AND 0xFFF"
  have ber: "\<exists>still b1. on_ber h msg ?len b = Some (still, b1) \<and> bt_ends b1 = (if still then bt_ends b else bt_ends b + 1)"
    if "msg ! 14 = BT_BER" using ber_fate [OF assms(4,6)] fits that by simp
  obtain s b2 where core: "bt_core_pkt_recv h (drop FRAME_DESC_SZ msg) bty b = Some (s, b2)" "bt_ends b2 = bt_ends b + 1"
    using to_stack [OF mode(1,2), of h "drop FRAME_DESC_SZ msg" bty] by blast
  have "\<exists>s b'. bt_mgmt_pkt_to_core h msg bty ?len b = Some (s, b') \<and> bt_ends b' = bt_ends b + 1"
    using core mode assms(6) by (simp add: bt_mgmt_pkt_to_core_def netbuf_adj_def)
  then show ?thesis using ber mode assms(5,6) by (auto simp: onebox_bt_mgmt_pkt_recv_def Let_def)
qed

text \<open>
  What the code reads and copies without a check of its own: the fields of a debug message or of a command
  status that are printed lie inside the packet, and a packet that the test keeps fits its buffer of 1035 bytes.
\<close>

definition bt_packet_sound :: "bt \<Rightarrow> bytes \<Rightarrow> u16 \<Rightarrow> bool" where
  "bt_packet_sound b d w0 =
     (let len = w0 AND 0xFFF in
      16 + unat len \<le> length d \<and>
      (bt_queue w0 = BT_DATA_Q \<and> len \<noteq> 0 \<longrightarrow> is_debug_message d \<noteq> None) \<and>
      (bt_queue w0 \<noteq> BT_DATA_Q \<and> d ! 14 = BT_BER \<and> ber_kept b \<longrightarrow> unat len \<le> BER_BUFFER))"

text \<open>
  C37. In end-to-end mode every packet of the firmware that is as long as its descriptor says is handed to the stack or
  freed, once, whatever queue it is from and in whatever state the module is; only a debug message of the firmware
  in the data queue is kept by nobody: it is printed and never freed. This supposes what the code does not
  check (\<open>bt_packet_sound\<close>): the fields that are printed of a debug message or of a command status lie in
  the packet, and a packet of the bit error test that is kept has at most 1035 bytes, the size of its buffer.
  Nothing is being read for the test application, a device of the stack is registered, and there is memory.
\<close>

theorem bt_packet_has_one_fate:
  assumes "bt_mode b = BT_E2E_MODE_ON" "hdev b" "\<not> read_cmd b" "\<forall>l. bth_kmalloc h l"
    and "rd16 d 0 = Some w0" "bt_packet_sound b d w0"
  shows "\<exists>s b'. bt_read_pkt h d bty b = Some (s, b') \<and>
           bt_ends b' = (if bt_queue w0 = BT_DATA_Q \<and> w0 AND 0xFFF \<noteq> 0 \<and> is_debug_message d = Some True then bt_ends b else bt_ends b + 1)"
proof (cases "bt_queue w0 = BT_DATA_Q")
  case True
  then have "16 \<le> length d" "w0 AND 0xFFF \<noteq> 0 \<longrightarrow> is_debug_message d \<noteq> None" using assms(6) by (auto simp: bt_packet_sound_def Let_def)
  then obtain s b1 where "bt_data_pkt h d (w0 AND 0xFFF) b = Some (s, b1)"
    "bt_ends b1 = (if w0 AND 0xFFF \<noteq> 0 \<and> is_debug_message d = Some True then bt_ends b else bt_ends b + 1)"
    using data_fate [OF assms(1,2)] by blast
  then show ?thesis using True assms(5) \<open>16 \<le> length d\<close> by (auto simp: bt_read_pkt_def bt_queue_def Let_def)
next
  case False
  then have fit: "16 + unat (w0 AND 0xFFF) \<le> length d" "d ! 14 = BT_BER \<and> ber_kept b \<longrightarrow> unat (w0 AND 0xFFF) \<le> BER_BUFFER"
    using assms(6) by (auto simp: bt_packet_sound_def Let_def)
  then obtain s b1 where "onebox_bt_mgmt_pkt_recv h d bty b = Some (s, b1)" "bt_ends b1 = bt_ends b + 1"
    using mgmt_fate [OF assms(1-5)] by blast
  then show ?thesis using False assms(5) fit(1) by (auto simp: bt_read_pkt_def bt_queue_def Let_def)
qed

theorem bt_packet_has_one_fate_witness:
  "\<exists>s b'. bt_read_pkt calm_bt_host ([0x06, 0x70] @ replicate 12 0 @ [4, 0, 0x0F, 4, 0, 1, 1, 0x10]) 0 (quiet_bt BT_E2E_MODE_ON) = Some (s, b') \<and>
          bt_ends b' = 1"
proof -
  let ?d = "[0x06, 0x70] @ replicate 12 0 @ [4, 0, 0x0F, 4, 0, 1, 1, 0x10] :: bytes"
  have d: "rd16 ?d 0 = Some 0x7006" "is_debug_message ?d = Some False" by code_simp+
  have "bt_packet_sound (quiet_bt BT_E2E_MODE_ON) ?d 0x7006" using d(2) by code_simp
  then show ?thesis
    using bt_packet_has_one_fate [of "quiet_bt BT_E2E_MODE_ON" calm_bt_host ?d "0x7006" 0] d by (simp add: quiet_bt_def calm_bt_host_def bt_ends_def)
qed

section \<open>The descriptor and the waves\<close>

text \<open>The firmware reads the length, the queue and the type from the descriptor, and the packet behind it.\<close>

lemma bt_frame_roundtrip:
  assumes "length d < 4096"
  shows "rd16 (bt_frame g d ty) 0 = Some (word_of_nat (length d) OR 0x7000)" "rd16 (bt_frame g d ty) 14 = Some (ucast ty)"
    "drop FRAME_DESC_SZ (bt_frame g d ty) = d"
proof -
  let ?d = "map g [0..<FRAME_DESC_SZ] @ d"
  have "(word_of_nat (length d) :: u16) AND 0xFFF = word_of_nat (length d)"
  proof -
    have "unat (word_of_nat (length d) :: u16) = length d" using assms take_bit_nat_eq_self [of "length d" 16] by (simp only: unsigned_of_nat) simp
    then have "unat (take_bit 12 (word_of_nat (length d) :: u16)) = unat (word_of_nat (length d) :: u16)"
      using assms take_bit_nat_eq_self [of "length d" 12] by (simp only: unsigned_take_bit_eq) simp
    then have "take_bit 12 (word_of_nat (length d) :: u16) = word_of_nat (length d)" by (simp only: word_unat_eq_iff)
    then show ?thesis by (simp add: take_bit_eq_mask mask_eq_exp_minus_1)
  qed
  then show "rd16 (bt_frame g d ty) 0 = Some (word_of_nat (length d) OR 0x7000)"
    using rd16_set_word [of 0 ?d] by (simp add: bt_frame_def Let_def rd16_set_word_below)
  show "rd16 (bt_frame g d ty) 14 = Some (ucast ty)" using rd16_set_word [of 7] by (simp add: bt_frame_def Let_def length_set_word)
  show "drop FRAME_DESC_SZ (bt_frame g d ty) = d" by (simp add: bt_frame_def Let_def set_word_def)
qed

text \<open>The copy of a wave stays inside its table; the table of the sixth kind has a header only and is read behind its end.\<close>

lemma waves_in_table:
  "length t = 774 \<Longrightarrow> even i \<Longrightarrow> \<exists>i' rf'. cw_copy t j i rf = Some (i', rf') \<and> even i'"
proof (induction t j i rf rule: cw_copy.induct)
  case (1 t j i rf)
  have "i + 1 < 774" if "i < 774" using that \<open>even i\<close> by presburger
  then show ?case using 1 by (auto simp: cw_copy.simps [of t j i])
qed

lemma sixth_wave_reads_on: "cw_rounds h (cw_table 6) len 6 data b = None"
  by (simp add: cw_rounds.simps [of h] cw_copy.simps [of _ 3] cw_table_def cw_table_lengths)

section \<open>A start that fails\<close>

text \<open>
  When only the registration with netlink fails, the start of the core fails with the device of the stack registered,
  whose driver data is the adapter that \<open>bt_insert\<close> then frees.
\<close>

lemma failed_start_leaves_device:
  assumes "bt_mode b = BT_E2E_MODE_ON" "bth_hci_alloc h (bt_log b)" "bth_hci_register h (bt_log b) = 0"
    and "\<not> bth_kmalloc h (Bt_stack_init # bt_log b)"
  shows "fst (core_bt_init h b) = ONEBOX_STATUS_FAILURE \<and> hdev (snd (core_bt_init h b)) \<and>
         Bt_hci_free \<notin> set (take (length (bt_log (snd (core_bt_init h b))) - length (bt_log b)) (bt_log (snd (core_bt_init h b))))"
proof -
  have "byte_status (- 12) = - 12" "byte_status 0 = 0" by code_simp+
  then show ?thesis using assms by (simp add: core_bt_init_def bluez_init_def btgenl_init_def bt_do_def)
qed

text \<open>A packet of the firmware that comes before the stack has a device faults in end-to-end mode.\<close>

lemma early_packet_faults:
  assumes "bt_mode b = BT_E2E_MODE_ON" "\<not> hdev b" "len \<noteq> 0" "is_debug_message d = Some False"
  shows "bt_data_pkt h d len b = None"
  using assms by (simp add: bt_data_pkt_def bt_core_pkt_recv_def send_pkt_to_bluez_def netbuf_adj_def)

text \<open>A new test does not set the number of waiting packets back: its first requests find a slot without a packet.\<close>

lemma reset_keeps_count:
  assumes "ber_reset n r = Some r'" "0 < n" "ber_slots r \<noteq> []"
  shows "num_pkts_avail r' = num_pkts_avail r \<and> fst (ber_at r' (pop_loc r')) = None"
  using assms by (cases "ber_slots r"; cases "unat n") (auto simp: ber_reset_def ber_at_def unat_eq_0 split: if_split_asm)

text \<open>A module that is not active is not removed, and its lock stays taken.\<close>

lemma idle_removal_keeps_lock:
  "drv_state (tech (bt_hal b) BT_ID) \<noteq> MODULE_ACTIVE \<Longrightarrow> bt_remove h b = Some (ONEBOX_STATUS_SUCCESS, bt_do Bt_acquire b)"
  by (simp add: bt_remove_def bt_do_def)

end
