(* ===== verification/Spec2Isabelle.thy ===== *)
theory Spec2Isabelle
  imports Rx_Delivery Sdio_Interrupt Firmware_Load Core_Sleep Xmit_Frame Wlan_Init Checksum Sta_Table Boot_Upgrade Driver_Config Flash_Burn Qspi_Bootup Radar_Burst Bt_Ring
begin

text \<open>
  The host driver of the RS9113 combo module.

  The RS9113 is a radio module for WLAN, Bluetooth and ZigBee behind one SDIO or USB interface.
  The host driver has a common HAL (\<^verbatim>\<open>src/source/host/common_hal\<close>), which owns the bus, and
  one module per protocol above it; the WLAN module is \<^verbatim>\<open>src/source/host/wlan/wlan_hal\<close>, between
  the common HAL and the vendored net80211 stack. This development models the driver's own
  logic in the common HAL, the WLAN module, and the Bluetooth and ZigBee modules. Paths below are relative
  to the first two directories where nothing else is said.

  \<^bold>\<open>How it is modelled.\<close> The state of the common HAL is the record \<open>adapter\<close>
  (\<open>Coex_State\<close>: \<^verbatim>\<open>struct onebox_priv\<close> with the shared \<^verbatim>\<open>driver_assets\<close>). The
  state of the WLAN transmit side (\<open>wlan_adapter\<close>, \<open>Wmm_Scheduler\<close>) contains an adapter, that of the WLAN
  configuration side (\<open>wlan_mgmt\<close>, \<open>Mgmt_Frames\<close>) contains the former, and the loaders
  (\<open>boot_loader\<close>, \<open>flasher\<close>) contain an adapter. Functions take the state and return it updated.
  What the driver does to the kernel, the bus and the device is appended to the field
  \<open>trace\<close>, newest first; what they answer is a record of functions of that history (\<open>host\<close> and
  the records extending it), so any behaviour of them that depends on the past can be
  expressed. \<open>None\<close> is a fault: an access outside a buffer or an array, a NULL pointer
  used, a loop that never ends, or fuel that ran out. Machine integers are words of their width.
  What other threads do while one of them waits is a parameter of the model, as is code that
  is called through the interfaces of other modules. Debug output is left out. The build
  modelled has both interfaces, chosen by \<open>host_intf_type\<close>, and \<^verbatim>\<open>SECTOR_MODE\<close>,
  \<^verbatim>\<open>BYPASS_TX_DATA_PATH\<close> and \<^verbatim>\<open>BYPASS_RX_DATA_PATH\<close>; where a function differs between
  builds, the record \<open>build\<close> says which flags are set, and the GPIO handshake is a variant of its own.

  \<^bold>\<open>The common HAL.\<close>
  \<^item> \<open>Onebox_Prelude\<close>: words, statuses, byte buffers with failing reads, the collections
    \<open>trace_simps\<close> and \<open>handler_defs\<close>. \<open>Coex_State\<close>: the state, the trace, the host.
    \<open>Netbuf_Queue\<close>: the packet queues of \<^verbatim>\<open>osd/linux/onebox_osd_ops.c\<close>; the locale
    \<open>netbuf_queue\<close> states what the senders rely on and is interpreted on them (\<open>skb\<close>).
  \<^item> \<open>Sdio_Bus\<close>, \<open>Firmware_Load\<close>: packet writes, register sequences and firmware
    downloads over SDIO and USB (\<^verbatim>\<open>osi/onebox_sdio_devops.c\<close>, \<^verbatim>\<open>onebox_usb_devops.c\<close>,
    \<^verbatim>\<open>intfdep/sdio\<close>). A device that replays the trace ends with the image in its memory, and a download reads its size from the image
    and no more.
  \<^item> \<open>Coex_Queues\<close>, \<open>Coex_Tx\<close>, \<open>Tx_Scheduling\<close>
    (\<^verbatim>\<open>osi/onebox_common_tx.c\<close>): the entry \<^verbatim>\<open>send_pkt_to_coex\<close>, the five soft
    queues and the transmit thread. A direct write needs access, a round takes the oldest packet of
    the best queue, the thread ends, and the sleep acknowledgement gives up the bus.
  \<^item> \<open>Power_Manager\<close>, \<open>Bus_Arbiter\<close> (\<^verbatim>\<open>osi/onebox_common_pwr_mngr.c\<close>): who may
    use the bus and when the device may sleep. Handlers balance the semaphores, and while a protocol
    holds the bus no sleep is acknowledged: an invariant of the step relation of protocols, firmware
    and transmit thread. The contract the senders use is the locale \<open>tx_arbiter\<close>, interpreted on
    \<^verbatim>\<open>update_tx_status\<close> (\<open>arbiter\<close>); the transmit threads of both modules rest on it.
  \<^item> \<open>Dev_Config\<close> (\<^verbatim>\<open>osi/onebox_common_dev_config_params.c\<close>): the configuration frame
    and what the device reads from it.
  \<^item> \<open>Coex_Rx\<close>, \<open>Rx_Delivery\<close> (\<^verbatim>\<open>osi/onebox_common_rx.c\<close>): header checks, splitting
    of aggregates, the COEX state machine, delivery to the protocols. Accepted packets lie inside
    the transfer, an aggregate is split into what was packed, each packet is consumed once, and a
    corrupted transfer detaches the card.
  \<^item> \<open>Sdio_Interrupt\<close> (\<^verbatim>\<open>osi/onebox_sdio_devops.c\<close>): the interrupt handler serves
    what is pending, by priority, and drains the register.
  \<^item> \<open>Boot_Loader\<close>, \<open>Boot_Steps\<close>, \<open>Boot_Run\<close>, \<open>Boot_Upgrade\<close>
    (\<^verbatim>\<open>osi/onebox_common_devops.c\<close>, \<open>device_init\<close> of \<^verbatim>\<open>onebox_common_init.c\<close>): the
    protocol of the boot loader and the sequence of \<^verbatim>\<open>load_fw_thru_sbl\<close> with its labels. It
    returns once the command timer fires, frees the image on every path and stops the timer, and an upgrade hands
    the device exactly the image. Images that are loaded into memory are supposed a multiple of four bytes long.
  \<^item> \<open>Flash_Eeprom\<close>, \<open>Flash_Burn\<close>, \<open>Qspi_Bootup\<close> (\<^verbatim>\<open>osi/onebox_flashing.c\<close>):
    burning the flash through the firmware, its confirmations, reading back, calibration data. An
    automatic burn that succeeds has written the image, and the transmit thread leaves the flashing state in
    order: success means that the image was handed over and read back.
  \<^item> \<open>Checksum\<close> (\<^verbatim>\<open>osi/checksum_onescompliment.c\<close>): the routine is the ones'
    complement sum, and notices every changed byte.
  \<^item> \<open>Driver_Config\<close> (\<^verbatim>\<open>osi/onebox_common_init.c\<close>): the module parameters, the
    configuration they give, and the start of the device with it.

  \<^bold>\<open>The WLAN module.\<close>
  \<^item> \<open>Power_Save\<close> (\<^verbatim>\<open>osi_wlan/devdep/rsi_9113/onebox_ps.c\<close>): the requests for power
    save. The handler returns and refines the protocol \<open>ps_protocol\<close> of requests and confirmations.
  \<^item> \<open>Wmm_Scheduler\<close> (\<^verbatim>\<open>core/onebox_core_wmm.c\<close>): which of the eight queues
    sends; the least back-off wins, and a waiting queue wins after boundedly many contests.
  \<^item> \<open>Core_Queues\<close>, \<open>Core_Wlan\<close>, \<open>Core_Run\<close>, \<open>Core_Sleep\<close>
    (\<^verbatim>\<open>core/onebox_core_wlan.c\<close>, \<^verbatim>\<open>core/onebox_core_os_intf.c\<close>): the transmit loop of the WLAN core. It
    returns, frees what it takes once, and carries the sleep request from the power save module
    through the queue to the device, composing power save, core and power manager.
  \<^item> \<open>Tx_Descriptor\<close>, \<open>Core_Xmit\<close>, \<open>Xmit_Run\<close>, \<open>Xmit_Fate\<close>, \<open>Xmit_Safe\<close>, \<open>Xmit_Frame\<close>
    (\<^verbatim>\<open>core/onebox_core_os_intf.c\<close>): the packets of the network stack get their descriptors
    and a queue, or are dropped; the device recovers the fields, and what is queued is what
    the core can serve.
  \<^item> \<open>Mgmt_Frames\<close>, \<open>Mgmt_Command\<close>, \<open>Sta_Frames\<close>
    (\<^verbatim>\<open>devdep/rsi_9113/onebox_devdep_mgmt.c\<close>, \<^verbatim>\<open>core/onebox_core_vap.c\<close>): the commands to the
    firmware. Their contract, one frame that reads back as it was built or nothing, is the locale
    \<open>command\<close>, interpreted on seven senders.
  \<^item> \<open>Mgmt_Recv\<close>, \<open>Mgmt_Fate\<close>, \<open>Wlan_Init\<close> (the same file, \<^verbatim>\<open>onebox_dev_ops.c\<close>,
    \<^verbatim>\<open>onebox_reorder.c\<close>): the packets of the firmware and the state machine of the initialisation.
    Each packet has one fate, the receive path refines the protocol \<open>init_step\<close>, ready means
    confirmed since the last start in the modes of a network, and the confirmations suffice.
  \<^item> \<open>Sta_Table\<close>: the table of the stations implements a finite map from addresses to nodes.
  \<^item> \<open>Radar\<close>, \<open>Radar_Detect\<close>, \<open>Radar_Burst\<close> (\<^verbatim>\<open>devdep/rsi_9113/onebox_radar.c\<close>): the search
    for radar patterns in the pulses the firmware reports. It returns inside the buffer for messages of a fitting length,
    an alarm rests on four pulses or on a full count of long ones, and a clean burst is found.

  \<^bold>\<open>The Bluetooth and ZigBee modules.\<close>
  \<^item> \<open>Bt_Driver\<close>, \<open>Bt_Tables\<close>, \<open>Bt_Ring\<close> (\<^verbatim>\<open>src/source/host/bt\<close>, \<^verbatim>\<open>src/source/host/zigbee\<close>): the
    interfaces to the stack and to the test application, start and end. The ring of the bit error test is a
    queue under the contract \<open>spec_step\<close>, and each packet of the firmware has one fate.

  \<^bold>\<open>Bounds and fuel.\<close> The bottom half of the receive path, the transmit threads, and the interrupt
  handler run under fuel. Their termination theorems give a number that suffices: more than the
  packets that are pending or that the other threads may add. The GPIO handshake, the polls of the
  boot loader and the wait for the flash confirmations are \<open>partial_function\<close>s without fuel: that they
  return is proved from what the line, the timer and the waits do, and
  \<open>Power_Manager.gpio_handshake_may_not_return\<close> shows that the first need not.

  \<^bold>\<open>What does not hold.\<close> Where the code does not keep what it seems to promise, the theorem states the
  case that holds, and a lemma at the end of the theory exhibits the other
  (\<open>Power_Manager.stale_wait_flag_breaks_handshake\<close>,
  \<open>Tx_Scheduling.stale_ack_flag_revokes_access\<close>, \<open>Boot_Run.loaded_image_is_whole_words\<close>, \<open>Bt_Ring.fetch_overruns\<close>, \<open>Xmit_Safe.long_eapol_freed_twice\<close>,
  \<open>Wlan_Init.radio_caps_result_inverted\<close>, \<open>Flash_Burn.second_upgrade_unconfirmed\<close> and others).

  \<^bold>\<open>Not modelled.\<close>
  \<^item> The vendored programs and stacks: net80211, hostapd, wpa\_supplicant, the applications under
    \<^verbatim>\<open>APPS\<close>. Of net80211 only the structures and states shared with the driver appear, and
    its functions are parameters.
  \<^item> Of the Bluetooth and ZigBee modules the proc and ioctl files, the Android variants, and the
    ZigBee stack that runs in user space.
  \<^item> The layers that only wrap services of the kernel (\<^verbatim>\<open>osd\<close> directories, timers, locks, netlink, proc
    files), \<^verbatim>\<open>common_hal_init\<close> and \<^verbatim>\<open>common_hal_deinit\<close>, which create and delete kernel
    objects, the event loop around the transmit thread, and the URB layer of USB.
  \<^item> Minstrel rate control: the call that attaches it is commented out in
    \<^verbatim>\<open>onebox_core_hal_intf.c\<close>, so none of it runs.
  \<^item> In the WLAN module the beacon path, the calibration and packet error rate utilities behind
    ioctls, and the creation and deletion of interfaces, which is mostly calls into
    net80211.
\<close>

end
